(* ===== verification/Prelude.thy ===== *)
theory Prelude
  imports Main "HOL-Library.Word" "HOL-Library.List_Lexorder" "HOL-Library.Char_ord"
begin

unbundle bit_operations_syntax

text \<open>
  Vocabulary shared by every component: machine integers and their bytes, the sum type that
  carries a C++ exception, state passing with exceptions, loops that stop at the first exception,
  decimal and hexadecimal printing, and SQL tables kept as row lists in rowid order.
\<close>

section \<open>Collections of rewrite rules\<close>

text \<open>
  \<open>sx_simps\<close> unfolds the sequencing combinators, \<open>tbl_simps\<close> the table operations;
  the components add their own accessor lemmas.
\<close>

named_theorems sx_simps
named_theorems tbl_simps

section \<open>Machine integers and bytes\<close>

type_synonym byte = "8 word"
type_synonym u16 = "16 word"
type_synonym u32 = "32 word"
type_synonym u64 = "64 word"

text \<open>The bytes of a \<open>std::string\<close>, as a \<open>reinterpret_cast\<close> reads them.\<close>

definition bytes_of :: "string \<Rightarrow> byte list" where
  "bytes_of s = map of_char s"

definition string_of :: "byte list \<Rightarrow> string" where
  "string_of bs = map (\<lambda>b. char_of (unat b)) bs"

lemma unat_of_char: "unat (of_char c :: byte) = of_char c"
proof -
  have "(of_char c :: byte) = of_nat (of_char c)" by (simp only: of_nat_of_char)
  moreover have "(of_char c :: nat) < 2 ^ LENGTH(8)" by simp
  ultimately show ?thesis by (simp add: unat_of_nat)
qed

lemma string_of_bytes_of [simp]: "string_of (bytes_of s) = s"
  by (simp add: string_of_def bytes_of_def comp_def unat_of_char)

lemma of_char_byte_inj: "(of_char c :: byte) = of_char d \<Longrightarrow> c = d"
  by (metis of_char_eq_iff unat_of_char)

lemma bytes_of_inj [simp]: "bytes_of s = bytes_of t \<longleftrightarrow> s = t"
  by (metis string_of_bytes_of)

lemma bytes_of_append [simp]: "bytes_of (s @ t) = bytes_of s @ bytes_of t"
  by (simp add: bytes_of_def)

section \<open>Printing\<close>

text \<open>\<open>kHex[b >> 4]\<close> and \<open>kHex[b & 0x0f]\<close>.\<close>

definition kHex :: string where
  "kHex = ''0123456789abcdef''"

definition hex_byte :: "byte \<Rightarrow> string" where
  "hex_byte b = [kHex ! unat (drop_bit 4 b), kHex ! unat (b AND 15)]"

lemma length_hex_byte [simp]: "length (hex_byte b) = 2"
  by (simp add: hex_byte_def)

text \<open>\<open>std::to_string\<close> of a non-negative and of a signed integer.\<close>

fun nat_to_string :: "nat \<Rightarrow> string" where
  "nat_to_string n =
     (if n < 10 then [char_of (48 + n)]
      else nat_to_string (n div 10) @ [char_of (48 + n mod 10)])"

declare nat_to_string.simps [simp del]

definition int_to_string :: "int \<Rightarrow> string" where
  "int_to_string i = (if i < 0 then CHR ''-'' # nat_to_string (nat (- i)) else nat_to_string (nat i))"

lemma nat_to_string_ne: "nat_to_string n \<noteq> []"
  by (subst nat_to_string.simps) simp

text \<open>A printed number can be read back, so that distinct numbers have distinct texts.\<close>

definition digits_value :: "string \<Rightarrow> nat" where
  "digits_value = foldl (\<lambda>a c. a * 10 + (of_char c - 48)) 0"

lemma digits_value_print: "digits_value (nat_to_string n) = n"
proof (induction n rule: nat_to_string.induct)
  case (1 n)
  have digit: "of_char (char_of (48 + k) :: char) = (48 + k :: nat)" if "k < 10" for k
    using that by simp
  show ?case
  proof (cases "n < 10")
    case True
    then show ?thesis by (subst nat_to_string.simps) (simp add: digits_value_def digit)
  next
    case False
    with 1 have "digits_value (nat_to_string (n div 10)) = n div 10" by simp
    with False show ?thesis by (subst nat_to_string.simps) (simp add: digits_value_def digit)
  qed
qed

lemma nat_to_string_digits: "c \<in> set (nat_to_string n) \<Longrightarrow> 48 \<le> (of_char c :: nat)"
proof (induction n rule: nat_to_string.induct)
  case (1 n)
  then show ?case by (subst (asm) (2) nat_to_string.simps) (auto split: if_splits)
qed

lemma nat_to_string_minus: "nat_to_string n \<noteq> CHR ''-'' # s"
proof
  assume "nat_to_string n = CHR ''-'' # s"
  with nat_to_string_digits [of "CHR ''-''" n] show False by simp
qed

lemma int_to_string_inj [simp]: "int_to_string i = int_to_string j \<longleftrightarrow> i = j"
proof
  assume eq: "int_to_string i = int_to_string j"
  consider "i < 0 \<and> j < 0" | "0 \<le> i \<and> 0 \<le> j" | "i < 0 \<and> 0 \<le> j" | "0 \<le> i \<and> j < 0" by linarith
  then show "i = j"
  proof cases
    case 1
    with eq have "nat_to_string (nat (- i)) = nat_to_string (nat (- j))" by (simp add: int_to_string_def)
    then have "nat (- i) = nat (- j)" by (metis digits_value_print)
    with 1 show ?thesis by linarith
  next
    case 2
    with eq have "nat_to_string (nat i) = nat_to_string (nat j)" by (simp add: int_to_string_def)
    then have "nat i = nat j" by (metis digits_value_print)
    with 2 show ?thesis by linarith
  qed (use eq in \<open>auto simp: int_to_string_def nat_to_string_minus dest: sym\<close>)
qed simp

section \<open>Fields\<close>

text \<open>The fields of a text that ends each of them, but the last, with a separator.\<close>

fun fields_of :: "'a \<Rightarrow> 'a list \<Rightarrow> 'a list list" where
  "fields_of sep [] = [[]]"
| "fields_of sep (x # xs) =
     (if x = sep then [] # fields_of sep xs
      else case fields_of sep xs of [] \<Rightarrow> [[x]] | f # fs \<Rightarrow> (x # f) # fs)"

lemma fields_of_field: "sep \<notin> set s \<Longrightarrow> fields_of sep (s @ sep # t) = s # fields_of sep t"
  by (induction s) auto

lemma fields_of_last: "sep \<notin> set s \<Longrightarrow> fields_of sep s = [s]"
  by (induction s) auto

lemma fields_of_fields:
  "(\<forall>s\<in>set ss. sep \<notin> set s) \<Longrightarrow> fields_of sep (concat (map (\<lambda>s. s @ [sep]) ss) @ t) = ss @ fields_of sep t"
  by (induction ss) (auto simp: fields_of_field)

section \<open>Results and exceptions\<close>

text \<open>
  \<open>'e + 'a\<close>: \<open>Inl\<close> is a thrown exception, \<open>Inr\<close> a returned value. \<open>rbind\<close> is
  sequencing, \<open>traverse_res\<close> a loop that pushes one result per element.
\<close>

fun rbind :: "'e + 'a \<Rightarrow> ('a \<Rightarrow> 'e + 'b) \<Rightarrow> 'e + 'b" where
  "rbind (Inl e) f = Inl e"
| "rbind (Inr x) f = f x"

lemma rbind_Inr: "rbind m f = Inr y \<longleftrightarrow> (\<exists>x. m = Inr x \<and> f x = Inr y)"
  by (cases m) auto

lemma rbind_cong [fundef_cong]:
  "m = m' \<Longrightarrow> (\<And>x. m' = Inr x \<Longrightarrow> f x = f' x) \<Longrightarrow> rbind m f = rbind m' f'"
  by (cases m') auto

fun traverse_res :: "('a \<Rightarrow> 'e + 'b) \<Rightarrow> 'a list \<Rightarrow> 'e + 'b list" where
  "traverse_res f [] = Inr []"
| "traverse_res f (x # xs) = rbind (f x) (\<lambda>y. rbind (traverse_res f xs) (\<lambda>ys. Inr (y # ys)))"

lemma traverse_res_map:
  "(\<And>x. x \<in> set xs \<Longrightarrow> f (g x) = Inr (h x)) \<Longrightarrow> traverse_res f (map g xs) = Inr (map h xs)"
  by (induction xs) auto

text \<open>A loop whose body only checks and throws.\<close>

fun check_all :: "('a \<Rightarrow> 'e + unit) \<Rightarrow> 'a list \<Rightarrow> 'e + unit" where
  "check_all f [] = Inr ()"
| "check_all f (x # xs) = rbind (f x) (\<lambda>_. check_all f xs)"

lemma check_all_Inr: "check_all f xs = Inr u \<longleftrightarrow> (\<forall>x\<in>set xs. f x = Inr ())"
  by (induction xs) (auto simp: rbind_Inr)

lemma check_all_Inl: "check_all f xs = Inl e \<Longrightarrow> \<exists>x\<in>set xs. f x = Inl e"
proof (induction xs)
  case (Cons x xs)
  then show ?case by (cases "f x") auto
qed simp

lemma rbind_Inl: "rbind m f = Inl e \<longleftrightarrow> m = Inl e \<or> (\<exists>x. m = Inr x \<and> f x = Inl e)"
  by (cases m) auto

text \<open>
  A C++ method that may throw: the state it leaves behind is there in both cases, since an
  exception does not undo what was done before it.
\<close>

definition sret :: "'a \<Rightarrow> 's \<Rightarrow> ('e + 'a) \<times> 's" where
  "sret x s = (Inr x, s)"

definition sthrow :: "'e \<Rightarrow> 's \<Rightarrow> ('e + 'a) \<times> 's" where
  "sthrow e s = (Inl e, s)"

definition sbind ::
  "('s \<Rightarrow> ('e + 'a) \<times> 's) \<Rightarrow> ('a \<Rightarrow> 's \<Rightarrow> ('e + 'b) \<times> 's) \<Rightarrow> 's \<Rightarrow> ('e + 'b) \<times> 's" where
  "sbind m f s = (case m s of (Inl e, t) \<Rightarrow> (Inl e, t) | (Inr x, t) \<Rightarrow> f x t)"

fun for_each :: "('a \<Rightarrow> 's \<Rightarrow> ('e + unit) \<times> 's) \<Rightarrow> 'a list \<Rightarrow> 's \<Rightarrow> ('e + unit) \<times> 's" where
  "for_each f [] s = (Inr (), s)"
| "for_each f (x # xs) s = (case f x s of (Inl e, t) \<Rightarrow> (Inl e, t) | (Inr _, t) \<Rightarrow> for_each f xs t)"

lemma sbind_Inl [sx_simps]: "m s = (Inl e, t) \<Longrightarrow> sbind m f s = (Inl e, t)"
  by (simp add: sbind_def)

lemma sbind_Inr [sx_simps]: "m s = (Inr x, t) \<Longrightarrow> sbind m f s = f x t"
  by (simp add: sbind_def)

lemma sret_app [sx_simps]: "sret x s = (Inr x, s)"
  by (simp add: sret_def)

lemma sthrow_app [sx_simps]: "sthrow e s = (Inl e, s)"
  by (simp add: sthrow_def)

lemma for_each_inv:
  assumes "\<And>x s. x \<in> set xs \<Longrightarrow> P s \<Longrightarrow> P (snd (f x s))" and "P s"
  shows "P (snd (for_each f xs s))"
  using assms
proof (induction xs arbitrary: s)
  case Nil
  then show ?case by simp
next
  case (Cons x xs)
  obtain r t where fx: "f x s = (r, t)" by fastforce
  moreover from this Cons.prems have "P t" by (metis list.set_intros(1) snd_conv)
  ultimately show ?case using Cons by (cases r) auto
qed

lemma sbind_InrD: "sbind m f s = (Inr y, t) \<Longrightarrow> \<exists>x u. m s = (Inr x, u) \<and> f x u = (Inr y, t)"
  by (auto simp: sbind_def split: prod.splits sum.splits)

lemma snd_sbind: "snd (sbind m f s) = (case m s of (Inl e, t) \<Rightarrow> t | (Inr x, t) \<Rightarrow> snd (f x t))"
  by (auto simp: sbind_def split: prod.split sum.split)

text \<open>A state predicate that an operation keeps, whether it returns or throws.\<close>

named_theorems keeps_intros

definition keeps :: "('s \<Rightarrow> bool) \<Rightarrow> ('s \<Rightarrow> ('e + 'a) \<times> 's) \<Rightarrow> bool" where
  "keeps P m \<longleftrightarrow> (\<forall>s. P s \<longrightarrow> P (snd (m s)))"

lemma keepsD: "keeps P m \<Longrightarrow> P s \<Longrightarrow> P (snd (m s))"
  by (simp add: keeps_def)

lemma keeps_sbind [keeps_intros]: "keeps P m \<Longrightarrow> (\<And>x. keeps P (f x)) \<Longrightarrow> keeps P (sbind m f)"
  by (fastforce simp: keeps_def sbind_def split: prod.split sum.split)

lemma keeps_sbind_post:
  assumes "keeps P m" "\<And>s x. fst (m s) = Inr x \<Longrightarrow> Q x" "\<And>x. Q x \<Longrightarrow> keeps P (f x)"
  shows "keeps P (sbind m f)"
  unfolding keeps_def
proof (intro allI impI)
  fix s assume P: "P s"
  obtain r t where m: "m s = (r, t)" by fastforce
  with keepsD [OF assms(1) P] have t: "P t" by simp
  show "P (snd (sbind m f s))"
  proof (cases r)
    case (Inl e)
    with m t show ?thesis by (simp add: sbind_def)
  next
    case (Inr x)
    with m assms(2) [of s x] have "Q x" by simp
    from keepsD [OF assms(3) [OF this] t] m Inr show ?thesis by (simp add: sbind_def)
  qed
qed

lemma keeps_for_each [keeps_intros]: "(\<And>x. keeps P (f x)) \<Longrightarrow> keeps P (for_each f xs)"
  using for_each_inv [of xs P f] by (auto simp: keeps_def)

text \<open>Under \<open>P\<close> an operation returns, and \<open>P\<close> holds again.\<close>

named_theorems succeeds_intros

definition succeeds :: "('s \<Rightarrow> bool) \<Rightarrow> ('s \<Rightarrow> ('e + 'a) \<times> 's) \<Rightarrow> bool" where
  "succeeds P m \<longleftrightarrow> (\<forall>s. P s \<longrightarrow> (\<exists>x t. m s = (Inr x, t) \<and> P t))"

lemma succeedsD: "succeeds P m \<Longrightarrow> P s \<Longrightarrow> \<exists>x t. m s = (Inr x, t) \<and> P t"
  by (simp add: succeeds_def)

lemma succeeds_sbind [succeeds_intros]: "succeeds P m \<Longrightarrow> (\<And>x. succeeds P (f x)) \<Longrightarrow> succeeds P (sbind m f)"
  unfolding succeeds_def sbind_def by fastforce

lemma succeeds_for_each [succeeds_intros]:
  assumes "\<And>x. succeeds P (f x)" shows "succeeds P (for_each f xs)"
proof -
  have "P s \<Longrightarrow> \<exists>t. for_each f xs s = (Inr (), t) \<and> P t" for s
  proof (induction xs arbitrary: s)
    case (Cons x xs)
    from succeedsD [OF assms Cons.prems] obtain y t where "f x s = (Inr y, t)" "P t" by blast
    with Cons.IH [of t] show ?case by simp
  qed simp
  then show ?thesis by (auto simp: succeeds_def)
qed

section \<open>Tables\<close>

text \<open>
  An SQL table is the list of its rows in rowid order; \<open>key\<close> reads a row's primary key.
  \<open>tbl_insert\<close> is INSERT (\<open>None\<close> on a key conflict), \<open>tbl_upsert\<close> INSERT .. ON
  CONFLICT DO UPDATE, \<open>tbl_replace\<close> INSERT OR REPLACE (the old row goes, the new one gets a new
  rowid), \<open>tbl_delete\<close> DELETE by key.
\<close>

definition tbl_get :: "('r \<Rightarrow> 'k) \<Rightarrow> 'k \<Rightarrow> 'r list \<Rightarrow> 'r option" where
  "tbl_get key k rows = List.find (\<lambda>r. key r = k) rows"

definition tbl_insert :: "('r \<Rightarrow> 'k) \<Rightarrow> 'r \<Rightarrow> 'r list \<Rightarrow> 'r list option" where
  "tbl_insert key r rows = (if key r \<in> key ` set rows then None else Some (rows @ [r]))"

definition tbl_upsert :: "('r \<Rightarrow> 'k) \<Rightarrow> ('r \<Rightarrow> 'r \<Rightarrow> 'r) \<Rightarrow> 'r \<Rightarrow> 'r list \<Rightarrow> 'r list" where
  "tbl_upsert key upd r rows =
     (if key r \<in> key ` set rows
      then map (\<lambda>x. if key x = key r then upd x r else x) rows
      else rows @ [r])"

definition tbl_replace :: "('r \<Rightarrow> 'k) \<Rightarrow> 'r \<Rightarrow> 'r list \<Rightarrow> 'r list" where
  "tbl_replace key r rows = filter (\<lambda>x. key x \<noteq> key r) rows @ [r]"

definition tbl_delete :: "('r \<Rightarrow> 'k) \<Rightarrow> 'k \<Rightarrow> 'r list \<Rightarrow> 'r list" where
  "tbl_delete key k rows = filter (\<lambda>x. key x \<noteq> k) rows"

lemma tbl_get_Nil [simp]: "tbl_get key k [] = None"
  by (simp add: tbl_get_def)

lemma tbl_get_Cons: "tbl_get key k (r # rows) = (if key r = k then Some r else tbl_get key k rows)"
  by (simp add: tbl_get_def)

lemma tbl_get_append:
  "tbl_get key k (xs @ ys) = (case tbl_get key k xs of None \<Rightarrow> tbl_get key k ys | Some r \<Rightarrow> Some r)"
  by (induction xs) (auto simp: tbl_get_Cons)

lemma tbl_get_None: "tbl_get key k rows = None \<longleftrightarrow> k \<notin> key ` set rows"
  by (auto simp: tbl_get_def find_None_iff)

lemma tbl_get_Some: "tbl_get key k rows = Some r \<Longrightarrow> r \<in> set rows \<and> key r = k"
  by (auto simp: tbl_get_def find_Some_iff)

lemma tbl_get_filter_other: "tbl_get key k (filter (\<lambda>x. key x \<noteq> j) rows)
    = (if k = j then None else tbl_get key k rows)"
  by (induction rows) (auto simp: tbl_get_Cons)

lemma tbl_get_replace [tbl_simps]:
  "tbl_get key k (tbl_replace key r rows) = (if k = key r then Some r else tbl_get key k rows)"
  by (auto simp: tbl_replace_def tbl_get_append tbl_get_filter_other tbl_get_Cons split: option.split)

lemma tbl_get_delete [tbl_simps]:
  "tbl_get key k (tbl_delete key j rows) = (if k = j then None else tbl_get key k rows)"
  by (simp add: tbl_delete_def tbl_get_filter_other)

lemma tbl_get_insert [tbl_simps]:
  assumes "tbl_insert key r rows = Some rows'"
  shows "tbl_get key k rows' = (if k = key r then Some r else tbl_get key k rows)"
proof -
  from assms have rows': "rows' = rows @ [r]" and "tbl_get key (key r) rows = None"
    by (auto simp: tbl_insert_def tbl_get_None split: if_splits)
  then show ?thesis by (cases "tbl_get key k rows") (auto simp: tbl_get_append tbl_get_Cons)
qed

lemma tbl_get_upsert [tbl_simps]:
  assumes "\<And>x. key x = key r \<Longrightarrow> key (upd x r) = key r"
  shows "tbl_get key k (tbl_upsert key upd r rows) =
    (if k = key r then Some (case tbl_get key k rows of None \<Rightarrow> r | Some x \<Rightarrow> upd x r)
     else tbl_get key k rows)"
proof -
  have map: "tbl_get key k (map (\<lambda>x. if key x = key r then upd x r else x) xs)
      = (if k = key r then map_option (\<lambda>x. upd x r) (tbl_get key k xs) else tbl_get key k xs)" for xs
    using assms by (induction xs) (auto simp: tbl_get_Cons)
  show ?thesis
  proof (cases "tbl_get key (key r) rows")
    case None
    then have "tbl_upsert key upd r rows = rows @ [r]" by (simp add: tbl_upsert_def tbl_get_None)
    with None show ?thesis by (cases "tbl_get key k rows") (auto simp: tbl_get_append tbl_get_Cons)
  next
    case (Some x)
    then have "key r \<in> key ` set rows" by (metis option.distinct(1) tbl_get_None)
    with Some show ?thesis by (simp add: tbl_upsert_def map)
  qed
qed

text \<open>
  The contract of a table that is written by key, and what follows from it for a sequence of
  writes: the last one to a key is the one a reader sees.
\<close>

locale keyed_store =
  fixes key :: "'r \<Rightarrow> 'k"
    and get :: "'k \<Rightarrow> 't \<Rightarrow> 'r option"
    and put :: "'r \<Rightarrow> 't \<Rightarrow> 't"
  assumes get_put: "get k (put r t) = (if k = key r then Some r else get k t)"
begin

lemma get_fold_put_other: "k \<notin> key ` set rs \<Longrightarrow> get k (fold put rs t) = get k t"
  by (induction rs arbitrary: t) (auto simp: get_put)

lemma last_write_wins:
  assumes "key r \<notin> key ` set ss"
  shows "get (key r) (fold put (rs @ r # ss) t) = Some r"
  using assms by (simp add: get_fold_put_other get_put)

lemma put_twice: "get k (put r (put r t)) = get k (put r t)"
  by (simp add: get_put)

end

interpretation replace_table: keyed_store key "tbl_get key" "tbl_replace key" for key :: "'r \<Rightarrow> 'k"
  by unfold_locales (rule tbl_get_replace)

end
