(* ===== verification/Digest.thy ===== *)
theory Digest
  imports Prelude
begin

text \<open>
  core/utils/sha256.cpp: SHA-256, and the block buffering that SHA-1 (core/utils/uuid.cpp) shares
  with it. A hasher keeps the chaining state, the bit count, the buffered bytes
  (\<open>buffer_[0 .. buffer_len_)\<close>) and the finalized flag. The streaming interface is the locale
  \<open>streaming_hash\<close>; the reference description is the padded message cut into 64-byte blocks.
\<close>

unbundle bit_operations_syntax

section \<open>The block buffer\<close>

record 'st hasher =
  hs_state :: 'st
  hs_bit_count :: u64
  hs_buffer :: "byte list"
  hs_finalized :: bool

definition hasher_init :: "'st \<Rightarrow> 'st hasher" where
  "hasher_init st = \<lparr>hs_state = st, hs_bit_count = 0, hs_buffer = [], hs_finalized = False\<rparr>"

text \<open>
  The loop of \<open>Update\<close>: copy \<open>take\<close> bytes into the buffer, compress when it holds 64. The test
  \<open>64 \<le> length buf\<close> never holds: \<open>buffer_len_ < 64\<close> is the class invariant.
\<close>

function absorb_loop :: "('st \<Rightarrow> byte list \<Rightarrow> 'st) \<Rightarrow> 'st \<Rightarrow> byte list \<Rightarrow> byte list \<Rightarrow> 'st \<times> byte list" where
  "absorb_loop compress st buf data =
     (if data = [] \<or> 64 \<le> length buf then (st, buf)
      else
        let space = 64 - length buf;
            n = (if length data < space then length data else space);
            buf' = buf @ take n data;
            rest = drop n data
        in if length buf' = 64 then absorb_loop compress (compress st buf') [] rest
           else absorb_loop compress st buf' rest)"
  by pat_completeness auto
termination
  by (relation "measure (\<lambda>(_, _, _, data). length data)") auto

declare absorb_loop.simps [simp del]

lemma absorb_nil [simp]: "absorb_loop compress st buf [] = (st, buf)"
  by (simp add: absorb_loop.simps)

lemma absorb_one:
  "length buf < 64 \<Longrightarrow> absorb_loop compress st buf [x]
     = (if length buf = 63 then (compress st (buf @ [x]), []) else (st, buf @ [x]))"
  by (subst absorb_loop.simps) (auto simp: Let_def)

definition hasher_update :: "('st \<Rightarrow> byte list \<Rightarrow> 'st) \<Rightarrow> 'st hasher \<Rightarrow> byte list \<Rightarrow> 'st hasher" where
  "hasher_update compress h data =
     (let (st, buf) = absorb_loop compress (hs_state h) (hs_buffer h) data
      in h\<lparr>hs_bit_count := hs_bit_count h + of_nat (length data) * 8,
           hs_state := st, hs_buffer := buf\<rparr>)"

text \<open>\<open>while (buffer_len_ != 56) Update(zeros, 1)\<close>.\<close>

function pad_loop :: "('st \<Rightarrow> byte list \<Rightarrow> 'st) \<Rightarrow> 'st hasher \<Rightarrow> 'st hasher" where
  "pad_loop compress h =
     (if length (hs_buffer h) = 56 \<or> 64 \<le> length (hs_buffer h) then h
      else pad_loop compress (hasher_update compress h [0]))"
  by pat_completeness auto
termination
proof (relation "measure (\<lambda>(_, h). let n = length (hs_buffer h) in if n \<le> 56 then 56 - n else 120 - n)",
    goal_cases)
  case 1
  show ?case by simp
next
  case (2 compress h)
  then have len: "length (hs_buffer h) < 64" "length (hs_buffer h) \<noteq> 56" by auto
  then have "length (hs_buffer (hasher_update compress h [0]))
      = (if length (hs_buffer h) = 63 then 0 else Suc (length (hs_buffer h)))"
    by (simp add: hasher_update_def absorb_one)
  with len show ?case by (auto simp: Let_def)
qed

declare pad_loop.simps [simp del]

text \<open>\<open>static_cast<std::uint8_t>(bit_count >> (56 - i * 8))\<close> for i below 8.\<close>

definition len_bytes :: "u64 \<Rightarrow> byte list" where
  "len_bytes n = map (\<lambda>i. ucast (drop_bit (56 - i * 8) n)) [0..<8]"

definition hasher_finish :: "('st \<Rightarrow> byte list \<Rightarrow> 'st) \<Rightarrow> 'st hasher \<Rightarrow> 'st hasher" where
  "hasher_finish compress h =
     (if hs_finalized h then h
      else
        let bit_count = hs_bit_count h;
            h1 = hasher_update compress (h\<lparr>hs_finalized := True\<rparr>) [128];
            h2 = pad_loop compress h1
        in hasher_update compress h2 (len_bytes bit_count))"

text \<open>The four bytes of a chaining word, most significant first.\<close>

definition word_bytes :: "u32 \<Rightarrow> byte list" where
  "word_bytes w = [ucast (drop_bit 24 w), ucast (drop_bit 16 w), ucast (drop_bit 8 w), ucast w]"

definition word_at :: "byte list \<Rightarrow> nat \<Rightarrow> u32" where
  "word_at block i =
     push_bit 24 (ucast (block ! (i * 4))) OR push_bit 16 (ucast (block ! (i * 4 + 1))) OR
     push_bit 8 (ucast (block ! (i * 4 + 2))) OR ucast (block ! (i * 4 + 3))"

section \<open>SHA-256\<close>

definition kK :: "u32 list" where
  "kK =
    [1116352408, 1899447441, 3049323471, 3921009573, 961987163, 1508970993,
     2453635748, 2870763221, 3624381080, 310598401, 607225278, 1426881987,
     1925078388, 2162078206, 2614888103, 3248222580, 3835390401, 4022224774,
     264347078, 604807628, 770255983, 1249150122, 1555081692, 1996064986,
     2554220882, 2821834349, 2952996808, 3210313671, 3336571891, 3584528711,
     113926993, 338241895, 666307205, 773529912, 1294757372, 1396182291,
     1695183700, 1986661051, 2177026350, 2456956037, 2730485921, 2820302411,
     3259730800, 3345764771, 3516065817, 3600352804, 4094571909, 275423344,
     430227734, 506948616, 659060556, 883997877, 958139571, 1322822218,
     1537002063, 1747873779, 1955562222, 2024104815, 2227730452, 2361852424,
     2428436474, 2756734187, 3204031479, 3329325298]"

definition kInit256 :: "u32 list" where
  "kInit256 =
    [1779033703, 3144134277, 1013904242, 2773480762, 1359893119, 2600822924,
     528734635, 1541459225]"

definition RotR :: "u32 \<Rightarrow> nat \<Rightarrow> u32" where
  "RotR x n = drop_bit n x OR push_bit (32 - n) x"

definition sha256_schedule :: "byte list \<Rightarrow> u32 list" where
  "sha256_schedule block =
     foldl (\<lambda>w i.
        let s0 = RotR (w ! (i - 15)) 7 XOR RotR (w ! (i - 15)) 18 XOR drop_bit 3 (w ! (i - 15));
            s1 = RotR (w ! (i - 2)) 17 XOR RotR (w ! (i - 2)) 19 XOR drop_bit 10 (w ! (i - 2))
        in w @ [w ! (i - 16) + s0 + w ! (i - 7) + s1])
      (map (word_at block) [0..<16]) [16..<64]"

fun sha256_round :: "u32 list \<Rightarrow> u32 \<times> u32 \<Rightarrow> u32 list" where
  "sha256_round [a, b, c, d, e, f, g, h] (k, w) =
     (let s1 = RotR e 6 XOR RotR e 11 XOR RotR e 25;
          ch = (e AND f) XOR (NOT e AND g);
          temp1 = h + s1 + ch + k + w;
          s0 = RotR a 2 XOR RotR a 13 XOR RotR a 22;
          maj = (a AND b) XOR (a AND c) XOR (b AND c);
          temp2 = s0 + maj
      in [temp1 + temp2, a, b, c, d + temp1, e, f, g])"
| "sha256_round st _ = st"

definition Sha256_Transform :: "u32 list \<Rightarrow> byte list \<Rightarrow> u32 list" where
  "Sha256_Transform state block =
     map2 (+) state (foldl sha256_round state (zip kK (sha256_schedule block)))"

type_synonym Sha256 = "u32 list hasher"

definition Sha256_new :: Sha256 where
  "Sha256_new = hasher_init kInit256"

definition Sha256_Update :: "Sha256 \<Rightarrow> byte list \<Rightarrow> Sha256" where
  "Sha256_Update h data = hasher_update Sha256_Transform h data"

definition Sha256_Final :: "Sha256 \<Rightarrow> byte list \<times> Sha256" where
  "Sha256_Final h =
     (let h' = hasher_finish Sha256_Transform h
      in (concat (map word_bytes (hs_state h')), h'))"

definition Sha256Hex :: "byte list \<Rightarrow> string" where
  "Sha256Hex data = concat (map hex_byte (fst (Sha256_Final (Sha256_Update Sha256_new data))))"

section \<open>Streaming is insensitive to chunking\<close>

text \<open>
  The contract of a streaming hash: feeding two pieces is feeding their concatenation. A client that
  reads a file in chunks relies on \<open>absorb_chunks\<close>.
\<close>

locale streaming_hash =
  fixes valid :: "'h \<Rightarrow> bool"
    and absorb :: "'h \<Rightarrow> 'd list \<Rightarrow> 'h"
  assumes valid_absorb: "valid h \<Longrightarrow> valid (absorb h a)"
    and absorb_none: "valid h \<Longrightarrow> absorb h [] = h"
    and absorb_two: "valid h \<Longrightarrow> absorb (absorb h a) b = absorb h (a @ b)"
begin

lemma absorb_chunks: "valid h \<Longrightarrow> foldl absorb h ds = absorb h (concat ds)"
  by (induction ds rule: rev_induct) (simp_all add: absorb_none absorb_two)

lemma chunking_irrelevant:
  "valid h \<Longrightarrow> concat ds = concat es \<Longrightarrow> foldl absorb h ds = foldl absorb h es"
  by (simp add: absorb_chunks)

end

text \<open>The loop, one byte at a time.\<close>

definition absorb_byte :: "('st \<Rightarrow> byte list \<Rightarrow> 'st) \<Rightarrow> 'st \<times> byte list \<Rightarrow> byte \<Rightarrow> 'st \<times> byte list" where
  "absorb_byte compress p x =
     (if length (snd p) = 63 then (compress (fst p) (snd p @ [x]), []) else (fst p, snd p @ [x]))"

lemma foldl_absorb_short:
  "length buf + length d < 64 \<Longrightarrow> foldl (absorb_byte c) (st, buf) d = (st, buf @ d)"
  by (induction d arbitrary: buf) (simp_all add: absorb_byte_def)

lemma foldl_absorb_full:
  assumes "length buf + length d = 64" and "d \<noteq> []"
  shows "foldl (absorb_byte c) (st, buf) d = (c st (buf @ d), [])"
proof -
  from assms(2) obtain e x where d: "d = e @ [x]" by (metis rev_exhaust)
  with assms(1) have len: "length buf + length e = 63" by simp
  then have "foldl (absorb_byte c) (st, buf) e = (st, buf @ e)" by (simp add: foldl_absorb_short)
  with len show ?thesis by (simp add: d absorb_byte_def)
qed

lemma absorb_loop_bytes:
  "length buf < 64 \<Longrightarrow> absorb_loop c st buf data = foldl (absorb_byte c) (st, buf) data"
proof (induction c st buf data rule: absorb_loop.induct)
  case (1 c st buf data)
  let ?n = "if length data < 64 - length buf then length data else 64 - length buf"
  have split: "foldl (absorb_byte c) (st, buf) data
      = foldl (absorb_byte c) (foldl (absorb_byte c) (st, buf) (take ?n data)) (drop ?n data)"
    by (metis append_take_drop_id foldl_append)
  show ?case
  proof (cases "data = []")
    case True
    then show ?thesis by simp
  next
    case data: False
    show ?thesis
    proof (cases "length data < 64 - length buf")
      case True
      with data "1.prems" show ?thesis
        by (subst absorb_loop.simps) (auto simp: Let_def foldl_absorb_short)
    next
      case False
      with data "1.prems" have full: "length (buf @ take ?n data) = 64" "take ?n data \<noteq> []"
        by auto
      then have "foldl (absorb_byte c) (st, buf) (take ?n data) = (c st (buf @ take ?n data), [])"
        by (intro foldl_absorb_full) simp_all
      with split full data "1.prems" "1.IH" (1) [OF _ refl refl refl refl] show ?thesis
        by (subst absorb_loop.simps) (simp add: Let_def)
    qed
  qed
qed

lemma absorb_byte_bound: "length (snd p) < 64 \<Longrightarrow> length (snd (absorb_byte c p x)) < 64"
  by (simp add: absorb_byte_def)

lemma foldl_absorb_bound: "length (snd p) < 64 \<Longrightarrow> length (snd (foldl (absorb_byte c) p d)) < 64"
  by (induction d arbitrary: p) (simp_all add: absorb_byte_bound)

text \<open>The class invariant \<open>buffer_len_ < 64\<close>.\<close>

definition hasher_ok :: "'st hasher \<Rightarrow> bool" where
  "hasher_ok h \<longleftrightarrow> length (hs_buffer h) < 64"

lemma hasher_update_bytes:
  "hasher_ok h \<Longrightarrow> hasher_update c h data =
     h\<lparr>hs_bit_count := hs_bit_count h + of_nat (length data) * 8,
       hs_state := fst (foldl (absorb_byte c) (hs_state h, hs_buffer h) data),
       hs_buffer := snd (foldl (absorb_byte c) (hs_state h, hs_buffer h) data)\<rparr>"
  by (simp add: hasher_update_def hasher_ok_def absorb_loop_bytes split: prod.split)

lemma hasher_update_ok: "hasher_ok h \<Longrightarrow> hasher_ok (hasher_update c h data)"
  by (simp add: hasher_update_bytes) (simp add: hasher_ok_def foldl_absorb_bound)

lemma hasher_update_two:
  assumes "hasher_ok h"
  shows "hasher_update c (hasher_update c h a) b = hasher_update c h (a @ b)"
  using assms hasher_update_ok [OF assms, of c a]
  by (simp add: hasher_update_bytes algebra_simps)

lemma hasher_update_none: "hasher_update c h [] = h"
  by (simp add: hasher_update_def)

interpretation block_stream: streaming_hash hasher_ok "hasher_update c"
  for c :: "'st \<Rightarrow> byte list \<Rightarrow> 'st"
  by unfold_locales (simp_all add: hasher_update_ok hasher_update_two hasher_update_none)

interpretation sha256_stream: streaming_hash hasher_ok Sha256_Update
  by unfold_locales (simp_all add: Sha256_Update_def hasher_update_ok hasher_update_two hasher_update_none)

section \<open>The reference description: padding and blocks\<close>

fun blocks64 :: "byte list \<Rightarrow> byte list list" where
  "blocks64 bs = (if length bs < 64 then [] else take 64 bs # blocks64 (drop 64 bs))"

declare blocks64.simps [simp del]

definition sha_pad :: "byte list \<Rightarrow> byte list" where
  "sha_pad m = m @ [128] @ replicate ((119 - length m mod 64) mod 64) 0 @ len_bytes (of_nat (8 * length m))"

lemma length_len_bytes [simp]: "length (len_bytes n) = 8"
  by (simp add: len_bytes_def)

lemma foldl_absorb_blocks:
  "length bs mod 64 = 0 \<Longrightarrow> foldl (absorb_byte c) (st, []) bs = (foldl c st (blocks64 bs), [])"
proof (induction bs arbitrary: st rule: blocks64.induct)
  case (1 bs)
  show ?case
  proof (cases "length bs < 64")
    case True
    with "1.prems" show ?thesis by (simp add: blocks64.simps)
  next
    case False
    then have "foldl (absorb_byte c) (st, []) (take 64 bs) = (c st (take 64 bs), [])"
      using foldl_absorb_full [of "[]" "take 64 bs" c st] by fastforce
    moreover have "foldl (absorb_byte c) (st, []) bs
        = foldl (absorb_byte c) (foldl (absorb_byte c) (st, []) (take 64 bs)) (drop 64 bs)"
      by (metis append_take_drop_id foldl_append)
    moreover have "length (drop 64 bs) mod 64 = 0"
      using False "1.prems" by (simp add: le_mod_geq)
    ultimately show ?thesis using False "1.IH" by (subst blocks64.simps) simp
  qed
qed

lemma pad_loop_zeros:
  "hasher_ok h \<Longrightarrow>
     pad_loop c h = hasher_update c h (replicate (let n = length (hs_buffer h)
        in if n \<le> 56 then 56 - n else 120 - n) 0)"
proof (induction c h rule: pad_loop.induct)
  case (1 c h)
  let ?n = "length (hs_buffer h)" and ?h' = "hasher_update c h [0]"
  let ?z = "\<lambda>n::nat. if n \<le> 56 then 56 - n else 120 - n"
  show ?case
  proof (cases "?n = 56")
    case True
    with "1.prems" show ?thesis by (simp add: pad_loop.simps hasher_update_bytes)
  next
    case False
    from "1.prems" have n: "?n < 64" by (simp add: hasher_ok_def)
    then have n': "length (hs_buffer ?h') = (if ?n = 63 then 0 else Suc ?n)"
      by (simp add: hasher_update_def absorb_one)
    from False n n' have z: "?z ?n = Suc (?z (length (hs_buffer ?h')))" by auto
    have "pad_loop c h = pad_loop c ?h'" using False n by (subst pad_loop.simps) simp
    also have "\<dots> = hasher_update c ?h' (replicate (?z (length (hs_buffer ?h'))) 0)"
      using "1.IH" False n hasher_update_ok [OF "1.prems"] by (simp add: Let_def)
    also have "\<dots> = hasher_update c h (replicate (?z ?n) 0)"
      by (simp add: hasher_update_two [OF "1.prems"] z)
    finally show ?thesis by (simp add: Let_def)
  qed
qed

lemma pad_mod:
  fixes r :: nat
  assumes "r < 64"
  shows "(119 - r) mod 64 = (if r \<le> 55 then 55 - r else 119 - r)"
proof (cases "r \<le> 55")
  case True
  then obtain k where k: "55 = r + k" by (metis le_Suc_ex)
  then have "119 - r = 64 + k" "k < 64" by arith+
  with k show ?thesis by simp
next
  case False
  with assms show ?thesis by simp
qed

lemma pad_zeros_amount:
  fixes r :: nat
  assumes "r < 64"
  shows "(let n = if r = 63 then 0 else Suc r in if n \<le> 56 then 56 - n else 120 - n) = (119 - r) mod 64"
  using assms by (auto simp: Let_def pad_mod)

lemma pad_total: "(n + (9 + (119 - n mod 64) mod 64)) mod 64 = (0::nat)"
proof -
  define r where "r = n mod 64"
  have r: "r < 64" by (simp add: r_def)
  then have "r + (9 + (119 - r) mod 64) = 64 \<or> r + (9 + (119 - r) mod 64) = 128" by (auto simp: pad_mod)
  then have "(r + (9 + (119 - r) mod 64)) mod 64 = 0" by (elim disjE) (simp_all only:, simp_all)
  then show ?thesis unfolding r_def by (metis mod_add_left_eq)
qed

lemma foldl_absorb_len:
  "length buf < 64 \<Longrightarrow> length (snd (foldl (absorb_byte c) (st, buf) d)) = (length buf + length d) mod 64"
proof (induction d rule: rev_induct)
  case (snoc x d)
  have b: "length (snd (foldl (absorb_byte c) (st, buf) d)) < 64"
    using snoc.prems by (simp add: foldl_absorb_bound)
  with snoc show ?case by (auto simp: absorb_byte_def mod_Suc)
qed simp

theorem hasher_md:
  "hs_state (hasher_finish c (hasher_update c (hasher_init st) m)) = foldl c st (blocks64 (sha_pad m))"
proof -
  let ?h = "hasher_update c (hasher_init st) m"
  let ?f = "hasher_update c ((?h)\<lparr>hs_finalized := True\<rparr>) [128]"
  let ?zs = "replicate ((119 - length m mod 64) mod 64) (0::byte)"
  have ok: "hasher_ok ?h" by (rule hasher_update_ok) (simp add: hasher_ok_def hasher_init_def)
  then have okt: "hasher_ok ((?h)\<lparr>hs_finalized := True\<rparr>)" by (simp add: hasher_ok_def)
  have st: "foldl (absorb_byte c) (hs_state ?h, hs_buffer ?h) d = foldl (absorb_byte c) (st, []) (m @ d)" for d
    using hasher_update_bytes [of "hasher_init st" c m] by (simp add: hasher_ok_def hasher_init_def)
  have bc: "hs_bit_count ?h = of_nat (8 * length m)" "\<not> hs_finalized ?h"
    by (simp_all add: hasher_update_def hasher_init_def split: prod.split)
  have lb: "length (hs_buffer ?h) = length m mod 64"
    using st [of "[]"] foldl_absorb_len [of "[]" c st m] by (metis add_0 append_Nil2 foldl_Nil length_greater_0_conv list.size(3) snd_conv zero_less_numeral)
  have lf: "length (hs_buffer ?f) = (if length m mod 64 = 63 then 0 else Suc (length m mod 64))"
    using lb by (simp add: hasher_update_def [of c "(?h)\<lparr>hs_finalized := True\<rparr>"] absorb_one)
  have "pad_loop c ?f = hasher_update c ?f ?zs"
    using pad_loop_zeros [OF hasher_update_ok [OF okt, of c "[128]"], of c] pad_zeros_amount [of "length m mod 64"] lf
    by (simp add: Let_def)
  then have "hasher_finish c ?h
      = hasher_update c ((?h)\<lparr>hs_finalized := True\<rparr>) ([128] @ ?zs @ len_bytes (of_nat (8 * length m)))"
    using bc okt by (simp add: hasher_finish_def Let_def hasher_update_two hasher_update_ok)
  moreover have "hs_state (hasher_update c ((?h)\<lparr>hs_finalized := True\<rparr>) d)
      = fst (foldl (absorb_byte c) (st, []) (m @ d))" for d
    by (simp add: hasher_update_bytes [OF okt] st)
  ultimately have "hs_state (hasher_finish c ?h) = fst (foldl (absorb_byte c) (st, []) (sha_pad m))"
    by (simp only: sha_pad_def)
  moreover have "length (sha_pad m) mod 64 = 0"
    using pad_total [of "length m"] by (simp add: sha_pad_def add_ac)
  ultimately show ?thesis by (simp add: foldl_absorb_blocks)
qed

section \<open>SHA-256: digest and hex form\<close>

lemma length_sha256_round [simp]: "length (sha256_round st kw) = length st"
  by (cases "(st, kw)" rule: sha256_round.cases) (auto simp: Let_def)

lemma length_Sha256_Transform [simp]: "length st = 8 \<Longrightarrow> length (Sha256_Transform st block) = 8"
proof -
  have "length (foldl sha256_round st kws) = length st" for kws
    by (induction kws arbitrary: st) simp_all
  then show "length st = 8 \<Longrightarrow> length (Sha256_Transform st block) = 8"
    by (simp add: Sha256_Transform_def)
qed

lemma length_foldl_Transform: "length st = 8 \<Longrightarrow> length (foldl Sha256_Transform st bs) = 8"
  by (induction bs arbitrary: st) simp_all

lemma length_concat_const: "(\<And>x. x \<in> set xs \<Longrightarrow> length (f x) = n) \<Longrightarrow> length (concat (map f xs)) = n * length xs"
  by (induction xs) auto

definition sha256_spec :: "byte list \<Rightarrow> byte list" where
  "sha256_spec m = concat (map word_bytes (foldl Sha256_Transform kInit256 (blocks64 (sha_pad m))))"

lemma length_sha256_spec: "length (sha256_spec m) = 32"
  unfolding sha256_spec_def
  by (subst length_concat_const [where n = 4]) (simp_all add: word_bytes_def length_foldl_Transform kInit256_def)

lemma sha256_one_shot: "fst (Sha256_Final (Sha256_Update Sha256_new m)) = sha256_spec m"
  by (simp add: Sha256_Final_def Sha256_Update_def Sha256_new_def sha256_spec_def Let_def hasher_md)

lemma sha256_new_ok [simp]: "hasher_ok Sha256_new"
  by (simp add: Sha256_new_def hasher_init_def hasher_ok_def)

text \<open>
  C10: feeding a SHA-256 hasher any sequence of pieces and finalizing it yields the digest of the
  concatenation: the padded message cut into 64-byte blocks and folded through \<open>Transform\<close>, 32 bytes.
\<close>

theorem sha256_streaming:
  "fst (Sha256_Final (foldl Sha256_Update Sha256_new pieces)) = sha256_spec (concat pieces)
   \<and> length (fst (Sha256_Final (foldl Sha256_Update Sha256_new pieces))) = 32"
  by (simp add: sha256_stream.absorb_chunks sha256_one_shot length_sha256_spec)

lemma Sha256Hex_spec: "Sha256Hex m = concat (map hex_byte (sha256_spec m))"
  by (simp add: Sha256Hex_def sha256_one_shot)

lemma length_Sha256Hex [simp]: "length (Sha256Hex m) = 64"
  unfolding Sha256Hex_spec by (subst length_concat_const [where n = 2]) (simp_all add: length_sha256_spec)

end
