(* ===== verification/Errors.thy ===== *)
theory Errors
  imports Prelude
begin

text \<open>
  core/errors/project_error.h and project_error.cpp: the error taxonomy whose stable string codes
  cross the worker boundary, and \<open>ProjectError\<close>, the exception every component throws.
  Of a \<open>ProjectError\<close> the model keeps the code, the message and the recoverable flag (what a
  caller can branch on); the context list, the suggested action and the cause are only displayed.
\<close>

section \<open>Codes and domains\<close>

datatype error_domain =
    kProject
  | kStorage
  | kSchema
  | kCoordinate
  | kCalibration
  | kImport
  | kArtifact
  | kScheduler
  | kWorker
  | kAdapter
  | kValidation

datatype error_code =
    kStorageCorrupt
  | kStorageReadOnly
  | kStorageLock
  | kStorageIo
  | kStorageAtomicWrite
  | kSchemaVersion
  | kSchemaMigration
  | kSchemaInvalid
  | kArtifactHashMismatch
  | kArtifactMissing
  | kArtifactManifest
  | kArtifactGcConflict
  | kArtifactUnreferenced
  | kCoordFrameMismatch
  | kCoordFrameNotFound
  | kCoordFrameCycle
  | kCoordFrameDisconnected
  | kCoordFrameMultipleRoots
  | kCoordFrameExists
  | kSchedDagCycle
  | kSchedDagTypeMismatch
  | kSchedDagResourceInfeasible
  | kSchedTaskUnknown
  | kSchedPersistence
  | kSchedCacheMiss
  | kSchedCancelled
  | kWorkerProtocol
  | kWorkerHeartbeatTimeout
  | kWorkerCrashed
  | kWorkerTerminated
  | kWorkerBusy
  | kProjectInvalid
  | kProjectNotFound
  | kProjectCorrupt
  | kCalibrationInvalid
  | kValidationSchema
  | kValidationDomain
  | kAdapterProcessFailed
  | kAdapterProcessTimeout
  | kAdapterProcessCancelled
  | kImportUnreadable
  | kImportCorrupt
  | kImportUnsupportedFormat
  | kImportMissingExif
  | kImportSensorUnresolved
  | kImportTimestampUnresolvable
  | kImportValidationError
  | kInternal

fun domain_num :: "error_domain \<Rightarrow> int" where
  "domain_num kProject = 1"
| "domain_num kStorage = 2"
| "domain_num kSchema = 3"
| "domain_num kCoordinate = 4"
| "domain_num kCalibration = 5"
| "domain_num kImport = 6"
| "domain_num kArtifact = 7"
| "domain_num kScheduler = 8"
| "domain_num kWorker = 9"
| "domain_num kAdapter = 10"
| "domain_num kValidation = 11"

fun code_num :: "error_code \<Rightarrow> int" where
  "code_num kStorageCorrupt = 2001"
| "code_num kStorageReadOnly = 2002"
| "code_num kStorageLock = 2003"
| "code_num kStorageIo = 2004"
| "code_num kStorageAtomicWrite = 2005"
| "code_num kSchemaVersion = 3001"
| "code_num kSchemaMigration = 3002"
| "code_num kSchemaInvalid = 3003"
| "code_num kArtifactHashMismatch = 7001"
| "code_num kArtifactMissing = 7002"
| "code_num kArtifactManifest = 7003"
| "code_num kArtifactGcConflict = 7004"
| "code_num kArtifactUnreferenced = 7005"
| "code_num kCoordFrameMismatch = 4001"
| "code_num kCoordFrameNotFound = 4002"
| "code_num kCoordFrameCycle = 4003"
| "code_num kCoordFrameDisconnected = 4004"
| "code_num kCoordFrameMultipleRoots = 4005"
| "code_num kCoordFrameExists = 4006"
| "code_num kSchedDagCycle = 8001"
| "code_num kSchedDagTypeMismatch = 8002"
| "code_num kSchedDagResourceInfeasible = 8003"
| "code_num kSchedTaskUnknown = 8004"
| "code_num kSchedPersistence = 8005"
| "code_num kSchedCacheMiss = 8006"
| "code_num kSchedCancelled = 8007"
| "code_num kWorkerProtocol = 9001"
| "code_num kWorkerHeartbeatTimeout = 9002"
| "code_num kWorkerCrashed = 9003"
| "code_num kWorkerTerminated = 9004"
| "code_num kWorkerBusy = 9005"
| "code_num kProjectInvalid = 1001"
| "code_num kProjectNotFound = 1002"
| "code_num kProjectCorrupt = 1003"
| "code_num kCalibrationInvalid = 5001"
| "code_num kValidationSchema = 11001"
| "code_num kValidationDomain = 11002"
| "code_num kAdapterProcessFailed = 10001"
| "code_num kAdapterProcessTimeout = 10002"
| "code_num kAdapterProcessCancelled = 10003"
| "code_num kImportUnreadable = 6001"
| "code_num kImportCorrupt = 6002"
| "code_num kImportUnsupportedFormat = 6003"
| "code_num kImportMissingExif = 6004"
| "code_num kImportSensorUnresolved = 6005"
| "code_num kImportTimestampUnresolvable = 6006"
| "code_num kImportValidationError = 6007"
| "code_num kInternal = 0"

fun DomainOf :: "error_code \<Rightarrow> error_domain" where
  "DomainOf kStorageCorrupt = kStorage"
| "DomainOf kStorageReadOnly = kStorage"
| "DomainOf kStorageLock = kStorage"
| "DomainOf kStorageIo = kStorage"
| "DomainOf kStorageAtomicWrite = kStorage"
| "DomainOf kSchemaVersion = kSchema"
| "DomainOf kSchemaMigration = kSchema"
| "DomainOf kSchemaInvalid = kSchema"
| "DomainOf kArtifactHashMismatch = kArtifact"
| "DomainOf kArtifactMissing = kArtifact"
| "DomainOf kArtifactManifest = kArtifact"
| "DomainOf kArtifactGcConflict = kArtifact"
| "DomainOf kArtifactUnreferenced = kArtifact"
| "DomainOf kCoordFrameMismatch = kCoordinate"
| "DomainOf kCoordFrameNotFound = kCoordinate"
| "DomainOf kCoordFrameCycle = kCoordinate"
| "DomainOf kCoordFrameDisconnected = kCoordinate"
| "DomainOf kCoordFrameMultipleRoots = kCoordinate"
| "DomainOf kCoordFrameExists = kCoordinate"
| "DomainOf kSchedDagCycle = kScheduler"
| "DomainOf kSchedDagTypeMismatch = kScheduler"
| "DomainOf kSchedDagResourceInfeasible = kScheduler"
| "DomainOf kSchedTaskUnknown = kScheduler"
| "DomainOf kSchedPersistence = kScheduler"
| "DomainOf kSchedCacheMiss = kScheduler"
| "DomainOf kSchedCancelled = kScheduler"
| "DomainOf kWorkerProtocol = kWorker"
| "DomainOf kWorkerHeartbeatTimeout = kWorker"
| "DomainOf kWorkerCrashed = kWorker"
| "DomainOf kWorkerTerminated = kWorker"
| "DomainOf kWorkerBusy = kWorker"
| "DomainOf kProjectInvalid = kProject"
| "DomainOf kProjectNotFound = kProject"
| "DomainOf kProjectCorrupt = kProject"
| "DomainOf kCalibrationInvalid = kCalibration"
| "DomainOf kValidationSchema = kValidation"
| "DomainOf kValidationDomain = kValidation"
| "DomainOf kAdapterProcessFailed = kAdapter"
| "DomainOf kAdapterProcessTimeout = kAdapter"
| "DomainOf kAdapterProcessCancelled = kAdapter"
| "DomainOf kImportUnreadable = kImport"
| "DomainOf kImportCorrupt = kImport"
| "DomainOf kImportUnsupportedFormat = kImport"
| "DomainOf kImportMissingExif = kImport"
| "DomainOf kImportSensorUnresolved = kImport"
| "DomainOf kImportTimestampUnresolvable = kImport"
| "DomainOf kImportValidationError = kImport"
| "DomainOf kInternal = kProject"

fun DomainName :: "error_domain \<Rightarrow> string" where
  "DomainName kProject = ''PROJECT''"
| "DomainName kStorage = ''STORAGE''"
| "DomainName kSchema = ''SCHEMA''"
| "DomainName kCoordinate = ''COORDINATE''"
| "DomainName kCalibration = ''CALIBRATION''"
| "DomainName kImport = ''IMPORT''"
| "DomainName kArtifact = ''ARTIFACT''"
| "DomainName kScheduler = ''SCHEDULER''"
| "DomainName kWorker = ''WORKER''"
| "DomainName kAdapter = ''ADAPTER''"
| "DomainName kValidation = ''VALIDATION''"

text \<open>A code with no case of its own takes the default.\<close>

fun ErrorCodeName :: "error_code \<Rightarrow> string" where
  "ErrorCodeName kStorageCorrupt = ''STORAGE_CORRUPT''"
| "ErrorCodeName kStorageReadOnly = ''STORAGE_READ_ONLY''"
| "ErrorCodeName kStorageLock = ''STORAGE_LOCK''"
| "ErrorCodeName kStorageIo = ''STORAGE_IO''"
| "ErrorCodeName kStorageAtomicWrite = ''STORAGE_ATOMIC_WRITE''"
| "ErrorCodeName kSchemaVersion = ''SCHEMA_VERSION''"
| "ErrorCodeName kSchemaMigration = ''SCHEMA_MIGRATION''"
| "ErrorCodeName kSchemaInvalid = ''SCHEMA_INVALID''"
| "ErrorCodeName kArtifactHashMismatch = ''ARTIFACT_HASH_MISMATCH''"
| "ErrorCodeName kArtifactMissing = ''ARTIFACT_MISSING''"
| "ErrorCodeName kArtifactManifest = ''ARTIFACT_MANIFEST''"
| "ErrorCodeName kArtifactGcConflict = ''ARTIFACT_GC_CONFLICT''"
| "ErrorCodeName kArtifactUnreferenced = ''ARTIFACT_UNREFERENCED''"
| "ErrorCodeName kCoordFrameMismatch = ''COORD_FRAME_MISMATCH''"
| "ErrorCodeName kCoordFrameNotFound = ''COORD_FRAME_NOT_FOUND''"
| "ErrorCodeName kCoordFrameCycle = ''COORD_FRAME_CYCLE''"
| "ErrorCodeName kCoordFrameDisconnected = ''COORD_FRAME_DISCONNECTED''"
| "ErrorCodeName kCoordFrameMultipleRoots = ''COORD_FRAME_MULTIPLE_ROOTS''"
| "ErrorCodeName kCoordFrameExists = ''COORD_FRAME_EXISTS''"
| "ErrorCodeName kSchedDagCycle = ''SCHED_DAG_CYCLE''"
| "ErrorCodeName kSchedDagTypeMismatch = ''SCHED_DAG_TYPE_MISMATCH''"
| "ErrorCodeName kSchedDagResourceInfeasible = ''SCHED_DAG_RESOURCE_INFEASIBLE''"
| "ErrorCodeName kSchedTaskUnknown = ''SCHED_TASK_UNKNOWN''"
| "ErrorCodeName kSchedPersistence = ''SCHED_PERSISTENCE''"
| "ErrorCodeName kSchedCacheMiss = ''SCHED_CACHE_MISS''"
| "ErrorCodeName kSchedCancelled = ''SCHED_CANCELLED''"
| "ErrorCodeName kWorkerProtocol = ''WORKER_PROTOCOL''"
| "ErrorCodeName kWorkerHeartbeatTimeout = ''WORKER_HEARTBEAT_TIMEOUT''"
| "ErrorCodeName kWorkerCrashed = ''WORKER_CRASHED''"
| "ErrorCodeName kWorkerTerminated = ''WORKER_TERMINATED''"
| "ErrorCodeName kWorkerBusy = ''WORKER_BUSY''"
| "ErrorCodeName kProjectInvalid = ''PROJECT_INVALID''"
| "ErrorCodeName kProjectNotFound = ''PROJECT_NOT_FOUND''"
| "ErrorCodeName kProjectCorrupt = ''PROJECT_CORRUPT''"
| "ErrorCodeName kValidationSchema = ''VALIDATION_SCHEMA''"
| "ErrorCodeName kValidationDomain = ''VALIDATION_DOMAIN''"
| "ErrorCodeName kAdapterProcessFailed = ''ADAPTER_PROCESS_FAILED''"
| "ErrorCodeName kAdapterProcessTimeout = ''ADAPTER_PROCESS_TIMEOUT''"
| "ErrorCodeName kAdapterProcessCancelled = ''ADAPTER_PROCESS_CANCELLED''"
| "ErrorCodeName kImportUnreadable = ''IMPORT_UNREADABLE''"
| "ErrorCodeName kImportCorrupt = ''IMPORT_CORRUPT''"
| "ErrorCodeName kImportUnsupportedFormat = ''IMPORT_UNSUPPORTED_FORMAT''"
| "ErrorCodeName kImportMissingExif = ''IMPORT_MISSING_EXIF''"
| "ErrorCodeName kImportSensorUnresolved = ''IMPORT_SENSOR_UNRESOLVED''"
| "ErrorCodeName kImportTimestampUnresolvable = ''IMPORT_TIMESTAMP_UNRESOLVABLE''"
| "ErrorCodeName kImportValidationError = ''IMPORT_VALIDATION_ERROR''"
| "ErrorCodeName _ = ''INTERNAL''"

definition StableErrorCode :: "error_code \<Rightarrow> string" where
  "StableErrorCode code = ErrorCodeName code"

definition all_error_codes :: "error_code list" where
  "all_error_codes = [kStorageCorrupt, kStorageReadOnly, kStorageLock, kStorageIo, kStorageAtomicWrite, kSchemaVersion, kSchemaMigration, kSchemaInvalid, kArtifactHashMismatch, kArtifactMissing, kArtifactManifest, kArtifactGcConflict, kArtifactUnreferenced, kCoordFrameMismatch, kCoordFrameNotFound, kCoordFrameCycle, kCoordFrameDisconnected, kCoordFrameMultipleRoots, kCoordFrameExists, kSchedDagCycle, kSchedDagTypeMismatch, kSchedDagResourceInfeasible, kSchedTaskUnknown, kSchedPersistence, kSchedCacheMiss, kSchedCancelled, kWorkerProtocol, kWorkerHeartbeatTimeout, kWorkerCrashed, kWorkerTerminated, kWorkerBusy, kProjectInvalid, kProjectNotFound, kProjectCorrupt, kCalibrationInvalid, kValidationSchema, kValidationDomain, kAdapterProcessFailed, kAdapterProcessTimeout, kAdapterProcessCancelled, kImportUnreadable, kImportCorrupt, kImportUnsupportedFormat, kImportMissingExif, kImportSensorUnresolved, kImportTimestampUnresolvable, kImportValidationError, kInternal]"

section \<open>The exception\<close>

datatype project_error =
  ProjectError (pe_code: error_code) (pe_message: string) (pe_recoverable: bool)

text \<open>
  \<open>what()\<close>: the domain's name, a colon, the message. A C++ exception of the standard library or
  of a third-party library is \<open>StdException\<close> with its message.
\<close>

definition what_text :: "project_error \<Rightarrow> string" where
  "what_text e = DomainName (DomainOf (pe_code e)) @ '': '' @ pe_message e"

datatype exn = Thrown project_error | StdException string

type_synonym 'a res = "exn + 'a"

definition throw_error :: "error_code \<Rightarrow> string \<Rightarrow> exn" where
  "throw_error code msg = Thrown (ProjectError code msg False)"

definition exn_code :: "exn \<Rightarrow> error_code option" where
  "exn_code e = (case e of Thrown p \<Rightarrow> Some (pe_code p) | StdException _ \<Rightarrow> None)"

lemma exn_code_throw [simp]: "exn_code (throw_error c m) = Some c"
  by (simp add: exn_code_def throw_error_def)

text \<open>\<open>std::map::at\<close> throws \<open>std::out_of_range\<close> on a missing key.\<close>

definition map_at :: "('k \<rightharpoonup> 'v) \<Rightarrow> 'k \<Rightarrow> 'v res" where
  "map_at m k = (case m k of None \<Rightarrow> Inl (StdException ''map::at'') | Some v \<Rightarrow> Inr v)"

lemma map_at_Some [simp]: "m k = Some v \<Longrightarrow> map_at m k = Inr v"
  by (simp add: map_at_def)

section \<open>The taxonomy\<close>

lemma all_error_codes_complete: "c \<in> set all_error_codes"
  by (cases c) (simp_all add: all_error_codes_def)

lemma all_error_codes_distinct: "distinct all_error_codes"
  by code_simp

lemma named_codes_distinct:
  "distinct (map ErrorCodeName (remove1 kCalibrationInvalid all_error_codes))"
  by code_simp

lemma stable_code_inj_on: "inj_on StableErrorCode (- {kCalibrationInvalid})"
proof -
  have "set (remove1 kCalibrationInvalid all_error_codes) = - {kCalibrationInvalid}"
    using all_error_codes_complete by (auto simp: set_remove1_eq [OF all_error_codes_distinct])
  with named_codes_distinct show ?thesis
    by (simp add: distinct_map StableErrorCode_def inj_on_def)
qed

end
