(* ===== verification/Uuid.thy ===== *)
theory Uuid
  imports Digest Errors
begin

text \<open>
  core/utils/uuid.cpp: the 16-byte identifiers of projects, tasks, artifacts and workers, their
  canonical text form and its parser, random (v4) and name-based (v5) generation with the file's
  own SHA-1. The random source is an argument: the 16 bytes it produces.
\<close>

unbundle bit_operations_syntax

type_synonym uuid = "byte list"

definition nil_uuid :: uuid where
  "nil_uuid = replicate 16 0"

definition IsNil :: "uuid \<Rightarrow> bool" where
  "IsNil u = list_all (\<lambda>b. b = 0) u"

section \<open>Text form\<close>

definition FormatUuid :: "uuid \<Rightarrow> string" where
  "FormatUuid u =
     concat (map (\<lambda>i. (if i = 4 \<or> i = 6 \<or> i = 8 \<or> i = 10 then ''-'' else '''') @ hex_byte (u ! i)) [0..<16])"

definition HexValue :: "char \<Rightarrow> int" where
  "HexValue c =
     (let n = of_char c in
      if 48 \<le> n \<and> n \<le> 57 then n - 48
      else if 97 \<le> n \<and> n \<le> 102 then n - 97 + 10
      else if 65 \<le> n \<and> n \<le> 70 then n - 65 + 10
      else - 1)"

text \<open>The variables of \<open>ParseUuid\<close>'s loop.\<close>

record uuid_scan =
  us_i :: nat
  us_out :: uuid
  us_hi :: nat
  us_nibble :: nat
  us_seen_hyphen :: bool
  us_expect :: nat

definition uuid_error :: "string \<Rightarrow> exn" where
  "uuid_error why = throw_error kValidationDomain (''malformed UUID: '' @ why)"

definition uuid_step :: "uuid_scan \<Rightarrow> char \<Rightarrow> uuid_scan res" where
  "uuid_step st c =
     (if c = CHR ''-'' then
        if us_i st \<noteq> us_expect st then Inl (uuid_error ''bad hyphen position'')
        else Inr (st\<lparr>us_i := us_i st + 1, us_seen_hyphen := True,
                     us_expect := (if us_expect st = 8 then 13 else if us_expect st = 13 then 18
                                   else if us_expect st = 18 then 23 else us_expect st)\<rparr>)
      else
        let v = HexValue c in
        if v < 0 then Inl (uuid_error ''non-hex character'')
        else if us_hi st \<ge> 16 then Inl (uuid_error ''too many characters'')
        else if us_nibble st = 0 then
          Inr (st\<lparr>us_i := us_i st + 1, us_out := (us_out st)[us_hi st := word_of_int (push_bit 4 v)],
                  us_nibble := 1\<rparr>)
        else
          Inr (st\<lparr>us_i := us_i st + 1,
                  us_out := (us_out st)[us_hi st := us_out st ! us_hi st OR word_of_int v],
                  us_nibble := 0, us_hi := us_hi st + 1\<rparr>))"

fun uuid_loop :: "uuid_scan \<Rightarrow> string \<Rightarrow> uuid_scan res" where
  "uuid_loop st [] = Inr st"
| "uuid_loop st (c # s) = rbind (uuid_step st c) (\<lambda>st'. uuid_loop st' s)"

definition uuid_start :: uuid_scan where
  "uuid_start = \<lparr>us_i = 0, us_out = nil_uuid, us_hi = 0, us_nibble = 0, us_seen_hyphen = False, us_expect = 8\<rparr>"

definition ParseUuid :: "string \<Rightarrow> uuid res" where
  "ParseUuid s = rbind (uuid_loop uuid_start s) (\<lambda>st.
     if us_hi st \<noteq> 16 \<or> us_nibble st \<noteq> 0 \<or> \<not> us_seen_hyphen st
     then Inl (uuid_error ''length or structure'') else Inr (us_out st))"

section \<open>Generation\<close>

definition stamp_version :: "byte \<Rightarrow> uuid \<Rightarrow> uuid" where
  "stamp_version version u = (let v = u[6 := (u ! 6 AND 15) OR version] in v[8 := (v ! 8 AND 63) OR 128])"

definition GenerateUuid :: "byte list \<Rightarrow> uuid" where
  "GenerateUuid random = stamp_version 64 random"

definition RotateLeft :: "u32 \<Rightarrow> nat \<Rightarrow> u32" where
  "RotateLeft x n = push_bit n x OR drop_bit (32 - n) x"

definition kInit1 :: "u32 list" where
  "kInit1 = [1732584193, 4023233417, 2562383102, 271733878, 3285377520]"

definition sha1_schedule :: "byte list \<Rightarrow> u32 list" where
  "sha1_schedule block =
     foldl (\<lambda>w i. w @ [RotateLeft (w ! (i - 3) XOR w ! (i - 8) XOR w ! (i - 14) XOR w ! (i - 16)) 1])
       (map (word_at block) [0..<16]) [16..<80]"

fun sha1_round :: "u32 list \<Rightarrow> nat \<times> u32 \<Rightarrow> u32 list" where
  "sha1_round [a, b, c, d, e] (i, w) =
     (let (f, k) =
        (if i < 20 then ((b AND c) OR (NOT b AND d), 1518500249)
         else if i < 40 then (b XOR c XOR d, 1859775393)
         else if i < 60 then ((b AND c) OR (b AND d) OR (c AND d), 2400959708)
         else (b XOR c XOR d, 3395469782));
          temp = RotateLeft a 5 + f + e + k + w
      in [temp, a, RotateLeft b 30, c, d])"
| "sha1_round st _ = st"

definition Sha1_Transform :: "u32 list \<Rightarrow> byte list \<Rightarrow> u32 list" where
  "Sha1_Transform state block =
     map2 (+) state (foldl sha1_round state (zip [0..<80] (sha1_schedule block)))"

definition Sha1_new :: "u32 list hasher" where
  "Sha1_new = hasher_init kInit1"

definition Sha1_Update :: "u32 list hasher \<Rightarrow> byte list \<Rightarrow> u32 list hasher" where
  "Sha1_Update h data = hasher_update Sha1_Transform h data"

definition Sha1_Final :: "u32 list hasher \<Rightarrow> byte list" where
  "Sha1_Final h = concat (map word_bytes (hs_state (hasher_finish Sha1_Transform h)))"

definition GenerateUuidV5 :: "uuid \<Rightarrow> string \<Rightarrow> uuid" where
  "GenerateUuidV5 namespace_uuid name =
     (let digest = Sha1_Final (Sha1_Update (Sha1_Update Sha1_new namespace_uuid) (bytes_of name))
      in stamp_version 80 (take 16 digest))"

section \<open>Parsing what was formatted\<close>

lemma HexValue_kHex: "n < 16 \<Longrightarrow> HexValue (kHex ! n) = int n \<and> kHex ! n \<noteq> CHR ''-''"
proof -
  have "\<forall>n\<in>set [0..<16]. HexValue (kHex ! n) = int n \<and> kHex ! n \<noteq> CHR ''-''" by code_simp
  then show "n < 16 \<Longrightarrow> HexValue (kHex ! n) = int n \<and> kHex ! n \<noteq> CHR ''-''" by simp
qed

lemma nibble_bounds: "unat (drop_bit 4 (b::byte)) < 16" "unat (b AND 15) < 16"
proof -
  have "unat (drop_bit 4 b) = unat b div 16" unfolding unat_drop_bit_eq by (simp add: drop_bit_eq_div)
  moreover have "unat b < 256" using unsigned_less [of b] by simp
  ultimately show "unat (drop_bit 4 b) < 16" by simp
  have "b AND 15 = take_bit 4 b" by (simp add: take_bit_eq_mask mask_eq_exp_minus_1)
  then show "unat (b AND 15) < 16" by (simp add: unsigned_take_bit_eq take_bit_nat_less_exp [of 4, simplified])
qed

lemma nibbles_join: "word_of_int (push_bit 4 (uint (drop_bit 4 (b::byte)))) OR word_of_int (uint (b AND 15)) = b"
proof -
  have "word_of_int (push_bit 4 (uint (drop_bit 4 b))) = push_bit 4 (drop_bit 4 b)"
    by (simp add: push_bit_eq_mult word_of_int_uint flip: push_bit_of_int)
  moreover have m: "(15::byte) = mask 4" by (simp add: mask_eq_exp_minus_1)
  moreover have "push_bit 4 (drop_bit 4 b) OR (b AND 15) = b"
    unfolding m by (rule bit_word_eqI) (auto simp: bit_simps)
  ultimately show ?thesis by simp
qed


lemma uuid_loop_byte:
  assumes "us_nibble st = 0" "us_hi st < 16" "us_hi st < length (us_out st)"
  shows "uuid_loop st (hex_byte b @ s)
    = uuid_loop (st\<lparr>us_i := us_i st + 2, us_out := (us_out st)[us_hi st := b], us_nibble := 0,
                    us_hi := us_hi st + 1\<rparr>) s"
  using assms HexValue_kHex [OF nibble_bounds(1) [of b]] HexValue_kHex [OF nibble_bounds(2) [of b]]
    nibbles_join [of b]
  by (simp add: hex_byte_def uuid_step_def Let_def)

lemma uuid_loop_hyphen:
  "us_i st = us_expect st \<Longrightarrow> uuid_loop st (CHR ''-'' # s)
    = uuid_loop (st\<lparr>us_i := us_i st + 1, us_seen_hyphen := True,
                    us_expect := (if us_expect st = 8 then 13 else if us_expect st = 13 then 18
                                  else if us_expect st = 18 then 23 else us_expect st)\<rparr>) s"
  by (simp add: uuid_step_def)

lemma upt_16: "[0..<16] = [0, 1, 2, 3, 4, 5, 6, 7, 8, 9, 10, 11, 12, 13, 14, 15]"
  by code_simp

lemma less_16: "i < 16 \<Longrightarrow> i \<in> set [0, 1, 2, 3, 4, 5, 6, 7, 8, 9, 10, 11, 12, 13, 14, 15::nat]"
  unfolding upt_16 [symmetric] by simp

lemma uuid_loop_last_byte:
  "us_nibble st = 0 \<Longrightarrow> us_hi st < 16 \<Longrightarrow> us_hi st < length (us_out st) \<Longrightarrow> uuid_loop st (hex_byte b)
    = Inr (st\<lparr>us_i := us_i st + 2, us_out := (us_out st)[us_hi st := b], us_nibble := 0,
               us_hi := us_hi st + 1\<rparr>)"
  using uuid_loop_byte [of st b "[]"] by simp

lemma format_parse: "length u = 16 \<Longrightarrow> ParseUuid (FormatUuid u) = Inr u"
proof -
  assume len: "length u = 16"
  let ?out = "nil_uuid[0 := u!0, 1 := u!1, 2 := u!2, 3 := u!3, 4 := u!4, 5 := u!5, 6 := u!6, 7 := u!7,
    8 := u!8, 9 := u!9, 10 := u!10, 11 := u!11, 12 := u!12, 13 := u!13, 14 := u!14, 15 := u!15]"
  have "ParseUuid (FormatUuid u) = Inr ?out"
    by (simp add: FormatUuid_def upt_16 ParseUuid_def uuid_start_def nil_uuid_def
        uuid_loop_byte uuid_loop_last_byte uuid_loop_hyphen del: uuid_loop.simps(2)) (simp add: eval_nat_numeral)
  moreover have "?out ! i = u ! i" if "i < 16" for i
    using less_16 [OF that] by (auto simp: nil_uuid_def nth_list_update)
  then have "?out = u" by (intro nth_equalityI) (simp_all add: len nil_uuid_def)
  ultimately show ?thesis by simp
qed

text \<open>
  Every 16-byte identifier survives its text form: the parser reads back what the formatter wrote.
\<close>

theorem ParseUuid_FormatUuid: "length u = 16 \<Longrightarrow> ParseUuid (FormatUuid u) = Inr u"
  by (rule format_parse)

lemma ParseUuid_FormatUuid_witness:
  "ParseUuid (FormatUuid (replicate 15 7 @ [171])) = Inr (replicate 15 7 @ [171])"
  by (rule ParseUuid_FormatUuid) simp

section \<open>What the parser accepts\<close>

text \<open>
  The loop invariant after the characters \<open>p\<close>: hyphens so far stand at the first positions of
  8, 13, 18, 23; the other characters are the hexadecimal digits stored so far.
\<close>

definition hyphens :: "string \<Rightarrow> nat list" where
  "hyphens p = filter (\<lambda>i. p ! i = CHR ''-'') [0..<length p]"

definition uuid_digits :: "string \<Rightarrow> int list" where
  "uuid_digits p = map HexValue (filter (\<lambda>c. c \<noteq> CHR ''-'') p)"

definition byte_digits :: "byte \<Rightarrow> int list" where
  "byte_digits b = [uint (drop_bit 4 b), uint (b AND 15)]"

definition scan_ok :: "string \<Rightarrow> uuid_scan \<Rightarrow> bool" where
  "scan_ok p st \<longleftrightarrow>
     us_i st = length p \<and> length (us_out st) = 16 \<and> us_hi st \<le> 16 \<and>
     (\<exists>k\<le>4. hyphens p = take k [8, 13, 18, 23] \<and> us_seen_hyphen st = (0 < k) \<and>
        us_expect st = [8, 13, 18, 23, 23] ! k \<and> (k = 4 \<longrightarrow> 23 < length p)) \<and>
     (us_nibble st = 0 \<and> uuid_digits p = concat (map byte_digits (take (us_hi st) (us_out st))) \<or>
      us_nibble st = 1 \<and> us_hi st < 16 \<and>
      (\<exists>v. 0 \<le> v \<and> v < 16 \<and> us_out st ! us_hi st = word_of_int (push_bit 4 v) \<and>
        uuid_digits p = concat (map byte_digits (take (us_hi st) (us_out st))) @ [v]))"

lemma hyphens_snoc: "hyphens (p @ [c]) = hyphens p @ (if c = CHR ''-'' then [length p] else [])"
  by (auto simp: hyphens_def nth_append intro!: filter_cong)

lemma uuid_digits_snoc:
  "uuid_digits (p @ [c]) = uuid_digits p @ (if c = CHR ''-'' then [] else [HexValue c])"
  by (simp add: uuid_digits_def)

lemma HexValue_less: "HexValue c < 16"
  by (simp add: HexValue_def Let_def)

lemma byte_digits_join:
  assumes "0 \<le> v" "v < 16" "0 \<le> w" "w < 16"
  shows "byte_digits (word_of_int (push_bit 4 v) OR word_of_int w) = [v, w]"
proof -
  from assms have "v \<in> set [0..15]" "w \<in> set [0..15]" by auto
  moreover have "\<forall>v\<in>set [0..15]. \<forall>w\<in>set [0..15].
      byte_digits (word_of_int (push_bit 4 v) OR word_of_int w) = [v, w]" by code_simp
  ultimately show ?thesis by blast
qed

lemma scan_ok_step:
  assumes "scan_ok p st" and "uuid_step st c = Inr st'"
  shows "scan_ok (p @ [c]) st'"
proof (cases "c = CHR ''-''")
  case True
  with assms obtain k where k: "k \<le> 4" "hyphens p = take k [8, 13, 18, 23]"
      "us_expect st = [8, 13, 18, 23, 23] ! k" "k = 4 \<longrightarrow> 23 < length p" "us_i st = length p"
    and st': "us_i st = us_expect st" "st' = st\<lparr>us_i := us_i st + 1, us_seen_hyphen := True,
        us_expect := (if us_expect st = 8 then 13 else if us_expect st = 13 then 18
                      else if us_expect st = 18 then 23 else us_expect st)\<rparr>"
    by (auto simp: scan_ok_def uuid_step_def split: if_splits)
  then have "k \<noteq> 4" by auto
  with k(1) have "k \<in> {0, 1, 2, 3}" by auto
  then have "\<exists>k'\<le>4. hyphens p @ [length p] = take k' [8, 13, 18, 23] \<and> 0 < k' \<and>
      us_expect st' = [8, 13, 18, 23, 23] ! k' \<and> (k' = 4 \<longrightarrow> 23 < length (p @ [c]))"
    using k st' by (intro exI [of _ "Suc k"]) auto
  with True assms(1) st'(2) k(5) show ?thesis
    by (simp add: scan_ok_def hyphens_snoc uuid_digits_snoc)
next
  case False
  then obtain w where w: "w = HexValue c" "0 \<le> w" "w < 16" "us_hi st < 16"
    using assms(2) HexValue_less [of c] by (auto simp: uuid_step_def Let_def split: if_splits)
  show ?thesis
  proof (cases "us_nibble st = 0")
    case True
    with False w assms show ?thesis
      by (auto simp: scan_ok_def uuid_step_def Let_def hyphens_snoc uuid_digits_snoc)
  next
    case nz: False
    with assms(1) obtain v where v: "0 \<le> v" "v < 16" "us_out st ! us_hi st = word_of_int (push_bit 4 v)"
        "uuid_digits p = concat (map byte_digits (take (us_hi st) (us_out st))) @ [v]" "length (us_out st) = 16"
      by (auto simp: scan_ok_def)
    have "take (us_hi st + 1) ((us_out st)[us_hi st := x]) = take (us_hi st) (us_out st) @ [x]" for x
      using w(4) v(5) by (simp add: take_Suc_conv_app_nth)
    with nz False w v assms byte_digits_join [OF v(1,2) w(2,3)] show ?thesis
      by (auto simp: scan_ok_def uuid_step_def Let_def hyphens_snoc uuid_digits_snoc)
  qed
qed

lemma scan_ok_loop: "scan_ok p st \<Longrightarrow> uuid_loop st s = Inr st' \<Longrightarrow> scan_ok (p @ s) st'"
proof (induction s arbitrary: p st)
  case (Cons c s)
  then obtain t where "uuid_step st c = Inr t" "uuid_loop t s = Inr st'" by (auto simp: rbind_Inr)
  with Cons.IH [of "p @ [c]" t] Cons.prems scan_ok_step show ?case by simp
qed simp

text \<open>
  Whatever the parser accepts has 32 hexadecimal digits, in either case, that spell the bytes of the
  result, and hyphens only at a non-empty initial part of the four canonical positions.
\<close>

theorem ParseUuid_sound:
  assumes "ParseUuid s = Inr u"
  shows "length u = 16 \<and> uuid_digits s = concat (map byte_digits u) \<and>
    (\<exists>k\<in>{1, 2, 3, 4}. hyphens s = take k [8, 13, 18, 23])"
proof -
  from assms obtain st where st: "uuid_loop uuid_start s = Inr st" "us_hi st = 16" "us_nibble st = 0"
      "us_seen_hyphen st" "u = us_out st"
    by (auto simp: ParseUuid_def rbind_Inr split: if_splits)
  have "scan_ok [] uuid_start"
    by (simp add: scan_ok_def uuid_start_def nil_uuid_def hyphens_def uuid_digits_def)
  from scan_ok_loop [OF this st(1)] have ok: "scan_ok s st" by simp
  then obtain k where "k \<le> 4" "0 < k" "hyphens s = take k [8, 13, 18, 23]"
    using st(4) by (auto simp: scan_ok_def)
  then have "\<exists>k\<in>{1, 2, 3, 4}. hyphens s = take k [8, 13, 18, 23]" by (intro bexI [of _ k]) auto
  with ok st show ?thesis by (simp add: scan_ok_def)
qed

text \<open>The parser takes upper case, and a text that has the first hyphen only.\<close>

lemma ParseUuid_sound_witness:
  "hyphens ''0123ABCD-45670123456701234567abcd'' = [8] \<and>
   length (projr (ParseUuid ''0123ABCD-45670123456701234567abcd'')) = 16"
proof -
  have p: "ParseUuid ''0123ABCD-45670123456701234567abcd''
      = Inr [1, 35, 171, 205, 69, 103, 1, 35, 69, 103, 1, 35, 69, 103, 171, 205]" by code_simp
  have "hyphens ''0123ABCD-45670123456701234567abcd'' = [8]" by code_simp
  with ParseUuid_sound [OF p] p show ?thesis by simp
qed

section \<open>Generated identifiers\<close>

lemma stamp_version_bytes:
  assumes "length u = 16"
  shows "length (stamp_version v u) = 16 \<and> stamp_version v u ! 6 = (u ! 6 AND 15) OR v \<and>
    stamp_version v u ! 8 = (u ! 8 AND 63) OR 128 \<and>
    (\<forall>i. i \<noteq> 6 \<longrightarrow> i \<noteq> 8 \<longrightarrow> stamp_version v u ! i = u ! i)"
  using assms by (simp add: stamp_version_def Let_def)

lemma length_sha1_round [simp]: "length (sha1_round st iw) = length st"
  by (cases "(st, iw)" rule: sha1_round.cases) (auto simp: Let_def)

lemma length_foldl_Sha1: "length st = 5 \<Longrightarrow> length (foldl Sha1_Transform st bs) = 5"
proof (induction bs arbitrary: st)
  case (Cons b bs)
  have "length (foldl sha1_round st iws) = length st" for iws
    by (induction iws arbitrary: st) simp_all
  then have "length (Sha1_Transform st b) = 5" using Cons.prems by (simp add: Sha1_Transform_def)
  with Cons.IH show ?case by simp
qed simp

interpretation sha1_stream: streaming_hash hasher_ok Sha1_Update
  by unfold_locales (simp_all add: Sha1_Update_def hasher_update_ok hasher_update_two hasher_update_none)

definition sha1_spec :: "byte list \<Rightarrow> byte list" where
  "sha1_spec m = concat (map word_bytes (foldl Sha1_Transform kInit1 (blocks64 (sha_pad m))))"

lemma length_sha1_spec: "length (sha1_spec m) = 20"
  unfolding sha1_spec_def
  by (subst length_concat_const [where n = 4]) (simp_all add: word_bytes_def length_foldl_Sha1 kInit1_def)

lemma sha1_two_pieces: "Sha1_Final (Sha1_Update (Sha1_Update Sha1_new a) b) = sha1_spec (a @ b)"
proof -
  have "hasher_ok Sha1_new" by (simp add: Sha1_new_def hasher_init_def hasher_ok_def)
  then show ?thesis
    by (simp add: sha1_stream.absorb_two) (simp add: Sha1_Final_def Sha1_Update_def Sha1_new_def sha1_spec_def hasher_md)
qed

lemma stamped_bits:
  "drop_bit 4 ((x AND 15) OR 80 :: byte) = 5" "drop_bit 4 ((x AND 15) OR 64 :: byte) = 4"
  "drop_bit 6 ((x AND 63) OR 128 :: byte) = 2"
  by (simp_all add: drop_bit_or drop_bit_and)

text \<open>
  A name-based identifier is 16 bytes, carries version 5 and the RFC 4122 variant, is never nil, and
  is the SHA-1 of the namespace bytes followed by the name's, so equal concatenations give equal
  identifiers.
\<close>

theorem GenerateUuidV5_spec:
  "length (GenerateUuidV5 ns name) = 16 \<and>
   drop_bit 4 (GenerateUuidV5 ns name ! 6) = 5 \<and> drop_bit 6 (GenerateUuidV5 ns name ! 8) = 2 \<and>
   \<not> IsNil (GenerateUuidV5 ns name) \<and>
   GenerateUuidV5 ns name = stamp_version 80 (take 16 (sha1_spec (ns @ bytes_of name)))"
proof -
  let ?u = "GenerateUuidV5 ns name"
  have u: "?u = stamp_version 80 (take 16 (sha1_spec (ns @ bytes_of name)))"
    by (simp add: GenerateUuidV5_def sha1_two_pieces)
  have "length (take 16 (sha1_spec (ns @ bytes_of name))) = 16" by (simp add: length_sha1_spec)
  from stamp_version_bytes [OF this, of 80] u
  have b: "length ?u = 16" "drop_bit 4 (?u ! 6) = 5" "drop_bit 6 (?u ! 8) = 2" by (auto simp: stamped_bits)
  have "?u ! 6 \<noteq> 0" using b(2) by auto
  then have "\<not> IsNil ?u" using b(1) by (auto simp: IsNil_def list_all_length intro!: exI [of _ 6])
  with b u show ?thesis by simp
qed

lemma GenerateUuid_stamped:
  assumes "length r = 16"
  shows "length (GenerateUuid r) = 16 \<and> drop_bit 4 (GenerateUuid r ! 6) = 4 \<and> \<not> IsNil (GenerateUuid r)"
proof -
  from stamp_version_bytes [OF assms, of 64]
  have b: "length (GenerateUuid r) = 16" "drop_bit 4 (GenerateUuid r ! 6) = 4"
    by (auto simp: GenerateUuid_def stamped_bits)
  then have "GenerateUuid r ! 6 \<noteq> 0" by auto
  with b(1) have "\<not> IsNil (GenerateUuid r)" by (auto simp: IsNil_def list_all_length intro!: exI [of _ 6])
  with b show ?thesis by simp
qed

end
