(* ===== verification/TaskTypes.thy ===== *)
theory TaskTypes
  imports Uuid
begin

text \<open>
  The task model: engine/task/task_types.h and .cpp, task_definition.h, task_instance.h,
  engine/resources/resource_spec.h and .cpp, engine/scheduler/task_state_machine.cpp. A 64-bit
  integer that is only copied and compared is an \<open>int\<close>; the \<open>double\<close> of the retry policy, which
  the modelled code only carries, is its 64-bit pattern.
\<close>

section \<open>Data\<close>

type_synonym ArtifactRef = string

datatype TaskStatus = Pending | Running | Succeeded | Failed | Cancelled | Skipped

datatype CancellationPolicy = Cooperative | BestEffort
datatype CachePolicy = Cacheable | Never
datatype FailurePolicy = PolSkipped | PolFailed

record RetryPolicy =
  rp_max_attempts :: int
  rp_base_ns :: int
  rp_multiplier :: u64
  rp_max_ns :: int

record TaskMetadata =
  md_retry :: RetryPolicy
  md_cancellation :: CancellationPolicy
  md_cache :: CachePolicy
  md_failure :: FailurePolicy
  md_deterministic :: bool
  md_attempts :: int
  md_created_at_ns :: int
  md_updated_at_ns :: int

record ResourceSpec =
  rs_cores :: int
  rs_ram_bytes :: int
  rs_gpus :: int
  rs_gpu_mem_bytes :: int
  rs_temp_disk_bytes :: int

record ResourceProfile =
  pf_name :: string
  pf_capabilities :: "string list"
  pf_capacity :: ResourceSpec
  pf_max_concurrency :: int

record InputSchema =
  is_artifact_kinds :: "string list"
  is_allow_external :: bool

record OutputSchema =
  os_artifact_kinds :: "string list"

record TaskDefinition =
  td_type :: string
  td_inputs :: InputSchema
  td_outputs :: OutputSchema
  td_parameters_schema_json :: string
  td_requirements :: ResourceSpec

record TaskInstance =
  ti_id :: uuid
  ti_definition :: TaskDefinition
  ti_inputs :: "ArtifactRef list"
  ti_outputs :: "ArtifactRef list"
  ti_config_json :: string
  ti_state :: TaskStatus
  ti_metadata :: TaskMetadata

text \<open>The default member initializers; \<open>0x4000000000000000\<close> is the pattern of 2.0.\<close>

definition default_retry :: RetryPolicy where
  "default_retry = \<lparr>rp_max_attempts = 2, rp_base_ns = 1000000000, rp_multiplier = 4611686018427387904,
     rp_max_ns = 60000000000\<rparr>"

definition default_metadata :: TaskMetadata where
  "default_metadata = \<lparr>md_retry = default_retry, md_cancellation = Cooperative, md_cache = Cacheable,
     md_failure = PolSkipped, md_deterministic = False, md_attempts = 0, md_created_at_ns = 0,
     md_updated_at_ns = 0\<rparr>"

definition default_spec :: ResourceSpec where
  "default_spec = \<lparr>rs_cores = 1, rs_ram_bytes = 0, rs_gpus = 0, rs_gpu_mem_bytes = 0, rs_temp_disk_bytes = 0\<rparr>"

definition default_definition :: TaskDefinition where
  "default_definition = \<lparr>td_type = [], td_inputs = \<lparr>is_artifact_kinds = [], is_allow_external = False\<rparr>,
     td_outputs = \<lparr>os_artifact_kinds = []\<rparr>, td_parameters_schema_json = [], td_requirements = default_spec\<rparr>"

definition default_task :: TaskInstance where
  "default_task = \<lparr>ti_id = nil_uuid, ti_definition = default_definition, ti_inputs = [], ti_outputs = [],
     ti_config_json = [], ti_state = Pending, ti_metadata = default_metadata\<rparr>"

section \<open>Status names\<close>

fun status_num :: "TaskStatus \<Rightarrow> nat" where
  "status_num Pending = 0"
| "status_num Running = 1"
| "status_num Succeeded = 2"
| "status_num Failed = 3"
| "status_num Cancelled = 4"
| "status_num Skipped = 5"

definition kStatusNames :: "string list" where
  "kStatusNames = [''pending'', ''running'', ''succeeded'', ''failed'', ''cancelled'', ''skipped'']"

definition status_values :: "TaskStatus list" where
  "status_values = [Pending, Running, Succeeded, Failed, Cancelled, Skipped]"

definition TaskStatusName :: "TaskStatus \<Rightarrow> string" where
  "TaskStatusName status =
     (let i = status_num status in if i < 6 then kStatusNames ! i else ''pending'')"

definition ParseTaskStatus :: "string \<Rightarrow> TaskStatus res" where
  "ParseTaskStatus name =
     (case List.find (\<lambda>i. name = kStatusNames ! i) [0..<6] of
        Some i \<Rightarrow> Inr (status_values ! i)
      | None \<Rightarrow> Inl (throw_error kValidationDomain (''unknown task status: '' @ name)))"

fun IsTerminal :: "TaskStatus \<Rightarrow> bool" where
  "IsTerminal Succeeded = True"
| "IsTerminal Failed = True"
| "IsTerminal Cancelled = True"
| "IsTerminal Skipped = True"
| "IsTerminal _ = False"

text \<open>An \<open>enum class\<close> compares by its underlying integer.\<close>

instantiation TaskStatus :: linorder
begin

definition less_eq_TaskStatus :: "TaskStatus \<Rightarrow> TaskStatus \<Rightarrow> bool" where
  "less_eq_TaskStatus a b = (status_num a \<le> status_num b)"

definition less_TaskStatus :: "TaskStatus \<Rightarrow> TaskStatus \<Rightarrow> bool" where
  "less_TaskStatus a b = (status_num a < status_num b)"

instance
proof
  fix a b :: TaskStatus
  show "a \<le> b \<Longrightarrow> b \<le> a \<Longrightarrow> a = b"
    by (cases a; cases b) (simp_all add: less_eq_TaskStatus_def)
qed (auto simp: less_eq_TaskStatus_def less_TaskStatus_def)

end

lemma status_values_nth: "status_values ! status_num s = s"
  by (cases s) (simp_all add: status_values_def)

lemma TaskStatusName_simps [simp]:
  "TaskStatusName Pending = ''pending''" "TaskStatusName Running = ''running''"
  "TaskStatusName Succeeded = ''succeeded''" "TaskStatusName Failed = ''failed''"
  "TaskStatusName Cancelled = ''cancelled''" "TaskStatusName Skipped = ''skipped''"
  by (simp_all add: TaskStatusName_def kStatusNames_def)

lemma upt_6: "[0..<6] = [0, 1, 2, 3, 4, 5]"
  by code_simp

lemma ParseTaskStatus_Name [simp]: "ParseTaskStatus (TaskStatusName s) = Inr s"
  by (cases s) (simp_all add: ParseTaskStatus_def upt_6 kStatusNames_def status_values_def)

text \<open>
  A text parses to a status exactly when it is that status's canonical name; every other text is a
  \<open>kValidationDomain\<close> error.
\<close>

theorem ParseTaskStatus_iff:
  "(ParseTaskStatus name = Inr s \<longleftrightarrow> name = TaskStatusName s) \<and>
   ((\<exists>s. name = TaskStatusName s) \<or> (\<exists>m. ParseTaskStatus name = Inl (throw_error kValidationDomain m)))"
proof (cases "List.find (\<lambda>i. name = kStatusNames ! i) [0..<6]")
  case None
  then have "name \<noteq> TaskStatusName t" for t
    using ParseTaskStatus_Name [of t] by (auto simp: ParseTaskStatus_def)
  with None show ?thesis by (simp add: ParseTaskStatus_def) blast
next
  case (Some i)
  then have i: "i \<in> {0, 1, 2, 3, 4, 5}" "name = kStatusNames ! i"
    by (auto simp: upt_6 find_Some_iff split: if_splits)
  then have "name = TaskStatusName (status_values ! i)"
    by (auto simp: kStatusNames_def status_values_def)
  then show ?thesis by (metis ParseTaskStatus_Name sum.inject(2))
qed

section \<open>Resources\<close>

definition Fits :: "ResourceSpec \<Rightarrow> ResourceSpec \<Rightarrow> bool" where
  "Fits spec capacity \<longleftrightarrow>
     rs_cores spec \<le> rs_cores capacity \<and> rs_ram_bytes spec \<le> rs_ram_bytes capacity \<and>
     rs_gpus spec \<le> rs_gpus capacity \<and> rs_gpu_mem_bytes spec \<le> rs_gpu_mem_bytes capacity \<and>
     rs_temp_disk_bytes spec \<le> rs_temp_disk_bytes capacity"

fun HasCapabilities :: "string list \<Rightarrow> string list \<Rightarrow> bool" where
  "HasCapabilities worker [] = True"
| "HasCapabilities worker (c # required) = (if c \<notin> set worker then False else HasCapabilities worker required)"

lemma HasCapabilities_iff: "HasCapabilities worker required \<longleftrightarrow> set required \<subseteq> set worker"
  by (induction required) auto

lemma Fits_trans: "Fits a b \<Longrightarrow> Fits b c \<Longrightarrow> Fits a c"
  by (auto simp: Fits_def)

section \<open>The state machine\<close>

definition IsLegal :: "TaskStatus \<Rightarrow> TaskStatus \<Rightarrow> bool" where
  "IsLegal from_st to_st =
     (if from_st = Failed then to_st = Pending
      else if IsTerminal from_st then False
      else (case from_st of
              Pending \<Rightarrow> to_st = Running \<or> to_st = Cancelled \<or> to_st = Skipped \<or> to_st = Failed
            | Running \<Rightarrow> to_st = Succeeded \<or> to_st = Failed \<or> to_st = Cancelled
            | _ \<Rightarrow> False))"

definition Transition :: "TaskStatus \<Rightarrow> TaskStatus \<Rightarrow> TaskStatus res" where
  "Transition from_st to_st =
     (if \<not> IsLegal from_st to_st
      then Inl (throw_error kInternal (''illegal task state transition '' @ TaskStatusName from_st
                 @ '' -> '' @ TaskStatusName to_st))
      else Inr to_st)"

text \<open>The ratified state machine, as the header of task_state_machine.h lists it.\<close>

inductive lifecycle :: "TaskStatus \<Rightarrow> TaskStatus \<Rightarrow> bool" where
  start: "lifecycle Pending Running"
| cancel_pending: "lifecycle Pending Cancelled"
| skip: "lifecycle Pending Skipped"
| strict: "lifecycle Pending Failed"
| succeed: "lifecycle Running Succeeded"
| fail: "lifecycle Running Failed"
| cancel_running: "lifecycle Running Cancelled"
| retry: "lifecycle Failed Pending"

inductive_cases lifecycle_from_terminal:
  "lifecycle Succeeded t" "lifecycle Cancelled t" "lifecycle Skipped t"

inductive_simps lifecycle_simps: "lifecycle s t"

lemma IsLegal_lifecycle: "IsLegal s t \<longleftrightarrow> lifecycle s t"
  by (cases s; cases t) (simp_all add: IsLegal_def lifecycle_simps)

lemma Transition_Inr: "Transition s t = Inr r \<longleftrightarrow> IsLegal s t \<and> r = t"
  by (auto simp: Transition_def)

lemma final_states_absorb:
  "lifecycle\<^sup>*\<^sup>* s t \<Longrightarrow> s \<in> {Succeeded, Cancelled, Skipped} \<Longrightarrow> t = s"
  by (induction rule: converse_rtranclp_induct) (auto elim: lifecycle_from_terminal)

lemma runs_bounded_by_retries:
  "successively lifecycle (s # ss) \<Longrightarrow>
     count_list ss Running \<le> count_list ss Pending + (if s = Pending then 1 else 0)"
proof (induction ss arbitrary: s)
  case (Cons t ss)
  then have "lifecycle s t" "count_list ss Running \<le> count_list ss Pending + (if t = Pending then 1 else 0)"
    by simp_all
  moreover have "count_list ss Running \<le> count_list ss Pending" if "t = Running"
    using that calculation(2) by simp
  ultimately show ?case by (auto simp: lifecycle_simps)
qed simp

text \<open>
  C32: \<open>Transition\<close> accepts exactly the eight edges of the documented state machine; a task that reached
  succeeded, cancelled or skipped stays there; and along every legal history of a task the number of
  runs is at most one more than the number of returns to pending.
\<close>

theorem state_machine:
  "(Transition s t = Inr t \<longleftrightarrow> lifecycle s t) \<and>
   (s \<in> {Succeeded, Cancelled, Skipped} \<longrightarrow> lifecycle\<^sup>*\<^sup>* s t \<longrightarrow> t = s) \<and>
   (successively (\<lambda>a b. Transition a b = Inr b) (Pending # ss) \<longrightarrow>
      count_list ss Running \<le> Suc (count_list ss Pending))"
proof -
  have T: "(Transition a b = Inr b) = lifecycle a b" for a b
    by (simp add: Transition_Inr IsLegal_lifecycle)
  show ?thesis
    using runs_bounded_by_retries [of Pending ss] by (auto simp: T dest: final_states_absorb)
qed

lemma state_machine_witness:
  "count_list [Running, Failed, Pending, Running, Succeeded] Running \<le>
   Suc (count_list [Running, Failed, Pending, Running, Succeeded] Pending)"
proof -
  have "successively (\<lambda>a b. Transition a b = Inr b) (Pending # [Running, Failed, Pending, Running, Succeeded])"
    by code_simp
  then show ?thesis
    using state_machine [of Pending Running "[Running, Failed, Pending, Running, Succeeded]"] by blast
qed

end
