(* ===== verification/TaskGraph.thy ===== *)
theory TaskGraph
  imports TaskTypes "HOL-Library.AList"
begin

text \<open>
  engine/task/task_graph.cpp: the DAG handed to the scheduler. A \<open>std::map\<close> member is a partial map,
  the insertion order a list; \<open>map::at\<close> on a missing key throws. The lemmas show what the constructor
  and the mutators keep, that Kahn's loop returns and orders exactly the acyclic graphs, and what
  \<open>Validate\<close> accepts.
\<close>

record TaskGraph =
  tg_job_id :: uuid
  tg_tasks :: "uuid \<rightharpoonup> TaskInstance"
  tg_dependencies :: "uuid \<rightharpoonup> uuid list"
  tg_dependents :: "uuid \<rightharpoonup> uuid list"
  tg_order :: "uuid list"

section \<open>Operations\<close>

definition new_graph :: "uuid \<Rightarrow> TaskGraph" where
  "new_graph job = \<lparr>tg_job_id = job, tg_tasks = Map.empty, tg_dependencies = Map.empty,
     tg_dependents = Map.empty, tg_order = []\<rparr>"

definition Contains :: "TaskGraph \<Rightarrow> uuid \<Rightarrow> bool" where
  "Contains g tid \<longleftrightarrow> tg_tasks g tid \<noteq> None"

definition AddTask :: "byte list \<Rightarrow> TaskInstance \<Rightarrow> TaskGraph \<Rightarrow> uuid res \<times> TaskGraph" where
  "AddTask random task0 g =
     (let task = (if IsNil (ti_id task0) then task0\<lparr>ti_id := GenerateUuid random\<rparr> else task0);
          tid = ti_id task
      in if tg_tasks g tid \<noteq> None
         then (Inl (throw_error kSchedTaskUnknown (''duplicate task id in graph: '' @ FormatUuid tid)), g)
         else (Inr tid, g\<lparr>tg_tasks := (tg_tasks g)(tid \<mapsto> task),
                         tg_dependencies := (tg_dependencies g)(tid \<mapsto> []),
                         tg_dependents := (tg_dependents g)(tid \<mapsto> []),
                         tg_order := tg_order g @ [tid]\<rparr>))"

definition Require :: "TaskGraph \<Rightarrow> uuid \<Rightarrow> TaskInstance res" where
  "Require g tid =
     (case tg_tasks g tid of
        None \<Rightarrow> Inl (throw_error kSchedTaskUnknown (''unknown task '' @ FormatUuid tid))
      | Some t \<Rightarrow> Inr t)"

text \<open>\<open>operator[]\<close> of a map of vectors: a missing entry is the empty vector.\<close>

definition vec_at :: "('k \<rightharpoonup> 'v list) \<Rightarrow> 'k \<Rightarrow> 'v list" where
  "vec_at m k = (case m k of None \<Rightarrow> [] | Some vs \<Rightarrow> vs)"

definition AddDependency :: "uuid \<Rightarrow> uuid \<Rightarrow> TaskGraph \<Rightarrow> unit res \<times> TaskGraph" where
  "AddDependency task_id dependency_id g =
     (case Require g task_id of Inl e \<Rightarrow> (Inl e, g) | Inr _ \<Rightarrow>
      case Require g dependency_id of Inl e \<Rightarrow> (Inl e, g) | Inr _ \<Rightarrow>
        let deps = vec_at (tg_dependencies g) task_id in
        if dependency_id \<notin> set deps
        then (Inr (), g\<lparr>tg_dependencies := (tg_dependencies g)(task_id \<mapsto> deps @ [dependency_id]),
                        tg_dependents := (tg_dependents g)(dependency_id \<mapsto>
                          vec_at (tg_dependents g) dependency_id @ [task_id])\<rparr>)
        else (Inr (), g\<lparr>tg_dependencies := (tg_dependencies g)(task_id \<mapsto> deps)\<rparr>))"

definition GetTask :: "TaskGraph \<Rightarrow> uuid \<Rightarrow> TaskInstance res" where
  "GetTask g tid = Require g tid"

text \<open>Mutation through the reference that \<open>MutableTask\<close> returns.\<close>

definition MutableTask :: "uuid \<Rightarrow> (TaskInstance \<Rightarrow> TaskInstance) \<Rightarrow> TaskGraph \<Rightarrow> unit res \<times> TaskGraph" where
  "MutableTask tid f g =
     (case tg_tasks g tid of
        None \<Rightarrow> (Inl (throw_error kSchedTaskUnknown (''unknown task '' @ FormatUuid tid)), g)
      | Some t \<Rightarrow> (Inr (), g\<lparr>tg_tasks := (tg_tasks g)(tid \<mapsto> f t)\<rparr>))"

definition DependenciesOf :: "TaskGraph \<Rightarrow> uuid \<Rightarrow> uuid list res" where
  "DependenciesOf g tid = rbind (Require g tid) (\<lambda>_. map_at (tg_dependencies g) tid)"

definition DependentsOf :: "TaskGraph \<Rightarrow> uuid \<Rightarrow> uuid list res" where
  "DependentsOf g tid = rbind (Require g tid) (\<lambda>_. map_at (tg_dependents g) tid)"

definition TaskIds :: "TaskGraph \<Rightarrow> uuid list" where
  "TaskIds g = tg_order g"

section \<open>Kahn's algorithm\<close>

text \<open>
  \<open>in_degree\<close> is an association list with the default 0 of \<open>operator[]\<close>. \<open>relax\<close> is the inner loop
  \<open>if (--in_degree[dependent] == 0) ready.push_back(dependent)\<close>.
\<close>

definition deg_get :: "(uuid \<times> int) list \<Rightarrow> uuid \<Rightarrow> int" where
  "deg_get deg v = (case map_of deg v of None \<Rightarrow> 0 | Some n \<Rightarrow> n)"

fun relax :: "uuid list \<Rightarrow> (uuid \<times> int) list \<Rightarrow> uuid list \<Rightarrow> (uuid \<times> int) list \<times> uuid list" where
  "relax [] deg ready = (deg, ready)"
| "relax (d # ds) deg ready =
     (let n = deg_get deg d - 1
      in relax ds (AList.update d n deg) (if n = 0 then ready @ [d] else ready))"

definition npos :: "(uuid \<times> int) list \<Rightarrow> nat" where
  "npos deg = length (filter (\<lambda>p. 0 < snd p) deg)"

lemma npos_update:
  "npos (AList.update d n deg) + (if 0 < deg_get deg d then 1 else 0) = npos deg + (if 0 < n then 1 else 0)"
  by (induction deg) (auto simp: npos_def deg_get_def)

lemma relax_bound:
  "relax ds deg ready = (deg', ready') \<Longrightarrow> npos deg' + length ready' \<le> npos deg + length ready"
proof (induction ds arbitrary: deg ready)
  case (Cons d ds)
  let ?n = "deg_get deg d - 1"
  from Cons have "npos deg' + length ready'
      \<le> npos (AList.update d ?n deg) + length (if ?n = 0 then ready @ [d] else ready)"
    by (simp add: Let_def)
  with npos_update [of d ?n deg] show ?case by (auto split: if_splits)
qed simp

function kahn :: "TaskGraph \<Rightarrow> (uuid \<times> int) list \<Rightarrow> uuid list \<Rightarrow> uuid list \<Rightarrow> uuid list res" where
  "kahn g deg [] order = Inr order"
| "kahn g deg (tid # ready) order =
     rbind (map_at (tg_dependents g) tid) (\<lambda>ds.
       let (deg', ready') = relax ds deg ready in kahn g deg' ready' (order @ [tid]))"
  by pat_completeness auto
termination
  by (relation "measure (\<lambda>(_, deg, ready, _). npos deg + length ready)")
     (auto dest!: relax_bound [OF sym])

text \<open>The keys of \<open>dependencies_\<close> are the inserted ids; \<open>order.size()\<close> is compared with \<open>tasks_.size()\<close>.\<close>

definition initial_degrees :: "TaskGraph \<Rightarrow> (uuid \<times> int) list" where
  "initial_degrees g = map (\<lambda>tid. (tid, int (length (vec_at (tg_dependencies g) tid)))) (tg_order g)"

definition TopologicalOrder :: "TaskGraph \<Rightarrow> uuid list res" where
  "TopologicalOrder g =
     (let in_degree = initial_degrees g;
          ready = filter (\<lambda>tid. deg_get in_degree tid = 0) (tg_order g)
      in rbind (kahn g in_degree ready []) (\<lambda>order.
           if length order \<noteq> length (tg_order g)
           then Inl (throw_error kSchedDagCycle ''task graph contains a cycle'')
           else Inr order))"

section \<open>Validation\<close>

definition bump :: "ArtifactRef \<Rightarrow> (ArtifactRef \<rightharpoonup> int) \<Rightarrow> (ArtifactRef \<rightharpoonup> int)" where
  "bump ref m = m(ref \<mapsto> (case m ref of None \<Rightarrow> 0 | Some n \<Rightarrow> n) + 1)"

definition count_producers :: "TaskGraph \<Rightarrow> uuid list \<Rightarrow> (ArtifactRef \<rightharpoonup> int) res" where
  "count_producers g deps =
     rbind (traverse_res (\<lambda>dep. rbind (map_at (tg_tasks g) dep) (\<lambda>t. Inr (ti_outputs t))) deps)
       (\<lambda>outs. Inr (fold bump (concat outs) Map.empty))"

definition check_input :: "uuid \<Rightarrow> (ArtifactRef \<rightharpoonup> int) \<Rightarrow> ArtifactRef set \<Rightarrow> ArtifactRef \<Rightarrow> unit res" where
  "check_input tid producers external ref =
     (let count = (case producers ref of None \<Rightarrow> 0 | Some n \<Rightarrow> n) in
      if count > 1 then Inl (throw_error kSchedDagTypeMismatch
          (''input '' @ ref @ '' of task '' @ FormatUuid tid @ '' is produced by '' @ int_to_string count
           @ '' dependencies (exactly one required)''))
      else if count = 0 \<and> ref \<notin> external then Inl (throw_error kSchedDagTypeMismatch
          (''input '' @ ref @ '' of task '' @ FormatUuid tid
           @ '' is not produced by any dependency and is not a declared external input''))
      else Inr ())"

definition check_types :: "TaskGraph \<Rightarrow> ArtifactRef set \<Rightarrow> uuid \<Rightarrow> unit res" where
  "check_types g external tid =
     rbind (map_at (tg_dependencies g) tid) (\<lambda>deps.
     rbind (count_producers g deps) (\<lambda>producers.
     rbind (map_at (tg_tasks g) tid) (\<lambda>t.
       check_all (check_input tid producers external) (ti_inputs t))))"

definition check_resources :: "TaskGraph \<Rightarrow> ResourceProfile list \<Rightarrow> uuid \<Rightarrow> unit res" where
  "check_resources g worker_pool tid =
     rbind (map_at (tg_tasks g) tid) (\<lambda>t.
       if list_ex (\<lambda>profile. Fits (td_requirements (ti_definition t)) (pf_capacity profile)) worker_pool
       then Inr ()
       else Inl (throw_error kSchedDagResourceInfeasible
          (''task '' @ FormatUuid tid @ '' ('' @ td_type (ti_definition t)
           @ '') requirements fit no worker profile'')))"

definition Validate :: "TaskGraph \<Rightarrow> ResourceProfile list \<Rightarrow> ArtifactRef list \<Rightarrow> unit res" where
  "Validate g worker_pool external_inputs =
     rbind (TopologicalOrder g) (\<lambda>_.
     rbind (check_all (check_types g (set external_inputs)) (tg_order g)) (\<lambda>_.
       check_all (check_resources g worker_pool) (tg_order g)))"

section \<open>Well-formed graphs\<close>

definition depends :: "TaskGraph \<Rightarrow> uuid \<Rightarrow> uuid \<Rightarrow> bool" where
  "depends g a b \<longleftrightarrow> b \<in> set (vec_at (tg_dependencies g) a)"

definition graph_wf :: "TaskGraph \<Rightarrow> bool" where
  "graph_wf g \<longleftrightarrow>
     distinct (tg_order g) \<and>
     dom (tg_tasks g) = set (tg_order g) \<and>
     dom (tg_dependencies g) = set (tg_order g) \<and>
     dom (tg_dependents g) = set (tg_order g) \<and>
     (\<forall>tid t. tg_tasks g tid = Some t \<longrightarrow> ti_id t = tid) \<and>
     (\<forall>a. distinct (vec_at (tg_dependencies g) a)) \<and>
     (\<forall>a. distinct (vec_at (tg_dependents g) a)) \<and>
     (\<forall>a b. depends g a b \<longrightarrow> a \<in> set (tg_order g) \<and> b \<in> set (tg_order g)) \<and>
     (\<forall>a b. b \<in> set (vec_at (tg_dependents g) a) \<longleftrightarrow> depends g b a)"

lemma graph_wf_new: "graph_wf (new_graph job)"
  by (simp add: graph_wf_def new_graph_def depends_def vec_at_def)

lemma Require_Inr: "Require g tid = Inr t \<longleftrightarrow> tg_tasks g tid = Some t"
  by (simp add: Require_def split: option.split)

lemma vec_at_upd: "vec_at (m(k \<mapsto> v)) x = (if x = k then v else vec_at m x)"
  by (simp add: vec_at_def)

lemma vec_at_notin: "k \<notin> dom m \<Longrightarrow> vec_at m k = []"
  by (auto simp: vec_at_def dom_def)

lemma vec_at_fresh: "m k = None \<Longrightarrow> vec_at (m(k \<mapsto> [])) = vec_at m"
  by (auto simp: vec_at_def)

lemma graph_wf_known: "graph_wf g \<Longrightarrow> (\<exists>t. tg_tasks g a = Some t) \<longleftrightarrow> a \<in> set (tg_order g)"
  by (auto simp: graph_wf_def dom_def)

lemma graph_wf_maps:
  assumes "graph_wf g" "a \<in> set (tg_order g)"
  shows "\<exists>t ds es. tg_tasks g a = Some t \<and> ti_id t = a \<and> tg_dependencies g a = Some ds \<and> tg_dependents g a = Some es"
proof -
  have "a \<in> dom (tg_tasks g)" "a \<in> dom (tg_dependencies g)" "a \<in> dom (tg_dependents g)"
    "\<forall>k t. tg_tasks g k = Some t \<longrightarrow> ti_id t = k"
    using assms by (simp_all add: graph_wf_def)
  then show ?thesis by (auto dest!: domD)
qed

lemma graph_wf_unknown:
  "graph_wf g \<Longrightarrow> a \<notin> set (tg_order g) \<Longrightarrow>
     tg_tasks g a = None \<and> tg_dependencies g a = None \<and> tg_dependents g a = None"
  by (auto simp: graph_wf_def dom_def set_eq_iff)

lemma graph_wf_AddTask:
  assumes "graph_wf g" shows "graph_wf (snd (AddTask r t0 g))"
proof -
  define t where "t = (if IsNil (ti_id t0) then t0\<lparr>ti_id := GenerateUuid r\<rparr> else t0)"
  show ?thesis
  proof (cases "tg_tasks g (ti_id t)")
    case None
    with assms have new: "ti_id t \<notin> set (tg_order g)" by (metis graph_wf_known option.distinct(1))
    let ?g = "g\<lparr>tg_tasks := (tg_tasks g)(ti_id t \<mapsto> t), tg_dependencies := (tg_dependencies g)(ti_id t \<mapsto> []),
      tg_dependents := (tg_dependents g)(ti_id t \<mapsto> []), tg_order := tg_order g @ [ti_id t]\<rparr>"
    have v: "vec_at (tg_dependencies ?g) = vec_at (tg_dependencies g)"
        "vec_at (tg_dependents ?g) = vec_at (tg_dependents g)" "depends ?g = depends g"
      using graph_wf_unknown [OF assms new] by (auto simp: vec_at_fresh depends_def fun_eq_iff)
    have "graph_wf ?g"
      using assms new unfolding graph_wf_def v by auto
    with None show ?thesis by (simp add: AddTask_def Let_def flip: t_def)
  qed (use assms in \<open>simp add: AddTask_def Let_def flip: t_def\<close>)
qed

lemma graph_wf_AddDependency:
  assumes "graph_wf g" shows "graph_wf (snd (AddDependency a b g))"
proof (cases "a \<in> set (tg_order g) \<and> b \<in> set (tg_order g) \<and> \<not> depends g a b")
  case True
  then obtain s t where st: "Require g a = Inr s" "Require g b = Inr t"
    using True graph_wf_known [OF assms, of a] graph_wf_known [OF assms, of b] by (auto simp: Require_Inr)
  let ?g = "g\<lparr>tg_dependencies := (tg_dependencies g)(a \<mapsto> vec_at (tg_dependencies g) a @ [b]),
    tg_dependents := (tg_dependents g)(b \<mapsto> vec_at (tg_dependents g) b @ [a])\<rparr>"
  have v: "vec_at (tg_dependencies ?g) x = vec_at (tg_dependencies g) x @ (if x = a then [b] else [])"
      "vec_at (tg_dependents ?g) x = vec_at (tg_dependents g) x @ (if x = b then [a] else [])"
      "depends ?g x y \<longleftrightarrow> depends g x y \<or> x = a \<and> y = b" for x y
    by (auto simp: vec_at_upd depends_def)
  have "a \<notin> set (vec_at (tg_dependents g) b)" using True assms by (auto simp: graph_wf_def)
  with True assms have "graph_wf ?g" unfolding graph_wf_def v by (auto simp: depends_def)
  with True st show ?thesis by (simp add: AddDependency_def Let_def depends_def)
next
  case False
  show ?thesis
  proof (cases "a \<in> set (tg_order g) \<and> b \<in> set (tg_order g)")
    case True
    then have d: "b \<in> set (vec_at (tg_dependencies g) a)" using False by (simp add: depends_def)
    then have "(tg_dependencies g)(a \<mapsto> vec_at (tg_dependencies g) a) = tg_dependencies g"
      by (cases "tg_dependencies g a") (auto simp: vec_at_def fun_eq_iff)
    with d assms show ?thesis by (auto simp: AddDependency_def split: sum.split)
  next
    case False
    then have "\<not> (\<exists>s. Require g a = Inr s) \<or> \<not> (\<exists>t. Require g b = Inr t)"
      using graph_wf_known [OF assms] by (simp add: Require_Inr)
    with assms show ?thesis by (auto simp: AddDependency_def split: sum.split)
  qed
qed

lemma graph_wf_MutableTask:
  "graph_wf g \<Longrightarrow> (\<And>t. ti_id (f t) = ti_id t) \<Longrightarrow> graph_wf (snd (MutableTask tid f g))"
  by (auto simp: MutableTask_def graph_wf_def depends_def split: option.split)

section \<open>Kahn's loop orders exactly the acyclic graphs\<close>

text \<open>An order lists every task after its dependencies.\<close>

definition deps_first :: "TaskGraph \<Rightarrow> uuid list \<Rightarrow> bool" where
  "deps_first g order \<longleftrightarrow> (\<forall>xs v ys. order = xs @ v # ys \<longrightarrow> set (vec_at (tg_dependencies g) v) \<subseteq> set xs)"

lemma deps_first_Nil: "deps_first g []"
  by (simp add: deps_first_def)

lemma deps_first_snoc:
  "deps_first g order \<Longrightarrow> set (vec_at (tg_dependencies g) v) \<subseteq> set order \<Longrightarrow> deps_first g (order @ [v])"
  unfolding deps_first_def
proof (intro allI impI)
  fix xs w ys
  assume d: "\<forall>xs v ys. order = xs @ v # ys \<longrightarrow> set (vec_at (tg_dependencies g) v) \<subseteq> set xs"
    and v: "set (vec_at (tg_dependencies g) v) \<subseteq> set order" and split: "order @ [v] = xs @ w # ys"
  show "set (vec_at (tg_dependencies g) w) \<subseteq> set xs"
  proof (cases ys rule: rev_cases)
    case Nil
    with split v show ?thesis by simp
  next
    case (snoc zs z)
    with split have "order = xs @ w # zs" by simp
    with d show ?thesis by blast
  qed
qed

definition open_deps :: "TaskGraph \<Rightarrow> uuid list \<Rightarrow> uuid \<Rightarrow> uuid list" where
  "open_deps g order v = filter (\<lambda>d. d \<notin> set order) (vec_at (tg_dependencies g) v)"

lemma deg_get_update: "deg_get (AList.update d n deg) v = (if v = d then n else deg_get deg v)"
  by (simp add: deg_get_def update_conv')

lemma relax_closed:
  "distinct ds \<Longrightarrow> relax ds deg ready = (deg', ready') \<Longrightarrow>
     (\<forall>v. deg_get deg' v = deg_get deg v - (if v \<in> set ds then 1 else 0)) \<and>
     ready' = ready @ filter (\<lambda>d. deg_get deg d = 1) ds"
proof (induction ds arbitrary: deg ready)
  case (Cons d ds)
  let ?n = "deg_get deg d - 1"
  have "filter (\<lambda>x. deg_get (AList.update d ?n deg) x = 1) ds = filter (\<lambda>x. deg_get deg x = 1) ds"
    using Cons.prems(1) by (intro filter_cong) (auto simp: deg_get_update)
  moreover have "(\<forall>v. deg_get deg' v = deg_get (AList.update d ?n deg) v - (if v \<in> set ds then 1 else 0)) \<and>
     ready' = (if ?n = 0 then ready @ [d] else ready) @ filter (\<lambda>x. deg_get (AList.update d ?n deg) x = 1) ds"
    using Cons.prems by (intro Cons.IH) (simp_all add: Let_def)
  ultimately show ?case using Cons.prems(1) by (auto simp: deg_get_update)
qed simp

definition kahn_inv :: "TaskGraph \<Rightarrow> (uuid \<times> int) list \<Rightarrow> uuid list \<Rightarrow> uuid list \<Rightarrow> bool" where
  "kahn_inv g deg ready order \<longleftrightarrow>
     distinct (order @ ready) \<and> set (order @ ready) \<subseteq> set (tg_order g) \<and> deps_first g order \<and>
     (\<forall>v\<in>set (tg_order g). deg_get deg v = int (length (open_deps g order v)) \<and>
        (deg_get deg v = 0 \<longleftrightarrow> v \<in> set order \<union> set ready))"

lemma open_deps_snoc:
  assumes "graph_wf g" "u \<notin> set order"
  shows "int (length (open_deps g (order @ [u]) v))
    = int (length (open_deps g order v)) - (if depends g v u then 1 else 0)"
proof -
  have eq: "open_deps g (order @ [u]) v = filter (\<lambda>d. d \<noteq> u) (open_deps g order v)"
    by (auto simp: open_deps_def intro: filter_cong)
  have dis: "distinct (open_deps g order v)" using assms(1) by (simp add: graph_wf_def open_deps_def)
  have mem: "u \<in> set (open_deps g order v) \<longleftrightarrow> depends g v u" using assms(2) by (simp add: open_deps_def depends_def)
  have "int (length (filter (\<lambda>d. d \<noteq> u) xs)) = int (length xs) - (if u \<in> set xs then 1 else 0)"
    if "distinct xs" for xs
    using that by (induction xs) (auto simp: filter_id_conv intro: arg_cong [where f = length])
  from this [OF dis] mem show ?thesis by (simp add: eq)
qed

lemma kahn_inv_step:
  assumes wf: "graph_wf g" and inv: "kahn_inv g deg (u # ready) order"
    and rel: "relax (vec_at (tg_dependents g) u) deg ready = (deg', ready')"
  shows "kahn_inv g deg' ready' (order @ [u])"
proof -
  let ?ds = "vec_at (tg_dependents g) u"
  have ds: "distinct ?ds" "\<And>v. v \<in> set ?ds \<longleftrightarrow> depends g v u" "\<And>v. v \<in> set ?ds \<Longrightarrow> v \<in> set (tg_order g)"
    using wf by (auto simp: graph_wf_def)
  from relax_closed [OF ds(1) rel] have deg': "\<And>v. deg_get deg' v = deg_get deg v - (if v \<in> set ?ds then 1 else 0)"
    and ready': "ready' = ready @ filter (\<lambda>d. deg_get deg d = 1) ?ds" by auto
  from inv have u: "u \<notin> set order" "u \<in> set (tg_order g)" "u \<notin> set ready" and dis: "distinct (order @ ready)"
    and sub: "set (order @ ready) \<subseteq> set (tg_order g)" and df: "deps_first g order"
    and deg: "\<And>v. v \<in> set (tg_order g) \<Longrightarrow> deg_get deg v = int (length (open_deps g order v))"
    and zero: "\<And>v. v \<in> set (tg_order g) \<Longrightarrow> deg_get deg v = 0 \<longleftrightarrow> v \<in> set order \<union> set (u # ready)"
    by (auto simp: kahn_inv_def)
  have deg2: "deg_get deg' v = int (length (open_deps g (order @ [u]) v))" if "v \<in> set (tg_order g)" for v
    using deg [OF that] open_deps_snoc [OF wf u(1), of v] by (simp add: deg' ds(2))
  have new: "v \<notin> set order \<and> v \<noteq> u \<and> v \<notin> set ready" if "v \<in> set ?ds" "deg_get deg v = 1" for v
    using zero [of v] that ds(3) [of v] by auto
  have "open_deps g order u = []" using deg [OF u(2)] zero [OF u(2)] by simp
  then have "set (vec_at (tg_dependencies g) u) \<subseteq> set order"
    by (auto simp: open_deps_def filter_empty_conv)
  then have "deps_first g (order @ [u])" by (rule deps_first_snoc [OF df])
  moreover have "distinct ((order @ [u]) @ ready')"
    using dis u ds(1) new by (auto simp: ready')
  moreover have "set ((order @ [u]) @ ready') \<subseteq> set (tg_order g)"
    using sub u ds(3) by (auto simp: ready')
  moreover have "deg_get deg' v = 0 \<longleftrightarrow> v \<in> set (order @ [u]) \<union> set ready'" if v: "v \<in> set (tg_order g)" for v
  proof (cases "v \<in> set ?ds")
    case True
    then have "deg_get deg v \<noteq> 0"
      using deg2 [OF v] deg' [of v] by auto
    with True zero [OF v] show ?thesis by (auto simp: deg' ready')
  next
    case False
    with zero [OF v] show ?thesis by (auto simp: deg' ready')
  qed
  ultimately show ?thesis using deg2 by (simp add: kahn_inv_def)
qed

lemma kahn_result:
  assumes "graph_wf g" and "kahn_inv g deg ready order"
  shows "\<exists>out. kahn g deg ready order = Inr out \<and> distinct out \<and> set out \<subseteq> set (tg_order g) \<and>
    deps_first g out \<and>
    (\<forall>v\<in>set (tg_order g). set (vec_at (tg_dependencies g) v) \<subseteq> set out \<longrightarrow> v \<in> set out)"
  using assms
proof (induction g deg ready order rule: kahn.induct)
  case (1 g deg order)
  then have "v \<in> set order" if "v \<in> set (tg_order g)" "set (vec_at (tg_dependencies g) v) \<subseteq> set order" for v
    using that by (auto simp: kahn_inv_def open_deps_def subset_iff filter_empty_conv)
  with 1 show ?case by (simp add: kahn_inv_def)
next
  case (2 g deg u ready order)
  then have "u \<in> set (tg_order g)" by (simp add: kahn_inv_def)
  with "2.prems"(1) obtain ds where ds: "tg_dependents g u = Some ds" by (meson graph_wf_maps)
  obtain deg' ready' where rel: "relax ds deg ready = (deg', ready')" by fastforce
  with ds "2.prems" have "kahn_inv g deg' ready' (order @ [u])"
    by (intro kahn_inv_step) (simp_all add: vec_at_def)
  from "2.IH" [OF map_at_Some [of "tg_dependents g", OF ds] rel [symmetric] refl "2.prems"(1) this]
    ds rel show ?case by (simp add: map_at_def Let_def)
qed

lemma deg_get_initial:
  "v \<in> set (tg_order g) \<Longrightarrow> deg_get (initial_degrees g) v = int (length (vec_at (tg_dependencies g) v))"
proof -
  have "map_of (map (\<lambda>k. (k, f k)) ks) v = (if v \<in> set ks then Some (f v) else None)"
    for ks :: "uuid list" and f :: "uuid \<Rightarrow> int"
    by (induction ks) auto
  then show "v \<in> set (tg_order g) \<Longrightarrow> ?thesis" by (simp add: deg_get_def initial_degrees_def)
qed

lemma kahn_inv_initial:
  assumes "graph_wf g"
  shows "kahn_inv g (initial_degrees g) (filter (\<lambda>v. deg_get (initial_degrees g) v = 0) (tg_order g)) []"
  using assms by (auto simp: kahn_inv_def graph_wf_def deps_first_Nil open_deps_def deg_get_initial)

text \<open>The dependency relation as a set of pairs (dependency, dependent).\<close>

definition dep_rel :: "TaskGraph \<Rightarrow> (uuid \<times> uuid) set" where
  "dep_rel g = {(d, v). depends g v d}"

lemma deps_first_acyclic:
  assumes "graph_wf g" "deps_first g out" "set (tg_order g) \<subseteq> set out" "distinct out"
  shows "acyclic (dep_rel g)"
proof (rule acyclicI_order)
  fix d v assume "(d, v) \<in> dep_rel g"
  then have d: "d \<in> set (vec_at (tg_dependencies g) v)" and v: "v \<in> set out"
    using assms by (auto simp: dep_rel_def depends_def graph_wf_def)
  from v obtain xs ys where split: "out = xs @ v # ys" by (meson split_list)
  with assms(2) d have "d \<in> set xs" by (auto simp: deps_first_def)
  with split assms(4) show "length (dropWhile (\<lambda>x. x \<noteq> v) out) < length (dropWhile (\<lambda>x. x \<noteq> d) out)"
    by (auto simp: dropWhile_append dest!: split_list)
qed

lemma closed_acyclic_all:
  assumes wf: "graph_wf g" and ac: "acyclic (dep_rel g)"
    and closed: "\<forall>v\<in>set (tg_order g). set (vec_at (tg_dependencies g) v) \<subseteq> set out \<longrightarrow> v \<in> set out"
  shows "set (tg_order g) \<subseteq> set out"
proof -
  have "dep_rel g \<subseteq> set (tg_order g) \<times> set (tg_order g)"
    using wf by (auto simp: dep_rel_def graph_wf_def)
  then have "finite (dep_rel g)" by (rule finite_subset) simp
  then have "wf (dep_rel g)" by (rule finite_acyclic_wf [OF _ ac])
  then have "v \<in> set (tg_order g) \<longrightarrow> v \<in> set out" for v
  proof (induction v rule: wf_induct_rule)
    case (less v)
    then have "\<forall>d\<in>set (vec_at (tg_dependencies g) v). d \<in> set (tg_order g) \<longrightarrow> d \<in> set out"
      by (auto simp: dep_rel_def depends_def)
    with closed wf show ?case by (auto simp: graph_wf_def depends_def)
  qed
  then show ?thesis by blast
qed

lemma distinct_subset_length:
  "distinct xs \<Longrightarrow> distinct ys \<Longrightarrow> set xs \<subseteq> set ys \<Longrightarrow> length xs = length ys \<longleftrightarrow> set ys \<subseteq> set xs"
  by (metis List.finite_set card_subset_eq distinct_card order_refl subset_antisym)

lemma topo_correct:
  assumes "graph_wf g"
  shows "(acyclic (dep_rel g) \<longrightarrow> (\<exists>out. TopologicalOrder g = Inr out \<and> distinct out \<and>
            set out = set (tg_order g) \<and> deps_first g out)) \<and>
         (\<not> acyclic (dep_rel g) \<longrightarrow>
            TopologicalOrder g = Inl (throw_error kSchedDagCycle ''task graph contains a cycle''))"
proof -
  from kahn_result [OF assms kahn_inv_initial [OF assms]] obtain out where
    out: "kahn g (initial_degrees g) (filter (\<lambda>v. deg_get (initial_degrees g) v = 0) (tg_order g)) [] = Inr out"
    "distinct out" "set out \<subseteq> set (tg_order g)" "deps_first g out"
    "\<forall>v\<in>set (tg_order g). set (vec_at (tg_dependencies g) v) \<subseteq> set out \<longrightarrow> v \<in> set out" by blast
  have "distinct (tg_order g)" using assms by (simp add: graph_wf_def)
  from distinct_subset_length [OF out(2) this out(3)]
  have len: "length out = length (tg_order g) \<longleftrightarrow> set (tg_order g) \<subseteq> set out" .
  with closed_acyclic_all [OF assms _ out(5)] deps_first_acyclic [OF assms out(4) _ out(2)]
  have "length out = length (tg_order g) \<longleftrightarrow> acyclic (dep_rel g)" by blast
  with out len show ?thesis by (auto simp: TopologicalOrder_def Let_def)
qed

lemma TopologicalOrder_returns:
  assumes "graph_wf g"
  shows "(\<exists>out. TopologicalOrder g = Inr out) \<longleftrightarrow> acyclic (dep_rel g)"
  using topo_correct [OF assms] by (cases "acyclic (dep_rel g)") auto

text \<open>
  What a client does to a graph. A write through \<open>MutableTask\<close> never touches the immutable id.
\<close>

datatype graph_call =
    CallAddTask "byte list" TaskInstance
  | CallAddDependency uuid uuid
  | CallMutate uuid "TaskInstance \<Rightarrow> TaskInstance"

fun graph_call_step :: "graph_call \<Rightarrow> TaskGraph \<Rightarrow> TaskGraph" where
  "graph_call_step (CallAddTask random t) g = snd (AddTask random t g)"
| "graph_call_step (CallAddDependency a b) g = snd (AddDependency a b g)"
| "graph_call_step (CallMutate tid f) g = snd (MutableTask tid (\<lambda>t. (f t)\<lparr>ti_id := ti_id t\<rparr>) g)"

lemma graph_wf_call: "graph_wf g \<Longrightarrow> graph_wf (graph_call_step c g)"
  by (cases c) (simp_all add: graph_wf_AddTask graph_wf_AddDependency graph_wf_MutableTask)

lemma calls_wf: "graph_wf (fold graph_call_step calls (new_graph job))"
proof (induction calls rule: rev_induct)
  case Nil
  show ?case by (simp add: graph_wf_new)
next
  case (snoc c calls)
  then show ?case by (simp add: graph_wf_call)
qed

text \<open>
  C40: whatever sequence of calls a client makes, failing ones included, the graph stays well-formed:
  its four containers have the same ids, no id or edge is repeated, every edge joins known tasks and
  is recorded on both sides.
\<close>

theorem graph_calls_wf: "graph_wf (fold graph_call_step calls (new_graph job))"
  by (rule calls_wf)

section \<open>What Validate accepts\<close>

definition task_of :: "TaskGraph \<Rightarrow> uuid \<Rightarrow> TaskInstance" where
  "task_of g v = (case tg_tasks g v of None \<Rightarrow> default_task | Some t \<Rightarrow> t)"

definition dep_outputs :: "TaskGraph \<Rightarrow> uuid \<Rightarrow> ArtifactRef list" where
  "dep_outputs g v = concat (map (\<lambda>d. ti_outputs (task_of g d)) (vec_at (tg_dependencies g) v))"

definition producer_count :: "TaskGraph \<Rightarrow> uuid \<Rightarrow> ArtifactRef \<Rightarrow> nat" where
  "producer_count g v ref = count_list (dep_outputs g v) ref"

lemma fold_bump:
  "(case fold bump refs m r of None \<Rightarrow> 0 | Some n \<Rightarrow> n)
    = (case m r of None \<Rightarrow> 0 | Some n \<Rightarrow> n) + int (count_list refs r)"
  by (induction refs arbitrary: m) (auto simp: bump_def)

lemma count_producers_wf:
  assumes "graph_wf g"
  shows "count_producers g (vec_at (tg_dependencies g) v) = Inr (fold bump (dep_outputs g v) Map.empty)"
proof -
  have "traverse_res (\<lambda>dep. rbind (map_at (tg_tasks g) dep) (\<lambda>t. Inr (ti_outputs t))) ds
      = Inr (map (\<lambda>d. ti_outputs (task_of g d)) ds)" if "set ds \<subseteq> set (tg_order g)" for ds
    using that
  proof (induction ds)
    case (Cons d ds)
    then obtain t where "tg_tasks g d = Some t" using graph_wf_maps [OF assms, of d] by auto
    with Cons show ?case by (simp add: task_of_def)
  qed simp
  moreover have "set (vec_at (tg_dependencies g) v) \<subseteq> set (tg_order g)"
    using assms by (auto simp: graph_wf_def depends_def)
  ultimately show ?thesis by (simp add: count_producers_def dep_outputs_def)
qed

lemma check_input_Inr:
  "check_input v (fold bump refs Map.empty) ext ref = Inr () \<longleftrightarrow>
     count_list refs ref = 1 \<or> count_list refs ref = 0 \<and> ref \<in> ext"
  using fold_bump [of refs Map.empty ref] by (auto simp: check_input_def Let_def)

lemma check_types_wf:
  assumes "graph_wf g" "v \<in> set (tg_order g)"
  shows "check_types g ext v
    = check_all (check_input v (fold bump (dep_outputs g v) Map.empty) ext) (ti_inputs (task_of g v))"
proof -
  from graph_wf_maps [OF assms] obtain t ds where
    t: "tg_tasks g v = Some t" "tg_dependencies g v = Some ds" by blast
  then have "vec_at (tg_dependencies g) v = ds" by (simp add: vec_at_def)
  with count_producers_wf [OF assms(1), of v] t show ?thesis
    by (simp add: check_types_def task_of_def)
qed

lemma check_types_Inr:
  assumes "graph_wf g" "v \<in> set (tg_order g)"
  shows "check_types g ext v = Inr () \<longleftrightarrow>
    (\<forall>ref\<in>set (ti_inputs (task_of g v)). producer_count g v ref = 1 \<or> producer_count g v ref = 0 \<and> ref \<in> ext)"
  by (simp add: check_types_wf [OF assms] check_all_Inr check_input_Inr producer_count_def)

lemma check_resources_wf:
  assumes "graph_wf g" "v \<in> set (tg_order g)"
  shows "check_resources g pool v = Inr () \<longleftrightarrow>
    (\<exists>p\<in>set pool. Fits (td_requirements (ti_definition (task_of g v))) (pf_capacity p))"
  using graph_wf_maps [OF assms] by (auto simp: check_resources_def task_of_def list_ex_iff split: if_splits)

lemma Validate_accepts:
  assumes "graph_wf g"
  shows "Validate g pool ext = Inr () \<longleftrightarrow>
    acyclic (dep_rel g) \<and>
    (\<forall>v\<in>set (tg_order g). \<forall>ref\<in>set (ti_inputs (task_of g v)).
       producer_count g v ref = 1 \<or> producer_count g v ref = 0 \<and> ref \<in> set ext) \<and>
    (\<forall>v\<in>set (tg_order g). \<exists>p\<in>set pool. Fits (td_requirements (ti_definition (task_of g v))) (pf_capacity p))"
  using TopologicalOrder_returns [OF assms] check_types_Inr [OF assms] check_resources_wf [OF assms]
  by (auto simp: Validate_def rbind_Inr check_all_Inr)

text \<open>
  \<open>producer_count\<close> counts occurrences in the dependencies' output lists, as the code's \<open>++producers[ref]\<close>
  does. When no dependency lists an output twice this is the number of dependencies that produce the
  reference, the count of the documents (task-model.md, section 2: exactly one dependency).
\<close>

lemma count_list_once: "distinct xs \<Longrightarrow> count_list xs x = (if x \<in> set xs then 1 else 0)"
  by (induction xs) auto

lemma producer_count_distinct:
  assumes "graph_wf g" "\<And>d. d \<in> set (vec_at (tg_dependencies g) v) \<Longrightarrow> distinct (ti_outputs (task_of g d))"
  shows "producer_count g v ref
    = card {d \<in> set (vec_at (tg_dependencies g) v). ref \<in> set (ti_outputs (task_of g d))}"
proof -
  have "count_list (concat (map (\<lambda>d. ti_outputs (task_of g d)) ds)) ref
      = length (filter (\<lambda>d. ref \<in> set (ti_outputs (task_of g d))) ds)"
    if "\<And>d. d \<in> set ds \<Longrightarrow> distinct (ti_outputs (task_of g d))" for ds
    using that by (induction ds) (auto simp: count_list_once)
  moreover have "distinct (vec_at (tg_dependencies g) v)" using assms(1) by (simp add: graph_wf_def)
  ultimately show ?thesis
    using assms(2) by (simp add: producer_count_def dep_outputs_def flip: distinct_card)
qed

text \<open>
  C9: on a well-formed graph \<open>Validate\<close> returns exactly when the dependencies are acyclic, every input
  of every task occurs exactly once in the output lists of its dependencies, or occurs in none and is a
  declared external input, and every task fits the capacity of some worker profile. Occurrences are
  counted with multiplicity, as the code counts them: one dependency that lists the output twice counts
  as two producers (\<open>repeated_output_is_rejected\<close>), although the comment of task_graph.cpp and
  task-model.md count distinct dependencies; \<open>producer_count_distinct\<close> says when the two agree.
\<close>

theorem Validate_iff:
  assumes "graph_wf g"
  shows "Validate g pool ext = Inr () \<longleftrightarrow>
    acyclic (dep_rel g) \<and>
    (\<forall>v\<in>set (tg_order g). \<forall>ref\<in>set (ti_inputs (task_of g v)).
       producer_count g v ref = 1 \<or> producer_count g v ref = 0 \<and> ref \<in> set ext) \<and>
    (\<forall>v\<in>set (tg_order g). \<exists>p\<in>set pool. Fits (td_requirements (ti_definition (task_of g v))) (pf_capacity p))"
  using assms by (rule Validate_accepts)

lemma check_input_code: "check_input v producers ext ref = Inl e \<Longrightarrow> exn_code e = Some kSchedDagTypeMismatch"
  by (auto simp: check_input_def Let_def split: if_splits)

text \<open>
  When \<open>Validate\<close> rejects a well-formed graph the error is one of the three documented codes, in the
  documented order: a cycle first, then an input, then resources; no lookup ever throws.
\<close>

theorem Validate_errors:
  assumes "graph_wf g" "Validate g pool ext = Inl e"
  shows "exn_code e = Some kSchedDagCycle \<and> \<not> acyclic (dep_rel g) \<or>
    exn_code e = Some kSchedDagTypeMismatch \<and> acyclic (dep_rel g) \<or>
    exn_code e = Some kSchedDagResourceInfeasible \<and> acyclic (dep_rel g) \<and>
      (\<forall>v\<in>set (tg_order g). check_types g (set ext) v = Inr ())"
proof (cases "acyclic (dep_rel g)")
  case False
  with assms topo_correct [OF assms(1)] show ?thesis by (auto simp: Validate_def)
next
  case True
  then obtain out where "TopologicalOrder g = Inr out" using TopologicalOrder_returns [OF assms(1)] by blast
  with assms(2) consider
      "check_all (check_types g (set ext)) (tg_order g) = Inl e"
    | "check_all (check_types g (set ext)) (tg_order g) = Inr ()" "check_all (check_resources g pool) (tg_order g) = Inl e"
    by (auto simp: Validate_def rbind_Inl)
  then show ?thesis
  proof cases
    case 1
    then obtain v where "v \<in> set (tg_order g)" "check_types g (set ext) v = Inl e" using check_all_Inl by metis
    then have "exn_code e = Some kSchedDagTypeMismatch"
      using check_all_Inl check_input_code by (metis check_types_wf [OF assms(1)])
    with True show ?thesis by simp
  next
    case 2
    then obtain v where v: "v \<in> set (tg_order g)" "check_resources g pool v = Inl e"
      using check_all_Inl by metis
    then have "exn_code e = Some kSchedDagResourceInfeasible"
      using graph_wf_maps [OF assms(1) v(1)] by (auto simp: check_resources_def split: if_splits)
    with 2(1) True show ?thesis by (simp add: check_all_Inr)
  qed
qed

section \<open>An instance\<close>

definition demo_id :: "nat \<Rightarrow> uuid" where
  "demo_id n = replicate 15 0 @ [of_nat n]"

definition demo_task :: "nat \<Rightarrow> ArtifactRef list \<Rightarrow> ArtifactRef list \<Rightarrow> TaskInstance" where
  "demo_task n ins outs = default_task\<lparr>ti_id := demo_id n, ti_inputs := ins, ti_outputs := outs\<rparr>"

definition demo_graph :: TaskGraph where
  "demo_graph = fold graph_call_step
     [CallAddTask [] (demo_task 1 [''raw''] [''mid'']), CallAddTask [] (demo_task 2 [''mid''] [''end'']),
      CallAddDependency (demo_id 2) (demo_id 1)] (new_graph (demo_id 9))"

definition demo_pool :: "ResourceProfile list" where
  "demo_pool = [\<lparr>pf_name = ''w'', pf_capabilities = [], pf_capacity = default_spec, pf_max_concurrency = 1\<rparr>]"

lemma demo_graph_wf: "graph_wf demo_graph"
  unfolding demo_graph_def by (rule calls_wf)

text \<open>
  C8: on a well-formed graph \<open>TopologicalOrder\<close> returns: either an order that lists every task once
  with its dependencies before it, exactly when the dependency relation is acyclic, or \<open>SCHED_DAG_CYCLE\<close>.
\<close>

theorem TopologicalOrder_correct:
  assumes "graph_wf g"
  shows "(acyclic (dep_rel g) \<longrightarrow> (\<exists>out. TopologicalOrder g = Inr out \<and> distinct out \<and>
            set out = set (tg_order g) \<and> deps_first g out)) \<and>
         (\<not> acyclic (dep_rel g) \<longrightarrow>
            TopologicalOrder g = Inl (throw_error kSchedDagCycle ''task graph contains a cycle''))"
  by (rule topo_correct [OF assms])

lemma TopologicalOrder_correct_witness:
  "acyclic (dep_rel demo_graph) \<and> deps_first demo_graph [demo_id 1, demo_id 2]"
proof -
  have t: "TopologicalOrder demo_graph = Inr [demo_id 1, demo_id 2]" by code_simp
  then show ?thesis using TopologicalOrder_correct [OF demo_graph_wf] by (metis Inl_Inr_False sum.inject(2))
qed

lemma Validate_iff_witness: "producer_count demo_graph (demo_id 2) ''mid'' = 1"
proof -
  have "Validate demo_graph demo_pool [''raw''] = Inr ()" "demo_id 2 \<in> set (tg_order demo_graph)"
    "''mid'' \<in> set (ti_inputs (task_of demo_graph (demo_id 2)))" by code_simp+
  then show ?thesis using Validate_iff [OF demo_graph_wf, of demo_pool "[''raw'']"] by fastforce
qed

text \<open>The one dependency of task 2 lists its output twice: \<open>Validate\<close> speaks of two producers.\<close>

lemma repeated_output_is_rejected:
  "Validate (fold graph_call_step
       [CallAddTask [] (demo_task 1 [] [''mid'', ''mid'']), CallAddTask [] (demo_task 2 [''mid''] []),
        CallAddDependency (demo_id 2) (demo_id 1)] (new_graph (demo_id 9))) demo_pool []
     = Inl (throw_error kSchedDagTypeMismatch (''input mid of task '' @ FormatUuid (demo_id 2) @
         '' is produced by 2 dependencies (exactly one required)''))"
  by code_simp

lemma Validate_errors_witness:
  "exn_code (projl (Validate demo_graph demo_pool [])) \<in>
     {Some kSchedDagCycle, Some kSchedDagTypeMismatch, Some kSchedDagResourceInfeasible}"
proof -
  have "isl (Validate demo_graph demo_pool [])" by code_simp
  then have "Validate demo_graph demo_pool [] = Inl (projl (Validate demo_graph demo_pool []))" by simp
  from Validate_errors [OF demo_graph_wf this] show ?thesis by auto
qed

end
