(* ===== verification/Json.thy ===== *)
theory Json
  imports Errors
begin

text \<open>
  JSON documents and the library (nlohmann/json) the engine reads and writes them with. The library is
  not part of the repository: its operations are the fields of \<open>json_lib\<close>, an argument of every
  definition that uses them, and \<open>json_laws\<close> is the documented behaviour the code relies on. An object
  lists its members by ascending key, as the library keeps them. \<open>reference_json\<close> is an instance
  that satisfies the laws.
\<close>

datatype json =
    JNull
  | JBool bool
  | JInt int
  | JFloat u64
  | JStr string
  | JArr "json list"
  | JObj "(string \<times> json) list"

text \<open>
  \<open>j.at(k)\<close>, the lookup of \<open>j.value(k, d)\<close>, \<open>get<T>\<close> at the types used, iteration over an array,
  \<open>dump\<close> and \<open>parse\<close>. Each may throw.
\<close>

record json_lib =
  jl_at :: "json \<Rightarrow> string \<Rightarrow> json res"
  jl_find :: "json \<Rightarrow> string \<Rightarrow> json option res"
  jl_get_str :: "json \<Rightarrow> string res"
  jl_get_int32 :: "json \<Rightarrow> int res"
  jl_get_int64 :: "json \<Rightarrow> int res"
  jl_get_uint32 :: "json \<Rightarrow> int res"
  jl_get_uint64 :: "json \<Rightarrow> int res"
  jl_get_bool :: "json \<Rightarrow> bool res"
  jl_get_double :: "json \<Rightarrow> u64 res"
  jl_items :: "json \<Rightarrow> json list"
  jl_dump :: "json \<Rightarrow> string res"
  jl_parse :: "string \<Rightarrow> json res"

definition int32_ok :: "int \<Rightarrow> bool" where
  "int32_ok i \<longleftrightarrow> - 2147483648 \<le> i \<and> i \<le> 2147483647"

definition int64_ok :: "int \<Rightarrow> bool" where
  "int64_ok i \<longleftrightarrow> - 9223372036854775808 \<le> i \<and> i \<le> 9223372036854775807"

definition uint32_ok :: "int \<Rightarrow> bool" where
  "uint32_ok i \<longleftrightarrow> 0 \<le> i \<and> i \<le> 4294967295"

definition uint64_ok :: "int \<Rightarrow> bool" where
  "uint64_ok i \<longleftrightarrow> 0 \<le> i \<and> i \<le> 18446744073709551615"

text \<open>An infinity or a NaN, whose exponent bits are all set, is dumped as null.\<close>

definition finite_double :: "u64 \<Rightarrow> bool" where
  "finite_double d \<longleftrightarrow> (d AND 9218868437227405312) \<noteq> 9218868437227405312"

definition ascii :: "string \<Rightarrow> bool" where
  "ascii s \<longleftrightarrow> list_all (\<lambda>c. (of_char c :: nat) < 128) s"

text \<open>The documents that \<open>parse\<close> is documented to give back from their \<open>dump\<close>.\<close>

fun doc_ok :: "json \<Rightarrow> bool" where
  "doc_ok JNull = True"
| "doc_ok (JBool b) = True"
| "doc_ok (JInt i) = (int64_ok i \<or> uint64_ok i)"
| "doc_ok (JFloat d) = finite_double d"
| "doc_ok (JStr s) = ascii s"
| "doc_ok (JArr js) = (\<forall>j\<in>set js. doc_ok j)"
| "doc_ok (JObj kvs) = (sorted_wrt (<) (map fst kvs) \<and> (\<forall>kv\<in>set kvs. ascii (fst kv) \<and> doc_ok (snd kv)))"

definition json_laws :: "json_lib \<Rightarrow> bool" where
  "json_laws lib \<longleftrightarrow>
     (\<forall>kvs k v. map_of kvs k = Some v \<longrightarrow> jl_at lib (JObj kvs) k = Inr v) \<and>
     (\<forall>kvs k. jl_find lib (JObj kvs) k = Inr (map_of kvs k)) \<and>
     (\<forall>s. jl_get_str lib (JStr s) = Inr s) \<and>
     (\<forall>i. int32_ok i \<longrightarrow> jl_get_int32 lib (JInt i) = Inr i) \<and>
     (\<forall>i. int64_ok i \<longrightarrow> jl_get_int64 lib (JInt i) = Inr i) \<and>
     (\<forall>i. uint32_ok i \<longrightarrow> jl_get_uint32 lib (JInt i) = Inr i) \<and>
     (\<forall>i. uint64_ok i \<longrightarrow> jl_get_uint64 lib (JInt i) = Inr i) \<and>
     (\<forall>b. jl_get_bool lib (JBool b) = Inr b) \<and>
     (\<forall>d. jl_get_double lib (JFloat d) = Inr d) \<and>
     (\<forall>js. jl_items lib (JArr js) = js) \<and>
     (\<forall>d. doc_ok d \<longrightarrow> (\<exists>s. jl_dump lib d = Inr s \<and> jl_parse lib s = Inr d))"

lemma json_law_simps:
  assumes "json_laws lib"
  shows "map_of kvs k = Some v \<Longrightarrow> jl_at lib (JObj kvs) k = Inr v"
    and "jl_find lib (JObj kvs) k = Inr (map_of kvs k)"
    and "jl_get_str lib (JStr s) = Inr s"
    and "int32_ok i \<Longrightarrow> jl_get_int32 lib (JInt i) = Inr i"
    and "int64_ok i \<Longrightarrow> jl_get_int64 lib (JInt i) = Inr i"
    and "jl_get_bool lib (JBool b) = Inr b"
    and "jl_get_double lib (JFloat d) = Inr d"
    and "jl_items lib (JArr js) = js"
    and "uint32_ok i \<Longrightarrow> jl_get_uint32 lib (JInt i) = Inr i"
    and "uint64_ok i \<Longrightarrow> jl_get_uint64 lib (JInt i) = Inr i"
  using assms by (simp_all add: json_laws_def)

lemma json_dump_parse:
  "json_laws lib \<Longrightarrow> doc_ok d \<Longrightarrow> \<exists>s. jl_dump lib d = Inr s \<and> jl_parse lib s = Inr d"
  by (simp add: json_laws_def)

text \<open>\<open>j.value(k, default)\<close> with the reader of the default's type.\<close>

definition json_value :: "json_lib \<Rightarrow> (json \<Rightarrow> 'a res) \<Rightarrow> json \<Rightarrow> string \<Rightarrow> 'a \<Rightarrow> 'a res" where
  "json_value lib get j k dflt =
     rbind (jl_find lib j k) (\<lambda>m. case m of None \<Rightarrow> Inr dflt | Some v \<Rightarrow> get v)"

lemma json_value_obj:
  "json_laws lib \<Longrightarrow> json_value lib get (JObj kvs) k d
     = (case map_of kvs k of None \<Rightarrow> Inr d | Some v \<Rightarrow> get v)"
  by (simp add: json_value_def json_law_simps)

section \<open>An instance that satisfies the laws\<close>

text \<open>A prefix-free text form of documents, and its reader, which takes fuel.\<close>

fun enc_nat :: "nat \<Rightarrow> string" where
  "enc_nat n = (if n = 0 then ''.'' else (if odd n then CHR ''1'' else CHR ''0'') # enc_nat (n div 2))"

fun dec_nat :: "string \<Rightarrow> (nat \<times> string) option" where
  "dec_nat [] = None"
| "dec_nat (c # s) =
     (if c = CHR ''.'' then Some (0, s)
      else map_option (\<lambda>(n, t). (2 * n + (if c = CHR ''1'' then 1 else 0), t)) (dec_nat s))"

declare enc_nat.simps [simp del]

lemma dec_enc_nat: "dec_nat (enc_nat n @ s) = Some (n, s)"
proof (induction n rule: enc_nat.induct)
  case (1 n)
  show ?case
  proof (cases "n = 0")
    case False
    with 1 show ?thesis by (subst enc_nat.simps) auto
  qed (simp add: enc_nat.simps)
qed

fun enc_str :: "string \<Rightarrow> string" where
  "enc_str [] = ''.''"
| "enc_str (c # s) = CHR ''*'' # c # enc_str s"

fun dec_str :: "string \<Rightarrow> (string \<times> string) option" where
  "dec_str (CHR ''.'' # s) = Some ([], s)"
| "dec_str (CHR ''*'' # c # s) = map_option (\<lambda>(x, t). (c # x, t)) (dec_str s)"
| "dec_str _ = None"

lemma dec_enc_str: "dec_str (enc_str x @ s) = Some (x, s)"
  by (induction x) auto

definition enc_int :: "int \<Rightarrow> string" where
  "enc_int i = (if i < 0 then CHR ''-'' else CHR ''+'') # enc_nat (nat \<bar>i\<bar>)"

fun dec_int :: "string \<Rightarrow> (int \<times> string) option" where
  "dec_int [] = None"
| "dec_int (c # s) = map_option (\<lambda>(n, t). (if c = CHR ''-'' then - int n else int n, t)) (dec_nat s)"

lemma dec_enc_int: "dec_int (enc_int i @ s) = Some (i, s)"
  by (simp add: enc_int_def dec_enc_nat)

fun enc_json :: "json \<Rightarrow> string" where
  "enc_json JNull = ''n''"
| "enc_json (JBool b) = (if b then ''t'' else ''f'')"
| "enc_json (JInt i) = CHR ''i'' # enc_int i"
| "enc_json (JFloat d) = CHR ''d'' # enc_nat (unat d)"
| "enc_json (JStr s) = CHR ''s'' # enc_str s"
| "enc_json (JArr js) = CHR ''['' # concat (map (\<lambda>j. CHR '','' # enc_json j) js) @ '']''"
| "enc_json (JObj kvs) =
     CHR ''{'' # concat (map (\<lambda>kv. CHR '','' # enc_str (fst kv) @ enc_json (snd kv)) kvs) @ ''}''"

fun dec_json :: "nat \<Rightarrow> string \<Rightarrow> (json \<times> string) option"
  and dec_arr :: "nat \<Rightarrow> string \<Rightarrow> (json list \<times> string) option"
  and dec_obj :: "nat \<Rightarrow> string \<Rightarrow> ((string \<times> json) list \<times> string) option" where
  "dec_json 0 s = None"
| "dec_json (Suc n) [] = None"
| "dec_json (Suc n) (c # s) =
     (if c = CHR ''n'' then Some (JNull, s)
      else if c = CHR ''t'' then Some (JBool True, s)
      else if c = CHR ''f'' then Some (JBool False, s)
      else if c = CHR ''i'' then map_option (\<lambda>(i, t). (JInt i, t)) (dec_int s)
      else if c = CHR ''d'' then map_option (\<lambda>(i, t). (JFloat (of_nat i), t)) (dec_nat s)
      else if c = CHR ''s'' then map_option (\<lambda>(x, t). (JStr x, t)) (dec_str s)
      else if c = CHR ''['' then map_option (\<lambda>(js, t). (JArr js, t)) (dec_arr n s)
      else if c = CHR ''{'' then map_option (\<lambda>(kvs, t). (JObj kvs, t)) (dec_obj n s)
      else None)"
| "dec_arr 0 s = None"
| "dec_arr (Suc n) [] = None"
| "dec_arr (Suc n) (c # s) =
     (if c = CHR '','' then
        (case dec_json n s of None \<Rightarrow> None
         | Some (j, t) \<Rightarrow> map_option (\<lambda>(js, u). (j # js, u)) (dec_arr n t))
      else Some ([], s))"
| "dec_obj 0 s = None"
| "dec_obj (Suc n) [] = None"
| "dec_obj (Suc n) (c # s) =
     (if c = CHR '','' then
        (case dec_str s of None \<Rightarrow> None
         | Some (k, t) \<Rightarrow> (case dec_json n t of None \<Rightarrow> None
             | Some (j, u) \<Rightarrow> map_option (\<lambda>(kvs, v). ((k, j) # kvs, v)) (dec_obj n u)))
      else Some ([], s))"

lemma dec_enc_json: "length (enc_json j) \<le> n \<Longrightarrow> dec_json n (enc_json j @ s) = Some (j, s)"
proof (induction j arbitrary: n s)
  case (JInt i)
  then show ?case by (cases n) (auto simp: dec_enc_int)
next
  case (JFloat d)
  then show ?case by (cases n) (auto simp: dec_enc_nat)
next
  case (JStr x)
  then show ?case by (cases n) (auto simp: dec_enc_str)
next
  case (JArr js)
  have "length (concat (map (\<lambda>j. CHR '','' # enc_json j) js)) < m \<Longrightarrow>
      dec_arr m (concat (map (\<lambda>j. CHR '','' # enc_json j) js) @ CHR '']'' # s) = Some (js, s)" for m
    using JArr.IH
  proof (induction js arbitrary: m)
    case Nil
    then show ?case by (cases m) auto
  next
    case (Cons j js)
    then show ?case by (cases m) auto
  qed
  with JArr.prems show ?case by (cases n) auto
next
  case (JObj kvs)
  have "length (concat (map (\<lambda>kv. CHR '','' # enc_str (fst kv) @ enc_json (snd kv)) kvs)) < m \<Longrightarrow>
      dec_obj m (concat (map (\<lambda>kv. CHR '','' # enc_str (fst kv) @ enc_json (snd kv)) kvs) @ CHR ''}'' # s)
        = Some (kvs, s)" for m
    using JObj.IH
  proof (induction kvs arbitrary: m)
    case Nil
    then show ?case by (cases m) auto
  next
    case (Cons kv kvs)
    obtain k j where kv: "kv = (k, j)" by fastforce
    have j: "length (enc_json j) \<le> n \<Longrightarrow> dec_json n (enc_json j @ s) = Some (j, s)" for n s
      using Cons.prems(2) [of kv j] by (simp add: kv)
    have "length (concat (map (\<lambda>kv. CHR '','' # enc_str (fst kv) @ enc_json (snd kv)) kvs)) < m \<Longrightarrow>
        dec_obj m (concat (map (\<lambda>kv. CHR '','' # enc_str (fst kv) @ enc_json (snd kv)) kvs) @ CHR ''}'' # s)
          = Some (kvs, s)" for m
      by (rule Cons.IH, assumption, rule Cons.prems(2), erule list.set_intros(2), assumption, assumption)
    with j Cons.prems(1) show ?case by (cases m) (auto simp: dec_enc_str kv)
  qed
  with JObj.prems show ?case by (cases n) auto
next
  case JNull
  then show ?case by (cases n) auto
next
  case (JBool b)
  then show ?case by (cases n; cases b) auto
qed

definition json_error :: "string \<Rightarrow> exn" where
  "json_error what = StdException (''[json.exception] '' @ what)"

definition reference_json :: json_lib where
  "reference_json = \<lparr>
     jl_at = (\<lambda>j k. case j of JObj kvs \<Rightarrow> (case map_of kvs k of None \<Rightarrow> Inl (json_error ''key'') | Some v \<Rightarrow> Inr v)
                    | _ \<Rightarrow> Inl (json_error ''type'')),
     jl_find = (\<lambda>j k. case j of JObj kvs \<Rightarrow> Inr (map_of kvs k) | _ \<Rightarrow> Inl (json_error ''type'')),
     jl_get_str = (\<lambda>j. case j of JStr s \<Rightarrow> Inr s | _ \<Rightarrow> Inl (json_error ''type'')),
     jl_get_int32 = (\<lambda>j. case j of JInt i \<Rightarrow> Inr (signed_take_bit 31 i) | _ \<Rightarrow> Inl (json_error ''type'')),
     jl_get_int64 = (\<lambda>j. case j of JInt i \<Rightarrow> Inr (signed_take_bit 63 i) | _ \<Rightarrow> Inl (json_error ''type'')),
     jl_get_uint32 = (\<lambda>j. case j of JInt i \<Rightarrow> Inr (take_bit 32 i) | _ \<Rightarrow> Inl (json_error ''type'')),
     jl_get_uint64 = (\<lambda>j. case j of JInt i \<Rightarrow> Inr (take_bit 64 i) | _ \<Rightarrow> Inl (json_error ''type'')),
     jl_get_bool = (\<lambda>j. case j of JBool b \<Rightarrow> Inr b | _ \<Rightarrow> Inl (json_error ''type'')),
     jl_get_double = (\<lambda>j. case j of JFloat d \<Rightarrow> Inr d | JInt i \<Rightarrow> Inr (word_of_int i) | _ \<Rightarrow> Inl (json_error ''type'')),
     jl_items = (\<lambda>j. case j of JArr js \<Rightarrow> js | _ \<Rightarrow> [j]),
     jl_dump = (\<lambda>j. Inr (enc_json j)),
     jl_parse = (\<lambda>s. case dec_json (length s) s of Some (j, []) \<Rightarrow> Inr j | _ \<Rightarrow> Inl (json_error ''syntax''))\<rparr>"

lemma reference_json_laws: "json_laws reference_json"
proof -
  have "dec_json (length (enc_json d)) (enc_json d) = Some (d, [])" for d
    using dec_enc_json [of d "length (enc_json d)" "[]"] by simp
  then show ?thesis
    by (auto simp: json_laws_def reference_json_def int32_ok_def int64_ok_def uint32_ok_def uint64_ok_def signed_take_bit_int_eq_self_iff
        take_bit_int_eq_self_iff)
qed

end
