(* ===== verification/TaskJson.thy ===== *)
theory TaskJson
  imports TaskGraph Json
begin

text \<open>
  engine/task/task_serialization.cpp: tasks and graphs as JSON text, over the JSON library's interface.
  The lemmas give the round trips: every task whose texts are ASCII and whose numbers fit their C++
  types is read back unchanged; a graph is read back exactly when its insertion order lists every task
  after its dependencies.
\<close>

section \<open>Policies\<close>

fun CancellationPolicyToString :: "CancellationPolicy \<Rightarrow> string" where
  "CancellationPolicyToString BestEffort = ''best_effort''"
| "CancellationPolicyToString Cooperative = ''cooperative''"

definition CancellationPolicyFromString :: "string \<Rightarrow> CancellationPolicy res" where
  "CancellationPolicyFromString name =
     (if name = ''best_effort'' then Inr BestEffort
      else if name = ''cooperative'' then Inr Cooperative
      else Inl (throw_error kValidationDomain (''unknown cancellation policy: '' @ name)))"

fun CachePolicyToString :: "CachePolicy \<Rightarrow> string" where
  "CachePolicyToString Never = ''never''"
| "CachePolicyToString Cacheable = ''cacheable''"

definition CachePolicyFromString :: "string \<Rightarrow> CachePolicy res" where
  "CachePolicyFromString name =
     (if name = ''never'' then Inr Never
      else if name = ''cacheable'' then Inr Cacheable
      else Inl (throw_error kValidationDomain (''unknown cache policy: '' @ name)))"

fun FailurePolicyToString :: "FailurePolicy \<Rightarrow> string" where
  "FailurePolicyToString PolFailed = ''failed''"
| "FailurePolicyToString PolSkipped = ''skipped''"

definition FailurePolicyFromString :: "string \<Rightarrow> FailurePolicy res" where
  "FailurePolicyFromString name =
     (if name = ''failed'' then Inr PolFailed
      else if name = ''skipped'' then Inr PolSkipped
      else Inl (throw_error kValidationDomain (''unknown failure policy: '' @ name)))"

section \<open>Writing\<close>

definition string_array :: "string list \<Rightarrow> json" where
  "string_array xs = JArr (map JStr xs)"

definition ResourceSpecToJson :: "ResourceSpec \<Rightarrow> json" where
  "ResourceSpecToJson spec = JObj
     [(''cores'', JInt (rs_cores spec)), (''gpu_mem_bytes'', JInt (rs_gpu_mem_bytes spec)),
      (''gpus'', JInt (rs_gpus spec)), (''ram_bytes'', JInt (rs_ram_bytes spec)),
      (''temp_disk_bytes'', JInt (rs_temp_disk_bytes spec))]"

definition RetryPolicyToJson :: "RetryPolicy \<Rightarrow> json" where
  "RetryPolicyToJson policy = JObj
     [(''base_ns'', JInt (rp_base_ns policy)), (''max_attempts'', JInt (rp_max_attempts policy)),
      (''max_ns'', JInt (rp_max_ns policy)), (''multiplier'', JFloat (rp_multiplier policy))]"

definition definition_doc :: "TaskDefinition \<Rightarrow> json" where
  "definition_doc d = JObj
     [(''inputs'', JObj [(''allow_external'', JBool (is_allow_external (td_inputs d))),
                         (''artifact_kinds'', string_array (is_artifact_kinds (td_inputs d)))]),
      (''outputs'', JObj [(''artifact_kinds'', string_array (os_artifact_kinds (td_outputs d)))]),
      (''parameters_schema_json'', JStr (td_parameters_schema_json d)),
      (''requirements'', ResourceSpecToJson (td_requirements d)),
      (''type'', JStr (td_type d))]"

definition metadata_doc :: "TaskMetadata \<Rightarrow> json" where
  "metadata_doc m = JObj
     [(''attempts'', JInt (md_attempts m)),
      (''cache'', JStr (CachePolicyToString (md_cache m))),
      (''cancellation'', JStr (CancellationPolicyToString (md_cancellation m))),
      (''created_at_ns'', JInt (md_created_at_ns m)),
      (''deterministic'', JBool (md_deterministic m)),
      (''failure'', JStr (FailurePolicyToString (md_failure m))),
      (''retry'', RetryPolicyToJson (md_retry m)),
      (''updated_at_ns'', JInt (md_updated_at_ns m))]"

definition task_doc :: "TaskInstance \<Rightarrow> json" where
  "task_doc t = JObj
     [(''config_json'', JStr (ti_config_json t)),
      (''definition'', definition_doc (ti_definition t)),
      (''id'', JStr (FormatUuid (ti_id t))),
      (''inputs'', string_array (ti_inputs t)),
      (''metadata'', metadata_doc (ti_metadata t)),
      (''outputs'', string_array (ti_outputs t)),
      (''state'', JStr (TaskStatusName (ti_state t)))]"

definition TaskToJson :: "json_lib \<Rightarrow> TaskInstance \<Rightarrow> string res" where
  "TaskToJson lib t = jl_dump lib (task_doc t)"

section \<open>Reading\<close>

definition ResourceSpecFromJson :: "json_lib \<Rightarrow> json \<Rightarrow> ResourceSpec res" where
  "ResourceSpecFromJson lib j =
     rbind (json_value lib (jl_get_int32 lib) j ''cores'' 1) (\<lambda>cores.
     rbind (json_value lib (jl_get_int64 lib) j ''ram_bytes'' 0) (\<lambda>ram.
     rbind (json_value lib (jl_get_int32 lib) j ''gpus'' 0) (\<lambda>gpus.
     rbind (json_value lib (jl_get_int64 lib) j ''gpu_mem_bytes'' 0) (\<lambda>gpu_mem.
     rbind (json_value lib (jl_get_int64 lib) j ''temp_disk_bytes'' 0) (\<lambda>disk.
       Inr \<lparr>rs_cores = cores, rs_ram_bytes = ram, rs_gpus = gpus, rs_gpu_mem_bytes = gpu_mem,
            rs_temp_disk_bytes = disk\<rparr>)))))"

definition RetryPolicyFromJson :: "json_lib \<Rightarrow> json \<Rightarrow> RetryPolicy res" where
  "RetryPolicyFromJson lib j =
     rbind (json_value lib (jl_get_int32 lib) j ''max_attempts'' 2) (\<lambda>max_attempts.
     rbind (json_value lib (jl_get_int64 lib) j ''base_ns'' 1000000000) (\<lambda>base_ns.
     rbind (json_value lib (jl_get_double lib) j ''multiplier'' 4611686018427387904) (\<lambda>multiplier.
     rbind (json_value lib (jl_get_int64 lib) j ''max_ns'' 60000000000) (\<lambda>max_ns.
       Inr \<lparr>rp_max_attempts = max_attempts, rp_base_ns = base_ns, rp_multiplier = multiplier,
            rp_max_ns = max_ns\<rparr>))))"

definition ToStringVector :: "json_lib \<Rightarrow> json \<Rightarrow> string list res" where
  "ToStringVector lib j = traverse_res (jl_get_str lib) (jl_items lib j)"

definition definition_from :: "json_lib \<Rightarrow> json \<Rightarrow> TaskDefinition res" where
  "definition_from lib def_j =
     rbind (rbind (jl_at lib def_j ''type'') (jl_get_str lib)) (\<lambda>type.
     rbind (jl_at lib def_j ''inputs'') (\<lambda>in_j.
     rbind (rbind (jl_at lib in_j ''artifact_kinds'') (ToStringVector lib)) (\<lambda>in_kinds.
     rbind (json_value lib (jl_get_bool lib) in_j ''allow_external'' False) (\<lambda>allow.
     rbind (jl_at lib def_j ''outputs'') (\<lambda>out_j.
     rbind (rbind (jl_at lib out_j ''artifact_kinds'') (ToStringVector lib)) (\<lambda>out_kinds.
     rbind (json_value lib (jl_get_str lib) def_j ''parameters_schema_json'' []) (\<lambda>schema.
     rbind (rbind (jl_at lib def_j ''requirements'') (ResourceSpecFromJson lib)) (\<lambda>req.
       Inr \<lparr>td_type = type, td_inputs = \<lparr>is_artifact_kinds = in_kinds, is_allow_external = allow\<rparr>,
            td_outputs = \<lparr>os_artifact_kinds = out_kinds\<rparr>, td_parameters_schema_json = schema,
            td_requirements = req\<rparr>))))))))"

definition metadata_from :: "json_lib \<Rightarrow> json \<Rightarrow> TaskMetadata res" where
  "metadata_from lib meta =
     rbind (rbind (jl_at lib meta ''retry'') (RetryPolicyFromJson lib)) (\<lambda>retry.
     rbind (rbind (json_value lib (jl_get_str lib) meta ''cancellation'' ''cooperative'')
              CancellationPolicyFromString) (\<lambda>cancellation.
     rbind (rbind (json_value lib (jl_get_str lib) meta ''cache'' ''cacheable'') CachePolicyFromString) (\<lambda>cache.
     rbind (rbind (json_value lib (jl_get_str lib) meta ''failure'' ''skipped'') FailurePolicyFromString) (\<lambda>failure.
     rbind (json_value lib (jl_get_bool lib) meta ''deterministic'' False) (\<lambda>det.
     rbind (json_value lib (jl_get_int32 lib) meta ''attempts'' 0) (\<lambda>attempts.
     rbind (json_value lib (jl_get_int64 lib) meta ''created_at_ns'' 0) (\<lambda>created.
     rbind (json_value lib (jl_get_int64 lib) meta ''updated_at_ns'' 0) (\<lambda>updated.
       Inr \<lparr>md_retry = retry, md_cancellation = cancellation, md_cache = cache, md_failure = failure,
            md_deterministic = det, md_attempts = attempts, md_created_at_ns = created,
            md_updated_at_ns = updated\<rparr>))))))))"

definition task_from :: "json_lib \<Rightarrow> json \<Rightarrow> TaskInstance res" where
  "task_from lib j =
     rbind (rbind (rbind (jl_at lib j ''id'') (jl_get_str lib)) ParseUuid) (\<lambda>tid.
     rbind (rbind (jl_at lib j ''definition'') (definition_from lib)) (\<lambda>d.
     rbind (rbind (jl_at lib j ''inputs'') (ToStringVector lib)) (\<lambda>ins.
     rbind (rbind (jl_at lib j ''outputs'') (ToStringVector lib)) (\<lambda>outs.
     rbind (json_value lib (jl_get_str lib) j ''config_json'' []) (\<lambda>config.
     rbind (rbind (json_value lib (jl_get_str lib) j ''state'' ''pending'') ParseTaskStatus) (\<lambda>state.
     rbind (rbind (jl_at lib j ''metadata'') (metadata_from lib)) (\<lambda>meta.
       Inr \<lparr>ti_id = tid, ti_definition = d, ti_inputs = ins, ti_outputs = outs, ti_config_json = config,
            ti_state = state, ti_metadata = meta\<rparr>)))))))"

definition TaskFromJson :: "json_lib \<Rightarrow> string \<Rightarrow> TaskInstance res" where
  "TaskFromJson lib text = rbind (jl_parse lib text) (task_from lib)"

section \<open>Graphs\<close>

definition graph_entry_doc :: "json_lib \<Rightarrow> TaskGraph \<Rightarrow> uuid \<Rightarrow> json res" where
  "graph_entry_doc lib g tid =
     rbind (GetTask g tid) (\<lambda>t.
     rbind (rbind (TaskToJson lib t) (jl_parse lib)) (\<lambda>task_j.
     rbind (DependenciesOf g tid) (\<lambda>deps.
       Inr (JObj [(''dependencies'', JArr (map (\<lambda>dep. JStr (FormatUuid dep)) deps)), (''task'', task_j)]))))"

definition TaskGraphToJson :: "json_lib \<Rightarrow> TaskGraph \<Rightarrow> ArtifactRef list \<Rightarrow> string res" where
  "TaskGraphToJson lib g external_inputs =
     rbind (traverse_res (graph_entry_doc lib g) (TaskIds g)) (\<lambda>tasks.
       jl_dump lib (JObj [(''external_inputs'', string_array external_inputs),
                          (''job_id'', JStr (FormatUuid (tg_job_id g))), (''tasks'', JArr tasks)]))"

text \<open>The two loops of \<open>TaskGraphFromJson\<close>. An id the graph generates is never needed: an absent
  one is a parse error.\<close>

fun read_deps :: "json_lib \<Rightarrow> uuid \<Rightarrow> json list \<Rightarrow> TaskGraph \<Rightarrow> TaskGraph res" where
  "read_deps lib tid [] g = Inr g"
| "read_deps lib tid (dep # deps) g =
     rbind (rbind (jl_get_str lib dep) ParseUuid) (\<lambda>dep_id.
       case AddDependency tid dep_id g of (Inl e, _) \<Rightarrow> Inl e | (Inr _, g') \<Rightarrow> read_deps lib tid deps g')"

fun read_tasks :: "json_lib \<Rightarrow> byte list \<Rightarrow> json list \<Rightarrow> TaskGraph \<Rightarrow> TaskGraph res" where
  "read_tasks lib random [] g = Inr g"
| "read_tasks lib random (entry # entries) g =
     rbind (jl_at lib entry ''task'') (\<lambda>task_j.
     rbind (rbind (rbind (jl_at lib task_j ''id'') (jl_get_str lib)) ParseUuid) (\<lambda>tid.
     rbind (rbind (jl_dump lib task_j) (TaskFromJson lib)) (\<lambda>task.
       case AddTask random task g of (Inl e, _) \<Rightarrow> Inl e | (Inr _, g') \<Rightarrow>
         rbind (jl_at lib entry ''dependencies'') (\<lambda>deps.
         rbind (read_deps lib tid (jl_items lib deps) g') (\<lambda>g''. read_tasks lib random entries g'')))))"

definition TaskGraphFromJson :: "json_lib \<Rightarrow> byte list \<Rightarrow> string \<Rightarrow> (TaskGraph \<times> ArtifactRef list) res" where
  "TaskGraphFromJson lib random text =
     rbind (jl_parse lib text) (\<lambda>j.
     rbind (json_value lib (jl_get_str lib) j ''job_id'' []) (\<lambda>job_text.
     rbind (ParseUuid job_text) (\<lambda>job.
     rbind (rbind (jl_find lib j ''external_inputs'') (\<lambda>m. ToStringVector lib
              (case m of None \<Rightarrow> JArr [] | Some v \<Rightarrow> v))) (\<lambda>external.
     rbind (jl_at lib j ''tasks'') (\<lambda>tasks.
     rbind (read_tasks lib random (jl_items lib tasks) (new_graph job)) (\<lambda>g.
       Inr (g, external)))))))"

section \<open>A task is read back unchanged\<close>

definition spec_ok :: "ResourceSpec \<Rightarrow> bool" where
  "spec_ok s \<longleftrightarrow> int32_ok (rs_cores s) \<and> int64_ok (rs_ram_bytes s) \<and> int32_ok (rs_gpus s) \<and>
     int64_ok (rs_gpu_mem_bytes s) \<and> int64_ok (rs_temp_disk_bytes s)"

definition metadata_ok :: "TaskMetadata \<Rightarrow> bool" where
  "metadata_ok m \<longleftrightarrow> int32_ok (rp_max_attempts (md_retry m)) \<and> int64_ok (rp_base_ns (md_retry m)) \<and>
     finite_double (rp_multiplier (md_retry m)) \<and> int64_ok (rp_max_ns (md_retry m)) \<and>
     int32_ok (md_attempts m) \<and> int64_ok (md_created_at_ns m) \<and> int64_ok (md_updated_at_ns m)"

definition task_ok :: "TaskInstance \<Rightarrow> bool" where
  "task_ok t \<longleftrightarrow>
     length (ti_id t) = 16 \<and> ascii (ti_config_json t) \<and> list_all ascii (ti_inputs t) \<and>
     list_all ascii (ti_outputs t) \<and> ascii (td_type (ti_definition t)) \<and>
     ascii (td_parameters_schema_json (ti_definition t)) \<and>
     list_all ascii (is_artifact_kinds (td_inputs (ti_definition t))) \<and>
     list_all ascii (os_artifact_kinds (td_outputs (ti_definition t))) \<and>
     spec_ok (td_requirements (ti_definition t)) \<and> metadata_ok (ti_metadata t)"

lemma int32_int64: "int32_ok i \<Longrightarrow> int64_ok i"
  by (simp add: int32_ok_def int64_ok_def)

lemma ascii_append [simp]: "ascii (s @ t) \<longleftrightarrow> ascii s \<and> ascii t"
  by (simp add: ascii_def)

lemma ascii_Nil [simp]: "ascii []"
  by (simp add: ascii_def)

lemma ascii_Cons [simp]: "ascii (c # s) \<longleftrightarrow> (of_char c :: nat) < 128 \<and> ascii s"
  by (simp add: ascii_def)

lemma ascii_hex_byte: "ascii (hex_byte b)"
proof -
  have "\<forall>n\<in>set [0..<16]. ascii [kHex ! n]" by code_simp
  then have "n < 16 \<Longrightarrow> ascii [kHex ! n]" for n by simp
  from this [OF nibble_bounds(1)] this [OF nibble_bounds(2)] show ?thesis
    by (simp add: hex_byte_def ascii_def)
qed

lemma ascii_FormatUuid: "ascii (FormatUuid u)"
proof -
  have "list_all ascii xs \<Longrightarrow> ascii (concat xs)" for xs
    by (induction xs) simp_all
  then show ?thesis by (simp add: FormatUuid_def list_all_iff ascii_hex_byte)
qed

lemma doc_keys_ok:
  "sorted_wrt (<) [''cores'', ''gpu_mem_bytes'', ''gpus'', ''ram_bytes'', ''temp_disk_bytes'']"
  "sorted_wrt (<) [''base_ns'', ''max_attempts'', ''max_ns'', ''multiplier'']"
  "sorted_wrt (<) [''inputs'', ''outputs'', ''parameters_schema_json'', ''requirements'', ''type'']"
  "sorted_wrt (<) [''allow_external'', ''artifact_kinds'']"
  "sorted_wrt (<) [''attempts'', ''cache'', ''cancellation'', ''created_at_ns'', ''deterministic'', ''failure'',
     ''retry'', ''updated_at_ns'']"
  "sorted_wrt (<) [''config_json'', ''definition'', ''id'', ''inputs'', ''metadata'', ''outputs'', ''state'']"
  "sorted_wrt (<) [''dependencies'', ''task'']"
  "sorted_wrt (<) [''external_inputs'', ''job_id'', ''tasks'']"
  by code_simp+

lemma doc_ok_obj:
  "doc_ok (JObj kvs) \<longleftrightarrow> sorted_wrt (<) (map fst kvs) \<and> list_all ascii (map fst kvs) \<and> list_all doc_ok (map snd kvs)"
  by (auto simp: list_all_iff)

lemma doc_ok_string_array: "doc_ok (string_array xs) \<longleftrightarrow> list_all ascii xs"
  by (auto simp: string_array_def list_all_iff)

lemma ascii_names: "ascii (TaskStatusName s)" "ascii (CachePolicyToString c)"
  "ascii (CancellationPolicyToString n)" "ascii (FailurePolicyToString f)"
proof -
  show "ascii (TaskStatusName s)" by (cases s) simp_all
  show "ascii (CachePolicyToString c)" by (cases c) simp_all
  show "ascii (CancellationPolicyToString n)" by (cases n) simp_all
  show "ascii (FailurePolicyToString f)" by (cases f) simp_all
qed

lemma doc_ok_parts:
  "spec_ok s \<Longrightarrow> doc_ok (ResourceSpecToJson s)"
  "metadata_ok m \<Longrightarrow> doc_ok (metadata_doc m)"
  "ascii (td_type d) \<Longrightarrow> ascii (td_parameters_schema_json d) \<Longrightarrow> spec_ok (td_requirements d) \<Longrightarrow>
     list_all ascii (is_artifact_kinds (td_inputs d)) \<Longrightarrow> list_all ascii (os_artifact_kinds (td_outputs d)) \<Longrightarrow>
     doc_ok (definition_doc d)"
proof -
  show spec: "spec_ok s \<Longrightarrow> doc_ok (ResourceSpecToJson s)" for s
    unfolding ResourceSpecToJson_def doc_ok_obj list.map fst_conv snd_conv
    using doc_keys_ok(1) by (simp add: spec_ok_def int32_int64)
  show "metadata_ok m \<Longrightarrow> doc_ok (metadata_doc m)"
    unfolding metadata_doc_def RetryPolicyToJson_def
    using doc_keys_ok(2,5) by (simp add: metadata_ok_def int32_int64 ascii_names doc_ok_obj del: doc_ok.simps(7))
  show "ascii (td_type d) \<Longrightarrow> ascii (td_parameters_schema_json d) \<Longrightarrow> spec_ok (td_requirements d) \<Longrightarrow>
     list_all ascii (is_artifact_kinds (td_inputs d)) \<Longrightarrow> list_all ascii (os_artifact_kinds (td_outputs d)) \<Longrightarrow>
     doc_ok (definition_doc d)"
    unfolding definition_doc_def
    using doc_keys_ok(3,4) spec [of "td_requirements d"]
    by (simp add: doc_ok_obj doc_ok_string_array del: doc_ok.simps(7))
qed

lemma doc_ok_task: "task_ok t \<Longrightarrow> doc_ok (task_doc t)"
  unfolding task_doc_def task_ok_def
  using doc_keys_ok(6) doc_ok_parts
  by (simp add: doc_ok_obj doc_ok_string_array ascii_names ascii_FormatUuid del: doc_ok.simps(7))

lemma policies_roundtrip [simp]:
  "CancellationPolicyFromString (CancellationPolicyToString n) = Inr n"
  "CachePolicyFromString (CachePolicyToString c) = Inr c"
  "FailurePolicyFromString (FailurePolicyToString f) = Inr f"
proof -
  show "CancellationPolicyFromString (CancellationPolicyToString n) = Inr n"
    by (cases n) (simp_all add: CancellationPolicyFromString_def)
  show "CachePolicyFromString (CachePolicyToString c) = Inr c"
    by (cases c) (simp_all add: CachePolicyFromString_def)
  show "FailurePolicyFromString (FailurePolicyToString f) = Inr f"
    by (cases f) (simp_all add: FailurePolicyFromString_def)
qed

lemma ToStringVector_array: "json_laws lib \<Longrightarrow> ToStringVector lib (string_array xs) = Inr xs"
  using traverse_res_map [of xs "jl_get_str lib" JStr "\<lambda>x. x"]
  by (simp add: ToStringVector_def string_array_def json_law_simps)

lemma parts_roundtrip:
  assumes "json_laws lib"
  shows "spec_ok s \<Longrightarrow> ResourceSpecFromJson lib (ResourceSpecToJson s) = Inr s"
    and "int32_ok (rp_max_attempts r) \<Longrightarrow> int64_ok (rp_base_ns r) \<Longrightarrow> int64_ok (rp_max_ns r) \<Longrightarrow>
      RetryPolicyFromJson lib (RetryPolicyToJson r) = Inr r"
  by (simp_all add: spec_ok_def ResourceSpecFromJson_def ResourceSpecToJson_def RetryPolicyFromJson_def
      RetryPolicyToJson_def json_value_obj [OF assms] json_law_simps [OF assms])

lemma definition_roundtrip:
  assumes "json_laws lib" and "spec_ok (td_requirements d)"
  shows "definition_from lib (definition_doc d) = Inr d"
  using parts_roundtrip(1) [OF assms]
  by (simp add: definition_from_def definition_doc_def json_value_obj json_law_simps ToStringVector_array assms(1))

lemma metadata_roundtrip:
  assumes "json_laws lib" and "metadata_ok m"
  shows "metadata_from lib (metadata_doc m) = Inr m"
  using parts_roundtrip(2) [OF assms(1), of "md_retry m"] assms(2)
  by (simp add: metadata_from_def metadata_doc_def json_value_obj json_law_simps assms(1) metadata_ok_def)

lemma task_doc_roundtrip:
  assumes "json_laws lib" and "task_ok t"
  shows "task_from lib (task_doc t) = Inr t"
  using definition_roundtrip [OF assms(1)] metadata_roundtrip [OF assms(1)] format_parse assms(2)
  by (simp add: task_from_def task_doc_def json_value_obj json_law_simps ToStringVector_array assms(1) task_ok_def)

text \<open>
  With a JSON library that behaves as documented, a task whose texts are ASCII and whose numbers fit
  their C++ types is written and read back unchanged, every field included.
\<close>

theorem TaskJson_roundtrip:
  assumes "json_laws lib" and "task_ok t"
  shows "\<exists>text. TaskToJson lib t = Inr text \<and> TaskFromJson lib text = Inr t"
  using json_dump_parse [OF assms(1) doc_ok_task [OF assms(2)]] task_doc_roundtrip [OF assms]
  by (auto simp: TaskToJson_def TaskFromJson_def)

lemma demo_task_ok: "task_ok (demo_task 1 [''raw''] [''mid''])"
  by code_simp

lemma TaskJson_roundtrip_witness:
  "\<exists>text. TaskToJson reference_json (demo_task 1 [''raw''] [''mid'']) = Inr text \<and>
     TaskFromJson reference_json text = Inr (demo_task 1 [''raw''] [''mid''])"
  by (rule TaskJson_roundtrip [OF reference_json_laws demo_task_ok])

section \<open>A graph is read back exactly when it was inserted in dependency order\<close>

definition entry_doc :: "TaskGraph \<Rightarrow> uuid \<Rightarrow> json" where
  "entry_doc g v = JObj [(''dependencies'', JArr (map (\<lambda>dep. JStr (FormatUuid dep)) (vec_at (tg_dependencies g) v))),
     (''task'', task_doc (task_of g v))]"

text \<open>Every dependency of a task is itself or inserted before it.\<close>

fun loads_in_order :: "TaskGraph \<Rightarrow> uuid list \<Rightarrow> uuid list \<Rightarrow> bool" where
  "loads_in_order g xs [] = True"
| "loads_in_order g xs (v # ys) =
     (list_all (\<lambda>d. d \<in> set (xs @ [v])) (vec_at (tg_dependencies g) v) \<and> loads_in_order g (xs @ [v]) ys)"

definition graph_ok :: "TaskGraph \<Rightarrow> bool" where
  "graph_ok g \<longleftrightarrow> length (tg_job_id g) = 16 \<and>
     list_all (\<lambda>v. task_ok (task_of g v) \<and> \<not> IsNil v) (tg_order g)"

lemma graph_ok_id:
  assumes "graph_wf g" "graph_ok g" "v \<in> set (tg_order g)"
  shows "task_ok (task_of g v)" "ti_id (task_of g v) = v" "length v = 16" "\<not> IsNil v"
  using graph_wf_maps [OF assms(1,3)] assms(2,3)
  by (auto simp: graph_ok_def list_all_iff task_of_def task_ok_def)

lemma graph_entry_doc_wf:
  assumes "json_laws lib" "graph_wf g" "graph_ok g" "v \<in> set (tg_order g)"
  shows "graph_entry_doc lib g v = Inr (entry_doc g v)"
proof -
  from graph_wf_maps [OF assms(2,4)] obtain t ds where t: "tg_tasks g v = Some t" "tg_dependencies g v = Some ds"
    by blast
  from json_dump_parse [OF assms(1) doc_ok_task [OF graph_ok_id(1) [OF assms(2-4)]]]
  have "rbind (TaskToJson lib (task_of g v)) (jl_parse lib) = Inr (task_doc (task_of g v))"
    by (auto simp: TaskToJson_def)
  with t show ?thesis
    by (simp add: graph_entry_doc_def GetTask_def Require_def DependenciesOf_def entry_doc_def vec_at_def task_of_def)
qed

definition same_prefix :: "TaskGraph \<Rightarrow> uuid list \<Rightarrow> TaskGraph \<Rightarrow> bool" where
  "same_prefix g xs G \<longleftrightarrow> graph_wf G \<and> tg_job_id G = tg_job_id g \<and> tg_order G = xs \<and>
     tg_tasks G = tg_tasks g |` set xs \<and> tg_dependencies G = tg_dependencies g |` set xs"

lemma AddDependency_known:
  assumes "graph_wf G" "v \<in> set (tg_order G)" "d \<in> set (tg_order G)" "d \<notin> set (vec_at (tg_dependencies G) v)"
  shows "\<exists>G'. AddDependency v d G = (Inr (), G') \<and> graph_wf G' \<and> tg_job_id G' = tg_job_id G \<and>
    tg_order G' = tg_order G \<and> tg_tasks G' = tg_tasks G \<and>
    tg_dependencies G' = (tg_dependencies G)(v \<mapsto> vec_at (tg_dependencies G) v @ [d])"
proof -
  from assms graph_wf_maps [OF assms(1)] obtain s t where "tg_tasks G v = Some s" "tg_tasks G d = Some t" by blast
  with assms graph_wf_AddDependency [OF assms(1), of v d] show ?thesis
    by (simp add: AddDependency_def Require_def Let_def)
qed

lemma AddDependency_unknown:
  assumes "graph_wf G" "v \<in> set (tg_order G)" "d \<notin> set (tg_order G)"
  shows "\<exists>e. AddDependency v d G = (Inl e, G) \<and> exn_code e = Some kSchedTaskUnknown"
  using graph_wf_maps [OF assms(1,2)] graph_wf_unknown [OF assms(1,3)]
  by (auto simp: AddDependency_def Require_def)

lemma read_deps_result:
  assumes "json_laws lib"
  shows "graph_wf G \<Longrightarrow> v \<in> set (tg_order G) \<Longrightarrow> distinct (vec_at (tg_dependencies G) v @ ds) \<Longrightarrow>
    (\<forall>d\<in>set ds. length d = 16) \<Longrightarrow>
    (if set ds \<subseteq> set (tg_order G)
     then \<exists>G'. read_deps lib v (map (\<lambda>dep. JStr (FormatUuid dep)) ds) G = Inr G' \<and> graph_wf G' \<and>
        tg_job_id G' = tg_job_id G \<and> tg_order G' = tg_order G \<and> tg_tasks G' = tg_tasks G \<and>
        tg_dependencies G' = (if ds = [] then tg_dependencies G
           else (tg_dependencies G)(v \<mapsto> vec_at (tg_dependencies G) v @ ds))
     else \<exists>e. read_deps lib v (map (\<lambda>dep. JStr (FormatUuid dep)) ds) G = Inl e \<and>
        exn_code e = Some kSchedTaskUnknown)"
proof (induction ds arbitrary: G)
  case Nil
  then show ?case by simp
next
  case (Cons d ds)
  have read: "rbind (jl_get_str lib (JStr (FormatUuid d))) ParseUuid = Inr d"
    using Cons.prems(4) by (simp add: json_law_simps [OF assms] format_parse)
  show ?case
  proof (cases "d \<in> set (tg_order G)")
    case False
    with AddDependency_unknown [OF Cons.prems(1,2) False] read show ?thesis by auto
  next
    case True
    with AddDependency_known [OF Cons.prems(1,2) True] Cons.prems(3) obtain G' where
      G': "AddDependency v d G = (Inr (), G')" "graph_wf G'" "tg_job_id G' = tg_job_id G"
        "tg_order G' = tg_order G" "tg_tasks G' = tg_tasks G"
        "tg_dependencies G' = (tg_dependencies G)(v \<mapsto> vec_at (tg_dependencies G) v @ [d])" by auto
    have v': "vec_at (tg_dependencies G') v = vec_at (tg_dependencies G) v @ [d]" by (simp add: G'(6) vec_at_upd)
    have step: "read_deps lib v (map (\<lambda>dep. JStr (FormatUuid dep)) (d # ds)) G
        = read_deps lib v (map (\<lambda>dep. JStr (FormatUuid dep)) ds) G'"
      using read G'(1) by simp
    have upd: "(tg_dependencies G')(v \<mapsto> vec_at (tg_dependencies G) v @ d # ds)
        = (tg_dependencies G)(v \<mapsto> vec_at (tg_dependencies G) v @ d # ds)" by (simp add: G'(6))
    note ih = Cons.IH [of G', unfolded v' G'(3-5) append_assoc append.simps, OF G'(2) Cons.prems(2)]
    show ?thesis
    proof (cases "set ds \<subseteq> set (tg_order G)")
      case sub: True
      with ih Cons.prems(3,4) obtain G'' where
        "read_deps lib v (map (\<lambda>dep. JStr (FormatUuid dep)) ds) G' = Inr G''" "graph_wf G''"
        "tg_job_id G'' = tg_job_id G" "tg_order G'' = tg_order G" "tg_tasks G'' = tg_tasks G"
        "tg_dependencies G'' = (if ds = [] then tg_dependencies G'
           else (tg_dependencies G')(v \<mapsto> vec_at (tg_dependencies G) v @ d # ds))" by auto
      with sub True upd show ?thesis unfolding step using G'(6) by (cases "ds = []") auto
    next
      case False
      with ih Cons.prems(3,4) show ?thesis unfolding step by auto
    qed
  qed
qed

lemma same_prefix_step:
  assumes "json_laws lib" "graph_wf g" "graph_ok g" "same_prefix g xs G" "tg_order g = xs @ v # ys"
  shows "if set (vec_at (tg_dependencies g) v) \<subseteq> set (xs @ [v])
    then \<exists>G'. read_tasks lib r (entry_doc g v # es) G = read_tasks lib r es G' \<and> same_prefix g (xs @ [v]) G'
    else \<exists>e. read_tasks lib r (entry_doc g v # es) G = Inl e \<and> exn_code e = Some kSchedTaskUnknown"
proof -
  let ?ds = "vec_at (tg_dependencies g) v"
  have v: "v \<in> set (tg_order g)" "v \<notin> set xs" using assms(2,5) by (auto simp: graph_wf_def)
  note ok = graph_ok_id [OF assms(2,3) v(1)]
  from graph_wf_maps [OF assms(2) v(1)] obtain t where t: "tg_tasks g v = Some t" "tg_dependencies g v = Some ?ds"
    by (auto simp: vec_at_def)
  have tv: "task_of g v = t" by (simp add: task_of_def t)
  let ?G1 = "G\<lparr>tg_tasks := (tg_tasks G)(v \<mapsto> t), tg_dependencies := (tg_dependencies G)(v \<mapsto> []),
    tg_dependents := (tg_dependents G)(v \<mapsto> []), tg_order := tg_order G @ [v]\<rparr>"
  have pre: "graph_wf G" "tg_job_id G = tg_job_id g" "tg_order G = xs" "tg_tasks G = tg_tasks g |` set xs"
      "tg_dependencies G = tg_dependencies g |` set xs"
    using assms(4) by (auto simp: same_prefix_def)
  have add: "AddTask r t G = (Inr v, ?G1)"
    using ok(2,4) v(2) by (simp add: AddTask_def Let_def tv pre(4))
  then have wf1: "graph_wf ?G1" using graph_wf_AddTask [OF pre(1), of r t] by simp
  have tj: "rbind (jl_dump lib (task_doc t)) (TaskFromJson lib) = Inr t"
    using json_dump_parse [OF assms(1) doc_ok_task [OF ok(1)]] task_doc_roundtrip [OF assms(1) ok(1)]
    by (auto simp: TaskFromJson_def tv)
  have tid: "rbind (rbind (jl_at lib (task_doc t) ''id'') (jl_get_str lib)) ParseUuid = Inr v"
    using ok(2,3) format_parse [of v] by (simp add: task_doc_def json_law_simps [OF assms(1)] tv)
  have step: "read_tasks lib r (entry_doc g v # es) G
      = rbind (read_deps lib v (map (\<lambda>dep. JStr (FormatUuid dep)) ?ds) ?G1) (\<lambda>G'. read_tasks lib r es G')"
    by (simp add: entry_doc_def json_law_simps [OF assms(1)] tj tid add tv)
  have ds: "distinct ?ds" "\<forall>d\<in>set ?ds. length d = 16"
    using assms(2) graph_ok_id(3) [OF assms(2,3)] by (auto simp: graph_wf_def depends_def)
  have "vec_at (tg_dependencies ?G1) v = []" by (simp add: vec_at_def)
  note result = read_deps_result [OF assms(1) wf1, of v ?ds, unfolded this append_Nil, OF _ ds]
  show ?thesis
  proof (cases "set ?ds \<subseteq> set (xs @ [v])")
    case True
    with result pre(3) obtain G' where G': "read_deps lib v (map (\<lambda>dep. JStr (FormatUuid dep)) ?ds) ?G1 = Inr G'"
        "graph_wf G'" "tg_job_id G' = tg_job_id g" "tg_order G' = xs @ [v]" "tg_tasks G' = tg_tasks ?G1"
        "tg_dependencies G' = (if ?ds = [] then tg_dependencies ?G1 else (tg_dependencies ?G1)(v \<mapsto> ?ds))"
      by (auto simp: pre(2))
    then have "same_prefix g (xs @ [v]) G'"
      using t by (auto simp: same_prefix_def pre restrict_map_def fun_eq_iff)
    with True G'(1) show ?thesis unfolding step by auto
  next
    case False
    with result pre(3) show ?thesis unfolding step by auto
  qed
qed

lemma read_tasks_result:
  assumes "json_laws lib" "graph_wf g" "graph_ok g"
  shows "same_prefix g xs G \<Longrightarrow> tg_order g = xs @ ys \<Longrightarrow>
    (if loads_in_order g xs ys
     then \<exists>G'. read_tasks lib r (map (entry_doc g) ys) G = Inr G' \<and> same_prefix g (xs @ ys) G'
     else \<exists>e. read_tasks lib r (map (entry_doc g) ys) G = Inl e \<and> exn_code e = Some kSchedTaskUnknown)"
proof (induction ys arbitrary: xs G)
  case Nil
  then show ?case by simp
next
  case (Cons v ys)
  note step = same_prefix_step [OF assms Cons.prems, of r "map (entry_doc g) ys"]
  show ?case
  proof (cases "set (vec_at (tg_dependencies g) v) \<subseteq> set (xs @ [v])")
    case True
    with step obtain G' where G': "read_tasks lib r (entry_doc g v # map (entry_doc g) ys) G
        = read_tasks lib r (map (entry_doc g) ys) G'" "same_prefix g (xs @ [v]) G'" by auto
    from Cons.IH [OF G'(2)] Cons.prems(2) G'(1) True show ?thesis by (auto simp: list_all_iff subset_iff)
  next
    case False
    with step show ?thesis by (auto simp: list_all_iff)
  qed
qed

definition same_graph :: "TaskGraph \<Rightarrow> TaskGraph \<Rightarrow> bool" where
  "same_graph g G \<longleftrightarrow> graph_wf G \<and> tg_job_id G = tg_job_id g \<and> tg_order G = tg_order g \<and>
     tg_tasks G = tg_tasks g \<and> tg_dependencies G = tg_dependencies g"

lemma restrict_to_dom: "dom f = A \<Longrightarrow> f |` A = f"
  by (auto simp: restrict_map_def fun_eq_iff domIff)

lemma same_prefix_all: "graph_wf g \<Longrightarrow> same_prefix g (tg_order g) G \<Longrightarrow> same_graph g G"
proof -
  assume wf: "graph_wf g" and sp: "same_prefix g (tg_order g) G"
  have "dom (tg_tasks g) = set (tg_order g)" "dom (tg_dependencies g) = set (tg_order g)"
    using wf by (simp_all add: graph_wf_def)
  then show ?thesis using sp by (simp add: same_graph_def same_prefix_def restrict_to_dom)
qed

lemma doc_ok_entry: "graph_wf g \<Longrightarrow> graph_ok g \<Longrightarrow> v \<in> set (tg_order g) \<Longrightarrow> doc_ok (entry_doc g v)"
  using doc_keys_ok(7) doc_ok_task [OF graph_ok_id(1)]
  by (simp add: entry_doc_def doc_ok_obj ascii_FormatUuid del: doc_ok.simps(7))

text \<open>
  A well-formed graph with serializable tasks is always written; reading it back yields the same
  graph and external inputs when every dependency was inserted before its dependents, and fails with
  \<open>SCHED_TASK_UNKNOWN\<close> otherwise.
\<close>

theorem TaskGraphJson_roundtrip:
  assumes "json_laws lib" "graph_wf g" "graph_ok g" "list_all ascii ext"
  shows "\<exists>text. TaskGraphToJson lib g ext = Inr text \<and>
    (if loads_in_order g [] (tg_order g)
     then \<exists>G. TaskGraphFromJson lib r text = Inr (G, ext) \<and> same_graph g G
     else \<exists>e. TaskGraphFromJson lib r text = Inl e \<and> exn_code e = Some kSchedTaskUnknown)"
proof -
  let ?doc = "JObj [(''external_inputs'', string_array ext), (''job_id'', JStr (FormatUuid (tg_job_id g))),
    (''tasks'', JArr (map (entry_doc g) (tg_order g)))]"
  have tasks: "traverse_res (graph_entry_doc lib g) (tg_order g) = Inr (map (entry_doc g) (tg_order g))"
    using traverse_res_map [of "tg_order g" "graph_entry_doc lib g" "\<lambda>v. v" "entry_doc g"]
      graph_entry_doc_wf [OF assms(1-3)] by simp
  have "doc_ok ?doc"
    using doc_keys_ok(8) assms(4) doc_ok_entry [OF assms(2,3)]
    by (simp add: doc_ok_obj doc_ok_string_array ascii_FormatUuid del: doc_ok.simps(7))
  then obtain w where w: "jl_dump lib ?doc = Inr w" "jl_parse lib w = Inr ?doc"
    using json_dump_parse [OF assms(1)] by blast
  have job: "ParseUuid (FormatUuid (tg_job_id g)) = Inr (tg_job_id g)"
    using assms(3) by (simp add: graph_ok_def format_parse)
  have "same_prefix g [] (new_graph (tg_job_id g))"
    by (simp add: same_prefix_def graph_wf_new) (simp add: new_graph_def restrict_map_def)
  note result = read_tasks_result [OF assms(1-3) this, of "tg_order g" r, unfolded append_Nil, OF refl]
  have read: "TaskGraphFromJson lib r w
      = rbind (read_tasks lib r (map (entry_doc g) (tg_order g)) (new_graph (tg_job_id g))) (\<lambda>G. Inr (G, ext))"
    by (simp add: TaskGraphFromJson_def w json_value_obj json_law_simps assms(1) job ToStringVector_array)
  have "TaskGraphToJson lib g ext = Inr w"
    by (simp add: TaskGraphToJson_def TaskIds_def tasks w)
  with result same_prefix_all [OF assms(2)] show ?thesis by (auto simp: read split: if_splits)
qed

lemma demo_graph_ok: "graph_ok demo_graph"
  by code_simp

lemma demo_loads: "loads_in_order demo_graph [] (tg_order demo_graph)"
  by code_simp

lemma TaskGraphJson_roundtrip_witness:
  "\<exists>text G. TaskGraphToJson reference_json demo_graph [''raw''] = Inr text \<and>
     TaskGraphFromJson reference_json [] text = Inr (G, [''raw'']) \<and> same_graph demo_graph G"
proof -
  have "list_all ascii [''raw'']" by code_simp
  from TaskGraphJson_roundtrip [OF reference_json_laws demo_graph_wf demo_graph_ok this, of "[]"] demo_loads
  show ?thesis by auto
qed

end
