(* ===== verification/Execution.thy ===== *)
theory Execution
  imports TaskJson
begin

text \<open>
  engine/execution/execution_record.h and .cpp: the provenance record of one run of a task and its
  JSON form, which the run table's readers go through.
\<close>

record SoftwareEnvironment =
  se_engine_version :: string
  se_git_commit :: string
  se_protocol_version :: string

record HardwareInfo =
  hw_os :: string
  hw_arch :: string
  hw_cpu :: string
  hw_ram_bytes :: int
  hw_gpu :: string

record ErrorRecord =
  er_code :: string
  er_message :: string
  er_recoverable :: bool

record ExecutionRecord =
  ex_id :: uuid
  ex_task_id :: uuid
  ex_attempt :: int
  ex_worker_id :: "uuid option"
  ex_inputs :: "ArtifactRef list"
  ex_outputs :: "ArtifactRef list"
  ex_environment :: SoftwareEnvironment
  ex_hardware :: HardwareInfo
  ex_started_at_ns :: int
  ex_ended_at_ns :: int
  ex_terminal_state :: TaskStatus
  ex_error :: "ErrorRecord option"

section \<open>Writing\<close>

definition environment_doc :: "SoftwareEnvironment \<Rightarrow> json" where
  "environment_doc e = JObj
     [(''engine_version'', JStr (se_engine_version e)), (''git_commit'', JStr (se_git_commit e)),
      (''protocol_version'', JStr (se_protocol_version e))]"

definition hardware_doc :: "HardwareInfo \<Rightarrow> json" where
  "hardware_doc h = JObj
     [(''arch'', JStr (hw_arch h)), (''cpu'', JStr (hw_cpu h)), (''gpu'', JStr (hw_gpu h)),
      (''os'', JStr (hw_os h)), (''ram_bytes'', JInt (hw_ram_bytes h))]"

definition error_doc :: "ErrorRecord option \<Rightarrow> json" where
  "error_doc eo = (case eo of None \<Rightarrow> JNull | Some e \<Rightarrow> JObj
     [(''code'', JStr (er_code e)), (''message'', JStr (er_message e)), (''recoverable'', JBool (er_recoverable e))])"

definition worker_doc :: "uuid option \<Rightarrow> json" where
  "worker_doc w = (case w of None \<Rightarrow> JNull | Some u \<Rightarrow> JStr (FormatUuid u))"

text \<open>\<open>ToJson(const ExecutionRecord&)\<close>; the environment and the hardware are dumped and parsed again.\<close>

definition ExecutionRecordToJson :: "json_lib \<Rightarrow> ExecutionRecord \<Rightarrow> string res" where
  "ExecutionRecordToJson lib r =
     rbind (rbind (jl_dump lib (environment_doc (ex_environment r))) (jl_parse lib)) (\<lambda>env.
     rbind (rbind (jl_dump lib (hardware_doc (ex_hardware r))) (jl_parse lib)) (\<lambda>hw.
       jl_dump lib (JObj
         [(''attempt'', JInt (ex_attempt r)), (''ended_at_ns'', JInt (ex_ended_at_ns r)),
          (''environment'', env), (''error'', error_doc (ex_error r)), (''hardware'', hw),
          (''id'', JStr (FormatUuid (ex_id r))), (''inputs'', string_array (ex_inputs r)),
          (''outputs'', string_array (ex_outputs r)), (''started_at_ns'', JInt (ex_started_at_ns r)),
          (''task_id'', JStr (FormatUuid (ex_task_id r))),
          (''terminal_state'', JStr (TaskStatusName (ex_terminal_state r))),
          (''worker_id'', worker_doc (ex_worker_id r))])))"

section \<open>Reading\<close>

definition UuidOrNil :: "json_lib \<Rightarrow> json \<Rightarrow> uuid res" where
  "UuidOrNil lib j = (if j = JNull then Inr nil_uuid else rbind (jl_get_str lib j) ParseUuid)"

definition environment_from :: "json_lib \<Rightarrow> json \<Rightarrow> SoftwareEnvironment res" where
  "environment_from lib env =
     rbind (json_value lib (jl_get_str lib) env ''engine_version'' []) (\<lambda>version.
     rbind (json_value lib (jl_get_str lib) env ''git_commit'' []) (\<lambda>commit.
     rbind (json_value lib (jl_get_str lib) env ''protocol_version'' []) (\<lambda>protocol.
       Inr \<lparr>se_engine_version = version, se_git_commit = commit, se_protocol_version = protocol\<rparr>)))"

definition hardware_from :: "json_lib \<Rightarrow> json \<Rightarrow> HardwareInfo res" where
  "hardware_from lib hw =
     rbind (json_value lib (jl_get_str lib) hw ''os'' []) (\<lambda>os.
     rbind (json_value lib (jl_get_str lib) hw ''arch'' []) (\<lambda>arch.
     rbind (json_value lib (jl_get_str lib) hw ''cpu'' []) (\<lambda>cpu.
     rbind (json_value lib (jl_get_int64 lib) hw ''ram_bytes'' 0) (\<lambda>ram.
     rbind (json_value lib (jl_get_str lib) hw ''gpu'' []) (\<lambda>gpu.
       Inr \<lparr>hw_os = os, hw_arch = arch, hw_cpu = cpu, hw_ram_bytes = ram, hw_gpu = gpu\<rparr>)))))"

definition error_from :: "json_lib \<Rightarrow> json \<Rightarrow> ErrorRecord option res" where
  "error_from lib j =
     (if j = JNull then Inr None
      else
        rbind (json_value lib (jl_get_str lib) j ''code'' []) (\<lambda>code.
        rbind (json_value lib (jl_get_str lib) j ''message'' []) (\<lambda>message.
        rbind (json_value lib (jl_get_bool lib) j ''recoverable'' False) (\<lambda>recoverable.
          Inr (Some \<lparr>er_code = code, er_message = message, er_recoverable = recoverable\<rparr>)))))"

definition record_from :: "json_lib \<Rightarrow> json \<Rightarrow> ExecutionRecord res" where
  "record_from lib j =
     rbind (rbind (rbind (jl_at lib j ''id'') (jl_get_str lib)) ParseUuid) (\<lambda>rid.
     rbind (rbind (rbind (jl_at lib j ''task_id'') (jl_get_str lib)) ParseUuid) (\<lambda>task_id.
     rbind (json_value lib (jl_get_int32 lib) j ''attempt'' 1) (\<lambda>attempt.
     rbind (rbind (jl_at lib j ''worker_id'') (UuidOrNil lib)) (\<lambda>worker.
     rbind (rbind (jl_at lib j ''inputs'') (ToStringVector lib)) (\<lambda>ins.
     rbind (rbind (jl_at lib j ''outputs'') (ToStringVector lib)) (\<lambda>outs.
     rbind (rbind (jl_at lib j ''environment'') (environment_from lib)) (\<lambda>env.
     rbind (rbind (jl_at lib j ''hardware'') (hardware_from lib)) (\<lambda>hw.
     rbind (json_value lib (jl_get_int64 lib) j ''started_at_ns'' 0) (\<lambda>started.
     rbind (json_value lib (jl_get_int64 lib) j ''ended_at_ns'' 0) (\<lambda>ended.
     rbind (rbind (json_value lib (jl_get_str lib) j ''terminal_state'' ''failed'') ParseTaskStatus) (\<lambda>state.
     rbind (rbind (jl_at lib j ''error'') (error_from lib)) (\<lambda>error.
       Inr \<lparr>ex_id = rid, ex_task_id = task_id, ex_attempt = attempt, ex_worker_id = Some worker,
            ex_inputs = ins, ex_outputs = outs, ex_environment = env, ex_hardware = hw,
            ex_started_at_ns = started, ex_ended_at_ns = ended, ex_terminal_state = state,
            ex_error = error\<rparr>))))))))))))"

definition ExecutionRecordFromJson :: "json_lib \<Rightarrow> string \<Rightarrow> ExecutionRecord res" where
  "ExecutionRecordFromJson lib text = rbind (jl_parse lib text) (record_from lib)"

section \<open>Round trip\<close>

definition record_ok :: "ExecutionRecord \<Rightarrow> bool" where
  "record_ok r \<longleftrightarrow>
     length (ex_id r) = 16 \<and> length (ex_task_id r) = 16 \<and> int32_ok (ex_attempt r) \<and>
     (case ex_worker_id r of None \<Rightarrow> True | Some u \<Rightarrow> length u = 16) \<and>
     list_all ascii (ex_inputs r) \<and> list_all ascii (ex_outputs r) \<and>
     ascii (se_engine_version (ex_environment r)) \<and> ascii (se_git_commit (ex_environment r)) \<and>
     ascii (se_protocol_version (ex_environment r)) \<and>
     ascii (hw_os (ex_hardware r)) \<and> ascii (hw_arch (ex_hardware r)) \<and> ascii (hw_cpu (ex_hardware r)) \<and>
     ascii (hw_gpu (ex_hardware r)) \<and> int64_ok (hw_ram_bytes (ex_hardware r)) \<and>
     int64_ok (ex_started_at_ns r) \<and> int64_ok (ex_ended_at_ns r) \<and>
     (case ex_error r of None \<Rightarrow> True | Some e \<Rightarrow> ascii (er_code e) \<and> ascii (er_message e))"

lemma run_keys_ok:
  "sorted_wrt (<) [''attempt'', ''ended_at_ns'', ''environment'', ''error'', ''hardware'', ''id'', ''inputs'',
     ''outputs'', ''started_at_ns'', ''task_id'', ''terminal_state'', ''worker_id'']"
  "sorted_wrt (<) [''engine_version'', ''git_commit'', ''protocol_version'']"
  "sorted_wrt (<) [''arch'', ''cpu'', ''gpu'', ''os'', ''ram_bytes'']"
  "sorted_wrt (<) [''code'', ''message'', ''recoverable'']"
  by code_simp+

lemma run_docs_ok:
  assumes "record_ok r"
  shows "doc_ok (environment_doc (ex_environment r))" "doc_ok (hardware_doc (ex_hardware r))"
    "doc_ok (error_doc (ex_error r))" "doc_ok (worker_doc (ex_worker_id r))"
proof -
  show "doc_ok (environment_doc (ex_environment r))" "doc_ok (hardware_doc (ex_hardware r))"
    using assms run_keys_ok(2,3)
    by (simp_all add: record_ok_def environment_doc_def hardware_doc_def doc_ok_obj del: doc_ok.simps(7))
  show "doc_ok (error_doc (ex_error r))"
    using assms run_keys_ok(4) unfolding error_doc_def
    by (cases "ex_error r") (simp_all add: record_ok_def doc_ok_obj del: doc_ok.simps(7))
  show "doc_ok (worker_doc (ex_worker_id r))"
    unfolding worker_doc_def by (cases "ex_worker_id r") (simp_all add: ascii_FormatUuid)
qed

lemma run_parts_roundtrip:
  assumes "json_laws lib" "record_ok r"
  shows "environment_from lib (environment_doc (ex_environment r)) = Inr (ex_environment r)"
    and "hardware_from lib (hardware_doc (ex_hardware r)) = Inr (ex_hardware r)"
    and "error_from lib (error_doc (ex_error r)) = Inr (ex_error r)"
    and "UuidOrNil lib (worker_doc (ex_worker_id r)) = Inr (case ex_worker_id r of None \<Rightarrow> nil_uuid | Some u \<Rightarrow> u)"
proof -
  show "environment_from lib (environment_doc (ex_environment r)) = Inr (ex_environment r)"
    by (simp add: environment_from_def environment_doc_def json_value_obj json_law_simps assms(1))
  show "hardware_from lib (hardware_doc (ex_hardware r)) = Inr (ex_hardware r)"
    using assms(2)
    by (simp add: hardware_from_def hardware_doc_def json_value_obj json_law_simps assms(1) record_ok_def)
  show "error_from lib (error_doc (ex_error r)) = Inr (ex_error r)"
    by (cases "ex_error r") (simp_all add: error_from_def error_doc_def json_value_obj json_law_simps assms(1))
  show "UuidOrNil lib (worker_doc (ex_worker_id r)) = Inr (case ex_worker_id r of None \<Rightarrow> nil_uuid | Some u \<Rightarrow> u)"
    using assms(2)
    by (cases "ex_worker_id r") (simp_all add: UuidOrNil_def worker_doc_def json_law_simps assms(1) record_ok_def format_parse)
qed

lemma dump_parse_again:
  "json_laws lib \<Longrightarrow> doc_ok d \<Longrightarrow> rbind (jl_dump lib d) (jl_parse lib) = Inr d"
  using json_dump_parse by fastforce

text \<open>
  An execution record with ASCII texts and numbers in range is written and read back with every field
  unchanged but one: a record without a worker comes back with the nil worker id.
\<close>

theorem ExecutionRecord_roundtrip:
  assumes "json_laws lib" "record_ok r"
  shows "\<exists>w. ExecutionRecordToJson lib r = Inr w \<and> ExecutionRecordFromJson lib w =
    Inr (r\<lparr>ex_worker_id := Some (case ex_worker_id r of None \<Rightarrow> nil_uuid | Some u \<Rightarrow> u)\<rparr>)"
proof -
  note docs = run_docs_ok [OF assms(2)] and parts = run_parts_roundtrip [OF assms]
  note ok = assms(2) [unfolded record_ok_def]
  let ?doc = "JObj
    [(''attempt'', JInt (ex_attempt r)), (''ended_at_ns'', JInt (ex_ended_at_ns r)),
     (''environment'', environment_doc (ex_environment r)), (''error'', error_doc (ex_error r)),
     (''hardware'', hardware_doc (ex_hardware r)),
     (''id'', JStr (FormatUuid (ex_id r))), (''inputs'', string_array (ex_inputs r)),
     (''outputs'', string_array (ex_outputs r)), (''started_at_ns'', JInt (ex_started_at_ns r)),
     (''task_id'', JStr (FormatUuid (ex_task_id r))),
     (''terminal_state'', JStr (TaskStatusName (ex_terminal_state r))),
     (''worker_id'', worker_doc (ex_worker_id r))]"
  have "doc_ok ?doc" using ok docs run_keys_ok(1)
    by (simp add: doc_ok_obj doc_ok_string_array ascii_FormatUuid ascii_names int32_int64 del: doc_ok.simps(7))
  then obtain w where w: "jl_dump lib ?doc = Inr w" "jl_parse lib w = Inr ?doc"
    using json_dump_parse [OF assms(1)] by blast
  have "ExecutionRecordToJson lib r = Inr w"
    using w(1) by (simp add: ExecutionRecordToJson_def dump_parse_again [OF assms(1)] docs)
  moreover have "record_from lib ?doc =
      Inr (r\<lparr>ex_worker_id := Some (case ex_worker_id r of None \<Rightarrow> nil_uuid | Some u \<Rightarrow> u)\<rparr>)"
    using ok
    by (simp add: record_from_def json_value_obj json_law_simps assms(1) parts ToStringVector_array format_parse)
  ultimately show ?thesis using w(2) by (auto simp: ExecutionRecordFromJson_def)
qed

definition demo_record :: ExecutionRecord where
  "demo_record = \<lparr>ex_id = demo_id 7, ex_task_id = demo_id 1, ex_attempt = 1, ex_worker_id = None,
     ex_inputs = [''raw''], ex_outputs = [], ex_environment = \<lparr>se_engine_version = ''1'', se_git_commit = [],
     se_protocol_version = ''1''\<rparr>, ex_hardware = \<lparr>hw_os = ''linux'', hw_arch = [], hw_cpu = [],
     hw_ram_bytes = 0, hw_gpu = []\<rparr>, ex_started_at_ns = 5, ex_ended_at_ns = 6, ex_terminal_state = Failed,
     ex_error = Some \<lparr>er_code = ''INTERNAL'', er_message = [], er_recoverable = True\<rparr>\<rparr>"

lemma ExecutionRecord_roundtrip_witness:
  "\<exists>w. ExecutionRecordToJson reference_json demo_record = Inr w \<and>
     ExecutionRecordFromJson reference_json w = Inr (demo_record\<lparr>ex_worker_id := Some nil_uuid\<rparr>)"
proof -
  have "record_ok demo_record" by code_simp
  from ExecutionRecord_roundtrip [OF reference_json_laws this] show ?thesis by (simp add: demo_record_def)
qed

end
