(* ===== verification/MetadataDb.thy ===== *)
theory MetadataDb
  imports Execution
begin

text \<open>
  The engine's part of the project database: core/storage/metadata_db.cpp (artifact index and
  dependency tables) and the tables of migration 0003, as rows in rowid order. SQLite itself is the
  environment: \<open>db_fault n\<close> tells whether its n-th call fails, so every call that the code checks
  has both outcomes. A failed constraint fails the step. Messages leave out \<open>sqlite3_errmsg\<close>.
\<close>

section \<open>Rows and tables\<close>

record ArtifactIndexRow =
  ar_artifact_id :: uuid
  ar_content_hash :: string
  ar_type :: string
  ar_schema_version :: int
  ar_producer_json :: string
  ar_config_hash :: string
  ar_created_at_ns :: int
  ar_coordinate_frame :: string
  ar_unit :: string
  ar_file_size :: int
  ar_mime_type :: string
  ar_validation_status :: string

record task_row =
  tr_task_id :: uuid
  tr_job_id :: uuid
  tr_task_type :: string
  tr_spec_json :: string
  tr_config_hash :: string
  tr_cache_policy :: string
  tr_deterministic :: int
  tr_cancellation_policy :: string
  tr_status :: string
  tr_retry_policy_json :: string
  tr_created_at_ns :: int
  tr_updated_at_ns :: int

record run_row =
  rr_run_id :: uuid
  rr_task_id :: uuid
  rr_attempt :: int
  rr_worker_id :: "uuid option"
  rr_started_at_ns :: "int option"
  rr_ended_at_ns :: "int option"
  rr_terminal_state :: string
  rr_error_json :: string
  rr_input_refs_json :: string
  rr_output_refs_json :: string
  rr_environment_json :: string
  rr_hardware_json :: string

record WorkerRecord =
  wk_worker_id :: uuid
  wk_name :: string
  wk_capabilities :: "string list"
  wk_resource_profile_json :: string
  wk_protocol_version :: int
  wk_max_concurrency :: int
  wk_last_heartbeat_ns :: "int option"
  wk_status :: string

text \<open>A row of \<open>workers\<close>: the capabilities are stored as JSON text.\<close>

record worker_row =
  wr_worker_id :: uuid
  wr_name :: string
  wr_capabilities_json :: string
  wr_resource_profile_json :: string
  wr_protocol_version :: int
  wr_max_concurrency :: int
  wr_last_heartbeat_ns :: "int option"
  wr_status :: string

record CacheEntryRecord =
  ce_cache_key :: string
  ce_artifact_id :: uuid
  ce_task_type :: string
  ce_producer_version :: string
  ce_git_commit :: string
  ce_config_hash :: string
  ce_created_at_ns :: int
  ce_status :: string

text \<open>
  The connection, and the tables behind it that the engine uses. A statement without ORDER BY visits its
  rows in the order of the plan that SQLite chooses: \<open>db_scan t n\<close> is the order in which the statement
  running at call \<open>t\<close> visits its \<open>n\<close> rows, any order at all.
\<close>

record conn =
  db_open :: bool
  db_read_only :: bool
  db_fault :: "nat \<Rightarrow> bool"
  db_tick :: nat

record db = conn +
  db_tasks :: "task_row list"
  db_dependencies :: "(uuid \<times> uuid) list"
  db_runs :: "run_row list"
  db_workers :: "worker_row list"
  db_cache_entries :: "CacheEntryRecord list"
  db_artifacts :: "ArtifactIndexRow list"
  db_artifact_deps :: "(string \<times> string \<times> string) list"
  db_scan :: "nat \<Rightarrow> nat \<Rightarrow> nat list"

definition empty_db :: db where
  "empty_db = \<lparr>db_open = True, db_read_only = False, db_fault = (\<lambda>_. False), db_tick = 0, db_tasks = [],
     db_dependencies = [], db_runs = [], db_workers = [], db_cache_entries = [], db_artifacts = [],
     db_artifact_deps = [], db_scan = (\<lambda>_ n. [0..<n])\<rparr>"

definition scan :: "'a list \<Rightarrow> db \<Rightarrow> 'a list" where
  "scan rows d = (let p = db_scan d (db_tick d) (length rows) in
     if sort p = [0..<length rows] then map ((!) rows) p else rows)"

section \<open>Calls into SQLite\<close>

text \<open>The calls are the same whatever tables the connection has behind it.\<close>

type_synonym ('a, 's) conn_op = "'s conn_scheme \<Rightarrow> 'a res \<times> 's conn_scheme"
type_synonym 'a db_op = "db \<Rightarrow> 'a res \<times> db"

definition sql_tick :: "'s conn_scheme \<Rightarrow> 's conn_scheme" where
  "sql_tick d = d\<lparr>db_tick := Suc (db_tick d)\<rparr>"

definition sql_fails :: "'s conn_scheme \<Rightarrow> bool" where
  "sql_fails d \<longleftrightarrow> \<not> db_open d \<or> db_fault d (db_tick d)"

text \<open>A call whose failure throws \<open>e\<close>: prepare, BEGIN, COMMIT.\<close>

definition sql_call :: "exn \<Rightarrow> (unit, 's) conn_op" where
  "sql_call e d = (if sql_fails d then Inl e else Inr (), sql_tick d)"

text \<open>One \<open>sqlite3_step\<close> of a write; \<open>None\<close> is a constraint violation.\<close>

definition sql_write :: "exn \<Rightarrow> ('s conn_scheme \<Rightarrow> 's conn_scheme option) \<Rightarrow> (unit, 's) conn_op" where
  "sql_write e f d =
     (case f d of
        Some d' \<Rightarrow> if sql_fails d then (Inl e, sql_tick d) else (Inr (), sql_tick d')
      | None \<Rightarrow> (Inl e, sql_tick d))"

text \<open>One \<open>sqlite3_step\<close> of a query that reads at most one row: an error reads as no row.\<close>

definition sql_first :: "('s conn_scheme \<Rightarrow> 'r option) \<Rightarrow> ('r option, 's) conn_op" where
  "sql_first f d = (Inr (if sql_fails d then None else f d), sql_tick d)"

definition lift_res :: "'a res \<Rightarrow> 's \<Rightarrow> 'a res \<times> 's" where
  "lift_res r d = (r, d)"

section \<open>The artifact index\<close>

definition schema_error :: "string \<Rightarrow> exn" where
  "schema_error msg = throw_error kSchemaInvalid msg"

definition read_only_error :: exn where
  "read_only_error = throw_error kStorageReadOnly ''cannot write to a read-only project''"

text \<open>INSERT OR REPLACE removes every row that shares the primary key or the unique content hash.\<close>

definition replace_artifact :: "ArtifactIndexRow \<Rightarrow> ArtifactIndexRow list \<Rightarrow> ArtifactIndexRow list" where
  "replace_artifact row rows =
     filter (\<lambda>r. ar_artifact_id r \<noteq> ar_artifact_id row \<and> ar_content_hash r \<noteq> ar_content_hash row) rows @ [row]"

definition UpsertArtifact :: "ArtifactIndexRow \<Rightarrow> unit db_op" where
  "UpsertArtifact row d =
     (if db_read_only d then (Inl read_only_error, d)
      else sbind (sql_call (schema_error ''cannot prepare upsert artifact'')) (\<lambda>_.
        sql_write (schema_error ''cannot upsert artifact row'')
          (\<lambda>d. Some (d\<lparr>db_artifacts := replace_artifact row (db_artifacts d)\<rparr>))) d)"

definition FindArtifactByHash :: "string \<Rightarrow> ArtifactIndexRow option db_op" where
  "FindArtifactByHash content_hash =
     sbind (sql_call (schema_error ''cannot prepare find artifact'')) (\<lambda>_.
       sql_first (\<lambda>d. tbl_get ar_content_hash content_hash (db_artifacts d)))"

definition FindArtifactById :: "uuid \<Rightarrow> ArtifactIndexRow option db_op" where
  "FindArtifactById artifact_id =
     sbind (sql_call (schema_error ''cannot prepare find artifact by id'')) (\<lambda>_.
       sql_first (\<lambda>d. tbl_get ar_artifact_id artifact_id (db_artifacts d)))"

text \<open>\<open>while (sqlite3_step(stmt) == SQLITE_ROW)\<close>: an error ends the loop like the last row does.\<close>

fun fetch_rows :: "'r list \<Rightarrow> ('r list, 's) conn_op" where
  "fetch_rows [] d = (Inr [], sql_tick d)"
| "fetch_rows (r # rs) d =
     (if sql_fails d then (Inr [], sql_tick d)
      else case fetch_rows rs (sql_tick d) of
        (Inl e, d') \<Rightarrow> (Inl e, d') | (Inr xs, d') \<Rightarrow> (Inr (r # xs), d'))"

definition FindArtifactsByType :: "string \<Rightarrow> ArtifactIndexRow list db_op" where
  "FindArtifactsByType type =
     sbind (sql_call (schema_error ''cannot prepare find artifacts by type'')) (\<lambda>_ d.
       fetch_rows (filter (\<lambda>r. ar_type r = type) (db_artifacts d)) d)"

definition RecordDependency :: "string \<Rightarrow> string \<Rightarrow> string \<Rightarrow> unit db_op" where
  "RecordDependency input_hash output_hash role d =
     (if db_read_only d then (Inl read_only_error, d)
      else sbind (sql_call (schema_error ''cannot prepare record dependency'')) (\<lambda>_.
        sql_write (schema_error ''cannot record dependency'')
          (\<lambda>d. Some (d\<lparr>db_artifact_deps :=
             tbl_replace (\<lambda>r. (fst r, fst (snd r))) (input_hash, output_hash, role) (db_artifact_deps d)\<rparr>))) d)"

section \<open>Lemmas\<close>

lemma sql_tick_simps [simp]:
  "db_open (sql_tick d) = db_open d" "db_read_only (sql_tick d) = db_read_only d"
  "db_fault (sql_tick d) = db_fault d" "db_tick (sql_tick d) = Suc (db_tick d)"
  by (simp_all add: sql_tick_def)

lemma sql_tick_tables [simp]:
  "db_tasks (sql_tick d) = db_tasks d" "db_dependencies (sql_tick d) = db_dependencies d"
  "db_runs (sql_tick d) = db_runs d" "db_workers (sql_tick d) = db_workers d"
  "db_cache_entries (sql_tick d) = db_cache_entries d" "db_artifacts (sql_tick d) = db_artifacts d"
  "db_artifact_deps (sql_tick d) = db_artifact_deps d"
  by (simp_all add: sql_tick_def)

text \<open>The tables, without the call counter.\<close>

definition same_tables :: "db \<Rightarrow> db \<Rightarrow> bool" where
  "same_tables d d' \<longleftrightarrow> d'\<lparr>db_tick := 0\<rparr> = d\<lparr>db_tick := 0\<rparr>"

lemma same_tables_refl [simp]: "same_tables d d"
  by (simp add: same_tables_def)

lemma same_tables_trans: "same_tables a b \<Longrightarrow> same_tables b c \<Longrightarrow> same_tables a c"
  by (simp add: same_tables_def)

lemma same_tables_tick [simp]: "same_tables a (sql_tick b) \<longleftrightarrow> same_tables a b"
  by (simp add: same_tables_def sql_tick_def)

text \<open>The artifact index as the table the store relies on: one row per id and per hash.\<close>

definition artifact_index_ok :: "ArtifactIndexRow list \<Rightarrow> bool" where
  "artifact_index_ok rows \<longleftrightarrow> distinct (map ar_artifact_id rows) \<and> distinct (map ar_content_hash rows)"

lemma replace_artifact_ok: "artifact_index_ok rows \<Longrightarrow> artifact_index_ok (replace_artifact row rows)"
  by (auto simp: artifact_index_ok_def replace_artifact_def distinct_map inj_on_def)

lemma replace_artifact_get:
  "artifact_index_ok rows \<Longrightarrow> tbl_get ar_content_hash h (replace_artifact row rows)
     = (if h = ar_content_hash row then Some row
        else case tbl_get ar_content_hash h rows of
          None \<Rightarrow> None | Some r \<Rightarrow> if ar_artifact_id r = ar_artifact_id row then None else Some r)"
proof (induction rows)
  case Nil
  show ?case by (simp add: replace_artifact_def tbl_get_Cons)
next
  case (Cons r rows)
  then have ok: "artifact_index_ok rows" "ar_content_hash r \<notin> ar_content_hash ` set rows"
    by (auto simp: artifact_index_ok_def)
  then have "tbl_get ar_content_hash (ar_content_hash r) rows = None" by (simp add: tbl_get_None)
  with Cons.IH [OF ok(1)] show ?case by (auto simp: replace_artifact_def tbl_get_Cons)
qed

end
