(* ===== verification/StateStore.thy ===== *)
theory StateStore
  imports MetadataDb "HOL-Library.Multiset"
begin

text \<open>
  engine/scheduler/scheduler_state_store.cpp: persistence of run state. \<open>SaveGraph\<close> is one
  transaction, the other writes are one statement each. The lemmas show that a failed write leaves
  every table as it was, and that what was written is what the readers return.
\<close>

definition store_error :: "string \<Rightarrow> exn" where
  "store_error what = throw_error kSchedPersistence what"

definition not_open :: exn where
  "not_open = store_error ''metadata database is not open''"

text \<open>\<open>if (db == nullptr) throw\<close> before a write.\<close>

definition when_open :: "'a db_op \<Rightarrow> 'a db_op" where
  "when_open f d = (if \<not> db_open d then (Inl not_open, d) else f d)"

section \<open>Task rows\<close>

definition ConfigHash :: "TaskInstance \<Rightarrow> string" where
  "ConfigHash task = Sha256Hex (bytes_of (ti_config_json task))"

definition make_task_row :: "json_lib \<Rightarrow> uuid \<Rightarrow> TaskInstance \<Rightarrow> task_row res" where
  "make_task_row lib job task =
     rbind (TaskToJson lib task) (\<lambda>spec.
     rbind (jl_dump lib (RetryPolicyToJson (md_retry (ti_metadata task)))) (\<lambda>retry.
       Inr \<lparr>tr_task_id = ti_id task, tr_job_id = job, tr_task_type = td_type (ti_definition task),
            tr_spec_json = spec, tr_config_hash = ConfigHash task,
            tr_cache_policy = (if md_cache (ti_metadata task) = Never then ''never'' else ''cacheable''),
            tr_deterministic = (if md_deterministic (ti_metadata task) then 1 else 0),
            tr_cancellation_policy =
              (if md_cancellation (ti_metadata task) = BestEffort then ''best_effort'' else ''cooperative''),
            tr_status = TaskStatusName (ti_state task), tr_retry_policy_json = retry,
            tr_created_at_ns = md_created_at_ns (ti_metadata task),
            tr_updated_at_ns = md_updated_at_ns (ti_metadata task)\<rparr>))"

text \<open>ON CONFLICT(task_id) DO UPDATE: the owner, the type and the creation time stay.\<close>

definition update_task_row :: "task_row \<Rightarrow> task_row \<Rightarrow> task_row" where
  "update_task_row old new = old\<lparr>tr_spec_json := tr_spec_json new, tr_config_hash := tr_config_hash new,
     tr_cache_policy := tr_cache_policy new, tr_deterministic := tr_deterministic new,
     tr_cancellation_policy := tr_cancellation_policy new, tr_status := tr_status new,
     tr_retry_policy_json := tr_retry_policy_json new, tr_updated_at_ns := tr_updated_at_ns new\<rparr>"

section \<open>Writes\<close>

definition insert_task_row :: "task_row \<Rightarrow> db \<Rightarrow> db option" where
  "insert_task_row row d =
     map_option (\<lambda>rows. d\<lparr>db_tasks := rows\<rparr>) (tbl_insert tr_task_id row (db_tasks d))"

text \<open>Both columns of \<open>task_dependencies\<close> reference \<open>tasks\<close>, and foreign keys are on.\<close>

definition insert_dep_row :: "uuid \<times> uuid \<Rightarrow> db \<Rightarrow> db option" where
  "insert_dep_row dep d =
     (if fst dep \<in> tr_task_id ` set (db_tasks d) \<and> snd dep \<in> tr_task_id ` set (db_tasks d)
      then map_option (\<lambda>rows. d\<lparr>db_dependencies := rows\<rparr>) (tbl_insert (\<lambda>r. r) dep (db_dependencies d))
      else None)"

definition save_one_task :: "json_lib \<Rightarrow> TaskGraph \<Rightarrow> uuid \<Rightarrow> unit db_op" where
  "save_one_task lib g tid =
     sbind (lift_res (GetTask g tid)) (\<lambda>task.
     sbind (lift_res (make_task_row lib (tg_job_id g) task)) (\<lambda>row.
       sql_write (store_error ''cannot insert task row'') (insert_task_row row)))"

definition save_one_deps :: "TaskGraph \<Rightarrow> uuid \<Rightarrow> unit db_op" where
  "save_one_deps g tid =
     sbind (lift_res (DependenciesOf g tid)) (\<lambda>deps.
       for_each (\<lambda>dep. sql_write (store_error ''cannot insert dependency row'') (insert_dep_row (tid, dep))) deps)"

definition save_graph_body :: "json_lib \<Rightarrow> TaskGraph \<Rightarrow> unit db_op" where
  "save_graph_body lib g =
     sbind (sql_call (store_error ''cannot prepare insert task'')) (\<lambda>_.
     sbind (for_each (save_one_task lib g) (tg_order g)) (\<lambda>_.
     sbind (sql_call (store_error ''cannot prepare insert dependency'')) (\<lambda>_.
     sbind (for_each (save_one_deps g) (tg_order g)) (\<lambda>_.
       sql_call (store_error ''cannot commit SaveGraph transaction'')))))"

text \<open>ROLLBACK gives back the tables of the BEGIN.\<close>

definition rollback :: "db \<Rightarrow> db \<Rightarrow> db" where
  "rollback at_begin d = at_begin\<lparr>db_tick := Suc (db_tick d)\<rparr>"

definition SaveGraph :: "json_lib \<Rightarrow> TaskGraph \<Rightarrow> unit db_op" where
  "SaveGraph lib g = when_open
     (sbind (sql_call (store_error ''cannot begin SaveGraph transaction'')) (\<lambda>_ d.
        case save_graph_body lib g d of
          (Inl e, d') \<Rightarrow> (Inl e, rollback d d')
        | (Inr u, d') \<Rightarrow> (Inr u, d')))"

definition UpsertTask :: "json_lib \<Rightarrow> uuid \<Rightarrow> TaskInstance \<Rightarrow> unit db_op" where
  "UpsertTask lib job task = when_open
     (sbind (sql_call (store_error ''cannot prepare upsert task'')) (\<lambda>_.
      sbind (lift_res (make_task_row lib job task)) (\<lambda>row.
        sql_write (store_error ''cannot upsert task row'')
          (\<lambda>d. Some (d\<lparr>db_tasks := tbl_upsert tr_task_id update_task_row row (db_tasks d)\<rparr>)))))"

text \<open>A time of 0 is stored as NULL; the error column holds the text \<open>null\<close> when there is none.\<close>

definition make_run_row :: "json_lib \<Rightarrow> ExecutionRecord \<Rightarrow> run_row res" where
  "make_run_row lib record =
     rbind (jl_dump lib (string_array (ex_inputs record))) (\<lambda>inputs.
     rbind (jl_dump lib (string_array (ex_outputs record))) (\<lambda>outputs.
     rbind (jl_dump lib (environment_doc (ex_environment record))) (\<lambda>environment.
     rbind (jl_dump lib (hardware_doc (ex_hardware record))) (\<lambda>hardware.
     rbind (case ex_error record of None \<Rightarrow> Inr ''null'' | Some e \<Rightarrow> jl_dump lib (error_doc (Some e))) (\<lambda>error.
       Inr \<lparr>rr_run_id = ex_id record, rr_task_id = ex_task_id record, rr_attempt = ex_attempt record,
            rr_worker_id = ex_worker_id record,
            rr_started_at_ns = (if ex_started_at_ns record \<noteq> 0 then Some (ex_started_at_ns record) else None),
            rr_ended_at_ns = (if ex_ended_at_ns record \<noteq> 0 then Some (ex_ended_at_ns record) else None),
            rr_terminal_state = TaskStatusName (ex_terminal_state record),
            rr_error_json = error, rr_input_refs_json = inputs, rr_output_refs_json = outputs,
            rr_environment_json = environment, rr_hardware_json = hardware\<rparr>)))))"

definition insert_run_row :: "run_row \<Rightarrow> db \<Rightarrow> db option" where
  "insert_run_row row d =
     (if rr_task_id row \<in> tr_task_id ` set (db_tasks d)
      then map_option (\<lambda>rows. d\<lparr>db_runs := rows\<rparr>) (tbl_insert rr_run_id row (db_runs d))
      else None)"

definition RecordRun :: "json_lib \<Rightarrow> ExecutionRecord \<Rightarrow> unit db_op" where
  "RecordRun lib record = when_open
     (sbind (sql_call (store_error ''cannot prepare insert run'')) (\<lambda>_.
      sbind (lift_res (make_run_row lib record)) (\<lambda>row.
        sql_write (store_error ''cannot insert run row'') (insert_run_row row))))"

definition UpsertWorker :: "json_lib \<Rightarrow> WorkerRecord \<Rightarrow> unit db_op" where
  "UpsertWorker lib worker = when_open
     (sbind (sql_call (store_error ''cannot prepare upsert worker'')) (\<lambda>_.
      sbind (lift_res (jl_dump lib (string_array (wk_capabilities worker)))) (\<lambda>caps.
        sql_write (store_error ''cannot upsert worker row'')
          (\<lambda>d. Some (d\<lparr>db_workers := tbl_replace wr_worker_id
             \<lparr>wr_worker_id = wk_worker_id worker, wr_name = wk_name worker, wr_capabilities_json = caps,
              wr_resource_profile_json = wk_resource_profile_json worker,
              wr_protocol_version = wk_protocol_version worker, wr_max_concurrency = wk_max_concurrency worker,
              wr_last_heartbeat_ns = wk_last_heartbeat_ns worker, wr_status = wk_status worker\<rparr>
             (db_workers d)\<rparr>)))))"

definition UpsertCacheEntry :: "CacheEntryRecord \<Rightarrow> unit db_op" where
  "UpsertCacheEntry entry = when_open
     (sbind (sql_call (store_error ''cannot prepare upsert cache entry'')) (\<lambda>_.
        sql_write (store_error ''cannot upsert cache entry'')
          (\<lambda>d. Some (d\<lparr>db_cache_entries := tbl_replace ce_cache_key entry (db_cache_entries d)\<rparr>))))"

definition DeleteCacheEntry :: "string \<Rightarrow> unit db_op" where
  "DeleteCacheEntry cache_key = when_open
     (sbind (sql_call (store_error ''cannot prepare delete cache entry'')) (\<lambda>_.
        sql_write (store_error ''cannot delete cache entry'')
          (\<lambda>d. Some (d\<lparr>db_cache_entries := tbl_delete ce_cache_key cache_key (db_cache_entries d)\<rparr>))))"

section \<open>Reads\<close>

text \<open>
  The loop of a query whose rows are parsed one by one; a parse error is thrown from its middle. Neither
  \<open>LoadTasks\<close> nor \<open>LoadDependencies\<close> orders its rows, and \<open>LoadRuns\<close> orders them by attempt only.
\<close>

fun load_loop :: "('r \<Rightarrow> 'a res) \<Rightarrow> 'r list \<Rightarrow> 'a list db_op" where
  "load_loop read [] d = (Inr [], sql_tick d)"
| "load_loop read (r # rs) d =
     (if sql_fails d then (Inr [], sql_tick d)
      else case read r of
        Inl e \<Rightarrow> (Inl e, sql_tick d)
      | Inr x \<Rightarrow> (case load_loop read rs (sql_tick d) of
          (Inl e, d') \<Rightarrow> (Inl e, d') | (Inr xs, d') \<Rightarrow> (Inr (x # xs), d')))"

definition LoadTasks :: "json_lib \<Rightarrow> uuid \<Rightarrow> TaskInstance list db_op" where
  "LoadTasks lib job =
     sbind (sql_call (store_error ''cannot prepare load tasks'')) (\<lambda>_ d.
       load_loop (\<lambda>r. TaskFromJson lib (tr_spec_json r)) (scan (filter (\<lambda>r. tr_job_id r = job) (db_tasks d)) d) d)"

definition LoadDependencies :: "uuid \<Rightarrow> (uuid \<times> uuid) list db_op" where
  "LoadDependencies job =
     sbind (sql_call (store_error ''cannot prepare load dependencies'')) (\<lambda>_ d.
       load_loop Inr (scan (filter (\<lambda>dep. list_ex (\<lambda>t. tr_task_id t = fst dep \<and> tr_job_id t = job) (db_tasks d))
         (db_dependencies d)) d) d)"

definition run_from_row :: "json_lib \<Rightarrow> run_row \<Rightarrow> ExecutionRecord res" where
  "run_from_row lib row =
     rbind (jl_parse lib (rr_error_json row)) (\<lambda>error.
     rbind (jl_parse lib (rr_input_refs_json row)) (\<lambda>inputs.
     rbind (jl_parse lib (rr_output_refs_json row)) (\<lambda>outputs.
     rbind (jl_parse lib (rr_environment_json row)) (\<lambda>environment.
     rbind (jl_parse lib (rr_hardware_json row)) (\<lambda>hardware.
     rbind (jl_dump lib (JObj
         [(''attempt'', JInt (rr_attempt row)),
          (''ended_at_ns'', JInt (case rr_ended_at_ns row of None \<Rightarrow> 0 | Some t \<Rightarrow> t)),
          (''environment'', environment), (''error'', error), (''hardware'', hardware),
          (''id'', JStr (FormatUuid (rr_run_id row))), (''inputs'', inputs), (''outputs'', outputs),
          (''started_at_ns'', JInt (case rr_started_at_ns row of None \<Rightarrow> 0 | Some t \<Rightarrow> t)),
          (''task_id'', JStr (FormatUuid (rr_task_id row))), (''terminal_state'', JStr (rr_terminal_state row)),
          (''worker_id'', worker_doc (rr_worker_id row))]))
       (ExecutionRecordFromJson lib))))))"

definition LoadRuns :: "json_lib \<Rightarrow> uuid \<Rightarrow> ExecutionRecord list db_op" where
  "LoadRuns lib task_id =
     sbind (sql_call (store_error ''cannot prepare load runs'')) (\<lambda>_ d.
       load_loop (run_from_row lib) (sort_key rr_attempt (scan (filter (\<lambda>r. rr_task_id r = task_id) (db_runs d)) d)) d)"

definition FindTask :: "json_lib \<Rightarrow> uuid \<Rightarrow> TaskInstance option db_op" where
  "FindTask lib task_id =
     sbind (sql_call (store_error ''cannot prepare find task'')) (\<lambda>_.
     sbind (sql_first (\<lambda>d. tbl_get tr_task_id task_id (db_tasks d))) (\<lambda>row.
       case row of None \<Rightarrow> lift_res (Inr None)
       | Some r \<Rightarrow> lift_res (rbind (TaskFromJson lib (tr_spec_json r)) (\<lambda>t. Inr (Some t)))))"

definition FindCacheEntry :: "string \<Rightarrow> CacheEntryRecord option db_op" where
  "FindCacheEntry cache_key =
     sbind (sql_call (store_error ''cannot prepare find cache entry'')) (\<lambda>_.
       sql_first (\<lambda>d. tbl_get ce_cache_key cache_key (db_cache_entries d)))"

section \<open>A failed write changes no table\<close>

lemma sql_call_cases:
  obtains "sql_fails d" "sql_call e d = (Inl e, sql_tick d)" | "\<not> sql_fails d" "sql_call e d = (Inr (), sql_tick d)"
  by (cases "sql_fails d") (simp_all add: sql_call_def)

lemma one_statement_atomic:
  assumes "sbind (sql_call e1) (\<lambda>_. sbind (lift_res r) (\<lambda>x. sql_write e2 (f x))) d = (Inl e, d')"
  shows "same_tables d d'"
  using assms by (cases r) (auto simp: sbind_def sql_call_def lift_res_def sql_write_def split: if_splits option.splits)

lemma one_statement_atomic':
  assumes "sbind (sql_call e1) (\<lambda>_. sql_write e2 f) d = (Inl e, d')"
  shows "same_tables d d'"
  using assms by (auto simp: sbind_def sql_call_def sql_write_def split: if_splits option.splits)

lemma rollback_tables: "same_tables d (rollback d d')"
  by (simp add: rollback_def same_tables_def)

lemma SaveGraph_atomic:
  assumes "SaveGraph lib g d = (Inl e, d')" shows "same_tables d d'"
proof (cases "db_open d")
  case True
  then show ?thesis
    using assms rollback_tables [of "sql_tick d"] same_tables_trans [of d "sql_tick d"]
    by (auto simp: SaveGraph_def when_open_def sbind_def sql_call_def
        split: if_splits prod.splits sum.splits)
qed (use assms in \<open>simp add: SaveGraph_def when_open_def\<close>)

text \<open>
  A write of the state store that throws, whatever call into the database failed and however many
  rows a transaction had already inserted, leaves every table as it was.
\<close>

theorem failed_writes_change_nothing:
  "(SaveGraph lib g d = (Inl e, d') \<longrightarrow> same_tables d d') \<and>
   (UpsertTask lib job t d = (Inl e, d') \<longrightarrow> same_tables d d') \<and>
   (RecordRun lib r d = (Inl e, d') \<longrightarrow> same_tables d d') \<and>
   (UpsertWorker lib w d = (Inl e, d') \<longrightarrow> same_tables d d') \<and>
   (UpsertCacheEntry c d = (Inl e, d') \<longrightarrow> same_tables d d') \<and>
   (DeleteCacheEntry k d = (Inl e, d') \<longrightarrow> same_tables d d')"
  using SaveGraph_atomic
  by (auto simp: UpsertTask_def RecordRun_def UpsertWorker_def UpsertCacheEntry_def DeleteCacheEntry_def
      when_open_def split: if_splits dest!: one_statement_atomic one_statement_atomic')

text \<open>A database whose second insert fails: the first row is gone again.\<close>

definition faulty_db :: "nat \<Rightarrow> db" where
  "faulty_db k = empty_db\<lparr>db_fault := (\<lambda>n. n = k)\<rparr>"

lemma failed_writes_change_nothing_witness:
  "db_tasks (snd (SaveGraph reference_json demo_graph (faulty_db 1))) = []"
proof -
  have "isl (fst (SaveGraph reference_json demo_graph (faulty_db 1)))" by code_simp
  then obtain e d' where s: "SaveGraph reference_json demo_graph (faulty_db 1) = (Inl e, d')"
    by (metis isl_def prod.collapse)
  then have "same_tables (faulty_db 1) d'" using failed_writes_change_nothing by blast
  then have "db_tasks (d'\<lparr>db_tick := 0\<rparr>) = db_tasks ((faulty_db 1)\<lparr>db_tick := 0\<rparr>)"
    by (simp only: same_tables_def)
  with s show ?thesis by (simp add: faulty_db_def empty_db_def)
qed

section \<open>What was written is read back\<close>

definition healthy :: "db \<Rightarrow> bool" where
  "healthy d \<longleftrightarrow> db_open d \<and> (\<forall>n. \<not> db_fault d n)"

lemma healthy_simps [simp]:
  "healthy d \<Longrightarrow> \<not> sql_fails d" "healthy d \<Longrightarrow> db_open d" "healthy (sql_tick d) \<longleftrightarrow> healthy d"
  "healthy (d\<lparr>db_tasks := ts\<rparr>) \<longleftrightarrow> healthy d" "healthy (d\<lparr>db_dependencies := ds\<rparr>) \<longleftrightarrow> healthy d"
  "healthy (d\<lparr>db_runs := rs\<rparr>) \<longleftrightarrow> healthy d" "healthy (d\<lparr>db_cache_entries := cs\<rparr>) \<longleftrightarrow> healthy d"
  "healthy (d\<lparr>db_tick := n\<rparr>) \<longleftrightarrow> healthy d"
  by (auto simp: healthy_def sql_fails_def)

lemma healthy_call: "healthy d \<Longrightarrow> sql_call e d = (Inr (), sql_tick d)"
  by (simp add: sql_call_def)

lemma healthy_write: "healthy d \<Longrightarrow> f d = Some d' \<Longrightarrow> sql_write e f d = (Inr (), sql_tick d')"
  by (simp add: sql_write_def)

lemma load_loop_healthy:
  "healthy d \<Longrightarrow> (\<And>r. r \<in> set rs \<Longrightarrow> read r = Inr (f r)) \<Longrightarrow> \<exists>d'. load_loop read rs d = (Inr (map f rs), d') \<and> same_tables d d'"
proof (induction rs arbitrary: d)
  case (Cons r rs)
  from Cons.IH [of "sql_tick d"] Cons.prems obtain d' where
    "load_loop read rs (sql_tick d) = (Inr (map f rs), d')" "same_tables (sql_tick d) d'" by auto
  with Cons.prems show ?case
    by (auto intro!: same_tables_trans [of d "sql_tick d" d'])
qed simp

lemma doc_ok_retry: "metadata_ok m \<Longrightarrow> doc_ok (RetryPolicyToJson (md_retry m))"
  unfolding RetryPolicyToJson_def
  using doc_keys_ok(2) by (simp add: metadata_ok_def int32_int64 doc_ok_obj del: doc_ok.simps(7))

lemma make_task_row_ok:
  assumes "json_laws lib" "task_ok t"
  shows "\<exists>row. make_task_row lib job t = Inr row \<and> tr_task_id row = ti_id t \<and> tr_job_id row = job \<and>
    tr_status row = TaskStatusName (ti_state t) \<and> TaskFromJson lib (tr_spec_json row) = Inr t"
proof -
  from json_dump_parse [OF assms(1) doc_ok_task [OF assms(2)]] obtain w where
    w: "TaskToJson lib t = Inr w" "TaskFromJson lib w = Inr t"
    using task_doc_roundtrip [OF assms] by (auto simp: TaskToJson_def TaskFromJson_def)
  moreover have "metadata_ok (ti_metadata t)" using assms(2) by (simp add: task_ok_def)
  then obtain v where "jl_dump lib (RetryPolicyToJson (md_retry (ti_metadata t))) = Inr v"
    using json_dump_parse [OF assms(1) doc_ok_retry] by blast
  ultimately show ?thesis by (simp add: make_task_row_def)
qed

text \<open>
  On a healthy database, after a task was upserted \<open>FindTask\<close> returns exactly that task, the
  status column holds its state's name, and every other task is found as before.
\<close>

theorem UpsertTask_FindTask:
  assumes "json_laws lib" "task_ok t" "healthy d"
  shows "\<exists>d' row. UpsertTask lib job t d = (Inr (), d') \<and>
    fst (FindTask lib (ti_id t) d') = Inr (Some t) \<and>
    tbl_get tr_task_id (ti_id t) (db_tasks d') = Some row \<and> tr_status row = TaskStatusName (ti_state t) \<and>
    (\<forall>v. v \<noteq> ti_id t \<longrightarrow> fst (FindTask lib v d') = fst (FindTask lib v d))"
proof -
  from make_task_row_ok [OF assms(1,2)] obtain row where
    row: "make_task_row lib job t = Inr row" "tr_task_id row = ti_id t" "tr_status row = TaskStatusName (ti_state t)"
      "TaskFromJson lib (tr_spec_json row) = Inr t" by blast
  let ?d' = "sql_tick (sql_tick d\<lparr>db_tasks := tbl_upsert tr_task_id update_task_row row (db_tasks d)\<rparr>)"
  have up: "UpsertTask lib job t d = (Inr (), ?d')"
    using assms(3) row(1)
    by (simp add: UpsertTask_def when_open_def sbind_def healthy_call lift_res_def healthy_write)
  have get: "tbl_get tr_task_id v (tbl_upsert tr_task_id update_task_row row (db_tasks d)) = (if v = ti_id t
      then Some (case tbl_get tr_task_id v (db_tasks d) of None \<Rightarrow> row | Some x \<Rightarrow> update_task_row x row)
      else tbl_get tr_task_id v (db_tasks d))" for v
    using tbl_get_upsert [where key = tr_task_id and upd = update_task_row and r = row and k = v and rows = "db_tasks d"] row(2)
    by (simp add: update_task_row_def)
  have "healthy ?d'" using assms(3) by simp
  then have find: "fst (FindTask lib v ?d') = (case tbl_get tr_task_id v (db_tasks ?d') of None \<Rightarrow> Inr None
      | Some r \<Rightarrow> rbind (TaskFromJson lib (tr_spec_json r)) (\<lambda>t. Inr (Some t)))" for v
    by (simp add: FindTask_def sbind_def healthy_call sql_first_def lift_res_def split: option.split)
  have find0: "fst (FindTask lib v d) = (case tbl_get tr_task_id v (db_tasks d) of None \<Rightarrow> Inr None
      | Some r \<Rightarrow> rbind (TaskFromJson lib (tr_spec_json r)) (\<lambda>t. Inr (Some t)))" for v
    using assms(3) by (simp add: FindTask_def sbind_def healthy_call sql_first_def lift_res_def split: option.split)
  have "fst (FindTask lib (ti_id t) ?d') = Inr (Some t)"
    using row(4) by (simp add: find get update_task_row_def split: option.split)
  moreover have "\<exists>r. tbl_get tr_task_id (ti_id t) (db_tasks ?d') = Some r \<and> tr_status r = TaskStatusName (ti_state t)"
    using row(3) by (simp add: get update_task_row_def split: option.split)
  moreover have "v \<noteq> ti_id t \<longrightarrow> fst (FindTask lib v ?d') = fst (FindTask lib v d)" for v
    by (simp add: find find0 get)
  ultimately show ?thesis using up by blast
qed

lemma UpsertTask_FindTask_witness:
  "\<exists>d'. UpsertTask reference_json (demo_id 9) (demo_task 1 [''raw''] [''mid'']) empty_db = (Inr (), d') \<and>
     fst (FindTask reference_json (demo_id 1) d') = Inr (Some (demo_task 1 [''raw''] [''mid'']))"
proof -
  have h: "healthy empty_db" by (simp add: healthy_def empty_db_def)
  have "ti_id (demo_task 1 [''raw''] [''mid'']) = demo_id 1" by (simp add: demo_task_def default_task_def)
  with UpsertTask_FindTask [OF reference_json_laws demo_task_ok h, of "demo_id 9"] show ?thesis by auto
qed

section \<open>A saved graph is loaded back\<close>

text \<open>The rows that a list of tasks becomes.\<close>

definition rows_for :: "json_lib \<Rightarrow> TaskGraph \<Rightarrow> uuid list \<Rightarrow> task_row list \<Rightarrow> bool" where
  "rows_for lib g vs rows \<longleftrightarrow>
     list_all2 (\<lambda>v row. tr_task_id row = v \<and> tr_job_id row = tg_job_id g \<and>
       TaskFromJson lib (tr_spec_json row) = Inr (task_of g v)) vs rows"

lemma save_one_task_ok:
  assumes "json_laws lib" "graph_wf g" "graph_ok g" "healthy d" "v \<in> set (tg_order g)"
    "v \<notin> tr_task_id ` set (db_tasks d)"
  shows "\<exists>row. save_one_task lib g v d = (Inr (), sql_tick (d\<lparr>db_tasks := db_tasks d @ [row]\<rparr>)) \<and>
    rows_for lib g [v] [row]"
proof -
  note ok = graph_ok_id [OF assms(2,3,5)]
  from make_task_row_ok [OF assms(1) ok(1)] obtain row where
    row: "make_task_row lib (tg_job_id g) (task_of g v) = Inr row" "rows_for lib g [v] [row]"
    using ok(2) by (fastforce simp: rows_for_def)
  moreover have "GetTask g v = Inr (task_of g v)"
    using graph_wf_maps [OF assms(2,5)] by (auto simp: GetTask_def Require_def task_of_def)
  moreover have "insert_task_row row d = Some (d\<lparr>db_tasks := db_tasks d @ [row]\<rparr>)"
    using row(2) assms(6) by (simp add: insert_task_row_def tbl_insert_def rows_for_def)
  ultimately show ?thesis
    using assms(4) by (auto simp: save_one_task_def sbind_def lift_res_def healthy_write)
qed

lemma save_tasks_loop:
  assumes "json_laws lib" "graph_wf g" "graph_ok g"
  shows "healthy d \<Longrightarrow> distinct vs \<Longrightarrow> set vs \<subseteq> set (tg_order g) \<Longrightarrow> set vs \<inter> tr_task_id ` set (db_tasks d) = {} \<Longrightarrow>
    \<exists>rows n. for_each (save_one_task lib g) vs d = (Inr (), d\<lparr>db_tasks := db_tasks d @ rows, db_tick := n\<rparr>) \<and>
      rows_for lib g vs rows"
proof (induction vs arbitrary: d)
  case Nil
  have "d\<lparr>db_tasks := db_tasks d @ [], db_tick := db_tick d\<rparr> = d" by simp
  then show ?case by (intro exI [of _ "[]"] exI [of _ "db_tick d"]) (simp add: rows_for_def)
next
  case (Cons v vs)
  from save_one_task_ok [OF assms Cons.prems(1), of v] Cons.prems obtain row where
    one: "save_one_task lib g v d = (Inr (), sql_tick (d\<lparr>db_tasks := db_tasks d @ [row]\<rparr>))" "rows_for lib g [v] [row]"
    by auto
  let ?d1 = "sql_tick (d\<lparr>db_tasks := db_tasks d @ [row]\<rparr>)"
  have "set vs \<inter> tr_task_id ` set (db_tasks ?d1) = {}"
    using Cons.prems one(2) by (auto simp: rows_for_def)
  with Cons.IH [of ?d1] Cons.prems obtain rows n where
    rest: "for_each (save_one_task lib g) vs ?d1 = (Inr (), ?d1\<lparr>db_tasks := db_tasks ?d1 @ rows, db_tick := n\<rparr>)"
      "rows_for lib g vs rows" by auto
  then have "for_each (save_one_task lib g) (v # vs) d = (Inr (), d\<lparr>db_tasks := db_tasks d @ row # rows, db_tick := n\<rparr>)"
    using one(1) by (simp add: sql_tick_def)
  moreover have "rows_for lib g (v # vs) (row # rows)" using one(2) rest(2) by (simp add: rows_for_def)
  ultimately show ?case by blast
qed

lemma insert_deps_loop:
  "healthy d \<Longrightarrow> v \<in> tr_task_id ` set (db_tasks d) \<Longrightarrow> set ds \<subseteq> tr_task_id ` set (db_tasks d) \<Longrightarrow>
   distinct ds \<Longrightarrow> (\<forall>x\<in>set ds. (v, x) \<notin> set (db_dependencies d)) \<Longrightarrow>
   \<exists>n. for_each (\<lambda>dep. sql_write (store_error ''cannot insert dependency row'') (insert_dep_row (v, dep))) ds d
     = (Inr (), d\<lparr>db_dependencies := db_dependencies d @ map (Pair v) ds, db_tick := n\<rparr>)"
proof (induction ds arbitrary: d)
  case Nil
  have "d\<lparr>db_dependencies := db_dependencies d @ [], db_tick := db_tick d\<rparr> = d" by simp
  then show ?case by (intro exI [of _ "db_tick d"]) simp
next
  case (Cons x ds)
  let ?d1 = "sql_tick (d\<lparr>db_dependencies := db_dependencies d @ [(v, x)]\<rparr>)"
  have "insert_dep_row (v, x) d = Some (d\<lparr>db_dependencies := db_dependencies d @ [(v, x)]\<rparr>)"
    using Cons.prems by (auto simp: insert_dep_row_def tbl_insert_def)
  then have "sql_write (store_error ''cannot insert dependency row'') (insert_dep_row (v, x)) d = (Inr (), ?d1)"
    using Cons.prems(1) by (simp add: healthy_write)
  moreover from Cons.IH [of ?d1] Cons.prems obtain n where
    "for_each (\<lambda>dep. sql_write (store_error ''cannot insert dependency row'') (insert_dep_row (v, dep))) ds ?d1
      = (Inr (), ?d1\<lparr>db_dependencies := db_dependencies ?d1 @ map (Pair v) ds, db_tick := n\<rparr>)" by auto
  ultimately show ?case by (auto simp: sql_tick_def)
qed

definition dep_rows :: "TaskGraph \<Rightarrow> uuid list \<Rightarrow> (uuid \<times> uuid) list" where
  "dep_rows g vs = concat (map (\<lambda>v. map (Pair v) (vec_at (tg_dependencies g) v)) vs)"

lemma graph_deps:
  assumes "graph_wf g"
  shows "v \<in> set (tg_order g) \<Longrightarrow> DependenciesOf g v = Inr (vec_at (tg_dependencies g) v)"
    and "distinct (vec_at (tg_dependencies g) v)" and "set (vec_at (tg_dependencies g) v) \<subseteq> set (tg_order g)"
proof -
  show "v \<in> set (tg_order g) \<Longrightarrow> DependenciesOf g v = Inr (vec_at (tg_dependencies g) v)"
    using graph_wf_maps [OF assms] by (fastforce simp: DependenciesOf_def Require_def vec_at_def)
  show "distinct (vec_at (tg_dependencies g) v)" using assms by (simp add: graph_wf_def)
  show "set (vec_at (tg_dependencies g) v) \<subseteq> set (tg_order g)"
    using assms by (auto simp: graph_wf_def depends_def)
qed

lemma save_deps_loop:
  assumes "graph_wf g"
  shows "healthy d \<Longrightarrow> distinct vs \<Longrightarrow> set vs \<subseteq> set (tg_order g) \<Longrightarrow>
    set (tg_order g) \<subseteq> tr_task_id ` set (db_tasks d) \<Longrightarrow> (\<forall>p\<in>set (db_dependencies d). fst p \<notin> set vs) \<Longrightarrow>
    \<exists>n. for_each (save_one_deps g) vs d
      = (Inr (), d\<lparr>db_dependencies := db_dependencies d @ dep_rows g vs, db_tick := n\<rparr>)"
proof (induction vs arbitrary: d)
  case Nil
  have "d\<lparr>db_dependencies := db_dependencies d @ [], db_tick := db_tick d\<rparr> = d" by simp
  then show ?case by (intro exI [of _ "db_tick d"]) (simp add: dep_rows_def)
next
  case (Cons v vs)
  let ?ds = "vec_at (tg_dependencies g) v"
  have ds: "DependenciesOf g v = Inr ?ds" "distinct ?ds" "set ?ds \<subseteq> set (tg_order g)"
    using Cons.prems(3) by (simp_all add: graph_deps [OF assms])
  have "\<forall>x\<in>set ?ds. (v, x) \<notin> set (db_dependencies d)"
    using Cons.prems(5) by (metis fst_conv list.set_intros(1))
  with insert_deps_loop [of d v ?ds] ds Cons.prems obtain n where
    one: "save_one_deps g v d = (Inr (), d\<lparr>db_dependencies := db_dependencies d @ map (Pair v) ?ds, db_tick := n\<rparr>)"
    by (auto simp: save_one_deps_def sbind_def lift_res_def)
  let ?d1 = "d\<lparr>db_dependencies := db_dependencies d @ map (Pair v) ?ds, db_tick := n\<rparr>"
  have "\<forall>p\<in>set (db_dependencies ?d1). fst p \<notin> set vs" using Cons.prems(2,5) by auto
  with Cons.IH [of ?d1] Cons.prems one show ?case by (auto simp: dep_rows_def)
qed

text \<open>No row of an earlier graph is about this one.\<close>

definition fresh_for :: "TaskGraph \<Rightarrow> db \<Rightarrow> bool" where
  "fresh_for g d \<longleftrightarrow> (\<forall>r\<in>set (db_tasks d). tr_task_id r \<notin> set (tg_order g) \<and> tr_job_id r \<noteq> tg_job_id g) \<and>
     (\<forall>p\<in>set (db_dependencies d). fst p \<in> tr_task_id ` set (db_tasks d)) \<and> distinct (map tr_task_id (db_tasks d))"

lemma SaveGraph_result:
  assumes "json_laws lib" "graph_wf g" "graph_ok g" "healthy d" "fresh_for g d"
  shows "\<exists>rows n. SaveGraph lib g d = (Inr (), d\<lparr>db_tasks := db_tasks d @ rows,
      db_dependencies := db_dependencies d @ dep_rows g (tg_order g), db_tick := n\<rparr>) \<and> rows_for lib g (tg_order g) rows"
proof -
  let ?d0 = "sql_tick (sql_tick d)"
  have dist: "distinct (tg_order g)" using assms(2) by (simp add: graph_wf_def)
  have "set (tg_order g) \<inter> tr_task_id ` set (db_tasks ?d0) = {}" using assms(5) by (auto simp: fresh_for_def)
  with save_tasks_loop [OF assms(1-3), of ?d0 "tg_order g"] assms(4) dist obtain rows n where
    tasks: "for_each (save_one_task lib g) (tg_order g) ?d0 = (Inr (), ?d0\<lparr>db_tasks := db_tasks ?d0 @ rows, db_tick := n\<rparr>)"
      "rows_for lib g (tg_order g) rows" by auto
  let ?d1 = "sql_tick (?d0\<lparr>db_tasks := db_tasks ?d0 @ rows, db_tick := n\<rparr>)"
  have "map tr_task_id rows = tg_order g"
    using tasks(2) by (simp add: rows_for_def list_all2_conv_all_nth list_eq_iff_nth_eq)
  then have "tr_task_id ` set rows = set (tg_order g)" by (metis set_map)
  then have "set (tg_order g) \<subseteq> tr_task_id ` set (db_tasks ?d1)" by auto
  moreover have "\<forall>p\<in>set (db_dependencies ?d1). fst p \<notin> set (tg_order g)"
    using assms(5) by (fastforce simp: fresh_for_def)
  ultimately obtain m where
    "for_each (save_one_deps g) (tg_order g) ?d1
      = (Inr (), ?d1\<lparr>db_dependencies := db_dependencies ?d1 @ dep_rows g (tg_order g), db_tick := m\<rparr>)"
    using save_deps_loop [OF assms(2), of ?d1 "tg_order g"] assms(4) dist by auto
  with tasks assms(4) show ?thesis
    by (auto simp: SaveGraph_def save_graph_body_def when_open_def sbind_def healthy_call sql_tick_def)
qed

lemma mset_scan [simp]: "mset (scan rows d) = mset rows"
proof (cases "sort (db_scan d (db_tick d) (length rows)) = [0..<length rows]")
  case True
  let ?p = "db_scan d (db_tick d) (length rows)"
  have "mset (map ((!) rows) ?p) = image_mset ((!) rows) (mset (sort ?p))" by simp
  also have "\<dots> = mset (map ((!) rows) [0..<length rows])" unfolding True by simp
  finally show ?thesis using True by (simp add: scan_def Let_def map_nth)
qed (simp add: scan_def Let_def)

lemma set_scan [simp]: "set (scan rows d) = set rows"
  by (metis mset_scan set_mset_mset)

text \<open>
  C36: on a healthy database that knows nothing of a graph, \<open>SaveGraph\<close> commits, and the job's tasks and
  dependencies are then loaded back, each exactly once and every task unchanged. The statements of both
  loads have no ORDER BY, so the order is SQLite's: the theorem holds for every order.
\<close>

theorem SaveGraph_Load:
  assumes "json_laws lib" "graph_wf g" "graph_ok g" "healthy d" "fresh_for g d"
  shows "\<exists>d' tasks deps. SaveGraph lib g d = (Inr (), d') \<and>
    fst (LoadTasks lib (tg_job_id g) d') = Inr tasks \<and> mset tasks = mset (map (task_of g) (tg_order g)) \<and>
    fst (LoadDependencies (tg_job_id g) d') = Inr deps \<and> mset deps = mset (dep_rows g (tg_order g))"
proof -
  from SaveGraph_result [OF assms] obtain rows n where
    saved: "SaveGraph lib g d = (Inr (), d\<lparr>db_tasks := db_tasks d @ rows,
      db_dependencies := db_dependencies d @ dep_rows g (tg_order g), db_tick := n\<rparr>)"
    and rows: "rows_for lib g (tg_order g) rows" by blast
  let ?d' = "d\<lparr>db_tasks := db_tasks d @ rows, db_dependencies := db_dependencies d @ dep_rows g (tg_order g), db_tick := n\<rparr>"
  have len: "length rows = length (tg_order g)"
    and nth: "\<And>i. i < length rows \<Longrightarrow> tr_task_id (rows ! i) = tg_order g ! i \<and> tr_job_id (rows ! i) = tg_job_id g \<and>
      TaskFromJson lib (tr_spec_json (rows ! i)) = Inr (task_of g (tg_order g ! i))"
    using rows by (auto simp: rows_for_def list_all2_conv_all_nth)
  then have row: "r \<in> set rows \<Longrightarrow> tr_job_id r = tg_job_id g \<and>
      TaskFromJson lib (tr_spec_json r) = Inr (task_of g (tr_task_id r))" for r
    by (metis in_set_conv_nth)
  have ids: "map tr_task_id rows = tg_order g" using len nth by (simp add: list_eq_iff_nth_eq)
  then have ids_set: "tr_task_id ` set rows = set (tg_order g)" by (metis set_map)
  have mine: "filter (\<lambda>r. tr_job_id r = tg_job_id g) (db_tasks ?d') = rows"
    using row assms(5) by (auto simp: fresh_for_def filter_empty_conv filter_id_conv)
  have old: "\<not> list_ex (\<lambda>t. tr_task_id t = fst p \<and> tr_job_id t = tg_job_id g) (db_tasks ?d')"
    if p: "p \<in> set (db_dependencies d)" for p
  proof -
    from p assms(5) have "fst p \<in> tr_task_id ` set (db_tasks d)" by (auto simp: fresh_for_def)
    then have "fst p \<notin> set (tg_order g)" using assms(5) by (auto simp: fresh_for_def)
    then show ?thesis using assms(5) by (auto simp: list_ex_iff fresh_for_def simp flip: ids_set) (metis imageI)
  qed
  have new: "list_ex (\<lambda>t. tr_task_id t = fst p \<and> tr_job_id t = tg_job_id g) (db_tasks ?d')"
    if p: "p \<in> set (dep_rows g (tg_order g))" for p
  proof -
    from p have "fst p \<in> tr_task_id ` set rows" by (auto simp: dep_rows_def ids_set)
    with row show ?thesis by (auto simp: list_ex_iff)
  qed
  have deps: "filter (\<lambda>dep. list_ex (\<lambda>t. tr_task_id t = fst dep \<and> tr_job_id t = tg_job_id g) (db_tasks ?d'))
      (db_dependencies ?d') = dep_rows g (tg_order g)"
    using old new by (auto simp: filter_empty_conv filter_id_conv)
  have h: "healthy (sql_tick ?d')" using assms(4) by simp
  let ?scan = "\<lambda>rows. scan rows (sql_tick ?d')"
  from load_loop_healthy [OF h, of "?scan rows" "\<lambda>r. TaskFromJson lib (tr_spec_json r)" "\<lambda>r. task_of g (tr_task_id r)"] row
  have "fst (LoadTasks lib (tg_job_id g) ?d') = Inr (map (\<lambda>r. task_of g (tr_task_id r)) (?scan rows))"
    using assms(4) mine by (auto simp: LoadTasks_def sbind_def healthy_call)
  moreover have "mset (map (\<lambda>r. task_of g (tr_task_id r)) (?scan rows)) = mset (map (task_of g) (map tr_task_id rows))"
    by (simp add: comp_def multiset.map_comp)
  moreover from load_loop_healthy [OF h, of "?scan (dep_rows g (tg_order g))" Inr "\<lambda>x. x"]
  have "fst (LoadDependencies (tg_job_id g) ?d') = Inr (?scan (dep_rows g (tg_order g)))"
    using assms(4) deps by (auto simp: LoadDependencies_def sbind_def healthy_call)
  moreover have "mset (?scan (dep_rows g (tg_order g))) = mset (dep_rows g (tg_order g))" by simp
  ultimately show ?thesis using saved unfolding ids by blast
qed

lemma demo_deps: "dep_rows demo_graph (tg_order demo_graph) = [(demo_id 2, demo_id 1)]"
  by code_simp

lemma SaveGraph_Load_witness:
  "\<exists>d'. SaveGraph reference_json demo_graph empty_db = (Inr (), d') \<and>
     fst (LoadDependencies (tg_job_id demo_graph) d') = Inr [(demo_id 2, demo_id 1)]"
proof -
  have "healthy empty_db" "fresh_for demo_graph empty_db" by (simp_all add: healthy_def fresh_for_def empty_db_def)
  from SaveGraph_Load [OF reference_json_laws demo_graph_wf demo_graph_ok this] obtain d' deps where
    "SaveGraph reference_json demo_graph empty_db = (Inr (), d')"
    "fst (LoadDependencies (tg_job_id demo_graph) d') = Inr deps" "mset deps = {#(demo_id 2, demo_id 1)#}"
    by (auto simp: demo_deps)
  then show ?thesis by (auto simp: mset_single_iff)
qed

end
