(* ===== verification/ArtifactStore.thy ===== *)
theory ArtifactStore
  imports StateStore
begin

text \<open>
  core/artifacts/artifact_manifest.cpp and artifact_store.cpp: the content-addressed store. On disk it
  keeps payloads by hash, quarantined files by name and manifest texts by artifact id; the index is in
  the database. \<open>world\<close> holds both, with the environment: which file operation fails, the random
  bytes, the clock. A file operation whose failure the code ignores has no outcome; the others throw.
  Temporary files that an interrupted process leaves behind are not part of the state.
\<close>

section \<open>Manifests\<close>

record ProducerInfo =
  pi_id :: string
  pi_version :: string
  pi_git_commit :: string

record ArtifactManifest =
  am_artifact_uuid :: uuid
  am_content_hash :: string
  am_type :: string
  am_schema_version :: int
  am_producer :: ProducerInfo
  am_input_artifact_hashes :: "string list"
  am_configuration_hash :: string
  am_creation_timestamp :: string
  am_coordinate_frame :: string
  am_unit :: string
  am_file_size :: int
  am_mime_type :: string
  am_validation_status :: string
  am_width :: int
  am_height :: int
  am_pixel_format :: string

definition default_manifest :: ArtifactManifest where
  "default_manifest = \<lparr>am_artifact_uuid = nil_uuid, am_content_hash = [], am_type = [], am_schema_version = 1,
     am_producer = \<lparr>pi_id = [], pi_version = [], pi_git_commit = []\<rparr>, am_input_artifact_hashes = [],
     am_configuration_hash = [], am_creation_timestamp = [], am_coordinate_frame = [], am_unit = ''meter'',
     am_file_size = 0, am_mime_type = [], am_validation_status = ''valid'', am_width = 0, am_height = 0,
     am_pixel_format = []\<rparr>"

definition manifest_doc :: "ArtifactManifest \<Rightarrow> json" where
  "manifest_doc m = JObj
     [(''artifact_uuid'', JStr (FormatUuid (am_artifact_uuid m))),
      (''configuration_hash'', if am_configuration_hash m = [] then JNull else JStr (am_configuration_hash m)),
      (''content_hash'', JStr (am_content_hash m)),
      (''coordinate_frame'', JStr (am_coordinate_frame m)),
      (''creation_timestamp'', JStr (am_creation_timestamp m)),
      (''file_size'', JInt (am_file_size m)),
      (''height'', JInt (am_height m)),
      (''input_artifact_hashes'', string_array (am_input_artifact_hashes m)),
      (''mime_type'', JStr (am_mime_type m)),
      (''pixel_format'', JStr (am_pixel_format m)),
      (''producer'', JObj [(''git_commit'', JStr (pi_git_commit (am_producer m))),
                           (''id'', JStr (pi_id (am_producer m))), (''version'', JStr (pi_version (am_producer m)))]),
      (''schema_version'', JInt (am_schema_version m)),
      (''type'', JStr (am_type m)),
      (''unit'', JStr (am_unit m)),
      (''validation_status'', JStr (am_validation_status m)),
      (''width'', JInt (am_width m))]"

definition ManifestToJsonString :: "json_lib \<Rightarrow> ArtifactManifest \<Rightarrow> string res" where
  "ManifestToJsonString lib m = jl_dump lib (manifest_doc m)"

text \<open>\<open>j.contains(k)\<close> and then \<open>j[k]\<close>.\<close>

definition json_member :: "json_lib \<Rightarrow> json \<Rightarrow> string \<Rightarrow> json option" where
  "json_member lib j k = (case jl_find lib j k of Inr (Some v) \<Rightarrow> Some v | _ \<Rightarrow> None)"

definition manifest_error :: "string \<Rightarrow> exn" where
  "manifest_error msg = throw_error kArtifactManifest msg"

definition GetRequiredString :: "json_lib \<Rightarrow> json \<Rightarrow> string \<Rightarrow> string \<Rightarrow> string res" where
  "GetRequiredString lib j key what =
     (case json_member lib j key of
        Some (JStr s) \<Rightarrow> jl_get_str lib (JStr s)
      | _ \<Rightarrow> Inl (manifest_error (what @ '': missing or non-string field '' @ key)))"

text \<open>\<open>if (j.contains(k)) field = j[k].get<T>()\<close>, and the same for a member of one type only.\<close>

definition optional_field :: "json_lib \<Rightarrow> (json \<Rightarrow> 'a res) \<Rightarrow> json \<Rightarrow> string \<Rightarrow> 'a \<Rightarrow> 'a res" where
  "optional_field lib get j key current =
     (case json_member lib j key of None \<Rightarrow> Inr current | Some v \<Rightarrow> get v)"

definition optional_int :: "json_lib \<Rightarrow> json \<Rightarrow> string \<Rightarrow> int \<Rightarrow> int res" where
  "optional_int lib j key current =
     (case json_member lib j key of Some (JInt i) \<Rightarrow> jl_get_int64 lib (JInt i) | _ \<Rightarrow> Inr current)"

definition optional_string :: "json_lib \<Rightarrow> json \<Rightarrow> string \<Rightarrow> string \<Rightarrow> string res" where
  "optional_string lib j key current =
     (case json_member lib j key of Some (JStr s) \<Rightarrow> jl_get_str lib (JStr s) | _ \<Rightarrow> Inr current)"

definition producer_from :: "json_lib \<Rightarrow> json \<Rightarrow> ProducerInfo res" where
  "producer_from lib j =
     (case json_member lib j ''producer'' of
        None \<Rightarrow> Inr \<lparr>pi_id = [], pi_version = [], pi_git_commit = []\<rparr>
      | Some p \<Rightarrow>
          rbind (optional_field lib (jl_get_str lib) p ''id'' []) (\<lambda>pid.
          rbind (optional_field lib (jl_get_str lib) p ''version'' []) (\<lambda>version.
          rbind (optional_field lib (jl_get_str lib) p ''git_commit'' []) (\<lambda>commit.
            Inr \<lparr>pi_id = pid, pi_version = version, pi_git_commit = commit\<rparr>))))"

definition manifest_from :: "json_lib \<Rightarrow> json \<Rightarrow> ArtifactManifest res" where
  "manifest_from lib j =
     rbind (rbind (GetRequiredString lib j ''artifact_uuid'' ''manifest'') ParseUuid) (\<lambda>auid.
     rbind (GetRequiredString lib j ''content_hash'' ''manifest'') (\<lambda>hash.
     rbind (GetRequiredString lib j ''type'' ''manifest'') (\<lambda>type.
     rbind (optional_field lib (jl_get_int64 lib) j ''schema_version'' 1) (\<lambda>version.
     rbind (producer_from lib j) (\<lambda>producer.
     rbind (optional_field lib (ToStringVector lib) j ''input_artifact_hashes'' []) (\<lambda>ins.
     rbind (optional_string lib j ''configuration_hash'' []) (\<lambda>config.
     rbind (optional_field lib (jl_get_str lib) j ''creation_timestamp'' []) (\<lambda>created.
     rbind (optional_field lib (jl_get_str lib) j ''coordinate_frame'' []) (\<lambda>frame.
     rbind (optional_field lib (jl_get_str lib) j ''unit'' ''meter'') (\<lambda>unit.
     rbind (optional_field lib (jl_get_int64 lib) j ''file_size'' 0) (\<lambda>size.
     rbind (optional_field lib (jl_get_str lib) j ''mime_type'' []) (\<lambda>mime.
     rbind (optional_field lib (jl_get_str lib) j ''validation_status'' ''valid'') (\<lambda>status.
     rbind (optional_int lib j ''width'' 0) (\<lambda>width.
     rbind (optional_int lib j ''height'' 0) (\<lambda>height.
     rbind (optional_string lib j ''pixel_format'' []) (\<lambda>pixel.
       Inr \<lparr>am_artifact_uuid = auid, am_content_hash = hash, am_type = type, am_schema_version = version,
            am_producer = producer, am_input_artifact_hashes = ins, am_configuration_hash = config,
            am_creation_timestamp = created, am_coordinate_frame = frame, am_unit = unit,
            am_file_size = size, am_mime_type = mime, am_validation_status = status, am_width = width,
            am_height = height, am_pixel_format = pixel\<rparr>))))))))))))))))"

definition ManifestFromJsonString :: "json_lib \<Rightarrow> string \<Rightarrow> ArtifactManifest res" where
  "ManifestFromJsonString lib text =
     (case jl_parse lib text of
        Inl _ \<Rightarrow> Inl (manifest_error ''artifact manifest is not valid JSON'')
      | Inr j \<Rightarrow> manifest_from lib j)"

section \<open>The world\<close>

record world =
  w_db :: db
  w_payloads :: "(string \<times> byte list) list"
  w_quarantine :: "(string \<times> byte list) list"
  w_manifests :: "(uuid \<times> string) list"
  w_io_fault :: "nat \<Rightarrow> bool"
  w_random :: "nat \<Rightarrow> byte list"
  w_clock :: "nat \<Rightarrow> int"
  w_iso :: "nat \<Rightarrow> string"
  w_tick :: nat

type_synonym 'a w_op = "world \<Rightarrow> 'a res \<times> world"

definition w_step :: "world \<Rightarrow> world" where
  "w_step w = w\<lparr>w_tick := Suc (w_tick w)\<rparr>"

definition on_db :: "'a db_op \<Rightarrow> 'a w_op" where
  "on_db f w = (case f (w_db w) of (r, d) \<Rightarrow> (r, w\<lparr>w_db := d\<rparr>))"

definition lift_w :: "'a res \<Rightarrow> 'a w_op" where
  "lift_w r w = (r, w)"

text \<open>A file operation that throws \<open>e\<close> when it fails and applies \<open>f\<close> when it succeeds.\<close>

definition io_call :: "exn \<Rightarrow> (world \<Rightarrow> world) \<Rightarrow> unit w_op" where
  "io_call e f w = (if w_io_fault w (w_tick w) then (Inl e, w_step w) else (Inr (), w_step (f w)))"

definition new_uuid :: "uuid w_op" where
  "new_uuid w = (Inr (GenerateUuid (w_random w (w_tick w))), w_step w)"

definition TimestampNsNow :: "int w_op" where
  "TimestampNsNow w = (Inr (w_clock w (w_tick w)), w_step w)"

definition io_error :: "string \<Rightarrow> exn" where
  "io_error what = throw_error kStorageIo what"

definition CreateDirectories :: "unit w_op" where
  "CreateDirectories = io_call (io_error ''failed to create directories'') (\<lambda>w. w)"

text \<open>Atomic write: the temporary file is renamed over the target, or the target is untouched.\<close>

definition WritePayload :: "string \<Rightarrow> byte list \<Rightarrow> unit w_op" where
  "WritePayload hash bytes =
     sbind CreateDirectories (\<lambda>_. io_call (throw_error kStorageAtomicWrite ''atomic write failed'')
       (\<lambda>w. w\<lparr>w_payloads := tbl_replace fst (hash, bytes) (w_payloads w)\<rparr>))"

definition WriteManifest :: "uuid \<Rightarrow> string \<Rightarrow> unit w_op" where
  "WriteManifest auid text =
     sbind CreateDirectories (\<lambda>_. io_call (throw_error kStorageAtomicWrite ''atomic write failed'')
       (\<lambda>w. w\<lparr>w_manifests := tbl_replace fst (auid, text) (w_manifests w)\<rparr>))"

definition payload_of :: "string \<Rightarrow> world \<Rightarrow> byte list option" where
  "payload_of hash w = map_option snd (tbl_get fst hash (w_payloads w))"

definition manifest_of :: "uuid \<Rightarrow> world \<Rightarrow> string option" where
  "manifest_of auid w = map_option snd (tbl_get fst auid (w_manifests w))"

section \<open>Operations\<close>

record ArtifactWriteResult =
  wr_content_hash :: string
  wr_artifact_uuid :: uuid
  wr_deduplicated :: bool

definition producer_doc :: "ProducerInfo \<Rightarrow> json" where
  "producer_doc p = JObj [(''git_commit'', JStr (pi_git_commit p)), (''id'', JStr (pi_id p)), (''version'', JStr (pi_version p))]"

definition index_row :: "ArtifactManifest \<Rightarrow> string \<Rightarrow> int \<Rightarrow> ArtifactIndexRow" where
  "index_row m producer_json now = \<lparr>ar_artifact_id = am_artifact_uuid m, ar_content_hash = am_content_hash m,
     ar_type = am_type m, ar_schema_version = am_schema_version m, ar_producer_json = producer_json,
     ar_config_hash = am_configuration_hash m, ar_created_at_ns = now,
     ar_coordinate_frame = am_coordinate_frame m, ar_unit = am_unit m, ar_file_size = am_file_size m,
     ar_mime_type = am_mime_type m, ar_validation_status = am_validation_status m\<rparr>"

text \<open>The part that \<open>Put\<close> and \<open>PutInstance\<close> share, from the creation timestamp on.\<close>

definition record_instance :: "json_lib \<Rightarrow> ArtifactManifest \<Rightarrow> uuid w_op" where
  "record_instance lib m0 =
     sbind (if am_creation_timestamp m0 = []
            then (\<lambda>w. (Inr (m0\<lparr>am_creation_timestamp := w_iso w (w_tick w)\<rparr>), w_step w)) else lift_w (Inr m0)) (\<lambda>m1.
     sbind (if am_artifact_uuid m0 \<noteq> nil_uuid then lift_w (Inr (am_artifact_uuid m0)) else new_uuid) (\<lambda>auid.
     let m = m1\<lparr>am_artifact_uuid := auid\<rparr> in
     sbind CreateDirectories (\<lambda>_.
     sbind (lift_w (ManifestToJsonString lib m)) (\<lambda>text.
     sbind (WriteManifest auid text) (\<lambda>_.
     sbind (lift_w (jl_dump lib (producer_doc (am_producer m)))) (\<lambda>producer_json.
     sbind TimestampNsNow (\<lambda>now.
     sbind (on_db (UpsertArtifact (index_row m producer_json now))) (\<lambda>_.
     sbind (for_each (\<lambda>input. on_db (RecordDependency input (am_content_hash m) ''input''))
              (am_input_artifact_hashes m)) (\<lambda>_.
       lift_w (Inr auid))))))))))"

definition Put :: "json_lib \<Rightarrow> byte list \<Rightarrow> ArtifactManifest \<Rightarrow> ArtifactWriteResult w_op" where
  "Put lib payload manifest =
     (let hash = Sha256Hex payload in
      sbind (on_db (FindArtifactByHash hash)) (\<lambda>existing.
        case existing of
          Some row \<Rightarrow> lift_w (Inr \<lparr>wr_content_hash = hash, wr_artifact_uuid = ar_artifact_id row, wr_deduplicated = True\<rparr>)
        | None \<Rightarrow>
            sbind (\<lambda>w. if payload_of hash w = None then WritePayload hash payload w else (Inr (), w)) (\<lambda>_.
            sbind (record_instance lib (manifest\<lparr>am_content_hash := hash, am_file_size := int (length payload)\<rparr>)) (\<lambda>auid.
              lift_w (Inr \<lparr>wr_content_hash = hash, wr_artifact_uuid = auid, wr_deduplicated = False\<rparr>)))))"

text \<open>\<open>file_size\<close> is taken over when the file system can tell it.\<close>

definition PutInstance :: "json_lib \<Rightarrow> string \<Rightarrow> ArtifactManifest \<Rightarrow> ArtifactWriteResult w_op" where
  "PutInstance lib hash manifest w =
     (case payload_of hash w of
        None \<Rightarrow> (Inl (throw_error kArtifactMissing (''shared payload not in store: '' @ hash)), w)
      | Some bytes \<Rightarrow>
          sbind (record_instance lib (if w_io_fault w (w_tick w) then manifest\<lparr>am_content_hash := hash\<rparr>
              else manifest\<lparr>am_content_hash := hash, am_file_size := int (length bytes)\<rparr>)) (\<lambda>auid.
            lift_w (Inr \<lparr>wr_content_hash = hash, wr_artifact_uuid = auid, wr_deduplicated = True\<rparr>)) (w_step w))"

text \<open>The integrity failure: the file moves into quarantine unless one of that name is there already,
  and the index row is marked degraded.\<close>

definition quarantine_payload :: "string \<Rightarrow> byte list \<Rightarrow> unit w_op" where
  "quarantine_payload hash bytes =
     sbind CreateDirectories (\<lambda>_.
     sbind (\<lambda>w. if tbl_get fst (hash @ ''.corrupt'') (w_quarantine w) = None
          then io_call (io_error ''rename failed'') (\<lambda>w. w\<lparr>w_payloads := tbl_delete fst hash (w_payloads w),
             w_quarantine := tbl_replace fst (hash @ ''.corrupt'', bytes) (w_quarantine w)\<rparr>) w
          else (Inr (), w)) (\<lambda>_.
     sbind (on_db (FindArtifactByHash hash)) (\<lambda>index.
       case index of None \<Rightarrow> lift_w (Inr ())
       | Some row \<Rightarrow> on_db (UpsertArtifact (row\<lparr>ar_validation_status := ''degraded''\<rparr>)))))"

definition Get :: "string \<Rightarrow> byte list option w_op" where
  "Get hash w =
     (case payload_of hash w of
        None \<Rightarrow> (Inr None, w)
      | Some bytes \<Rightarrow>
          sbind (io_call (io_error ''cannot read file'') (\<lambda>w. w)) (\<lambda>_.
            if Sha256Hex bytes \<noteq> hash then
              sbind (quarantine_payload hash bytes) (\<lambda>_.
                lift_w (Inl (throw_error kArtifactHashMismatch (''artifact integrity check failed for hash: '' @ hash))))
            else lift_w (Inr (Some bytes))) w)"

definition Has :: "string \<Rightarrow> world \<Rightarrow> bool" where
  "Has hash w \<longleftrightarrow> payload_of hash w \<noteq> None"

definition HasManifest :: "uuid \<Rightarrow> world \<Rightarrow> bool" where
  "HasManifest auid w \<longleftrightarrow> manifest_of auid w \<noteq> None"

definition ReadManifest :: "json_lib \<Rightarrow> uuid \<Rightarrow> ArtifactManifest option w_op" where
  "ReadManifest lib auid w =
     (case manifest_of auid w of
        None \<Rightarrow> (Inr None, w)
      | Some text \<Rightarrow> sbind (io_call (io_error ''cannot read file'') (\<lambda>w. w)) (\<lambda>_.
          sbind (lift_w (ManifestFromJsonString lib text)) (\<lambda>m. lift_w (Inr (Some m)))) w)"

definition PayloadCount :: "world \<Rightarrow> nat" where
  "PayloadCount w = length (w_payloads w)"

definition IsReferenced :: "string \<Rightarrow> bool w_op" where
  "IsReferenced hash = sbind (on_db (FindArtifactByHash hash)) (\<lambda>row. lift_w (Inr (row \<noteq> None)))"

section \<open>Garbage collection\<close>

text \<open>A loop that keeps the elements for which the test, which may throw, holds.\<close>

fun filter_w :: "('a \<Rightarrow> bool w_op) \<Rightarrow> 'a list \<Rightarrow> 'a list w_op" where
  "filter_w p [] w = (Inr [], w)"
| "filter_w p (x # xs) w =
     sbind (p x) (\<lambda>b. sbind (filter_w p xs) (\<lambda>ys. lift_w (Inr (if b then x # ys else ys)))) w"

definition is_dangling :: "json_lib \<Rightarrow> uuid \<Rightarrow> bool w_op" where
  "is_dangling lib auid =
     sbind (ReadManifest lib auid) (\<lambda>m. case m of None \<Rightarrow> lift_w (Inr False)
       | Some manifest \<Rightarrow> sbind (IsReferenced (am_content_hash manifest)) (\<lambda>r. lift_w (Inr (\<not> r))))"

text \<open>\<open>RemoveAll\<close> ignores its error: the file may stay.\<close>

definition remove_payload :: "string \<Rightarrow> unit w_op" where
  "remove_payload hash w =
     (case payload_of hash w of
        None \<Rightarrow> (Inr (), w)
      | Some bytes \<Rightarrow>
          sbind (io_call (io_error ''rename failed'') (\<lambda>w. w\<lparr>w_payloads := tbl_delete fst hash (w_payloads w),
              w_quarantine := tbl_replace fst (hash @ ''.gc'', bytes) (w_quarantine w)\<rparr>)) (\<lambda>_ w.
            (Inr (), if w_io_fault w (w_tick w) then w_step w
                     else w_step (w\<lparr>w_quarantine := tbl_delete fst (hash @ ''.gc'') (w_quarantine w)\<rparr>))) w)"

definition remove_manifest :: "uuid \<Rightarrow> unit w_op" where
  "remove_manifest auid w =
     (Inr (), if w_io_fault w (w_tick w) then w_step w
              else w_step (w\<lparr>w_manifests := tbl_delete fst auid (w_manifests w)\<rparr>))"

record GcPlan =
  gp_unreferenced_hashes :: "string list"
  gp_dangling_manifests :: "uuid list"

text \<open>The set of hashes on disk and the sorted list of manifest directories.\<close>

definition GarbageCollect :: "json_lib \<Rightarrow> bool \<Rightarrow> GcPlan w_op" where
  "GarbageCollect lib dry_run w =
     sbind (filter_w (\<lambda>hash. sbind (IsReferenced hash) (\<lambda>r. lift_w (Inr (\<not> r)))) (sort (map fst (w_payloads w)))) (\<lambda>unreferenced.
     sbind (filter_w (is_dangling lib) (sort_key FormatUuid (map fst (w_manifests w)))) (\<lambda>dangling.
       let plan = \<lparr>gp_unreferenced_hashes = unreferenced, gp_dangling_manifests = dangling\<rparr> in
       if dry_run then lift_w (Inr plan)
       else sbind CreateDirectories (\<lambda>_.
            sbind (for_each remove_payload unreferenced) (\<lambda>_.
            sbind (for_each remove_manifest dangling) (\<lambda>_. lift_w (Inr plan)))))) w"

section \<open>The store invariant\<close>

text \<open>
  Every payload file holds bytes that hash to its name, the index has one row per id and per hash, and
  every indexed hash has its payload.
\<close>

definition store_ok :: "world \<Rightarrow> bool" where
  "store_ok w \<longleftrightarrow>
     artifact_index_ok (db_artifacts (w_db w)) \<and>
     (\<forall>r\<in>set (db_artifacts (w_db w)). payload_of (ar_content_hash r) w \<noteq> None) \<and>
     (\<forall>h b. payload_of h w = Some b \<longrightarrow> Sha256Hex b = h)"

definition store_ok_with :: "string \<Rightarrow> world \<Rightarrow> bool" where
  "store_ok_with hash w \<longleftrightarrow> store_ok w \<and> payload_of hash w \<noteq> None"

lemma world_step_simps [simp]:
  "w_db (w_step w) = w_db w" "payload_of h (w_step w) = payload_of h w" "manifest_of a (w_step w) = manifest_of a w"
  "w_io_fault (w_step w) = w_io_fault w" "w_payloads (w_step w) = w_payloads w" "w_manifests (w_step w) = w_manifests w"
  "w_quarantine (w_step w) = w_quarantine w"
  by (simp_all add: w_step_def payload_of_def manifest_of_def)

lemma payload_of_upd [simp]:
  "payload_of h (w\<lparr>w_db := d\<rparr>) = payload_of h w" "payload_of h (w\<lparr>w_manifests := ms\<rparr>) = payload_of h w"
  "payload_of h (w\<lparr>w_quarantine := qs\<rparr>) = payload_of h w"
  "payload_of h (w\<lparr>w_payloads := tbl_replace fst (k, b) (w_payloads v)\<rparr>) = (if h = k then Some b else payload_of h v)"
  "payload_of h (w\<lparr>w_payloads := tbl_delete fst k (w_payloads v)\<rparr>) = (if h = k then None else payload_of h v)"
  by (simp_all add: payload_of_def tbl_simps)

lemma keeps_lift [keeps_intros]: "keeps P (lift_w r)"
  by (simp add: keeps_def lift_w_def)

lemma keeps_io [keeps_intros]:
  "(\<And>w. P w \<Longrightarrow> P (w_step w)) \<Longrightarrow> (\<And>w. P w \<Longrightarrow> P (w_step (f w))) \<Longrightarrow> keeps P (io_call e f)"
  by (simp add: keeps_def io_call_def)

lemma keeps_env [keeps_intros]:
  "(\<And>w. P w \<Longrightarrow> P (w_step w)) \<Longrightarrow> keeps P new_uuid"
  "(\<And>w. P w \<Longrightarrow> P (w_step w)) \<Longrightarrow> keeps P TimestampNsNow"
  by (simp_all add: keeps_def new_uuid_def TimestampNsNow_def)

lemma keeps_on_db: "(\<And>d. keeps (\<lambda>d'. P (w\<lparr>w_db := d'\<rparr>)) f) \<Longrightarrow> P w \<Longrightarrow> P (snd (on_db f w))"
  by (auto simp: keeps_def on_db_def split: prod.split dest: spec [of _ "w_db w"])

text \<open>Queries and dependency writes leave the index alone.\<close>

lemma index_unchanged:
  "db_artifacts (snd (FindArtifactByHash h d)) = db_artifacts d"
  "db_artifacts (snd (RecordDependency i out role d)) = db_artifacts d"
  by (simp_all add: FindArtifactByHash_def RecordDependency_def sbind_def sql_call_def sql_first_def sql_write_def)

lemma UpsertArtifact_index:
  "db_artifacts (snd (UpsertArtifact row d)) = db_artifacts d \<or>
   db_artifacts (snd (UpsertArtifact row d)) = replace_artifact row (db_artifacts d)"
  by (simp add: UpsertArtifact_def sbind_def sql_call_def sql_write_def)

lemma store_ok_db:
  "db_artifacts d = db_artifacts (w_db w) \<Longrightarrow> store_ok (w\<lparr>w_db := d\<rparr>) = store_ok w"
  by (simp add: store_ok_def)

lemma store_ok_step [simp]: "store_ok (w_step w) = store_ok w" "store_ok_with h (w_step w) = store_ok_with h w"
  by (simp_all add: store_ok_def store_ok_with_def)

lemma keeps_find [keeps_intros]:
  "keeps store_ok (on_db (FindArtifactByHash h))" "keeps (store_ok_with k) (on_db (FindArtifactByHash h))"
  "keeps store_ok (on_db (RecordDependency i out role))" "keeps (store_ok_with k) (on_db (RecordDependency i out role))"
  using index_unchanged by (auto simp: keeps_def on_db_def store_ok_db store_ok_with_def split: prod.split)
    (metis snd_conv store_ok_db)+

lemma keeps_upsert:
  assumes "ar_content_hash row = hash"
  shows "keeps (store_ok_with hash) (on_db (UpsertArtifact row))"
  unfolding keeps_def
proof (intro allI impI)
  fix w assume ok: "store_ok_with hash w"
  obtain r d where up: "UpsertArtifact row (w_db w) = (r, d)" by fastforce
  with UpsertArtifact_index [of row "w_db w"]
  consider "db_artifacts d = db_artifacts (w_db w)" | "db_artifacts d = replace_artifact row (db_artifacts (w_db w))"
    by auto
  then have "store_ok_with hash (w\<lparr>w_db := d\<rparr>)"
  proof cases
    case 1
    with ok show ?thesis by (simp add: store_ok_with_def store_ok_db)
  next
    case 2
    with ok assms show ?thesis
      by (auto simp: store_ok_with_def store_ok_def replace_artifact_ok) (auto simp: replace_artifact_def)
  qed
  with up show "store_ok_with hash (snd (on_db (UpsertArtifact row) w))" by (simp add: on_db_def)
qed

lemma keeps_write_manifest: "(\<And>w. P w \<Longrightarrow> P (w_step w)) \<Longrightarrow> (\<And>w ms. P w \<Longrightarrow> P (w_step (w\<lparr>w_manifests := ms\<rparr>))) \<Longrightarrow>
    keeps P (WriteManifest a t)"
  unfolding WriteManifest_def CreateDirectories_def by (intro keeps_intros) auto

lemma keeps_record_instance:
  assumes "am_content_hash m = hash"
  shows "keeps (store_ok_with hash) (record_instance lib m)"
proof -
  have step: "keeps (store_ok_with hash) (\<lambda>w. (Inr (f w), w_step w))" for f :: "world \<Rightarrow> 'a"
    by (simp add: keeps_def)
  have man: "keeps (store_ok_with hash) (WriteManifest a t)" for a t
    by (rule keeps_write_manifest) (auto simp: store_ok_with_def store_ok_def)
  have up: "keeps (store_ok_with hash) (on_db (UpsertArtifact (index_row m' p n)))" if "am_content_hash m' = hash" for m' p n
    using that by (intro keeps_upsert) (simp add: index_row_def)
  show ?thesis
    unfolding record_instance_def Let_def CreateDirectories_def
    apply (rule keeps_sbind_post [where Q = "\<lambda>m1. am_content_hash m1 = hash"])
      apply (simp add: step keeps_lift)
     apply (use assms in \<open>auto simp: lift_w_def split: if_splits\<close>) [1]
    apply (intro keeps_intros step man up)
       apply (auto simp: step keeps_intros)
    done
qed

lemma WritePayload_ok:
  assumes "store_ok w" "Sha256Hex b = h" "WritePayload h b w = (r, w')"
  shows "store_ok w' \<and> (r = Inr () \<longrightarrow> store_ok_with h w')"
  using assms
  by (auto simp: WritePayload_def CreateDirectories_def sbind_def io_call_def store_ok_with_def store_ok_def
      split: if_splits)

lemma keeps_Put: "keeps store_ok (Put lib payload m)"
  unfolding Put_def Let_def
proof (intro keeps_sbind keeps_find)
  let ?h = "Sha256Hex payload"
  let ?tail = "\<lambda>_::unit. sbind (record_instance lib (m\<lparr>am_content_hash := ?h, am_file_size := int (length payload)\<rparr>))
    (\<lambda>auid. lift_w (Inr \<lparr>wr_content_hash = ?h, wr_artifact_uuid = auid, wr_deduplicated = False\<rparr>))"
  have tail: "keeps (store_ok_with ?h) (?tail u)" for u
    by (intro keeps_sbind keeps_record_instance keeps_lift) simp
  have "keeps store_ok (sbind (\<lambda>w. if payload_of ?h w = None then WritePayload ?h payload w else (Inr (), w)) ?tail)"
    unfolding keeps_def
  proof (intro allI impI)
    fix w assume ok: "store_ok w"
    obtain r w1 where w1: "(if payload_of ?h w = None then WritePayload ?h payload w else (Inr (), w)) = (r, w1)"
      by fastforce
    with ok WritePayload_ok [OF ok refl] have "store_ok w1 \<and> (r = Inr () \<longrightarrow> store_ok_with ?h w1)"
      by (auto simp: store_ok_with_def split: if_splits)
    with keepsD [OF tail, of w1] w1
    show "store_ok (snd (sbind (\<lambda>w. if payload_of ?h w = None then WritePayload ?h payload w else (Inr (), w)) ?tail w))"
      by (cases r) (auto simp: snd_sbind store_ok_with_def)
  qed
  then show "keeps store_ok (case existing of None \<Rightarrow> sbind (\<lambda>w. if payload_of ?h w = None
      then WritePayload ?h payload w else (Inr (), w)) ?tail
      | Some row \<Rightarrow> lift_w (Inr \<lparr>wr_content_hash = ?h, wr_artifact_uuid = ar_artifact_id row, wr_deduplicated = True\<rparr>))"
    for existing
    by (cases existing) (simp_all add: keeps_lift)
qed

lemma keeps_PutInstance: "keeps store_ok (PutInstance lib hash m)"
  unfolding keeps_def
proof (intro allI impI)
  fix w assume ok: "store_ok w"
  show "store_ok (snd (PutInstance lib hash m w))"
  proof (cases "payload_of hash w")
    case None
    with ok show ?thesis by (simp add: PutInstance_def)
  next
    case (Some b)
    let ?m = "if w_io_fault w (w_tick w) then m\<lparr>am_content_hash := hash\<rparr>
      else m\<lparr>am_content_hash := hash, am_file_size := int (length b)\<rparr>"
    have "keeps (store_ok_with hash) (sbind (record_instance lib ?m) (\<lambda>auid.
        lift_w (Inr \<lparr>wr_content_hash = hash, wr_artifact_uuid = auid, wr_deduplicated = True\<rparr>)))"
      by (intro keeps_sbind keeps_record_instance keeps_lift) simp
    from keepsD [OF this, of "w_step w"] ok Some show ?thesis
      by (simp add: PutInstance_def store_ok_with_def)
  qed
qed

lemma keeps_Get: "keeps store_ok (Get hash)"
proof -
  have "store_ok (snd (Get hash w))" if "store_ok w" for w
  proof (cases "payload_of hash w")
    case (Some b)
    with that have "Sha256Hex b = hash" by (simp add: store_ok_def)
    with that Some show ?thesis by (simp add: Get_def snd_sbind io_call_def lift_w_def)
  qed (use that in \<open>simp add: Get_def\<close>)
  then show ?thesis by (simp add: keeps_def)
qed

text \<open>
  \<open>Put\<close>, \<open>PutInstance\<close> and \<open>Get\<close> keep the store invariant (file names are the hashes of their
  bytes, the index has one row per id and per hash, no indexed hash lacks its payload) whichever file
  or database operation fails on the way.
\<close>

theorem store_operations_keep_ok:
  "store_ok w \<Longrightarrow> store_ok (snd (Put lib payload m w)) \<and> store_ok (snd (PutInstance lib hash m w)) \<and>
     store_ok (snd (Get hash w))"
  by (simp add: keepsD [OF keeps_Put] keepsD [OF keeps_PutInstance] keepsD [OF keeps_Get])

definition empty_world :: world where
  "empty_world = \<lparr>w_db = empty_db, w_payloads = [], w_quarantine = [], w_manifests = [], w_io_fault = (\<lambda>_. False),
     w_random = (\<lambda>n. replicate 15 0 @ [of_nat n]), w_clock = int, w_iso = (\<lambda>_. ''2026-01-01T00:00:00Z''), w_tick = 0\<rparr>"

lemma store_ok_empty: "store_ok empty_world"
  by (simp add: store_ok_def empty_world_def empty_db_def artifact_index_ok_def payload_of_def)

lemma store_operations_keep_ok_witness:
  "store_ok (snd (Put reference_json [1, 2] default_manifest empty_world))"
  using store_operations_keep_ok [OF store_ok_empty] by blast

section \<open>Reads return what was written\<close>

lemma keeps_payload:
  "keeps (\<lambda>w. payload_of h w = x) (on_db f)" "keeps (\<lambda>w. payload_of h w = x) (WriteManifest a t)"
  "keeps (\<lambda>w. payload_of h w = x) (\<lambda>w. (Inr (g w), w_step w))"
proof -
  show "keeps (\<lambda>w. payload_of h w = x) (on_db f)"
    by (auto simp: keeps_def on_db_def split: prod.split)
  show "keeps (\<lambda>w. payload_of h w = x) (WriteManifest a t)" by (rule keeps_write_manifest) auto
  show "keeps (\<lambda>w. payload_of h w = x) (\<lambda>w. (Inr (g w), w_step w))" by (simp add: keeps_def)
qed

lemma keeps_payload_record: "keeps (\<lambda>w. payload_of h w = x) (record_instance lib m)"
  unfolding record_instance_def Let_def CreateDirectories_def
  by (intro keeps_intros keeps_payload) (auto intro: keeps_intros keeps_payload)

lemma record_instance_index:
  assumes "record_instance lib m w = (Inr auid, w')"
  shows "\<exists>row. ar_artifact_id row = auid \<and> ar_content_hash row = am_content_hash m \<and>
    db_artifacts (w_db w') = replace_artifact row (db_artifacts (w_db w))"
proof -
  let ?A = "\<lambda>rows w. db_artifacts (w_db w) = rows"
  from assms obtain m1 u1 u2 u3 u4 u5 u6 u7 tx pj now where
    m1: "(if am_creation_timestamp m = [] then (\<lambda>w. (Inr (m\<lparr>am_creation_timestamp := w_iso w (w_tick w)\<rparr>), w_step w))
         else lift_w (Inr m)) w = (Inr m1, u1)"
    and a: "(if am_artifact_uuid m \<noteq> nil_uuid then lift_w (Inr (am_artifact_uuid m)) else new_uuid) u1 = (Inr auid, u2)"
    and c: "CreateDirectories u2 = (Inr (), u3)"
    and t: "WriteManifest auid tx u3 = (Inr (), u4)"
    and n: "TimestampNsNow u4 = (Inr now, u5)"
    and up: "on_db (UpsertArtifact (index_row (m1\<lparr>am_artifact_uuid := auid\<rparr>) pj now)) u5 = (Inr (), u6)"
    and deps: "for_each (\<lambda>input. on_db (RecordDependency input (am_content_hash m1) ''input''))
      (am_input_artifact_hashes m1) u6 = (Inr (), w')"
    by (auto simp: record_instance_def Let_def lift_w_def dest!: sbind_InrD)
  have same: "db_artifacts (w_db u5) = db_artifacts (w_db w)"
    using m1 a c t n
    by (auto simp: lift_w_def new_uuid_def CreateDirectories_def WriteManifest_def io_call_def TimestampNsNow_def sbind_def
        split: if_splits)
  have hash: "am_content_hash m1 = am_content_hash m" using m1 by (auto simp: lift_w_def split: if_splits)
  let ?row = "index_row (m1\<lparr>am_artifact_uuid := auid\<rparr>) pj now"
  from up have up: "db_artifacts (w_db u6) = replace_artifact ?row (db_artifacts (w_db w))"
    using same by (auto simp: on_db_def UpsertArtifact_def sbind_def sql_call_def sql_write_def
        split: prod.splits if_splits)
  have "keeps (?A (db_artifacts (w_db u6))) (on_db (RecordDependency i h r))" for i h r
    using index_unchanged(2) by (auto simp: keeps_def on_db_def split: prod.split) (metis snd_conv)
  then have "keeps (?A (db_artifacts (w_db u6))) (for_each (\<lambda>input. on_db (RecordDependency input h r)) ins)" for h r ins
    by (intro keeps_for_each)
  from keepsD [OF this, of u6] deps have "db_artifacts (w_db w') = db_artifacts (w_db u6)" by (metis snd_conv)
  with up hash show ?thesis by (intro exI [of _ ?row]) (simp add: index_row_def)
qed

lemma record_instance_row:
  assumes "record_instance lib m w = (Inr auid, w')" "artifact_index_ok (db_artifacts (w_db w))"
  shows "\<exists>row. tbl_get ar_content_hash (am_content_hash m) (db_artifacts (w_db w')) = Some row \<and> ar_artifact_id row = auid"
  using record_instance_index [OF assms(1)] assms(2) by (auto simp: replace_artifact_get)

lemma Find_same: "db_artifacts (w_db (snd (on_db (FindArtifactByHash h) w))) = db_artifacts (w_db w)"
    "payload_of k (snd (on_db (FindArtifactByHash h) w)) = payload_of k w"
  using index_unchanged(1) [of h "w_db w"] by (auto simp: on_db_def split: prod.split)

lemma Find_result: "on_db (FindArtifactByHash h) w = (Inr (Some row), w') \<Longrightarrow>
    tbl_get ar_content_hash h (db_artifacts (w_db w)) = Some row"
  by (auto simp: on_db_def FindArtifactByHash_def sbind_def sql_call_def sql_first_def split: prod.splits if_splits)

lemma store_ok_hash: "store_ok w \<Longrightarrow> payload_of h w = Some b \<Longrightarrow> Sha256Hex b = h"
  unfolding store_ok_def by blast

lemma Get_stored:
  "payload_of h w = Some b \<Longrightarrow> Sha256Hex b = h \<Longrightarrow> fst (Get h w) =
     (if w_io_fault w (w_tick w) then Inl (io_error ''cannot read file'') else Inr (Some b))"
  by (simp add: Get_def sbind_def io_call_def lift_w_def)

lemma WritePayload_Inr:
  "WritePayload h b u = (Inr x, v) \<Longrightarrow> payload_of h v = Some b \<and> db_artifacts (w_db v) = db_artifacts (w_db u)"
  by (auto simp: WritePayload_def CreateDirectories_def sbind_def io_call_def split: if_splits)

lemma Put_hash: "Put lib payload m w = (Inr r, w') \<Longrightarrow> wr_content_hash r = Sha256Hex payload"
  by (auto simp: Put_def Let_def lift_w_def dest!: sbind_InrD split: option.splits)

lemma Put_result:
  assumes "store_ok w" "Put lib payload m w = (Inr r, w')"
  shows "wr_content_hash r = Sha256Hex payload \<and>
    (\<exists>b. payload_of (Sha256Hex payload) w' = Some b \<and> Sha256Hex b = Sha256Hex payload \<and>
      (payload_of (Sha256Hex payload) w = None \<longrightarrow> b = payload)) \<and>
    (\<exists>row. tbl_get ar_content_hash (Sha256Hex payload) (db_artifacts (w_db w')) = Some row \<and>
      ar_artifact_id row = wr_artifact_uuid r)"
proof -
  let ?h = "Sha256Hex payload"
  have ok': "store_ok w'" using keepsD [OF keeps_Put assms(1)] assms(2) by (metis snd_conv)
  from assms(2) obtain found u where f: "on_db (FindArtifactByHash ?h) w = (Inr found, u)"
    and rest: "(case found of Some row \<Rightarrow> lift_w (Inr \<lparr>wr_content_hash = ?h, wr_artifact_uuid = ar_artifact_id row, wr_deduplicated = True\<rparr>)
        | None \<Rightarrow> sbind (\<lambda>w. if payload_of ?h w = None then WritePayload ?h payload w else (Inr (), w)) (\<lambda>_.
            sbind (record_instance lib (m\<lparr>am_content_hash := ?h, am_file_size := int (length payload)\<rparr>)) (\<lambda>auid.
              lift_w (Inr \<lparr>wr_content_hash = ?h, wr_artifact_uuid = auid, wr_deduplicated = False\<rparr>)))) u = (Inr r, w')"
    by (auto simp: Put_def Let_def dest!: sbind_InrD)
  from f Find_same [where h = ?h and w = w] have u: "db_artifacts (w_db u) = db_artifacts (w_db w)" "\<And>k. payload_of k u = payload_of k w"
    by auto
  show ?thesis
  proof (cases found)
    case (Some row)
    from Find_result [OF f [unfolded Some]] have row: "tbl_get ar_content_hash ?h (db_artifacts (w_db w)) = Some row" .
    then have "row \<in> set (db_artifacts (w_db w))" "ar_content_hash row = ?h" by (auto dest: tbl_get_Some)
    then obtain b where b: "payload_of ?h w = Some b" using assms(1) by (force simp: store_ok_def)
    moreover have "Sha256Hex b = ?h" by (rule store_ok_hash [OF assms(1) b])
    moreover have "w' = u" "r = \<lparr>wr_content_hash = ?h, wr_artifact_uuid = ar_artifact_id row, wr_deduplicated = True\<rparr>"
      using rest Some by (auto simp: lift_w_def)
    ultimately show ?thesis using row u by auto
  next
    case None
    from rest None obtain v v' auid where
      v: "(if payload_of ?h u = None then WritePayload ?h payload u else (Inr (), u)) = (Inr (), v)"
      and rec: "record_instance lib (m\<lparr>am_content_hash := ?h, am_file_size := int (length payload)\<rparr>) v = (Inr auid, w')"
      and r: "r = \<lparr>wr_content_hash = ?h, wr_artifact_uuid = auid, wr_deduplicated = False\<rparr>"
      by (auto simp: lift_w_def dest!: sbind_InrD)
    have X: "(\<exists>b. payload_of ?h v = Some b \<and> (payload_of ?h w = None \<longrightarrow> b = payload)) \<and>
        db_artifacts (w_db v) = db_artifacts (w_db w)"
    proof (cases "payload_of ?h w = None")
      case True
      with v u(2) have "WritePayload ?h payload u = (Inr (), v)" by simp
      from WritePayload_Inr [OF this] u(1) show ?thesis by simp
    next
      case False
      with v u(2) have "u = v" by simp
      moreover from False obtain b where "payload_of ?h w = Some b" by blast
      ultimately show ?thesis using u by simp
    qed
    note vd = conjunct2 [OF X]
    from conjunct1 [OF X] obtain b where b: "payload_of ?h v = Some b" "payload_of ?h w = None \<longrightarrow> b = payload"
      by (elim exE conjE)
    have "payload_of ?h w' = Some b"
    proof -
      from keepsD [OF keeps_payload_record [where h = ?h and x = "Some b" and lib = lib
          and m = "m\<lparr>am_content_hash := ?h, am_file_size := int (length payload)\<rparr>"], OF b(1)]
      show ?thesis unfolding rec snd_conv .
    qed
    moreover from store_ok_hash [OF ok' this] have "Sha256Hex b = ?h" .
    moreover have "artifact_index_ok (db_artifacts (w_db v))" using vd assms(1) by (simp add: store_ok_def)
    from record_instance_row [OF rec this] have "\<exists>row. tbl_get ar_content_hash ?h (db_artifacts (w_db w')) = Some row \<and>
        ar_artifact_id row = auid" by simp
    ultimately show ?thesis using b(2) r by auto
  qed
qed

text \<open>
  C6: in a consistent store, after a \<open>Put\<close> that returns, the result's hash is the payload's SHA-256, the
  index maps it to the result's artifact id, and \<open>Get\<close> returns bytes of that digest, the payload itself
  when it was not stored before; only a failing read of the file can prevent it.
\<close>

theorem Put_then_Get:
  assumes "store_ok w" "Put lib payload m w = (Inr r, w')"
  shows "wr_content_hash r = Sha256Hex payload \<and>
    (\<exists>row. tbl_get ar_content_hash (Sha256Hex payload) (db_artifacts (w_db w')) = Some row \<and>
       ar_artifact_id row = wr_artifact_uuid r) \<and>
    (\<exists>b. Sha256Hex b = Sha256Hex payload \<and> (payload_of (Sha256Hex payload) w = None \<longrightarrow> b = payload) \<and>
       fst (Get (Sha256Hex payload) w') =
         (if w_io_fault w' (w_tick w') then Inl (io_error ''cannot read file'') else Inr (Some b)))"
proof -
  from conjunct1 [OF conjunct2 [OF Put_result [OF assms]]] obtain b where
    b: "payload_of (Sha256Hex payload) w' = Some b"
    "Sha256Hex b = Sha256Hex payload" "payload_of (Sha256Hex payload) w = None \<longrightarrow> b = payload" by (elim exE conjE)
  note P = Put_result [OF assms]
  show ?thesis
    by (intro conjI exI [of _ b] conjunct1 [OF P] conjunct2 [OF conjunct2 [OF P]] b(2,3) Get_stored [OF b(1,2)])
qed

lemma Find_healthy:
  "healthy d \<Longrightarrow> FindArtifactByHash h d = (Inr (tbl_get ar_content_hash h (db_artifacts d)), sql_tick (sql_tick d))"
  by (simp add: FindArtifactByHash_def sbind_def healthy_call sql_first_def)

lemma Upsert_healthy:
  "healthy d \<Longrightarrow> \<not> db_read_only d \<Longrightarrow> \<exists>d'. UpsertArtifact row d = (Inr (), d') \<and>
     db_artifacts d' = replace_artifact row (db_artifacts d)"
  by (simp add: UpsertArtifact_def sbind_def healthy_call healthy_write)

text \<open>What an integrity failure leaves behind when nothing else fails.\<close>

definition quarantined :: "string \<Rightarrow> byte list \<Rightarrow> world \<Rightarrow> world \<Rightarrow> bool" where
  "quarantined h b w w' \<longleftrightarrow>
     \<not> Has h w' \<and> tbl_get fst (h @ ''.corrupt'') (w_quarantine w') = Some (h @ ''.corrupt'', b) \<and>
     db_artifacts (w_db w') = (case tbl_get ar_content_hash h (db_artifacts (w_db w)) of
        None \<Rightarrow> db_artifacts (w_db w)
      | Some row \<Rightarrow> replace_artifact (row\<lparr>ar_validation_status := ''degraded''\<rparr>) (db_artifacts (w_db w)))"

lemma quarantine_payload_result:
  assumes "healthy (w_db w)" "\<not> db_read_only (w_db w)" "\<And>n. \<not> w_io_fault w n"
    "tbl_get fst (h @ ''.corrupt'') (w_quarantine w) = None"
  shows "\<exists>w'. quarantine_payload h b w = (Inr (), w') \<and> quarantined h b w w'"
proof -
  let ?w1 = "w_step (w_step w\<lparr>w_payloads := tbl_delete fst h (w_payloads w),
     w_quarantine := tbl_replace fst (h @ ''.corrupt'', b) (w_quarantine w)\<rparr>)"
  let ?w2 = "?w1\<lparr>w_db := sql_tick (sql_tick (w_db w))\<rparr>"
  have q: "quarantine_payload h b w = (case tbl_get ar_content_hash h (db_artifacts (w_db w)) of None \<Rightarrow> lift_w (Inr ())
       | Some row \<Rightarrow> on_db (UpsertArtifact (row\<lparr>ar_validation_status := ''degraded''\<rparr>))) ?w2"
    using assms by (simp add: quarantine_payload_def CreateDirectories_def sbind_def io_call_def on_db_def Find_healthy)
  have h2: "healthy (w_db ?w2)" "\<not> db_read_only (w_db ?w2)" using assms by simp_all
  have left: "\<not> Has h (?w2\<lparr>w_db := d\<rparr>)" "tbl_get fst (h @ ''.corrupt'') (w_quarantine (?w2\<lparr>w_db := d\<rparr>)) = Some (h @ ''.corrupt'', b)" for d
    by (simp_all add: Has_def tbl_simps payload_of_def)
  show ?thesis
  proof (cases "tbl_get ar_content_hash h (db_artifacts (w_db w))")
    case None
    with q left [of "w_db ?w2"] show ?thesis by (auto simp: lift_w_def quarantined_def)
  next
    case (Some row)
    from Upsert_healthy [OF h2, of "row\<lparr>ar_validation_status := ''degraded''\<rparr>"] obtain d where
      "UpsertArtifact (row\<lparr>ar_validation_status := ''degraded''\<rparr>) (w_db ?w2) = (Inr (), d)"
      "db_artifacts d = replace_artifact (row\<lparr>ar_validation_status := ''degraded''\<rparr>) (db_artifacts (w_db ?w2))" by blast
    with q Some left [of d] show ?thesis by (auto simp: on_db_def quarantined_def)
  qed
qed

text \<open>
  C7: \<open>Get\<close> never hands out bytes that do not hash to the requested name; on a mismatch it throws, and when
  nothing else fails the error is \<open>ARTIFACT_HASH_MISMATCH\<close>, the payload is in quarantine and its index
  row is marked degraded.
\<close>

theorem Get_verifies:
  assumes "payload_of h w = Some b"
  shows "(\<forall>c. fst (Get h w) = Inr (Some c) \<longrightarrow> c = b \<and> Sha256Hex c = h) \<and>
    (Sha256Hex b \<noteq> h \<longrightarrow> (\<exists>e. fst (Get h w) = Inl e)) \<and>
    (Sha256Hex b \<noteq> h \<and> healthy (w_db w) \<and> \<not> db_read_only (w_db w) \<and> (\<forall>n. \<not> w_io_fault w n) \<and>
       tbl_get fst (h @ ''.corrupt'') (w_quarantine w) = None \<longrightarrow>
     (\<exists>w'. Get h w = (Inl (throw_error kArtifactHashMismatch (''artifact integrity check failed for hash: '' @ h)), w') \<and>
        quarantined h b w w'))"
proof (intro conjI impI allI)
  show "c = b" "Sha256Hex c = h" if "fst (Get h w) = Inr (Some c)" for c
    using assms that by (auto simp: Get_def sbind_def lift_w_def io_call_def split: if_splits prod.splits sum.splits)
  show "\<exists>e. fst (Get h w) = Inl e" if "Sha256Hex b \<noteq> h"
    using assms that by (auto simp: Get_def sbind_def lift_w_def io_call_def split: prod.splits sum.splits)
  assume a: "Sha256Hex b \<noteq> h \<and> healthy (w_db w) \<and> \<not> db_read_only (w_db w) \<and> (\<forall>n. \<not> w_io_fault w n) \<and>
       tbl_get fst (h @ ''.corrupt'') (w_quarantine w) = None"
  then obtain w' where "quarantine_payload h b (w_step w) = (Inr (), w')" "quarantined h b (w_step w) w'"
    using quarantine_payload_result [of "w_step w" h b] by auto
  with a assms show "\<exists>w'. Get h w = (Inl (throw_error kArtifactHashMismatch (''artifact integrity check failed for hash: '' @ h)), w') \<and>
        quarantined h b w w'"
    by (simp add: Get_def sbind_def lift_w_def io_call_def quarantined_def split: option.split)
qed

text \<open>A world in which nothing fails.\<close>

definition calm :: "world \<Rightarrow> bool" where
  "calm w \<longleftrightarrow> healthy (w_db w) \<and> \<not> db_read_only (w_db w) \<and> (\<forall>n. \<not> w_io_fault w n)"

lemma calm_step [simp]: "calm (w_step w) = calm w"
  by (simp add: calm_def)

lemma calm_succeeds [succeeds_intros]:
  "succeeds calm (lift_w (Inr x))" "succeeds calm new_uuid" "succeeds calm TimestampNsNow"
  "(\<And>w. calm w \<Longrightarrow> calm (f w)) \<Longrightarrow> succeeds calm (io_call e f)"
  "succeeds calm (on_db (FindArtifactByHash h))" "succeeds calm (on_db (UpsertArtifact row))"
  "succeeds calm (on_db (RecordDependency i out role))"
  by (auto simp: succeeds_def lift_w_def new_uuid_def TimestampNsNow_def io_call_def calm_def on_db_def Find_healthy
      UpsertArtifact_def RecordDependency_def sbind_def healthy_call healthy_write healthy_def sql_fails_def)

lemma calm_record_instance:
  assumes "\<And>d. \<exists>s. jl_dump lib d = Inr s"
  shows "succeeds calm (record_instance lib m)"
proof -
  have dump: "succeeds calm (lift_w (jl_dump lib d))" for d
    using assms [of d] by (auto intro: succeeds_intros)
  have iso: "succeeds calm (\<lambda>w. (Inr (f w), w_step w))" for f :: "world \<Rightarrow> 'a"
    by (simp add: succeeds_def)
  show ?thesis
    unfolding record_instance_def Let_def CreateDirectories_def WriteManifest_def ManifestToJsonString_def
    by (intro succeeds_intros dump) (auto intro: succeeds_intros iso simp: calm_def)
qed

lemma Put_returns:
  assumes "\<And>d. \<exists>s. jl_dump lib d = Inr s" "calm w"
  shows "\<exists>r w'. Put lib payload m w = (Inr r, w') \<and> calm w'"
proof -
  let ?h = "Sha256Hex payload"
  have wp: "succeeds calm (WritePayload ?h payload)"
    unfolding WritePayload_def CreateDirectories_def by (intro succeeds_intros) (auto simp: calm_def)
  then have "succeeds calm (\<lambda>w. if payload_of ?h w = None then WritePayload ?h payload w else (Inr (), w))"
    by (auto simp: succeeds_def)
  then have "succeeds calm (Put lib payload m)"
    unfolding Put_def Let_def
    by (intro succeeds_sbind succeeds_intros)
      (auto split: option.split intro!: succeeds_intros calm_record_instance assms(1))
  from succeedsD [OF this assms(2)] show ?thesis .
qed

lemma reference_json_dumps: "\<exists>s. jl_dump reference_json d = Inr s"
  by (simp add: reference_json_def)

lemma calm_empty: "calm empty_world"
  by (simp add: calm_def empty_world_def empty_db_def healthy_def)

lemma Put_then_Get_witness:
  "\<exists>r w'. Put reference_json [1] default_manifest empty_world = (Inr r, w') \<and>
     fst (Get (Sha256Hex [1]) w') = Inr (Some [1])"
proof -
  from Put_returns [OF reference_json_dumps calm_empty] obtain r w' where
    put: "Put reference_json [1] default_manifest empty_world = (Inr r, w')" and "calm w'" by blast
  moreover have none: "payload_of (Sha256Hex [1]) empty_world = None" by (simp add: payload_of_def empty_world_def)
  ultimately have "fst (Get (Sha256Hex [1]) w') = Inr (Some [1])"
    using conjunct2 [OF conjunct2 [OF Put_then_Get [OF store_ok_empty put]]]
    by (elim exE conjE) (simp add: calm_def)
  with put show ?thesis by blast
qed

lemma Get_verifies_witness:
  "\<exists>w'. Get ''x'' (empty_world\<lparr>w_payloads := [(''x'', [1])]\<rparr>)
     = (Inl (throw_error kArtifactHashMismatch ''artifact integrity check failed for hash: x''), w') \<and> \<not> Has ''x'' w'"
proof -
  let ?w = "empty_world\<lparr>w_payloads := [(''x'', [1])]\<rparr>"
  have p: "payload_of ''x'' ?w = Some [1]" by (simp add: payload_of_def tbl_get_def)
  have "length (Sha256Hex [1]) \<noteq> length ''x''" by simp
  then have "Sha256Hex [1] \<noteq> ''x''" by metis
  moreover have "healthy (w_db ?w)" "\<not> db_read_only (w_db ?w)" "\<forall>n. \<not> w_io_fault ?w n" "w_quarantine ?w = []"
    by (simp_all add: empty_world_def empty_db_def healthy_def)
  ultimately show ?thesis using Get_verifies [OF p] by (auto simp: quarantined_def)
qed

section \<open>Garbage collection\<close>

text \<open>
  A reference is a row of the artifact index, as in \<open>IsReferenced\<close>; the documents also count manifests,
  scene versions, jobs and tasks.
\<close>

definition referenced :: "string \<Rightarrow> world \<Rightarrow> bool" where
  "referenced h w \<longleftrightarrow> tbl_get ar_content_hash h (db_artifacts (w_db w)) \<noteq> None"

text \<open>Worlds that differ in call counters only.\<close>

definition same_world :: "world \<Rightarrow> world \<Rightarrow> bool" where
  "same_world w v \<longleftrightarrow> same_tables (w_db w) (w_db v) \<and> w_payloads v = w_payloads w \<and> w_manifests v = w_manifests w"

lemma same_world_refl: "same_world w w" and same_world_trans: "same_world a b \<Longrightarrow> same_world b c \<Longrightarrow> same_world a c"
  by (auto simp: same_world_def intro: same_tables_trans)

lemma same_tables_facts:
  assumes "same_tables d d'"
  shows "healthy d' = healthy d" "db_artifacts d' = db_artifacts d"
proof -
  have eq: "d'\<lparr>db_tick := 0\<rparr> = d\<lparr>db_tick := 0\<rparr>" using assms by (simp only: same_tables_def)
  have "db_open d' = db_open d" "db_fault d' = db_fault d" "db_artifacts d' = db_artifacts d"
    using arg_cong [OF eq, of db_open] arg_cong [OF eq, of db_fault] arg_cong [OF eq, of db_artifacts] by simp_all
  then show "healthy d' = healthy d" "db_artifacts d' = db_artifacts d" by (simp_all add: healthy_def)
qed

lemma IsReferenced_result:
  assumes "healthy (w_db w)"
  shows "\<exists>v. IsReferenced h w = (Inr (referenced h w), v) \<and> same_world w v"
  using assms by (auto simp: IsReferenced_def sbind_def on_db_def Find_healthy lift_w_def referenced_def same_world_def)

lemma filter_w_result:
  assumes "\<And>x v. same_world w v \<Longrightarrow> \<exists>u. p x v = (Inr (q x), u) \<and> same_world v u"
  shows "same_world w v \<Longrightarrow> \<exists>u. filter_w p xs v = (Inr (filter q xs), u) \<and> same_world w u"
proof (induction xs arbitrary: v)
  case (Cons x xs)
  from assms [OF Cons.prems, of x] obtain u where u: "p x v = (Inr (q x), u)" "same_world v u" by blast
  from Cons.IH [OF same_world_trans [OF Cons.prems u(2)]] obtain t where
    "filter_w p xs u = (Inr (filter q xs), t)" "same_world w t" by blast
  with u show ?case by (simp add: sbind_def lift_w_def)
qed simp

lemma unreferenced_result:
  assumes "healthy (w_db w)"
  shows "\<exists>v. filter_w (\<lambda>hash. sbind (IsReferenced hash) (\<lambda>r. lift_w (Inr (\<not> r)))) hs w
    = (Inr (filter (\<lambda>h. \<not> referenced h w) hs), v) \<and> same_world w v"
proof (rule filter_w_result [OF _ same_world_refl])
  fix x v assume sw: "same_world w v"
  then have "healthy (w_db v)" "referenced x v = referenced x w"
    using assms same_tables_facts by (auto simp: same_world_def referenced_def)
  with IsReferenced_result [of v x]
  show "\<exists>u. sbind (IsReferenced x) (\<lambda>r. lift_w (Inr (\<not> r))) v = (Inr (\<not> referenced x w), u) \<and> same_world v u"
    by (auto simp: sbind_def lift_w_def)
qed

text \<open>Whatever fails, a step of the plan for the manifests touches no payload and no index row.\<close>

lemma same_world_step [simp]: "same_world w (w_step v) = same_world w v"
  by (simp add: same_world_def)

lemma Find_same_tables: "same_tables d (snd (FindArtifactByHash h d))"
  by (simp add: FindArtifactByHash_def sbind_def sql_call_def sql_first_def)

lemma keeps_same_dangling: "keeps (same_world w) (is_dangling lib a)"
proof -
  have find: "keeps (same_world w) (on_db (FindArtifactByHash h))" for h
  proof -
    have "same_world v (snd (on_db (FindArtifactByHash h) v))" for v
      using Find_same_tables [of "w_db v" h] by (auto simp: on_db_def same_world_def split: prod.split)
    then show ?thesis by (auto simp: keeps_def intro: same_world_trans)
  qed
  have "keeps (same_world w) (ReadManifest lib a)"
  proof -
    have "keeps (same_world w) (sbind (io_call (io_error ''cannot read file'') (\<lambda>w. w)) (\<lambda>_.
        sbind (lift_w (ManifestFromJsonString lib t)) (\<lambda>m. lift_w (Inr (Some m)))))" for t
      by (intro keeps_intros) auto
    then show ?thesis by (auto simp: keeps_def ReadManifest_def split: option.split)
  qed
  then show ?thesis
    unfolding is_dangling_def IsReferenced_def
    by (intro keeps_sbind) (auto intro!: keeps_intros find split: option.split)
qed

lemma keeps_filter_w: "(\<And>x. keeps P (p x)) \<Longrightarrow> keeps P (filter_w p xs)"
proof (induction xs)
  case Nil
  then show ?case by (simp add: keeps_def)
next
  case (Cons x xs)
  then have "keeps P (sbind (p x) (\<lambda>b. sbind (filter_w p xs) (\<lambda>ys. lift_w (Inr (if b then x # ys else ys)))))"
    by (intro keeps_sbind keeps_lift) auto
  then show ?case by (simp add: keeps_def)
qed

lemma remove_payloads_result:
  "for_each remove_payload hs w = (r, w') \<Longrightarrow> w_db w' = w_db w \<and>
     (\<forall>h. h \<notin> set hs \<longrightarrow> payload_of h w' = payload_of h w) \<and>
     (\<forall>h. payload_of h w' = payload_of h w \<or> payload_of h w' = None) \<and>
     (r = Inr () \<longrightarrow> (\<forall>h\<in>set hs. payload_of h w' = None))"
proof (induction hs arbitrary: w)
  case (Cons k hs)
  have one: "remove_payload k w = (s, v) \<Longrightarrow> w_db v = w_db w \<and> (\<forall>h. h \<noteq> k \<longrightarrow> payload_of h v = payload_of h w) \<and>
      (payload_of k v = payload_of k w \<or> payload_of k v = None) \<and> (\<exists>e. s = Inl e \<or> s = Inr () \<and> payload_of k v = None)"
    for s v
    by (auto simp: remove_payload_def sbind_def io_call_def split: option.splits if_splits)
  obtain s v where sv: "remove_payload k w = (s, v)" by fastforce
  show ?case
  proof (cases s)
    case (Inl e)
    with Cons.prems sv have "r = Inl e" "w' = v" by auto
    with one [OF sv] show ?thesis by auto (metis option.distinct(1))+
  next
    case (Inr x)
    with Cons.prems sv have "for_each remove_payload hs v = (r, w')" by simp
    note ih = Cons.IH [OF this] and o = one [OF sv]
    have sub: "payload_of h v = payload_of h w \<or> payload_of h v = None" for h using o by (cases "h = k") auto
    have less: "payload_of h w' = payload_of h w \<or> payload_of h w' = None" for h
      using sub [of h] ih by metis
    have "payload_of k v = None" using o Inr by simp
    then have "payload_of k w' = None" using ih by metis
    with ih o less show ?thesis by auto
  qed
qed simp

lemma remove_manifests_result:
  "snd (for_each remove_manifest ms w) = w' \<Longrightarrow> w_db w' = w_db w \<and> (\<forall>h. payload_of h w' = payload_of h w)"
proof (induction ms arbitrary: w)
  case (Cons m ms)
  obtain v where v: "remove_manifest m w = (Inr (), v)" "w_db v = w_db w" "\<And>h. payload_of h v = payload_of h w"
    by (simp add: remove_manifest_def)
  from Cons.prems v(1) have "snd (for_each remove_manifest ms v) = w'" by (simp add: sbind_def)
  from Cons.IH [OF this] v(2,3) show ?case by simp
qed simp

lemma store_ok_fewer:
  assumes "store_ok w" "db_artifacts (w_db v) = db_artifacts (w_db w)"
    "\<And>h. referenced h w \<Longrightarrow> payload_of h v = payload_of h w"
    "\<And>h. payload_of h v = payload_of h w \<or> payload_of h v = None"
  shows "store_ok v"
proof -
  have "payload_of (ar_content_hash r) v \<noteq> None" if r: "r \<in> set (db_artifacts (w_db w))" for r
  proof -
    have "tbl_get ar_content_hash (ar_content_hash r) (db_artifacts (w_db w)) \<noteq> None"
      using r by (simp add: tbl_get_None)
    then show ?thesis using assms(1,3) r by (auto simp: referenced_def store_ok_def)
  qed
  moreover have "Sha256Hex b = h" if "payload_of h v = Some b" for h b
    using that assms(4) [of h] store_ok_hash [OF assms(1), of h b] by auto
  ultimately show ?thesis using assms(1,2) by (simp add: store_ok_def)
qed

lemma Has_in_payloads: "Has h w \<longleftrightarrow> h \<in> set (map fst (w_payloads w))"
  by (auto simp: Has_def payload_of_def tbl_get_None)

lemma same_world_payload: "same_world w v \<Longrightarrow> payload_of h v = payload_of h w"
  by (simp add: same_world_def payload_of_def)

lemma collect_result:
  assumes "GarbageCollect lib dry w = (r, w')" "healthy (w_db w)"
  shows "\<exists>v hs. same_world w v \<and> set hs = {h. Has h w \<and> \<not> referenced h w} \<and>
    (w' = v \<and> (\<not> dry \<longrightarrow> (\<exists>e. r = Inl e)) \<and> (\<forall>p. r = Inr p \<longrightarrow> gp_unreferenced_hashes p = hs) \<or>
     (\<exists>u s. \<not> dry \<and> for_each remove_payload hs v = (s, u) \<and> w_db w' = w_db u \<and> (\<forall>h. payload_of h w' = payload_of h u) \<and>
       (\<forall>p. r = Inr p \<longrightarrow> s = Inr () \<and> gp_unreferenced_hashes p = hs)))"
proof -
  let ?hs = "filter (\<lambda>h. \<not> referenced h w) (sort (map fst (w_payloads w)))"
  let ?ms = "sort_key FormatUuid (map fst (w_manifests w))"
  have hs: "set ?hs = {h. Has h w \<and> \<not> referenced h w}" by (auto simp: Has_in_payloads)
  from unreferenced_result [OF assms(2), of "sort (map fst (w_payloads w))"] obtain v0 where
    v0: "filter_w (\<lambda>hash. sbind (IsReferenced hash) (\<lambda>r. lift_w (Inr (\<not> r)))) (sort (map fst (w_payloads w))) w
      = (Inr ?hs, v0)" "same_world w v0" by blast
  obtain q v where v: "filter_w (is_dangling lib) ?ms v0 = (q, v)" by fastforce
  have "keeps (same_world w) (filter_w (is_dangling lib) ?ms)"
    by (rule keeps_filter_w) (rule keeps_same_dangling)
  from keepsD [OF this v0(2)] v have sv: "same_world w v" by simp
  let ?plan = "\<lambda>ds. \<lparr>gp_unreferenced_hashes = ?hs, gp_dangling_manifests = ds\<rparr>"
  show ?thesis
  proof (cases q)
    case (Inl e)
    with v v0(1) assms(1) have "w' = v" "r = Inl e" by (simp_all add: GarbageCollect_def sbind_def)
    with sv hs show ?thesis by (intro exI [of _ v] exI [of _ ?hs]) simp
  next
    case (Inr ds)
    show ?thesis
    proof (cases dry)
      case True
      with Inr v v0(1) assms(1) have "w' = v" "r = Inr (?plan ds)"
        by (simp_all add: GarbageCollect_def sbind_def Let_def lift_w_def)
      with True sv hs show ?thesis by (intro exI [of _ v] exI [of _ ?hs]) simp
    next
      case False
      with Inr v v0(1) assms(1) have run: "sbind CreateDirectories (\<lambda>_. sbind (for_each remove_payload ?hs) (\<lambda>_.
          sbind (for_each remove_manifest ds) (\<lambda>_. lift_w (Inr (?plan ds))))) v = (r, w')"
        by (simp add: GarbageCollect_def sbind_def [of "filter_w _ _"] Let_def)
      show ?thesis
      proof (cases "w_io_fault v (w_tick v)")
        case True
        with run have "r = Inl (io_error ''failed to create directories'')" "w' = w_step v"
          by (auto simp: sbind_def CreateDirectories_def io_call_def)
        with sv hs show ?thesis by (intro exI [of _ "w_step v"] exI [of _ ?hs]) auto
      next
        case ok: False
        obtain s u where su: "for_each remove_payload ?hs (w_step v) = (s, u)" by fastforce
        obtain t x where tx: "for_each remove_manifest ds u = (t, x)" by fastforce
        from remove_manifests_result [of ds u x] tx have x: "w_db x = w_db u" "\<And>h. payload_of h x = payload_of h u" by auto
        from run ok su tx have "w' = u \<and> (\<exists>e. r = Inl e) \<or> s = Inr () \<and> w' = x \<and> (\<forall>p. r = Inr p \<longrightarrow> p = ?plan ds)"
          by (cases s; cases t) (auto simp: sbind_def CreateDirectories_def io_call_def lift_w_def)
        with x have "w_db w' = w_db u \<and> (\<forall>h. payload_of h w' = payload_of h u) \<and>
            (\<forall>p. r = Inr p \<longrightarrow> s = Inr () \<and> gp_unreferenced_hashes p = ?hs)" by auto
        with False sv hs su show ?thesis
          by (intro exI [of _ "w_step v"] exI [of _ ?hs] conjI disjI2 exI [of _ u] exI [of _ s]) auto
      qed
    qed
  qed
qed

text \<open>
  C5: when the database answers its queries, garbage collection (whatever file operation fails) keeps the
  store consistent and every payload with a row in the artifact index; a dry run removes no payload; a run
  that returns has removed exactly the payloads without such a row, which its plan lists. The index is all
  that the code consults: artifact-format.md (section 8) and storage-model.md (section 5) also count live
  manifests, scene versions, jobs and tasks as references, so a payload that only these name is removed.
\<close>

theorem GarbageCollect_safe:
  assumes "store_ok w" "healthy (w_db w)" "GarbageCollect lib dry w = (r, w')"
  shows "store_ok w' \<and> (\<forall>h. referenced h w \<longrightarrow> payload_of h w' = payload_of h w) \<and>
    (dry \<longrightarrow> (\<forall>h. payload_of h w' = payload_of h w)) \<and>
    (\<forall>plan. r = Inr plan \<longrightarrow> set (gp_unreferenced_hashes plan) = {h. Has h w \<and> \<not> referenced h w} \<and>
       (\<not> dry \<longrightarrow> (\<forall>h. Has h w' \<longleftrightarrow> Has h w \<and> referenced h w)))"
proof -
  from collect_result [OF assms(3,2)] obtain v hs where sw: "same_world w v"
    and hs: "set hs = {h. Has h w \<and> \<not> referenced h w}"
    and c: "w' = v \<and> (\<not> dry \<longrightarrow> (\<exists>e. r = Inl e)) \<and> (\<forall>p. r = Inr p \<longrightarrow> gp_unreferenced_hashes p = hs) \<or>
     (\<exists>u s. \<not> dry \<and> for_each remove_payload hs v = (s, u) \<and> w_db w' = w_db u \<and> (\<forall>h. payload_of h w' = payload_of h u) \<and>
       (\<forall>p. r = Inr p \<longrightarrow> s = Inr () \<and> gp_unreferenced_hashes p = hs))" by blast
  have pv: "payload_of h v = payload_of h w" for h by (rule same_world_payload [OF sw])
  have av: "db_artifacts (w_db v) = db_artifacts (w_db w)" using sw same_tables_facts by (auto simp: same_world_def)
  from c show ?thesis
  proof
    assume d: "w' = v \<and> (\<not> dry \<longrightarrow> (\<exists>e. r = Inl e)) \<and> (\<forall>p. r = Inr p \<longrightarrow> gp_unreferenced_hashes p = hs)"
    then have "store_ok w'" using store_ok_fewer [OF assms(1), of v] pv av by auto
    with d hs pv show ?thesis by auto
  next
    assume "\<exists>u s. \<not> dry \<and> for_each remove_payload hs v = (s, u) \<and> w_db w' = w_db u \<and> (\<forall>h. payload_of h w' = payload_of h u) \<and>
       (\<forall>p. r = Inr p \<longrightarrow> s = Inr () \<and> gp_unreferenced_hashes p = hs)"
    then obtain u s where us: "\<not> dry" "for_each remove_payload hs v = (s, u)" "w_db w' = w_db u"
      "\<And>h. payload_of h w' = payload_of h u" "\<And>p. r = Inr p \<Longrightarrow> s = Inr () \<and> gp_unreferenced_hashes p = hs" by blast
    from remove_payloads_result [OF us(2)] have ru: "w_db u = w_db v" "\<And>h. h \<notin> set hs \<Longrightarrow> payload_of h u = payload_of h v"
      "\<And>h. payload_of h u = payload_of h v \<or> payload_of h u = None" "s = Inr () \<Longrightarrow> h \<in> set hs \<Longrightarrow> payload_of h u = None" for h
      by auto
    have keep: "payload_of h w' = payload_of h w" if "referenced h w" for h
      using that hs ru(2) [of h] pv us(4) by auto
    have "store_ok w'"
      by (rule store_ok_fewer [OF assms(1) _ keep]) (use us ru av pv in auto)
    moreover have "Has h w' \<longleftrightarrow> Has h w \<and> referenced h w" if "r = Inr p" for h p
    proof (cases "h \<in> set hs")
      case True
      then have "payload_of h w' = None" using ru(4) us(4,5) that by simp
      with True hs show ?thesis by (simp add: Has_def)
    next
      case False
      then have "payload_of h w' = payload_of h w" using ru(2) us(4) pv by simp
      with False hs show ?thesis by (auto simp: Has_def)
    qed
    ultimately show ?thesis using keep us(1,5) hs by auto
  qed
qed

definition orphan_world :: world where
  "orphan_world = empty_world\<lparr>w_payloads := [(Sha256Hex [1], [1])]\<rparr>"

lemma store_ok_orphan: "store_ok orphan_world"
  by (simp add: store_ok_def orphan_world_def empty_world_def empty_db_def artifact_index_ok_def payload_of_def
      tbl_get_def)

lemma GarbageCollect_safe_witness:
  "\<exists>w' h. GarbageCollect reference_json False orphan_world =
      (Inr \<lparr>gp_unreferenced_hashes = [h], gp_dangling_manifests = []\<rparr>, w') \<and> Has h orphan_world \<and> \<not> Has h w' \<and> store_ok w'"
proof -
  let ?h = "Sha256Hex [1]"
  have h: "healthy (w_db orphan_world)" "\<not> referenced ?h orphan_world" "Has ?h orphan_world"
    by (simp_all add: orphan_world_def empty_world_def empty_db_def healthy_def referenced_def Has_def payload_of_def
        tbl_get_def)
  have "\<exists>w'. GarbageCollect reference_json False orphan_world =
      (Inr \<lparr>gp_unreferenced_hashes = [?h], gp_dangling_manifests = []\<rparr>, w')"
    by (simp add: GarbageCollect_def orphan_world_def empty_world_def empty_db_def IsReferenced_def on_db_def
        FindArtifactByHash_def sbind_def sql_call_def sql_first_def sql_fails_def lift_w_def tbl_get_def
        remove_payload_def payload_of_def CreateDirectories_def io_call_def w_step_def)
  then obtain w' where g: "GarbageCollect reference_json False orphan_world =
      (Inr \<lparr>gp_unreferenced_hashes = [?h], gp_dangling_manifests = []\<rparr>, w')" by blast
  from GarbageCollect_safe [OF store_ok_orphan h(1) g] h(2) have "store_ok w'" "\<not> Has ?h w'" by simp_all
  with g h(3) show ?thesis by blast
qed

text \<open>A consistent store whose one payload is in the index, and whose second SQLite call, the step of the
  query, reports an error (a lock, a read error).\<close>

definition busy_world :: world where
  "busy_world = orphan_world\<lparr>w_db := empty_db\<lparr>db_fault := (\<lambda>n. n = 1),
     db_artifacts := [index_row (default_manifest\<lparr>am_content_hash := Sha256Hex [1]\<rparr>) ''{}'' 1]\<rparr>\<rparr>"

text \<open>
  The query for a reference reads an SQLite error as "no row", so that a failed step makes garbage
  collection of a consistent store delete a payload that the index references, without an error.
\<close>

theorem GarbageCollect_trusts_failed_query:
  "\<exists>h. store_ok busy_world \<and> referenced h busy_world \<and> Has h busy_world \<and>
     (\<exists>plan w'. GarbageCollect reference_json False busy_world = (Inr plan, w') \<and> \<not> Has h w' \<and> referenced h w')"
proof (intro exI [of _ "Sha256Hex [1]"] conjI)
  have row: "ar_content_hash (index_row (default_manifest\<lparr>am_content_hash := h\<rparr>) p n) = h" for h p n
    by (simp add: index_row_def)
  show "store_ok busy_world"
    by (simp add: store_ok_def busy_world_def orphan_world_def empty_world_def empty_db_def artifact_index_ok_def
        payload_of_def tbl_get_def row)
  show "referenced (Sha256Hex [1]) busy_world" "Has (Sha256Hex [1]) busy_world"
    by (simp_all add: referenced_def Has_def busy_world_def orphan_world_def payload_of_def tbl_get_def row)
  show "\<exists>plan w'. GarbageCollect reference_json False busy_world = (Inr plan, w') \<and> \<not> Has (Sha256Hex [1]) w' \<and>
      referenced (Sha256Hex [1]) w'"
    by (simp add: GarbageCollect_def busy_world_def orphan_world_def empty_world_def empty_db_def IsReferenced_def on_db_def
        FindArtifactByHash_def sbind_def sql_call_def sql_first_def sql_fails_def lift_w_def tbl_get_def
        remove_payload_def payload_of_def CreateDirectories_def io_call_def w_step_def Has_def referenced_def row
        tbl_delete_def tbl_replace_def)
qed

section \<open>Manifests are read back\<close>

definition manifest_sound :: "ArtifactManifest \<Rightarrow> bool" where
  "manifest_sound m \<longleftrightarrow> length (am_artifact_uuid m) = 16 \<and> list_all int64_ok [am_schema_version m, am_file_size m, am_width m, am_height m] \<and>
     list_all ascii (am_input_artifact_hashes m) \<and> list_all ascii [am_content_hash m, am_type m, pi_id (am_producer m),
       pi_version (am_producer m), pi_git_commit (am_producer m), am_configuration_hash m, am_creation_timestamp m,
       am_coordinate_frame m, am_unit m, am_mime_type m, am_validation_status m, am_pixel_format m]"

lemma manifest_keys:
  "sorted_wrt (<) [''artifact_uuid'', ''configuration_hash'', ''content_hash'', ''coordinate_frame'', ''creation_timestamp'',
     ''file_size'', ''height'', ''input_artifact_hashes'', ''mime_type'', ''pixel_format'', ''producer'', ''schema_version'', ''type'',
     ''unit'', ''validation_status'', ''width'']"
  "list_all ascii [''artifact_uuid'', ''configuration_hash'', ''content_hash'', ''coordinate_frame'', ''creation_timestamp'',
     ''file_size'', ''height'', ''input_artifact_hashes'', ''mime_type'', ''pixel_format'', ''producer'', ''schema_version'', ''type'',
     ''unit'', ''validation_status'', ''width'']"
  "sorted_wrt (<) [''git_commit'', ''id'', ''version'']" "list_all ascii [''git_commit'', ''id'', ''version'']"
  by code_simp+

lemma doc_ok_manifest:
  assumes "manifest_sound m"
  shows "doc_ok (manifest_doc m)"
proof -
  have p: "doc_ok (JObj [(''git_commit'', JStr (pi_git_commit (am_producer m))), (''id'', JStr (pi_id (am_producer m))),
      (''version'', JStr (pi_version (am_producer m)))])"
    unfolding doc_ok_obj list.map fst_conv snd_conv
  proof (intro conjI manifest_keys)
    show "list_all doc_ok [JStr (pi_git_commit (am_producer m)), JStr (pi_id (am_producer m)), JStr (pi_version (am_producer m))]"
      using assms by (simp add: manifest_sound_def)
  qed
  have c: "doc_ok (if am_configuration_hash m = [] then JNull else JStr (am_configuration_hash m))"
    using assms by (simp add: manifest_sound_def)
  show ?thesis
    unfolding manifest_doc_def
  proof (rule iffD2 [OF doc_ok_obj], unfold list.map fst_conv snd_conv, intro conjI manifest_keys)
  qed (use assms in \<open>simp add: p c doc_ok_string_array ascii_FormatUuid manifest_sound_def del: doc_ok.simps(7)\<close>)
qed

lemma json_member_obj: "json_laws lib \<Longrightarrow> json_member lib (JObj kvs) k = map_of kvs k"
  by (simp add: json_member_def json_law_simps split: option.split)

lemma manifest_from_doc:
  assumes "json_laws lib" "manifest_sound m"
  shows "manifest_from lib (manifest_doc m) = Inr m"
proof -
  have u: "ParseUuid (FormatUuid (am_artifact_uuid m)) = Inr (am_artifact_uuid m)"
    by (rule format_parse) (use assms(2) in \<open>simp add: manifest_sound_def\<close>)
  have i: "jl_get_int64 lib (JInt (am_schema_version m)) = Inr (am_schema_version m)"
    "jl_get_int64 lib (JInt (am_file_size m)) = Inr (am_file_size m)" "jl_get_int64 lib (JInt (am_width m)) = Inr (am_width m)"
    "jl_get_int64 lib (JInt (am_height m)) = Inr (am_height m)"
    using assms by (simp_all add: manifest_sound_def json_law_simps)
  let ?at = "\<lambda>k. map_of (case manifest_doc m of JObj kvs \<Rightarrow> kvs | _ \<Rightarrow> []) k"
  have member: "json_member lib (manifest_doc m) k = ?at k" for k
    by (simp add: manifest_doc_def json_member_obj [OF assms(1)] del: map_of.simps)
  have texts: "?at ''artifact_uuid'' = Some (JStr (FormatUuid (am_artifact_uuid m)))" "?at ''content_hash'' = Some (JStr (am_content_hash m))"
    "?at ''type'' = Some (JStr (am_type m))" "?at ''creation_timestamp'' = Some (JStr (am_creation_timestamp m))"
    "?at ''coordinate_frame'' = Some (JStr (am_coordinate_frame m))" "?at ''unit'' = Some (JStr (am_unit m))"
    "?at ''mime_type'' = Some (JStr (am_mime_type m))" "?at ''validation_status'' = Some (JStr (am_validation_status m))"
    "?at ''pixel_format'' = Some (JStr (am_pixel_format m))"
    by (simp_all add: manifest_doc_def)
  have numbers: "?at ''schema_version'' = Some (JInt (am_schema_version m))" "?at ''file_size'' = Some (JInt (am_file_size m))"
    "?at ''width'' = Some (JInt (am_width m))" "?at ''height'' = Some (JInt (am_height m))"
    by (simp_all add: manifest_doc_def)
  have others: "?at ''configuration_hash'' = Some (if am_configuration_hash m = [] then JNull else JStr (am_configuration_hash m))"
    "?at ''input_artifact_hashes'' = Some (string_array (am_input_artifact_hashes m))"
    "?at ''producer'' = Some (JObj [(''git_commit'', JStr (pi_git_commit (am_producer m))), (''id'', JStr (pi_id (am_producer m))),
      (''version'', JStr (pi_version (am_producer m)))])"
    by (simp_all add: manifest_doc_def)
  have p: "producer_from lib (manifest_doc m) = Inr (am_producer m)"
    by (simp add: producer_from_def member others(3) optional_field_def json_member_obj [OF assms(1)] json_law_simps [OF assms(1)])
  show ?thesis
    unfolding manifest_from_def GetRequiredString_def optional_field_def optional_int_def optional_string_def member texts numbers others p
    by (simp add: u i json_law_simps [OF assms(1)] ToStringVector_array [OF assms(1)])
qed

text \<open>C30: a manifest with ASCII texts, a UUID of 16 bytes and numbers in range of their C++ type is written, and is read back
  unchanged; an empty configuration hash is written as null and read back as empty.\<close>

theorem manifest_roundtrip:
  assumes "json_laws lib" "manifest_sound m"
  shows "\<exists>text. ManifestToJsonString lib m = Inr text \<and> ManifestFromJsonString lib text = Inr m"
  using json_dump_parse [OF assms(1) doc_ok_manifest [OF assms(2)]] manifest_from_doc [OF assms]
  by (auto simp: ManifestToJsonString_def ManifestFromJsonString_def)

lemma manifest_roundtrip_witness:
  "\<exists>text. ManifestToJsonString reference_json default_manifest = Inr text \<and> ManifestFromJsonString reference_json text = Inr default_manifest"
  by (rule manifest_roundtrip [OF reference_json_laws]) code_simp

end
