(* ===== verification/TaskCache.thy ===== *)
theory TaskCache
  imports ArtifactStore StateStore "HOL-Library.Multiset"
begin

text \<open>
  engine/cache/task_cache.cpp: the composite key, the policy test and the cache operations over the
  \<open>cache_entries\<close> table and the artifact store. The lemmas show what the key determines, that a hit is
  the last entry stored under the key, and that a stale key is dropped.
\<close>

record cache_config =
  tc_producer_version :: string
  tc_engine_git_commit :: string

section \<open>The key\<close>

abbreviation newline :: char where
  "newline \<equiv> CHR 0x0A"

definition key_preimage :: "string \<Rightarrow> ArtifactRef list \<Rightarrow> string \<Rightarrow> string \<Rightarrow> string \<Rightarrow> string" where
  "key_preimage task_type inputs config_hash producer_version engine_git_commit =
     task_type @ [newline] @ concat (map (\<lambda>ref. ref @ [newline]) (sort inputs)) @
     config_hash @ [newline] @ producer_version @ [newline] @ engine_git_commit"

definition ComputeKey :: "string \<Rightarrow> ArtifactRef list \<Rightarrow> string \<Rightarrow> string \<Rightarrow> string \<Rightarrow> string" where
  "ComputeKey task_type inputs config_hash producer_version engine_git_commit =
     Sha256Hex (bytes_of (key_preimage task_type inputs config_hash producer_version engine_git_commit))"

definition IsCacheable :: "TaskInstance \<Rightarrow> bool" where
  "IsCacheable task \<longleftrightarrow> md_deterministic (ti_metadata task) \<and> md_cache (ti_metadata task) = Cacheable"

definition task_key :: "cache_config \<Rightarrow> TaskInstance \<Rightarrow> string" where
  "task_key c task = ComputeKey (td_type (ti_definition task)) (ti_inputs task) (ConfigHash task)
     (tc_producer_version c) (tc_engine_git_commit c)"

section \<open>Operations\<close>

definition Lookup :: "cache_config \<Rightarrow> TaskInstance \<Rightarrow> CacheEntryRecord option w_op" where
  "Lookup c task =
     (if \<not> IsCacheable task then lift_w (Inr None)
      else sbind (on_db (FindCacheEntry (task_key c task))) (\<lambda>entry. case entry of
        None \<Rightarrow> lift_w (Inr None)
      | Some e \<Rightarrow> (\<lambda>w. if \<not> HasManifest (ce_artifact_id e) w
          then sbind (on_db (DeleteCacheEntry (task_key c task))) (\<lambda>_. lift_w (Inr None)) w
          else (Inr (Some e), w))))"

definition ResolveOutput :: "json_lib \<Rightarrow> CacheEntryRecord \<Rightarrow> ArtifactRef option w_op" where
  "ResolveOutput lib entry =
     sbind (ReadManifest lib (ce_artifact_id entry)) (\<lambda>manifest. lift_w (Inr (case manifest of
       None \<Rightarrow> None | Some m \<Rightarrow> Some (am_content_hash m))))"

definition cache_entry :: "cache_config \<Rightarrow> TaskInstance \<Rightarrow> uuid \<Rightarrow> int \<Rightarrow> CacheEntryRecord" where
  "cache_entry c task artifact_id created = \<lparr>ce_cache_key = task_key c task, ce_artifact_id = artifact_id,
     ce_task_type = td_type (ti_definition task), ce_producer_version = tc_producer_version c,
     ce_git_commit = tc_engine_git_commit c, ce_config_hash = ConfigHash task, ce_created_at_ns = created,
     ce_status = ''valid''\<rparr>"

definition Store :: "cache_config \<Rightarrow> TaskInstance \<Rightarrow> uuid \<Rightarrow> unit w_op" where
  "Store c task artifact_id =
     (if \<not> IsCacheable task then lift_w (Inr ())
      else sbind TimestampNsNow (\<lambda>created. on_db (UpsertCacheEntry (cache_entry c task artifact_id created))))"

definition StoreOutput :: "cache_config \<Rightarrow> TaskInstance \<Rightarrow> ArtifactRef \<Rightarrow> unit w_op" where
  "StoreOutput c task output_ref =
     (if \<not> IsCacheable task then lift_w (Inr ())
      else sbind (on_db (FindArtifactByHash output_ref)) (\<lambda>row. case row of
        None \<Rightarrow> lift_w (Inr ()) | Some r \<Rightarrow> Store c task (ar_artifact_id r)))"

definition Invalidate :: "string \<Rightarrow> unit w_op" where
  "Invalidate cache_key = on_db (DeleteCacheEntry cache_key)"

section \<open>What the key determines\<close>

text \<open>Fields that hold no newline are determined by the preimage.\<close>

definition one_line :: "string \<Rightarrow> bool" where
  "one_line s \<longleftrightarrow> newline \<notin> set s"

lemma key_preimage_lines:
  assumes "one_line ty" "\<forall>r\<in>set ins. one_line r" "one_line cfg" "one_line pv" "one_line gc"
  shows "fields_of newline (key_preimage ty ins cfg pv gc) = ty # sort ins @ [cfg, pv, gc]"
  using assms by (simp add: key_preimage_def fields_of_field fields_of_fields fields_of_last one_line_def)

lemma key_preimage_inj:
  assumes "one_line ty" "\<forall>r\<in>set ins. one_line r" "one_line cfg" "one_line pv" "one_line gc"
    "one_line ty'" "\<forall>r\<in>set ins'. one_line r" "one_line cfg'" "one_line pv'" "one_line gc'"
  shows "key_preimage ty ins cfg pv gc = key_preimage ty' ins' cfg' pv' gc' \<longleftrightarrow>
    ty = ty' \<and> mset ins = mset ins' \<and> cfg = cfg' \<and> pv = pv' \<and> gc = gc'"
proof
  assume "key_preimage ty ins cfg pv gc = key_preimage ty' ins' cfg' pv' gc'"
  then have "ty # sort ins @ [cfg, pv, gc] = ty' # sort ins' @ [cfg', pv', gc']"
    using key_preimage_lines [OF assms(1-5)] key_preimage_lines [OF assms(6-10)] by simp
  then have "ty = ty'" "sort ins = sort ins'" "cfg = cfg'" "pv = pv'" "gc = gc'" by auto
  moreover from this(2) have "mset ins = mset ins'" by (metis mset_sort)
  ultimately show "ty = ty' \<and> mset ins = mset ins' \<and> cfg = cfg' \<and> pv = pv' \<and> gc = gc'" by simp
next
  assume eq: "ty = ty' \<and> mset ins = mset ins' \<and> cfg = cfg' \<and> pv = pv' \<and> gc = gc'"
  then have "sort ins = sort ins'" by (simp add: properties_for_sort)
  with eq show "key_preimage ty ins cfg pv gc = key_preimage ty' ins' cfg' pv' gc'" by (simp add: key_preimage_def)
qed

text \<open>
  The cache key depends on the inputs as a multiset (the caller's order does not matter), and two
  keys over fields without a newline are equal only when task type, inputs, configuration hash, producer
  version and engine commit are, or else two different preimages collide under SHA-256.
\<close>

theorem ComputeKey_determines:
  assumes "one_line ty" "\<forall>r\<in>set ins. one_line r" "one_line cfg" "one_line pv" "one_line gc"
    "one_line ty'" "\<forall>r\<in>set ins'. one_line r" "one_line cfg'" "one_line pv'" "one_line gc'"
  shows "(ty = ty' \<and> mset ins = mset ins' \<and> cfg = cfg' \<and> pv = pv' \<and> gc = gc' \<longrightarrow>
      ComputeKey ty ins cfg pv gc = ComputeKey ty' ins' cfg' pv' gc') \<and>
    (ComputeKey ty ins cfg pv gc = ComputeKey ty' ins' cfg' pv' gc' \<longrightarrow>
      ty = ty' \<and> mset ins = mset ins' \<and> cfg = cfg' \<and> pv = pv' \<and> gc = gc' \<or>
      (\<exists>a b. a = key_preimage ty ins cfg pv gc \<and> b = key_preimage ty' ins' cfg' pv' gc' \<and> a \<noteq> b \<and>
         Sha256Hex (bytes_of a) = Sha256Hex (bytes_of b)))"
proof -
  note inj = key_preimage_inj [OF assms]
  show ?thesis
  proof (intro conjI impI)
    assume "ty = ty' \<and> mset ins = mset ins' \<and> cfg = cfg' \<and> pv = pv' \<and> gc = gc'"
    with inj have "key_preimage ty ins cfg pv gc = key_preimage ty' ins' cfg' pv' gc'" by (rule iffD2)
    then show "ComputeKey ty ins cfg pv gc = ComputeKey ty' ins' cfg' pv' gc'" by (simp add: ComputeKey_def)
  next
    assume k: "ComputeKey ty ins cfg pv gc = ComputeKey ty' ins' cfg' pv' gc'"
    show "ty = ty' \<and> mset ins = mset ins' \<and> cfg = cfg' \<and> pv = pv' \<and> gc = gc' \<or>
      (\<exists>a b. a = key_preimage ty ins cfg pv gc \<and> b = key_preimage ty' ins' cfg' pv' gc' \<and> a \<noteq> b \<and>
         Sha256Hex (bytes_of a) = Sha256Hex (bytes_of b))"
      using inj k [unfolded ComputeKey_def] by simp
  qed
qed

lemma ComputeKey_determines_witness:
  "ComputeKey ''t'' [''a'', ''b''] ''c'' ''1'' ''g'' = ComputeKey ''t'' [''b'', ''a''] ''c'' ''1'' ''g''"
proof -
  have "mset [''a'', ''b''] = mset [''b'', ''a'']" by simp
  with ComputeKey_determines [of "''t''" "[''a'', ''b'']" "''c''" "''1''" "''g''" "''t''" "[''b'', ''a'']" "''c''" "''1''" "''g''"]
  show ?thesis by (simp add: one_line_def)
qed

section \<open>Hits\<close>

definition cached :: "string \<Rightarrow> world \<Rightarrow> CacheEntryRecord option" where
  "cached k w = tbl_get ce_cache_key k (db_cache_entries (w_db w))"

lemma FindCacheEntry_healthy:
  "healthy d \<Longrightarrow> FindCacheEntry k d = (Inr (tbl_get ce_cache_key k (db_cache_entries d)), sql_tick (sql_tick d))"
  by (simp add: FindCacheEntry_def sbind_def sql_call_def sql_first_def)

lemma DeleteCacheEntry_healthy:
  "healthy d \<Longrightarrow> \<exists>d'. DeleteCacheEntry k d = (Inr (), d') \<and> healthy d' \<and>
     db_cache_entries d' = tbl_delete ce_cache_key k (db_cache_entries d)"
  by (simp add: DeleteCacheEntry_def when_open_def sbind_def sql_call_def sql_write_def)

lemma UpsertCacheEntry_healthy:
  "healthy d \<Longrightarrow> \<exists>d'. UpsertCacheEntry e d = (Inr (), d') \<and> healthy d' \<and>
     db_cache_entries d' = tbl_replace ce_cache_key e (db_cache_entries d)"
  by (simp add: UpsertCacheEntry_def when_open_def sbind_def sql_call_def sql_write_def)

lemma HasManifest_on_db [simp]: "HasManifest a (w\<lparr>w_db := d\<rparr>) = HasManifest a w"
  by (simp add: HasManifest_def manifest_of_def)

lemma HasManifest_step: "HasManifest a (w_step w) = HasManifest a w"
  by (simp add: HasManifest_def)

lemma Lookup_result:
  assumes "healthy (w_db w)"
  shows "\<exists>w'. Lookup c task w = (Inr (if IsCacheable task
      then (case cached (task_key c task) w of
             None \<Rightarrow> None | Some e \<Rightarrow> if HasManifest (ce_artifact_id e) w then Some e else None)
      else None), w') \<and> healthy (w_db w') \<and> (\<forall>a. HasManifest a w' = HasManifest a w) \<and>
    (\<forall>k. cached k w' = (if IsCacheable task \<and> k = task_key c task \<and>
       (\<exists>e. cached k w = Some e \<and> \<not> HasManifest (ce_artifact_id e) w) then None else cached k w))"
proof (cases "IsCacheable task")
  case False
  with assms show ?thesis by (simp add: Lookup_def lift_w_def)
next
  case True
  let ?k = "task_key c task"
  let ?v = "w\<lparr>w_db := sql_tick (sql_tick (w_db w))\<rparr>"
  have find: "on_db (FindCacheEntry ?k) w = (Inr (cached ?k w), ?v)"
    using assms by (simp add: on_db_def FindCacheEntry_healthy cached_def)
  have v: "cached j ?v = cached j w" for j by (simp add: cached_def)
  show ?thesis
  proof (cases "\<exists>e. cached ?k w = Some e \<and> \<not> HasManifest (ce_artifact_id e) w")
    case stale: True
    then obtain e where e: "cached ?k w = Some e" "\<not> HasManifest (ce_artifact_id e) w" by blast
    from assms DeleteCacheEntry_healthy [of "w_db ?v" ?k] obtain d' where
      d: "DeleteCacheEntry ?k (w_db ?v) = (Inr (), d')" "healthy d'"
        "db_cache_entries d' = tbl_delete ce_cache_key ?k (db_cache_entries (w_db ?v))" by auto
    have "Lookup c task w = (Inr None, ?v\<lparr>w_db := d'\<rparr>)"
      using True find e d(1) by (simp add: Lookup_def sbind_def on_db_def lift_w_def)
    moreover have "cached j (?v\<lparr>w_db := d'\<rparr>) = (if j = ?k then None else cached j w)" for j
      using d(3) by (simp add: cached_def tbl_get_delete)
    ultimately show ?thesis using True e d(2) by auto
  next
    case False
    then have "Lookup c task w = (Inr (cached ?k w), ?v)"
      using True find by (auto simp: Lookup_def sbind_def lift_w_def split: option.split)
    with False True assms v show ?thesis by (auto split: option.split)
  qed
qed

text \<open>
  On a healthy database a lookup returns the entry under the task's key when the task is cacheable and
  the entry's manifest exists, and nothing otherwise; the one change it makes to the cache is to drop
  the task's key when its manifest is gone.
\<close>

theorem Lookup_exact:
  assumes "healthy (w_db w)"
  shows "\<exists>w'. Lookup c task w = (Inr (if IsCacheable task
      then (case cached (task_key c task) w of
             None \<Rightarrow> None | Some e \<Rightarrow> if HasManifest (ce_artifact_id e) w then Some e else None)
      else None), w') \<and>
    (\<forall>k. cached k w' = (if IsCacheable task \<and> k = task_key c task \<and>
       (\<exists>e. cached k w = Some e \<and> \<not> HasManifest (ce_artifact_id e) w) then None else cached k w))"
  using Lookup_result [OF assms] by blast

lemma Lookup_exact_witness:
  "\<exists>w'. Lookup \<lparr>tc_producer_version = ''1'', tc_engine_git_commit = ''g''\<rparr> default_task empty_world = (Inr None, w')"
proof -
  have "healthy (w_db empty_world)" "cached k empty_world = None" for k
    by (simp_all add: empty_world_def empty_db_def healthy_def cached_def)
  with Lookup_exact [of empty_world "\<lparr>tc_producer_version = ''1'', tc_engine_git_commit = ''g''\<rparr>" default_task]
  show ?thesis by (auto split: if_splits)
qed

lemma Store_result:
  assumes "healthy (w_db w)" "IsCacheable task"
  shows "\<exists>w' created. Store c task a w = (Inr (), w') \<and> healthy (w_db w') \<and> (\<forall>m. HasManifest m w' = HasManifest m w) \<and>
    (\<forall>k. cached k w' = (if k = task_key c task then Some (cache_entry c task a created) else cached k w))"
proof -
  let ?e = "cache_entry c task a (w_clock w (w_tick w))"
  have "healthy (w_db (w_step w))" using assms by simp
  from UpsertCacheEntry_healthy [OF this, of ?e] obtain d' where
    d: "UpsertCacheEntry ?e (w_db (w_step w)) = (Inr (), d')" "healthy d'"
      "db_cache_entries d' = tbl_replace ce_cache_key ?e (db_cache_entries (w_db (w_step w)))" by blast
  then have "Store c task a w = (Inr (), (w_step w)\<lparr>w_db := d'\<rparr>)"
    using assms by (simp add: Store_def sbind_def TimestampNsNow_def on_db_def)
  moreover have "cached k ((w_step w)\<lparr>w_db := d'\<rparr>) = (if k = task_key c task then Some ?e else cached k w)" for k
    using d(3) by (simp add: cached_def tbl_get_replace cache_entry_def)
  moreover have "HasManifest m ((w_step w)\<lparr>w_db := d'\<rparr>) = HasManifest m w" for m
    by (simp only: HasManifest_on_db HasManifest_step)
  ultimately show ?thesis using d(2) by fastforce
qed

text \<open>
  C35: after a cacheable task's output was stored, a lookup of every cacheable task with the same key (the
  same type, inputs up to order and configuration) returns an entry for that artifact, as long as its
  manifest exists, and a lookup of a task with another key returns what it returned before.
\<close>

theorem Store_then_Lookup:
  assumes "healthy (w_db w)" "IsCacheable task" "HasManifest a w" "IsCacheable other" "Store c task a w = (r, w')"
  shows "\<exists>hit. fst (Lookup c other w') = Inr hit \<and>
    (task_key c other = task_key c task \<longrightarrow> (\<exists>e. hit = Some e \<and> ce_artifact_id e = a \<and> ce_cache_key e = task_key c task)) \<and>
    (task_key c other \<noteq> task_key c task \<longrightarrow> fst (Lookup c other w) = Inr hit)"
proof -
  from Store_result [OF assms(1,2), of c a] assms(5) obtain created where
    h: "healthy (w_db w')" "\<And>m. HasManifest m w' = HasManifest m w"
      "\<And>k. cached k w' = (if k = task_key c task then Some (cache_entry c task a created) else cached k w)"
    by auto
  from Lookup_result [OF h(1), of c other] have
    new: "fst (Lookup c other w') = Inr (case cached (task_key c other) w' of
       None \<Rightarrow> None | Some e \<Rightarrow> if HasManifest (ce_artifact_id e) w' then Some e else None)"
    using assms(4) by auto
  from Lookup_result [OF assms(1), of c other] have
    old: "fst (Lookup c other w) = Inr (case cached (task_key c other) w of
       None \<Rightarrow> None | Some e \<Rightarrow> if HasManifest (ce_artifact_id e) w then Some e else None)"
    using assms(4) by auto
  show ?thesis
    using assms(3) h(2,3) by (simp add: new old cache_entry_def split: option.split)
qed

definition demo_cache :: cache_config where
  "demo_cache = \<lparr>tc_producer_version = ''1'', tc_engine_git_commit = ''g''\<rparr>"

definition pure_task :: "nat \<Rightarrow> ArtifactRef list \<Rightarrow> ArtifactRef list \<Rightarrow> TaskInstance" where
  "pure_task n ins outs = (demo_task n ins outs)\<lparr>ti_metadata := default_metadata\<lparr>md_deterministic := True\<rparr>\<rparr>"

definition manifest_world :: world where
  "manifest_world = empty_world\<lparr>w_manifests := [(demo_id 5, ''{}'')]\<rparr>"

lemma pure_task_cacheable: "IsCacheable (pure_task n ins outs)"
  by (simp add: IsCacheable_def pure_task_def default_metadata_def)

lemma manifest_world_ok: "healthy (w_db manifest_world)" "HasManifest (demo_id 5) manifest_world"
  by (simp_all add: manifest_world_def empty_world_def empty_db_def healthy_def HasManifest_def manifest_of_def tbl_get_def)

lemma Store_then_Lookup_witness:
  "\<exists>w' e. Store demo_cache (pure_task 1 [''a'', ''b''] []) (demo_id 5) manifest_world = (Inr (), w') \<and>
     fst (Lookup demo_cache (pure_task 2 [''b'', ''a''] []) w') = Inr (Some e) \<and> ce_artifact_id e = demo_id 5"
proof -
  let ?t = "pure_task 1 [''a'', ''b''] []" and ?o = "pure_task 2 [''b'', ''a''] []"
  from Store_result [OF manifest_world_ok(1) pure_task_cacheable] obtain w' where
    s: "Store demo_cache ?t (demo_id 5) manifest_world = (Inr (), w')" by blast
  have "sort [''a'', ''b''] = sort [''b'', ''a'']" by (rule properties_for_sort) simp_all
  then have "task_key demo_cache ?o = task_key demo_cache ?t"
    by (simp add: task_key_def ComputeKey_def key_preimage_def pure_task_def demo_task_def ConfigHash_def default_task_def)
  with Store_then_Lookup [OF manifest_world_ok(1) pure_task_cacheable manifest_world_ok(2) pure_task_cacheable s, of 2 "[''b'', ''a'']" "[]"]
  show ?thesis using s by auto
qed

text \<open>
  A hit is not backed by the payload: the manifest is the only file that a lookup checks, so that an
  entry whose payload is gone is still served.
\<close>

theorem Lookup_ignores_payload:
  "\<exists>w w' e. cached (task_key demo_cache (pure_task 1 [] [])) w = Some e \<and> w_payloads w = [] \<and>
     Lookup demo_cache (pure_task 1 [] []) w = (Inr (Some e), w')"
proof -
  let ?t = "pure_task 1 [] []"
  from Store_result [OF manifest_world_ok(1) pure_task_cacheable [of 1 "[]" "[]"], of demo_cache "demo_id 5"] obtain w n where
    s: "Store demo_cache ?t (demo_id 5) manifest_world = (Inr (), w)" "healthy (w_db w)"
      "\<And>m. HasManifest m w = HasManifest m manifest_world"
      "cached (task_key demo_cache ?t) w = Some (cache_entry demo_cache ?t (demo_id 5) n)" by auto
  have "w_payloads (snd (Store demo_cache ?t (demo_id 5) manifest_world)) = []"
    by (simp add: Store_def sbind_def TimestampNsNow_def on_db_def lift_w_def manifest_world_def empty_world_def
        split: prod.split sum.split)
  with s(1) have "w_payloads w = []" by simp
  moreover from Lookup_result [OF s(2), of demo_cache ?t] s(3,4) manifest_world_ok(2)
  have "\<exists>w'. Lookup demo_cache ?t w = (Inr (Some (cache_entry demo_cache ?t (demo_id 5) n)), w')"
    by (auto simp: pure_task_cacheable cache_entry_def)
  ultimately show ?thesis using s(4) by blast
qed

section \<open>The cache as a keyed store\<close>

text \<open>The table behind the cache, written by \<open>UpsertCacheEntry\<close> on a database that answers.\<close>

definition put_entry :: "CacheEntryRecord \<Rightarrow> db \<Rightarrow> db" where
  "put_entry e d = d\<lparr>db_cache_entries := tbl_replace ce_cache_key e (db_cache_entries d)\<rparr>"

interpretation cache_table: keyed_store ce_cache_key "\<lambda>k d. tbl_get ce_cache_key k (db_cache_entries d)" put_entry
  by unfold_locales (simp add: put_entry_def tbl_get_replace)

lemma for_each_upsert:
  "healthy d \<Longrightarrow> \<exists>d'. for_each UpsertCacheEntry es d = (Inr (), d') \<and> healthy d' \<and>
     db_cache_entries d' = db_cache_entries (fold put_entry es d)"
proof (induction es arbitrary: d)
  case (Cons e es)
  from UpsertCacheEntry_healthy [OF Cons.prems, of e] obtain d1 where
    d1: "UpsertCacheEntry e d = (Inr (), d1)" "healthy d1" "db_cache_entries d1 = db_cache_entries (put_entry e d)"
    by (auto simp: put_entry_def)
  from Cons.IH [OF d1(2)] obtain d' where
    d': "for_each UpsertCacheEntry es d1 = (Inr (), d')" "healthy d'"
      "db_cache_entries d' = db_cache_entries (fold put_entry es d1)" by blast
  have same: "db_cache_entries a = db_cache_entries b \<Longrightarrow>
      db_cache_entries (fold put_entry es a) = db_cache_entries (fold put_entry es b)" for a b
    by (induction es arbitrary: a b) (simp_all add: put_entry_def)
  show ?case
    using d1(1) d'(1,2) trans [OF d'(3) same [OF d1(3)]] by (simp add: sbind_def)
qed simp

text \<open>
  After any sequence of entries was written, \<open>FindCacheEntry\<close> returns the last one written under the
  key, and for a key that was not written what was there before.
\<close>

theorem cache_last_write_wins:
  assumes "healthy d" "for_each UpsertCacheEntry (es @ e # fs) d = (r, d')" "ce_cache_key e \<notin> ce_cache_key ` set fs"
  shows "r = Inr () \<and> fst (FindCacheEntry (ce_cache_key e) d') = Inr (Some e) \<and>
    (\<forall>k. k \<notin> ce_cache_key ` set (es @ e # fs) \<longrightarrow> fst (FindCacheEntry k d') = fst (FindCacheEntry k d))"
proof -
  from for_each_upsert [OF assms(1), of "es @ e # fs"] assms(2) have
    d': "r = Inr ()" "healthy d'" "db_cache_entries d' = db_cache_entries (fold put_entry (es @ e # fs) d)" by auto
  show ?thesis
    using d' assms(1) cache_table.last_write_wins [OF assms(3), of es d] cache_table.get_fold_put_other [of _ "es @ e # fs" d]
    by (simp add: FindCacheEntry_healthy)
qed

definition demo_entry :: "string \<Rightarrow> nat \<Rightarrow> CacheEntryRecord" where
  "demo_entry k n = (cache_entry demo_cache default_task (demo_id n) 0)\<lparr>ce_cache_key := k\<rparr>"

lemma cache_last_write_wins_witness:
  "\<exists>d'. for_each UpsertCacheEntry ([demo_entry ''k'' 1] @ demo_entry ''k'' 2 # [demo_entry ''j'' 3]) empty_db = (Inr (), d') \<and>
     fst (FindCacheEntry ''k'' d') = Inr (Some (demo_entry ''k'' 2))"
proof -
  have h: "healthy empty_db" by (simp add: empty_db_def healthy_def)
  from for_each_upsert [OF h] obtain d' where
    r: "for_each UpsertCacheEntry ([demo_entry ''k'' 1] @ demo_entry ''k'' 2 # [demo_entry ''j'' 3]) empty_db = (Inr (), d')"
    by blast
  from cache_last_write_wins [OF h r] r show ?thesis by (simp add: demo_entry_def)
qed

end
