(* ===== verification/Worker.thy ===== *)
theory Worker
  imports ArtifactStore
begin

text \<open>
  The worker boundary: engine/workers/worker_handle.h, and the executor that runs task bodies on a
  thread of the engine, engine/workers/in_process_executor.cpp. An executor is a record of functions
  over its own state and the world. A task body is the possibly infinite tree of what it does (a codatatype: in the code
  it is any function, and it may loop): emit an event, ask whether it was cancelled, return or throw. The thread is a step relation; the invariants say when a terminal
  event becomes visible.
\<close>

section \<open>Requests and events\<close>

record TaskRequest =
  rq_task_id :: uuid
  rq_task_type :: string
  rq_input_refs :: "ArtifactRef list"
  rq_expected_output_refs :: "ArtifactRef list"
  rq_config_json :: string
  rq_pipeline_hash :: string
  rq_workspace :: string

datatype WorkerEventType =
    EvProgress
  | EvLog
  | EvArtifactProduced
  | EvCompleted
  | EvFailed
  | EvCancelled
  | EvHeartbeat

record WorkerEvent =
  ev_type :: WorkerEventType
  ev_task_id :: uuid
  ev_progress :: int
  ev_log :: string
  ev_artifact_ref :: ArtifactRef
  ev_payload_path :: string
  ev_manifest_json :: string
  ev_error_code :: string
  ev_error_message :: string
  ev_recoverable :: bool

definition default_event :: WorkerEvent where
  "default_event = \<lparr>ev_type = EvHeartbeat, ev_task_id = nil_uuid, ev_progress = 0, ev_log = [],
     ev_artifact_ref = [], ev_payload_path = [], ev_manifest_json = [], ev_error_code = [],
     ev_error_message = [], ev_recoverable = False\<rparr>"

definition is_terminal_event :: "WorkerEvent \<Rightarrow> bool" where
  "is_terminal_event e \<longleftrightarrow> ev_type e = EvCompleted \<or> ev_type e = EvFailed \<or> ev_type e = EvCancelled"

section \<open>The executor contract\<close>

record 'e WorkerExecutor =
  we_profile :: ResourceProfile
  we_id :: uuid
  we_implementation_label :: string
  we_Submit :: "TaskRequest \<Rightarrow> 'e \<times> world \<Rightarrow> unit res \<times> 'e \<times> world"
  we_Cancel :: "uuid \<Rightarrow> string \<Rightarrow> 'e \<times> world \<Rightarrow> unit res \<times> 'e \<times> world"
  we_WaitForEvent :: "int \<Rightarrow> 'e \<times> world \<Rightarrow> WorkerEvent option res \<times> 'e \<times> world"

section \<open>Task bodies\<close>

text \<open>What a body may throw: a \<open>ProjectError\<close>, another \<open>std::exception\<close>, or anything else.\<close>

codatatype body =
    Emit WorkerEvent body
  | Poll "bool \<Rightarrow> body"
  | Return
  | ThrowProjectError project_error
  | ThrowStdException string
  | ThrowUnknown

type_synonym InProcessTaskRunner = "TaskRequest \<Rightarrow> body"

definition DefaultMockRunnerPayload :: "TaskRequest \<Rightarrow> string" where
  "DefaultMockRunnerPayload request =
     rq_task_type request @ ''|'' @ rq_config_json request @
     concat (map (\<lambda>ref. ''|'' @ ref) (rq_input_refs request))"

definition MockArtifactHash :: "TaskRequest \<Rightarrow> string" where
  "MockArtifactHash request = Sha256Hex (bytes_of (DefaultMockRunnerPayload request))"

definition task_event :: "WorkerEventType \<Rightarrow> TaskRequest \<Rightarrow> WorkerEvent" where
  "task_event ty request = default_event\<lparr>ev_type := ty, ev_task_id := rq_task_id request\<rparr>"

text \<open>\<open>for (int p = 0; p <= 100; p += 25)\<close>.\<close>

fun progress_loop :: "TaskRequest \<Rightarrow> int list \<Rightarrow> body \<Rightarrow> body" where
  "progress_loop request [] rest = rest"
| "progress_loop request (p # ps) rest =
     Poll (\<lambda>cancelled. if cancelled then Emit (task_event EvCancelled request) Return
       else Emit ((task_event EvProgress request)\<lparr>ev_progress := p\<rparr>) (progress_loop request ps rest))"

definition DefaultInProcessRunner :: InProcessTaskRunner where
  "DefaultInProcessRunner request =
     progress_loop request [0, 25, 50, 75, 100]
       (Emit ((task_event EvArtifactProduced request)\<lparr>ev_artifact_ref := MockArtifactHash request\<rparr>)
       (Emit (task_event EvCompleted request) Return))"

section \<open>The in-process executor\<close>

text \<open>\<open>ip_thread\<close> is what is left of the running body with its request and the held terminal event.\<close>

record in_process =
  ip_profile :: ResourceProfile
  ip_id :: uuid
  ip_runner :: InProcessTaskRunner
  ip_events :: "WorkerEvent list"
  ip_busy :: bool
  ip_running_task :: uuid
  ip_cancelled :: bool
  ip_cancel_reason :: string
  ip_shutdown :: bool
  ip_thread :: "(TaskRequest \<times> body \<times> WorkerEvent option) option"

definition NewInProcessExecutor :: "byte list \<Rightarrow> ResourceProfile \<Rightarrow> InProcessTaskRunner option \<Rightarrow> in_process" where
  "NewInProcessExecutor random profile runner = \<lparr>ip_profile = profile, ip_id = GenerateUuid random,
     ip_runner = (case runner of None \<Rightarrow> DefaultInProcessRunner | Some r \<Rightarrow> r), ip_events = [], ip_busy = False,
     ip_running_task = nil_uuid, ip_cancelled = False, ip_cancel_reason = [], ip_shutdown = False,
     ip_thread = None\<rparr>"

text \<open>A free worker's previous thread has left its critical section, so the join returns.\<close>

definition ip_Submit :: "TaskRequest \<Rightarrow> in_process \<Rightarrow> unit res \<times> in_process" where
  "ip_Submit request x =
     (if ip_shutdown x then (Inl (throw_error kWorkerTerminated ''in-process worker is shut down''), x)
      else if ip_busy x then (Inl (throw_error kWorkerBusy ''in-process worker is busy (max_concurrency = 1)''), x)
      else (Inr (), x\<lparr>ip_busy := True, ip_running_task := rq_task_id request, ip_cancelled := False,
              ip_cancel_reason := [], ip_thread := Some (request, ip_runner x request, None)\<rparr>))"

definition failed_event :: "TaskRequest \<Rightarrow> string \<Rightarrow> string \<Rightarrow> bool \<Rightarrow> WorkerEvent" where
  "failed_event request ecode message recoverable =
     (task_event EvFailed request)\<lparr>ev_error_code := ecode, ev_error_message := message, ev_recoverable := recoverable\<rparr>"

text \<open>The lambda \<open>emit\<close>: a terminal event is held back, and a later one replaces it.\<close>

definition emit :: "WorkerEvent \<Rightarrow> TaskRequest \<times> body \<times> WorkerEvent option \<Rightarrow> body \<Rightarrow> in_process \<Rightarrow> in_process" where
  "emit e th b x = (case th of (request, _, terminal) \<Rightarrow>
     if is_terminal_event e then x\<lparr>ip_thread := Some (request, b, Some e)\<rparr>
     else x\<lparr>ip_events := ip_events x @ [e], ip_thread := Some (request, b, terminal)\<rparr>)"

text \<open>The last critical section of \<open>RunTask\<close>.\<close>

definition finish_task :: "WorkerEvent option \<Rightarrow> in_process \<Rightarrow> in_process" where
  "finish_task terminal x = x\<lparr>ip_busy := False, ip_running_task := nil_uuid, ip_thread := None,
     ip_events := ip_events x @ (case terminal of None \<Rightarrow> [] | Some e \<Rightarrow> [e])\<rparr>"

text \<open>One step of the worker thread, \<open>RunTask\<close>.\<close>

definition run_step :: "in_process \<Rightarrow> in_process" where
  "run_step x = (case ip_thread x of None \<Rightarrow> x
     | Some (request, b, terminal) \<Rightarrow> (case b of
         Emit e b' \<Rightarrow> emit e (request, b, terminal) b' x
       | Poll f \<Rightarrow> x\<lparr>ip_thread := Some (request, f (ip_cancelled x), terminal)\<rparr>
       | Return \<Rightarrow> finish_task terminal x
       | ThrowProjectError e \<Rightarrow>
           emit (failed_event request (StableErrorCode (pe_code e)) (what_text e) (pe_recoverable e))
             (request, b, terminal) Return x
       | ThrowStdException m \<Rightarrow>
           emit (failed_event request ''WORKER_CRASHED'' (''in-process runner threw: '' @ m) True)
             (request, b, terminal) Return x
       | ThrowUnknown \<Rightarrow>
           emit (failed_event request ''WORKER_CRASHED'' ''in-process runner threw unknown exception'' True)
             (request, b, terminal) Return x))"

definition ip_Cancel :: "uuid \<Rightarrow> string \<Rightarrow> in_process \<Rightarrow> in_process" where
  "ip_Cancel task_id reason x =
     (if ip_busy x \<and> ip_running_task x = task_id then x\<lparr>ip_cancelled := True, ip_cancel_reason := reason\<rparr> else x)"

text \<open>The state in which the wait ends: an event is there, or the timeout passed.\<close>

definition ip_take_event :: "in_process \<Rightarrow> WorkerEvent option \<times> in_process" where
  "ip_take_event x = (case ip_events x of [] \<Rightarrow> (None, x) | e # es \<Rightarrow> (Some e, x\<lparr>ip_events := es\<rparr>))"

text \<open>The caller asks for the shutdown, and then waits for the body to return.\<close>

definition ip_Shutdown :: "in_process \<Rightarrow> in_process" where
  "ip_Shutdown x = x\<lparr>ip_shutdown := True, ip_cancelled := True\<rparr>"

section \<open>When events become visible\<close>

text \<open>
  The executor with the history of its client: the accepted submissions and the events taken from the
  queue. Every method runs under the mutex, and so does every access of the thread.
\<close>

record ip_run =
  ir_exec :: in_process
  ir_submitted :: "TaskRequest list"
  ir_delivered :: "WorkerEvent list"

inductive ip_step :: "ip_run \<Rightarrow> ip_run \<Rightarrow> bool" where
  thread: "ip_thread (ir_exec s) \<noteq> None \<Longrightarrow> ip_step s (s\<lparr>ir_exec := run_step (ir_exec s)\<rparr>)"
| submit: "ip_Submit request (ir_exec s) = (Inr (), x) \<Longrightarrow>
    ip_step s (s\<lparr>ir_exec := x, ir_submitted := ir_submitted s @ [request]\<rparr>)"
| cancel: "ip_step s (s\<lparr>ir_exec := ip_Cancel task_id reason (ir_exec s)\<rparr>)"
| take_event: "ip_take_event (ir_exec s) = (Some e, x) \<Longrightarrow>
    ip_step s (s\<lparr>ir_exec := x, ir_delivered := ir_delivered s @ [e]\<rparr>)"
| shutdown: "ip_step s (s\<lparr>ir_exec := ip_Shutdown (ir_exec s)\<rparr>)"

definition start_run :: "in_process \<Rightarrow> ip_run" where
  "start_run x = \<lparr>ir_exec = x, ir_submitted = [], ir_delivered = []\<rparr>"

definition visible_events :: "ip_run \<Rightarrow> WorkerEvent list" where
  "visible_events s = ir_delivered s @ ip_events (ir_exec s)"

text \<open>The events of one submission: any number of non-terminal ones, then at most one terminal one.\<close>

definition task_segment :: "WorkerEvent list \<Rightarrow> bool" where
  "task_segment es \<longleftrightarrow> (\<forall>e\<in>set (butlast es). \<not> is_terminal_event e)"

definition run_inv :: "ip_run \<Rightarrow> bool" where
  "run_inv s \<longleftrightarrow>
     (ip_busy (ir_exec s) \<longleftrightarrow> ip_thread (ir_exec s) \<noteq> None) \<and>
     (\<forall>th. ip_thread (ir_exec s) = Some th \<longrightarrow> (\<forall>e. snd (snd th) = Some e \<longrightarrow> is_terminal_event e)) \<and>
     (\<exists>segs. visible_events s = concat segs \<and> length segs = length (ir_submitted s) \<and> list_all task_segment segs \<and>
        (ip_busy (ir_exec s) \<longrightarrow> segs \<noteq> [] \<and> (\<forall>e\<in>set (last segs). \<not> is_terminal_event e)))"

lemma run_inv_start: "ip_thread x = None \<Longrightarrow> \<not> ip_busy x \<Longrightarrow> ip_events x = [] \<Longrightarrow> run_inv (start_run x)"
  by (simp add: run_inv_def start_run_def visible_events_def)

lemma emit_result:
  "emit e th b x = (if is_terminal_event e then x\<lparr>ip_thread := Some (fst th, b, Some e)\<rparr>
     else x\<lparr>ip_events := ip_events x @ [e], ip_thread := Some (fst th, b, snd (snd th))\<rparr>)"
  by (cases th) (auto simp: emit_def)

text \<open>A thread step keeps the worker busy, and adds at most a non-terminal event, or ends the task.\<close>

lemma run_step_cases:
  assumes "ip_thread x = Some th" "\<forall>e. snd (snd th) = Some e \<longrightarrow> is_terminal_event e"
  shows "(\<exists>th' es. run_step x = x\<lparr>ip_events := ip_events x @ es, ip_thread := Some th'\<rparr> \<and>
       (\<forall>e\<in>set es. \<not> is_terminal_event e) \<and> (\<forall>e. snd (snd th') = Some e \<longrightarrow> is_terminal_event e)) \<or>
    run_step x = finish_task (snd (snd th)) x"
proof -
  obtain request b terminal where th: "th = (request, b, terminal)" by (cases th)
  have emit: "\<exists>th' es. emit e (request, b, terminal) b' x = x\<lparr>ip_events := ip_events x @ es, ip_thread := Some th'\<rparr> \<and>
      (\<forall>e\<in>set es. \<not> is_terminal_event e) \<and> (\<forall>e. snd (snd th') = Some e \<longrightarrow> is_terminal_event e)" for e b'
  proof (cases "is_terminal_event e")
    case True
    then show ?thesis
      by (intro exI [of _ "(request, b', Some e)"] exI [of _ "[]"]) (simp add: emit_result)
  next
    case False
    then show ?thesis
      using assms(2) th by (intro exI [of _ "(request, b', terminal)"] exI [of _ "[e]"]) (simp add: emit_result)
  qed
  show ?thesis
  proof (cases b)
    case (Poll f)
    have "run_step x = x\<lparr>ip_events := ip_events x @ [], ip_thread := Some (request, f (ip_cancelled x), terminal)\<rparr>"
      using assms(1) th Poll by (simp add: run_step_def)
    then show ?thesis
      using assms(2) th
      by (intro disjI1 exI [of _ "(request, f (ip_cancelled x), terminal)"] exI [of _ "[]"]) simp
  next
    case Return
    then show ?thesis using assms(1) th by (simp add: run_step_def)
  qed (use assms(1) th emit in \<open>simp_all add: run_step_def\<close>)
qed

lemma task_segment_snoc: "(\<forall>e\<in>set es. \<not> is_terminal_event e) \<Longrightarrow> length t \<le> 1 \<Longrightarrow> task_segment (es @ t)"
  by (cases t) (auto simp: task_segment_def butlast_append dest: in_set_butlastD)

lemma extend_last: "segs \<noteq> [] \<Longrightarrow> concat (butlast segs @ [last segs @ es]) = concat segs @ es"
  by (induction segs) auto

lemma run_inv_step:
  assumes "ip_step s t" "run_inv s" shows "run_inv t"
  using assms
proof (induction rule: ip_step.induct)
  case (thread s)
  let ?x = "ir_exec s"
  from thread.hyps obtain th where th: "ip_thread ?x = Some th" by blast
  with thread.prems have held: "\<forall>e. snd (snd th) = Some e \<longrightarrow> is_terminal_event e" and busy: "ip_busy ?x"
    by (auto simp: run_inv_def)
  from thread.prems obtain segs where
    segs: "visible_events s = concat segs" "length segs = length (ir_submitted s)" "list_all task_segment segs"
      "segs \<noteq> []" "\<forall>e\<in>set (last segs). \<not> is_terminal_event e" using busy by (auto simp: run_inv_def)
  define ext where "ext es = butlast segs @ [last segs @ es]" for es
  have len: "length (ext es) = length (ir_submitted s)" for es using segs(2,4) by (cases segs) (auto simp: ext_def)
  have seg: "list_all task_segment (ext es)" if "length es \<le> 1 \<or> (\<forall>e\<in>set es. \<not> is_terminal_event e)" for es
  proof -
    have "task_segment (last segs @ es)"
      using that segs(5) task_segment_snoc [of "last segs" es] task_segment_snoc [of "last segs @ es" "[]"] by auto
    moreover have "list_all task_segment (butlast segs)"
      using segs(3) by (auto simp: list_all_iff dest: in_set_butlastD)
    ultimately show ?thesis by (simp add: ext_def)
  qed
  have cat: "concat (ext es) = visible_events s @ es" for es
    using extend_last [OF segs(4)] segs(1) by (simp add: ext_def)
  from run_step_cases [OF th held] show ?case
  proof
    assume "\<exists>th' es. run_step ?x = ?x\<lparr>ip_events := ip_events ?x @ es, ip_thread := Some th'\<rparr> \<and>
       (\<forall>e\<in>set es. \<not> is_terminal_event e) \<and> (\<forall>e. snd (snd th') = Some e \<longrightarrow> is_terminal_event e)"
    then obtain th' es where r: "run_step ?x = ?x\<lparr>ip_events := ip_events ?x @ es, ip_thread := Some th'\<rparr>"
      "\<forall>e\<in>set es. \<not> is_terminal_event e" "\<forall>e. snd (snd th') = Some e \<longrightarrow> is_terminal_event e" by blast
    show ?thesis
      unfolding run_inv_def
      using r busy len [of es] seg [of es] cat [of es] segs(5)
      by (intro conjI exI [of _ "ext es"]) (auto simp: visible_events_def ext_def)
  next
    assume r: "run_step ?x = finish_task (snd (snd th)) ?x"
    let ?es = "case snd (snd th) of None \<Rightarrow> [] | Some e \<Rightarrow> [e]"
    have "length ?es \<le> 1" by (simp split: option.split)
    then show ?thesis
      unfolding run_inv_def
      using r len [of ?es] seg [of ?es] cat [of ?es]
      by (intro conjI exI [of _ "ext ?es"]) (auto simp: visible_events_def finish_task_def)
  qed
next
  case (submit request s x)
  then have x: "\<not> ip_busy (ir_exec s)" "x = (ir_exec s)\<lparr>ip_busy := True, ip_running_task := rq_task_id request,
      ip_cancelled := False, ip_cancel_reason := [], ip_thread := Some (request, ip_runner (ir_exec s) request, None)\<rparr>"
    by (auto simp: ip_Submit_def split: if_splits)
  from submit.prems obtain segs where
    segs: "visible_events s = concat segs" "length segs = length (ir_submitted s)" "list_all task_segment segs"
    by (auto simp: run_inv_def)
  have "visible_events (s\<lparr>ir_exec := x, ir_submitted := ir_submitted s @ [request]\<rparr>) = concat (segs @ [[]])"
    using segs(1) x(2) by (simp add: visible_events_def)
  with segs(2,3) x(2) show ?case
    by (auto simp: run_inv_def task_segment_def intro!: exI [of _ "segs @ [[]]"])
next
  case (cancel s task_id reason)
  then show ?case by (auto simp: run_inv_def ip_Cancel_def visible_events_def)
next
  case (take_event s e x)
  then have x: "ip_events (ir_exec s) = e # ip_events x" "x = (ir_exec s)\<lparr>ip_events := ip_events x\<rparr>"
    by (auto simp: ip_take_event_def split: list.splits)
  from arg_cong [OF x(2), of ip_busy] arg_cong [OF x(2), of ip_thread]
  have "ip_busy x = ip_busy (ir_exec s)" "ip_thread x = ip_thread (ir_exec s)" by simp_all
  moreover have "visible_events (s\<lparr>ir_exec := x, ir_delivered := ir_delivered s @ [e]\<rparr>) = visible_events s"
    using x(1) by (simp add: visible_events_def)
  ultimately show ?case
    using take_event.prems by (auto simp add: run_inv_def simp del: not_None_eq)
next
  case (shutdown s)
  then show ?case by (auto simp: run_inv_def ip_Shutdown_def visible_events_def)
qed

lemma run_inv_reachable: "ip_step\<^sup>*\<^sup>* s t \<Longrightarrow> run_inv s \<Longrightarrow> run_inv t"
  by (induction rule: rtranclp_induct) (auto intro: run_inv_step)

definition terminals :: "WorkerEvent list \<Rightarrow> nat" where
  "terminals es = length (filter is_terminal_event es)"

lemma terminals_segment: "task_segment es \<Longrightarrow> terminals es \<le> 1"
  by (cases es rule: rev_cases) (auto simp: task_segment_def terminals_def)

lemma terminals_concat: "list_all task_segment segs \<Longrightarrow> terminals (concat segs) \<le> length segs"
proof (induction segs)
  case (Cons es segs)
  then show ?case using terminals_segment [of es] by (simp add: terminals_def)
qed (simp add: terminals_def)

lemma run_inv_terminals:
  assumes "run_inv s"
  shows "terminals (visible_events s) + (if ip_busy (ir_exec s) then 1 else 0) \<le> length (ir_submitted s)"
proof -
  from assms obtain segs where
    segs: "visible_events s = concat segs" "length segs = length (ir_submitted s)" "list_all task_segment segs"
      "ip_busy (ir_exec s) \<longrightarrow> segs \<noteq> [] \<and> (\<forall>e\<in>set (last segs). \<not> is_terminal_event e)" by (auto simp: run_inv_def)
  show ?thesis
  proof (cases "ip_busy (ir_exec s)")
    case False
    with segs(1-3) terminals_concat show ?thesis by fastforce
  next
    case True
    with segs(4) obtain init final where init: "segs = init @ [final]" "filter is_terminal_event final = []"
      by (cases segs rule: rev_cases) (auto simp: filter_empty_conv)
    then have "terminals (visible_events s) = terminals (concat init)" using segs(1) by (simp add: terminals_def)
    with terminals_concat [of init] segs(2,3) init(1) True show ?thesis by simp
  qed
qed

text \<open>
  Whatever the task bodies do and however the thread interleaves with its clients, each accepted
  submission yields at most one terminal event, after all its other events; and once the terminal event
  of the latest submission is taken from the queue, the worker is free: the next submission is accepted
  unless the executor was shut down.
\<close>

theorem terminal_event_releases_worker:
  assumes "ip_step\<^sup>*\<^sup>* (start_run (NewInProcessExecutor r p runner)) s"
  shows "(\<exists>segs. visible_events s = concat segs \<and> length segs = length (ir_submitted s) \<and>
       (\<forall>es\<in>set segs. \<forall>e\<in>set (butlast es). \<not> is_terminal_event e)) \<and>
    (terminals (ir_delivered s) = length (ir_submitted s) \<longrightarrow> \<not> ip_shutdown (ir_exec s) \<longrightarrow>
       (\<exists>x. ip_Submit request (ir_exec s) = (Inr (), x)))"
proof
  have inv: "run_inv s"
    by (rule run_inv_reachable [OF assms run_inv_start]) (simp_all add: NewInProcessExecutor_def)
  then show "\<exists>segs. visible_events s = concat segs \<and> length segs = length (ir_submitted s) \<and>
       (\<forall>es\<in>set segs. \<forall>e\<in>set (butlast es). \<not> is_terminal_event e)"
    by (auto simp: run_inv_def list_all_iff task_segment_def)
  have "terminals (ir_delivered s) \<le> terminals (visible_events s)"
    by (simp add: terminals_def visible_events_def)
  with run_inv_terminals [OF inv]
  have "terminals (ir_delivered s) = length (ir_submitted s) \<Longrightarrow> \<not> ip_busy (ir_exec s)" by auto
  then show "terminals (ir_delivered s) = length (ir_submitted s) \<longrightarrow> \<not> ip_shutdown (ir_exec s) \<longrightarrow>
       (\<exists>x. ip_Submit request (ir_exec s) = (Inr (), x))"
    by (simp add: ip_Submit_def)
qed

section \<open>The executor as the scheduler sees it\<close>

text \<open>
  \<open>pace k\<close> is the number of steps the thread makes before the k-th wait of the client ends; the queue is
  read after them, so a wait of a slow thread times out.
\<close>

record paced =
  pc_exec :: in_process
  pc_pace :: "nat \<Rightarrow> nat"
  pc_waits :: nat

definition paced_wait :: "paced \<Rightarrow> WorkerEvent option \<times> paced" where
  "paced_wait p = (case ip_take_event ((run_step ^^ pc_pace p (pc_waits p)) (pc_exec p)) of
     (e, x) \<Rightarrow> (e, p\<lparr>pc_exec := x, pc_waits := Suc (pc_waits p)\<rparr>))"

definition in_process_executor :: "in_process \<Rightarrow> paced WorkerExecutor" where
  "in_process_executor x = \<lparr>we_profile = ip_profile x, we_id = ip_id x, we_implementation_label = ''inprocess'',
     we_Submit = (\<lambda>request (p, w). case ip_Submit request (pc_exec p) of (r, x') \<Rightarrow> (r, p\<lparr>pc_exec := x'\<rparr>, w)),
     we_Cancel = (\<lambda>task_id reason (p, w). (Inr (), p\<lparr>pc_exec := ip_Cancel task_id reason (pc_exec p)\<rparr>, w)),
     we_WaitForEvent = (\<lambda>timeout_ms (p, w). case paced_wait p of (e, p') \<Rightarrow> (Inr e, p', w))\<rparr>"

section \<open>The default body\<close>

lemma default_body_runs:
  assumes "ip_thread x = Some (request, DefaultInProcessRunner request, None)" "\<not> ip_cancelled x"
  shows "(run_step ^^ 13) x = finish_task (Some (task_event EvCompleted request)) (x\<lparr>ip_events := ip_events x @
      map (\<lambda>p. (task_event EvProgress request)\<lparr>ev_progress := p\<rparr>) [0, 25, 50, 75, 100] @
      [(task_event EvArtifactProduced request)\<lparr>ev_artifact_ref := MockArtifactHash request\<rparr>]\<rparr>)"
  using assms
  by (simp add: numeral_eq_Suc funpow_Suc_right run_step_def DefaultInProcessRunner_def emit_def is_terminal_event_def
      task_event_def default_event_def finish_task_def del: funpow.simps)

text \<open>
  The default body, when nobody cancels it, reports progress 0 to 100, the artifact hash of its request and
  then completion, in this order, and the worker is free again.
\<close>

lemma default_task_runs:
  assumes "ip_Submit request x = (Inr (), y)" "ip_runner x = DefaultInProcessRunner"
  shows "ip_events ((run_step ^^ 13) y) = ip_events x @
      map (\<lambda>p. (task_event EvProgress request)\<lparr>ev_progress := p\<rparr>) [0, 25, 50, 75, 100] @
      [(task_event EvArtifactProduced request)\<lparr>ev_artifact_ref := MockArtifactHash request\<rparr>,
       task_event EvCompleted request]"
    and "\<not> ip_busy ((run_step ^^ 13) y)"
proof -
  from assms have "ip_thread y = Some (request, DefaultInProcessRunner request, None)" "\<not> ip_cancelled y"
      "ip_events y = ip_events x"
    by (auto simp: ip_Submit_def split: if_splits)
  with default_body_runs [of y request]
  show "ip_events ((run_step ^^ 13) y) = ip_events x @
      map (\<lambda>p. (task_event EvProgress request)\<lparr>ev_progress := p\<rparr>) [0, 25, 50, 75, 100] @
      [(task_event EvArtifactProduced request)\<lparr>ev_artifact_ref := MockArtifactHash request\<rparr>,
       task_event EvCompleted request]"
    and "\<not> ip_busy ((run_step ^^ 13) y)"
    by (simp_all add: finish_task_def)
qed

text \<open>A body that never returns keeps the worker busy, whatever the client does.\<close>

primcorec spin :: "WorkerEvent \<Rightarrow> body" where
  "spin e = Emit e (spin e)"

lemma run_step_Emit:
  "ip_thread x = Some (request, Emit e b, t) \<Longrightarrow> \<exists>t'. ip_thread (run_step x) = Some (request, b, t')"
  by (simp add: run_step_def emit_def)

lemma spinning_body_never_ends:
  "ip_thread x = Some (request, spin e, t) \<Longrightarrow> \<exists>t'. ip_thread ((run_step ^^ n) x) = Some (request, spin e, t')"
proof (induction n)
  case (Suc n)
  then obtain t' where "ip_thread ((run_step ^^ n) x) = Some (request, spin e, t')" by blast
  then have "ip_thread ((run_step ^^ n) x) = Some (request, Emit e (spin e), t')" using spin.code [of e] by metis
  from run_step_Emit [OF this] show ?case by simp
qed simp

definition demo_executor :: in_process where
  "demo_executor = NewInProcessExecutor (replicate 16 7)
     \<lparr>pf_name = ''mock'', pf_capabilities = [], pf_capacity = default_spec, pf_max_concurrency = 1\<rparr> None"

definition demo_request :: TaskRequest where
  "demo_request = \<lparr>rq_task_id = replicate 16 1, rq_task_type = ''t'', rq_input_refs = [''a''],
     rq_expected_output_refs = [], rq_config_json = ''{}'', rq_pipeline_hash = [], rq_workspace = []\<rparr>"

lemma demo_submit: "\<exists>y. ip_Submit demo_request demo_executor = (Inr (), y)"
  by (simp add: ip_Submit_def demo_executor_def NewInProcessExecutor_def)

lemma terminal_event_releases_worker_witness:
  "\<exists>y segs. ip_Submit demo_request demo_executor = (Inr (), y) \<and> length segs = 1 \<and>
     visible_events \<lparr>ir_exec = y, ir_submitted = [demo_request], ir_delivered = []\<rparr> = concat segs"
proof -
  obtain y where y: "ip_Submit demo_request demo_executor = (Inr (), y)" using demo_submit by blast
  have "ip_step (start_run demo_executor) \<lparr>ir_exec = y, ir_submitted = [demo_request], ir_delivered = []\<rparr>"
    using ip_step.submit [of demo_request "start_run demo_executor" y] y by (simp add: start_run_def)
  then have "ip_step\<^sup>*\<^sup>* (start_run demo_executor) \<lparr>ir_exec = y, ir_submitted = [demo_request], ir_delivered = []\<rparr>"
    by blast
  from conjunct1 [OF terminal_event_releases_worker [OF this [unfolded demo_executor_def]]] y
  show ?thesis by auto
qed

end
