(* ===== verification/Scheduler.thy ===== *)
theory Scheduler
  imports TaskCache Worker
begin

text \<open>
  engine/scheduler/scheduler.cpp: one task at a time on one executor, cache first, with retries, failure
  propagation and persisted states. The state is the graph, the world (database and files), the
  executor's own state, the run identity and whether \<open>active_graph_\<close> is set. The event loop may never
  end, so the loops take fuel, and a run that is still waiting when it is used up is \<open>StillRunning\<close>.
\<close>

section \<open>State\<close>

record 'e sched =
  sd_graph :: TaskGraph
  sd_world :: world
  sd_exec :: 'e
  sd_pipeline_hash :: string
  sd_active :: bool

datatype stop = Raised exn | StillRunning

type_synonym ('e, 'a) sched_op = "'e sched \<Rightarrow> (stop + 'a) \<times> 'e sched"

text \<open>What the scheduler is built with, and the constants of the generated engine_build_info.h.\<close>

record 'e sched_env =
  se_lib :: json_lib
  se_cache :: cache_config
  se_executor :: "'e WorkerExecutor"
  se_environment :: SoftwareEnvironment

definition raised :: "'a res \<Rightarrow> stop + 'a" where
  "raised r = (case r of Inl e \<Rightarrow> Inl (Raised e) | Inr x \<Rightarrow> Inr x)"

definition on_world :: "'a w_op \<Rightarrow> ('e, 'a) sched_op" where
  "on_world f s = (case f (sd_world s) of (r, w) \<Rightarrow> (raised r, s\<lparr>sd_world := w\<rparr>))"

definition on_graph :: "(TaskGraph \<Rightarrow> 'a res \<times> TaskGraph) \<Rightarrow> ('e, 'a) sched_op" where
  "on_graph f s = (case f (sd_graph s) of (r, g) \<Rightarrow> (raised r, s\<lparr>sd_graph := g\<rparr>))"

definition read_graph :: "(TaskGraph \<Rightarrow> 'a res) \<Rightarrow> ('e, 'a) sched_op" where
  "read_graph f s = (raised (f (sd_graph s)), s)"

definition on_exec :: "('e \<times> world \<Rightarrow> 'a res \<times> 'e \<times> world) \<Rightarrow> ('e, 'a) sched_op" where
  "on_exec f s = (case f (sd_exec s, sd_world s) of (r, x, w) \<Rightarrow> (raised r, s\<lparr>sd_exec := x, sd_world := w\<rparr>))"

section \<open>Marking and recording\<close>

text \<open>The tail of \<open>Mark\<close>: the time of the change, and the row.\<close>

definition save_mark :: "'e sched_env \<Rightarrow> uuid \<Rightarrow> uuid \<Rightarrow> ('e, unit) sched_op" where
  "save_mark env task_id job_id =
     sbind (on_world TimestampNsNow) (\<lambda>now_ns.
     sbind (on_graph (MutableTask task_id (\<lambda>t. t\<lparr>ti_metadata := (ti_metadata t)\<lparr>md_updated_at_ns := now_ns\<rparr>\<rparr>))) (\<lambda>_.
     sbind (read_graph (\<lambda>g. Require g task_id)) (\<lambda>task.
       on_world (on_db (UpsertTask (se_lib env) job_id task)))))"

definition Mark :: "'e sched_env \<Rightarrow> uuid \<Rightarrow> TaskStatus \<Rightarrow> uuid \<Rightarrow> ('e, unit) sched_op" where
  "Mark env task_id to_st job_id =
     sbind (read_graph (\<lambda>g. Require g task_id)) (\<lambda>task.
     sbind (read_graph (\<lambda>_. Transition (ti_state task) to_st)) (\<lambda>_.
     sbind (on_graph (MutableTask task_id (\<lambda>t. t\<lparr>ti_state := to_st\<rparr>))) (\<lambda>_.
       save_mark env task_id job_id)))"

definition run_record :: "'e sched_env \<Rightarrow> uuid \<Rightarrow> TaskInstance \<Rightarrow> TaskStatus \<Rightarrow> ArtifactRef list \<Rightarrow> ErrorRecord option \<Rightarrow>
    int \<Rightarrow> int \<Rightarrow> ExecutionRecord" where
  "run_record env run_id task terminal outputs error started_at_ns ended_at_ns = \<lparr>ex_id = run_id,
     ex_task_id = ti_id task, ex_attempt = md_attempts (ti_metadata task) + 1,
     ex_worker_id = Some (we_id (se_executor env)), ex_inputs = ti_inputs task, ex_outputs = outputs,
     ex_environment = se_environment env,
     ex_hardware = \<lparr>hw_os = ''unknown'', hw_arch = ''unknown'', hw_cpu = [], hw_ram_bytes = 0, hw_gpu = []\<rparr>,
     ex_started_at_ns = started_at_ns, ex_ended_at_ns = ended_at_ns, ex_terminal_state = terminal,
     ex_error = error\<rparr>"

definition Scheduler_RecordRun :: "'e sched_env \<Rightarrow> TaskInstance \<Rightarrow> TaskStatus \<Rightarrow> ArtifactRef list \<Rightarrow> ErrorRecord option \<Rightarrow>
    int \<Rightarrow> ('e, unit) sched_op" where
  "Scheduler_RecordRun env task terminal outputs error started_at_ns =
     sbind (on_world new_uuid) (\<lambda>run_id.
     sbind (on_world TimestampNsNow) (\<lambda>ended_at_ns.
       on_world (on_db (RecordRun (se_lib env)
         (run_record env run_id task terminal outputs error started_at_ns ended_at_ns)))))"

section \<open>Outputs become inputs\<close>

text \<open>Each declared (placeholder) ref is replaced by the produced one, then the missing ones are appended.\<close>

definition thread_refs :: "ArtifactRef list \<Rightarrow> ArtifactRef list \<Rightarrow> ArtifactRef list \<Rightarrow> ArtifactRef list" where
  "thread_refs declared produced inputs =
     fold (\<lambda>ref ins. if ref \<in> set ins then ins else ins @ [ref]) produced
       (fold (\<lambda>(d, p). map (\<lambda>ref. if ref = d then p else ref)) (zip declared produced) inputs)"

definition ThreadOutputsToDependents :: "uuid \<Rightarrow> ArtifactRef list \<Rightarrow> ArtifactRef list \<Rightarrow> ('e, unit) sched_op" where
  "ThreadOutputsToDependents task_id declared produced =
     (if produced = [] then sret ()
      else sbind (read_graph (\<lambda>g. DependentsOf g task_id)) (\<lambda>dependents.
        for_each (\<lambda>dep_id. on_graph (MutableTask dep_id
          (\<lambda>dep. dep\<lparr>ti_inputs := thread_refs declared produced (ti_inputs dep)\<rparr>))) dependents))"

section \<open>What is ready\<close>

fun dep_failed :: "TaskGraph \<Rightarrow> uuid list \<Rightarrow> bool res" where
  "dep_failed g [] = Inr False"
| "dep_failed g (d # ds) = rbind (GetTask g d) (\<lambda>t.
     if IsTerminal (ti_state t) \<and> ti_state t \<noteq> Succeeded then Inr True else dep_failed g ds)"

fun deps_succeeded :: "TaskGraph \<Rightarrow> uuid list \<Rightarrow> bool res" where
  "deps_succeeded g [] = Inr True"
| "deps_succeeded g (d # ds) = rbind (GetTask g d) (\<lambda>t.
     if ti_state t \<noteq> Succeeded then Inr False else deps_succeeded g ds)"

text \<open>The loop of \<open>PropagateFailures\<close>; the result tells whether a task was marked.\<close>

fun propagate :: "'e sched_env \<Rightarrow> uuid list \<Rightarrow> bool \<Rightarrow> ('e, bool) sched_op" where
  "propagate env [] progressed = sret progressed"
| "propagate env (tid # ids) progressed =
     sbind (read_graph (\<lambda>g. GetTask g tid)) (\<lambda>task.
       if ti_state task \<noteq> Pending then propagate env ids progressed
       else sbind (read_graph (\<lambda>g. rbind (DependenciesOf g tid) (dep_failed g))) (\<lambda>failed.
         if failed
         then (\<lambda>s. sbind (Mark env tid (if md_failure (ti_metadata task) = PolFailed then Failed else Skipped)
                 (tg_job_id (sd_graph s))) (\<lambda>_. propagate env ids True) s)
         else propagate env ids progressed))"

definition PropagateFailures :: "'e sched_env \<Rightarrow> ('e, bool) sched_op" where
  "PropagateFailures env s = propagate env (tg_order (sd_graph s)) False s"

fun ready_of :: "TaskGraph \<Rightarrow> uuid list \<Rightarrow> uuid list res" where
  "ready_of g [] = Inr []"
| "ready_of g (tid # ids) = rbind (GetTask g tid) (\<lambda>task.
     if ti_state task \<noteq> Pending then ready_of g ids
     else rbind (rbind (DependenciesOf g tid) (deps_succeeded g)) (\<lambda>ok.
       rbind (ready_of g ids) (\<lambda>ready. Inr (if ok then tid # ready else ready))))"

definition ReadyTasks :: "TaskGraph \<Rightarrow> uuid list res" where
  "ReadyTasks g = ready_of g (tg_order g)"

fun all_terminal :: "TaskGraph \<Rightarrow> uuid list \<Rightarrow> bool res" where
  "all_terminal g [] = Inr True"
| "all_terminal g (tid # ids) = rbind (GetTask g tid) (\<lambda>t.
     if \<not> IsTerminal (ti_state t) then Inr False else all_terminal g ids)"

definition AllTerminal :: "TaskGraph \<Rightarrow> bool res" where
  "AllTerminal g = all_terminal g (tg_order g)"

section \<open>Cache hits\<close>

definition TryCacheHit :: "'e sched_env \<Rightarrow> uuid \<Rightarrow> ('e, bool) sched_op" where
  "TryCacheHit env task_id =
     sbind (read_graph (\<lambda>g. GetTask g task_id)) (\<lambda>task.
     sbind (on_world (Lookup (se_cache env) task)) (\<lambda>entry. case entry of
       None \<Rightarrow> sret False
     | Some e \<Rightarrow> sbind (on_world (ResolveOutput (se_lib env) e)) (\<lambda>output. case output of
         None \<Rightarrow> sbind (on_world (Invalidate (ce_cache_key e))) (\<lambda>_. sret False)
       | Some ref \<Rightarrow> (\<lambda>s. sbind (Mark env task_id Running (tg_job_id (sd_graph s))) (\<lambda>_.
           sbind (read_graph (\<lambda>g. Require g task_id)) (\<lambda>t.
           sbind (on_graph (MutableTask task_id (\<lambda>t. t\<lparr>ti_outputs := [ref]\<rparr>))) (\<lambda>_.
           sbind (Mark env task_id Succeeded (tg_job_id (sd_graph s))) (\<lambda>_.
           sbind (ThreadOutputsToDependents task_id (ti_outputs t) [ref]) (\<lambda>_. sret True))))) s))))"

section \<open>Dispatch\<close>

definition task_request :: "string \<Rightarrow> uuid \<Rightarrow> TaskInstance \<Rightarrow> uuid \<Rightarrow> TaskRequest" where
  "task_request pipeline_hash job_id task task_id = \<lparr>rq_task_id = task_id, rq_task_type = td_type (ti_definition task),
     rq_input_refs = ti_inputs task, rq_expected_output_refs = ti_outputs task, rq_config_json = ti_config_json task,
     rq_pipeline_hash = pipeline_hash,
     rq_workspace = ''temp/'' @ FormatUuid job_id @ ''/'' @ FormatUuid task_id\<rparr>"

definition error_record :: "WorkerEvent \<Rightarrow> bool \<Rightarrow> ErrorRecord option" where
  "error_record event recoverable =
     Some \<lparr>er_code = ev_error_code event, er_message = ev_error_message event, er_recoverable = recoverable\<rparr>"

text \<open>How an event loop ends: the task is terminal, or it is to be dispatched again.\<close>

datatype await_end = Finished | Retry

definition on_completed :: "'e sched_env \<Rightarrow> uuid \<Rightarrow> uuid \<Rightarrow> int \<Rightarrow> ArtifactRef list \<Rightarrow> ('e, await_end) sched_op" where
  "on_completed env task_id job_id started_ns produced =
     sbind (read_graph (\<lambda>g. Require g task_id)) (\<lambda>t0.
     sbind (on_graph (MutableTask task_id (\<lambda>t. t\<lparr>ti_outputs := produced\<rparr>))) (\<lambda>_.
     sbind (Mark env task_id Succeeded job_id) (\<lambda>_.
     sbind (read_graph (\<lambda>g. Require g task_id)) (\<lambda>t.
     sbind (case produced of [] \<Rightarrow> sret () | out # _ \<Rightarrow> on_world (StoreOutput (se_cache env) t out)) (\<lambda>_.
     sbind (Scheduler_RecordRun env t Succeeded produced None started_ns) (\<lambda>_.
     sbind (ThreadOutputsToDependents task_id (ti_outputs t0) produced) (\<lambda>_. sret Finished)))))))"

definition on_failed :: "'e sched_env \<Rightarrow> uuid \<Rightarrow> uuid \<Rightarrow> int \<Rightarrow> WorkerEvent \<Rightarrow> ('e, await_end) sched_op" where
  "on_failed env task_id job_id started_ns event =
     sbind (on_graph (MutableTask task_id
       (\<lambda>t. t\<lparr>ti_metadata := (ti_metadata t)\<lparr>md_attempts := md_attempts (ti_metadata t) + 1\<rparr>\<rparr>))) (\<lambda>_.
     sbind (read_graph (\<lambda>g. Require g task_id)) (\<lambda>t.
       if ev_recoverable event \<and> md_attempts (ti_metadata t) < rp_max_attempts (md_retry (ti_metadata t))
       then sbind (Scheduler_RecordRun env t Failed [] (error_record event True) started_ns) (\<lambda>_.
            sbind (Mark env task_id Failed job_id) (\<lambda>_.
            sbind (Mark env task_id Pending job_id) (\<lambda>_. sret Retry)))
       else sbind (Scheduler_RecordRun env t Failed [] (error_record event (ev_recoverable event)) started_ns) (\<lambda>_.
            sbind (Mark env task_id Failed job_id) (\<lambda>_. sret Finished))))"

definition on_cancelled :: "'e sched_env \<Rightarrow> uuid \<Rightarrow> uuid \<Rightarrow> int \<Rightarrow> ('e, await_end) sched_op" where
  "on_cancelled env task_id job_id started_ns =
     sbind (on_graph (MutableTask task_id (\<lambda>t. t\<lparr>ti_outputs := []\<rparr>))) (\<lambda>_.
     sbind (Mark env task_id Cancelled job_id) (\<lambda>_.
     sbind (read_graph (\<lambda>g. Require g task_id)) (\<lambda>t.
     sbind (Scheduler_RecordRun env t Cancelled [] None started_ns) (\<lambda>_. sret Finished))))"

definition crashed_event :: "uuid \<Rightarrow> WorkerEvent" where
  "crashed_event task_id = default_event\<lparr>ev_type := EvFailed, ev_task_id := task_id,
     ev_error_code := ''WORKER_CRASHED'', ev_error_message := ''worker stopped responding'', ev_recoverable := True\<rparr>"

text \<open>
  The event loop of one attempt: \<open>missed\<close> counts the timeouts of the whole attempt. The fuel bounds the
  number of waits. (The source writes the synthetic failure into the last event it received; the
  fields it does not set are not read.)
\<close>

fun await :: "'e sched_env \<Rightarrow> uuid \<Rightarrow> uuid \<Rightarrow> int \<Rightarrow> nat \<Rightarrow> nat \<Rightarrow> ArtifactRef list \<Rightarrow> ('e, await_end) sched_op" where
  "await env task_id job_id started_ns 0 missed produced = sthrow StillRunning"
| "await env task_id job_id started_ns (Suc fuel) missed produced =
     sbind (on_exec (we_WaitForEvent (se_executor env) 5000)) (\<lambda>received. case received of
       None \<Rightarrow>
         if Suc missed > 10 then on_failed env task_id job_id started_ns (crashed_event task_id)
         else await env task_id job_id started_ns fuel (Suc missed) produced
     | Some event \<Rightarrow>
         if ev_task_id event \<noteq> task_id then await env task_id job_id started_ns fuel missed produced
         else (case ev_type event of
             EvArtifactProduced \<Rightarrow>
               await env task_id job_id started_ns fuel missed (produced @ [ev_artifact_ref event])
           | EvCompleted \<Rightarrow> on_completed env task_id job_id started_ns produced
           | EvFailed \<Rightarrow> on_failed env task_id job_id started_ns event
           | EvCancelled \<Rightarrow> on_cancelled env task_id job_id started_ns
           | _ \<Rightarrow> await env task_id job_id started_ns fuel missed produced))"

text \<open>The attempts; the fuel bounds their number, and the waits of each.\<close>

fun dispatch :: "'e sched_env \<Rightarrow> uuid \<Rightarrow> nat \<Rightarrow> nat \<Rightarrow> ('e, unit) sched_op" where
  "dispatch env task_id waits 0 = sthrow StillRunning"
| "dispatch env task_id waits (Suc attempts) =
     (\<lambda>s. let job_id = tg_job_id (sd_graph s) in
     sbind (read_graph (\<lambda>g. Require g task_id)) (\<lambda>task.
     sbind (if ti_state task \<noteq> Running then Mark env task_id Running job_id else sret ()) (\<lambda>_.
     sbind (on_world TimestampNsNow) (\<lambda>started_ns.
     sbind (read_graph (\<lambda>g. Require g task_id)) (\<lambda>task'.
     sbind (on_exec (we_Submit (se_executor env) (task_request (sd_pipeline_hash s) job_id task' task_id))) (\<lambda>_.
     sbind (await env task_id job_id started_ns waits 0 []) (\<lambda>ended.
       case ended of Finished \<Rightarrow> sret () | Retry \<Rightarrow> dispatch env task_id waits attempts)))))) s)"

definition DispatchAndAwait :: "'e sched_env \<Rightarrow> nat \<Rightarrow> uuid \<Rightarrow> ('e, unit) sched_op" where
  "DispatchAndAwait env fuel task_id = dispatch env task_id fuel fuel"

section \<open>The main loop\<close>

definition run_ready :: "'e sched_env \<Rightarrow> nat \<Rightarrow> uuid \<Rightarrow> ('e, unit) sched_op" where
  "run_ready env fuel tid = sbind (TryCacheHit env tid) (\<lambda>hit. if hit then sret () else DispatchAndAwait env fuel tid)"

definition stalled :: exn where
  "stalled = throw_error kInternal ''scheduler stalled: no task is ready and the graph is not terminal''"

fun execute_loop :: "'e sched_env \<Rightarrow> nat \<Rightarrow> nat \<Rightarrow> ('e, unit) sched_op" where
  "execute_loop env fuel 0 = sret ()"
| "execute_loop env fuel (Suc iterations) =
     sbind (PropagateFailures env) (\<lambda>progressed.
     sbind (read_graph AllTerminal) (\<lambda>finished.
       if finished then sret ()
       else sbind (read_graph ReadyTasks) (\<lambda>ready.
         sbind (for_each (run_ready env fuel) ready) (\<lambda>_.
           if \<not> progressed \<and> ready = [] then sthrow (Raised stalled)
           else execute_loop env fuel iterations))))"

definition Execute :: "'e sched_env \<Rightarrow> nat \<Rightarrow> ('e, unit) sched_op" where
  "Execute env fuel s =
     sbind (execute_loop env fuel 10000) (\<lambda>_ s. (Inr (), s\<lparr>sd_active := False\<rparr>)) (s\<lparr>sd_active := True\<rparr>)"

definition Run :: "'e sched_env \<Rightarrow> nat \<Rightarrow> ArtifactRef list \<Rightarrow> string \<Rightarrow> ('e, unit) sched_op" where
  "Run env fuel external_inputs pipeline_hash s =
     sbind (read_graph (\<lambda>g. Validate g [we_profile (se_executor env)] external_inputs)) (\<lambda>_.
     sbind (\<lambda>s. on_world (on_db (SaveGraph (se_lib env) (sd_graph s))) s) (\<lambda>_.
       Execute env fuel)) (s\<lparr>sd_pipeline_hash := pipeline_hash\<rparr>)"

section \<open>Resume and cancel\<close>

definition reconcile :: "TaskInstance \<Rightarrow> TaskInstance" where
  "reconcile task = (if ti_state task = Running
     then task\<lparr>ti_state := Pending, ti_metadata := (ti_metadata task)\<lparr>md_attempts := 0\<rparr>\<rparr> else task)"

text \<open>\<open>AddTask\<close> draws a random id only for a task whose id is nil.\<close>

definition add_loaded :: "TaskInstance \<Rightarrow> ('e, unit) sched_op" where
  "add_loaded task s =
     sbind (on_graph (AddTask (w_random (sd_world s) (w_tick (sd_world s))) (reconcile task))) (\<lambda>_ s.
       (Inr (), if IsNil (ti_id task) then s\<lparr>sd_world := w_step (sd_world s)\<rparr> else s)) s"

definition Resume :: "'e sched_env \<Rightarrow> nat \<Rightarrow> uuid \<Rightarrow> ('e, unit) sched_op" where
  "Resume env fuel job_id s =
     sbind (on_world (on_db (LoadTasks (se_lib env) job_id))) (\<lambda>tasks.
     sbind (for_each add_loaded tasks) (\<lambda>_.
     sbind (on_world (on_db (LoadDependencies job_id))) (\<lambda>deps.
     sbind (for_each (\<lambda>(task_id, dep). on_graph (AddDependency task_id dep)) deps) (\<lambda>_.
       Execute env fuel)))) (s\<lparr>sd_graph := new_graph job_id\<rparr>)"

definition Cancel :: "'e sched_env \<Rightarrow> uuid \<Rightarrow> string \<Rightarrow> ('e, unit) sched_op" where
  "Cancel env task_id reason s =
     (if \<not> sd_active s then (Inr (), s)
      else sbind (read_graph (\<lambda>g. GetTask g task_id)) (\<lambda>task.
        case ti_state task of
          Pending \<Rightarrow> Mark env task_id Cancelled (tg_job_id (sd_graph s))
        | Running \<Rightarrow> on_exec (we_Cancel (se_executor env) task_id reason)
        | _ \<Rightarrow> sret ()) s)"

definition TaskState :: "'e sched_env \<Rightarrow> uuid \<Rightarrow> ('e, TaskInstance option) sched_op" where
  "TaskState env task_id = on_world (on_db (FindTask (se_lib env) task_id))"

section \<open>Invariants of the graph\<close>

text \<open>
  What a predicate on the graph has to satisfy so that the whole scheduler keeps it: mutations that leave
  a task's state alone do, and so does every legal transition that \<open>allowed\<close> admits.
\<close>

abbreviation set_task :: "TaskGraph \<Rightarrow> uuid \<Rightarrow> TaskInstance \<Rightarrow> TaskGraph" where
  "set_task g tid t \<equiv> g\<lparr>tg_tasks := (tg_tasks g)(tid \<mapsto> t)\<rparr>"

lemma MutableTask_keeps:
  "(\<And>g t. Q g \<Longrightarrow> tg_tasks g tid = Some t \<Longrightarrow> Q (set_task g tid (f t))) \<Longrightarrow>
     keeps (\<lambda>s. Q (sd_graph s)) (on_graph (MutableTask tid f))"
  by (auto simp: keeps_def on_graph_def MutableTask_def split: option.split)

lemma keeps_outside [keeps_intros]:
  "keeps (\<lambda>s. Q (sd_graph s)) (on_world f)" "keeps (\<lambda>s. Q (sd_graph s)) (on_exec h)"
  "keeps P (read_graph k)" "keeps P (sret x)" "keeps P (sthrow e)"
  by (simp_all add: keeps_def on_world_def on_exec_def read_graph_def sret_def sthrow_def split: prod.split)

lemma keeps_branch [keeps_intros]:
  "keeps P a \<Longrightarrow> keeps P b \<Longrightarrow> keeps P (if c then a else b)"
  "keeps P a \<Longrightarrow> (\<And>x. keeps P (f x)) \<Longrightarrow> keeps P (case opt of None \<Rightarrow> a | Some x \<Rightarrow> f x)"
  "keeps P a \<Longrightarrow> (\<And>x xs. keeps P (h x xs)) \<Longrightarrow> keeps P (case ys of [] \<Rightarrow> a | x # xs \<Rightarrow> h x xs)"
  "keeps P a \<Longrightarrow> keeps P b \<Longrightarrow> keeps P (case ended of Finished \<Rightarrow> a | Retry \<Rightarrow> b)"
  "keeps P e1 \<Longrightarrow> keeps P e2 \<Longrightarrow> keeps P e3 \<Longrightarrow> keeps P e4 \<Longrightarrow> keeps P e5 \<Longrightarrow> keeps P e6 \<Longrightarrow> keeps P e7 \<Longrightarrow>
     keeps P (case ty of EvProgress \<Rightarrow> e1 | EvLog \<Rightarrow> e2 | EvArtifactProduced \<Rightarrow> e3 | EvCompleted \<Rightarrow> e4
       | EvFailed \<Rightarrow> e5 | EvCancelled \<Rightarrow> e6 | EvHeartbeat \<Rightarrow> e7)"
  by (simp_all split: option.split list.split await_end.split WorkerEventType.split)

lemma keeps_read:
  "(\<And>s x. P s \<Longrightarrow> f (sd_graph s) = Inr x \<Longrightarrow> P (snd (k x s))) \<Longrightarrow> keeps P (sbind (read_graph f) k)"
  by (auto simp: keeps_def sbind_def read_graph_def raised_def split: sum.split)

lemma snd_sbind_keeps: "P (snd (m s)) \<Longrightarrow> (\<And>x. keeps P (f x)) \<Longrightarrow> P (snd (sbind m f s))"
  by (auto simp: snd_sbind keeps_def split: prod.splits sum.splits)

lemma keeps_app: "(\<And>s. keeps P (m s)) \<Longrightarrow> keeps P (\<lambda>s. m s s)"
  by (simp add: keeps_def)

locale graph_invariant =
  fixes Q :: "TaskGraph \<Rightarrow> bool"
    and allowed :: "uuid \<Rightarrow> TaskStatus \<Rightarrow> bool"
  assumes quiet: "Q g \<Longrightarrow> tg_tasks g tid = Some t \<Longrightarrow> ti_state t' = ti_state t \<Longrightarrow> ti_id t' = ti_id t \<Longrightarrow>
      Q (set_task g tid t')"
    and marked: "Q g \<Longrightarrow> tg_tasks g tid = Some t \<Longrightarrow> IsLegal (ti_state t) to_st \<Longrightarrow> allowed tid to_st \<Longrightarrow>
      Q (set_task g tid (t\<lparr>ti_state := to_st\<rparr>))"
begin

abbreviation kept :: "'e sched \<Rightarrow> bool" where
  "kept s \<equiv> Q (sd_graph s)"

lemma keeps_quiet:
  "(\<And>t. ti_state (f t) = ti_state t) \<Longrightarrow> (\<And>t. ti_id (f t) = ti_id t) \<Longrightarrow> keeps kept (on_graph (MutableTask tid f))"
  by (rule MutableTask_keeps) (rule quiet, assumption+)

lemma keeps_save: "keeps kept (save_mark env tid job)"
  unfolding save_mark_def by (intro keeps_intros keeps_quiet) simp_all

lemma keeps_Mark:
  assumes "allowed tid to_st" shows "keeps kept (Mark env tid to_st job)"
  unfolding Mark_def
proof (rule keeps_read)
  fix s :: "'a sched" and t
  assume s: "kept s" "Require (sd_graph s) tid = Inr t"
  let ?S = "on_graph (MutableTask tid (\<lambda>t. t\<lparr>ti_state := to_st\<rparr>))"
  show "kept (snd (sbind (read_graph (\<lambda>_. Transition (ti_state t) to_st)) (\<lambda>_. sbind ?S (\<lambda>_. save_mark env tid job)) s))"
  proof (cases "IsLegal (ti_state t) to_st")
    case True
    then have "kept (snd (?S s))"
      using marked [OF s(1) _ True assms] s(2) by (simp add: on_graph_def MutableTask_def Require_Inr)
    then have "kept (snd (sbind ?S (\<lambda>_. save_mark env tid job) s))" by (rule snd_sbind_keeps) (rule keeps_save)
    with True show ?thesis by (simp add: sbind_def [of "read_graph _"] read_graph_def raised_def Transition_def)
  next
    case False
    with s(1) show ?thesis by (simp add: sbind_def read_graph_def raised_def Transition_def)
  qed
qed

lemma keeps_Mark_job:
  assumes "allowed tid to_st" "\<And>s. keeps kept (k s ())"
  shows "keeps kept (\<lambda>s. sbind (Mark env tid to_st (J s)) (k s) s)"
proof (rule keeps_app [of _ "\<lambda>s. sbind (Mark env tid to_st (J s)) (k s)"])
  fix s
  show "keeps kept (sbind (Mark env tid to_st (J s)) (k s))"
    by (rule keeps_sbind [OF keeps_Mark [OF assms(1)]]) (use assms(2) in simp)
qed

lemma keeps_thread: "keeps kept (ThreadOutputsToDependents tid declared produced)"
  unfolding ThreadOutputsToDependents_def by (intro keeps_intros keeps_quiet) simp_all

lemma keeps_record: "keeps kept (Scheduler_RecordRun env t st outs err n)"
  unfolding Scheduler_RecordRun_def by (intro keeps_intros)

lemma keeps_propagate:
  assumes "\<And>tid. allowed tid Failed" "\<And>tid. allowed tid Skipped"
  shows "keeps kept (propagate env ids progressed)"
proof (induction ids arbitrary: progressed)
  case Nil
  show ?case unfolding propagate.simps by (intro keeps_intros)
next
  case (Cons tid ids)
  have allow: "allowed tid (if c then Failed else Skipped)" for c using assms by simp
  show ?case
    unfolding propagate.simps by (intro keeps_intros keeps_Mark_job allow Cons)
qed

lemma keeps_PropagateFailures:
  assumes "\<And>tid. allowed tid Failed" "\<And>tid. allowed tid Skipped"
  shows "keeps kept (PropagateFailures env)"
  unfolding PropagateFailures_def by (rule keeps_app) (rule keeps_propagate [OF assms])

lemma keeps_TryCacheHit:
  assumes "allowed tid Running" "allowed tid Succeeded"
  shows "keeps kept (TryCacheHit env tid)"
  unfolding TryCacheHit_def
  by (intro keeps_intros keeps_Mark_job keeps_Mark keeps_quiet keeps_thread assms) simp_all

lemma keeps_on_failed:
  assumes "allowed tid Failed" "allowed tid Pending"
  shows "keeps kept (on_failed env tid job n event)"
  unfolding on_failed_def
  by (intro keeps_intros keeps_Mark keeps_quiet keeps_record assms) simp_all

lemma keeps_on_completed:
  assumes "allowed tid Succeeded" shows "keeps kept (on_completed env tid job n produced)"
  unfolding on_completed_def
  by (intro keeps_intros keeps_Mark keeps_quiet keeps_record keeps_thread assms) simp_all

lemma keeps_on_cancelled:
  assumes "allowed tid Cancelled" shows "keeps kept (on_cancelled env tid job n)"
  unfolding on_cancelled_def
  by (intro keeps_intros keeps_Mark keeps_quiet keeps_record assms) simp_all

lemma keeps_await:
  assumes "\<And>st. allowed tid st" shows "keeps kept (await env tid job n fuel missed produced)"
proof (induction fuel arbitrary: missed produced)
  case (Suc fuel)
  show ?case
    unfolding await.simps
    by (intro keeps_intros keeps_on_failed keeps_on_completed keeps_on_cancelled assms Suc)
qed (simp add: keeps_def sthrow_def)

lemma keeps_dispatch:
  assumes "\<And>st. allowed tid st" shows "keeps kept (dispatch env tid waits attempts)"
proof (induction attempts)
  case (Suc attempts)
  show ?case
    unfolding dispatch.simps Let_def
    by (rule keeps_app) (intro keeps_intros keeps_Mark keeps_await assms Suc)
qed (simp add: keeps_def sthrow_def)

lemma keeps_run_ready:
  assumes "\<And>st. allowed tid st" shows "keeps kept (run_ready env fuel tid)"
  unfolding run_ready_def DispatchAndAwait_def
  by (intro keeps_intros keeps_TryCacheHit keeps_dispatch assms)

lemma keeps_execute_loop:
  assumes "\<And>tid st. allowed tid st" shows "keeps kept (execute_loop env fuel n)"
proof (induction n)
  case (Suc n)
  show ?case
    unfolding execute_loop.simps
    by (intro keeps_intros keeps_PropagateFailures keeps_run_ready assms Suc)
qed (simp add: keeps_def sret_def)

end

section \<open>States move along the life cycle\<close>

definition status :: "TaskGraph \<Rightarrow> uuid \<Rightarrow> TaskStatus" where
  "status g v = ti_state (task_of g v)"

lemma status_set: "status (set_task g tid t) v = (if v = tid then ti_state t else status g v)"
  by (simp add: status_def task_of_def)

lemma status_task: "tg_tasks g v = Some t \<Longrightarrow> status g v = ti_state t"
  by (simp add: status_def task_of_def)

text \<open>The same tasks and edges, and every state reached along the life cycle.\<close>

definition moved :: "TaskGraph \<Rightarrow> TaskGraph \<Rightarrow> bool" where
  "moved g0 g \<longleftrightarrow> graph_wf g \<and> tg_job_id g = tg_job_id g0 \<and> tg_order g = tg_order g0 \<and>
     tg_dependencies g = tg_dependencies g0 \<and> tg_dependents g = tg_dependents g0 \<and>
     (\<forall>v. lifecycle\<^sup>*\<^sup>* (status g0 v) (status g v))"

lemma graph_wf_set: "graph_wf g \<Longrightarrow> tg_tasks g tid = Some t \<Longrightarrow> ti_id t' = ti_id t \<Longrightarrow> graph_wf (set_task g tid t')"
  by (auto simp: graph_wf_def depends_def)

lemma moved_set:
  assumes "moved g0 g" "tg_tasks g tid = Some t" "ti_id t' = ti_id t" "lifecycle\<^sup>*\<^sup>* (ti_state t) (ti_state t')"
  shows "moved g0 (set_task g tid t')"
  using assms graph_wf_set [of g tid t t'] status_task [OF assms(2)]
  by (auto simp: moved_def status_set intro: rtranclp_trans)

interpretation life_cycle: graph_invariant "moved g0" "\<lambda>_ _. True" for g0
proof unfold_locales
  fix g tid and t t' :: TaskInstance assume "moved g0 g" "tg_tasks g tid = Some t" "ti_state t' = ti_state t" "ti_id t' = ti_id t"
  then show "moved g0 (set_task g tid t')" by (intro moved_set) auto
next
  fix g tid t to_st assume "moved g0 g" "tg_tasks g tid = Some t" "IsLegal (ti_state t) to_st"
  then show "moved g0 (set_task g tid (t\<lparr>ti_state := to_st\<rparr>))"
    by (intro moved_set) (auto simp: IsLegal_lifecycle)
qed

lemma moved_refl: "graph_wf g \<Longrightarrow> moved g g"
  by (simp add: moved_def)

text \<open>
  Whatever the executor, the database and the files do, a run (also one that throws or is still waiting)
  leaves the tasks and edges of the graph as they were, and tasks that were succeeded, cancelled or
  skipped stay so.
\<close>

lemma Execute_keeps_final_states:
  assumes "graph_wf (sd_graph s)" "Execute env fuel s = (r, s')"
  shows "tg_order (sd_graph s') = tg_order (sd_graph s)" "tg_dependencies (sd_graph s') = tg_dependencies (sd_graph s)"
    and "status (sd_graph s) v \<in> {Succeeded, Cancelled, Skipped} \<Longrightarrow> status (sd_graph s') v = status (sd_graph s) v"
proof -
  have "keeps (\<lambda>s'. moved (sd_graph s) (sd_graph s'))
      (sbind (execute_loop env fuel 10000) (\<lambda>_ s. (Inr (), s\<lparr>sd_active := False\<rparr>)))"
    by (intro keeps_intros life_cycle.keeps_execute_loop) (simp_all add: keeps_def)
  from keepsD [OF this, of "s\<lparr>sd_active := True\<rparr>"] moved_refl [OF assms(1)] assms(2)
  have m: "moved (sd_graph s) (sd_graph s')" by (simp add: Execute_def)
  then show "tg_order (sd_graph s') = tg_order (sd_graph s)" "tg_dependencies (sd_graph s') = tg_dependencies (sd_graph s)"
    by (simp_all add: moved_def)
  from m show "status (sd_graph s) v \<in> {Succeeded, Cancelled, Skipped} \<Longrightarrow> status (sd_graph s') v = status (sd_graph s) v"
    using final_states_absorb [of "status (sd_graph s) v" "status (sd_graph s') v"] by (simp add: moved_def)
qed

section \<open>Tasks run after their dependencies\<close>

definition deps_done :: "TaskGraph \<Rightarrow> uuid \<Rightarrow> bool" where
  "deps_done g v \<longleftrightarrow> (\<forall>d. depends g v d \<longrightarrow> status g d = Succeeded)"

text \<open>No task runs, or has succeeded, before its dependencies succeeded; the ones in \<open>R\<close> may run.\<close>

definition ordered :: "uuid set \<Rightarrow> TaskGraph \<Rightarrow> bool" where
  "ordered R g \<longleftrightarrow> (\<forall>v. status g v = Running \<or> status g v = Succeeded \<or> v \<in> R \<longrightarrow> deps_done g v)"

interpretation order: graph_invariant "ordered R" "\<lambda>tid to_st. to_st = Running \<longrightarrow> tid \<in> R" for R
proof unfold_locales
  fix g tid and t t' :: TaskInstance assume "ordered R g" "tg_tasks g tid = Some t" "ti_state t' = ti_state t"
  then have "status (set_task g tid t') = status g" "depends (set_task g tid t') = depends g"
    by (auto simp: status_set status_task depends_def fun_eq_iff)
  then have "ordered R (set_task g tid t') = ordered R g" by (simp only: ordered_def deps_done_def)
  with \<open>ordered R g\<close> show "ordered R (set_task g tid t')" by (rule iffD2 [rotated])
next
  fix g tid t to_st
  assume a: "ordered R g" "tg_tasks g tid = Some t" "IsLegal (ti_state t) to_st" "to_st = Running \<longrightarrow> tid \<in> R"
  let ?g = "set_task g tid (t\<lparr>ti_state := to_st\<rparr>)"
  have l: "lifecycle (status g tid) to_st" using a(2,3) by (simp add: IsLegal_lifecycle status_task)
  have dep: "depends ?g = depends g" by (simp add: depends_def fun_eq_iff)
  have "deps_done ?g v" if "deps_done g v" for v
    using that l by (auto simp: deps_done_def dep status_set elim: lifecycle_from_terminal)
  moreover have "deps_done g v" if "status ?g v = Running \<or> status ?g v = Succeeded \<or> v \<in> R" for v
  proof (cases "v = tid")
    case True
    with that a(1,4) l show ?thesis by (auto simp: ordered_def status_set lifecycle_simps)
  next
    case False
    with that a(1) show ?thesis by (auto simp: ordered_def status_set)
  qed
  ultimately show "ordered R ?g" by (simp add: ordered_def)
qed

lemma ordered_mono: "ordered R g \<Longrightarrow> S \<subseteq> R \<Longrightarrow> ordered S g"
  by (auto simp: ordered_def)

lemma GetTask_Inr: "GetTask g v = Inr t \<longleftrightarrow> tg_tasks g v = Some t"
  by (simp add: GetTask_def Require_Inr)

lemma deps_succeeded_True: "deps_succeeded g ds = Inr True \<Longrightarrow> d \<in> set ds \<Longrightarrow> status g d = Succeeded"
  by (induction ds) (auto simp: rbind_Inr GetTask_Inr status_task split: if_splits)

lemma DependenciesOf_Inr: "DependenciesOf g v = Inr ds \<Longrightarrow> set ds = {d. depends g v d}"
  by (auto simp: DependenciesOf_def rbind_Inr map_at_def depends_def vec_at_def split: option.splits)

lemma ready_of_done:
  "ready_of g ids = Inr ready \<Longrightarrow> v \<in> set ready \<Longrightarrow> v \<in> set ids \<and> status g v = Pending \<and> deps_done g v"
proof (induction ids arbitrary: ready)
  case (Cons x ids)
  from Cons.prems(1) obtain t where t: "tg_tasks g x = Some t" by (auto simp: rbind_Inr GetTask_Inr)
  show ?case
  proof (cases "ti_state t = Pending")
    case False
    with Cons t show ?thesis by (auto simp: rbind_Inr GetTask_Inr)
  next
    case True
    with Cons.prems(1) t obtain ds ok ready' where
      r: "DependenciesOf g x = Inr ds" "deps_succeeded g ds = Inr ok" "ready_of g ids = Inr ready'"
        "ready = (if ok then x # ready' else ready')"
      by (auto simp: rbind_Inr GetTask_Inr)
    show ?thesis
    proof (cases "v = x \<and> ok")
      case x: True
      with r(1,2) have "deps_done g x"
        using deps_succeeded_True [of g ds] by (auto simp: deps_done_def dest!: DependenciesOf_Inr)
      with x True t show ?thesis by (simp add: status_task)
    next
      case False
      with r(4) Cons.prems(2) have "v \<in> set ready'" by (auto split: if_splits)
      from Cons.IH [OF r(3) this] show ?thesis by simp
    qed
  qed
qed simp

lemma ordered_execute_loop: "keeps (\<lambda>s. ordered {} (sd_graph s)) (execute_loop env fuel n)"
proof (induction n)
  case (Suc n)
  have rest: "keeps (\<lambda>s. ordered {} (sd_graph s)) (sbind (read_graph ReadyTasks) (\<lambda>ready.
        sbind (for_each (run_ready env fuel) ready) (\<lambda>_.
          if \<not> progressed \<and> ready = [] then sthrow (Raised stalled) else execute_loop env fuel n)))" for progressed
  proof (rule keeps_read)
    fix s :: "'a sched" and ready assume s: "ordered {} (sd_graph s)" "ReadyTasks (sd_graph s) = Inr ready"
    have "ordered (set ready) (sd_graph s)"
      using s ready_of_done [of "sd_graph s" _ ready] by (auto simp: ordered_def ReadyTasks_def)
    then have "ordered (set ready) (sd_graph (snd (for_each (run_ready env fuel) ready s)))"
    proof (rule for_each_inv [where P = "\<lambda>s. ordered (set ready) (sd_graph s)", rotated])
      fix x and u :: "'a sched" assume "x \<in> set ready" "ordered (set ready) (sd_graph u)"
      then show "ordered (set ready) (sd_graph (snd (run_ready env fuel x u)))"
        by (intro keepsD [OF order.keeps_run_ready]) simp_all
    qed
    then have "ordered {} (sd_graph (snd (for_each (run_ready env fuel) ready s)))"
      by (rule ordered_mono) simp
    then show "ordered {} (sd_graph (snd (sbind (for_each (run_ready env fuel) ready) (\<lambda>_.
          if \<not> progressed \<and> ready = [] then sthrow (Raised stalled) else execute_loop env fuel n) s)))"
      by (rule snd_sbind_keeps [of "\<lambda>s. ordered {} (sd_graph s)"]) (intro keeps_intros Suc)
  qed
  show ?case
    unfolding execute_loop.simps
    by (intro keeps_intros order.keeps_PropagateFailures rest) simp_all
qed (simp add: keeps_def sret_def)

text \<open>
  C1: a task is running or succeeded only when all its dependencies have succeeded, at the end of every
  run and also when the run throws or is still waiting for a worker.
\<close>

theorem Execute_respects_dependencies:
  assumes "\<forall>v. status (sd_graph s) v \<noteq> Running" "\<forall>v d. status (sd_graph s) v = Succeeded \<longrightarrow> depends (sd_graph s) v d \<longrightarrow>
      status (sd_graph s) d = Succeeded" "Execute env fuel s = (r, s')" "depends (sd_graph s') v d"
    "status (sd_graph s') v = Running \<or> status (sd_graph s') v = Succeeded"
  shows "status (sd_graph s') d = Succeeded"
proof -
  have start: "ordered {} (sd_graph s)" using assms(1,2) by (auto simp: ordered_def deps_done_def)
  have "keeps (\<lambda>s. ordered {} (sd_graph s))
      (sbind (execute_loop env fuel 10000) (\<lambda>_ s. (Inr (), s\<lparr>sd_active := False\<rparr>)))"
    by (intro keeps_intros ordered_execute_loop) (simp add: keeps_def)
  note kept = this
  from keepsD [OF kept, of "s\<lparr>sd_active := True\<rparr>"] start assms(3)
  have "ordered {} (sd_graph s')" by (simp add: Execute_def)
  with assms(4,5) show ?thesis unfolding ordered_def deps_done_def by blast
qed

section \<open>What a step that returns has done\<close>

definition post :: "('a \<Rightarrow> 's \<Rightarrow> bool) \<Rightarrow> ('s \<Rightarrow> ('x + 'a) \<times> 's) \<Rightarrow> bool" where
  "post Q m \<longleftrightarrow> (\<forall>s x t. m s = (Inr x, t) \<longrightarrow> Q x t)"

lemma postD: "post Q m \<Longrightarrow> m s = (Inr x, t) \<Longrightarrow> Q x t"
  by (simp add: post_def)

lemma post_last: "(\<And>x. post Q (f x)) \<Longrightarrow> post Q (sbind m f)"
  by (auto simp: post_def dest!: sbind_InrD)

lemma post_kept:
  assumes "post (\<lambda>_. P) m" "\<And>x. keeps P (f x)" shows "post (\<lambda>_. P) (sbind m f)"
  unfolding post_def
proof (intro allI impI)
  fix s y t assume "sbind m f s = (Inr y, t)"
  then obtain x u where xu: "m s = (Inr x, u)" "f x u = (Inr y, t)" by (auto dest!: sbind_InrD)
  from keepsD [OF assms(2) postD [OF assms(1) xu(1)]] xu(2) show "P t" by (metis snd_conv)
qed

lemma post_throw: "post Q (sthrow e)"
  by (simp add: post_def sthrow_def)

interpretation same_status: graph_invariant "\<lambda>g. status g = c" "\<lambda>_ _. False" for c
proof unfold_locales
  fix g tid and t t' :: TaskInstance assume a: "status g = c" "tg_tasks g tid = Some t" "ti_state t' = ti_state t"
  show "status (set_task g tid t') = c"
  proof
    fix v show "status (set_task g tid t') v = c v"
      using a(1) status_task [OF a(2)] a(3) by (cases "v = tid") (simp_all add: status_set)
  qed
qed simp

interpretation one_status: graph_invariant "\<lambda>g. status g tid = st" "\<lambda>_ _. False" for tid st
  by unfold_locales (auto simp: status_set status_task)

interpretation others: graph_invariant "\<lambda>g. \<forall>v. v \<noteq> w \<longrightarrow> status g v = c v" "\<lambda>tid _. tid = w" for w c
  by unfold_locales (auto simp: status_set status_task)

lemma post_Mark: "post (\<lambda>_ s. status (sd_graph s) tid = to_st) (Mark env tid to_st job)"
proof -
  have "post (\<lambda>_ s. status (sd_graph s) tid = to_st) (on_graph (MutableTask tid (\<lambda>t. t\<lparr>ti_state := to_st\<rparr>)))"
    by (auto simp: post_def on_graph_def MutableTask_def raised_def status_set split: option.splits)
  then show ?thesis
    unfolding Mark_def by (intro post_last post_kept one_status.keeps_save)
qed

lemma Mark_status:
  assumes "Mark env tid to_st job s = (Inr (), s')"
  shows "status (sd_graph s') = (status (sd_graph s))(tid := to_st)"
proof
  fix v
  have "\<forall>v. v \<noteq> tid \<longrightarrow> status (sd_graph (snd (Mark env tid to_st job s))) v = status (sd_graph s) v"
    by (rule keepsD [OF others.keeps_Mark]) simp_all
  with assms postD [OF post_Mark assms] show "status (sd_graph s') v = ((status (sd_graph s))(tid := to_st)) v" by simp
qed

definition ends_task :: "uuid \<Rightarrow> await_end \<Rightarrow> 'e sched \<Rightarrow> bool" where
  "ends_task tid x s \<longleftrightarrow> (case x of Finished \<Rightarrow> IsTerminal (status (sd_graph s) tid)
     | Retry \<Rightarrow> status (sd_graph s) tid = Pending)"

lemma post_weaken: "post Q m \<Longrightarrow> (\<And>x s. Q x s \<Longrightarrow> R x s) \<Longrightarrow> post R m"
  by (simp add: post_def)

lemma post_and: "post Q m \<Longrightarrow> post R m \<Longrightarrow> (\<And>x s. Q x s \<Longrightarrow> R x s \<Longrightarrow> S x s) \<Longrightarrow> post S m"
  unfolding post_def by blast

lemma post_app: "(\<And>s. post Q (m s)) \<Longrightarrow> post Q (\<lambda>s. m s s)"
  by (simp add: post_def)

lemma post_ret: "post (\<lambda>_. P) m \<Longrightarrow> (\<And>s. P s \<Longrightarrow> Q x s) \<Longrightarrow> post Q (sbind m (\<lambda>_. sret x))"
  by (auto simp: post_def sret_def dest!: sbind_InrD)

lemma post_on_completed: "post (ends_task tid) (on_completed env tid job n produced)"
proof -
  have "post (\<lambda>_ s. status (sd_graph s) tid = Succeeded) (on_completed env tid job n produced)"
    unfolding on_completed_def
    by (rule post_last, rule post_last, rule post_kept [OF post_Mark])
      (intro keeps_intros one_status.keeps_record one_status.keeps_thread)
  moreover have "post (\<lambda>x s. x = Finished) (on_completed env tid job n produced)"
    unfolding on_completed_def by (intro post_last) (simp add: post_def sret_def)
  ultimately show ?thesis by (rule post_and) (simp add: ends_task_def)
qed

lemma post_on_cancelled: "post (ends_task tid) (on_cancelled env tid job n)"
proof -
  have "post (\<lambda>_ s. status (sd_graph s) tid = Cancelled) (on_cancelled env tid job n)"
    unfolding on_cancelled_def
    by (rule post_last, rule post_kept [OF post_Mark]) (intro keeps_intros one_status.keeps_record)
  moreover have "post (\<lambda>x s. x = Finished) (on_cancelled env tid job n)"
    unfolding on_cancelled_def by (intro post_last) (simp add: post_def sret_def)
  ultimately show ?thesis by (rule post_and) (simp add: ends_task_def)
qed

lemma post_if: "post Q a \<Longrightarrow> post Q b \<Longrightarrow> post Q (if c then a else b)"
  by simp

lemma post_branch:
  "post Q a \<Longrightarrow> (\<And>x. post Q (f x)) \<Longrightarrow> post Q (case opt of None \<Rightarrow> a | Some x \<Rightarrow> f x)"
  "post Q e1 \<Longrightarrow> post Q e2 \<Longrightarrow> post Q e3 \<Longrightarrow> post Q e4 \<Longrightarrow> post Q e5 \<Longrightarrow> post Q e6 \<Longrightarrow> post Q e7 \<Longrightarrow>
     post Q (case ty of EvProgress \<Rightarrow> e1 | EvLog \<Rightarrow> e2 | EvArtifactProduced \<Rightarrow> e3 | EvCompleted \<Rightarrow> e4
       | EvFailed \<Rightarrow> e5 | EvCancelled \<Rightarrow> e6 | EvHeartbeat \<Rightarrow> e7)"
  by (simp_all split: option.split WorkerEventType.split)

lemma post_on_failed: "post (ends_task tid) (on_failed env tid job n event)"
  unfolding on_failed_def
proof (rule post_last, rule post_last, rule post_if)
  show "post (ends_task tid) (sbind (Scheduler_RecordRun env t Failed [] (error_record event True) n) (\<lambda>_.
      sbind (Mark env tid Failed job) (\<lambda>_. sbind (Mark env tid Pending job) (\<lambda>_. sret Retry))))" for t
    by (rule post_last, rule post_last, rule post_ret [OF post_Mark]) (simp add: ends_task_def)
  show "post (ends_task tid) (sbind (Scheduler_RecordRun env t Failed [] (error_record event (ev_recoverable event)) n)
      (\<lambda>_. sbind (Mark env tid Failed job) (\<lambda>_. sret Finished)))" for t
    by (rule post_last, rule post_ret [OF post_Mark]) (simp add: ends_task_def)
qed

lemma post_await: "post (ends_task tid) (await env tid job n fuel missed produced)"
proof (induction fuel arbitrary: missed produced)
  case (Suc fuel)
  show ?case
    unfolding await.simps
    by (rule post_last, intro post_branch post_if Suc post_on_completed post_on_failed post_on_cancelled)
qed (simp add: post_throw)

lemma post_dispatch: "post (\<lambda>_ s. IsTerminal (status (sd_graph s) tid)) (dispatch env tid waits attempts)"
proof (induction attempts)
  case (Suc attempts)
  have last: "post (\<lambda>_ s. IsTerminal (status (sd_graph s) tid)) (sbind (await env tid job n waits 0 [])
      (\<lambda>ended. case ended of Finished \<Rightarrow> sret () | Retry \<Rightarrow> dispatch env tid waits attempts))" for job n
    unfolding post_def
  proof (intro allI impI)
    fix s y t
    assume "sbind (await env tid job n waits 0 [])
      (\<lambda>ended. case ended of Finished \<Rightarrow> sret () | Retry \<Rightarrow> dispatch env tid waits attempts) s = (Inr y, t)"
    then obtain x u where "await env tid job n waits 0 [] s = (Inr x, u)"
      "(case x of Finished \<Rightarrow> sret () | Retry \<Rightarrow> dispatch env tid waits attempts) u = (Inr y, t)"
      by (auto dest!: sbind_InrD)
    with postD [OF post_await this(1)] postD [OF Suc] show "IsTerminal (status (sd_graph t) tid)"
      by (cases x) (auto simp: ends_task_def sret_def)
  qed
  show ?case
    unfolding dispatch.simps Let_def
    by (rule post_app, rule post_last, rule post_last, rule post_last, rule post_last, rule post_last, rule last)
qed (simp add: post_throw)

lemma post_TryCacheHit: "post (\<lambda>hit s. hit \<longrightarrow> status (sd_graph s) tid = Succeeded) (TryCacheHit env tid)"
proof -
  let ?Q = "\<lambda>hit (s :: 'a sched). hit \<longrightarrow> status (sd_graph s) tid = Succeeded"
  have hit: "post ?Q (sbind (Mark env tid Running j) (\<lambda>_.
      sbind (read_graph (\<lambda>g. Require g tid)) (\<lambda>t.
      sbind (on_graph (MutableTask tid (\<lambda>t. t\<lparr>ti_outputs := [ref]\<rparr>))) (\<lambda>_.
      sbind (Mark env tid Succeeded j) (\<lambda>_.
      sbind (ThreadOutputsToDependents tid (ti_outputs t) [ref]) (\<lambda>_. sret True))))))" for j ref
    by (rule post_last, rule post_last, rule post_last,
        rule post_weaken [OF post_kept [OF post_Mark]], intro keeps_intros one_status.keeps_thread) simp
  have miss: "post ?Q (sret False)" by (simp add: post_def sret_def)
  show ?thesis
    unfolding TryCacheHit_def
  proof (rule post_last, rule post_last)
    fix t entry
    show "post ?Q (case entry of None \<Rightarrow> sret False | Some e \<Rightarrow>
        sbind (on_world (ResolveOutput (se_lib env) e)) (\<lambda>found. case found of
          None \<Rightarrow> sbind (on_world (Invalidate (ce_cache_key e))) (\<lambda>_. sret False)
        | Some ref \<Rightarrow> (\<lambda>s. sbind (Mark env tid Running (tg_job_id (sd_graph s))) (\<lambda>_.
            sbind (read_graph (\<lambda>g. Require g tid)) (\<lambda>t.
            sbind (on_graph (MutableTask tid (\<lambda>t. t\<lparr>ti_outputs := [ref]\<rparr>))) (\<lambda>_.
            sbind (Mark env tid Succeeded (tg_job_id (sd_graph s))) (\<lambda>_.
            sbind (ThreadOutputsToDependents tid (ti_outputs t) [ref]) (\<lambda>_. sret True))))) s)))"
    proof (cases entry)
      case (Some e)
      have "post ?Q (case found of
          None \<Rightarrow> sbind (on_world (Invalidate (ce_cache_key e))) (\<lambda>_. sret False)
        | Some ref \<Rightarrow> (\<lambda>s. sbind (Mark env tid Running (tg_job_id (sd_graph s))) (\<lambda>_.
            sbind (read_graph (\<lambda>g. Require g tid)) (\<lambda>t.
            sbind (on_graph (MutableTask tid (\<lambda>t. t\<lparr>ti_outputs := [ref]\<rparr>))) (\<lambda>_.
            sbind (Mark env tid Succeeded (tg_job_id (sd_graph s))) (\<lambda>_.
            sbind (ThreadOutputsToDependents tid (ti_outputs t) [ref]) (\<lambda>_. sret True))))) s))" for found
      proof (cases found)
        case None
        then show ?thesis using post_last [of ?Q "\<lambda>_. sret False"] miss by simp
      next
        case (Some ref)
        then show ?thesis using postD [OF hit] by (simp add: post_def)
      qed
      with Some show ?thesis by (simp add: post_last)
    qed (simp add: miss)
  qed
qed

text \<open>A ready task that was handled is terminal, and no other task's state was touched.\<close>

lemma run_ready_ends:
  assumes "run_ready env fuel tid s = (Inr (), s')"
  shows "IsTerminal (status (sd_graph s') tid)" "v \<noteq> tid \<Longrightarrow> status (sd_graph s') v = status (sd_graph s) v"
proof -
  from assms obtain hit u where h: "TryCacheHit env tid s = (Inr hit, u)"
    "(if hit then sret () else DispatchAndAwait env fuel tid) u = (Inr (), s')"
    by (auto simp: run_ready_def dest!: sbind_InrD)
  show "IsTerminal (status (sd_graph s') tid)"
    using postD [OF post_TryCacheHit h(1)] postD [OF post_dispatch, of env tid fuel fuel u "()" s'] h(2)
    by (cases hit) (auto simp: sret_def DispatchAndAwait_def)
  have "\<forall>v. v \<noteq> tid \<longrightarrow> status (sd_graph (snd (run_ready env fuel tid s))) v = status (sd_graph s) v"
    by (rule keepsD [OF others.keeps_run_ready]) simp_all
  with assms show "v \<noteq> tid \<Longrightarrow> status (sd_graph s') v = status (sd_graph s) v" by simp
qed

section \<open>A run that returns has brought every task to an end\<close>

definition open_tasks :: "uuid list \<Rightarrow> TaskGraph \<Rightarrow> nat" where
  "open_tasks ids g = length (filter (\<lambda>v. \<not> IsTerminal (status g v)) ids)"

text \<open>The states after a step: a task is as before, or it was open and is terminal now.\<close>

definition closes :: "TaskGraph \<Rightarrow> TaskGraph \<Rightarrow> bool" where
  "closes g g' \<longleftrightarrow> tg_order g' = tg_order g \<and>
     (\<forall>v. status g' v = status g v \<or> \<not> IsTerminal (status g v) \<and> IsTerminal (status g' v))"

lemma closes_refl: "closes g g" and closes_trans: "closes a b \<Longrightarrow> closes b c \<Longrightarrow> closes a c"
  unfolding closes_def by (simp, metis)

lemma closes_open: "closes g g' \<Longrightarrow> open_tasks ids g' \<le> open_tasks ids g"
  unfolding open_tasks_def closes_def by (induction ids) (auto split: if_splits, metis)

lemma closes_open_less:
  assumes "closes g g'" "v \<in> set ids" "\<not> IsTerminal (status g v)" "IsTerminal (status g' v)"
  shows "open_tasks ids g' < open_tasks ids g"
proof -
  from assms(2) obtain xs ys where ids: "ids = xs @ v # ys" by (auto dest: split_list)
  have "open_tasks xs g' \<le> open_tasks xs g" "open_tasks ys g' \<le> open_tasks ys g"
    using closes_open [OF assms(1)] by simp_all
  with assms(3,4) show ?thesis by (simp add: ids open_tasks_def)
qed

lemma moved_order: "graph_wf (sd_graph s) \<Longrightarrow> keeps (\<lambda>s'. moved (sd_graph s) (sd_graph s')) m \<Longrightarrow>
    graph_wf (sd_graph (snd (m s))) \<and> tg_order (sd_graph (snd (m s))) = tg_order (sd_graph s)"
  using keepsD [of "\<lambda>s'. moved (sd_graph s) (sd_graph s')" m s] moved_refl [of "sd_graph s"] by (simp add: moved_def)

text \<open>\<open>PropagateFailures\<close> closes pending tasks, and tells whether it closed one.\<close>

lemma propagate_closes:
  "graph_wf (sd_graph s) \<Longrightarrow> propagate env ids p s = (Inr b, s') \<Longrightarrow> closes (sd_graph s) (sd_graph s') \<and>
     (b \<longrightarrow> p \<or> (\<exists>v\<in>set ids. status (sd_graph s) v = Pending \<and> IsTerminal (status (sd_graph s') v))) \<and>
     (\<not> b \<longrightarrow> sd_graph s' = sd_graph s \<and> (\<forall>v\<in>set ids. status (sd_graph s) v = Pending \<longrightarrow>
        (\<exists>ds. DependenciesOf (sd_graph s) v = Inr ds \<and> dep_failed (sd_graph s) ds = Inr False)))"
proof (induction ids arbitrary: p s)
  case Nil
  then show ?case by (auto simp: sret_def closes_refl)
next
  case (Cons v ids)
  from Cons.prems(2) obtain t where t: "tg_tasks (sd_graph s) v = Some t"
    by (auto simp: read_graph_def raised_def GetTask_Inr split: sum.splits dest!: sbind_InrD)
  have st: "status (sd_graph s) v = ti_state t" using t by (rule status_task)
  have get: "read_graph (\<lambda>g. GetTask g v) s = (Inr t, s)" using t by (simp add: read_graph_def raised_def GetTask_def Require_def)
  note run = Cons.prems(2) [unfolded propagate.simps, unfolded sbind_def [of "read_graph (\<lambda>g. GetTask g v)"] get, simplified]
  show ?case
  proof (cases "ti_state t = Pending")
    case False
    with run have "propagate env ids p s = (Inr b, s')" by simp
    from Cons.IH [OF Cons.prems(1) this] False st show ?thesis by auto
  next
    case True
    with run obtain failed where f: "rbind (DependenciesOf (sd_graph s) v) (dep_failed (sd_graph s)) = Inr failed"
      and run2: "(if failed then sbind (Mark env v (if md_failure (ti_metadata t) = PolFailed then Failed else Skipped)
          (tg_job_id (sd_graph s))) (\<lambda>_. propagate env ids True) s
        else propagate env ids p s) = (Inr b, s')"
      by (auto simp: read_graph_def raised_def split: sum.splits if_splits dest!: sbind_InrD)
    show ?thesis
    proof (cases failed)
      case False
      with run2 have "propagate env ids p s = (Inr b, s')" by simp
      from Cons.IH [OF Cons.prems(1) this] f False show ?thesis by (auto simp: rbind_Inr)
    next
      case failed: True
      define to_st where "to_st = (if md_failure (ti_metadata t) = PolFailed then Failed else Skipped)"
      have terminal: "IsTerminal to_st" by (simp add: to_st_def)
      from run2 failed obtain u where u: "Mark env v to_st (tg_job_id (sd_graph s)) s = (Inr (), u)"
        "propagate env ids True u = (Inr b, s')" by (auto simp: to_st_def dest!: sbind_InrD)
      have su: "status (sd_graph u) = (status (sd_graph s))(v := to_st)" by (rule Mark_status [OF u(1)])
      have wf: "graph_wf (sd_graph u)" "tg_order (sd_graph u) = tg_order (sd_graph s)"
        using moved_order [OF Cons.prems(1) life_cycle.keeps_Mark, of env v to_st "tg_job_id (sd_graph s)"] u(1) by simp_all
      have c: "closes (sd_graph s) (sd_graph u)" using st True terminal wf(2) by (simp add: closes_def su)
      note ih = Cons.IH [OF wf(1) u(2)]
      have "IsTerminal (status (sd_graph u) v)" by (simp add: su terminal)
      with ih have end_v: "IsTerminal (status (sd_graph s') v)" unfolding closes_def by metis
      have "b"
      proof (rule ccontr)
        assume "\<not> b"
        have "propagate env js True w = (Inr c, w') \<Longrightarrow> c" for js w w' c
          by (induction js arbitrary: w) (auto simp: sret_def split: if_splits dest!: sbind_InrD)
        with u(2) \<open>\<not> b\<close> show False by blast
      qed
      with closes_trans [OF c] ih end_v st True show ?thesis by auto
    qed
  qed
qed

lemma all_terminal_Inr: "all_terminal g ids = Inr b \<Longrightarrow> b \<longleftrightarrow> (\<forall>v\<in>set ids. IsTerminal (status g v))"
proof (induction ids)
  case (Cons v ids)
  then obtain t where t: "tg_tasks g v = Some t" by (auto simp: rbind_Inr GetTask_Inr)
  with Cons show ?case by (auto simp: rbind_Inr GetTask_Inr status_task split: if_splits)
qed simp

lemma run_ready_all:
  "for_each (run_ready env fuel) ready s = (Inr (), s') \<Longrightarrow>
     (\<forall>v. (v \<in> set ready \<longrightarrow> IsTerminal (status (sd_graph s') v)) \<and>
       (v \<notin> set ready \<longrightarrow> status (sd_graph s') v = status (sd_graph s) v))"
proof (induction ready arbitrary: s)
  case (Cons x ready)
  from Cons.prems obtain u where u: "run_ready env fuel x s = (Inr (), u)" "for_each (run_ready env fuel) ready u = (Inr (), s')"
    by (auto split: prod.splits sum.splits)
  have "IsTerminal (status (sd_graph s') x)"
    using Cons.IH [OF u(2)] run_ready_ends(1) [OF u(1)] by (cases "x \<in> set ready") simp_all
  with Cons.IH [OF u(2)] run_ready_ends(2) [OF u(1)] show ?case by simp
qed simp

lemma keeps_moved_ready: "keeps (\<lambda>s. moved g (sd_graph s)) (for_each (run_ready env fuel) ready)"
  by (intro keeps_intros life_cycle.keeps_run_ready) simp

text \<open>One iteration that does not end the loop closes at least one task.\<close>

lemma iteration_closes:
  assumes "graph_wf (sd_graph s)" "PropagateFailures env s = (Inr progressed, s1)"
    "ReadyTasks (sd_graph s1) = Inr ready" "for_each (run_ready env fuel) ready s1 = (Inr (), s2)"
    "progressed \<or> ready \<noteq> []"
  shows "graph_wf (sd_graph s2) \<and> tg_order (sd_graph s2) = tg_order (sd_graph s) \<and>
    open_tasks (tg_order (sd_graph s)) (sd_graph s2) < open_tasks (tg_order (sd_graph s)) (sd_graph s)"
proof -
  let ?o = "tg_order (sd_graph s)"
  from propagate_closes [OF assms(1)] assms(2) have
    p: "closes (sd_graph s) (sd_graph s1)"
      "progressed \<Longrightarrow> \<exists>v\<in>set ?o. status (sd_graph s) v = Pending \<and> IsTerminal (status (sd_graph s1) v)"
    unfolding PropagateFailures_def by blast+
  have wf1: "graph_wf (sd_graph s1)" "tg_order (sd_graph s1) = ?o"
    using moved_order [OF assms(1) life_cycle.keeps_PropagateFailures, of env] assms(2) by simp_all
  have wf2: "graph_wf (sd_graph s2)" "tg_order (sd_graph s2) = ?o"
    using moved_order [OF wf1(1) keeps_moved_ready, of env fuel ready] assms(4) wf1(2) by simp_all
  have ready: "v \<in> set ?o \<and> status (sd_graph s1) v = Pending" if "v \<in> set ready" for v
    using ready_of_done [OF assms(3) [unfolded ReadyTasks_def] that] wf1(2) by simp
  have pending: "\<not> IsTerminal (status (sd_graph s1) v)" if "v \<in> set ready" for v using ready [OF that] by simp
  have c: "closes (sd_graph s1) (sd_graph s2)"
    using run_ready_all [OF assms(4)] pending wf1(2) wf2(2) unfolding closes_def by metis
  have "open_tasks ?o (sd_graph s2) < open_tasks ?o (sd_graph s)"
  proof (cases progressed)
    case True
    with p(2) obtain v where v: "v \<in> set ?o" "status (sd_graph s) v = Pending" "IsTerminal (status (sd_graph s1) v)" by blast
    from closes_open_less [OF p(1) v(1) _ v(3)] v(2) closes_open [OF c, of ?o] show ?thesis by simp
  next
    case False
    with assms(5) obtain v where v: "v \<in> set ready" by (cases ready) auto
    with run_ready_all [OF assms(4)] have "IsTerminal (status (sd_graph s2) v)" by blast
    from closes_open_less [OF c _ pending [OF v] this] ready [OF v] closes_open [OF p(1), of ?o]
    show ?thesis by (meson order.strict_trans2)
  qed
  with wf2 show ?thesis by simp
qed

lemma execute_loop_ends:
  "graph_wf (sd_graph s) \<Longrightarrow> open_tasks (tg_order (sd_graph s)) (sd_graph s) \<le> n \<Longrightarrow>
     execute_loop env fuel n s = (Inr (), s') \<Longrightarrow> \<forall>v\<in>set (tg_order (sd_graph s')). IsTerminal (status (sd_graph s') v)"
proof (induction n arbitrary: s)
  case 0
  then show ?case by (auto simp: sret_def open_tasks_def filter_empty_conv)
next
  case (Suc n)
  from Suc.prems(3) obtain progressed s1 finished where
    p: "PropagateFailures env s = (Inr progressed, s1)" "AllTerminal (sd_graph s1) = Inr finished"
    and k: "(if finished then sret () else sbind (read_graph ReadyTasks) (\<lambda>ready.
         sbind (for_each (run_ready env fuel) ready) (\<lambda>_.
           if \<not> progressed \<and> ready = [] then sthrow (Raised stalled) else execute_loop env fuel n))) s1 = (Inr (), s')"
    by (auto simp: read_graph_def raised_def split: sum.splits dest!: sbind_InrD)
  show ?case
  proof (cases finished)
    case True
    with k have "s' = s1" by (simp add: sret_def)
    with p(2) True show ?thesis by (auto simp: AllTerminal_def dest: all_terminal_Inr)
  next
    case False
    with k obtain ready s2 where r: "ReadyTasks (sd_graph s1) = Inr ready"
      "for_each (run_ready env fuel) ready s1 = (Inr (), s2)" "progressed \<or> ready \<noteq> []"
      "execute_loop env fuel n s2 = (Inr (), s')"
      by (auto simp: read_graph_def raised_def sthrow_def split: sum.splits if_splits dest!: sbind_InrD)
    from iteration_closes [OF Suc.prems(1) p(1) r(1-3)] Suc.prems(2) Suc.IH [OF _ _ r(4)] show ?thesis by simp
  qed
qed

text \<open>
  C2: when \<open>Execute\<close> returns on a well-formed graph of at most 10000 tasks, every task is terminal: the
  iteration limit never ends a run early.
\<close>

theorem Execute_finishes_all:
  assumes "graph_wf (sd_graph s)" "length (tg_order (sd_graph s)) \<le> 10000" "Execute env fuel s = (Inr (), s')"
  shows "(\<forall>v\<in>set (tg_order (sd_graph s)). IsTerminal (status (sd_graph s') v)) \<and> \<not> sd_active s'"
proof -
  from assms(3) obtain u where u: "execute_loop env fuel 10000 (s\<lparr>sd_active := True\<rparr>) = (Inr (), u)"
    "s' = u\<lparr>sd_active := False\<rparr>" by (auto simp: Execute_def dest!: sbind_InrD)
  have "open_tasks (tg_order (sd_graph s)) (sd_graph s) \<le> 10000"
    using assms(2) length_filter_le order_trans unfolding open_tasks_def by blast
  with execute_loop_ends [OF _ _ u(1)] assms(1) have "\<forall>v\<in>set (tg_order (sd_graph u)). IsTerminal (status (sd_graph u) v)"
    by simp
  moreover have "tg_order (sd_graph u) = tg_order (sd_graph s)"
    using moved_order [of "s\<lparr>sd_active := True\<rparr>" "execute_loop env fuel 10000", OF _ life_cycle.keeps_execute_loop] assms(1) u(1)
    by simp
  ultimately show ?thesis using u(2) by simp
qed

section \<open>The scheduler does not stall\<close>

lemma dep_failed_False: "dep_failed g ds = Inr False \<Longrightarrow> d \<in> set ds \<Longrightarrow> IsTerminal (status g d) \<Longrightarrow> status g d = Succeeded"
  by (induction ds) (auto simp: rbind_Inr GetTask_Inr status_task split: if_splits)

lemma ready_of_complete:
  assumes "ready_of g ids = Inr ready" "v \<in> set ids" "status g v = Pending" "deps_done g v"
  shows "v \<in> set ready"
  using assms
proof (induction ids arbitrary: ready)
  case (Cons x ids)
  from Cons.prems(1) obtain t where t: "tg_tasks g x = Some t" by (auto simp: rbind_Inr GetTask_Inr)
  show ?case
  proof (cases "ti_state t = Pending")
    case False
    with Cons t show ?thesis by (auto simp: rbind_Inr GetTask_Inr status_task)
  next
    case True
    with Cons.prems(1) t obtain ds ok ready' where
      r: "DependenciesOf g x = Inr ds" "deps_succeeded g ds = Inr ok" "ready_of g ids = Inr ready'"
        "ready = (if ok then x # ready' else ready')"
      by (auto simp: rbind_Inr GetTask_Inr)
    have complete: "deps_succeeded g es = Inr b \<Longrightarrow> (\<forall>d\<in>set es. status g d = Succeeded) \<Longrightarrow> b" for es b
      by (induction es) (auto simp: rbind_Inr GetTask_Inr status_task split: if_splits)
    show ?thesis
    proof (cases "v = x")
      case True
      with Cons.prems(4) DependenciesOf_Inr [OF r(1)] complete [OF r(2)] have "ok" by (auto simp: deps_done_def)
      with True r(4) show ?thesis by simp
    next
      case False
      with Cons.IH [OF r(3)] Cons.prems r(4) show ?thesis by auto
    qed
  qed
qed simp

text \<open>
  On an acyclic graph without running tasks, when failure propagation changes nothing and not every
  task is terminal, some task is ready: the "scheduler stalled" error cannot occur.
\<close>

theorem no_stall:
  assumes "graph_wf (sd_graph s)" "TopologicalOrder (sd_graph s) = Inr topo" "\<forall>v. status (sd_graph s) v \<noteq> Running"
    "PropagateFailures env s = (Inr False, s')" "AllTerminal (sd_graph s') = Inr False" "ReadyTasks (sd_graph s') = Inr ready"
  shows "ready \<noteq> []"
proof -
  let ?g = "sd_graph s"
  from propagate_closes [OF assms(1)] assms(4) have g: "sd_graph s' = ?g"
    and nofail: "\<And>v. v \<in> set (tg_order ?g) \<Longrightarrow> status ?g v = Pending \<Longrightarrow>
      \<exists>ds. DependenciesOf ?g v = Inr ds \<and> dep_failed ?g ds = Inr False"
    unfolding PropagateFailures_def by blast+
  from topo_correct [OF assms(1)] assms(2) have topo: "set topo = set (tg_order ?g)" "deps_first ?g topo" by auto
  define openv where "openv v \<longleftrightarrow> \<not> IsTerminal (status ?g v)" for v
  from assms(5) have "\<exists>v\<in>set topo. openv v"
    using all_terminal_Inr [of ?g "tg_order ?g" False] by (auto simp: AllTerminal_def g openv_def topo(1))
  then obtain xs v ys where split: "topo = xs @ v # ys" "openv v" "\<forall>x\<in>set xs. \<not> openv x"
    using split_list_first_prop [of topo openv] by blast
  have pending: "status ?g v = Pending"
    using split(2) assms(3) by (cases "status ?g v") (auto simp: openv_def)
  have v: "v \<in> set (tg_order ?g)" using split(1) topo(1) by auto
  from nofail [OF v pending] obtain ds where ds: "DependenciesOf ?g v = Inr ds" "dep_failed ?g ds = Inr False" by blast
  have "set ds \<subseteq> set xs" using topo(2) split(1) DependenciesOf_Inr [OF ds(1)] by (auto simp: deps_first_def depends_def)
  then have "deps_done ?g v"
    using DependenciesOf_Inr [OF ds(1)] dep_failed_False [OF ds(2)] split(3) by (auto simp: deps_done_def openv_def)
  with ready_of_complete [OF _ v pending] assms(6) show ?thesis by (auto simp: ReadyTasks_def g)
qed

section \<open>Examples\<close>

definition demo_env :: "paced sched_env" where
  "demo_env = \<lparr>se_lib = reference_json, se_cache = demo_cache, se_executor = in_process_executor demo_executor,
     se_environment = \<lparr>se_engine_version = ''0.1'', se_git_commit = ''g'', se_protocol_version = ''1''\<rparr>\<rparr>"

definition demo_sched :: "TaskGraph \<Rightarrow> paced sched" where
  "demo_sched g = \<lparr>sd_graph = g, sd_world = empty_world,
     sd_exec = \<lparr>pc_exec = demo_executor, pc_pace = (\<lambda>_. 3), pc_waits = 0\<rparr>, sd_pipeline_hash = [], sd_active = False\<rparr>"

text \<open>The demo graph in given states: its second task depends on the first.\<close>

definition demo_states :: "TaskStatus \<Rightarrow> TaskStatus \<Rightarrow> TaskGraph" where
  "demo_states a b = snd (MutableTask (demo_id 1) (\<lambda>t. t\<lparr>ti_state := a\<rparr>)
     (snd (MutableTask (demo_id 2) (\<lambda>t. t\<lparr>ti_state := b\<rparr>) demo_graph)))"

lemma demo_states_wf: "graph_wf (demo_states a b)"
  unfolding demo_states_def by (intro graph_wf_MutableTask demo_graph_wf) simp_all

lemma demo_graph_tasks: "tg_tasks demo_graph = [demo_id 1 \<mapsto> demo_task 1 [''raw''] [''mid''], demo_id 2 \<mapsto> demo_task 2 [''mid''] [''end'']]"
  by (simp add: demo_graph_def AddTask_def Let_def demo_task_def demo_id_def IsNil_def AddDependency_def Require_def new_graph_def nil_uuid_def)

lemma demo_status: "status (demo_states a b) v = (if v = demo_id 1 then a else if v = demo_id 2 then b else Pending)"
  by (simp add: demo_states_def MutableTask_def demo_graph_tasks status_def task_of_def default_task_def demo_id_def)

lemma demo_depends: "depends (demo_states a b) v d \<longleftrightarrow> v = demo_id 2 \<and> d = demo_id 1"
proof -
  have "tg_dependencies demo_graph = [demo_id 1 \<mapsto> [], demo_id 2 \<mapsto> [demo_id 1]]"
    by (simp add: demo_graph_def AddTask_def Let_def demo_task_def demo_id_def IsNil_def AddDependency_def Require_def
        new_graph_def nil_uuid_def vec_at_def fun_upd_twist)
  then show ?thesis
    by (auto simp: depends_def demo_states_def MutableTask_def demo_graph_tasks vec_at_def demo_id_def split: option.split)
qed

lemma no_stall_witness:
  "\<exists>ready. ReadyTasks (demo_states Succeeded Pending) = Inr ready \<and> ready \<noteq> []"
proof -
  let ?s = "demo_sched (demo_states Succeeded Pending)"
  have "TopologicalOrder (sd_graph ?s) = Inr [demo_id 1, demo_id 2]" by code_simp
  moreover have p: "fst (PropagateFailures demo_env ?s) = Inr False" by code_simp
  moreover have "AllTerminal (sd_graph (snd (PropagateFailures demo_env ?s))) = Inr False" by code_simp
  moreover have r: "ReadyTasks (sd_graph (snd (PropagateFailures demo_env ?s))) = Inr [demo_id 2]"
    "ReadyTasks (demo_states Succeeded Pending) = Inr [demo_id 2]" by code_simp+
  moreover have "graph_wf (sd_graph ?s)" "\<forall>v. status (sd_graph ?s) v \<noteq> Running"
    by (simp_all add: demo_sched_def demo_states_wf demo_status)
  ultimately have "[demo_id 2] \<noteq> []"
    using no_stall [of ?s _ demo_env "snd (PropagateFailures demo_env ?s)" "[demo_id 2]"] by (simp add: prod_eq_iff)
  with r(2) show ?thesis by blast
qed

lemma Execute_respects_dependencies_witness:
  "status (sd_graph (snd (Execute demo_env 5 (demo_sched (demo_states Succeeded Succeeded))))) (demo_id 1) = Succeeded"
proof (rule Execute_respects_dependencies)
  let ?s = "demo_sched (demo_states Succeeded Succeeded)"
  show "\<forall>v. status (sd_graph ?s) v \<noteq> Running"
    "\<forall>v d. status (sd_graph ?s) v = Succeeded \<longrightarrow> depends (sd_graph ?s) v d \<longrightarrow> status (sd_graph ?s) d = Succeeded"
    by (simp_all add: demo_sched_def demo_status demo_depends)
  show "Execute demo_env 5 ?s = (fst (Execute demo_env 5 ?s), snd (Execute demo_env 5 ?s))" by simp
  show "depends (sd_graph (snd (Execute demo_env 5 ?s))) (demo_id 2) (demo_id 1)" by code_simp
  show "status (sd_graph (snd (Execute demo_env 5 ?s))) (demo_id 2) = Running \<or>
     status (sd_graph (snd (Execute demo_env 5 ?s))) (demo_id 2) = Succeeded" by code_simp
qed

lemma Execute_finishes_all_witness:
  "\<exists>s'. Execute demo_env 5 (demo_sched (demo_states Succeeded Skipped)) = (Inr (), s') \<and> \<not> sd_active s'"
proof -
  let ?s = "demo_sched (demo_states Succeeded Skipped)"
  have "fst (Execute demo_env 5 ?s) = Inr ()" by code_simp
  then have "Execute demo_env 5 ?s = (Inr (), snd (Execute demo_env 5 ?s))" by (simp add: prod_eq_iff)
  moreover have "length (tg_order (sd_graph ?s)) \<le> 10000" by code_simp
  ultimately show ?thesis using Execute_finishes_all [of ?s demo_env 5] by (auto simp: demo_sched_def demo_states_wf)
qed

end
