(* ===== verification/ProtocolFraming.thy ===== *)
theory ProtocolFraming
  imports Worker
begin

text \<open>
  engine/workers/protocol_framing.cpp: frames of a little-endian length and that many bytes over a child
  process's pipes. The child's stdout is the sequence of what reads will find: bytes in any
  splitting, a silence that a timed read gives up on, and the end of the stream. The lemmas show that frames
  are read back whatever the splitting, how long a silent child is waited for, and what a timeout in
  the middle of a frame does to the frames after it.
\<close>

section \<open>The child process\<close>

datatype chunk = Data "byte list" | Silence

record child =
  ch_out :: "chunk list"
  ch_in :: "byte list"
  ch_writes :: nat
  ch_write_fails :: "nat \<Rightarrow> bool"

datatype read = Got "byte list" | TimedOut | Eof

text \<open>\<open>ChildProcess::Write\<close>; a broken pipe loses the bytes.\<close>

definition Write :: "byte list \<Rightarrow> child \<Rightarrow> bool \<times> child" where
  "Write bytes c =
     (if ch_write_fails c (ch_writes c) then (False, c\<lparr>ch_writes := Suc (ch_writes c)\<rparr>)
      else (True, c\<lparr>ch_writes := Suc (ch_writes c), ch_in := ch_in c @ bytes\<rparr>))"

text \<open>\<open>ChildProcess::ReadStdout\<close>: at most \<open>want\<close> bytes of what is there.\<close>

definition ReadStdout :: "nat \<Rightarrow> child \<Rightarrow> read \<times> child" where
  "ReadStdout want c =
     (case ch_out c of
        [] \<Rightarrow> (Eof, c)
      | Silence # cs \<Rightarrow> (TimedOut, c\<lparr>ch_out := cs\<rparr>)
      | Data bs # cs \<Rightarrow>
          (Got (take want bs), c\<lparr>ch_out := (if want < length bs then Data (drop want bs) # cs else cs)\<rparr>))"

definition out_size :: "child \<Rightarrow> nat" where
  "out_size c = sum_list (map (\<lambda>k. case k of Data bs \<Rightarrow> Suc (length bs) | Silence \<Rightarrow> 1) (ch_out c))"

lemma ReadStdout_less: "ReadStdout want c = (r, c') \<Longrightarrow> r \<noteq> Eof \<Longrightarrow> 0 < want \<Longrightarrow> out_size c' < out_size c"
  by (auto simp: ReadStdout_def out_size_def split: list.splits chunk.splits if_splits)

section \<open>Reading\<close>

definition kMaxFrameSize :: u32 where
  "kMaxFrameSize = push_bit 26 1"

definition slice :: "int \<Rightarrow> int" where
  "slice timeout_ms = (if timeout_ms > 0 then timeout_ms div 2 + 1 else 1)"

definition less_time :: "int \<Rightarrow> int" where
  "less_time timeout_ms = (if timeout_ms - slice timeout_ms < 0 then 0 else timeout_ms - slice timeout_ms)"

text \<open>\<open>Inl eof\<close> is the failure; what was read before it is gone.\<close>

function ReadExact :: "nat \<Rightarrow> int \<Rightarrow> byte list \<Rightarrow> child \<Rightarrow> (bool + byte list) \<times> child" where
  "ReadExact len timeout_ms got c =
     (if len \<le> length got then (Inr got, c)
      else case ReadStdout (len - length got) c of
        (Got bs, c') \<Rightarrow> ReadExact len timeout_ms (got @ bs) c'
      | (Eof, c') \<Rightarrow> (Inl True, c')
      | (TimedOut, c') \<Rightarrow>
          if timeout_ms \<le> 0 then (Inl False, c') else ReadExact len (less_time timeout_ms) got c')"
  by pat_completeness auto
termination
  by (relation "measure (\<lambda>(_, _, _, c). out_size c)") (auto dest!: ReadStdout_less [OF sym])

declare ReadExact.simps [simp del]

definition length_prefix :: "nat \<Rightarrow> byte list" where
  "length_prefix n = (let l = of_nat n :: u32 in
     [ucast (l AND 0xFF), ucast (drop_bit 8 l AND 0xFF), ucast (drop_bit 16 l AND 0xFF), ucast (drop_bit 24 l AND 0xFF)])"

definition prefix_length :: "byte list \<Rightarrow> u32" where
  "prefix_length p = ucast (p ! 0) OR push_bit 8 (ucast (p ! 1)) OR push_bit 16 (ucast (p ! 2)) OR push_bit 24 (ucast (p ! 3))"

definition fits_frame :: "byte list \<Rightarrow> bool" where
  "fits_frame m \<longleftrightarrow> int (length m) \<le> uint kMaxFrameSize"

definition frame_bytes :: "byte list \<Rightarrow> byte list" where
  "frame_bytes m = length_prefix (length m) @ m"

text \<open>\<open>WriteFrame\<close> of the serialized message.\<close>

definition WriteFrame :: "byte list \<Rightarrow> child \<Rightarrow> bool \<times> child" where
  "WriteFrame m c = (if \<not> fits_frame m then (False, c) else Write (frame_bytes m) c)"

definition ReadFrame :: "int \<Rightarrow> child \<Rightarrow> (bool + byte list) \<times> child" where
  "ReadFrame timeout_ms c =
     (case ReadExact 4 timeout_ms [] c of
        (Inl eof, c') \<Rightarrow> (Inl eof, c')
      | (Inr head4, c') \<Rightarrow>
          let len = prefix_length head4 in
          if kMaxFrameSize < len then (Inl False, c')
          else if len = 0 then (Inr [], c')
          else ReadExact (unat len) timeout_ms [] c')"

section \<open>Lengths survive the wire\<close>

lemma length_length_prefix [simp]: "length (length_prefix n) = 4"
  by (simp add: length_prefix_def Let_def)

lemma word_from_bytes:
  fixes l :: u32
  shows "(ucast (ucast (l AND 0xFF) :: byte) :: u32) OR push_bit 8 (ucast (ucast (drop_bit 8 l AND 0xFF) :: byte))
    OR push_bit 16 (ucast (ucast (drop_bit 16 l AND 0xFF) :: byte)) OR push_bit 24 (ucast (ucast (drop_bit 24 l AND 0xFF) :: byte)) = l"
proof (rule bit_word_eqI)
  fix n assume "n < LENGTH(32)"
  then have n: "n < 32" by simp
  have mask: "(0xFF :: u32) = mask 8" by (simp add: mask_eq_exp_minus_1)
  consider "n < 8" | "8 \<le> n \<and> n < 16" | "16 \<le> n \<and> n < 24" | "24 \<le> n" by linarith
  then show "bit ((ucast (ucast (l AND 0xFF) :: byte) :: u32) OR push_bit 8 (ucast (ucast (drop_bit 8 l AND 0xFF) :: byte))
    OR push_bit 16 (ucast (ucast (drop_bit 16 l AND 0xFF) :: byte)) OR push_bit 24 (ucast (ucast (drop_bit 24 l AND 0xFF) :: byte))) n = bit l n"
    using n unfolding mask
    by cases (auto simp: bit_simps)
qed

lemma prefix_length_prefix: "prefix_length (length_prefix n) = of_nat n"
  by (simp add: prefix_length_def length_prefix_def Let_def word_from_bytes)

lemma fits_frame_length:
  assumes "fits_frame m"
  shows "unat (of_nat (length m) :: u32) = length m" "\<not> kMaxFrameSize < of_nat (length m)"
proof -
  have k: "uint kMaxFrameSize = 2 ^ 26" by (simp add: kMaxFrameSize_def)
  with assms have "length m \<le> 2 ^ 26" by (simp add: fits_frame_def)
  then show u: "unat (of_nat (length m) :: u32) = length m" by (simp add: unat_of_nat)
  then have "uint (of_nat (length m) :: u32) = int (length m)" by (metis uint_nat)
  with assms k show "\<not> kMaxFrameSize < of_nat (length m)" by (simp add: word_less_def fits_frame_def)
qed

section \<open>Reading back what was written\<close>

definition stream :: "child \<Rightarrow> byte list" where
  "stream c = concat (map (\<lambda>k. case k of Data bs \<Rightarrow> bs | Silence \<Rightarrow> []) (ch_out c))"

definition silences :: "child \<Rightarrow> nat" where
  "silences c = length (filter (\<lambda>k. k = Silence) (ch_out c))"

text \<open>How many silences one read sits through before it gives up.\<close>

function patience :: "int \<Rightarrow> nat" where
  "patience t = (if t \<le> 0 then 0 else Suc (patience (less_time t)))"
  by pat_completeness auto
termination
  by (relation "measure nat") (auto simp: less_time_def slice_def)

declare patience.simps [simp del]

lemma ReadExact_stream:
  "length got \<le> len \<Longrightarrow> len - length got \<le> length (stream c) \<Longrightarrow> silences c \<le> patience t \<Longrightarrow>
   \<exists>c'. ReadExact len t got c = (Inr (got @ take (len - length got) (stream c)), c') \<and>
     stream c' = drop (len - length got) (stream c) \<and> silences c' \<le> silences c"
proof (induction len t got c rule: ReadExact.induct)
  case (1 len t got c)
  show ?case
  proof (cases "len \<le> length got")
    case True
    with 1 show ?thesis by (subst ReadExact.simps) auto
  next
    case False
    note unfold = ReadExact.simps [of len t got c]
    show ?thesis
    proof (cases "ch_out c")
      case Nil
      with False 1 show ?thesis by (simp add: stream_def)
    next
      case (Cons k cs)
      show ?thesis
      proof (cases k)
        case (Data bs)
        let ?c = "c\<lparr>ch_out := (if len - length got < length bs then Data (drop (len - length got) bs) # cs else cs)\<rparr>"
        have r: "ReadStdout (len - length got) c = (Got (take (len - length got) bs), ?c)"
          using Cons Data by (simp add: ReadStdout_def)
        have st: "stream c = bs @ stream (c\<lparr>ch_out := cs\<rparr>)" using Cons Data by (simp add: stream_def)
        have "stream ?c = drop (len - length got) bs @ stream (c\<lparr>ch_out := cs\<rparr>)" "silences ?c \<le> silences c"
          using Cons Data by (auto simp: stream_def silences_def)
        with 1(1) [OF False r [symmetric] refl] 1(3-5) st False unfold r show ?thesis
          by (fastforce simp: min_def)
      next
        case Silence
        have r: "ReadStdout (len - length got) c = (TimedOut, c\<lparr>ch_out := cs\<rparr>)"
          using Cons Silence by (simp add: ReadStdout_def)
        have pos: "0 < silences c" using Cons Silence by (simp add: silences_def)
        with 1(5) have t: "\<not> t \<le> 0" by (auto simp: patience.simps [of t] split: if_splits)
        have "stream (c\<lparr>ch_out := cs\<rparr>) = stream c" "Suc (silences (c\<lparr>ch_out := cs\<rparr>)) = silences c"
          using Cons Silence by (auto simp: stream_def silences_def)
        moreover from this t 1(5) have "silences (c\<lparr>ch_out := cs\<rparr>) \<le> patience (less_time t)"
          by (simp add: patience.simps [of t])
        ultimately show ?thesis using 1(2) [OF False r [symmetric] refl t] 1(3,4) False t unfold r by auto
      qed
    qed
  qed
qed

lemma ReadFrame_frame:
  assumes "fits_frame m" "stream c = frame_bytes m @ rest" "silences c \<le> patience t"
  shows "\<exists>c'. ReadFrame t c = (Inr m, c') \<and> stream c' = rest \<and> silences c' \<le> silences c"
proof -
  note len = fits_frame_length [OF assms(1)]
  from ReadExact_stream [of "[]" 4 c t] assms(2,3) obtain c1 where
    c1: "ReadExact 4 t [] c = (Inr (length_prefix (length m)), c1)" "stream c1 = m @ rest" "silences c1 \<le> silences c"
    by (auto simp: frame_bytes_def)
  show ?thesis
  proof (cases "m = []")
    case True
    with c1 show ?thesis by (simp add: ReadFrame_def prefix_length_prefix)
  next
    case False
    from ReadExact_stream [of "[]" "length m" c1 t] c1 assms(3) obtain c2 where
      "ReadExact (length m) t [] c1 = (Inr m, c2)" "stream c2 = rest" "silences c2 \<le> silences c1" by auto
    moreover from len(1) False have "(of_nat (length m) :: u32) \<noteq> 0" by auto
    ultimately show ?thesis using c1 len by (auto simp: ReadFrame_def prefix_length_prefix)
  qed
qed

text \<open>
  C39: a frame written by the worker is read back as it was, in any splitting of the bytes over reads
  and with as many silences as the deadline allows, and the reader then stands at the next frame.
\<close>

theorem ReadFrame_WriteFrame:
  assumes "fits_frame m" "stream c = frame_bytes m @ rest" "silences c \<le> patience t"
  shows "\<exists>c'. ReadFrame t c = (Inr m, c') \<and> stream c' = rest \<and> silences c' \<le> silences c"
  using assms by (rule ReadFrame_frame)

text \<open>A frame split in three, with a silence in its length.\<close>

definition child_of :: "chunk list \<Rightarrow> child" where
  "child_of out = \<lparr>ch_out = out, ch_in = [], ch_writes = 0, ch_write_fails = (\<lambda>_. False)\<rparr>"

lemma ReadFrame_WriteFrame_witness:
  "fst (ReadFrame 10 (child_of [Data [2, 0], Silence, Data [0, 0, 7], Data [8, 9]])) = Inr [7, 8] \<and>
   ch_in (snd (WriteFrame [7, 8] (child_of []))) = frame_bytes [7, 8]"
proof -
  let ?c = "child_of [Data [2, 0], Silence, Data [0, 0, 7], Data [8, 9]]"
  have "fits_frame [7, 8]" "stream ?c = frame_bytes [7, 8] @ [9]" "silences ?c \<le> patience 10"
    by (code_simp, code_simp, code_simp)
  from ReadFrame_WriteFrame [OF this] have "fst (ReadFrame 10 ?c) = Inr [7, 8]" by auto
  moreover have "ch_in (snd (WriteFrame [7, 8] (child_of []))) = frame_bytes [7, 8]" by code_simp
  ultimately show ?thesis by blast
qed

section \<open>Timeouts\<close>

text \<open>The slices that a read of a silent child waits for, and their sum.\<close>

function slices :: "int \<Rightarrow> int list" where
  "slices t = slice t # (if t \<le> 0 then [] else slices (less_time t))"
  by pat_completeness auto
termination
  by (relation "measure nat") (auto simp: less_time_def slice_def)

declare slices.simps [simp del]

lemma length_slices: "length (slices t) = Suc (patience t)"
  by (induction t rule: patience.induct) (subst slices.simps, subst patience.simps, auto)

lemma sum_slices: "sum_list (slices t) \<le> max t 0 + 2"
proof (induction t rule: slices.induct)
  case (1 t)
  show ?case
  proof (cases "t \<le> 0")
    case True
    then show ?thesis by (subst slices.simps) (simp add: slice_def)
  next
    case False
    show ?thesis
    proof (cases "less_time t = 0")
      case True
      then have "slices (less_time t) = [1]" by (subst slices.simps) (simp add: slice_def)
      moreover have "slice t \<le> t + 1" using False by (simp add: slice_def)
      ultimately show ?thesis using False by (subst slices.simps) simp
    next
      case rest: False
      with False have "less_time t = t - slice t" "0 < less_time t" by (auto simp: less_time_def split: if_splits)
      with 1 [OF False] False show ?thesis by (subst slices.simps) simp
    qed
  qed
qed

lemma ReadExact_silent:
  "length got < len \<Longrightarrow> ch_out c = replicate (Suc (patience t)) Silence @ cs \<Longrightarrow>
   ReadExact len t got c = (Inl False, c\<lparr>ch_out := cs\<rparr>)"
proof (induction t arbitrary: c rule: patience.induct)
  case (1 t)
  then have r: "ReadStdout (len - length got) c = (TimedOut, c\<lparr>ch_out := replicate (patience t) Silence @ cs\<rparr>)"
    by (simp add: ReadStdout_def)
  show ?case
  proof (cases "t \<le> 0")
    case True
    then have "patience t = 0" by (simp add: patience.simps)
    with True 1(2) r show ?thesis by (subst ReadExact.simps) simp
  next
    case False
    then have p: "patience t = Suc (patience (less_time t))" by (subst patience.simps) simp
    with 1(1) [OF False 1(2), of "c\<lparr>ch_out := replicate (patience t) Silence @ cs\<rparr>"]
    have "ReadExact len (less_time t) got (c\<lparr>ch_out := replicate (patience t) Silence @ cs\<rparr>) = (Inl False, c\<lparr>ch_out := cs\<rparr>)"
      by simp
    with False 1(2) r show ?thesis by (subst ReadExact.simps) simp
  qed
qed

lemma ReadFrame_silent:
  "ch_out c = replicate (Suc (patience t)) Silence @ cs \<Longrightarrow> ReadFrame t c = (Inl False, c\<lparr>ch_out := cs\<rparr>)"
  by (simp add: ReadFrame_def ReadExact_silent)

text \<open>
  A child that falls silent after a frame's length makes the read time out within the deadline
  plus two milliseconds of waiting, and the length is forgotten: the frame's content, when it
  comes, is taken for frames of its own, so that a message inside a payload is delivered as
  if the worker had sent it.
\<close>

theorem ReadFrame_timeout_desync:
  assumes "fits_frame m" "m \<noteq> []" "m = frame_bytes inner" "fits_frame inner"
    and c: "ch_out c = Data (length_prefix (length m)) # replicate (Suc (patience t)) Silence @ [Data m]"
  shows "\<exists>c'. ReadFrame t c = (Inl False, c') \<and> fst (ReadFrame u c') = Inr inner \<and>
    length (slices t) = Suc (patience t) \<and> sum_list (slices t) \<le> max t 0 + 2"
proof -
  let ?c1 = "c\<lparr>ch_out := replicate (Suc (patience t)) Silence @ [Data m]\<rparr>"
  let ?c2 = "c\<lparr>ch_out := [Data m]\<rparr>"
  note len = fits_frame_length [OF assms(1)]
  have r: "ReadStdout 4 c = (Got (length_prefix (length m)), ?c1)"
    using c by (simp add: ReadStdout_def)
  have head: "ReadExact 4 t [] c = (Inr (length_prefix (length m)), ?c1)"
    by (subst ReadExact.simps) (simp add: r, subst ReadExact.simps, simp)
  have n: "(of_nat (length m) :: u32) \<noteq> 0" using len(1) assms(2) by auto
  have silent: "ReadExact (length m) t [] ?c1 = (Inl False, ?c2)"
    using assms(2) ReadExact_silent [of "[]" "length m" ?c1 t "[Data m]"] by simp
  have first: "ReadFrame t c = (Inl False, ?c2)"
    using head n silent len by (simp add: ReadFrame_def prefix_length_prefix)
  have "stream ?c2 = frame_bytes inner @ []" "silences ?c2 \<le> patience u"
    using assms(3) by (simp_all add: stream_def silences_def)
  from ReadFrame_frame [OF assms(4) this] have "fst (ReadFrame u ?c2) = Inr inner" by auto
  with first length_slices sum_slices show ?thesis by blast
qed

lemma ReadFrame_timeout_desync_witness:
  "fst (ReadFrame 1 (snd (ReadFrame 1 (child_of (Data (length_prefix 5) # replicate (Suc (patience 1)) Silence @ [Data (frame_bytes [42])])))))
     = Inr [42]"
proof -
  let ?c = "child_of (Data (length_prefix (length (frame_bytes [42 :: byte]))) # replicate (Suc (patience 1)) Silence @ [Data (frame_bytes [42])])"
  have len: "length (frame_bytes [42 :: byte]) = 5" by (simp add: frame_bytes_def)
  have c: "ch_out ?c = Data (length_prefix (length (frame_bytes [42 :: byte]))) # replicate (Suc (patience 1)) Silence @ [Data (frame_bytes [42])]"
    by (simp add: child_of_def)
  from ReadFrame_timeout_desync [OF _ _ refl _ c, of 1] have
    "\<exists>c'. ReadFrame 1 ?c = (Inl False, c') \<and> fst (ReadFrame 1 c') = Inr [42]"
    by (auto simp: frame_bytes_def fits_frame_def kMaxFrameSize_def)
  then show ?thesis unfolding len by auto
qed

end
