(* ===== verification/ProcessExecutor.thy ===== *)
theory ProcessExecutor
  imports ProtocolFraming
begin

text \<open>
  engine/workers/process_executor.cpp: the executor that drives a worker process over framed
  messages. Protocol buffers are generated code, so their encoding and parsing are parameters, as are what
  reading a file outside the artifact store finds and whether the process still runs. The lemmas show
  when a worker is free again, that nothing unverified enters the artifact store, that a
  task with missing inputs never reaches the worker, and that frames are not matched to tasks.
\<close>

section \<open>Messages\<close>

record ArtifactInfo =
  ai_artifact_id :: string
  ai_content_hash :: string
  ai_type :: string
  ai_size :: int
  ai_mime :: string
  ai_manifest_json :: string
  ai_payload_path :: string

record WorkerHello =
  he_protocol_version :: int
  he_worker_id :: string
  he_capabilities :: "string list"
  he_cpu_cores :: int
  he_ram_mb :: int
  he_gpu_mem_mb :: int
  he_max_concurrency :: int

record TaskRequestMsg =
  tm_task_id :: string
  tm_task_type :: string
  tm_spec_json :: string
  tm_workspace :: string
  tm_input_refs :: "string list"

datatype WorkerMessage =
    MsgHello WorkerHello
  | MsgTaskRequest TaskRequestMsg
  | MsgTaskAccepted string
  | MsgTaskProgress string int string string
  | MsgTaskLog string string string string
  | MsgTaskArtifact string ArtifactInfo
  | MsgTaskCompleted string "ArtifactInfo list"
  | MsgTaskFailed string string string bool
  | MsgTaskCancelled string string
  | MsgHeartbeat string int int
  | MsgShutdown string
  | MsgNone

text \<open>What the executor uses of its surroundings; the numbers are moments.\<close>

record proc_env =
  pe_json :: json_lib
  pe_encode :: "WorkerMessage \<Rightarrow> byte list"
  pe_parse :: "byte list \<Rightarrow> WorkerMessage option"
  pe_file :: "nat \<Rightarrow> string \<Rightarrow> byte list option"
  pe_running :: "nat \<Rightarrow> bool"

text \<open>A message without a payload is malformed.\<close>

definition TryParseFrame :: "proc_env \<Rightarrow> byte list \<Rightarrow> WorkerMessage option" where
  "TryParseFrame env frame =
     (case pe_parse env frame of None \<Rightarrow> None | Some msg \<Rightarrow> if msg = MsgNone then None else Some msg)"

section \<open>State\<close>

record process_exec =
  px_child :: "child option"
  px_profile :: ResourceProfile
  px_id :: uuid
  px_worker_id :: string
  px_protocol_version :: int
  px_heartbeat_timeout_ms :: int
  px_has_store :: bool
  px_running :: bool
  px_cancel_pending :: bool
  px_task_id :: string
  px_task_uuid :: uuid
  px_shutdown :: bool
  px_pending_failure :: bool
  px_pending_failure_code :: string
  px_pending_failure_message :: string
  px_inputs :: "(string \<times> byte list) list"

type_synonym 'a px_op = "process_exec \<times> world \<Rightarrow> 'a \<times> process_exec \<times> world"

definition protocol_error :: "string \<Rightarrow> exn" where
  "protocol_error msg = throw_error kWorkerProtocol msg"

section \<open>Construction and handshake\<close>

text \<open>\<open>static_cast<int>\<close> of an \<open>int64\<close>.\<close>

definition to_int32 :: "int \<Rightarrow> int" where
  "to_int32 i = sint (word_of_int i :: 32 word)"

definition hello_profile :: "WorkerHello \<Rightarrow> ResourceProfile \<Rightarrow> ResourceProfile" where
  "hello_profile h p = p\<lparr>pf_capabilities := he_capabilities h,
     pf_max_concurrency := (if he_max_concurrency h > 0 then he_max_concurrency h else 1),
     pf_capacity := (pf_capacity p)\<lparr>rs_cores := to_int32 (if he_cpu_cores h > 0 then he_cpu_cores h else 1),
       rs_ram_bytes := he_ram_mb h * 1048576, rs_gpu_mem_bytes := he_gpu_mem_mb h * 1048576\<rparr>\<rparr>"

lemma ReadExact_size: "ReadExact len t got c = (r, c') \<Longrightarrow> out_size c' \<le> out_size c"
proof (induction len t got c arbitrary: r c' rule: ReadExact.induct)
  case (1 len t got c)
  show ?case
  proof (cases "len \<le> length got")
    case True
    with 1(3) show ?thesis by (simp add: ReadExact.simps)
  next
    case False
    obtain x c1 where rd: "ReadStdout (len - length got) c = (x, c1)" by fastforce
    have small: "out_size c1 \<le> out_size c"
    proof (cases "x = Eof")
      case True
      with rd show ?thesis by (auto simp: ReadStdout_def split: list.splits chunk.splits)
    next
      case neq: False
      with ReadStdout_less [OF rd neq] False show ?thesis by simp
    qed
    note unfold = 1(3) [unfolded ReadExact.simps [of len t got c]]
    show ?thesis
    proof (cases x)
      case (Got bs)
      with unfold False rd have "ReadExact len t (got @ bs) c1 = (r, c')" by simp
      from 1(1) [OF False rd [symmetric] Got this] small show ?thesis by simp
    next
      case TimedOut
      show ?thesis
      proof (cases "t \<le> 0")
        case True
        with unfold False rd TimedOut small show ?thesis by simp
      next
        case t: False
        with unfold False rd TimedOut have "ReadExact len (less_time t) got c1 = (r, c')" by simp
        from 1(2) [OF False rd [symmetric] TimedOut t this] small show ?thesis by simp
      qed
    next
      case Eof
      with unfold False rd small show ?thesis by simp
    qed
  qed
qed

lemma ReadExact_less: "ReadExact len t got c = (r, c') \<Longrightarrow> length got < len \<Longrightarrow> r \<noteq> Inl True \<Longrightarrow> out_size c' < out_size c"
proof -
  assume run: "ReadExact len t got c = (r, c')" and len: "length got < len" and r: "r \<noteq> Inl True"
  obtain x c1 where rd: "ReadStdout (len - length got) c = (x, c1)" by fastforce
  note unfold = run [unfolded ReadExact.simps [of len t got c]]
  have x: "x \<noteq> Eof" using unfold len rd r by auto
  with ReadStdout_less [OF rd x] len have c1: "out_size c1 < out_size c" by simp
  from unfold len rd x have "\<exists>t' got'. ReadExact len t' got' c1 = (r, c') \<or> c' = c1"
    by (cases x) (auto split: if_splits)
  with ReadExact_size c1 show ?thesis by (metis le_less_trans)
qed

lemma ReadFrame_less: "ReadFrame t c = (r, c') \<Longrightarrow> r \<noteq> Inl True \<Longrightarrow> out_size c' < out_size c"
proof -
  assume run: "ReadFrame t c = (r, c')" and r: "r \<noteq> Inl True"
  obtain h c1 where h: "ReadExact 4 t [] c = (h, c1)" by fastforce
  with run r have "h \<noteq> Inl True" by (auto simp: ReadFrame_def)
  with ReadExact_less [OF h] have c1: "out_size c1 < out_size c" by simp
  from run h have "c' = c1 \<or> (\<exists>n. ReadExact n t [] c1 = (r, c'))"
    by (auto simp: ReadFrame_def Let_def split: sum.splits if_splits)
  with ReadExact_size c1 show ?thesis by (metis le_less_trans)
qed

definition clock :: "world \<Rightarrow> int \<times> world" where
  "clock w = (w_clock w (w_tick w), w_step w)"

text \<open>Frames before the hello are skipped, as are reads that time out before the deadline.\<close>

function handshake :: "proc_env \<Rightarrow> int \<Rightarrow> child \<Rightarrow> world \<Rightarrow> (WorkerHello \<times> child) res \<times> world" where
  "handshake env deadline c w =
     (let (now, w1) = clock w in
      if deadline - now \<le> 0 then (Inl (protocol_error ''worker did not send WorkerHello within the timeout''), w1)
      else case ReadFrame ((deadline - now) div 1000000) c of
        (Inl eof, c') \<Rightarrow>
          if eof then (Inl (protocol_error ''worker exited before WorkerHello: ''), w1) else handshake env deadline c' w1
      | (Inr frame, c') \<Rightarrow>
          (case TryParseFrame env frame of
             None \<Rightarrow> (Inl (protocol_error ''worker sent a malformed frame during handshake''), w1)
           | Some (MsgHello h) \<Rightarrow>
               if he_protocol_version h \<noteq> 1
               then (Inl (protocol_error (''worker protocol version '' @ int_to_string (he_protocol_version h) @
                      '' is incompatible with engine version 1'')), w1)
               else (Inr (h, c'), w1)
           | Some _ \<Rightarrow> handshake env deadline c' w1))"
  by pat_completeness auto
termination
  by (relation "measure (\<lambda>(_, _, c, _). out_size c)") (auto dest!: ReadFrame_less [OF sym])

declare handshake.simps [simp del]

text \<open>\<open>spawned\<close> is what starting the process gave.\<close>

definition NewProcessExecutor ::
  "proc_env \<Rightarrow> ResourceProfile \<Rightarrow> string + child \<Rightarrow> int \<Rightarrow> bool \<Rightarrow> world \<Rightarrow> process_exec res \<times> world" where
  "NewProcessExecutor env fallback spawned heartbeat has_store w =
     (case spawned of
        Inl e \<Rightarrow> (Inl (protocol_error (''failed to spawn worker: '' @ e)), w)
      | Inr c \<Rightarrow>
          let (now, w1) = clock w in
          case handshake env (now + 10000 * 1000000) c w1 of
            (Inl e, w2) \<Rightarrow> (Inl e, w2)
          | (Inr (h, c'), w2) \<Rightarrow>
              let (wid, w3) =
                (case (if he_worker_id h = [] then None
                       else case ParseUuid (he_worker_id h) of Inl _ \<Rightarrow> None | Inr u \<Rightarrow> Some u) of
                   Some u \<Rightarrow> (u, w2) | None \<Rightarrow> (GenerateUuid (w_random w2 (w_tick w2)), w_step w2)) in
              (Inr \<lparr>px_child = Some c', px_profile = hello_profile h fallback, px_id = wid, px_worker_id = he_worker_id h,
                    px_protocol_version = he_protocol_version h, px_heartbeat_timeout_ms = heartbeat,
                    px_has_store = has_store, px_running = False, px_cancel_pending = False, px_task_id = [],
                    px_task_uuid = nil_uuid, px_shutdown = False, px_pending_failure = False,
                    px_pending_failure_code = [], px_pending_failure_message = [], px_inputs = []\<rparr>, w3))"

section \<open>Submit\<close>

text \<open>The loop over the inputs: \<open>Some\<close> is the error it returns with.\<close>

fun materialize_loop :: "string \<Rightarrow> ArtifactRef list \<Rightarrow> string option px_op" where
  "materialize_loop dir [] (x, w) = (None, x, w)"
| "materialize_loop dir (ref # refs) (x, w) =
     (case Get ref w of
        (Inl _, w1) \<Rightarrow> (Some (''input corrupt in CAS: '' @ ref), x, w1)
      | (Inr None, w1) \<Rightarrow> (Some (''input not in CAS: '' @ ref), x, w1)
      | (Inr (Some bytes), w1) \<Rightarrow>
          if w_io_fault w1 (w_tick w1)
          then (Some (''cannot materialize input '' @ ref @ '': '' @ dir @ ''/'' @ ref), x, w_step w1)
          else materialize_loop dir refs
                 (x\<lparr>px_inputs := tbl_replace fst (dir @ ''/'' @ ref, bytes) (px_inputs x)\<rparr>, w_step w1))"

definition MaterializeInputs :: "TaskRequest \<Rightarrow> string option px_op" where
  "MaterializeInputs request s =
     (case s of (x, w) \<Rightarrow>
        if \<not> px_has_store x then (Some ''input materialization requires an artifact store (none configured)'', x, w)
        else let dir = rq_workspace request @ ''/inputs'' in
          if w_io_fault w (w_tick w) then (Some (''cannot create inputs directory: '' @ dir), x, w_step w)
          else materialize_loop dir (rq_input_refs request) (x, w_step w))"

definition send :: "proc_env \<Rightarrow> WorkerMessage \<Rightarrow> process_exec \<Rightarrow> bool \<times> process_exec" where
  "send env msg x =
     (case px_child x of None \<Rightarrow> (False, x)
      | Some c \<Rightarrow> (case WriteFrame (pe_encode env msg) c of (ok, c') \<Rightarrow> (ok, x\<lparr>px_child := Some c'\<rparr>)))"

definition request_msg :: "TaskRequest \<Rightarrow> WorkerMessage" where
  "request_msg request = MsgTaskRequest \<lparr>tm_task_id = FormatUuid (rq_task_id request), tm_task_type = rq_task_type request,
     tm_spec_json = rq_config_json request, tm_workspace = rq_workspace request, tm_input_refs = rq_input_refs request\<rparr>"

text \<open>A broken pipe is left for \<open>WaitForEvent\<close> to find.\<close>

definition px_Submit :: "proc_env \<Rightarrow> TaskRequest \<Rightarrow> unit res px_op" where
  "px_Submit env request s =
     (case s of (x, w) \<Rightarrow>
        if px_shutdown x \<or> px_child x = None then (Inl (throw_error kWorkerTerminated ''worker is shut down''), x, w)
        else if px_running x
        then (Inl (throw_error kWorkerBusy ''worker already has a task in flight (max_concurrency = 1)''), x, w)
        else case (if rq_input_refs request = [] then (None, x, w) else MaterializeInputs request (x, w)) of
          (Some err, x1, w1) \<Rightarrow>
            (Inr (), x1\<lparr>px_pending_failure := True, px_pending_failure_code := ''WORKER_INPUT_MATERIALIZE'',
               px_pending_failure_message := err, px_running := True,
               px_task_id := FormatUuid (rq_task_id request), px_task_uuid := rq_task_id request\<rparr>, w1)
        | (None, x1, w1) \<Rightarrow>
            (Inr (), (snd (send env (request_msg request) x1))\<lparr>px_running := True, px_cancel_pending := False,
               px_task_id := FormatUuid (rq_task_id request), px_task_uuid := rq_task_id request\<rparr>, w1))"

definition px_Cancel :: "proc_env \<Rightarrow> uuid \<Rightarrow> string \<Rightarrow> process_exec \<Rightarrow> process_exec" where
  "px_Cancel env task_id reason x =
     (if \<not> px_running x \<or> FormatUuid task_id \<noteq> px_task_id x \<or> px_child x = None then x
      else case send env (MsgTaskCancelled (px_task_id x) reason) x of
        (ok, x') \<Rightarrow> if ok then x'\<lparr>px_cancel_pending := True\<rparr> else x')"

section \<open>Ingest\<close>

text \<open>Checking and storing a produced artifact; \<open>Some\<close> is the error.\<close>

definition IngestArtifact :: "proc_env \<Rightarrow> ArtifactInfo \<Rightarrow> string option px_op" where
  "IngestArtifact env a s =
     (case s of (x, w) \<Rightarrow>
        if \<not> px_has_store x then (Some ''CAS ingest requires an artifact store (none configured)'', x, w)
        else if ai_payload_path a = [] then (Some ''worker produced an artifact without a payload_path'', x, w)
        else if pe_file env (w_tick w) (ai_payload_path a) = None
        then (Some (''artifact payload not found: '' @ ai_payload_path a), x, w_step w)
        else let w1 = w_step w in
          case (if w_io_fault w1 (w_tick w1) then None else pe_file env (w_tick w1) (ai_payload_path a)) of
            None \<Rightarrow> (Some (''cannot read artifact payload: '' @ ai_payload_path a), x, w_step w1)
          | Some bytes \<Rightarrow>
              let w2 = w_step w1 in
              if Sha256Hex bytes \<noteq> ai_content_hash a
              then (Some ''artifact payload SHA-256 does not match declared content_hash'', x, w2)
              else if ai_manifest_json a = [] then (Some ''worker produced an artifact without a manifest'', x, w2)
              else case ManifestFromJsonString (pe_json env) (ai_manifest_json a) of
                Inl _ \<Rightarrow> (Some ''artifact manifest missing or malformed'', x, w2)
              | Inr manifest \<Rightarrow>
                  if am_content_hash manifest \<noteq> ai_content_hash a
                  then (Some ''artifact manifest content_hash does not match declared hash'', x, w2)
                  else case Put (pe_json env) bytes manifest w2 of
                    (Inl _, w3) \<Rightarrow> (Some (''CAS ingest failed for artifact '' @ ai_artifact_id a), x, w3)
                  | (Inr _, w3) \<Rightarrow> (None, x, w3))"

definition TerminateWorker :: "process_exec \<Rightarrow> process_exec" where
  "TerminateWorker x = x\<lparr>px_child := None, px_running := False, px_cancel_pending := False\<rparr>"

section \<open>Events\<close>

text \<open>
  \<open>out\<close> is the event the caller passes; what an event does not set stays. \<open>Inl crash\<close> is the
  result false.
\<close>

definition task_out :: "WorkerEvent \<Rightarrow> process_exec \<Rightarrow> WorkerEventType \<Rightarrow> WorkerEvent" where
  "task_out out x ty = out\<lparr>ev_type := ty, ev_task_id := px_task_uuid x\<rparr>"

definition failed_out :: "WorkerEvent \<Rightarrow> process_exec \<Rightarrow> string \<Rightarrow> string \<Rightarrow> bool \<Rightarrow> WorkerEvent" where
  "failed_out out x ecode message recoverable =
     (task_out out x EvFailed)\<lparr>ev_error_code := ecode, ev_error_message := message, ev_recoverable := recoverable\<rparr>"

definition idle :: "process_exec \<Rightarrow> process_exec" where
  "idle x = x\<lparr>px_running := False, px_cancel_pending := False\<rparr>"

text \<open>An artifact message; a store makes it pass the ingest first.\<close>

definition artifact_event :: "proc_env \<Rightarrow> WorkerEvent \<Rightarrow> ArtifactInfo \<Rightarrow> WorkerEvent px_op" where
  "artifact_event env out0 a s =
     (case s of (x, w) \<Rightarrow>
        let out = (task_out out0 x EvArtifactProduced)\<lparr>ev_payload_path := ai_payload_path a,
                    ev_manifest_json := ai_manifest_json a\<rparr>;
            produced = out\<lparr>ev_artifact_ref := ai_content_hash a\<rparr> in
        if \<not> px_has_store x then (produced, x, w)
        else case IngestArtifact env a (x, w) of
          (None, x1, w1) \<Rightarrow> (produced, x1, w1)
        | (Some err, x1, w1) \<Rightarrow>
            (out\<lparr>ev_type := EvFailed, ev_error_code := ''WORKER_INGEST_FAILED'', ev_error_message := err,
                 ev_recoverable := False\<rparr>, TerminateWorker (idle x1), w1))"

fun message_event :: "proc_env \<Rightarrow> WorkerEvent \<Rightarrow> WorkerMessage \<Rightarrow> WorkerEvent px_op" where
  "message_event env out0 (MsgTaskProgress tid percent substage message) (x, w) =
     (let out = (task_out out0 x EvProgress)\<lparr>ev_progress := percent\<rparr> in
      if px_cancel_pending x \<and> substage = ''cancelled'' then (out\<lparr>ev_type := EvCancelled\<rparr>, idle x, w)
      else (out, x, w))"
| "message_event env out0 (MsgTaskLog tid level message context_json) (x, w) =
     ((task_out out0 x EvLog)\<lparr>ev_log := message\<rparr>, x, w)"
| "message_event env out0 (MsgTaskArtifact tid a) (x, w) = artifact_event env out0 a (x, w)"
| "message_event env out0 (MsgTaskCompleted tid outputs) (x, w) =
     (task_out out0 x (if px_cancel_pending x \<and> outputs = [] then EvCancelled else EvCompleted), idle x, w)"
| "message_event env out0 (MsgTaskFailed tid ecode message recoverable) (x, w) =
     (failed_out out0 x (if ecode = [] then ''WORKER_PROTOCOL'' else ecode) message recoverable, idle x, w)"
| "message_event env out0 msg (x, w) = (task_out out0 x EvHeartbeat, x, w)"

definition NextEvent :: "proc_env \<Rightarrow> WorkerEvent \<Rightarrow> int \<Rightarrow> child \<Rightarrow> (bool + WorkerEvent) px_op" where
  "NextEvent env out timeout_ms c s =
     (case s of (x, w) \<Rightarrow>
        case ReadFrame timeout_ms c of
          (Inl eof, c') \<Rightarrow> (Inl eof, x\<lparr>px_child := Some c'\<rparr>, w)
        | (Inr frame, c') \<Rightarrow>
            let x' = x\<lparr>px_child := Some c'\<rparr> in
            case TryParseFrame env frame of
              None \<Rightarrow> (Inl True, x', w)
            | Some msg \<Rightarrow> (case message_event env out msg (x', w) of (e, s') \<Rightarrow> (Inr e, s')))"

definition MarkCrashed :: "WorkerEvent \<Rightarrow> process_exec \<Rightarrow> string \<Rightarrow> WorkerEvent" where
  "MarkCrashed out x detail = failed_out out x ''WORKER_CRASHED'' detail True"

definition px_WaitForEvent :: "proc_env \<Rightarrow> WorkerEvent \<Rightarrow> int \<Rightarrow> WorkerEvent option px_op" where
  "px_WaitForEvent env out timeout_ms s =
     (case s of (x, w) \<Rightarrow>
        if px_shutdown x then (None, x, w)
        else case px_child x of None \<Rightarrow> (None, x, w)
        | Some c \<Rightarrow>
            if px_pending_failure x
            then (Some (failed_out out x (px_pending_failure_code x) (px_pending_failure_message x) False),
                  idle (x\<lparr>px_pending_failure := False\<rparr>), w)
            else (case NextEvent env out timeout_ms c s of
                (Inr e, s') \<Rightarrow> (Some e, s')
              | (Inl crash, x', w') \<Rightarrow>
                  if crash then (Some (MarkCrashed out x' ''worker process exited''), idle x', w') else (None, x', w')))"

section \<open>Shutdown\<close>

text \<open>
  What the worker still says is read and dropped. The loop reads the process's state and the clock
  before each read.
\<close>

function drain :: "proc_env \<Rightarrow> int \<Rightarrow> child \<Rightarrow> world \<Rightarrow> world" where
  "drain env deadline c w =
     (if \<not> pe_running env (w_tick w) then w_step w
      else let (now, w1) = clock (w_step w) in
        if \<not> now < deadline then w1
        else case ReadFrame 50 c of
          (Inl True, _) \<Rightarrow> w1
        | (_, c') \<Rightarrow> drain env deadline c' w1)"
  by pat_completeness auto
termination
  by (relation "measure (\<lambda>(_, _, c, _). out_size c)") (auto dest!: ReadFrame_less [OF sym])

declare drain.simps [simp del]

definition px_Shutdown :: "proc_env \<Rightarrow> unit px_op" where
  "px_Shutdown env s =
     (case s of (x, w) \<Rightarrow>
        case px_child x of None \<Rightarrow> ((), x, w)
        | Some _ \<Rightarrow>
            if px_shutdown x then ((), x\<lparr>px_child := None\<rparr>, w)
            else let x1 = snd (send env (MsgShutdown ''engine shutdown'') (x\<lparr>px_shutdown := True\<rparr>));
                     (now, w1) = clock w in
              ((), x1\<lparr>px_child := None\<rparr>, drain env (now + 5000 * 1000000) (the (px_child x1)) w1))"

section \<open>The executor\<close>

text \<open>The scheduler reads of an event only what its type sets (\<open>event_view\<close> below).\<close>

definition process_executor :: "proc_env \<Rightarrow> process_exec \<Rightarrow> process_exec WorkerExecutor" where
  "process_executor env x = \<lparr>we_profile = px_profile x, we_id = px_id x, we_implementation_label = ''process'',
     we_Submit = px_Submit env,
     we_Cancel = (\<lambda>task_id reason (y, w). (Inr (), px_Cancel env task_id reason y, w)),
     we_WaitForEvent = (\<lambda>timeout_ms s. case px_WaitForEvent env default_event timeout_ms s of (e, s') \<Rightarrow> (Inr e, s'))\<rparr>"

section \<open>When the worker is free\<close>

definition event_view :: "WorkerEvent \<Rightarrow> WorkerEventType \<times> uuid \<times> ArtifactRef option \<times> (string \<times> string \<times> bool) option" where
  "event_view e = (ev_type e, ev_task_id e, if ev_type e = EvArtifactProduced then Some (ev_artifact_ref e) else None,
     if ev_type e = EvFailed then Some (ev_error_code e, ev_error_message e, ev_recoverable e) else None)"

definition px_inv :: "process_exec \<Rightarrow> bool" where
  "px_inv x \<longleftrightarrow> (px_pending_failure x \<or> px_cancel_pending x \<longrightarrow> px_running x)"

lemma task_out_simps [simp]:
  "ev_type (task_out out x ty) = ty" "ev_task_id (task_out out x ty) = px_task_uuid x"
  "ev_type (failed_out out x c m b) = EvFailed" "ev_task_id (failed_out out x c m b) = px_task_uuid x"
  by (simp_all add: task_out_def failed_out_def)

lemma idle_simps [simp]:
  "px_running (idle x) = False" "px_cancel_pending (idle x) = False" "px_pending_failure (idle x) = px_pending_failure x"
  "px_task_uuid (idle x) = px_task_uuid x" "px_child (idle x) = px_child x" "px_shutdown (idle x) = px_shutdown x"
  "px_has_store (idle x) = px_has_store x" "px_task_id (idle x) = px_task_id x"
  by (simp_all add: idle_def)

lemma Terminate_simps [simp]:
  "px_running (TerminateWorker x) = False" "px_cancel_pending (TerminateWorker x) = False"
  "px_pending_failure (TerminateWorker x) = px_pending_failure x" "px_task_uuid (TerminateWorker x) = px_task_uuid x"
  "px_child (TerminateWorker x) = None" "px_shutdown (TerminateWorker x) = px_shutdown x"
  by (simp_all add: TerminateWorker_def)

lemma IngestArtifact_exec: "IngestArtifact env a (x, w) = (r, x', w') \<Longrightarrow> x' = x"
  by (auto simp: IngestArtifact_def Let_def split: if_splits option.splits sum.splits prod.splits)

lemma send_simps [simp]:
  "px_running (snd (send env msg x)) = px_running x" "px_pending_failure (snd (send env msg x)) = px_pending_failure x"
  "px_cancel_pending (snd (send env msg x)) = px_cancel_pending x" "px_shutdown (snd (send env msg x)) = px_shutdown x"
  "px_has_store (snd (send env msg x)) = px_has_store x" "px_child (snd (send env msg x)) = None \<longleftrightarrow> px_child x = None"
  by (simp_all add: send_def split: option.split prod.split)

lemma materialize_loop_exec: "materialize_loop dir refs (x, w) = (r, x', w') \<Longrightarrow> \<exists>files. x' = x\<lparr>px_inputs := files\<rparr>"
proof (induction dir refs "(x, w)" arbitrary: x w rule: materialize_loop.induct)
  case (1 dir x w)
  then show ?case by (auto intro: exI [of _ "px_inputs x"])
next
  case (2 dir ref refs x w)
  obtain g w1 where g: "Get ref w = (g, w1)" by fastforce
  show ?case
  proof (cases g)
    case (Inl e)
    with 2(2) g show ?thesis by (auto intro: exI [of _ "px_inputs x"])
  next
    case (Inr o1)
    show ?thesis
    proof (cases o1)
      case None
      with 2(2) g Inr show ?thesis by (auto intro: exI [of _ "px_inputs x"])
    next
      case (Some bytes)
      show ?thesis
      proof (cases "w_io_fault w1 (w_tick w1)")
        case True
        with 2(2) g Inr Some show ?thesis by (auto intro: exI [of _ "px_inputs x"])
      next
        case False
        with 2(2) g Inr Some have "materialize_loop dir refs
            (x\<lparr>px_inputs := tbl_replace fst (dir @ ''/'' @ ref, bytes) (px_inputs x)\<rparr>, w_step w1) = (r, x', w')" by simp
        from 2(1) [OF g [symmetric] Inr Some False this] show ?thesis by auto
      qed
    qed
  qed
qed

lemma MaterializeInputs_exec: "MaterializeInputs request (x, w) = (r, x', w') \<Longrightarrow> \<exists>files. x' = x\<lparr>px_inputs := files\<rparr>"
  by (auto simp: MaterializeInputs_def Let_def intro: exI [of _ "px_inputs x"] dest!: materialize_loop_exec split: if_splits)

lemma artifact_event_result:
  assumes "artifact_event env out a (x, w) = (e, x', w')" "px_inv x" "\<not> px_pending_failure x"
  shows "px_running x' = (px_running x \<and> \<not> is_terminal_event e) \<and> px_inv x' \<and> ev_task_id e = px_task_uuid x \<and>
    px_pending_failure x' = px_pending_failure x"
proof (cases "px_has_store x")
  case False
  with assms show ?thesis by (auto simp: artifact_event_def Let_def is_terminal_event_def)
next
  case True
  obtain r x1 w1 where i: "IngestArtifact env a (x, w) = (r, x1, w1)" by (metis prod_cases3)
  from IngestArtifact_exec [OF this] assms True i show ?thesis
    by (cases r) (auto simp: artifact_event_def Let_def is_terminal_event_def px_inv_def)
qed

lemma message_event_result:
  assumes "message_event env out msg (x, w) = (e, x', w')" "px_inv x" "\<not> px_pending_failure x"
  shows "px_running x' = (px_running x \<and> \<not> is_terminal_event e) \<and> px_inv x' \<and> ev_task_id e = px_task_uuid x \<and>
    \<not> px_pending_failure x'"
proof (cases msg)
  case (MsgTaskArtifact tid a)
  with assms artifact_event_result [of env out a x w e x' w'] show ?thesis by simp
next
  case (MsgTaskProgress tid percent substage message)
  with assms show ?thesis by (auto simp: Let_def is_terminal_event_def px_inv_def split: if_splits)
qed (use assms in \<open>auto simp: is_terminal_event_def px_inv_def split: if_splits\<close>)

lemma px_inv_child [simp]: "px_inv (x\<lparr>px_child := c\<rparr>) = px_inv x"
  by (simp add: px_inv_def)

lemma px_WaitForEvent_run:
  assumes "px_WaitForEvent env out t (x, w) = (r, x', w')" "px_inv x"
  shows "px_inv x' \<and> (case r of
      None \<Rightarrow> px_running x' = px_running x
    | Some e \<Rightarrow> px_running x' = (px_running x \<and> \<not> is_terminal_event e) \<and> ev_task_id e = px_task_uuid x)"
proof (cases "px_shutdown x \<or> px_child x = None")
  case True
  with assms show ?thesis by (auto simp: px_WaitForEvent_def split: option.splits)
next
  case False
  then obtain c where c: "px_child x = Some c" "\<not> px_shutdown x" by auto
  show ?thesis
  proof (cases "px_pending_failure x")
    case True
    with assms c show ?thesis by (auto simp: px_WaitForEvent_def is_terminal_event_def px_inv_def)
  next
    case False
    obtain f c' where f: "ReadFrame t c = (f, c')" by fastforce
    show ?thesis
    proof (cases f)
      case (Inl eof)
      with assms c False f show ?thesis
        by (auto simp: px_WaitForEvent_def NextEvent_def MarkCrashed_def is_terminal_event_def px_inv_def split: if_splits)
    next
      case (Inr frame)
      show ?thesis
      proof (cases "TryParseFrame env frame")
        case None
        with assms c False f Inr show ?thesis
          by (auto simp: px_WaitForEvent_def NextEvent_def MarkCrashed_def is_terminal_event_def px_inv_def split: if_splits)
      next
        case (Some msg)
        obtain e x1 w1 where m: "message_event env out msg (x\<lparr>px_child := Some c'\<rparr>, w) = (e, x1, w1)" by (metis prod_cases3)
        with message_event_result [OF m] assms(2) False
        have "px_running x1 = (px_running x \<and> \<not> is_terminal_event e) \<and> px_inv x1 \<and> ev_task_id e = px_task_uuid x" by simp
        moreover from assms(1) c False f Inr Some m have "r = Some e \<and> x' = x1"
          by (auto simp: px_WaitForEvent_def NextEvent_def)
        ultimately show ?thesis by simp
      qed
    qed
  qed
qed

lemma px_operations_keep_inv:
  assumes "px_inv x"
  shows "px_inv (fst (snd (px_Submit env request (x, w))))" "px_inv (px_Cancel env task_id reason x)"
    "px_inv (fst (snd (px_Shutdown env (x, w))))"
proof -
  show "px_inv (px_Cancel env task_id reason x)"
  proof -
    obtain ok y where y: "send env (MsgTaskCancelled (px_task_id x) reason) x = (ok, y)" by fastforce
    then show ?thesis using assms send_simps(1,2,3) [of env "MsgTaskCancelled (px_task_id x) reason" x]
      by (auto simp: px_Cancel_def px_inv_def)
  qed
  obtain r x1 w1 where m: "MaterializeInputs request (x, w) = (r, x1, w1)" by (metis prod_cases3)
  from MaterializeInputs_exec [OF m] assms m show "px_inv (fst (snd (px_Submit env request (x, w))))"
    by (cases r) (auto simp: px_Submit_def px_inv_def)
  show "px_inv (fst (snd (px_Shutdown env (x, w))))"
    using assms by (auto simp: px_Shutdown_def px_inv_def Let_def split: option.split prod.split)
qed

text \<open>
  The worker becomes free exactly when a terminal event is delivered, whatever the frame
  said, so that a task accepted by Submit ends with one terminal event at most, and every event carries
  the id of the task in flight, whatever task the worker's frame names.
\<close>

theorem px_event_frees_worker:
  assumes "px_WaitForEvent env out t (x, w) = (r, x', w')" "px_inv x"
  shows "px_inv x' \<and> (case r of
      None \<Rightarrow> px_running x' = px_running x
    | Some e \<Rightarrow> px_running x' = (px_running x \<and> \<not> is_terminal_event e) \<and> ev_task_id e = px_task_uuid x)"
  using assms by (rule px_WaitForEvent_run)

lemma message_event_view:
  "event_view (fst (message_event env out msg s)) = event_view (fst (message_event env out' msg s)) \<and>
   snd (message_event env out msg s) = snd (message_event env out' msg s)"
proof (cases s)
  case (Pair x w)
  show ?thesis unfolding Pair
    by (cases msg)
      (auto simp: event_view_def task_out_def failed_out_def artifact_event_def Let_def split: option.split prod.split)
qed

text \<open>What the scheduler reads of an event does not depend on the event it passed.\<close>

lemma px_WaitForEvent_view:
  "map_option event_view (fst (px_WaitForEvent env out t s)) = map_option event_view (fst (px_WaitForEvent env out' t s)) \<and>
   snd (px_WaitForEvent env out t s) = snd (px_WaitForEvent env out' t s)"
proof (cases s)
  case (Pair x w)
  have failed: "event_view (failed_out out y c m b) = event_view (failed_out out' y c m b)" for y c m b
    by (simp add: event_view_def task_out_def failed_out_def)
  have "map_option event_view (fst (px_WaitForEvent env out t (x, w))) = map_option event_view (fst (px_WaitForEvent env out' t (x, w))) \<and>
      snd (px_WaitForEvent env out t (x, w)) = snd (px_WaitForEvent env out' t (x, w))"
  proof (cases "px_shutdown x \<or> px_child x = None \<or> px_pending_failure x")
    case True
    with failed show ?thesis by (auto simp: px_WaitForEvent_def split: option.split)
  next
    case False
    then obtain c where c: "px_child x = Some c" by auto
    obtain f c' where f: "ReadFrame t c = (f, c')" by fastforce
    show ?thesis
    proof (cases "\<exists>frame msg. f = Inr frame \<and> TryParseFrame env frame = Some msg")
      case True
      then obtain frame msg where m: "f = Inr frame" "TryParseFrame env frame = Some msg" by blast
      with message_event_view [of env out msg "(x\<lparr>px_child := Some c'\<rparr>, w)" out'] False c f show ?thesis
        by (auto simp: px_WaitForEvent_def NextEvent_def split: prod.splits)
    next
      case no: False
      with False c f failed show ?thesis
        by (cases f) (auto simp: px_WaitForEvent_def NextEvent_def MarkCrashed_def)
    qed
  qed
  then show ?thesis unfolding Pair .
qed

section \<open>Artifacts are verified\<close>

lemma IngestArtifact_stored:
  assumes "IngestArtifact env a (x, w) = (None, x', w')" "store_ok w"
  shows "store_ok w' \<and> (\<exists>b. payload_of (ai_content_hash a) w' = Some b \<and> Sha256Hex b = ai_content_hash a) \<and>
    tbl_get ar_content_hash (ai_content_hash a) (db_artifacts (w_db w')) \<noteq> None"
proof -
  from assms(1) obtain bytes manifest rr where
    put: "Put (pe_json env) bytes manifest (w_step (w_step w)) = (Inr rr, w')" "Sha256Hex bytes = ai_content_hash a"
    by (auto simp: IngestArtifact_def Let_def split: if_splits option.splits sum.splits prod.splits)
  have ok: "store_ok (w_step (w_step w))" using assms(2) by simp
  from Put_result [OF ok put(1)] put(2) keepsD [OF keeps_Put ok, of "pe_json env" bytes manifest] put(1)
  show ?thesis by auto
qed

lemma IngestArtifact_keeps: "store_ok w \<Longrightarrow> store_ok (snd (snd (IngestArtifact env a (x, w))))"
  using keepsD [OF keeps_Put, of "w_step (w_step w)"]
  by (auto simp: IngestArtifact_def Let_def split: option.split sum.split prod.split) (metis snd_conv)+

lemma artifact_event_stored:
  assumes "artifact_event env out a (x, w) = (e, x', w')" "px_has_store x" "store_ok w"
  shows "store_ok w' \<and> (if ev_type e = EvArtifactProduced
    then ev_artifact_ref e = ai_content_hash a \<and>
      (\<exists>b. payload_of (ai_content_hash a) w' = Some b \<and> Sha256Hex b = ai_content_hash a) \<and>
      tbl_get ar_content_hash (ai_content_hash a) (db_artifacts (w_db w')) \<noteq> None
    else ev_type e = EvFailed \<and> ev_error_code e = ''WORKER_INGEST_FAILED'' \<and> \<not> ev_recoverable e \<and> px_child x' = None)"
proof -
  obtain r x1 w1 where i: "IngestArtifact env a (x, w) = (r, x1, w1)" by (metis prod_cases3)
  with IngestArtifact_keeps [OF assms(3), of env a x] have ok: "store_ok w1" by simp
  show ?thesis
  proof (cases r)
    case None
    from IngestArtifact_stored [OF i [unfolded None] assms(3)] assms(1,2) i None show ?thesis
      by (auto simp: artifact_event_def Let_def)
  next
    case (Some err)
    with assms i ok show ?thesis by (auto simp: artifact_event_def Let_def)
  qed
qed

text \<open>The frame an event came from.\<close>

lemma px_WaitForEvent_frame:
  assumes "px_WaitForEvent env out t (x, w) = (Some e, x', w')"
  shows "(\<exists>c ts msg. px_child x = Some c \<and> message_event env out msg (x\<lparr>px_child := ts\<rparr>, w) = (e, x', w')) \<or>
    ev_type e = EvFailed \<and> w' = w"
proof -
  from assms obtain c where c: "px_child x = Some c" "\<not> px_shutdown x"
    by (auto simp: px_WaitForEvent_def split: if_splits option.splits)
  obtain f c' where f: "ReadFrame t c = (f, c')" by fastforce
  show ?thesis
  proof (cases "px_pending_failure x \<or> (\<forall>frame. f = Inr frame \<longrightarrow> TryParseFrame env frame = None)")
    case True
    with assms c f show ?thesis
      by (cases f) (auto simp: px_WaitForEvent_def NextEvent_def MarkCrashed_def split: if_splits)
  next
    case False
    then obtain frame msg where m: "f = Inr frame" "TryParseFrame env frame = Some msg" "\<not> px_pending_failure x" by auto
    with assms c f have "message_event env out msg (x\<lparr>px_child := Some c'\<rparr>, w) = (e, x', w')"
      by (auto simp: px_WaitForEvent_def NextEvent_def split: prod.splits)
    with c show ?thesis by blast
  qed
qed

text \<open>
  C38: an artifact that a worker reports reaches the scheduler only after its payload is in the content
  store: the file of that name holds bytes with that SHA-256, and the index lists it. When the checks
  fail, the task has failed for good and the worker is gone.
\<close>

theorem px_artifact_verified:
  assumes "px_WaitForEvent env out t (x, w) = (Some e, x', w')" "px_has_store x" "store_ok w"
  shows "(ev_type e = EvArtifactProduced \<longrightarrow>
      (\<exists>b. payload_of (ev_artifact_ref e) w' = Some b \<and> Sha256Hex b = ev_artifact_ref e) \<and>
      tbl_get ar_content_hash (ev_artifact_ref e) (db_artifacts (w_db w')) \<noteq> None) \<and>
    store_ok w'"
proof -
  from px_WaitForEvent_frame [OF assms(1)] show ?thesis
  proof (elim disjE exE conjE)
    fix c ts msg
    assume m: "message_event env out msg (x\<lparr>px_child := ts\<rparr>, w) = (e, x', w')"
    show ?thesis
    proof (cases msg)
      case (MsgTaskArtifact tid a)
      with m have "artifact_event env out a (x\<lparr>px_child := ts\<rparr>, w) = (e, x', w')" by simp
      from artifact_event_stored [OF this _ assms(3)] assms(2) show ?thesis by (auto split: if_splits)
    qed (use m assms(3) in \<open>auto simp: Let_def split: if_splits\<close>)
  qed (use assms(3) in simp)
qed

section \<open>Inputs are there\<close>

lemma Get_hash: "Get h w = (Inr (Some b), w') \<Longrightarrow> Sha256Hex b = h"
  by (auto simp: Get_def sbind_def lift_w_def split: option.splits prod.splits sum.splits if_splits)

definition input_ready :: "string \<Rightarrow> (string \<times> byte list) list \<Rightarrow> ArtifactRef \<Rightarrow> bool" where
  "input_ready dir files ref \<longleftrightarrow> (\<exists>b. tbl_get fst (dir @ ''/'' @ ref) files = Some (dir @ ''/'' @ ref, b) \<and> Sha256Hex b = ref)"

lemma input_ready_replace:
  "Sha256Hex bytes = ref \<Longrightarrow> input_ready dir (tbl_replace fst (dir @ ''/'' @ ref, bytes) files) k \<longleftrightarrow> k = ref \<or> input_ready dir files k"
  by (auto simp: input_ready_def tbl_get_replace)

lemma materialize_loop_files:
  "materialize_loop dir refs (x, w) = (None, x', w') \<Longrightarrow>
   ref \<in> set refs \<or> input_ready dir (px_inputs x) ref \<Longrightarrow> input_ready dir (px_inputs x') ref"
proof (induction dir refs "(x, w)" arbitrary: x w rule: materialize_loop.induct)
  case (1 dir x w)
  then show ?case by auto
next
  case (2 dir r refs x w)
  obtain g w1 where g: "Get r w = (g, w1)" by fastforce
  from 2(2) g obtain bytes where b: "g = Inr (Some bytes)" "\<not> w_io_fault w1 (w_tick w1)"
    and rest: "materialize_loop dir refs
      (x\<lparr>px_inputs := tbl_replace fst (dir @ ''/'' @ r, bytes) (px_inputs x)\<rparr>, w_step w1) = (None, x', w')"
    by (auto split: sum.splits option.splits if_splits)
  have "Sha256Hex bytes = r" using Get_hash g b(1) by blast
  with 2(1) [OF g [symmetric] b(1) refl b(2) rest] 2(3) show ?case by (auto simp: input_ready_replace [simplified])
qed

lemma px_Submit_cases:
  assumes "px_Submit env request (x, w) = (Inr (), y, w')"
  obtains err where "rq_input_refs request \<noteq> []" "MaterializeInputs request (x, w) = (Some err, y\<lparr>px_pending_failure := px_pending_failure x,
        px_pending_failure_code := px_pending_failure_code x, px_pending_failure_message := px_pending_failure_message x,
        px_running := False, px_task_id := px_task_id x, px_task_uuid := px_task_uuid x\<rparr>, w')"
      "px_pending_failure y" "px_pending_failure_code y = ''WORKER_INPUT_MATERIALIZE''" "px_pending_failure_message y = err"
      "px_running y" "px_task_uuid y = rq_task_id request" "px_child y = px_child x" "px_shutdown y = px_shutdown x"
      "px_child x \<noteq> None" "\<not> px_shutdown x"
  | x1 where "rq_input_refs request = [] \<and> x1 = x \<or> MaterializeInputs request (x, w) = (None, x1, w')"
      "px_child x1 = px_child x" "y = (snd (send env (request_msg request) x1))\<lparr>px_running := True, px_cancel_pending := False,
        px_task_id := FormatUuid (rq_task_id request), px_task_uuid := rq_task_id request\<rparr>"
proof -
  from assms have free: "\<not> px_shutdown x" "px_child x \<noteq> None" "\<not> px_running x"
    by (auto simp: px_Submit_def split: if_splits)
  show ?thesis
  proof (cases "rq_input_refs request = []")
    case True
    with assms free that(2) [of x] show ?thesis by (auto simp: px_Submit_def)
  next
    case False
    obtain r x1 w1 where m: "MaterializeInputs request (x, w) = (r, x1, w1)" by (metis prod_cases3)
    from MaterializeInputs_exec [OF this] obtain files where x1: "x1 = x\<lparr>px_inputs := files\<rparr>" by blast
    show ?thesis
    proof (cases r)
      case None
      with assms free m x1 False that(2) [of x1] show ?thesis by (auto simp: px_Submit_def)
    next
      case (Some err)
      with assms free m x1 False have "w' = w1" "y = x1\<lparr>px_pending_failure := True, px_pending_failure_code := ''WORKER_INPUT_MATERIALIZE'',
          px_pending_failure_message := err, px_running := True,
          px_task_id := FormatUuid (rq_task_id request), px_task_uuid := rq_task_id request\<rparr>"
        by (auto simp: px_Submit_def)
      with free m x1 False Some that(1) [of err] show ?thesis by simp
    qed
  qed
qed

lemma send_inputs [simp]: "px_inputs (snd (send env msg x)) = px_inputs x"
  by (simp add: send_def split: option.split prod.split)

text \<open>
  A task whose request reached the worker's pipe has every declared input in its workspace, with the bytes its
  hash names; otherwise nothing is written to the worker, and the next event, without a look
  at the worker, is the task's final failure.
\<close>

theorem px_inputs_materialized:
  assumes "px_Submit env request (x, w) = (Inr (), y, w')"
  shows "(\<forall>ref\<in>set (rq_input_refs request). input_ready (rq_workspace request @ ''/inputs'') (px_inputs y) ref) \<or>
    px_child y = px_child x \<and>
    (\<exists>e. px_WaitForEvent env out t (y, v) = (Some e, idle (y\<lparr>px_pending_failure := False\<rparr>), v) \<and>
      ev_type e = EvFailed \<and> ev_error_code e = ''WORKER_INPUT_MATERIALIZE'' \<and> \<not> ev_recoverable e \<and>
      ev_task_id e = rq_task_id request)"
  using assms
proof (cases rule: px_Submit_cases)
  case (1 err)
  then show ?thesis
    by (auto simp: px_WaitForEvent_def) (auto simp: failed_out_def task_out_def)
next
  case (2 x1)
  show ?thesis
  proof (cases "rq_input_refs request = []")
    case False
    with 2 have m: "MaterializeInputs request (x, w) = (None, x1, w')" by simp
    then have "materialize_loop (rq_workspace request @ ''/inputs'') (rq_input_refs request) (x, w_step w) = (None, x1, w')"
      by (auto simp: MaterializeInputs_def Let_def split: if_splits)
    from materialize_loop_files [OF this] 2 show ?thesis by simp
  qed simp
qed

section \<open>Dead and silent workers\<close>

definition dead_worker :: "process_exec \<Rightarrow> bool" where
  "dead_worker x \<longleftrightarrow> (\<exists>c. px_child x = Some c \<and> ch_out c = []) \<and> \<not> px_shutdown x \<and> \<not> px_running x \<and> \<not> px_pending_failure x"

lemma ReadFrame_eof: "ch_out c = [] \<Longrightarrow> ReadFrame t c = (Inl True, c)"
  by (simp add: ReadFrame_def ReadExact.simps [of 4] ReadStdout_def)

lemma send_out: "px_child x = Some c \<Longrightarrow> \<exists>c'. px_child (snd (send env msg x)) = Some c' \<and> ch_out c' = ch_out c"
  by (auto simp: send_def WriteFrame_def Write_def split: prod.split)

text \<open>
  Once the worker has closed its output, every further task is accepted and then fails as a
  recoverable crash, and the executor is where it was: no process is started again, so
  that retrying cannot succeed.
\<close>

theorem dead_worker_never_recovers:
  assumes "dead_worker x" "rq_input_refs request = []"
  shows "\<exists>y e z. px_Submit env request (x, w) = (Inr (), y, w) \<and> px_WaitForEvent env out t (y, v) = (Some e, z, v) \<and>
    ev_type e = EvFailed \<and> ev_error_code e = ''WORKER_CRASHED'' \<and> ev_recoverable e \<and>
    ev_task_id e = rq_task_id request \<and> dead_worker z"
proof -
  from assms(1) obtain c where c: "px_child x = Some c" "ch_out c = []" by (auto simp: dead_worker_def)
  let ?y = "(snd (send env (request_msg request) x))\<lparr>px_running := True, px_cancel_pending := False,
     px_task_id := FormatUuid (rq_task_id request), px_task_uuid := rq_task_id request\<rparr>"
  from send_out [OF c(1)] c(2) obtain c' where c': "px_child ?y = Some c'" "ch_out c' = []" by auto
  have sub: "px_Submit env request (x, w) = (Inr (), ?y, w)"
    using assms c by (simp add: px_Submit_def dead_worker_def)
  have wait: "px_WaitForEvent env out t (?y, v) =
      (Some (MarkCrashed out (?y\<lparr>px_child := Some c'\<rparr>) ''worker process exited''), idle (?y\<lparr>px_child := Some c'\<rparr>), v)"
    using assms(1) c' by (simp add: px_WaitForEvent_def dead_worker_def NextEvent_def ReadFrame_eof)
  show ?thesis
    by (intro exI conjI, rule sub, rule wait)
      (use assms(1) c' in \<open>simp_all add: MarkCrashed_def failed_out_def task_out_def dead_worker_def\<close>)
qed

text \<open>
  After any number of timeouts the task is still in flight, so that a scheduler that gives the worker up and submits
  the task again gets WORKER_BUSY.
\<close>

theorem silent_worker_stays_busy:
  assumes "px_WaitForEvent env out t (x, w) = (None, x', w')" "px_running x" "px_child x \<noteq> None" "\<not> px_shutdown x"
  shows "px_running x' \<and> px_child x' \<noteq> None \<and> \<not> px_shutdown x' \<and>
    (\<exists>e. px_Submit env request (x', v) = (Inl e, x', v) \<and>
      e = throw_error kWorkerBusy ''worker already has a task in flight (max_concurrency = 1)'')"
proof -
  from assms(3) obtain c where c: "px_child x = Some c" by auto
  obtain f c' where f: "ReadFrame t c = (f, c')" by fastforce
  from assms(1,4) c f have "x' = x\<lparr>px_child := Some c'\<rparr>"
    by (auto simp: px_WaitForEvent_def NextEvent_def Let_def split: if_splits sum.splits option.splits prod.splits)
  with assms(2,4) show ?thesis by (simp add: px_Submit_def)
qed

section \<open>Frames that should not be there\<close>

lemma px_WaitForEvent_message:
  assumes "px_child x = Some c" "\<not> px_shutdown x" "\<not> px_pending_failure x" "TryParseFrame env f = Some msg"
    "fits_frame f" "stream c = frame_bytes f @ rest" "silences c \<le> patience t"
  shows "\<exists>c'. stream c' = rest \<and> silences c' \<le> silences c \<and> px_WaitForEvent env out t (x, w) =
    (case message_event env out msg (x\<lparr>px_child := Some c'\<rparr>, w) of (e, s) \<Rightarrow> (Some e, s))"
proof -
  from ReadFrame_frame [OF assms(5-7)] obtain c' where
    "ReadFrame t c = (Inr f, c')" "stream c' = rest" "silences c' \<le> silences c" by blast
  with assms(1-4) show ?thesis
    by (intro exI [of _ c']) (auto simp: px_WaitForEvent_def NextEvent_def split: prod.split)
qed

text \<open>
  A completion that follows the acknowledgement of a cancelled task is taken for the completion of
  the next task, which the worker may not have started.
\<close>

theorem stale_completion_ends_next_task:
  assumes x: "px_child x = Some c" "px_running x" "px_cancel_pending x" "\<not> px_shutdown x" "\<not> px_pending_failure x"
    and frames: "TryParseFrame env f = Some (MsgTaskProgress a p ''cancelled'' b)" "fits_frame f"
      "TryParseFrame env g = Some (MsgTaskCompleted d outputs)" "fits_frame g"
      "stream c = frame_bytes f @ frame_bytes g @ rest" "silences c \<le> patience t"
    and r: "rq_input_refs request = []"
  shows "\<exists>e x1 y e' z. px_WaitForEvent env out t (x, w) = (Some e, x1, w) \<and> ev_type e = EvCancelled \<and>
    px_Submit env request (x1, v) = (Inr (), y, v) \<and>
    px_WaitForEvent env out t (y, u) = (Some e', z, u) \<and> ev_type e' = EvCompleted \<and> ev_task_id e' = rq_task_id request"
proof -
  from px_WaitForEvent_message [OF x(1,4,5) frames(1,2,5,6)] obtain c1 where
    c1: "stream c1 = frame_bytes g @ rest" "silences c1 \<le> silences c"
    and w1: "px_WaitForEvent env out t (x, w) = (Some ((task_out out x EvProgress)\<lparr>ev_progress := p, ev_type := EvCancelled\<rparr>),
      idle (x\<lparr>px_child := Some c1\<rparr>), w)" using x(3) by (fastforce simp: task_out_def)
  let ?x1 = "idle (x\<lparr>px_child := Some c1\<rparr>)"
  let ?y = "(snd (send env (request_msg request) ?x1))\<lparr>px_running := True, px_cancel_pending := False,
     px_task_id := FormatUuid (rq_task_id request), px_task_uuid := rq_task_id request\<rparr>"
  from send_out [of ?x1 c1 env "request_msg request"] obtain c2 where
    c2: "px_child ?y = Some c2" "ch_out c2 = ch_out c1" by auto
  have sub: "px_Submit env request (?x1, v) = (Inr (), ?y, v)" using x(4) r by (simp add: px_Submit_def)
  have "stream c2 = frame_bytes g @ rest" "silences c2 \<le> patience t"
    using c1 c2(2) frames(6) by (simp_all add: stream_def silences_def)
  from px_WaitForEvent_message [OF c2(1) _ _ frames(3,4) this, of out u] x(4,5)
  have "\<exists>c3. px_WaitForEvent env out t (?y, u) = (Some (task_out out ?y EvCompleted), idle (?y\<lparr>px_child := Some c3\<rparr>), u)"
    by (auto simp: task_out_def)
  then obtain c3 where
    w2: "px_WaitForEvent env out t (?y, u) = (Some (task_out out ?y EvCompleted), idle (?y\<lparr>px_child := Some c3\<rparr>), u)"
    by blast
  show ?thesis by (intro exI conjI, rule w1, simp, rule sub, rule w2) (simp_all add: task_out_def)
qed

text \<open>
  A frame without a known message ends the task as a crash of the worker, with the process left
  as it is: still there and ready for the next task.
\<close>

theorem unknown_message_is_crash:
  assumes "px_child x = Some c" "\<not> px_shutdown x" "\<not> px_pending_failure x" "pe_parse env f = Some MsgNone"
    "fits_frame f" "stream c = frame_bytes f @ rest" "silences c \<le> patience t"
  shows "\<exists>e z c'. px_WaitForEvent env out t (x, w) = (Some e, z, w) \<and> ev_type e = EvFailed \<and>
    ev_error_code e = ''WORKER_CRASHED'' \<and> ev_recoverable e \<and> px_child z = Some c' \<and> stream c' = rest \<and> \<not> px_running z"
proof -
  from ReadFrame_frame [OF assms(5-7)] obtain c' where "ReadFrame t c = (Inr f, c')" "stream c' = rest" by blast
  with assms(1-4) have "px_WaitForEvent env out t (x, w) =
      (Some (MarkCrashed out (x\<lparr>px_child := Some c'\<rparr>) ''worker process exited''), idle (x\<lparr>px_child := Some c'\<rparr>), w)"
    by (simp add: px_WaitForEvent_def NextEvent_def TryParseFrame_def)
  with \<open>stream c' = rest\<close> show ?thesis by (simp add: MarkCrashed_def failed_out_def)
qed

section \<open>Concrete runs\<close>

definition demo_artifact :: ArtifactInfo where
  "demo_artifact = \<lparr>ai_artifact_id = ''a'', ai_content_hash = Sha256Hex [1, 2], ai_type = ''blob'', ai_size = 2,
     ai_mime = [], ai_manifest_json = enc_json (JObj [(''artifact_uuid'', JStr (FormatUuid (demo_id 1))),
       (''content_hash'', JStr (Sha256Hex [1, 2])), (''type'', JStr ''blob'')]), ai_payload_path = ''out''\<rparr>"

definition demo_proc_env :: proc_env where
  "demo_proc_env = \<lparr>pe_json = reference_json, pe_encode = (\<lambda>_. [9]),
     pe_parse = (\<lambda>f. if f = [1] then Some (MsgTaskArtifact [] demo_artifact)
       else if f = [2] then Some (MsgTaskProgress [] 0 ''cancelled'' [])
       else if f = [3] then Some (MsgTaskCompleted [] [])
       else if f = [4] then Some MsgNone else None),
     pe_file = (\<lambda>_ path. if path = ''out'' then Some [1, 2] else None), pe_running = (\<lambda>_. True)\<rparr>"

definition px_request :: TaskRequest where
  "px_request = \<lparr>rq_task_id = demo_id 7, rq_task_type = ''t'', rq_input_refs = [], rq_expected_output_refs = [],
     rq_config_json = [], rq_pipeline_hash = [], rq_workspace = ''w''\<rparr>"

text \<open>An executor with a task in flight.\<close>

definition demo_process :: "chunk list \<Rightarrow> process_exec" where
  "demo_process chunks = \<lparr>px_child = Some (child_of chunks),
     px_profile = \<lparr>pf_name = [], pf_capabilities = [], pf_capacity = \<lparr>rs_cores = 1, rs_ram_bytes = 0, rs_gpus = 0,
       rs_gpu_mem_bytes = 0, rs_temp_disk_bytes = 0\<rparr>, pf_max_concurrency = 1\<rparr>,
     px_id = demo_id 2, px_worker_id = [], px_protocol_version = 1, px_heartbeat_timeout_ms = 5000,
     px_has_store = True, px_running = True, px_cancel_pending = False, px_task_id = FormatUuid (demo_id 5),
     px_task_uuid = demo_id 5, px_shutdown = False, px_pending_failure = False, px_pending_failure_code = [],
     px_pending_failure_message = [], px_inputs = []\<rparr>"

lemma demo_frame: "fits_frame [b]"
  by (simp add: fits_frame_def kMaxFrameSize_def)

lemma demo_stream: "stream (child_of [Data bs]) = bs" "silences (child_of [Data bs]) = 0"
  by (simp_all add: stream_def silences_def child_of_def)

lemma demo_silence:
  "px_WaitForEvent demo_proc_env default_event 0 (demo_process [Silence, Data [1]], w) = (None, demo_process [Data [1]], w)"
proof -
  have "ReadFrame 0 (child_of [Silence, Data [1]]) = (Inl False, child_of [Data [1]])"
    using ReadFrame_silent [of "child_of [Silence, Data [1]]" 0 "[Data [1]]"]
    by (simp add: child_of_def patience.simps)
  then show ?thesis by (simp add: px_WaitForEvent_def NextEvent_def demo_process_def)
qed

lemma px_event_frees_worker_witness:
  "px_running (fst (snd (px_WaitForEvent demo_proc_env default_event 0 (demo_process [Silence, Data [1]], empty_world))))"
proof -
  have "px_inv (demo_process [Silence, Data [1]])" by (simp add: px_inv_def demo_process_def)
  from px_event_frees_worker [OF demo_silence this] have "px_running (demo_process [Data [1]])"
    by (simp add: demo_process_def)
  then show ?thesis by (simp add: demo_silence)
qed

lemma silent_worker_stays_busy_witness:
  "\<exists>e. fst (px_Submit demo_proc_env px_request
     (fst (snd (px_WaitForEvent demo_proc_env default_event 0 (demo_process [Silence, Data [1]], empty_world))), empty_world)) = Inl e"
proof -
  have "px_running (demo_process [Silence, Data [1]])" "px_child (demo_process [Silence, Data [1]]) \<noteq> None"
    "\<not> px_shutdown (demo_process [Silence, Data [1]])" by (simp_all add: demo_process_def)
  from silent_worker_stays_busy [OF demo_silence this, where request = px_request and v = empty_world] show ?thesis
    by (auto simp: demo_silence)
qed

lemma demo_manifest:
  "\<exists>m. ManifestFromJsonString reference_json (ai_manifest_json demo_artifact) = Inr m \<and> am_content_hash m = Sha256Hex [1, 2]"
proof -
  let ?j = "JObj [(''artifact_uuid'', JStr (FormatUuid (demo_id 1))), (''content_hash'', JStr (Sha256Hex [1, 2])),
    (''type'', JStr ''blob'')]"
  have "dec_json (length (enc_json ?j)) (enc_json ?j) = Some (?j, [])"
    using dec_enc_json [of ?j "length (enc_json ?j)" "[]"] by simp
  moreover have "\<exists>m. manifest_from reference_json ?j = Inr m \<and> am_content_hash m = Sha256Hex [1, 2]"
    by (simp add: manifest_from_def GetRequiredString_def json_member_def optional_field_def optional_string_def
        optional_int_def producer_from_def reference_json_def format_parse demo_id_def)
  ultimately show ?thesis
    by (simp add: ManifestFromJsonString_def demo_artifact_def) (simp add: reference_json_def)
qed

lemma demo_ingest:
  "\<exists>w. IngestArtifact demo_proc_env demo_artifact (x, empty_world) = (if px_has_store x then None else
     Some ''CAS ingest requires an artifact store (none configured)'', x, if px_has_store x then w else empty_world)"
proof -
  obtain m where m: "ManifestFromJsonString reference_json (ai_manifest_json demo_artifact) = Inr m" "am_content_hash m = Sha256Hex [1, 2]"
    using demo_manifest by blast
  have "calm (w_step (w_step empty_world))" using calm_empty by simp
  from Put_returns [OF reference_json_dumps this] obtain r w where
    "Put reference_json [1, 2] m (w_step (w_step empty_world)) = (Inr r, w)" by blast
  moreover have "pe_json demo_proc_env = reference_json" "pe_file demo_proc_env n (ai_payload_path demo_artifact) = Some [1, 2]"
    "ai_payload_path demo_artifact \<noteq> []" "ai_content_hash demo_artifact = Sha256Hex [1, 2]"
    "ai_manifest_json demo_artifact \<noteq> []" "\<not> w_io_fault (w_step empty_world) n" for n
    by (simp_all add: demo_proc_env_def demo_artifact_def empty_world_def w_step_def)
  ultimately show ?thesis using m by (auto simp: IngestArtifact_def Let_def)
qed

lemma px_artifact_verified_witness:
  "\<exists>e x w. px_WaitForEvent demo_proc_env default_event 0 (demo_process [Data (frame_bytes [1])], empty_world) = (Some e, x, w) \<and>
     ev_type e = EvArtifactProduced \<and> payload_of (Sha256Hex [1, 2]) w \<noteq> None"
proof -
  let ?x = "demo_process [Data (frame_bytes [1])]"
  have x: "px_child ?x = Some (child_of [Data (frame_bytes [1])])" "\<not> px_shutdown ?x" "\<not> px_pending_failure ?x" "px_has_store ?x"
    by (simp_all add: demo_process_def)
  have f: "TryParseFrame demo_proc_env [1] = Some (MsgTaskArtifact [] demo_artifact)"
    by (simp add: TryParseFrame_def demo_proc_env_def)
  have "stream (child_of [Data (frame_bytes [1])]) = frame_bytes [1] @ []" "silences (child_of [Data (frame_bytes [1])]) \<le> patience 0"
    by (simp_all add: demo_stream)
  from px_WaitForEvent_message [OF x(1-3) f demo_frame this, of default_event empty_world] obtain c' where
    wait: "px_WaitForEvent demo_proc_env default_event 0 (?x, empty_world) =
      (case artifact_event demo_proc_env default_event demo_artifact (?x\<lparr>px_child := Some c'\<rparr>, empty_world) of (e, s) \<Rightarrow> (Some e, s))"
    by auto
  from demo_ingest [of "?x\<lparr>px_child := Some c'\<rparr>"] x(4) obtain e y w where
    run: "px_WaitForEvent demo_proc_env default_event 0 (?x, empty_world) = (Some e, y, w)"
    and e: "ev_type e = EvArtifactProduced" "ev_artifact_ref e = Sha256Hex [1, 2]"
    unfolding wait by (auto simp: artifact_event_def Let_def demo_artifact_def)
  from px_artifact_verified [OF run x(4) store_ok_empty] e run show ?thesis by auto
qed

lemma px_inputs_materialized_witness:
  "\<exists>y. px_Submit demo_proc_env (px_request\<lparr>rq_input_refs := [''h'']\<rparr>) ((demo_process [])\<lparr>px_running := False\<rparr>, empty_world)
      = (Inr (), y, w_step empty_world) \<and>
    fst (px_WaitForEvent demo_proc_env default_event 0 (y, empty_world)) \<noteq> None"
proof -
  let ?r = "px_request\<lparr>rq_input_refs := [''h'']\<rparr>" and ?x = "(demo_process [])\<lparr>px_running := False\<rparr>"
  have g: "Get ''h'' (w_step empty_world) = (Inr None, w_step empty_world)"
    by (simp add: Get_def payload_of_def empty_world_def w_step_def)
  have m: "MaterializeInputs ?r (?x, empty_world) = (Some (''input not in CAS: '' @ ''h''), ?x, w_step empty_world)"
    by (simp add: MaterializeInputs_def demo_process_def g Let_def px_request_def) (simp add: empty_world_def)
  have sub: "\<exists>y. px_Submit demo_proc_env ?r (?x, empty_world) = (Inr (), y, w_step empty_world) \<and> px_inputs y = []"
    by (simp add: px_Submit_def m) (simp add: demo_process_def)
  then obtain y where y: "px_Submit demo_proc_env ?r (?x, empty_world) = (Inr (), y, w_step empty_world)" "px_inputs y = []" by blast
  from px_inputs_materialized [OF y(1), where t = 0 and v = empty_world and out = default_event] y show ?thesis
    by (auto simp: input_ready_def px_request_def)
qed

lemma dead_worker_never_recovers_witness:
  "\<exists>y. px_Submit demo_proc_env px_request ((demo_process [])\<lparr>px_running := False\<rparr>, empty_world) = (Inr (), y, empty_world)"
proof -
  have "dead_worker ((demo_process [])\<lparr>px_running := False\<rparr>)"
    by (simp add: dead_worker_def demo_process_def child_of_def)
  moreover have "rq_input_refs px_request = []" by (simp add: px_request_def)
  ultimately show ?thesis using dead_worker_never_recovers by blast
qed

lemma stale_completion_ends_next_task_witness:
  "\<exists>e x y e' z. px_WaitForEvent demo_proc_env default_event 0
       ((demo_process [Data (frame_bytes [2] @ frame_bytes [3])])\<lparr>px_cancel_pending := True\<rparr>, empty_world) = (Some e, x, empty_world) \<and>
     px_Submit demo_proc_env px_request (x, empty_world) = (Inr (), y, empty_world) \<and>
     px_WaitForEvent demo_proc_env default_event 0 (y, empty_world) = (Some e', z, empty_world) \<and> ev_task_id e' = demo_id 7"
proof -
  let ?x = "(demo_process [Data (frame_bytes [2] @ frame_bytes [3])])\<lparr>px_cancel_pending := True\<rparr>"
  have x: "px_child ?x = Some (child_of [Data (frame_bytes [2] @ frame_bytes [3])])" "px_running ?x" "px_cancel_pending ?x"
    "\<not> px_shutdown ?x" "\<not> px_pending_failure ?x" by (simp_all add: demo_process_def)
  have f: "TryParseFrame demo_proc_env [2] = Some (MsgTaskProgress [] 0 ''cancelled'' [])"
    "TryParseFrame demo_proc_env [3] = Some (MsgTaskCompleted [] [])" by (simp_all add: TryParseFrame_def demo_proc_env_def)
  have st: "stream (child_of [Data (frame_bytes [2] @ frame_bytes [3])]) = frame_bytes [2] @ frame_bytes [3] @ []"
    "silences (child_of [Data (frame_bytes [2] @ frame_bytes [3])]) \<le> patience 0" by (simp_all add: demo_stream)
  have r: "rq_input_refs px_request = []" by (simp add: px_request_def)
  from stale_completion_ends_next_task [OF x f(1) demo_frame f(2) demo_frame st r, of default_event empty_world empty_world empty_world]
  show ?thesis by (fastforce simp: px_request_def)
qed

lemma unknown_message_is_crash_witness:
  "\<exists>e z. px_WaitForEvent demo_proc_env default_event 0 (demo_process [Data (frame_bytes [4])], empty_world) = (Some e, z, empty_world) \<and>
     ev_error_code e = ''WORKER_CRASHED'' \<and> \<not> px_running z"
proof -
  have x: "px_child (demo_process [Data (frame_bytes [4])]) = Some (child_of [Data (frame_bytes [4])])"
    "\<not> px_shutdown (demo_process [Data (frame_bytes [4])])" "\<not> px_pending_failure (demo_process [Data (frame_bytes [4])])"
    "pe_parse demo_proc_env [4] = Some MsgNone" by (simp_all add: demo_process_def demo_proc_env_def)
  have "stream (child_of [Data (frame_bytes [4])]) = frame_bytes [4] @ []" "silences (child_of [Data (frame_bytes [4])]) \<le> patience 0"
    by (simp_all add: demo_stream)
  from unknown_message_is_crash [OF x demo_frame this] show ?thesis by blast
qed

end
