(* ===== verification/Transactions.thy ===== *)
theory Transactions
  imports MetadataDb
begin

text \<open>
  Transactions of core/storage/metadata_db.cpp. A connection holds the tables as it sees them and,
  while a transaction is open, the tables of its BEGIN: what a reader of the file would find. The
  lemmas show that a write that throws leaves the file as it was, whichever call failed, the
  ROLLBACK included.
\<close>

section \<open>The connection's transaction state\<close>

record 't tx_conn = conn +
  tx_tables :: 't
  tx_saved :: "'t option"

type_synonym ('a, 't) tx_op = "'t tx_conn \<Rightarrow> 'a res \<times> 't tx_conn"

definition open_conn :: "'t \<Rightarrow> 't tx_conn" where
  "open_conn t = \<lparr>db_open = True, db_read_only = False, db_fault = (\<lambda>_. False), db_tick = 0,
     tx_tables = t, tx_saved = None\<rparr>"

text \<open>What is on disk: an open transaction is undone when the connection goes away.\<close>

definition committed :: "'t tx_conn \<Rightarrow> 't" where
  "committed d = (case tx_saved d of None \<Rightarrow> tx_tables d | Some t \<Rightarrow> t)"

section \<open>Statements\<close>

text \<open>\<open>MetadataDb::Exec\<close> of BEGIN, COMMIT and ROLLBACK; SQLite refuses a BEGIN inside a
  transaction, and the other two outside of one.\<close>

definition exec_begin :: "string \<Rightarrow> (unit, 't) tx_op" where
  "exec_begin what = sql_write (schema_error what)
     (\<lambda>d. case tx_saved d of None \<Rightarrow> Some (d\<lparr>tx_saved := Some (tx_tables d)\<rparr>) | Some _ \<Rightarrow> None)"

definition exec_commit :: "string \<Rightarrow> (unit, 't) tx_op" where
  "exec_commit what = sql_write (schema_error what)
     (\<lambda>d. case tx_saved d of None \<Rightarrow> None | Some _ \<Rightarrow> Some (d\<lparr>tx_saved := None\<rparr>))"

definition exec_rollback :: "string \<Rightarrow> (unit, 't) tx_op" where
  "exec_rollback what = sql_write (schema_error what)
     (\<lambda>d. case tx_saved d of None \<Rightarrow> None | Some t \<Rightarrow> Some (d\<lparr>tx_tables := t, tx_saved := None\<rparr>))"

text \<open>One step of a statement that changes the tables; \<open>None\<close> is a violated constraint.\<close>

definition sql_modify :: "exn \<Rightarrow> ('t \<Rightarrow> 't option) \<Rightarrow> (unit, 't) tx_op" where
  "sql_modify e f = sql_write e (\<lambda>d. map_option (\<lambda>t. d\<lparr>tx_tables := t\<rparr>) (f (tx_tables d)))"

text \<open>\<open>if (read_only_) throw\<close> at the head of every write.\<close>

definition write_op :: "('a, 't) tx_op \<Rightarrow> ('a, 't) tx_op" where
  "write_op m d = (if db_read_only d then (Inl read_only_error, d) else m d)"

definition statement :: "string \<Rightarrow> string \<Rightarrow> ('t \<Rightarrow> 't option) \<Rightarrow> (unit, 't) tx_op" where
  "statement prepare_what step_what f =
     sbind (sql_call (schema_error prepare_what)) (\<lambda>_. sql_modify (schema_error step_what) f)"

definition query_one :: "string \<Rightarrow> ('t \<Rightarrow> 'r option) \<Rightarrow> ('r option, 't) tx_op" where
  "query_one prepare_what f =
     sbind (sql_call (schema_error prepare_what)) (\<lambda>_. sql_first (\<lambda>d. f (tx_tables d)))"

definition query_rows :: "string \<Rightarrow> ('t \<Rightarrow> 'r list) \<Rightarrow> ('r list, 't) tx_op" where
  "query_rows prepare_what f =
     sbind (sql_call (schema_error prepare_what)) (\<lambda>_ d. fetch_rows (f (tx_tables d)) d)"

text \<open>
  \<open>Exec("BEGIN ..."); try { ...; Exec("COMMIT;") } catch (...) { Exec("ROLLBACK;"); throw; }\<close>. A
  ROLLBACK that fails throws in place of the first exception and leaves the transaction open.
\<close>

definition transaction :: "string \<Rightarrow> ('a, 't) tx_op \<Rightarrow> ('a, 't) tx_op" where
  "transaction what body =
     sbind (exec_begin (''begin '' @ what)) (\<lambda>_ d.
       case sbind body (\<lambda>x. sbind (exec_commit (''commit '' @ what)) (\<lambda>_. sret x)) d of
         (Inl e, d') \<Rightarrow> sbind (exec_rollback (''rollback '' @ what)) (\<lambda>_. sthrow e) d'
       | (Inr x, d') \<Rightarrow> (Inr x, d'))"

section \<open>WriteTransaction\<close>

text \<open>
  The scope object: the constructor begins, \<open>Commit\<close> and \<open>Rollback\<close> act once, the destructor rolls
  back what was not finished; the argument and result \<open>bool\<close> is \<open>done_\<close>.
\<close>

definition WriteTransaction_begin :: "(bool, 't) tx_op" where
  "WriteTransaction_begin d =
     (if db_read_only d
      then (Inl (throw_error kStorageReadOnly ''cannot begin a write transaction on a read-only project''), d)
      else sbind (exec_begin ''begin write transaction'') (\<lambda>_. sret False) d)"

definition WriteTransaction_Commit :: "bool \<Rightarrow> (bool, 't) tx_op" where
  "WriteTransaction_Commit finished =
     (if finished then sret True else sbind (exec_commit ''commit write transaction'') (\<lambda>_. sret True))"

definition WriteTransaction_Rollback :: "bool \<Rightarrow> (bool, 't) tx_op" where
  "WriteTransaction_Rollback finished d =
     (if finished then (Inr True, d) else (Inr True, snd (exec_rollback ''rollback write transaction'' d)))"

definition WriteTransaction_end :: "bool \<Rightarrow> 't tx_conn \<Rightarrow> 't tx_conn" where
  "WriteTransaction_end finished d =
     (if finished then d else snd (exec_rollback ''rollback write transaction'' d))"

text \<open>The scope as callers write it: the work, \<open>Commit\<close>, and the destructor on every way out.\<close>

definition with_write_transaction :: "('a, 't) tx_op \<Rightarrow> ('a, 't) tx_op" where
  "with_write_transaction body =
     sbind WriteTransaction_begin (\<lambda>finished d.
       case sbind body (\<lambda>x. sbind (WriteTransaction_Commit finished) (\<lambda>b. sret (x, b))) d of
         (Inl e, d') \<Rightarrow> (Inl e, WriteTransaction_end finished d')
       | (Inr (x, b), d') \<Rightarrow> (Inr x, WriteTransaction_end b d'))"

section \<open>Lemmas\<close>

lemma tx_tick_simps [simp]:
  "tx_tables (sql_tick d) = tx_tables d" "tx_saved (sql_tick d) = tx_saved d"
  by (simp_all add: sql_tick_def)

lemma committed_simps [simp]:
  "tx_saved d = None \<Longrightarrow> committed d = tx_tables d" "tx_saved d = Some t \<Longrightarrow> committed d = t"
  "committed (sql_tick d) = committed d"
  by (cases "tx_saved d"; simp add: committed_def)+

lemma committed_cong: "tx_tables d = tx_tables d' \<Longrightarrow> tx_saved d = tx_saved d' \<Longrightarrow> committed d = committed d'"
  by (cases "tx_saved d'") auto

text \<open>What every statement inside a transaction leaves alone: the saved tables and the mode.\<close>

definition same_mode :: "'t tx_conn \<Rightarrow> 't tx_conn \<Rightarrow> bool" where
  "same_mode d d' \<longleftrightarrow> tx_saved d' = tx_saved d \<and> db_read_only d' = db_read_only d \<and> db_open d' = db_open d
     \<and> db_fault d' = db_fault d"

named_theorems inside_intros

definition inside :: "('a, 't) tx_op \<Rightarrow> bool" where
  "inside m \<longleftrightarrow> (\<forall>d. same_mode d (snd (m d)))"

lemma same_mode_refl [simp]: "same_mode d d"
  by (simp add: same_mode_def)

lemma same_mode_trans: "same_mode a b \<Longrightarrow> same_mode b c \<Longrightarrow> same_mode a c"
  by (simp add: same_mode_def)

lemma same_mode_tick [simp]: "same_mode a (sql_tick b) \<longleftrightarrow> same_mode a b"
  by (simp add: same_mode_def)

lemma same_mode_modify [simp]: "same_mode a (b\<lparr>tx_tables := t\<rparr>) \<longleftrightarrow> same_mode a b"
  by (simp add: same_mode_def)

lemma insideD: "inside m \<Longrightarrow> m d = (r, d') \<Longrightarrow> same_mode d d'"
  by (metis inside_def snd_conv)

lemma inside_sbind [inside_intros]:
  assumes "inside m" "\<And>x. inside (f x)" shows "inside (sbind m f)"
  unfolding inside_def
proof
  fix d
  obtain r t where m: "m d = (r, t)" by fastforce
  with insideD [OF assms(1)] have "same_mode d t" by blast
  moreover have "same_mode t (snd (f x t))" for x using assms(2) [of x] by (simp add: inside_def)
  ultimately show "same_mode d (snd (sbind m f d))"
    using m same_mode_trans by (cases r) (auto simp: sx_simps)
qed

lemma inside_basic [inside_intros]:
  "inside (sret x)" "inside (sthrow e)" "inside (lift_res r)" "inside (sql_call e)" "inside (sql_first f)"
  "inside (sql_modify e g)"
  by (auto simp: inside_def sret_def sthrow_def lift_res_def sql_call_def sql_first_def sql_modify_def sql_write_def
      split: option.split)

lemma inside_fetch: "same_mode d (snd (fetch_rows rs d))"
proof (induction rs arbitrary: d)
  case (Cons r rs)
  from Cons [of "sql_tick d"] have "same_mode d (snd (fetch_rows rs (sql_tick d)))"
    by (simp add: same_mode_def)
  then show ?case by (auto split: prod.splits sum.splits)
qed simp

lemma inside_fetch_fun [inside_intros]: "inside (\<lambda>d. fetch_rows (f (tx_tables d)) d)"
  by (simp add: inside_def inside_fetch)

lemma inside_statement [inside_intros]: "inside (statement p s f)"
  by (simp add: statement_def inside_intros)

lemma inside_query [inside_intros]: "inside (query_one p f)" "inside (query_rows p g)"
  by (simp_all add: query_one_def query_rows_def inside_intros)

lemma inside_case_option [inside_intros]:
  "inside m \<Longrightarrow> (\<And>x. inside (f x)) \<Longrightarrow> inside (case r of None \<Rightarrow> m | Some x \<Rightarrow> f x)"
  by (cases r) auto

lemma inside_if [inside_intros]: "inside m \<Longrightarrow> inside n \<Longrightarrow> inside (if b then m else n)"
  by simp

text \<open>A single statement that throws has changed nothing.\<close>

lemma statement_atomic: "statement p s f d = (Inl e, d') \<Longrightarrow> tx_tables d' = tx_tables d \<and> same_mode d d'"
  by (auto simp: statement_def sbind_def sql_call_def sql_modify_def sql_write_def same_mode_def
      split: if_splits option.splits)

lemma statement_Inr:
  assumes "statement p s f d = (Inr u, d')"
  shows "f (tx_tables d) = Some (tx_tables d') \<and> same_mode d d'"
  using assms
  by (auto simp: statement_def sbind_def sql_call_def sql_modify_def sql_write_def same_mode_def
      split: if_splits option.splits)

lemma exec_rollback_cases:
  fixes w :: string
  assumes "tx_saved d = Some t"
  obtains "exec_rollback w d = (Inr (), sql_tick (d\<lparr>tx_tables := t, tx_saved := None\<rparr>))"
  | "exec_rollback w d = (Inl (schema_error w), sql_tick d)"
  using assms by (cases "sql_fails d") (auto simp: exec_rollback_def sql_write_def)

lemma exec_begin_Inr:
  "exec_begin w d = (Inr u, d') \<longleftrightarrow> tx_saved d = None \<and> \<not> sql_fails d
     \<and> d' = sql_tick (d\<lparr>tx_saved := Some (tx_tables d)\<rparr>)"
  by (auto simp: exec_begin_def sql_write_def split: option.split)

lemma exec_begin_Inl: "exec_begin w d = (Inl e, d') \<Longrightarrow> d' = sql_tick d \<and> e = schema_error w"
  by (auto simp: exec_begin_def sql_write_def split: option.splits if_splits)

lemma exec_commit_Inr:
  "exec_commit w d = (Inr u, d') \<longleftrightarrow> tx_saved d \<noteq> None \<and> \<not> sql_fails d \<and> d' = sql_tick (d\<lparr>tx_saved := None\<rparr>)"
  by (auto simp: exec_commit_def sql_write_def split: option.split)

lemma exec_commit_Inl: "exec_commit w d = (Inl e, d') \<Longrightarrow> d' = sql_tick d"
  by (auto simp: exec_commit_def sql_write_def split: option.splits if_splits)

text \<open>The end of a transaction's body: it threw, the COMMIT failed, or all was committed.\<close>

lemma body_cases:
  assumes body: "inside body" and d: "tx_saved d = Some t"
    and run: "sbind body (\<lambda>x. sbind (exec_commit w) (\<lambda>_. sret x)) d = (r, d')"
  obtains (thrown) e where "r = Inl e" "tx_saved d' = Some t"
  | (finished) x d1 where "r = Inr x" "body d = (Inr x, d1)" "d' = sql_tick (d1\<lparr>tx_saved := None\<rparr>)"
proof -
  obtain r1 d1 where b: "body d = (r1, d1)" by fastforce
  with insideD [OF body] d have saved: "tx_saved d1 = Some t" by (auto simp: same_mode_def)
  show thesis
  proof (cases r1)
    case (Inl e)
    with b run saved that(1) show thesis by (auto simp: sx_simps)
  next
    case (Inr x)
    obtain r2 d2 where c: "exec_commit w d1 = (r2, d2)" by fastforce
    show thesis
    proof (cases r2)
      case (Inl e)
      with c b Inr run saved exec_commit_Inl [of w d1 e d2] that(1) show thesis
        by (auto simp: sx_simps)
    next
      case Inr2: (Inr u)
      with c have "d2 = sql_tick (d1\<lparr>tx_saved := None\<rparr>)" by (simp add: exec_commit_Inr)
      with c Inr2 b Inr run that(2) show thesis by (auto simp: sx_simps)
    qed
  qed
qed

text \<open>The three ways out of a transaction.\<close>

lemma transaction_cases:
  assumes body: "inside body" and run: "transaction what body d = (r, d')"
  obtains (not_begun) e where "r = Inl e" "d' = sql_tick d"
  | (undone) e where "r = Inl e" "tx_saved d = None" "tx_saved d' = None" "tx_tables d' = tx_tables d"
  | (stuck) e where "r = Inl e" "tx_saved d = None" "tx_saved d' = Some (tx_tables d)"
  | (finished) x d1 where "r = Inr x" "tx_saved d = None" "\<not> sql_fails d"
      "body (sql_tick (d\<lparr>tx_saved := Some (tx_tables d)\<rparr>)) = (Inr x, d1)" "d' = sql_tick (d1\<lparr>tx_saved := None\<rparr>)"
proof -
  obtain rb db where b: "exec_begin (''begin '' @ what) d = (rb, db)" by fastforce
  show thesis
  proof (cases rb)
    case (Inl e)
    with b run exec_begin_Inl [of _ d e db] not_begun show thesis
      by (auto simp: transaction_def sx_simps)
  next
    case (Inr u)
    with b have begun: "tx_saved d = None" "\<not> sql_fails d" "db = sql_tick (d\<lparr>tx_saved := Some (tx_tables d)\<rparr>)"
      by (auto simp: exec_begin_Inr)
    obtain r1 d1 where m: "sbind body (\<lambda>x. sbind (exec_commit (''commit '' @ what)) (\<lambda>_. sret x)) db = (r1, d1)"
      by fastforce
    from begun have saved: "tx_saved db = Some (tx_tables d)" by simp
    show thesis
      using body saved m
    proof (cases rule: body_cases)
      case (thrown e)
      from thrown(2) show thesis
      proof (cases rule: exec_rollback_cases [where w = "''rollback '' @ what"])
        case 1
        with thrown m b Inr run begun undone show thesis by (auto simp: transaction_def sx_simps)
      next
        case 2
        with thrown m b Inr run begun stuck show thesis by (auto simp: transaction_def sx_simps)
      qed
    next
      case (finished x d2)
      with m b Inr run begun that(4) show thesis by (auto simp: transaction_def sx_simps)
    qed
  qed
qed

lemma transaction_atomic:
  assumes "inside body" "transaction what body d = (Inl e, d')"
  shows "committed d' = committed d"
  using assms by (cases rule: transaction_cases) auto

text \<open>When nothing failed, a transaction is its body.\<close>

lemma transaction_returns:
  assumes "inside body" "transaction what body d = (Inr x, d')"
  shows "tx_saved d = None \<and> tx_saved d' = None
    \<and> (\<exists>d0 d1. tx_tables d0 = tx_tables d \<and> db_fault d0 = db_fault d \<and> db_tick d0 = Suc (db_tick d)
        \<and> db_open d0 = db_open d \<and> body d0 = (Inr x, d1) \<and> tx_tables d' = tx_tables d1)"
  using assms
proof (cases rule: transaction_cases)
  case (finished y d1)
  then show ?thesis
    by (intro conjI exI [of _ "sql_tick (d\<lparr>tx_saved := Some (tx_tables d)\<rparr>)"] exI [of _ d1]) auto
qed auto

text \<open>An invariant of the committed tables.\<close>

lemma transaction_keeps:
  assumes "inside body" "P (committed d)" "transaction what body d = (r, d')"
    and "\<And>x d0 d1. body d0 = (Inr x, d1) \<Longrightarrow> tx_tables d0 = tx_tables d \<Longrightarrow> db_fault d0 = db_fault d
           \<Longrightarrow> db_tick d0 = Suc (db_tick d) \<Longrightarrow> db_open d0 = db_open d \<Longrightarrow> P (tx_tables d0) \<Longrightarrow> P (tx_tables d1)"
  shows "P (committed d')"
  using assms(1,3)
proof (cases rule: transaction_cases)
  case (finished x d1)
  with assms(2) assms(4) [OF finished(4)] show ?thesis by simp
qed (use assms(2) in auto)

lemma query_one_Inr:
  assumes "query_one p f d = (Inr x, d')"
  shows "tx_tables d' = tx_tables d \<and> same_mode d d' \<and> db_tick d' = db_tick d + 2 \<and> db_open d
    \<and> x = (if db_fault d (Suc (db_tick d)) then None else f (tx_tables d))"
  using assms by (auto simp: query_one_def sbind_def sql_call_def sql_first_def sql_fails_def same_mode_def split: if_splits)

lemma query_one_Inl: "query_one p f d = (Inl e, d') \<Longrightarrow> tx_tables d' = tx_tables d \<and> same_mode d d'"
  by (auto simp: query_one_def sbind_def sql_call_def sql_first_def same_mode_def split: if_splits)

text \<open>A query that stops at a failed step has read a prefix of the answer.\<close>

lemma fetch_rows_take:
  "\<exists>n. fetch_rows rs d = (Inr (take n rs), d\<lparr>db_tick := db_tick d + Suc (min n (length rs))\<rparr>)
     \<and> (\<not> (\<exists>k. db_fault d k) \<and> db_open d \<longrightarrow> length rs \<le> n)"
proof (induction rs arbitrary: d)
  case Nil
  show ?case by (simp add: sql_tick_def)
next
  case (Cons r rs)
  show ?case
  proof (cases "sql_fails d")
    case True
    then have "fetch_rows (r # rs) d = (Inr (take 0 (r # rs)), d\<lparr>db_tick := db_tick d + Suc (min 0 (length (r # rs)))\<rparr>)"
      by (simp add: sql_tick_def)
    moreover from True have "\<not> (\<not> (\<exists>k. db_fault d k) \<and> db_open d)" by (auto simp: sql_fails_def)
    ultimately show ?thesis by blast
  next
    case False
    from Cons [of "sql_tick d"] obtain n where n:
      "fetch_rows rs (sql_tick d) = (Inr (take n rs), (sql_tick d)\<lparr>db_tick := db_tick (sql_tick d) + Suc (min n (length rs))\<rparr>)"
      "\<not> (\<exists>k. db_fault d k) \<and> db_open d \<longrightarrow> length rs \<le> n" by auto
    with False have "fetch_rows (r # rs) d
        = (Inr (take (Suc n) (r # rs)), d\<lparr>db_tick := db_tick d + Suc (min (Suc n) (length (r # rs)))\<rparr>)"
      by (simp add: sql_tick_def)
    with n(2) show ?thesis by (metis Suc_le_mono length_Cons)
  qed
qed

lemma query_rows_take:
  assumes "query_rows p f d = (Inr xs, d')"
  obtains n where "xs = take n (f (tx_tables d))" "tx_tables d' = tx_tables d" "same_mode d d'"
    "\<not> (\<exists>k. db_fault d k) \<Longrightarrow> xs = f (tx_tables d)"
proof -
  from assms have d: "\<not> sql_fails d" and f: "fetch_rows (f (tx_tables d)) (sql_tick d) = (Inr xs, d')"
    by (auto simp: query_rows_def sbind_def sql_call_def split: if_splits)
  from fetch_rows_take [of "f (tx_tables d)" "sql_tick d"] obtain n where
    n: "fetch_rows (f (tx_tables d)) (sql_tick d) = (Inr (take n (f (tx_tables d))),
          (sql_tick d)\<lparr>db_tick := db_tick (sql_tick d) + Suc (min n (length (f (tx_tables d))))\<rparr>)"
      "\<not> (\<exists>k. db_fault d k) \<and> db_open d \<Longrightarrow> length (f (tx_tables d)) \<le> n" by auto
  from n(1) f have eq: "xs = take n (f (tx_tables d))"
    "d' = (sql_tick d)\<lparr>db_tick := db_tick (sql_tick d) + Suc (min n (length (f (tx_tables d))))\<rparr>" by auto
  from d have "db_open d" by (simp add: sql_fails_def)
  with eq n(2) show thesis by (intro that [of n]) (auto simp: same_mode_def)
qed

lemma query_rows_Inl: "query_rows p f d = (Inl e, d') \<Longrightarrow> tx_tables d' = tx_tables d \<and> same_mode d d'"
  using fetch_rows_take [of "f (tx_tables d)" "sql_tick d"]
  by (auto simp: query_rows_def sbind_def sql_call_def same_mode_def split: if_splits)

lemma query_rows_healthy:
  assumes "db_open d" "\<And>k. \<not> db_fault d k"
  shows "\<exists>d'. query_rows p f d = (Inr (f (tx_tables d)), d') \<and> tx_tables d' = tx_tables d \<and> same_mode d d'"
proof -
  from assms have ok: "sql_call (schema_error p) d = (Inr (), sql_tick d)" by (simp add: sql_call_def sql_fails_def)
  from fetch_rows_take [of "f (tx_tables d)" "sql_tick d"] assms ok show ?thesis
    by (auto simp: query_rows_def sx_simps same_mode_def)
qed

text \<open>The scope object commits all of its work or nothing.\<close>

lemma with_write_transaction_atomic:
  assumes body: "inside body" and run: "with_write_transaction body d = (Inl e, d')"
  shows "committed d' = committed d"
proof -
  obtain rb db where b: "WriteTransaction_begin d = (rb, db)" by fastforce
  show ?thesis
  proof (cases rb)
    case (Inl e')
    with b run show ?thesis
      by (auto simp: with_write_transaction_def sx_simps WriteTransaction_begin_def sbind_def sret_def
          split: if_splits sum.splits prod.splits dest!: exec_begin_Inl)
  next
    case (Inr fin)
    with b have begun: "fin = False" "tx_saved d = None" "db = sql_tick (d\<lparr>tx_saved := Some (tx_tables d)\<rparr>)"
      by (auto simp: WriteTransaction_begin_def sbind_def sret_def exec_begin_Inr
          split: if_splits sum.splits prod.splits)
    obtain r1 d1 where m: "sbind body (\<lambda>x. sbind (WriteTransaction_Commit fin) (\<lambda>b. sret (x, b))) db = (r1, d1)"
      by fastforce
    obtain r2 d2 where bd: "body db = (r2, d2)" by fastforce
    with insideD [OF body] begun have saved: "tx_saved d2 = Some (tx_tables d)" by (auto simp: same_mode_def)
    from m b Inr run have r1: "r1 = Inl e" "d' = snd (exec_rollback ''rollback write transaction'' d1)"
      using begun(1) by (auto simp: with_write_transaction_def sx_simps WriteTransaction_end_def split: sum.splits prod.splits)
    have saved1: "tx_saved d1 = Some (tx_tables d)"
      using m bd r1 saved begun(1)
      by (cases r2) (auto simp: sbind_def sret_def WriteTransaction_Commit_def
          split: sum.splits prod.splits dest!: exec_commit_Inl)
    then show ?thesis
      by (cases rule: exec_rollback_cases [where w = "''rollback write transaction''"])
        (use r1 begun saved1 in auto)
  qed
qed

text \<open>When it returns, its work was done on the tables it found and is committed.\<close>

lemma with_write_transaction_returns:
  assumes body: "inside body" and run: "with_write_transaction body d = (Inr x, d')"
  shows "tx_saved d = None \<and> tx_saved d' = None \<and> \<not> db_read_only d \<and>
    (\<exists>d0 d1. tx_tables d0 = tx_tables d \<and> db_read_only d0 = db_read_only d \<and> db_fault d0 = db_fault d \<and> db_open d0 = db_open d \<and>
       body d0 = (Inr x, d1) \<and> tx_tables d' = tx_tables d1 \<and> db_read_only d' = db_read_only d \<and> db_fault d' = db_fault d \<and>
       db_open d' = db_open d)"
proof -
  obtain rb db where b: "WriteTransaction_begin d = (rb, db)" by fastforce
  with run obtain fin where fin: "rb = Inr fin"
    by (cases rb) (auto simp: with_write_transaction_def sx_simps)
  with b have begun: "fin = False" "tx_saved d = None" "\<not> db_read_only d" "db = sql_tick (d\<lparr>tx_saved := Some (tx_tables d)\<rparr>)"
    by (auto simp: WriteTransaction_begin_def sbind_def sret_def exec_begin_Inr split: if_splits sum.splits prod.splits)
  obtain r1 d1 where m: "body db = (r1, d1)" by fastforce
  from run b fin m obtain d2 where x: "r1 = Inr x"
    and c: "exec_commit ''commit write transaction'' d1 = (Inr (), d2)" and d': "d' = d2"
    by (cases r1) (auto simp: with_write_transaction_def sx_simps begun(1) WriteTransaction_Commit_def WriteTransaction_end_def sbind_def sret_def
        split: sum.splits prod.splits)
  from c have d2: "d2 = sql_tick (d1\<lparr>tx_saved := None\<rparr>)" by (simp add: exec_commit_Inr)
  have "db_fault db = db_fault d" "db_read_only db = db_read_only d" "db_open db = db_open d" "tx_tables db = tx_tables d"
    by (simp_all add: begun(4) sql_tick_def)
  moreover have "db_fault d2 = db_fault d1" "db_read_only d2 = db_read_only d1" "db_open d2 = db_open d1" "tx_tables d2 = tx_tables d1" "tx_saved d2 = None"
    by (simp_all add: d2 sql_tick_def)
  ultimately show ?thesis
    using begun(2,3) m x d' insideD [OF body m] by (auto simp: same_mode_def)
qed

end
