(* ===== verification/Migrations.thy ===== *)
theory Migrations
  imports Transactions
begin

text \<open>
  Opening the project database and bringing its schema up to date: \<open>Create\<close>, \<open>Open\<close>,
  \<open>OpenReadOnly\<close> and \<open>ApplyMigrations\<close> of core/storage/metadata_db.cpp. The SQL scripts are
  compiled in by the build, so \<open>script n\<close>, what script \<open>n\<close> makes of a schema or \<open>None\<close> when it
  fails, is a parameter; nothing is assumed of it.
\<close>

section \<open>The schema and the database file\<close>

record 'o schema =
  sm_meta :: bool
  sm_versions :: "int list"
  sm_objects :: 'o

record 'o db_file =
  df_exists :: bool
  df_directories :: "unit res"
  df_opens :: bool
  df_fault :: "nat \<Rightarrow> bool"
  df_schema :: "'o schema"

type_synonym ('a, 'o) schema_op = "('a, 'o schema) tx_op"
type_synonym 'o scripts = "int \<Rightarrow> 'o \<Rightarrow> 'o option"

section \<open>ApplyMigrations\<close>

text \<open>\<open>schema_meta\<close> has the version as its primary key; the ids are compared as texts.\<close>

definition AppliedMigrationIds :: "(string list, 'o) schema_op" where
  "AppliedMigrationIds d =
     (if sm_meta (tx_tables d)
      then query_rows ''cannot read applied migrations'' (\<lambda>t. map int_to_string (sort (sm_versions t))) d
      else (Inl (schema_error ''cannot read applied migrations''), sql_tick d))"

definition kMigrations :: "(int \<times> string) list" where
  "kMigrations = [(1, ''0001''), (3, ''0003''), (4, ''0004''), (5, ''0005''), (6, ''0006''), (7, ''0007''), (8, ''0008'')]"

definition run_script :: "'o scripts \<Rightarrow> int \<Rightarrow> 'o schema \<Rightarrow> 'o schema option" where
  "run_script script n t = map_option (\<lambda>objs. t\<lparr>sm_objects := objs\<rparr>) (script n (sm_objects t))"

definition record_version :: "int \<Rightarrow> 'o schema \<Rightarrow> 'o schema option" where
  "record_version n t = map_option (\<lambda>vs. t\<lparr>sm_versions := vs\<rparr>) (tbl_insert (\<lambda>v. v) n (sm_versions t))"

definition migration_body :: "'o scripts \<Rightarrow> int \<Rightarrow> string \<Rightarrow> (unit, 'o) schema_op" where
  "migration_body script n name =
     sbind (sql_modify (schema_error (''apply migration '' @ name)) (run_script script n)) (\<lambda>_.
       sql_modify (schema_error (''record schema version '' @ int_to_string n)) (record_version n))"

definition run_migration :: "'o scripts \<Rightarrow> int \<Rightarrow> string \<Rightarrow> (unit, 'o) schema_op" where
  "run_migration script n name =
     transaction (''migration '' @ name) (migration_body script n name)"

fun apply_missing :: "'o scripts \<Rightarrow> string list \<Rightarrow> (int \<times> string) list \<Rightarrow> nat \<Rightarrow> (nat, 'o) schema_op" where
  "apply_missing script applied [] count = sret count"
| "apply_missing script applied ((n, name) # ms) count =
     (if int_to_string n \<in> set applied then apply_missing script applied ms count
      else sbind (run_migration script n name) (\<lambda>_. apply_missing script applied ms (Suc count)))"

definition ApplyMigrations :: "'o scripts \<Rightarrow> (nat, 'o) schema_op" where
  "ApplyMigrations script d =
     (if db_read_only d then (Inr 0, d)
      else sbind AppliedMigrationIds (\<lambda>applied. apply_missing script applied kMigrations 0) d)"

section \<open>Create, Open, OpenReadOnly\<close>

text \<open>\<open>CREATE TABLE IF NOT EXISTS schema_meta\<close>: it has to write only when the table is missing.\<close>

definition ensure_meta :: "(unit, 'o) schema_op" where
  "ensure_meta d =
     sql_modify (schema_error ''ensure schema_meta'')
       (\<lambda>t. if sm_meta t then Some t else if db_read_only d then None else Some (t\<lparr>sm_meta := True\<rparr>)) d"

definition connect :: "bool \<Rightarrow> 'o db_file \<Rightarrow> 'o schema tx_conn" where
  "connect read_only file = \<lparr>db_open = True, db_read_only = read_only, db_fault = df_fault file, db_tick = 0,
     tx_tables = df_schema file, tx_saved = None\<rparr>"

definition prepare_writable :: "'o scripts \<Rightarrow> (unit, 'o) schema_op" where
  "prepare_writable script =
     sbind (sql_call (schema_error ''enable WAL'')) (\<lambda>_.
     sbind (sql_call (schema_error ''enable foreign keys'')) (\<lambda>_.
     sbind ensure_meta (\<lambda>_.
     sbind (ApplyMigrations script) (\<lambda>_. sret ()))))"

text \<open>The result is the error and the file as it is left, or the open connection.\<close>

definition finish_open :: "unit res \<times> 'o schema tx_conn \<Rightarrow> 'o db_file \<Rightarrow> ('o schema tx_conn) res \<times> 'o db_file" where
  "finish_open r file =
     ((case fst r of Inl e \<Rightarrow> Inl e | Inr _ \<Rightarrow> Inr (snd r)), file\<lparr>df_exists := True, df_schema := committed (snd r)\<rparr>)"

definition Create :: "'o scripts \<Rightarrow> string \<Rightarrow> 'o db_file \<Rightarrow> ('o schema tx_conn) res \<times> 'o db_file" where
  "Create script path file =
     (case df_directories file of
        Inl e \<Rightarrow> (Inl e, file)
      | Inr _ \<Rightarrow>
          if \<not> df_opens file
          then (Inl (throw_error kStorageIo (''cannot create metadata database: '' @ path)), file)
          else finish_open (prepare_writable script (connect False file)) file)"

definition Open :: "'o scripts \<Rightarrow> string \<Rightarrow> 'o db_file \<Rightarrow> ('o schema tx_conn) res \<times> 'o db_file" where
  "Open script path file =
     (if \<not> df_exists file then (Inl (throw_error kProjectNotFound (''metadata database not found: '' @ path)), file)
      else if \<not> df_opens file
      then (Inl (throw_error kStorageIo (''cannot open metadata database: '' @ path)), file)
      else finish_open (prepare_writable script (connect False file)) file)"

definition OpenReadOnly :: "string \<Rightarrow> 'o db_file \<Rightarrow> ('o schema tx_conn) res \<times> 'o db_file" where
  "OpenReadOnly path file =
     (if \<not> df_exists file then (Inl (throw_error kProjectNotFound (''metadata database not found: '' @ path)), file)
      else if \<not> df_opens file
      then (Inl (throw_error kStorageIo (''cannot open metadata database read-only: '' @ path)), file)
      else finish_open (ensure_meta (connect True file)) file)"

section \<open>The history of a schema\<close>

fun replay :: "'o scripts \<Rightarrow> int list \<Rightarrow> 'o \<Rightarrow> 'o option" where
  "replay script [] objs = Some objs"
| "replay script (n # ns) objs = (case script n objs of None \<Rightarrow> None | Some objs' \<Rightarrow> replay script ns objs')"

text \<open>Each recorded version was applied exactly once, in the recorded order, and nothing else was.\<close>

definition migrated :: "'o scripts \<Rightarrow> 'o \<Rightarrow> 'o schema \<Rightarrow> bool" where
  "migrated script start t \<longleftrightarrow> distinct (sm_versions t) \<and> replay script (sm_versions t) start = Some (sm_objects t)"

lemma replay_snoc: "replay script (ns @ [n]) objs = (case replay script ns objs of None \<Rightarrow> None | Some x \<Rightarrow> script n x)"
  by (induction ns arbitrary: objs) (auto split: option.splits)

lemma sql_modify_Inr:
  assumes "sql_modify e f d = (Inr u, d')"
  shows "f (tx_tables d) = Some (tx_tables d')"
  using assms by (auto simp: sql_modify_def sql_write_def split: if_splits option.splits)

lemma run_script_Some:
  "run_script script n t = Some t' \<Longrightarrow> script n (sm_objects t) = Some (sm_objects t')
     \<and> sm_versions t' = sm_versions t \<and> sm_meta t' = sm_meta t"
  by (auto simp: run_script_def)

lemma record_version_Some:
  "record_version n t = Some t' \<Longrightarrow> n \<notin> set (sm_versions t) \<and> sm_versions t' = sm_versions t @ [n]
     \<and> sm_objects t' = sm_objects t \<and> sm_meta t' = sm_meta t"
  by (auto simp: record_version_def tbl_insert_def split: if_splits)

lemma migration_body_Inr:
  assumes "migration_body script n name d = (Inr u, d')"
  shows "n \<notin> set (sm_versions (tx_tables d)) \<and> sm_versions (tx_tables d') = sm_versions (tx_tables d) @ [n]
    \<and> script n (sm_objects (tx_tables d)) = Some (sm_objects (tx_tables d'))
    \<and> sm_meta (tx_tables d') = sm_meta (tx_tables d)"
proof -
  from sbind_InrD [OF assms [unfolded migration_body_def]] obtain d1 where
    a: "sql_modify (schema_error (''apply migration '' @ name)) (run_script script n) d = (Inr (), d1)"
    and b: "sql_modify (schema_error (''record schema version '' @ int_to_string n)) (record_version n) d1 = (Inr u, d')"
    by auto
  from run_script_Some [OF sql_modify_Inr [OF a]] record_version_Some [OF sql_modify_Inr [OF b]]
  show ?thesis by simp
qed

lemma inside_migration: "inside (migration_body script n name)"
  by (simp add: migration_body_def inside_intros)

lemma run_migration_keeps:
  assumes "migrated script start (committed d)" "run_migration script n name d = (r, d')"
  shows "migrated script start (committed d')"
  using inside_migration assms [unfolded run_migration_def]
proof (rule transaction_keeps)
  fix x d0 d1
  assume "migration_body script n name d0 = (Inr x, d1)" "migrated script start (tx_tables d0)"
  with migration_body_Inr show "migrated script start (tx_tables d1)"
    by (fastforce simp: migrated_def replay_snoc)
qed

lemma run_migration_returns:
  assumes "run_migration script n name d = (Inr u, d')"
  shows "tx_saved d = None \<and> tx_saved d' = None \<and> n \<notin> set (sm_versions (tx_tables d))
    \<and> sm_versions (tx_tables d') = sm_versions (tx_tables d) @ [n]"
  using transaction_returns [OF inside_migration assms [unfolded run_migration_def]] migration_body_Inr
  by (metis (no_types, lifting))

lemma run_migration_throws:
  assumes "run_migration script n name d = (Inl e, d')" shows "committed d' = committed d"
  using transaction_atomic [OF inside_migration assms [unfolded run_migration_def]] .

lemma apply_missing_keeps:
  "migrated script start (committed d) \<Longrightarrow> apply_missing script applied ms count d = (r, d')
     \<Longrightarrow> migrated script start (committed d')"
proof (induction script applied ms count arbitrary: d rule: apply_missing.induct)
  case (2 script applied n name ms count)
  show ?case
  proof (cases "int_to_string n \<in> set applied")
    case False
    obtain r1 d1 where m: "run_migration script n name d = (r1, d1)" by fastforce
    with run_migration_keeps [OF 2(3) m] 2 False show ?thesis by (cases r1) (auto simp: sx_simps)
  qed (use 2 in auto)
qed (simp add: sret_def)

lemma apply_missing_returns:
  "apply_missing script applied ms count d = (Inr k, d') \<Longrightarrow> tx_saved d = None \<Longrightarrow>
     tx_saved d' = None \<and>
     (\<exists>new. sm_versions (tx_tables d') = sm_versions (tx_tables d) @ new \<and> k = count + length new
        \<and> set new \<subseteq> fst ` set ms \<and> (\<forall>n \<in> fst ` set ms. n \<in> set new \<or> int_to_string n \<in> set applied))"
proof (induction script applied ms count arbitrary: d rule: apply_missing.induct)
  case (1 script applied count)
  then show ?case by (simp add: sret_def)
next
  case (2 script applied n name ms count)
  show ?case
  proof (cases "int_to_string n \<in> set applied")
    case True
    with 2(1) [OF True] 2(3,4) show ?thesis by (fastforce intro: exI)
  next
    case False
    with 2(3) obtain d1 where m: "run_migration script n name d = (Inr (), d1)"
      and rest: "apply_missing script applied ms (Suc count) d1 = (Inr k, d')"
      by (auto dest!: sbind_InrD)
    from run_migration_returns [OF m] have d1: "tx_saved d1 = None"
      "sm_versions (tx_tables d1) = sm_versions (tx_tables d) @ [n]" by auto
    from 2(2) [OF False rest d1(1)] obtain new where new: "tx_saved d' = None"
      "sm_versions (tx_tables d') = sm_versions (tx_tables d1) @ new" "k = Suc count + length new"
      "set new \<subseteq> fst ` set ms" "\<forall>n \<in> fst ` set ms. n \<in> set new \<or> int_to_string n \<in> set applied" by blast
    with d1 show ?thesis by (intro conjI exI [of _ "n # new"]) auto
  qed
qed

lemma AppliedMigrationIds_Inr:
  assumes "AppliedMigrationIds d = (Inr ids, d')"
  shows "set ids \<subseteq> int_to_string ` set (sm_versions (tx_tables d)) \<and> tx_tables d' = tx_tables d \<and> tx_saved d' = tx_saved d
    \<and> db_read_only d' = db_read_only d"
proof -
  from assms have "query_rows ''cannot read applied migrations'' (\<lambda>t. map int_to_string (sort (sm_versions t))) d = (Inr ids, d')"
    by (auto simp: AppliedMigrationIds_def split: if_splits)
  then obtain n where ids: "ids = take n (map int_to_string (sort (sm_versions (tx_tables d))))"
    "tx_tables d' = tx_tables d" "same_mode d d'" by (rule query_rows_take)
  from in_set_takeD ids(1) have "set ids \<subseteq> set (map int_to_string (sort (sm_versions (tx_tables d))))" by fast
  with ids show ?thesis by (simp add: same_mode_def)
qed

lemma AppliedMigrationIds_Inl: "AppliedMigrationIds d = (Inl e, d') \<Longrightarrow> committed d' = committed d"
  by (auto simp: AppliedMigrationIds_def committed_def same_mode_def split: if_splits option.splits dest!: query_rows_Inl)

text \<open>
  C3: whatever call fails, and however often it is interrupted and run again, ApplyMigrations leaves a
  schema on disk that is the result of exactly the recorded scripts, each run once; when it returns,
  all seven versions are recorded and the count is the number of versions it added.
\<close>

theorem ApplyMigrations_history:
  assumes "migrated script start (committed d)" "tx_saved d = None" "ApplyMigrations script d = (r, d')"
  shows "migrated script start (committed d') \<and>
    (\<forall>k. r = Inr k \<and> \<not> db_read_only d \<longrightarrow>
       tx_saved d' = None \<and> fst ` set kMigrations \<subseteq> set (sm_versions (tx_tables d')) \<and>
       length (sm_versions (tx_tables d')) = length (sm_versions (tx_tables d)) + k)"
proof (cases "db_read_only d")
  case True
  with assms show ?thesis by (simp add: ApplyMigrations_def)
next
  case False
  obtain ra da where a: "AppliedMigrationIds d = (ra, da)" by fastforce
  show ?thesis
  proof (cases ra)
    case (Inl e)
    with a False assms AppliedMigrationIds_Inl [of d e da] show ?thesis
      by (auto simp: ApplyMigrations_def sx_simps)
  next
    case (Inr ids)
    with a False assms(3) have run: "apply_missing script ids kMigrations 0 da = (r, d')"
      by (simp add: ApplyMigrations_def sx_simps)
    from AppliedMigrationIds_Inr [OF a [unfolded Inr]] assms(2) have da: "set ids \<subseteq> int_to_string ` set (sm_versions (tx_tables d))"
      "tx_tables da = tx_tables d" "tx_saved da = None" by auto
    from da assms(1,2) have "migrated script start (committed da)" by simp
    with run have keeps: "migrated script start (committed d')" by (rule apply_missing_keeps [rotated])
    {
      fix k assume k: "r = Inr k"
      with apply_missing_returns [of script ids kMigrations 0 da k d'] run da(3) obtain new where
        new: "tx_saved d' = None" "sm_versions (tx_tables d') = sm_versions (tx_tables da) @ new" "k = length new"
        "\<forall>n \<in> fst ` set kMigrations. n \<in> set new \<or> int_to_string n \<in> set ids" by auto
      have "fst ` set kMigrations \<subseteq> set (sm_versions (tx_tables d'))"
        using new(2,4) da(1,2) int_to_string_inj by (fastforce simp: image_iff)
      with new da(2) have "tx_saved d' = None \<and> fst ` set kMigrations \<subseteq> set (sm_versions (tx_tables d'))
        \<and> length (sm_versions (tx_tables d')) = length (sm_versions (tx_tables d)) + k" by simp
    }
    with keeps show ?thesis by blast
  qed
qed

text \<open>A fresh file whose third script is interrupted by a failed call: two versions stay.\<close>

definition demo_scripts :: "int list scripts" where
  "demo_scripts n objs = (if n \<in> set objs then None else Some (objs @ [n]))"

definition fresh_schema :: "int list schema" where
  "fresh_schema = \<lparr>sm_meta = True, sm_versions = [], sm_objects = []\<rparr>"

definition interrupted :: "int list schema tx_conn" where
  "interrupted = (open_conn fresh_schema)\<lparr>db_fault := (\<lambda>n. n = 12)\<rparr>"

lemma ApplyMigrations_history_witness:
  "migrated demo_scripts [] (committed (snd (ApplyMigrations demo_scripts interrupted)))
   \<and> sm_versions (committed (snd (ApplyMigrations demo_scripts interrupted))) = [1, 3]
   \<and> fst (ApplyMigrations demo_scripts (open_conn fresh_schema)) = Inr 7"
proof -
  have start: "migrated demo_scripts [] (committed interrupted)" "tx_saved interrupted = None" by code_simp+
  have "migrated demo_scripts [] (committed (snd (ApplyMigrations demo_scripts interrupted)))"
    using ApplyMigrations_history [OF start surjective_pairing] by blast
  moreover have "sm_versions (committed (snd (ApplyMigrations demo_scripts interrupted))) = [1, 3]" by code_simp
  moreover have "fst (ApplyMigrations demo_scripts (open_conn fresh_schema)) = Inr 7" by code_simp
  ultimately show ?thesis by blast
qed

text \<open>A second run on an up-to-date database that answers does nothing.\<close>

lemma apply_missing_none:
  "(\<And>n name. (n, name) \<in> set ms \<Longrightarrow> int_to_string n \<in> set applied) \<Longrightarrow> apply_missing script applied ms count = sret count"
  by (induction script applied ms count rule: apply_missing.induct) auto

lemma ApplyMigrations_idempotent:
  assumes "fst ` set kMigrations \<subseteq> set (sm_versions (tx_tables d))" "sm_meta (tx_tables d)"
    "db_open d" "\<And>k. \<not> db_fault d k"
  shows "\<exists>d'. ApplyMigrations script d = (Inr 0, d') \<and> tx_tables d' = tx_tables d"
proof -
  let ?ids = "map int_to_string (sort (sm_versions (tx_tables d)))"
  from assms(1) have ms: "int_to_string n \<in> set ?ids" if "(n, name) \<in> set kMigrations" for n name
    using that by (force simp: image_iff)
  from query_rows_healthy [OF assms(3,4), of "''cannot read applied migrations''" "\<lambda>t. map int_to_string (sort (sm_versions t))"]
  obtain d' where "AppliedMigrationIds d = (Inr ?ids, d')" "tx_tables d' = tx_tables d"
    using assms(2) by (auto simp: AppliedMigrationIds_def)
  then show ?thesis
    by (cases "db_read_only d") (auto simp: ApplyMigrations_def sx_simps apply_missing_none [OF ms])
qed

end
