(* ===== verification/Pipelines.thy ===== *)
theory Pipelines
  imports TaskCache
begin

text \<open>
  engine/pipeline: the registry of pipeline definitions, the definitions the engine ships, and the
  compiler, which turns a definition into a task graph with the identity hashes of the run. The
  lemmas show that a compiled graph is a chain that the graph's own validation accepts, that
  compiling again gives the same hashes, and what the run's hash determines.
\<close>

section \<open>Definitions and plans\<close>

record PipelineStage =
  ps_id :: string
  ps_capability :: string
  ps_task_type :: string
  ps_input_artifact_kinds :: "string list"
  ps_output_artifact_kinds :: "string list"
  ps_cache :: CachePolicy

record PipelineDefinition =
  pd_id :: string
  pd_name :: string
  pd_version :: string
  pd_git_commit :: string
  pd_config_schema_json :: string
  pd_stages :: "PipelineStage list"

record PlanStage =
  pl_stage_id :: string
  pl_capability :: string
  pl_implementation :: string
  pl_task_type :: string
  pl_config_hash :: string
  pl_task_hash :: string
  pl_task_id :: uuid

record ExecutionPlan =
  xp_pipeline_id :: string
  xp_pipeline_version :: string
  xp_git_commit :: string
  xp_pipeline_hash :: string
  xp_config_hash :: string
  xp_external_inputs :: "ArtifactRef list"
  xp_stages :: "PlanStage list"
  xp_job_id :: uuid
  xp_created_at_ns :: int
  xp_graph :: TaskGraph

definition validation_error :: "string \<Rightarrow> exn" where
  "validation_error msg = throw_error kValidationDomain msg"

section \<open>The registry\<close>

text \<open>The values of the map by key. The second error's message ends in the id, which the code reads
  from the moved-from definition; it is left out.\<close>

definition Register :: "PipelineDefinition \<Rightarrow> PipelineDefinition list \<Rightarrow> unit res \<times> PipelineDefinition list" where
  "Register pipeline reg =
     (if pd_id pipeline = [] then (Inl (validation_error ''pipeline id must not be empty''), reg)
      else case tbl_insert pd_id pipeline reg of
        None \<Rightarrow> (Inl (validation_error ''pipeline already registered: ''), reg)
      | Some reg' \<Rightarrow> (Inr (), reg'))"

definition Resolve :: "PipelineDefinition list \<Rightarrow> string \<Rightarrow> PipelineDefinition res" where
  "Resolve reg pid = (case tbl_get pd_id pid reg of
     None \<Rightarrow> Inl (validation_error (''unknown pipeline: '' @ pid)) | Some p \<Rightarrow> Inr p)"

definition RegistryContains :: "PipelineDefinition list \<Rightarrow> string \<Rightarrow> bool" where
  "RegistryContains reg pid \<longleftrightarrow> tbl_get pd_id pid reg \<noteq> None"

definition Ids :: "PipelineDefinition list \<Rightarrow> string list" where
  "Ids reg = sort (map pd_id reg)"

section \<open>The pipelines of the engine\<close>

definition pipeline_stage :: "string \<Rightarrow> string \<Rightarrow> string \<Rightarrow> string list \<Rightarrow> string list \<Rightarrow> PipelineStage" where
  "pipeline_stage sid capability task_type ins outs = \<lparr>ps_id = sid, ps_capability = capability,
     ps_task_type = task_type, ps_input_artifact_kinds = ins, ps_output_artifact_kinds = outs, ps_cache = Cacheable\<rparr>"

text \<open>\<open>commit\<close> is \<open>kEngineGitCommit\<close>, which the build generates.\<close>

definition shipped :: "string \<Rightarrow> string \<Rightarrow> string \<Rightarrow> PipelineStage list \<Rightarrow> PipelineDefinition" where
  "shipped commit pid name stages = \<lparr>pd_id = pid, pd_name = name, pd_version = ''0.1.0'', pd_git_commit = commit,
     pd_config_schema_json = ''{}'', pd_stages = stages\<rparr>"

definition RegisterMockPhotogrammetry :: "string \<Rightarrow> PipelineDefinition list \<Rightarrow> unit res \<times> PipelineDefinition list" where
  "RegisterMockPhotogrammetry commit = Register (shipped commit ''photogrammetry'' ''Mock Photogrammetry''
     [pipeline_stage ''feature_extract'' ''feature_extraction'' ''feature_extract'' [''image''] [''keypoints''],
      pipeline_stage ''reconstruct'' ''reconstruction'' ''reconstruct'' [''keypoints''] [''point_cloud''],
      pipeline_stage ''validate'' ''validation'' ''validate'' [''point_cloud''] [''quality_report'']])"

definition RegisterFeatureExtraction :: "string \<Rightarrow> PipelineDefinition list \<Rightarrow> unit res \<times> PipelineDefinition list" where
  "RegisterFeatureExtraction commit = Register (shipped commit ''feature_extraction'' ''Feature Extraction''
     [pipeline_stage ''feature_extract'' ''feature_extraction'' ''feature_extract'' [''image''] [''feature'']])"

definition RegisterLoopClosureDetection :: "string \<Rightarrow> PipelineDefinition list \<Rightarrow> unit res \<times> PipelineDefinition list" where
  "RegisterLoopClosureDetection commit = Register (shipped commit ''loop_closure_detection'' ''Visual Loop Closure Candidate Detection''
     [pipeline_stage ''loop_closure_detect'' ''loop_closure'' ''loop_closure_detect'' [''feature'', ''frame''] [''loop_closure_candidate'']])"

definition RegisterLoopClosureVerificationPipeline :: "string \<Rightarrow> PipelineDefinition list \<Rightarrow> unit res \<times> PipelineDefinition list" where
  "RegisterLoopClosureVerificationPipeline commit = Register (shipped commit ''loop_closure_verification'' ''Loop Closure Verification''
     [pipeline_stage ''verify_loop_closure'' ''loop_closure_verification'' ''verify_loop_closure''
        [''loop_closure_candidate'', ''feature'', ''calibration''] [''loop_closure'']])"

definition RegisterLoopClosureOptimizationPipeline :: "string \<Rightarrow> PipelineDefinition list \<Rightarrow> unit res \<times> PipelineDefinition list" where
  "RegisterLoopClosureOptimizationPipeline commit = Register (shipped commit ''loop_closure_optimization'' ''Loop Closure Optimization''
     [pipeline_stage ''optimize_loop_closure'' ''loop_closure_optimization'' ''optimize_loop_closure''
        [''loop_closure'', ''trajectory''] [''optimization_result'']])"

definition RegisterBundleAdjustmentPipeline :: "string \<Rightarrow> PipelineDefinition list \<Rightarrow> unit res \<times> PipelineDefinition list" where
  "RegisterBundleAdjustmentPipeline commit = Register (shipped commit ''bundle_adjustment'' ''Bundle Adjustment''
     [pipeline_stage ''bundle_adjust'' ''bundle_adjustment'' ''bundle_adjust''
        [''reconstruction'', ''observations''] [''reconstruction'']])"

definition RegisterSparseCorrectionPipeline :: "string \<Rightarrow> PipelineDefinition list \<Rightarrow> unit res \<times> PipelineDefinition list" where
  "RegisterSparseCorrectionPipeline commit = Register (shipped commit ''p3_sparse_correction'' ''Sparse Correction''
     [pipeline_stage ''sparse_reconstruct'' ''sparse_reconstruction'' ''sparse_reconstruction''
        [''image'', ''reconstruction''] [''reconstruction''],
      (pipeline_stage ''correct'' ''bundle_adjustment'' ''sparse_correction''
        [''reconstruction''] [''reconstruction''])\<lparr>ps_cache := Never\<rparr>])"

definition RegisterProductionPipelines :: "string \<Rightarrow> PipelineDefinition list \<Rightarrow> unit res \<times> PipelineDefinition list" where
  "RegisterProductionPipelines commit =
     sbind (RegisterLoopClosureVerificationPipeline commit) (\<lambda>_.
     sbind (RegisterLoopClosureOptimizationPipeline commit) (\<lambda>_.
     sbind (RegisterBundleAdjustmentPipeline commit) (\<lambda>_.
       RegisterSparseCorrectionPipeline commit)))"

section \<open>The compiler\<close>

definition JoinSorted :: "ArtifactRef list \<Rightarrow> string" where
  "JoinSorted refs = concat (map (\<lambda>ref. ref @ ''|'') (sort refs))"

definition PlaceholderRef :: "string \<Rightarrow> string \<Rightarrow> string" where
  "PlaceholderRef pipeline_id stage_id = pipeline_id @ ''/'' @ stage_id @ ''/output''"

definition PipelineConfigHash :: "string \<Rightarrow> string" where
  "PipelineConfigHash config_json = Sha256Hex (bytes_of config_json)"

definition hash_content :: "PipelineDefinition \<Rightarrow> string \<Rightarrow> ArtifactRef list \<Rightarrow> string" where
  "hash_content pipeline config_hash external_inputs =
     pd_id pipeline @ ''|'' @ pd_version pipeline @ ''|'' @ pd_git_commit pipeline @ ''|'' @ config_hash @ ''|'' @
     JoinSorted external_inputs"

definition PipelineHash :: "PipelineDefinition \<Rightarrow> string \<Rightarrow> ArtifactRef list \<Rightarrow> string" where
  "PipelineHash pipeline config_hash external_inputs =
     Sha256Hex (bytes_of (hash_content pipeline config_hash external_inputs))"

text \<open>Only \<open>json::parse_error\<close> is caught, not the library's other exceptions.\<close>

definition is_parse_error :: "exn \<Rightarrow> bool" where
  "is_parse_error e = (case e of
     StdException what \<Rightarrow> take 28 what = ''[json.exception.parse_error.'' | _ \<Rightarrow> False)"

definition parse_config :: "json_lib \<Rightarrow> string \<Rightarrow> json res" where
  "parse_config lib config_json =
     (if config_json = [] then Inr (JObj [])
      else case jl_parse lib config_json of
        Inr j \<Rightarrow> Inr j
      | Inl e \<Rightarrow> Inl (if is_parse_error e then validation_error ''invalid pipeline configuration JSON'' else e))"

definition quoted :: "string \<Rightarrow> string" where
  "quoted s = CHR 0x27 # s @ [CHR 0x27]"

fun check_capabilities :: "string \<Rightarrow> ResourceProfile \<Rightarrow> PipelineStage list \<Rightarrow> unit res" where
  "check_capabilities pid profile [] = Inr ()"
| "check_capabilities pid profile (stage # stages) =
     (if \<not> HasCapabilities (pf_capabilities profile) [ps_capability stage]
      then Inl (validation_error (''pipeline '' @ quoted pid @ '': no worker advertises capability '' @
             quoted (ps_capability stage) @ '' (stage '' @ quoted (ps_id stage) @ '')''))
      else check_capabilities pid profile stages)"

definition stage_config_doc :: "PipelineDefinition \<Rightarrow> PipelineStage \<Rightarrow> json \<Rightarrow> json" where
  "stage_config_doc pipeline stage parsed_config = JObj
     [(''config'', parsed_config), (''pipeline_id'', JStr (pd_id pipeline)),
      (''pipeline_version'', JStr (pd_version pipeline)), (''stage'', JStr (ps_id stage))]"

definition stage_task :: "PipelineDefinition \<Rightarrow> PipelineStage \<Rightarrow> bool \<Rightarrow> ArtifactRef list \<Rightarrow> string \<Rightarrow> int \<Rightarrow> TaskInstance" where
  "stage_task pipeline stage first inputs config_json created = default_task
     \<lparr>ti_definition := default_definition\<lparr>td_type := ps_task_type stage,
        td_inputs := \<lparr>is_artifact_kinds = ps_input_artifact_kinds stage, is_allow_external = first\<rparr>,
        td_outputs := \<lparr>os_artifact_kinds = ps_output_artifact_kinds stage\<rparr>,
        td_requirements := default_spec\<lparr>rs_cores := 1\<rparr>\<rparr>,
      ti_inputs := inputs, ti_outputs := [PlaceholderRef (pd_id pipeline) (ps_id stage)], ti_config_json := config_json,
      ti_metadata := default_metadata\<lparr>md_deterministic := True, md_cache := ps_cache stage,
        md_created_at_ns := created, md_updated_at_ns := created\<rparr>\<rparr>"

text \<open>\<open>producer_version_\<close> and \<open>engine_git_commit_\<close> are the compiler's members.\<close>

definition plan_stage :: "cache_config \<Rightarrow> string \<Rightarrow> PipelineStage \<Rightarrow> TaskInstance \<Rightarrow> PlanStage" where
  "plan_stage c implementation stage task = (let config_hash = Sha256Hex (bytes_of (ti_config_json task)) in
     \<lparr>pl_stage_id = ps_id stage, pl_capability = ps_capability stage, pl_implementation = implementation,
      pl_task_type = ps_task_type stage, pl_config_hash = config_hash,
      pl_task_hash = ComputeKey (ps_task_type stage) (ti_inputs task) config_hash
        (tc_producer_version c) (tc_engine_git_commit c), pl_task_id = ti_id task\<rparr>)"

text \<open>Operations on the graph of the plan.\<close>

definition on_plan_graph :: "(TaskGraph \<Rightarrow> 'a res \<times> TaskGraph) \<Rightarrow> ExecutionPlan \<Rightarrow> ('a \<times> ExecutionPlan) w_op" where
  "on_plan_graph f plan w = (case f (xp_graph plan) of (r, g) \<Rightarrow> (rbind r (\<lambda>x. Inr (x, plan\<lparr>xp_graph := g\<rparr>)), w))"

definition compile_stage :: "json_lib \<Rightarrow> cache_config \<Rightarrow> PipelineDefinition \<Rightarrow> json \<Rightarrow> string \<Rightarrow> ArtifactRef list \<Rightarrow>
    PipelineStage \<Rightarrow> ExecutionPlan \<Rightarrow> ExecutionPlan w_op" where
  "compile_stage lib c pipeline parsed_config implementation inputs stage plan =
     (let first = (xp_stages plan = []) in
      sbind (lift_w (jl_dump lib (stage_config_doc pipeline stage parsed_config))) (\<lambda>config_json w.
      sbind (on_plan_graph (AddTask (w_random w (w_tick w))
               (stage_task pipeline stage first inputs config_json (xp_created_at_ns plan))) plan) (\<lambda>(task_id, plan1).
      sbind (if first then lift_w (Inr ((), plan1))
             else on_plan_graph (AddDependency task_id (pl_task_id (last (xp_stages plan1)))) plan1) (\<lambda>(_, plan2).
      sbind (lift_w (GetTask (xp_graph plan2) task_id)) (\<lambda>task.
        lift_w (Inr (plan2\<lparr>xp_stages := xp_stages plan2 @ [plan_stage c implementation stage task]\<rparr>))))) (w_step w)))"

fun compile_stages :: "json_lib \<Rightarrow> cache_config \<Rightarrow> PipelineDefinition \<Rightarrow> json \<Rightarrow> string \<Rightarrow> ArtifactRef list \<Rightarrow>
    PipelineStage list \<Rightarrow> ExecutionPlan \<Rightarrow> ExecutionPlan w_op" where
  "compile_stages lib c pipeline parsed_config implementation inputs [] plan = lift_w (Inr plan)"
| "compile_stages lib c pipeline parsed_config implementation inputs (stage # stages) plan =
     sbind (compile_stage lib c pipeline parsed_config implementation inputs stage plan) (\<lambda>plan1.
       compile_stages lib c pipeline parsed_config implementation
         [PlaceholderRef (pd_id pipeline) (ps_id stage)] stages plan1)"

definition new_plan :: "PipelineDefinition \<Rightarrow> string \<Rightarrow> ArtifactRef list \<Rightarrow> int \<Rightarrow> uuid \<Rightarrow> ExecutionPlan" where
  "new_plan pipeline config_json external_inputs created job = (let config_hash = PipelineConfigHash config_json in
     \<lparr>xp_pipeline_id = pd_id pipeline, xp_pipeline_version = pd_version pipeline, xp_git_commit = pd_git_commit pipeline,
      xp_pipeline_hash = PipelineHash pipeline config_hash external_inputs, xp_config_hash = config_hash,
      xp_external_inputs = external_inputs, xp_stages = [], xp_job_id = job, xp_created_at_ns = created,
      xp_graph = new_graph job\<rparr>)"

definition Compile :: "json_lib \<Rightarrow> cache_config \<Rightarrow> PipelineDefinition \<Rightarrow> ArtifactRef list \<Rightarrow> string \<Rightarrow> ResourceProfile \<Rightarrow>
    string \<Rightarrow> ExecutionPlan w_op" where
  "Compile lib c pipeline external_inputs config_json worker_profile implementation =
     (if pd_stages pipeline = []
      then lift_w (Inl (validation_error (''pipeline '' @ quoted (pd_id pipeline) @ '' has no stages'')))
      else if external_inputs = []
      then lift_w (Inl (validation_error (''pipeline '' @ quoted (pd_id pipeline) @ '' requires at least one external input'')))
      else sbind (lift_w (parse_config lib config_json)) (\<lambda>parsed_config.
        sbind (lift_w (check_capabilities (pd_id pipeline) worker_profile (pd_stages pipeline))) (\<lambda>_.
        sbind TimestampNsNow (\<lambda>created.
        sbind new_uuid (\<lambda>job.
          compile_stages lib c pipeline parsed_config implementation external_inputs (pd_stages pipeline)
            (new_plan pipeline config_json external_inputs created job))))))"

section \<open>Compiled graphs are chains\<close>

definition stage_input :: "PipelineDefinition \<Rightarrow> ArtifactRef list \<Rightarrow> PipelineStage list \<Rightarrow> nat \<Rightarrow> ArtifactRef list" where
  "stage_input pipeline ext stages k =
     (if k = 0 then ext else [PlaceholderRef (pd_id pipeline) (ps_id (stages ! (k - 1)))])"

definition plan_ok :: "PipelineDefinition \<Rightarrow> ArtifactRef list \<Rightarrow> PipelineStage list \<Rightarrow> ExecutionPlan \<Rightarrow> bool" where
  "plan_ok pipeline ext stages plan \<longleftrightarrow>
     graph_wf (xp_graph plan) \<and> tg_order (xp_graph plan) = map pl_task_id (xp_stages plan) \<and>
     map pl_stage_id (xp_stages plan) = map ps_id stages \<and>
     (\<forall>k<length stages. \<exists>t. tg_tasks (xp_graph plan) (pl_task_id (xp_stages plan ! k)) = Some t \<and>
        ti_inputs t = stage_input pipeline ext stages k \<and>
        ti_outputs t = [PlaceholderRef (pd_id pipeline) (ps_id (stages ! k))] \<and>
        td_requirements (ti_definition t) = default_spec \<and>
        tg_dependencies (xp_graph plan) (pl_task_id (xp_stages plan ! k)) =
          Some (if k = 0 then [] else [pl_task_id (xp_stages plan ! (k - 1))]))"

lemma plan_ok_new: "plan_ok pipeline ext [] (new_plan pipeline config_json ext created job)"
  by (simp add: plan_ok_def new_plan_def Let_def graph_wf_new) (simp add: new_graph_def)

lemma AddTask_Inr:
  assumes "AddTask random t g = (Inr tid, g')"
  shows "tg_tasks g tid = None \<and> g' = g\<lparr>tg_tasks := (tg_tasks g)(tid \<mapsto> t\<lparr>ti_id := tid\<rparr>),
     tg_dependencies := (tg_dependencies g)(tid \<mapsto> []), tg_dependents := (tg_dependents g)(tid \<mapsto> []),
     tg_order := tg_order g @ [tid]\<rparr>"
  using assms by (auto simp: AddTask_def Let_def split: if_splits)

lemma compile_stage_Inr:
  assumes "compile_stage lib c pipeline cfg impl inputs stage plan w = (Inr plan', w')"
  obtains random conf tid g1 g2 task where
    "jl_dump lib (stage_config_doc pipeline stage cfg) = Inr conf"
    "AddTask random (stage_task pipeline stage (xp_stages plan = []) inputs conf (xp_created_at_ns plan)) (xp_graph plan)
       = (Inr tid, g1)"
    "if xp_stages plan = [] then g2 = g1 else AddDependency tid (pl_task_id (last (xp_stages plan))) g1 = (Inr (), g2)"
    "GetTask g2 tid = Inr task"
    "plan' = plan\<lparr>xp_graph := g2, xp_stages := xp_stages plan @ [plan_stage c impl stage task]\<rparr>"
  using assms
  by (auto simp: compile_stage_def on_plan_graph_def lift_w_def rbind_Inr Let_def dest!: sbind_InrD split: prod.splits if_splits)

lemma AddDependency_first:
  assumes "tg_tasks g a \<noteq> None" "tg_tasks g b \<noteq> None" "tg_dependencies g a = Some []"
  shows "AddDependency a b g = (Inr (), g\<lparr>tg_dependencies := (tg_dependencies g)(a \<mapsto> [b]),
     tg_dependents := (tg_dependents g)(b \<mapsto> vec_at (tg_dependents g) b @ [a])\<rparr>)"
  using assms by (auto simp: AddDependency_def Require_def vec_at_def Let_def)

text \<open>The graph after a stage: the new task, and its edge to the task before it.\<close>

lemma compile_stage_graph:
  assumes run: "compile_stage lib c pipeline cfg impl inputs stage plan w = (Inr plan', w')"
    and ok: "plan_ok pipeline ext stages plan"
  obtains tid t where
    "tid \<notin> set (tg_order (xp_graph plan))" "graph_wf (xp_graph plan')"
    "tg_tasks (xp_graph plan') = (tg_tasks (xp_graph plan))(tid \<mapsto> t)"
    "tg_dependencies (xp_graph plan') = (tg_dependencies (xp_graph plan))
       (tid \<mapsto> (if xp_stages plan = [] then [] else [pl_task_id (last (xp_stages plan))]))"
    "tg_order (xp_graph plan') = tg_order (xp_graph plan) @ [tid]" "ti_inputs t = inputs"
    "ti_outputs t = [PlaceholderRef (pd_id pipeline) (ps_id stage)]" "td_requirements (ti_definition t) = default_spec"
    "ti_id t = tid" "plan' = plan\<lparr>xp_graph := xp_graph plan', xp_stages := xp_stages plan @ [plan_stage c impl stage t]\<rparr>"
proof -
  from compile_stage_Inr [OF run] obtain random conf tid g1 g2 task where
    add: "AddTask random (stage_task pipeline stage (xp_stages plan = []) inputs conf (xp_created_at_ns plan)) (xp_graph plan)
       = (Inr tid, g1)"
    and dep: "if xp_stages plan = [] then g2 = g1 else AddDependency tid (pl_task_id (last (xp_stages plan))) g1 = (Inr (), g2)"
    and get: "GetTask g2 tid = Inr task"
    and plan': "plan' = plan\<lparr>xp_graph := g2, xp_stages := xp_stages plan @ [plan_stage c impl stage task]\<rparr>" by metis
  let ?g = "xp_graph plan" and ?t = "(stage_task pipeline stage (xp_stages plan = []) inputs conf (xp_created_at_ns plan))\<lparr>ti_id := tid\<rparr>"
  from ok have wf: "graph_wf ?g" and order: "tg_order ?g = map pl_task_id (xp_stages plan)" by (simp_all add: plan_ok_def)
  from AddTask_Inr [OF add] have g1: "tg_tasks ?g tid = None" "g1 = ?g\<lparr>tg_tasks := (tg_tasks ?g)(tid \<mapsto> ?t),
     tg_dependencies := (tg_dependencies ?g)(tid \<mapsto> []), tg_dependents := (tg_dependents ?g)(tid \<mapsto> []),
     tg_order := tg_order ?g @ [tid]\<rparr>" by simp_all
  then have new: "tid \<notin> set (tg_order ?g)" using graph_wf_known [OF wf] by (metis option.distinct(1))
  have wf1: "graph_wf g1" using graph_wf_AddTask [OF wf] add by (metis snd_conv)
  have g2: "graph_wf g2 \<and> tg_tasks g2 = tg_tasks g1 \<and> tg_order g2 = tg_order g1 \<and> tg_dependencies g2 =
      (tg_dependencies ?g)(tid \<mapsto> (if xp_stages plan = [] then [] else [pl_task_id (last (xp_stages plan))]))"
  proof (cases "xp_stages plan = []")
    case True
    with dep wf1 g1(2) show ?thesis by simp
  next
    case False
    let ?b = "pl_task_id (last (xp_stages plan))"
    have b: "?b \<in> set (tg_order ?g)" using False order by simp
    with graph_wf_known [OF wf, of ?b] new g1(2) have "tg_tasks g1 ?b \<noteq> None" "tg_tasks g1 tid \<noteq> None"
      "tg_dependencies g1 tid = Some []" by auto
    note add_dep = AddDependency_first [OF this(2,1,3)]
    have "graph_wf g2" using graph_wf_AddDependency [OF wf1, of tid ?b] dep False by simp
    with dep False add_dep g1(2) show ?thesis by simp
  qed
  have "task = ?t" using get g2 g1(2) by (simp add: GetTask_def Require_def)
  with g2 g1(2) plan' new show ?thesis
    by (intro that [of tid ?t]) (simp_all add: stage_task_def default_spec_def)
qed

lemma compile_stage_ok:
  assumes run: "compile_stage lib c pipeline cfg impl (stage_input pipeline ext (stages @ [stage]) (length stages)) stage plan w
      = (Inr plan', w')"
    and ok: "plan_ok pipeline ext stages plan"
  shows "plan_ok pipeline ext (stages @ [stage]) plan'"
proof -
  obtain tid t where tid: "tid \<notin> set (tg_order (xp_graph plan))" "graph_wf (xp_graph plan')"
    "tg_tasks (xp_graph plan') = (tg_tasks (xp_graph plan))(tid \<mapsto> t)"
    "tg_dependencies (xp_graph plan') = (tg_dependencies (xp_graph plan))
       (tid \<mapsto> (if xp_stages plan = [] then [] else [pl_task_id (last (xp_stages plan))]))"
    "tg_order (xp_graph plan') = tg_order (xp_graph plan) @ [tid]"
    "ti_inputs t = stage_input pipeline ext (stages @ [stage]) (length stages)"
    "ti_outputs t = [PlaceholderRef (pd_id pipeline) (ps_id stage)]" "td_requirements (ti_definition t) = default_spec"
    "ti_id t = tid" "plan' = plan\<lparr>xp_graph := xp_graph plan', xp_stages := xp_stages plan @ [plan_stage c impl stage t]\<rparr>"
    using compile_stage_graph [OF run ok] by metis
  let ?ps = "plan_stage c impl stage t"
  from ok have old: "tg_order (xp_graph plan) = map pl_task_id (xp_stages plan)" "map pl_stage_id (xp_stages plan) = map ps_id stages"
    and each: "\<And>k. k < length stages \<Longrightarrow> \<exists>t. tg_tasks (xp_graph plan) (pl_task_id (xp_stages plan ! k)) = Some t \<and>
        ti_inputs t = stage_input pipeline ext stages k \<and> ti_outputs t = [PlaceholderRef (pd_id pipeline) (ps_id (stages ! k))] \<and>
        td_requirements (ti_definition t) = default_spec \<and>
        tg_dependencies (xp_graph plan) (pl_task_id (xp_stages plan ! k)) =
          Some (if k = 0 then [] else [pl_task_id (xp_stages plan ! (k - 1))])"
    by (auto simp: plan_ok_def)
  from old(2) have len: "length (xp_stages plan) = length stages" by (metis length_map)
  from tid(9) have ps: "pl_task_id ?ps = tid" "pl_stage_id ?ps = ps_id stage" by (simp_all add: plan_stage_def Let_def)
  have st: "xp_stages plan' = xp_stages plan @ [?ps]" by (subst tid(10)) simp
  have "\<exists>t. tg_tasks (xp_graph plan') (pl_task_id (xp_stages plan' ! k)) = Some t \<and>
        ti_inputs t = stage_input pipeline ext (stages @ [stage]) k \<and>
        ti_outputs t = [PlaceholderRef (pd_id pipeline) (ps_id ((stages @ [stage]) ! k))] \<and>
        td_requirements (ti_definition t) = default_spec \<and>
        tg_dependencies (xp_graph plan') (pl_task_id (xp_stages plan' ! k)) =
          Some (if k = 0 then [] else [pl_task_id (xp_stages plan' ! (k - 1))])" if "k < Suc (length stages)" for k
  proof (cases "k = length stages")
    case True
    then have "xp_stages plan' ! k = ?ps" using st len by (simp add: nth_append)
    moreover have "k \<noteq> 0 \<Longrightarrow> xp_stages plan' ! (k - 1) = last (xp_stages plan)"
      using True st len by (cases "xp_stages plan" rule: rev_cases) (auto simp: nth_append)
    moreover have "k = 0 \<longleftrightarrow> xp_stages plan = []" using True len by auto
    ultimately show ?thesis using True tid(3,4,6-8) ps by (simp add: nth_append)
  next
    case False
    with that have k: "k < length stages" by simp
    have "pl_task_id (xp_stages plan ! k) \<in> set (tg_order (xp_graph plan))" using k len old(1) by simp
    then have "pl_task_id (xp_stages plan ! k) \<noteq> tid" using tid(1) by metis
    moreover have "stage_input pipeline ext (stages @ [stage]) k = stage_input pipeline ext stages k"
      using k by (auto simp: stage_input_def nth_append)
    moreover have "k - Suc 0 < length stages" using k by simp
    ultimately show ?thesis using each [OF k] tid(3,4) st len k by (cases "k = 0") (simp_all add: nth_append)
  qed
  with tid(2,5) st old ps show ?thesis by (simp add: plan_ok_def)
qed

lemma compile_stages_ok:
  assumes "compile_stages lib c pipeline cfg impl (stage_input pipeline ext (don @ todo) (length don)) todo plan w = (Inr plan', w')"
    "plan_ok pipeline ext don plan"
  shows "plan_ok pipeline ext (don @ todo) plan'"
  using assms
proof (induction todo arbitrary: don plan w)
  case Nil
  then show ?case by (simp add: lift_w_def)
next
  case (Cons stage todo)
  have inputs: "stage_input pipeline ext (don @ stage # todo) (length don) = stage_input pipeline ext (don @ [stage]) (length don)"
    by (auto simp: stage_input_def nth_append)
  have next_input: "[PlaceholderRef (pd_id pipeline) (ps_id stage)] = stage_input pipeline ext ((don @ [stage]) @ todo) (length (don @ [stage]))"
    by (simp add: stage_input_def)
  from Cons.prems(1) obtain plan1 w1 where
    one: "compile_stage lib c pipeline cfg impl (stage_input pipeline ext (don @ [stage]) (length don)) stage plan w = (Inr plan1, w1)"
    and rest: "compile_stages lib c pipeline cfg impl
      (stage_input pipeline ext ((don @ [stage]) @ todo) (length (don @ [stage]))) todo plan1 w1 = (Inr plan', w')"
    unfolding inputs compile_stages.simps next_input by (auto dest!: sbind_InrD)
  from Cons.IH [OF rest compile_stage_ok [OF one Cons.prems(2)]] show ?case by simp
qed

lemma Compile_plan_ok:
  assumes "Compile lib c pipeline ext config profile impl w = (Inr plan, w')"
  shows "plan_ok pipeline ext (pd_stages pipeline) plan \<and> ext \<noteq> [] \<and> pd_stages pipeline \<noteq> []"
proof -
  from assms have ne: "pd_stages pipeline \<noteq> []" "ext \<noteq> []" by (auto simp: Compile_def lift_w_def split: if_splits)
  with assms obtain cfg created job v where
    "compile_stages lib c pipeline cfg impl ext (pd_stages pipeline) (new_plan pipeline config ext created job) v = (Inr plan, w')"
    by (auto simp: Compile_def dest!: sbind_InrD)
  with compile_stages_ok [of lib c pipeline cfg impl ext "[]" "pd_stages pipeline" _ v plan w', OF _ plan_ok_new] ne
  show ?thesis by (simp add: stage_input_def)
qed

lemma plan_chain:
  assumes "plan_ok pipeline ext stages plan" "k < length stages"
  shows "length (xp_stages plan) = length stages \<and> tg_order (xp_graph plan) ! k = pl_task_id (xp_stages plan ! k) \<and>
    vec_at (tg_dependencies (xp_graph plan)) (tg_order (xp_graph plan) ! k) =
      (if k = 0 then [] else [tg_order (xp_graph plan) ! (k - 1)])"
proof -
  from assms(1) have st: "tg_order (xp_graph plan) = map pl_task_id (xp_stages plan)" "map pl_stage_id (xp_stages plan) = map ps_id stages"
    and deps: "tg_dependencies (xp_graph plan) (pl_task_id (xp_stages plan ! k)) =
      Some (if k = 0 then [] else [pl_task_id (xp_stages plan ! (k - 1))])"
    using assms(2) by (auto simp: plan_ok_def)
  from st(2) have len: "length (xp_stages plan) = length stages" by (metis length_map)
  with assms(2) have "k - Suc 0 < length (xp_stages plan)" by simp
  with st len deps assms(2) show ?thesis by (simp add: vec_at_def)
qed

lemma plan_order_length: "plan_ok pipeline ext stages plan \<Longrightarrow> length (tg_order (xp_graph plan)) = length stages"
  by (auto simp: plan_ok_def dest: arg_cong [of _ _ length])

lemma chain_deps_first:
  assumes "plan_ok pipeline ext stages plan"
  shows "deps_first (xp_graph plan) (tg_order (xp_graph plan))"
proof (unfold deps_first_def, intro allI impI)
  fix xs v ys assume split: "tg_order (xp_graph plan) = xs @ v # ys"
  then have k: "length xs < length stages" "tg_order (xp_graph plan) ! length xs = v"
    using plan_order_length [OF assms] by auto
  have "tg_order (xp_graph plan) ! (length xs - 1) \<in> set xs" if "xs \<noteq> []"
    using that split by (simp add: nth_append)
  with plan_chain [OF assms k(1)] k(2) show "set (vec_at (tg_dependencies (xp_graph plan)) v) \<subseteq> set xs"
    by (cases "xs = []") auto
qed

text \<open>A chain has one topological order.\<close>

lemma chain_order_unique:
  assumes chain: "\<And>k. k < length order \<Longrightarrow> vec_at (tg_dependencies g) (order ! k) = (if k = 0 then [] else [order ! (k - 1)])"
    and out: "deps_first g out" "distinct out" "set out = set order" "distinct order"
  shows "out = order"
proof -
  have len: "length out = length order" using out(2-4) by (metis distinct_card)
  have "k \<le> length order \<Longrightarrow> take k out = take k order" for k
  proof (induction k)
    case (Suc k)
    then have k: "k < length out" and IH: "take k out = take k order" using len by simp_all
    obtain j where j: "out ! k = order ! j" "j < length order"
      using k out(3) by (metis in_set_conv_nth nth_mem)
    have "out ! k \<notin> set (take k out)" using out(2) k by (simp add: in_set_conv_nth nth_eq_iff_index_eq)
    then have "k \<le> j" using IH j k len by (auto simp: in_set_conv_nth) (metis not_le)
    have "set (vec_at (tg_dependencies g) (out ! k)) \<subseteq> set (take k out)"
      using out(1) id_take_nth_drop [OF k] by (auto simp: deps_first_def)
    with chain [OF j(2)] j(1) IH have "j = 0 \<or> order ! (j - 1) \<in> set (take k order)" by (cases "j = 0") auto
    then have "j \<le> k"
      using out(4) j(2) k len by (auto simp: in_set_conv_nth nth_eq_iff_index_eq)
    with \<open>k \<le> j\<close> have "out ! k = order ! k" using j(1) by simp
    with IH k len show ?case by (simp add: take_Suc_conv_app_nth)
  qed simp
  from this [of "length order"] len show ?thesis by simp
qed

text \<open>
  C33: a pipeline that compiles, for a worker whose capacity covers the default resources of a task (one
  core), gives a graph that the graph's validation accepts on this worker with the declared external
  inputs. The tasks are the stages in their order: the first depends on nothing and reads the external
  inputs, each later one depends on exactly its predecessor and reads exactly the predecessor's one
  output; and the stages' order is the order that the graph computes, and its only topological order.
\<close>

theorem Compile_validates:
  assumes "Compile lib c pipeline ext config profile impl w = (Inr plan, w')" "Fits default_spec (pf_capacity profile)"
  shows "Validate (xp_graph plan) [profile] ext = Inr () \<and>
    map pl_stage_id (xp_stages plan) = map ps_id (pd_stages pipeline) \<and>
    tg_order (xp_graph plan) = map pl_task_id (xp_stages plan) \<and> distinct (map pl_task_id (xp_stages plan)) \<and>
    (\<forall>k<length (pd_stages pipeline).
       tg_dependencies (xp_graph plan) (pl_task_id (xp_stages plan ! k))
         = Some (if k = 0 then [] else [pl_task_id (xp_stages plan ! (k - 1))]) \<and>
       (\<exists>t. tg_tasks (xp_graph plan) (pl_task_id (xp_stages plan ! k)) = Some t \<and>
          ti_inputs t = (if k = 0 then ext else [PlaceholderRef (pd_id pipeline) (ps_id (pd_stages pipeline ! (k - 1)))]) \<and>
          ti_outputs t = [PlaceholderRef (pd_id pipeline) (ps_id (pd_stages pipeline ! k))])) \<and>
    TopologicalOrder (xp_graph plan) = Inr (map pl_task_id (xp_stages plan)) \<and>
    (\<forall>out. deps_first (xp_graph plan) out \<and> distinct out \<and> set out = set (map pl_task_id (xp_stages plan)) \<longrightarrow>
       out = map pl_task_id (xp_stages plan))"
proof -
  from Compile_plan_ok [OF assms(1)] have ok: "plan_ok pipeline ext (pd_stages pipeline) plan" by blast
  let ?g = "xp_graph plan" and ?stages = "pd_stages pipeline"
  from ok have wf: "graph_wf ?g" and order: "tg_order ?g = map pl_task_id (xp_stages plan)"
    and names: "map pl_stage_id (xp_stages plan) = map ps_id ?stages" by (auto simp: plan_ok_def)
  have dist: "distinct (tg_order ?g)" using wf by (simp add: graph_wf_def)
  have ac: "acyclic (dep_rel ?g)" using deps_first_acyclic [OF wf chain_deps_first [OF ok] _ dist] by simp
  with topo_correct [OF wf] obtain out where
    out: "TopologicalOrder ?g = Inr out" "distinct out" "set out = set (tg_order ?g)" "deps_first ?g out" by blast
  have unique: "out' = tg_order ?g" if "deps_first ?g out'" "distinct out'" "set out' = set (tg_order ?g)" for out'
    using plan_chain [OF ok] plan_order_length [OF ok] by (intro chain_order_unique [OF _ that dist]) metis
  then have "out = tg_order ?g" using out by blast
  have each: "(\<forall>ref\<in>set (ti_inputs (task_of ?g v)). producer_count ?g v ref = 1 \<or> producer_count ?g v ref = 0 \<and> ref \<in> set ext) \<and>
    Fits (td_requirements (ti_definition (task_of ?g v))) (pf_capacity profile)" if v: "v \<in> set (tg_order ?g)" for v
  proof -
    from v obtain k where k: "k < length ?stages" "v = tg_order ?g ! k"
      using plan_order_length [OF ok] by (auto simp: in_set_conv_nth)
    note chain = plan_chain [OF ok k(1)]
    have deps: "vec_at (tg_dependencies ?g) v = (if k = 0 then [] else [tg_order ?g ! (k - 1)])" using chain k(2) by metis
    from ok k chain obtain t where t: "tg_tasks ?g v = Some t" "ti_inputs t = stage_input pipeline ext ?stages k"
      "td_requirements (ti_definition t) = default_spec" by (auto simp: plan_ok_def)
    show ?thesis
    proof (cases "k = 0")
      case True
      with deps have "producer_count ?g v ref = 0" for ref by (simp add: producer_count_def dep_outputs_def)
      with t True assms(2) show ?thesis by (simp add: task_of_def stage_input_def)
    next
      case False
      then have k1: "k - 1 < length ?stages" using k(1) by simp
      with ok plan_chain [OF ok k1] obtain u where u: "tg_tasks ?g (tg_order ?g ! (k - 1)) = Some u"
        "ti_outputs u = [PlaceholderRef (pd_id pipeline) (ps_id (?stages ! (k - 1)))]" by (auto simp: plan_ok_def)
      with deps False have "dep_outputs ?g v = [PlaceholderRef (pd_id pipeline) (ps_id (?stages ! (k - 1)))]"
        by (simp add: dep_outputs_def task_of_def)
      with t False assms(2) show ?thesis by (simp add: task_of_def stage_input_def producer_count_def)
    qed
  qed
  with Validate_accepts [OF wf] ac have "Validate ?g [profile] ext = Inr ()" by simp
  moreover have "tg_dependencies ?g (pl_task_id (xp_stages plan ! k))
         = Some (if k = 0 then [] else [pl_task_id (xp_stages plan ! (k - 1))]) \<and>
       (\<exists>t. tg_tasks ?g (pl_task_id (xp_stages plan ! k)) = Some t \<and>
          ti_inputs t = (if k = 0 then ext else [PlaceholderRef (pd_id pipeline) (ps_id (?stages ! (k - 1)))]) \<and>
          ti_outputs t = [PlaceholderRef (pd_id pipeline) (ps_id (?stages ! k))])" if "k < length ?stages" for k
    using ok that unfolding plan_ok_def stage_input_def by blast
  ultimately show ?thesis using out(1) \<open>out = tg_order ?g\<close> order names dist unique by (intro conjI) auto
qed

section \<open>Compiling again\<close>

definition stage_view :: "PlanStage \<Rightarrow> PlanStage" where
  "stage_view s = s\<lparr>pl_task_id := nil_uuid\<rparr>"

lemma AddDependency_tasks: "tg_tasks (snd (AddDependency a b g)) = tg_tasks g"
  by (simp add: AddDependency_def Let_def split: sum.split)

lemma compile_stage_view:
  assumes "compile_stage lib c pipeline cfg impl inputs stage plan w = (Inr plan', w')"
  shows "\<exists>conf s g. jl_dump lib (stage_config_doc pipeline stage cfg) = Inr conf \<and>
    plan' = plan\<lparr>xp_graph := g, xp_stages := xp_stages plan @ [s]\<rparr> \<and>
    stage_view s = \<lparr>pl_stage_id = ps_id stage, pl_capability = ps_capability stage, pl_implementation = impl,
      pl_task_type = ps_task_type stage, pl_config_hash = Sha256Hex (bytes_of conf),
      pl_task_hash = ComputeKey (ps_task_type stage) inputs (Sha256Hex (bytes_of conf))
        (tc_producer_version c) (tc_engine_git_commit c), pl_task_id = nil_uuid\<rparr>"
proof -
  from compile_stage_Inr [OF assms] obtain random conf tid g1 g2 task where
    conf: "jl_dump lib (stage_config_doc pipeline stage cfg) = Inr conf"
    and add: "AddTask random (stage_task pipeline stage (xp_stages plan = []) inputs conf (xp_created_at_ns plan)) (xp_graph plan)
       = (Inr tid, g1)"
    and dep: "if xp_stages plan = [] then g2 = g1 else AddDependency tid (pl_task_id (last (xp_stages plan))) g1 = (Inr (), g2)"
    and get: "GetTask g2 tid = Inr task"
    and plan': "plan' = plan\<lparr>xp_graph := g2, xp_stages := xp_stages plan @ [plan_stage c impl stage task]\<rparr>" by metis
  from dep AddDependency_tasks have "tg_tasks g2 = tg_tasks g1" by (metis snd_conv)
  with AddTask_Inr [OF add] get have "ti_config_json task = conf" "ti_inputs task = inputs"
    by (auto simp: GetTask_def Require_def stage_task_def)
  with conf plan' show ?thesis by (auto simp: stage_view_def plan_stage_def Let_def)
qed

lemma ComputeKey_mset: "mset ins = mset ins' \<Longrightarrow> ComputeKey ty ins cfg pv gc = ComputeKey ty ins' cfg pv gc"
  using properties_for_sort [of "sort ins" ins'] by (simp add: ComputeKey_def key_preimage_def)

lemma compile_stages_view:
  assumes "compile_stages lib c pipeline cfg impl inputs stages plan w = (Inr p, w')"
    "compile_stages lib c pipeline cfg impl inputs' stages plan' v = (Inr q, v')"
    "mset inputs = mset inputs'" "map stage_view (xp_stages plan) = map stage_view (xp_stages plan')"
  shows "map stage_view (xp_stages p) = map stage_view (xp_stages q)"
  using assms
proof (induction stages arbitrary: inputs inputs' plan plan' w v)
  case Nil
  then show ?case by (simp add: lift_w_def)
next
  case (Cons stage stages)
  from Cons.prems(1) obtain plan1 w1 where
    p1: "compile_stage lib c pipeline cfg impl inputs stage plan w = (Inr plan1, w1)"
      "compile_stages lib c pipeline cfg impl [PlaceholderRef (pd_id pipeline) (ps_id stage)] stages plan1 w1 = (Inr p, w')"
    by (auto dest!: sbind_InrD)
  from Cons.prems(2) obtain plan2 v1 where
    p2: "compile_stage lib c pipeline cfg impl inputs' stage plan' v = (Inr plan2, v1)"
      "compile_stages lib c pipeline cfg impl [PlaceholderRef (pd_id pipeline) (ps_id stage)] stages plan2 v1 = (Inr q, v')"
    by (auto dest!: sbind_InrD)
  from compile_stage_view [OF p1(1)] compile_stage_view [OF p2(1)] ComputeKey_mset [OF Cons.prems(3)] Cons.prems(4)
  have "map stage_view (xp_stages plan1) = map stage_view (xp_stages plan2)" by auto
  from Cons.IH [OF p1(2) p2(2) refl this] show ?case .
qed

lemma compile_stages_keeps:
  "compile_stages lib c pipeline cfg impl inputs stages plan w = (Inr p, w') \<Longrightarrow>
   xp_pipeline_hash p = xp_pipeline_hash plan \<and> xp_config_hash p = xp_config_hash plan"
proof (induction stages arbitrary: inputs plan w)
  case (Cons stage stages)
  then show ?case by (fastforce dest!: sbind_InrD compile_stage_view)
qed (simp add: lift_w_def)

lemma Compile_Inr:
  assumes "Compile lib c pipeline ext config profile impl w = (Inr plan, w')"
  obtains cfg created job v where "parse_config lib config = Inr cfg"
    "compile_stages lib c pipeline cfg impl ext (pd_stages pipeline) (new_plan pipeline config ext created job) v = (Inr plan, w')"
  using assms by (auto simp: Compile_def lift_w_def dest!: sbind_InrD split: if_splits)

text \<open>
  Compiling again, at any time, on any worker, with the inputs in any order and the configuration written in any way that
  parses alike, gives the same stages with the same configuration and task hashes, only under new task
  ids; the run's hash is the same when the configuration's text is.
\<close>

theorem Compile_reproducible:
  assumes "Compile lib c pipeline ext config profile impl w = (Inr plan, w')"
    "Compile lib c pipeline ext' config' profile' impl v = (Inr plan', v')"
    "mset ext = mset ext'" "parse_config lib config = parse_config lib config'"
  shows "map stage_view (xp_stages plan) = map stage_view (xp_stages plan') \<and>
    (config = config' \<longrightarrow> xp_pipeline_hash plan = xp_pipeline_hash plan' \<and> xp_config_hash plan = xp_config_hash plan')"
proof -
  from Compile_Inr [OF assms(1)] obtain cfg created job w1 where
    a: "parse_config lib config = Inr cfg"
      "compile_stages lib c pipeline cfg impl ext (pd_stages pipeline) (new_plan pipeline config ext created job) w1 = (Inr plan, w')" .
  from Compile_Inr [OF assms(2)] assms(4) a(1) obtain created' job' v1 where
    b: "compile_stages lib c pipeline cfg impl ext' (pd_stages pipeline) (new_plan pipeline config' ext' created' job') v1 = (Inr plan', v')"
    by (metis sum.inject(2))
  have "sort ext = sort ext'" using assms(3) by (simp add: properties_for_sort)
  with compile_stages_keeps [OF a(2)] compile_stages_keeps [OF b] compile_stages_view [OF a(2) b assms(3)] show ?thesis
    by (simp add: new_plan_def Let_def PipelineHash_def hash_content_def JoinSorted_def)
qed

section \<open>What the run's hash determines\<close>

definition bar_free :: "string \<Rightarrow> bool" where
  "bar_free s \<longleftrightarrow> CHR ''|'' \<notin> set s"

lemma hash_content_fields:
  assumes "bar_free (pd_id p)" "bar_free (pd_version p)" "bar_free (pd_git_commit p)" "bar_free cfg" "\<forall>r\<in>set ext. bar_free r"
  shows "fields_of (CHR ''|'') (hash_content p cfg ext) = [pd_id p, pd_version p, pd_git_commit p, cfg] @ sort ext @ [[]]"
  using assms fields_of_fields [of "sort ext" "CHR ''|''" "[]"]
  by (simp add: hash_content_def JoinSorted_def fields_of_field bar_free_def)

text \<open>
  When no field holds a bar, two runs have the same hash only if pipeline id, version, commit, configuration hash and the
  inputs (as a multiset) are the same, or two different texts collide under SHA-256. With a bar in the id or
  version, different pipelines share a hash.
\<close>

theorem PipelineHash_determines:
  assumes "bar_free (pd_id p)" "bar_free (pd_version p)" "bar_free (pd_git_commit p)" "bar_free cfg" "\<forall>r\<in>set ext. bar_free r"
    "bar_free (pd_id q)" "bar_free (pd_version q)" "bar_free (pd_git_commit q)" "bar_free cfg'" "\<forall>r\<in>set ext'. bar_free r"
  shows "(PipelineHash p cfg ext = PipelineHash q cfg' ext' \<longrightarrow>
      pd_id p = pd_id q \<and> pd_version p = pd_version q \<and> pd_git_commit p = pd_git_commit q \<and> cfg = cfg' \<and> mset ext = mset ext' \<or>
      hash_content p cfg ext \<noteq> hash_content q cfg' ext' \<and>
        Sha256Hex (bytes_of (hash_content p cfg ext)) = Sha256Hex (bytes_of (hash_content q cfg' ext'))) \<and>
    PipelineHash (p\<lparr>pd_id := ''a|b'', pd_version := ''c''\<rparr>) cfg ext = PipelineHash (p\<lparr>pd_id := ''a'', pd_version := ''b|c''\<rparr>) cfg ext"
proof -
  have "pd_id p = pd_id q \<and> pd_version p = pd_version q \<and> pd_git_commit p = pd_git_commit q \<and> cfg = cfg' \<and> mset ext = mset ext'"
    if "hash_content p cfg ext = hash_content q cfg' ext'"
  proof -
    from that hash_content_fields [OF assms(1-5)] hash_content_fields [OF assms(6-10)]
    have "[pd_id p, pd_version p, pd_git_commit p, cfg] @ sort ext @ [[]] = [pd_id q, pd_version q, pd_git_commit q, cfg'] @ sort ext' @ [[]]"
      by metis
    then have "pd_id p = pd_id q \<and> pd_version p = pd_version q \<and> pd_git_commit p = pd_git_commit q \<and> cfg = cfg' \<and> sort ext = sort ext'"
      by simp
    moreover have "mset ext = mset ext'" if "sort ext = sort ext'" using that by (metis mset_sort)
    ultimately show ?thesis by blast
  qed
  then show ?thesis by (auto simp: PipelineHash_def) (simp add: hash_content_def)
qed

section \<open>The registry keeps what it was given\<close>

lemma Register_Resolve:
  "Register p reg = (Inr (), reg') \<Longrightarrow> Resolve reg' k = (if k = pd_id p then Inr p else Resolve reg k)"
  by (auto simp: Register_def Resolve_def tbl_get_insert split: if_splits option.splits)

lemma Register_fails: "Register p reg = (Inl e, reg') \<Longrightarrow> reg' = reg \<and> (pd_id p = [] \<or> RegistryContains reg (pd_id p))"
  by (auto simp: Register_def RegistryContains_def tbl_insert_def tbl_get_None split: if_splits)

lemma RegisterProductionPipelines_Ids:
  "(case RegisterProductionPipelines commit [] of (r, reg) \<Rightarrow> r = Inr () \<and>
     Ids reg = [''bundle_adjustment'', ''loop_closure_optimization'', ''loop_closure_verification'', ''p3_sparse_correction''])"
  by code_simp

section \<open>When the compiler returns\<close>

lemma compile_stage_returns:
  assumes ok: "plan_ok pipeline ext stages plan" and conf: "jl_dump lib (stage_config_doc pipeline stage cfg) = Inr conf"
    and new: "GenerateUuid (w_random w (w_tick w)) \<notin> set (tg_order (xp_graph plan))"
  shows "\<exists>plan'. compile_stage lib c pipeline cfg impl inputs stage plan w = (Inr plan', w_step w) \<and>
    tg_order (xp_graph plan') = tg_order (xp_graph plan) @ [GenerateUuid (w_random w (w_tick w))]"
proof -
  let ?g = "xp_graph plan" and ?tid = "GenerateUuid (w_random w (w_tick w))"
  let ?t = "stage_task pipeline stage (xp_stages plan = []) inputs conf (xp_created_at_ns plan)"
  let ?g1 = "?g\<lparr>tg_tasks := (tg_tasks ?g)(?tid \<mapsto> ?t\<lparr>ti_id := ?tid\<rparr>), tg_dependencies := (tg_dependencies ?g)(?tid \<mapsto> []),
     tg_dependents := (tg_dependents ?g)(?tid \<mapsto> []), tg_order := tg_order ?g @ [?tid]\<rparr>"
  from ok have wf: "graph_wf ?g" and order: "tg_order ?g = map pl_task_id (xp_stages plan)" by (simp_all add: plan_ok_def)
  have "tg_tasks ?g ?tid = None" using graph_wf_unknown [OF wf new] by blast
  moreover have "IsNil (ti_id ?t)" by (simp add: stage_task_def default_task_def IsNil_def nil_uuid_def list_all_iff)
  ultimately have add: "AddTask (w_random w (w_tick w)) ?t ?g = (Inr ?tid, ?g1)"
    by (simp add: AddTask_def Let_def)
  show ?thesis
  proof (cases "xp_stages plan = []")
    case True
    with add conf show ?thesis
      by (simp add: compile_stage_def on_plan_graph_def lift_w_def sbind_def GetTask_def Require_def)
  next
    case False
    let ?b = "pl_task_id (last (xp_stages plan))"
    have "?b \<in> set (tg_order ?g)" using False order by simp
    with graph_wf_known [OF wf, of ?b] new have "tg_tasks ?g1 ?tid \<noteq> None" "tg_tasks ?g1 ?b \<noteq> None"
      "tg_dependencies ?g1 ?tid = Some []" by auto
    note dep = AddDependency_first [OF this]
    show ?thesis
      unfolding compile_stage_def Let_def
      using False add conf dep by (simp add: on_plan_graph_def lift_w_def sbind_def GetTask_def Require_def)
  qed
qed

lemma compile_stages_returns:
  assumes "plan_ok pipeline ext don plan" "\<And>stage. stage \<in> set todo \<Longrightarrow> \<exists>conf. jl_dump lib (stage_config_doc pipeline stage cfg) = Inr conf"
    "distinct (tg_order (xp_graph plan) @ map (\<lambda>n. GenerateUuid (w_random w n)) [w_tick w..<w_tick w + length todo])"
    "inputs = stage_input pipeline ext (don @ todo) (length don)"
  shows "\<exists>plan' w'. compile_stages lib c pipeline cfg impl inputs todo plan w = (Inr plan', w')"
  using assms
proof (induction todo arbitrary: don plan w inputs)
  case Nil
  then show ?case by (simp add: lift_w_def)
next
  case (Cons stage todo)
  have ticks: "[w_tick w..<w_tick w + length (stage # todo)] = w_tick w # [w_tick (w_step w)..<w_tick (w_step w) + length todo]"
    by (subst upt_conv_Cons) (simp_all add: w_step_def)
  have rand: "w_random (w_step w) = w_random w" by (simp add: w_step_def)
  from Cons.prems(2) obtain conf where conf: "jl_dump lib (stage_config_doc pipeline stage cfg) = Inr conf" by auto
  have "GenerateUuid (w_random w (w_tick w)) \<notin> set (tg_order (xp_graph plan))" 
    using Cons.prems(3) [unfolded ticks] by simp
  from compile_stage_returns [OF Cons.prems(1) conf this, of c impl inputs] obtain plan1 where
    one: "compile_stage lib c pipeline cfg impl inputs stage plan w = (Inr plan1, w_step w)"
    and order: "tg_order (xp_graph plan1) = tg_order (xp_graph plan) @ [GenerateUuid (w_random w (w_tick w))]" by blast
  have inputs: "inputs = stage_input pipeline ext (don @ [stage]) (length don)"
    using Cons.prems(4) by (auto simp: stage_input_def nth_append)
  have "distinct (tg_order (xp_graph plan1) @ map (\<lambda>n. GenerateUuid (w_random (w_step w) n))
      [w_tick (w_step w)..<w_tick (w_step w) + length todo])"
    using Cons.prems(3) unfolding ticks rand order by auto
  moreover have "[PlaceholderRef (pd_id pipeline) (ps_id stage)] = stage_input pipeline ext ((don @ [stage]) @ todo) (length (don @ [stage]))"
    by (simp add: stage_input_def)
  ultimately obtain plan' w' where
    "compile_stages lib c pipeline cfg impl [PlaceholderRef (pd_id pipeline) (ps_id stage)] todo plan1 (w_step w) = (Inr plan', w')"
    using Cons.IH [OF compile_stage_ok [OF one [unfolded inputs] Cons.prems(1)], of "w_step w"] Cons.prems(2) by fastforce
  with one show ?case by (auto simp: sbind_def)
qed

lemma check_capabilities_Inr:
  "check_capabilities pid profile stages = Inr () \<longleftrightarrow> (\<forall>s\<in>set stages. ps_capability s \<in> set (pf_capabilities profile))"
  by (induction stages) auto

text \<open>Stages with dumpable texts compile when the worker has their capabilities, unless random ids collide.\<close>

lemma Compile_returns:
  assumes "pd_stages pipeline \<noteq> []" "ext \<noteq> []" "parse_config lib config = Inr cfg"
    "\<forall>s\<in>set (pd_stages pipeline). ps_capability s \<in> set (pf_capabilities profile)"
    "\<And>stage. stage \<in> set (pd_stages pipeline) \<Longrightarrow> \<exists>conf. jl_dump lib (stage_config_doc pipeline stage cfg) = Inr conf"
    "distinct (map (\<lambda>n. GenerateUuid (w_random w n)) [w_tick w + 2..<w_tick w + 2 + length (pd_stages pipeline)])"
  shows "\<exists>plan w'. Compile lib c pipeline ext config profile impl w = (Inr plan, w')"
proof -
  let ?p = "new_plan pipeline config ext (w_clock w (w_tick w)) (GenerateUuid (w_random (w_step w) (w_tick (w_step w))))"
  let ?v = "w_step (w_step w)"
  have "tg_order (xp_graph ?p) = []" by (simp add: new_plan_def Let_def new_graph_def)
  then have "distinct (tg_order (xp_graph ?p) @ map (\<lambda>n. GenerateUuid (w_random ?v n)) [w_tick ?v..<w_tick ?v + length (pd_stages pipeline)])"
    using assms(6) by (simp add: w_step_def)
  moreover have "ext = stage_input pipeline ext ([] @ pd_stages pipeline) (length ([] :: PipelineStage list))"
    by (simp add: stage_input_def)
  ultimately obtain plan w' where
    "compile_stages lib c pipeline cfg impl ext (pd_stages pipeline) ?p ?v = (Inr plan, w')"
    using compile_stages_returns [OF plan_ok_new assms(5)] by blast
  moreover have "check_capabilities (pd_id pipeline) profile (pd_stages pipeline) = Inr ()"
    using assms(4) by (simp add: check_capabilities_Inr)
  ultimately show ?thesis
    using assms(1-3) by (auto simp: Compile_def lift_w_def sbind_def TimestampNsNow_def new_uuid_def)
qed

section \<open>Concrete pipelines\<close>

definition demo_compiler :: cache_config where
  "demo_compiler = \<lparr>tc_producer_version = ''1'', tc_engine_git_commit = ''g''\<rparr>"

definition demo_profile :: ResourceProfile where
  "demo_profile = \<lparr>pf_name = [], pf_capabilities = [''feature_extraction'', ''reconstruction''], pf_capacity = default_spec,
     pf_max_concurrency = 1\<rparr>"

definition demo_pipeline :: PipelineDefinition where
  "demo_pipeline = shipped ''g'' ''p'' ''P''
     [pipeline_stage ''one'' ''feature_extraction'' ''extract'' [''image''] [''keypoints''],
      pipeline_stage ''two'' ''reconstruction'' ''reconstruct'' [''keypoints''] [''point_cloud'']]"

lemma demo_uuid: "GenerateUuid (replicate 15 0 @ [b]) = [0, 0, 0, 0, 0, 0, 64, 0, 128, 0, 0, 0, 0, 0, 0, b]"
  by (simp add: GenerateUuid_def stamp_version_def eval_nat_numeral)

lemma demo_compiles:
  "\<exists>plan w. Compile reference_json demo_compiler demo_pipeline [''img''] [] demo_profile ''process'' (empty_world\<lparr>w_tick := n\<rparr>) = (Inr plan, w)"
proof (rule Compile_returns)
  show "pd_stages demo_pipeline \<noteq> []" "[''img''] \<noteq> []" "parse_config reference_json [] = Inr (JObj [])"
    "\<forall>s\<in>set (pd_stages demo_pipeline). ps_capability s \<in> set (pf_capabilities demo_profile)"
    by (simp_all add: demo_pipeline_def shipped_def pipeline_stage_def demo_profile_def parse_config_def)
  show "\<exists>conf. jl_dump reference_json (stage_config_doc demo_pipeline stage (JObj [])) = Inr conf" for stage
    by (simp add: reference_json_def)
  have "GenerateUuid (w_random empty_world k) = [0, 0, 0, 0, 0, 0, 64, 0, 128, 0, 0, 0, 0, 0, 0, of_nat k]" for k
    using demo_uuid [of "of_nat k"] by (simp add: empty_world_def)
  then show "distinct (map (\<lambda>k. GenerateUuid (w_random (empty_world\<lparr>w_tick := n\<rparr>) k))
      [w_tick (empty_world\<lparr>w_tick := n\<rparr>) + 2..<w_tick (empty_world\<lparr>w_tick := n\<rparr>) + 2 + length (pd_stages demo_pipeline)])"
    by (simp add: demo_pipeline_def shipped_def upt_conv_Cons)
qed

lemma Compile_validates_witness:
  "\<exists>plan w. Compile reference_json demo_compiler demo_pipeline [''img''] [] demo_profile ''process'' (empty_world\<lparr>w_tick := 0\<rparr>) = (Inr plan, w) \<and>
     Validate (xp_graph plan) [demo_profile] [''img''] = Inr () \<and> length (xp_stages plan) = 2"
proof -
  obtain plan w where c: "Compile reference_json demo_compiler demo_pipeline [''img''] [] demo_profile ''process'' (empty_world\<lparr>w_tick := 0\<rparr>) = (Inr plan, w)"
    using demo_compiles by blast
  have "Fits default_spec (pf_capacity demo_profile)" by (simp add: Fits_def demo_profile_def)
  note v = Compile_validates [OF c this, THEN conjunct1]
    Compile_validates [OF c this, THEN conjunct2, THEN conjunct1]
  from v(2) have "length (xp_stages plan) = length (pd_stages demo_pipeline)" by (metis length_map)
  with c v(1) show ?thesis by (simp add: demo_pipeline_def shipped_def)
qed

lemma Compile_reproducible_witness:
  "\<exists>p w q v. Compile reference_json demo_compiler demo_pipeline [''img''] [] demo_profile ''process'' (empty_world\<lparr>w_tick := 0\<rparr>) = (Inr p, w) \<and>
     Compile reference_json demo_compiler demo_pipeline [''img''] [] demo_profile ''process'' (empty_world\<lparr>w_tick := 9\<rparr>) = (Inr q, v) \<and>
     map stage_view (xp_stages p) = map stage_view (xp_stages q)"
proof -
  obtain p w q v where
    c: "Compile reference_json demo_compiler demo_pipeline [''img''] [] demo_profile ''process'' (empty_world\<lparr>w_tick := 0\<rparr>) = (Inr p, w)"
      "Compile reference_json demo_compiler demo_pipeline [''img''] [] demo_profile ''process'' (empty_world\<lparr>w_tick := 9\<rparr>) = (Inr q, v)"
    using demo_compiles by meson
  from Compile_reproducible [OF c refl refl] c show ?thesis by blast
qed

lemma PipelineHash_determines_witness:
  "bar_free ''p'' \<and> PipelineHash (demo_pipeline\<lparr>pd_id := ''a|b'', pd_version := ''c''\<rparr>) ''h'' [''i''] =
     PipelineHash (demo_pipeline\<lparr>pd_id := ''a'', pd_version := ''b|c''\<rparr>) ''h'' [''i'']"
proof -
  have f: "bar_free (pd_id demo_pipeline)" "bar_free (pd_version demo_pipeline)" "bar_free (pd_git_commit demo_pipeline)"
    "bar_free ''h''" "\<forall>r\<in>set [''i'']. bar_free r" "bar_free ''p''"
    by (simp_all add: bar_free_def demo_pipeline_def shipped_def)
  from PipelineHash_determines [OF f(1-5) f(1-5)] f(6) show ?thesis by blast
qed

end
