(* ===== verification/Manifests.thy ===== *)
theory Manifests
  imports Pipelines Transactions
begin

text \<open>
  engine/pipeline/execution_manifest.cpp: the persisted document of a pipeline run, one row of
  \<open>execution_manifests\<close> and one row per stage (migration 0004). The lemmas show that the store implements
  a map from run ids to manifests: what \<open>Load\<close> returns after any sequence of calls.
\<close>

section \<open>Rows\<close>

record manifest_row =
  mr_manifest_id :: uuid
  mr_pipeline_id :: string
  mr_pipeline_version :: string
  mr_pipeline_hash :: string
  mr_config_hash :: string
  mr_git_commit :: string
  mr_status :: string
  mr_external_inputs_json :: string
  mr_quality_report_id :: "uuid option"
  mr_created_at_ns :: int
  mr_finished_at_ns :: "int option"

record stage_row =
  sr_manifest_id :: uuid
  sr_sequence :: int
  sr_stage_id :: string
  sr_capability :: string
  sr_implementation :: string
  sr_task_hash :: string
  sr_status :: string
  sr_cache_hit :: int
  sr_task_id :: uuid
  sr_output_refs_json :: string
  sr_started_at_ns :: "int option"
  sr_finished_at_ns :: "int option"

record manifest_tables =
  mt_manifests :: "manifest_row list"
  mt_stages :: "stage_row list"

record ExecutionManifestStage =
  es_sequence :: int
  es_stage_id :: string
  es_capability :: string
  es_implementation :: string
  es_task_hash :: string
  es_status :: string
  es_cache_hit :: bool
  es_task_id :: uuid
  es_output_refs :: "ArtifactRef list"
  es_started_at_ns :: int
  es_finished_at_ns :: int

record ExecutionManifest =
  em_manifest_id :: uuid
  em_pipeline_id :: string
  em_pipeline_version :: string
  em_pipeline_hash :: string
  em_config_hash :: string
  em_git_commit :: string
  em_status :: string
  em_external_inputs :: "ArtifactRef list"
  em_quality_report_id :: "uuid option"
  em_created_at_ns :: int
  em_finished_at_ns :: int
  em_stages :: "ExecutionManifestStage list"

type_synonym 'a manifest_op = "manifest_tables tx_conn \<Rightarrow> 'a res \<times> manifest_tables tx_conn"

section \<open>Operations\<close>

text \<open>The null check of the writes; the connection's read-only flag is not consulted.\<close>

definition manifest_write :: "'a manifest_op \<Rightarrow> 'a manifest_op" where
  "manifest_write m d = (if \<not> db_open d then (Inl not_open, d) else m d)"

definition manifest_step :: "string \<Rightarrow> (manifest_tables \<Rightarrow> manifest_tables option) \<Rightarrow> unit manifest_op" where
  "manifest_step what f = sql_modify (store_error what) f"

definition JoinJson :: "json_lib \<Rightarrow> ArtifactRef list \<Rightarrow> string res" where
  "JoinJson lib refs = jl_dump lib (string_array refs)"

text \<open>The texts among the items; whatever does not parse is no list.\<close>

definition ParseRefs :: "json_lib \<Rightarrow> string \<Rightarrow> ArtifactRef list" where
  "ParseRefs lib column = (case jl_parse lib column of
     Inr (JArr items) \<Rightarrow> concat (map (\<lambda>item. case item of JStr s \<Rightarrow> [s] | _ \<Rightarrow> []) items) | _ \<Rightarrow> [])"

definition header_row :: "ExecutionPlan \<Rightarrow> string \<Rightarrow> manifest_row" where
  "header_row plan inputs = \<lparr>mr_manifest_id = xp_job_id plan, mr_pipeline_id = xp_pipeline_id plan,
     mr_pipeline_version = xp_pipeline_version plan, mr_pipeline_hash = xp_pipeline_hash plan,
     mr_config_hash = xp_config_hash plan, mr_git_commit = xp_git_commit plan, mr_status = ''running'',
     mr_external_inputs_json = inputs, mr_quality_report_id = None, mr_created_at_ns = xp_created_at_ns plan,
     mr_finished_at_ns = None\<rparr>"

definition Begin :: "json_lib \<Rightarrow> ExecutionPlan \<Rightarrow> unit manifest_op" where
  "Begin lib plan = manifest_write
     (sbind (sql_call (store_error ''cannot prepare begin manifest'')) (\<lambda>_.
      sbind (lift_res (JoinJson lib (xp_external_inputs plan))) (\<lambda>inputs.
        manifest_step ''cannot insert manifest header'' (\<lambda>t. map_option (\<lambda>rows. t\<lparr>mt_manifests := rows\<rparr>)
          (tbl_insert mr_manifest_id (header_row plan inputs) (mt_manifests t))))))"

abbreviation stage_key :: "stage_row \<Rightarrow> uuid \<times> int" where
  "stage_key r \<equiv> (sr_manifest_id r, sr_sequence r)"

definition new_stage_row :: "uuid \<Rightarrow> PlanStage \<Rightarrow> int \<Rightarrow> stage_row" where
  "new_stage_row manifest_id stage sequence = \<lparr>sr_manifest_id = manifest_id, sr_sequence = sequence,
     sr_stage_id = pl_stage_id stage, sr_capability = pl_capability stage, sr_implementation = pl_implementation stage,
     sr_task_hash = pl_task_hash stage, sr_status = ''pending'', sr_cache_hit = 0, sr_task_id = pl_task_id stage,
     sr_output_refs_json = ''[]'', sr_started_at_ns = None, sr_finished_at_ns = None\<rparr>"

definition insert_stage :: "stage_row \<Rightarrow> manifest_tables \<Rightarrow> manifest_tables option" where
  "insert_stage row t =
     (if tbl_get mr_manifest_id (sr_manifest_id row) (mt_manifests t) = None then None
      else map_option (\<lambda>rows. t\<lparr>mt_stages := rows\<rparr>) (tbl_insert stage_key row (mt_stages t)))"

definition InsertStage :: "uuid \<Rightarrow> PlanStage \<Rightarrow> int \<Rightarrow> unit manifest_op" where
  "InsertStage manifest_id stage sequence = manifest_write
     (sbind (sql_call (store_error ''cannot prepare insert stage'')) (\<lambda>_.
        manifest_step ''cannot insert manifest stage'' (insert_stage (new_stage_row manifest_id stage sequence))))"

text \<open>An UPDATE: every row with the key; none is no error.\<close>

definition update_rows :: "('r \<Rightarrow> 'k) \<Rightarrow> 'k \<Rightarrow> ('r \<Rightarrow> 'r) \<Rightarrow> 'r list \<Rightarrow> 'r list" where
  "update_rows key k f = map (\<lambda>r. if key r = k then f r else r)"

definition UpdateStage :: "json_lib \<Rightarrow> uuid \<Rightarrow> int \<Rightarrow> TaskStatus \<Rightarrow> bool \<Rightarrow> ArtifactRef list \<Rightarrow> int \<Rightarrow> int \<Rightarrow> unit manifest_op" where
  "UpdateStage lib manifest_id sequence status cache_hit output_refs started finished = manifest_write
     (sbind (sql_call (store_error ''cannot prepare update stage'')) (\<lambda>_.
      sbind (lift_res (JoinJson lib output_refs)) (\<lambda>outputs.
        manifest_step ''cannot update manifest stage'' (\<lambda>t. Some (t\<lparr>mt_stages :=
          update_rows stage_key (manifest_id, sequence) (\<lambda>r. r\<lparr>sr_status := TaskStatusName status,
            sr_cache_hit := (if cache_hit then 1 else 0), sr_output_refs_json := outputs,
            sr_started_at_ns := Some started, sr_finished_at_ns := Some finished\<rparr>) (mt_stages t)\<rparr>)))))"

definition Finish :: "uuid \<Rightarrow> TaskStatus \<Rightarrow> int \<Rightarrow> unit manifest_op" where
  "Finish manifest_id pipeline_status now = manifest_write
     (sbind (sql_call (store_error ''cannot prepare finish manifest'')) (\<lambda>_.
        manifest_step ''cannot finish manifest'' (\<lambda>t. Some (t\<lparr>mt_manifests :=
          update_rows mr_manifest_id manifest_id (\<lambda>r. r\<lparr>mr_status := TaskStatusName pipeline_status,
            mr_finished_at_ns := Some now\<rparr>) (mt_manifests t)\<rparr>))))"

definition SetQualityReportId :: "uuid \<Rightarrow> uuid \<Rightarrow> unit manifest_op" where
  "SetQualityReportId manifest_id artifact_uuid = manifest_write
     (sbind (sql_call (store_error ''cannot prepare link quality report'')) (\<lambda>_.
        manifest_step ''cannot link quality report'' (\<lambda>t. Some (t\<lparr>mt_manifests :=
          update_rows mr_manifest_id manifest_id (\<lambda>r. r\<lparr>mr_quality_report_id := Some artifact_uuid\<rparr>) (mt_manifests t)\<rparr>))))"

text \<open>A blob that does not have 16 bytes is no id.\<close>

definition manifest_of_row :: "json_lib \<Rightarrow> manifest_row \<Rightarrow> ExecutionManifest" where
  "manifest_of_row lib r = \<lparr>em_manifest_id = mr_manifest_id r, em_pipeline_id = mr_pipeline_id r,
     em_pipeline_version = mr_pipeline_version r, em_pipeline_hash = mr_pipeline_hash r,
     em_config_hash = mr_config_hash r, em_git_commit = mr_git_commit r, em_status = mr_status r,
     em_external_inputs = ParseRefs lib (mr_external_inputs_json r),
     em_quality_report_id = (case mr_quality_report_id r of Some u \<Rightarrow> if length u = 16 then Some u else None | None \<Rightarrow> None),
     em_created_at_ns = mr_created_at_ns r,
     em_finished_at_ns = (case mr_finished_at_ns r of None \<Rightarrow> 0 | Some n \<Rightarrow> n), em_stages = []\<rparr>"

definition stage_of_row :: "json_lib \<Rightarrow> stage_row \<Rightarrow> ExecutionManifestStage" where
  "stage_of_row lib r = \<lparr>es_sequence = sr_sequence r, es_stage_id = sr_stage_id r, es_capability = sr_capability r,
     es_implementation = sr_implementation r, es_task_hash = sr_task_hash r, es_status = sr_status r,
     es_cache_hit = (sr_cache_hit r \<noteq> 0), es_task_id = (if length (sr_task_id r) = 16 then sr_task_id r else nil_uuid),
     es_output_refs = ParseRefs lib (sr_output_refs_json r),
     es_started_at_ns = (case sr_started_at_ns r of None \<Rightarrow> 0 | Some n \<Rightarrow> n),
     es_finished_at_ns = (case sr_finished_at_ns r of None \<Rightarrow> 0 | Some n \<Rightarrow> n)\<rparr>"

definition stage_rows :: "uuid \<Rightarrow> manifest_tables \<Rightarrow> stage_row list" where
  "stage_rows manifest_id t = sort_key sr_sequence (filter (\<lambda>r. sr_manifest_id r = manifest_id) (mt_stages t))"

definition Load :: "json_lib \<Rightarrow> uuid \<Rightarrow> ExecutionManifest option manifest_op" where
  "Load lib manifest_id =
     sbind (sql_call (store_error ''cannot prepare load manifest'')) (\<lambda>_.
     sbind (sql_first (\<lambda>d. tbl_get mr_manifest_id manifest_id (mt_manifests (tx_tables d)))) (\<lambda>found.
       case found of
         None \<Rightarrow> sret None
       | Some row \<Rightarrow>
           sbind (sql_call (store_error ''cannot prepare load stages'')) (\<lambda>_.
           sbind (\<lambda>d. fetch_rows (stage_rows manifest_id (tx_tables d)) d) (\<lambda>stages.
             sret (Some ((manifest_of_row lib row)\<lparr>em_stages := map (stage_of_row lib) stages\<rparr>))))))"

text \<open>Rows with equal times come in table order.\<close>

definition ListIds :: "uuid list manifest_op" where
  "ListIds =
     sbind (sql_call (store_error ''cannot prepare list manifests'')) (\<lambda>_.
     sbind (\<lambda>d. fetch_rows (sort_key (\<lambda>r. - mr_created_at_ns r) (mt_manifests (tx_tables d))) d) (\<lambda>rows.
       sret (map (\<lambda>r. if length (mr_manifest_id r) = 16 then mr_manifest_id r else nil_uuid) rows)))"

text \<open>The document of \<open>ToJson\<close>, before the library prints it with indentation.\<close>

definition stage_doc :: "ExecutionManifestStage \<Rightarrow> json" where
  "stage_doc s = JObj [(''cache_hit'', JBool (es_cache_hit s)), (''capability'', JStr (es_capability s)),
     (''implementation'', JStr (es_implementation s)), (''output_refs'', string_array (es_output_refs s)),
     (''sequence'', JInt (es_sequence s)), (''stage_id'', JStr (es_stage_id s)), (''status'', JStr (es_status s)),
     (''task_hash'', JStr (es_task_hash s)), (''task_id'', JStr (FormatUuid (es_task_id s)))]"

definition run_doc :: "ExecutionManifest \<Rightarrow> json" where
  "run_doc m = JObj [(''config_hash'', JStr (em_config_hash m)), (''created_at_ns'', JInt (em_created_at_ns m)),
     (''external_inputs'', string_array (em_external_inputs m)), (''finished_at_ns'', JInt (em_finished_at_ns m)),
     (''git_commit'', JStr (em_git_commit m)), (''manifest_id'', JStr (FormatUuid (em_manifest_id m))),
     (''pipeline'', JObj [(''id'', JStr (em_pipeline_id m)), (''version'', JStr (em_pipeline_version m))]),
     (''pipeline_hash'', JStr (em_pipeline_hash m)),
     (''quality_report_id'', case em_quality_report_id m of None \<Rightarrow> JNull | Some u \<Rightarrow> JStr (FormatUuid u)),
     (''stages'', JArr (map stage_doc (em_stages m))), (''status'', JStr (em_status m))]"

section \<open>The store as a map of manifests\<close>

datatype manifest_call =
    CallBegin ExecutionPlan
  | CallInsertStage uuid PlanStage int
  | CallUpdateStage uuid int TaskStatus bool "ArtifactRef list" int int
  | CallFinish uuid TaskStatus int
  | CallSetQualityReportId uuid uuid

fun manifest_call_op :: "json_lib \<Rightarrow> manifest_call \<Rightarrow> unit manifest_op" where
  "manifest_call_op lib (CallBegin plan) = Begin lib plan"
| "manifest_call_op lib (CallInsertStage i stage n) = InsertStage i stage n"
| "manifest_call_op lib (CallUpdateStage i n st hit refs a b) = UpdateStage lib i n st hit refs a b"
| "manifest_call_op lib (CallFinish i st now) = Finish i st now"
| "manifest_call_op lib (CallSetQualityReportId i a) = SetQualityReportId i a"

definition begun :: "ExecutionPlan \<Rightarrow> ExecutionManifest" where
  "begun plan = \<lparr>em_manifest_id = xp_job_id plan, em_pipeline_id = xp_pipeline_id plan,
     em_pipeline_version = xp_pipeline_version plan, em_pipeline_hash = xp_pipeline_hash plan,
     em_config_hash = xp_config_hash plan, em_git_commit = xp_git_commit plan, em_status = ''running'',
     em_external_inputs = xp_external_inputs plan, em_quality_report_id = None, em_created_at_ns = xp_created_at_ns plan,
     em_finished_at_ns = 0, em_stages = []\<rparr>"

definition pending_stage :: "PlanStage \<Rightarrow> int \<Rightarrow> ExecutionManifestStage" where
  "pending_stage stage n = \<lparr>es_sequence = n, es_stage_id = pl_stage_id stage, es_capability = pl_capability stage,
     es_implementation = pl_implementation stage, es_task_hash = pl_task_hash stage, es_status = ''pending'',
     es_cache_hit = False, es_task_id = pl_task_id stage, es_output_refs = [], es_started_at_ns = 0, es_finished_at_ns = 0\<rparr>"

definition change_at :: "uuid \<Rightarrow> ('m \<Rightarrow> 'm) \<Rightarrow> (uuid \<Rightarrow> 'm option) \<Rightarrow> uuid \<Rightarrow> 'm option" where
  "change_at i f M = M(i := map_option f (M i))"

text \<open>The specification: a map from run ids to manifests whose stages are ordered by sequence.\<close>

fun spec_call :: "manifest_call \<Rightarrow> (uuid \<Rightarrow> ExecutionManifest option) \<Rightarrow> uuid \<Rightarrow> ExecutionManifest option" where
  "spec_call (CallBegin plan) M = M(xp_job_id plan := Some (begun plan))"
| "spec_call (CallInsertStage i stage n) M =
     change_at i (\<lambda>m. m\<lparr>em_stages := insort_key es_sequence (pending_stage stage n) (em_stages m)\<rparr>) M"
| "spec_call (CallUpdateStage i n st hit refs a b) M =
     change_at i (\<lambda>m. m\<lparr>em_stages := update_rows es_sequence n (\<lambda>s. s\<lparr>es_status := TaskStatusName st,
       es_cache_hit := hit, es_output_refs := refs, es_started_at_ns := a, es_finished_at_ns := b\<rparr>) (em_stages m)\<rparr>) M"
| "spec_call (CallFinish i st now) M = change_at i (\<lambda>m. m\<lparr>em_status := TaskStatusName st, em_finished_at_ns := now\<rparr>) M"
| "spec_call (CallSetQualityReportId i a) M = change_at i (\<lambda>m. m\<lparr>em_quality_report_id := Some a\<rparr>) M"

definition manifest_at :: "json_lib \<Rightarrow> manifest_tables \<Rightarrow> uuid \<Rightarrow> ExecutionManifest option" where
  "manifest_at lib t i = map_option (\<lambda>row. (manifest_of_row lib row)\<lparr>em_stages := map (stage_of_row lib) (stage_rows i t)\<rparr>)
     (tbl_get mr_manifest_id i (mt_manifests t))"

text \<open>The keys are unique and every stage has its manifest.\<close>

definition manifests_ok :: "manifest_tables \<Rightarrow> bool" where
  "manifests_ok t \<longleftrightarrow> distinct (map mr_manifest_id (mt_manifests t)) \<and> distinct (map stage_key (mt_stages t)) \<and>
     (\<forall>r\<in>set (mt_stages t). tbl_get mr_manifest_id (sr_manifest_id r) (mt_manifests t) \<noteq> None)"

text \<open>References are ASCII texts, ids have 16 bytes.\<close>

definition call_ok :: "manifest_call \<Rightarrow> bool" where
  "call_ok call = (case call of
     CallBegin plan \<Rightarrow> list_all ascii (xp_external_inputs plan)
   | CallInsertStage i stage n \<Rightarrow> length (pl_task_id stage) = 16
   | CallUpdateStage i n st hit refs a b \<Rightarrow> list_all ascii refs
   | CallSetQualityReportId i a \<Rightarrow> length a = 16
   | _ \<Rightarrow> True)"

section \<open>Lemmas on rows\<close>

lemma sort_key_snoc: "f x \<notin> f ` set xs \<Longrightarrow> sort_key f (xs @ [x]) = insort_key f x (sort_key f xs)"
  by (induction xs) (auto simp: insort_key_left_comm)

lemma insort_key_commute: "(\<And>y. g (h y) = f y) \<Longrightarrow> map h (insort_key f x xs) = insort_key g (h x) (map h xs)"
  by (induction xs) auto

lemma sort_key_commute: "(\<And>y. f (h y) = f y) \<Longrightarrow> sort_key f (map h xs) = map h (sort_key f xs)"
  by (induction xs) (simp_all add: insort_key_commute [of f h f])

lemma tbl_get_update_rows:
  "(\<And>r. key (f r) = key r) \<Longrightarrow> tbl_get key k (update_rows key j f rows) =
     (if k = j then map_option f (tbl_get key k rows) else tbl_get key k rows)"
  by (induction rows) (auto simp: tbl_get_Cons update_rows_def)

lemma update_rows_keys: "(\<And>r. key (f r) = key r) \<Longrightarrow> map key (update_rows k j f rows) = map key rows"
  by (induction rows) (auto simp: update_rows_def)

lemma map_update_rows:
  "(\<And>r. h (f r) = g (h r)) \<Longrightarrow> (\<And>r. key' (h r) = key r) \<Longrightarrow>
     map h (update_rows key k f rows) = update_rows key' k g (map h rows)"
  by (induction rows) (simp_all add: update_rows_def)

lemma stage_rows_insert:
  assumes "stage_key row \<notin> stage_key ` set (mt_stages t)"
  shows "stage_rows i (t\<lparr>mt_stages := mt_stages t @ [row]\<rparr>) =
    (if sr_manifest_id row = i then insort_key sr_sequence row (stage_rows i t) else stage_rows i t)"
proof -
  have "sr_sequence row \<notin> sr_sequence ` set (filter (\<lambda>r. sr_manifest_id r = sr_manifest_id row) (mt_stages t))"
  proof
    assume "sr_sequence row \<in> sr_sequence ` set (filter (\<lambda>r. sr_manifest_id r = sr_manifest_id row) (mt_stages t))"
    then obtain x where "x \<in> set (mt_stages t)" "stage_key row = stage_key x" by auto
    with assms show False by blast
  qed
  from sort_key_snoc [OF this] show ?thesis by (auto simp: stage_rows_def)
qed

lemma stage_rows_update:
  assumes "\<And>r. stage_key (f r) = stage_key r"
  shows "stage_rows i (t\<lparr>mt_stages := update_rows stage_key (j, n) f (mt_stages t)\<rparr>) =
    (if i = j then update_rows sr_sequence n f (stage_rows i t) else stage_rows i t)"
proof -
  let ?g = "\<lambda>r. if stage_key r = (j, n) then f r else r"
  have keys: "sr_manifest_id (?g r) = sr_manifest_id r" "sr_sequence (?g r) = sr_sequence r" for r
    using assms [of r] by auto
  have "sr_manifest_id (f r) = sr_manifest_id r" for r using assms [of r] by simp
  then have "filter (\<lambda>r. sr_manifest_id r = i) (map ?g rows) = map ?g (filter (\<lambda>r. sr_manifest_id r = i) rows)" for rows
    by (induction rows) auto
  then have "stage_rows i (t\<lparr>mt_stages := update_rows stage_key (j, n) f (mt_stages t)\<rparr>) = map ?g (stage_rows i t)"
    using sort_key_commute [of sr_sequence ?g, OF keys(2)] by (simp add: stage_rows_def update_rows_def)
  also have "map ?g (stage_rows i t) = (if i = j then update_rows sr_sequence n f (stage_rows i t) else stage_rows i t)"
    by (auto simp: stage_rows_def update_rows_def intro!: map_idI)
  finally show ?thesis .
qed

section \<open>What a call does to the tables\<close>

definition stage_update :: "TaskStatus \<Rightarrow> bool \<Rightarrow> string \<Rightarrow> int \<Rightarrow> int \<Rightarrow> stage_row \<Rightarrow> stage_row" where
  "stage_update st hit outputs a b r = r\<lparr>sr_status := TaskStatusName st, sr_cache_hit := (if hit then 1 else 0),
     sr_output_refs_json := outputs, sr_started_at_ns := Some a, sr_finished_at_ns := Some b\<rparr>"

fun call_tables :: "json_lib \<Rightarrow> manifest_call \<Rightarrow> manifest_tables \<Rightarrow> manifest_tables option" where
  "call_tables lib (CallBegin plan) t = (case JoinJson lib (xp_external_inputs plan) of Inl _ \<Rightarrow> None
     | Inr inputs \<Rightarrow> map_option (\<lambda>rows. t\<lparr>mt_manifests := rows\<rparr>)
         (tbl_insert mr_manifest_id (header_row plan inputs) (mt_manifests t)))"
| "call_tables lib (CallInsertStage i stage n) t = insert_stage (new_stage_row i stage n) t"
| "call_tables lib (CallUpdateStage i n st hit refs a b) t = (case JoinJson lib refs of Inl _ \<Rightarrow> None
     | Inr outputs \<Rightarrow> Some (t\<lparr>mt_stages := update_rows stage_key (i, n) (stage_update st hit outputs a b) (mt_stages t)\<rparr>))"
| "call_tables lib (CallFinish i st now) t = Some (t\<lparr>mt_manifests := update_rows mr_manifest_id i
     (\<lambda>r. r\<lparr>mr_status := TaskStatusName st, mr_finished_at_ns := Some now\<rparr>) (mt_manifests t)\<rparr>)"
| "call_tables lib (CallSetQualityReportId i a) t = Some (t\<lparr>mt_manifests := update_rows mr_manifest_id i
     (\<lambda>r. r\<lparr>mr_quality_report_id := Some a\<rparr>) (mt_manifests t)\<rparr>)"

lemma manifest_call_op_tables:
  assumes "manifest_call_op lib call d = (r, d')"
  shows "case r of Inr _ \<Rightarrow> call_tables lib call (tx_tables d) = Some (tx_tables d') | Inl _ \<Rightarrow> tx_tables d' = tx_tables d"
  using assms
  by (cases call)
    (auto simp: Begin_def InsertStage_def UpdateStage_def Finish_def SetQualityReportId_def manifest_write_def manifest_step_def
      sbind_def sql_call_def sql_modify_def sql_write_def lift_res_def stage_update_def [abs_def]
      split: if_splits sum.splits option.splits)

lemma manifests_ok_call:
  assumes "manifests_ok t" "call_tables lib call t = Some t'"
  shows "manifests_ok t'"
proof (cases call)
  case (CallBegin plan)
  with assms obtain inputs rows where
    rows: "tbl_insert mr_manifest_id (header_row plan inputs) (mt_manifests t) = Some rows" "t' = t\<lparr>mt_manifests := rows\<rparr>"
    by (auto split: sum.splits)
  then have "distinct (map mr_manifest_id rows)" using assms(1) by (auto simp: manifests_ok_def tbl_insert_def split: if_splits)
  with rows assms(1) show ?thesis by (auto simp: manifests_ok_def tbl_get_insert [OF rows(1)])
next
  case (CallInsertStage i stage n)
  with assms show ?thesis
    by (auto simp: manifests_ok_def insert_stage_def tbl_insert_def split: if_splits)
next
  case (CallUpdateStage i n st hit refs a b)
  with assms obtain outputs where t': "t' = t\<lparr>mt_stages := update_rows stage_key (i, n) (stage_update st hit outputs a b) (mt_stages t)\<rparr>"
    by (auto split: sum.splits)
  have keys: "stage_key (stage_update st hit outputs a b r) = stage_key r" for r by (simp add: stage_update_def)
  have "set (map sr_manifest_id (mt_stages t')) = set (map sr_manifest_id (mt_stages t))"
    using update_rows_keys [of sr_manifest_id "stage_update st hit outputs a b" stage_key] keys unfolding t' by (simp del: set_map)
  then have "\<forall>r\<in>set (mt_stages t'). tbl_get mr_manifest_id (sr_manifest_id r) (mt_manifests t) \<noteq> None"
    using assms(1) unfolding manifests_ok_def by (metis (no_types, lifting) imageE imageI set_map)
  moreover have "map stage_key (mt_stages t') = map stage_key (mt_stages t)"
    using update_rows_keys [of stage_key "stage_update st hit outputs a b" stage_key, OF keys] t' by simp
  ultimately show ?thesis using assms(1) t' by (simp add: manifests_ok_def)
qed (use assms in \<open>auto simp: manifests_ok_def tbl_get_update_rows update_rows_keys\<close>)

lemma ParseRefs_JoinJson:
  assumes "json_laws lib" "list_all ascii refs" "JoinJson lib refs = Inr out"
  shows "ParseRefs lib out = refs"
proof -
  have "doc_ok (string_array refs)" using assms(2) by (simp add: doc_ok_string_array)
  with json_dump_parse [OF assms(1) this] assms(3) have "jl_parse lib out = Inr (JArr (map JStr refs))"
    by (auto simp: JoinJson_def string_array_def)
  moreover have "concat (map (\<lambda>item. case item of JStr s \<Rightarrow> [s] | _ \<Rightarrow> []) (map JStr refs)) = refs" by (induction refs) auto
  ultimately show ?thesis by (simp add: ParseRefs_def)
qed

lemma stage_of_row_insort:
  "map (stage_of_row lib) (insort_key sr_sequence row rows) =
     insort_key es_sequence (stage_of_row lib row) (map (stage_of_row lib) rows)"
  by (rule insort_key_commute) (simp add: stage_of_row_def)

lemma manifest_at_update:
  assumes "\<And>r. mr_manifest_id (f r) = mr_manifest_id r" "\<And>r. manifest_of_row lib (f r) = g (manifest_of_row lib r)"
    "\<And>m ss. g (m\<lparr>em_stages := ss\<rparr>) = (g m)\<lparr>em_stages := ss\<rparr>"
  shows "manifest_at lib (t\<lparr>mt_manifests := update_rows mr_manifest_id i f (mt_manifests t)\<rparr>) = change_at i g (manifest_at lib t)"
  using assms by (auto simp: manifest_at_def change_at_def tbl_get_update_rows stage_rows_def option.map_comp o_def fun_eq_iff)

lemma call_tables_spec:
  assumes lib: "json_laws lib" "ParseRefs lib ''[]'' = []" and ok: "manifests_ok t" "call_ok call"
    and t': "call_tables lib call t = Some t'"
  shows "manifest_at lib t' = spec_call call (manifest_at lib t)"
proof (cases call)
  case (CallBegin plan)
  from t' CallBegin obtain inputs rows where
    js: "JoinJson lib (xp_external_inputs plan) = Inr inputs"
    and rows: "tbl_insert mr_manifest_id (header_row plan inputs) (mt_manifests t) = Some rows" "t' = t\<lparr>mt_manifests := rows\<rparr>"
    by (auto split: sum.splits)
  have refs: "ParseRefs lib inputs = xp_external_inputs plan"
    using ParseRefs_JoinJson [OF lib(1) _ js] ok(2) CallBegin by (simp add: call_ok_def)
  have "tbl_get mr_manifest_id (xp_job_id plan) (mt_manifests t) = None"
    using rows(1) by (auto simp: tbl_insert_def header_row_def tbl_get_None split: if_splits)
  with ok(1) have "filter (\<lambda>r. sr_manifest_id r = xp_job_id plan) (mt_stages t) = []"
    by (auto simp: manifests_ok_def filter_empty_conv)
  then have "stage_rows (xp_job_id plan) t' = []" using rows(2) by (simp add: stage_rows_def)
  moreover have "stage_rows i t' = stage_rows i t" for i using rows(2) by (simp add: stage_rows_def)
  moreover have "(manifest_of_row lib (header_row plan inputs))\<lparr>em_stages := []\<rparr> = begun plan"
    using refs by (simp add: header_row_def manifest_of_row_def begun_def)
  moreover have "mr_manifest_id (header_row plan inputs) = xp_job_id plan" by (simp add: header_row_def)
  ultimately have "manifest_at lib t' k = spec_call call (manifest_at lib t) k" for k
    using rows(2) CallBegin by (cases "k = xp_job_id plan") (simp_all add: manifest_at_def tbl_get_insert [OF rows(1)])
  then show ?thesis by blast
next
  case (CallInsertStage i stage n)
  let ?row = "new_stage_row i stage n"
  from t' CallInsertStage have row: "tbl_get mr_manifest_id i (mt_manifests t) \<noteq> None" "stage_key ?row \<notin> stage_key ` set (mt_stages t)"
    "t' = t\<lparr>mt_stages := mt_stages t @ [?row]\<rparr>"
    by (auto simp: insert_stage_def tbl_insert_def new_stage_row_def split: if_splits)
  have "stage_of_row lib ?row = pending_stage stage n"
    using ok(2) lib(2) CallInsertStage by (simp add: stage_of_row_def new_stage_row_def pending_stage_def call_ok_def)
  moreover have "stage_rows k t' = (if k = i then insort_key sr_sequence ?row (stage_rows k t) else stage_rows k t)" for k
    using stage_rows_insert [OF row(2), of k] row(3) by (simp add: new_stage_row_def)
  ultimately have "manifest_at lib t' k = spec_call call (manifest_at lib t) k" for k
    using row(3) CallInsertStage
    by (cases "k = i") (simp_all add: manifest_at_def change_at_def stage_of_row_insort option.map_comp o_def)
  then show ?thesis by blast
next
  case (CallUpdateStage i n st hit refs a b)
  with t' obtain outputs where js: "JoinJson lib refs = Inr outputs"
    and t'': "t' = t\<lparr>mt_stages := update_rows stage_key (i, n) (stage_update st hit outputs a b) (mt_stages t)\<rparr>"
    by (auto split: sum.splits)
  have refs: "ParseRefs lib outputs = refs"
    using ParseRefs_JoinJson [OF lib(1) _ js] ok(2) CallUpdateStage by (simp add: call_ok_def)
  let ?g = "\<lambda>s. s\<lparr>es_status := TaskStatusName st, es_cache_hit := hit, es_output_refs := refs, es_started_at_ns := a, es_finished_at_ns := b\<rparr>"
  have "stage_of_row lib (stage_update st hit outputs a b r) = ?g (stage_of_row lib r)" for r
    by (simp add: stage_of_row_def stage_update_def refs)
  then have "map (stage_of_row lib) (update_rows sr_sequence n (stage_update st hit outputs a b) rows) =
      update_rows es_sequence n ?g (map (stage_of_row lib) rows)" for rows
    by (rule map_update_rows) (simp add: stage_of_row_def)
  moreover have "stage_rows k t' = (if k = i then update_rows sr_sequence n (stage_update st hit outputs a b) (stage_rows k t) else stage_rows k t)" for k
    unfolding t'' by (rule stage_rows_update) (simp add: stage_update_def)
  ultimately have "manifest_at lib t' k = spec_call call (manifest_at lib t) k" for k
    using CallUpdateStage t'' by (cases "k = i") (simp_all add: manifest_at_def change_at_def option.map_comp o_def)
  then show ?thesis by blast
next
  case (CallFinish i st now)
  with t' manifest_at_update [of "\<lambda>r. r\<lparr>mr_status := TaskStatusName st, mr_finished_at_ns := Some now\<rparr>" lib
      "\<lambda>m. m\<lparr>em_status := TaskStatusName st, em_finished_at_ns := now\<rparr>" i t] show ?thesis
    by (auto simp: manifest_of_row_def)
next
  case (CallSetQualityReportId i a)
  with t' ok(2) manifest_at_update [of "\<lambda>r. r\<lparr>mr_quality_report_id := Some a\<rparr>" lib
      "\<lambda>m. m\<lparr>em_quality_report_id := Some a\<rparr>" i t] show ?thesis
    by (auto simp: manifest_of_row_def call_ok_def)
qed

lemma manifest_call_refines:
  assumes "json_laws lib" "ParseRefs lib ''[]'' = []" "manifests_ok (tx_tables d)" "call_ok call"
    "manifest_call_op lib call d = (r, d')"
  shows "manifests_ok (tx_tables d') \<and> manifest_at lib (tx_tables d') =
    (case r of Inr _ \<Rightarrow> spec_call call (manifest_at lib (tx_tables d)) | Inl _ \<Rightarrow> manifest_at lib (tx_tables d))"
proof (cases r)
  case (Inl e)
  with manifest_call_op_tables [OF assms(5)] assms(3) show ?thesis by simp
next
  case (Inr u)
  with manifest_call_op_tables [OF assms(5)] have t': "call_tables lib call (tx_tables d) = Some (tx_tables d')" by simp
  from manifests_ok_call [OF assms(3) t'] call_tables_spec [OF assms(1-4) t'] Inr show ?thesis by simp
qed

text \<open>A client that goes on after failures; the first result lists the calls that returned.\<close>

fun manifest_run :: "json_lib \<Rightarrow> manifest_call list \<Rightarrow> manifest_tables tx_conn \<Rightarrow> manifest_call list \<times> manifest_tables tx_conn" where
  "manifest_run lib [] d = ([], d)"
| "manifest_run lib (call # calls) d =
     (case manifest_call_op lib call d of (r, d1) \<Rightarrow>
      case manifest_run lib calls d1 of (returned, d2) \<Rightarrow>
        ((case r of Inr _ \<Rightarrow> call # returned | Inl _ \<Rightarrow> returned), d2))"

text \<open>
  C34: over any sequence of calls, with any database calls failing, the manifest store implements a map from run ids
  to manifests whose stages are ordered by sequence: the calls that return act on it one after the
  other, and the calls that throw change nothing.
\<close>

theorem manifest_store_refines:
  assumes "json_laws lib" "ParseRefs lib ''[]'' = []" "manifests_ok (tx_tables d)" "\<forall>call\<in>set calls. call_ok call"
    "manifest_run lib calls d = (returned, d')"
  shows "manifests_ok (tx_tables d') \<and>
    manifest_at lib (tx_tables d') = fold spec_call returned (manifest_at lib (tx_tables d))"
  using assms
proof (induction calls arbitrary: d returned)
  case Nil
  then show ?case by simp
next
  case (Cons call calls)
  obtain r d1 where one: "manifest_call_op lib call d = (r, d1)" by fastforce
  obtain ret d2 where rest: "manifest_run lib calls d1 = (ret, d2)" by fastforce
  from manifest_call_refines [OF Cons.prems(1-3) _ one] Cons.prems(4) have
    ref: "manifests_ok (tx_tables d1)" "manifest_at lib (tx_tables d1) =
      (case r of Inr _ \<Rightarrow> spec_call call (manifest_at lib (tx_tables d)) | Inl _ \<Rightarrow> manifest_at lib (tx_tables d))" by simp_all
  from Cons.prems(5) one rest have "d' = d2" "returned = (case r of Inr _ \<Rightarrow> call # ret | Inl _ \<Rightarrow> ret)" by simp_all
  with Cons.IH [OF Cons.prems(1,2) ref(1) _ rest [folded \<open>d' = d2\<close>]] Cons.prems(4) ref(2) show ?case
    by (auto split: sum.split)
qed

text \<open>
  \<open>Load\<close> changes nothing and returns the manifest that the calls have made; when a database call fails while
  it reads, it may instead report no manifest, or leave out the last stages without an error.
\<close>

theorem Load_returns_manifest:
  assumes "Load lib i d = (Inr found, d')"
  shows "tx_tables d' = tx_tables d \<and> (case found of
      None \<Rightarrow> manifest_at lib (tx_tables d) i = None \<or> (\<exists>k. db_fault d k)
    | Some m \<Rightarrow> \<exists>m0 n. manifest_at lib (tx_tables d) i = Some m0 \<and> m = m0\<lparr>em_stages := take n (em_stages m0)\<rparr> \<and>
        ((\<forall>k. \<not> db_fault d k) \<longrightarrow> m = m0))"
proof -
  let ?row = "tbl_get mr_manifest_id i (mt_manifests (tx_tables d))"
  from assms have open_d: "\<not> sql_fails d" by (auto simp: Load_def sbind_def sql_call_def split: if_splits)
  show ?thesis
  proof (cases "sql_fails (sql_tick d) \<or> ?row = None")
    case True
    with assms open_d show ?thesis
      by (auto simp: Load_def sbind_def sql_call_def sql_first_def sret_def manifest_at_def sql_fails_def split: if_splits)
  next
    case False
    then obtain row where row: "?row = Some row" "\<not> sql_fails (sql_tick d)" by auto
    let ?d = "sql_tick (sql_tick (sql_tick d))" and ?rows = "stage_rows i (tx_tables d)"
    from fetch_rows_take [of ?rows ?d] obtain n where
      n: "fetch_rows ?rows ?d = (Inr (take n ?rows), ?d\<lparr>db_tick := db_tick ?d + Suc (min n (length ?rows))\<rparr>)"
        "\<not> (\<exists>k. db_fault ?d k) \<and> db_open ?d \<longrightarrow> length ?rows \<le> n" by blast
    from assms open_d row n(1) have
      "found = Some ((manifest_of_row lib row)\<lparr>em_stages := map (stage_of_row lib) (take n ?rows)\<rparr>)" "tx_tables d' = tx_tables d"
      by (auto simp: Load_def sbind_def sql_call_def sql_first_def sret_def split: if_splits)
    moreover have "db_open d" using open_d by (simp add: sql_fails_def)
    ultimately show ?thesis using row(1) n(2)
      by (auto simp: manifest_at_def take_map intro!: exI [of _ n])
  qed
qed

section \<open>Concrete runs\<close>

definition demo_plan :: ExecutionPlan where
  "demo_plan = new_plan demo_pipeline [] [''img''] 5 (demo_id 3)"

definition demo_stage :: PlanStage where
  "demo_stage = \<lparr>pl_stage_id = ''one'', pl_capability = [], pl_implementation = ''process'', pl_task_type = ''extract'',
     pl_config_hash = [], pl_task_hash = [], pl_task_id = demo_id 4\<rparr>"

definition demo_manifest_calls :: "manifest_call list" where
  "demo_manifest_calls = [CallBegin demo_plan, CallInsertStage (demo_id 3) demo_stage 0, CallFinish (demo_id 3) Succeeded 9]"

definition no_manifests :: manifest_tables where
  "no_manifests = \<lparr>mt_manifests = [], mt_stages = []\<rparr>"

lemma demo_run: "\<exists>d. manifest_run reference_json demo_manifest_calls (open_conn no_manifests) = (demo_manifest_calls, d)"
proof -
  have "JoinJson reference_json refs = Inr (enc_json (string_array refs))" for refs
    by (simp add: JoinJson_def reference_json_def)
  moreover have "xp_job_id demo_plan = demo_id 3" by (simp add: demo_plan_def new_plan_def Let_def)
  ultimately show ?thesis
    by (simp add: demo_manifest_calls_def Begin_def InsertStage_def Finish_def manifest_write_def manifest_step_def sbind_def
        sql_call_def sql_modify_def sql_write_def lift_res_def sql_fails_def open_conn_def no_manifests_def tbl_insert_def
        insert_stage_def header_row_def new_stage_row_def tbl_get_Cons)
qed

lemma reference_json_brackets: "ParseRefs reference_json ''[]'' = []"
  by code_simp

lemma manifest_store_refines_witness:
  "\<exists>d. manifest_run reference_json demo_manifest_calls (open_conn no_manifests) = (demo_manifest_calls, d) \<and>
     map_option em_status (manifest_at reference_json (tx_tables d) (demo_id 3)) = Some ''succeeded''"
proof -
  obtain d where d: "manifest_run reference_json demo_manifest_calls (open_conn no_manifests) = (demo_manifest_calls, d)"
    using demo_run by blast
  have "manifests_ok (tx_tables (open_conn no_manifests))" by (simp add: manifests_ok_def open_conn_def no_manifests_def)
  moreover have "\<forall>call\<in>set demo_manifest_calls. call_ok call"
    by (simp add: demo_manifest_calls_def call_ok_def demo_plan_def new_plan_def Let_def demo_stage_def demo_id_def)
  ultimately have "manifest_at reference_json (tx_tables d) =
      fold spec_call demo_manifest_calls (manifest_at reference_json (tx_tables (open_conn no_manifests)))"
    using manifest_store_refines [OF reference_json_laws reference_json_brackets _ _ d] by blast
  then have "map_option em_status (manifest_at reference_json (tx_tables d) (demo_id 3)) = Some ''succeeded''"
    by (simp add: demo_manifest_calls_def change_at_def demo_plan_def new_plan_def Let_def)
  with d show ?thesis by blast
qed

text \<open>A connection whose fifth call fails, and a manifest with two stages.\<close>

definition two_stages :: "manifest_tables tx_conn" where
  "two_stages = (open_conn \<lparr>mt_manifests = [header_row demo_plan []],
     mt_stages = [new_stage_row (demo_id 3) demo_stage 0, new_stage_row (demo_id 3) demo_stage 1]\<rparr>)\<lparr>db_fault := (\<lambda>n. n = 4)\<rparr>"

lemma Load_returns_manifest_witness:
  "\<exists>m d m0. Load reference_json (demo_id 3) two_stages = (Inr (Some m), d) \<and> length (em_stages m) = 1 \<and>
     manifest_at reference_json (tx_tables two_stages) (demo_id 3) = Some m0 \<and> length (em_stages m0) = 2"
proof -
  have job: "xp_job_id demo_plan = demo_id 3" by (simp add: demo_plan_def new_plan_def Let_def)
  have rows: "stage_rows (demo_id 3) (tx_tables two_stages) =
      [new_stage_row (demo_id 3) demo_stage 0, new_stage_row (demo_id 3) demo_stage 1]"
    by (simp add: stage_rows_def two_stages_def open_conn_def new_stage_row_def)
  have head: "tbl_get mr_manifest_id (demo_id 3) (mt_manifests (tx_tables two_stages)) = Some (header_row demo_plan [])"
    by (simp add: two_stages_def open_conn_def tbl_get_Cons header_row_def job)
  have tick: "db_fault two_stages n \<longleftrightarrow> n = 4" "db_tick two_stages = 0" "db_open two_stages" for n
    by (simp_all add: two_stages_def open_conn_def)
  obtain m d where l: "Load reference_json (demo_id 3) two_stages = (Inr (Some m), d)" "length (em_stages m) = 1"
    using rows head tick by (simp add: Load_def sbind_def sql_call_def sql_first_def sret_def sql_fails_def)
  from Load_returns_manifest [OF l(1)] l rows head show ?thesis by (auto simp: manifest_at_def)
qed

end
