(* ===== verification/FrameGraph.thy ===== *)
theory FrameGraph
  imports Uuid Errors
begin

text \<open>
  core/coordinates/frame_graph.cpp and frame_graph_validator.cpp: the graph of coordinate frames, whose
  edges are the parents. \<open>frames_\<close> is an unordered map keyed by the frame's id: its iteration
  order is an argument of the operations that iterate, and no result depends on it. \<open>SE3\<close> is
  built on Eigen and floating point: its identity, product and inverse are a parameter. The
  diagnostics of the exceptions are left out.
\<close>

section \<open>Data\<close>

datatype AuthorityType = kLocal | kSurvey | kRtk | kPpp | kGnss | kImported

fun AuthorityTypeName :: "AuthorityType \<Rightarrow> string" where
  "AuthorityTypeName kLocal = ''LOCAL''"
| "AuthorityTypeName kSurvey = ''SURVEY''"
| "AuthorityTypeName kRtk = ''RTK''"
| "AuthorityTypeName kPpp = ''PPP''"
| "AuthorityTypeName kGnss = ''GNSS''"
| "AuthorityTypeName kImported = ''IMPORTED''"

record CoordinateAuthority =
  au_type :: AuthorityType
  au_provider :: string
  au_confidence :: u64
  au_reference :: string

record 'se3 CoordinateEpoch =
  ep_datum_id :: string
  ep_valid_from :: int
  ep_valid_to :: int
  ep_authority :: CoordinateAuthority
  ep_accuracy_meters :: u64
  ep_to_wgs84 :: 'se3

record 'se3 CoordinateFrame =
  cf_id :: uuid
  cf_name :: string
  cf_parent :: uuid
  cf_parent_from_child :: 'se3
  cf_epoch :: "'se3 CoordinateEpoch"

record 'se3 FrameGraph =
  fg_frames :: "'se3 CoordinateFrame list"
  fg_frame_order :: "uuid list"

record 'se3 se3_ops =
  se3_identity :: 'se3
  se3_mult :: "'se3 \<Rightarrow> 'se3 \<Rightarrow> 'se3"
  se3_inverse :: "'se3 \<Rightarrow> 'se3"

definition empty_graph :: "'se3 FrameGraph" where
  "empty_graph = \<lparr>fg_frames = [], fg_frame_order = []\<rparr>"

section \<open>Operations\<close>

definition Find :: "'se3 FrameGraph \<Rightarrow> uuid \<Rightarrow> 'se3 CoordinateFrame option" where
  "Find g i = tbl_get cf_id i (fg_frames g)"

definition HasFrame :: "'se3 FrameGraph \<Rightarrow> uuid \<Rightarrow> bool" where
  "HasFrame g i \<longleftrightarrow> Find g i \<noteq> None"

definition Size :: "'se3 FrameGraph \<Rightarrow> nat" where
  "Size g = length (fg_frames g)"

text \<open>\<open>emplace\<close> leaves an existing entry; the order gets the id in any case.\<close>

definition InsertUnchecked :: "'se3 CoordinateFrame \<Rightarrow> 'se3 FrameGraph \<Rightarrow> 'se3 FrameGraph" where
  "InsertUnchecked frame g =
     \<lparr>fg_frames = (if HasFrame g (cf_id frame) then fg_frames g else fg_frames g @ [frame]),
      fg_frame_order = fg_frame_order g @ [cf_id frame]\<rparr>"

definition coordinate_error :: "error_code \<Rightarrow> string \<Rightarrow> exn" where
  "coordinate_error code msg = throw_error code msg"

definition AddFrame :: "'se3 CoordinateFrame \<Rightarrow> 'se3 FrameGraph \<Rightarrow> unit res \<times> 'se3 FrameGraph" where
  "AddFrame frame g =
     (if HasFrame g (cf_id frame) then
        (Inl (coordinate_error kCoordFrameExists ''frame id already registered''), g)
      else if \<not> IsNil (cf_parent frame) \<and> \<not> HasFrame g (cf_parent frame) then
        (Inl (coordinate_error kCoordFrameNotFound ''parent frame does not exist''), g)
      else (Inr (), InsertUnchecked frame g))"

text \<open>The loop of \<open>Root\<close> over the frames in the map's order; the option is \<open>root\<close> with \<open>found\<close>.\<close>

fun root_loop :: "'se3 FrameGraph \<Rightarrow> uuid option \<Rightarrow> uuid list \<Rightarrow> uuid option res" where
  "root_loop g found [] = Inr found"
| "root_loop g found (i # ids) =
     (case Find g i of
        None \<Rightarrow> root_loop g found ids
      | Some frame \<Rightarrow>
          if IsNil (cf_parent frame) then
            (if found \<noteq> None
             then Inl (coordinate_error kCoordFrameMultipleRoots ''frame graph has more than one root'')
             else root_loop g (Some i) ids)
          else root_loop g found ids)"

definition Root :: "uuid list \<Rightarrow> 'se3 FrameGraph \<Rightarrow> uuid res" where
  "Root iter g = rbind (root_loop g None iter) (\<lambda>found. case found of
     None \<Rightarrow> Inl (coordinate_error kCoordFrameNotFound ''frame graph has no root'')
   | Some root \<Rightarrow> Inr root)"

text \<open>
  The loop of \<open>Transform\<close> from \<open>current\<close> upwards: \<open>Inr None\<close> when a root (or a missing
  parent) ends it, the edges bottom-up when \<open>goal\<close> is reached.
\<close>

function climb :: "'se3 FrameGraph \<Rightarrow> uuid \<Rightarrow> uuid list \<Rightarrow> 'se3 list \<Rightarrow> uuid \<Rightarrow> 'se3 list option res" where
  "climb g goal visited edges current =
     (case Find g current of
        None \<Rightarrow> Inr None
      | Some frame \<Rightarrow>
          if IsNil (cf_parent frame) then Inr None
          else if current \<in> set visited then
            Inl (coordinate_error kCoordFrameCycle ''cycle detected while resolving transform'')
          else let edges' = edges @ [cf_parent_from_child frame] in
            if cf_parent frame = goal then Inr (Some edges')
            else climb g goal (current # visited) edges' (cf_parent frame))"
  by pat_completeness auto

definition graph_ids :: "'se3 FrameGraph \<Rightarrow> uuid set" where
  "graph_ids g = cf_id ` set (fg_frames g)"

lemma Find_Some: "Find g i = Some frame \<Longrightarrow> i \<in> graph_ids g \<and> cf_id frame = i \<and> frame \<in> set (fg_frames g)"
  by (auto simp: Find_def graph_ids_def dest!: tbl_get_Some)

lemma Find_None: "Find g i = None \<longleftrightarrow> i \<notin> graph_ids g"
  by (simp add: Find_def graph_ids_def tbl_get_None)

lemma HasFrame_iff: "HasFrame g i \<longleftrightarrow> i \<in> graph_ids g"
  by (simp add: HasFrame_def Find_None del: not_None_eq)

lemma finite_ids [simp]: "finite (graph_ids g)"
  by (simp add: graph_ids_def)

termination climb
proof (relation "measure (\<lambda>(g, goal, visited, edges, current). card (graph_ids g - set visited))")
  fix g :: "'a FrameGraph" and goal visited edges current frame edges'
  assume "Find g current = Some frame" "current \<notin> set visited"
  then have "current \<in> graph_ids g - set visited" using Find_Some by auto
  then have "card (graph_ids g - set visited - {current}) < card (graph_ids g - set visited)"
    by (intro card_Diff1_less) auto
  moreover have "graph_ids g - set (current # visited) = graph_ids g - set visited - {current}" by auto
  ultimately show "((g, goal, current # visited, edges', cf_parent frame), g, goal, visited, edges, current)
    \<in> measure (\<lambda>(g, goal, visited, edges, current). card (graph_ids g - set visited))" by simp
qed simp

declare climb.simps [simp del]

text \<open>\<open>for (it = edges.rbegin(); ...) result = result * *it\<close>.\<close>

definition compose :: "'se3 se3_ops \<Rightarrow> 'se3 list \<Rightarrow> 'se3" where
  "compose se3 edges = foldl (se3_mult se3) (se3_identity se3) (rev edges)"

definition Transform :: "'se3 se3_ops \<Rightarrow> 'se3 FrameGraph \<Rightarrow> uuid \<Rightarrow> uuid \<Rightarrow> 'se3 res" where
  "Transform se3 g from_frame to_frame =
     (if from_frame = to_frame then Inr (se3_identity se3)
      else if \<not> HasFrame g from_frame then Inl (coordinate_error kCoordFrameNotFound ''from frame does not exist'')
      else if \<not> HasFrame g to_frame then Inl (coordinate_error kCoordFrameNotFound ''to frame does not exist'')
      else
        rbind (climb g from_frame [] [] to_frame) (\<lambda>up. case up of
          Some edges \<Rightarrow> Inr (compose se3 edges)
        | None \<Rightarrow> rbind (climb g to_frame [] [] from_frame) (\<lambda>down. case down of
            Some edges \<Rightarrow> Inr (se3_inverse se3 (compose se3 edges))
          | None \<Rightarrow> Inl (coordinate_error kCoordFrameDisconnected ''frames are not connected by an ancestor chain''))))"

text \<open>
  \<open>ValidateAcyclic\<close>: the marks have exactly the map's ids. The inner loop paints a path gray and returns
  it, or \<open>None\<close> where the code returns false; a white node is a frame, so \<open>Find\<close> finds it.
\<close>

datatype mark = kWhite | kGray | kBlack

function walk :: "'se3 FrameGraph \<Rightarrow> (uuid \<rightharpoonup> mark) \<Rightarrow> uuid list \<Rightarrow> uuid \<Rightarrow> ((uuid \<rightharpoonup> mark) \<times> uuid list) option" where
  "walk g color path current =
     (case color current of
        None \<Rightarrow> None
      | Some kBlack \<Rightarrow> Some (color, path)
      | Some kGray \<Rightarrow> None
      | Some kWhite \<Rightarrow>
          let color' = color(current \<mapsto> kGray); path' = path @ [current] in
          (case Find g current of
             None \<Rightarrow> None
           | Some f \<Rightarrow> if IsNil (cf_parent f) then Some (color', path') else walk g color' path' (cf_parent f)))"
  by pat_completeness auto

termination walk
proof (relation "measure (\<lambda>(g, color, path, current). card {i \<in> graph_ids g. color i = Some kWhite})")
  fix g :: "'a FrameGraph" and color :: "uuid \<rightharpoonup> mark" and path current mk color' path' frame
  assume a: "color current = Some mk" "mk = kWhite" "color' = color(current \<mapsto> kGray)" "Find g current = Some frame"
  let ?w = "\<lambda>c :: uuid \<rightharpoonup> mark. {i \<in> graph_ids g. c i = Some kWhite}"
  have "current \<in> ?w color" using a(1,2) Find_Some [OF a(4)] by simp
  moreover have "?w color' = ?w color - {current}" unfolding a(3) by auto
  ultimately have "card (?w color') < card (?w color)" using card_Diff1_less [of "?w color" current] by simp
  then show "((g, color', path', cf_parent frame), g, color, path, current)
    \<in> measure (\<lambda>(g, color, path, current). card {i \<in> graph_ids g. color i = Some kWhite})" by simp
qed simp

declare walk.simps [simp del]

fun paint :: "uuid list \<Rightarrow> (uuid \<rightharpoonup> mark) \<Rightarrow> (uuid \<rightharpoonup> mark)" where
  "paint [] color = color"
| "paint (i # path) color = paint path (color(i \<mapsto> kBlack))"

fun validate_from :: "'se3 FrameGraph \<Rightarrow> (uuid \<rightharpoonup> mark) \<Rightarrow> uuid list \<Rightarrow> bool" where
  "validate_from g color [] = True"
| "validate_from g color (start # ids) =
     (if color start = Some kBlack then validate_from g color ids
      else case walk g color [] start of
          None \<Rightarrow> False
        | Some (color', path) \<Rightarrow> validate_from g (paint path color') ids)"

definition ValidateAcyclic :: "uuid list \<Rightarrow> 'se3 FrameGraph \<Rightarrow> bool" where
  "ValidateAcyclic iter g = validate_from g (map_of (map (\<lambda>i. (i, kWhite)) iter)) iter"

record FrameGraphValidation =
  va_valid :: bool
  va_reason :: string
  va_code :: error_code

definition ValidateFrameGraph :: "uuid list \<Rightarrow> 'se3 FrameGraph \<Rightarrow> FrameGraphValidation" where
  "ValidateFrameGraph iter g =
     (if \<not> ValidateAcyclic iter g then
        \<lparr>va_valid = False, va_reason = ''frame graph contains a cycle or a dangling parent edge'', va_code = kCoordFrameCycle\<rparr>
      else if Size g = 0 then
        \<lparr>va_valid = False, va_reason = ''frame graph is empty'', va_code = kCoordFrameNotFound\<rparr>
      else case Root iter g of
          Inl (Thrown e) \<Rightarrow> \<lparr>va_valid = False, va_reason = pe_message e, va_code = pe_code e\<rparr>
        | Inl (StdException m) \<Rightarrow> \<lparr>va_valid = False, va_reason = m, va_code = kInternal\<rparr>
        | Inr _ \<Rightarrow> \<lparr>va_valid = True, va_reason = '''', va_code = kInternal\<rparr>)"

section \<open>Parent chains\<close>

definition parent_of :: "'se3 FrameGraph \<Rightarrow> (uuid \<times> uuid) set" where
  "parent_of g = {(i, p). \<exists>f. Find g i = Some f \<and> \<not> IsNil (cf_parent f) \<and> p = cf_parent f}"

text \<open>The chain of parents from a frame ends in a root, through frames of the graph.\<close>

inductive rooted :: "'se3 FrameGraph \<Rightarrow> uuid \<Rightarrow> bool" for g where
  rooted_root: "Find g i = Some f \<Longrightarrow> IsNil (cf_parent f) \<Longrightarrow> rooted g i"
| rooted_child: "Find g i = Some f \<Longrightarrow> \<not> IsNil (cf_parent f) \<Longrightarrow> rooted g (cf_parent f) \<Longrightarrow> rooted g i"

inductive_cases rootedE: "rooted g i"

lemma parent_of_Find: "(i, p) \<in> parent_of g \<longleftrightarrow> (\<exists>f. Find g i = Some f \<and> \<not> IsNil (cf_parent f) \<and> p = cf_parent f)"
  by (simp add: parent_of_def)

lemma parent_unique: "(i, p) \<in> parent_of g \<Longrightarrow> (i, q) \<in> parent_of g \<Longrightarrow> q = p"
  by (auto simp: parent_of_Find)

lemma rooted_ids: "rooted g i \<Longrightarrow> i \<in> graph_ids g"
  by (erule rootedE) (auto dest: Find_Some)

lemma rooted_parent: "(i, p) \<in> parent_of g \<Longrightarrow> rooted g i \<longleftrightarrow> rooted g p"
proof
  assume "(i, p) \<in> parent_of g" "rooted g i"
  then show "rooted g p" by (auto simp: parent_of_Find elim: rooted.cases)
qed (auto simp: parent_of_Find intro: rooted_child)

lemma rooted_ancestor: "(i, p) \<in> (parent_of g)\<^sup>+ \<Longrightarrow> rooted g i \<longleftrightarrow> rooted g p"
  by (induction rule: trancl_induct) (simp_all add: rooted_parent)

lemma ancestor_step: "(i, p) \<in> parent_of g \<Longrightarrow> (i, q) \<in> (parent_of g)\<^sup>+ \<longleftrightarrow> q = p \<or> (p, q) \<in> (parent_of g)\<^sup>+"
proof
  assume p: "(i, p) \<in> parent_of g" and "(i, q) \<in> (parent_of g)\<^sup>+"
  then obtain z where "(i, z) \<in> parent_of g" "(z, q) \<in> (parent_of g)\<^sup>*" by (auto dest: tranclD)
  with parent_unique [OF p] show "q = p \<or> (p, q) \<in> (parent_of g)\<^sup>+" by (auto dest: rtranclD)
qed (auto intro: trancl_into_trancl2)

lemma no_parent: "Find g i = Some f \<Longrightarrow> IsNil (cf_parent f) \<Longrightarrow> (i, q) \<notin> (parent_of g)\<^sup>+"
  by (auto dest!: tranclD simp: parent_of_Find)

lemma rooted_no_cycle: "rooted g i \<Longrightarrow> (i, i) \<notin> (parent_of g)\<^sup>+"
proof (induction rule: rooted.induct)
  case (rooted_child i f)
  then have p: "(i, cf_parent f) \<in> parent_of g" by (auto simp: parent_of_Find)
  show ?case
  proof
    assume "(i, i) \<in> (parent_of g)\<^sup>+"
    with p have "i = cf_parent f \<or> (cf_parent f, i) \<in> (parent_of g)\<^sup>+" using ancestor_step by metis
    with p have "(cf_parent f, cf_parent f) \<in> (parent_of g)\<^sup>+" by (auto intro: trancl_into_trancl)
    with rooted_child.IH show False by blast
  qed
qed (rule no_parent)

definition no_dangling :: "'se3 FrameGraph \<Rightarrow> bool" where
  "no_dangling g \<longleftrightarrow> (\<forall>(i, p)\<in>parent_of g. HasFrame g p)"

lemma all_rooted_iff: "(\<forall>i\<in>graph_ids g. rooted g i) \<longleftrightarrow> acyclic (parent_of g) \<and> no_dangling g"
proof
  assume r: "\<forall>i\<in>graph_ids g. rooted g i"
  have "i \<in> graph_ids g" if "(i, p) \<in> (parent_of g)\<^sup>+" for i p
    using that by (auto dest!: tranclD simp: parent_of_Find dest: Find_Some)
  with r have "acyclic (parent_of g)" using rooted_no_cycle [of g] unfolding acyclic_def by metis
  moreover have "HasFrame g p" if "(i, p) \<in> parent_of g" for i p
    using that r rooted_parent [OF that] by (auto simp: HasFrame_iff parent_of_Find dest: Find_Some rooted_ids)
  ultimately show "acyclic (parent_of g) \<and> no_dangling g" by (auto simp: no_dangling_def)
next
  assume a: "acyclic (parent_of g) \<and> no_dangling g"
  have "parent_of g \<subseteq> (\<lambda>f. (cf_id f, cf_parent f)) ` set (fg_frames g)" by (auto simp: parent_of_Find dest!: Find_Some)
  then have "finite (parent_of g)" by (rule finite_subset) simp
  with a have "wf ((parent_of g)\<inverse>)" using finite_acyclic_wf_converse by blast
  then have "i \<in> graph_ids g \<longrightarrow> rooted g i" for i
  proof (induction i)
    case (less i)
    show ?case
    proof
      assume "i \<in> graph_ids g"
      then obtain f where f: "Find g i = Some f" by (metis Find_None option.exhaust)
      show "rooted g i"
      proof (cases "IsNil (cf_parent f)")
        case False
        with f have p: "(i, cf_parent f) \<in> parent_of g" by (auto simp: parent_of_Find)
        with a have "cf_parent f \<in> graph_ids g" by (auto simp: no_dangling_def HasFrame_iff)
        with less [of "cf_parent f"] p have "rooted g (cf_parent f)" by simp
        with f False show ?thesis by (rule rooted_child)
      qed (use f rooted_root in blast)
    qed
  qed
  then show "\<forall>i\<in>graph_ids g. rooted g i" by blast
qed

section \<open>The marks\<close>

text \<open>What holds between two walks, and inside one: gray is the path, and the path leads to the current frame.\<close>

definition marks_ok :: "'se3 FrameGraph \<Rightarrow> (uuid \<rightharpoonup> mark) \<Rightarrow> uuid list \<Rightarrow> bool" where
  "marks_ok g color path \<longleftrightarrow> dom color = graph_ids g \<and> (\<forall>i. color i = Some kBlack \<longrightarrow> rooted g i) \<and>
     (\<forall>i. color i = Some kGray \<longleftrightarrow> i \<in> set path)"

lemma walk_correct:
  assumes "marks_ok g color path" "\<forall>i\<in>set path. (i, current) \<in> (parent_of g)\<^sup>+"
  shows "case walk g color path current of
      None \<Rightarrow> \<not> rooted g current
    | Some (color', path') \<Rightarrow> marks_ok g color' path' \<and> rooted g current \<and> (\<forall>i\<in>set path'. rooted g i) \<and>
        (color' current = Some kBlack \<or> current \<in> set path')
        \<and> set path \<subseteq> set path'"
  using assms
proof (induction g color path current rule: walk.induct)
  case (1 g color path current)
  note ok = 1(2)[unfolded marks_ok_def]
  consider (none) "color current = None" | (black) "color current = Some kBlack" | (gray) "color current = Some kGray"
    | (white) "color current = Some kWhite"
    by (cases "color current"; cases "the (color current)") auto
  then show ?case
  proof cases
    case none
    then have "current \<notin> graph_ids g" using ok by auto
    with none show ?thesis by (auto simp: walk.simps [of g color] dest: rooted_ids)
  next
    case black
    then have "rooted g current" using ok by auto
    with black 1(2,3) show ?thesis by (auto simp: walk.simps [of g color] rooted_ancestor)
  next
    case gray
    with ok 1(3) have "(current, current) \<in> (parent_of g)\<^sup>+" by auto
    with gray rooted_no_cycle show ?thesis by (auto simp: walk.simps [of g color])
  next
    case white
    let ?color = "color(current \<mapsto> kGray)" and ?path = "path @ [current]"
    have "current \<in> graph_ids g" using white ok by auto
    then obtain f where f: "Find g current = Some f" by (metis Find_None option.exhaust)
    have ok': "marks_ok g ?color ?path" using ok white by (auto simp: marks_ok_def)
    show ?thesis
    proof (cases "IsNil (cf_parent f)")
      case True
      with f have "rooted g current" by (rule rooted_root)
      with white f True ok' 1(3) show ?thesis by (auto simp: walk.simps [of g color] rooted_ancestor)
    next
      case False
      with f have p: "(current, cf_parent f) \<in> parent_of g" by (auto simp: parent_of_Find)
      with 1(3) have "\<forall>i\<in>set ?path. (i, cf_parent f) \<in> (parent_of g)\<^sup>+" by (auto intro: trancl_into_trancl)
      note ih = 1(1) [OF white refl refl refl f False ok' this]
      have "walk g color path current = walk g ?color ?path (cf_parent f)"
        by (simp add: walk.simps [of g color path current] white f False Let_def del: fun_upd_apply)
      with ih rooted_parent [OF p] show ?thesis
        by (auto split: option.split option.split_asm simp del: fun_upd_apply)
    qed
  qed
qed

lemma paint_apply: "paint path color i = (if i \<in> set path then Some kBlack else color i)"
  by (induction path arbitrary: color) auto

lemma validate_from_correct:
  "marks_ok g color [] \<Longrightarrow> validate_from g color ids \<longleftrightarrow> (\<forall>i\<in>set ids. rooted g i)"
proof (induction ids arbitrary: color)
  case (Cons i ids)
  show ?case
  proof (cases "color i = Some kBlack")
    case True
    with Cons show ?thesis by (auto simp: marks_ok_def)
  next
    case False
    show ?thesis
    proof (cases "walk g color [] i")
      case None
      with walk_correct [OF Cons.prems, of i] False show ?thesis by simp
    next
      case (Some r)
      then obtain color' path where r: "walk g color [] i = Some (color', path)" by (cases r) simp
      with walk_correct [OF Cons.prems, of i] have w: "marks_ok g color' path" "rooted g i" "\<forall>i\<in>set path. rooted g i" by auto
      have "marks_ok g (paint path color') []"
      proof -
        have "set path \<subseteq> dom color'" using w(1) by (auto simp: marks_ok_def)
        then have "dom (paint path color') = dom color'" by (auto simp: paint_apply dom_def split: if_split_asm)
        with w show ?thesis by (auto simp: marks_ok_def paint_apply split: if_split_asm)
      qed
      from Cons.IH [OF this] r False w(2) show ?thesis by simp
    qed
  qed
qed simp

lemma ValidateAcyclic_rooted: "set iter = graph_ids g \<Longrightarrow> ValidateAcyclic iter g \<longleftrightarrow> (\<forall>i\<in>graph_ids g. rooted g i)"
proof -
  assume i: "set iter = graph_ids g"
  have m: "map_of (map (\<lambda>i. (i, kWhite)) iter) = (\<lambda>i. if i \<in> set iter then Some kWhite else None)"
    by (rule ext) (induction iter; simp)
  have "marks_ok g (map_of (map (\<lambda>i. (i, kWhite)) iter)) []"
    unfolding m i by (auto simp: marks_ok_def dom_def)
  from validate_from_correct [OF this, of iter] i show ?thesis by (simp add: ValidateAcyclic_def)
qed

text \<open>
  C4: whatever the order in which the map is iterated, \<open>ValidateAcyclic\<close> returns true exactly when the
  graph has no cycle of parents and no parent that is not a frame.
\<close>

theorem ValidateAcyclic_iff:
  assumes "set iter = graph_ids g"
  shows "ValidateAcyclic iter g \<longleftrightarrow> acyclic (parent_of g) \<and> no_dangling g"
  using ValidateAcyclic_rooted [OF assms] all_rooted_iff by blast

section \<open>Building a graph\<close>

text \<open>The graphs that \<open>AddFrame\<close> builds: one entry and one place in the order per id, every chain rooted.\<close>

definition frames_ok :: "'se3 FrameGraph \<Rightarrow> bool" where
  "frames_ok g \<longleftrightarrow> distinct (map cf_id (fg_frames g)) \<and> fg_frame_order g = map cf_id (fg_frames g) \<and>
     (\<forall>i\<in>graph_ids g. rooted g i)"

lemma Find_InsertUnchecked:
  "\<not> HasFrame g (cf_id f) \<Longrightarrow> Find (InsertUnchecked f g) i = (if i = cf_id f then Some f else Find g i)"
  using Find_None [of g "cf_id f"]
  by (auto simp: HasFrame_iff Find_def InsertUnchecked_def tbl_simps tbl_get_append tbl_get_Cons split: option.split)

lemma rooted_InsertUnchecked:
  assumes "rooted g i" "\<not> HasFrame g (cf_id f)" shows "rooted (InsertUnchecked f g) i"
  using assms(1)
proof induction
  case (rooted_root i h)
  then have "Find (InsertUnchecked f g) i = Some h"
    using assms(2) Find_Some [of g i h] by (auto simp: Find_InsertUnchecked HasFrame_iff)
  then show ?case using rooted_root(2) by (rule rooted.rooted_root)
next
  case (rooted_child i h)
  then have "Find (InsertUnchecked f g) i = Some h"
    using assms(2) Find_Some [of g i h] by (auto simp: Find_InsertUnchecked HasFrame_iff)
  then show ?case using rooted_child(2,4) by (rule rooted.rooted_child)
qed

lemma AddFrame_Inr:
  assumes "AddFrame f g = (Inr (), g')"
  shows "\<not> HasFrame g (cf_id f) \<and> g' = InsertUnchecked f g \<and> (IsNil (cf_parent f) \<or> HasFrame g (cf_parent f)) \<and>
    graph_ids g' = insert (cf_id f) (graph_ids g)"
  using assms by (auto simp: AddFrame_def InsertUnchecked_def graph_ids_def split: if_split_asm)

lemma frames_ok_empty: "frames_ok empty_graph"
  by (simp add: frames_ok_def empty_graph_def graph_ids_def)

lemma AddFrame_frames_ok:
  assumes "frames_ok g" shows "frames_ok (snd (AddFrame f g))"
proof (cases "fst (AddFrame f g)")
  case (Inl e)
  then have "snd (AddFrame f g) = g" by (auto simp: AddFrame_def split: if_split_asm)
  with assms show ?thesis by simp
next
  case (Inr u)
  then have "AddFrame f g = (Inr (), snd (AddFrame f g))" by (cases "AddFrame f g") simp
  note r = AddFrame_Inr [OF this]
  let ?g = "InsertUnchecked f g"
  from r have new: "\<not> HasFrame g (cf_id f)" by blast
  have f: "Find ?g (cf_id f) = Some f" by (simp add: Find_InsertUnchecked [OF new])
  have old: "rooted ?g i" if "i \<in> graph_ids g" for i
    using that assms rooted_InsertUnchecked [OF _ new] by (simp add: frames_ok_def)
  have "rooted ?g (cf_id f)"
  proof (cases "IsNil (cf_parent f)")
    case False
    with r have "rooted ?g (cf_parent f)" using old by (simp add: HasFrame_iff)
    with f False show ?thesis by (rule rooted_child)
  qed (use f rooted_root in blast)
  with old r have "\<forall>i\<in>graph_ids ?g. rooted ?g i" by auto
  moreover have "distinct (map cf_id (fg_frames ?g))" "fg_frame_order ?g = map cf_id (fg_frames ?g)"
    using assms new by (auto simp: frames_ok_def InsertUnchecked_def HasFrame_iff graph_ids_def)
  ultimately show ?thesis using r by (simp add: frames_ok_def)
qed

lemma AddFrame_result:
  "fst (AddFrame f g) = (if HasFrame g (cf_id f) then Inl (coordinate_error kCoordFrameExists ''frame id already registered'')
     else if \<not> IsNil (cf_parent f) \<and> \<not> HasFrame g (cf_parent f)
     then Inl (coordinate_error kCoordFrameNotFound ''parent frame does not exist'') else Inr ())"
  by (simp add: AddFrame_def)

text \<open>
  \<open>AddFrame\<close> keeps ids unique, the order complete and every parent chain rooted, so that a graph built
  with it alone always validates as acyclic, whatever the map's order; it throws exactly on a known id or an unknown
  parent, and then changes nothing.
\<close>

theorem AddFrame_keeps_acyclic:
  assumes "frames_ok g" "AddFrame f g = (r, g')"
  shows "frames_ok g' \<and> (\<forall>iter. set iter = graph_ids g' \<longrightarrow> ValidateAcyclic iter g') \<and>
    (case r of
       Inl e \<Rightarrow> g' = g \<and> (HasFrame g (cf_id f) \<and> exn_code e = Some kCoordFrameExists \<or>
         \<not> IsNil (cf_parent f) \<and> \<not> HasFrame g (cf_parent f) \<and> exn_code e = Some kCoordFrameNotFound)
     | Inr _ \<Rightarrow> Find g' (cf_id f) = Some f \<and> (\<forall>i. i \<noteq> cf_id f \<longrightarrow> Find g' i = Find g i))"
proof -
  from AddFrame_frames_ok [OF assms(1), of f] assms(2) have ok: "frames_ok g'" by simp
  then have v: "\<forall>iter. set iter = graph_ids g' \<longrightarrow> ValidateAcyclic iter g'"
    using ValidateAcyclic_rooted by (auto simp: frames_ok_def)
  show ?thesis
  proof (cases r)
    case (Inl e)
    with assms(2) have "g' = g \<and> (HasFrame g (cf_id f) \<and> exn_code e = Some kCoordFrameExists \<or>
         \<not> IsNil (cf_parent f) \<and> \<not> HasFrame g (cf_parent f) \<and> exn_code e = Some kCoordFrameNotFound)"
      by (auto simp: AddFrame_def coordinate_error_def split: if_split_asm)
    with ok v Inl show ?thesis by simp
  next
    case (Inr u)
    with assms(2) have "AddFrame f g = (Inr (), g')" by simp
    from AddFrame_Inr [OF this] have "Find g' (cf_id f) = Some f \<and> (\<forall>i. i \<noteq> cf_id f \<longrightarrow> Find g' i = Find g i)"
      by (simp add: Find_InsertUnchecked)
    with ok v Inr show ?thesis by simp
  qed
qed

section \<open>Roots\<close>

definition roots :: "'se3 FrameGraph \<Rightarrow> uuid list \<Rightarrow> uuid list" where
  "roots g iter = filter (\<lambda>i. \<exists>f. Find g i = Some f \<and> IsNil (cf_parent f)) iter"

lemma root_loop_filter:
  "root_loop g found iter = (case roots g iter of
      [] \<Rightarrow> Inr found
    | [r] \<Rightarrow> if found = None then Inr (Some r)
        else Inl (coordinate_error kCoordFrameMultipleRoots ''frame graph has more than one root'')
    | _ \<Rightarrow> Inl (coordinate_error kCoordFrameMultipleRoots ''frame graph has more than one root''))"
  by (induction g found iter rule: root_loop.induct) (auto simp: roots_def split: option.split list.split)

lemma Root_cases:
  "Root iter g = (case roots g iter of
      [] \<Rightarrow> Inl (coordinate_error kCoordFrameNotFound ''frame graph has no root'')
    | [r] \<Rightarrow> Inr r
    | _ \<Rightarrow> Inl (coordinate_error kCoordFrameMultipleRoots ''frame graph has more than one root''))"
  by (simp add: Root_def root_loop_filter split: list.split)

definition root_set :: "'se3 FrameGraph \<Rightarrow> uuid set" where
  "root_set g = {i. \<exists>f. Find g i = Some f \<and> IsNil (cf_parent f)}"

lemma roots_set: "set iter = graph_ids g \<Longrightarrow> set (roots g iter) = root_set g"
  by (auto simp: roots_def root_set_def dest: Find_Some)

lemma rooted_root_set: "rooted g i \<Longrightarrow> root_set g \<noteq> {}"
  by (induction rule: rooted.induct) (auto simp: root_set_def)

text \<open>
  The validator accepts a graph exactly when its parents form no cycle, none of them is missing, and there is
  exactly one root; a rejected one gets the code of the first of these it violates, and the map's order does not matter.
\<close>

theorem FrameGraph_Validate_iff:
  assumes "set iter = graph_ids g" "distinct iter"
  shows "if acyclic (parent_of g) \<and> no_dangling g \<and> is_singleton (root_set g) then va_valid (ValidateFrameGraph iter g)
    else \<not> va_valid (ValidateFrameGraph iter g) \<and> va_code (ValidateFrameGraph iter g) =
       (if \<not> (acyclic (parent_of g) \<and> no_dangling g) then kCoordFrameCycle
        else if graph_ids g = {} then kCoordFrameNotFound else kCoordFrameMultipleRoots)"
proof (cases "acyclic (parent_of g) \<and> no_dangling g")
  case False
  with ValidateAcyclic_rooted [OF assms(1)] all_rooted_iff [of g] show ?thesis by (auto simp: ValidateFrameGraph_def)
next
  case True
  with all_rooted_iff [of g] have r: "\<forall>i\<in>graph_ids g. rooted g i" by blast
  with ValidateAcyclic_rooted [OF assms(1)] have v: "ValidateAcyclic iter g" by simp
  have size: "Size g = 0 \<longleftrightarrow> graph_ids g = {}" by (auto simp: Size_def graph_ids_def)
  have d: "distinct (roots g iter)" using assms(2) by (simp add: roots_def)
  note set = roots_set [OF assms(1)]
  show ?thesis
  proof (cases "graph_ids g = {}")
    case empty: True
    then have "root_set g = {}" by (auto simp: root_set_def dest: Find_Some)
    with True v size empty show ?thesis by (simp add: ValidateFrameGraph_def is_singleton_def)
  next
    case False
    with r rooted_root_set have "roots g iter \<noteq> []" using set by fastforce
    then obtain a as where as: "roots g iter = a # as" by (cases "roots g iter") auto
    have one: "is_singleton (root_set g) \<longleftrightarrow> as = []"
      using set d unfolding as by (cases as) (auto simp: is_singleton_def)
    show ?thesis
      using True v size False one as
      by (cases as) (auto simp: ValidateFrameGraph_def Root_cases coordinate_error_def throw_error_def)
  qed
qed

section \<open>Transforms\<close>

text \<open>\<open>upward g i edges p\<close>: the edges from frame \<open>i\<close> up to its ancestor \<open>p\<close>.\<close>

inductive upward :: "'se3 FrameGraph \<Rightarrow> uuid \<Rightarrow> 'se3 list \<Rightarrow> uuid \<Rightarrow> bool" for g where
  upward_one: "Find g i = Some f \<Longrightarrow> \<not> IsNil (cf_parent f) \<Longrightarrow> upward g i [cf_parent_from_child f] (cf_parent f)"
| upward_more: "Find g i = Some f \<Longrightarrow> \<not> IsNil (cf_parent f) \<Longrightarrow> upward g (cf_parent f) edges p \<Longrightarrow>
    upward g i (cf_parent_from_child f # edges) p"

lemma climb_Some:
  "climb g goal visited edges current = Inr (Some es) \<Longrightarrow> \<exists>ds. es = edges @ ds \<and> upward g current ds goal"
proof (induction g goal visited edges current rule: climb.induct)
  case (1 g goal visited edges current)
  from 1(2) obtain f where f: "Find g current = Some f" "\<not> IsNil (cf_parent f)" "current \<notin> set visited"
    by (subst (asm) climb.simps) (auto split: option.split_asm if_split_asm)
  let ?edges = "edges @ [cf_parent_from_child f]"
  have step: "climb g goal visited edges current =
      (if cf_parent f = goal then Inr (Some ?edges) else climb g goal (current # visited) ?edges (cf_parent f))"
    by (subst climb.simps) (simp add: f Let_def)
  show ?case
  proof (cases "cf_parent f = goal")
    case True
    with 1(2) step upward_one [OF f(1,2)] show ?thesis by auto
  next
    case False
    with 1(2) step have "climb g goal (current # visited) ?edges (cf_parent f) = Inr (Some es)" by simp
    from 1(1) [OF f refl False this] obtain ds where "es = ?edges @ ds" "upward g (cf_parent f) ds goal" by auto
    then show ?thesis using upward_more [OF f(1,2)] by auto
  qed
qed

lemma climb_rooted:
  assumes "rooted g current" "\<forall>i\<in>set visited. (i, current) \<in> (parent_of g)\<^sup>+"
  shows "if (current, goal) \<in> (parent_of g)\<^sup>+ then \<exists>es. climb g goal visited edges current = Inr (Some es)
    else climb g goal visited edges current = Inr None"
  using assms
proof (induction arbitrary: visited edges rule: rooted.induct)
  case (rooted_root i f)
  then have "climb g goal visited edges i = Inr None" by (subst climb.simps) simp
  with no_parent [OF rooted_root(1,2)] show ?case by simp
next
  case (rooted_child i f)
  then have p: "(i, cf_parent f) \<in> parent_of g" by (auto simp: parent_of_Find)
  with rooted_child(3) rooted_parent have "rooted g i" by metis
  with rooted_child.prems rooted_no_cycle have new: "i \<notin> set visited" by metis
  let ?edges = "edges @ [cf_parent_from_child f]"
  have step: "climb g goal visited edges i =
      (if cf_parent f = goal then Inr (Some ?edges) else climb g goal (i # visited) ?edges (cf_parent f))"
    by (subst climb.simps) (simp add: rooted_child new Let_def)
  have "\<forall>j\<in>set (i # visited). (j, cf_parent f) \<in> (parent_of g)\<^sup>+"
    using rooted_child.prems p by (auto intro: trancl_into_trancl)
  from rooted_child.IH [OF this, of ?edges] show ?case
    unfolding step ancestor_step [OF p] by (auto split: if_split_asm)
qed

text \<open>\<open>act m\<close> maps the coordinates of a point by \<open>m\<close>; in \<open>coords\<close> every edge maps a frame's to its parent's.\<close>

definition consistent :: "('se3 \<Rightarrow> 'p \<Rightarrow> 'p) \<Rightarrow> 'se3 FrameGraph \<Rightarrow> (uuid \<Rightarrow> 'p) \<Rightarrow> bool" where
  "consistent act g coords \<longleftrightarrow>
     (\<forall>f\<in>set (fg_frames g). \<not> IsNil (cf_parent f) \<longrightarrow> coords (cf_parent f) = act (cf_parent_from_child f) (coords (cf_id f)))"

lemma act_compose:
  assumes "\<And>p. act (se3_identity se3) p = p" "\<And>a b p. act (se3_mult se3 a b) p = act a (act b p)"
    and "consistent act g coords" "upward g i edges p"
  shows "act (compose se3 edges) (coords i) = coords p"
  using assms(4)
proof induction
  case (upward_one i f)
  with assms(3) show ?case by (auto simp: consistent_def compose_def assms(1,2) dest!: Find_Some)
next
  case (upward_more i f edges p)
  have "compose se3 (e # edges) = se3_mult se3 (compose se3 edges) e" for e by (simp add: compose_def)
  with upward_more assms(3) show ?case by (auto simp: consistent_def assms(2) dest!: Find_Some)
qed

text \<open>
  What \<open>Transform\<close> returns takes coordinates in the second frame to coordinates in the first, as its header
  promises, in every assignment of coordinates that the edges agree with; it is enough that products act as compositions
  and inverses undo.
\<close>

theorem Transform_maps_points:
  assumes "\<And>p. act (se3_identity se3) p = p" "\<And>a b p. act (se3_mult se3 a b) p = act a (act b p)"
    "\<And>a p. act (se3_inverse se3 a) (act a p) = p"
    and "consistent act g coords" "Transform se3 g from_frame to_frame = Inr m"
  shows "act m (coords to_frame) = coords from_frame"
proof (cases "from_frame = to_frame")
  case True
  with assms(1,5) show ?thesis by (simp add: Transform_def)
next
  case False
  with assms(5) consider (up) es where "climb g from_frame [] [] to_frame = Inr (Some es)" "m = compose se3 es"
    | (down) es where "climb g to_frame [] [] from_frame = Inr (Some es)" "m = se3_inverse se3 (compose se3 es)"
    by (auto simp: Transform_def rbind_Inr split: if_split_asm option.split_asm)
  then show ?thesis
  proof cases
    case up
    from climb_Some [OF up(1)] have "upward g to_frame es from_frame" by simp
    from act_compose [OF assms(1,2,4) this] up(2) show ?thesis by simp
  next
    case down
    from climb_Some [OF down(1)] have "upward g from_frame es to_frame" by simp
    from act_compose [OF assms(1,2,4) this] assms(3) [of "compose se3 es" "coords from_frame"] down(2) show ?thesis by simp
  qed
qed

text \<open>
  On a graph that validates, \<open>Transform\<close> of two different frames returns exactly when one is an ancestor of
  the other, and the two directions are each other's inverse; otherwise it throws that they are disconnected or that a
  frame is missing, and never that it found a cycle.
\<close>

theorem Transform_on_valid_graph:
  assumes "acyclic (parent_of g)" "no_dangling g" "a \<noteq> b"
  shows "if \<not> HasFrame g a \<or> \<not> HasFrame g b then \<exists>e. Transform se3 g a b = Inl e \<and> exn_code e = Some kCoordFrameNotFound
    else if (b, a) \<in> (parent_of g)\<^sup>+ then \<exists>m. Transform se3 g a b = Inr m \<and> Transform se3 g b a = Inr (se3_inverse se3 m)
    else if (a, b) \<in> (parent_of g)\<^sup>+ then \<exists>m. Transform se3 g b a = Inr m \<and> Transform se3 g a b = Inr (se3_inverse se3 m)
    else \<exists>e. Transform se3 g a b = Inl e \<and> exn_code e = Some kCoordFrameDisconnected"
proof (cases "HasFrame g a \<and> HasFrame g b")
  case False
  with assms(3) show ?thesis by (auto simp: Transform_def coordinate_error_def)
next
  case True
  with assms(1,2) all_rooted_iff [of g] have r: "rooted g a" "rooted g b" by (auto simp: HasFrame_iff)
  have c: "if (x, y) \<in> (parent_of g)\<^sup>+ then \<exists>es. climb g y [] [] x = Inr (Some es) else climb g y [] [] x = Inr None"
    if "rooted g x" for x y using climb_rooted [OF that, of "[]"] by simp
  have one: "\<not> ((b, a) \<in> (parent_of g)\<^sup>+ \<and> (a, b) \<in> (parent_of g)\<^sup>+)"
    using assms(1) by (auto simp: acyclic_def dest: trancl_trans)
  consider (up) "(b, a) \<in> (parent_of g)\<^sup>+" "(a, b) \<notin> (parent_of g)\<^sup>+" | (down) "(a, b) \<in> (parent_of g)\<^sup>+" "(b, a) \<notin> (parent_of g)\<^sup>+"
    | (apart) "(a, b) \<notin> (parent_of g)\<^sup>+" "(b, a) \<notin> (parent_of g)\<^sup>+" using one by blast
  then show ?thesis
  proof cases
    case up
    with c [OF r(2), of a] c [OF r(1), of b] True assms(3) show ?thesis by (auto simp: Transform_def)
  next
    case down
    with c [OF r(2), of a] c [OF r(1), of b] True assms(3) show ?thesis by (auto simp: Transform_def)
  next
    case apart
    with c [OF r(2), of a] c [OF r(1), of b] True assms(3) show ?thesis by (auto simp: Transform_def coordinate_error_def)
  qed
qed

text \<open>A translation of integers, three frames in a row and one apart: what the properties say there.\<close>

definition demo_se3 :: "int se3_ops" where
  "demo_se3 = \<lparr>se3_identity = 0, se3_mult = (+), se3_inverse = uminus\<rparr>"

definition demo_node :: "byte \<Rightarrow> byte \<Rightarrow> int \<Rightarrow> int CoordinateFrame" where
  "demo_node i parent edge = \<lparr>cf_id = replicate 16 i, cf_name = '''', cf_parent = replicate 16 parent, cf_parent_from_child = edge,
     cf_epoch = \<lparr>ep_datum_id = '''', ep_valid_from = 0, ep_valid_to = 2 ^ 63 - 1,
       ep_authority = \<lparr>au_type = kLocal, au_provider = '''', au_confidence = 0, au_reference = ''''\<rparr>, ep_accuracy_meters = 0, ep_to_wgs84 = 0\<rparr>\<rparr>"

definition demo_tree :: "int FrameGraph" where
  "demo_tree = fold (\<lambda>f g. snd (AddFrame f g)) [demo_node 1 0 0, demo_node 2 1 10, demo_node 3 2 5, demo_node 4 1 7] empty_graph"

lemma demo_tree_ok: "frames_ok demo_tree"
  by (simp add: demo_tree_def AddFrame_frames_ok frames_ok_empty)

lemma demo_tree_valid: "acyclic (parent_of demo_tree)" "no_dangling demo_tree"
  using demo_tree_ok all_rooted_iff [of demo_tree] by (auto simp: frames_ok_def)

lemma demo_tree_frames: "fg_frames demo_tree = [demo_node 1 0 0, demo_node 2 1 10, demo_node 3 2 5, demo_node 4 1 7]"
  by code_simp

lemma AddFrame_keeps_acyclic_witness:
  "ValidateAcyclic [replicate 16 3, replicate 16 2, replicate 16 4, replicate 16 1, replicate 16 5] (snd (AddFrame (demo_node 5 3 1) demo_tree)) \<and>
   snd (AddFrame (demo_node 6 9 1) demo_tree) = demo_tree"
proof -
  obtain r g' where 1: "AddFrame (demo_node 5 3 1) demo_tree = (r, g')" by fastforce
  obtain q g'' where 2: "AddFrame (demo_node 6 9 1) demo_tree = (q, g'')" by fastforce
  have "set [replicate 16 3, replicate 16 2, replicate 16 4, replicate 16 1, replicate 16 5] = graph_ids (snd (AddFrame (demo_node 5 3 1) demo_tree))"
    by code_simp
  moreover have "fst (AddFrame (demo_node 6 9 1) demo_tree) = Inl (coordinate_error kCoordFrameNotFound ''parent frame does not exist'')"
    by code_simp
  ultimately show ?thesis
    using AddFrame_keeps_acyclic [OF demo_tree_ok 1] AddFrame_keeps_acyclic [OF demo_tree_ok 2] 1 2 by (auto split: sum.split_asm)
qed

text \<open>Two frames that are each other's parents, as a damaged graph holds them.\<close>

definition cyclic_graph :: "int FrameGraph" where
  "cyclic_graph = InsertUnchecked (demo_node 2 1 1) (InsertUnchecked (demo_node 1 2 1) empty_graph)"

lemma ValidateAcyclic_iff_witness:
  "\<not> ValidateAcyclic [replicate 16 2, replicate 16 1] cyclic_graph \<and> \<not> (acyclic (parent_of cyclic_graph) \<and> no_dangling cyclic_graph)"
proof -
  have "set [replicate 16 2, replicate 16 1] = graph_ids cyclic_graph" by code_simp
  moreover have "\<not> ValidateAcyclic [replicate 16 2, replicate 16 1] cyclic_graph" by code_simp
  ultimately show ?thesis using ValidateAcyclic_iff by blast
qed

lemma FrameGraph_Validate_iff_witness:
  "is_singleton (root_set demo_tree) \<and>
   \<not> is_singleton (root_set (snd (AddFrame (demo_node 5 0 1) demo_tree)))"
proof -
  let ?iter = "[replicate 16 4, replicate 16 2, replicate 16 3, replicate 16 1] :: uuid list" and ?g = "snd (AddFrame (demo_node 5 0 1) demo_tree)"
  have ok: "acyclic (parent_of ?g)" "no_dangling ?g"
    using AddFrame_frames_ok [OF demo_tree_ok, of "demo_node 5 0 1"] all_rooted_iff [of ?g] by (auto simp: frames_ok_def)
  have 1: "set ?iter = graph_ids demo_tree" "distinct ?iter" "va_valid (ValidateFrameGraph ?iter demo_tree)" by code_simp+
  have 2: "set (replicate 16 5 # ?iter) = graph_ids ?g" "distinct (replicate 16 5 # ?iter)"
    "\<not> va_valid (ValidateFrameGraph (replicate 16 5 # ?iter) ?g)" by code_simp+
  from FrameGraph_Validate_iff [OF 1(1,2)] FrameGraph_Validate_iff [OF 2(1,2)] 1(3) 2(3) ok show ?thesis by (auto split: if_split_asm)
qed

lemma Transform_maps_points_witness:
  "Transform demo_se3 demo_tree (replicate 16 1) (replicate 16 3) = Inr 15 \<and> (15 :: int) + 100 = 115"
proof -
  let ?coords = "\<lambda>i :: uuid. if i = replicate 16 1 then (115 :: int) else if i = replicate 16 2 then 105 else if i = replicate 16 3 then 100 else 108 :: int"
  have t: "Transform demo_se3 demo_tree (replicate 16 1) (replicate 16 3) = Inr 15" by code_simp
  have c: "?coords (replicate 16 1) = 115" "?coords (replicate 16 2) = 105" "?coords (replicate 16 3) = 100" "?coords (replicate 16 4) = 108"
    by code_simp+
  have "\<forall>f\<in>set [demo_node 1 0 0, demo_node 2 1 10, demo_node 3 2 5, demo_node 4 1 7]. \<not> IsNil (cf_parent f) \<longrightarrow>
      ?coords (cf_parent f) = cf_parent_from_child f + ?coords (cf_id f)"
    by code_simp
  then have "consistent (+) demo_tree ?coords" unfolding consistent_def demo_tree_frames .
  from Transform_maps_points [OF _ _ _ this t] have "15 + ?coords (replicate 16 3) = ?coords (replicate 16 1)"
    by (simp add: demo_se3_def)
  with t c show ?thesis by simp
qed

lemma Transform_on_valid_graph_witness:
  "(\<exists>e. Transform demo_se3 demo_tree (replicate 16 3) (replicate 16 4) = Inl e \<and> exn_code e = Some kCoordFrameDisconnected) \<and>
   Transform demo_se3 demo_tree (replicate 16 3) (replicate 16 1) = Inr (- 15)"
proof -
  have ne: "replicate 16 3 \<noteq> (replicate 16 4 :: byte list)" "replicate 16 1 \<noteq> (replicate 16 3 :: byte list)" by code_simp+
  have h: "HasFrame demo_tree (replicate 16 1)" "HasFrame demo_tree (replicate 16 3)" "HasFrame demo_tree (replicate 16 4)" by code_simp+
  have t: "Transform demo_se3 demo_tree (replicate 16 3) (replicate 16 4) =
      Inl (coordinate_error kCoordFrameDisconnected ''frames are not connected by an ancestor chain'')"
    "Transform demo_se3 demo_tree (replicate 16 1) (replicate 16 3) = Inr 15"
    "Transform demo_se3 demo_tree (replicate 16 3) (replicate 16 1) = Inr (- 15)" by code_simp+
  from Transform_on_valid_graph [OF demo_tree_valid ne(1), of demo_se3] Transform_on_valid_graph [OF demo_tree_valid ne(2), of demo_se3] h t
  show ?thesis by (auto split: if_split_asm)
qed

end
