(* ===== verification/SceneTables.thy ===== *)
theory SceneTables
  imports Transactions "HOL-Library.Product_Lexorder" "HOL-Library.Multiset"
begin

text \<open>
  The scene side of core/storage/metadata_db.cpp: the rows of metadata_db.h, the tables of
  migrations 0001, 0005, 0006, 0007 and 0008 with the keys and references they declare, and the
  statements over projects, capture sessions, sensors, frames, observations, feature sets and import
  rejections. Foreign keys are on, so an insert whose reference has no row fails like one
  whose primary key is taken. SQL leaves the order of rows with equal sort keys open; the model takes
  rowid order.
\<close>

section \<open>Rows\<close>

text \<open>A \<open>double\<close> is carried as its IEEE 754 bits.\<close>

type_synonym double = u64

record project_row =
  pj_project_id :: uuid
  pj_name :: string
  pj_schema_version :: int
  pj_created_by_json :: string
  pj_created_at_ns :: int
  pj_default_crs :: string
  pj_root_frame :: string
  pj_flags_json :: string
  pj_properties_json :: string

record CaptureSessionRow =
  cs_session_id :: uuid
  cs_project_id :: uuid
  cs_name :: string
  cs_started_at_ns :: int
  cs_ended_at_ns :: int
  cs_source_uri :: string
  cs_status :: string
  cs_provenance_json :: string

record FrameRow =
  fr_frame_id :: uuid
  fr_scene_id :: uuid
  fr_session_id :: uuid
  fr_timestamp_ns :: int
  fr_sequence_index :: int
  fr_sensor_id :: uuid
  fr_pose_ref :: uuid
  fr_properties_json :: string

record ObservationRow =
  ob_observation_id :: uuid
  ob_scene_id :: uuid
  ob_sensor_id :: uuid
  ob_frame_id :: uuid
  ob_session_id :: uuid
  ob_timestamp_ns :: int
  ob_type :: string
  ob_artifact_ref :: string
  ob_source_json :: string
  ob_properties_json :: string
  ob_width :: int
  ob_height :: int
  ob_pixel_format :: string

record ObservationPayloadRow =
  op_observation_id :: uuid
  op_width :: int
  op_height :: int
  op_pixel_format :: string

record ImportRejectionRow =
  ir_rejection_id :: uuid
  ir_project_id :: uuid
  ir_session_id :: uuid
  ir_sequence_index :: int
  ir_source_path :: string
  ir_mime_type :: string
  ir_importer :: string
  ir_importer_version :: string
  ir_error_code :: string
  ir_diagnostic :: string
  ir_rejected_at_ns :: int

record SceneRow =
  sr_scene_id :: uuid
  sr_schema_version :: int
  sr_project_id :: uuid
  sr_name :: string
  sr_version_id :: uuid
  sr_parent_version_id :: uuid
  sr_stage :: string
  sr_created_by_json :: string
  sr_created_at_ns :: int
  sr_origin_frame :: string
  sr_crs :: string
  sr_status :: string
  sr_properties_json :: string

record SceneVersionRow =
  sv_version_id :: uuid
  sv_scene_id :: uuid
  sv_parent_version_id :: uuid
  sv_stage :: string
  sv_created_by_json :: string
  sv_created_at_ns :: int
  sv_status :: string

record FeatureSetRow =
  fs_feature_set_id :: uuid
  fs_frame_id :: uuid
  fs_detector :: string
  fs_descriptor_type :: string
  fs_count :: int
  fs_artifact_ref :: string

record SensorRow =
  se_sensor_id :: uuid
  se_project_id :: uuid
  se_type :: string
  se_manufacturer :: string
  se_model :: string
  se_serial_number :: string
  se_time_domain :: string
  se_calibration_id :: uuid
  se_rig_id :: uuid
  se_source_json :: string
  se_status :: string
  se_has_calibration :: bool

record CalibrationRow =
  ca_calibration_id :: uuid
  ca_sensor_id :: uuid
  ca_version :: int
  ca_calibration_time_ns :: int
  ca_source :: string
  ca_intrinsics_json :: string
  ca_distortion_json :: string
  ca_extrinsics_json :: string
  ca_uncertainty_json :: string
  ca_valid_from_ns :: "int option"
  ca_valid_to_ns :: "int option"

record ReconstructionRow =
  rc_reconstruction_id :: uuid
  rc_scene_id :: uuid
  rc_coordinate_frame :: string
  rc_status :: string
  rc_created_at_ns :: int
  rc_document_json :: string

record TrajectoryRow =
  tj_trajectory_id :: uuid
  tj_scene_id :: uuid
  tj_session_id :: uuid
  tj_kind :: string
  tj_coordinate_frame :: string
  tj_status :: string
  tj_node_count :: int
  tj_total_distance_m :: double
  tj_total_duration_ns :: int
  tj_created_at_ns :: int
  tj_document_json :: string

record PoseGraphRow =
  pg_graph_id :: uuid
  pg_trajectory_id :: uuid
  pg_scene_id :: uuid
  pg_status :: string
  pg_node_count :: int
  pg_edge_count :: int
  pg_odometry_edge_count :: int
  pg_loop_closure_edge_count :: int
  pg_prior_edge_count :: int
  pg_created_at_ns :: int
  pg_document_json :: string

record LoopClosureCandidateRow =
  lk_candidate_id :: uuid
  lk_trajectory_id :: uuid
  lk_source_frame_id :: uuid
  lk_target_frame_id :: uuid
  lk_feature_match_score :: double
  lk_matcher :: string
  lk_created_at_ns :: int

record LoopClosureRow =
  lc_closure_id :: uuid
  lc_trajectory_id :: uuid
  lc_candidate_id :: uuid
  lc_source_frame_id :: uuid
  lc_target_frame_id :: uuid
  lc_status :: string
  lc_inlier_ratio :: double
  lc_inlier_count :: int
  lc_confidence :: double
  lc_temporal_separation_ns :: int
  lc_spatial_separation_m :: double
  lc_created_at_ns :: int

record OptimizationResultRow =
  og_result_id :: uuid
  og_graph_id :: uuid
  og_trajectory_id :: uuid
  og_status :: string
  og_iterations :: int
  og_initial_error :: double
  og_final_error :: double
  og_error_reduction :: double
  og_created_at_ns :: int
  og_document_json :: string

record SensorMetadataUpdate =
  su_manufacturer :: string
  su_model :: string
  su_serial_number :: string
  su_status :: string

text \<open>The columns of \<open>scenes\<close>; a \<open>SceneRow\<close> also has fields of the version, which queries leave at their defaults.\<close>

record scene_cols =
  sn_scene_id :: uuid
  sn_project_id :: uuid
  sn_schema_version :: int
  sn_name :: string
  sn_current_version_id :: uuid
  sn_origin_frame :: string
  sn_crs :: string
  sn_status :: string
  sn_properties_json :: string

record scene_tables =
  st_projects :: "project_row list"
  st_sessions :: "CaptureSessionRow list"
  st_sensors :: "SensorRow list"
  st_calibrations :: "CalibrationRow list"
  st_scenes :: "scene_cols list"
  st_scene_versions :: "SceneVersionRow list"
  st_frames :: "FrameRow list"
  st_observations :: "ObservationRow list"
  st_payloads :: "ObservationPayloadRow list"
  st_feature_sets :: "FeatureSetRow list"
  st_rejections :: "ImportRejectionRow list"
  st_reconstructions :: "ReconstructionRow list"
  st_trajectories :: "TrajectoryRow list"
  st_pose_graphs :: "PoseGraphRow list"
  st_lc_candidates :: "LoopClosureCandidateRow list"
  st_loop_closures :: "LoopClosureRow list"
  st_opt_results :: "OptimizationResultRow list"

type_synonym scene_db = "scene_tables tx_conn"
type_synonym 'a scene_op = "('a, scene_tables) tx_op"

definition empty_tables :: scene_tables where
  "empty_tables = \<lparr>st_projects = [], st_sessions = [], st_sensors = [], st_calibrations = [], st_scenes = [],
     st_scene_versions = [], st_frames = [], st_observations = [], st_payloads = [], st_feature_sets = [],
     st_rejections = [], st_reconstructions = [], st_trajectories = [], st_pose_graphs = [],
     st_lc_candidates = [], st_loop_closures = [], st_opt_results = []\<rparr>"

section \<open>Columns\<close>

text \<open>
  An optional reference is bound as NULL when it is nil and a NULL column is read as nil, so that the
  stored row keeps the nil; \<open>BindUuidOrNull\<close> is the column, for comparisons and references: NULL
  equals nothing and refers to nothing.
\<close>

definition BindUuidOrNull :: "uuid \<Rightarrow> uuid option" where
  "BindUuidOrNull u = (if IsNil u then None else Some u)"

definition ColumnUuid :: "uuid option \<Rightarrow> uuid" where
  "ColumnUuid c = (case c of None \<Rightarrow> nil_uuid | Some u \<Rightarrow> u)"

definition refers :: "uuid option \<Rightarrow> uuid list \<Rightarrow> bool" where
  "refers c keys = (case c of None \<Rightarrow> True | Some u \<Rightarrow> u \<in> set keys)"

text \<open>SQLite stores a NaN as NULL, which is read as 0.0, and a negative zero as zero.\<close>

definition is_nan :: "double \<Rightarrow> bool" where
  "is_nan x \<longleftrightarrow> drop_bit 52 x AND 0x7FF = 0x7FF \<and> x AND 0xFFFFFFFFFFFFF \<noteq> 0"

definition store_double :: "double \<Rightarrow> double" where
  "store_double x = (if is_nan x \<or> x = 0x8000000000000000 then 0 else x)"

section \<open>Projects and capture sessions\<close>

definition insert_project :: "project_row \<Rightarrow> scene_tables \<Rightarrow> scene_tables option" where
  "insert_project row t = map_option (\<lambda>rows. t\<lparr>st_projects := rows\<rparr>) (tbl_insert pj_project_id row (st_projects t))"

definition InsertProject :: "project_row \<Rightarrow> unit scene_op" where
  "InsertProject row =
     write_op (statement ''cannot prepare insert project'' ''cannot insert project row'' (insert_project row))"

definition has_project :: "uuid \<Rightarrow> scene_tables \<Rightarrow> bool" where
  "has_project p t \<longleftrightarrow> p \<in> pj_project_id ` set (st_projects t)"

definition insert_session :: "CaptureSessionRow \<Rightarrow> scene_tables \<Rightarrow> scene_tables option" where
  "insert_session row t =
     (if has_project (cs_project_id row) t
      then map_option (\<lambda>rows. t\<lparr>st_sessions := rows\<rparr>) (tbl_insert cs_session_id row (st_sessions t))
      else None)"

definition InsertCaptureSession :: "CaptureSessionRow \<Rightarrow> unit scene_op" where
  "InsertCaptureSession row =
     write_op (statement ''cannot prepare insert capture session'' ''cannot insert capture session row''
       (insert_session row))"

definition FindSession :: "uuid \<Rightarrow> uuid option scene_op" where
  "FindSession session_id =
     query_one ''cannot prepare find session''
       (\<lambda>t. map_option cs_session_id (tbl_get cs_session_id session_id (st_sessions t)))"

definition FindCaptureSession :: "uuid \<Rightarrow> CaptureSessionRow option scene_op" where
  "FindCaptureSession session_id =
     query_one ''cannot prepare find capture session'' (\<lambda>t. tbl_get cs_session_id session_id (st_sessions t))"

section \<open>Sensors\<close>

text \<open>\<open>has_calibration\<close> is not a column; the update binds an empty text as NULL, which is read as empty.\<close>

definition insert_sensor :: "SensorRow \<Rightarrow> scene_tables \<Rightarrow> scene_tables option" where
  "insert_sensor row t =
     (if has_project (se_project_id row) t
      then map_option (\<lambda>rows. t\<lparr>st_sensors := rows\<rparr>)
             (tbl_insert se_sensor_id (row\<lparr>se_has_calibration := False\<rparr>) (st_sensors t))
      else None)"

text \<open>Every constraint, the reference to the project included, is reported as a duplicate.\<close>

definition RegisterSensor :: "SensorRow \<Rightarrow> unit scene_op" where
  "RegisterSensor row =
     write_op (sbind (sql_call (schema_error ''cannot prepare register sensor'')) (\<lambda>_ d.
       sql_modify (schema_error (if insert_sensor row (tx_tables d) = None
           then ''sensor already registered: '' @ FormatUuid (se_sensor_id row) else ''cannot insert sensor row''))
         (insert_sensor row) d))"

definition has_calibrations :: "uuid \<Rightarrow> scene_tables \<Rightarrow> bool" where
  "has_calibrations sensor t \<longleftrightarrow> list_ex (\<lambda>c. ca_sensor_id c = sensor) (st_calibrations t)"

definition FindSensor :: "uuid \<Rightarrow> SensorRow option scene_op" where
  "FindSensor sensor_id =
     query_one ''cannot prepare find sensor'' (\<lambda>t.
       map_option (\<lambda>s. s\<lparr>se_has_calibration := has_calibrations sensor_id t\<rparr>)
         (tbl_get se_sensor_id sensor_id (st_sensors t)))"

definition update_sensor :: "uuid \<Rightarrow> (SensorRow \<Rightarrow> SensorRow) \<Rightarrow> scene_tables \<Rightarrow> scene_tables option" where
  "update_sensor sensor_id f t =
     Some (t\<lparr>st_sensors := map (\<lambda>s. if se_sensor_id s = sensor_id then f s else s) (st_sensors t)\<rparr>)"

definition UpdateSensorMetadata :: "uuid \<Rightarrow> SensorMetadataUpdate \<Rightarrow> unit scene_op" where
  "UpdateSensorMetadata sensor_id u =
     write_op (sbind (query_one ''cannot prepare find sensor for update''
         (\<lambda>t. tbl_get se_sensor_id sensor_id (st_sensors t))) (\<lambda>present.
       if present = None then sthrow (schema_error (''no such sensor: '' @ FormatUuid sensor_id))
       else statement ''cannot prepare update sensor metadata'' ''cannot update sensor metadata''
         (update_sensor sensor_id (\<lambda>s. s\<lparr>se_manufacturer := su_manufacturer u, se_model := su_model u,
            se_serial_number := su_serial_number u, se_status := su_status u\<rparr>))))"

definition has_sensor :: "uuid \<Rightarrow> scene_tables \<Rightarrow> bool" where
  "has_sensor s t \<longleftrightarrow> s \<in> se_sensor_id ` set (st_sensors t)"

definition has_scene :: "uuid \<Rightarrow> scene_tables \<Rightarrow> bool" where
  "has_scene s t \<longleftrightarrow> s \<in> sn_scene_id ` set (st_scenes t)"

section \<open>Frames\<close>

definition insert_frame :: "FrameRow \<Rightarrow> scene_tables \<Rightarrow> scene_tables option" where
  "insert_frame row t =
     (if has_scene (fr_scene_id row) t
         \<and> refers (BindUuidOrNull (fr_sensor_id row)) (map se_sensor_id (st_sensors t))
      then map_option (\<lambda>rows. t\<lparr>st_frames := rows\<rparr>) (tbl_insert fr_frame_id row (st_frames t))
      else None)"

definition InsertFrame :: "FrameRow \<Rightarrow> unit scene_op" where
  "InsertFrame row =
     write_op (statement ''cannot prepare insert frame'' ''cannot insert frame row'' (insert_frame row))"

definition FrameExists :: "uuid \<Rightarrow> bool scene_op" where
  "FrameExists frame_id =
     sbind (query_one ''cannot prepare find frame'' (\<lambda>t. tbl_get fr_frame_id frame_id (st_frames t)))
       (\<lambda>r. sret (r \<noteq> None))"

text \<open>The WHERE clause and \<open>ORDER BY timestamp_ns, sequence_index\<close>.\<close>

definition select_frames :: "(FrameRow \<Rightarrow> bool) \<Rightarrow> scene_tables \<Rightarrow> FrameRow list" where
  "select_frames P t = sort_key (\<lambda>r. (fr_timestamp_ns r, fr_sequence_index r)) (filter P (st_frames t))"

definition FindFramesByScene :: "uuid \<Rightarrow> FrameRow list scene_op" where
  "FindFramesByScene scene_id =
     query_rows ''cannot prepare find frames by scene'' (select_frames (\<lambda>r. fr_scene_id r = scene_id))"

definition FindFramesBySession :: "uuid \<Rightarrow> FrameRow list scene_op" where
  "FindFramesBySession session_id =
     query_rows ''cannot prepare find frames by session''
       (select_frames (\<lambda>r. BindUuidOrNull (fr_session_id r) = Some session_id))"

definition FindFramesBySensor :: "uuid \<Rightarrow> FrameRow list scene_op" where
  "FindFramesBySensor sensor_id =
     query_rows ''cannot prepare find frames by sensor''
       (select_frames (\<lambda>r. BindUuidOrNull (fr_sensor_id r) = Some sensor_id))"

definition FindFrames :: "FrameRow list scene_op" where
  "FindFrames = query_rows ''cannot prepare find all frames'' (select_frames (\<lambda>_. True))"

definition FindFramesInTimeRange :: "int \<Rightarrow> int \<Rightarrow> FrameRow list scene_op" where
  "FindFramesInTimeRange from_ns to_ns =
     query_rows ''cannot prepare find frames in time range''
       (select_frames (\<lambda>r. from_ns \<le> fr_timestamp_ns r \<and> fr_timestamp_ns r < to_ns))"

section \<open>Observations\<close>

definition insert_observation :: "ObservationRow \<Rightarrow> scene_tables \<Rightarrow> scene_tables option" where
  "insert_observation row t =
     (if has_scene (ob_scene_id row) t \<and> has_sensor (ob_sensor_id row) t
         \<and> refers (BindUuidOrNull (ob_frame_id row)) (map fr_frame_id (st_frames t))
      then map_option (\<lambda>rows. t\<lparr>st_observations := rows\<rparr>)
             (tbl_insert ob_observation_id (row\<lparr>ob_width := 0, ob_height := 0, ob_pixel_format := ''''\<rparr>) (st_observations t))
      else None)"

definition InsertObservation :: "ObservationRow \<Rightarrow> unit scene_op" where
  "InsertObservation row =
     write_op (statement ''cannot prepare insert observation'' ''cannot insert observation row'' (insert_observation row))"

definition insert_payload :: "ObservationPayloadRow \<Rightarrow> scene_tables \<Rightarrow> scene_tables option" where
  "insert_payload row t =
     (if op_observation_id row \<in> ob_observation_id ` set (st_observations t)
      then map_option (\<lambda>rows. t\<lparr>st_payloads := rows\<rparr>) (tbl_insert op_observation_id row (st_payloads t))
      else None)"

definition InsertObservationPayload :: "ObservationPayloadRow \<Rightarrow> unit scene_op" where
  "InsertObservationPayload row =
     write_op (statement ''cannot prepare insert observation payload'' ''cannot insert observation payload row''
       (insert_payload row))"

definition ObservationExists :: "uuid \<Rightarrow> bool scene_op" where
  "ObservationExists observation_id =
     sbind (query_one ''cannot prepare find observation''
         (\<lambda>t. tbl_get ob_observation_id observation_id (st_observations t)))
       (\<lambda>r. sret (r \<noteq> None))"

text \<open>The last three columns come from the LEFT JOIN; without a payload they keep their defaults.\<close>

definition ReadObservationRow :: "scene_tables \<Rightarrow> ObservationRow \<Rightarrow> ObservationRow" where
  "ReadObservationRow t row =
     (case tbl_get op_observation_id (ob_observation_id row) (st_payloads t) of
        None \<Rightarrow> row
      | Some p \<Rightarrow> row\<lparr>ob_width := op_width p, ob_height := op_height p, ob_pixel_format := op_pixel_format p\<rparr>)"

definition select_observations :: "(ObservationRow \<Rightarrow> bool) \<Rightarrow> scene_tables \<Rightarrow> ObservationRow list" where
  "select_observations P t = map (ReadObservationRow t) (sort_key ob_timestamp_ns (filter P (st_observations t)))"

definition FindObservationsByScene :: "uuid \<Rightarrow> ObservationRow list scene_op" where
  "FindObservationsByScene scene_id =
     query_rows ''cannot prepare find observations by scene'' (select_observations (\<lambda>r. ob_scene_id r = scene_id))"

definition FindObservationsByFrame :: "uuid \<Rightarrow> ObservationRow list scene_op" where
  "FindObservationsByFrame frame_id =
     query_rows ''cannot prepare find observations by frame''
       (select_observations (\<lambda>r. BindUuidOrNull (ob_frame_id r) = Some frame_id))"

definition FindObservationsBySession :: "uuid \<Rightarrow> ObservationRow list scene_op" where
  "FindObservationsBySession session_id =
     query_rows ''cannot prepare find observations by session''
       (select_observations (\<lambda>r. BindUuidOrNull (ob_session_id r) = Some session_id))"

definition FindObservationsBySensor :: "uuid \<Rightarrow> ObservationRow list scene_op" where
  "FindObservationsBySensor sensor_id =
     query_rows ''cannot prepare find observations by sensor'' (select_observations (\<lambda>r. ob_sensor_id r = sensor_id))"

definition FindObservations :: "ObservationRow list scene_op" where
  "FindObservations = query_rows ''cannot prepare find all observations'' (select_observations (\<lambda>_. True))"

definition FindObservationsInTimeRange :: "int \<Rightarrow> int \<Rightarrow> ObservationRow list scene_op" where
  "FindObservationsInTimeRange from_ns to_ns =
     query_rows ''cannot prepare find observations in time range''
       (select_observations (\<lambda>r. from_ns \<le> ob_timestamp_ns r \<and> ob_timestamp_ns r < to_ns))"

section \<open>Feature sets and import rejections\<close>

definition insert_feature_set :: "FeatureSetRow \<Rightarrow> scene_tables \<Rightarrow> scene_tables option" where
  "insert_feature_set row t =
     map_option (\<lambda>rows. t\<lparr>st_feature_sets := rows\<rparr>) (tbl_insert fs_feature_set_id row (st_feature_sets t))"

definition InsertFeatureSet :: "FeatureSetRow \<Rightarrow> unit scene_op" where
  "InsertFeatureSet row =
     write_op (statement ''cannot prepare insert feature set'' ''cannot insert feature set row'' (insert_feature_set row))"

definition select_feature_sets :: "(FeatureSetRow \<Rightarrow> bool) \<Rightarrow> scene_tables \<Rightarrow> FeatureSetRow list" where
  "select_feature_sets P t = sort_key (\<lambda>r. (fs_detector r, fs_descriptor_type r)) (filter P (st_feature_sets t))"

definition FindFeatureSetsByFrame :: "uuid \<Rightarrow> FeatureSetRow list scene_op" where
  "FindFeatureSetsByFrame frame_id =
     query_rows ''cannot prepare find feature sets by frame'' (select_feature_sets (\<lambda>r. fs_frame_id r = frame_id))"

text \<open>The inner join: feature sets whose frame has no row are not found by scene.\<close>

definition FindFeatureSetsByScene :: "uuid \<Rightarrow> FeatureSetRow list scene_op" where
  "FindFeatureSetsByScene scene_id =
     query_rows ''cannot prepare find feature sets by scene'' (\<lambda>t.
       select_feature_sets (\<lambda>r. list_ex (\<lambda>f. fr_frame_id f = fs_frame_id r \<and> fr_scene_id f = scene_id) (st_frames t)) t)"

definition insert_rejection :: "ImportRejectionRow \<Rightarrow> scene_tables \<Rightarrow> scene_tables option" where
  "insert_rejection row t =
     (if has_project (ir_project_id row) t
         \<and> refers (BindUuidOrNull (ir_session_id row)) (map cs_session_id (st_sessions t))
      then map_option (\<lambda>rows. t\<lparr>st_rejections := rows\<rparr>) (tbl_insert ir_rejection_id row (st_rejections t))
      else None)"

definition InsertImportRejection :: "ImportRejectionRow \<Rightarrow> unit scene_op" where
  "InsertImportRejection row =
     write_op (statement ''cannot prepare insert import rejection'' ''cannot insert import rejection row''
       (insert_rejection row))"

definition FindImportRejectionsBySession :: "uuid \<Rightarrow> ImportRejectionRow list scene_op" where
  "FindImportRejectionsBySession session_id =
     query_rows ''cannot prepare find import rejections'' (\<lambda>t.
       sort_key (\<lambda>r. (ir_sequence_index r, ir_rejected_at_ns r))
         (filter (\<lambda>r. BindUuidOrNull (ir_session_id r) = Some session_id) (st_rejections t)))"

section \<open>Queries by time\<close>

text \<open>A stable sort is determined by its keys' order and the order of rows of equal key.\<close>

lemma sort_key_append:
  assumes "\<And>x y. x \<in> set xs \<Longrightarrow> P x \<Longrightarrow> y \<in> set xs \<Longrightarrow> Q y \<Longrightarrow> key x < key y"
  shows "sort_key key (filter P xs) @ sort_key key (filter Q xs) = sort_key key (filter (\<lambda>x. P x \<or> Q x) xs)"
proof (rule sym, rule properties_for_sort_key)
  have disjoint: "\<not> (P x \<and> Q x)" if "x \<in> set xs" for x using assms that by blast
  show "mset (sort_key key (filter P xs) @ sort_key key (filter Q xs)) = mset (filter (\<lambda>x. P x \<or> Q x) xs)"
    using disjoint by (induction xs) auto
  show "sorted (map key (sort_key key (filter P xs) @ sort_key key (filter Q xs)))"
    using assms by (auto simp: sorted_append intro: less_imp_le)
next
  fix k assume k: "k \<in> set (sort_key key (filter P xs) @ sort_key key (filter Q xs))"
  have stable: "filter (\<lambda>x. key k = key x) (sort_key key ys) = filter (\<lambda>x. key k = key x) ys" for ys
    using sort_key_stable [of key "key k" ys] by (simp add: eq_commute)
  show "filter (\<lambda>x. key k = key x) (sort_key key (filter P xs) @ sort_key key (filter Q xs))
      = filter (\<lambda>x. key k = key x) (filter (\<lambda>x. P x \<or> Q x) xs)"
  proof -
    from k have kx: "k \<in> set xs" "P k \<or> Q k" by auto
    show ?thesis
    proof (cases "P k")
      case True
      have q: "filter (\<lambda>x. key k = key x) (filter Q xs) = []"
        using assms kx(1) True by (force simp: filter_empty_conv)
      have p: "filter (\<lambda>x. key k = key x) (filter (\<lambda>x. P x \<or> Q x) xs) = filter (\<lambda>x. key k = key x) (filter P xs)"
        using assms kx(1) True by (auto simp: filter_filter intro!: filter_cong) force
      show ?thesis by (simp only: filter_append stable p q append_Nil2)
    next
      case False
      with kx have "Q k" by blast
      have q: "filter (\<lambda>x. key k = key x) (filter P xs) = []"
        using assms kx(1) \<open>Q k\<close> by (force simp: filter_empty_conv)
      have p: "filter (\<lambda>x. key k = key x) (filter (\<lambda>x. P x \<or> Q x) xs) = filter (\<lambda>x. key k = key x) (filter Q xs)"
        using assms kx(1) \<open>Q k\<close> by (auto simp: filter_filter intro!: filter_cong) force
      show ?thesis by (simp only: filter_append stable p q append_Nil)
    qed
  qed
qed

lemma frames_windows_tile:
  assumes "a \<le> b" "b \<le> c"
  shows "select_frames (\<lambda>r. a \<le> fr_timestamp_ns r \<and> fr_timestamp_ns r < b) t
      @ select_frames (\<lambda>r. b \<le> fr_timestamp_ns r \<and> fr_timestamp_ns r < c) t
    = select_frames (\<lambda>r. a \<le> fr_timestamp_ns r \<and> fr_timestamp_ns r < c) t"
proof -
  have "filter (\<lambda>r. a \<le> fr_timestamp_ns r \<and> fr_timestamp_ns r < c) (st_frames t)
    = filter (\<lambda>r. (a \<le> fr_timestamp_ns r \<and> fr_timestamp_ns r < b) \<or> (b \<le> fr_timestamp_ns r \<and> fr_timestamp_ns r < c)) (st_frames t)"
    using assms by (intro filter_cong) auto
  moreover have "sort_key (\<lambda>r. (fr_timestamp_ns r, fr_sequence_index r)) (filter (\<lambda>r. a \<le> fr_timestamp_ns r \<and> fr_timestamp_ns r < b) (st_frames t))
      @ sort_key (\<lambda>r. (fr_timestamp_ns r, fr_sequence_index r)) (filter (\<lambda>r. b \<le> fr_timestamp_ns r \<and> fr_timestamp_ns r < c) (st_frames t))
    = sort_key (\<lambda>r. (fr_timestamp_ns r, fr_sequence_index r)) (filter
        (\<lambda>r. (a \<le> fr_timestamp_ns r \<and> fr_timestamp_ns r < b) \<or> (b \<le> fr_timestamp_ns r \<and> fr_timestamp_ns r < c)) (st_frames t))"
    by (rule sort_key_append) (auto simp: less_prod_def)
  ultimately show ?thesis by (simp only: select_frames_def)
qed

lemma observation_windows_tile:
  assumes "a \<le> b" "b \<le> c"
  shows "select_observations (\<lambda>r. a \<le> ob_timestamp_ns r \<and> ob_timestamp_ns r < b) t
      @ select_observations (\<lambda>r. b \<le> ob_timestamp_ns r \<and> ob_timestamp_ns r < c) t
    = select_observations (\<lambda>r. a \<le> ob_timestamp_ns r \<and> ob_timestamp_ns r < c) t"
proof -
  have "filter (\<lambda>r. a \<le> ob_timestamp_ns r \<and> ob_timestamp_ns r < c) (st_observations t)
    = filter (\<lambda>r. (a \<le> ob_timestamp_ns r \<and> ob_timestamp_ns r < b) \<or> (b \<le> ob_timestamp_ns r \<and> ob_timestamp_ns r < c)) (st_observations t)"
    using assms by (intro filter_cong) auto
  moreover have "sort_key ob_timestamp_ns (filter (\<lambda>r. a \<le> ob_timestamp_ns r \<and> ob_timestamp_ns r < b) (st_observations t))
      @ sort_key ob_timestamp_ns (filter (\<lambda>r. b \<le> ob_timestamp_ns r \<and> ob_timestamp_ns r < c) (st_observations t))
    = sort_key ob_timestamp_ns (filter
        (\<lambda>r. (a \<le> ob_timestamp_ns r \<and> ob_timestamp_ns r < b) \<or> (b \<le> ob_timestamp_ns r \<and> ob_timestamp_ns r < c)) (st_observations t))"
    by (rule sort_key_append) auto
  ultimately show ?thesis by (simp only: select_observations_def map_append [symmetric])
qed

lemma FindFramesInTimeRange_rows:
  assumes "FindFramesInTimeRange a b d = (Inr fs, d')"
  defines "answer \<equiv> select_frames (\<lambda>r. a \<le> fr_timestamp_ns r \<and> fr_timestamp_ns r < b) (tx_tables d)"
  shows "(\<exists>n. fs = take n answer) \<and> tx_tables d' = tx_tables d \<and> same_mode d d' \<and> ((\<forall>k. \<not> db_fault d k) \<longrightarrow> fs = answer)"
proof -
  from assms(1) have "query_rows ''cannot prepare find frames in time range''
       (select_frames (\<lambda>r. a \<le> fr_timestamp_ns r \<and> fr_timestamp_ns r < b)) d = (Inr fs, d')"
    by (simp add: FindFramesInTimeRange_def)
  then show ?thesis by (rule query_rows_take) (auto simp: answer_def)
qed

text \<open>
  On a connection that answers, the frames of a time window come sorted by time, the last bound
  excluded, and consecutive windows give the frames of the whole window in the same order and none
  twice; a query that is cut short by a failed step has read a prefix of the answer.
\<close>

theorem FindFramesInTimeRange_windows:
  assumes "a \<le> b" "b \<le> c" "FindFramesInTimeRange a b d = (Inr f1, d1)"
    "FindFramesInTimeRange b c d1 = (Inr f2, d2)" "FindFramesInTimeRange a c d2 = (Inr f3, d3)"
  shows "((\<forall>k. \<not> db_fault d k) \<longrightarrow> f3 = f1 @ f2 \<and> sorted (map fr_timestamp_ns f3) \<and>
      set f1 = {r \<in> set (st_frames (tx_tables d)). a \<le> fr_timestamp_ns r \<and> fr_timestamp_ns r < b}) \<and>
    (\<exists>n. f1 = take n (select_frames (\<lambda>r. a \<le> fr_timestamp_ns r \<and> fr_timestamp_ns r < b) (tx_tables d)))"
proof -
  let ?in = "\<lambda>a b r. a \<le> fr_timestamp_ns r \<and> fr_timestamp_ns r < b"
  note rows = FindFramesInTimeRange_rows
  from rows [OF assms(3)] rows [OF assms(4)] rows [OF assms(5)] have f:
    "\<exists>n. f1 = take n (select_frames (?in a b) (tx_tables d))"
    "(\<forall>k. \<not> db_fault d k) \<longrightarrow> f1 = select_frames (?in a b) (tx_tables d) \<and> f2 = select_frames (?in b c) (tx_tables d)
       \<and> f3 = select_frames (?in a c) (tx_tables d)" by (auto simp: same_mode_def)
  have "f3 = f1 @ f2 \<and> sorted (map fr_timestamp_ns f3) \<and>
      set f1 = {r \<in> set (st_frames (tx_tables d)). a \<le> fr_timestamp_ns r \<and> fr_timestamp_ns r < b}"
    if "\<forall>k. \<not> db_fault d k"
  proof -
    from that f(2) have eqs: "f1 = select_frames (?in a b) (tx_tables d)" "f2 = select_frames (?in b c) (tx_tables d)"
      "f3 = select_frames (?in a c) (tx_tables d)" by auto
    have "sorted (map (\<lambda>r. (fr_timestamp_ns r, fr_sequence_index r)) f3)" by (simp add: eqs select_frames_def)
    then have "sorted (map fr_timestamp_ns f3)"
      by (simp add: sorted_map) (rule sorted_wrt_mono_rel, auto simp: less_eq_prod_def)
    with eqs frames_windows_tile [OF assms(1,2)] show ?thesis by (auto simp: select_frames_def)
  qed
  with f(1) show ?thesis by blast
qed

definition demo_frame :: "byte \<Rightarrow> int \<Rightarrow> FrameRow" where
  "demo_frame k at = \<lparr>fr_frame_id = replicate 16 k, fr_scene_id = replicate 16 1, fr_session_id = nil_uuid,
     fr_timestamp_ns = at, fr_sequence_index = 0, fr_sensor_id = nil_uuid, fr_pose_ref = nil_uuid, fr_properties_json = []\<rparr>"

definition frames_db :: scene_db where
  "frames_db = open_conn (empty_tables\<lparr>st_frames := [demo_frame 1 5, demo_frame 2 3, demo_frame 3 9]\<rparr>)"

lemma FindFramesInTimeRange_windows_witness:
  "map fr_timestamp_ns (projr (fst (FindFramesInTimeRange 0 9 frames_db))) = [3, 5] \<and>
   sorted (map fr_timestamp_ns (projr (fst (FindFramesInTimeRange 0 10 (snd (FindFramesInTimeRange 5 10
     (snd (FindFramesInTimeRange 0 5 frames_db))))))))"
proof -
  let ?d1 = "snd (FindFramesInTimeRange 0 5 frames_db)"
  let ?d2 = "snd (FindFramesInTimeRange 5 10 ?d1)"
  have "\<not> isl (fst (FindFramesInTimeRange 0 5 frames_db))" "\<not> isl (fst (FindFramesInTimeRange 5 10 ?d1))"
    "\<not> isl (fst (FindFramesInTimeRange 0 10 ?d2))" by code_simp+
  then obtain f1 f2 f3 d3 where runs: "FindFramesInTimeRange 0 5 frames_db = (Inr f1, ?d1)"
    "FindFramesInTimeRange 5 10 ?d1 = (Inr f2, ?d2)" "FindFramesInTimeRange 0 10 ?d2 = (Inr f3, d3)"
    by (metis isl_def old.sum.exhaust prod.collapse)
  have "\<forall>k. \<not> db_fault frames_db k" by (simp add: frames_db_def open_conn_def)
  moreover have "(0::int) \<le> 5" "(5::int) \<le> 10" by simp_all
  ultimately have "sorted (map fr_timestamp_ns f3)" using FindFramesInTimeRange_windows [OF _ _ runs] by blast
  moreover have "map fr_timestamp_ns (projr (fst (FindFramesInTimeRange 0 9 frames_db))) = [3, 5]" by code_simp
  ultimately show ?thesis using runs(3) by simp
qed

end
