(* ===== verification/Calibrations.thy ===== *)
theory Calibrations
  imports SceneTables
begin

text \<open>
  Sensor calibrations with validity windows: \<open>AddCalibration\<close> and \<open>ResolveCalibrationAt\<close> of
  core/storage/metadata_db.cpp. A window is half-open and an absent end means open-ended. The lemmas
  show that windows of one sensor never overlap as long as the overlap query answers and no timestamp
  is INT64_MAX, that versions count up, and what resolution returns.
\<close>

section \<open>Operations\<close>

definition kInf :: int where
  "kInf = 2 ^ 63 - 1"

text \<open>\<open>COALESCE(valid_to_ns, kInf)\<close>.\<close>

definition window_end :: "CalibrationRow \<Rightarrow> int" where
  "window_end c = (case ca_valid_to_ns c of None \<Rightarrow> kInf | Some t \<Rightarrow> t)"

definition overlap_hit :: "CalibrationRow \<Rightarrow> int \<Rightarrow> CalibrationRow \<Rightarrow> bool" where
  "overlap_hit row from c \<longleftrightarrow> ca_sensor_id c = ca_sensor_id row \<and>
     (case ca_valid_from_ns c of None \<Rightarrow> False | Some f \<Rightarrow> f < window_end row \<and> window_end c > from)"

definition next_version :: "uuid \<Rightarrow> scene_tables \<Rightarrow> int" where
  "next_version sensor t =
     (case map ca_version (filter (\<lambda>c. ca_sensor_id c = sensor) (st_calibrations t)) of
        [] \<Rightarrow> 1 | v # vs \<Rightarrow> fold max vs v + 1)"

definition insert_calibration :: "CalibrationRow \<Rightarrow> scene_tables \<Rightarrow> scene_tables option" where
  "insert_calibration row t =
     (if has_sensor (ca_sensor_id row) t
      then map_option (\<lambda>rows. t\<lparr>st_calibrations := rows\<rparr>) (tbl_insert ca_calibration_id row (st_calibrations t))
      else None)"

definition point_to_calibration :: "CalibrationRow \<Rightarrow> scene_tables \<Rightarrow> scene_tables option" where
  "point_to_calibration row =
     update_sensor (ca_sensor_id row) (\<lambda>s. s\<lparr>se_calibration_id := ca_calibration_id row\<rparr>)"

text \<open>A step whose result is not looked at.\<close>

definition unchecked_step :: "(scene_tables \<Rightarrow> scene_tables option) \<Rightarrow> unit scene_op" where
  "unchecked_step f d = (Inr (), snd (sql_modify (schema_error []) f d))"

text \<open>
  The body of the transaction. A failed step of the overlap query reads as no overlap, a failed step
  of the version query as version 1.
\<close>

definition add_calibration_body :: "CalibrationRow \<Rightarrow> int \<Rightarrow> unit scene_op" where
  "add_calibration_body row from =
     sbind (query_one ''cannot prepare calibration overlap check''
         (\<lambda>t. List.find (overlap_hit row from) (st_calibrations t))) (\<lambda>overlap.
       if overlap \<noteq> None
       then sthrow (throw_error kCalibrationInvalid
              (''calibration interval overlaps an existing calibration for sensor '' @ FormatUuid (ca_sensor_id row)))
       else
         sbind (query_one ''cannot prepare calibration version'' (\<lambda>t. Some (next_version (ca_sensor_id row) t))) (\<lambda>ver.
         sbind (statement ''cannot prepare insert calibration'' ''cannot insert calibration row''
             (insert_calibration (row\<lparr>ca_version := (case ver of None \<Rightarrow> 1 | Some v \<Rightarrow> v)\<rparr>))) (\<lambda>_.
         sbind (sql_call (schema_error ''cannot prepare calibration pointer update'')) (\<lambda>_.
           unchecked_step (point_to_calibration row)))))"

definition AddCalibration :: "CalibrationRow \<Rightarrow> unit scene_op" where
  "AddCalibration row =
     write_op (case ca_valid_from_ns row of
         None \<Rightarrow> sthrow (throw_error kCalibrationInvalid
           ''calibration requires a valid_from_ns interval start (sensor-model.md 3.1)'')
       | Some from \<Rightarrow>
           if (case ca_valid_to_ns row of None \<Rightarrow> False | Some to \<Rightarrow> to \<le> from)
           then sthrow (throw_error kCalibrationInvalid ''valid_to_ns must be greater than valid_from_ns'')
           else transaction ''add calibration'' (add_calibration_body row from))"

text \<open>The WHERE clause of the resolution query.\<close>

definition valid_at :: "uuid \<Rightarrow> int \<Rightarrow> CalibrationRow \<Rightarrow> bool" where
  "valid_at sensor ts c \<longleftrightarrow> ca_sensor_id c = sensor \<and>
     (case ca_valid_from_ns c of None \<Rightarrow> False | Some f \<Rightarrow> f \<le> ts) \<and>
     (case ca_valid_to_ns c of None \<Rightarrow> True | Some t \<Rightarrow> ts < t)"

text \<open>\<open>ORDER BY key DESC LIMIT 1\<close>.\<close>

definition latest_by :: "('r \<Rightarrow> int) \<Rightarrow> 'r list \<Rightarrow> 'r option" where
  "latest_by key rows = (case sort_key (\<lambda>r. - key r) rows of [] \<Rightarrow> None | r # _ \<Rightarrow> Some r)"

definition window_start :: "CalibrationRow \<Rightarrow> int" where
  "window_start c = (case ca_valid_from_ns c of None \<Rightarrow> 0 | Some f \<Rightarrow> f)"

definition ResolveCalibrationAt :: "uuid \<Rightarrow> int \<Rightarrow> CalibrationRow option scene_op" where
  "ResolveCalibrationAt sensor_id timestamp_ns =
     query_one ''cannot prepare resolve calibration at'' (\<lambda>t.
       latest_by window_start (filter (valid_at sensor_id timestamp_ns) (st_calibrations t)))"

section \<open>The rows AddCalibration builds\<close>

lemma inside_unchecked [inside_intros]: "inside (unchecked_step f)"
  using inside_basic(6) by (simp add: inside_def unchecked_step_def)

lemma inside_add_calibration: "inside (add_calibration_body row from)"
  unfolding add_calibration_body_def by (intro inside_intros)

text \<open>
  The invariant: one row per id, every row has a start, and the windows of one sensor are disjoint,
  an open end counting as INT64_MAX.
\<close>

definition apart :: "CalibrationRow \<Rightarrow> CalibrationRow \<Rightarrow> bool" where
  "apart c c' \<longleftrightarrow> ca_sensor_id c \<noteq> ca_sensor_id c' \<or> window_end c \<le> window_start c' \<or> window_end c' \<le> window_start c"

definition calib_ok :: "CalibrationRow list \<Rightarrow> bool" where
  "calib_ok cs \<longleftrightarrow> distinct (map ca_calibration_id cs) \<and> (\<forall>c\<in>set cs. ca_valid_from_ns c \<noteq> None) \<and>
     (\<forall>c\<in>set cs. \<forall>c'\<in>set cs. c \<noteq> c' \<longrightarrow> apart c c')"

text \<open>The versions of a sensor, in the order they were added.\<close>

definition versions_of :: "uuid \<Rightarrow> CalibrationRow list \<Rightarrow> int list" where
  "versions_of sensor cs = map ca_version (filter (\<lambda>c. ca_sensor_id c = sensor) cs)"

definition counted :: "int list \<Rightarrow> bool" where
  "counted vs \<longleftrightarrow> vs = map int [1..<Suc (length vs)]"

definition versions_ok :: "CalibrationRow list \<Rightarrow> bool" where
  "versions_ok cs \<longleftrightarrow> (\<forall>c\<in>set cs. counted (versions_of (ca_sensor_id c) cs))"

lemma insert_calibration_Some:
  "insert_calibration row t = Some t' \<Longrightarrow> has_sensor (ca_sensor_id row) t
     \<and> ca_calibration_id row \<notin> ca_calibration_id ` set (st_calibrations t)
     \<and> st_calibrations t' = st_calibrations t @ [row]"
  by (auto simp: insert_calibration_def tbl_insert_def split: if_splits)

lemma unchecked_step_calibrations:
  "unchecked_step (point_to_calibration row) d = (r, d') \<Longrightarrow> st_calibrations (tx_tables d') = st_calibrations (tx_tables d)"
  by (auto simp: unchecked_step_def sql_modify_def sql_write_def point_to_calibration_def update_sensor_def
      split: if_splits)

text \<open>What a run of the body that returned has done to the table.\<close>

lemma add_calibration_body_Inr:
  assumes "add_calibration_body row from d = (Inr u, d')"
  obtains v where
    "st_calibrations (tx_tables d') = st_calibrations (tx_tables d) @ [row\<lparr>ca_version := v\<rparr>]"
    "ca_calibration_id row \<notin> ca_calibration_id ` set (st_calibrations (tx_tables d))"
    "\<not> db_fault d (Suc (db_tick d)) \<Longrightarrow> \<forall>c\<in>set (st_calibrations (tx_tables d)). \<not> overlap_hit row from c"
    "\<not> db_fault d (3 + db_tick d) \<Longrightarrow> v = next_version (ca_sensor_id row) (tx_tables d)"
    "db_fault d (3 + db_tick d) \<Longrightarrow> v = 1"
proof -
  from sbind_InrD [OF assms [unfolded add_calibration_body_def]] obtain hit d1 where
    q: "query_one ''cannot prepare calibration overlap check''
          (\<lambda>t. List.find (overlap_hit row from) (st_calibrations t)) d = (Inr hit, d1)"
    and rest: "(if hit \<noteq> None
       then sthrow (throw_error kCalibrationInvalid
              (''calibration interval overlaps an existing calibration for sensor '' @ FormatUuid (ca_sensor_id row)))
       else
         sbind (query_one ''cannot prepare calibration version'' (\<lambda>t. Some (next_version (ca_sensor_id row) t))) (\<lambda>ver.
         sbind (statement ''cannot prepare insert calibration'' ''cannot insert calibration row''
             (insert_calibration (row\<lparr>ca_version := (case ver of None \<Rightarrow> 1 | Some v \<Rightarrow> v)\<rparr>))) (\<lambda>_.
         sbind (sql_call (schema_error ''cannot prepare calibration pointer update'')) (\<lambda>_.
           unchecked_step (point_to_calibration row))))) d1 = (Inr u, d')" by auto
  from query_one_Inr [OF q] have d1: "tx_tables d1 = tx_tables d" "db_fault d1 = db_fault d" "db_tick d1 = db_tick d + 2"
    "hit = (if db_fault d (Suc (db_tick d)) then None else List.find (overlap_hit row from) (st_calibrations (tx_tables d)))"
    by (auto simp: same_mode_def)
  from rest have none: "hit = None" by (auto simp: sthrow_def split: if_splits)
  with rest obtain ver d2 where
    v: "query_one ''cannot prepare calibration version'' (\<lambda>t. Some (next_version (ca_sensor_id row) t)) d1 = (Inr ver, d2)"
    and rest2: "sbind (statement ''cannot prepare insert calibration'' ''cannot insert calibration row''
             (insert_calibration (row\<lparr>ca_version := (case ver of None \<Rightarrow> 1 | Some v \<Rightarrow> v)\<rparr>))) (\<lambda>_.
         sbind (sql_call (schema_error ''cannot prepare calibration pointer update'')) (\<lambda>_.
           unchecked_step (point_to_calibration row))) d2 = (Inr u, d')"
    by (auto dest: sbind_InrD)
  let ?v = "case ver of None \<Rightarrow> 1 | Some v \<Rightarrow> v"
  from rest2 obtain d3 d4 where
    s: "statement ''cannot prepare insert calibration'' ''cannot insert calibration row''
             (insert_calibration (row\<lparr>ca_version := ?v\<rparr>)) d2 = (Inr (), d3)"
    and c: "sql_call (schema_error ''cannot prepare calibration pointer update'') d3 = (Inr (), d4)"
    and p: "unchecked_step (point_to_calibration row) d4 = (Inr u, d')"
    by (auto dest!: sbind_InrD)
  from query_one_Inr [OF v] d1 have d2: "tx_tables d2 = tx_tables d"
    "ver = (if db_fault d (3 + db_tick d) then None else Some (next_version (ca_sensor_id row) (tx_tables d)))"
    by (auto simp: numeral_3_eq_3)
  from statement_Inr [OF s] d2 have ins: "insert_calibration (row\<lparr>ca_version := ?v\<rparr>) (tx_tables d) = Some (tx_tables d3)"
    by simp
  from c have d4: "tx_tables d4 = tx_tables d3" by (auto simp: sql_call_def split: if_splits)
  from insert_calibration_Some [OF ins] unchecked_step_calibrations [OF p] d4
  have t: "st_calibrations (tx_tables d') = st_calibrations (tx_tables d) @ [row\<lparr>ca_version := ?v\<rparr>]"
    "ca_calibration_id row \<notin> ca_calibration_id ` set (st_calibrations (tx_tables d))" by auto
  show thesis
  proof (rule that [OF t])
    assume "\<not> db_fault d (Suc (db_tick d))"
    with d1(4) none show "\<forall>c\<in>set (st_calibrations (tx_tables d)). \<not> overlap_hit row from c"
      by (simp add: find_None_iff2)
  qed (simp_all add: d2(2))
qed

section \<open>Windows stay disjoint\<close>

lemma apart_sym: "apart c c' \<longleftrightarrow> apart c' c"
  by (auto simp: apart_def)

lemma no_overlap_apart:
  assumes "ca_valid_from_ns row = Some from" "ca_valid_from_ns c \<noteq> None" "\<not> overlap_hit row from c"
  shows "apart c (row\<lparr>ca_version := v\<rparr>)"
  using assms by (auto simp: apart_def overlap_hit_def window_start_def window_end_def)

lemma calib_ok_append:
  assumes "calib_ok cs" "ca_valid_from_ns row = Some from" "ca_calibration_id row \<notin> ca_calibration_id ` set cs"
    "\<forall>c\<in>set cs. \<not> overlap_hit row from c"
  shows "calib_ok (cs @ [row\<lparr>ca_version := v\<rparr>])"
proof -
  from assms no_overlap_apart have "apart c (row\<lparr>ca_version := v\<rparr>)" if "c \<in> set cs" for c
    using that by (auto simp: calib_ok_def)
  with assms apart_sym show ?thesis by (auto simp: calib_ok_def)
qed

text \<open>What a call that passes its argument checks comes down to.\<close>

lemma AddCalibration_runs:
  assumes "AddCalibration row d = (r, d')"
  obtains (refused) e where "r = Inl e" "d' = d"
  | (run) beg where "ca_valid_from_ns row = Some beg" "\<not> db_read_only d"
      "\<forall>to. ca_valid_to_ns row = Some to \<longrightarrow> beg < to"
      "transaction ''add calibration'' (add_calibration_body row beg) d = (r, d')"
  using assms
  by (auto simp: AddCalibration_def write_op_def sthrow_def not_le split: if_splits option.splits)

lemma AddCalibration_atomic: "AddCalibration row d = (Inl e, d') \<Longrightarrow> committed d' = committed d"
  by (erule AddCalibration_runs) (auto dest: transaction_atomic [OF inside_add_calibration])

text \<open>
  C11: adding a calibration never makes two windows of a sensor overlap, provided the step of the
  overlap query answers; every other call may fail. A call that throws changes nothing on disk.
\<close>

theorem AddCalibration_windows:
  assumes "calib_ok (st_calibrations (committed d))" "\<not> db_fault d (db_tick d + 2)" "AddCalibration row d = (r, d')"
  shows "calib_ok (st_calibrations (committed d')) \<and> (\<forall>e. r = Inl e \<longrightarrow> committed d' = committed d)"
proof -
  from assms(3) have "calib_ok (st_calibrations (committed d'))"
  proof (cases rule: AddCalibration_runs)
    case (run beg)
    from inside_add_calibration assms(1) run(4) show ?thesis
    proof (rule transaction_keeps [where P = "\<lambda>t. calib_ok (st_calibrations t)"])
      fix x d0 d1
      assume body: "add_calibration_body row beg d0 = (Inr x, d1)" and d0: "db_fault d0 = db_fault d"
        "db_tick d0 = Suc (db_tick d)" and ok: "calib_ok (st_calibrations (tx_tables d0))"
      from body show "calib_ok (st_calibrations (tx_tables d1))"
        by (rule add_calibration_body_Inr) (use calib_ok_append [OF ok run(1)] d0 assms(2) in auto)
    qed
  qed (use assms(1) in simp)
  with AddCalibration_atomic assms(3) show ?thesis by blast
qed

section \<open>Versions\<close>

lemma counted_snoc: "counted vs \<Longrightarrow> counted (vs @ [int (length vs) + 1])"
  by (simp add: counted_def)

lemma next_version_count:
  assumes "counted (versions_of sensor (st_calibrations t))"
  shows "next_version sensor t = int (length (versions_of sensor (st_calibrations t))) + 1"
proof -
  define n where "n = length (versions_of sensor (st_calibrations t))"
  have vs: "versions_of sensor (st_calibrations t) = map int [1..<Suc n]"
    using assms by (simp only: counted_def n_def)
  have max: "fold max (map int [k..<k + j]) (int k - 1) = int k + int j - 1" for k j
    by (induction j) auto
  have "next_version sensor t = int n + 1"
  proof (cases n)
    case 0
    with vs show ?thesis by (simp add: next_version_def versions_of_def)
  next
    case (Suc m)
    have "map int [1..<Suc n] = 1 # map int [2..<2 + m]"
      by (simp add: Suc upt_conv_Cons numeral_2_eq_2 del: upt_Suc)
    with vs max [of 2 m] Suc show ?thesis by (simp add: next_version_def versions_of_def)
  qed
  then show ?thesis by (simp only: n_def)
qed

lemma versions_of_append:
  "versions_of s (cs @ [c]) = versions_of s cs @ (if ca_sensor_id c = s then [ca_version c] else [])"
  by (simp add: versions_of_def)

lemma versions_ok_all: "versions_ok cs \<Longrightarrow> counted (versions_of s cs)"
proof (cases "\<exists>c\<in>set cs. ca_sensor_id c = s")
  case False
  then have "versions_of s cs = []" by (auto simp: versions_of_def filter_empty_conv)
  then show ?thesis by (simp add: counted_def)
qed (auto simp: versions_ok_def)

lemma versions_ok_append:
  assumes "versions_ok (st_calibrations t)"
  shows "versions_ok (st_calibrations t @ [row\<lparr>ca_version := next_version (ca_sensor_id row) t\<rparr>])"
proof -
  have all: "counted (versions_of s (st_calibrations t))" for s
    using assms by (rule versions_ok_all)
  from next_version_count [OF all] counted_snoc [OF all] show ?thesis
    using all by (simp add: versions_ok_def versions_of_append)
qed

text \<open>
  Calibrations are append-only and numbered per sensor: when the overlap and version queries
  answer, the versions of a sensor in the order they were added are 1, 2, 3 and so on. A version query
  whose step fails numbers the row 1 again.
\<close>

theorem AddCalibration_versions:
  assumes "versions_ok (st_calibrations (committed d))" "AddCalibration row d = (Inr u, d')"
  shows "(\<not> db_fault d (db_tick d + 4) \<longrightarrow> versions_ok (st_calibrations (committed d'))) \<and>
    (\<exists>v. st_calibrations (committed d') = st_calibrations (committed d) @ [row\<lparr>ca_version := v\<rparr>] \<and>
       (db_fault d (db_tick d + 4) \<longrightarrow> v = 1))"
  using assms(2)
proof (cases rule: AddCalibration_runs)
  case (run beg)
  from transaction_returns [OF inside_add_calibration run(4)] obtain d0 d1 where
    saved: "tx_saved d = None" "tx_saved d' = None" and d0: "tx_tables d0 = tx_tables d" "db_fault d0 = db_fault d"
      "db_tick d0 = Suc (db_tick d)" and body: "add_calibration_body row beg d0 = (Inr u, d1)"
    and d': "tx_tables d' = tx_tables d1" by auto
  from body obtain v where v: "st_calibrations (tx_tables d1) = st_calibrations (tx_tables d) @ [row\<lparr>ca_version := v\<rparr>]"
    "\<not> db_fault d (db_tick d + 4) \<Longrightarrow> v = next_version (ca_sensor_id row) (tx_tables d)"
    "db_fault d (db_tick d + 4) \<Longrightarrow> v = 1"
    by (rule add_calibration_body_Inr) (use d0 in \<open>auto simp: numeral_eq_Suc\<close>)
  from assms(1) saved have ok: "versions_ok (st_calibrations (tx_tables d))" by simp
  show ?thesis using v saved d' versions_ok_append [OF ok, of row] by auto
qed simp

section \<open>Resolution\<close>

lemma valid_at_apart:
  assumes "valid_at s ts c" "valid_at s ts c'" "apart c c'" "ts < kInf"
  shows False
  using assms by (auto simp: valid_at_def apart_def window_start_def window_end_def split: option.splits)

lemma latest_by_Some: "latest_by key rows = Some r \<Longrightarrow> r \<in> set rows \<and> (\<forall>x\<in>set rows. key x \<le> key r)"
proof -
  assume "latest_by key rows = Some r"
  then obtain rest where s: "sort_key (\<lambda>r. - key r) rows = r # rest"
    by (auto simp: latest_by_def split: list.splits)
  have "sorted (map (\<lambda>r. - key r) (sort_key (\<lambda>r. - key r) rows))" by simp
  with s have "\<forall>x\<in>set rest. - key r \<le> - key x" by simp
  moreover from s have "set rows = insert r (set rest)" by (metis list.simps(15) set_sort)
  ultimately show ?thesis by auto
qed

lemma latest_by_None: "latest_by key rows = None \<longleftrightarrow> rows = []"
  by (auto simp: latest_by_def split: list.splits dest: arg_cong [where f = length])

text \<open>
  Before INT64_MAX, resolution returns the calibration of the sensor whose window contains the
  timestamp, the only one there is, and nothing exactly when there is none; the pointer in
  \<open>sensors\<close> plays no part.
\<close>

theorem ResolveCalibrationAt_exact:
  assumes "calib_ok (st_calibrations (tx_tables d))" "ts < kInf" "\<not> db_fault d (Suc (db_tick d))"
    and run: "ResolveCalibrationAt sensor ts d = (Inr x, d')"
  shows "(\<forall>c. x = Some c \<longleftrightarrow> c \<in> set (st_calibrations (tx_tables d)) \<and> valid_at sensor ts c) \<and>
    (x = None \<longleftrightarrow> (\<forall>c\<in>set (st_calibrations (tx_tables d)). \<not> valid_at sensor ts c))"
proof -
  let ?cs = "st_calibrations (tx_tables d)"
  let ?hits = "filter (valid_at sensor ts) ?cs"
  from query_one_Inr [OF run [unfolded ResolveCalibrationAt_def]] assms(3)
  have x: "x = latest_by window_start ?hits" by simp
  have unique: "c = c'" if "c \<in> set ?hits" "c' \<in> set ?hits" for c c'
    using that assms(1,2) valid_at_apart by (fastforce simp: calib_ok_def)
  have "x = Some c \<longleftrightarrow> c \<in> set ?cs \<and> valid_at sensor ts c" for c
  proof
    assume "x = Some c"
    with latest_by_Some [of window_start ?hits c] x show "c \<in> set ?cs \<and> valid_at sensor ts c" by simp
  next
    assume c: "c \<in> set ?cs \<and> valid_at sensor ts c"
    then have "?hits \<noteq> []" by (auto simp: filter_empty_conv)
    then obtain c' where c': "x = Some c'" using x latest_by_None by (metis option.exhaust)
    with latest_by_Some [of window_start ?hits c'] x have "c' \<in> set ?hits" by simp
    with unique [of c c'] c c' show "x = Some c" by simp
  qed
  moreover have "x = None \<longleftrightarrow> (\<forall>c\<in>set ?cs. \<not> valid_at sensor ts c)"
    by (simp add: x latest_by_None filter_empty_conv)
  ultimately show ?thesis by blast
qed

section \<open>A sensor with calibrations\<close>

definition demo_sensor :: uuid where
  "demo_sensor = replicate 16 2"

definition demo_sensor_row :: SensorRow where
  "demo_sensor_row = \<lparr>se_sensor_id = demo_sensor, se_project_id = replicate 16 1, se_type = ''camera'', se_manufacturer = [],
     se_model = [], se_serial_number = [], se_time_domain = [], se_calibration_id = nil_uuid, se_rig_id = nil_uuid,
     se_source_json = [], se_status = [], se_has_calibration = False\<rparr>"

definition demo_calibration :: "byte \<Rightarrow> int \<Rightarrow> int option \<Rightarrow> CalibrationRow" where
  "demo_calibration k start stop = \<lparr>ca_calibration_id = replicate 16 k, ca_sensor_id = demo_sensor, ca_version = 0,
     ca_calibration_time_ns = 0, ca_source = [], ca_intrinsics_json = [], ca_distortion_json = [],
     ca_extrinsics_json = [], ca_uncertainty_json = [], ca_valid_from_ns = Some start, ca_valid_to_ns = stop\<rparr>"

definition sensor_db :: "nat set \<Rightarrow> scene_db" where
  "sensor_db faults = (open_conn (empty_tables\<lparr>st_sensors := [demo_sensor_row]\<rparr>))\<lparr>db_fault := (\<lambda>n. n \<in> faults)\<rparr>"

definition add_all :: "CalibrationRow list \<Rightarrow> scene_db \<Rightarrow> scene_db" where
  "add_all rows d = fold (\<lambda>row d. snd (AddCalibration row d)) rows d"

text \<open>Two windows that meet, then one whose COMMIT fails.\<close>

definition two_windows :: scene_db where
  "two_windows = add_all [demo_calibration 3 0 (Some 10), demo_calibration 4 10 None] (sensor_db {25})"

lemma AddCalibration_windows_witness:
  "calib_ok (st_calibrations (committed (snd (AddCalibration (demo_calibration 5 (-10) (Some 0)) two_windows))))
   \<and> committed (snd (AddCalibration (demo_calibration 5 (-10) (Some 0)) two_windows)) = committed two_windows
   \<and> length (st_calibrations (committed two_windows)) = 2"
proof -
  obtain r d' where run: "AddCalibration (demo_calibration 5 (-10) (Some 0)) two_windows = (r, d')" by fastforce
  have "isl (fst (AddCalibration (demo_calibration 5 (-10) (Some 0)) two_windows))" by code_simp
  with run obtain e where e: "r = Inl e" by (auto simp: isl_def)
  have "calib_ok (st_calibrations (committed two_windows))" "\<not> db_fault two_windows (db_tick two_windows + 2)"
    by code_simp+
  from AddCalibration_windows [OF this run] e have
    "calib_ok (st_calibrations (committed d'))" "committed d' = committed two_windows" by auto
  moreover have "length (st_calibrations (committed two_windows)) = 2" by code_simp
  ultimately show ?thesis using run by simp
qed

lemma AddCalibration_versions_witness:
  "versions_of demo_sensor (st_calibrations (committed two_windows)) = [1, 2] \<and>
   versions_ok (st_calibrations (committed two_windows))"
proof -
  let ?d = "add_all [demo_calibration 3 0 (Some 10)] (sensor_db {25})"
  obtain r d' where run: "AddCalibration (demo_calibration 4 10 None) ?d = (r, d')" by fastforce
  have "\<not> isl (fst (AddCalibration (demo_calibration 4 10 None) ?d))" by code_simp
  with run obtain u where u: "r = Inr u" by (cases r) auto
  have two: "two_windows = d'" using run by (simp add: two_windows_def add_all_def)
  have ok: "versions_ok (st_calibrations (committed ?d))" by code_simp
  have "\<not> db_fault ?d (db_tick ?d + 4)" by code_simp
  with AddCalibration_versions [OF ok run [unfolded u]] two have "versions_ok (st_calibrations (committed two_windows))"
    by blast
  moreover have "versions_of demo_sensor (st_calibrations (committed two_windows)) = [1, 2]" by code_simp
  ultimately show ?thesis by blast
qed

lemma ResolveCalibrationAt_exact_witness:
  "map_option ca_calibration_id (case fst (ResolveCalibrationAt demo_sensor 10 two_windows) of Inl e \<Rightarrow> None | Inr x \<Rightarrow> x)
     = Some (replicate 16 4)"
proof -
  obtain r d' where run: "ResolveCalibrationAt demo_sensor 10 two_windows = (r, d')" by fastforce
  have "\<not> isl (fst (ResolveCalibrationAt demo_sensor 10 two_windows))" by code_simp
  with run obtain x where x: "r = Inr x" by (cases r) auto
  have ok: "calib_ok (st_calibrations (tx_tables two_windows))" "(10::int) < kInf"
    "\<not> db_fault two_windows (Suc (db_tick two_windows))" by code_simp+
  have c: "(demo_calibration 4 10 None)\<lparr>ca_version := 2\<rparr> \<in> set (st_calibrations (tx_tables two_windows))
    \<and> valid_at demo_sensor 10 ((demo_calibration 4 10 None)\<lparr>ca_version := 2\<rparr>)" by code_simp
  from ResolveCalibrationAt_exact [OF ok run [unfolded x]] c
  have "x = Some ((demo_calibration 4 10 None)\<lparr>ca_version := 2\<rparr>)" by blast
  with run x show ?thesis by (simp add: demo_calibration_def)
qed

text \<open>
  INT64_MAX stands both for an open end and for the last timestamp, so that a window that starts
  there is accepted beside an open one and both are valid then; and an overlap query whose step fails
  lets overlapping windows in anywhere.
\<close>

theorem AddCalibration_overlap_holes:
  "length (filter (valid_at demo_sensor kInf) (st_calibrations (committed
      (add_all [demo_calibration 3 0 None, demo_calibration 4 kInf None] (sensor_db {}))))) = 2 \<and>
   length (filter (valid_at demo_sensor 5) (st_calibrations (committed
      (add_all [demo_calibration 3 0 None, demo_calibration 4 0 None] (sensor_db {}))))) = 1 \<and>
   length (filter (valid_at demo_sensor 5) (st_calibrations (committed
      (add_all [demo_calibration 3 0 None, demo_calibration 4 0 None] (sensor_db {12}))))) = 2"
  by code_simp

end
