(* ===== verification/SceneVersions.thy ===== *)
theory SceneVersions
  imports SceneTables
begin

text \<open>
  Scenes and their versions: \<open>FindSceneByProject\<close>, \<open>FindOrCreateScene\<close>, \<open>CreateSceneVersion\<close> and the
  version queries of core/storage/metadata_db.cpp. The lemmas show that the versions of a scene form
  one chain of parents that ends at the scene's current version, whatever call fails.
\<close>

section \<open>Operations\<close>

definition scene_row :: "scene_cols \<Rightarrow> SceneRow" where
  "scene_row c = \<lparr>sr_scene_id = sn_scene_id c, sr_schema_version = 1, sr_project_id = sn_project_id c,
     sr_name = sn_name c, sr_version_id = sn_current_version_id c, sr_parent_version_id = nil_uuid,
     sr_stage = ''created'', sr_created_by_json = [], sr_created_at_ns = 0, sr_origin_frame = sn_origin_frame c,
     sr_crs = sn_crs c, sr_status = sn_status c, sr_properties_json = sn_properties_json c\<rparr>"

definition open_scene :: "uuid \<Rightarrow> scene_tables \<Rightarrow> SceneRow option" where
  "open_scene project_id t =
     map_option scene_row (List.find (\<lambda>c. sn_project_id c = project_id \<and> sn_status c = ''open'') (st_scenes t))"

definition FindSceneByProject :: "uuid \<Rightarrow> SceneRow option scene_op" where
  "FindSceneByProject project_id = query_one ''cannot prepare find scene by project'' (open_scene project_id)"

definition insert_scene :: "scene_cols \<Rightarrow> scene_tables \<Rightarrow> scene_tables option" where
  "insert_scene row t =
     (if has_project (sn_project_id row) t
      then map_option (\<lambda>rows. t\<lparr>st_scenes := rows\<rparr>) (tbl_insert sn_scene_id row (st_scenes t))
      else None)"

definition insert_version :: "SceneVersionRow \<Rightarrow> scene_tables \<Rightarrow> scene_tables option" where
  "insert_version row t =
     (if has_scene (sv_scene_id row) t
      then map_option (\<lambda>rows. t\<lparr>st_scene_versions := rows\<rparr>) (tbl_insert sv_version_id row (st_scene_versions t))
      else None)"

definition new_scene :: "uuid \<Rightarrow> uuid \<Rightarrow> uuid \<Rightarrow> string \<Rightarrow> scene_cols" where
  "new_scene scene_id version_id project_id name = \<lparr>sn_scene_id = scene_id, sn_project_id = project_id,
     sn_schema_version = 1, sn_name = name, sn_current_version_id = version_id, sn_origin_frame = [], sn_crs = [],
     sn_status = ''open'', sn_properties_json = []\<rparr>"

definition new_version :: "uuid \<Rightarrow> uuid \<Rightarrow> uuid \<Rightarrow> string \<Rightarrow> string \<Rightarrow> int \<Rightarrow> SceneVersionRow" where
  "new_version version_id scene_id parent stage created_by created_at = \<lparr>sv_version_id = version_id, sv_scene_id = scene_id,
     sv_parent_version_id = parent, sv_stage = stage, sv_created_by_json = created_by, sv_created_at_ns = created_at,
     sv_status = ''active''\<rparr>"

text \<open>\<open>r1\<close> and \<open>r2\<close> are the random bytes of the two generated ids.\<close>

definition create_scene_body ::
  "byte list \<Rightarrow> byte list \<Rightarrow> uuid \<Rightarrow> string \<Rightarrow> string \<Rightarrow> int \<Rightarrow> SceneRow scene_op" where
  "create_scene_body r1 r2 project_id name created_by created_at =
     (let scene_id = GenerateUuid r1; version_id = GenerateUuid r2;
          row = new_scene scene_id version_id project_id name in
      sbind (statement ''cannot prepare insert scene'' ''cannot insert scene row'' (insert_scene row)) (\<lambda>_.
      sbind (statement ''cannot prepare insert scene version'' ''cannot insert scene version row''
          (insert_version (new_version version_id scene_id nil_uuid ''created'' created_by created_at))) (\<lambda>_.
        sret ((scene_row row)\<lparr>sr_created_by_json := created_by, sr_created_at_ns := created_at\<rparr>))))"

definition FindOrCreateScene ::
  "byte list \<Rightarrow> byte list \<Rightarrow> uuid \<Rightarrow> string \<Rightarrow> string \<Rightarrow> int \<Rightarrow> SceneRow scene_op" where
  "FindOrCreateScene r1 r2 project_id name created_by created_at =
     write_op (sbind (query_one ''cannot prepare find scene'' (open_scene project_id)) (\<lambda>found.
       case found of
         Some row \<Rightarrow> sret row
       | None \<Rightarrow> transaction ''create scene'' (create_scene_body r1 r2 project_id name created_by created_at)))"

definition advance_scene :: "uuid \<Rightarrow> uuid \<Rightarrow> scene_tables \<Rightarrow> scene_tables option" where
  "advance_scene scene_id version_id t =
     Some (t\<lparr>st_scenes := map (\<lambda>c. if sn_scene_id c = scene_id then c\<lparr>sn_current_version_id := version_id\<rparr> else c)
       (st_scenes t)\<rparr>)"

text \<open>A missing scene, a NULL version and a failed step all read as the nil parent.\<close>

definition create_version_body :: "byte list \<Rightarrow> uuid \<Rightarrow> string \<Rightarrow> string \<Rightarrow> int \<Rightarrow> SceneVersionRow scene_op" where
  "create_version_body random scene_id stage created_by created_at =
     sbind (query_one ''cannot prepare read current scene version''
         (\<lambda>t. map_option sn_current_version_id (tbl_get sn_scene_id scene_id (st_scenes t)))) (\<lambda>found.
       let parent = ColumnUuid found in
       if IsNil parent then sthrow (schema_error (''scene has no current version: '' @ FormatUuid scene_id))
       else
         let row = new_version (GenerateUuid random) scene_id parent stage created_by created_at in
         sbind (statement ''cannot prepare insert scene version'' ''cannot insert scene version row'' (insert_version row)) (\<lambda>_.
         sbind (statement ''cannot prepare advance scene version'' ''cannot advance scene version''
             (advance_scene scene_id (GenerateUuid random))) (\<lambda>_.
           sret row)))"

definition CreateSceneVersion :: "byte list \<Rightarrow> uuid \<Rightarrow> string \<Rightarrow> string \<Rightarrow> int \<Rightarrow> SceneVersionRow scene_op" where
  "CreateSceneVersion random scene_id stage created_by created_at =
     write_op (transaction ''create scene version'' (create_version_body random scene_id stage created_by created_at))"

definition FindSceneVersion :: "uuid \<Rightarrow> SceneVersionRow option scene_op" where
  "FindSceneVersion version_id =
     query_one ''cannot prepare find scene version'' (\<lambda>t. tbl_get sv_version_id version_id (st_scene_versions t))"

definition scene_versions :: "uuid \<Rightarrow> scene_tables \<Rightarrow> SceneVersionRow list" where
  "scene_versions scene_id t = filter (\<lambda>v. sv_scene_id v = scene_id) (st_scene_versions t)"

definition FindSceneVersionsByScene :: "uuid \<Rightarrow> SceneVersionRow list scene_op" where
  "FindSceneVersionsByScene scene_id =
     query_rows ''cannot prepare find scene versions'' (\<lambda>t. sort_key sv_created_at_ns (scene_versions scene_id t))"

section \<open>The chain of versions\<close>

text \<open>Each version's parent is the one before it; \<open>tip\<close> is where the chain ends.\<close>

fun chain :: "uuid \<Rightarrow> SceneVersionRow list \<Rightarrow> bool" where
  "chain parent [] \<longleftrightarrow> True"
| "chain parent (v # vs) \<longleftrightarrow> sv_parent_version_id v = parent \<and> chain (sv_version_id v) vs"

fun tip :: "uuid \<Rightarrow> SceneVersionRow list \<Rightarrow> uuid" where
  "tip parent [] = parent"
| "tip parent (v # vs) = tip (sv_version_id v) vs"

definition history_ok :: "scene_tables \<Rightarrow> bool" where
  "history_ok t \<longleftrightarrow> distinct (map sn_scene_id (st_scenes t)) \<and> distinct (map sv_version_id (st_scene_versions t)) \<and>
     (\<forall>v\<in>set (st_scene_versions t). has_scene (sv_scene_id v) t) \<and>
     (\<forall>c\<in>set (st_scenes t). chain nil_uuid (scene_versions (sn_scene_id c) t) \<and>
        scene_versions (sn_scene_id c) t \<noteq> [] \<and> sn_current_version_id c = tip nil_uuid (scene_versions (sn_scene_id c) t))"

lemma chain_append: "chain p (vs @ ws) \<longleftrightarrow> chain p vs \<and> chain (tip p vs) ws"
  by (induction vs arbitrary: p) auto

lemma tip_append: "tip p (vs @ ws) = tip (tip p vs) ws"
  by (induction vs arbitrary: p) auto

lemma insert_scene_Some:
  "insert_scene row t = Some t' \<Longrightarrow> sn_scene_id row \<notin> sn_scene_id ` set (st_scenes t)
     \<and> st_scenes t' = st_scenes t @ [row] \<and> st_scene_versions t' = st_scene_versions t \<and> has_project (sn_project_id row) t"
  by (auto simp: insert_scene_def tbl_insert_def split: if_splits)

lemma insert_version_Some:
  "insert_version row t = Some t' \<Longrightarrow> sv_version_id row \<notin> sv_version_id ` set (st_scene_versions t)
     \<and> st_scene_versions t' = st_scene_versions t @ [row] \<and> st_scenes t' = st_scenes t"
  by (auto simp: insert_version_def tbl_insert_def split: if_splits)

lemma inside_create_scene: "inside (create_scene_body r1 r2 p n b a)"
  unfolding create_scene_body_def Let_def by (intro inside_intros)

lemma inside_create_version: "inside (create_version_body r s g b a)"
  unfolding create_version_body_def Let_def by (intro inside_intros)

lemma create_scene_body_Inr:
  assumes "create_scene_body r1 r2 project_id name created_by created_at d = (Inr x, d')"
  defines "scene \<equiv> new_scene (GenerateUuid r1) (GenerateUuid r2) project_id name"
  shows "sn_scene_id scene \<notin> sn_scene_id ` set (st_scenes (tx_tables d))
    \<and> GenerateUuid r2 \<notin> sv_version_id ` set (st_scene_versions (tx_tables d))
    \<and> st_scenes (tx_tables d') = st_scenes (tx_tables d) @ [scene]
    \<and> st_scene_versions (tx_tables d') = st_scene_versions (tx_tables d)
        @ [new_version (GenerateUuid r2) (GenerateUuid r1) nil_uuid ''created'' created_by created_at]
    \<and> x = (scene_row scene)\<lparr>sr_created_by_json := created_by, sr_created_at_ns := created_at\<rparr>"
proof -
  from assms(1) obtain d1 where
    a: "statement ''cannot prepare insert scene'' ''cannot insert scene row'' (insert_scene scene) d = (Inr (), d1)"
    and b: "statement ''cannot prepare insert scene version'' ''cannot insert scene version row''
          (insert_version (new_version (GenerateUuid r2) (GenerateUuid r1) nil_uuid ''created'' created_by created_at)) d1
          = (Inr (), d')"
    and x: "x = (scene_row scene)\<lparr>sr_created_by_json := created_by, sr_created_at_ns := created_at\<rparr>"
    by (auto simp: create_scene_body_def Let_def scene_def sret_def dest!: sbind_InrD)
  from statement_Inr [OF a] statement_Inr [OF b] x show ?thesis
    by (auto dest!: insert_scene_Some insert_version_Some simp: new_version_def)
qed

lemma history_new_scene:
  assumes ok: "history_ok t"
    and scene: "sn_scene_id c \<notin> sn_scene_id ` set (st_scenes t)" "sv_version_id v \<notin> sv_version_id ` set (st_scene_versions t)"
    and v: "sv_scene_id v = sn_scene_id c" "sv_parent_version_id v = nil_uuid" "sn_current_version_id c = sv_version_id v"
    and t': "st_scenes t' = st_scenes t @ [c]" "st_scene_versions t' = st_scene_versions t @ [v]"
  shows "history_ok t'"
proof -
  have none: "scene_versions (sn_scene_id c) t = []"
    unfolding scene_versions_def filter_empty_conv
    using ok scene(1) by (metis (no_types, lifting) has_scene_def history_ok_def)
  have other: "scene_versions s t' = scene_versions s t" if "s \<in> sn_scene_id ` set (st_scenes t)" for s
    using that t'(2) v(1) scene(1) by (auto simp: scene_versions_def)
  have own: "scene_versions (sn_scene_id c) t' = [v]"
    using none t'(2) v(1) by (simp add: scene_versions_def)
  show ?thesis
    using ok scene v t' other own by (auto simp: history_ok_def has_scene_def)
qed

lemma history_new_version:
  assumes ok: "history_ok t" and c: "c \<in> set (st_scenes t)"
    and v: "sv_version_id v \<notin> sv_version_id ` set (st_scene_versions t)" "sv_scene_id v = sn_scene_id c"
      "sv_parent_version_id v = sn_current_version_id c"
    and t': "st_scene_versions t' = st_scene_versions t @ [v]"
      "st_scenes t' = map (\<lambda>x. if sn_scene_id x = sn_scene_id c then x\<lparr>sn_current_version_id := sv_version_id v\<rparr> else x) (st_scenes t)"
  shows "history_ok t'"
proof -
  have ids: "map sn_scene_id (st_scenes t') = map sn_scene_id (st_scenes t)"
    by (simp add: t'(2))
  then have set_ids: "sn_scene_id ` set (st_scenes t') = sn_scene_id ` set (st_scenes t)" by (metis list.set_map)
  have vs: "scene_versions s t' = scene_versions s t @ (if s = sn_scene_id c then [v] else [])" for s
    by (simp add: scene_versions_def t'(1) v(2))
  {
    fix x' assume "x' \<in> set (st_scenes t')"
    then obtain x where x: "x \<in> set (st_scenes t)"
      and x': "x' = (if sn_scene_id x = sn_scene_id c then x\<lparr>sn_current_version_id := sv_version_id v\<rparr> else x)"
      by (auto simp: t'(2))
    have same: "x = c" if "sn_scene_id x = sn_scene_id c"
      using that ok x c by (auto simp: history_ok_def distinct_map inj_on_def)
    have "chain nil_uuid (scene_versions (sn_scene_id x') t') \<and> scene_versions (sn_scene_id x') t' \<noteq> []
      \<and> sn_current_version_id x' = tip nil_uuid (scene_versions (sn_scene_id x') t')"
      using ok x x' same v(3) by (auto simp: vs history_ok_def chain_append tip_append)
  }
  then show ?thesis
    using ok v c by (auto simp: history_ok_def has_scene_def ids set_ids t'(1))
qed

lemma create_version_body_Inr:
  assumes "create_version_body random scene_id stage created_by created_at d = (Inr x, d')" "history_ok (tx_tables d)"
  shows "history_ok (tx_tables d') \<and> sv_version_id x = GenerateUuid random \<and> \<not> IsNil (sv_parent_version_id x)
    \<and> scene_versions scene_id (tx_tables d') = scene_versions scene_id (tx_tables d) @ [x]"
proof -
  from sbind_InrD [OF assms(1) [unfolded create_version_body_def]] obtain found d1 where
    q: "query_one ''cannot prepare read current scene version''
          (\<lambda>t. map_option sn_current_version_id (tbl_get sn_scene_id scene_id (st_scenes t))) d = (Inr found, d1)"
    and not_nil: "\<not> IsNil (ColumnUuid found)"
    and rest: "sbind (statement ''cannot prepare insert scene version'' ''cannot insert scene version row''
          (insert_version (new_version (GenerateUuid random) scene_id (ColumnUuid found) stage created_by created_at))) (\<lambda>_.
         sbind (statement ''cannot prepare advance scene version'' ''cannot advance scene version''
             (advance_scene scene_id (GenerateUuid random))) (\<lambda>_.
           sret (new_version (GenerateUuid random) scene_id (ColumnUuid found) stage created_by created_at))) d1 = (Inr x, d')"
    by (auto simp: Let_def sthrow_def split: if_splits)
  let ?row = "new_version (GenerateUuid random) scene_id (ColumnUuid found) stage created_by created_at"
  from rest obtain d2 where
    a: "statement ''cannot prepare insert scene version'' ''cannot insert scene version row'' (insert_version ?row) d1 = (Inr (), d2)"
    and b: "statement ''cannot prepare advance scene version'' ''cannot advance scene version''
             (advance_scene scene_id (GenerateUuid random)) d2 = (Inr (), d')"
    and x: "x = ?row" by (auto simp: sret_def dest!: sbind_InrD)
  from query_one_Inr [OF q] have d1: "tx_tables d1 = tx_tables d" by simp
  have "found \<noteq> None"
  proof
    assume "found = None"
    with not_nil show False by (simp add: ColumnUuid_def IsNil_def nil_uuid_def list_all_iff)
  qed
  with query_one_Inr [OF q] obtain c where get: "tbl_get sn_scene_id scene_id (st_scenes (tx_tables d)) = Some c"
    "found = Some (sn_current_version_id c)"
    by (auto split: if_splits)
  from tbl_get_Some [OF get(1)] get(2) have c: "c \<in> set (st_scenes (tx_tables d))" "sn_scene_id c = scene_id"
    "ColumnUuid found = sn_current_version_id c"
    by (simp_all add: ColumnUuid_def)
  from statement_Inr [OF a] d1 have "insert_version ?row (tx_tables d) = Some (tx_tables d2)" by simp
  from insert_version_Some [OF this] have ins:
    "GenerateUuid random \<notin> sv_version_id ` set (st_scene_versions (tx_tables d))"
    "st_scene_versions (tx_tables d2) = st_scene_versions (tx_tables d) @ [?row]" "st_scenes (tx_tables d2) = st_scenes (tx_tables d)"
    by (auto simp: new_version_def)
  from statement_Inr [OF b] have "tx_tables d' = the (advance_scene scene_id (GenerateUuid random) (tx_tables d2))" by simp
  with ins have t': "st_scene_versions (tx_tables d') = st_scene_versions (tx_tables d) @ [?row]"
    "st_scenes (tx_tables d') = map (\<lambda>x. if sn_scene_id x = sn_scene_id c then x\<lparr>sn_current_version_id := sv_version_id ?row\<rparr> else x)
       (st_scenes (tx_tables d))"
    by (simp_all add: advance_scene_def new_version_def c(2))
  have "history_ok (tx_tables d')"
    using assms(2) c(1) _ _ _ t'
    by (rule history_new_version) (use ins c in \<open>simp_all add: new_version_def\<close>)
  with t' x not_nil show ?thesis by (simp add: scene_versions_def new_version_def)
qed

lemma CreateSceneVersion_history:
  assumes "history_ok (committed d)" "CreateSceneVersion r s g b a d = (res, d')"
  shows "history_ok (committed d')"
proof (cases "db_read_only d")
  case False
  with assms(2) have "transaction ''create scene version'' (create_version_body r s g b a) d = (res, d')"
    by (simp add: CreateSceneVersion_def write_op_def)
  with inside_create_version assms(1) show ?thesis
    by (rule transaction_keeps) (blast dest: create_version_body_Inr)
qed (use assms in \<open>simp add: CreateSceneVersion_def write_op_def\<close>)

lemma create_scene_history:
  assumes "create_scene_body r1 r2 p n b a d = (Inr x, d')" "history_ok (tx_tables d)"
  shows "history_ok (tx_tables d')"
  using create_scene_body_Inr [OF assms(1)] history_new_scene [OF assms(2),
      of "new_scene (GenerateUuid r1) (GenerateUuid r2) p n" "new_version (GenerateUuid r2) (GenerateUuid r1) nil_uuid ''created'' b a"]
  by (simp add: new_scene_def new_version_def)

lemma FindOrCreateScene_runs:
  assumes "FindOrCreateScene r1 r2 p n b a d = (r, d')"
  obtains (failed) e where "r = Inl e" "committed d' = committed d"
  | (found) row where "r = Inr row" "open_scene p (tx_tables d) = Some row" "tx_tables d' = tx_tables d"
      "tx_saved d' = tx_saved d"
  | (create) d1 where "transaction ''create scene'' (create_scene_body r1 r2 p n b a) d1 = (r, d')"
      "tx_tables d1 = tx_tables d" "tx_saved d1 = tx_saved d"
      "\<not> db_fault d (Suc (db_tick d)) \<Longrightarrow> open_scene p (tx_tables d) = None"
proof (cases "db_read_only d")
  case True
  with assms have "r = Inl read_only_error" "d' = d" by (simp_all add: FindOrCreateScene_def write_op_def)
  with failed show thesis by blast
next
  case False
  obtain q d1 where q: "query_one ''cannot prepare find scene'' (open_scene p) d = (q, d1)" by fastforce
  show thesis
  proof (cases q)
    case (Inl e)
    with False q assms have "r = Inl e" "d' = d1" by (simp_all add: FindOrCreateScene_def write_op_def sx_simps)
    moreover from query_one_Inl [OF q [unfolded Inl]] have "committed d1 = committed d"
      by (auto simp: same_mode_def intro: committed_cong)
    ultimately show thesis using failed by blast
  next
    case (Inr x)
    from query_one_Inr [OF q [unfolded Inr]] have d1: "tx_tables d1 = tx_tables d" "tx_saved d1 = tx_saved d"
      "x = (if db_fault d (Suc (db_tick d)) then None else open_scene p (tx_tables d))"
      by (auto simp: same_mode_def)
    show thesis
    proof (cases x)
      case None
      with False q Inr assms d1 create show thesis
        by (auto simp: FindOrCreateScene_def write_op_def sx_simps split: if_splits)
    next
      case (Some row)
      with False q Inr assms have "r = Inr row" "d' = d1" by (simp_all add: FindOrCreateScene_def write_op_def sx_simps)
      moreover from d1(3) Some have "open_scene p (tx_tables d) = Some row" by (simp split: if_splits)
      ultimately show thesis using d1 found by blast
    qed
  qed
qed

lemma FindOrCreateScene_history:
  assumes "history_ok (committed d)" "FindOrCreateScene r1 r2 p n b a d = (r, d')"
  shows "history_ok (committed d')"
  using assms(2)
proof (cases rule: FindOrCreateScene_runs)
  case (found row)
  with assms(1) committed_cong [of d' d] show ?thesis by simp
next
  case (create d1)
  from committed_cong [OF create(2,3)] assms(1) have "history_ok (committed d1)" by simp
  with inside_create_scene show ?thesis using create(1)
    by (rule transaction_keeps) (blast dest: create_scene_history)
qed (use assms(1) in simp)

text \<open>The calls that write scenes and versions, in any order.\<close>

datatype scene_call =
  Call_FindOrCreate "byte list" "byte list" uuid string string int
  | Call_CreateVersion "byte list" uuid string string int

fun scene_call_step :: "scene_call \<Rightarrow> scene_db \<Rightarrow> scene_db" where
  "scene_call_step (Call_FindOrCreate r1 r2 p n b a) d = snd (FindOrCreateScene r1 r2 p n b a d)"
| "scene_call_step (Call_CreateVersion r s g b a) d = snd (CreateSceneVersion r s g b a d)"

text \<open>
  C17: whatever sequence of calls creates scenes and versions, and whichever of their statements fail, on
  disk the versions of each scene form one unbroken chain of parents from a first version without
  parent to the scene's current version.
\<close>

theorem scene_history_chain:
  "history_ok (committed d) \<longrightarrow> history_ok (committed (fold scene_call_step calls d))"
proof (induction calls arbitrary: d)
  case (Cons call calls)
  have "history_ok (committed d) \<longrightarrow> history_ok (committed (scene_call_step call d))"
    using FindOrCreateScene_history [OF _ surjective_pairing] CreateSceneVersion_history [OF _ surjective_pairing]
    by (cases call) auto
  with Cons show ?case by simp
qed simp

text \<open>
  A scene created, and two versions, of which the second one's COMMIT fails.
\<close>

definition demo_project :: uuid where
  "demo_project = replicate 16 1"

definition project_db :: "nat set \<Rightarrow> scene_db" where
  "project_db faults = (open_conn (empty_tables\<lparr>st_projects := [\<lparr>pj_project_id = demo_project, pj_name = ''p'',
     pj_schema_version = 1, pj_created_by_json = [], pj_created_at_ns = 0, pj_default_crs = [], pj_root_frame = [],
     pj_flags_json = [], pj_properties_json = []\<rparr>]\<rparr>))\<lparr>db_fault := (\<lambda>n. n \<in> faults)\<rparr>"

definition demo_calls :: "scene_call list" where
  "demo_calls = [Call_FindOrCreate (replicate 16 7) (replicate 16 8) demo_project ''s'' [] 0,
     Call_CreateVersion (replicate 16 9) (GenerateUuid (replicate 16 7)) ''aligned'' [] 1,
     Call_CreateVersion (replicate 16 10) (GenerateUuid (replicate 16 7)) ''dense'' [] 2]"

lemma scene_history_chain_witness:
  "history_ok (committed (fold scene_call_step demo_calls (project_db {23}))) \<and>
   map sv_version_id (st_scene_versions (committed (fold scene_call_step demo_calls (project_db {23}))))
     = [GenerateUuid (replicate 16 8), GenerateUuid (replicate 16 9)]"
proof -
  have "history_ok (committed (project_db {23}))" by code_simp
  with scene_history_chain have "history_ok (committed (fold scene_call_step demo_calls (project_db {23})))" by blast
  moreover have "map sv_version_id (st_scene_versions (committed (fold scene_call_step demo_calls (project_db {23}))))
     = [GenerateUuid (replicate 16 8), GenerateUuid (replicate 16 9)]" by code_simp
  ultimately show ?thesis by blast
qed

section \<open>One open scene per project\<close>

definition open_scenes :: "uuid \<Rightarrow> scene_tables \<Rightarrow> scene_cols list" where
  "open_scenes project_id t = filter (\<lambda>c. sn_project_id c = project_id \<and> sn_status c = ''open'') (st_scenes t)"

lemma open_scene_open_scenes: "open_scene p t = (case open_scenes p t of [] \<Rightarrow> None | c # _ \<Rightarrow> Some (scene_row c))"
proof -
  have "List.find P xs = (case filter P xs of [] \<Rightarrow> None | c # _ \<Rightarrow> Some c)" for P :: "scene_cols \<Rightarrow> bool" and xs
    by (induction xs) auto
  then show ?thesis by (auto simp: open_scene_def open_scenes_def split: list.split)
qed

text \<open>
  Asking for a project's scene returns its open scene, and creates one exactly when there is none,
  provided the step of the query answers: there is then one more open scene only if there was none,
  other projects are untouched, and the returned scene is what the next query finds.
\<close>

theorem FindOrCreateScene_once:
  assumes "tx_saved d = None" "\<not> db_fault d (Suc (db_tick d))"
    "FindOrCreateScene r1 r2 p name created_by created_at d = (Inr row, d')"
  shows "length (open_scenes p (tx_tables d')) = max 1 (length (open_scenes p (tx_tables d))) \<and>
    (\<forall>q. q \<noteq> p \<longrightarrow> open_scenes q (tx_tables d') = open_scenes q (tx_tables d)) \<and>
    map_option sr_scene_id (open_scene p (tx_tables d')) = Some (sr_scene_id row) \<and>
    (open_scenes p (tx_tables d) \<noteq> [] \<longrightarrow> tx_tables d' = tx_tables d)"
  using assms(3)
proof (cases rule: FindOrCreateScene_runs)
  case (found row')
  then have "open_scenes p (tx_tables d) \<noteq> []" by (auto simp: open_scene_open_scenes)
  with found show ?thesis by (cases "open_scenes p (tx_tables d)") auto
next
  case (create d1)
  from create(4) [OF assms(2)] have none: "open_scenes p (tx_tables d) = []"
    by (auto simp: open_scene_open_scenes split: list.splits)
  from transaction_returns [OF inside_create_scene create(1)] obtain d2 d3 where
    body: "create_scene_body r1 r2 p name created_by created_at d2 = (Inr row, d3)"
    and t: "tx_tables d2 = tx_tables d1" "tx_tables d' = tx_tables d3" by auto
  let ?scene = "new_scene (GenerateUuid r1) (GenerateUuid r2) p name"
  from create_scene_body_Inr [OF body] t create(2) have
    "st_scenes (tx_tables d') = st_scenes (tx_tables d) @ [?scene]" "sr_scene_id row = GenerateUuid r1"
    by (simp_all add: scene_row_def new_scene_def)
  with none show ?thesis
    by (auto simp: open_scene_open_scenes open_scenes_def new_scene_def scene_row_def)
qed simp

lemma FindOrCreateScene_once_witness:
  "length (open_scenes demo_project (tx_tables (scene_call_step (demo_calls ! 0) (project_db {})))) = 1 \<and>
   length (open_scenes demo_project (tx_tables (fold scene_call_step
     [demo_calls ! 0, Call_FindOrCreate (replicate 16 11) (replicate 16 12) demo_project ''s'' [] 0] (project_db {9})))) = 2"
proof -
  let ?run = "FindOrCreateScene (replicate 16 7) (replicate 16 8) demo_project ''s'' [] 0 (project_db {})"
  have "\<not> isl (fst ?run)" by code_simp
  then obtain row d' where run: "?run = (Inr row, d')" by (metis isl_def old.sum.exhaust prod.collapse)
  have "tx_saved (project_db {}) = None" "\<not> db_fault (project_db {}) (Suc (db_tick (project_db {})))" by code_simp+
  from FindOrCreateScene_once [OF this run] have
    "length (open_scenes demo_project (tx_tables d')) = max 1 (length (open_scenes demo_project (tx_tables (project_db {}))))"
    by blast
  moreover have "open_scenes demo_project (tx_tables (project_db {})) = []" by code_simp
  moreover have "d' = scene_call_step (demo_calls ! 0) (project_db {})" using run by (simp add: demo_calls_def)
  moreover have "length (open_scenes demo_project (tx_tables (fold scene_call_step
     [demo_calls ! 0, Call_FindOrCreate (replicate 16 11) (replicate 16 12) demo_project ''s'' [] 0] (project_db {9})))) = 2"
    by code_simp
  ultimately show ?thesis by simp
qed

end
