(* ===== verification/ImageFormat.thy ===== *)
theory ImageFormat
  imports Prelude
begin

text \<open>
  importers/images/image_format.cpp: the format of an image file from its first bytes, and width,
  height and pixel layout from its header. Every access to the buffer goes through \<open>byte_at\<close> or
  \<open>bytes_at\<close>, which fault outside of it, so that a result shows that no read leaves the buffer. \<open>size_t\<close> is
  \<open>nat\<close>: every sum is below \<open>2^35\<close>, since offsets in the file have 32 bits.
\<close>

section \<open>Data and bounds-checked readers\<close>

datatype ImageFormat = kFmtUnknown | kJpeg | kPng | kTiff | kExr | kRaw

record ImageHeaderInfo =
  ih_format :: ImageFormat
  ih_width :: int
  ih_height :: int
  ih_pixel_format :: string
  ih_mime_type :: string

datatype read_fault = OutOfBounds

type_synonym 'a rd = "read_fault + 'a"

definition byte_at :: "byte list \<Rightarrow> nat \<Rightarrow> byte rd" where
  "byte_at data i = (if i < length data then Inr (data ! i) else Inl OutOfBounds)"

definition bytes_at :: "byte list \<Rightarrow> nat \<Rightarrow> nat \<Rightarrow> byte list rd" where
  "bytes_at data off n = (if off + n \<le> length data then Inr (take n (drop off data)) else Inl OutOfBounds)"

text \<open>\<open>if (!x.has_value()) return std::nullopt\<close>.\<close>

definition need :: "'a option rd \<Rightarrow> ('a \<Rightarrow> 'b option rd) \<Rightarrow> 'b option rd" where
  "need m f = rbind m (\<lambda>x. case x of None \<Rightarrow> Inr None | Some v \<Rightarrow> f v)"

lemma need_cong [fundef_cong]:
  "m = m' \<Longrightarrow> (\<And>x. m' = Inr (Some x) \<Longrightarrow> f x = f' x) \<Longrightarrow> need m f = need m' f'"
  by (cases m') (auto simp: need_def split: option.split)

lemma need_Some: "need m f = Inr (Some y) \<longleftrightarrow> (\<exists>x. m = Inr (Some x) \<and> f x = Inr (Some y))"
  by (cases m) (auto simp: need_def split: option.split)

definition join16 :: "byte \<Rightarrow> byte \<Rightarrow> u16" where
  "join16 hi lo = ucast lo OR push_bit 8 (ucast hi)"

definition join32 :: "byte \<Rightarrow> byte \<Rightarrow> byte \<Rightarrow> byte \<Rightarrow> u32" where
  "join32 b3 b2 b1 b0 = ucast b0 OR push_bit 8 (ucast b1) OR push_bit 16 (ucast b2) OR push_bit 24 (ucast b3)"

definition ReadU16 :: "byte list \<Rightarrow> nat \<Rightarrow> nat \<Rightarrow> bool \<Rightarrow> u16 option rd" where
  "ReadU16 data sz off little =
     (if off > sz \<or> sz - off < 2 then Inr None
      else rbind (byte_at data off) (\<lambda>a. rbind (byte_at data (off + 1)) (\<lambda>b.
        Inr (Some (if little then join16 b a else join16 a b)))))"

definition ReadU32 :: "byte list \<Rightarrow> nat \<Rightarrow> nat \<Rightarrow> bool \<Rightarrow> u32 option rd" where
  "ReadU32 data sz off little =
     (if off > sz \<or> sz - off < 4 then Inr None
      else rbind (byte_at data off) (\<lambda>a. rbind (byte_at data (off + 1)) (\<lambda>b.
           rbind (byte_at data (off + 2)) (\<lambda>c. rbind (byte_at data (off + 3)) (\<lambda>d.
        Inr (Some (if little then join32 d c b a else join32 a b c d)))))))"

section \<open>Format detection\<close>

text \<open>\<open>&&\<close> stops at the first byte that differs.\<close>

fun match_bytes :: "byte list \<Rightarrow> nat \<Rightarrow> byte list \<Rightarrow> bool rd" where
  "match_bytes data off [] = Inr True"
| "match_bytes data off (m # ms) = rbind (byte_at data off) (\<lambda>b.
     if b = m then match_bytes data (Suc off) ms else Inr False)"

definition IsJpeg :: "byte list \<Rightarrow> nat \<Rightarrow> bool rd" where
  "IsJpeg data sz = (if sz \<ge> 3 then match_bytes data 0 [0xFF, 0xD8, 0xFF] else Inr False)"

definition kPngMagic :: "byte list" where
  "kPngMagic = [0x89, 0x50, 0x4E, 0x47, 0x0D, 0x0A, 0x1A, 0x0A]"

definition IsPng :: "byte list \<Rightarrow> nat \<Rightarrow> bool rd" where
  "IsPng data sz = (if sz \<ge> 8 then rbind (bytes_at data 0 8) (\<lambda>bs. Inr (bs = kPngMagic)) else Inr False)"

text \<open>\<open>'I'\<close> is 0x49, \<open>'M'\<close> is 0x4D.\<close>

definition TiffLittleEndian :: "byte list \<Rightarrow> bool rd" where
  "TiffLittleEndian data = match_bytes data 0 [0x49, 0x49]"

definition IsTiff :: "byte list \<Rightarrow> nat \<Rightarrow> bool rd" where
  "IsTiff data sz =
     (if sz < 8 then Inr False
      else rbind (match_bytes data 0 [0x49, 0x49]) (\<lambda>little. rbind (match_bytes data 0 [0x4D, 0x4D]) (\<lambda>big.
        if \<not> little \<and> \<not> big then Inr False
        else rbind (ReadU16 data sz 2 little) (\<lambda>magic. Inr (magic = Some 42)))))"

definition IsExr :: "byte list \<Rightarrow> nat \<Rightarrow> bool rd" where
  "IsExr data sz = (if sz \<ge> 4 then match_bytes data 0 [0x76, 0x2F, 0x31, 0x01] else Inr False)"

section \<open>The TIFF directory\<close>

record TiffIfdEntry =
  te_tag :: nat
  te_type :: nat
  te_count :: nat
  te_value_off :: "nat option"
  te_value_size :: nat

definition kTagImageWidth :: nat where "kTagImageWidth = 0x0100"
definition kTagImageLength :: nat where "kTagImageLength = 0x0101"
definition kTagBitsPerSample :: nat where "kTagBitsPerSample = 0x0102"
definition kTagMake :: nat where "kTagMake = 0x010F"
definition kTagSamplesPerPixel :: nat where "kTagSamplesPerPixel = 0x0115"
definition kTagDngVersion :: nat where "kTagDngVersion = 0xC612"
definition kTypeShort :: nat where "kTypeShort = 3"
definition kTypeLong :: nat where "kTypeLong = 4"

lemmas tiff_constants = kTagImageWidth_def kTagImageLength_def kTagBitsPerSample_def kTagMake_def
  kTagSamplesPerPixel_def kTagDngVersion_def kTypeShort_def kTypeLong_def

definition type_size :: "nat \<Rightarrow> nat" where
  "type_size t = (if t = 1 then 1 else if t = 2 then 1 else if t = 3 then 2 else if t = 4 then 4 else 0)"

text \<open>One entry: \<open>None\<close> is the malformed layout; the offset of an inline value is cut to 32 bits.\<close>

definition tiff_entry :: "byte list \<Rightarrow> nat \<Rightarrow> nat \<Rightarrow> bool \<Rightarrow> nat \<Rightarrow> TiffIfdEntry option rd" where
  "tiff_entry data sz ifd_off little i =
     (let base = ifd_off + 2 + i * 12 in
      if base + 12 > sz then Inr None
      else need (ReadU16 data sz base little) (\<lambda>tag.
           need (ReadU16 data sz (base + 2) little) (\<lambda>type.
           need (ReadU32 data sz (base + 4) little) (\<lambda>cnt.
             let ts = type_size (unat type); total = unat cnt * ts in
             if ts = 0 then Inr None
             else if total \<le> 4 then
               Inr (Some \<lparr>te_tag = unat tag, te_type = unat type, te_count = unat cnt,
                 te_value_off = Some ((base + 8) mod 2 ^ 32), te_value_size = total\<rparr>)
             else need (ReadU32 data sz (base + 8) little) (\<lambda>off.
               Inr (Some \<lparr>te_tag = unat tag, te_type = unat type, te_count = unat cnt,
                 te_value_off = Some (unat off), te_value_size = total\<rparr>))))))"

fun tiff_entries :: "byte list \<Rightarrow> nat \<Rightarrow> nat \<Rightarrow> bool \<Rightarrow> (TiffIfdEntry \<Rightarrow> 's \<Rightarrow> (bool \<times> 's) rd) \<Rightarrow> nat \<Rightarrow> nat \<Rightarrow> 's \<Rightarrow> (bool \<times> 's) rd" where
  "tiff_entries data sz ifd_off little on_entry i 0 s = Inr (True, s)"
| "tiff_entries data sz ifd_off little on_entry i (Suc n) s =
     rbind (tiff_entry data sz ifd_off little i) (\<lambda>e. case e of
       None \<Rightarrow> Inr (False, s)
     | Some e \<Rightarrow> rbind (on_entry e s) (\<lambda>(go, s').
         if go then tiff_entries data sz ifd_off little on_entry (Suc i) n s' else Inr (False, s')))"

definition ForEachTiffEntry :: "byte list \<Rightarrow> nat \<Rightarrow> nat \<Rightarrow> bool \<Rightarrow> (TiffIfdEntry \<Rightarrow> 's \<Rightarrow> (bool \<times> 's) rd) \<Rightarrow> 's \<Rightarrow> (bool \<times> 's) rd" where
  "ForEachTiffEntry data sz ifd_off little on_entry s =
     rbind (ReadU16 data sz ifd_off little) (\<lambda>count. case count of
       None \<Rightarrow> Inr (False, s)
     | Some n \<Rightarrow> tiff_entries data sz ifd_off little on_entry 0 (unat n) s)"

definition ReadTiffTagValue :: "TiffIfdEntry \<Rightarrow> byte list \<Rightarrow> nat \<Rightarrow> bool \<Rightarrow> nat option rd" where
  "ReadTiffTagValue e data sz little = (case te_value_off e of
       None \<Rightarrow> Inr None
     | Some off \<Rightarrow>
         if te_type e = kTypeShort then need (ReadU16 data sz off little) (\<lambda>v. Inr (Some (unat v)))
         else if te_type e = kTypeLong then need (ReadU32 data sz off little) (\<lambda>v. Inr (Some (unat v)))
         else Inr None)"

definition trim_nul :: "string \<Rightarrow> string" where
  "trim_nul s = rev (dropWhile (\<lambda>c. c = CHR 0x00) (rev s))"

definition ReadTiffAscii :: "TiffIfdEntry \<Rightarrow> byte list \<Rightarrow> nat \<Rightarrow> string rd" where
  "ReadTiffAscii e data sz = (case te_value_off e of
       None \<Rightarrow> Inr []
     | Some off \<Rightarrow>
         if te_type e \<noteq> 2 then Inr []
         else if off \<ge> sz then Inr []
         else let n = min (te_value_size e) (sz - off) in
           if n = 0 then Inr [] else rbind (bytes_at data off n) (\<lambda>bs. Inr (trim_nul (string_of bs))))"

definition starts_with :: "string \<Rightarrow> string \<Rightarrow> bool" where
  "starts_with p s \<longleftrightarrow> take (length p) s = p"

definition is_cr2 :: "byte list \<Rightarrow> nat \<Rightarrow> bool rd" where
  "is_cr2 data sz = (if sz \<ge> 10 then match_bytes data 8 [0x43, 0x52] else Inr False)"

definition classify_entry :: "byte list \<Rightarrow> nat \<Rightarrow> TiffIfdEntry \<Rightarrow> bool \<times> string \<Rightarrow> (bool \<times> bool \<times> string) rd" where
  "classify_entry data sz e = (\<lambda>(has_dng, make).
     let has_dng' = (if te_tag e = kTagDngVersion then True else has_dng) in
     if te_tag e = kTagMake then rbind (ReadTiffAscii e data sz) (\<lambda>m. Inr (True, has_dng', m))
     else Inr (True, has_dng', make))"

definition ClassifyTiffContainer :: "byte list \<Rightarrow> nat \<Rightarrow> ImageFormat rd" where
  "ClassifyTiffContainer data sz =
     rbind (TiffLittleEndian data) (\<lambda>little. rbind (ReadU32 data sz 4 little) (\<lambda>ifd_off. case ifd_off of
       None \<Rightarrow> Inr kTiff
     | Some o32 \<Rightarrow> rbind (is_cr2 data sz) (\<lambda>cr2.
         if cr2 then Inr kRaw
         else rbind (ForEachTiffEntry data sz (unat o32) little (classify_entry data sz) (False, []))
           (\<lambda>(_, has_dng, make).
             if has_dng then Inr kRaw
             else if starts_with ''NIKON'' make \<or> starts_with ''SONY'' make \<or> starts_with ''Canon'' make then Inr kRaw
             else Inr kTiff))))"

section \<open>The header of a JPEG file\<close>

text \<open>Past the fill bytes: \<open>while (off < size && data[off] == 0xFF) ++off\<close>.\<close>

function skip_fill :: "byte list \<Rightarrow> nat \<Rightarrow> nat \<Rightarrow> nat rd" where
  "skip_fill data sz off =
     (if off < sz then rbind (byte_at data off) (\<lambda>b. if b = 0xFF then skip_fill data sz (Suc off) else Inr off)
      else Inr off)"
  by auto
termination by (relation "measure (\<lambda>(data, sz, off). sz - off)") auto

declare skip_fill.simps [simp del]

lemma skip_fill_ge: "skip_fill data sz off = Inr off' \<Longrightarrow> off \<le> off'"
  by (induction data sz off rule: skip_fill.induct)
    (subst (asm) skip_fill.simps, auto simp: rbind_Inr split: if_splits)

definition channels_name :: "nat \<Rightarrow> string" where
  "channels_name n = (if n = 1 then ''gray'' else if n = 3 then ''rgb'' else if n = 4 then ''rgba'' else ''rgb'')"

definition jpeg_standalone :: "byte \<Rightarrow> bool" where
  "jpeg_standalone m \<longleftrightarrow> m = 0xD8 \<or> m = 0xD9 \<or> m = 0xDA \<or> m \<ge> 0xD0 \<and> m \<le> 0xD7"

definition is_sof :: "byte \<Rightarrow> bool" where
  "is_sof m \<longleftrightarrow> (m \<ge> 0xC0 \<and> m \<le> 0xCF) \<and> m \<noteq> 0xC4 \<and> m \<noteq> 0xC8"

definition sof_info :: "byte list \<Rightarrow> nat \<Rightarrow> ImageHeaderInfo rd" where
  "sof_info data off = rbind (byte_at data (off + 2)) (\<lambda>precision.
     rbind (byte_at data (off + 3)) (\<lambda>h1. rbind (byte_at data (off + 4)) (\<lambda>h0.
     rbind (byte_at data (off + 5)) (\<lambda>w1. rbind (byte_at data (off + 6)) (\<lambda>w0.
     rbind (byte_at data (off + 7)) (\<lambda>components.
       Inr \<lparr>ih_format = kJpeg, ih_width = uint (join16 w1 w0), ih_height = uint (join16 h1 h0),
         ih_pixel_format = channels_name (unat components) @ nat_to_string (unat precision),
         ih_mime_type = ''image/jpeg''\<rparr>))))))"

function jpeg_loop :: "byte list \<Rightarrow> nat \<Rightarrow> nat \<Rightarrow> ImageHeaderInfo option rd" where
  "jpeg_loop data sz off =
     (if off + 4 \<le> sz then
        rbind (byte_at data off) (\<lambda>b.
        if b \<noteq> 0xFF then Inr None
        else rbind (skip_fill data sz off) (\<lambda>off1.
        if off1 \<ge> sz then Inr None
        else rbind (byte_at data off1) (\<lambda>marker.
        if marker = 0 then Inr None
        else if jpeg_standalone marker then jpeg_loop data sz (off1 + 1)
        else need (ReadU16 data sz (off1 + 1) False) (\<lambda>len.
          if unat len < 2 then Inr None
          else if is_sof marker then
            if off1 + 1 + 8 > sz then Inr None else rbind (sof_info data (off1 + 1)) (\<lambda>info. Inr (Some info))
          else jpeg_loop data sz (off1 + 1 + unat len)))))
      else Inr None)"
  by auto
termination by (relation "measure (\<lambda>(data, sz, off). sz - off)") (auto dest: skip_fill_ge)

declare jpeg_loop.simps [simp del]

definition ParseJpeg :: "byte list \<Rightarrow> nat \<Rightarrow> ImageHeaderInfo option rd" where
  "ParseJpeg data sz = jpeg_loop data sz 2"

section \<open>The header of a PNG file\<close>

definition be32_at :: "byte list \<Rightarrow> nat \<Rightarrow> u32 rd" where
  "be32_at data off = rbind (byte_at data off) (\<lambda>a. rbind (byte_at data (off + 1)) (\<lambda>b.
     rbind (byte_at data (off + 2)) (\<lambda>c. rbind (byte_at data (off + 3)) (\<lambda>d. Inr (join32 a b c d)))))"

definition png_pixels :: "nat \<Rightarrow> nat \<Rightarrow> string" where
  "png_pixels color_type bit_depth =
     (if color_type = 0 then ''gray'' @ nat_to_string bit_depth
      else if color_type = 2 then ''rgb'' @ nat_to_string bit_depth
      else if color_type = 3 then ''palette'' @ nat_to_string bit_depth
      else if color_type = 4 then ''graya'' @ nat_to_string bit_depth
      else if color_type = 6 then ''rgba'' @ nat_to_string bit_depth
      else ''unknown'')"

definition ParsePng :: "byte list \<Rightarrow> nat \<Rightarrow> ImageHeaderInfo option rd" where
  "ParsePng data sz =
     (if sz < 29 then Inr None
      else rbind (be32_at data 8) (\<lambda>len. rbind (match_bytes data 12 [0x49, 0x48, 0x44, 0x52]) (\<lambda>is_ihdr.
        if \<not> is_ihdr \<or> len < 13 then Inr None
        else if sz - 16 < 13 then Inr None
        else rbind (be32_at data 16) (\<lambda>width. rbind (be32_at data 20) (\<lambda>height.
          rbind (byte_at data 24) (\<lambda>bit_depth. rbind (byte_at data 25) (\<lambda>color_type.
          Inr (Some \<lparr>ih_format = kPng, ih_width = uint width, ih_height = uint height,
            ih_pixel_format = png_pixels (unat color_type) (unat bit_depth), ih_mime_type = ''image/png''\<rparr>)))))))) "

section \<open>The header of a TIFF file\<close>

text \<open>\<open>have_width\<close> and \<open>width\<close> are one option, and so for the height.\<close>

record tiff_seen =
  ts_width :: "nat option"
  ts_height :: "nat option"
  ts_bits :: nat
  ts_samples :: nat
  ts_make :: string
  ts_has_dng :: bool

definition nothing_seen :: tiff_seen where
  "nothing_seen = \<lparr>ts_width = None, ts_height = None, ts_bits = 8, ts_samples = 1, ts_make = [], ts_has_dng = False\<rparr>"

definition geometry_entry :: "byte list \<Rightarrow> nat \<Rightarrow> bool \<Rightarrow> TiffIfdEntry \<Rightarrow> tiff_seen \<Rightarrow> (bool \<times> tiff_seen) rd" where
  "geometry_entry data sz little e s =
     (let tag_value = ReadTiffTagValue e data sz little in
      if te_tag e = kTagImageWidth \<or> te_tag e = kTagImageLength then
        rbind tag_value (\<lambda>v. Inr (True, case v of None \<Rightarrow> s
          | Some n \<Rightarrow> if te_tag e = kTagImageWidth then s\<lparr>ts_width := Some n\<rparr> else s\<lparr>ts_height := Some n\<rparr>))
      else if te_tag e = kTagBitsPerSample then
        rbind tag_value (\<lambda>v. Inr (True, case v of None \<Rightarrow> s | Some n \<Rightarrow> s\<lparr>ts_bits := n\<rparr>))
      else if te_tag e = kTagSamplesPerPixel then
        rbind tag_value (\<lambda>v. Inr (True, case v of None \<Rightarrow> s | Some n \<Rightarrow> s\<lparr>ts_samples := n\<rparr>))
      else if te_tag e = kTagMake then rbind (ReadTiffAscii e data sz) (\<lambda>m. Inr (True, s\<lparr>ts_make := m\<rparr>))
      else if te_tag e = kTagDngVersion then Inr (True, s\<lparr>ts_has_dng := True\<rparr>)
      else Inr (True, s))"

definition tiff_kind :: "bool \<Rightarrow> tiff_seen \<Rightarrow> ImageFormat \<times> string" where
  "tiff_kind cr2 s =
     (if cr2 then (kRaw, ''image/x-canon-cr2'')
      else if ts_has_dng s then (kRaw, ''image/x-adobe-dng'')
      else if starts_with ''NIKON'' (ts_make s) then (kRaw, ''image/x-nikon-nef'')
      else if starts_with ''SONY'' (ts_make s) then (kRaw, ''image/x-sony-arw'')
      else if starts_with ''Canon'' (ts_make s) then (kRaw, ''image/x-canon-cr2'')
      else (kTiff, ''image/tiff''))"

definition tiff_pixels :: "tiff_seen \<Rightarrow> string" where
  "tiff_pixels s = (if ts_samples s = 1 then ''gray'' else if ts_samples s = 2 then ''graya''
     else if ts_samples s = 3 then ''rgb'' else if ts_samples s = 4 then ''rgba'' else ''rgb'') @ nat_to_string (ts_bits s)"

definition tiff_info :: "bool \<Rightarrow> tiff_seen \<Rightarrow> ImageHeaderInfo option" where
  "tiff_info cr2 s = (case (ts_width s, ts_height s) of
     (Some width, Some height) \<Rightarrow>
       if width = 0 \<or> height = 0 then None
       else Some \<lparr>ih_format = fst (tiff_kind cr2 s), ih_width = int width, ih_height = int height,
         ih_pixel_format = tiff_pixels s, ih_mime_type = snd (tiff_kind cr2 s)\<rparr>
   | _ \<Rightarrow> None)"

definition ParseTiff :: "byte list \<Rightarrow> nat \<Rightarrow> ImageHeaderInfo option rd" where
  "ParseTiff data sz = rbind (TiffLittleEndian data) (\<lambda>little. need (ReadU32 data sz 4 little) (\<lambda>ifd_off.
     rbind (is_cr2 data sz) (\<lambda>cr2.
     rbind (ForEachTiffEntry data sz (unat ifd_off) little (geometry_entry data sz little) nothing_seen) (\<lambda>(_, s).
       Inr (tiff_info cr2 s)))))"

section \<open>The header of an OpenEXR file\<close>

text \<open>\<open>while (end < limit && data[end] != 0) ++end\<close>.\<close>

function find_nul :: "byte list \<Rightarrow> nat \<Rightarrow> nat \<Rightarrow> nat rd" where
  "find_nul data limit p =
     (if p < limit then rbind (byte_at data p) (\<lambda>b. if b \<noteq> 0 then find_nul data limit (Suc p) else Inr p)
      else Inr p)"
  by auto
termination by (relation "measure (\<lambda>(data, limit, p). limit - p)") auto

declare find_nul.simps [simp del]

lemma find_nul_ge: "find_nul data limit p = Inr q \<Longrightarrow> p \<le> q"
  by (induction data limit p rule: find_nul.induct)
    (subst (asm) find_nul.simps, auto simp: rbind_Inr split: if_splits)

definition read_cstring :: "byte list \<Rightarrow> nat \<Rightarrow> nat \<Rightarrow> (string \<times> nat) option rd" where
  "read_cstring data sz off = rbind (find_nul data sz off) (\<lambda>nul.
     if nul \<ge> sz then Inr None
     else rbind (bytes_at data off (nul - off)) (\<lambda>bs. Inr (Some (string_of bs, nul + 1))))"

lemma read_cstring_ge: "read_cstring data sz off = Inr (Some (s, off')) \<Longrightarrow> off < off'"
  by (auto simp: read_cstring_def rbind_Inr dest!: find_nul_ge split: if_splits)

record exr_seen =
  es_window :: "(int \<times> int) option"
  es_sample_type :: string

definition exr_window :: "byte list \<Rightarrow> nat \<Rightarrow> nat \<Rightarrow> exr_seen \<Rightarrow> exr_seen rd" where
  "exr_window data sz data_off s =
     rbind (ReadU32 data sz data_off True) (\<lambda>x1. rbind (ReadU32 data sz (data_off + 4) True) (\<lambda>y1.
     rbind (ReadU32 data sz (data_off + 8) True) (\<lambda>x2. rbind (ReadU32 data sz (data_off + 12) True) (\<lambda>y2.
       Inr (case (x1, y1, x2, y2) of
         (Some x1, Some y1, Some x2, Some y2) \<Rightarrow> s\<lparr>es_window := Some (sint x2 - sint x1 + 1, sint y2 - sint y1 + 1)\<rparr>
       | _ \<Rightarrow> s)))))"

definition exr_channels :: "byte list \<Rightarrow> nat \<Rightarrow> nat \<Rightarrow> exr_seen \<Rightarrow> exr_seen rd" where
  "exr_channels data data_off ends s =
     (if data_off < ends then
        rbind (find_nul data ends data_off) (\<lambda>cname_end.
        if cname_end \<ge> ends then Inr s
        else if cname_end = data_off then Inr s
        else rbind (ReadU32 data ends (cname_end + 1) True) (\<lambda>pt. Inr (case pt of None \<Rightarrow> s
          | Some t \<Rightarrow> s\<lparr>es_sample_type := if t = 0 then ''uint32'' else if t = 1 then ''float16''
              else if t = 2 then ''float32'' else ''unknown''\<rparr>)))
      else Inr s)"

definition exr_attribute :: "byte list \<Rightarrow> nat \<Rightarrow> string \<Rightarrow> string \<Rightarrow> nat \<Rightarrow> nat \<Rightarrow> exr_seen \<Rightarrow> exr_seen rd" where
  "exr_attribute data sz name type attr_size data_off s =
     (if name = ''dataWindow'' \<and> type = ''box2i'' \<and> attr_size \<ge> 16 then exr_window data sz data_off s
      else if name = ''channels'' \<and> type = ''chlist'' then exr_channels data data_off (data_off + attr_size) s
      else Inr s)"

text \<open>\<open>None\<close> is the malformed header; the loop's result is what was seen.\<close>

function exr_loop :: "byte list \<Rightarrow> nat \<Rightarrow> nat \<Rightarrow> exr_seen \<Rightarrow> exr_seen option rd" where
  "exr_loop data sz off s =
     (if off < sz then
        need (read_cstring data sz off) (\<lambda>(name, off1).
          if name = [] then Inr (Some s)
          else need (read_cstring data sz off1) (\<lambda>(type, off2).
            need (ReadU32 data sz off2 True) (\<lambda>attr_size.
              if off2 + 4 > sz \<or> unat attr_size > sz - (off2 + 4) then Inr None
              else rbind (exr_attribute data sz name type (unat attr_size) (off2 + 4) s) (\<lambda>s'.
                exr_loop data sz (off2 + 4 + unat attr_size) s'))))
      else Inr (Some s))"
  by auto
termination by (relation "measure (\<lambda>(data, sz, off, s). sz - off)") (auto dest!: read_cstring_ge)

declare exr_loop.simps [simp del]

definition exr_info :: "exr_seen \<Rightarrow> ImageHeaderInfo option" where
  "exr_info s = (case es_window s of
     None \<Rightarrow> None
   | Some (width, height) \<Rightarrow>
       if width \<le> 0 \<or> height \<le> 0 then None
       else Some \<lparr>ih_format = kExr, ih_width = width, ih_height = height,
         ih_pixel_format = (if es_sample_type s = [] then ''unknown'' else es_sample_type s),
         ih_mime_type = ''image/x-exr''\<rparr>)"

definition ParseExr :: "byte list \<Rightarrow> nat \<Rightarrow> ImageHeaderInfo option rd" where
  "ParseExr data sz =
     (if sz < 8 then Inr None
      else need (exr_loop data sz 8 \<lparr>es_window = None, es_sample_type = []\<rparr>) (\<lambda>s. Inr (exr_info s)))"

section \<open>Entry points\<close>

definition DetectImageFormat :: "byte list option \<Rightarrow> nat \<Rightarrow> ImageFormat rd" where
  "DetectImageFormat buffer sz = (case buffer of
     None \<Rightarrow> Inr kFmtUnknown
   | Some data \<Rightarrow>
       if sz = 0 then Inr kFmtUnknown
       else rbind (IsJpeg data sz) (\<lambda>jpeg. if jpeg then Inr kJpeg
       else rbind (IsPng data sz) (\<lambda>png. if png then Inr kPng
       else rbind (IsExr data sz) (\<lambda>exr. if exr then Inr kExr
       else rbind (IsTiff data sz) (\<lambda>tiff. if tiff then ClassifyTiffContainer data sz
       else Inr kFmtUnknown)))))"

definition kMaxHeaderSize :: nat where
  "kMaxHeaderSize = 2 ^ 20"

definition ParseImageHeader :: "byte list option \<Rightarrow> nat \<Rightarrow> ImageHeaderInfo option rd" where
  "ParseImageHeader buffer size0 = (case buffer of
     None \<Rightarrow> Inr None
   | Some data \<Rightarrow>
       if size0 = 0 then Inr None
       else let sz = (if size0 > kMaxHeaderSize then kMaxHeaderSize else size0) in
         rbind (DetectImageFormat buffer sz) (\<lambda>fmt. case fmt of
           kJpeg \<Rightarrow> ParseJpeg data sz
         | kPng \<Rightarrow> ParsePng data sz
         | kTiff \<Rightarrow> ParseTiff data sz
         | kRaw \<Rightarrow> ParseTiff data sz
         | kExr \<Rightarrow> ParseExr data sz
         | kFmtUnknown \<Rightarrow> Inr None))"

fun FormatName :: "ImageFormat \<Rightarrow> string" where
  "FormatName kFmtUnknown = ''unknown''"
| "FormatName kJpeg = ''jpeg''"
| "FormatName kPng = ''png''"
| "FormatName kTiff = ''tiff''"
| "FormatName kExr = ''exr''"
| "FormatName kRaw = ''raw''"

section \<open>No read leaves the buffer\<close>

definition reads :: "'a rd \<Rightarrow> bool" where
  "reads m \<longleftrightarrow> (\<exists>x. m = Inr x)"

named_theorems reads_intros

lemma reads_Inr [simp]: "reads (Inr x)"
  by (simp add: reads_def)

lemma reads_Inl [simp]: "\<not> reads (Inl e)"
  by (simp add: reads_def)

lemma reads_rbind: "reads m \<Longrightarrow> (\<And>x. m = Inr x \<Longrightarrow> reads (f x)) \<Longrightarrow> reads (rbind m f)"
  by (auto simp: reads_def)

lemma reads_need: "reads m \<Longrightarrow> (\<And>x. m = Inr (Some x) \<Longrightarrow> reads (f x)) \<Longrightarrow> reads (need m f)"
  unfolding need_def by (rule reads_rbind) (auto split: option.split)

lemma reads_byte_at [simp]: "reads (byte_at data i) \<longleftrightarrow> i < length data"
  by (simp add: byte_at_def)

lemma reads_bytes_at [simp]: "reads (bytes_at data off n) \<longleftrightarrow> off + n \<le> length data"
  by (simp add: bytes_at_def)

lemma reads_match_bytes: "off + length ms \<le> length data \<Longrightarrow> reads (match_bytes data off ms)"
  by (induction ms arbitrary: off) (auto intro!: reads_rbind)

lemma reads_ReadU16 [simp]: "sz \<le> length data \<Longrightarrow> reads (ReadU16 data sz off little)"
  by (auto simp: ReadU16_def intro!: reads_rbind)

lemma reads_ReadU32 [simp]: "sz \<le> length data \<Longrightarrow> reads (ReadU32 data sz off little)"
  by (auto simp: ReadU32_def intro!: reads_rbind)

lemma reads_tiff_entry: "sz \<le> length data \<Longrightarrow> reads (tiff_entry data sz ifd_off little i)"
  by (auto simp: tiff_entry_def Let_def intro!: reads_need)

lemma reads_tiff_entries:
  assumes "sz \<le> length data" "\<And>e s. reads (on_entry e s)"
  shows "reads (tiff_entries data sz ifd_off little on_entry i n s)"
  using assms by (induction n arbitrary: i s)
    (auto intro!: reads_rbind reads_tiff_entry split: option.split)

lemma reads_ForEachTiffEntry:
  assumes "sz \<le> length data" "\<And>e s. reads (on_entry e s)"
  shows "reads (ForEachTiffEntry data sz ifd_off little on_entry s)"
  using assms by (auto simp: ForEachTiffEntry_def intro!: reads_rbind reads_tiff_entries split: option.split)

lemma reads_ReadTiffTagValue: "sz \<le> length data \<Longrightarrow> reads (ReadTiffTagValue e data sz little)"
  by (auto simp: ReadTiffTagValue_def intro!: reads_need split: option.split)

lemma reads_ReadTiffAscii: "sz \<le> length data \<Longrightarrow> reads (ReadTiffAscii e data sz)"
  by (auto simp: ReadTiffAscii_def Let_def intro!: reads_rbind split: option.split)

lemma reads_classify_entry: "sz \<le> length data \<Longrightarrow> reads (classify_entry data sz e s)"
  by (auto simp: classify_entry_def Let_def intro!: reads_rbind reads_ReadTiffAscii split: prod.split)

lemma reads_geometry_entry: "sz \<le> length data \<Longrightarrow> reads (geometry_entry data sz little e s)"
  by (auto simp: geometry_entry_def Let_def intro!: reads_rbind reads_ReadTiffTagValue reads_ReadTiffAscii)

lemma reads_is_cr2: "sz \<le> length data \<Longrightarrow> reads (is_cr2 data sz)"
  unfolding is_cr2_def by (simp del: match_bytes.simps add: reads_match_bytes)

lemma reads_TiffLittleEndian: "2 \<le> length data \<Longrightarrow> reads (TiffLittleEndian data)"
  unfolding TiffLittleEndian_def by (rule reads_match_bytes) simp

lemma reads_ClassifyTiffContainer: "sz \<le> length data \<Longrightarrow> 2 \<le> sz \<Longrightarrow> reads (ClassifyTiffContainer data sz)"
  unfolding ClassifyTiffContainer_def
  by (intro reads_rbind reads_TiffLittleEndian) (auto split: option.split prod.split
    intro!: reads_rbind reads_is_cr2 reads_ForEachTiffEntry reads_classify_entry)

lemma reads_DetectImageFormat: "sz \<le> length data \<Longrightarrow> reads (DetectImageFormat (Some data) sz)"
  unfolding DetectImageFormat_def
  by (auto intro!: reads_rbind reads_match_bytes reads_ClassifyTiffContainer
    simp: IsJpeg_def IsPng_def IsExr_def IsTiff_def rbind_Inr split: if_splits)

lemma reads_skip_fill: "sz \<le> length data \<Longrightarrow> reads (skip_fill data sz off)"
  by (induction data sz off rule: skip_fill.induct) (subst skip_fill.simps, auto intro!: reads_rbind)

lemma reads_jpeg_loop: "sz \<le> length data \<Longrightarrow> reads (jpeg_loop data sz off)"
proof (induction data sz off rule: jpeg_loop.induct)
  case (1 data sz off)
  then show ?case
    by (subst jpeg_loop.simps)
      (auto intro!: reads_rbind reads_need reads_skip_fill simp: sof_info_def)
qed

lemma reads_be32_at: "off + 4 \<le> length data \<Longrightarrow> reads (be32_at data off)"
  by (auto simp: be32_at_def intro!: reads_rbind)

lemma reads_ParsePng: "sz \<le> length data \<Longrightarrow> reads (ParsePng data sz)"
  by (auto simp: ParsePng_def intro!: reads_rbind reads_be32_at reads_match_bytes)

lemma reads_ParseTiff: "sz \<le> length data \<Longrightarrow> 2 \<le> sz \<Longrightarrow> reads (ParseTiff data sz)"
  by (auto simp: ParseTiff_def split: prod.split
    intro!: reads_rbind reads_need reads_TiffLittleEndian reads_is_cr2 reads_ForEachTiffEntry reads_geometry_entry)

lemma reads_find_nul: "limit \<le> length data \<Longrightarrow> reads (find_nul data limit p)"
  by (induction data limit p rule: find_nul.induct) (subst find_nul.simps, auto intro!: reads_rbind)

lemma reads_read_cstring: "sz \<le> length data \<Longrightarrow> reads (read_cstring data sz off)"
  by (auto simp: read_cstring_def intro!: reads_rbind reads_find_nul dest!: find_nul_ge)

lemma reads_exr_attribute:
  "sz \<le> length data \<Longrightarrow> data_off \<le> sz \<Longrightarrow> attr_size \<le> sz - data_off \<Longrightarrow> reads (exr_attribute data sz name type attr_size data_off s)"
  by (auto simp: exr_attribute_def exr_window_def exr_channels_def intro!: reads_rbind reads_find_nul)

lemma reads_exr_loop: "sz \<le> length data \<Longrightarrow> reads (exr_loop data sz off s)"
proof (induction data sz off s rule: exr_loop.induct)
  case (1 data sz off s)
  then show ?case
    by (subst exr_loop.simps)
      (auto simp: not_less intro!: reads_rbind reads_need reads_read_cstring reads_exr_attribute)
qed

lemma reads_ParseExr: "sz \<le> length data \<Longrightarrow> reads (ParseExr data sz)"
  by (auto simp: ParseExr_def intro!: reads_need reads_exr_loop)

section \<open>The dimensions that come out\<close>

definition info_ok :: "ImageHeaderInfo \<Rightarrow> bool" where
  "info_ok h \<longleftrightarrow> (case ih_format h of
     kFmtUnknown \<Rightarrow> False
   | kJpeg \<Rightarrow> ih_width h \<in> {0..<2 ^ 16} \<and> ih_height h \<in> {0..<2 ^ 16}
   | kPng \<Rightarrow> ih_width h \<in> {0..<2 ^ 32} \<and> ih_height h \<in> {0..<2 ^ 32}
   | kExr \<Rightarrow> ih_width h \<in> {1..2 ^ 32} \<and> ih_height h \<in> {1..2 ^ 32}
   | _ \<Rightarrow> ih_width h \<in> {1..<2 ^ 32} \<and> ih_height h \<in> {1..<2 ^ 32})"

lemma uint_bound: "uint (w :: 'a::len word) < 2 ^ LENGTH('a)"
  using uint_lt2p by blast

lemma sof_info_ok: "sof_info data off = Inr h \<Longrightarrow> info_ok h"
  by (auto simp: sof_info_def rbind_Inr info_ok_def uint_bound [where 'a = 16, simplified])

lemma jpeg_loop_info: "jpeg_loop data sz off = Inr (Some h) \<Longrightarrow> info_ok h"
proof (induction data sz off rule: jpeg_loop.induct)
  case (1 data sz off)
  from "1.prems" obtain off1 marker where at: "off + 4 \<le> sz" "byte_at data off = Inr 0xFF"
      "skip_fill data sz off = Inr off1" "off1 < sz" "byte_at data off1 = Inr marker" "marker \<noteq> 0"
    and go: "if jpeg_standalone marker then jpeg_loop data sz (off1 + 1) = Inr (Some h)
      else \<exists>len. ReadU16 data sz (off1 + 1) False = Inr (Some len) \<and> \<not> unat len < 2 \<and>
        (if is_sof marker then sof_info data (off1 + 1) = Inr h else jpeg_loop data sz (off1 + 1 + unat len) = Inr (Some h))"
    by (subst (asm) jpeg_loop.simps) (auto simp: rbind_Inr need_Some not_le split: if_split_asm)
  show ?case
  proof (cases "jpeg_standalone marker")
    case True
    with at go "1.IH"(1) [of "0xFF" off1 marker] show ?thesis by simp
  next
    case False
    with go obtain len where "ReadU16 data sz (off1 + 1) False = Inr (Some len)" "\<not> unat len < 2"
      "if is_sof marker then sof_info data (off1 + 1) = Inr h else jpeg_loop data sz (off1 + 1 + unat len) = Inr (Some h)"
      by auto
    with at False "1.IH"(2) [of "0xFF" off1 marker len] show ?thesis by (auto simp: sof_info_ok split: if_split_asm)
  qed
qed

lemma ParsePng_info: "ParsePng data sz = Inr (Some h) \<Longrightarrow> info_ok h"
  by (auto simp: ParsePng_def rbind_Inr info_ok_def uint_bound [where 'a = 32, simplified] split: if_split_asm)

definition seen_ok :: "tiff_seen \<Rightarrow> bool" where
  "seen_ok s \<longleftrightarrow> (\<forall>n. ts_width s = Some n \<or> ts_height s = Some n \<longrightarrow> n < 2 ^ 32)"

lemma ReadTiffTagValue_bound: "ReadTiffTagValue e data sz little = Inr (Some n) \<Longrightarrow> n < 2 ^ 32"
proof -
  have "unat v < 2 ^ 32" for v :: u16
    using unsigned_less [of v, where 'a = nat] by simp
  moreover have "unat v < 2 ^ 32" for v :: u32
    using unsigned_less [of v, where 'a = nat] by simp
  moreover assume "ReadTiffTagValue e data sz little = Inr (Some n)"
  ultimately show ?thesis
    by (auto simp: ReadTiffTagValue_def need_def rbind_Inr split: if_split_asm option.split_asm)
qed

lemma geometry_entry_ok: "geometry_entry data sz little e s = Inr (go, s') \<Longrightarrow> seen_ok s \<Longrightarrow> seen_ok s'"
  by (auto simp: geometry_entry_def Let_def seen_ok_def rbind_Inr dest!: ReadTiffTagValue_bound
    split: if_split_asm option.split_asm)

lemma tiff_entries_keep:
  assumes "\<And>e s go s'. on_entry e s = Inr (go, s') \<Longrightarrow> P s \<Longrightarrow> P s'"
    "tiff_entries data sz ifd_off little on_entry i n s = Inr (go, s')" "P s"
  shows "P s'"
  using assms(2,3)
proof (induction n arbitrary: i s)
  case (Suc n)
  from Suc.prems(1) consider "s' = s"
    | e b s1 where "on_entry e s = Inr (b, s1)" "s' = s1 \<or> tiff_entries data sz ifd_off little on_entry (Suc i) n s1 = Inr (go, s')"
    by (auto simp: rbind_Inr split: option.split_asm if_split_asm)
  then show ?case using Suc.prems(2) Suc.IH assms(1) by cases blast+
qed simp

lemma ParseTiff_info: "ParseTiff data sz = Inr (Some h) \<Longrightarrow> info_ok h"
proof -
  assume "ParseTiff data sz = Inr (Some h)"
  then obtain o32 little cr2 go s where
    walk: "ForEachTiffEntry data sz (unat (o32 :: u32)) little (geometry_entry data sz little) nothing_seen = Inr (go, s)"
      and h: "tiff_info cr2 s = Some h"
    by (auto simp: ParseTiff_def need_Some rbind_Inr)
  have "seen_ok nothing_seen" by (simp add: seen_ok_def nothing_seen_def)
  with walk have "seen_ok s"
    by (auto simp: ForEachTiffEntry_def rbind_Inr split: option.split_asm
      intro: tiff_entries_keep [where P = seen_ok, OF geometry_entry_ok])
  with h show ?thesis
    by (auto simp: tiff_info_def tiff_kind_def info_ok_def seen_ok_def split: option.split_asm if_split_asm)
qed

definition window_ok :: "exr_seen \<Rightarrow> bool" where
  "window_ok s \<longleftrightarrow> (\<forall>w h. es_window s = Some (w, h) \<longrightarrow> w \<le> 2 ^ 32 \<and> h \<le> 2 ^ 32)"

lemma sint_width: "sint (x :: u32) - sint (y :: u32) + 1 \<le> 2 ^ 32"
  using sint_lt [of x] sint_ge [of y] by simp

lemma exr_window_ok: "exr_window data sz data_off s = Inr s' \<Longrightarrow> window_ok s \<Longrightarrow> window_ok s'"
  unfolding exr_window_def rbind_Inr using sint_width
  by clarify (auto simp: window_ok_def split: option.split_asm)

lemma exr_attribute_ok: "exr_attribute data sz name type attr_size data_off s = Inr s' \<Longrightarrow> window_ok s \<Longrightarrow> window_ok s'"
  by (auto simp: exr_attribute_def exr_window_ok exr_channels_def rbind_Inr split: if_split_asm)
    (auto simp: window_ok_def split: option.split)

lemma exr_loop_ok: "exr_loop data sz off s = Inr (Some s') \<Longrightarrow> window_ok s \<Longrightarrow> window_ok s'"
proof (induction data sz off s rule: exr_loop.induct)
  case (1 data sz off s)
  from "1.prems" show ?case
    by (subst (asm) exr_loop.simps)
      (auto simp: rbind_Inr need_Some split: if_split_asm dest: "1.IH" exr_attribute_ok)
qed

lemma ParseExr_info: "ParseExr data sz = Inr (Some h) \<Longrightarrow> info_ok h"
  by (auto simp: ParseExr_def need_Some rbind_Inr exr_info_def info_ok_def window_ok_def
    split: if_split_asm option.split_asm dest!: exr_loop_ok)

lemma ParseImageHeader_returns:
  "\<exists>r. ParseImageHeader (Some data) (length data) = Inr r \<and> (\<forall>h. r = Some h \<longrightarrow> info_ok h)"
proof -
  let ?sz = "if length data > kMaxHeaderSize then kMaxHeaderSize else length data"
  have sz: "?sz \<le> length data" by simp
  from reads_DetectImageFormat [OF sz] obtain f where
    f: "DetectImageFormat (Some data) ?sz = Inr f" by (auto simp: reads_def)
  have small: "2 \<le> ?sz" if "f = kTiff \<or> f = kRaw"
    using f that by (auto simp: DetectImageFormat_def IsTiff_def rbind_Inr kMaxHeaderSize_def split: if_split_asm)
  have "reads (ParseImageHeader (Some data) (length data))"
    using f small sz
    by (auto simp: ParseImageHeader_def Let_def reads_ParseExr reads_ParsePng ParseJpeg_def reads_jpeg_loop
      intro!: reads_ParseTiff split: ImageFormat.split)
  then obtain r where r: "ParseImageHeader (Some data) (length data) = Inr r" by (auto simp: reads_def)
  then have "\<forall>h. r = Some h \<longrightarrow> info_ok h"
    using f by (cases f) (auto simp: ParseImageHeader_def ParseJpeg_def split: if_split_asm
      dest: jpeg_loop_info ParsePng_info ParseTiff_info ParseExr_info)
  with r show ?thesis by blast
qed

lemma DetectImageFormat_returns: "\<exists>fmt. DetectImageFormat (Some data) (length data) = Inr fmt"
  using reads_DetectImageFormat [of "length data" data] by (simp add: reads_def)

text \<open>
  C31: on every buffer, whatever its bytes, detection and parsing end without a read outside of it, and the
  dimensions that come out are those the format can express; only TIFF and EXR exclude zero.
\<close>

theorem ParseImageHeader_in_bounds:
  "\<exists>fmt r. DetectImageFormat (Some data) (length data) = Inr fmt \<and>
     ParseImageHeader (Some data) (length data) = Inr r \<and> (case r of None \<Rightarrow> True | Some h \<Rightarrow> info_ok h)"
  using ParseImageHeader_returns [of data] DetectImageFormat_returns [of data] by (auto split: option.split)

end
