(* ===== verification/ImageFiles.thy ===== *)
theory ImageFiles
  imports ImageFormat
begin

text \<open>
  What the header parsers of \<open>ImageFormat\<close> return on well-formed files: JPEG, PNG, TIFF and OpenEXR files are
  written out byte by byte from their contents, followed by anything.
\<close>

section \<open>Reading at a position\<close>

lemma byte_at_drop: "drop off data = x # t \<Longrightarrow> byte_at data off = Inr x"
proof -
  assume d: "drop off data = x # t"
  then have "off < length data" by (metis drop_all list.distinct(1) not_le)
  with d show ?thesis by (simp add: byte_at_def) (metis Cons_nth_drop_Suc list.inject)
qed

lemma drop_Suc_rest: "drop off data = x # t \<Longrightarrow> drop (Suc off) data = t"
  by (metis drop_Suc tl_drop list.sel(3))

lemma drop_append_rest: "drop off data = xs @ t \<Longrightarrow> drop (off + length xs) data = t"
  by (metis add.commute append_eq_conv_conj drop_drop)

lemma drop_at: "drop off data = xs @ t \<Longrightarrow> n = off + length xs \<Longrightarrow> drop n data = t"
  by (simp add: drop_append_rest)

lemma drop_length: "drop off data = xs @ t \<Longrightarrow> xs \<noteq> [] \<Longrightarrow> off + length xs \<le> length data"
  by (metis add_le_cancel_left append_is_Nil_conv drop_all le_add_diff_inverse length_append length_drop linear le_add1)

lemma bytes_at_drop: "drop off data = xs @ t \<Longrightarrow> xs \<noteq> [] \<Longrightarrow> bytes_at data off (length xs) = Inr xs"
  by (simp add: bytes_at_def drop_length)

lemma match_bytes_drop: "drop off data = ms @ t \<Longrightarrow> match_bytes data off ms = Inr True"
  by (induction ms arbitrary: off) (auto simp: byte_at_drop dest: drop_Suc_rest)

section \<open>Numbers as bytes\<close>

definition enc16 :: "bool \<Rightarrow> u16 \<Rightarrow> byte list" where
  "enc16 little v = (if little then [ucast v, ucast (drop_bit 8 v)] else [ucast (drop_bit 8 v), ucast v])"

definition enc32 :: "bool \<Rightarrow> u32 \<Rightarrow> byte list" where
  "enc32 little v = (let bs = [ucast v, ucast (drop_bit 8 v), ucast (drop_bit 16 v), ucast (drop_bit 24 v)]
     in if little then bs else rev bs)"

lemma length_enc16 [simp]: "length (enc16 little v) = 2"
  by (simp add: enc16_def)

lemma length_enc32 [simp]: "length (enc32 little v) = 4"
  by (simp add: enc32_def Let_def)

lemma join16_split: "join16 (ucast (drop_bit 8 v)) (ucast v) = v"
  by (rule bit_word_eqI) (auto simp: join16_def bit_simps)

lemma join32_split:
  "join32 (ucast (drop_bit 24 v)) (ucast (drop_bit 16 v)) (ucast (drop_bit 8 v)) (ucast v) = v"
proof (rule bit_word_eqI)
  fix n assume "n < LENGTH(32)"
  then consider "n < 8" | "8 \<le> n" "n < 16" | "16 \<le> n" "n < 24" | "24 \<le> n" "n < 32" by force
  then show "bit (join32 (ucast (drop_bit 24 v)) (ucast (drop_bit 16 v)) (ucast (drop_bit 8 v)) (ucast v)) n = bit v n"
    by cases (auto simp: join32_def bit_simps)
qed

lemma ReadU16_enc:
  assumes "drop off data = enc16 little v @ t" "off + 2 \<le> sz"
  shows "ReadU16 data sz off little = Inr (Some v)"
proof -
  from assms(1) obtain a b where ab: "drop off data = a # b # t"
    "a = (if little then ucast v else ucast (drop_bit 8 v))" "b = (if little then ucast (drop_bit 8 v) else ucast v)"
    by (auto simp: enc16_def)
  from byte_at_drop [OF ab(1)] byte_at_drop [OF drop_Suc_rest [OF ab(1)]] ab(2,3) assms(2) show ?thesis
    by (simp add: ReadU16_def join16_split)
qed

lemma ReadU32_enc:
  assumes "drop off data = enc32 little v @ t" "off + 4 \<le> sz"
  shows "ReadU32 data sz off little = Inr (Some v)"
proof -
  let ?b = "\<lambda>i. if little then ucast (drop_bit (8 * i) v) else ucast (drop_bit (8 * (3 - i)) v)"
  from assms(1) have d: "drop off data = ?b 0 # ?b 1 # ?b 2 # ?b 3 # t"
    by (auto simp: enc32_def Let_def)
  note d1 = drop_Suc_rest [OF d] note d2 = drop_Suc_rest [OF d1] note d3 = drop_Suc_rest [OF d2]
  from byte_at_drop [OF d] byte_at_drop [OF d1] byte_at_drop [OF d2] byte_at_drop [OF d3] assms(2) show ?thesis
    by (simp add: ReadU32_def join32_split numeral_2_eq_2 numeral_3_eq_3)
qed

section \<open>JPEG\<close>

text \<open>A segment: fill bytes, a marker, the length and the payload.\<close>

definition jpeg_segment :: "nat \<times> byte \<times> byte list \<Rightarrow> byte list" where
  "jpeg_segment = (\<lambda>(fills, marker, payload).
     replicate (Suc fills) 0xFF @ marker # enc16 False (of_nat (length payload + 2)) @ payload)"

definition skippable :: "nat \<times> byte \<times> byte list \<Rightarrow> bool" where
  "skippable = (\<lambda>(fills, marker, payload). marker \<noteq> 0 \<and> marker \<noteq> 0xFF \<and> \<not> jpeg_standalone marker \<and>
     \<not> is_sof marker \<and> length payload + 2 < 2 ^ 16)"

definition jpeg_head :: "(nat \<times> byte \<times> byte list) list \<Rightarrow> nat \<Rightarrow> byte \<Rightarrow> u16 \<Rightarrow> byte \<Rightarrow> u16 \<Rightarrow> u16 \<Rightarrow> byte \<Rightarrow> byte list" where
  "jpeg_head segments fills sof len precision height width components =
     [0xFF, 0xD8] @ concat (map jpeg_segment segments) @ replicate (Suc fills) 0xFF @ sof # enc16 False len @
       precision # enc16 False height @ enc16 False width @ [components]"

lemma skip_fill_run:
  "drop off data = replicate n 0xFF @ m # t \<Longrightarrow> m \<noteq> 0xFF \<Longrightarrow> off + n < sz \<Longrightarrow> skip_fill data sz off = Inr (off + n)"
proof (induction n arbitrary: off)
  case 0
  then show ?case by (subst skip_fill.simps) (simp add: byte_at_drop)
next
  case (Suc n)
  then have d: "drop off data = 0xFF # replicate n 0xFF @ m # t" by simp
  from Suc.IH [of "Suc off"] drop_Suc_rest [OF d] Suc.prems(2,3) byte_at_drop [OF d] show ?case
    by (subst skip_fill.simps) simp
qed

lemma jpeg_loop_marker:
  assumes "drop off data = replicate (Suc fills) 0xFF @ m # enc16 False len @ t" "off + fills + 4 \<le> sz"
    "m \<noteq> 0" "m \<noteq> 0xFF" "\<not> jpeg_standalone m" "2 \<le> unat len"
  shows "jpeg_loop data sz off =
    (if is_sof m then
       if off + fills + 10 > sz then Inr None else rbind (sof_info data (off + fills + 2)) (\<lambda>info. Inr (Some info))
     else jpeg_loop data sz (off + fills + 2 + unat len))"
proof -
  have first: "drop off data = 0xFF # replicate fills 0xFF @ m # enc16 False len @ t" using assms(1) by simp
  have rest: "drop (off + Suc fills) data = m # enc16 False len @ t"
    using drop_append_rest [OF assms(1)] by simp
  from skip_fill_run [OF assms(1,4)] assms(2) have fill: "skip_fill data sz off = Inr (off + Suc fills)" by simp
  have len: "ReadU16 data sz (Suc (Suc (off + fills))) False = Inr (Some len)"
    using drop_Suc_rest [OF rest] assms(2) by (intro ReadU16_enc [where t = t]) auto
  show ?thesis
    using byte_at_drop [OF first] byte_at_drop [OF rest] fill len assms(2-6)
    by (subst jpeg_loop.simps) (simp add: need_def)
qed

lemma unat_of_nat16: "n < 2 ^ 16 \<Longrightarrow> unat (of_nat n :: u16) = n"
  by (simp add: unat_of_nat take_bit_nat_eq_self)

lemma jpeg_segments:
  assumes "\<forall>s\<in>set segments. skippable s" "drop off data = concat (map jpeg_segment segments) @ t"
    "off + length (concat (map jpeg_segment segments)) \<le> sz"
  shows "jpeg_loop data sz off = jpeg_loop data sz (off + length (concat (map jpeg_segment segments)))"
  using assms
proof (induction segments arbitrary: off)
  case (Cons s segments)
  obtain fills m payload where s: "s = (fills, m, payload)" by (cases s) auto
  let ?len = "of_nat (length payload + 2) :: u16"
  from Cons.prems(1) s have ok: "m \<noteq> 0" "m \<noteq> 0xFF" "\<not> jpeg_standalone m" "\<not> is_sof m" "length payload + 2 < 2 ^ 16"
    by (auto simp: skippable_def)
  from ok(5) have len: "unat ?len = length payload + 2" by (rule unat_of_nat16)
  let ?rest = "concat (map jpeg_segment segments) @ t"
  have d: "drop off data = replicate (Suc fills) 0xFF @ m # enc16 False ?len @ payload @ ?rest"
    using Cons.prems(2) s by (simp add: jpeg_segment_def)
  have here: "jpeg_segment s = replicate (Suc fills) 0xFF @ m # enc16 False ?len @ payload"
    using s by (simp add: jpeg_segment_def)
  then have n: "length (jpeg_segment s) = fills + 4 + length payload" by simp
  have pos: "off + fills + 2 + unat ?len = off + length (jpeg_segment s)" using len n by simp
  from jpeg_loop_marker [OF d _ ok(1-3), of sz, unfolded pos] len n Cons.prems(3) ok(4)
  have one: "jpeg_loop data sz off = jpeg_loop data sz (off + length (jpeg_segment s))" by simp
  have "drop (off + length (jpeg_segment s)) data = ?rest"
    using drop_append_rest [of off data "jpeg_segment s" ?rest] Cons.prems(2) by simp
  with Cons.IH [of "off + length (jpeg_segment s)"] Cons.prems(1,3) one show ?case by (simp add: add.assoc)
qed simp

lemma drop_nth_list: "drop off data = xs @ t \<Longrightarrow> k < length xs \<Longrightarrow> byte_at data (off + k) = Inr (xs ! k)"
proof -
  assume "drop off data = xs @ t" "k < length xs"
  then have "drop (off + k) data = xs ! k # drop (Suc k) xs @ t"
    by (metis (no_types) Cons_nth_drop_Suc add.commute append_Cons drop_append drop_drop drop0 diff_is_0_eq less_imp_le)
  then show ?thesis by (rule byte_at_drop)
qed

lemma ParseImageHeader_as:
  assumes "DetectImageFormat (Some data) (min (length data) kMaxHeaderSize) = Inr fmt" "data \<noteq> []"
  shows "ParseImageHeader (Some data) (length data) = (case fmt of
      kJpeg \<Rightarrow> ParseJpeg data (min (length data) kMaxHeaderSize)
    | kPng \<Rightarrow> ParsePng data (min (length data) kMaxHeaderSize)
    | kTiff \<Rightarrow> ParseTiff data (min (length data) kMaxHeaderSize)
    | kRaw \<Rightarrow> ParseTiff data (min (length data) kMaxHeaderSize)
    | kExr \<Rightarrow> ParseExr data (min (length data) kMaxHeaderSize)
    | kFmtUnknown \<Rightarrow> Inr None)"
proof -
  have "(if length data > kMaxHeaderSize then kMaxHeaderSize else length data) = min (length data) kMaxHeaderSize"
    by simp
  with assms show ?thesis by (simp add: ParseImageHeader_def Let_def)
qed

text \<open>
  A JPEG file whose frame header lies in the first MiB, behind any segments the parser can skip and any number of
  fill bytes, gives the frame's dimensions, precision and components, whatever follows.
\<close>

theorem ParseImageHeader_jpeg:
  assumes "\<forall>s\<in>set segments. skippable s" "is_sof sof" "2 \<le> unat len"
    "data = jpeg_head segments fills sof len precision height width components @ rest"
    "length (jpeg_head segments fills sof len precision height width components) \<le> kMaxHeaderSize"
  shows "ParseImageHeader (Some data) (length data) = Inr (Some \<lparr>ih_format = kJpeg, ih_width = uint width,
    ih_height = uint height, ih_pixel_format = channels_name (unat components) @ nat_to_string (unat precision),
    ih_mime_type = ''image/jpeg''\<rparr>)"
proof -
  let ?segs = "concat (map jpeg_segment segments)" and ?sz = "min (length data) kMaxHeaderSize"
  let ?sof = "replicate (Suc fills) 0xFF @ sof # enc16 False len @
    precision # enc16 False height @ enc16 False width @ [components]"
  have len_head: "length (jpeg_head segments fills sof len precision height width components) = 12 + length ?segs + fills"
    by (simp add: jpeg_head_def)
  then have sz: "2 + length ?segs + fills + 10 \<le> ?sz" "?sz \<le> length data" using assms(4,5) by auto
  have start: "drop 2 data = ?segs @ ?sof @ rest" using assms(4) by (simp add: jpeg_head_def)
  note at_sof = drop_append_rest [OF start]
  have sof: "sof \<noteq> 0" "sof \<noteq> 0xFF" "\<not> jpeg_standalone sof"
    using assms(2) by (auto simp: is_sof_def jpeg_standalone_def word_le_nat_alt)
  have three: "\<exists>t. drop 0 data = [0xFF, 0xD8, 0xFF] @ t"
    using assms(4) by (cases segments) (auto simp: jpeg_head_def jpeg_segment_def)
  then have jpeg: "DetectImageFormat (Some data) ?sz = Inr kJpeg"
    using sz match_bytes_drop [of 0 data "[0xFF, 0xD8, 0xFF]"] by (auto simp: DetectImageFormat_def IsJpeg_def)
  let ?p = "2 + length ?segs + fills + 2"
  have "drop ?p data = (enc16 False len @ precision # enc16 False height @ enc16 False width @ [components]) @ rest"
    using drop_append_rest [of "2 + length ?segs" data "replicate (Suc fills) 0xFF @ [sof]"] at_sof by (simp add: algebra_simps)
  from drop_nth_list [OF this, of 2] drop_nth_list [OF this, of 3] drop_nth_list [OF this, of 4]
    drop_nth_list [OF this, of 5] drop_nth_list [OF this, of 6] drop_nth_list [OF this, of 7]
  have info: "sof_info data ?p = Inr \<lparr>ih_format = kJpeg, ih_width = uint width, ih_height = uint height,
      ih_pixel_format = channels_name (unat components) @ nat_to_string (unat precision), ih_mime_type = ''image/jpeg''\<rparr>"
    by (simp add: sof_info_def enc16_def nth_Cons' join16_split add.assoc)
  have "jpeg_loop data ?sz 2 = jpeg_loop data ?sz (2 + length ?segs)"
    using sz by (intro jpeg_segments [OF assms(1) start]) simp
  also have "\<dots> = rbind (sof_info data ?p) (\<lambda>info. Inr (Some info))"
  proof -
    have "drop (2 + length ?segs) data = replicate (Suc fills) 0xFF @ sof # enc16 False len @
        (precision # enc16 False height @ enc16 False width @ components # rest)"
      using at_sof by simp
    from jpeg_loop_marker [OF this _ sof assms(3), of ?sz] sz assms(2) show ?thesis by simp
  qed
  finally show ?thesis
    using info three ParseImageHeader_as [OF jpeg] by (auto simp: ParseJpeg_def)
qed

section \<open>PNG\<close>

definition png_file :: "u32 \<Rightarrow> u32 \<Rightarrow> u32 \<Rightarrow> byte \<Rightarrow> byte \<Rightarrow> byte list \<Rightarrow> byte list" where
  "png_file len width height bit_depth color_type trailing = kPngMagic @ enc32 False len @ [0x49, 0x48, 0x44, 0x52] @
     enc32 False width @ enc32 False height @ [bit_depth, color_type] @ trailing"

lemma be32_at_enc: "drop off data = enc32 False v @ t \<Longrightarrow> be32_at data off = Inr v"
proof -
  assume d: "drop off data = enc32 False v @ t"
  then have "off + 4 \<le> length data" using drop_length [OF d] by (auto simp: enc32_def)
  with ReadU32_enc [OF d, of "length data"] show ?thesis
    by (auto simp: ReadU32_def be32_at_def rbind_Inr split: if_split_asm)
qed

lemma ParseImageHeader_png:
  assumes "13 \<le> len" "3 \<le> length trailing" "data = png_file len width height bit_depth color_type trailing"
  shows "ParseImageHeader (Some data) (length data) = Inr (Some \<lparr>ih_format = kPng, ih_width = uint width,
    ih_height = uint height, ih_pixel_format = png_pixels (unat color_type) (unat bit_depth), ih_mime_type = ''image/png''\<rparr>)"
proof -
  have sz: "29 \<le> min (length data) kMaxHeaderSize" using assms(2,3) by (simp add: png_file_def kPngMagic_def kMaxHeaderSize_def)
  have "match_bytes data 0 [0xFF, 0xD8, 0xFF] = Inr False" using assms(3) by (simp add: png_file_def kPngMagic_def byte_at_def)
  moreover have "bytes_at data 0 8 = Inr kPngMagic" using assms(3) by (simp add: bytes_at_def png_file_def kPngMagic_def)
  ultimately have png: "DetectImageFormat (Some data) (min (length data) kMaxHeaderSize) = Inr kPng"
    using sz by (auto simp: DetectImageFormat_def IsJpeg_def IsPng_def simp del: match_bytes.simps)
  have "drop 8 data = enc32 False len @ drop 12 data" "drop 16 data = enc32 False width @ drop 20 data"
    "drop 20 data = enc32 False height @ drop 24 data" "drop 12 data = [0x49, 0x48, 0x44, 0x52] @ drop 16 data"
    "drop 24 data = bit_depth # color_type # trailing"
    using assms(3) by (simp_all add: png_file_def kPngMagic_def enc32_def)
  note d = this
  from be32_at_enc [OF d(1)] be32_at_enc [OF d(2)] be32_at_enc [OF d(3)] match_bytes_drop [OF d(4)]
    byte_at_drop [OF d(5)] byte_at_drop [OF drop_Suc_rest [OF d(5)]]
  have "ParsePng data (min (length data) kMaxHeaderSize) = Inr (Some \<lparr>ih_format = kPng, ih_width = uint width,
      ih_height = uint height, ih_pixel_format = png_pixels (unat color_type) (unat bit_depth), ih_mime_type = ''image/png''\<rparr>)"
    using sz assms(1) by (auto simp: ParsePng_def not_less simp del: match_bytes.simps)
  moreover have "data \<noteq> []" using sz by (cases data) auto
  ultimately show ?thesis using ParseImageHeader_as [OF png] by simp
qed

section \<open>TIFF\<close>

text \<open>A directory entry with one SHORT or LONG.\<close>

definition tiff_field :: "bool \<Rightarrow> u16 \<times> (u16 + u32) \<Rightarrow> byte list" where
  "tiff_field little = (\<lambda>(tag, v). enc16 little tag @ (case v of
       Inl n \<Rightarrow> enc16 little 3 @ enc32 little 1 @ enc16 little n @ [0, 0]
     | Inr n \<Rightarrow> enc16 little 4 @ enc32 little 1 @ enc32 little n))"

definition field_value :: "u16 + u32 \<Rightarrow> nat" where
  "field_value v = (case v of Inl n \<Rightarrow> unat n | Inr n \<Rightarrow> unat n)"

definition see_field :: "u16 \<times> (u16 + u32) \<Rightarrow> tiff_seen \<Rightarrow> tiff_seen" where
  "see_field = (\<lambda>(tag, v) s.
     if unat tag = kTagImageWidth then s\<lparr>ts_width := Some (field_value v)\<rparr>
     else if unat tag = kTagImageLength then s\<lparr>ts_height := Some (field_value v)\<rparr>
     else if unat tag = kTagBitsPerSample then s\<lparr>ts_bits := field_value v\<rparr>
     else if unat tag = kTagSamplesPerPixel then s\<lparr>ts_samples := field_value v\<rparr>
     else if unat tag = kTagMake then s\<lparr>ts_make := []\<rparr>
     else if unat tag = kTagDngVersion then s\<lparr>ts_has_dng := True\<rparr>
     else s)"

lemma length_tiff_field [simp]: "length (tiff_field little f) = 12"
  by (auto simp: tiff_field_def split: prod.split sum.split)

lemma length_tiff_fields [simp]: "length (concat (map (tiff_field little) fs)) = 12 * length fs"
  by (induction fs) auto

lemma tiff_entry_field:
  assumes "drop base data = tiff_field little f @ t" "base = ifd_off + 2 + i * 12" "base + 12 \<le> sz" "sz \<le> 2 ^ 20"
  shows "tiff_entry data sz ifd_off little i = Inr (Some \<lparr>te_tag = unat (fst f),
      te_type = (case snd f of Inl _ \<Rightarrow> 3 | Inr _ \<Rightarrow> 4), te_count = 1, te_value_off = Some (base + 8),
      te_value_size = (case snd f of Inl _ \<Rightarrow> 2 | Inr _ \<Rightarrow> 4)\<rparr>)"
proof -
  obtain tag v where f: "f = (tag, v)" by fastforce
  let ?type = "(case v of Inl _ \<Rightarrow> 3 | Inr _ \<Rightarrow> 4) :: u16"
  let ?v = "case v of Inl n \<Rightarrow> enc16 little n @ [0, 0] | Inr n \<Rightarrow> enc32 little n"
  have d: "drop base data = enc16 little tag @ enc16 little ?type @ enc32 little 1 @ ?v @ t"
    using assms(1) f by (auto simp: tiff_field_def split: sum.split)
  have d2: "drop (base + 2) data = enc16 little ?type @ enc32 little 1 @ ?v @ t"
    by (rule drop_at [OF d]) simp
  have d4: "drop (base + 4) data = enc32 little 1 @ ?v @ t"
    by (rule drop_at [OF d2]) simp
  from ReadU16_enc [OF d, of sz] ReadU16_enc [OF d2, of sz] ReadU32_enc [OF d4, of sz] assms(2-4) f show ?thesis
    by (simp add: tiff_entry_def Let_def need_def type_size_def add.assoc split: sum.split)
qed

lemma geometry_entry_field:
  assumes "drop base data = tiff_field little f @ t" "base + 12 \<le> sz"
  shows "geometry_entry data sz little \<lparr>te_tag = unat (fst f), te_type = (case snd f of Inl _ \<Rightarrow> 3 | Inr _ \<Rightarrow> 4),
      te_count = c, te_value_off = Some (base + 8), te_value_size = n\<rparr> s = Inr (True, see_field f s)"
proof -
  obtain tag v where f: "f = (tag, v)" by fastforce
  let ?e = "\<lparr>te_tag = unat tag, te_type = (case v of Inl _ \<Rightarrow> 3 | Inr _ \<Rightarrow> 4), te_count = c,
    te_value_off = Some (base + 8), te_value_size = n\<rparr>"
  have "drop (base + 8) data = (case v of Inl n \<Rightarrow> enc16 little n @ [0, 0] | Inr n \<Rightarrow> enc32 little n) @ t"
    using drop_append_rest [of base data "enc16 little tag @ enc16 little (case v of Inl _ \<Rightarrow> 3 | Inr _ \<Rightarrow> 4) @ enc32 little 1"]
      assms(1) f by (simp add: tiff_field_def split: sum.splits)
  then have "ReadTiffTagValue ?e data sz little = Inr (Some (field_value v))"
    using ReadU16_enc [of "base + 8" data little _ _ sz] ReadU32_enc [of "base + 8" data little _ _ sz] assms(2)
    by (auto simp: ReadTiffTagValue_def field_value_def kTypeShort_def kTypeLong_def need_def split: sum.splits)
  then show ?thesis
    using f by (auto simp: geometry_entry_def Let_def see_field_def ReadTiffAscii_def split: sum.split)
qed

lemma tiff_entries_fields:
  assumes "drop (ifd_off + 2 + i * 12) data = concat (map (tiff_field little) dir) @ t"
    "ifd_off + 2 + (i + length dir) * 12 \<le> sz" "sz \<le> 2 ^ 20"
  shows "tiff_entries data sz ifd_off little (geometry_entry data sz little) i (length dir + n) s =
    tiff_entries data sz ifd_off little (geometry_entry data sz little) (i + length dir) n (fold see_field dir s)"
  using assms
proof (induction dir arbitrary: i s)
  case (Cons f dir)
  let ?base = "ifd_off + 2 + i * 12"
  have d: "drop ?base data = tiff_field little f @ concat (map (tiff_field little) dir) @ t"
    using Cons.prems(1) by simp
  have fits: "?base + 12 \<le> sz" using Cons.prems(2) by simp
  have "drop (ifd_off + 2 + Suc i * 12) data = concat (map (tiff_field little) dir) @ t"
    using drop_append_rest [OF d] by (simp add: algebra_simps)
  with Cons.IH [of "Suc i" "see_field f s"] Cons.prems(2,3)
    tiff_entry_field [OF d refl fits Cons.prems(3)] geometry_entry_field [OF d fits]
  show ?case by simp
qed simp

lemma ClassifyTiffContainer_kind:
  "ClassifyTiffContainer data sz = Inr f \<Longrightarrow> f = kTiff \<or> f = kRaw"
  by (auto simp: ClassifyTiffContainer_def rbind_Inr split: option.split_asm if_split_asm)

definition tiff_file :: "bool \<Rightarrow> byte list \<Rightarrow> nat \<Rightarrow> (u16 \<times> (u16 + u32)) list \<Rightarrow> byte list \<Rightarrow> byte list" where
  "tiff_file little gap count dir trailing = (if little then [0x49, 0x49] else [0x4D, 0x4D]) @ enc16 little 42 @
     enc32 little (of_nat (8 + length gap)) @ gap @ enc16 little (of_nat count) @ concat (map (tiff_field little) dir) @ trailing"

text \<open>The end of the entries that are read: the last one, or one of a type the walk does not support.\<close>

definition stops_at :: "bool \<Rightarrow> nat \<Rightarrow> (u16 \<times> (u16 + u32)) list \<Rightarrow> byte list \<Rightarrow> bool" where
  "stops_at little count dir trailing \<longleftrightarrow> count = length dir \<or> length dir < count \<and>
     (\<exists>tag type t. trailing = enc16 little tag @ enc16 little type @ t \<and> type_size (unat type) = 0)"

lemma tiff_entries_stop:
  assumes "drop (ifd_off + 2 + i * 12) data = enc16 little tag @ enc16 little type @ t" "type_size (unat type) = 0"
    "sz \<le> length data"
  shows "tiff_entries data sz ifd_off little on_entry i (Suc n) s = Inr (False, s)"
proof -
  let ?base = "ifd_off + 2 + i * 12"
  have "drop (?base + 2) data = enc16 little type @ t" by (rule drop_at [OF assms(1)]) simp
  from ReadU16_enc [OF assms(1), of sz] ReadU16_enc [OF this, of sz] reads_ReadU32 [OF assms(3), of "?base + 4" little] assms(2)
  have "tiff_entry data sz ifd_off little i = Inr None"
    by (auto simp: tiff_entry_def Let_def need_def reads_def split: option.split)
  then show ?thesis by simp
qed

lemma detect_tiff:
  assumes "data = (if little then [0x49, 0x49] else [0x4D, 0x4D]) @ enc16 little 42 @ t" "8 \<le> sz" "sz \<le> length data"
  shows "\<exists>f. DetectImageFormat (Some data) sz = Inr f \<and> (f = kTiff \<or> f = kRaw)" "TiffLittleEndian data = Inr little"
proof -
  have "drop 2 data = enc16 little 42 @ t" using assms(1) by simp
  from ReadU16_enc [OF this] assms(2) have magic: "ReadU16 data sz 2 little = Inr (Some 42)" by simp
  have bytes: "match_bytes data 0 [0xFF, 0xD8, 0xFF] = Inr False" "bytes_at data 0 8 \<noteq> Inr kPngMagic"
    "match_bytes data 0 [0x76, 0x2F, 0x31, 0x01] = Inr False" "match_bytes data 0 [0x49, 0x49] = Inr little"
    "match_bytes data 0 [0x4D, 0x4D] = Inr (\<not> little)"
    using assms(1) by (auto simp: byte_at_def bytes_at_def kPngMagic_def)
  from bytes(4) show "TiffLittleEndian data = Inr little" by (simp add: TiffLittleEndian_def)
  from assms(2,3) have "reads (bytes_at data 0 8)" by simp
  with bytes magic assms(2,3) have d: "DetectImageFormat (Some data) sz = ClassifyTiffContainer data sz"
    by (auto simp: DetectImageFormat_def IsJpeg_def IsPng_def IsExr_def IsTiff_def reads_def simp del: match_bytes.simps)
  with reads_ClassifyTiffContainer [OF assms(3)] assms(2) ClassifyTiffContainer_kind
  show "\<exists>f. DetectImageFormat (Some data) sz = Inr f \<and> (f = kTiff \<or> f = kRaw)" by (fastforce simp: reads_def)
qed

lemma tiff_walk:
  assumes "data = tiff_file little gap count dir trailing" "count < 2 ^ 16" "8 + length gap + 2 + 12 * length dir \<le> sz"
    "sz \<le> length data" "sz \<le> 2 ^ 20" "stops_at little count dir trailing"
  shows "\<exists>go. ForEachTiffEntry data sz (8 + length gap) little (geometry_entry data sz little) nothing_seen =
    Inr (go, fold see_field dir nothing_seen)"
proof -
  let ?o = "8 + length gap" and ?walk = "tiff_entries data sz (8 + length gap) little (geometry_entry data sz little)"
  have at: "drop ?o data = enc16 little (of_nat count) @ concat (map (tiff_field little) dir) @ trailing"
    using assms(1) by (simp add: tiff_file_def)
  from ReadU16_enc [OF at, of sz] assms(3) have n: "ReadU16 data sz ?o little = Inr (Some (of_nat count))" by simp
  have at0: "drop (?o + 2 + 0 * 12) data = concat (map (tiff_field little) dir) @ trailing"
    by (rule drop_at [OF at]) simp
  have rest: "drop (?o + 2 + length dir * 12) data = trailing" by (rule drop_at [OF at0]) simp
  from tiff_entries_fields [OF at0, of sz] assms(3,5)
  have walked: "?walk 0 (length dir + k) s = ?walk (length dir) k (fold see_field dir s)" for k s by (simp add: algebra_simps)
  have "\<exists>go. ?walk 0 count nothing_seen = Inr (go, fold see_field dir nothing_seen)"
  proof (cases "count = length dir")
    case True
    with walked [of 0 nothing_seen] show ?thesis by (auto intro: exI [of _ True])
  next
    case False
    with assms(6) obtain tag type t where stop: "length dir < count" "trailing = enc16 little tag @ enc16 little type @ t"
      "type_size (unat type) = 0" by (auto simp: stops_at_def)
    from stop(1) have "count = length dir + Suc (count - length dir - 1)" by simp
    with walked [of "Suc (count - length dir - 1)"] tiff_entries_stop [OF rest [unfolded stop(2)] stop(3) assms(4)]
    show ?thesis by metis
  qed
  with n unat_of_nat16 [OF assms(2)] show ?thesis by (simp add: ForEachTiffEntry_def)
qed

definition tag_value :: "(u16 \<times> (u16 + u32)) list \<Rightarrow> nat \<Rightarrow> nat option" where
  "tag_value dir = map_of (rev (map (\<lambda>(tag, v). (unat tag, field_value v)) dir))"

definition or_default :: "nat \<Rightarrow> nat option \<Rightarrow> nat" where
  "or_default n v = (case v of None \<Rightarrow> n | Some k \<Rightarrow> k)"

lemma fold_see_field:
  "fold see_field dir nothing_seen = \<lparr>ts_width = tag_value dir kTagImageWidth, ts_height = tag_value dir kTagImageLength,
     ts_bits = or_default 8 (tag_value dir kTagBitsPerSample), ts_samples = or_default 1 (tag_value dir kTagSamplesPerPixel),
     ts_make = [], ts_has_dng = (tag_value dir kTagDngVersion \<noteq> None)\<rparr>"
proof (induction dir rule: rev_induct)
  case Nil
  then show ?case by (simp add: nothing_seen_def tag_value_def or_default_def)
next
  case (snoc f dir)
  have "tag_value (dir @ [f]) tag = (if unat (fst f) = tag then Some (field_value (snd f)) else tag_value dir tag)" for tag
    by (auto simp: tag_value_def split: prod.split)
  with snoc show ?case by (auto simp: see_field_def tiff_constants or_default_def split: prod.split)
qed

text \<open>
  A TIFF directory of SHORT and LONG entries, in either byte order, gives the last width and length in it and the file's
  kind; the entries from the first one of another type on (a RATIONAL, say) are not looked at, so that a
  DNG file whose resolution comes before its DNGVersion is taken for a plain TIFF.
\<close>

theorem ParseImageHeader_tiff:
  assumes "data = tiff_file little gap count dir trailing" "count < 2 ^ 16"
    "8 + length gap + 2 + 12 * length dir \<le> kMaxHeaderSize" "stops_at little count dir trailing"
    "take 2 (gap @ enc16 little (of_nat count)) \<noteq> [0x43, 0x52]"
  shows "ParseImageHeader (Some data) (length data) = Inr (case (tag_value dir kTagImageWidth, tag_value dir kTagImageLength) of
      (Some width, Some height) \<Rightarrow>
        if width = 0 \<or> height = 0 then None
        else Some (if tag_value dir kTagDngVersion = None
          then \<lparr>ih_format = kTiff, ih_width = int width, ih_height = int height,
            ih_pixel_format = tiff_pixels (fold see_field dir nothing_seen), ih_mime_type = ''image/tiff''\<rparr>
          else \<lparr>ih_format = kRaw, ih_width = int width, ih_height = int height,
            ih_pixel_format = tiff_pixels (fold see_field dir nothing_seen), ih_mime_type = ''image/x-adobe-dng''\<rparr>)
    | _ \<Rightarrow> None)"
proof -
  let ?sz = "min (length data) kMaxHeaderSize" and ?s = "fold see_field dir nothing_seen"
  have len: "8 + length gap + 2 + 12 * length dir \<le> ?sz" "?sz \<le> length data" "?sz \<le> 2 ^ 20"
    using assms(1,3) by (auto simp: tiff_file_def kMaxHeaderSize_def)
  obtain t where head: "data = (if little then [0x49, 0x49] else [0x4D, 0x4D]) @ enc16 little 42 @ t"
    using assms(1) by (simp add: tiff_file_def)
  from detect_tiff [OF head _ len(2)] len(1) obtain f where
    f: "DetectImageFormat (Some data) ?sz = Inr f" "f = kTiff \<or> f = kRaw" and little: "TiffLittleEndian data = Inr little"
    by auto
  have "drop 4 data = enc32 little (of_nat (8 + length gap)) @ gap @ enc16 little (of_nat count) @ concat (map (tiff_field little) dir) @ trailing"
    using assms(1) by (simp add: tiff_file_def)
  note at4 = this and at8 = drop_append_rest [OF this]
  have "unat (of_nat (8 + length gap) :: u32) = 8 + length gap"
    using assms(3) by (simp only: unat_of_nat) (simp add: take_bit_nat_eq_self kMaxHeaderSize_def)
  then have off: "ReadU32 data ?sz 4 little = Inr (Some (of_nat (8 + length gap)))"
      "unat (of_nat (8 + length gap) :: u32) = 8 + length gap"
    using ReadU32_enc [OF at4, of ?sz] len(1) by auto
  have "Suc (Suc 0) \<le> length (gap @ enc16 little (of_nat count))" by simp
  then obtain a b u where two: "gap @ enc16 little (of_nat count) = a # b # u"
    unfolding Suc_le_length_iff by blast
  then have "drop 8 data = a # b # u @ concat (map (tiff_field little) dir) @ trailing" using at8 by simp
  note ab = byte_at_drop [OF this] byte_at_drop [OF drop_Suc_rest [OF this]]
  have cr2: "is_cr2 data ?sz = Inr False"
    using ab two assms(5) len(1) by (auto simp: is_cr2_def eval_nat_numeral)
  from tiff_walk [OF assms(1,2) len assms(4)] obtain go where
    "ForEachTiffEntry data ?sz (8 + length gap) little (geometry_entry data ?sz little) nothing_seen = Inr (go, ?s)" by blast
  with little off cr2 have "ParseTiff data ?sz = Inr (tiff_info False ?s)" by (simp add: ParseTiff_def need_def)
  moreover have "data \<noteq> []" using head by auto
  ultimately have "ParseImageHeader (Some data) (length data) = Inr (tiff_info False ?s)"
    using ParseImageHeader_as [OF f(1)] f(2) by auto
  then show ?thesis
    by (simp add: tiff_info_def tiff_kind_def fold_see_field starts_with_def split: option.split)
qed

section \<open>OpenEXR\<close>

text \<open>The two attributes that are read, and any other.\<close>

datatype exr_attr =
    DataWindow u32 u32 u32 u32
  | Channels string u32 "byte list"
  | OtherAttr string string "byte list"

fun attr_name :: "exr_attr \<Rightarrow> string" where
  "attr_name (DataWindow x1 y1 x2 y2) = ''dataWindow''"
| "attr_name (Channels cname pixel_type rest) = ''channels''"
| "attr_name (OtherAttr name type val) = name"

fun attr_type :: "exr_attr \<Rightarrow> string" where
  "attr_type (DataWindow x1 y1 x2 y2) = ''box2i''"
| "attr_type (Channels cname pixel_type rest) = ''chlist''"
| "attr_type (OtherAttr name type val) = type"

fun attr_value :: "exr_attr \<Rightarrow> byte list" where
  "attr_value (DataWindow x1 y1 x2 y2) = enc32 True x1 @ enc32 True y1 @ enc32 True x2 @ enc32 True y2"
| "attr_value (Channels cname pixel_type rest) = bytes_of cname @ 0 # enc32 True pixel_type @ rest"
| "attr_value (OtherAttr name type val) = val"

definition exr_text :: "string \<Rightarrow> bool" where
  "exr_text s \<longleftrightarrow> CHR 0x00 \<notin> set s"

definition attr_ok :: "exr_attr \<Rightarrow> bool" where
  "attr_ok a \<longleftrightarrow> attr_name a \<noteq> [] \<and> exr_text (attr_name a) \<and> exr_text (attr_type a) \<and> length (attr_value a) < 2 ^ 32 \<and>
     (case a of OtherAttr name type val \<Rightarrow> name \<noteq> ''dataWindow'' \<and> name \<noteq> ''channels''
      | Channels cname pixel_type rest \<Rightarrow> cname \<noteq> [] \<and> exr_text cname | _ \<Rightarrow> True)"

definition enc_attr :: "exr_attr \<Rightarrow> byte list" where
  "enc_attr a = bytes_of (attr_name a) @ 0 # bytes_of (attr_type a) @ 0 #
     enc32 True (of_nat (length (attr_value a))) @ attr_value a"

fun see_attr :: "exr_attr \<Rightarrow> exr_seen \<Rightarrow> exr_seen" where
  "see_attr (DataWindow x1 y1 x2 y2) s = s\<lparr>es_window := Some (sint x2 - sint x1 + 1, sint y2 - sint y1 + 1)\<rparr>"
| "see_attr (Channels cname t rest) s = s\<lparr>es_sample_type := if t = 0 then ''uint32'' else if t = 1 then ''float16''
     else if t = 2 then ''float32'' else ''unknown''\<rparr>"
| "see_attr (OtherAttr name type val) s = s"

lemma exr_text_bytes: "exr_text s \<Longrightarrow> 0 \<notin> set (bytes_of s)"
proof -
  have "(of_char (CHR 0x00) :: byte) = 0" by simp
  then have "(of_char c :: byte) = 0 \<Longrightarrow> c = CHR 0x00" for c using of_char_byte_inj by metis
  then show "exr_text s \<Longrightarrow> 0 \<notin> set (bytes_of s)" by (force simp: exr_text_def bytes_of_def)
qed

lemma length_bytes_of [simp]: "length (bytes_of s) = length s"
  by (simp add: bytes_of_def)

lemma find_nul_run:
  "drop p data = xs @ 0 # t \<Longrightarrow> 0 \<notin> set xs \<Longrightarrow> p + length xs < limit \<Longrightarrow> find_nul data limit p = Inr (p + length xs)"
proof (induction xs arbitrary: p)
  case Nil
  then show ?case by (subst find_nul.simps) (simp add: byte_at_drop)
next
  case (Cons x xs)
  then have d: "drop p data = x # xs @ 0 # t" by simp
  from Cons.IH [of "Suc p"] drop_Suc_rest [OF d] Cons.prems(2,3) byte_at_drop [OF d] show ?case
    by (subst find_nul.simps) auto
qed

lemma read_cstring_text:
  assumes "drop off data = bytes_of s @ 0 # t" "exr_text s" "off + length s < sz"
  shows "read_cstring data sz off = Inr (Some (s, off + length s + 1))"
proof -
  from find_nul_run [OF assms(1) exr_text_bytes [OF assms(2)], of sz] assms(3)
  have nul: "find_nul data sz off = Inr (off + length s)" by simp
  have "bytes_at data off (length s) = Inr (bytes_of s)"
  proof (cases "s = []")
    case True
    from drop_length [of off data "[0]" t] assms(1) True show ?thesis by (simp add: bytes_at_def bytes_of_def)
  next
    case False
    with bytes_at_drop [OF assms(1)] show ?thesis by (simp add: bytes_of_def)
  qed
  with nul assms(3) show ?thesis by (simp add: read_cstring_def)
qed

lemma exr_attribute_enc:
  assumes "drop p data = attr_value a @ t" "p + length (attr_value a) \<le> sz" "attr_ok a"
  shows "exr_attribute data sz (attr_name a) (attr_type a) (length (attr_value a)) p s = Inr (see_attr a s)"
proof (cases a)
  case (DataWindow x1 y1 x2 y2)
  with assms(1) have d: "drop p data = enc32 True x1 @ enc32 True y1 @ enc32 True x2 @ enc32 True y2 @ t" by simp
  have d4: "drop (p + 4) data = enc32 True y1 @ enc32 True x2 @ enc32 True y2 @ t" by (rule drop_at [OF d]) simp
  have d8: "drop (p + 8) data = enc32 True x2 @ enc32 True y2 @ t" by (rule drop_at [OF d4]) simp
  have d12: "drop (p + 12) data = enc32 True y2 @ t" by (rule drop_at [OF d8]) simp
  from ReadU32_enc [OF d, of sz] ReadU32_enc [OF d4, of sz] ReadU32_enc [OF d8, of sz] ReadU32_enc [OF d12, of sz]
    DataWindow assms(2)
  show ?thesis by (simp add: exr_attribute_def exr_window_def)
next
  case (Channels cname pt rest)
  with assms(3) have c: "cname \<noteq> []" "exr_text cname" by (auto simp: attr_ok_def)
  let ?n = "length (attr_value a)"
  from Channels assms(1) have d: "drop p data = bytes_of cname @ 0 # enc32 True pt @ rest @ t" by simp
  have d1: "drop (p + length cname + 1) data = enc32 True pt @ rest @ t"
    by (rule drop_at [of p data "bytes_of cname @ [0]"]) (simp_all add: d)
  from find_nul_run [OF d exr_text_bytes [OF c(2)], of "p + ?n"] ReadU32_enc [OF d1, of "p + ?n"] Channels c(1)
  show ?thesis by (simp add: exr_attribute_def exr_channels_def)
next
  case (OtherAttr name type val)
  with assms(3) show ?thesis by (auto simp: exr_attribute_def attr_ok_def)
qed

lemma exr_loop_attr:
  assumes "drop off data = enc_attr a @ t" "off + length (enc_attr a) \<le> sz" "attr_ok a"
  shows "exr_loop data sz off s = exr_loop data sz (off + length (enc_attr a)) (see_attr a s)"
proof -
  let ?n = "length (attr_name a)" and ?m = "length (attr_type a)" and ?v = "length (attr_value a)"
  let ?o2 = "off + ?n + 1 + ?m + 1"
  have len: "length (enc_attr a) = ?n + ?m + ?v + 6" by (simp add: enc_attr_def)
  have ok: "attr_name a \<noteq> []" "exr_text (attr_name a)" "exr_text (attr_type a)" "?v < 2 ^ 32"
    using assms(3) by (auto simp: attr_ok_def)
  have d: "drop off data = bytes_of (attr_name a) @ 0 # bytes_of (attr_type a) @ 0 # enc32 True (of_nat ?v) @ attr_value a @ t"
    using assms(1) by (simp add: enc_attr_def)
  have d1: "drop (off + ?n + 1) data = bytes_of (attr_type a) @ 0 # enc32 True (of_nat ?v) @ attr_value a @ t"
    by (rule drop_at [of off data "bytes_of (attr_name a) @ [0]"]) (simp_all add: d)
  have d2: "drop ?o2 data = enc32 True (of_nat ?v) @ attr_value a @ t"
    by (rule drop_at [of "off + ?n + 1" data "bytes_of (attr_type a) @ [0]"]) (simp_all only: d1, simp_all)
  have d3: "drop (?o2 + 4) data = attr_value a @ t" by (rule drop_at [OF d2]) simp
  have v: "unat (of_nat ?v :: u32) = ?v"
    using ok(4) by (simp only: unat_of_nat) (simp add: take_bit_nat_eq_self)
  from read_cstring_text [OF d ok(2), of sz] read_cstring_text [OF d1 ok(3), of sz] ReadU32_enc [OF d2, of sz]
    exr_attribute_enc [OF d3 _ assms(3), of sz s] assms(2) len v ok(1)
  show ?thesis
    by (subst exr_loop.simps) (auto simp: need_def algebra_simps)
qed

lemma exr_loop_attrs:
  assumes "drop off data = concat (map enc_attr attrs) @ 0 # t" "\<forall>a\<in>set attrs. attr_ok a"
    "off + length (concat (map enc_attr attrs)) < sz"
  shows "exr_loop data sz off s = Inr (Some (fold see_attr attrs s))"
  using assms
proof (induction attrs arbitrary: off s)
  case Nil
  from read_cstring_text [of off data "[]" t sz] Nil show ?case
    by (subst exr_loop.simps) (simp add: need_def bytes_of_def exr_text_def)
next
  case (Cons a attrs)
  then have d: "drop off data = enc_attr a @ concat (map enc_attr attrs) @ 0 # t" by simp
  from exr_loop_attr [OF d, of sz s] Cons.prems(2,3) Cons.IH [OF drop_append_rest [OF d], of "see_attr a s"]
  show ?case by (simp add: add.assoc)
qed

text \<open>
  An OpenEXR header is read attribute by attribute, names, types and sizes framing each other: the last data
  window gives the dimensions, the last channel list the sample type, and every other attribute is skipped.
\<close>

theorem ParseImageHeader_exr:
  assumes "data = [0x76, 0x2F, 0x31, 0x01] @ version @ concat (map enc_attr attrs) @ 0 # trailing" "length version = 4"
    "\<forall>a\<in>set attrs. attr_ok a" "8 + length (concat (map enc_attr attrs)) < kMaxHeaderSize"
  shows "ParseImageHeader (Some data) (length data) =
    Inr (exr_info (fold see_attr attrs \<lparr>es_window = None, es_sample_type = []\<rparr>))"
proof -
  let ?sz = "min (length data) kMaxHeaderSize" and ?as = "concat (map enc_attr attrs)"
  have sz: "8 + length ?as < ?sz" "?sz \<le> length data" using assms(1,2,4) by auto
  have "match_bytes data 0 [0xFF, 0xD8, 0xFF] = Inr False" "bytes_at data 0 8 \<noteq> Inr kPngMagic"
      "match_bytes data 0 [0x76, 0x2F, 0x31, 0x01] = Inr True"
    using assms(1) by (auto simp: byte_at_def bytes_at_def kPngMagic_def)
  moreover from sz have "reads (bytes_at data 0 8)" by simp
  ultimately have exr: "DetectImageFormat (Some data) ?sz = Inr kExr"
    using sz by (auto simp: DetectImageFormat_def IsJpeg_def IsPng_def IsExr_def reads_def simp del: match_bytes.simps)
  have "drop 8 data = ?as @ 0 # trailing" using assms(1,2) by simp
  from exr_loop_attrs [OF this assms(3) sz(1)] sz(1) assms(1) ParseImageHeader_as [OF exr]
  show ?thesis by (auto simp: ParseExr_def need_def)
qed

section \<open>Witnesses\<close>

lemma printed: "nat_to_string 8 = ''8''" "nat_to_string 16 = ''16''"
  by code_simp+

lemma ParseImageHeader_jpeg_witness:
  "ParseImageHeader (Some (jpeg_head [(1, 0xE0, [0x4A, 0x46])] 0 0xC0 17 8 480 640 3 @ [0xFF, 0xD9]))
     (length (jpeg_head [(1, 0xE0, [0x4A, 0x46])] 0 0xC0 17 8 480 640 3 @ [0xFF, 0xD9])) =
   Inr (Some \<lparr>ih_format = kJpeg, ih_width = 640, ih_height = 480, ih_pixel_format = ''rgb8'', ih_mime_type = ''image/jpeg''\<rparr>)"
  using ParseImageHeader_jpeg [of "[(1, 0xE0, [0x4A, 0x46])]" "0xC0" 17 _ 0 8 480 640 3 "[0xFF, 0xD9]", OF _ _ _ refl]
  by (simp add: skippable_def is_sof_def jpeg_standalone_def jpeg_head_def jpeg_segment_def kMaxHeaderSize_def
    channels_name_def printed word_le_nat_alt)

definition demo_dir :: "(u16 \<times> (u16 + u32)) list" where
  "demo_dir = [(0x0100, Inr 4000), (0x0101, Inl 3000), (0x0102, Inl 16), (0x0115, Inl 3)]"

text \<open>XResolution is a RATIONAL (type 5); DNGVersion comes behind it.\<close>

definition demo_trailing :: "byte list" where
  "demo_trailing = enc16 True 0x011A @ enc16 True 5 @ [1, 0, 0, 0, 0, 1, 0, 0] @
     enc16 True 0xC612 @ enc16 True 1 @ [4, 0, 0, 0, 1, 4, 0, 0]"

lemma ParseImageHeader_tiff_witness:
  "ParseImageHeader (Some (tiff_file True [] 6 demo_dir demo_trailing)) (length (tiff_file True [] 6 demo_dir demo_trailing)) =
   Inr (Some \<lparr>ih_format = kTiff, ih_width = 4000, ih_height = 3000, ih_pixel_format = ''rgb16'', ih_mime_type = ''image/tiff''\<rparr>)"
proof -
  have "stops_at True 6 demo_dir demo_trailing"
    unfolding stops_at_def demo_trailing_def
    by (rule disjI2, rule conjI, simp add: demo_dir_def, rule exI [of _ "0x011A"], rule exI [of _ 5], rule exI)
      (simp add: type_size_def)
  then show ?thesis
    using ParseImageHeader_tiff [OF refl, of 6 "[]" demo_dir True demo_trailing]
    by (simp add: kMaxHeaderSize_def enc16_def tag_value_def demo_dir_def tiff_constants field_value_def tiff_pixels_def
      see_field_def nothing_seen_def printed)
qed

definition demo_attrs :: "exr_attr list" where
  "demo_attrs = [Channels ''R'' 1 [0, 0], OtherAttr ''owner'' ''string'' [0x61], DataWindow (- 8) 0 1911 1079]"

definition demo_exr :: "byte list" where
  "demo_exr = [0x76, 0x2F, 0x31, 0x01] @ [2, 0, 0, 0] @ concat (map enc_attr demo_attrs) @ 0 # []"

lemma ParseImageHeader_exr_witness:
  "ParseImageHeader (Some demo_exr) (length demo_exr) =
   Inr (Some \<lparr>ih_format = kExr, ih_width = 1920, ih_height = 1080, ih_pixel_format = ''float16'', ih_mime_type = ''image/x-exr''\<rparr>)"
proof -
  have "\<forall>a\<in>set demo_attrs. attr_ok a" by (simp add: demo_attrs_def attr_ok_def exr_text_def)
  moreover have "8 + length (concat (map enc_attr demo_attrs)) < kMaxHeaderSize"
    by (simp add: demo_attrs_def enc_attr_def kMaxHeaderSize_def)
  ultimately show ?thesis
    using ParseImageHeader_exr [OF demo_exr_def] by (simp add: exr_info_def demo_attrs_def)
qed

end
