(* ===== verification/ImageImport.thy ===== *)
theory ImageImport
  imports ArtifactStore Calibrations SceneVersions ImageFiles
begin

text \<open>
  importers/images/image_importer_main.cpp, the importer that the build compiles, and the identities of
  core/scene/identity.h: a batch of image files becomes artifacts, frames and observations of a scene,
  and the rejected ones become rejection records. The state is the artifact store and the scene
  tables; what \<open>ReadFile\<close> finds and the build's version are parameters.
\<close>

section \<open>State and data\<close>

record import_state =
  im_world :: world
  im_scene :: scene_db

type_synonym 'a import_op = "import_state \<Rightarrow> 'a res \<times> import_state"

definition on_store :: "'a w_op \<Rightarrow> 'a import_op" where
  "on_store f s = (case f (im_world s) of (r, w) \<Rightarrow> (r, s\<lparr>im_world := w\<rparr>))"

definition on_scene :: "'a scene_op \<Rightarrow> 'a import_op" where
  "on_scene f s = (case f (im_scene s) of (r, d) \<Rightarrow> (r, s\<lparr>im_scene := d\<rparr>))"

definition random_bytes :: "byte list w_op" where
  "random_bytes w = (Inr (w_random w (w_tick w)), w_step w)"

record ImageSourceFile =
  sf_path :: string
  sf_source_uri :: string
  sf_sensor_id :: uuid
  sf_timestamp_ns :: int

text \<open>\<open>ImageImporterConfig\<close>, the project, and the environment: the JSON library, the files, the build.\<close>

record importer =
  ii_allowlist :: "ImageFormat list"
  ii_batch_name :: string
  ii_project_id :: uuid
  ii_lib :: json_lib
  ii_read_file :: "string \<Rightarrow> byte list res"
  ii_version :: string
  ii_git_commit :: string

record ImageImportEntry =
  ie_frame_id :: uuid
  ie_observation_id :: uuid
  ie_artifact_uuid :: uuid
  ie_content_hash :: string
  ie_mime_type :: string
  ie_width :: int
  ie_height :: int
  ie_pixel_format :: string
  ie_reimported :: bool
  ie_new_instance :: bool
  ie_uncalibrated :: bool

record ImageImportFailure =
  if_source_uri :: string
  if_code :: error_code
  if_diagnostic :: string

record ImageImportResult =
  ir_session :: uuid
  ir_imported :: "ImageImportEntry list"
  ir_failures :: "ImageImportFailure list"

section \<open>Identity\<close>

definition PlatformIdentityNamespace :: uuid where
  "PlatformIdentityNamespace = projr (ParseUuid ''1a2b3c4d-5e6f-4a8b-9c0d-1e2f3a4b5c6d'')"

definition EntityIdentityName :: "string \<Rightarrow> uuid \<Rightarrow> int \<Rightarrow> string \<Rightarrow> string" where
  "EntityIdentityName pre sensor_id timestamp_ns content_hash =
     pre @ ''|'' @ FormatUuid sensor_id @ ''|'' @ int_to_string timestamp_ns @ ''|'' @ content_hash"

definition DeriveFrameId :: "uuid \<Rightarrow> int \<Rightarrow> string \<Rightarrow> uuid" where
  "DeriveFrameId sensor_id timestamp_ns content_hash =
     GenerateUuidV5 PlatformIdentityNamespace (EntityIdentityName ''frame'' sensor_id timestamp_ns content_hash)"

definition DeriveObservationId :: "uuid \<Rightarrow> int \<Rightarrow> string \<Rightarrow> uuid" where
  "DeriveObservationId sensor_id timestamp_ns content_hash =
     GenerateUuidV5 PlatformIdentityNamespace (EntityIdentityName ''observation'' sensor_id timestamp_ns content_hash)"

section \<open>Provenance\<close>

definition ConfigurationHash :: "importer \<Rightarrow> string res" where
  "ConfigurationHash imp = rbind (jl_dump (ii_lib imp) (JObj
     [(''allowlist'', string_array (sort (map FormatName (ii_allowlist imp)))),
      (''batch_name'', JStr (ii_batch_name imp)), (''raw_policy'', JStr ''opaque'')])) (\<lambda>text. Inr (Sha256Hex (bytes_of text)))"

definition ProducerJson :: "importer \<Rightarrow> string res" where
  "ProducerJson imp = jl_dump (ii_lib imp) (JObj
     [(''git_commit'', JStr (ii_git_commit imp)), (''id'', JStr ''image-import''), (''version'', JStr (ii_version imp))])"

definition properties_json :: "importer \<Rightarrow> string res" where
  "properties_json imp = rbind (ConfigurationHash imp) (\<lambda>h.
     jl_dump (ii_lib imp) (JObj [(''configuration_hash'', JStr h)]))"

definition MakeManifest :: "importer \<Rightarrow> ImageHeaderInfo \<Rightarrow> nat \<Rightarrow> ArtifactManifest res" where
  "MakeManifest imp header file_size = rbind (ConfigurationHash imp) (\<lambda>config. Inr (default_manifest
     \<lparr>am_type := ''image'', am_schema_version := 1,
      am_producer := \<lparr>pi_id = ''image-import'', pi_version = ii_version imp, pi_git_commit = ii_git_commit imp\<rparr>,
      am_configuration_hash := config, am_coordinate_frame := ''image'', am_unit := ''meter'',
      am_file_size := int file_size, am_mime_type := ih_mime_type header, am_validation_status := ''valid'',
      am_width := ih_width header, am_height := ih_height header, am_pixel_format := ih_pixel_format header\<rparr>))"

section \<open>One file\<close>

definition rejection_row :: "importer \<Rightarrow> uuid \<Rightarrow> string \<Rightarrow> string \<Rightarrow> error_code \<Rightarrow> string \<Rightarrow> int \<Rightarrow> uuid \<Rightarrow> int \<Rightarrow> ImportRejectionRow" where
  "rejection_row imp session_id uri mime code diagnostic seq rejection_id now =
     \<lparr>ir_rejection_id = rejection_id, ir_project_id = ii_project_id imp, ir_session_id = session_id,
      ir_sequence_index = seq, ir_source_path = uri, ir_mime_type = mime, ir_importer = ''image-import'',
      ir_importer_version = ii_version imp, ir_error_code = StableErrorCode code, ir_diagnostic = diagnostic,
      ir_rejected_at_ns = now\<rparr>"

definition RecordRejection :: "importer \<Rightarrow> uuid \<Rightarrow> string \<Rightarrow> string \<Rightarrow> error_code \<Rightarrow> string \<Rightarrow> int \<Rightarrow> unit import_op" where
  "RecordRejection imp session_id uri mime code diagnostic seq =
     sbind (on_store new_uuid) (\<lambda>rejection_id. sbind (on_store TimestampNsNow) (\<lambda>now.
       on_scene (InsertImportRejection (rejection_row imp session_id uri mime code diagnostic seq rejection_id now))))"

text \<open>\<open>*failure = {...}; RecordRejection(...); return std::nullopt\<close>: the failure is the left result.\<close>

definition reject :: "importer \<Rightarrow> uuid \<Rightarrow> string \<Rightarrow> string \<Rightarrow> error_code \<Rightarrow> string \<Rightarrow> int \<Rightarrow> (ImageImportFailure + ImageImportEntry) import_op" where
  "reject imp session_id uri mime code diagnostic seq =
     sbind (RecordRejection imp session_id uri mime code diagnostic seq) (\<lambda>_.
       sret (Inl \<lparr>if_source_uri = uri, if_code = code, if_diagnostic = diagnostic\<rparr>))"

definition frame_row :: "ImageSourceFile \<Rightarrow> string \<Rightarrow> int \<Rightarrow> uuid \<Rightarrow> uuid \<Rightarrow> FrameRow" where
  "frame_row file hash seq scene_id session_id =
     \<lparr>fr_frame_id = DeriveFrameId (sf_sensor_id file) (sf_timestamp_ns file) hash, fr_scene_id = scene_id,
      fr_session_id = session_id, fr_timestamp_ns = sf_timestamp_ns file, fr_sequence_index = seq,
      fr_sensor_id = sf_sensor_id file, fr_pose_ref = nil_uuid, fr_properties_json = []\<rparr>"

definition observation_row :: "ImageSourceFile \<Rightarrow> string \<Rightarrow> uuid \<Rightarrow> uuid \<Rightarrow> uuid \<Rightarrow> string \<Rightarrow> string \<Rightarrow> ObservationRow" where
  "observation_row file hash scene_id session_id artifact_uuid source_json props =
     \<lparr>ob_observation_id = DeriveObservationId (sf_sensor_id file) (sf_timestamp_ns file) hash, ob_scene_id = scene_id,
      ob_sensor_id = sf_sensor_id file, ob_frame_id = DeriveFrameId (sf_sensor_id file) (sf_timestamp_ns file) hash,
      ob_session_id = session_id, ob_timestamp_ns = sf_timestamp_ns file, ob_type = ''image'',
      ob_artifact_ref = FormatUuid artifact_uuid, ob_source_json = source_json, ob_properties_json = props,
      ob_width = 0, ob_height = 0, ob_pixel_format = []\<rparr>"

definition payload_row :: "ImageSourceFile \<Rightarrow> string \<Rightarrow> ImageHeaderInfo \<Rightarrow> ObservationPayloadRow" where
  "payload_row file hash header =
     \<lparr>op_observation_id = DeriveObservationId (sf_sensor_id file) (sf_timestamp_ns file) hash,
      op_width = ih_width header, op_height = ih_height header, op_pixel_format = ih_pixel_format header\<rparr>"

definition new_entry :: "ImageSourceFile \<Rightarrow> string \<Rightarrow> ImageHeaderInfo \<Rightarrow> bool \<Rightarrow> ImageImportEntry" where
  "new_entry file hash header uncalibrated =
     \<lparr>ie_frame_id = DeriveFrameId (sf_sensor_id file) (sf_timestamp_ns file) hash,
      ie_observation_id = DeriveObservationId (sf_sensor_id file) (sf_timestamp_ns file) hash,
      ie_artifact_uuid = nil_uuid, ie_content_hash = hash, ie_mime_type = ih_mime_type header,
      ie_width = ih_width header, ie_height = ih_height header, ie_pixel_format = ih_pixel_format header,
      ie_reimported = False, ie_new_instance = False, ie_uncalibrated = uncalibrated\<rparr>"

text \<open>The payload, as a new one or as a new instance of a stored one.\<close>

definition write_payload :: "importer \<Rightarrow> byte list \<Rightarrow> ImageHeaderInfo \<Rightarrow> (ArtifactWriteResult \<times> bool) import_op" where
  "write_payload imp bytes header =
     sbind (lift_res (MakeManifest imp header (length bytes))) (\<lambda>manifest.
     sbind (on_store (on_db (FindArtifactByHash (Sha256Hex bytes)))) (\<lambda>found.
       if found \<noteq> None
       then sbind (on_store (PutInstance (ii_lib imp) (Sha256Hex bytes) manifest)) (\<lambda>written. sret (written, True))
       else sbind (on_store (Put (ii_lib imp) bytes manifest)) (\<lambda>written. sret (written, False))))"

text \<open>The canonical records; the statements are separate, with no transaction around them.\<close>

definition write_records :: "importer \<Rightarrow> ImageSourceFile \<Rightarrow> string \<Rightarrow> ImageHeaderInfo \<Rightarrow> int \<Rightarrow> uuid \<Rightarrow> uuid \<Rightarrow> uuid \<Rightarrow> unit import_op" where
  "write_records imp file hash header seq scene_id session_id artifact_uuid =
     sbind (on_scene (InsertFrame (frame_row file hash seq scene_id session_id))) (\<lambda>_.
     sbind (lift_res (ProducerJson imp)) (\<lambda>source_json.
     sbind (lift_res (properties_json imp)) (\<lambda>props.
     sbind (on_scene (InsertObservation (observation_row file hash scene_id session_id artifact_uuid source_json props))) (\<lambda>_.
       on_scene (InsertObservationPayload (payload_row file hash header))))))"

definition import_image :: "importer \<Rightarrow> ImageSourceFile \<Rightarrow> byte list \<Rightarrow> ImageHeaderInfo \<Rightarrow> bool \<Rightarrow> int \<Rightarrow> uuid \<Rightarrow> uuid \<Rightarrow> ImageImportEntry import_op" where
  "import_image imp file bytes header uncalibrated seq scene_id session_id =
     (let hash = Sha256Hex bytes; entry = new_entry file hash header uncalibrated in
      sbind (on_scene (ObservationExists (ie_observation_id entry))) (\<lambda>present.
        if present then sret (entry\<lparr>ie_reimported := True\<rparr>)
        else
          sbind (write_payload imp bytes header) (\<lambda>(written, new_instance).
          sbind (write_records imp file hash header seq scene_id session_id (wr_artifact_uuid written)) (\<lambda>_.
            sret (entry\<lparr>ie_new_instance := new_instance, ie_artifact_uuid := wr_artifact_uuid written,
              ie_content_hash := wr_content_hash written\<rparr>)))))"

text \<open>
  Sensor and time, once the header is known; \<open>projr\<close> below is safe, since detection and parsing never
  fault (\<open>reads_DetectImageFormat\<close> and the lemmas behind \<open>ParseImageHeader\<close>).
\<close>

definition resolve_context :: "importer \<Rightarrow> ImageSourceFile \<Rightarrow> string \<Rightarrow> byte list \<Rightarrow> ImageHeaderInfo \<Rightarrow> int \<Rightarrow> uuid \<Rightarrow> uuid \<Rightarrow>
    (ImageImportFailure + ImageImportEntry) import_op" where
  "resolve_context imp file uri bytes header seq scene_id session_id =
     sbind (on_scene (FindSensor (sf_sensor_id file))) (\<lambda>sensor.
       if sensor = None then
         reject imp session_id uri (ih_mime_type header) kImportSensorUnresolved
           (''no registered sensor: '' @ FormatUuid (sf_sensor_id file)) seq
       else if sf_timestamp_ns file = 0 then
         reject imp session_id uri (ih_mime_type header) kImportTimestampUnresolvable
           ''capture time cannot resolve to the platform time domain'' seq
       else
         sbind (on_scene (ResolveCalibrationAt (sf_sensor_id file) (sf_timestamp_ns file))) (\<lambda>calibration.
         sbind (import_image imp file bytes header (calibration = None) seq scene_id session_id) (\<lambda>entry. sret (Inr entry))))"

definition good_header :: "ImageHeaderInfo option \<Rightarrow> ImageHeaderInfo option" where
  "good_header h = (case h of None \<Rightarrow> None
     | Some i \<Rightarrow> if ih_width i < 1 \<or> ih_height i < 1 \<or> ih_pixel_format i = [] then None else Some i)"

definition ProcessFile :: "importer \<Rightarrow> ImageSourceFile \<Rightarrow> int \<Rightarrow> uuid \<Rightarrow> uuid \<Rightarrow> (ImageImportFailure + ImageImportEntry) import_op" where
  "ProcessFile imp file seq scene_id session_id =
     (let uri = (if sf_source_uri file = [] then sf_path file else sf_source_uri file) in
      case ii_read_file imp (sf_path file) of
        Inl (Thrown e) \<Rightarrow> reject imp session_id uri [] kImportUnreadable (pe_message e) seq
      | Inl (StdException m) \<Rightarrow> sthrow (StdException m)
      | Inr bytes \<Rightarrow>
          let format = projr (DetectImageFormat (Some bytes) (length bytes)) in
          if format = kFmtUnknown \<or> format \<notin> set (ii_allowlist imp) then
            reject imp session_id uri [] kImportUnsupportedFormat ''format not in the import allowlist'' seq
          else case good_header (projr (ParseImageHeader (Some bytes) (length bytes))) of
            None \<Rightarrow> reject imp session_id uri [] kImportCorrupt ''header is truncated or has no image geometry'' seq
          | Some header \<Rightarrow> resolve_context imp file uri bytes header seq scene_id session_id)"

section \<open>A batch\<close>

fun import_files :: "importer \<Rightarrow> uuid \<Rightarrow> uuid \<Rightarrow> int \<Rightarrow> ImageSourceFile list \<Rightarrow> (ImageImportEntry list \<times> ImageImportFailure list) import_op" where
  "import_files imp scene_id session_id seq [] = sret ([], [])"
| "import_files imp scene_id session_id seq (f # fs) =
     sbind (ProcessFile imp f seq scene_id session_id) (\<lambda>r.
     sbind (import_files imp scene_id session_id (seq + 1) fs) (\<lambda>(imported, failures).
       sret (case r of Inr entry \<Rightarrow> (entry # imported, failures) | Inl failure \<Rightarrow> (imported, failure # failures))))"

definition import_error :: "string \<Rightarrow> exn" where
  "import_error msg = throw_error kImportValidationError msg"

text \<open>\<open>std::min\<close> and \<open>std::max\<close> over the batch, from the ends of \<open>int64_t\<close>.\<close>

definition session_row :: "importer \<Rightarrow> uuid \<Rightarrow> string \<Rightarrow> ImageSourceFile list \<Rightarrow> CaptureSessionRow" where
  "session_row imp session_id provenance ordered =
     \<lparr>cs_session_id = session_id, cs_project_id = ii_project_id imp, cs_name = ii_batch_name imp,
      cs_started_at_ns = fold (\<lambda>f t. min t (sf_timestamp_ns f)) ordered (2 ^ 63 - 1),
      cs_ended_at_ns = fold (\<lambda>f t. max t (sf_timestamp_ns f)) ordered (- (2 ^ 63)),
      cs_source_uri = sf_source_uri (hd ordered), cs_status = ''open'', cs_provenance_json = provenance\<rparr>"

definition open_session :: "importer \<Rightarrow> ImageSourceFile list \<Rightarrow> uuid option \<Rightarrow> uuid import_op" where
  "open_session imp ordered explicit_session = (case explicit_session of
       Some session \<Rightarrow> sbind (on_scene (FindSession session)) (\<lambda>found. case found of
           None \<Rightarrow> sthrow (import_error (''explicit capture session not found: '' @ FormatUuid session))
         | Some session_id \<Rightarrow> sret session_id)
     | None \<Rightarrow> sbind (on_store new_uuid) (\<lambda>session_id. sbind (lift_res (ProducerJson imp)) (\<lambda>provenance.
         sbind (on_scene (InsertCaptureSession (session_row imp session_id provenance ordered))) (\<lambda>_. sret session_id))))"

definition Import :: "importer \<Rightarrow> ImageSourceFile list \<Rightarrow> uuid option \<Rightarrow> ImageImportResult import_op" where
  "Import imp files explicit_session =
     (if files = [] then sthrow (import_error ''import batch is empty'')
      else
        let ordered = sort_key sf_source_uri files in
        sbind (open_session imp ordered explicit_session) (\<lambda>session_id.
        sbind (lift_res (ProducerJson imp)) (\<lambda>created_by.
        sbind (on_store TimestampNsNow) (\<lambda>now.
        sbind (on_store random_bytes) (\<lambda>r1. sbind (on_store random_bytes) (\<lambda>r2.
        sbind (on_scene (FindOrCreateScene r1 r2 (ii_project_id imp) (ii_batch_name imp) created_by now)) (\<lambda>scene.
        sbind (on_store random_bytes) (\<lambda>r3.
        sbind (on_scene (CreateSceneVersion r3 (sr_scene_id scene) ''imported'' created_by now)) (\<lambda>_.
        sbind (import_files imp (sr_scene_id scene) session_id 0 ordered) (\<lambda>(imported, failures).
          sret \<lparr>ir_session = session_id, ir_imported = imported, ir_failures = failures\<rparr>))))))))))"

section \<open>Identities\<close>

lemma FormatUuid_no_bar: "CHR ''|'' \<notin> set (FormatUuid u)"
proof -
  have "kHex ! n \<noteq> CHR ''|''" if "n < 16" for n
    using that by (auto simp: kHex_def less_Suc_eq numeral_eq_Suc)
  then have "CHR ''|'' \<notin> set (hex_byte b)" for b
    using nibble_bounds [of b] by (auto simp: hex_byte_def) metis+
  then show ?thesis by (auto simp: FormatUuid_def split: if_splits)
qed

lemma int_to_string_no_bar: "CHR ''|'' \<notin> set (int_to_string i)"
proof -
  have "c \<in> set (nat_to_string n) \<Longrightarrow> (of_char c :: nat) < 58" for c n
  proof (induction n rule: nat_to_string.induct)
    case (1 n)
    then show ?case by (subst (asm) (2) nat_to_string.simps) (auto split: if_splits)
  qed
  from this [of "CHR ''|''"] have "CHR ''|'' \<notin> set (nat_to_string n)" for n by auto
  then show ?thesis by (simp add: int_to_string_def)
qed

lemma EntityIdentityName_fields:
  assumes "CHR ''|'' \<notin> set pre" "CHR ''|'' \<notin> set hash"
  shows "fields_of (CHR ''|'') (EntityIdentityName pre sensor t hash) = [pre, FormatUuid sensor, int_to_string t, hash]"
  using assms by (simp add: EntityIdentityName_def fields_of_field fields_of_last FormatUuid_no_bar int_to_string_no_bar)

lemma EntityIdentityName_inj:
  assumes "CHR ''|'' \<notin> set pre" "CHR ''|'' \<notin> set hash" "CHR ''|'' \<notin> set pre'" "CHR ''|'' \<notin> set hash'"
    "length sensor = 16" "length sensor' = 16" "EntityIdentityName pre sensor t hash = EntityIdentityName pre' sensor' t' hash'"
  shows "pre = pre' \<and> sensor = sensor' \<and> t = t' \<and> hash = hash'"
proof -
  from EntityIdentityName_fields [OF assms(1,2), of sensor t] EntityIdentityName_fields [OF assms(3,4), of sensor' t'] assms(7)
  have parts: "[pre, FormatUuid sensor, int_to_string t, hash] = [pre', FormatUuid sensor', int_to_string t', hash']"
    by (simp only:)
  then have "FormatUuid sensor = FormatUuid sensor'" by blast
  with format_parse [OF assms(5)] format_parse [OF assms(6)] have "sensor = sensor'"
    by (metis sum.inject(2))
  moreover from parts have "pre = pre'" "hash = hash'" "int_to_string t = int_to_string t'" by blast+
  ultimately show ?thesis by (simp only: int_to_string_inj)
qed

text \<open>Two names that the v5 identity, a truncated SHA-1, does not tell apart.\<close>

definition identity_collision :: "string \<Rightarrow> string \<Rightarrow> bool" where
  "identity_collision a b \<longleftrightarrow> a \<noteq> b \<and>
     GenerateUuidV5 PlatformIdentityNamespace a = GenerateUuidV5 PlatformIdentityNamespace b"

text \<open>
  Frames (and observations) of two sources have one id only if sensor, capture time and content hash are the
  same, or two different names collide; a frame and an observation never share an id without a collision.
\<close>

theorem identity_determines:
  assumes "length sensor = 16" "length sensor' = 16" "CHR ''|'' \<notin> set hash" "CHR ''|'' \<notin> set hash'"
  shows "(DeriveFrameId sensor t hash = DeriveFrameId sensor' t' hash' \<longrightarrow>
      sensor = sensor' \<and> t = t' \<and> hash = hash' \<or>
      identity_collision (EntityIdentityName ''frame'' sensor t hash) (EntityIdentityName ''frame'' sensor' t' hash')) \<and>
    (DeriveObservationId sensor t hash = DeriveObservationId sensor' t' hash' \<longrightarrow>
      sensor = sensor' \<and> t = t' \<and> hash = hash' \<or>
      identity_collision (EntityIdentityName ''observation'' sensor t hash) (EntityIdentityName ''observation'' sensor' t' hash')) \<and>
    (DeriveFrameId sensor t hash = DeriveObservationId sensor' t' hash' \<longrightarrow>
      identity_collision (EntityIdentityName ''frame'' sensor t hash) (EntityIdentityName ''observation'' sensor' t' hash'))"
proof -
  have bars: "CHR ''|'' \<notin> set ''frame''" "CHR ''|'' \<notin> set ''observation''" by simp_all
  note inj = EntityIdentityName_inj [OF _ assms(3) _ assms(4) assms(1,2)]
  have "EntityIdentityName ''frame'' sensor t hash \<noteq> EntityIdentityName ''observation'' sensor' t' hash'"
    using inj [OF bars(1) bars(2), of t t'] by auto
  with inj [OF bars(1) bars(1), of t t'] inj [OF bars(2) bars(2), of t t'] show ?thesis
    unfolding DeriveFrameId_def DeriveObservationId_def identity_collision_def by blast
qed

lemma identity_determines_witness:
  "DeriveFrameId (replicate 16 1) 5 ''ab'' = DeriveFrameId (replicate 16 2) 5 ''ab'' \<longrightarrow>
    identity_collision (EntityIdentityName ''frame'' (replicate 16 1) 5 ''ab'') (EntityIdentityName ''frame'' (replicate 16 2) 5 ''ab'')"
proof -
  have "replicate 16 1 \<noteq> (replicate 16 2 :: byte list)" by (simp add: numeral_eq_Suc)
  then show ?thesis
    using identity_determines [of "replicate 16 1" "replicate 16 2" "''ab''" "''ab''" 5 5] by auto
qed

section \<open>Steps of the state\<close>

text \<open>What a file's import sees of the store, and the scene tables.\<close>

definition same_store :: "import_state \<Rightarrow> import_state \<Rightarrow> bool" where
  "same_store s s' \<longleftrightarrow> w_payloads (im_world s') = w_payloads (im_world s) \<and> w_manifests (im_world s') = w_manifests (im_world s) \<and>
     w_quarantine (im_world s') = w_quarantine (im_world s) \<and> db_artifacts (w_db (im_world s')) = db_artifacts (w_db (im_world s)) \<and>
     db_artifact_deps (w_db (im_world s')) = db_artifact_deps (w_db (im_world s))"

abbreviation tables :: "import_state \<Rightarrow> scene_tables" where
  "tables s \<equiv> tx_tables (im_scene s)"

lemma same_store_refl [simp]: "same_store s s"
  by (simp add: same_store_def)

lemma same_store_trans: "same_store a b \<Longrightarrow> same_store b c \<Longrightarrow> same_store a c"
  by (simp add: same_store_def)

lemma on_scene_step: "on_scene f s = (r, s') \<Longrightarrow> same_store s s' \<and> im_world s' = im_world s \<and> f (im_scene s) = (r, im_scene s')"
  by (auto simp: on_scene_def same_store_def split: prod.splits)

lemma on_store_step: "on_store f s = (r, s') \<Longrightarrow> im_scene s' = im_scene s \<and> f (im_world s) = (r, im_world s')"
  by (auto simp: on_store_def split: prod.splits)

lemma store_env:
  "on_store new_uuid s = (r, s') \<Longrightarrow> same_store s s' \<and> im_scene s' = im_scene s"
  "on_store TimestampNsNow s = (q, s') \<Longrightarrow> same_store s s' \<and> im_scene s' = im_scene s"
  "on_store random_bytes s = (p, s') \<Longrightarrow> same_store s s' \<and> im_scene s' = im_scene s"
  by (auto simp: on_store_def new_uuid_def TimestampNsNow_def random_bytes_def same_store_def)

lemma lift_res_step: "lift_res r s = (r', s') \<Longrightarrow> r' = r \<and> s' = s"
  by (simp add: lift_res_def)

text \<open>Writes of one statement, and queries of one row.\<close>

lemma write_statement_Inr:
  "write_op (statement p q f) d = (Inr u, d') \<Longrightarrow> f (tx_tables d) = Some (tx_tables d') \<and> same_mode d d'"
  by (auto simp: write_op_def dest: statement_Inr split: if_splits)

lemma scene_insert:
  assumes "on_scene (write_op (statement p q f)) s = (Inr u, s')"
  shows "f (tables s) = Some (tables s') \<and> same_store s s' \<and> im_world s' = im_world s"
  using on_scene_step [OF assms] write_statement_Inr by blast

lemma scene_query:
  assumes "on_scene (query_one p f) s = (Inr x, s')"
  shows "tables s' = tables s \<and> same_store s s' \<and> im_world s' = im_world s \<and> (x = None \<or> x = f (tables s))"
  using on_scene_step [OF assms] query_one_Inr [of p f "im_scene s" x "im_scene s'"] by auto

lemma tbl_insert_Some: "tbl_insert key r rows = Some rows' \<Longrightarrow> rows' = rows @ [r] \<and> key r \<notin> key ` set rows"
  by (auto simp: tbl_insert_def split: if_splits)

section \<open>Rejected files\<close>

definition add_rejection :: "ImportRejectionRow \<Rightarrow> scene_tables \<Rightarrow> scene_tables" where
  "add_rejection row t = t\<lparr>st_rejections := st_rejections t @ [row]\<rparr>"

text \<open>One rejection row with this source, code and diagnostic is all that was added.\<close>

definition recorded :: "importer \<Rightarrow> uuid \<Rightarrow> ImageImportFailure \<Rightarrow> int \<Rightarrow> scene_tables \<Rightarrow> scene_tables \<Rightarrow> bool" where
  "recorded imp session failure seq t t' \<longleftrightarrow> (\<exists>mime rid now. t' =
     add_rejection (rejection_row imp session (if_source_uri failure) mime (if_code failure) (if_diagnostic failure) seq rid now) t)"

lemma insert_rejection_Some: "insert_rejection row t = Some t' \<Longrightarrow> t' = add_rejection row t"
  by (auto simp: insert_rejection_def add_rejection_def split: if_split_asm dest!: tbl_insert_Some)

lemma reject_result:
  assumes "reject imp session uri mime code diag seq s = (Inr r, s')"
  shows "\<exists>failure. r = Inl failure \<and> if_source_uri failure = uri \<and> if_code failure = code \<and> same_store s s' \<and>
    recorded imp session failure seq (tables s) (tables s')"
proof -
  from assms obtain rid s1 now s2 u where
    a: "on_store new_uuid s = (Inr rid, s1)" and b: "on_store TimestampNsNow s1 = (Inr now, s2)"
    and c: "on_scene (InsertImportRejection (rejection_row imp session uri mime code diag seq rid now)) s2 = (Inr u, s')"
    and r: "r = Inl \<lparr>if_source_uri = uri, if_code = code, if_diagnostic = diag\<rparr>"
    by (auto simp: reject_def RecordRejection_def sret_app dest!: sbind_InrD)
  from scene_insert [OF c [unfolded InsertImportRejection_def]]
  have t: "tables s' = add_rejection (rejection_row imp session uri mime code diag seq rid now) (tables s2)"
    and same: "same_store s2 s'" by (auto dest: insert_rejection_Some)
  from store_env(1) [OF a] store_env(2) [OF b] same have "same_store s s'" by (auto intro: same_store_trans)
  moreover from store_env(1) [OF a] store_env(2) [OF b] t
  have "tables s' = add_rejection (rejection_row imp session uri mime code diag seq rid now) (tables s)" by simp
  ultimately show ?thesis using r
    by (intro exI [of _ "\<lparr>if_source_uri = uri, if_code = code, if_diagnostic = diag\<rparr>"]) (auto simp: recorded_def)
qed

text \<open>Why a file is rejected, given what the sensor query returns.\<close>

definition rejection_code :: "importer \<Rightarrow> ImageSourceFile \<Rightarrow> error_code \<Rightarrow> bool" where
  "rejection_code imp file code = (case ii_read_file imp (sf_path file) of
     Inl _ \<Rightarrow> code = kImportUnreadable
   | Inr bytes \<Rightarrow>
       let format = projr (DetectImageFormat (Some bytes) (length bytes)) in
       if format = kFmtUnknown \<or> format \<notin> set (ii_allowlist imp) then code = kImportUnsupportedFormat
       else if good_header (projr (ParseImageHeader (Some bytes) (length bytes))) = None then code = kImportCorrupt
       else code = kImportSensorUnresolved \<or> sf_timestamp_ns file = 0 \<and> code = kImportTimestampUnresolvable)"

lemma FindSensor_query: "on_scene (FindSensor sensor) s = (Inr x, s') \<Longrightarrow> tables s' = tables s \<and> same_store s s' \<and>
    im_world s' = im_world s \<and> (x \<noteq> None \<longrightarrow> has_sensor sensor (tables s))"
  unfolding FindSensor_def by (auto dest!: scene_query simp: has_sensor_def dest: tbl_get_Some)

lemma resolve_context_Inl:
  assumes "resolve_context imp file uri bytes header seq scene session s = (Inr (Inl failure), s')"
  shows "same_store s s' \<and> if_source_uri failure = uri \<and>
    (if_code failure = kImportSensorUnresolved \<or> sf_timestamp_ns file = 0 \<and> if_code failure = kImportTimestampUnresolvable) \<and>
    recorded imp session failure seq (tables s) (tables s')"
proof -
  from assms obtain sensor s1 code diag where f: "on_scene (FindSensor (sf_sensor_id file)) s = (Inr sensor, s1)"
    and r: "reject imp session uri (ih_mime_type header) code diag seq s1 = (Inr (Inl failure), s')"
    and c: "code = kImportSensorUnresolved \<or> sf_timestamp_ns file = 0 \<and> code = kImportTimestampUnresolvable"
    by (fastforce simp: resolve_context_def sret_app dest!: sbind_InrD split: if_split_asm)
  from FindSensor_query [OF f] reject_result [OF r] c show ?thesis by (auto intro: same_store_trans)
qed

text \<open>
  A file that is rejected writes no artifact and no canonical record, its failure carries the code of the
  first check that it fails, and exactly one rejection row records its source, code and diagnostic.
\<close>

theorem rejected_file_only_recorded:
  assumes "ProcessFile imp file seq scene session s = (Inr (Inl failure), s')"
  shows "same_store s s' \<and> rejection_code imp file (if_code failure) \<and>
    if_source_uri failure = (if sf_source_uri file = [] then sf_path file else sf_source_uri file) \<and>
    recorded imp session failure seq (tables s) (tables s')"
proof (cases "ii_read_file imp (sf_path file)")
  case (Inl e)
  with assms show ?thesis
    by (cases e) (auto simp: ProcessFile_def Let_def sthrow_app rejection_code_def dest!: reject_result)
next
  case (Inr bytes)
  let ?fmt = "projr (DetectImageFormat (Some bytes) (length bytes))"
  let ?h = "good_header (projr (ParseImageHeader (Some bytes) (length bytes)))"
  have process: "ProcessFile imp file seq scene session =
     (let uri = (if sf_source_uri file = [] then sf_path file else sf_source_uri file) in
      if ?fmt = kFmtUnknown \<or> ?fmt \<notin> set (ii_allowlist imp) then
        reject imp session uri [] kImportUnsupportedFormat ''format not in the import allowlist'' seq
      else case ?h of
        None \<Rightarrow> reject imp session uri [] kImportCorrupt ''header is truncated or has no image geometry'' seq
      | Some header \<Rightarrow> resolve_context imp file uri bytes header seq scene session)"
    by (simp add: ProcessFile_def Inr Let_def)
  show ?thesis
  proof (cases "?fmt = kFmtUnknown \<or> ?fmt \<notin> set (ii_allowlist imp)")
    case True
    with assms Inr show ?thesis
      by (auto simp: process rejection_code_def Let_def dest!: reject_result)
  next
    case False
    show ?thesis
    proof (cases ?h)
      case None
      with assms Inr False show ?thesis
        by (auto simp: process rejection_code_def Let_def dest!: reject_result)
    next
      case (Some header)
      with assms Inr False have "resolve_context imp file (if sf_source_uri file = [] then sf_path file else sf_source_uri file)
          bytes header seq scene session s = (Inr (Inl failure), s')"
        by (simp add: process Let_def)
      from resolve_context_Inl [OF this] Inr False Some show ?thesis by (simp add: rejection_code_def Let_def)
    qed
  qed
qed

section \<open>Imported files\<close>

text \<open>The id of a new instance comes from the random bytes; a write that finds a row returns the row's.\<close>

lemma record_instance_id:
  assumes "record_instance lib m w = (Inr auid, w')" "am_artifact_uuid m = nil_uuid"
  shows "\<exists>k. auid = GenerateUuid (w_random w k)"
proof -
  from assms obtain m1 u1 u2 where
    "(if am_creation_timestamp m = [] then (\<lambda>w. (Inr (m\<lparr>am_creation_timestamp := w_iso w (w_tick w)\<rparr>), w_step w))
         else lift_w (Inr m)) w = (Inr m1, u1)" "new_uuid u1 = (Inr auid, u2)"
    by (auto simp: record_instance_def Let_def lift_w_def dest!: sbind_InrD)
  then show ?thesis by (auto simp: lift_w_def new_uuid_def w_step_def split: if_split_asm)
qed

lemma PutInstance_id:
  assumes "PutInstance lib h m w = (Inr r, w')" "am_artifact_uuid m = nil_uuid"
  shows "\<exists>k. wr_artifact_uuid r = GenerateUuid (w_random w k)"
  using assms record_instance_id
  by (auto simp: PutInstance_def lift_w_def w_step_def split: option.split_asm if_split_asm dest!: sbind_InrD) fastforce+

lemma Put_id:
  assumes "Put lib b m w = (Inr r, w')" "am_artifact_uuid m = nil_uuid"
  shows "wr_artifact_uuid r \<in> ar_artifact_id ` set (db_artifacts (w_db w)) \<or> (\<exists>k. wr_artifact_uuid r = GenerateUuid (w_random w k))"
proof -
  let ?h = "Sha256Hex b"
  from assms(1) obtain found u where f: "on_db (FindArtifactByHash ?h) w = (Inr found, u)"
    and rest: "(case found of Some row \<Rightarrow> lift_w (Inr \<lparr>wr_content_hash = ?h, wr_artifact_uuid = ar_artifact_id row, wr_deduplicated = True\<rparr>)
        | None \<Rightarrow> sbind (\<lambda>w. if payload_of ?h w = None then WritePayload ?h b w else (Inr (), w)) (\<lambda>_.
            sbind (record_instance lib (m\<lparr>am_content_hash := ?h, am_file_size := int (length b)\<rparr>)) (\<lambda>auid.
              lift_w (Inr \<lparr>wr_content_hash = ?h, wr_artifact_uuid = auid, wr_deduplicated = False\<rparr>)))) u = (Inr r, w')"
    by (auto simp: Put_def Let_def dest!: sbind_InrD)
  from f have ru: "w_random u = w_random w" by (auto simp: on_db_def split: prod.splits)
  show ?thesis
  proof (cases found)
    case (Some row)
    with f rest Find_result [of ?h w row u] show ?thesis by (auto simp: lift_w_def dest!: tbl_get_Some)
  next
    case None
    with rest obtain v auid w2 where v: "(if payload_of ?h u = None then WritePayload ?h b u else (Inr (), u)) = (Inr (), v)"
      and rec: "record_instance lib (m\<lparr>am_content_hash := ?h, am_file_size := int (length b)\<rparr>) v = (Inr auid, w2)"
      and r: "wr_artifact_uuid r = auid"
      by (auto simp: lift_w_def dest!: sbind_InrD)
    have "w_random v = w_random u"
      using v by (auto simp: WritePayload_def CreateDirectories_def sbind_def io_call_def w_step_def split: if_split_asm)
    with record_instance_id [OF rec] assms(2) ru r show ?thesis by simp
  qed
qed

lemma PutInstance_result:
  assumes "PutInstance lib h m w = (Inr r, w')"
  shows "wr_content_hash r = h \<and> payload_of h w \<noteq> None \<and> payload_of h w' = payload_of h w \<and>
    (\<exists>row. ar_artifact_id row = wr_artifact_uuid r \<and> ar_content_hash row = h \<and>
      db_artifacts (w_db w') = replace_artifact row (db_artifacts (w_db w)))"
proof (cases "payload_of h w")
  case None
  with assms show ?thesis by (simp add: PutInstance_def)
next
  case (Some b)
  let ?m = "if w_io_fault w (w_tick w) then m\<lparr>am_content_hash := h\<rparr>
      else m\<lparr>am_content_hash := h, am_file_size := int (length b)\<rparr>"
  from assms Some obtain auid where rec: "record_instance lib ?m (w_step w) = (Inr auid, w')"
    and r: "r = \<lparr>wr_content_hash = h, wr_artifact_uuid = auid, wr_deduplicated = True\<rparr>"
    by (auto simp: PutInstance_def lift_w_def dest!: sbind_InrD)
  have "am_content_hash ?m = h" by simp
  with record_instance_index [OF rec] r keepsD [OF keeps_payload_record [where h = h and x = "Some b" and lib = lib and m = ?m], of "w_step w"]
    rec Some show ?thesis by auto
qed

text \<open>The payload's bytes are stored under the hash, and the index leads from the hash to the artifact.\<close>

definition stored_as :: "string \<Rightarrow> uuid \<Rightarrow> world \<Rightarrow> bool" where
  "stored_as hash artifact w \<longleftrightarrow> (\<exists>b. payload_of hash w = Some b \<and> Sha256Hex b = hash) \<and>
     (\<exists>row. tbl_get ar_content_hash hash (db_artifacts (w_db w)) = Some row \<and> ar_artifact_id row = artifact)"

lemma write_payload_result:
  assumes "write_payload imp bytes header s = (Inr (written, new_instance), s')" "store_ok (im_world s)"
  shows "im_scene s' = im_scene s \<and> wr_content_hash written = Sha256Hex bytes \<and>
    stored_as (Sha256Hex bytes) (wr_artifact_uuid written) (im_world s') \<and>
    (new_instance \<longrightarrow> (\<exists>row. ar_artifact_id row = wr_artifact_uuid written \<and> ar_content_hash row = Sha256Hex bytes \<and>
      db_artifacts (w_db (im_world s')) = replace_artifact row (db_artifacts (w_db (im_world s)))))"
proof -
  let ?h = "Sha256Hex bytes"
  from assms(1) obtain manifest found s1 where
    f: "on_store (on_db (FindArtifactByHash ?h)) s = (Inr found, s1)"
    and w: "if new_instance then on_store (PutInstance (ii_lib imp) ?h manifest) s1 = (Inr written, s')
      else on_store (Put (ii_lib imp) bytes manifest) s1 = (Inr written, s')"
    by (auto simp: write_payload_def sret_app lift_res_def dest!: sbind_InrD split: if_split_asm)
  from on_store_step [OF f] have f': "on_db (FindArtifactByHash ?h) (im_world s) = (Inr found, im_world s1)"
    and sc: "im_scene s1 = im_scene s" by auto
  have ok1: "store_ok (im_world s1)"
    using keepsD [OF keeps_find(1) assms(2)] f' by (metis snd_conv)
  have ix: "db_artifacts (w_db (im_world s1)) = db_artifacts (w_db (im_world s))"
    using Find_same(1) [where h = ?h and w = "im_world s"] f' by simp
  show ?thesis
  proof (cases new_instance)
    case True
    with w have p: "PutInstance (ii_lib imp) ?h manifest (im_world s1) = (Inr written, im_world s')"
      and sc': "im_scene s' = im_scene s1" using on_store_step by auto
    from PutInstance_result [OF p] obtain b row where
      b: "payload_of ?h (im_world s1) = Some b" "payload_of ?h (im_world s') = Some b"
      and row: "ar_artifact_id row = wr_artifact_uuid written" "ar_content_hash row = ?h"
        "db_artifacts (w_db (im_world s')) = replace_artifact row (db_artifacts (w_db (im_world s1)))"
      and h: "wr_content_hash written = ?h" by auto
    have "tbl_get ar_content_hash ?h (db_artifacts (w_db (im_world s'))) = Some row"
      using ok1 row by (simp add: store_ok_def replace_artifact_get)
    with b row h store_ok_hash [OF ok1 b(1)] sc sc' ix show ?thesis by (auto simp: stored_as_def)
  next
    case False
    with w have p: "Put (ii_lib imp) bytes manifest (im_world s1) = (Inr written, im_world s')"
      and sc': "im_scene s' = im_scene s1" using on_store_step by auto
    from Put_result [OF ok1 p] sc sc' False show ?thesis by (auto simp: stored_as_def)
  qed
qed

lemma write_payload_keeps_ok:
  assumes "write_payload imp bytes header s = (r, s')" "store_ok (im_world s)"
  shows "store_ok (im_world s')"
proof -
  have m: "keeps (\<lambda>s. store_ok (im_world s)) (lift_res x)" for x :: "'z res" by (simp add: keeps_def lift_res_def)
  have r: "keeps (\<lambda>s. store_ok (im_world s)) (sret x)" for x :: 'z by (simp add: keeps_def sret_app)
  have st: "keeps (\<lambda>s. store_ok (im_world s)) (on_store f)" if "keeps store_ok f" for f :: "'z w_op"
    using that by (auto simp: keeps_def on_store_def split: prod.split)
  have "keeps (\<lambda>s. store_ok (im_world s)) (write_payload imp bytes header)"
    unfolding write_payload_def
    by (auto intro!: keeps_sbind m st keeps_find keeps_Put keeps_PutInstance r)
  from keepsD [OF this, of s] assms show ?thesis by simp
qed

lemma write_payload_id:
  assumes "write_payload imp bytes header s = (Inr (written, new_instance), s')"
  shows "(\<exists>k. wr_artifact_uuid written = GenerateUuid (w_random (im_world s) k)) \<or>
    \<not> new_instance \<and> wr_artifact_uuid written \<in> ar_artifact_id ` set (db_artifacts (w_db (im_world s)))"
proof -
  from assms obtain manifest found s1 where
    m: "MakeManifest imp header (length bytes) = Inr manifest"
    and f: "on_store (on_db (FindArtifactByHash (Sha256Hex bytes))) s = (Inr found, s1)"
    and w: "if new_instance then on_store (PutInstance (ii_lib imp) (Sha256Hex bytes) manifest) s1 = (Inr written, s')
      else on_store (Put (ii_lib imp) bytes manifest) s1 = (Inr written, s')"
    by (auto simp: write_payload_def sret_app lift_res_def dest!: sbind_InrD split: if_split_asm)
  from m have nil: "am_artifact_uuid manifest = nil_uuid" by (auto simp: MakeManifest_def rbind_Inr default_manifest_def)
  from on_store_step [OF f] have same: "w_random (im_world s1) = w_random (im_world s)"
    "db_artifacts (w_db (im_world s1)) = db_artifacts (w_db (im_world s))"
    using Find_same(1) [of "Sha256Hex bytes" "im_world s"] by (auto simp: on_db_def split: prod.splits dest!: sym [of _ "im_world s1"])
  show ?thesis
  proof (cases new_instance)
    case True
    with w on_store_step have "PutInstance (ii_lib imp) (Sha256Hex bytes) manifest (im_world s1) = (Inr written, im_world s')" by auto
    from PutInstance_id [OF this nil] same show ?thesis by simp
  next
    case False
    with w on_store_step have "Put (ii_lib imp) bytes manifest (im_world s1) = (Inr written, im_world s')" by auto
    from Put_id [OF this nil] same False show ?thesis by auto
  qed
qed

text \<open>The three canonical rows are appended, and nothing else.\<close>

definition with_records :: "ImageSourceFile \<Rightarrow> string \<Rightarrow> ImageHeaderInfo \<Rightarrow> int \<Rightarrow> uuid \<Rightarrow> uuid \<Rightarrow> uuid \<Rightarrow> string \<Rightarrow> string \<Rightarrow> scene_tables \<Rightarrow> scene_tables" where
  "with_records file hash header seq scene session artifact source_json props t =
     t\<lparr>st_frames := st_frames t @ [frame_row file hash seq scene session],
       st_observations := st_observations t @ [observation_row file hash scene session artifact source_json props],
       st_payloads := st_payloads t @ [payload_row file hash header]\<rparr>"

lemma write_records_result:
  assumes "write_records imp file hash header seq scene session artifact s = (Inr u, s')"
  shows "im_world s' = im_world s \<and> (\<exists>source_json props. ProducerJson imp = Inr source_json \<and>
    tables s' = with_records file hash header seq scene session artifact source_json props (tables s)) \<and>
    DeriveFrameId (sf_sensor_id file) (sf_timestamp_ns file) hash \<notin> fr_frame_id ` set (st_frames (tables s)) \<and>
    DeriveObservationId (sf_sensor_id file) (sf_timestamp_ns file) hash \<notin> op_observation_id ` set (st_payloads (tables s))"
proof -
  from assms obtain s1 source_json props s2 where
    fr: "on_scene (InsertFrame (frame_row file hash seq scene session)) s = (Inr (), s1)"
    and pj: "ProducerJson imp = Inr source_json"
    and ob: "on_scene (InsertObservation (observation_row file hash scene session artifact source_json props)) s1 = (Inr (), s2)"
    and pl: "on_scene (InsertObservationPayload (payload_row file hash header)) s2 = (Inr u, s')"
    by (auto simp: write_records_def lift_res_def dest!: sbind_InrD)
  let ?f = "frame_row file hash seq scene session"
  let ?o = "observation_row file hash scene session artifact source_json props"
  from scene_insert [OF fr [unfolded InsertFrame_def]] have
    1: "tables s1 = (tables s)\<lparr>st_frames := st_frames (tables s) @ [?f]\<rparr>" "fr_frame_id ?f \<notin> fr_frame_id ` set (st_frames (tables s))"
      "im_world s1 = im_world s"
    by (auto simp: insert_frame_def split: if_split_asm dest!: tbl_insert_Some)
  have plain: "?o\<lparr>ob_width := 0, ob_height := 0, ob_pixel_format := []\<rparr> = ?o" by (simp add: observation_row_def)
  from scene_insert [OF ob [unfolded InsertObservation_def]] have
    2: "tables s2 = (tables s1)\<lparr>st_observations := st_observations (tables s1) @ [?o]\<rparr>" "im_world s2 = im_world s1"
    unfolding insert_observation_def plain by (auto split: if_split_asm dest!: tbl_insert_Some)
  from scene_insert [OF pl [unfolded InsertObservationPayload_def]] have
    3: "tables s' = (tables s2)\<lparr>st_payloads := st_payloads (tables s2) @ [payload_row file hash header]\<rparr>" "im_world s' = im_world s2"
    "op_observation_id (payload_row file hash header) \<notin> op_observation_id ` set (st_payloads (tables s2))"
    by (auto simp: insert_payload_def split: if_split_asm dest!: tbl_insert_Some)
  have "tables s' = with_records file hash header seq scene session artifact source_json props (tables s)"
    using 1(1) 2(1) 3(1) by (simp add: with_records_def)
  moreover have "fr_frame_id ?f = DeriveFrameId (sf_sensor_id file) (sf_timestamp_ns file) hash" by (simp add: frame_row_def)
  moreover have "DeriveObservationId (sf_sensor_id file) (sf_timestamp_ns file) hash \<notin> op_observation_id ` set (st_payloads (tables s))"
    using 3(3) 2(1) 1(1) by (simp add: payload_row_def)
  ultimately show ?thesis using 1(2,3) 2(2) 3(2) pj by metis
qed

lemma ObservationExists_result:
  assumes "on_scene (ObservationExists oid) s = (Inr present, s')"
  shows "tables s' = tables s \<and> same_store s s' \<and> im_world s' = im_world s \<and>
    (present \<longrightarrow> oid \<in> ob_observation_id ` set (st_observations (tables s)))"
proof -
  from on_scene_step [OF assms] obtain x where
    "query_one ''cannot prepare find observation'' (\<lambda>t. tbl_get ob_observation_id oid (st_observations t)) (im_scene s) = (Inr x, im_scene s')"
    "present = (x \<noteq> None)" by (auto simp: ObservationExists_def sret_app dest!: sbind_InrD)
  with query_one_Inr [OF this(1)] on_scene_step [OF assms] show ?thesis by (auto dest!: tbl_get_Some split: if_split_asm)
qed

lemma import_image_Inr:
  assumes "import_image imp file bytes header uncal seq scene session s = (Inr entry, s')" "store_ok (im_world s)"
  shows "ie_frame_id entry = DeriveFrameId (sf_sensor_id file) (sf_timestamp_ns file) (Sha256Hex bytes) \<and>
    ie_observation_id entry = DeriveObservationId (sf_sensor_id file) (sf_timestamp_ns file) (Sha256Hex bytes) \<and>
    ie_content_hash entry = Sha256Hex bytes \<and> ie_width entry = ih_width header \<and> ie_height entry = ih_height header \<and>
    (if ie_reimported entry then
       same_store s s' \<and> tables s' = tables s \<and>
       ie_observation_id entry \<in> ob_observation_id ` set (st_observations (tables s))
     else
       stored_as (Sha256Hex bytes) (ie_artifact_uuid entry) (im_world s') \<and>
       ie_frame_id entry \<notin> fr_frame_id ` set (st_frames (tables s)) \<and> store_ok (im_world s') \<and>
       ie_observation_id entry \<notin> op_observation_id ` set (st_payloads (tables s)) \<and>
       (\<exists>source_json props. ProducerJson imp = Inr source_json \<and>
         tables s' = with_records file (Sha256Hex bytes) header seq scene session (ie_artifact_uuid entry) source_json props (tables s)) \<and>
       ((\<exists>k. ie_artifact_uuid entry = GenerateUuid (w_random (im_world s) k)) \<or>
         \<not> ie_new_instance entry \<and> ie_artifact_uuid entry \<in> ar_artifact_id ` set (db_artifacts (w_db (im_world s)))) \<and>
       (ie_new_instance entry \<longrightarrow> (\<exists>row. ar_artifact_id row = ie_artifact_uuid entry \<and> ar_content_hash row = Sha256Hex bytes \<and>
         db_artifacts (w_db (im_world s')) = replace_artifact row (db_artifacts (w_db (im_world s))))))"
proof -
  let ?h = "Sha256Hex bytes" and ?e = "new_entry file (Sha256Hex bytes) header uncal"
  from assms(1) obtain present s1 where q: "on_scene (ObservationExists (ie_observation_id ?e)) s = (Inr present, s1)"
    and r: "(if present then sret (?e\<lparr>ie_reimported := True\<rparr>)
        else sbind (write_payload imp bytes header) (\<lambda>(written, new_instance).
          sbind (write_records imp file ?h header seq scene session (wr_artifact_uuid written)) (\<lambda>_.
            sret (?e\<lparr>ie_new_instance := new_instance, ie_artifact_uuid := wr_artifact_uuid written,
              ie_content_hash := wr_content_hash written\<rparr>)))) s1 = (Inr entry, s')"
    by (auto simp: import_image_def Let_def dest!: sbind_InrD)
  have s1: "tables s1 = tables s \<and> same_store s s1 \<and> im_world s1 = im_world s \<and>
      (present \<longrightarrow> ie_observation_id ?e \<in> ob_observation_id ` set (st_observations (tables s)))"
    using ObservationExists_result [OF q] by simp
  show ?thesis
  proof (cases present)
    case True
    with r s1 show ?thesis by (auto simp: sret_app new_entry_def)
  next
    case False
    with r obtain written ni s2 u where w: "write_payload imp bytes header s1 = (Inr (written, ni), s2)"
      and wr: "write_records imp file ?h header seq scene session (wr_artifact_uuid written) s2 = (Inr u, s')"
      and e: "entry = ?e\<lparr>ie_new_instance := ni, ie_artifact_uuid := wr_artifact_uuid written, ie_content_hash := wr_content_hash written\<rparr>"
      by (auto simp: sret_app dest!: sbind_InrD)
    from s1 assms(2) have ok1: "store_ok (im_world s1)" by simp
    from write_payload_result [OF w ok1] have W: "im_scene s2 = im_scene s1" "wr_content_hash written = ?h"
      "stored_as ?h (wr_artifact_uuid written) (im_world s2)"
      "ni \<longrightarrow> (\<exists>row. ar_artifact_id row = wr_artifact_uuid written \<and> ar_content_hash row = ?h \<and>
        db_artifacts (w_db (im_world s2)) = replace_artifact row (db_artifacts (w_db (im_world s1))))" by auto
    from write_records_result [OF wr] W(1) s1 have R: "im_world s' = im_world s2"
      "\<exists>source_json props. ProducerJson imp = Inr source_json \<and>
        tables s' = with_records file ?h header seq scene session (wr_artifact_uuid written) source_json props (tables s)"
      "DeriveFrameId (sf_sensor_id file) (sf_timestamp_ns file) ?h \<notin> fr_frame_id ` set (st_frames (tables s))"
      "DeriveObservationId (sf_sensor_id file) (sf_timestamp_ns file) ?h \<notin> op_observation_id ` set (st_payloads (tables s))" by auto
    from write_payload_keeps_ok [OF w ok1] R(1) have ok': "store_ok (im_world s')" by simp
    have fields: "ie_frame_id entry = DeriveFrameId (sf_sensor_id file) (sf_timestamp_ns file) ?h"
      "ie_observation_id entry = DeriveObservationId (sf_sensor_id file) (sf_timestamp_ns file) ?h"
      "ie_content_hash entry = ?h" "ie_width entry = ih_width header" "ie_height entry = ih_height header"
      "\<not> ie_reimported entry" "ie_artifact_uuid entry = wr_artifact_uuid written" "ie_new_instance entry = ni"
      using e W(2) by (simp_all add: new_entry_def)
    from write_payload_id [OF w] s1 have I: "(\<exists>k. wr_artifact_uuid written = GenerateUuid (w_random (im_world s) k)) \<or>
      \<not> ni \<and> wr_artifact_uuid written \<in> ar_artifact_id ` set (db_artifacts (w_db (im_world s)))" by simp
    show ?thesis
      unfolding fields(1-5,7,8) using fields(6) W(3,4) R s1 I ok' by simp
  qed
qed

lemma resolve_context_Inr:
  assumes "resolve_context imp file uri bytes header seq scene session s = (Inr (Inr entry), s')"
  shows "\<exists>s1 uncal. tables s1 = tables s \<and> same_store s s1 \<and> im_world s1 = im_world s \<and> has_sensor (sf_sensor_id file) (tables s) \<and>
    sf_timestamp_ns file \<noteq> 0 \<and> import_image imp file bytes header uncal seq scene session s1 = (Inr entry, s')"
proof -
  have no: "reject imp session uri m c d seq a \<noteq> (Inr (Inr entry), b)" for m c d a b
    using reject_result [of imp session uri m c d seq a "Inr entry" b] by auto
  from assms no obtain sensor s1 cal s2 where f: "on_scene (FindSensor (sf_sensor_id file)) s = (Inr sensor, s1)" "sensor \<noteq> None"
    and t: "sf_timestamp_ns file \<noteq> 0"
    and c: "on_scene (ResolveCalibrationAt (sf_sensor_id file) (sf_timestamp_ns file)) s1 = (Inr cal, s2)"
    and i: "import_image imp file bytes header (cal = None) seq scene session s2 = (Inr entry, s')"
    by (auto simp: resolve_context_def sret_app dest!: sbind_InrD split: if_split_asm)
  from FindSensor_query [OF f(1)] f(2) scene_query [OF c [unfolded ResolveCalibrationAt_def]] t i show ?thesis
    by (intro exI [of _ s2] exI [of _ "cal = None"]) (auto intro: same_store_trans)
qed

lemma ProcessFile_Inr:
  assumes "ProcessFile imp file seq scene session s = (Inr (Inr entry), s')"
  shows "\<exists>bytes header s1 uncal. ii_read_file imp (sf_path file) = Inr bytes \<and>
    ParseImageHeader (Some bytes) (length bytes) = Inr (Some header) \<and> good_header (Some header) = Some header \<and>
    tables s1 = tables s \<and> same_store s s1 \<and> im_world s1 = im_world s \<and> has_sensor (sf_sensor_id file) (tables s) \<and>
    sf_timestamp_ns file \<noteq> 0 \<and> import_image imp file bytes header uncal seq scene session s1 = (Inr entry, s')"
proof (cases "ii_read_file imp (sf_path file)")
  case (Inl e)
  with assms show ?thesis
    by (cases e) (auto simp: ProcessFile_def Let_def sthrow_app dest!: reject_result)
next
  case (Inr bytes)
  have no: "reject imp session uri m c d seq a \<noteq> (Inr (Inr entry), b)" for uri m c d a b
    using reject_result [of imp session uri m c d seq a "Inr entry" b] by auto
  from assms Inr no obtain header uri where
    h: "good_header (projr (ParseImageHeader (Some bytes) (length bytes))) = Some header"
    and r: "resolve_context imp file uri bytes header seq scene session s = (Inr (Inr entry), s')"
    by (auto simp: ProcessFile_def Let_def split: if_split_asm option.split_asm)
  from ParseImageHeader_returns [of bytes] h
  have "ParseImageHeader (Some bytes) (length bytes) = Inr (Some header)" "good_header (Some header) = Some header"
    by (auto simp: good_header_def split: option.split_asm if_split_asm)
  with Inr resolve_context_Inr [OF r] show ?thesis by blast
qed

text \<open>
  An entry that is reported as imported has its file's bytes stored under their SHA-256, an index row
  that leads from that hash to its artifact, and one frame, one observation and one payload row that refer to each
  other and to the artifact, all added by this call; one reported as re-imported was there and nothing changed.
\<close>

theorem imported_file_is_stored:
  assumes "ProcessFile imp file seq scene session s = (Inr (Inr entry), s')" "store_ok (im_world s)"
  shows "\<exists>bytes header. ii_read_file imp (sf_path file) = Inr bytes \<and>
    ParseImageHeader (Some bytes) (length bytes) = Inr (Some header) \<and>
    ie_content_hash entry = Sha256Hex bytes \<and> 1 \<le> ie_width entry \<and> ie_width entry = ih_width header \<and>
    1 \<le> ie_height entry \<and> ie_height entry = ih_height header \<and>
    (if ie_reimported entry then
       same_store s s' \<and> tables s' = tables s \<and> ie_observation_id entry \<in> ob_observation_id ` set (st_observations (tables s))
     else
       stored_as (Sha256Hex bytes) (ie_artifact_uuid entry) (im_world s') \<and>
       (\<exists>source_json props. tables s' =
         with_records file (Sha256Hex bytes) header seq scene session (ie_artifact_uuid entry) source_json props (tables s)))"
proof -
  from ProcessFile_Inr [OF assms(1)] obtain bytes header s1 uncal where
    p: "ii_read_file imp (sf_path file) = Inr bytes" "ParseImageHeader (Some bytes) (length bytes) = Inr (Some header)"
      "good_header (Some header) = Some header" "tables s1 = tables s" "same_store s s1" "im_world s1 = im_world s"
    and i: "import_image imp file bytes header uncal seq scene session s1 = (Inr entry, s')" by blast
  from p(6) assms(2) have "store_ok (im_world s1)" by simp
  from import_image_Inr [OF i this] p show ?thesis
    by (intro exI [of _ bytes] exI [of _ header])
      (auto simp: good_header_def intro: same_store_trans split: if_split_asm)
qed

section \<open>Runs\<close>

text \<open>A connection whose next \<open>n\<close> calls succeed, and what \<open>n\<close> calls that leave the tables \<open>t\<close> make of it.\<close>

definition runs :: "nat \<Rightarrow> scene_db \<Rightarrow> bool" where
  "runs n d \<longleftrightarrow> db_open d \<and> \<not> db_read_only d \<and> (\<forall>k<n. \<not> db_fault d (db_tick d + k))"

definition ran :: "nat \<Rightarrow> scene_tables \<Rightarrow> scene_db \<Rightarrow> scene_db" where
  "ran n t d = d\<lparr>db_tick := db_tick d + n, tx_tables := t\<rparr>"

lemma ran_simps [simp]:
  "tx_tables (ran n t d) = t" "ran n t (ran m u d) = ran (m + n) t d" "db_fault (ran n t d) = db_fault d"
  "db_tick (ran n t d) = db_tick d + n" "db_read_only (ran n t d) = db_read_only d"
  by (simp_all add: ran_def)

lemma runs_less: "runs n d \<Longrightarrow> m \<le> n \<Longrightarrow> runs m d"
  by (auto simp: runs_def)

lemma runs_ran [simp]: "runs (n + m) d \<Longrightarrow> runs m (ran n t d)"
  by (auto simp: runs_def ran_def add.assoc)

lemma runs_two: "runs (Suc (Suc 0)) d \<Longrightarrow> \<not> sql_fails d \<and> \<not> sql_fails (sql_tick d) \<and> \<not> db_read_only d"
  by (force simp: runs_def sql_fails_def sql_tick_def)

lemma query_runs: "runs 2 d \<Longrightarrow> query_one p f d = (Inr (f (tx_tables d)), ran 2 (tx_tables d) d)"
  using runs_two [of d]
  by (simp add: numeral_2_eq_2 query_one_def sbind_def sql_call_def sql_first_def ran_def sql_tick_def)

lemma insert_runs:
  "runs 2 d \<Longrightarrow> f (tx_tables d) = Some t \<Longrightarrow> write_op (statement p q f) d = (Inr (), ran 2 t d)"
  using runs_two [of d]
  by (simp add: numeral_2_eq_2 write_op_def statement_def sbind_def sql_call_def sql_modify_def sql_write_def ran_def sql_tick_def
      sql_fails_def)

lemma insert_fails:
  assumes "db_fault d (db_tick d)" "\<not> db_read_only d"
  shows "\<exists>e. write_op (statement p q f) d = (Inl e, ran 1 (tx_tables d) d)"
  using assms by (simp add: write_op_def statement_def sbind_def sql_call_def sql_fails_def ran_def sql_tick_def)

text \<open>A file that passes every check, is not imported yet, and whose scene and sensor are there.\<close>

definition importable :: "importer \<Rightarrow> ImageSourceFile \<Rightarrow> byte list \<Rightarrow> ImageHeaderInfo \<Rightarrow> uuid \<Rightarrow> scene_tables \<Rightarrow> bool" where
  "importable imp file bytes header scene t \<longleftrightarrow>
     ii_read_file imp (sf_path file) = Inr bytes \<and>
     projr (DetectImageFormat (Some bytes) (length bytes)) \<in> set (ii_allowlist imp) - {kFmtUnknown} \<and>
     good_header (projr (ParseImageHeader (Some bytes) (length bytes))) = Some header \<and>
     has_sensor (sf_sensor_id file) t \<and> has_scene scene t \<and> sf_timestamp_ns file \<noteq> 0 \<and>
     DeriveFrameId (sf_sensor_id file) (sf_timestamp_ns file) (Sha256Hex bytes) \<notin> fr_frame_id ` set (st_frames t) \<and>
     DeriveObservationId (sf_sensor_id file) (sf_timestamp_ns file) (Sha256Hex bytes) \<notin>
       ob_observation_id ` set (st_observations t) \<union> op_observation_id ` set (st_payloads t)"

lemma PutInstance_returns:
  assumes "\<And>d. \<exists>s. jl_dump lib d = Inr s" "calm w" "payload_of h w = Some b"
  shows "\<exists>r w'. PutInstance lib h m w = (Inr r, w')"
proof -
  let ?m = "if w_io_fault w (w_tick w) then m\<lparr>am_content_hash := h\<rparr>
      else m\<lparr>am_content_hash := h, am_file_size := int (length b)\<rparr>"
  from succeedsD [OF calm_record_instance [OF assms(1)], of "w_step w" ?m] assms(2)
  obtain auid w' where "record_instance lib ?m (w_step w) = (Inr auid, w')" by auto
  with assms(3) show ?thesis by (simp add: PutInstance_def sbind_def lift_w_def)
qed

lemma ConfigurationHash_returns:
  assumes "\<And>d. \<exists>s. jl_dump (ii_lib imp) d = Inr s"
  shows "\<exists>h. ConfigurationHash imp = Inr h" "\<exists>p. ProducerJson imp = Inr p" "\<exists>p. properties_json imp = Inr p"
proof -
  from assms obtain f where f: "\<And>d. jl_dump (ii_lib imp) d = Inr (f d)" by metis
  show "\<exists>h. ConfigurationHash imp = Inr h" "\<exists>p. ProducerJson imp = Inr p" "\<exists>p. properties_json imp = Inr p"
    unfolding ConfigurationHash_def ProducerJson_def properties_json_def f rbind.simps by blast+
qed

lemma write_payload_returns:
  assumes "\<And>d. \<exists>s. jl_dump (ii_lib imp) d = Inr s" "calm (im_world s)" "store_ok (im_world s)"
  shows "\<exists>r w'. write_payload imp bytes header s = (Inr (r, tbl_get ar_content_hash (Sha256Hex bytes) (db_artifacts (w_db (im_world s))) \<noteq> None),
      s\<lparr>im_world := w'\<rparr>)"
proof -
  let ?h = "Sha256Hex bytes" and ?w = "im_world s"
  from ConfigurationHash_returns(1) [OF assms(1)] obtain m where m: "MakeManifest imp header (length bytes) = Inr m"
    unfolding MakeManifest_def by (metis rbind.simps(2))
  obtain w1 where f: "on_db (FindArtifactByHash ?h) ?w = (Inr (tbl_get ar_content_hash ?h (db_artifacts (w_db ?w))), w1)"
    and w1: "calm w1" "payload_of ?h w1 = payload_of ?h ?w"
    using Find_healthy [of "w_db ?w" ?h] assms(2) by (auto simp: on_db_def calm_def payload_of_def)
  show ?thesis
  proof (cases "tbl_get ar_content_hash ?h (db_artifacts (w_db ?w))")
    case None
    from Put_returns [OF assms(1) w1(1), of bytes m] None m f show ?thesis
      by (auto simp: write_payload_def sbind_def lift_res_def on_store_def sret_def)
  next
    case (Some row)
    then have "row \<in> set (db_artifacts (w_db ?w))" "ar_content_hash row = ?h" by (auto dest: tbl_get_Some)
    with assms(3) obtain b where "payload_of ?h ?w = Some b" by (force simp: store_ok_def)
    with PutInstance_returns [OF assms(1) w1(1), of ?h b m] w1(2) Some m f show ?thesis
      by (auto simp: write_payload_def sbind_def lift_res_def on_store_def sret_def)
  qed
qed

lemma insert_frame_ok:
  assumes "has_scene scene t" "has_sensor (sf_sensor_id file) t"
    "DeriveFrameId (sf_sensor_id file) (sf_timestamp_ns file) hash \<notin> fr_frame_id ` set (st_frames t)"
  shows "insert_frame (frame_row file hash seq scene session) t =
    Some (t\<lparr>st_frames := st_frames t @ [frame_row file hash seq scene session]\<rparr>)"
  using assms by (simp add: insert_frame_def frame_row_def tbl_insert_def has_sensor_def refers_def BindUuidOrNull_def)

lemma insert_rows_ok:
  assumes "has_scene scene t" "has_sensor (sf_sensor_id file) t"
    "DeriveObservationId (sf_sensor_id file) (sf_timestamp_ns file) hash \<notin>
       ob_observation_id ` set (st_observations t) \<union> op_observation_id ` set (st_payloads t)"
    and row: "row = observation_row file hash scene session artifact source_json props"
    and fr: "fr = frame_row file hash seq scene session" "u = t\<lparr>st_frames := st_frames t @ [fr]\<rparr>"
  shows "insert_observation row u = Some (u\<lparr>st_observations := st_observations t @ [row]\<rparr>)"
    "insert_payload (payload_row file hash header) (u\<lparr>st_observations := st_observations t @ [row]\<rparr>) =
     Some (with_records file hash header seq scene session artifact source_json props t)"
  using assms(1-3)
  by (simp_all add: row fr insert_observation_def observation_row_def tbl_insert_def refers_def BindUuidOrNull_def frame_row_def
      has_scene_def has_sensor_def insert_payload_def payload_row_def with_records_def)

lemma write_records_runs:
  assumes "has_scene scene (tables s)" "has_sensor (sf_sensor_id file) (tables s)"
    "DeriveFrameId (sf_sensor_id file) (sf_timestamp_ns file) hash \<notin> fr_frame_id ` set (st_frames (tables s))"
    "DeriveObservationId (sf_sensor_id file) (sf_timestamp_ns file) hash \<notin>
       ob_observation_id ` set (st_observations (tables s)) \<union> op_observation_id ` set (st_payloads (tables s))"
    and dumps: "\<And>d. \<exists>s. jl_dump (ii_lib imp) d = Inr s"
  shows "runs 6 (im_scene s) \<Longrightarrow> \<exists>s'. write_records imp file hash header seq scene session artifact s = (Inr (), s')"
    "runs 2 (im_scene s) \<Longrightarrow> db_fault (im_scene s) (db_tick (im_scene s) + 2) \<Longrightarrow>
     \<exists>e. write_records imp file hash header seq scene session artifact s = (Inl e,
       s\<lparr>im_scene := ran 3 ((tables s)\<lparr>st_frames := st_frames (tables s) @ [frame_row file hash seq scene session]\<rparr>) (im_scene s)\<rparr>)"
proof -
  let ?d = "im_scene s" and ?t = "tables s" and ?fr = "frame_row file hash seq scene session"
  let ?u = "?t\<lparr>st_frames := st_frames ?t @ [?fr]\<rparr>"
  from ConfigurationHash_returns(2,3) [OF dumps] obtain sj pr where j: "ProducerJson imp = Inr sj" "properties_json imp = Inr pr" by blast
  let ?ob = "observation_row file hash scene session artifact sj pr"
  let ?v = "?u\<lparr>st_observations := st_observations ?t @ [?ob]\<rparr>"
  have 1: "on_scene (InsertFrame ?fr) s = (Inr (), s\<lparr>im_scene := ran 2 ?u ?d\<rparr>)" if "runs 2 ?d"
    using insert_runs [OF that, of "insert_frame ?fr"] insert_frame_ok [OF assms(1-3)] by (simp add: on_scene_def InsertFrame_def)
  {
    assume r: "runs 6 ?d"
    then have r2: "runs 2 ?d" "runs 2 (ran 2 ?u ?d)" "runs 2 (ran 2 ?v (ran 2 ?u ?d))"
      by (auto simp del: ran_simps intro: runs_less intro!: runs_ran)
    note rows = insert_rows_ok [OF assms(1,2,4) refl refl refl]
    have 2: "on_scene (InsertObservation ?ob) (s\<lparr>im_scene := ran 2 ?u ?d\<rparr>) = (Inr (), s\<lparr>im_scene := ran 2 ?v (ran 2 ?u ?d)\<rparr>)"
      using insert_runs [OF r2(2), of "insert_observation ?ob" ?v] rows(1) by (simp add: on_scene_def InsertObservation_def)
    have 3: "\<exists>s'. on_scene (InsertObservationPayload (payload_row file hash header)) (s\<lparr>im_scene := ran 2 ?v (ran 2 ?u ?d)\<rparr>) = (Inr (), s')"
      using insert_runs [OF r2(3), of "insert_payload (payload_row file hash header)"] rows(2)
      by (simp add: on_scene_def InsertObservationPayload_def)
    show "\<exists>s'. write_records imp file hash header seq scene session artifact s = (Inr (), s')"
      using 1 [OF r2(1)] 2 3 j by (simp add: write_records_def sbind_def lift_res_def)
  }
  {
    assume r: "runs 2 ?d" "db_fault ?d (db_tick ?d + 2)"
    then have "db_fault (ran 2 ?u ?d) (db_tick (ran 2 ?u ?d))" "\<not> db_read_only (ran 2 ?u ?d)" by (auto simp: runs_def)
    from insert_fails [OF this, of "''cannot prepare insert observation''" "''cannot insert observation row''" "insert_observation ?ob"] obtain e where
      "on_scene (InsertObservation ?ob) (s\<lparr>im_scene := ran 2 ?u ?d\<rparr>) = (Inl e, s\<lparr>im_scene := ran 3 ?u ?d\<rparr>)"
      by (auto simp: on_scene_def InsertObservation_def)
    with 1 [OF r(1)] j show "\<exists>e. write_records imp file hash header seq scene session artifact s = (Inl e, s\<lparr>im_scene := ran 3 ?u ?d\<rparr>)"
      by (simp add: write_records_def sbind_def lift_res_def)
  }
qed

text \<open>Up to the payload, an importable file only reads.\<close>

lemma sbind_assoc: "sbind (sbind m f) g = sbind m (\<lambda>x. sbind (f x) g)"
  by (rule ext) (auto simp: sbind_def split: prod.split sum.split)

lemma ProcessFile_importable:
  assumes "importable imp file bytes header scene (tables s)" "runs 6 (im_scene s)"
  shows "\<exists>uncal. ProcessFile imp file seq scene session s =
    sbind (sbind (write_payload imp bytes header) (\<lambda>(written, new_instance).
       sbind (write_records imp file (Sha256Hex bytes) header seq scene session (wr_artifact_uuid written)) (\<lambda>_.
         sret ((new_entry file (Sha256Hex bytes) header uncal)\<lparr>ie_new_instance := new_instance,
           ie_artifact_uuid := wr_artifact_uuid written, ie_content_hash := wr_content_hash written\<rparr>))))
      (\<lambda>entry. sret (Inr entry)) (s\<lparr>im_scene := ran 6 (tables s) (im_scene s)\<rparr>)"
proof -
  let ?d = "im_scene s" and ?t = "tables s"
  have r: "runs 2 ?d" "runs 2 (ran 2 ?t ?d)" "runs 2 (ran 2 ?t (ran 2 ?t ?d))"
    using assms(2) by (auto simp del: ran_simps intro: runs_less intro!: runs_ran)
  note q = query_runs [OF r(1)] query_runs [OF r(2)] query_runs [OF r(3)]
  from assms(1) have i: "ii_read_file imp (sf_path file) = Inr bytes"
    "projr (DetectImageFormat (Some bytes) (length bytes)) \<noteq> kFmtUnknown"
    "projr (DetectImageFormat (Some bytes) (length bytes)) \<in> set (ii_allowlist imp)"
    "good_header (projr (ParseImageHeader (Some bytes) (length bytes))) = Some header"
    "has_sensor (sf_sensor_id file) ?t" "sf_timestamp_ns file \<noteq> 0"
    "DeriveObservationId (sf_sensor_id file) (sf_timestamp_ns file) (Sha256Hex bytes) \<notin> ob_observation_id ` set (st_observations ?t)"
    by (auto simp: importable_def)
  obtain row where f: "on_scene (FindSensor (sf_sensor_id file)) s = (Inr (Some row), s\<lparr>im_scene := ran 2 ?t ?d\<rparr>)"
    using i(5) tbl_get_None [of se_sensor_id "sf_sensor_id file" "st_sensors ?t"]
    by (cases "tbl_get se_sensor_id (sf_sensor_id file) (st_sensors ?t)")
      (auto simp: on_scene_def FindSensor_def q(1) has_sensor_def)
  obtain cal where c: "on_scene (ResolveCalibrationAt (sf_sensor_id file) (sf_timestamp_ns file)) (s\<lparr>im_scene := ran 2 ?t ?d\<rparr>) =
      (Inr cal, s\<lparr>im_scene := ran 2 ?t (ran 2 ?t ?d)\<rparr>)"
    by (auto simp: on_scene_def ResolveCalibrationAt_def q(2))
  have o: "on_scene (ObservationExists (DeriveObservationId (sf_sensor_id file) (sf_timestamp_ns file) (Sha256Hex bytes)))
      (s\<lparr>im_scene := ran 2 ?t (ran 2 ?t ?d)\<rparr>) = (Inr False, s\<lparr>im_scene := ran 6 ?t ?d\<rparr>)"
    using i(7) by (simp add: q(3) [simplified] on_scene_def ObservationExists_def sbind_def sret_def tbl_get_None
        del: not_None_eq)
  have e: "ie_observation_id (new_entry file h header u) = DeriveObservationId (sf_sensor_id file) (sf_timestamp_ns file) h" for h u
    by (simp add: new_entry_def)
  show ?thesis
    using i(1-4,6) f c o
    by (intro exI [of _ "cal = None"])
      (simp add: ProcessFile_def resolve_context_def import_image_def Let_def sx_simps sbind_assoc e)
qed

lemma importable_returns:
  assumes "importable imp file bytes header scene (tables s)" "\<And>d. \<exists>s. jl_dump (ii_lib imp) d = Inr s"
    "calm (im_world s)" "store_ok (im_world s)" "runs 12 (im_scene s)"
  shows "\<exists>entry s'. ProcessFile imp file seq scene session s = (Inr (Inr entry), s') \<and> \<not> ie_reimported entry \<and>
    ie_content_hash entry = Sha256Hex bytes \<and>
    (ie_new_instance entry \<longleftrightarrow> tbl_get ar_content_hash (Sha256Hex bytes) (db_artifacts (w_db (im_world s))) \<noteq> None)"
proof -
  let ?s = "s\<lparr>im_scene := ran 6 (tables s) (im_scene s)\<rparr>"
  from assms(5) have r: "runs 6 (im_scene s)" "runs (6 + 6) (im_scene s)" by (auto intro: runs_less)
  from write_payload_returns [OF assms(2), of ?s bytes header] assms(3,4) obtain written ni w where
    w: "write_payload imp bytes header ?s = (Inr (written, ni), ?s\<lparr>im_world := w\<rparr>)"
    and ni: "ni \<longleftrightarrow> tbl_get ar_content_hash (Sha256Hex bytes) (db_artifacts (w_db (im_world s))) \<noteq> None" by auto
  from write_payload_result [OF w] assms(4) have h: "wr_content_hash written = Sha256Hex bytes" by simp
  have c: "has_scene scene (tables (?s\<lparr>im_world := w\<rparr>))" "has_sensor (sf_sensor_id file) (tables (?s\<lparr>im_world := w\<rparr>))"
    "DeriveFrameId (sf_sensor_id file) (sf_timestamp_ns file) (Sha256Hex bytes) \<notin> fr_frame_id ` set (st_frames (tables (?s\<lparr>im_world := w\<rparr>)))"
    "DeriveObservationId (sf_sensor_id file) (sf_timestamp_ns file) (Sha256Hex bytes) \<notin>
       ob_observation_id ` set (st_observations (tables (?s\<lparr>im_world := w\<rparr>))) \<union>
       op_observation_id ` set (st_payloads (tables (?s\<lparr>im_world := w\<rparr>)))"
    using assms(1) by (auto simp: importable_def)
  from write_records_runs(1) [OF c assms(2), where
      header = header and seq = seq and session = session and artifact = "wr_artifact_uuid written"]
    runs_ran [OF r(2)] obtain s' where
    "write_records imp file (Sha256Hex bytes) header seq scene session (wr_artifact_uuid written) (?s\<lparr>im_world := w\<rparr>) = (Inr (), s')"
    by auto
  with ProcessFile_importable [OF assms(1) r(1), of seq session] w h show ?thesis
    by (auto simp: sx_simps new_entry_def ni)
qed

text \<open>
  C19: when no call to the store, the JSON writer or the scene tables fails and the store is consistent, a
  readable file of an allowed format with a sound header, a registered sensor, an existing scene and a
  capture time, whose derived frame and observation ids have no row yet, is imported: the call returns a
  new entry, whatever payloads are stored already. A file that was imported before, or whose earlier import
  was interrupted behind the frame's insert (\<open>interrupted_import_is_final\<close>), is outside of it.
\<close>

theorem importable_file_is_imported:
  assumes "importable imp file bytes header scene (tables s)" "\<And>d. \<exists>s. jl_dump (ii_lib imp) d = Inr s"
    "calm (im_world s)" "store_ok (im_world s)" "runs 12 (im_scene s)"
  shows "\<exists>entry s'. ProcessFile imp file seq scene session s = (Inr (Inr entry), s') \<and> \<not> ie_reimported entry \<and>
    ie_content_hash entry = Sha256Hex bytes \<and>
    (ie_new_instance entry \<longleftrightarrow> tbl_get ar_content_hash (Sha256Hex bytes) (db_artifacts (w_db (im_world s))) \<noteq> None)"
  by (rule importable_returns [OF assms])

text \<open>The same file when the call after the frame's insert fails: the frame stays, its observation does not come.\<close>

lemma import_interrupted:
  assumes "importable imp file bytes header scene (tables s)" "\<And>d. \<exists>s. jl_dump (ii_lib imp) d = Inr s"
    "calm (im_world s)" "store_ok (im_world s)" "runs 8 (im_scene s)" "db_fault (im_scene s) (db_tick (im_scene s) + 8)"
  shows "\<exists>e s'. ProcessFile imp file seq scene session s = (Inl e, s') \<and> store_ok (im_world s') \<and>
    tables s' = (tables s)\<lparr>st_frames := st_frames (tables s) @ [frame_row file (Sha256Hex bytes) seq scene session]\<rparr>"
proof -
  let ?s = "s\<lparr>im_scene := ran 6 (tables s) (im_scene s)\<rparr>"
  from assms(5) have r: "runs 6 (im_scene s)" "runs (6 + 2) (im_scene s)" by (auto intro: runs_less)
  from write_payload_returns [OF assms(2), of ?s bytes header] assms(3,4) obtain written ni w where
    w: "write_payload imp bytes header ?s = (Inr (written, ni), ?s\<lparr>im_world := w\<rparr>)" by auto
  from write_payload_keeps_ok [OF w] assms(4) have ok: "store_ok w" by simp
  have c: "has_scene scene (tables (?s\<lparr>im_world := w\<rparr>))" "has_sensor (sf_sensor_id file) (tables (?s\<lparr>im_world := w\<rparr>))"
    "DeriveFrameId (sf_sensor_id file) (sf_timestamp_ns file) (Sha256Hex bytes) \<notin> fr_frame_id ` set (st_frames (tables (?s\<lparr>im_world := w\<rparr>)))"
    "DeriveObservationId (sf_sensor_id file) (sf_timestamp_ns file) (Sha256Hex bytes) \<notin>
       ob_observation_id ` set (st_observations (tables (?s\<lparr>im_world := w\<rparr>))) \<union>
       op_observation_id ` set (st_payloads (tables (?s\<lparr>im_world := w\<rparr>)))"
    using assms(1) by (auto simp: importable_def)
  from write_records_runs(2) [OF c assms(2), where
      header = header and seq = seq and session = session and artifact = "wr_artifact_uuid written"]
    assms(6) runs_ran [OF r(2)] obtain e where
    "write_records imp file (Sha256Hex bytes) header seq scene session (wr_artifact_uuid written) (?s\<lparr>im_world := w\<rparr>) =
     (Inl e, ?s\<lparr>im_world := w, im_scene := ran 9 ((tables s)\<lparr>st_frames := st_frames (tables s) @ [frame_row file (Sha256Hex bytes) seq scene session]\<rparr>) (im_scene s)\<rparr>)"
    by (auto simp: add.commute [of 8])
  with ProcessFile_importable [OF assms(1) r(1), of seq session] w ok show ?thesis
    by (auto simp: sx_simps)
qed

text \<open>A PNG of two by one pixels, its importer, and a scene that it can be imported into, with the calls that fail.\<close>

definition png_2x1 :: "byte list" where
  "png_2x1 = png_file 13 2 1 8 2 [0, 0, 0]"

definition demo_importer :: importer where
  "demo_importer = \<lparr>ii_allowlist = [kPng], ii_batch_name = ''batch'', ii_project_id = replicate 16 1,
     ii_lib = reference_json,
     ii_read_file = (\<lambda>p. if p = ''a.png'' then Inr png_2x1 else Inl (throw_error kStorageIo ''cannot open file'')),
     ii_version = ''1'', ii_git_commit = ''c''\<rparr>"

definition demo_image :: "string \<Rightarrow> ImageSourceFile" where
  "demo_image path = \<lparr>sf_path = path, sf_source_uri = '''', sf_sensor_id = replicate 16 2, sf_timestamp_ns = 5\<rparr>"

definition demo_import :: "(nat \<Rightarrow> bool) \<Rightarrow> import_state" where
  "demo_import fault = \<lparr>im_world = empty_world,
     im_scene = (open_conn (empty_tables
       \<lparr>st_projects := [\<lparr>pj_project_id = replicate 16 1, pj_name = ''p'', pj_schema_version = 1, pj_created_by_json = '''', pj_created_at_ns = 0,
          pj_default_crs = '''', pj_root_frame = '''', pj_flags_json = '''', pj_properties_json = ''''\<rparr>], st_sessions := [\<lparr>cs_session_id = replicate 16 4, cs_project_id = replicate 16 1, cs_name = ''batch'',
          cs_started_at_ns = 5, cs_ended_at_ns = 5, cs_source_uri = '''', cs_status = ''open'', cs_provenance_json = ''''\<rparr>],
        st_sensors := [\<lparr>se_sensor_id = replicate 16 2, se_project_id = replicate 16 1, se_type = ''camera'', se_manufacturer = '''',
          se_model = '''', se_serial_number = '''', se_time_domain = ''platform'', se_calibration_id = nil_uuid, se_rig_id = nil_uuid,
          se_source_json = '''', se_status = ''active'', se_has_calibration = False\<rparr>],
        st_scenes := [\<lparr>sn_scene_id = replicate 16 3, sn_project_id = replicate 16 1, sn_schema_version = 1, sn_name = ''batch'',
          sn_current_version_id = nil_uuid, sn_origin_frame = '''', sn_crs = '''', sn_status = '''', sn_properties_json = ''''\<rparr>]\<rparr>))
       \<lparr>db_fault := fault\<rparr>\<rparr>"

lemma demo_import_simps [simp]:
  "im_world (demo_import fault) = empty_world" "db_fault (im_scene (demo_import fault)) = fault"
  "db_tick (im_scene (demo_import fault)) = 0"
  by (simp_all add: demo_import_def open_conn_def)

lemma demo_runs: "(\<And>k. k < n \<Longrightarrow> \<not> fault k) \<Longrightarrow> runs n (im_scene (demo_import fault))"
  by (simp add: runs_def demo_import_def open_conn_def)

lemma demo_importable: "\<exists>header. importable demo_importer (demo_image ''a.png'') png_2x1 header (replicate 16 3) (tables (demo_import fault))"
proof -
  have p: "ParseImageHeader (Some png_2x1) (length png_2x1) = Inr (Some \<lparr>ih_format = kPng, ih_width = 2,
      ih_height = 1, ih_pixel_format = png_pixels 2 8, ih_mime_type = ''image/png''\<rparr>)"
    using ParseImageHeader_png [of 13 "[0, 0, 0]" png_2x1 2 1 8 2] by (simp add: png_2x1_def)
  have f: "DetectImageFormat (Some png_2x1) (length png_2x1) = Inr kPng" by code_simp
  have g: "png_pixels 2 8 \<noteq> []" by code_simp
  show ?thesis
    by (rule exI) (auto simp: importable_def demo_importer_def demo_image_def p f g good_header_def demo_import_def open_conn_def
        empty_tables_def has_sensor_def has_scene_def)
qed

lemma demo_dumps: "\<exists>s. jl_dump (ii_lib demo_importer) d = Inr s"
  using reference_json_dumps by (simp add: demo_importer_def)

lemma importable_file_is_imported_witness:
  "\<exists>entry s'. ProcessFile demo_importer (demo_image ''a.png'') 0 (replicate 16 3) (replicate 16 4) (demo_import (\<lambda>_. False)) =
      (Inr (Inr entry), s') \<and> \<not> ie_reimported entry"
proof -
  from demo_importable obtain header where
    "importable demo_importer (demo_image ''a.png'') png_2x1 header (replicate 16 3) (tables (demo_import (\<lambda>_. False)))" by blast
  from importable_file_is_imported [OF this demo_dumps, of 0 "replicate 16 4"] calm_empty store_ok_empty show ?thesis
    by (auto simp: demo_runs)
qed

lemma demo_imported:
  "\<exists>entry s'. ProcessFile demo_importer (demo_image ''a.png'') 0 (replicate 16 3) (replicate 16 4) (demo_import (\<lambda>_. False)) =
      (Inr (Inr entry), s') \<and> \<not> ie_reimported entry"
proof -
  from demo_importable obtain header where
    "importable demo_importer (demo_image ''a.png'') png_2x1 header (replicate 16 3) (tables (demo_import (\<lambda>_. False)))" by blast
  from importable_returns [OF this demo_dumps, of 0 "replicate 16 4"] calm_empty store_ok_empty show ?thesis
    by (auto simp: demo_runs)
qed

lemma demo_read: "ii_read_file demo_importer (sf_path (demo_image ''a.png'')) = Inr png_2x1"
  by (simp add: demo_importer_def demo_image_def)

lemma imported_file_is_stored_witness:
  "\<exists>entry s'. ProcessFile demo_importer (demo_image ''a.png'') 0 (replicate 16 3) (replicate 16 4) (demo_import (\<lambda>_. False)) =
      (Inr (Inr entry), s') \<and> ie_content_hash entry = Sha256Hex png_2x1 \<and>
     stored_as (Sha256Hex png_2x1) (ie_artifact_uuid entry) (im_world s')"
proof -
  from demo_imported obtain entry s' where
    r: "ProcessFile demo_importer (demo_image ''a.png'') 0 (replicate 16 3) (replicate 16 4) (demo_import (\<lambda>_. False)) = (Inr (Inr entry), s')"
    "\<not> ie_reimported entry" by blast
  from imported_file_is_stored [OF r(1)] store_ok_empty r demo_read show ?thesis by (intro exI) auto
qed

lemma rejected_file_only_recorded_witness:
  "\<exists>failure s'. ProcessFile demo_importer (demo_image ''b.png'') 0 (replicate 16 3) (replicate 16 4) (demo_import (\<lambda>_. False)) =
      (Inr (Inl failure), s') \<and> if_code failure = kImportUnreadable \<and>
     recorded demo_importer (replicate 16 4) failure 0 (tables (demo_import (\<lambda>_. False))) (tables s')"
proof -
  let ?s = "demo_import (\<lambda>_. False)"
  have f: "ii_read_file demo_importer (sf_path (demo_image ''b.png'')) = Inl (throw_error kStorageIo ''cannot open file'')"
    by (simp add: demo_importer_def demo_image_def)
  have ins: "insert_rejection row (tables ?s) = Some (add_rejection row (tables ?s))"
    if "ir_project_id row = replicate 16 1" "ir_session_id row = replicate 16 4" for row
    using that by (simp add: insert_rejection_def has_project_def demo_import_def open_conn_def empty_tables_def refers_def
        BindUuidOrNull_def tbl_insert_def add_rejection_def)
  have row: "ir_project_id (rejection_row demo_importer (replicate 16 4) u m c d q r n) = replicate 16 1"
    "ir_session_id (rejection_row demo_importer (replicate 16 4) u m c d q r n) = replicate 16 4" for u m c d q r n
    by (simp_all add: rejection_row_def demo_importer_def)
  have w: "write_op (statement p q (insert_rejection (rejection_row demo_importer (replicate 16 4) u m c d sq r n))) (im_scene ?s) =
      (Inr (), ran 2 (add_rejection (rejection_row demo_importer (replicate 16 4) u m c d sq r n) (tables ?s)) (im_scene ?s))"
    for p q u m c d sq r n
    by (rule insert_runs) (simp_all add: demo_runs ins row)
  obtain failure s' where r: "ProcessFile demo_importer (demo_image ''b.png'') 0 (replicate 16 3) (replicate 16 4) ?s = (Inr (Inl failure), s')"
    by (auto simp: ProcessFile_def Let_def f throw_error_def reject_def RecordRejection_def on_store_def new_uuid_def TimestampNsNow_def
        on_scene_def InsertImportRejection_def w sx_simps)
  from rejected_file_only_recorded [OF r] f r show ?thesis by (auto simp: rejection_code_def)
qed

text \<open>
  An import that is interrupted between the frame and its observation cannot be repeated: once the frame's row is
  there and the observation's is not, no call reports the file as imported again, whatever fails or not.
\<close>

theorem interrupted_import_is_final:
  assumes "ii_read_file imp (sf_path file) = Inr bytes"
    "DeriveFrameId (sf_sensor_id file) (sf_timestamp_ns file) (Sha256Hex bytes) \<in> fr_frame_id ` set (st_frames (tables s))"
    "DeriveObservationId (sf_sensor_id file) (sf_timestamp_ns file) (Sha256Hex bytes) \<notin> ob_observation_id ` set (st_observations (tables s))"
    "store_ok (im_world s)"
  shows "ProcessFile imp file seq scene session s \<noteq> (Inr (Inr entry), s')"
proof
  assume "ProcessFile imp file seq scene session s = (Inr (Inr entry), s')"
  from ProcessFile_Inr [OF this] assms(1) obtain header s1 uncal where
    p: "tables s1 = tables s" "im_world s1 = im_world s" "import_image imp file bytes header uncal seq scene session s1 = (Inr entry, s')"
    by auto
  from p(2) assms(4) have "store_ok (im_world s1)" by simp
  note R = import_image_Inr [OF p(3) this, unfolded p(1)]
  then have ids: "ie_frame_id entry = DeriveFrameId (sf_sensor_id file) (sf_timestamp_ns file) (Sha256Hex bytes)"
    "ie_observation_id entry = DeriveObservationId (sf_sensor_id file) (sf_timestamp_ns file) (Sha256Hex bytes)" by blast+
  from R assms(2,3) show False unfolding ids by metis
qed

lemma interrupted_import_is_final_witness:
  "\<exists>e s'. ProcessFile demo_importer (demo_image ''a.png'') 0 (replicate 16 3) (replicate 16 4) (demo_import (\<lambda>n. n = 8)) = (Inl e, s') \<and>
     (\<forall>seq session entry t. ProcessFile demo_importer (demo_image ''a.png'') seq (replicate 16 3) session
        (s'\<lparr>im_scene := (im_scene s')\<lparr>db_fault := \<lambda>_. False\<rparr>\<rparr>) \<noteq> (Inr (Inr entry), t))"
proof -
  let ?s = "demo_import (\<lambda>n. n = 8)" and ?file = "demo_image ''a.png''"
  from demo_importable obtain header where i: "importable demo_importer ?file png_2x1 header (replicate 16 3) (tables ?s)" by blast
  have "calm (im_world ?s)" "store_ok (im_world ?s)" "runs 8 (im_scene ?s)" "db_fault (im_scene ?s) (db_tick (im_scene ?s) + 8)"
    using calm_empty store_ok_empty by (simp_all add: demo_runs)
  from import_interrupted [OF i demo_dumps this, of 0 "replicate 16 4"] obtain e s' where
    r: "ProcessFile demo_importer ?file 0 (replicate 16 3) (replicate 16 4) ?s = (Inl e, s')" "store_ok (im_world s')"
    and t: "tables s' = (tables ?s)\<lparr>st_frames := st_frames (tables ?s) @ [frame_row ?file (Sha256Hex png_2x1) 0 (replicate 16 3) (replicate 16 4)]\<rparr>"
    by blast
  have "ProcessFile demo_importer ?file seq (replicate 16 3) session (s'\<lparr>im_scene := (im_scene s')\<lparr>db_fault := \<lambda>_. False\<rparr>\<rparr>) \<noteq> (Inr (Inr entry), u)"
    for seq session entry u
    by (rule interrupted_import_is_final [OF demo_read]) (use i r(2) t in \<open>auto simp: importable_def frame_row_def\<close>)
  with r(1) show ?thesis by blast
qed

end
