(* ===== verification/SceneQuery.thy ===== *)
theory SceneQuery
  imports ImageImport
begin

text \<open>
  core/scene/query/scene_query.cpp: the typed read interface, from rows to the domain types of
  core/scene/. Every field is copied; only an observation's artifact reference is parsed, and throws
  when it is not a UUID. The last section connects the queries with the image importer: what an
  import stores is what a query finds, and what a second import of the same bytes does to the first.
\<close>

section \<open>Domain types\<close>

type_synonym TimestampNs = int

record CaptureSession =
  dcs_session_id :: uuid
  dcs_project_id :: uuid
  dcs_name :: string
  dcs_source_uri :: string
  dcs_started_at :: TimestampNs
  dcs_ended_at :: TimestampNs
  dcs_status :: string
  dcs_provenance_json :: string

record Scene =
  dsc_scene_id :: uuid
  dsc_schema_version :: int
  dsc_project_id :: uuid
  dsc_name :: string
  dsc_version_id :: uuid
  dsc_parent_version_id :: uuid
  dsc_stage :: string
  dsc_created_by_json :: string
  dsc_created_at_ns :: int
  dsc_origin_frame :: string
  dsc_crs :: string
  dsc_status :: string
  dsc_properties_json :: string

record SceneVersion =
  dsv_version_id :: uuid
  dsv_scene_id :: uuid
  dsv_parent_version_id :: uuid
  dsv_stage :: string
  dsv_created_by_json :: string
  dsv_created_at_ns :: int
  dsv_status :: string

record Frame =
  dfr_frame_id :: uuid
  dfr_scene_id :: uuid
  dfr_session_id :: uuid
  dfr_timestamp_ns :: TimestampNs
  dfr_sequence_index :: int
  dfr_sensor_id :: uuid
  dfr_pose_ref :: uuid
  dfr_properties_json :: string

record ImageObservation =
  dob_observation_id :: uuid
  dob_scene_id :: uuid
  dob_sensor_id :: uuid
  dob_frame_id :: uuid
  dob_session_id :: uuid
  dob_timestamp_ns :: TimestampNs
  dob_artifact_ref :: uuid
  dob_source_json :: string
  dob_properties_json :: string
  dob_width :: int
  dob_height :: int
  dob_pixel_format :: string
  dob_focal_prior_px :: "u64 option"
  dob_band :: "string option"

record Sensor =
  dse_sensor_id :: uuid
  dse_project_id :: uuid
  dse_type :: string
  dse_manufacturer :: string
  dse_model :: string
  dse_serial_number :: string
  dse_time_domain :: string
  dse_calibration_id :: uuid
  dse_rig_id :: uuid
  dse_source_json :: string
  dse_status :: string
  dse_has_calibration :: bool

record Calibration =
  dca_calibration_id :: uuid
  dca_sensor_id :: uuid
  dca_version :: int
  dca_calibration_time_ns :: TimestampNs
  dca_source :: string
  dca_intrinsics_json :: string
  dca_distortion_json :: string
  dca_extrinsics_json :: string
  dca_uncertainty_json :: string
  dca_valid_from :: "TimestampNs option"
  dca_valid_to :: "TimestampNs option"

section \<open>From rows to the domain\<close>

definition ToDomain_session :: "CaptureSessionRow \<Rightarrow> CaptureSession" where
  "ToDomain_session row =
     \<lparr>dcs_session_id = cs_session_id row, dcs_project_id = cs_project_id row, dcs_name = cs_name row,
      dcs_source_uri = cs_source_uri row, dcs_started_at = cs_started_at_ns row, dcs_ended_at = cs_ended_at_ns row,
      dcs_status = cs_status row, dcs_provenance_json = cs_provenance_json row\<rparr>"

definition ToDomain_scene :: "SceneRow \<Rightarrow> Scene" where
  "ToDomain_scene row =
     \<lparr>dsc_scene_id = sr_scene_id row, dsc_schema_version = sr_schema_version row, dsc_project_id = sr_project_id row,
      dsc_name = sr_name row, dsc_version_id = sr_version_id row, dsc_parent_version_id = sr_parent_version_id row,
      dsc_stage = sr_stage row, dsc_created_by_json = sr_created_by_json row, dsc_created_at_ns = sr_created_at_ns row,
      dsc_origin_frame = sr_origin_frame row, dsc_crs = sr_crs row, dsc_status = sr_status row,
      dsc_properties_json = sr_properties_json row\<rparr>"

definition ToDomain_frame :: "FrameRow \<Rightarrow> Frame" where
  "ToDomain_frame row =
     \<lparr>dfr_frame_id = fr_frame_id row, dfr_scene_id = fr_scene_id row, dfr_session_id = fr_session_id row,
      dfr_timestamp_ns = fr_timestamp_ns row, dfr_sequence_index = fr_sequence_index row,
      dfr_sensor_id = fr_sensor_id row, dfr_pose_ref = fr_pose_ref row, dfr_properties_json = fr_properties_json row\<rparr>"

definition ToDomain_observation :: "ObservationRow \<Rightarrow> ImageObservation res" where
  "ToDomain_observation row =
     rbind (if ob_artifact_ref row \<noteq> [] then ParseUuid (ob_artifact_ref row) else Inr nil_uuid) (\<lambda>artifact_ref. Inr
     \<lparr>dob_observation_id = ob_observation_id row, dob_scene_id = ob_scene_id row, dob_sensor_id = ob_sensor_id row,
      dob_frame_id = ob_frame_id row, dob_session_id = ob_session_id row, dob_timestamp_ns = ob_timestamp_ns row,
      dob_artifact_ref = artifact_ref, dob_source_json = ob_source_json row,
      dob_properties_json = ob_properties_json row, dob_width = ob_width row, dob_height = ob_height row,
      dob_pixel_format = ob_pixel_format row, dob_focal_prior_px = None, dob_band = None\<rparr>)"

definition ToDomain_sensor :: "SensorRow \<Rightarrow> Sensor" where
  "ToDomain_sensor row =
     \<lparr>dse_sensor_id = se_sensor_id row, dse_project_id = se_project_id row, dse_type = se_type row,
      dse_manufacturer = se_manufacturer row, dse_model = se_model row, dse_serial_number = se_serial_number row,
      dse_time_domain = se_time_domain row, dse_calibration_id = se_calibration_id row, dse_rig_id = se_rig_id row,
      dse_source_json = se_source_json row, dse_status = se_status row, dse_has_calibration = se_has_calibration row\<rparr>"

definition ToDomain_calibration :: "CalibrationRow \<Rightarrow> Calibration" where
  "ToDomain_calibration row =
     \<lparr>dca_calibration_id = ca_calibration_id row, dca_sensor_id = ca_sensor_id row, dca_version = ca_version row,
      dca_calibration_time_ns = ca_calibration_time_ns row, dca_source = ca_source row,
      dca_intrinsics_json = ca_intrinsics_json row, dca_distortion_json = ca_distortion_json row,
      dca_extrinsics_json = ca_extrinsics_json row, dca_uncertainty_json = ca_uncertainty_json row,
      dca_valid_from = ca_valid_from_ns row, dca_valid_to = ca_valid_to_ns row\<rparr>"

definition ToDomain_version :: "SceneVersionRow \<Rightarrow> SceneVersion" where
  "ToDomain_version row =
     \<lparr>dsv_version_id = sv_version_id row, dsv_scene_id = sv_scene_id row,
      dsv_parent_version_id = sv_parent_version_id row, dsv_stage = sv_stage row,
      dsv_created_by_json = sv_created_by_json row, dsv_created_at_ns = sv_created_at_ns row, dsv_status = sv_status row\<rparr>"

text \<open>The loop over the rows: a reference that does not parse leaves it, and the query.\<close>

fun ImageObservationsFrom :: "ObservationRow list \<Rightarrow> ImageObservation list res" where
  "ImageObservationsFrom [] = Inr []"
| "ImageObservationsFrom (row # rows) =
     (if ob_type row = ''image'' then
        rbind (ToDomain_observation row) (\<lambda>o1. rbind (ImageObservationsFrom rows) (\<lambda>rest. Inr (o1 # rest)))
      else ImageObservationsFrom rows)"

section \<open>Queries\<close>

definition found_as :: "('r \<Rightarrow> 'd) \<Rightarrow> 'r option scene_op \<Rightarrow> 'd option scene_op" where
  "found_as f query = sbind query (\<lambda>row. sret (map_option f row))"

definition rows_as :: "('r \<Rightarrow> 'd) \<Rightarrow> 'r list scene_op \<Rightarrow> 'd list scene_op" where
  "rows_as f query = sbind query (\<lambda>rows. sret (map f rows))"

definition images_of :: "ObservationRow list scene_op \<Rightarrow> ImageObservation list scene_op" where
  "images_of query = sbind query (\<lambda>rows. lift_res (ImageObservationsFrom rows))"

definition SQ_FindCaptureSession :: "uuid \<Rightarrow> CaptureSession option scene_op" where
  "SQ_FindCaptureSession session_id = found_as ToDomain_session (FindCaptureSession session_id)"

definition SQ_FindSceneByProject :: "uuid \<Rightarrow> Scene option scene_op" where
  "SQ_FindSceneByProject project_id = found_as ToDomain_scene (FindSceneByProject project_id)"

definition SQ_SessionScene :: "uuid \<Rightarrow> Scene option scene_op" where
  "SQ_SessionScene session_id = sbind (FindCaptureSession session_id) (\<lambda>session. case session of
     None \<Rightarrow> sret None
   | Some s \<Rightarrow> SQ_FindSceneByProject (cs_project_id s))"

definition SQ_ResolveSensor :: "uuid \<Rightarrow> Sensor option scene_op" where
  "SQ_ResolveSensor sensor_id = found_as ToDomain_sensor (FindSensor sensor_id)"

definition SQ_ResolveCalibrationAt :: "uuid \<Rightarrow> TimestampNs \<Rightarrow> Calibration option scene_op" where
  "SQ_ResolveCalibrationAt sensor_id timestamp = found_as ToDomain_calibration (ResolveCalibrationAt sensor_id timestamp)"

definition SQ_Frames :: "Frame list scene_op" where
  "SQ_Frames = rows_as ToDomain_frame FindFrames"

definition SQ_FramesBySession :: "uuid \<Rightarrow> Frame list scene_op" where
  "SQ_FramesBySession session_id = rows_as ToDomain_frame (FindFramesBySession session_id)"

definition SQ_FramesBySensor :: "uuid \<Rightarrow> Frame list scene_op" where
  "SQ_FramesBySensor sensor_id = rows_as ToDomain_frame (FindFramesBySensor sensor_id)"

definition SQ_FramesInTimeRange :: "TimestampNs \<Rightarrow> TimestampNs \<Rightarrow> Frame list scene_op" where
  "SQ_FramesInTimeRange from_ns to_ns = rows_as ToDomain_frame (FindFramesInTimeRange from_ns to_ns)"

definition SQ_Observations :: "ImageObservation list scene_op" where
  "SQ_Observations = images_of FindObservations"

definition SQ_ObservationsByFrame :: "uuid \<Rightarrow> ImageObservation list scene_op" where
  "SQ_ObservationsByFrame frame_id = images_of (FindObservationsByFrame frame_id)"

definition SQ_ObservationsBySession :: "uuid \<Rightarrow> ImageObservation list scene_op" where
  "SQ_ObservationsBySession session_id = images_of (FindObservationsBySession session_id)"

definition SQ_ObservationsBySensor :: "uuid \<Rightarrow> ImageObservation list scene_op" where
  "SQ_ObservationsBySensor sensor_id = images_of (FindObservationsBySensor sensor_id)"

definition SQ_ObservationsInTimeRange :: "TimestampNs \<Rightarrow> TimestampNs \<Rightarrow> ImageObservation list scene_op" where
  "SQ_ObservationsInTimeRange from_ns to_ns = images_of (FindObservationsInTimeRange from_ns to_ns)"

definition SQ_ArtifactHash :: "uuid \<Rightarrow> string option db_op" where
  "SQ_ArtifactHash artifact_uuid = sbind (FindArtifactById artifact_uuid) (\<lambda>row. sret (map_option ar_content_hash row))"

definition SQ_SceneVersion :: "uuid \<Rightarrow> SceneVersion option scene_op" where
  "SQ_SceneVersion version_id = found_as ToDomain_version (FindSceneVersion version_id)"

definition SQ_SceneVersions :: "uuid \<Rightarrow> SceneVersion list scene_op" where
  "SQ_SceneVersions scene_id = rows_as ToDomain_version (FindSceneVersionsByScene scene_id)"

section \<open>References\<close>

text \<open>A reference is empty or a UUID's text, as the importer writes it.\<close>

definition ref_ok :: "ObservationRow \<Rightarrow> bool" where
  "ref_ok row \<longleftrightarrow> ob_type row = ''image'' \<longrightarrow>
     ob_artifact_ref row = [] \<or> (\<exists>u. length u = 16 \<and> ob_artifact_ref row = FormatUuid u)"

definition refs_ok :: "scene_tables \<Rightarrow> bool" where
  "refs_ok t \<longleftrightarrow> (\<forall>row\<in>set (st_observations t). ref_ok row)"

definition image_of :: "ObservationRow \<Rightarrow> ImageObservation" where
  "image_of row = projr (ToDomain_observation row)"

lemma ToDomain_observation_ok: "ref_ok row \<Longrightarrow> ob_type row = ''image'' \<Longrightarrow> ToDomain_observation row = Inr (image_of row)"
  by (auto simp: ref_ok_def ToDomain_observation_def image_of_def format_parse)

lemma ImageObservationsFrom_ok:
  "\<forall>row\<in>set rows. ref_ok row \<Longrightarrow>
   ImageObservationsFrom rows = Inr (map image_of (filter (\<lambda>row. ob_type row = ''image'') rows))"
  by (induction rows) (auto simp: ToDomain_observation_ok)

lemma ReadObservationRow_fields [simp]:
  "ob_type (ReadObservationRow t row) = ob_type row" "ob_artifact_ref (ReadObservationRow t row) = ob_artifact_ref row"
  "ob_observation_id (ReadObservationRow t row) = ob_observation_id row" "ref_ok (ReadObservationRow t row) = ref_ok row"
  by (simp_all add: ReadObservationRow_def ref_ok_def split: option.split)

lemma select_images:
  assumes "refs_ok t"
  shows "ImageObservationsFrom (select_observations P t) =
    Inr (map (\<lambda>row. image_of (ReadObservationRow t row)) (sort_key ob_timestamp_ns (filter (\<lambda>row. P row \<and> ob_type row = ''image'') (st_observations t))))"
proof -
  have "ImageObservationsFrom (select_observations P t) =
      Inr (map image_of (filter (\<lambda>row. ob_type row = ''image'') (select_observations P t)))"
    by (rule ImageObservationsFrom_ok) (use assms in \<open>auto simp: select_observations_def refs_ok_def\<close>)
  moreover have "filter (\<lambda>row. ob_type row = ''image'') (select_observations P t) =
      map (ReadObservationRow t) (sort_key ob_timestamp_ns (filter (\<lambda>row. P row \<and> ob_type row = ''image'') (st_observations t)))"
    by (simp add: select_observations_def filter_map comp_def filter_sort conj_commute)
  ultimately show ?thesis by simp
qed

text \<open>A connection on which no call fails, with these tables.\<close>

definition readable :: "scene_tables \<Rightarrow> scene_db \<Rightarrow> bool" where
  "readable t d \<longleftrightarrow> db_open d \<and> (\<forall>k. \<not> db_fault d k) \<and> tx_tables d = t"

lemma images_of_reads:
  assumes "readable t d" "refs_ok t"
  shows "fst (images_of (query_rows p (select_observations P)) d) =
    Inr (map (\<lambda>row. image_of (ReadObservationRow t row)) (sort_key ob_timestamp_ns (filter (\<lambda>row. P row \<and> ob_type row = ''image'') (st_observations t))))"
proof -
  from query_rows_healthy [of d p "select_observations P"] assms(1) obtain d' where
    "query_rows p (select_observations P) d = (Inr (select_observations P t), d')" by (auto simp: readable_def)
  then show ?thesis by (simp add: images_of_def sx_simps lift_res_def select_images [OF assms(2)])
qed

section \<open>Imports and queries\<close>

text \<open>Where the ids of the artifacts come from: 16 random bytes.\<close>

definition ids_ok :: "world \<Rightarrow> bool" where
  "ids_ok w \<longleftrightarrow> (\<forall>k. length (w_random w k) = 16) \<and> (\<forall>row\<in>set (db_artifacts (w_db w)). length (ar_artifact_id row) = 16)"

lemma import_new:
  assumes "ProcessFile imp file seq scene session s = (Inr (Inr entry), s')" "store_ok (im_world s)" "\<not> ie_reimported entry"
  shows "\<exists>bytes header source_json props. ie_content_hash entry = Sha256Hex bytes \<and>
    ie_observation_id entry = DeriveObservationId (sf_sensor_id file) (sf_timestamp_ns file) (Sha256Hex bytes) \<and>
    ie_width entry = ih_width header \<and> ie_height entry = ih_height header \<and>
    stored_as (Sha256Hex bytes) (ie_artifact_uuid entry) (im_world s') \<and> store_ok (im_world s') \<and>
    ie_observation_id entry \<notin> op_observation_id ` set (st_payloads (tables s)) \<and>
    tables s' = with_records file (Sha256Hex bytes) header seq scene session (ie_artifact_uuid entry) source_json props (tables s) \<and>
    ((\<exists>k. ie_artifact_uuid entry = GenerateUuid (w_random (im_world s) k)) \<or>
       \<not> ie_new_instance entry \<and> ie_artifact_uuid entry \<in> ar_artifact_id ` set (db_artifacts (w_db (im_world s)))) \<and>
    (ie_new_instance entry \<longrightarrow> (\<exists>row. ar_artifact_id row = ie_artifact_uuid entry \<and> ar_content_hash row = Sha256Hex bytes \<and>
       db_artifacts (w_db (im_world s')) = replace_artifact row (db_artifacts (w_db (im_world s)))))"
proof -
  from ProcessFile_Inr [OF assms(1)] obtain bytes header s1 uncal where
    p: "tables s1 = tables s" "same_store s s1" "im_world s1 = im_world s"
    and i: "import_image imp file bytes header uncal seq scene session s1 = (Inr entry, s')" by blast
  from p(3) assms(2) have "store_ok (im_world s1)" by simp
  note r = import_image_Inr [OF i this, unfolded p(1,3)]
  note r = r [unfolded if_not_P [OF assms(3)]]
  then obtain source_json props where
    "tables s' = with_records file (Sha256Hex bytes) header seq scene session (ie_artifact_uuid entry) source_json props (tables s)"
    by (elim conjE exE)
  with r show ?thesis by (elim conjE) (intro exI conjI; assumption)
qed

lemma tbl_get_artifact:
  assumes "artifact_index_ok rows" "row \<in> set rows"
  shows "tbl_get ar_artifact_id (ar_artifact_id row) rows = Some row"
  using assms by (induction rows) (auto simp: artifact_index_ok_def tbl_get_Cons)

lemma ArtifactHash_healthy:
  "healthy d \<Longrightarrow> fst (SQ_ArtifactHash a d) = Inr (map_option ar_content_hash (tbl_get ar_artifact_id a (db_artifacts d)))"
  by (simp add: SQ_ArtifactHash_def FindArtifactById_def healthy_call sx_simps sql_first_def)

text \<open>
  C18: an image that an import reports as new is found again: under its session the query returns an
  observation with its id, geometry and artifact, and the artifact leads to the hash of the file's bytes; no reference
  that imports wrote makes a query throw.
\<close>

theorem imported_image_is_found:
  assumes "ProcessFile imp file seq scene session s = (Inr (Inr entry), s')" "\<not> ie_reimported entry"
    "store_ok (im_world s)" "ids_ok (im_world s)" "refs_ok (tables s)" "\<not> IsNil session"
    "readable (tables s') d" "healthy db" "db_artifacts db = db_artifacts (w_db (im_world s'))"
  shows "refs_ok (tables s') \<and> (\<exists>found. fst (SQ_ObservationsBySession session d) = Inr found \<and>
    (\<exists>image\<in>set found. dob_observation_id image = ie_observation_id entry \<and> dob_width image = ie_width entry \<and>
      dob_height image = ie_height entry \<and> dob_artifact_ref image = ie_artifact_uuid entry \<and>
      fst (SQ_ArtifactHash (dob_artifact_ref image) db) = Inr (Some (ie_content_hash entry))))"
proof -
  from import_new [OF assms(1,3,2)] obtain bytes header source_json props where
    e: "ie_content_hash entry = Sha256Hex bytes" "ie_width entry = ih_width header" "ie_height entry = ih_height header"
      "ie_observation_id entry = DeriveObservationId (sf_sensor_id file) (sf_timestamp_ns file) (Sha256Hex bytes)"
    and st: "stored_as (Sha256Hex bytes) (ie_artifact_uuid entry) (im_world s')" "store_ok (im_world s')"
    and op: "ie_observation_id entry \<notin> op_observation_id ` set (st_payloads (tables s))"
    and t: "tables s' = with_records file (Sha256Hex bytes) header seq scene session (ie_artifact_uuid entry) source_json props (tables s)"
    and id: "(\<exists>k. ie_artifact_uuid entry = GenerateUuid (w_random (im_world s) k)) \<or>
       ie_artifact_uuid entry \<in> ar_artifact_id ` set (db_artifacts (w_db (im_world s)))" by blast
  have len: "length (ie_artifact_uuid entry) = 16"
    using id assms(4) GenerateUuid_stamped by (auto simp: ids_ok_def)
  let ?row = "observation_row file (Sha256Hex bytes) scene session (ie_artifact_uuid entry) source_json props"
  have row: "ob_type ?row = ''image''" "ob_artifact_ref ?row = FormatUuid (ie_artifact_uuid entry)" "ob_session_id ?row = session"
    "ob_observation_id ?row = ie_observation_id entry"
    by (simp_all add: observation_row_def e(4))
  have refs: "refs_ok (tables s')"
    using assms(5) len row(2) by (auto simp: refs_ok_def t with_records_def ref_ok_def)
  have pay: "tbl_get op_observation_id (ie_observation_id entry) (st_payloads (tables s')) = Some (payload_row file (Sha256Hex bytes) header)"
    using op by (simp add: t with_records_def tbl_get_append tbl_get_None [symmetric] tbl_get_Cons payload_row_def e(4))
  have some: "FormatUuid (ie_artifact_uuid entry) \<noteq> []" by (auto simp: FormatUuid_def hex_byte_def intro: exI [of _ 0])
  let ?image = "image_of (ReadObservationRow (tables s') ?row)"
  have image: "dob_observation_id ?image = ie_observation_id entry \<and> dob_width ?image = ie_width entry \<and>
      dob_height ?image = ie_height entry \<and> dob_artifact_ref ?image = ie_artifact_uuid entry"
    by (simp add: image_of_def ReadObservationRow_def row pay ToDomain_observation_def format_parse [OF len] some e(2,3) payload_row_def)
  have "?row \<in> set (filter (\<lambda>row. BindUuidOrNull (ob_session_id row) = Some session \<and> ob_type row = ''image'') (st_observations (tables s')))"
    using assms(6) row by (simp add: t with_records_def BindUuidOrNull_def)
  then obtain found where f: "fst (SQ_ObservationsBySession session d) = Inr found" "?image \<in> set found"
    using images_of_reads [OF assms(7) refs] by (simp add: SQ_ObservationsBySession_def FindObservationsBySession_def)
  from st obtain r where "r \<in> set (db_artifacts (w_db (im_world s')))" "ar_content_hash r = Sha256Hex bytes"
    "ar_artifact_id r = ie_artifact_uuid entry" by (auto simp: stored_as_def dest!: tbl_get_Some)
  with tbl_get_artifact [of "db_artifacts (w_db (im_world s'))" r] st(2) ArtifactHash_healthy [OF assms(8)] assms(9)
  have "fst (SQ_ArtifactHash (ie_artifact_uuid entry) db) = Inr (Some (ie_content_hash entry))" by (simp add: store_ok_def e(1))
  with refs f image show ?thesis by auto
qed

text \<open>
  When the same bytes are imported for a second observation, the new artifact takes the place of the stored one in
  the index, which has one row per hash: the first observation keeps its reference, and no query finds that artifact's
  hash any more.
\<close>

theorem second_import_orphans_the_first:
  assumes "ProcessFile imp file seq scene session s = (Inr (Inr entry), s')" "\<not> ie_reimported entry" "ie_new_instance entry"
    "store_ok (im_world s)" "row \<in> set (st_observations (tables s))" "ob_artifact_ref row = FormatUuid artifact"
    "tbl_get ar_content_hash (ie_content_hash entry) (db_artifacts (w_db (im_world s))) = Some r" "ar_artifact_id r = artifact"
    "artifact \<noteq> ie_artifact_uuid entry" "db_artifacts db = db_artifacts (w_db (im_world s'))"
  shows "row \<in> set (st_observations (tables s')) \<and> fst (SQ_ArtifactHash artifact db) \<noteq> Inr (Some h)"
proof -
  from import_new [OF assms(1,4,2)] assms(3) obtain bytes header source_json props new where
    e: "ie_content_hash entry = Sha256Hex bytes"
    and t: "tables s' = with_records file (Sha256Hex bytes) header seq scene session (ie_artifact_uuid entry) source_json props (tables s)"
    and new: "ar_artifact_id new = ie_artifact_uuid entry" "ar_content_hash new = Sha256Hex bytes"
      "db_artifacts (w_db (im_world s')) = replace_artifact new (db_artifacts (w_db (im_world s)))" by blast
  have "artifact_index_ok (db_artifacts (w_db (im_world s)))" using assms(4) by (simp add: store_ok_def)
  then have "q = r" if "q \<in> set (db_artifacts (w_db (im_world s)))" "ar_artifact_id q = artifact" for q
    using that assms(7,8) by (auto simp: artifact_index_ok_def distinct_map inj_on_def dest!: tbl_get_Some)
  then have "artifact \<notin> ar_artifact_id ` set (db_artifacts (w_db (im_world s')))"
    using new e assms(7,9) by (auto simp: replace_artifact_def dest!: tbl_get_Some)
  then have "tbl_get ar_artifact_id artifact (db_artifacts db) = None" using assms(10) by (simp add: tbl_get_None)
  then have "fst (SQ_ArtifactHash artifact db) \<noteq> Inr (Some h)"
    by (auto simp: SQ_ArtifactHash_def FindArtifactById_def sbind_def sql_call_def sql_first_def sret_def)
  then show ?thesis using assms(5) t by (simp add: with_records_def)
qed

lemma imported_image_is_found_witness:
  "\<exists>entry s' found. ProcessFile demo_importer (demo_image ''a.png'') 0 (replicate 16 3) (replicate 16 4) (demo_import (\<lambda>_. False)) =
      (Inr (Inr entry), s') \<and> fst (SQ_ObservationsBySession (replicate 16 4) (open_conn (tables s'))) = Inr found \<and>
     (\<exists>image\<in>set found. dob_observation_id image = ie_observation_id entry)"
proof -
  let ?s = "demo_import (\<lambda>_. False)"
  from demo_imported obtain entry s' where
    r: "ProcessFile demo_importer (demo_image ''a.png'') 0 (replicate 16 3) (replicate 16 4) ?s = (Inr (Inr entry), s')"
    and n: "\<not> ie_reimported entry" by blast
  have nil: "\<not> IsNil (replicate 16 4 :: uuid)" by code_simp
  have a: "store_ok (im_world ?s)" "ids_ok (im_world ?s)" "refs_ok (tables ?s)" "readable (tables s') (open_conn (tables s'))"
    using store_ok_empty
    by (simp_all add: ids_ok_def empty_world_def empty_db_def refs_ok_def demo_import_def open_conn_def empty_tables_def readable_def)
  have h: "healthy (empty_db\<lparr>db_artifacts := db_artifacts (w_db (im_world s'))\<rparr>)" by (simp add: healthy_def empty_db_def)
  from imported_image_is_found [OF r n a(1-3) nil a(4) h] r show ?thesis by auto
qed

text \<open>The PNG's bytes are stored already, under an artifact that an observation refers to.\<close>

definition first_artifact :: ArtifactIndexRow where
  "first_artifact = \<lparr>ar_artifact_id = replicate 16 255, ar_content_hash = Sha256Hex png_2x1, ar_type = ''image'', ar_schema_version = 1,
     ar_producer_json = '''', ar_config_hash = '''', ar_created_at_ns = 0, ar_coordinate_frame = ''image'', ar_unit = ''meter'',
     ar_file_size = 0, ar_mime_type = ''image/png'', ar_validation_status = ''valid''\<rparr>"

definition first_observation :: ObservationRow where
  "first_observation = \<lparr>ob_observation_id = replicate 16 255, ob_scene_id = replicate 16 3, ob_sensor_id = replicate 16 9,
     ob_frame_id = replicate 16 255, ob_session_id = replicate 16 4, ob_timestamp_ns = 5, ob_type = ''image'',
     ob_artifact_ref = FormatUuid (replicate 16 255), ob_source_json = '''', ob_properties_json = '''', ob_width = 0, ob_height = 0,
     ob_pixel_format = ''''\<rparr>"

definition demo_second :: import_state where
  "demo_second = \<lparr>im_world = empty_world\<lparr>w_payloads := [(Sha256Hex png_2x1, png_2x1)],
       w_db := empty_db\<lparr>db_artifacts := [first_artifact]\<rparr>\<rparr>,
     im_scene = open_conn ((tables (demo_import (\<lambda>_. False)))\<lparr>st_observations := [first_observation]\<rparr>)\<rparr>"

lemma second_import_orphans_the_first_witness:
  "\<exists>entry s'. ProcessFile demo_importer (demo_image ''a.png'') 0 (replicate 16 3) (replicate 16 4) demo_second = (Inr (Inr entry), s') \<and>
     fst (SQ_ArtifactHash (replicate 16 255) (w_db (im_world demo_second))) = Inr (Some (Sha256Hex png_2x1)) \<and>
     fst (SQ_ArtifactHash (replicate 16 255) (w_db (im_world s'))) \<noteq> Inr (Some (Sha256Hex png_2x1))"
proof -
  have w: "calm (im_world demo_second)" "store_ok (im_world demo_second)" "runs 12 (im_scene demo_second)"
    by (simp_all add: calm_def healthy_def demo_second_def empty_world_def empty_db_def store_ok_def artifact_index_ok_def payload_of_def
        first_artifact_def tbl_get_Cons runs_def open_conn_def)
  have byte_ff: "drop_bit 4 (replicate 16 255 ! 6 :: byte) \<noteq> 4" by simp
  have ne: "DeriveObservationId a b c \<noteq> replicate 16 255" for a b c
  proof
    assume "DeriveObservationId a b c = replicate 16 255"
    then have "drop_bit 4 (replicate 16 255 ! 6 :: byte) = 5" using GenerateUuidV5_spec by (metis DeriveObservationId_def)
    then show False by simp
  qed
  from demo_importable obtain header where i: "importable demo_importer (demo_image ''a.png'') png_2x1 header (replicate 16 3) (tables demo_second)"
    using ne by (auto simp: importable_def demo_second_def open_conn_def first_observation_def has_sensor_def has_scene_def demo_import_def
        empty_tables_def)
  from importable_returns [OF i demo_dumps w, of 0 "replicate 16 4"] obtain entry s' where
    r: "ProcessFile demo_importer (demo_image ''a.png'') 0 (replicate 16 3) (replicate 16 4) demo_second = (Inr (Inr entry), s')"
    and n: "\<not> ie_reimported entry" "ie_content_hash entry = Sha256Hex png_2x1" "ie_new_instance entry"
    by (auto simp: demo_second_def first_artifact_def tbl_get_Cons)
  from import_new [OF r w(2) n(1)] n(3) obtain k where "ie_artifact_uuid entry = GenerateUuid (w_random (im_world demo_second) k)" by blast
  moreover have "length (w_random (im_world demo_second) k) = 16" by (simp add: demo_second_def empty_world_def)
  ultimately have "drop_bit 4 (ie_artifact_uuid entry ! 6) = 4" using GenerateUuid_stamped by simp
  then have other: "replicate 16 255 \<noteq> ie_artifact_uuid entry"
    by (metis (no_types) byte_ff)
  have o: "first_observation \<in> set (st_observations (tables demo_second))" "ob_artifact_ref first_observation = FormatUuid (replicate 16 255)"
    "tbl_get ar_content_hash (ie_content_hash entry) (db_artifacts (w_db (im_world demo_second))) = Some first_artifact"
    "ar_artifact_id first_artifact = replicate 16 255"
    using n(2) by (simp_all add: demo_second_def open_conn_def first_observation_def first_artifact_def tbl_get_Cons)
  have "fst (SQ_ArtifactHash (replicate 16 255) (w_db (im_world demo_second))) = Inr (Some (Sha256Hex png_2x1))"
    by (subst ArtifactHash_healthy) (simp_all add: demo_second_def healthy_def empty_db_def first_artifact_def tbl_get_Cons)
  with second_import_orphans_the_first [OF r n(1,3) w(2) o other refl] r show ?thesis by blast
qed

end
