(* ===== verification/Reconstructions.thy ===== *)
theory Reconstructions
  imports Calibrations
begin

text \<open>
  Results of processing in core/storage/metadata_db.cpp: reconstructions with their status life cycle,
  trajectories, pose graphs, loop closure candidates, loop closures and optimization results. The
  tables of migration 0008 declare no references. The lemmas show which status changes a
  reconstruction can make and which rows the queries return.
\<close>

section \<open>Reconstructions\<close>

definition insert_reconstruction :: "ReconstructionRow \<Rightarrow> scene_tables \<Rightarrow> scene_tables option" where
  "insert_reconstruction row t =
     (if has_scene (rc_scene_id row) t
      then map_option (\<lambda>rows. t\<lparr>st_reconstructions := rows\<rparr>) (tbl_insert rc_reconstruction_id row (st_reconstructions t))
      else None)"

definition AddReconstruction :: "ReconstructionRow \<Rightarrow> unit scene_op" where
  "AddReconstruction row =
     write_op (statement ''cannot prepare insert reconstruction'' ''cannot insert reconstruction row''
       (insert_reconstruction row))"

definition QueryLatestReconstructionByScene :: "uuid \<Rightarrow> ReconstructionRow option scene_op" where
  "QueryLatestReconstructionByScene scene_id =
     query_one ''cannot prepare query latest reconstruction'' (\<lambda>t.
       latest_by rc_created_at_ns
         (filter (\<lambda>r. rc_scene_id r = scene_id \<and> rc_status r = ''succeeded'') (st_reconstructions t)))"

definition FindReconstructionsByScene :: "uuid \<Rightarrow> ReconstructionRow list scene_op" where
  "FindReconstructionsByScene scene_id =
     query_rows ''cannot prepare find reconstructions by scene'' (\<lambda>t.
       sort_key rc_created_at_ns (filter (\<lambda>r. rc_scene_id r = scene_id) (st_reconstructions t)))"

definition can_transition :: "string \<Rightarrow> string \<Rightarrow> bool" where
  "can_transition old new \<longleftrightarrow>
     (if old = ''reconstructing'' then new = ''succeeded'' \<or> new = ''failed'' \<or> new = ''superseded''
      else if old = ''succeeded'' then new = ''superseded'' else False)"

definition set_status :: "uuid \<Rightarrow> string \<Rightarrow> scene_tables \<Rightarrow> scene_tables option" where
  "set_status rid new t =
     Some (t\<lparr>st_reconstructions :=
       map (\<lambda>r. if rc_reconstruction_id r = rid then r\<lparr>rc_status := new\<rparr> else r) (st_reconstructions t)\<rparr>)"

definition SetReconstructionStatus :: "uuid \<Rightarrow> string \<Rightarrow> unit scene_op" where
  "SetReconstructionStatus rid new_status =
     write_op (sbind (query_one ''cannot prepare query reconstruction status''
         (\<lambda>t. map_option rc_status (tbl_get rc_reconstruction_id rid (st_reconstructions t)))) (\<lambda>found.
       case found of
         None \<Rightarrow> sthrow (throw_error kStorageIo
           (''reconstruction row not found for status update: '' @ FormatUuid rid))
       | Some current \<Rightarrow>
           if \<not> can_transition current new_status
           then sthrow (throw_error kStorageIo
             (''invalid reconstruction status transition '' @ [CHR 0x27] @ current @ [CHR 0x27] @ '' -> '' @ [CHR 0x27] @
              new_status @ [CHR 0x27] @ '' for '' @ FormatUuid rid))
           else statement ''cannot prepare update reconstruction status'' ''cannot update reconstruction status''
             (set_status rid new_status)))"

section \<open>Trajectories\<close>

definition insert_trajectory :: "TrajectoryRow \<Rightarrow> scene_tables \<Rightarrow> scene_tables option" where
  "insert_trajectory row t = map_option (\<lambda>rows. t\<lparr>st_trajectories := rows\<rparr>)
     (tbl_insert tj_trajectory_id (row\<lparr>tj_total_distance_m := store_double (tj_total_distance_m row)\<rparr>) (st_trajectories t))"

definition AddTrajectory :: "TrajectoryRow \<Rightarrow> unit scene_op" where
  "AddTrajectory row =
     write_op (statement ''cannot prepare insert trajectory'' ''cannot insert trajectory row'' (insert_trajectory row))"

definition QueryLatestTrajectoryBySession :: "uuid \<Rightarrow> TrajectoryRow option scene_op" where
  "QueryLatestTrajectoryBySession session_id =
     query_one ''cannot prepare query latest trajectory'' (\<lambda>t.
       latest_by tj_created_at_ns
         (filter (\<lambda>r. tj_session_id r = session_id \<and> tj_status r \<noteq> ''superseded'') (st_trajectories t)))"

definition FindTrajectoriesByScene :: "uuid \<Rightarrow> TrajectoryRow list scene_op" where
  "FindTrajectoriesByScene scene_id =
     query_rows ''cannot prepare find trajectories by scene'' (\<lambda>t.
       sort_key tj_created_at_ns (filter (\<lambda>r. tj_scene_id r = scene_id) (st_trajectories t)))"

definition FindTrajectoriesBySession :: "uuid \<Rightarrow> TrajectoryRow list scene_op" where
  "FindTrajectoriesBySession session_id =
     query_rows ''cannot prepare find trajectories by session'' (\<lambda>t.
       sort_key tj_created_at_ns (filter (\<lambda>r. tj_session_id r = session_id) (st_trajectories t)))"

section \<open>Pose graphs\<close>

definition insert_pose_graph :: "PoseGraphRow \<Rightarrow> scene_tables \<Rightarrow> scene_tables option" where
  "insert_pose_graph row t =
     map_option (\<lambda>rows. t\<lparr>st_pose_graphs := rows\<rparr>) (tbl_insert pg_graph_id row (st_pose_graphs t))"

definition AddPoseGraph :: "PoseGraphRow \<Rightarrow> unit scene_op" where
  "AddPoseGraph row =
     write_op (statement ''cannot prepare insert pose graph'' ''cannot insert pose graph row'' (insert_pose_graph row))"

definition replace_pose_graph :: "PoseGraphRow \<Rightarrow> scene_tables \<Rightarrow> scene_tables option" where
  "replace_pose_graph row t = Some (t\<lparr>st_pose_graphs := tbl_replace pg_graph_id row (st_pose_graphs t)\<rparr>)"

definition UpsertPoseGraph :: "PoseGraphRow \<Rightarrow> unit scene_op" where
  "UpsertPoseGraph row =
     write_op (statement ''cannot prepare upsert pose graph'' ''cannot upsert pose graph row'' (replace_pose_graph row))"

definition QueryLatestPoseGraphByTrajectory :: "uuid \<Rightarrow> PoseGraphRow option scene_op" where
  "QueryLatestPoseGraphByTrajectory trajectory_id =
     query_one ''cannot prepare query latest pose graph'' (\<lambda>t.
       latest_by pg_created_at_ns (filter (\<lambda>r. pg_trajectory_id r = trajectory_id) (st_pose_graphs t)))"

definition FindPoseGraphsByTrajectory :: "uuid \<Rightarrow> PoseGraphRow list scene_op" where
  "FindPoseGraphsByTrajectory trajectory_id =
     query_rows ''cannot prepare find pose graphs by trajectory'' (\<lambda>t.
       sort_key pg_created_at_ns (filter (\<lambda>r. pg_trajectory_id r = trajectory_id) (st_pose_graphs t)))"

definition FindPoseGraphsByScene :: "uuid \<Rightarrow> PoseGraphRow list scene_op" where
  "FindPoseGraphsByScene scene_id =
     query_rows ''cannot prepare find pose graphs by scene'' (\<lambda>t.
       sort_key pg_created_at_ns (filter (\<lambda>r. pg_scene_id r = scene_id) (st_pose_graphs t)))"

section \<open>Loop closures\<close>

definition insert_candidate :: "LoopClosureCandidateRow \<Rightarrow> scene_tables \<Rightarrow> scene_tables option" where
  "insert_candidate row t = map_option (\<lambda>rows. t\<lparr>st_lc_candidates := rows\<rparr>)
     (tbl_insert lk_candidate_id (row\<lparr>lk_feature_match_score := store_double (lk_feature_match_score row)\<rparr>)
       (st_lc_candidates t))"

definition AddLoopClosureCandidate :: "LoopClosureCandidateRow \<Rightarrow> unit scene_op" where
  "AddLoopClosureCandidate row =
     write_op (statement ''cannot prepare insert loop closure candidate'' ''cannot insert loop closure candidate row''
       (insert_candidate row))"

definition FindLoopClosureCandidatesByTrajectory :: "uuid \<Rightarrow> LoopClosureCandidateRow list scene_op" where
  "FindLoopClosureCandidatesByTrajectory trajectory_id =
     query_rows ''cannot prepare find loop closure candidates'' (\<lambda>t.
       sort_key lk_created_at_ns (filter (\<lambda>r. lk_trajectory_id r = trajectory_id) (st_lc_candidates t)))"

definition stored_closure :: "LoopClosureRow \<Rightarrow> LoopClosureRow" where
  "stored_closure row = row\<lparr>lc_inlier_ratio := store_double (lc_inlier_ratio row),
     lc_confidence := store_double (lc_confidence row),
     lc_spatial_separation_m := store_double (lc_spatial_separation_m row)\<rparr>"

definition insert_closure :: "LoopClosureRow \<Rightarrow> scene_tables \<Rightarrow> scene_tables option" where
  "insert_closure row t =
     map_option (\<lambda>rows. t\<lparr>st_loop_closures := rows\<rparr>) (tbl_insert lc_closure_id (stored_closure row) (st_loop_closures t))"

definition AddLoopClosure :: "LoopClosureRow \<Rightarrow> unit scene_op" where
  "AddLoopClosure row =
     write_op (statement ''cannot prepare insert loop closure'' ''cannot insert loop closure row'' (insert_closure row))"

definition replace_closure :: "LoopClosureRow \<Rightarrow> scene_tables \<Rightarrow> scene_tables option" where
  "replace_closure row t =
     Some (t\<lparr>st_loop_closures := tbl_replace lc_closure_id (stored_closure row) (st_loop_closures t)\<rparr>)"

definition UpsertLoopClosure :: "LoopClosureRow \<Rightarrow> unit scene_op" where
  "UpsertLoopClosure row =
     write_op (statement ''cannot prepare upsert loop closure'' ''cannot upsert loop closure row'' (replace_closure row))"

definition select_closures :: "(LoopClosureRow \<Rightarrow> bool) \<Rightarrow> scene_tables \<Rightarrow> LoopClosureRow list" where
  "select_closures P t = sort_key lc_created_at_ns (filter P (st_loop_closures t))"

definition FindLoopClosuresByTrajectory :: "uuid \<Rightarrow> LoopClosureRow list scene_op" where
  "FindLoopClosuresByTrajectory trajectory_id =
     query_rows ''cannot prepare find loop closures'' (select_closures (\<lambda>r. lc_trajectory_id r = trajectory_id))"

definition FindAcceptedLoopClosuresByTrajectory :: "uuid \<Rightarrow> LoopClosureRow list scene_op" where
  "FindAcceptedLoopClosuresByTrajectory trajectory_id =
     query_rows ''cannot prepare find accepted loop closures''
       (select_closures (\<lambda>r. lc_trajectory_id r = trajectory_id \<and> lc_status r = ''accepted''))"

section \<open>Optimization results\<close>

definition stored_result :: "OptimizationResultRow \<Rightarrow> OptimizationResultRow" where
  "stored_result row = row\<lparr>og_initial_error := store_double (og_initial_error row),
     og_final_error := store_double (og_final_error row), og_error_reduction := store_double (og_error_reduction row)\<rparr>"

definition insert_result :: "OptimizationResultRow \<Rightarrow> scene_tables \<Rightarrow> scene_tables option" where
  "insert_result row t =
     map_option (\<lambda>rows. t\<lparr>st_opt_results := rows\<rparr>) (tbl_insert og_result_id (stored_result row) (st_opt_results t))"

definition AddOptimizationResult :: "OptimizationResultRow \<Rightarrow> unit scene_op" where
  "AddOptimizationResult row =
     write_op (statement ''cannot prepare insert optimization result'' ''cannot insert optimization result row''
       (insert_result row))"

definition replace_result :: "OptimizationResultRow \<Rightarrow> scene_tables \<Rightarrow> scene_tables option" where
  "replace_result row t = Some (t\<lparr>st_opt_results := tbl_replace og_result_id (stored_result row) (st_opt_results t)\<rparr>)"

definition UpsertOptimizationResult :: "OptimizationResultRow \<Rightarrow> unit scene_op" where
  "UpsertOptimizationResult row =
     write_op (statement ''cannot prepare upsert optimization result'' ''cannot upsert optimization result row''
       (replace_result row))"

definition QueryLatestOptimizationResultByTrajectory :: "uuid \<Rightarrow> OptimizationResultRow option scene_op" where
  "QueryLatestOptimizationResultByTrajectory trajectory_id =
     query_one ''cannot prepare query latest optimization result'' (\<lambda>t.
       latest_by og_created_at_ns (filter (\<lambda>r. og_trajectory_id r = trajectory_id) (st_opt_results t)))"

definition FindOptimizationResultsByTrajectory :: "uuid \<Rightarrow> OptimizationResultRow list scene_op" where
  "FindOptimizationResultsByTrajectory trajectory_id =
     query_rows ''cannot prepare find optimization results'' (\<lambda>t.
       sort_key og_created_at_ns (filter (\<lambda>r. og_trajectory_id r = trajectory_id) (st_opt_results t)))"

section \<open>The life cycle of a reconstruction\<close>

text \<open>What a row can become: itself, or itself with a status further along.\<close>

definition recon_moved :: "ReconstructionRow \<Rightarrow> ReconstructionRow \<Rightarrow> bool" where
  "recon_moved r r' \<longleftrightarrow> r' = r \<or> r' = r\<lparr>rc_status := rc_status r'\<rparr> \<and> can_transition (rc_status r) (rc_status r')"

lemma can_transition_trans: "can_transition a b \<Longrightarrow> can_transition b c \<Longrightarrow> can_transition a c"
  by (auto simp: can_transition_def split: if_splits)

lemma recon_moved_refl [simp]: "recon_moved r r"
  by (simp add: recon_moved_def)

lemma recon_moved_trans: "recon_moved a b \<Longrightarrow> recon_moved b c \<Longrightarrow> recon_moved a c"
proof -
  assume ab: "recon_moved a b" and bc: "recon_moved b c"
  have "c = a\<lparr>rc_status := rc_status c\<rparr>" if "b = a\<lparr>rc_status := rc_status b\<rparr>" "c = b\<lparr>rc_status := rc_status c\<rparr>"
    using that by (metis ReconstructionRow.update_convs(4) ReconstructionRow.surjective)
  with ab bc show ?thesis unfolding recon_moved_def by (metis can_transition_trans)
qed

text \<open>No row goes, none changes but along the life cycle, new ones come at the end.\<close>

definition evolved :: "ReconstructionRow list \<Rightarrow> ReconstructionRow list \<Rightarrow> bool" where
  "evolved old new \<longleftrightarrow> (\<exists>kept added. new = kept @ added \<and> list_all2 recon_moved old kept)"

lemma evolved_refl [simp]: "evolved rows rows"
  unfolding evolved_def by (intro exI [of _ rows] exI [of _ "[]"]) (simp add: list.rel_refl)

lemma evolved_trans:
  assumes "evolved a b" "evolved b c" shows "evolved a c"
proof -
  from assms obtain kept added kept2 added2 where
    b: "b = kept @ added" "list_all2 recon_moved a kept" and c: "c = kept2 @ added2" "list_all2 recon_moved b kept2"
    by (auto simp: evolved_def)
  from c(2) b(1) obtain k1 k2 where "kept2 = k1 @ k2" "list_all2 recon_moved kept k1"
    by (auto simp: list_all2_append1)
  with b c recon_moved_trans have "c = k1 @ (k2 @ added2)" "list_all2 recon_moved a k1"
    by (auto intro: list_all2_trans [of recon_moved recon_moved recon_moved])
  then show ?thesis unfolding evolved_def by blast
qed

datatype reconstruction_call = Call_Add ReconstructionRow | Call_SetStatus uuid string

fun reconstruction_step :: "reconstruction_call \<Rightarrow> scene_db \<Rightarrow> scene_db" where
  "reconstruction_step (Call_Add row) d = snd (AddReconstruction row d)"
| "reconstruction_step (Call_SetStatus rid new) d = snd (SetReconstructionStatus rid new d)"

definition recs :: "scene_db \<Rightarrow> ReconstructionRow list" where
  "recs d = st_reconstructions (tx_tables d)"

lemma statement_cases:
  obtains "tx_tables (snd (statement p s f d)) = tx_tables d"
  | t where "f (tx_tables d) = Some t" "tx_tables (snd (statement p s f d)) = t"
proof -
  obtain r d' where s: "statement p s f d = (r, d')" by fastforce
  show thesis
  proof (cases r)
    case (Inl e)
    with s statement_atomic [of p s f d e d'] that(1) show thesis by simp
  next
    case (Inr u)
    with s statement_Inr [of p s f d u d'] that(2) show thesis by simp
  qed
qed

lemma AddReconstruction_evolves: "evolved (recs d) (recs (snd (AddReconstruction row d)))"
proof (cases "db_read_only d")
  case False
  show ?thesis
  proof (cases d rule: statement_cases [of "''cannot prepare insert reconstruction''" "''cannot insert reconstruction row''"
      "insert_reconstruction row"])
    case 1
    with False show ?thesis by (simp add: AddReconstruction_def write_op_def recs_def)
  next
    case (2 t)
    from 2(1) have "st_reconstructions t = recs d @ [row]"
      by (auto simp: insert_reconstruction_def tbl_insert_def recs_def split: if_splits)
    with 2 False show ?thesis
      by (auto simp: AddReconstruction_def write_op_def recs_def evolved_def list.rel_refl)
  qed
qed (simp add: AddReconstruction_def write_op_def)

text \<open>One row per id, from the primary key.\<close>

definition one_per_id :: "ReconstructionRow list \<Rightarrow> bool" where
  "one_per_id rows \<longleftrightarrow> distinct (map rc_reconstruction_id rows)"

lemma set_status_evolves:
  assumes "one_per_id rows" "tbl_get rc_reconstruction_id rid rows = Some r" "can_transition (rc_status r) new"
  shows "list_all2 recon_moved rows (map (\<lambda>r. if rc_reconstruction_id r = rid then r\<lparr>rc_status := new\<rparr> else r) rows)"
proof -
  have "recon_moved x (if rc_reconstruction_id x = rid then x\<lparr>rc_status := new\<rparr> else x)" if "x \<in> set rows" for x
  proof (cases "rc_reconstruction_id x = rid")
    case True
    with tbl_get_Some [OF assms(2)] assms(1) that have "x = r"
      by (auto simp: one_per_id_def distinct_map inj_on_def)
    with True assms(3) show ?thesis by (simp add: recon_moved_def)
  qed simp
  then show ?thesis by (auto simp: list_all2_conv_all_nth)
qed

lemma SetReconstructionStatus_tables:
  obtains "tx_tables (snd (SetReconstructionStatus rid new d)) = tx_tables d"
  | r where "tbl_get rc_reconstruction_id rid (recs d) = Some r" "can_transition (rc_status r) new"
      "Some (tx_tables (snd (SetReconstructionStatus rid new d))) = set_status rid new (tx_tables d)"
proof (cases "db_read_only d")
  case True
  with that(1) show thesis by (simp add: SetReconstructionStatus_def write_op_def)
next
  case False
  define q where "q = (\<lambda>t :: scene_tables. map_option rc_status (tbl_get rc_reconstruction_id rid (st_reconstructions t)))"
  define rest where "rest = (\<lambda>found. case found of
         None \<Rightarrow> sthrow (throw_error kStorageIo
           (''reconstruction row not found for status update: '' @ FormatUuid rid))
       | Some current \<Rightarrow>
           if \<not> can_transition current new
           then sthrow (throw_error kStorageIo
             (''invalid reconstruction status transition '' @ [CHR 0x27] @ current @ [CHR 0x27] @ '' -> '' @ [CHR 0x27] @
              new @ [CHR 0x27] @ '' for '' @ FormatUuid rid))
           else statement ''cannot prepare update reconstruction status'' ''cannot update reconstruction status''
             (set_status rid new))"
  have run: "SetReconstructionStatus rid new d = sbind (query_one ''cannot prepare query reconstruction status'' q) rest d"
    by (simp only: SetReconstructionStatus_def write_op_def q_def rest_def False if_False)
  obtain x d1 where m: "query_one ''cannot prepare query reconstruction status'' q d = (x, d1)" by fastforce
  show thesis
  proof (cases x)
    case (Inl e)
    with m run query_one_Inl [of _ q d e d1] that(1) show thesis by (simp add: sx_simps)
  next
    case (Inr found)
    from query_one_Inr [OF m [unfolded Inr]] have d1: "tx_tables d1 = tx_tables d"
      "found = None \<or> found = q (tx_tables d)" by auto
    show thesis
    proof (cases "found = None \<or> \<not> can_transition (the found) new")
      case True
      then have "tx_tables (snd (rest found d1)) = tx_tables d1"
        by (cases found) (simp_all add: rest_def sthrow_def)
      with run m Inr d1 that(1) show thesis by (simp add: sx_simps)
    next
      case False
      with d1(2) obtain r where r: "tbl_get rc_reconstruction_id rid (recs d) = Some r" "found = Some (rc_status r)"
        by (cases "tbl_get rc_reconstruction_id rid (recs d)") (auto simp: q_def recs_def)
      with False have ok: "can_transition (rc_status r) new"
        and rest: "rest found = statement ''cannot prepare update reconstruction status''
          ''cannot update reconstruction status'' (set_status rid new)"
        by (simp_all add: rest_def)
      have snd_run: "snd (SetReconstructionStatus rid new d) = snd (rest found d1)"
        using run m Inr by (simp add: sx_simps)
      show thesis
        using statement_cases [of "''cannot prepare update reconstruction status''"
            "''cannot update reconstruction status''" "set_status rid new" d1]
      proof cases
        case 1
        with snd_run rest d1 that(1) show thesis by simp
      next
        case (2 t)
        with snd_run rest d1 that(2) [OF r(1) ok] show thesis by simp
      qed
    qed
  qed
qed

lemma reconstruction_step_evolves:
  assumes "one_per_id (recs d)"
  shows "evolved (recs d) (recs (reconstruction_step call d))"
proof (cases call)
  case (Call_Add row)
  with AddReconstruction_evolves show ?thesis by simp
next
  case (Call_SetStatus rid new)
  show ?thesis
  proof (cases rule: SetReconstructionStatus_tables [of rid new d])
    case 1
    with Call_SetStatus show ?thesis by (simp add: recs_def)
  next
    case (2 r)
    from set_status_evolves [OF assms 2(1,2)] 2(3) Call_SetStatus show ?thesis
      by (auto simp: recs_def evolved_def set_status_def)
  qed
qed

lemma reconstruction_step_ids:
  assumes "one_per_id (recs d)" shows "one_per_id (recs (reconstruction_step call d))"
proof (cases call)
  case (Call_Add row)
  show ?thesis
  proof (cases "db_read_only d")
    case False
    show ?thesis
      using statement_cases [of "''cannot prepare insert reconstruction''" "''cannot insert reconstruction row''"
          "insert_reconstruction row" d]
    proof cases
      case (2 t)
      from 2(1) have "one_per_id (st_reconstructions t)"
        using assms by (auto simp: insert_reconstruction_def tbl_insert_def one_per_id_def recs_def split: if_splits)
      with 2(2) False Call_Add show ?thesis by (simp add: AddReconstruction_def write_op_def recs_def)
    qed (use assms False Call_Add in \<open>simp add: AddReconstruction_def write_op_def recs_def\<close>)
  qed (use assms Call_Add in \<open>simp add: AddReconstruction_def write_op_def\<close>)
next
  case (Call_SetStatus rid new)
  have ids: "map rc_reconstruction_id (map (\<lambda>r. if rc_reconstruction_id r = rid then r\<lparr>rc_status := new\<rparr> else r) rows)
      = map rc_reconstruction_id rows" for rows :: "ReconstructionRow list"
    by simp
  show ?thesis
  proof (cases rule: SetReconstructionStatus_tables [of rid new d])
    case 1
    with Call_SetStatus assms show ?thesis by (simp add: recs_def)
  next
    case (2 r)
    then have "recs (reconstruction_step call d)
        = map (\<lambda>r. if rc_reconstruction_id r = rid then r\<lparr>rc_status := new\<rparr> else r) (recs d)"
      using Call_SetStatus by (simp add: set_status_def recs_def)
    with assms ids show ?thesis by (simp only: one_per_id_def)
  qed
qed

text \<open>
  C37: whatever sequence of calls adds reconstructions and sets statuses, and whichever statements
  fail, no reconstruction disappears and none changes except its status along reconstructing,
  succeeded, superseded or reconstructing, failed; a failed or superseded one never changes again.
\<close>

theorem reconstruction_lifecycle:
  assumes "one_per_id (recs d)"
  shows "evolved (recs d) (recs (fold reconstruction_step calls d)) \<and>
    (\<forall>i < length (recs d). rc_status (recs d ! i) = ''failed'' \<or> rc_status (recs d ! i) = ''superseded'' \<longrightarrow>
       recs (fold reconstruction_step calls d) ! i = recs d ! i)"
proof -
  have ev: "evolved (recs d) (recs (fold reconstruction_step calls d))"
    using assms
  proof (induction calls arbitrary: d)
    case (Cons call calls)
    from Cons.IH [OF reconstruction_step_ids [OF Cons.prems]] reconstruction_step_evolves [OF Cons.prems]
    show ?case by (auto intro: evolved_trans)
  qed simp
  then obtain kept added where k: "recs (fold reconstruction_step calls d) = kept @ added" "list_all2 recon_moved (recs d) kept"
    by (auto simp: evolved_def)
  have "kept ! i = recs d ! i" if "i < length (recs d)"
    "rc_status (recs d ! i) = ''failed'' \<or> rc_status (recs d ! i) = ''superseded''" for i
  proof -
    from k(2) that(1) have "recon_moved (recs d ! i) (kept ! i)" by (simp add: list_all2_conv_all_nth)
    with that(2) show ?thesis by (auto simp: recon_moved_def can_transition_def)
  qed
  moreover from k(2) have "length kept = length (recs d)" by (simp add: list_all2_lengthD)
  ultimately show ?thesis using ev k(1) by (simp add: nth_append)
qed

definition demo_reconstruction :: "byte \<Rightarrow> string \<Rightarrow> int \<Rightarrow> ReconstructionRow" where
  "demo_reconstruction k status at = \<lparr>rc_reconstruction_id = replicate 16 k, rc_scene_id = replicate 16 1,
     rc_coordinate_frame = ''reconstruction_0'', rc_status = status, rc_created_at_ns = at, rc_document_json = []\<rparr>"

definition recon_db :: scene_db where
  "recon_db = open_conn (empty_tables\<lparr>st_reconstructions :=
     [demo_reconstruction 1 ''failed'' 0, demo_reconstruction 2 ''reconstructing'' 1]\<rparr>)"

definition recon_calls :: "reconstruction_call list" where
  "recon_calls = [Call_SetStatus (replicate 16 1) ''succeeded'', Call_SetStatus (replicate 16 2) ''succeeded'',
     Call_SetStatus (replicate 16 2) ''failed'', Call_SetStatus (replicate 16 2) ''superseded'']"

lemma reconstruction_lifecycle_witness:
  "recs (fold reconstruction_step recon_calls recon_db) ! 0 = recs recon_db ! 0 \<and>
   map rc_status (recs (fold reconstruction_step recon_calls recon_db)) = [''failed'', ''superseded'']"
proof -
  have "one_per_id (recs recon_db)" "0 < length (recs recon_db)" "rc_status (recs recon_db ! 0) = ''failed''" by code_simp+
  with reconstruction_lifecycle [of recon_db recon_calls] have
    "recs (fold reconstruction_step recon_calls recon_db) ! 0 = recs recon_db ! 0" by blast
  moreover have "map rc_status (recs (fold reconstruction_step recon_calls recon_db)) = [''failed'', ''superseded'']" by code_simp
  ultimately show ?thesis by blast
qed

section \<open>What the latest queries return\<close>

lemma latest_by_filter:
  "x = latest_by key (filter P rows) \<Longrightarrow> (x = None \<longleftrightarrow> (\<forall>r\<in>set rows. \<not> P r)) \<and>
     (\<forall>r. x = Some r \<longrightarrow> r \<in> set rows \<and> P r \<and> (\<forall>r'\<in>set rows. P r' \<longrightarrow> key r' \<le> key r))"
proof -
  assume x: "x = latest_by key (filter P rows)"
  then have "x = None \<longleftrightarrow> (\<forall>r\<in>set rows. \<not> P r)" by (simp add: latest_by_None filter_empty_conv)
  moreover have "r \<in> set rows \<and> P r \<and> (\<forall>r'\<in>set rows. P r' \<longrightarrow> key r' \<le> key r)" if "x = Some r" for r
    using latest_by_Some [of key "filter P rows" r] x that by simp
  ultimately show ?thesis by blast
qed

text \<open>
  When the step answers, the latest reconstruction of a scene is a succeeded one with the greatest
  creation time, and there is none exactly when the scene has no succeeded reconstruction, so a
  superseded or failed one is never returned.
\<close>

theorem QueryLatestReconstruction_exact:
  assumes "QueryLatestReconstructionByScene scene_id d = (Inr x, d')" "\<not> db_fault d (Suc (db_tick d))"
  shows "(x = None \<longleftrightarrow> (\<forall>r\<in>set (recs d). rc_scene_id r = scene_id \<longrightarrow> rc_status r \<noteq> ''succeeded'')) \<and>
    (\<forall>r. x = Some r \<longrightarrow> r \<in> set (recs d) \<and> rc_scene_id r = scene_id \<and> rc_status r = ''succeeded'' \<and>
       (\<forall>r'\<in>set (recs d). rc_scene_id r' = scene_id \<and> rc_status r' = ''succeeded'' \<longrightarrow>
          rc_created_at_ns r' \<le> rc_created_at_ns r))"
proof -
  from query_one_Inr [OF assms(1) [unfolded QueryLatestReconstructionByScene_def]] assms(2)
  have "x = latest_by rc_created_at_ns (filter (\<lambda>r. rc_scene_id r = scene_id \<and> rc_status r = ''succeeded'') (recs d))"
    by (simp add: recs_def)
  from latest_by_filter [OF this] show ?thesis by blast
qed

lemma QueryLatestReconstruction_exact_witness:
  "fst (QueryLatestReconstructionByScene (replicate 16 1) (fold reconstruction_step (take 2 recon_calls) recon_db))
     = Inr (Some (demo_reconstruction 2 ''succeeded'' 1))"
proof -
  let ?d = "fold reconstruction_step (take 2 recon_calls) recon_db"
  let ?run = "QueryLatestReconstructionByScene (replicate 16 1) ?d"
  have "\<not> isl (fst ?run)" by code_simp
  then obtain x d' where run: "?run = (Inr x, d')" by (metis isl_def old.sum.exhaust prod.collapse)
  have recs: "recs ?d = [demo_reconstruction 1 ''failed'' 0, demo_reconstruction 2 ''succeeded'' 1]" by code_simp
  have "\<not> db_fault ?d (Suc (db_tick ?d))" by code_simp
  from QueryLatestReconstruction_exact [OF run this] have
    "x = None \<longleftrightarrow> (\<forall>r\<in>set (recs ?d). rc_scene_id r = replicate 16 1 \<longrightarrow> rc_status r \<noteq> ''succeeded'')"
    "\<And>r. x = Some r \<Longrightarrow> r \<in> set (recs ?d) \<and> rc_status r = ''succeeded''" by blast+
  then have "x = Some (demo_reconstruction 2 ''succeeded'' 1)"
    unfolding recs by (cases x) (auto simp: demo_reconstruction_def)
  with run show ?thesis by simp
qed

end
