(* ===== verification/Doubles.thy ===== *)
theory Doubles
  imports Json
begin

text \<open>
  Values of C++ \<open>double\<close>, as their 64 bits: classification and comparison are those of IEEE 754 binary64;
  arithmetic, the functions of \<open>cmath\<close> and the conversion from text are the fields of \<open>arith\<close>, an
  argument of the definitions that compute with them.
\<close>

definition fp_is_nan :: "u64 \<Rightarrow> bool" where
  "fp_is_nan d \<longleftrightarrow> \<not> finite_double d \<and> d AND 4503599627370495 \<noteq> 0"

text \<open>Sign and magnitude as one integer: the bits are ordered like the values, and the zeros are equal.\<close>

definition fp_key :: "u64 \<Rightarrow> int" where
  "fp_key d = (if d AND 9223372036854775808 \<noteq> 0 then - uint (d AND 9223372036854775807) else uint d)"

definition fp_less :: "u64 \<Rightarrow> u64 \<Rightarrow> bool" where
  "fp_less a b \<longleftrightarrow> \<not> fp_is_nan a \<and> \<not> fp_is_nan b \<and> fp_key a < fp_key b"

definition fp_le :: "u64 \<Rightarrow> u64 \<Rightarrow> bool" where
  "fp_le a b \<longleftrightarrow> \<not> fp_is_nan a \<and> \<not> fp_is_nan b \<and> fp_key a \<le> fp_key b"

definition fp_eq :: "u64 \<Rightarrow> u64 \<Rightarrow> bool" where
  "fp_eq a b \<longleftrightarrow> \<not> fp_is_nan a \<and> \<not> fp_is_nan b \<and> fp_key a = fp_key b"

text \<open>\<open>fa_ratio n d\<close> is the literal nearest to \<open>n / d\<close>; \<open>fa_from_chars\<close> reads the longest number and gives the rest.\<close>

record arith =
  fa_add :: "u64 \<Rightarrow> u64 \<Rightarrow> u64"
  fa_sub :: "u64 \<Rightarrow> u64 \<Rightarrow> u64"
  fa_mul :: "u64 \<Rightarrow> u64 \<Rightarrow> u64"
  fa_div :: "u64 \<Rightarrow> u64 \<Rightarrow> u64"
  fa_sqrt :: "u64 \<Rightarrow> u64"
  fa_abs :: "u64 \<Rightarrow> u64"
  fa_hypot :: "u64 \<Rightarrow> u64 \<Rightarrow> u64"
  fa_hypot3 :: "u64 \<Rightarrow> u64 \<Rightarrow> u64 \<Rightarrow> u64"
  fa_ratio :: "int \<Rightarrow> int \<Rightarrow> u64"
  fa_of_int :: "int \<Rightarrow> u64"
  fa_to_int :: "u64 \<Rightarrow> int"
  fa_from_chars :: "string \<Rightarrow> (u64 \<times> string) option"

lemma fp_less_irrefl [simp]: "\<not> fp_less a a"
  by (simp add: fp_less_def)

lemma fp_less_trans: "fp_less a b \<Longrightarrow> fp_less b c \<Longrightarrow> fp_less a c"
  by (simp add: fp_less_def)

lemma fp_less_asym: "fp_less a b \<Longrightarrow> \<not> fp_less b a"
  by (simp add: fp_less_def)

lemma fp_not_less: "\<not> fp_is_nan a \<Longrightarrow> \<not> fp_is_nan b \<Longrightarrow> \<not> fp_less a b \<longleftrightarrow> fp_le b a"
  by (auto simp: fp_less_def fp_le_def)

lemma nan_never_less: "fp_is_nan a \<Longrightarrow> \<not> fp_less a b \<and> \<not> fp_less b a"
  by (simp add: fp_less_def)

end
