(* ===== verification/TumFormat.thy ===== *)
theory TumFormat
  imports Complex_Main Doubles
begin

text \<open>
  The reader of importers/trajectory/trajectory_importer.cpp: TUM trajectories, one pose to a line. A
  timestamp is decimal seconds and is read exactly, to the nanosecond or not at all; the pose's
  numbers are read by \<open>std::from_chars\<close>. The lemmas show that the timestamp reader accepts exactly the
  decimal numbers with a whole number of nanoseconds in range.
\<close>

definition Invalid :: "string \<Rightarrow> exn" where
  "Invalid message = throw_error kValidationDomain (''trajectory import: '' @ message)"

definition IsDigit :: "char \<Rightarrow> bool" where
  "IsDigit c \<longleftrightarrow> 48 \<le> (of_char c :: nat) \<and> (of_char c :: nat) \<le> 57"

definition digit_value :: "char \<Rightarrow> nat" where
  "digit_value c = of_char c - 48"

section \<open>Timestamps\<close>

definition timestamp_error :: "nat \<Rightarrow> exn" where
  "timestamp_error line = Invalid (''invalid or non-nanosecond timestamp at line '' @ nat_to_string line)"

text \<open>The loop over the exponent's digits, which fails once the exponent is past 1000.\<close>

fun exponent_digits :: "nat \<Rightarrow> string \<Rightarrow> (nat \<times> string) option" where
  "exponent_digits e [] = Some (e, [])"
| "exponent_digits e (c # cs) =
     (if IsDigit c then (if e > 1000 then None else exponent_digits (e * 10 + digit_value c) cs) else Some (e, c # cs))"

text \<open>The exponent's value and what is left of the text.\<close>

definition read_exponent :: "string \<Rightarrow> (int \<times> string) option" where
  "read_exponent s = (case s of
     c # t \<Rightarrow> if c = CHR ''e'' \<or> c = CHR ''E'' then
         (let negative = (t \<noteq> [] \<and> hd t = CHR ''-'');
              u = (if t \<noteq> [] \<and> (hd t = CHR ''+'' \<or> hd t = CHR ''-'') then tl t else t)
          in case exponent_digits 0 u of
               None \<Rightarrow> None
             | Some (e, rest) \<Rightarrow> if rest = u \<or> e > 1000 then None else Some (if negative then - int e else int e, rest))
       else Some (0, s)
   | [] \<Rightarrow> Some (0, []))"

fun decimal_value :: "nat \<Rightarrow> string \<Rightarrow> nat" where
  "decimal_value n [] = n"
| "decimal_value n (c # cs) = decimal_value (n * 10 + digit_value c) cs"

text \<open>\<open>std::from_chars\<close> into an \<open>int64_t\<close>, of digits only.\<close>

definition from_chars_int64 :: "string \<Rightarrow> int option" where
  "from_chars_int64 digits = (if digits \<noteq> [] \<and> decimal_value 0 digits \<le> 9223372036854775807
     then Some (int (decimal_value 0 digits)) else None)"

text \<open>The digits of the whole and the fractional part, shifted by a power of ten.\<close>

definition scale_digits :: "string \<Rightarrow> int \<Rightarrow> string option" where
  "scale_digits digits shift =
     (if shift < 0 then
        let remove = nat (- shift) in
        if remove \<ge> length digits then None
        else if \<exists>c\<in>set (drop (length digits - remove) digits). c \<noteq> CHR ''0'' then None
        else Some (take (length digits - remove) digits)
      else if shift > 19 \<or> length digits + nat shift > 19 then None
      else Some (digits @ replicate (nat shift) (CHR ''0'')))"

definition ParseTimestampNs :: "string \<Rightarrow> nat \<Rightarrow> int res" where
  "ParseTimestampNs txt line =
     (if txt = [] \<or> length txt > 128 then Inl (timestamp_error line)
      else
        let s = (if hd txt = CHR ''+'' then tl txt else txt) in
        if s = [] \<or> hd s = CHR ''-'' then Inl (timestamp_error line)
        else
          let whole = takeWhile IsDigit s; s1 = dropWhile IsDigit s;
              point = (s1 \<noteq> [] \<and> hd s1 = CHR ''.'');
              fraction = (if point then takeWhile IsDigit (tl s1) else []);
              s2 = (if point then dropWhile IsDigit (tl s1) else s1);
              digits = whole @ fraction in
          if digits = [] then Inl (timestamp_error line)
          else case read_exponent s2 of
              None \<Rightarrow> Inl (timestamp_error line)
            | Some (exponent, rest) \<Rightarrow>
                if rest \<noteq> [] then Inl (timestamp_error line)
                else
                  let significant = dropWhile (\<lambda>c. c = CHR ''0'') digits in
                  if significant = [] then Inr 0
                  else case scale_digits significant (9 + exponent - int (length fraction)) of
                      None \<Rightarrow> Inl (timestamp_error line)
                    | Some scaled \<Rightarrow> (case from_chars_int64 scaled of
                          None \<Rightarrow> Inl (timestamp_error line) | Some value \<Rightarrow> Inr value))"

section \<open>Poses\<close>

record TrajectoryPoseNode =
  tn_frame_id :: string
  tn_timestamp_ns :: int
  tn_sequence_index :: int
  tn_position_xyz :: "u64 list"
  tn_rotation_xyzw :: "u64 list"
  tn_covariance_position :: "u64 list"
  tn_covariance_rotation :: "u64 list"

definition ParseFinite :: "arith \<Rightarrow> string \<Rightarrow> nat \<Rightarrow> u64 res" where
  "ParseFinite fp txt line =
     (let s = (if txt \<noteq> [] \<and> hd txt = CHR ''+'' then tl txt else txt); err = Inl (Invalid (''non-finite or invalid pose value at line '' @ nat_to_string line)) in
      case fa_from_chars fp s of
        Some (value, rest) \<Rightarrow> if s = [] \<or> rest \<noteq> [] \<or> \<not> finite_double value then err else Inr value
      | None \<Rightarrow> err)"

text \<open>\<open>std::getline\<close> until it fails: what follows the last kNewline is a line unless it is empty.\<close>

definition kNewline :: char where
  "kNewline = char_of (10 :: nat)"

fun lines_of :: "string \<Rightarrow> string \<Rightarrow> string list" where
  "lines_of acc [] = (if acc = [] then [] else [rev acc])"
| "lines_of acc (c # cs) = (if c = kNewline then rev acc # lines_of [] cs else lines_of (c # acc) cs)"

text \<open>Space, tab, kNewline, vertical tab, form feed, carriage return; \<open>operator>>\<close> reads what is between.\<close>

definition is_space :: "char \<Rightarrow> bool" where
  "is_space c \<longleftrightarrow> (of_char c :: nat) \<in> {9, 10, 11, 12, 13, 32}"

fun words_of :: "string \<Rightarrow> string \<Rightarrow> string list" where
  "words_of acc [] = (if acc = [] then [] else [rev acc])"
| "words_of acc (c # cs) =
     (if is_space c then (if acc = [] then words_of [] cs else rev acc # words_of [] cs) else words_of (c # acc) cs)"

definition skipped_line :: "string \<Rightarrow> bool" where
  "skipped_line line = (case dropWhile (\<lambda>c. (of_char c :: nat) \<in> {32, 9, 13}) line of [] \<Rightarrow> True | c # _ \<Rightarrow> c = CHR ''#'')"

definition unit_norm :: "arith \<Rightarrow> u64 list \<Rightarrow> u64" where
  "unit_norm fp q = fa_hypot fp (fa_hypot fp (q ! 0) (q ! 1)) (fa_hypot fp (q ! 2) (q ! 3))"

text \<open>One line: the fields, the timestamp and its order, the numbers, the quaternion.\<close>

definition parse_pose :: "arith \<Rightarrow> TrajectoryPoseNode list \<Rightarrow> nat \<Rightarrow> string \<Rightarrow> TrajectoryPoseNode res" where
  "parse_pose fp nodes line_number line =
     (let values = words_of [] line; at_line = (\<lambda>m. Inl (Invalid (m @ nat_to_string line_number))) in
      if length values < 8 then at_line ''expected eight fields at line ''
      else if length values > 8 then at_line ''unexpected extra field at line ''
      else rbind (ParseTimestampNs (values ! 0) line_number) (\<lambda>timestamp.
        if nodes \<noteq> [] \<and> timestamp \<le> tn_timestamp_ns (last nodes) then at_line ''timestamps must be strictly increasing at line ''
        else rbind (traverse_res (\<lambda>v. ParseFinite fp v line_number) (take 3 (drop 1 values))) (\<lambda>position.
          rbind (traverse_res (\<lambda>v. ParseFinite fp v line_number) (drop 4 values)) (\<lambda>rotation.
          let norm = unit_norm fp rotation in
          if \<not> finite_double norm \<or> fp_less (fa_ratio fp 1 1000) (fa_abs fp (fa_sub fp norm (fa_ratio fp 1 1)))
          then at_line ''quaternion is not unit length at line ''
          else Inr \<lparr>tn_frame_id = [], tn_timestamp_ns = timestamp, tn_sequence_index = int (length nodes),
            tn_position_xyz = position, tn_rotation_xyzw = map (\<lambda>v. fa_div fp v norm) rotation,
            tn_covariance_position = replicate 6 0, tn_covariance_rotation = replicate 6 0\<rparr>))))"

fun parse_lines :: "arith \<Rightarrow> nat \<Rightarrow> TrajectoryPoseNode list \<Rightarrow> string list \<Rightarrow> TrajectoryPoseNode list res" where
  "parse_lines fp line_number nodes [] = Inr nodes"
| "parse_lines fp line_number nodes (line # lines) =
     (if skipped_line line then parse_lines fp (Suc line_number) nodes lines
      else rbind (parse_pose fp nodes line_number line) (\<lambda>node. parse_lines fp (Suc line_number) (nodes @ [node]) lines))"

definition ParseTum :: "arith \<Rightarrow> byte list \<Rightarrow> TrajectoryPoseNode list res" where
  "ParseTum fp source =
     rbind (parse_lines fp 1 [] (lines_of [] (map (\<lambda>b. char_of (unat b)) source))) (\<lambda>nodes.
       if nodes = [] then Inl (Invalid ''source has no poses'') else Inr nodes)"

section \<open>What a timestamp's text denotes\<close>

definition all_digits :: "string \<Rightarrow> bool" where
  "all_digits s \<longleftrightarrow> list_all IsDigit s"

text \<open>A decimal number: digits with an optional point, and an optional exponent of at most 1000.\<close>

definition exponent_text :: "string \<Rightarrow> int \<Rightarrow> bool" where
  "exponent_text s e \<longleftrightarrow> s = [] \<and> e = 0 \<or>
     (\<exists>c sign ds. s = c # sign @ ds \<and> (c = CHR ''e'' \<or> c = CHR ''E'') \<and> ds \<noteq> [] \<and> all_digits ds \<and>
       ((sign = [] \<or> sign = ''+'') \<and> e = int (decimal_value 0 ds) \<or> sign = ''-'' \<and> e = - int (decimal_value 0 ds)))"

definition decimal_text :: "string \<Rightarrow> nat \<Rightarrow> int \<Rightarrow> bool" where
  "decimal_text s m k \<longleftrightarrow> (\<exists>sign whole point fraction suffix e. s = sign @ whole @ point @ fraction @ suffix \<and>
     (sign = [] \<or> sign = ''+'') \<and> (point = ''.'' \<or> point = [] \<and> fraction = []) \<and> all_digits whole \<and> all_digits fraction \<and>
     whole @ fraction \<noteq> [] \<and> exponent_text suffix e \<and> \<bar>e\<bar> \<le> 1000 \<and>
     m = decimal_value 0 (whole @ fraction) \<and> k = e - int (length fraction))"

lemma decimal_value_acc: "decimal_value n s = n * 10 ^ length s + decimal_value 0 s"
proof (induction s arbitrary: n)
  case (Cons c s)
  from Cons [of "n * 10 + digit_value c"] Cons [of "digit_value c"] show ?case by (simp add: algebra_simps)
qed simp

lemma decimal_value_append: "decimal_value n (a @ b) = decimal_value (decimal_value n a) b"
  by (induction a arbitrary: n) auto

lemma digit_bound: "IsDigit c \<Longrightarrow> digit_value c \<le> 9"
  unfolding IsDigit_def digit_value_def by linarith

lemma digit_zero: "IsDigit c \<Longrightarrow> digit_value c = 0 \<longleftrightarrow> c = CHR ''0''"
proof -
  assume "IsDigit c"
  then have "digit_value c = 0 \<longleftrightarrow> (of_char c :: nat) = of_char (CHR ''0'')" by (auto simp: IsDigit_def digit_value_def)
  then show ?thesis by (simp only: of_char_eq_iff)
qed

lemma decimal_value_less: "all_digits s \<Longrightarrow> decimal_value 0 s < 10 ^ length s"
proof (induction s)
  case (Cons c s)
  then have "digit_value c \<le> 9" "decimal_value 0 s < 10 ^ length s" by (simp_all add: all_digits_def digit_bound)
  then have "digit_value c * 10 ^ length s + decimal_value 0 s < 9 * 10 ^ length s + 10 ^ length s"
    by (intro add_le_less_mono mult_right_mono) auto
  then show ?case by (simp add: decimal_value_acc [of "digit_value c"])
qed simp

lemma decimal_value_zero: "all_digits s \<Longrightarrow> decimal_value 0 s = 0 \<longleftrightarrow> (\<forall>c\<in>set s. c = CHR ''0'')"
proof (induction s)
  case (Cons c s)
  then show ?case by (auto simp: all_digits_def decimal_value_acc [of "digit_value c"] digit_zero)
qed simp

lemma decimal_value_replicate: "decimal_value n (replicate k (CHR ''0'')) = n * 10 ^ k"
  by (induction k arbitrary: n) (simp_all add: digit_value_def)

lemma decimal_value_lower: "all_digits (c # s) \<Longrightarrow> c \<noteq> CHR ''0'' \<Longrightarrow> 10 ^ length s \<le> decimal_value 0 (c # s)"
proof -
  assume "all_digits (c # s)" "c \<noteq> CHR ''0''"
  then have "1 \<le> digit_value c" using digit_zero [of c] by (cases "digit_value c") (auto simp: all_digits_def)
  then have "1 * 10 ^ length s \<le> digit_value c * 10 ^ length s" by (rule mult_right_mono) simp
  then show ?thesis by (simp add: decimal_value_acc [of "digit_value c"] trans_le_add1)
qed

lemma significant_value: "decimal_value 0 (dropWhile (\<lambda>c. c = CHR ''0'') s) = decimal_value 0 s"
  by (induction s) (auto simp: digit_value_def)

lemma all_digits_append [simp]: "all_digits (a @ b) \<longleftrightarrow> all_digits a \<and> all_digits b"
  by (simp add: all_digits_def)

lemma exponent_digits_run:
  assumes "all_digits ds" "rest = [] \<or> \<not> IsDigit (hd rest)"
  shows "decimal_value e ds \<le> 1000 \<Longrightarrow> exponent_digits e (ds @ rest) = Some (decimal_value e ds, rest)"
    "exponent_digits e (ds @ rest) = Some (x, r) \<Longrightarrow> x = decimal_value e ds \<and> r = rest"
proof -
  have stop: "exponent_digits e rest = Some (e, rest)" for e using assms(2) by (cases rest) auto
  have up: "e \<le> decimal_value e s" for e s by (simp add: decimal_value_acc [of e] trans_le_add1)
  show "decimal_value e ds \<le> 1000 \<Longrightarrow> exponent_digits e (ds @ rest) = Some (decimal_value e ds, rest)"
    using assms(1)
  proof (induction ds arbitrary: e)
    case (Cons c ds)
    then have "e * 10 + digit_value c \<le> 1000" using up [of "e * 10 + digit_value c" ds] by simp
    with Cons show ?case by (auto simp: all_digits_def)
  qed (simp add: stop)
  show "exponent_digits e (ds @ rest) = Some (x, r) \<Longrightarrow> x = decimal_value e ds \<and> r = rest"
    using assms(1) by (induction ds arbitrary: e) (auto simp: stop all_digits_def split: if_split_asm)
qed

lemma split_digits: "s = takeWhile IsDigit s @ dropWhile IsDigit s \<and> all_digits (takeWhile IsDigit s) \<and>
    (dropWhile IsDigit s = [] \<or> \<not> IsDigit (hd (dropWhile IsDigit s)))"
  using hd_dropWhile [of IsDigit s] by (auto simp: all_digits_def list_all_iff dest: set_takeWhileD)

lemma read_exponent_iff: "read_exponent s = Some (e, []) \<longleftrightarrow> exponent_text s e \<and> \<bar>e\<bar> \<le> 1000"
proof (cases s)
  case Nil
  then show ?thesis by (auto simp: read_exponent_def exponent_text_def)
next
  case (Cons c t)
  show ?thesis
  proof (cases "c = CHR ''e'' \<or> c = CHR ''E''")
    case False
    with Cons show ?thesis by (auto simp: read_exponent_def exponent_text_def)
  next
    case True
    define neg where "neg \<longleftrightarrow> t \<noteq> [] \<and> hd t = CHR ''-''"
    define u where "u = (if t \<noteq> [] \<and> (hd t = CHR ''+'' \<or> hd t = CHR ''-'') then tl t else t)"
    have read: "read_exponent s = (case exponent_digits 0 u of None \<Rightarrow> None
        | Some (e, rest) \<Rightarrow> if rest = u \<or> e > 1000 then None else Some (if neg then - int e else int e, rest))"
      unfolding read_exponent_def Let_def neg_def u_def Cons list.case if_P [OF True] ..
    show ?thesis
    proof
      assume "read_exponent s = Some (e, [])"
      then obtain x where x: "exponent_digits 0 u = Some (x, [])" "u \<noteq> []" "x \<le> 1000" "e = (if neg then - int x else int x)"
        by (auto simp: read split: option.split_asm if_split_asm)
      from split_digits [of u] have parts: "u = takeWhile IsDigit u @ dropWhile IsDigit u" "all_digits (takeWhile IsDigit u)"
        "dropWhile IsDigit u = [] \<or> \<not> IsDigit (hd (dropWhile IsDigit u))" by blast+
      from exponent_digits_run(2) [OF parts(2,3), of 0 x "[]"] x(1) parts(1)
      have d: "x = decimal_value 0 (takeWhile IsDigit u) \<and> [] = dropWhile IsDigit u" by metis
      with parts(1) have "takeWhile IsDigit u = u" by (metis append_Nil2)
      with d parts(2) have u: "all_digits u" "x = decimal_value 0 u" by auto
      let ?sign = "if t \<noteq> [] \<and> hd t = CHR ''+'' then ''+'' else if neg then ''-'' else []"
      have "s = c # ?sign @ u" using Cons by (cases t) (auto simp: u_def neg_def)
      moreover have "(?sign = [] \<or> ?sign = ''+'') \<and> e = int (decimal_value 0 u) \<or> ?sign = ''-'' \<and> e = - int (decimal_value 0 u)"
        using x(4) u(2) by (auto simp: neg_def)
      ultimately have "exponent_text s e" unfolding exponent_text_def using True u(1) x(2) by blast
      with x(3,4) show "exponent_text s e \<and> \<bar>e\<bar> \<le> 1000" by simp
    next
      assume x: "exponent_text s e \<and> \<bar>e\<bar> \<le> 1000"
      then obtain c' sign ds where "s = c' # sign @ ds" "ds \<noteq> []" "all_digits ds"
        and e: "(sign = [] \<or> sign = ''+'') \<and> e = int (decimal_value 0 ds) \<or> sign = ''-'' \<and> e = - int (decimal_value 0 ds)"
        unfolding exponent_text_def Cons by blast
      with x Cons have t: "t = sign @ ds" "ds \<noteq> []" "all_digits ds" "decimal_value 0 ds \<le> 1000" by auto
      have "\<not> IsDigit (CHR ''+'')" "\<not> IsDigit (CHR ''-'')" by (simp_all add: IsDigit_def)
      with t(2,3) have "hd ds \<noteq> CHR ''+'' \<and> hd ds \<noteq> CHR ''-''" by (cases ds) (auto simp: all_digits_def)
      with e t(1,2) have u: "u = ds" "neg \<longleftrightarrow> sign = ''-''" by (auto simp: u_def neg_def)
      with exponent_digits_run(1) [OF t(3), of "[]" 0] t(2,4) e show "read_exponent s = Some (e, [])"
        by (auto simp: read)
    qed
  qed
qed

lemma exact_quotient:
  assumes "n = a * 10 ^ r + b" "b < (10 :: nat) ^ r"
  shows "v * 10 ^ r = int n \<longleftrightarrow> b = 0 \<and> v = int a"
proof
  assume e: "v * 10 ^ r = int n"
  have "int n mod 10 ^ r = 0" unfolding e [symmetric] by simp
  moreover have "int n mod 10 ^ r = int b"
  proof -
    have "int n mod 10 ^ r = int (n mod 10 ^ r)" by (simp add: of_nat_mod)
    also have "n mod 10 ^ r = b" using assms by simp
    finally show ?thesis .
  qed
  ultimately have "b = 0" by simp
  with e assms(1) show "b = 0 \<and> v = int a" by simp
qed (use assms(1) in simp)

text \<open>Shifting the digits and reading them is exact multiplication, and fails where that leaves the integers or \<open>int64_t\<close>.\<close>

lemma scale_exact:
  assumes "all_digits s" "s \<noteq> []" "hd s \<noteq> CHR ''0''"
  shows "(\<exists>d. scale_digits s shift = Some d \<and> from_chars_int64 d = Some v) \<longleftrightarrow>
    (of_int v :: rat) = of_nat (decimal_value 0 s) * 10 powi shift \<and> v \<le> 9223372036854775807"
proof -
  let ?n = "decimal_value 0 s"
  obtain c t where s: "s = c # t" using assms(2) by (cases s) auto
  from decimal_value_lower [of c t] assms s have low: "10 ^ (length s - 1) \<le> ?n" by simp
  have pos: "0 < ?n" using low by (meson less_le_trans zero_less_numeral zero_less_power)
  show ?thesis
  proof (cases "shift < 0")
    case False
    define p where "p = nat shift"
    have shift: "shift = int p" using False by (simp add: p_def)
    have val: "decimal_value 0 (s @ replicate p (CHR ''0'')) = ?n * 10 ^ p"
      by (simp add: decimal_value_append decimal_value_replicate)
    have fits: "p \<le> 19 \<and> length s + p \<le> 19" if "?n * 10 ^ p \<le> 9223372036854775807"
    proof -
      have "10 ^ (length s - 1) * 10 ^ p \<le> ?n * 10 ^ p" using low by simp
      also have "\<dots> < 10 ^ 19" using that by simp
      finally have less: "(10::nat) ^ (length s - 1 + p) < 10 ^ 19" unfolding power_add .
      have "length s - 1 + p < 19" by (rule power_less_imp_less_exp [OF _ less]) simp
      with assms(2) show ?thesis by (cases s) auto
    qed
    have "(\<exists>d. scale_digits s shift = Some d \<and> from_chars_int64 d = Some v) \<longleftrightarrow>
        v = int (?n * 10 ^ p) \<and> ?n * 10 ^ p \<le> 9223372036854775807"
      using fits assms(2) by (auto simp: scale_digits_def shift from_chars_int64_def val not_less)
    also have "\<dots> \<longleftrightarrow> v = int (?n * 10 ^ p) \<and> v \<le> 9223372036854775807" by linarith
    also have "\<dots> \<longleftrightarrow> (of_int v :: rat) = of_int (int (?n * 10 ^ p)) \<and> v \<le> 9223372036854775807" by (simp only: of_int_eq_iff)
    finally show ?thesis by (simp add: shift power_int_def)
  next
    case True
    define r where "r = nat (- shift)"
    have shift: "shift = - int r" "0 < r" using True by (simp_all add: r_def)
    have rat: "(of_int v :: rat) = of_nat ?n * 10 powi shift \<longleftrightarrow> v * 10 ^ r = int ?n"
    proof -
      have "(of_int v :: rat) = of_nat ?n * 10 powi shift \<longleftrightarrow> of_int v * 10 ^ r = (of_nat ?n :: rat)"
        by (simp add: shift power_int_minus field_simps)
      also have "\<dots> \<longleftrightarrow> (of_int (v * 10 ^ r) :: rat) = of_int (int ?n)" by simp
      finally show ?thesis by (simp only: of_int_eq_iff)
    qed
    let ?a = "take (length s - r) s" and ?b = "drop (length s - r) s"
    have dig: "all_digits ?a" "all_digits ?b" using assms(1) by (metis all_digits_append append_take_drop_id)+
    have split: "?n = decimal_value 0 ?a * 10 ^ r + decimal_value 0 ?b" "decimal_value 0 ?b < 10 ^ r" if "r < length s"
      using that decimal_value_append [of 0 ?a ?b] decimal_value_acc [of "decimal_value 0 ?a" ?b] decimal_value_less [OF dig(2)] by auto
    have long: "r < length s" if "v * 10 ^ r = int ?n"
    proof (rule ccontr)
      assume "\<not> r < length s"
      then have "(10::nat) ^ length s \<le> 10 ^ r" by (intro power_increasing) auto
      with decimal_value_less [OF assms(1)] have "?n < 10 ^ r" by (rule less_le_trans)
      then have "int ?n < 10 ^ r" using of_nat_less_iff [of ?n "10 ^ r", where 'a = int] by simp
      with that have "v * 10 ^ r < 1 * 10 ^ r" by simp
      then have "v < 1" by (rule mult_right_less_imp_less) simp
      moreover have "0 < v" using that pos by (metis of_nat_0_less_iff zero_less_mult_pos2 zero_less_numeral zero_less_power)
      ultimately show False by simp
    qed
    have "v * 10 ^ r = int ?n \<longleftrightarrow> (\<forall>c\<in>set ?b. c = CHR ''0'') \<and> v = int (decimal_value 0 ?a)" if "r < length s"
      using exact_quotient [OF split [OF that], of v] decimal_value_zero [OF dig(2)] by blast
    moreover have "(\<exists>d. scale_digits s shift = Some d \<and> from_chars_int64 d = Some v) \<longleftrightarrow>
        r < length s \<and> (\<forall>c\<in>set ?b. c = CHR ''0'') \<and> v = int (decimal_value 0 ?a) \<and> v \<le> 9223372036854775807"
    proof (cases "r < length s \<and> (\<forall>c\<in>set ?b. c = CHR ''0'')")
      case True
      then have "scale_digits s shift = Some ?a" using shift by (simp add: scale_digits_def Let_def not_le)
      moreover have "?a \<noteq> []" using True by (cases s) auto
      ultimately have "(\<exists>d. scale_digits s shift = Some d \<and> from_chars_int64 d = Some v) \<longleftrightarrow> from_chars_int64 ?a = Some v" by simp
      also have "\<dots> \<longleftrightarrow> v = int (decimal_value 0 ?a) \<and> v \<le> 9223372036854775807"
        unfolding from_chars_int64_def using \<open>?a \<noteq> []\<close> by (simp del: take_eq_Nil) linarith
      finally show ?thesis using True by blast
    next
      case False
      then have "scale_digits s shift = None" using shift by (auto simp: scale_digits_def Let_def not_le)
      with False show ?thesis by (simp only: option.distinct simp_thms) blast
    qed
    ultimately show ?thesis using long unfolding rat by blast
  qed
qed
definition after_sign :: "string \<Rightarrow> string" where
  "after_sign s = (if s \<noteq> [] \<and> hd s = CHR ''+'' then tl s else s)"

definition after_point :: "string \<Rightarrow> string" where
  "after_point s = (if s \<noteq> [] \<and> hd s = CHR ''.'' then dropWhile IsDigit (tl s) else s)"

definition fraction_of :: "string \<Rightarrow> string" where
  "fraction_of s = (if s \<noteq> [] \<and> hd s = CHR ''.'' then takeWhile IsDigit (tl s) else [])"

lemma run_of_digits:
  assumes "all_digits w" "rest = [] \<or> \<not> IsDigit (hd rest)"
  shows "takeWhile IsDigit (w @ rest) = w" "dropWhile IsDigit (w @ rest) = rest"
proof -
  have "takeWhile IsDigit rest = []" "dropWhile IsDigit rest = rest" using assms(2) by (cases rest; simp)+
  moreover have "\<forall>x\<in>set w. IsDigit x" using assms(1) by (simp add: all_digits_def list_all_iff)
  ultimately show "takeWhile IsDigit (w @ rest) = w" "dropWhile IsDigit (w @ rest) = rest" by simp_all
qed

lemma not_digit [simp]: "\<not> IsDigit (CHR ''.'')" "\<not> IsDigit (CHR ''e'')" "\<not> IsDigit (CHR ''E'')"
    "\<not> IsDigit (CHR ''+'')" "\<not> IsDigit (CHR ''-'')"
  by (simp_all add: IsDigit_def)

lemma exponent_text_start: "exponent_text s e \<Longrightarrow> s = [] \<or> hd s = CHR ''e'' \<or> hd s = CHR ''E''"
  by (auto simp: exponent_text_def)

lemma decimal_text_iff:
  "decimal_text txt m k \<longleftrightarrow> (let s = after_sign txt; whole = takeWhile IsDigit s; s1 = dropWhile IsDigit s;
      digits = whole @ fraction_of s1 in digits \<noteq> [] \<and> m = decimal_value 0 digits \<and>
      (\<exists>e. read_exponent (after_point s1) = Some (e, []) \<and> k = e - int (length (fraction_of s1))))" (is "_ \<longleftrightarrow> ?parsed")
proof
  assume "decimal_text txt m k"
  then obtain sign whole point fraction suffix e where parts: "txt = sign @ whole @ point @ fraction @ suffix"
    and sign: "sign = [] \<or> sign = ''+''" and point: "point = ''.'' \<or> point = [] \<and> fraction = []"
    and digits: "all_digits whole" "all_digits fraction" "whole @ fraction \<noteq> []"
    and e: "exponent_text suffix e" "\<bar>e\<bar> \<le> 1000"
    and mk: "m = decimal_value 0 (whole @ fraction)" "k = e - int (length fraction)"
    unfolding decimal_text_def by blast
  let ?rest = "point @ fraction @ suffix"
  from exponent_text_start [OF e(1)] have suffix: "suffix = [] \<or> \<not> IsDigit (hd suffix)" "suffix = [] \<or> hd suffix \<noteq> CHR ''.''" by auto
  from point suffix have rest: "?rest = [] \<or> \<not> IsDigit (hd ?rest)" by auto
  have "hd (whole @ ?rest) \<noteq> CHR ''+''" if "whole @ ?rest \<noteq> []"
  proof (cases whole)
    case Nil
    with point digits(3) have "point = ''.''" by auto
    with Nil show ?thesis by simp
  next
    case (Cons c w)
    with digits(1) have "IsDigit c" by (simp add: all_digits_def)
    then have "c \<noteq> CHR ''+''" by auto
    with Cons show ?thesis by simp
  qed
  with sign parts have s: "after_sign txt = whole @ ?rest" by (auto simp: after_sign_def)
  have fr: "fraction_of ?rest = fraction" "after_point ?rest = suffix"
    using point run_of_digits [OF digits(2) suffix(1)] suffix(2) by (auto simp: fraction_of_def after_point_def)
  from e read_exponent_iff have "read_exponent suffix = Some (e, [])" by simp
  then show ?parsed unfolding Let_def s run_of_digits [OF digits(1) rest] fr using digits(3) mk by blast
next
  assume ?parsed
  define s where "s = after_sign txt"
  define whole where "whole = takeWhile IsDigit s"
  define s1 where "s1 = dropWhile IsDigit s"
  define sign where "sign = (if txt \<noteq> [] \<and> hd txt = CHR ''+'' then ''+'' else [])"
  define point where "point = (if s1 \<noteq> [] \<and> hd s1 = CHR ''.'' then ''.'' else [])"
  from \<open>?parsed\<close> obtain e where p: "whole @ fraction_of s1 \<noteq> []" "m = decimal_value 0 (whole @ fraction_of s1)"
    "read_exponent (after_point s1) = Some (e, [])" "k = e - int (length (fraction_of s1))"
    by (auto simp: Let_def s_def whole_def s1_def)
  have "s1 = point @ fraction_of s1 @ after_point s1"
    by (cases s1) (auto simp: point_def fraction_of_def after_point_def)
  moreover have "s = whole @ s1" by (simp add: whole_def s1_def)
  moreover have "txt = sign @ s" by (cases "txt") (auto simp: sign_def s_def after_sign_def)
  ultimately have "txt = sign @ whole @ point @ fraction_of s1 @ after_point s1" by metis
  moreover have "sign = [] \<or> sign = ''+''" by (simp add: sign_def)
  moreover have "point = ''.'' \<or> point = [] \<and> fraction_of s1 = []" by (auto simp: point_def fraction_of_def)
  moreover have "all_digits whole" "all_digits (fraction_of s1)"
    using split_digits by (simp_all add: whole_def fraction_of_def) (simp add: all_digits_def)
  ultimately show "decimal_text txt m k" unfolding decimal_text_def
    using p read_exponent_iff [of "after_point s1" e] by blast
qed

lemma ParseTimestampNs_unfold:
  "ParseTimestampNs txt line =
     (let s = after_sign txt; s1 = dropWhile IsDigit s; fraction = fraction_of s1; digits = takeWhile IsDigit s @ fraction in
      if length txt > 128 \<or> digits = [] then Inl (timestamp_error line)
      else case read_exponent (after_point s1) of
          Some (exponent, []) \<Rightarrow>
            (let significant = dropWhile (\<lambda>c. c = CHR ''0'') digits in
             if significant = [] then Inr 0
             else case Option.bind (scale_digits significant (9 + exponent - int (length fraction))) from_chars_int64 of
                 None \<Rightarrow> Inl (timestamp_error line) | Some value \<Rightarrow> Inr value)
        | _ \<Rightarrow> Inl (timestamp_error line))"
proof -
  let ?s = "after_sign txt"
  have no_number: "takeWhile IsDigit ?s @ fraction_of (dropWhile IsDigit ?s) = []"
    if "?s = [] \<or> hd ?s = CHR ''-''" using that by (cases ?s) (auto simp: fraction_of_def)
  have sign: "txt = [] \<Longrightarrow> ?s = []" "txt \<noteq> [] \<Longrightarrow> (if hd txt = CHR ''+'' then tl txt else txt) = ?s"
    by (simp_all add: after_sign_def)
  show ?thesis
  proof (cases "txt = [] \<or> ?s = [] \<or> hd ?s = CHR ''-''")
    case True
    then have "ParseTimestampNs txt line = Inl (timestamp_error line)"
      unfolding ParseTimestampNs_def Let_def using sign by auto
    moreover have "?s = [] \<or> hd ?s = CHR ''-''" using True sign(1) by blast
    then have "takeWhile IsDigit ?s @ fraction_of (dropWhile IsDigit ?s) = []" by (rule no_number)
    ultimately show ?thesis by (simp add: Let_def del: append_is_Nil_conv)
  next
    case False
    then have s: "txt \<noteq> []" "?s \<noteq> []" "hd ?s \<noteq> CHR ''-''" "(if hd txt = CHR ''+'' then tl txt else txt) = ?s"
      using sign by auto
    have cases_eq: "(case r of None \<Rightarrow> a | Some (x, rest) \<Rightarrow> if rest \<noteq> [] then a else f x) =
      (case r of Some (x, []) \<Rightarrow> f x | _ \<Rightarrow> a)" for r :: "(int \<times> string) option" and a :: "int res" and f
      by (auto split: option.split prod.split list.split)
    have bind_eq: "(case r of None \<Rightarrow> a | Some d \<Rightarrow> (case g d of None \<Rightarrow> a | Some y \<Rightarrow> h y)) =
      (case Option.bind r g of None \<Rightarrow> a | Some y \<Rightarrow> h y)" for r :: "string option" and a :: "int res" and g :: "string \<Rightarrow> int option" and h
      by (cases r) simp_all
    show ?thesis
      unfolding ParseTimestampNs_def Let_def s(4) cases_eq bind_eq
      unfolding fraction_of_def [symmetric] after_point_def [symmetric] using s(1-3) by simp
  qed
qed

lemma scaled_value:
  assumes "all_digits ds"
  shows "(let significant = dropWhile (\<lambda>c. c = CHR ''0'') ds in
      if significant = [] then v = 0 else Option.bind (scale_digits significant shift) from_chars_int64 = Some v) \<longleftrightarrow>
    (of_int v :: rat) = of_nat (decimal_value 0 ds) * 10 powi shift \<and> v \<le> 9223372036854775807"
proof (cases "dropWhile (\<lambda>c. c = CHR ''0'') ds")
  case Nil
  then have zero: "decimal_value 0 ds = 0" by (metis significant_value decimal_value.simps(1))
  show ?thesis unfolding Nil zero Let_def by auto
next
  case (Cons c t)
  then have "c \<noteq> CHR ''0''" using hd_dropWhile [of "\<lambda>c. c = CHR ''0''" ds] by simp
  moreover have "all_digits (c # t)"
    using assms set_dropWhileD [of _ "\<lambda>c. c = CHR ''0''" ds] unfolding Cons by (auto simp: all_digits_def list_all_iff)
  moreover have "decimal_value 0 (c # t) = decimal_value 0 ds" using significant_value [of ds] Cons by simp
  ultimately show ?thesis using scale_exact [of "c # t" shift v] Cons by (simp add: bind_eq_Some_conv)
qed

lemma returns_cases:
  "(if a > n \<or> ds = [] then Inl err else case r of
      Some (x, []) \<Rightarrow> (if z then Inr 0 else case f x of None \<Rightarrow> Inl err | Some y \<Rightarrow> Inr y) | _ \<Rightarrow> Inl err) = Inr (v :: int) \<longleftrightarrow>
    a \<le> (n :: nat) \<and> ds \<noteq> [] \<and> (\<exists>x. r = Some (x, []) \<and> (if z then v = 0 else f x = Some v))"
proof (cases "a > n \<or> ds = [] \<or> r = None")
  case False
  then obtain x rest where "r = Some (x, rest)" by auto
  with False show ?thesis by (cases rest) (auto split: option.split)
qed auto

lemma ParseTimestampNs_returns:
  "ParseTimestampNs txt line = Inr v \<longleftrightarrow> length txt \<le> 128 \<and> v \<le> 9223372036854775807 \<and>
    (\<exists>m k. decimal_text txt m k \<and> (of_int v :: rat) = of_nat m * 10 powi (9 + k))"
proof -
  define s1 where "s1 = dropWhile IsDigit (after_sign txt)"
  define ds where "ds = takeWhile IsDigit (after_sign txt) @ fraction_of s1"
  define l where "l = int (length (fraction_of s1))"
  let ?ok = "\<lambda>e. let significant = dropWhile (\<lambda>c. c = CHR ''0'') ds in
      if significant = [] then v = 0 else Option.bind (scale_digits significant (9 + e - l)) from_chars_int64 = Some v"
  have dig: "all_digits ds" unfolding ds_def using split_digits by (simp add: fraction_of_def) (simp add: all_digits_def)
  have "ParseTimestampNs txt line = Inr v \<longleftrightarrow> length txt \<le> 128 \<and> ds \<noteq> [] \<and>
      (\<exists>e. read_exponent (after_point s1) = Some (e, []) \<and> ?ok e)"
    unfolding ParseTimestampNs_unfold Let_def s1_def [symmetric] ds_def [symmetric] l_def [symmetric]
    by (rule returns_cases)
  also have "\<dots> \<longleftrightarrow> length txt \<le> 128 \<and> ds \<noteq> [] \<and> (\<exists>e. read_exponent (after_point s1) = Some (e, []) \<and>
      (of_int v :: rat) = of_nat (decimal_value 0 ds) * 10 powi (9 + e - l) \<and> v \<le> 9223372036854775807)"
    unfolding scaled_value [OF dig] ..
  also have "\<dots> \<longleftrightarrow> length txt \<le> 128 \<and> v \<le> 9223372036854775807 \<and>
      (\<exists>m k. decimal_text txt m k \<and> (of_int v :: rat) = of_nat m * 10 powi (9 + k))"
    unfolding decimal_text_iff Let_def s1_def [symmetric] ds_def [symmetric] l_def [symmetric]
    by (auto simp: add_diff_eq)
  finally show ?thesis .
qed

text \<open>
  A timestamp is accepted exactly when it is a decimal number of at most 128 characters (with an exponent of at most 1000)
  that denotes a whole number of nanoseconds within \<open>int64_t\<close>, and the value returned is that number: nothing is rounded.\<close>

theorem ParseTimestampNs_exact:
  "ParseTimestampNs txt line = Inr v \<longleftrightarrow> length txt \<le> 128 \<and> v \<le> 9223372036854775807 \<and>
    (\<exists>m k. decimal_text txt m k \<and> (of_int v :: rat) = of_nat m * 10 powi (9 + k))"
  by (rule ParseTimestampNs_returns)

section \<open>What a file's poses are\<close>

text \<open>The pose that a line denotes.\<close>

definition line_pose :: "arith \<Rightarrow> string \<Rightarrow> TrajectoryPoseNode \<Rightarrow> bool" where
  "line_pose fp line node \<longleftrightarrow> (\<exists>t x y z a b c d m k position rotation norm.
     words_of [] line = [t, x, y, z, a, b, c, d] \<and>
     decimal_text t m k \<and> (of_int (tn_timestamp_ns node) :: rat) = of_nat m * 10 powi (9 + k) \<and>
     list_all2 (\<lambda>w v. finite_double v \<and> (\<exists>n. ParseFinite fp w n = Inr v)) [x, y, z, a, b, c, d] (position @ rotation) \<and>
     norm = unit_norm fp rotation \<and> finite_double norm \<and> length position = 3 \<and>
     tn_position_xyz node = position \<and> tn_rotation_xyzw node = map (\<lambda>v. fa_div fp v norm) rotation)"

lemma ParseFinite_finite: "ParseFinite fp w n = Inr v \<Longrightarrow> finite_double v"
  by (auto simp: ParseFinite_def Let_def split: option.split_asm prod.split_asm if_split_asm)

lemma traverse_finite:
  "traverse_res (\<lambda>v. ParseFinite fp v n) ws = Inr vs \<Longrightarrow>
    list_all2 (\<lambda>w v. finite_double v \<and> (\<exists>n. ParseFinite fp w n = Inr v)) ws vs"
  by (induction ws arbitrary: vs) (auto simp: rbind_Inr dest: ParseFinite_finite)

lemma eight_words: "length ws = 8 \<Longrightarrow> \<exists>t x y z a b c d. ws = [t, x, y, z, a, b, c, d]"
  by (auto simp: numeral_eq_Suc length_Suc_conv)

lemma parse_pose_returns:
  assumes "parse_pose fp nodes n line = Inr node"
  shows "line_pose fp line node \<and> tn_sequence_index node = int (length nodes) \<and>
    (nodes \<noteq> [] \<longrightarrow> tn_timestamp_ns (last nodes) < tn_timestamp_ns node)"
proof -
  from assms have len: "length (words_of [] line) = 8" by (simp add: parse_pose_def Let_def split: if_split_asm)
  then obtain t x y z a b c d where ws: "words_of [] line = [t, x, y, z, a, b, c, d]" using eight_words by blast
  from assms obtain v position rotation where ts: "ParseTimestampNs t n = Inr v" "nodes \<noteq> [] \<Longrightarrow> tn_timestamp_ns (last nodes) < v"
    and p: "traverse_res (\<lambda>v. ParseFinite fp v n) [x, y, z] = Inr position"
    and r: "traverse_res (\<lambda>v. ParseFinite fp v n) [a, b, c, d] = Inr rotation"
    and norm: "finite_double (unit_norm fp rotation)"
    and node: "node = \<lparr>tn_frame_id = [], tn_timestamp_ns = v, tn_sequence_index = int (length nodes),
      tn_position_xyz = position, tn_rotation_xyzw = map (\<lambda>v. fa_div fp v (unit_norm fp rotation)) rotation,
      tn_covariance_position = replicate 6 0, tn_covariance_rotation = replicate 6 0\<rparr>"
    unfolding parse_pose_def Let_def ws by (auto simp: rbind_Inr not_le split: if_split_asm)
  from list_all2_appendI [OF traverse_finite [OF p] traverse_finite [OF r]]
  have "list_all2 (\<lambda>w v. finite_double v \<and> (\<exists>n. ParseFinite fp w n = Inr v)) [x, y, z, a, b, c, d] (position @ rotation)" by simp
  moreover from list_all2_lengthD [OF traverse_finite [OF p]] have "length position = 3" by simp
  ultimately
  have "line_pose fp line node"
    using ParseTimestampNs_returns [THEN iffD1, OF ts(1)] norm unfolding line_pose_def ws node by auto
  with ts(2) node show ?thesis by simp
qed

lemma parse_lines_returns:
  assumes "parse_lines fp n done lines = Inr nodes"
    "sorted_wrt (<) (map tn_timestamp_ns done)" "map tn_sequence_index done = map int [0..<length done]"
  shows "\<exists>new. nodes = done @ new \<and> list_all2 (line_pose fp) (filter (\<lambda>l. \<not> skipped_line l) lines) new \<and>
    sorted_wrt (<) (map tn_timestamp_ns nodes) \<and> map tn_sequence_index nodes = map int [0..<length nodes]"
  using assms
proof (induction fp n "done" lines rule: parse_lines.induct)
  case (2 fp n nodes' line lines)
  show ?case
  proof (cases "skipped_line line")
    case False
    with 2(3) obtain node where node: "parse_pose fp nodes' n line = Inr node"
      and rest: "parse_lines fp (Suc n) (nodes' @ [node]) lines = Inr nodes" by (auto simp: rbind_Inr)
    note p = parse_pose_returns [OF node]
    have "\<forall>x\<in>set nodes'. tn_timestamp_ns x < tn_timestamp_ns node" using p 2(4)
      by (cases nodes' rule: rev_cases) (auto simp: sorted_wrt_append)
    then have "sorted_wrt (<) (map tn_timestamp_ns (nodes' @ [node]))" using 2(4) by (simp add: sorted_wrt_append)
    moreover have "map tn_sequence_index (nodes' @ [node]) = map int [0..<length (nodes' @ [node])]" using 2(5) p by simp
    ultimately obtain new where "nodes = (nodes' @ [node]) @ new" "list_all2 (line_pose fp) (filter (\<lambda>l. \<not> skipped_line l) lines) new"
      "sorted_wrt (<) (map tn_timestamp_ns nodes)" "map tn_sequence_index nodes = map int [0..<length nodes]"
      using 2(2) [OF False node rest] by blast
    with False p show ?thesis by (intro exI [of _ "node # new"]) simp
  next
    case True
    with 2 show ?thesis by simp
  qed
qed simp

text \<open>
  A trajectory that is read has one pose for each line that is not blank or a comment, in the lines' order: the pose's
  timestamp is exactly the number in the line's first field, the timestamps strictly increase, the poses are numbered from 0, and every
  coordinate and the quaternion's norm are finite. There is at least one.\<close>

theorem ParseTum_poses:
  assumes "ParseTum fp source = Inr nodes"
  shows "nodes \<noteq> [] \<and> sorted_wrt (<) (map tn_timestamp_ns nodes) \<and> map tn_sequence_index nodes = map int [0..<length nodes] \<and>
    list_all2 (line_pose fp) (filter (\<lambda>l. \<not> skipped_line l) (lines_of [] (map (\<lambda>b. char_of (unat b)) source))) nodes"
proof -
  from assms have "nodes \<noteq> []" and "parse_lines fp 1 [] (lines_of [] (map (\<lambda>b. char_of (unat b)) source)) = Inr nodes"
    by (auto simp: ParseTum_def rbind_Inr split: if_split_asm)
  from parse_lines_returns [OF this(2)] this(1) show ?thesis by auto
qed

text \<open>An arithmetic in which every text is the number 1 and the norm is 1.\<close>

definition ones :: arith where
  "ones = \<lparr>fa_add = (\<lambda>a b. 0), fa_sub = (\<lambda>a b. 0), fa_mul = (\<lambda>a b. 0), fa_div = (\<lambda>a b. a), fa_sqrt = (\<lambda>a. a), fa_abs = (\<lambda>a. a),
     fa_hypot = (\<lambda>a b. a), fa_hypot3 = (\<lambda>a b c. a), fa_ratio = (\<lambda>a b. 1), fa_of_int = (\<lambda>i. 0), fa_to_int = (\<lambda>d. 0),
     fa_from_chars = (\<lambda>s. Some (1, []))\<rparr>"

lemma two_poses:
  "lines_of [] (''# t'' @ kNewline # ''1.5 1 1 1 1 1 1 1'' @ kNewline # ''2e0 1 1 1 1 1 1 1'') =
    [''# t'', ''1.5 1 1 1 1 1 1 1'', ''2e0 1 1 1 1 1 1 1'']"
  by (simp add: kNewline_def char_of_def)

lemma two_pose_lines: "map skipped_line [''# t'', ''1.5 1 1 1 1 1 1 1'', ''2e0 1 1 1 1 1 1 1''] = [True, False, False]"
  by (simp add: skipped_line_def)

lemma two_pose_words:
  "words_of [] ''1.5 1 1 1 1 1 1 1'' = [''1.5'', ''1'', ''1'', ''1'', ''1'', ''1'', ''1'', ''1'']"
  "words_of [] ''2e0 1 1 1 1 1 1 1'' = [''2e0'', ''1'', ''1'', ''1'', ''1'', ''1'', ''1'', ''1'']"
  by code_simp+

lemma some_digits: "map IsDigit ''0125'' = [True, True, True, True]" "map digit_value ''0125'' = [0, 1, 2, 5]"
  by code_simp+

lemma one_is_finite: "finite_double 1"
  by code_simp

lemma ones_order: "\<not> fp_less (fa_ratio ones 1 1000) (fa_abs ones (fa_sub ones 1 (fa_ratio ones 1 1)))"
  by code_simp

lemma some_timestamps: "ParseTimestampNs ''1.5'' n = Inr 1500000000" "ParseTimestampNs ''2e0'' n = Inr 2000000000"
  using some_digits by (simp_all add: ParseTimestampNs_def read_exponent_def scale_digits_def from_chars_int64_def
    Let_def decimal_value_replicate)

lemma pose_of_ones:
  assumes "words_of [] line = [w, ''1'', ''1'', ''1'', ''1'', ''1'', ''1'', ''1'']" "ParseTimestampNs w n = Inr v"
    "nodes = [] \<or> tn_timestamp_ns (last nodes) < v"
  shows "\<exists>node. parse_pose ones nodes n line = Inr node \<and> tn_timestamp_ns node = v"
proof -
  have one: "ParseFinite ones w n = Inr 1" if "w \<noteq> []" "hd w \<noteq> CHR ''+''" for w n
    using that one_is_finite by (simp add: ParseFinite_def ones_def)
  have unit_norm: "unit_norm ones [1, 1, 1, 1] = 1" by (simp add: unit_norm_def ones_def)
  from assms(3) show ?thesis unfolding parse_pose_def Let_def assms(1)
    by (auto simp: assms(2) one unit_norm ones_order one_is_finite)
qed

lemma chars_of_bytes: "map (\<lambda>b. char_of (unat b)) (map (\<lambda>c. word_of_nat (of_char c) :: byte) cs) = cs"
proof -
  have "char_of (unat (word_of_nat (of_char c) :: byte)) = c" for c :: char by (simp add: unat_of_nat)
  then show ?thesis by (simp only: map_map o_def list.map_ident)
qed

lemma ParseTum_poses_witness:
  "\<exists>nodes. ParseTum ones (map (\<lambda>c. word_of_nat (of_char c)) (''# t'' @ kNewline # ''1.5 1 1 1 1 1 1 1'' @ kNewline # ''2e0 1 1 1 1 1 1 1'')) = Inr nodes \<and>
    map tn_timestamp_ns nodes = [1500000000, 2000000000] \<and> map tn_sequence_index nodes = map int [0..<2]"
proof -
  let ?t = "''# t'' @ kNewline # ''1.5 1 1 1 1 1 1 1'' @ kNewline # ''2e0 1 1 1 1 1 1 1''"
  obtain a where a: "parse_pose ones [] 2 ''1.5 1 1 1 1 1 1 1'' = Inr a" "tn_timestamp_ns a = 1500000000"
    using pose_of_ones [OF two_pose_words(1) some_timestamps(1), of "[]"] by blast
  obtain b where b: "parse_pose ones [a] 3 ''2e0 1 1 1 1 1 1 1'' = Inr b" "tn_timestamp_ns b = 2000000000"
    using pose_of_ones [OF two_pose_words(2) some_timestamps(2), of "[a]"] a(2) by auto
  from a(1) b(1) have lines: "parse_lines ones 1 [] [''# t'', ''1.5 1 1 1 1 1 1 1'', ''2e0 1 1 1 1 1 1 1''] = Inr [a, b]"
    using two_pose_lines by (simp add: numeral_2_eq_2 numeral_3_eq_3)
  have nodes: "ParseTum ones (map (\<lambda>c. word_of_nat (of_char c)) ?t) = Inr [a, b]"
    unfolding ParseTum_def chars_of_bytes two_poses lines rbind.simps by simp
  from ParseTum_poses [OF this] have "map tn_sequence_index [a, b] = map int [0..<length [a, b]]" by (elim conjE)
  then have "map tn_sequence_index [a, b] = map int [0..<2]" by (simp only: list.size numeral_2_eq_2 add_0 plus_1_eq_Suc add_0_right One_nat_def add_Suc_right)
  moreover have "map tn_timestamp_ns [a, b] = [1500000000, 2000000000]" by (simp add: a(2) b(2))
  ultimately show ?thesis by (intro exI [of _ "[a, b]"] conjI nodes)
qed

end
