(* ===== verification/TrajectoryImport.thy ===== *)
theory TrajectoryImport
  imports SceneQuery Reconstructions TumFormat
begin

text \<open>
  \<open>ImportTumCameraTrajectory\<close> of importers/trajectory/trajectory_importer.cpp: the poses of a TUM file
  are matched with the frames of a session and published as three artifacts and a trajectory row, or an earlier
  import of the same file is reused. The artifact index and the scene tables are on one
  connection, so that the write transaction covers both; the payload files are not undone.
\<close>

section \<open>Data\<close>

datatype TrajectoryLengthUnit = kMeters
datatype TrajectoryClockDomain = kPlatform
datatype TrajectoryPoseFrame = kCamera

record TrajectoryImportOptions =
  to_session_id :: uuid
  to_sensor_id :: uuid
  to_coordinate_frame :: string
  to_source_producer :: string
  to_source_version :: string
  to_source_unit :: "TrajectoryLengthUnit option"
  to_clock_domain :: "TrajectoryClockDomain option"
  to_pose_frame :: "TrajectoryPoseFrame option"

record TrajectoryImportResult =
  tir_trajectory_id :: uuid
  tir_artifact_id :: uuid
  tir_source_artifact_id :: uuid
  tir_configuration_artifact_id :: uuid
  tir_scene_id :: uuid
  tir_content_hash :: string
  tir_source_content_hash :: string
  tir_configuration_hash :: string
  tir_node_count :: int
  tir_total_distance_m :: u64
  tir_reused :: bool

text \<open>
  The environment: arithmetic, the JSON library with its \<open>operator==\<close> on documents, and the constants of
  trajectory_import_build_info.h.
\<close>

record tum_env =
  te_fp :: arith
  te_lib :: json_lib
  te_json_eq :: "json \<Rightarrow> json \<Rightarrow> bool"
  te_version :: string
  te_git_commit :: string

definition kProducer :: string where
  "kProducer = ''trajectory-import.tum''"

section \<open>Checks of the options\<close>

definition has_control :: "string \<Rightarrow> bool" where
  "has_control value \<longleftrightarrow> list_ex (\<lambda>c. (of_char c :: nat) < 32 \<or> (of_char c :: nat) = 127) value"

definition blank :: "string \<Rightarrow> bool" where
  "blank value \<longleftrightarrow> list_all (\<lambda>c. (of_char c :: nat) \<in> {32, 9, 13, 10}) value"

definition check_options :: "TrajectoryImportOptions \<Rightarrow> unit res" where
  "check_options o1 =
     (if IsNil (to_session_id o1) \<or> IsNil (to_sensor_id o1) then Inl (Invalid ''session and camera sensor are required'')
      else if to_coordinate_frame o1 = [] \<or> blank (to_coordinate_frame o1) \<or> has_control (to_coordinate_frame o1)
      then Inl (Invalid ''a named coordinate frame is required'')
      else if to_source_unit o1 \<noteq> Some kMeters \<or> to_clock_domain o1 \<noteq> Some kPlatform \<or> to_pose_frame o1 \<noteq> Some kCamera
      then Inl (Invalid ''explicit meters, platform clock, and camera pose declarations are required'')
      else if has_control (to_source_producer o1) \<or> has_control (to_source_version o1) \<or>
          to_source_producer o1 = [] \<and> to_source_version o1 \<noteq> []
      then Inl (Invalid ''source producer and version are inconsistent'')
      else Inr ())"

text \<open>The session, its scene and the sensor belong to the project; the scene is returned.\<close>

definition check_context :: "uuid \<Rightarrow> TrajectoryImportOptions \<Rightarrow> Scene scene_op" where
  "check_context project_id o1 =
     sbind (SQ_FindCaptureSession (to_session_id o1)) (\<lambda>session.
       if \<not> (case session of None \<Rightarrow> False | Some s \<Rightarrow> dcs_project_id s = project_id)
       then sthrow (Invalid ''session is not in this project'')
       else sbind (SQ_SessionScene (to_session_id o1)) (\<lambda>scene. case scene of
         None \<Rightarrow> sthrow (Invalid ''session has no scene in this project'')
       | Some sc \<Rightarrow>
           if dsc_project_id sc \<noteq> project_id then sthrow (Invalid ''session has no scene in this project'')
           else sbind (SQ_ResolveSensor (to_sensor_id o1)) (\<lambda>sensor.
             if \<not> (case sensor of None \<Rightarrow> False
                 | Some s \<Rightarrow> dse_project_id s = project_id \<and> (dse_type s = ''camera'' \<or> dse_type s = ''rgbd''))
             then sthrow (Invalid ''sensor is not a camera in this project'')
             else sret sc)))"

section \<open>Poses and frames\<close>

text \<open>\<open>frames[timestamp]\<close>: the ids of the frames of the sensor and scene at that time, in the query's order.\<close>

definition frames_at :: "uuid \<Rightarrow> uuid \<Rightarrow> Frame list \<Rightarrow> int \<Rightarrow> uuid list" where
  "frames_at sensor_id scene_id frames t = map dfr_frame_id
     (filter (\<lambda>f. dfr_sensor_id f = sensor_id \<and> dfr_scene_id f = scene_id \<and> dfr_timestamp_ns f = t) frames)"

definition place_node :: "(int \<Rightarrow> uuid list) \<Rightarrow> TrajectoryPoseNode \<Rightarrow> TrajectoryPoseNode res" where
  "place_node frames node = (case frames (tn_timestamp_ns node) of
       [] \<Rightarrow> Inl (Invalid (''no frame matches timestamp '' @ int_to_string (tn_timestamp_ns node)))
     | [f] \<Rightarrow> Inr (node\<lparr>tn_frame_id := FormatUuid f\<rparr>)
     | _ \<Rightarrow> Inl (Invalid (''multiple frames match timestamp '' @ int_to_string (tn_timestamp_ns node))))"

definition segment_length :: "arith \<Rightarrow> TrajectoryPoseNode \<Rightarrow> TrajectoryPoseNode \<Rightarrow> u64" where
  "segment_length fp a b = (let d = (\<lambda>i. fa_sub fp (tn_position_xyz b ! i) (tn_position_xyz a ! i)) in
     fa_hypot3 fp (d 0) (d 1) (d 2))"

fun distance_loop :: "arith \<Rightarrow> u64 \<Rightarrow> TrajectoryPoseNode list \<Rightarrow> u64 res" where
  "distance_loop fp sofar (a # b # nodes) =
     (let t = fa_add fp sofar (segment_length fp a b) in
      if \<not> finite_double t then Inl (Invalid ''trajectory distance overflows'') else distance_loop fp t (b # nodes))"
| "distance_loop fp sofar nodes = Inr sofar"

definition TotalDistance :: "arith \<Rightarrow> TrajectoryPoseNode list \<Rightarrow> u64 res" where
  "TotalDistance fp nodes = distance_loop fp 0 nodes"

section \<open>Documents\<close>

definition node_doc :: "TrajectoryPoseNode \<Rightarrow> json" where
  "node_doc node = JObj
     [(''frame_id'', JStr (tn_frame_id node)), (''position_xyz'', JArr (map JFloat (tn_position_xyz node))),
      (''rotation_xyzw'', JArr (map JFloat (tn_rotation_xyzw node))), (''sequence_index'', JInt (tn_sequence_index node)),
      (''timestamp_ns'', JInt (tn_timestamp_ns node))]"

definition NodesJson :: "TrajectoryPoseNode list \<Rightarrow> json" where
  "NodesJson nodes = JArr (map node_doc nodes)"

definition config_doc :: "tum_env \<Rightarrow> uuid \<Rightarrow> uuid \<Rightarrow> TrajectoryImportOptions \<Rightarrow> string \<Rightarrow> TrajectoryPoseNode list \<Rightarrow> json" where
  "config_doc env project_id scene_id o1 source_hash nodes = JObj
     [(''clock_domain'', JStr ''platform''), (''coordinate_frame'', JStr (to_coordinate_frame o1)),
      (''format'', JStr ''tum_camera_v1''), (''frame_ids'', string_array (map tn_frame_id nodes)),
      (''pose_frame'', JStr ''camera''), (''producer_commit'', JStr (te_git_commit env)),
      (''producer_version'', JStr (te_version env)), (''project_id'', JStr (FormatUuid project_id)),
      (''scene_id'', JStr (FormatUuid scene_id)), (''sensor_id'', JStr (FormatUuid (to_sensor_id o1))),
      (''session_id'', JStr (FormatUuid (to_session_id o1))), (''source_hash'', JStr source_hash),
      (''source_producer'', JStr (to_source_producer o1)), (''source_unit'', JStr ''meters''),
      (''source_version'', JStr (to_source_version o1))]"

definition trajectory_doc :: "uuid \<Rightarrow> json \<Rightarrow> json" where
  "trajectory_doc trajectory_id nodes_json = JObj
     [(''nodes'', nodes_json), (''schema_version'', JInt 1), (''trajectory_id'', JStr (FormatUuid trajectory_id))]"

definition Iso8601UtcNow :: "string w_op" where
  "Iso8601UtcNow w = (Inr (w_iso w (w_tick w)), w_step w)"

definition MakeTrajectoryManifest :: "tum_env \<Rightarrow> string \<Rightarrow> ArtifactManifest w_op" where
  "MakeTrajectoryManifest env kind = sbind new_uuid (\<lambda>auid. sbind Iso8601UtcNow (\<lambda>iso.
     sret (default_manifest\<lparr>am_artifact_uuid := auid, am_type := kind, am_schema_version := 1,
       am_producer := \<lparr>pi_id = kProducer, pi_version = te_version env, pi_git_commit = te_git_commit env\<rparr>,
       am_creation_timestamp := iso, am_validation_status := ''unverified''\<rparr>)))"
section \<open>Reuse of an earlier import\<close>

text \<open>
  The index row of a hash; when there is one, or a payload of that name, the stored bytes must be these.
\<close>

definition check_payload :: "string \<Rightarrow> byte list \<Rightarrow> string \<Rightarrow> ArtifactIndexRow option import_op" where
  "check_payload hash bytes message =
     sbind (on_store (on_db (FindArtifactByHash hash))) (\<lambda>index s.
       if index \<noteq> None \<or> Has hash (im_world s) then
         sbind (on_store (Get hash)) (\<lambda>existing.
           if existing \<noteq> Some bytes then sthrow (Invalid message) else sret index) s
       else (Inr index, s))"

definition manifest_matches :: "TrajectoryImportOptions \<Rightarrow> string \<Rightarrow> string \<Rightarrow> ArtifactManifest option \<Rightarrow> bool" where
  "manifest_matches o1 source_hash config_hash manifest = (case manifest of None \<Rightarrow> False
     | Some m \<Rightarrow> pi_id (am_producer m) = kProducer \<and> am_configuration_hash m = config_hash \<and>
         am_input_artifact_hashes m = [source_hash, config_hash] \<and> am_coordinate_frame m = to_coordinate_frame o1 \<and>
         am_unit m = ''meters'' \<and> am_validation_status m = ''unverified'')"

text \<open>The trajectory id of a document that is as an import writes it.\<close>

definition document_id :: "tum_env \<Rightarrow> string \<Rightarrow> json \<Rightarrow> string option" where
  "document_id env document nodes_json = (case jl_parse (te_lib env) document of
       Inr (JObj kvs) \<Rightarrow>
         if length kvs \<noteq> 3 \<or> map_of kvs ''schema_version'' \<noteq> Some (JInt 1) then None
         else (case map_of kvs ''trajectory_id'' of
             Some (JStr text) \<Rightarrow> (case map_of kvs ''nodes'' of
                 None \<Rightarrow> None
               | Some nodes \<Rightarrow> if \<not> te_json_eq env nodes nodes_json \<or> map_of kvs ''metric_basis'' \<noteq> None then None else Some text)
           | _ \<Rightarrow> None)
     | _ \<Rightarrow> None)"

definition row_matches :: "TrajectoryImportOptions \<Rightarrow> uuid \<Rightarrow> nat \<Rightarrow> string \<Rightarrow> TrajectoryRow \<Rightarrow> bool" where
  "row_matches o1 scene_id n document row \<longleftrightarrow> tj_scene_id row = scene_id \<and>
     tj_coordinate_frame row = to_coordinate_frame o1 \<and> tj_kind row = ''slam'' \<and> tj_node_count row = int n \<and>
     tj_document_json row = document"

definition text_of :: "byte list \<Rightarrow> string" where
  "text_of bytes = map (\<lambda>b. char_of (unat b)) bytes"

definition reuse_index :: "tum_env \<Rightarrow> TrajectoryImportOptions \<Rightarrow> uuid \<Rightarrow> TrajectoryPoseNode list \<Rightarrow> string \<Rightarrow> string \<Rightarrow>
    ArtifactIndexRow option \<Rightarrow> ArtifactIndexRow option \<Rightarrow> ArtifactIndexRow \<Rightarrow> TrajectoryImportResult import_op" where
  "reuse_index env o1 scene_id nodes source_hash config_hash source_index config_index index =
     sbind (on_store (ReadManifest (te_lib env) (ar_artifact_id index))) (\<lambda>manifest.
     if \<not> manifest_matches o1 source_hash config_hash manifest
     then sthrow (Invalid ''existing trajectory provenance is inconsistent'')
     else sbind (on_store (Get (ar_content_hash index))) (\<lambda>bytes. case bytes of
       None \<Rightarrow> sthrow (Invalid ''existing trajectory CAS payload is missing'')
     | Some b \<Rightarrow>
         let document = text_of b in
         (case document_id env document (NodesJson nodes) of
            None \<Rightarrow> sthrow (Invalid ''existing trajectory payload is inconsistent'')
          | Some text \<Rightarrow>
              sbind (lift_res (ParseUuid text)) (\<lambda>trajectory_id.
              sbind (on_scene (FindTrajectoriesBySession (to_session_id o1))) (\<lambda>rows.
                case (find (\<lambda>r. tj_trajectory_id r = trajectory_id) rows, source_index, config_index) of
                  (Some row, Some source_row, Some config_row) \<Rightarrow>
                    if \<not> row_matches o1 scene_id (length nodes) document row
                    then sthrow (Invalid ''existing trajectory database record is inconsistent'')
                    else sret \<lparr>tir_trajectory_id = trajectory_id, tir_artifact_id = ar_artifact_id index,
                      tir_source_artifact_id = ar_artifact_id source_row, tir_configuration_artifact_id = ar_artifact_id config_row,
                      tir_scene_id = scene_id, tir_content_hash = ar_content_hash index, tir_source_content_hash = source_hash,
                      tir_configuration_hash = config_hash, tir_node_count = tj_node_count row,
                      tir_total_distance_m = tj_total_distance_m row, tir_reused = True\<rparr>
                | _ \<Rightarrow> sthrow (Invalid ''existing trajectory database record is inconsistent''))))))"

text \<open>The first trajectory artifact with the configuration's hash decides.\<close>

definition find_existing :: "tum_env \<Rightarrow> TrajectoryImportOptions \<Rightarrow> uuid \<Rightarrow> TrajectoryPoseNode list \<Rightarrow> string \<Rightarrow> string \<Rightarrow>
    ArtifactIndexRow option \<Rightarrow> ArtifactIndexRow option \<Rightarrow> TrajectoryImportResult option import_op" where
  "find_existing env o1 scene_id nodes source_hash config_hash source_index config_index =
     sbind (on_store (on_db (FindArtifactsByType ''trajectory''))) (\<lambda>indices.
       case filter (\<lambda>index. ar_config_hash index = config_hash) indices of
         [] \<Rightarrow> sret None
       | index # _ \<Rightarrow> sbind (reuse_index env o1 scene_id nodes source_hash config_hash source_index config_index index) (\<lambda>r. sret (Some r)))"

section \<open>Publication\<close>

text \<open>
  The scope of a \<open>WriteTransaction\<close> over both groups of tables: where the scene tables are rolled back, so is
  the index. \<open>index_of\<close> is what BEGIN saves of it.
\<close>

type_synonym saved_index = "ArtifactIndexRow list \<times> (string \<times> string \<times> string) list"

definition index_of :: "import_state \<Rightarrow> saved_index" where
  "index_of s = (db_artifacts (w_db (im_world s)), db_artifact_deps (w_db (im_world s)))"

definition restore_index :: "saved_index \<Rightarrow> world \<Rightarrow> world" where
  "restore_index idx w = w\<lparr>w_db := (w_db w)\<lparr>db_artifacts := fst idx, db_artifact_deps := snd idx\<rparr>\<rparr>"

definition end_transaction :: "saved_index \<Rightarrow> bool \<Rightarrow> import_state \<Rightarrow> import_state" where
  "end_transaction idx finished s =
     (let d = WriteTransaction_end finished (im_scene s) in
      s\<lparr>im_scene := d, im_world := (if \<not> finished \<and> tx_saved d = None then restore_index idx (im_world s) else im_world s)\<rparr>)"

definition with_import_transaction :: "'a import_op \<Rightarrow> 'a import_op" where
  "with_import_transaction body =
     sbind (on_scene WriteTransaction_begin) (\<lambda>finished s.
       case sbind body (\<lambda>x. sbind (on_scene (WriteTransaction_Commit finished)) (\<lambda>b. sret (x, b))) s of
         (Inl e, s') \<Rightarrow> (Inl e, end_transaction (index_of s) finished s')
       | (Inr (x, b), s') \<Rightarrow> (Inr x, end_transaction (index_of s) b s'))"

definition trajectory_row :: "TrajectoryImportOptions \<Rightarrow> uuid \<Rightarrow> uuid \<Rightarrow> TrajectoryPoseNode list \<Rightarrow> u64 \<Rightarrow> int \<Rightarrow> string \<Rightarrow> TrajectoryRow" where
  "trajectory_row o1 trajectory_id scene_id nodes distance now document =
     \<lparr>tj_trajectory_id = trajectory_id, tj_scene_id = scene_id, tj_session_id = to_session_id o1, tj_kind = ''slam'',
      tj_coordinate_frame = to_coordinate_frame o1, tj_status = ''building'', tj_node_count = int (length nodes),
      tj_total_distance_m = distance,
      tj_total_duration_ns = tn_timestamp_ns (last nodes) - tn_timestamp_ns (hd nodes),
      tj_created_at_ns = now, tj_document_json = document\<rparr>"

text \<open>What runs inside the transaction; the row has the ids and the scene of the import.\<close>

definition publication :: "tum_env \<Rightarrow> TrajectoryRow \<Rightarrow> u64 \<Rightarrow> byte list \<Rightarrow> ArtifactManifest \<Rightarrow> byte list \<Rightarrow> ArtifactManifest \<Rightarrow>
    byte list \<Rightarrow> ArtifactManifest \<Rightarrow> TrajectoryImportResult import_op" where
  "publication env row distance source raw_manifest config config_manifest payload trajectory_manifest =
     sbind (on_store (Put (te_lib env) source raw_manifest)) (\<lambda>raw.
     sbind (on_store (Put (te_lib env) config config_manifest)) (\<lambda>stored_config.
     sbind (on_store (Put (te_lib env) payload trajectory_manifest)) (\<lambda>stored.
     sbind (on_scene (AddTrajectory row)) (\<lambda>_.
       sret \<lparr>tir_trajectory_id = tj_trajectory_id row, tir_artifact_id = wr_artifact_uuid stored,
         tir_source_artifact_id = wr_artifact_uuid raw, tir_configuration_artifact_id = wr_artifact_uuid stored_config,
         tir_scene_id = tj_scene_id row, tir_content_hash = wr_content_hash stored, tir_source_content_hash = wr_content_hash raw,
         tir_configuration_hash = wr_content_hash stored_config, tir_node_count = tj_node_count row,
         tir_total_distance_m = distance, tir_reused = False\<rparr>))))"

definition publish :: "tum_env \<Rightarrow> TrajectoryImportOptions \<Rightarrow> uuid \<Rightarrow> TrajectoryPoseNode list \<Rightarrow> u64 \<Rightarrow> byte list \<Rightarrow> string \<Rightarrow>
    string \<Rightarrow> string \<Rightarrow> TrajectoryImportResult import_op" where
  "publish env o1 scene_id nodes distance source source_hash config_text config_hash =
     sbind (on_store new_uuid) (\<lambda>trajectory_id.
     sbind (lift_res (jl_dump (te_lib env) (trajectory_doc trajectory_id (NodesJson nodes)))) (\<lambda>serialized.
     sbind (on_store TimestampNsNow) (\<lambda>now.
     let row = trajectory_row o1 trajectory_id scene_id nodes distance now serialized in
     sbind (on_store (MakeTrajectoryManifest env ''trajectory_source'')) (\<lambda>m1.
     sbind (on_store (MakeTrajectoryManifest env ''trajectory_import_configuration'')) (\<lambda>m2.
     sbind (on_store (MakeTrajectoryManifest env ''trajectory'')) (\<lambda>m3.
     let raw_manifest = m1\<lparr>am_unit := ''none'', am_mime_type := ''text/plain''\<rparr>;
         config_manifest = m2\<lparr>am_unit := ''none'', am_mime_type := ''application/json'', am_input_artifact_hashes := [source_hash]\<rparr>;
         trajectory_manifest = m3\<lparr>am_coordinate_frame := to_coordinate_frame o1, am_unit := ''meters'',
           am_mime_type := ''application/json'', am_configuration_hash := config_hash,
           am_input_artifact_hashes := [source_hash, config_hash]\<rparr> in
     with_import_transaction (publication env row distance source raw_manifest (bytes_of config_text) config_manifest
       (bytes_of serialized) trajectory_manifest)))))))"

section \<open>The import\<close>

text \<open>Everything up to the publication: the poses with their frames, the scene and the path's length.\<close>

definition read_poses :: "tum_env \<Rightarrow> uuid \<Rightarrow> byte list \<Rightarrow> TrajectoryImportOptions \<Rightarrow> (uuid \<times> TrajectoryPoseNode list \<times> u64) scene_op" where
  "read_poses env project_id source o1 =
     sbind (lift_res (check_options o1)) (\<lambda>_.
     sbind (check_context project_id o1) (\<lambda>scene.
     sbind (lift_res (ParseTum (te_fp env) source)) (\<lambda>parsed.
     sbind (SQ_FramesBySession (to_session_id o1)) (\<lambda>frames.
     sbind (lift_res (traverse_res (place_node (frames_at (to_sensor_id o1) (dsc_scene_id scene) frames)) parsed)) (\<lambda>nodes.
     sbind (lift_res (TotalDistance (te_fp env) nodes)) (\<lambda>distance.
       sret (dsc_scene_id scene, nodes, distance)))))))"

definition ImportTumCameraTrajectory :: "tum_env \<Rightarrow> uuid \<Rightarrow> byte list \<Rightarrow> TrajectoryImportOptions \<Rightarrow> TrajectoryImportResult import_op" where
  "ImportTumCameraTrajectory env project_id source o1 =
     sbind (on_scene (read_poses env project_id source o1)) (\<lambda>(scene_id, nodes, distance).
     let source_hash = Sha256Hex source in
     sbind (lift_res (jl_dump (te_lib env) (config_doc env project_id scene_id o1 source_hash nodes))) (\<lambda>config_text.
     let config_hash = Sha256Hex (bytes_of config_text) in
     sbind (check_payload source_hash source ''existing source CAS payload is missing or corrupt'') (\<lambda>source_index.
     sbind (check_payload config_hash (bytes_of config_text) ''existing configuration CAS payload is missing or corrupt'') (\<lambda>config_index.
     sbind (find_existing env o1 scene_id nodes source_hash config_hash source_index config_index) (\<lambda>existing.
       case existing of
         Some result \<Rightarrow> sret result
       | None \<Rightarrow> publish env o1 scene_id nodes distance source source_hash config_text config_hash)))))"

section \<open>What the steps leave alone\<close>

text \<open>Before the transaction, nothing changes: neither the store nor the tables.\<close>

definition quiet :: "world \<Rightarrow> world \<Rightarrow> bool" where
  "quiet w0 w \<longleftrightarrow> w_payloads w = w_payloads w0 \<and> w_manifests w = w_manifests w0 \<and> w_quarantine w = w_quarantine w0 \<and>
     db_artifacts (w_db w) = db_artifacts (w_db w0) \<and> db_artifact_deps (w_db w) = db_artifact_deps (w_db w0)"

definition unchanged :: "import_state \<Rightarrow> import_state \<Rightarrow> bool" where
  "unchanged s0 s \<longleftrightarrow> quiet (im_world s0) (im_world s) \<and> tables s = tables s0 \<and> same_mode (im_scene s0) (im_scene s)"

lemma quiet_refl [simp]: "quiet w w"
  by (simp add: quiet_def)

lemma unchanged_refl [simp]: "unchanged s s"
  by (simp add: unchanged_def)

lemma quiet_step [simp]: "quiet w0 (w_step w) = quiet w0 w"
  by (simp add: quiet_def)

lemma quiet_ok: "quiet w0 w \<Longrightarrow> store_ok w0 \<Longrightarrow> store_ok w"
  by (simp add: quiet_def store_ok_def payload_of_def)

lemma quiet_payload: "quiet w0 w \<Longrightarrow> payload_of h w = payload_of h w0"
  by (simp add: quiet_def payload_of_def)

lemma index_queries:
  "db_artifacts (snd (FindArtifactByHash h d)) = db_artifacts d" "db_artifact_deps (snd (FindArtifactByHash h d)) = db_artifact_deps d"
  "db_artifacts (snd (FindArtifactsByType ty d)) = db_artifacts d" "db_artifact_deps (snd (FindArtifactsByType ty d)) = db_artifact_deps d"
proof -
  have "db_artifacts (snd (fetch_rows rs d)) = db_artifacts d \<and> db_artifact_deps (snd (fetch_rows rs d)) = db_artifact_deps d"
    for rs :: "ArtifactIndexRow list" and d :: db
  proof (induction rs arbitrary: d)
    case (Cons r rs)
    from Cons [of "sql_tick d"] show ?case by (auto split: prod.splits sum.splits)
  qed simp
  then show "db_artifacts (snd (FindArtifactsByType ty d)) = db_artifacts d" "db_artifact_deps (snd (FindArtifactsByType ty d)) = db_artifact_deps d"
    by (simp_all add: FindArtifactsByType_def sbind_def sql_call_def)
qed (simp_all add: FindArtifactByHash_def sbind_def sql_call_def sql_first_def)

lemma keeps_quiet_query [keeps_intros]:
  "keeps (quiet w0) (on_db (FindArtifactByHash h))" "keeps (quiet w0) (on_db (FindArtifactsByType ty))"
  using index_queries by (auto simp: keeps_def on_db_def quiet_def split: prod.split) (metis snd_conv)+

lemma keeps_quiet_env [keeps_intros]: "keeps (quiet w0) Iso8601UtcNow"
  by (simp add: keeps_def Iso8601UtcNow_def)

lemma keeps_pure [keeps_intros]: "keeps P (sret x)" "keeps P (sthrow e)" "keeps P (lift_res r)"
  by (simp_all add: keeps_def sret_def sthrow_def lift_res_def)

lemma keeps_quiet_Get [keeps_intros]: "store_ok w0 \<Longrightarrow> keeps (quiet w0) (Get h)"
  unfolding keeps_def
proof (intro allI impI)
  fix w assume ok: "store_ok w0" and q: "quiet w0 w"
  show "quiet w0 (snd (Get h w))"
  proof (cases "payload_of h w")
    case (Some b)
    with store_ok_hash [OF quiet_ok [OF q ok]] have "Sha256Hex b = h" by blast
    with Some q show ?thesis by (simp add: Get_def snd_sbind io_call_def lift_w_def)
  qed (use q in \<open>simp add: Get_def\<close>)
qed

lemma keeps_quiet_ReadManifest [keeps_intros]: "keeps (quiet w0) (ReadManifest lib a)"
  by (auto simp: keeps_def ReadManifest_def snd_sbind io_call_def lift_w_def split: option.split sum.split)

lemma keeps_on_store [keeps_intros]: "keeps (quiet (im_world s0)) f \<Longrightarrow> keeps (unchanged s0) (on_store f)"
proof -
  assume f: "keeps (quiet (im_world s0)) f"
  have "unchanged s0 (snd (on_store f s))" if "unchanged s0 s" for s
  proof -
    obtain r w where w: "f (im_world s) = (r, w)" by fastforce
    from keepsD [OF f, of "im_world s"] that w have "quiet (im_world s0) w" by (simp add: unchanged_def)
    with that w show ?thesis by (simp add: on_store_def unchanged_def)
  qed
  then show ?thesis by (simp add: keeps_def)
qed

text \<open>Queries of the scene.\<close>

definition reads_only :: "'a scene_op \<Rightarrow> bool" where
  "reads_only q \<longleftrightarrow> (\<forall>d. keeps (\<lambda>d'. same_mode d d' \<and> tx_tables d' = tx_tables d) q)"

lemma reads_only_sbind [keeps_intros]: "reads_only m \<Longrightarrow> (\<And>x. reads_only (f x)) \<Longrightarrow> reads_only (sbind m f)"
  unfolding reads_only_def by (intro allI keeps_sbind) auto

lemma reads_only_pure [keeps_intros]: "reads_only (sret x)" "reads_only (sthrow e)" "reads_only (lift_res r)"
  by (simp_all add: reads_only_def keeps_pure)

lemma reads_only_query [keeps_intros]: "reads_only (query_one p f)" "reads_only (query_rows p g)"
proof -
  have "same_mode d (snd (query_one p f d)) \<and> tx_tables (snd (query_one p f d)) = tx_tables d" for d
    by (cases "query_one p f d"; cases "fst (query_one p f d)") (auto dest: query_one_Inr query_one_Inl)
  moreover have "same_mode d (snd (query_rows p g d)) \<and> tx_tables (snd (query_rows p g d)) = tx_tables d" for d
    by (cases "query_rows p g d"; cases "fst (query_rows p g d)") (auto dest: query_rows_Inl elim: query_rows_take)
  ultimately show "reads_only (query_one p f)" "reads_only (query_rows p g)"
    unfolding reads_only_def keeps_def by (metis same_mode_trans)+
qed

lemma keeps_on_scene [keeps_intros]: "reads_only q \<Longrightarrow> keeps (unchanged s0) (on_scene q)"
proof -
  assume q: "reads_only q"
  have "unchanged s0 (snd (on_scene q s))" if "unchanged s0 s" for s
  proof -
    obtain r d where d: "q (im_scene s) = (r, d)" by fastforce
    from keepsD [OF q [unfolded reads_only_def, rule_format, of "im_scene s"], of "im_scene s"] d
    have "same_mode (im_scene s) d" "tx_tables d = tables s" by simp_all
    with that d show ?thesis by (auto simp: on_scene_def unchanged_def intro: same_mode_trans)
  qed
  then show ?thesis by (simp add: keeps_def)
qed

lemma import_keeps_branch:
  "keeps P m \<Longrightarrow> keeps P n \<Longrightarrow> keeps P (if b then m else n)" "reads_only q \<Longrightarrow> reads_only q' \<Longrightarrow> reads_only (if b then q else q')"
  "keeps P m \<Longrightarrow> (\<And>x. keeps P (g x)) \<Longrightarrow> keeps P (case r of None \<Rightarrow> m | Some x \<Rightarrow> g x)"
  "reads_only q \<Longrightarrow> (\<And>x. reads_only (h x)) \<Longrightarrow> reads_only (case u of None \<Rightarrow> q | Some x \<Rightarrow> h x)"
  by (simp_all split: option.split)

lemma reads_only_queries [keeps_intros]:
  "reads_only (SQ_FindCaptureSession i)" "reads_only (SQ_SessionScene i)" "reads_only (SQ_ResolveSensor i)"
  "reads_only (SQ_FramesBySession i)" "reads_only (FindTrajectoriesBySession i)"
  unfolding SQ_FindCaptureSession_def SQ_SessionScene_def SQ_FindSceneByProject_def SQ_ResolveSensor_def SQ_FramesBySession_def
    found_as_def rows_as_def FindCaptureSession_def FindSceneByProject_def FindSensor_def FindFramesBySession_def FindTrajectoriesBySession_def
  by (intro keeps_intros import_keeps_branch)+

lemma reads_only_read_poses [keeps_intros]: "reads_only (read_poses env project_id source o1)"
  unfolding read_poses_def check_context_def by (intro keeps_intros import_keeps_branch)

lemma keeps_check_payload [keeps_intros]:
  assumes "store_ok (im_world s0)"
  shows "keeps (unchanged s0) (check_payload h b m)"
proof -
  have step: "keeps (unchanged s0) (\<lambda>s. if p (im_world s) then f s else (Inr x, s))"
    if "keeps (unchanged s0) f" for p f and x :: "ArtifactIndexRow option"
    using that by (auto simp: keeps_def)
  show ?thesis unfolding check_payload_def
    by (intro keeps_sbind keeps_on_store keeps_quiet_query)
      (intro step keeps_intros import_keeps_branch assms)
qed

lemma keeps_find_existing [keeps_intros]:
  assumes "store_ok (im_world s0)"
  shows "keeps (unchanged s0) (find_existing env o1 sc ns sh ch si ci)"
proof -
  have "keeps (unchanged s0) (reuse_index env o1 sc ns sh ch si ci index)" for index
    unfolding reuse_index_def Let_def
    by (intro keeps_intros import_keeps_branch assms) (auto split: option.split intro!: keeps_intros import_keeps_branch)
  then show ?thesis unfolding find_existing_def
    by (intro keeps_sbind keeps_on_store keeps_quiet_query) (auto split: list.split intro!: keeps_intros)
qed

section \<open>The transaction\<close>

text \<open>Inside of it payload files are only added, and the store stays consistent.\<close>

definition grown :: "world \<Rightarrow> world \<Rightarrow> bool" where
  "grown w0 w \<longleftrightarrow> (\<forall>h b. payload_of h w0 = Some b \<longrightarrow> payload_of h w = Some b)"

definition in_scope :: "import_state \<Rightarrow> import_state \<Rightarrow> bool" where
  "in_scope s0 s \<longleftrightarrow> store_ok (im_world s) \<and> grown (im_world s0) (im_world s) \<and> same_mode (im_scene s0) (im_scene s)"

lemma keeps_grown_Put: "keeps (\<lambda>w. payload_of h w = Some b) (Put lib p m)"
proof -
  have w: "keeps (\<lambda>w. payload_of h w = Some b) (\<lambda>w. if payload_of k w = None then WritePayload k p w else (Inr (), w))" for k
    by (auto simp: keeps_def WritePayload_def CreateDirectories_def sbind_def io_call_def)
  show ?thesis unfolding Put_def Let_def
    by (intro keeps_sbind keeps_payload import_keeps_branch w keeps_payload_record keeps_lift)
qed

lemma keeps_in_scope [keeps_intros]:
  "keeps (in_scope s0) (on_store (Put lib p m))"
  "inside f \<Longrightarrow> keeps (in_scope s0) (on_scene f)"
proof -
  have "grown w0 (snd (Put lib p m w))" if "grown w0 w" for w0 w
    using that keepsD [OF keeps_grown_Put] by (fastforce simp: grown_def)
  moreover have "store_ok (snd (Put lib p m w))" if "store_ok w" for w using keepsD [OF keeps_Put that] .
  ultimately show "keeps (in_scope s0) (on_store (Put lib p m))"
    by (auto simp: keeps_def on_store_def in_scope_def split: prod.split) (metis snd_conv)+
  show "keeps (in_scope s0) (on_scene f)" if "inside f"
  proof -
    have "in_scope s0 (snd (on_scene f s))" if "in_scope s0 s" for s
    proof -
      obtain r d where d: "f (im_scene s) = (r, d)" by fastforce
      from insideD [OF \<open>inside f\<close> d] that d show ?thesis by (auto simp: on_scene_def in_scope_def intro: same_mode_trans)
    qed
    then show ?thesis by (simp add: keeps_def)
  qed
qed

lemma inside_AddTrajectory: "inside (AddTrajectory row)"
  using inside_statement [of _ _ "insert_trajectory row"] by (simp add: AddTrajectory_def inside_def write_op_def)

lemma restore_ok:
  assumes "store_ok (im_world s0)" "grown (im_world s0) w" "store_ok w"
  shows "store_ok (restore_index (index_of s0) w)"
  using assms by (auto simp: store_ok_def restore_index_def index_of_def grown_def payload_of_def) fastforce

lemma begin_cases:
  assumes "on_scene WriteTransaction_begin s = (r, s1)"
  obtains (refused) e where "r = Inl e" "im_world s1 = im_world s" "tx_saved (im_scene s1) = tx_saved (im_scene s)" "tables s1 = tables s"
  | (begun) "r = Inr False" "tx_saved (im_scene s) = None"
      "s1 = s\<lparr>im_scene := sql_tick ((im_scene s)\<lparr>tx_saved := Some (tables s)\<rparr>)\<rparr>"
proof -
  obtain d where d: "WriteTransaction_begin (im_scene s) = (r, d)" "s1 = s\<lparr>im_scene := d\<rparr>"
    using assms by (auto simp: on_scene_def split: prod.splits)
  show thesis
  proof (cases r)
    case (Inl e)
    with d refused show thesis
      by (auto simp: WriteTransaction_begin_def sbind_def sret_def split: if_splits sum.splits prod.splits dest!: exec_begin_Inl)
  next
    case (Inr b)
    with d begun show thesis
      by (auto simp: WriteTransaction_begin_def sbind_def sret_def exec_begin_Inr split: if_splits sum.splits prod.splits)
  qed
qed

lemma commit_cases:
  assumes "on_scene (WriteTransaction_Commit False) s = (r, s1)"
  obtains (failed) e where "r = Inl e" "s1 = s\<lparr>im_scene := sql_tick (im_scene s)\<rparr>"
  | (finished) "r = Inr True" "s1 = s\<lparr>im_scene := sql_tick ((im_scene s)\<lparr>tx_saved := None\<rparr>)\<rparr>"
proof -
  obtain d where d: "WriteTransaction_Commit False (im_scene s) = (r, d)" "s1 = s\<lparr>im_scene := d\<rparr>"
    using assms by (auto simp: on_scene_def split: prod.splits)
  then show thesis using that
    by (cases r) (auto simp: WriteTransaction_Commit_def sbind_def sret_def exec_commit_Inr split: sum.splits prod.splits dest!: exec_commit_Inl)
qed

lemma transaction_begun:
  "on_scene WriteTransaction_begin s = (Inr False, s1) \<Longrightarrow> with_import_transaction body s =
    (case sbind body (\<lambda>x. sbind (on_scene (WriteTransaction_Commit False)) (\<lambda>b. sret (x, b))) s1 of
       (Inl e, s') \<Rightarrow> (Inl e, end_transaction (index_of s1) False s')
     | (Inr (x, b), s') \<Rightarrow> (Inr x, end_transaction (index_of s1) b s'))"
  "on_scene WriteTransaction_begin s = (Inr False, s1) \<Longrightarrow> body s1 = (Inl e, s2) \<Longrightarrow>
    with_import_transaction body s = (Inl e, end_transaction (index_of s1) False s2)"
  "on_scene WriteTransaction_begin s = (Inr False, s1) \<Longrightarrow> body s1 = (Inr y, s2) \<Longrightarrow>
    on_scene (WriteTransaction_Commit False) s2 = (Inl e, s4) \<Longrightarrow>
    with_import_transaction body s = (Inl e, end_transaction (index_of s1) False s4)"
  "on_scene WriteTransaction_begin s = (Inr False, s1) \<Longrightarrow> body s1 = (Inr y, s2) \<Longrightarrow>
    on_scene (WriteTransaction_Commit False) s2 = (Inr True, s4) \<Longrightarrow> with_import_transaction body s = (Inr y, s4)"
  by (simp_all add: with_import_transaction_def sbind_def sret_def end_transaction_def WriteTransaction_end_def)

text \<open>A transaction that throws leaves the disk as it was, whichever call failed, the ROLLBACK included.\<close>

lemma import_transaction_throws:
  assumes body: "keeps (in_scope (s\<lparr>im_scene := sql_tick ((im_scene s)\<lparr>tx_saved := Some (tables s)\<rparr>)\<rparr>)) body"
    and ok: "store_ok (im_world s)" and closed: "tx_saved (im_scene s) = None"
    and run: "with_import_transaction body s = (Inl e, s')"
  shows "committed (im_scene s') = tables s \<and> grown (im_world s) (im_world s') \<and>
    (tx_saved (im_scene s') = None \<longrightarrow> index_of s' = index_of s \<and> store_ok (im_world s'))"
proof -
  obtain r s1 where b: "on_scene WriteTransaction_begin s = (r, s1)" by fastforce
  then show ?thesis
  proof (cases rule: begin_cases)
    case (refused e')
    with b run have "s' = s1" by (simp add: with_import_transaction_def sx_simps)
    with refused ok closed show ?thesis by (simp add: index_of_def grown_def)
  next
    case begun
    obtain rb s2 where m: "body s1 = (rb, s2)" by fastforce
    have "in_scope s1 s1" using ok by (simp add: in_scope_def grown_def begun)
    with keepsD [OF body] m begun(3) have s2: "in_scope s1 s2" by (metis snd_conv)
    have "\<exists>s3. s' = end_transaction (index_of s1) False s3 \<and> im_world s3 = im_world s2 \<and> tx_saved (im_scene s3) = Some (tables s)"
    proof (cases rb)
      case (Inl e1)
      with run transaction_begun(2) [where body = body, OF b [unfolded begun(1)] m [unfolded Inl]] have "s' = end_transaction (index_of s1) False s2" by simp
      moreover have "tx_saved (im_scene s2) = Some (tables s)" using s2 begun(3) by (simp add: in_scope_def same_mode_def)
      ultimately show ?thesis by blast
    next
      case (Inr y)
      obtain rc s4 where c: "on_scene (WriteTransaction_Commit False) s2 = (rc, s4)" by fastforce
      then show ?thesis
      proof (cases rule: commit_cases)
        case (failed e1)
        with run transaction_begun(3) [where body = body, OF b [unfolded begun(1)] m [unfolded Inr]] c
        have "s' = end_transaction (index_of s1) False s4" by simp
        moreover have "im_world s4 = im_world s2 \<and> tx_saved (im_scene s4) = Some (tables s)"
          using s2 begun(3) failed by (simp add: in_scope_def same_mode_def)
        ultimately show ?thesis by blast
      next
        case finished
        with run transaction_begun(4) [where body = body, OF b [unfolded begun(1)] m [unfolded Inr]] c show ?thesis by simp
      qed
    qed
    then obtain s3 where thrown: "s' = end_transaction (index_of s1) False s3"
      and s3: "im_world s3 = im_world s2 \<and> tx_saved (im_scene s3) = Some (tables s)" by blast
    have idx: "index_of s1 = index_of s" "im_world s1 = im_world s" using begun(3) by (simp_all add: index_of_def)
    from conjunct2 [OF s3] show ?thesis
    proof (cases rule: exec_rollback_cases [where w = "''rollback write transaction''"])
      case 1
      with thrown s3 s2 idx ok have "store_ok (im_world s')" "im_world s' = restore_index (index_of s) (im_world s2)"
        using restore_ok [of s "im_world s2"]
        by (auto simp: end_transaction_def WriteTransaction_end_def Let_def in_scope_def)
      moreover have "committed (im_scene s') = tables s" using 1 thrown by (simp add: end_transaction_def WriteTransaction_end_def Let_def)
      moreover have "grown (im_world s) (restore_index (index_of s) (im_world s2))"
        using s2 idx by (simp add: in_scope_def grown_def restore_index_def payload_of_def)
      ultimately show ?thesis by (simp add: index_of_def restore_index_def)
    next
      case 2
      with thrown s3 s2 idx show ?thesis
        by (simp add: end_transaction_def WriteTransaction_end_def Let_def in_scope_def grown_def)
    qed
  qed
qed

lemma import_transaction_returns:
  assumes run: "with_import_transaction body s = (Inr x, s')"
    and mode: "\<And>t1 r t2. body t1 = (r, t2) \<Longrightarrow> tx_saved (im_scene t2) = tx_saved (im_scene t1)"
  obtains s1 s2 where "im_world s1 = im_world s" "tables s1 = tables s" "body s1 = (Inr x, s2)"
    "im_world s' = im_world s2" "tables s' = tables s2" "tx_saved (im_scene s') = None"
    "db_fault (im_scene s1) = db_fault (im_scene s)"
proof -
  obtain r s1 where b: "on_scene WriteTransaction_begin s = (r, s1)" by fastforce
  then show thesis
  proof (cases rule: begin_cases)
    case (refused e')
    with b run show thesis by (simp add: with_import_transaction_def sx_simps)
  next
    case begun
    obtain rb s2 where m: "body s1 = (rb, s2)" by fastforce
    obtain y where y: "rb = Inr y" proof (cases rb)
      case (Inl e1)
      with run transaction_begun(2) [where body = body, OF b [unfolded begun(1)] m [unfolded Inl]] show thesis by simp
    qed
    obtain rc s4 where c: "on_scene (WriteTransaction_Commit False) s2 = (rc, s4)" by fastforce
    then show thesis
    proof (cases rule: commit_cases)
      case (failed e1)
      with run transaction_begun(3) [where body = body, OF b [unfolded begun(1)] m [unfolded y]] c show thesis by simp
    next
      case finished
      with run transaction_begun(4) [where body = body, OF b [unfolded begun(1)] m [unfolded y]] c have "y = x" "s' = s4" by simp_all
      with that [of s1 s2] begun(3) m y finished show thesis by simp
    qed
  qed
qed

section \<open>Imports that throw\<close>

text \<open>What an import that throws leaves: the disk as it was, with at most payload files that nothing refers to.\<close>

definition undone :: "import_state \<Rightarrow> import_state \<Rightarrow> bool" where
  "undone s0 s \<longleftrightarrow> committed (im_scene s) = tables s0 \<and> grown (im_world s0) (im_world s) \<and>
     (tx_saved (im_scene s) = None \<longrightarrow> index_of s = index_of s0 \<and> store_ok (im_world s))"

definition throws_undone :: "import_state \<Rightarrow> 'a import_op \<Rightarrow> bool" where
  "throws_undone s0 m \<longleftrightarrow> (\<forall>s e s'. unchanged s0 s \<longrightarrow> m s = (Inl e, s') \<longrightarrow> undone s0 s')"

named_theorems undone_intros

lemma unchanged_undone:
  "store_ok (im_world s0) \<Longrightarrow> tx_saved (im_scene s0) = None \<Longrightarrow> unchanged s0 s \<Longrightarrow> undone s0 s"
  using quiet_ok quiet_payload by (auto simp: undone_def unchanged_def same_mode_def grown_def) (auto simp: quiet_def index_of_def)

lemma throws_undone_sbind [undone_intros]:
  assumes "keeps (unchanged s0) m" "\<And>x. throws_undone s0 (f x)" "store_ok (im_world s0)" "tx_saved (im_scene s0) = None"
  shows "throws_undone s0 (sbind m f)"
  unfolding throws_undone_def
proof (intro allI impI)
  fix s e s' assume s: "unchanged s0 s" and run: "sbind m f s = (Inl e, s')"
  obtain r s1 where m: "m s = (r, s1)" by fastforce
  with keepsD [OF assms(1) s] have s1: "unchanged s0 s1" by simp
  show "undone s0 s'"
  proof (cases r)
    case (Inl e1)
    with run m have "s' = s1" by (simp add: sbind_def)
    with s1 assms(3,4) unchanged_undone show ?thesis by blast
  next
    case (Inr x)
    with run m have "f x s1 = (Inl e, s')" by (simp add: sbind_def)
    with assms(2) [of x] s1 show ?thesis unfolding throws_undone_def by blast
  qed
qed

lemma throws_undone_sret [undone_intros]: "throws_undone s0 (sret x)"
  by (simp add: throws_undone_def sret_def)

lemma throws_undone_transaction [undone_intros]:
  assumes "\<And>s1. keeps (in_scope s1) body" "store_ok (im_world s0)" "tx_saved (im_scene s0) = None"
  shows "throws_undone s0 (with_import_transaction body)"
  unfolding throws_undone_def
proof (intro allI impI)
  fix s e s' assume s: "unchanged s0 s" and run: "with_import_transaction body s = (Inl e, s')"
  have before: "store_ok (im_world s)" "tx_saved (im_scene s) = None" "tables s = tables s0" "index_of s = index_of s0"
    using s assms(2,3) quiet_ok [of "im_world s0" "im_world s"]
    by (simp_all add: unchanged_def same_mode_def) (simp add: quiet_def index_of_def)
  have "payload_of h (im_world s) = payload_of h (im_world s0)" for h using s quiet_payload by (simp add: unchanged_def)
  with import_transaction_throws [OF assms(1) before(1,2) run] before(3,4) show "undone s0 s'"
    by (simp add: undone_def grown_def)
qed

lemma keeps_manifest [keeps_intros]: "keeps (quiet w0) (MakeTrajectoryManifest env kind)"
  unfolding MakeTrajectoryManifest_def by (intro keeps_intros) auto

text \<open>C21:
  An import of a trajectory that throws, wherever and whatever failed, has published nothing: the scene tables on disk are
  those of before, so is the artifact index once the transaction is closed, no payload is lost and the store is
  consistent. Only a ROLLBACK that fails leaves a transaction open, which is not on disk either.\<close>

theorem failed_import_publishes_nothing:
  assumes "store_ok (im_world s)" "tx_saved (im_scene s) = None"
    "ImportTumCameraTrajectory env project_id source opts s = (Inl e, s')"
  shows "committed (im_scene s') = tables s \<and>
    (\<forall>h b. payload_of h (im_world s) = Some b \<longrightarrow> payload_of h (im_world s') = Some b) \<and>
    (tx_saved (im_scene s') = None \<longrightarrow> index_of s' = index_of s \<and> store_ok (im_world s'))"
proof -
  have env: "keeps (unchanged s) (on_store new_uuid)" "keeps (unchanged s) (on_store TimestampNsNow)"
    by (intro keeps_intros; simp)+
  have "throws_undone s (ImportTumCameraTrajectory env project_id source opts)"
    unfolding ImportTumCameraTrajectory_def publish_def publication_def Let_def
    by (auto simp del: on_store_def split: prod.split option.split
        intro!: undone_intros keeps_intros env assms inside_AddTrajectory)
  with assms(3) have "undone s s'" unfolding throws_undone_def using unchanged_refl by blast
  then show ?thesis by (simp add: undone_def grown_def)
qed

section \<open>Imports that publish\<close>

text \<open>A pose with the one frame of the session, sensor and scene at its time.\<close>

definition matched :: "scene_tables \<Rightarrow> TrajectoryImportOptions \<Rightarrow> uuid \<Rightarrow> TrajectoryPoseNode \<Rightarrow> TrajectoryPoseNode \<Rightarrow> bool" where
  "matched t o1 scene_id parsed node \<longleftrightarrow> (\<exists>f.
     filter (\<lambda>r. fr_session_id r = to_session_id o1 \<and> fr_sensor_id r = to_sensor_id o1 \<and> fr_scene_id r = scene_id \<and>
       fr_timestamp_ns r = tn_timestamp_ns parsed) (st_frames t) = [f] \<and>
     node = parsed\<lparr>tn_frame_id := FormatUuid (fr_frame_id f)\<rparr>)"

lemma place_node_Inr: "place_node frames p = Inr n \<Longrightarrow> \<exists>f. frames (tn_timestamp_ns p) = [f] \<and> n = p\<lparr>tn_frame_id := FormatUuid f\<rparr>"
  by (auto simp: place_node_def split: list.split_asm)

lemma traverse_all2: "traverse_res f xs = Inr ys \<Longrightarrow> list_all2 (\<lambda>x y. f x = Inr y) xs ys"
  by (induction xs arbitrary: ys) (auto simp: rbind_Inr)

lemma frames_at_select:
  assumes "\<not> IsNil (to_session_id o1)"
  shows "\<exists>rows. frames_at sensor scene (map ToDomain_frame (select_frames (\<lambda>r. BindUuidOrNull (fr_session_id r) = Some (to_session_id o1)) t)) ts =
      map fr_frame_id rows \<and> mset rows = mset (filter (\<lambda>r. fr_session_id r = to_session_id o1 \<and> fr_sensor_id r = sensor \<and>
        fr_scene_id r = scene \<and> fr_timestamp_ns r = ts) (st_frames t))"
proof -
  let ?P = "\<lambda>r. fr_sensor_id r = sensor \<and> fr_scene_id r = scene \<and> fr_timestamp_ns r = ts"
  have "BindUuidOrNull u = Some (to_session_id o1) \<longleftrightarrow> u = to_session_id o1" for u
    using assms by (auto simp: BindUuidOrNull_def)
  then have "frames_at sensor scene (map ToDomain_frame (select_frames (\<lambda>r. BindUuidOrNull (fr_session_id r) = Some (to_session_id o1)) t)) ts =
      map fr_frame_id (filter ?P (select_frames (\<lambda>r. fr_session_id r = to_session_id o1) t))"
    by (simp add: frames_at_def filter_map comp_def ToDomain_frame_def)
  moreover have "mset (filter ?P (select_frames (\<lambda>r. fr_session_id r = to_session_id o1) t)) =
      mset (filter (\<lambda>r. fr_session_id r = to_session_id o1 \<and> ?P r) (st_frames t))"
    by (simp add: select_frames_def filter_sort conj_ac)
  ultimately show ?thesis by blast
qed

lemma SQ_FramesBySession_healthy:
  assumes "SQ_FramesBySession session d = (Inr frames, d')" "\<And>k. \<not> db_fault d k"
  shows "frames = map ToDomain_frame (select_frames (\<lambda>r. BindUuidOrNull (fr_session_id r) = Some session) (tx_tables d))"
proof -
  from assms(1) obtain rows where rows: "FindFramesBySession session d = (Inr rows, d')" "frames = map ToDomain_frame rows"
    by (auto simp: SQ_FramesBySession_def rows_as_def sret_def dest!: sbind_InrD)
  from query_rows_take [OF rows(1) [unfolded FindFramesBySession_def]] assms(2) rows(2) show ?thesis by metis
qed

lemma reads_only_step:
  assumes "reads_only q" "q d = (r, d')" shows "tx_tables d' = tx_tables d \<and> db_fault d' = db_fault d"
  using keepsD [OF assms(1) [unfolded reads_only_def, rule_format, of d], of d] assms(2) by (simp add: same_mode_def)

lemma read_poses_Inr:
  assumes "read_poses env project_id source o1 d = (Inr (scene, nodes, len), d')" "\<And>k. \<not> db_fault d k"
  shows "\<exists>parsed. ParseTum (te_fp env) source = Inr parsed \<and> list_all2 (matched (tx_tables d) o1 scene) parsed nodes \<and>
    TotalDistance (te_fp env) nodes = Inr len"
proof -
  from assms(1) obtain sc parsed frames d1 d2 where o1: "check_options o1 = Inr ()"
    and ctx: "check_context project_id o1 d = (Inr sc, d1)" and parsed: "ParseTum (te_fp env) source = Inr parsed"
    and fr: "SQ_FramesBySession (to_session_id o1) d1 = (Inr frames, d2)"
    and nodes: "traverse_res (place_node (frames_at (to_sensor_id o1) (dsc_scene_id sc) frames)) parsed = Inr nodes"
    and len: "TotalDistance (te_fp env) nodes = Inr len" and scene: "scene = dsc_scene_id sc"
    by (auto simp: read_poses_def lift_res_def sret_def dest!: sbind_InrD)
  have "reads_only (check_context project_id o1)" unfolding check_context_def by (intro keeps_intros import_keeps_branch)
  from reads_only_step [OF this ctx] assms(2) have d1: "tx_tables d1 = tx_tables d" "\<And>k. \<not> db_fault d1 k" by simp_all
  from o1 have session: "\<not> IsNil (to_session_id o1)" by (auto simp: check_options_def split: if_split_asm)
  have "matched (tx_tables d) o1 scene p n" if "place_node (frames_at (to_sensor_id o1) (dsc_scene_id sc) frames) p = Inr n" for p n
  proof -
    from place_node_Inr [OF that] obtain f where f: "frames_at (to_sensor_id o1) scene frames (tn_timestamp_ns p) = [f]"
      "n = p\<lparr>tn_frame_id := FormatUuid f\<rparr>" using scene by blast
    let ?F = "filter (\<lambda>r. fr_session_id r = to_session_id o1 \<and> fr_sensor_id r = to_sensor_id o1 \<and> fr_scene_id r = scene \<and>
        fr_timestamp_ns r = tn_timestamp_ns p) (st_frames (tx_tables d))"
    from frames_at_select [OF session, of "to_sensor_id o1" scene "tx_tables d" "tn_timestamp_ns p"]
    obtain rows where rows: "frames_at (to_sensor_id o1) scene (map ToDomain_frame (select_frames (\<lambda>r. BindUuidOrNull (fr_session_id r) =
        Some (to_session_id o1)) (tx_tables d))) (tn_timestamp_ns p) = map fr_frame_id rows" "mset rows = mset ?F" by (elim exE conjE)
    from f(1) have "map fr_frame_id rows = [f]" unfolding SQ_FramesBySession_healthy [OF fr d1(2)] d1(1) rows(1) .
    then obtain row where row: "rows = [row]" "f = fr_frame_id row" by auto
    from rows(2) have "mset ?F = {#row#}" unfolding row(1) mset.simps by (rule sym)
    then have "?F = [row]" unfolding mset_single_iff .
    with f(2) row(2) show ?thesis unfolding matched_def by blast
  qed
  with traverse_all2 [OF nodes] have "list_all2 (matched (tx_tables d) o1 scene) parsed nodes" by (rule list_all2_mono) blast
  with parsed len show ?thesis by blast
qed

lemma Put_index:
  assumes "Put lib b m w = (Inr r, w')"
  shows "db_artifacts (w_db w') = db_artifacts (w_db w) \<or> (\<exists>row. ar_artifact_id row = wr_artifact_uuid r \<and>
    ar_content_hash row = Sha256Hex b \<and> db_artifacts (w_db w') = replace_artifact row (db_artifacts (w_db w)))"
proof -
  let ?h = "Sha256Hex b"
  from assms(1) obtain found u where f: "on_db (FindArtifactByHash ?h) w = (Inr found, u)"
    and rest: "(case found of Some row \<Rightarrow> lift_w (Inr \<lparr>wr_content_hash = ?h, wr_artifact_uuid = ar_artifact_id row, wr_deduplicated = True\<rparr>)
        | None \<Rightarrow> sbind (\<lambda>w. if payload_of ?h w = None then WritePayload ?h b w else (Inr (), w)) (\<lambda>_.
            sbind (record_instance lib (m\<lparr>am_content_hash := ?h, am_file_size := int (length b)\<rparr>)) (\<lambda>auid.
              lift_w (Inr \<lparr>wr_content_hash = ?h, wr_artifact_uuid = auid, wr_deduplicated = False\<rparr>)))) u = (Inr r, w')"
    by (auto simp: Put_def Let_def dest!: sbind_InrD)
  from f Find_same(1) [of ?h w] have u: "db_artifacts (w_db u) = db_artifacts (w_db w)" by simp
  show ?thesis
  proof (cases found)
    case (Some row)
    with rest u show ?thesis by (auto simp: lift_w_def)
  next
    case None
    with rest obtain v auid where v: "(if payload_of ?h u = None then WritePayload ?h b u else (Inr (), u)) = (Inr (), v)"
      and rec: "record_instance lib (m\<lparr>am_content_hash := ?h, am_file_size := int (length b)\<rparr>) v = (Inr auid, w')"
      and r: "wr_artifact_uuid r = auid"
      by (auto simp: lift_w_def dest!: sbind_InrD)
    have "db_artifacts (w_db v) = db_artifacts (w_db u)" using v WritePayload_Inr by (auto split: if_split_asm)
    with record_instance_index [OF rec] u r show ?thesis by auto
  qed
qed

lemma Put_stored_as:
  assumes "Put lib b m w = (Inr r, w')" "store_ok w"
  shows "wr_content_hash r = Sha256Hex b \<and> stored_as (Sha256Hex b) (wr_artifact_uuid r) w' \<and> store_ok w' \<and> grown w w' \<and>
    (payload_of (Sha256Hex b) w \<in> {None, Some b} \<longrightarrow> payload_of (Sha256Hex b) w' = Some b)"
proof -
  from keepsD [OF keeps_Put assms(2)] assms(1) have "store_ok w'" by (metis snd_conv)
  moreover have "grown w w'" unfolding grown_def
  proof (intro allI impI)
    fix h c assume "payload_of h w = Some c"
    from keepsD [OF keeps_grown_Put this, of lib b m] assms(1) show "payload_of h w' = Some c" by simp
  qed
  ultimately show ?thesis using Put_result [OF assms(2,1)] by (auto simp: stored_as_def grown_def)
qed

lemma Put_keeps_stored:
  assumes "Put lib b m w = (Inr r, w')" "store_ok w" "stored_as h a w" "a \<noteq> wr_artifact_uuid r" "h \<noteq> Sha256Hex b"
  shows "stored_as h a w'"
proof -
  note P = Put_stored_as [OF assms(1,2)]
  from assms(3) P have "\<exists>b. payload_of h w' = Some b \<and> Sha256Hex b = h" by (auto simp: stored_as_def grown_def)
  moreover have "artifact_index_ok (db_artifacts (w_db w))" using assms(2) by (simp add: store_ok_def)
  with Put_index [OF assms(1)] assms(3-5)
  have "\<exists>row. tbl_get ar_content_hash h (db_artifacts (w_db w')) = Some row \<and> ar_artifact_id row = a"
    by (auto simp: stored_as_def replace_artifact_get)
  ultimately show ?thesis by (simp add: stored_as_def)
qed

text \<open>What the rows of a call are: the step of \<open>keeps\<close> for a call that returned.\<close>

lemma keeps_returned: "keeps (unchanged s0) m \<Longrightarrow> unchanged s0 s \<Longrightarrow> m s = (r, t) \<Longrightarrow> unchanged s0 t"
  using keepsD [of "unchanged s0" m s] by simp

lemma AddTrajectory_Inr:
  "AddTrajectory row d = (Inr u, d') \<Longrightarrow> insert_trajectory row (tx_tables d) = Some (tx_tables d')"
  unfolding AddTrajectory_def using write_statement_Inr by blast

lemma insert_trajectory_Some:
  "insert_trajectory row t = Some t' \<Longrightarrow>
    t' = t\<lparr>st_trajectories := st_trajectories t @ [row\<lparr>tj_total_distance_m := store_double (tj_total_distance_m row)\<rparr>]\<rparr>"
  by (auto simp: insert_trajectory_def dest!: tbl_insert_Some)

lemma check_payload_Inr:
  assumes "check_payload h b m s = (Inr index, s')" "store_ok (im_world s)"
  shows "payload_of h (im_world s) \<in> {None, Some b}"
proof (cases "payload_of h (im_world s)")
  case (Some c)
  from sbind_InrD [OF assms(1) [unfolded check_payload_def]]
  obtain found s1 where f: "on_store (on_db (FindArtifactByHash h)) s = (Inr found, s1)"
    and rest: "(if found \<noteq> None \<or> Has h (im_world s1) then sbind (on_store (Get h)) (\<lambda>existing.
        if existing \<noteq> Some b then sthrow (Invalid m) else sret found) s1 else (Inr found, s1)) = (Inr index, s')"
    by blast
  have "im_world s1 = snd (on_db (FindArtifactByHash h) (im_world s))" using f by (auto simp: on_store_def split: prod.splits)
  then have p: "payload_of h (im_world s1) = Some c" using Find_same(2) Some by simp
  then have "Has h (im_world s1)" by (simp add: Has_def)
  with rest have "sbind (on_store (Get h)) (\<lambda>existing.
        if existing \<noteq> Some b then sthrow (Invalid m) else sret found) s1 = (Inr index, s')" by simp
  from sbind_InrD [OF this] obtain e s2 where g: "on_store (Get h) s1 = (Inr e, s2)" "e = Some b"
    by (auto simp: sthrow_def split: if_split_asm)
  have "Sha256Hex c = h" by (rule store_ok_hash [OF assms(2) Some])
  with Get_stored [OF p] g have "c = b" by (auto simp: on_store_def split: prod.split_asm if_split_asm)
  with Some show ?thesis by simp
qed simp

lemma on_scene_same_mode: "inside f \<Longrightarrow> on_scene f s = (r, s') \<Longrightarrow> same_mode (im_scene s) (im_scene s')"
  using on_scene_step [of f s r s'] insideD by blast

lemma reuse_index_reused: "reuse_index env o1 sc ns sh ch si ci index s = (Inr r, s') \<Longrightarrow> tir_reused r"
  by (auto simp: reuse_index_def Let_def sthrow_def sret_def dest!: sbind_InrD split: option.split_asm if_split_asm)

lemma find_existing_reused: "find_existing env o1 sc ns sh ch si ci s = (Inr (Some r), s') \<Longrightarrow> tir_reused r"
  by (auto simp: find_existing_def sret_def dest!: sbind_InrD reuse_index_reused split: list.split_asm)

text \<open>The body of the transaction: three artifacts and a row.\<close>

lemma sbind_InrE: "sbind m f s = (Inr r, s') \<Longrightarrow> (\<And>x t. m s = (Inr x, t) \<Longrightarrow> f x t = (Inr r, s') \<Longrightarrow> P) \<Longrightarrow> P"
  by (metis sbind_InrD)

text \<open>
  The store holds \<open>b\<close> under its hash: the payload there is \<open>b\<close>, or another content with the same SHA-256.
\<close>

definition collision :: "byte list \<Rightarrow> byte list \<Rightarrow> bool" where
  "collision a b \<longleftrightarrow> a \<noteq> b \<and> Sha256Hex a = Sha256Hex b"

definition holds :: "world \<Rightarrow> byte list \<Rightarrow> bool" where
  "holds w b \<longleftrightarrow> (\<exists>c. payload_of (Sha256Hex b) w = Some c \<and> (c = b \<or> collision c b))"

text \<open>The contents are stored one after the other, and each id is the one that its \<open>Put\<close> returned.\<close>

fun stored_in_turn :: "json_lib \<Rightarrow> (byte list \<times> uuid) list \<Rightarrow> world \<Rightarrow> world \<Rightarrow> bool" where
  "stored_in_turn lib [] w w' \<longleftrightarrow> w' = w"
| "stored_in_turn lib ((b, a) # rest) w w' \<longleftrightarrow>
     (\<exists>m r w1. Put lib b m w = (Inr r, w1) \<and> wr_artifact_uuid r = a \<and> stored_in_turn lib rest w1 w')"

lemma stored_as_holds: "stored_as (Sha256Hex b) a w \<Longrightarrow> grown w w' \<Longrightarrow> holds w' b"
  by (auto simp: stored_as_def holds_def collision_def grown_def)

lemma publication_Inr:
  assumes run: "publication env row distance b1 m1 b2 m2 b3 m3 s = (Inr r, s')" and ok: "store_ok (im_world s)"
  obtains raw cfg out where "r = \<lparr>tir_trajectory_id = tj_trajectory_id row, tir_artifact_id = out,
      tir_source_artifact_id = raw, tir_configuration_artifact_id = cfg,
      tir_scene_id = tj_scene_id row, tir_content_hash = Sha256Hex b3, tir_source_content_hash = Sha256Hex b1,
      tir_configuration_hash = Sha256Hex b2, tir_node_count = tj_node_count row, tir_total_distance_m = distance, tir_reused = False\<rparr>"
    "grown (im_world s) (im_world s')" "store_ok (im_world s')" "stored_as (Sha256Hex b3) (out) (im_world s')"
    "stored_as (Sha256Hex b2) (cfg) (im_world s') \<or> cfg = out \<or> Sha256Hex b2 = Sha256Hex b3"
    "stored_as (Sha256Hex b1) (raw) (im_world s') \<or> raw \<in> {cfg, out} \<or>
      Sha256Hex b1 \<in> {Sha256Hex b2, Sha256Hex b3}"
    "payload_of (Sha256Hex b1) (im_world s) \<in> {None, Some b1} \<longrightarrow> payload_of (Sha256Hex b1) (im_world s') = Some b1"
    "insert_trajectory row (tables s) = Some (tables s')" "same_mode (im_scene s) (im_scene s')"
    "stored_in_turn (te_lib env) [(b1, raw), (b2, cfg), (b3, out)] (im_world s) (im_world s')"
    "holds (im_world s') b2" "holds (im_world s') b3"
proof -
  from run obtain raw cfg out s1 s2 s3 where p: "on_store (Put (te_lib env) b1 m1) s = (Inr raw, s1)"
      "on_store (Put (te_lib env) b2 m2) s1 = (Inr cfg, s2)" "on_store (Put (te_lib env) b3 m3) s2 = (Inr out, s3)"
    and a: "on_scene (AddTrajectory row) s3 = (Inr (), s')"
    and r: "r = \<lparr>tir_trajectory_id = tj_trajectory_id row, tir_artifact_id = wr_artifact_uuid out,
      tir_source_artifact_id = wr_artifact_uuid raw, tir_configuration_artifact_id = wr_artifact_uuid cfg,
      tir_scene_id = tj_scene_id row, tir_content_hash = wr_content_hash out, tir_source_content_hash = wr_content_hash raw,
      tir_configuration_hash = wr_content_hash cfg, tir_node_count = tj_node_count row, tir_total_distance_m = distance, tir_reused = False\<rparr>"
    unfolding publication_def sret_def by (elim sbind_InrE) auto
  note p1 = on_store_step [OF p(1), THEN conjunct2] and p2 = on_store_step [OF p(2), THEN conjunct2] and p3 = on_store_step [OF p(3), THEN conjunct2]
  note q1 = Put_stored_as [OF p1 ok]
  then have ok1: "store_ok (im_world s1)" by blast
  note q2 = Put_stored_as [OF p2 ok1]
  then have ok2: "store_ok (im_world s2)" by blast
  note q3 = Put_stored_as [OF p3 ok2]
  have sc: "im_scene s3 = im_scene s" using on_store_step [OF p(1)] on_store_step [OF p(2)] on_store_step [OF p(3)] by simp
  note st = on_scene_step [OF a]
  then have w: "im_world s' = im_world s3" and ad: "AddTrajectory row (im_scene s3) = (Inr (), im_scene s')" by simp_all
  have "grown (im_world s) (im_world s')" using q1 q2 q3 unfolding w grown_def by blast
  moreover have "same_mode (im_scene s) (im_scene s')" using insideD [OF inside_AddTrajectory ad] sc by simp
  moreover have "insert_trajectory row (tables s) = Some (tables s')" using AddTrajectory_Inr [OF ad] sc by simp
  moreover have "stored_as (Sha256Hex b2) (wr_artifact_uuid cfg) (im_world s') \<or> wr_artifact_uuid cfg = wr_artifact_uuid out \<or> Sha256Hex b2 = Sha256Hex b3"
    using Put_keeps_stored [OF p3 ok2] q2 w by metis
  moreover have "stored_as (Sha256Hex b1) (wr_artifact_uuid raw) (im_world s') \<or> wr_artifact_uuid raw \<in> {wr_artifact_uuid cfg, wr_artifact_uuid out} \<or>
      Sha256Hex b1 \<in> {Sha256Hex b2, Sha256Hex b3}"
    using Put_keeps_stored [OF p3 ok2] Put_keeps_stored [OF p2 ok1] q1 w by (metis insertCI)
  moreover have "payload_of (Sha256Hex b1) (im_world s) \<in> {None, Some b1} \<longrightarrow> payload_of (Sha256Hex b1) (im_world s') = Some b1"
    using q1 q2 q3 w by (auto simp: grown_def)
  moreover have "stored_in_turn (te_lib env) [(b1, wr_artifact_uuid raw), (b2, wr_artifact_uuid cfg), (b3, wr_artifact_uuid out)]
      (im_world s) (im_world s')"
    unfolding stored_in_turn.simps w using p1 p2 p3 by blast
  moreover have "holds (im_world s') b2" "holds (im_world s') b3"
    using stored_as_holds [of b2 _ "im_world s2" "im_world s'"] stored_as_holds [of b3 _ "im_world s'" "im_world s'"] q2 q3 w
    by (auto simp: grown_def)
  ultimately show thesis using that [of "wr_artifact_uuid out" "wr_artifact_uuid raw" "wr_artifact_uuid cfg"] r q1 q2 q3 w by simp
qed

lemma keeps_mode [keeps_intros]:
  "keeps (\<lambda>s :: import_state. same_mode d (im_scene s)) (on_store g)"
  "keeps (\<lambda>s :: import_state. same_mode d (im_scene s)) (on_scene (AddTrajectory row))"
proof -
  show "keeps (\<lambda>s :: import_state. same_mode d (im_scene s)) (on_store g)" by (auto simp: keeps_def on_store_def split: prod.split)
  show "keeps (\<lambda>s :: import_state. same_mode d (im_scene s)) (on_scene (AddTrajectory row))"
    unfolding keeps_def
  proof (intro allI impI)
    fix s :: import_state assume d: "same_mode d (im_scene s)"
    obtain r t where "on_scene (AddTrajectory row) s = (r, t)" by fastforce
    with on_scene_same_mode [OF inside_AddTrajectory this] d show "same_mode d (im_scene (snd (on_scene (AddTrajectory row) s)))"
      by (auto intro: same_mode_trans)
  qed
qed

text \<open>
  What a trajectory that was imported and not reused has put into the store and the tables: the file, the
  configuration text \<open>ct\<close> and the document are stored in this order, each under its SHA-256, and the
  result names these hashes and the ids under which they were stored. The file is read back as it was
  given; for the other two the store holds the text, or an earlier content with the same SHA-256. The
  index names the document's artifact; it names the other two as well unless a later \<open>Put\<close> got the
  same random id or the same hash, and so replaced the row.
\<close>

definition published :: "tum_env \<Rightarrow> TrajectoryImportOptions \<Rightarrow> byte list \<Rightarrow> string \<Rightarrow> TrajectoryPoseNode list \<Rightarrow> u64 \<Rightarrow>
    import_state \<Rightarrow> TrajectoryImportResult \<Rightarrow> import_state \<Rightarrow> bool" where
  "published env o1 source ct nodes distance s r s' \<longleftrightarrow>
     (\<exists>document now w0. jl_dump (te_lib env) (trajectory_doc (tir_trajectory_id r) (NodesJson nodes)) = Inr document \<and>
       tir_content_hash r = Sha256Hex (bytes_of document) \<and> holds (im_world s') (bytes_of document) \<and>
       tables s' = (tables s)\<lparr>st_trajectories := st_trajectories (tables s) @
         [trajectory_row o1 (tir_trajectory_id r) (tir_scene_id r) nodes (store_double distance) now document]\<rparr> \<and>
       quiet (im_world s) w0 \<and>
       stored_in_turn (te_lib env) [(source, tir_source_artifact_id r), (bytes_of ct, tir_configuration_artifact_id r),
         (bytes_of document, tir_artifact_id r)] w0 (im_world s')) \<and>
     tir_source_content_hash r = Sha256Hex source \<and> payload_of (Sha256Hex source) (im_world s') = Some source \<and>
     tir_configuration_hash r = Sha256Hex (bytes_of ct) \<and> holds (im_world s') (bytes_of ct) \<and>
     tir_total_distance_m r = distance \<and> tir_node_count r = int (length nodes) \<and>
     tx_saved (im_scene s') = None \<and> store_ok (im_world s') \<and> grown (im_world s) (im_world s') \<and>
     stored_as (tir_content_hash r) (tir_artifact_id r) (im_world s') \<and>
     (stored_as (tir_configuration_hash r) (tir_configuration_artifact_id r) (im_world s') \<or>
       tir_configuration_artifact_id r = tir_artifact_id r \<or> tir_configuration_hash r = tir_content_hash r) \<and>
     (stored_as (tir_source_content_hash r) (tir_source_artifact_id r) (im_world s') \<or>
       tir_source_artifact_id r \<in> {tir_configuration_artifact_id r, tir_artifact_id r} \<or>
       tir_source_content_hash r \<in> {tir_configuration_hash r, tir_content_hash r})"

lemma unchanged_steps:
  "MakeTrajectoryManifest env kind w = (q, w') \<Longrightarrow> quiet w w'" "new_uuid w = (u, w') \<Longrightarrow> quiet w w'"
  "TimestampNsNow w = (n, w') \<Longrightarrow> quiet w w'"
  using keepsD [OF keeps_manifest, of w w env kind] by (auto simp: new_uuid_def TimestampNsNow_def)

lemma quiet_trans: "quiet a b \<Longrightarrow> quiet b c \<Longrightarrow> quiet a c"
  by (simp add: quiet_def)

lemma publish_Inr:
  assumes run: "publish env o1 scene nodes distance source (Sha256Hex source) ct ch s = (Inr r, s')"
    and ok: "store_ok (im_world s)" and src: "payload_of (Sha256Hex source) (im_world s) \<in> {None, Some source}"
  shows "published env o1 source ct nodes distance s r s' \<and> tir_scene_id r = scene \<and> \<not> tir_reused r"
proof -
  from run obtain tid doc now n1 n2 n3 s1 s2 s3 s4 s5 m1 m2 m3 where
    steps: "on_store new_uuid s = (Inr tid, s1)" "on_store TimestampNsNow s1 = (Inr now, s2)"
      "on_store (MakeTrajectoryManifest env ''trajectory_source'') s2 = (Inr n1, s3)"
      "on_store (MakeTrajectoryManifest env ''trajectory_import_configuration'') s3 = (Inr n2, s4)"
      "on_store (MakeTrajectoryManifest env ''trajectory'') s4 = (Inr n3, s5)"
    and doc: "jl_dump (te_lib env) (trajectory_doc tid (NodesJson nodes)) = Inr doc"
    and tx: "with_import_transaction (publication env (trajectory_row o1 tid scene nodes distance now doc) distance source m1 (bytes_of ct) m2
       (bytes_of doc) m3) s5 = (Inr r, s')"
    unfolding publish_def Let_def lift_res_def
    apply (elim sbind_InrE Pair_inject)
    apply hypsubst
    apply (rule that; assumption)
    done
  let ?body = "publication env (trajectory_row o1 tid scene nodes distance now doc) distance source m1 (bytes_of ct) m2 (bytes_of doc) m3"
  have s5: "quiet (im_world s) (im_world s5)" "im_scene s5 = im_scene s"
  proof -
    note q = steps [THEN on_store_step]
    from q show "im_scene s5 = im_scene s" by simp
    have "quiet (im_world s) (im_world s1)" "quiet (im_world s1) (im_world s2)" "quiet (im_world s2) (im_world s3)"
      "quiet (im_world s3) (im_world s4)" "quiet (im_world s4) (im_world s5)"
      using q(1) unchanged_steps(2) apply blast
      using q(2) unchanged_steps(3) apply blast
      using q(3) unchanged_steps(1) apply blast
      using q(4) unchanged_steps(1) apply blast
      using q(5) unchanged_steps(1) by blast
    then show "quiet (im_world s) (im_world s5)" by (simp only: quiet_def)
  qed
  have mode: "tx_saved (im_scene t2) = tx_saved (im_scene t1)" if "?body t1 = (q, t2)" for t1 q t2
  proof -
    have "keeps (\<lambda>s. same_mode (im_scene t1) (im_scene s)) ?body" unfolding publication_def by (intro keeps_intros)
    from keepsD [OF this] that have "same_mode (im_scene t1) (im_scene t2)" by (metis same_mode_refl snd_conv)
    then show ?thesis by (simp add: same_mode_def)
  qed
  obtain u1 u2 where
    u: "im_world u1 = im_world s5" "tables u1 = tables s5" "?body u1 = (Inr r, u2)"
      "im_world s' = im_world u2" "tables s' = tables u2" "tx_saved (im_scene s') = None"
    by (rule import_transaction_returns [where body = ?body, OF tx]) (rule mode, assumption, rule that)
  have ok1: "store_ok (im_world u1)" using quiet_ok [OF s5(1) ok] u(1) by simp
  have p: "payload_of h (im_world u1) = payload_of h (im_world s)" for h using quiet_payload [OF s5(1)] u(1) by simp
  have t: "tables u1 = tables s" using u(2) s5(2) by simp
  from u(3) ok1 show ?thesis
  proof (rule publication_Inr, goal_cases)
    case (1 raw cfg out)
    have "tables s' = (tables s)\<lparr>st_trajectories := st_trajectories (tables s) @
         [trajectory_row o1 tid scene nodes (store_double distance) now doc]\<rparr>"
      using insert_trajectory_Some [OF 1(8)] t u(5) by (simp add: trajectory_row_def)
    moreover have "grown (im_world s) (im_world s')" using 1(2) p u(4) by (simp add: grown_def)
    moreover have "quiet (im_world s) (im_world u1)" using s5(1) u(1) by simp
    moreover have "payload_of (Sha256Hex source) (im_world s') = Some source" using 1(7) src p u(4) by auto
    moreover note 1(3-6,10-12)
    ultimately show ?case
      unfolding published_def 1(1) TrajectoryImportResult.simps using doc u(4,6)
      by (intro conjI exI [of _ doc] exI [of _ now] exI [of _ "im_world u1"])
        (simp_all add: trajectory_row_def del: stored_in_turn.simps)
  qed
qed
lemma published_from:
  assumes "published env o1 source ct nodes distance t r s'" "unchanged s t"
  shows "published env o1 source ct nodes distance s r s'"
proof -
  have q: "quiet (im_world s) (im_world t)" and same: "tables t = tables s" "grown (im_world t) (im_world s') = grown (im_world s) (im_world s')"
    using assms(2) quiet_payload by (auto simp: unchanged_def grown_def)
  from q have same_quiet: "quiet (im_world t) w = quiet (im_world s) w" for w by (simp add: quiet_def)
  from assms(1) show ?thesis unfolding published_def same same_quiet .
qed

lemma import_Inr:
  assumes run: "ImportTumCameraTrajectory env project_id source o1 s = (Inr r, s')" and ok: "store_ok (im_world s)"
  obtains scene nodes distance d ct where
    "read_poses env project_id source o1 (im_scene s) = (Inr (scene, nodes, distance), d)"
    "jl_dump (te_lib env) (config_doc env project_id scene o1 (Sha256Hex source) nodes) = Inr ct"
    "payload_of (Sha256Hex source) (im_world s) \<in> {None, Some source}"
    "tir_reused r \<and> unchanged s s' \<or> \<not> tir_reused r \<and> published env o1 source ct nodes distance s r s' \<and>
      tir_scene_id r = scene"
proof -
  from run obtain scene nodes distance s1 ct si s2 ci s3 ex s4 where
    p: "on_scene (read_poses env project_id source o1) s = (Inr (scene, nodes, distance), s1)"
    and ct: "jl_dump (te_lib env) (config_doc env project_id scene o1 (Sha256Hex source) nodes) = Inr ct"
    and c1: "check_payload (Sha256Hex source) source ''existing source CAS payload is missing or corrupt'' s1 = (Inr si, s2)"
    and c2: "check_payload (Sha256Hex (bytes_of ct)) (bytes_of ct) ''existing configuration CAS payload is missing or corrupt'' s2 = (Inr ci, s3)"
    and f: "find_existing env o1 scene nodes (Sha256Hex source) (Sha256Hex (bytes_of ct)) si ci s3 = (Inr ex, s4)"
    and rest: "(case ex of Some result \<Rightarrow> sret result
       | None \<Rightarrow> publish env o1 scene nodes distance source (Sha256Hex source) ct (Sha256Hex (bytes_of ct))) s4 = (Inr r, s')"
    unfolding ImportTumCameraTrajectory_def Let_def lift_res_def
    by (elim sbind_InrE case_prodE Pair_inject) (simp split: prod.splits, elim sbind_InrE Pair_inject, rule that; simp)
  have u1: "unchanged s s1" using keeps_returned [OF keeps_on_scene [OF reads_only_read_poses] unchanged_refl p] .
  have u2: "unchanged s s2" using keeps_returned [OF keeps_check_payload [OF ok] u1 c1] .
  have u3: "unchanged s s3" using keeps_returned [OF keeps_check_payload [OF ok] u2 c2] .
  have u4: "unchanged s s4" using keeps_returned [OF keeps_find_existing [OF ok] u3 f] .
  have ok_at: "store_ok (im_world t)" if "unchanged s t" for t using that ok quiet_ok by (auto simp: unchanged_def)
  have same: "payload_of h (im_world t) = payload_of h (im_world s)" if "unchanged s t" for h t using that quiet_payload by (simp add: unchanged_def)
  have src: "payload_of (Sha256Hex source) (im_world s) \<in> {None, Some source}"
    using check_payload_Inr [OF c1 ok_at [OF u1]] unfolding same [OF u1] .
  show thesis
  proof (cases ex)
    case (Some result)
    with rest u4 find_existing_reused [OF f [unfolded Some]] have "tir_reused r \<and> unchanged s s'" by (simp add: sret_def)
    with that [OF on_scene_step [OF p, THEN conjunct2, THEN conjunct2] ct src] show thesis by blast
  next
    case None
    with rest have "publish env o1 scene nodes distance source (Sha256Hex source) ct (Sha256Hex (bytes_of ct)) s4 = (Inr r, s')" by simp
    from publish_Inr [OF this ok_at [OF u4]] src published_from [OF _ u4]
    have "\<not> tir_reused r \<and> published env o1 source ct nodes distance s r s' \<and> tir_scene_id r = scene" unfolding same [OF u4] by blast
    with that [OF on_scene_step [OF p, THEN conjunct2, THEN conjunct2] ct src] show thesis by blast
  qed
qed

text \<open>C20:
  An import that returns and reused nothing, on a consistent store and a scene connection whose calls do not
  fail, has published its trajectory: every pose of the file has the one frame of the session, sensor and scene at its
  time; the file, the configuration built from the options, the file's hash and these nodes, and the document with the
  poses were stored in this order, each under its SHA-256 (\<open>published\<close>); and the tables have gained one row, with the
  path's length, and nothing else.\<close>

theorem import_publishes_trajectory:
  assumes "ImportTumCameraTrajectory env project_id source o1 s = (Inr r, s')" "\<not> tir_reused r"
    "store_ok (im_world s)" "\<And>k. \<not> db_fault (im_scene s) k"
  shows "\<exists>parsed nodes distance ct. ParseTum (te_fp env) source = Inr parsed \<and>
    list_all2 (matched (tables s) o1 (tir_scene_id r)) parsed nodes \<and> TotalDistance (te_fp env) nodes = Inr distance \<and>
    jl_dump (te_lib env) (config_doc env project_id (tir_scene_id r) o1 (Sha256Hex source) nodes) = Inr ct \<and>
    published env o1 source ct nodes distance s r s'"
proof -
  from import_Inr [OF assms(1,3)] assms(2) obtain scene nodes distance d ct where
    "read_poses env project_id source o1 (im_scene s) = (Inr (scene, nodes, distance), d)"
    "jl_dump (te_lib env) (config_doc env project_id scene o1 (Sha256Hex source) nodes) = Inr ct"
    "published env o1 source ct nodes distance s r s'" "tir_scene_id r = scene" by metis
  with read_poses_Inr [OF this(1) assms(4)] show ?thesis by blast
qed

text \<open>An import that reuses an earlier one changes neither the store nor the tables.\<close>

lemma reused_import_changes_nothing:
  "ImportTumCameraTrajectory env project_id source o1 s = (Inr r, s') \<Longrightarrow> tir_reused r \<Longrightarrow> store_ok (im_world s) \<Longrightarrow> unchanged s s'"
  using import_Inr by metis

section \<open>An import that runs\<close>

text \<open>A store without artifacts and without faults, and a scene connection without faults.\<close>

definition blank_store :: "world \<Rightarrow> bool" where
  "blank_store w \<longleftrightarrow> calm w \<and> db_artifacts (w_db w) = [] \<and> (\<forall>h. payload_of h w = None)"

definition free :: "scene_db \<Rightarrow> bool" where
  "free d \<longleftrightarrow> db_open d \<and> \<not> db_read_only d \<and> (\<forall>k. \<not> db_fault d k)"

lemma free_simps [simp]: "free (d\<lparr>db_tick := n\<rparr>) = free d" "free (d\<lparr>tx_tables := t\<rparr>) = free d" "free (d\<lparr>tx_saved := u\<rparr>) = free d"
  "free (sql_tick d) = free d" "free d \<Longrightarrow> \<not> sql_fails d" "free d \<Longrightarrow> \<not> db_read_only d"
  by (simp_all add: free_def sql_tick_def sql_fails_def)

lemma free_query_one: "free d \<Longrightarrow> \<exists>m. query_one p f d = (Inr (f (tx_tables d)), d\<lparr>db_tick := m\<rparr>)"
  by (auto simp: query_one_def sbind_def sql_call_def sql_first_def sql_tick_def sql_fails_def free_def)

lemma free_found: "free d \<Longrightarrow> f (tx_tables d) = Some x \<Longrightarrow> \<exists>m. query_one p f d = (Inr (Some x), d\<lparr>db_tick := m\<rparr>)"
  using free_query_one [of d p f] by simp

lemma free_query_rows: "free d \<Longrightarrow> \<exists>m. query_rows p f d = (Inr (f (tx_tables d)), d\<lparr>db_tick := m\<rparr>)"
proof -
  assume d: "free d"
  have "\<exists>m. fetch_rows rs c = (Inr rs, c\<lparr>db_tick := m\<rparr>)" if "free c" for rs :: "'a list" and c
    using that
  proof (induction rs arbitrary: c)
    case (Cons r rs)
    then have "free (sql_tick c)" by simp
    from Cons.IH [OF this] Cons.prems show ?case by (auto simp: sql_tick_def)
  qed (auto simp: sql_tick_def)
  then obtain m where "fetch_rows (f (tx_tables d)) (sql_tick d) = (Inr (f (tx_tables d)), (sql_tick d)\<lparr>db_tick := m\<rparr>)"
    using d by (metis free_simps(4))
  with d show ?thesis by (auto simp: query_rows_def sbind_def sql_call_def sql_tick_def)
qed

text \<open>The steps before the transaction, in a store without artifacts.\<close>

lemma blank_index:
  assumes "blank_store (im_world s)"
  shows "\<exists>w. check_payload h b m s = (Inr None, s\<lparr>im_world := w\<rparr>) \<and> blank_store w"
    and "\<exists>w. find_existing env o1 sc ns sh ch si ci s = (Inr None, s\<lparr>im_world := w\<rparr>) \<and> blank_store w"
proof -
  from assms have h: "healthy (w_db (im_world s))" "db_artifacts (w_db (im_world s)) = []" "\<And>h. payload_of h (im_world s) = None"
    by (auto simp: blank_store_def calm_def)
  have tick: "blank_store ((im_world s)\<lparr>w_db := sql_tick (w_db (im_world s))\<rparr>)"
    "blank_store ((im_world s)\<lparr>w_db := sql_tick (sql_tick (w_db (im_world s)))\<rparr>)"
    using assms by (auto simp: blank_store_def calm_def payload_of_def)
  from h tick show "\<exists>w. check_payload h b m s = (Inr None, s\<lparr>im_world := w\<rparr>) \<and> blank_store w"
    by (auto simp: check_payload_def sbind_def on_store_def on_db_def Find_healthy tbl_get_def Has_def payload_of_def)
  from h tick show "\<exists>w. find_existing env o1 sc ns sh ch si ci s = (Inr None, s\<lparr>im_world := w\<rparr>) \<and> blank_store w"
    by (auto simp: find_existing_def sbind_def on_store_def on_db_def FindArtifactsByType_def sql_call_def sret_def)
qed

lemma calm_manifest: "calm w \<Longrightarrow> \<exists>m. MakeTrajectoryManifest env kind w = (Inr m, w_step (w_step w))"
  by (simp add: MakeTrajectoryManifest_def new_uuid_def Iso8601UtcNow_def sbind_def sret_def)

lemma calm_put:
  assumes "\<And>d. \<exists>s. jl_dump lib d = Inr s" "calm (im_world s)"
  shows "\<exists>r w. on_store (Put lib b m) s = (Inr r, s\<lparr>im_world := w\<rparr>) \<and> calm w"
  using Put_returns [OF assms, of b m] by (auto simp: on_store_def)
lemma publication_returns:
  assumes "\<And>d. \<exists>s. jl_dump (te_lib env) d = Inr s" "calm (im_world s)" "free (im_scene s)" "st_trajectories (tables s) = []"
  shows "\<exists>r w m t. publication env row distance b1 m1 b2 m2 b3 m3 s =
    (Inr r, s\<lparr>im_world := w, im_scene := (im_scene s)\<lparr>db_tick := m, tx_tables := t\<rparr>\<rparr>) \<and> \<not> tir_reused r"
proof -
  note put = calm_put [OF assms(1)]
  from put [OF assms(2)] obtain raw w1 where p1: "on_store (Put (te_lib env) b1 m1) s = (Inr raw, s\<lparr>im_world := w1\<rparr>)" "calm w1" by blast
  from put [of "s\<lparr>im_world := w1\<rparr>" b2 m2] p1(2) obtain cfg w2 where
    p2: "on_store (Put (te_lib env) b2 m2) (s\<lparr>im_world := w1\<rparr>) = (Inr cfg, s\<lparr>im_world := w2\<rparr>)" "calm w2" by auto
  from put [of "s\<lparr>im_world := w2\<rparr>" b3 m3] p2(2) obtain out w3 where
    p3: "on_store (Put (te_lib env) b3 m3) (s\<lparr>im_world := w2\<rparr>) = (Inr out, s\<lparr>im_world := w3\<rparr>)" by auto
  let ?t = "(tables s)\<lparr>st_trajectories := [row\<lparr>tj_total_distance_m := store_double (tj_total_distance_m row)\<rparr>]\<rparr>"
  have ins: "insert_trajectory row (tx_tables (im_scene s)) = Some ?t"
    using assms(4) by (simp add: insert_trajectory_def tbl_insert_def)
  have "runs 2 (im_scene s)" using assms(3) by (simp add: runs_def free_def)
  from insert_runs [OF this, where f = "insert_trajectory row", OF ins]
  have "AddTrajectory row (im_scene s) = (Inr (), ran 2 ?t (im_scene s))" unfolding AddTrajectory_def by blast
  then have a: "on_scene (AddTrajectory row) (s\<lparr>im_world := w3\<rparr>) =
      (Inr (), s\<lparr>im_world := w3, im_scene := (im_scene s)\<lparr>db_tick := db_tick (im_scene s) + 2, tx_tables := ?t\<rparr>\<rparr>)"
    by (simp add: on_scene_def ran_def)
  show ?thesis
    unfolding publication_def by (auto simp: sbind_def p1(1) p2(1) p3 a sret_def)
qed

lemma publish_returns:
  assumes "\<And>d. \<exists>s. jl_dump (te_lib env) d = Inr s" "calm (im_world s)" "free (im_scene s)" "st_trajectories (tables s) = []"
    "tx_saved (im_scene s) = None"
  shows "\<exists>r s'. publish env o1 sc nodes distance source sh ct ch s = (Inr r, s') \<and> \<not> tir_reused r"
proof -
  let ?w = "w_step (w_step (w_step (w_step (w_step (w_step (w_step (w_step (im_world s))))))))"
  let ?tid = "GenerateUuid (w_random (im_world s) (w_tick (im_world s)))"
  obtain doc where doc: "jl_dump (te_lib env) (trajectory_doc ?tid (NodesJson nodes)) = Inr doc" using assms(1) by blast
  from calm_manifest assms(2) obtain n1 n2 n3 where
    n: "MakeTrajectoryManifest env ''trajectory_source'' (w_step (w_step (im_world s))) = (Inr n1, w_step (w_step (w_step (w_step (im_world s)))))"
      "MakeTrajectoryManifest env ''trajectory_import_configuration'' (w_step (w_step (w_step (w_step (im_world s))))) =
         (Inr n2, w_step (w_step (w_step (w_step (w_step (w_step (im_world s)))))))"
      "MakeTrajectoryManifest env ''trajectory'' (w_step (w_step (w_step (w_step (w_step (w_step (im_world s))))))) = (Inr n3, ?w)"
    by (metis calm_step)
  let ?d = "sql_tick ((im_scene s)\<lparr>tx_saved := Some (tables s)\<rparr>)"
  let ?s = "s\<lparr>im_world := ?w, im_scene := ?d\<rparr>"
  have begun: "on_scene WriteTransaction_begin (s\<lparr>im_world := ?w\<rparr>) = (Inr False, ?s)"
    using assms(3,5) by (simp add: on_scene_def WriteTransaction_begin_def sbind_def exec_begin_def sql_write_def sret_def)
  have "\<exists>r s'. with_import_transaction (publication env row distance source m1 b2 m2 b3 m3) (s\<lparr>im_world := ?w\<rparr>) = (Inr r, s') \<and> \<not> tir_reused r"
    for row m1 b2 m2 b3 m3
  proof -
    have "calm (im_world ?s)" "free (im_scene ?s)" "st_trajectories (tables ?s) = []"
      using assms(2-4) by (simp_all add: sql_tick_def)
    from publication_returns [OF assms(1) this] obtain r w m t where
      r: "publication env row distance source m1 b2 m2 b3 m3 ?s = (Inr r, ?s\<lparr>im_world := w, im_scene := (im_scene ?s)\<lparr>db_tick := m, tx_tables := t\<rparr>\<rparr>)"
        "\<not> tir_reused r" by blast
    have "\<exists>s4. on_scene (WriteTransaction_Commit False) (?s\<lparr>im_world := w, im_scene := (im_scene ?s)\<lparr>db_tick := m, tx_tables := t\<rparr>\<rparr>) = (Inr True, s4)"
      using assms(3) by (simp add: on_scene_def WriteTransaction_Commit_def sbind_def exec_commit_def sql_write_def sret_def sql_tick_def)
    with transaction_begun(4) [where body = "publication env row distance source m1 b2 m2 b3 m3", OF begun r(1)] r(2) show ?thesis by blast
  qed
  then show ?thesis unfolding publish_def Let_def
    by (simp add: sbind_def on_store_def new_uuid_def TimestampNsNow_def lift_res_def doc n del: split_paired_Ex)
qed
text \<open>The file with one pose, its options, and a project in which the session has one frame at that time.\<close>

definition demo_tum :: "byte list" where
  "demo_tum = map (\<lambda>c. word_of_nat (of_char c)) ''1.5 1 1 1 1 1 1 1''"

definition tum_setup :: tum_env where
  "tum_setup = \<lparr>te_fp = ones, te_lib = reference_json, te_json_eq = (=), te_version = ''1'', te_git_commit = ''c''\<rparr>"

definition tum_options :: TrajectoryImportOptions where
  "tum_options = \<lparr>to_session_id = replicate 16 4, to_sensor_id = replicate 16 2, to_coordinate_frame = ''world'',
     to_source_producer = '''', to_source_version = '''', to_source_unit = Some kMeters, to_clock_domain = Some kPlatform,
     to_pose_frame = Some kCamera\<rparr>"

definition tum_frame :: FrameRow where
  "tum_frame = \<lparr>fr_frame_id = replicate 16 5, fr_scene_id = replicate 16 3, fr_session_id = replicate 16 4,
     fr_timestamp_ns = 1500000000, fr_sequence_index = 0, fr_sensor_id = replicate 16 2, fr_pose_ref = nil_uuid, fr_properties_json = ''''\<rparr>"

definition tum_scene :: import_state where
  "tum_scene = (let s = demo_import (\<lambda>_. False); t = tables s in
     s\<lparr>im_scene := (im_scene s)\<lparr>tx_tables := t\<lparr>st_scenes := map (\<lambda>c. c\<lparr>sn_status := ''open''\<rparr>) (st_scenes t), st_frames := [tum_frame]\<rparr>\<rparr>\<rparr>)"

lemma tum_scene_simps:
  "im_world tum_scene = empty_world" "free (im_scene tum_scene)" "tx_saved (im_scene tum_scene) = None"
  "st_trajectories (tables tum_scene) = []" "st_frames (tables tum_scene) = [tum_frame]"
  by (simp_all add: tum_scene_def demo_import_def open_conn_def empty_tables_def free_def)

lemma demo_tum_poses: "\<exists>a. ParseTum ones demo_tum = Inr [a] \<and> tn_timestamp_ns a = 1500000000"
proof -
  have l: "lines_of [] ''1.5 1 1 1 1 1 1 1'' = [''1.5 1 1 1 1 1 1 1'']" by (simp add: kNewline_def char_of_def)
  obtain a where a: "parse_pose ones [] 1 ''1.5 1 1 1 1 1 1 1'' = Inr a" "tn_timestamp_ns a = 1500000000"
    using pose_of_ones [OF two_pose_words(1) some_timestamps(1), of "[]"] by blast
  from a(1) have "parse_lines ones 1 [] [''1.5 1 1 1 1 1 1 1''] = Inr [a]" using two_pose_lines by simp
  then have "ParseTum ones demo_tum = Inr [a]" unfolding ParseTum_def demo_tum_def chars_of_bytes l by simp
  with a(2) show ?thesis by blast
qed

lemma demo_checks: "check_options tum_options = Inr ()"
  by code_simp

lemma demo_context:
  assumes "tx_tables d = tables tum_scene" "free d"
  shows "\<exists>sc m. check_context (replicate 16 1) tum_options d = (Inr sc, d\<lparr>db_tick := m\<rparr>) \<and> dsc_scene_id sc = replicate 16 3"
proof -
  obtain s where s: "tbl_get cs_session_id (to_session_id tum_options) (st_sessions (tables tum_scene)) = Some s" "cs_project_id s = replicate 16 1"
    by (simp add: tum_scene_def demo_import_def open_conn_def tum_options_def tbl_get_def Let_def)
  obtain sc where sc: "open_scene (replicate 16 1) (tables tum_scene) = Some sc" "sr_scene_id sc = replicate 16 3" "sr_project_id sc = replicate 16 1"
    by (simp add: tum_scene_def demo_import_def open_conn_def Let_def open_scene_def scene_row_def)
  obtain se where se: "tbl_get se_sensor_id (to_sensor_id tum_options) (st_sensors (tables tum_scene)) = Some se"
    "se_project_id se = replicate 16 1" "se_type se = ''camera''"
    by (simp add: tum_scene_def demo_import_def open_conn_def tum_options_def tbl_get_def Let_def)
  have find: "\<exists>m. FindCaptureSession (to_session_id tum_options) c = (Inr (Some s), c\<lparr>db_tick := m\<rparr>)"
    "\<exists>m. FindSceneByProject (replicate 16 1) c = (Inr (Some sc), c\<lparr>db_tick := m\<rparr>)"
    "\<exists>m se'. FindSensor (to_sensor_id tum_options) c = (Inr (Some se'), c\<lparr>db_tick := m\<rparr>) \<and>
       se_project_id se' = replicate 16 1 \<and> se_type se' = ''camera''"
    if "tx_tables c = tables tum_scene" "free c" for c
  proof -
    show "\<exists>m. FindCaptureSession (to_session_id tum_options) c = (Inr (Some s), c\<lparr>db_tick := m\<rparr>)"
      unfolding FindCaptureSession_def by (rule free_found [OF that(2)]) (simp add: that(1) s(1))
    show "\<exists>m. FindSceneByProject (replicate 16 1) c = (Inr (Some sc), c\<lparr>db_tick := m\<rparr>)"
      unfolding FindSceneByProject_def by (rule free_found [OF that(2)]) (simp add: that(1) sc(1))
    have "\<exists>m. FindSensor (to_sensor_id tum_options) c =
        (Inr (Some (se\<lparr>se_has_calibration := has_calibrations (to_sensor_id tum_options) (tables tum_scene)\<rparr>)), c\<lparr>db_tick := m\<rparr>)"
      unfolding FindSensor_def by (rule free_found [OF that(2)]) (simp add: that(1) se(1))
    with se(2,3) show "\<exists>m se'. FindSensor (to_sensor_id tum_options) c = (Inr (Some se'), c\<lparr>db_tick := m\<rparr>) \<and>
       se_project_id se' = replicate 16 1 \<and> se_type se' = ''camera''" by force
  qed
  from find(1) [OF assms] obtain m1 where f1: "FindCaptureSession (to_session_id tum_options) d = (Inr (Some s), d\<lparr>db_tick := m1\<rparr>)" by blast
  have at: "tx_tables (d\<lparr>db_tick := m\<rparr>) = tables tum_scene" "free (d\<lparr>db_tick := m\<rparr>)" for m using assms by simp_all
  from find(1) [OF at, of m1] obtain m2 where
    f2: "FindCaptureSession (to_session_id tum_options) (d\<lparr>db_tick := m1\<rparr>) = (Inr (Some s), d\<lparr>db_tick := m2\<rparr>)" by auto
  from find(2) [OF at, of m2] obtain m3 where
    f3: "FindSceneByProject (replicate 16 1) (d\<lparr>db_tick := m2\<rparr>) = (Inr (Some sc), d\<lparr>db_tick := m3\<rparr>)" by auto
  from find(3) [OF at, of m3] obtain m4 se' where
    f4: "FindSensor (to_sensor_id tum_options) (d\<lparr>db_tick := m3\<rparr>) = (Inr (Some se'), d\<lparr>db_tick := m4\<rparr>)"
      "se_project_id se' = replicate 16 1" "se_type se' = ''camera''" by auto
  show ?thesis
    by (simp add: check_context_def SQ_FindCaptureSession_def SQ_SessionScene_def SQ_FindSceneByProject_def SQ_ResolveSensor_def
        found_as_def sbind_def sret_def f1 f2 f3 f4 s(2) sc(2,3) ToDomain_session_def ToDomain_scene_def ToDomain_sensor_def)
      (use f4 in blast)
qed

lemma demo_read_poses:
  assumes "tx_tables d = tables tum_scene" "free d"
  shows "\<exists>nodes distance m. read_poses tum_setup (replicate 16 1) demo_tum tum_options d =
    (Inr (replicate 16 3, nodes, distance), d\<lparr>db_tick := m\<rparr>)"
proof -
  from demo_context [OF assms] obtain sc m1 where c: "check_context (replicate 16 1) tum_options d = (Inr sc, d\<lparr>db_tick := m1\<rparr>)"
    "dsc_scene_id sc = replicate 16 3" by blast
  from demo_tum_poses obtain a where a: "ParseTum (te_fp tum_setup) demo_tum = Inr [a]" "tn_timestamp_ns a = 1500000000"
    by (auto simp: tum_setup_def)
  have four: "\<not> IsNil (replicate 16 4)" by code_simp
  have one: "select_frames (\<lambda>r. BindUuidOrNull (fr_session_id r) = Some (to_session_id tum_options)) (tables tum_scene) = [tum_frame]"
    by (simp add: select_frames_def tum_scene_simps) (simp add: tum_frame_def tum_options_def BindUuidOrNull_def four)
  have free1: "free (d\<lparr>db_tick := m1\<rparr>)" using assms(2) by simp
  from free_query_rows [OF free1, of "''cannot prepare find frames by session''"
      "select_frames (\<lambda>r. BindUuidOrNull (fr_session_id r) = Some (to_session_id tum_options))"] assms(1) one
  obtain m2 where f: "SQ_FramesBySession (to_session_id tum_options) (d\<lparr>db_tick := m1\<rparr>) =
      (Inr [ToDomain_frame tum_frame], d\<lparr>db_tick := m2\<rparr>)"
    by (auto simp: SQ_FramesBySession_def rows_as_def FindFramesBySession_def sbind_def sret_def)
  have n: "place_node (frames_at (to_sensor_id tum_options) (replicate 16 3) [ToDomain_frame tum_frame]) a =
      Inr (a\<lparr>tn_frame_id := FormatUuid (replicate 16 5)\<rparr>)"
    by (simp add: place_node_def frames_at_def ToDomain_frame_def tum_frame_def tum_options_def a(2))
  show ?thesis
    by (simp add: read_poses_def sbind_def sret_def lift_res_def demo_checks c a(1) f n TotalDistance_def) blast
qed

lemma demo_imports: "\<exists>r s'. ImportTumCameraTrajectory tum_setup (replicate 16 1) demo_tum tum_options tum_scene = (Inr r, s') \<and> \<not> tir_reused r"
proof -
  from demo_read_poses [OF refl tum_scene_simps(2)] obtain nodes distance m where
    p: "read_poses tum_setup (replicate 16 1) demo_tum tum_options (im_scene tum_scene) =
      (Inr (replicate 16 3, nodes, distance), (im_scene tum_scene)\<lparr>db_tick := m\<rparr>)" by blast
  let ?d = "(im_scene tum_scene)\<lparr>db_tick := m\<rparr>"
  have r: "on_scene (read_poses tum_setup (replicate 16 1) demo_tum tum_options) tum_scene =
      (Inr (replicate 16 3, nodes, distance), tum_scene\<lparr>im_scene := ?d\<rparr>)" by (simp add: on_scene_def p)
  have dumps: "\<exists>s. jl_dump (te_lib tum_setup) j = Inr s" for j using reference_json_dumps by (simp add: tum_setup_def)
  from dumps obtain ct where ct: "jl_dump (te_lib tum_setup)
    (config_doc tum_setup (replicate 16 1) (replicate 16 3) tum_options (Sha256Hex demo_tum) nodes) = Inr ct" by blast
  have "blank_store empty_world" using calm_empty by (simp add: blank_store_def empty_world_def empty_db_def payload_of_def)
  with blank_index(1) [of "tum_scene\<lparr>im_scene := ?d\<rparr>"] tum_scene_simps(1) obtain w1 where
    w1: "check_payload (Sha256Hex demo_tum) demo_tum ''existing source CAS payload is missing or corrupt'' (tum_scene\<lparr>im_scene := ?d\<rparr>) =
      (Inr None, tum_scene\<lparr>im_scene := ?d, im_world := w1\<rparr>)" "blank_store w1" by fastforce
  from blank_index(1) [of "tum_scene\<lparr>im_scene := ?d, im_world := w1\<rparr>"] w1(2) obtain w2 where
    w2: "check_payload (Sha256Hex (bytes_of ct)) (bytes_of ct) ''existing configuration CAS payload is missing or corrupt''
      (tum_scene\<lparr>im_scene := ?d, im_world := w1\<rparr>) = (Inr None, tum_scene\<lparr>im_scene := ?d, im_world := w2\<rparr>)" "blank_store w2" by fastforce
  from blank_index(2) [of "tum_scene\<lparr>im_scene := ?d, im_world := w2\<rparr>"] w2(2) obtain w3 where
    w3: "find_existing tum_setup tum_options (replicate 16 3) nodes (Sha256Hex demo_tum) (Sha256Hex (bytes_of ct)) None None
      (tum_scene\<lparr>im_scene := ?d, im_world := w2\<rparr>) = (Inr None, tum_scene\<lparr>im_scene := ?d, im_world := w3\<rparr>)" "blank_store w3" by fastforce
  have "calm (im_world (tum_scene\<lparr>im_scene := ?d, im_world := w3\<rparr>))" using w3(2) by (simp add: blank_store_def)
  from publish_returns [OF dumps this] tum_scene_simps obtain r s' where
    "publish tum_setup tum_options (replicate 16 3) nodes distance demo_tum (Sha256Hex demo_tum) ct (Sha256Hex (bytes_of ct))
      (tum_scene\<lparr>im_scene := ?d, im_world := w3\<rparr>) = (Inr r, s')" "\<not> tir_reused r" by fastforce
  then show ?thesis
    by (simp add: ImportTumCameraTrajectory_def Let_def sbind_def lift_res_def r ct w1(1) w2(1) w3(1))
qed

lemma import_publishes_trajectory_witness:
  "\<exists>r s' nodes distance ct. ImportTumCameraTrajectory tum_setup (replicate 16 1) demo_tum tum_options tum_scene = (Inr r, s') \<and>
    published tum_setup tum_options demo_tum ct nodes distance tum_scene r s'"
proof -
  from demo_imports obtain r s' where r: "ImportTumCameraTrajectory tum_setup (replicate 16 1) demo_tum tum_options tum_scene = (Inr r, s')"
    "\<not> tir_reused r" by blast
  from import_publishes_trajectory [OF r] store_ok_empty tum_scene_simps(1,2) have
    "\<exists>nodes distance ct. published tum_setup tum_options demo_tum ct nodes distance tum_scene r s'" by (auto simp: free_def)
  with r show ?thesis by blast
qed

lemma failed_import_publishes_nothing_witness:
  "\<exists>e s'. ImportTumCameraTrajectory tum_setup (replicate 16 9) demo_tum tum_options tum_scene = (Inl e, s') \<and>
    committed (im_scene s') = tables tum_scene"
proof -
  have "\<exists>d. check_context (replicate 16 9) tum_options (im_scene tum_scene) = (Inl (Invalid ''session is not in this project''), d)"
  proof -
    obtain s where s: "tbl_get cs_session_id (to_session_id tum_options) (st_sessions (tables tum_scene)) = Some s" "cs_project_id s = replicate 16 1"
      by (simp add: tum_scene_def demo_import_def open_conn_def tum_options_def tbl_get_def Let_def)
    have "\<exists>m. FindCaptureSession (to_session_id tum_options) (im_scene tum_scene) = (Inr (Some s), (im_scene tum_scene)\<lparr>db_tick := m\<rparr>)"
      unfolding FindCaptureSession_def by (rule free_found [OF tum_scene_simps(2)]) (rule s(1))
    then obtain m where
      "FindCaptureSession (to_session_id tum_options) (im_scene tum_scene) = (Inr (Some s), (im_scene tum_scene)\<lparr>db_tick := m\<rparr>)" by blast
    with s(2) show ?thesis
      by (simp add: check_context_def SQ_FindCaptureSession_def found_as_def sbind_def sret_def sthrow_def ToDomain_session_def)
  qed
  then obtain d where "read_poses tum_setup (replicate 16 9) demo_tum tum_options (im_scene tum_scene) =
      (Inl (Invalid ''session is not in this project''), d)"
    by (auto simp: read_poses_def sbind_def lift_res_def demo_checks)
  then have r: "ImportTumCameraTrajectory tum_setup (replicate 16 9) demo_tum tum_options tum_scene =
      (Inl (Invalid ''session is not in this project''), tum_scene\<lparr>im_scene := d\<rparr>)"
    by (simp add: ImportTumCameraTrajectory_def sbind_def on_scene_def)
  from failed_import_publishes_nothing [OF _ tum_scene_simps(3) r] store_ok_empty tum_scene_simps(1) r show ?thesis by auto
qed

end
