(* ===== verification/LoopDetection.thy ===== *)
theory LoopDetection
  imports TrajectoryImport "HOL-Library.Sublist"
begin

text \<open>
  Loop-closure candidates: core/loop_closure/feature_matcher.h, correspondence_reconstruction.h and
  loop_closure_candidate_gen.cpp, and the detection stage engine/pipeline/loop_closure_detection.cpp, which
  stores what the generator finds. The matcher is behind an interface in the code and a record of functions here.
  \<open>std::sort\<close> leaves the order of equal scores open: it is an argument, with the locale \<open>candidate_sort\<close> as its law.
\<close>

section \<open>Data\<close>

record FeatureKeypoint =
  fk_x :: u64
  fk_y :: u64

record MatchingFrameDescriptors =
  mf_frame_id :: string
  mf_timestamp_ns :: int
  mf_descriptor_type :: string
  mf_keypoints :: "FeatureKeypoint list"
  mf_descriptors :: "u64 list list"

record FeatureCorrespondence =
  fc_source_index :: u32
  fc_target_index :: u32
  fc_descriptor_distance :: u64

record LoopClosureFeatureMatcher =
  lm_MatchScore :: "MatchingFrameDescriptors \<Rightarrow> MatchingFrameDescriptors \<Rightarrow> u64"
  lm_MatcherId :: string
  lm_MatchCorrespondences :: "MatchingFrameDescriptors \<Rightarrow> MatchingFrameDescriptors \<Rightarrow> FeatureCorrespondence list"

record LoopClosureCandidate =
  ca_candidate_id :: string
  ca_trajectory_id :: string
  ca_source_frame_id :: string
  ca_target_frame_id :: string
  ca_feature_match_score :: u64
  ca_matcher :: string
  ca_created_at_ns :: int

record LoopClosureDetectionOptions =
  do_minimum_temporal_separation_ns :: int
  do_search_window :: nat
  do_minimum_match_score :: u64
  do_max_candidates_per_source :: nat

section \<open>Feature payloads\<close>

definition payload_error :: "string \<Rightarrow> exn" where
  "payload_error what = throw_error kValidationDomain (''loop closure: '' @ what)"

definition read_keypoint :: "json_lib \<Rightarrow> json \<Rightarrow> FeatureKeypoint res" where
  "read_keypoint lib kp =
     rbind (json_value lib (jl_get_double lib) kp ''x'' 0) (\<lambda>x.
     rbind (json_value lib (jl_get_double lib) kp ''y'' 0) (\<lambda>y. Inr \<lparr>fk_x = x, fk_y = y\<rparr>))"

definition ParseFeaturePayload :: "json_lib \<Rightarrow> byte list \<Rightarrow> string \<Rightarrow> int \<Rightarrow> MatchingFrameDescriptors res" where
  "ParseFeaturePayload lib bytes frame_id timestamp_ns =
     (case jl_parse lib (text_of bytes) of
        Inl _ \<Rightarrow> Inl (payload_error ''malformed feature payload JSON'')
      | Inr payload \<Rightarrow>
          rbind (json_value lib (jl_get_int64 lib) payload ''count'' 0) (\<lambda>n.
          rbind (json_value lib Inr payload ''keypoints'' (JArr [])) (\<lambda>keypoints.
          rbind (json_value lib Inr payload ''descriptors'' (JArr [])) (\<lambda>descriptors.
            if n \<noteq> int (length (jl_items lib keypoints)) \<or> n \<noteq> int (length (jl_items lib descriptors))
            then Inl (payload_error ''feature payload violates producer guarantee (count != keypoints != descriptors)'')
            else
              rbind (json_value lib (jl_get_str lib) payload ''descriptor_type'' []) (\<lambda>ty.
              rbind (traverse_res (read_keypoint lib) (jl_items lib keypoints)) (\<lambda>kps.
              rbind (traverse_res (\<lambda>row. traverse_res (jl_get_double lib) (jl_items lib row)) (jl_items lib descriptors)) (\<lambda>ds.
                Inr \<lparr>mf_frame_id = frame_id, mf_timestamp_ns = timestamp_ns, mf_descriptor_type = ty,
                  mf_keypoints = kps, mf_descriptors = ds\<rparr>)))))))"

definition LoadFeatureDescriptors :: "json_lib \<Rightarrow> uuid \<Rightarrow> string \<Rightarrow> int \<Rightarrow> MatchingFrameDescriptors option w_op" where
  "LoadFeatureDescriptors lib artifact_uuid frame_id timestamp_ns =
     sbind (ReadManifest lib artifact_uuid) (\<lambda>manifest. case manifest of
       None \<Rightarrow> sret None
     | Some m \<Rightarrow>
         if am_type m \<noteq> ''feature'' then sret None
         else sbind (Get (am_content_hash m)) (\<lambda>bytes. case bytes of
           None \<Rightarrow> sret None
         | Some b \<Rightarrow> sbind (lift_res (ParseFeaturePayload lib b frame_id timestamp_ns)) (\<lambda>d. sret (Some d))))"

section \<open>Correspondences\<close>

definition finite_point :: "FeatureKeypoint \<Rightarrow> bool" where
  "finite_point p \<longleftrightarrow> finite_double (fk_x p) \<and> finite_double (fk_y p)"

fun keep_correspondences :: "MatchingFrameDescriptors \<Rightarrow> MatchingFrameDescriptors \<Rightarrow> nat set \<Rightarrow>
    FeatureCorrespondence list \<Rightarrow> FeatureCorrespondence list res" where
  "keep_correspondences source target seen [] = Inr []"
| "keep_correspondences source target seen (c # cs) =
     (if unat (fc_source_index c) \<ge> length (mf_descriptors source) \<or> unat (fc_target_index c) \<ge> length (mf_descriptors target)
      then Inl (payload_error ''matcher returned out-of-range correspondence index'')
      else if \<not> finite_point (mf_keypoints source ! unat (fc_source_index c)) \<or>
          \<not> finite_point (mf_keypoints target ! unat (fc_target_index c))
      then keep_correspondences source target seen cs
      else if unat (fc_target_index c) \<in> seen then keep_correspondences source target seen cs
      else rbind (keep_correspondences source target (insert (unat (fc_target_index c)) seen) cs) (\<lambda>out. Inr (c # out)))"

definition ReconstructCorrespondences :: "MatchingFrameDescriptors \<Rightarrow> MatchingFrameDescriptors \<Rightarrow>
    LoopClosureFeatureMatcher \<Rightarrow> FeatureCorrespondence list res" where
  "ReconstructCorrespondences source target matcher =
     (if mf_descriptors source = [] \<or> mf_descriptors target = [] \<or>
         length (mf_keypoints source) \<noteq> length (mf_descriptors source) \<or>
         length (mf_keypoints target) \<noteq> length (mf_descriptors target)
      then Inl (payload_error ''feature data invalid (empty or keypoint/descriptor count mismatch)'')
      else keep_correspondences source target {} (lm_MatchCorrespondences matcher source target))"

section \<open>Candidates\<close>

definition search_start :: "LoopClosureDetectionOptions \<Rightarrow> nat \<Rightarrow> nat" where
  "search_start opts i = (if do_search_window opts = 0 \<or> i \<le> do_search_window opts then 0 else i - do_search_window opts)"

text \<open>
  One pair. The difference of the two int64 timestamps is exact here; in the code it would be undefined if it
  overflowed, which takes timestamps some 292 years apart.
\<close>

definition pair_candidate :: "LoopClosureFeatureMatcher \<Rightarrow> LoopClosureDetectionOptions \<Rightarrow> string \<Rightarrow>
    MatchingFrameDescriptors \<Rightarrow> MatchingFrameDescriptors \<Rightarrow> LoopClosureCandidate option" where
  "pair_candidate matcher opts trajectory_id newer older =
     (if mf_timestamp_ns newer - mf_timestamp_ns older < do_minimum_temporal_separation_ns opts then None
      else let score = lm_MatchScore matcher newer older in
        if fp_less score (do_minimum_match_score opts) then None
        else Some \<lparr>ca_candidate_id = [], ca_trajectory_id = trajectory_id, ca_source_frame_id = mf_frame_id newer,
          ca_target_frame_id = mf_frame_id older, ca_feature_match_score = score, ca_matcher = lm_MatcherId matcher,
          ca_created_at_ns = 0\<rparr>)"

definition per_source :: "LoopClosureFeatureMatcher \<Rightarrow> LoopClosureDetectionOptions \<Rightarrow> string \<Rightarrow>
    MatchingFrameDescriptors list \<Rightarrow> nat \<Rightarrow> LoopClosureCandidate list" where
  "per_source matcher opts trajectory_id frames i =
     List.map_filter (\<lambda>j. pair_candidate matcher opts trajectory_id (frames ! i) (frames ! j)) [search_start opts i..<i]"

definition keep_of :: "LoopClosureDetectionOptions \<Rightarrow> LoopClosureCandidate list \<Rightarrow> nat" where
  "keep_of opts cs = (if do_max_candidates_per_source opts = 0 then length cs
     else min (length cs) (do_max_candidates_per_source opts))"

definition stamp :: "LoopClosureCandidate \<Rightarrow> LoopClosureCandidate w_op" where
  "stamp c = sbind new_uuid (\<lambda>u. sbind TimestampNsNow (\<lambda>now. sret (c\<lparr>ca_candidate_id := FormatUuid u, ca_created_at_ns := now\<rparr>)))"

fun stamp_all :: "LoopClosureCandidate list \<Rightarrow> LoopClosureCandidate list w_op" where
  "stamp_all [] = sret []"
| "stamp_all (c # cs) = sbind (stamp c) (\<lambda>c'. sbind (stamp_all cs) (\<lambda>cs'. sret (c' # cs')))"

text \<open>One source frame: its candidates by descending score, the first ones stamped.\<close>

definition source_candidates :: "(LoopClosureCandidate list \<Rightarrow> LoopClosureCandidate list) \<Rightarrow> LoopClosureFeatureMatcher \<Rightarrow>
    LoopClosureDetectionOptions \<Rightarrow> string \<Rightarrow> MatchingFrameDescriptors list \<Rightarrow> nat \<Rightarrow> LoopClosureCandidate list w_op" where
  "source_candidates srt matcher opts trajectory_id frames i =
     (let cs = srt (per_source matcher opts trajectory_id frames i) in stamp_all (take (keep_of opts cs) cs))"

fun all_sources :: "(nat \<Rightarrow> LoopClosureCandidate list w_op) \<Rightarrow> nat list \<Rightarrow> LoopClosureCandidate list w_op" where
  "all_sources f [] = sret []"
| "all_sources f (i # ids) = sbind (f i) (\<lambda>cs. sbind (all_sources f ids) (\<lambda>rest. sret (cs @ rest)))"

definition GenerateLoopClosureCandidates :: "(LoopClosureCandidate list \<Rightarrow> LoopClosureCandidate list) \<Rightarrow>
    MatchingFrameDescriptors list \<Rightarrow> LoopClosureFeatureMatcher \<Rightarrow> LoopClosureDetectionOptions \<Rightarrow> string \<Rightarrow>
    LoopClosureCandidate list w_op" where
  "GenerateLoopClosureCandidates srt frames matcher opts trajectory_id =
     all_sources (source_candidates srt matcher opts trajectory_id frames) [1..<length frames]"

section \<open>The detection stage\<close>

record LoopClosureFrameInput =
  li_frame_id :: uuid
  li_timestamp_ns :: int
  li_feature_artifact_uuid :: uuid

record LoopClosureDetectionResult =
  dr_candidates :: "LoopClosureCandidate list"
  dr_payload_content_hash :: string
  dr_payload_artifact_uuid :: uuid
  dr_matcher :: string
  dr_frames_input :: nat
  dr_artifacts_resolved :: nat

text \<open>The environment of the engine's stages: the JSON library, \<open>std::sort\<close>, and engine_build_info.h.\<close>

record engine_env =
  ee_lib :: json_lib
  ee_sort :: "LoopClosureCandidate list \<Rightarrow> LoopClosureCandidate list"
  ee_version :: string
  ee_git_commit :: string

definition CandidateJson :: "LoopClosureCandidate \<Rightarrow> json" where
  "CandidateJson c = JObj
     [(''candidate_id'', JStr (ca_candidate_id c)), (''created_at_ns'', JInt (ca_created_at_ns c)),
      (''feature_match_score'', JFloat (ca_feature_match_score c)), (''matcher'', JStr (ca_matcher c)),
      (''source_frame_id'', JStr (ca_source_frame_id c)), (''target_frame_id'', JStr (ca_target_frame_id c)),
      (''trajectory_id'', JStr (ca_trajectory_id c))]"

definition loop_closure_doc :: "json list \<Rightarrow> json list \<Rightarrow> json" where
  "loop_closure_doc candidates closures = JObj
     [(''candidates'', JArr candidates), (''closures'', JArr closures), (''schema_version'', JInt 1)]"

text \<open>The frames whose artifacts resolve, with the hashes of these artifacts.\<close>

fun load_frames :: "json_lib \<Rightarrow> LoopClosureFrameInput list \<Rightarrow> (MatchingFrameDescriptors list \<times> string list) w_op" where
  "load_frames lib [] = sret ([], [])"
| "load_frames lib (f # fs) =
     sbind (LoadFeatureDescriptors lib (li_feature_artifact_uuid f) (FormatUuid (li_frame_id f)) (li_timestamp_ns f)) (\<lambda>loaded.
       case loaded of
         None \<Rightarrow> load_frames lib fs
       | Some d \<Rightarrow>
           sbind (ReadManifest lib (li_feature_artifact_uuid f)) (\<lambda>manifest.
           sbind (load_frames lib fs) (\<lambda>(ds, hs).
             sret (d # ds, (case manifest of None \<Rightarrow> hs | Some m \<Rightarrow> am_content_hash m # hs)))))"

definition candidate_row :: "uuid \<Rightarrow> LoopClosureCandidate \<Rightarrow> LoopClosureCandidateRow res" where
  "candidate_row traj c =
     rbind (ParseUuid (ca_candidate_id c)) (\<lambda>id.
     rbind (ParseUuid (ca_source_frame_id c)) (\<lambda>source.
     rbind (ParseUuid (ca_target_frame_id c)) (\<lambda>target.
       Inr \<lparr>lk_candidate_id = id, lk_trajectory_id = traj, lk_source_frame_id = source, lk_target_frame_id = target,
         lk_feature_match_score = ca_feature_match_score c, lk_matcher = ca_matcher c, lk_created_at_ns = ca_created_at_ns c\<rparr>)))"

definition add_candidate :: "uuid \<Rightarrow> LoopClosureCandidate \<Rightarrow> unit scene_op" where
  "add_candidate traj c = sbind (lift_res (candidate_row traj c)) AddLoopClosureCandidate"

definition loop_closure_manifest :: "engine_env \<Rightarrow> uuid \<Rightarrow> string list \<Rightarrow> string \<Rightarrow> ArtifactManifest" where
  "loop_closure_manifest env auid hashes configuration_hash = default_manifest
     \<lparr>am_artifact_uuid := auid, am_type := ''loop_closure'', am_schema_version := 1,
      am_producer := \<lparr>pi_id = ''spatial-platform'', pi_version = ee_version env, pi_git_commit = ee_git_commit env\<rparr>,
      am_input_artifact_hashes := hashes, am_configuration_hash := configuration_hash, am_coordinate_frame := ''image'',
      am_unit := ''matches'', am_mime_type := ''application/json''\<rparr>"

definition DetectLoopClosureCandidates :: "engine_env \<Rightarrow> string \<Rightarrow> LoopClosureFrameInput list \<Rightarrow> LoopClosureFeatureMatcher \<Rightarrow>
    LoopClosureDetectionOptions \<Rightarrow> string \<Rightarrow> LoopClosureDetectionResult import_op" where
  "DetectLoopClosureCandidates env trajectory_id frames matcher opts configuration_hash =
     sbind (on_store (load_frames (ee_lib env) frames)) (\<lambda>(descriptor_sets, input_hashes).
     sbind (on_store (GenerateLoopClosureCandidates (ee_sort env) descriptor_sets matcher opts trajectory_id)) (\<lambda>candidates.
     sbind (lift_res (ParseUuid trajectory_id)) (\<lambda>traj.
     sbind (on_scene (for_each (add_candidate traj) candidates)) (\<lambda>_.
     sbind (lift_res (jl_dump (ee_lib env) (loop_closure_doc (map CandidateJson candidates) []))) (\<lambda>payload_text.
     sbind (on_store new_uuid) (\<lambda>auid.
     sbind (on_store (Put (ee_lib env) (bytes_of payload_text)
         (loop_closure_manifest env auid input_hashes configuration_hash))) (\<lambda>written.
       sret \<lparr>dr_candidates = candidates, dr_payload_content_hash = wr_content_hash written,
         dr_payload_artifact_uuid = wr_artifact_uuid written, dr_matcher = lm_MatcherId matcher,
         dr_frames_input = length frames, dr_artifacts_resolved = length descriptor_sets\<rparr>)))))))"
section \<open>Candidates of one frame\<close>

text \<open>Without the identity that only a stored candidate has.\<close>

definition unstamped :: "LoopClosureCandidate \<Rightarrow> LoopClosureCandidate" where
  "unstamped c = c\<lparr>ca_candidate_id := [], ca_created_at_ns := 0\<rparr>"

lemma pair_candidate_Some:
  "pair_candidate matcher opts tid a b = Some c \<Longrightarrow> do_minimum_temporal_separation_ns opts \<le> mf_timestamp_ns a - mf_timestamp_ns b \<and>
    \<not> fp_less (ca_feature_match_score c) (do_minimum_match_score opts) \<and> ca_feature_match_score c = lm_MatchScore matcher a b \<and>
    ca_source_frame_id c = mf_frame_id a \<and> ca_target_frame_id c = mf_frame_id b \<and> ca_trajectory_id c = tid \<and>
    ca_matcher c = lm_MatcherId matcher \<and> unstamped c = c"
  by (auto simp: pair_candidate_def Let_def unstamped_def split: if_split_asm)

lemma window_start_le: "search_start opts i \<le> i"
  by (simp add: search_start_def)

lemma per_source_set:
  "c \<in> set (per_source matcher opts tid frames i) \<longleftrightarrow>
    (\<exists>j. search_start opts i \<le> j \<and> j < i \<and> pair_candidate matcher opts tid (frames ! i) (frames ! j) = Some c)"
  by (force simp: per_source_def List.map_filter_def)

lemma per_source_unstamped: "map unstamped (per_source matcher opts tid frames i) = per_source matcher opts tid frames i"
  by (rule map_idI) (auto simp: per_source_set dest: pair_candidate_Some)

lemma stamp_all_Inr: "stamp_all cs w = (Inr ds, w') \<Longrightarrow> map unstamped ds = map unstamped cs"
  by (induction cs arbitrary: w ds w')
    (auto simp: sret_def stamp_def unstamped_def new_uuid_def TimestampNsNow_def dest!: sbind_InrD)

lemma stamp_all_returns: "\<exists>ds w'. stamp_all cs w = (Inr ds, w')"
proof (induction cs arbitrary: w)
  case (Cons c cs)
  obtain c' w1 where "stamp c w = (Inr c', w1)" by (simp add: stamp_def sbind_def new_uuid_def TimestampNsNow_def sret_def)
  with Cons [of w1] show ?case by (auto simp: sbind_def sret_def)
qed (simp add: sret_def)

text \<open>The law of \<open>std::sort\<close> with the code's comparison, on scores that are numbers.\<close>

definition numeric :: "LoopClosureCandidate list \<Rightarrow> bool" where
  "numeric cs \<longleftrightarrow> (\<forall>c\<in>set cs. \<not> fp_is_nan (ca_feature_match_score c))"

locale candidate_sort =
  fixes srt :: "LoopClosureCandidate list \<Rightarrow> LoopClosureCandidate list"
  assumes sort_mset: "numeric cs \<Longrightarrow> mset (srt cs) = mset cs"
    and sort_descending: "numeric cs \<Longrightarrow> sorted_wrt (\<lambda>a b. \<not> fp_less (ca_feature_match_score a) (ca_feature_match_score b)) (srt cs)"

text \<open>\<open>kept\<close> are the best of \<open>cs\<close>: as many as asked for, in descending order, and none of the others is better.\<close>

definition best_of :: "nat \<Rightarrow> LoopClosureCandidate list \<Rightarrow> LoopClosureCandidate list \<Rightarrow> bool" where
  "best_of limit cs kept \<longleftrightarrow> (\<exists>rest. mset kept + mset rest = mset cs \<and>
     length kept = (if limit = 0 then length cs else min (length cs) limit) \<and>
     sorted_wrt (\<lambda>a b. \<not> fp_less (ca_feature_match_score a) (ca_feature_match_score b)) kept \<and>
     list_all (\<lambda>k. list_all (\<lambda>r. \<not> fp_less (ca_feature_match_score k) (ca_feature_match_score r)) rest) kept)"

context candidate_sort
begin

lemma take_best:
  assumes "numeric cs" shows "best_of (do_max_candidates_per_source opts) cs (take (keep_of opts (srt cs)) (srt cs))"
proof -
  let ?n = "keep_of opts (srt cs)" and ?R = "\<lambda>a b. \<not> fp_less (ca_feature_match_score a) (ca_feature_match_score b)"
  have len: "length (srt cs) = length cs" using sort_mset [OF assms] by (metis size_mset)
  have s: "sorted_wrt ?R (take ?n (srt cs) @ drop ?n (srt cs))" using sort_descending [OF assms] by simp
  have "mset (take ?n (srt cs)) + mset (drop ?n (srt cs)) = mset cs" using sort_mset [OF assms] by (metis append_take_drop_id mset_append)
  moreover have "length (take ?n (srt cs)) = (if do_max_candidates_per_source opts = 0 then length cs
      else min (length cs) (do_max_candidates_per_source opts))" using len by (simp add: keep_of_def)
  ultimately show ?thesis using s unfolding best_of_def sorted_wrt_append by (intro exI [of _ "drop ?n (srt cs)"]) (auto simp: list_all_iff)
qed

lemma source_best:
  assumes "numeric (per_source matcher opts tid frames i)" "source_candidates srt matcher opts tid frames i w = (Inr cs, w')"
  shows "best_of (do_max_candidates_per_source opts) (per_source matcher opts tid frames i) (map unstamped cs)"
proof -
  let ?p = "per_source matcher opts tid frames i"
  have "map unstamped cs = map unstamped (take (keep_of opts (srt ?p)) (srt ?p))"
    using stamp_all_Inr assms(2) by (auto simp: source_candidates_def Let_def)
  moreover have "set (take (keep_of opts (srt ?p)) (srt ?p)) \<subseteq> set ?p"
    using sort_mset [OF assms(1)] set_take_subset by (metis set_mset_mset)
  ultimately have "map unstamped cs = take (keep_of opts (srt ?p)) (srt ?p)"
    by (metis (no_types, lifting) map_idI subsetD per_source_set pair_candidate_Some)
  with take_best [OF assms(1)] show ?thesis by simp
qed

end

text \<open>A sort by the score's position in the order of the doubles.\<close>

definition sort_by_score :: "LoopClosureCandidate list \<Rightarrow> LoopClosureCandidate list" where
  "sort_by_score cs = sort_key (\<lambda>c. - fp_key (ca_feature_match_score c)) cs"

interpretation by_score: candidate_sort sort_by_score
proof (standard, goal_cases)
  case (2 cs)
  have "sorted (map (\<lambda>c. - fp_key (ca_feature_match_score c)) (sort_by_score cs))" by (simp add: sort_by_score_def)
  then have "sorted_wrt (\<lambda>a b. fp_key (ca_feature_match_score b) \<le> fp_key (ca_feature_match_score a)) (sort_by_score cs)"
    by (simp add: sorted_map)
  then show ?case by (rule sorted_wrt_mono_rel [rotated]) (auto simp: fp_less_def)
qed (simp add: sort_by_score_def)
text \<open>\<open>c\<close> is a pair of frames that may close a loop: the target is older and inside of the window.\<close>

definition closes_loop :: "LoopClosureFeatureMatcher \<Rightarrow> LoopClosureDetectionOptions \<Rightarrow> MatchingFrameDescriptors list \<Rightarrow>
    nat \<Rightarrow> nat \<Rightarrow> bool" where
  "closes_loop matcher opts frames i j \<longleftrightarrow> j < i \<and> (do_search_window opts = 0 \<or> i \<le> j + do_search_window opts) \<and>
     do_minimum_temporal_separation_ns opts \<le> mf_timestamp_ns (frames ! i) - mf_timestamp_ns (frames ! j) \<and>
     \<not> fp_less (lm_MatchScore matcher (frames ! i) (frames ! j)) (do_minimum_match_score opts)"

definition candidate_of :: "LoopClosureFeatureMatcher \<Rightarrow> string \<Rightarrow> MatchingFrameDescriptors \<Rightarrow> MatchingFrameDescriptors \<Rightarrow>
    LoopClosureCandidate" where
  "candidate_of matcher tid newer older = \<lparr>ca_candidate_id = [], ca_trajectory_id = tid, ca_source_frame_id = mf_frame_id newer,
     ca_target_frame_id = mf_frame_id older, ca_feature_match_score = lm_MatchScore matcher newer older,
     ca_matcher = lm_MatcherId matcher, ca_created_at_ns = 0\<rparr>"

lemma per_source_closes:
  "per_source matcher opts tid frames i =
    map (\<lambda>j. candidate_of matcher tid (frames ! i) (frames ! j)) (filter (closes_loop matcher opts frames i) [0..<i])"
proof -
  have pair: "pair_candidate matcher opts tid (frames ! i) (frames ! j) =
      (if closes_loop matcher opts frames i j then Some (candidate_of matcher tid (frames ! i) (frames ! j)) else None)"
    if "search_start opts i \<le> j" "j < i" for j
    using that by (auto simp: pair_candidate_def Let_def candidate_of_def closes_loop_def search_start_def split: if_split_asm)
  have "filter (closes_loop matcher opts frames i) [0..<search_start opts i] = []"
    by (auto simp: filter_empty_conv closes_loop_def search_start_def)
  then have "filter (closes_loop matcher opts frames i) [0..<i] = filter (closes_loop matcher opts frames i) [search_start opts i..<i]"
    using upt_add_eq_append [of 0 "search_start opts i" "i - search_start opts i"] window_start_le [of opts i] by simp
  moreover have "List.map_filter (\<lambda>j. pair_candidate matcher opts tid (frames ! i) (frames ! j)) js =
      map (\<lambda>j. candidate_of matcher tid (frames ! i) (frames ! j)) (filter (closes_loop matcher opts frames i) js)"
    if "\<forall>j\<in>set js. search_start opts i \<le> j \<and> j < i" for js
    using that by (induction js) (simp_all add: List.map_filter_def pair)
  ultimately show ?thesis by (simp add: per_source_def)
qed

lemma all_sources_Inr:
  "all_sources f ids w = (Inr cs, w') \<Longrightarrow> distinct ids \<Longrightarrow>
    \<exists>groups. cs = concat (map groups ids) \<and> (\<forall>i\<in>set ids. \<exists>u u'. f i u = (Inr (groups i), u'))"
proof (induction ids arbitrary: w cs)
  case (Cons i ids)
  from Cons.prems(1) obtain c w1 rest where c: "f i w = (Inr c, w1)" and rest: "all_sources f ids w1 = (Inr rest, w')" and cs: "cs = c @ rest"
    by (auto simp: sret_def dest!: sbind_InrD)
  from Cons.IH [OF rest] Cons.prems(2) obtain groups where
    g: "rest = concat (map groups ids)" "\<forall>i\<in>set ids. \<exists>u u'. f i u = (Inr (groups i), u')" by auto
  have "map (groups(i := c)) ids = map groups ids" using Cons.prems(2) by auto
  then have "concat (map (groups(i := c)) (i # ids)) = cs" by (simp only: list.map concat.simps fun_upd_same g(1) cs)
  moreover have "\<forall>k\<in>set (i # ids). \<exists>u u'. f k u = (Inr ((groups(i := c)) k), u')" using g(2) c by auto
  ultimately show ?case by metis
qed (simp add: sret_def)

text \<open>C25:
  The candidates are listed by source frame in the frames' order. For every source frame they are the best of the pairs with an older
  frame that are inside of the search window, far enough apart in time and not below the score floor: all of them
  without a limit, otherwise as many as the limit allows, by descending score, and no pair left out scores higher.\<close>

theorem candidates_are_the_best_pairs:
  assumes "candidate_sort srt" "\<And>a b. a \<in> set frames \<Longrightarrow> b \<in> set frames \<Longrightarrow> \<not> fp_is_nan (lm_MatchScore matcher a b)"
    "GenerateLoopClosureCandidates srt frames matcher opts tid w = (Inr cs, w')"
  shows "\<exists>groups. cs = concat (map groups [1..<length frames]) \<and> (\<forall>i\<in>{1..<length frames}. best_of (do_max_candidates_per_source opts)
    (map (\<lambda>j. candidate_of matcher tid (frames ! i) (frames ! j)) (filter (closes_loop matcher opts frames i) [0..<i]))
    (map unstamped (groups i)))"
proof -
  from all_sources_Inr [OF assms(3) [unfolded GenerateLoopClosureCandidates_def]] obtain groups where
    g: "cs = concat (map groups [1..<length frames])"
    "\<forall>i\<in>set [1..<length frames]. \<exists>u u'. source_candidates srt matcher opts tid frames i u = (Inr (groups i), u')" by auto
  have "best_of (do_max_candidates_per_source opts) (per_source matcher opts tid frames i) (map unstamped (groups i))"
    if i: "i \<in> {1..<length frames}" for i
  proof -
    from g(2) i obtain u u' where u: "source_candidates srt matcher opts tid frames i u = (Inr (groups i), u')"
      unfolding set_upt by blast
    have "numeric (per_source matcher opts tid frames i)"
      unfolding numeric_def using assms(2) i by (auto simp: per_source_closes candidate_of_def closes_loop_def)
    from candidate_sort.source_best [OF assms(1) this u] show ?thesis .
  qed
  with g(1) show ?thesis by (auto simp: per_source_closes)
qed

lemma candidates_returned: "\<exists>cs w'. GenerateLoopClosureCandidates srt frames matcher opts tid w = (Inr cs, w')"
proof -
  have "\<exists>cs w'. all_sources (source_candidates srt matcher opts tid frames) ids w = (Inr cs, w')" for ids
  proof (induction ids arbitrary: w)
    case (Cons i ids)
    obtain c w1 where "source_candidates srt matcher opts tid frames i w = (Inr c, w1)"
      using stamp_all_returns unfolding source_candidates_def Let_def by blast
    with Cons [of w1] show ?case by (auto simp: sbind_def sret_def)
  qed (simp add: sret_def)
  then show ?thesis by (simp add: GenerateLoopClosureCandidates_def)
qed
section \<open>Correspondences\<close>

definition in_frames :: "MatchingFrameDescriptors \<Rightarrow> MatchingFrameDescriptors \<Rightarrow> FeatureCorrespondence \<Rightarrow> bool" where
  "in_frames source target c \<longleftrightarrow> unat (fc_source_index c) < length (mf_keypoints source) \<and>
     unat (fc_target_index c) < length (mf_keypoints target)"

definition finite_pair :: "MatchingFrameDescriptors \<Rightarrow> MatchingFrameDescriptors \<Rightarrow> FeatureCorrespondence \<Rightarrow> bool" where
  "finite_pair source target c \<longleftrightarrow> finite_point (mf_keypoints source ! unat (fc_source_index c)) \<and>
     finite_point (mf_keypoints target ! unat (fc_target_index c))"

lemma keep_correspondences_Inr:
  "keep_correspondences source target seen cs = Inr out \<Longrightarrow> subseq out cs \<and>
    list_all (\<lambda>c. unat (fc_source_index c) < length (mf_descriptors source) \<and> unat (fc_target_index c) < length (mf_descriptors target)) cs \<and>
    list_all (finite_pair source target) out \<and> distinct (map fc_target_index out) \<and>
    (\<forall>c\<in>set out. unat (fc_target_index c) \<notin> seen) \<and>
    (\<forall>c\<in>set cs. finite_pair source target c \<longrightarrow> unat (fc_target_index c) \<in> seen \<or> fc_target_index c \<in> fc_target_index ` set out)"
proof (induction source target seen cs arbitrary: out rule: keep_correspondences.induct)
  case (2 source target seen c cs)
  let ?t = "unat (fc_target_index c)"
  from 2(4) have range: "unat (fc_source_index c) < length (mf_descriptors source)" "?t < length (mf_descriptors target)"
    by (auto split: if_split_asm)
  consider (skip) "\<not> finite_pair source target c" | (seen) "finite_pair source target c" "?t \<in> seen"
    | (kept) "finite_pair source target c" "?t \<notin> seen" by blast
  then show ?case
  proof cases
    case skip
    with 2(4) range have "keep_correspondences source target seen cs = Inr out" by (auto simp: finite_pair_def split: if_split_asm)
    with 2(1) [OF _ _ this] skip range show ?thesis by (auto simp: finite_pair_def)
  next
    case seen
    with 2(4) range have "keep_correspondences source target seen cs = Inr out" by (auto simp: finite_pair_def)
    with 2(2) [OF _ _ _ this] seen range show ?thesis by (auto simp: finite_pair_def)
  next
    case kept
    with 2(4) range obtain new where new: "keep_correspondences source target (insert ?t seen) cs = Inr new" "out = c # new"
      by (auto simp: finite_pair_def rbind_Inr)
    from 2(3) [OF _ _ _ new(1)] kept range new(2) show ?thesis by (auto simp: finite_pair_def dest: word_unat_eq_iff [THEN iffD2])
  qed
qed simp

text \<open>
  The correspondences that verification works with are a selection of the matcher's, in its order: every one names points of
  both frames with finite coordinates, no target point is used twice, and a target point is left out only if the matcher
  never pairs it with finite points.\<close>

theorem correspondences_select:
  assumes "ReconstructCorrespondences source target matcher = Inr out"
  shows "subseq out (lm_MatchCorrespondences matcher source target) \<and> distinct (map fc_target_index out) \<and>
    list_all (\<lambda>c. in_frames source target c \<and> finite_pair source target c) out \<and>
    fc_target_index ` set out = fc_target_index ` set (filter (finite_pair source target) (lm_MatchCorrespondences matcher source target))"
proof -
  let ?cs = "lm_MatchCorrespondences matcher source target"
  from assms have k: "keep_correspondences source target {} ?cs = Inr out"
    and len: "length (mf_keypoints source) = length (mf_descriptors source)" "length (mf_keypoints target) = length (mf_descriptors target)"
    by (auto simp: ReconstructCorrespondences_def split: if_split_asm)
  note K = keep_correspondences_Inr [OF k]
  then have sub: "set out \<subseteq> set ?cs" by (blast dest: list_emb_set)
  with K have "list_all (\<lambda>c. in_frames source target c \<and> finite_pair source target c) out"
    by (auto simp: list_all_iff in_frames_def len)
  moreover have "fc_target_index ` set out = fc_target_index ` set (filter (finite_pair source target) ?cs)"
    using K sub by (auto simp: list_all_iff)
  ultimately show ?thesis using K by blast
qed

section \<open>The stage\<close>

definition stored_candidate :: "LoopClosureCandidateRow \<Rightarrow> LoopClosureCandidateRow" where
  "stored_candidate row = row\<lparr>lk_feature_match_score := store_double (lk_feature_match_score row)\<rparr>"

lemma insert_candidate_Some:
  "insert_candidate row t = Some t' \<Longrightarrow> t' = t\<lparr>st_lc_candidates := st_lc_candidates t @ [stored_candidate row]\<rparr>"
  by (auto simp: insert_candidate_def stored_candidate_def dest!: tbl_insert_Some)

lemma AddLoopClosureCandidate_step:
  assumes "AddLoopClosureCandidate row d = (r, d')"
  shows "same_mode d d' \<and> (case r of Inr _ \<Rightarrow> tx_tables d' = (tx_tables d)\<lparr>st_lc_candidates := st_lc_candidates (tx_tables d) @ [stored_candidate row]\<rparr>
    | Inl _ \<Rightarrow> tx_tables d' = tx_tables d)"
proof (cases r)
  case (Inl e)
  then show ?thesis using assms
    by (auto simp: AddLoopClosureCandidate_def write_op_def statement_def sbind_def sql_call_def sql_modify_def sql_write_def
        same_mode_def split: if_splits option.splits)
next
  case (Inr u)
  from write_statement_Inr [OF assms [unfolded AddLoopClosureCandidate_def Inr]] Inr insert_candidate_Some show ?thesis by auto
qed
text \<open>The loop over the candidates adds rows for a first part of them, for all of them when it ends.\<close>

lemma add_candidates_step:
  "for_each (add_candidate traj) cs d = (r, d') \<Longrightarrow> same_mode d d' \<and> (\<exists>n rows. traverse_res (candidate_row traj) (take n cs) = Inr rows \<and>
    tx_tables d' = (tx_tables d)\<lparr>st_lc_candidates := st_lc_candidates (tx_tables d) @ map stored_candidate rows\<rparr> \<and>
    (r = Inr () \<longrightarrow> n = length cs))"
proof (induction cs arbitrary: d)
  case (Cons c cs)
  obtain r1 d1 where a: "add_candidate traj c d = (r1, d1)" by fastforce
  show ?case
  proof (cases "candidate_row traj c")
    case (Inl e)
    with a Cons.prems show ?thesis by (auto simp: add_candidate_def sbind_def lift_res_def intro!: exI [of _ "0::nat"])
  next
    case (Inr row)
    with a have add: "AddLoopClosureCandidate row d = (r1, d1)" by (simp add: add_candidate_def sbind_def lift_res_def)
    note step = AddLoopClosureCandidate_step [OF add]
    show ?thesis
    proof (cases r1)
      case (Inl e)
      with Cons.prems a step show ?thesis by (auto intro!: exI [of _ "0::nat"])
    next
      case r1: (Inr u)
      with Cons.prems a have rest: "for_each (add_candidate traj) cs d1 = (r, d')" by simp
      from Cons.IH [OF this] obtain n rows where n: "same_mode d1 d'" "traverse_res (candidate_row traj) (take n cs) = Inr rows"
        "tx_tables d' = (tx_tables d1)\<lparr>st_lc_candidates := st_lc_candidates (tx_tables d1) @ map stored_candidate rows\<rparr>"
        "r = Inr () \<longrightarrow> n = length cs" by blast
      have "traverse_res (candidate_row traj) (take (Suc n) (c # cs)) = Inr (row # rows)" using Inr n(2) by simp
      with n step r1 show ?thesis by (intro conjI exI [of _ "Suc n"] exI [of _ "row # rows"]) (auto intro: same_mode_trans)
    qed
  qed
qed (auto intro!: exI [of _ "0::nat"])

text \<open>The steps on the store before the payload is written leave it alone.\<close>

lemma keeps_quiet_stamps [keeps_intros]: "keeps (quiet w0) (stamp_all cs)"
  by (induction cs) (auto simp: stamp_def intro!: keeps_intros)

lemma keeps_quiet_generate [keeps_intros]: "keeps (quiet w0) (GenerateLoopClosureCandidates srt frames matcher opts tid)"
proof -
  have "keeps (quiet w0) (all_sources (source_candidates srt matcher opts tid frames) ids)" for ids
    by (induction ids) (auto simp: source_candidates_def Let_def intro!: keeps_intros)
  then show ?thesis by (simp add: GenerateLoopClosureCandidates_def)
qed

lemma keeps_quiet_load [keeps_intros]:
  assumes "store_ok w0" shows "keeps (quiet w0) (LoadFeatureDescriptors lib auid fid ts)"
  unfolding LoadFeatureDescriptors_def by (intro keeps_intros import_keeps_branch assms)

lemma keeps_quiet_load_frames [keeps_intros]:
  assumes "store_ok w0" shows "keeps (quiet w0) (load_frames lib frames)"
  by (induction frames) (auto split: prod.split intro!: keeps_intros import_keeps_branch assms)
definition with_candidates :: "LoopClosureCandidateRow list \<Rightarrow> scene_tables \<Rightarrow> scene_tables" where
  "with_candidates rows t = t\<lparr>st_lc_candidates := st_lc_candidates t @ map stored_candidate rows\<rparr>"

lemma with_candidates_append: "with_candidates rows (with_candidates old t) = with_candidates (old @ rows) t"
  by (simp add: with_candidates_def)

text \<open>Before the payload is written, the store is untouched, and nothing but candidate rows was added.\<close>

definition rows_added :: "import_state \<Rightarrow> import_state \<Rightarrow> bool" where
  "rows_added s0 s \<longleftrightarrow> quiet (im_world s0) (im_world s) \<and> (\<exists>rows. tables s = with_candidates rows (tables s0)) \<and>
     same_mode (im_scene s0) (im_scene s)"

lemma unchanged_rows_added: "unchanged s0 s \<Longrightarrow> rows_added s0 s"
  by (auto simp: unchanged_def rows_added_def with_candidates_def intro!: exI [of _ "[]"])

lemma keeps_rows_added_store [keeps_intros]: "keeps (quiet (im_world s0)) f \<Longrightarrow> keeps (rows_added s0) (on_store f)"
proof -
  assume f: "keeps (quiet (im_world s0)) f"
  have "rows_added s0 (snd (on_store f s))" if "rows_added s0 s" for s
  proof -
    obtain r w where w: "f (im_world s) = (r, w)" by fastforce
    from keepsD [OF f, of "im_world s"] that w have "quiet (im_world s0) w" by (simp add: rows_added_def)
    with that w show ?thesis by (simp add: on_store_def rows_added_def)
  qed
  then show ?thesis by (simp add: keeps_def)
qed

lemma keeps_rows_added_scene [keeps_intros]: "keeps (rows_added s0) (on_scene (for_each (add_candidate traj) cs))"
proof -
  have "rows_added s0 (snd (on_scene (for_each (add_candidate traj) cs) s))" if s: "rows_added s0 s" for s
  proof -
    obtain r d where d: "for_each (add_candidate traj) cs (im_scene s) = (r, d)" by fastforce
    from add_candidates_step [OF d] obtain rows where rows: "same_mode (im_scene s) d"
      "tx_tables d = with_candidates rows (tables s)" unfolding with_candidates_def by blast
    from s obtain old where old: "tables s = with_candidates old (tables s0)" by (auto simp: rows_added_def)
    with rows have "\<exists>all. tx_tables d = with_candidates all (tables s0)" by (auto simp: with_candidates_append)
    with s rows(1) d show ?thesis by (simp add: on_scene_def rows_added_def) (blast intro: same_mode_trans)
  qed
  then show ?thesis by (simp add: keeps_def)
qed

text \<open>C29:
  A detection that returns has written one row per candidate, in order, under the trajectory it was asked for, and nothing else
  into the tables; the document with these candidates is in the artifact store, which stays consistent.\<close>

theorem detection_stores_candidates:
  assumes "DetectLoopClosureCandidates env trajectory_id frames matcher opts configuration_hash s = (Inr r, s')" "store_ok (im_world s)"
  shows "\<exists>traj rows document. ParseUuid trajectory_id = Inr traj \<and> traverse_res (candidate_row traj) (dr_candidates r) = Inr rows \<and>
    tables s' = with_candidates rows (tables s) \<and>
    jl_dump (ee_lib env) (loop_closure_doc (map CandidateJson (dr_candidates r)) []) = Inr document \<and>
    dr_payload_content_hash r = Sha256Hex (bytes_of document) \<and>
    stored_as (dr_payload_content_hash r) (dr_payload_artifact_uuid r) (im_world s') \<and> store_ok (im_world s')"
proof -
  from assms(1) obtain sets hashes cs traj doc auid written s1 s2 s3 s4 where
    l: "on_store (load_frames (ee_lib env) frames) s = (Inr (sets, hashes), s1)"
    and g: "on_store (GenerateLoopClosureCandidates (ee_sort env) sets matcher opts trajectory_id) s1 = (Inr cs, s2)"
    and t: "ParseUuid trajectory_id = Inr traj" and f: "on_scene (for_each (add_candidate traj) cs) s2 = (Inr (), s3)"
    and d: "jl_dump (ee_lib env) (loop_closure_doc (map CandidateJson cs) []) = Inr doc"
    and u: "on_store new_uuid s3 = (Inr auid, s4)"
    and p: "on_store (Put (ee_lib env) (bytes_of doc) (loop_closure_manifest env auid hashes configuration_hash)) s4 = (Inr written, s')"
    and r: "dr_candidates r = cs" "dr_payload_content_hash r = wr_content_hash written" "dr_payload_artifact_uuid r = wr_artifact_uuid written"
    by (auto simp: DetectLoopClosureCandidates_def lift_res_def sret_def dest!: sbind_InrD split: prod.splits)
  have s2: "unchanged s s2"
    using keeps_returned [OF keeps_on_store [OF keeps_quiet_load_frames [OF assms(2)]] unchanged_refl l]
      keeps_returned [OF keeps_on_store [OF keeps_quiet_generate] _ g] by blast
  then have t2: "tables s2 = tables s" "quiet (im_world s) (im_world s2)" by (simp_all add: unchanged_def)
  from add_candidates_step [OF on_scene_step [OF f, THEN conjunct2, THEN conjunct2]] obtain rows where
    rows: "traverse_res (candidate_row traj) cs = Inr rows" "tables s3 = with_candidates rows (tables s)"
    by (auto simp: with_candidates_def t2(1))
  have "quiet (im_world s) (im_world s4)"
    using t2(2) on_scene_step [OF f] unchanged_steps(2) on_store_step [OF u] quiet_trans by metis
  with quiet_ok assms(2) have "store_ok (im_world s4)" by blast
  from Put_stored_as [OF on_store_step [OF p, THEN conjunct2] this] on_store_step [OF p] on_store_step [OF u] rows t d r
  show ?thesis by simp
qed

text \<open>
  The stage has no transaction: where it throws, the rows written so far stay, without a document that has them.
\<close>

definition throws_into :: "('s \<Rightarrow> bool) \<Rightarrow> ('s \<Rightarrow> bool) \<Rightarrow> ('s \<Rightarrow> (exn + 'a) \<times> 's) \<Rightarrow> bool" where
  "throws_into P Q m \<longleftrightarrow> (\<forall>s e s'. P s \<longrightarrow> m s = (Inl e, s') \<longrightarrow> Q s')"

lemma throws_into_sbind:
  assumes "keeps P m" "\<And>s. P s \<Longrightarrow> Q s" "\<And>x. throws_into P Q (f x)" shows "throws_into P Q (sbind m f)"
  unfolding throws_into_def
proof (intro allI impI)
  fix s e s' assume s: "P s" and run: "sbind m f s = (Inl e, s')"
  obtain r t where m: "m s = (r, t)" by fastforce
  with keepsD [OF assms(1) s] have "P t" by simp
  with run m assms(2,3) show "Q s'" by (cases r) (auto simp: sbind_def throws_into_def)
qed

lemma throws_into_last: "(\<And>s. P s \<Longrightarrow> Q (snd (m s))) \<Longrightarrow> throws_into P Q (sbind m (\<lambda>x. sret (f x)))"
  by (fastforce simp: throws_into_def sbind_def sret_def split: prod.splits sum.splits)

lemma failed_detection_keeps_rows:
  assumes "DetectLoopClosureCandidates env trajectory_id frames matcher opts configuration_hash s = (Inl e, s')" "store_ok (im_world s)"
  shows "(\<exists>rows. tables s' = with_candidates rows (tables s)) \<and> store_ok (im_world s')"
proof -
  let ?Q = "\<lambda>t. (\<exists>rows. tables t = with_candidates rows (tables s)) \<and> store_ok (im_world t)"
  have weak: "rows_added s t \<Longrightarrow> ?Q t" for t using quiet_ok assms(2) by (auto simp: rows_added_def)
  have put: "?Q (snd (on_store (Put lib b m) t))" if "rows_added s t" for lib b m t
    using weak [OF that] keepsD [OF keeps_Put, of "im_world t" lib b m] by (auto simp: on_store_def split: prod.split)
  have "throws_into (rows_added s) ?Q (DetectLoopClosureCandidates env trajectory_id frames matcher opts configuration_hash)"
    unfolding DetectLoopClosureCandidates_def
    by (intro throws_into_sbind weak put throws_into_last keeps_intros assms(2); (simp split: prod.split)?;
        intro allI impI throws_into_last throws_into_sbind put weak keeps_intros) simp_all
  moreover have "rows_added s s" by (rule unchanged_rows_added) simp
  ultimately show ?thesis using assms(1) unfolding throws_into_def by blast
qed
section \<open>Examples\<close>

text \<open>Three frames a second apart, and a matcher that scores every pair alike and pairs three points, two of them with one target.\<close>

definition three_frames :: "MatchingFrameDescriptors list" where
  "three_frames = map (\<lambda>(name, t). \<lparr>mf_frame_id = name, mf_timestamp_ns = t, mf_descriptor_type = ''mock_16'',
     mf_keypoints = replicate 2 \<lparr>fk_x = 0, fk_y = 0\<rparr>, mf_descriptors = [[], []]\<rparr>) [(''a'', 0), (''b'', 1000000000), (''c'', 2000000000)]"

definition even_matcher :: LoopClosureFeatureMatcher where
  "even_matcher = \<lparr>lm_MatchScore = (\<lambda>a b. 1), lm_MatcherId = ''even'', lm_MatchCorrespondences = (\<lambda>a b.
     [\<lparr>fc_source_index = 0, fc_target_index = 0, fc_descriptor_distance = 0\<rparr>, \<lparr>fc_source_index = 1, fc_target_index = 0, fc_descriptor_distance = 0\<rparr>,
      \<lparr>fc_source_index = 1, fc_target_index = 1, fc_descriptor_distance = 0\<rparr>])\<rparr>"

definition second_apart :: LoopClosureDetectionOptions where
  "second_apart = \<lparr>do_minimum_temporal_separation_ns = 1500000000, do_search_window = 0, do_minimum_match_score = 0,
     do_max_candidates_per_source = 1\<rparr>"

lemma second_apart_closes:
  "filter (closes_loop even_matcher second_apart three_frames 1) [0..<1] = []"
  "filter (closes_loop even_matcher second_apart three_frames 2) [0..<2] = [0]"
  by code_simp+

lemma candidates_are_the_best_pairs_witness:
  "\<exists>cs w'. GenerateLoopClosureCandidates sort_by_score three_frames even_matcher second_apart ''t'' empty_world = (Inr cs, w') \<and>
    map ca_target_frame_id cs = [''a'']"
proof -
  obtain cs w' where r: "GenerateLoopClosureCandidates sort_by_score three_frames even_matcher second_apart ''t'' empty_world = (Inr cs, w')"
    using candidates_returned by blast
  have nan: "\<not> fp_is_nan (lm_MatchScore even_matcher a b)" for a b by (simp add: even_matcher_def) code_simp
  have len: "length three_frames = Suc (Suc (Suc 0))" by (simp add: three_frames_def)
  from candidates_are_the_best_pairs [OF by_score.candidate_sort_axioms nan r] obtain groups where
    g: "cs = concat (map groups [1..<length three_frames])"
    "\<And>i. i \<in> {1..<length three_frames} \<Longrightarrow> best_of (do_max_candidates_per_source second_apart)
      (map (\<lambda>j. candidate_of even_matcher ''t'' (three_frames ! i) (three_frames ! j)) (filter (closes_loop even_matcher second_apart three_frames i) [0..<i]))
      (map unstamped (groups i))" by blast
  from g(2) [of 1] have "groups 1 = []" by (simp add: len second_apart_closes(1) [simplified] best_of_def)
  moreover have "best_of (do_max_candidates_per_source second_apart) [candidate_of even_matcher ''t'' (three_frames ! 2) (three_frames ! 0)]
      (map unstamped (groups 2))" using g(2) [of 2, unfolded second_apart_closes(2)] by (simp add: len)
  then obtain rest where "mset (map unstamped (groups 2)) + mset rest = {#candidate_of even_matcher ''t'' (three_frames ! 2) (three_frames ! 0)#}"
    "length (groups 2) = 1" by (auto simp: best_of_def second_apart_def simp del: mset_map)
  then have "mset (map unstamped (groups 2)) = {#candidate_of even_matcher ''t'' (three_frames ! 2) (three_frames ! 0)#}"
    by (cases "groups 2") (auto simp: union_is_single)
  then have "map unstamped (groups 2) = [candidate_of even_matcher ''t'' (three_frames ! 2) (three_frames ! 0)]" unfolding mset_single_iff .
  then have "map ca_target_frame_id (map unstamped (groups 2)) = [''a'']" by (simp add: candidate_of_def three_frames_def)
  then have "map ca_target_frame_id (groups 2) = [''a'']" by (simp add: comp_def unstamped_def)
  ultimately show ?thesis using r g(1) by (auto simp: len numeral_2_eq_2)
qed

lemma correspondences_select_witness:
  "\<exists>out. ReconstructCorrespondences (three_frames ! 1) (three_frames ! 0) even_matcher = Inr out \<and> map fc_target_index out = [0, 1] \<and>
    distinct (map fc_target_index out)"
proof -
  have out: "ReconstructCorrespondences (three_frames ! 1) (three_frames ! 0) even_matcher =
      Inr [\<lparr>fc_source_index = 0, fc_target_index = 0, fc_descriptor_distance = 0\<rparr>, \<lparr>fc_source_index = 1, fc_target_index = 1, fc_descriptor_distance = 0\<rparr>]"
    by code_simp
  from correspondences_select [OF this] out show ?thesis by auto
qed

definition engine_setup :: engine_env where
  "engine_setup = \<lparr>ee_lib = reference_json, ee_sort = sort_by_score, ee_version = ''1'', ee_git_commit = ''c''\<rparr>"

lemma engine_setup_simps: "ee_lib engine_setup = reference_json" "ascii (ee_version engine_setup)" "ascii (ee_git_commit engine_setup)"
  by (simp_all add: engine_setup_def)

text \<open>A store with one feature artifact of two points.\<close>

definition feature_doc :: json where
  "feature_doc = JObj [(''count'', JInt 2), (''descriptors'', JArr [JArr [], JArr []]), (''keypoints'', JArr [JObj [], JObj []])]"

definition feature_bytes :: "byte list" where
  "feature_bytes = bytes_of (enc_json feature_doc)"

definition feature_manifest :: json where
  "feature_manifest = JObj [(''artifact_uuid'', JStr (FormatUuid (replicate 16 8))), (''content_hash'', JStr (Sha256Hex feature_bytes)),
     (''type'', JStr ''feature'')]"

definition feature_world :: world where
  "feature_world = empty_world\<lparr>w_payloads := [(Sha256Hex feature_bytes, feature_bytes)],
     w_manifests := [(replicate 16 8, enc_json feature_manifest)]\<rparr>"

definition has_feature :: "world \<Rightarrow> bool" where
  "has_feature w \<longleftrightarrow> calm w \<and> payload_of (Sha256Hex feature_bytes) w = Some feature_bytes \<and>
     manifest_of (replicate 16 8) w = Some (enc_json feature_manifest)"

lemma feature_world_ok: "store_ok feature_world" "has_feature feature_world"
  using calm_empty by (simp_all add: store_ok_def has_feature_def feature_world_def empty_world_def empty_db_def artifact_index_ok_def
      payload_of_def manifest_of_def tbl_get_def calm_def)

lemma has_feature_step [simp]: "has_feature (w_step w) = has_feature w"
  by (simp add: has_feature_def)

lemma reference_parse: "jl_parse reference_json (enc_json d) = Inr d"
  using dec_enc_json [of d "length (enc_json d)" "[]"] by (simp add: reference_json_def)

lemma text_of_bytes: "text_of (bytes_of s) = s"
  by (simp add: text_of_def bytes_of_def comp_def unat_of_char)

lemma read_feature_manifest:
  assumes "has_feature w"
  shows "\<exists>m. ReadManifest reference_json (replicate 16 8) w = (Inr (Some m), w_step w) \<and> am_type m = ''feature'' \<and>
    am_content_hash m = Sha256Hex feature_bytes"
proof -
  have p: "ParseUuid (FormatUuid (replicate 16 8)) = Inr (replicate 16 8)" by (rule format_parse) simp
  have member: "json_member reference_json (JObj kvs) k = map_of kvs k" for kvs k
    by (simp add: json_member_def json_law_simps [OF reference_json_laws] split: option.split)
  have "\<exists>m. manifest_from reference_json feature_manifest = Inr m \<and> am_type m = ''feature'' \<and> am_content_hash m = Sha256Hex feature_bytes"
    by (simp add: manifest_from_def feature_manifest_def member GetRequiredString_def optional_field_def optional_string_def optional_int_def
        producer_from_def json_law_simps [OF reference_json_laws] p)
  with assms show ?thesis
    by (auto simp: ReadManifest_def has_feature_def sbind_def io_call_def lift_w_def calm_def ManifestFromJsonString_def reference_parse)
qed

definition two_points :: "string \<Rightarrow> int \<Rightarrow> MatchingFrameDescriptors" where
  "two_points name t = \<lparr>mf_frame_id = name, mf_timestamp_ns = t, mf_descriptor_type = [],
     mf_keypoints = replicate 2 \<lparr>fk_x = 0, fk_y = 0\<rparr>, mf_descriptors = [[], []]\<rparr>"

lemma load_feature:
  assumes "has_feature w"
  shows "LoadFeatureDescriptors reference_json (replicate 16 8) name t w = (Inr (Some (two_points name t)), w_step (w_step w))"
proof -
  note laws = json_law_simps [OF reference_json_laws]
  have items: "jl_items reference_json (JArr js) = js" for js by (simp add: laws)
  have parse: "jl_parse reference_json (text_of feature_bytes) = Inr feature_doc"
    unfolding feature_bytes_def text_of_bytes by (rule reference_parse)
  have member: "json_value reference_json get feature_doc k d = (case map_of [(''count'', JInt 2), (''descriptors'', JArr [JArr [], JArr []]),
      (''keypoints'', JArr [JObj [], JObj []])] k of None \<Rightarrow> Inr d | Some v \<Rightarrow> get v)" for get :: "json \<Rightarrow> 'x res" and k d
    unfolding feature_doc_def by (rule json_value_obj [OF reference_json_laws])
  have point: "read_keypoint reference_json (JObj []) = Inr \<lparr>fk_x = 0, fk_y = 0\<rparr>"
    by (simp add: read_keypoint_def json_value_obj [OF reference_json_laws])
  have two: "jl_get_int64 reference_json (JInt 2) = Inr 2" by (rule laws(5)) (simp add: int64_ok_def)
  have parsed: "ParseFeaturePayload reference_json feature_bytes name t = Inr (two_points name t)"
    by (simp add: ParseFeaturePayload_def parse member items point two two_points_def numeral_2_eq_2)
  obtain m where m: "ReadManifest reference_json (replicate 16 8) w = (Inr (Some m), w_step w)" "am_type m = ''feature''"
    "am_content_hash m = Sha256Hex feature_bytes" using read_feature_manifest [OF assms] by blast
  have "Get (Sha256Hex feature_bytes) (w_step w) = (Inr (Some feature_bytes), w_step (w_step w))"
    using assms by (simp add: Get_def has_feature_def sbind_def io_call_def lift_w_def calm_def)
  with m parsed show ?thesis by (simp add: LoadFeatureDescriptors_def sbind_def lift_res_def sret_def)
qed

text \<open>A detection over two frames two seconds apart, in a project without candidates.\<close>

definition two_inputs :: "LoopClosureFrameInput list" where
  "two_inputs = [\<lparr>li_frame_id = replicate 16 5, li_timestamp_ns = 0, li_feature_artifact_uuid = replicate 16 8\<rparr>,
     \<lparr>li_frame_id = replicate 16 6, li_timestamp_ns = 2000000000, li_feature_artifact_uuid = replicate 16 8\<rparr>]"

definition feature_state :: import_state where
  "feature_state = tum_scene\<lparr>im_world := feature_world\<rparr>"

lemma two_inputs_load:
  "\<exists>hs w. load_frames reference_json two_inputs feature_world =
    (Inr ([two_points (FormatUuid (replicate 16 5)) 0, two_points (FormatUuid (replicate 16 6)) 2000000000], hs), w) \<and> has_feature w \<and>
    w_random w = w_random empty_world"
proof -
  obtain m1 where m1: "ReadManifest reference_json (replicate 16 8) (w_step (w_step feature_world)) = (Inr (Some m1), w_step (w_step (w_step feature_world)))"
    using read_feature_manifest [of "w_step (w_step feature_world)"] feature_world_ok(2) by auto
  obtain m2 where m2: "ReadManifest reference_json (replicate 16 8) (w_step (w_step (w_step (w_step (w_step feature_world))))) =
      (Inr (Some m2), w_step (w_step (w_step (w_step (w_step (w_step feature_world))))))"
    using read_feature_manifest [of "w_step (w_step (w_step (w_step (w_step feature_world))))"] feature_world_ok(2) by auto
  have l1: "LoadFeatureDescriptors reference_json (replicate 16 8) n t feature_world = (Inr (Some (two_points n t)), w_step (w_step feature_world))" for n t
    by (rule load_feature [OF feature_world_ok(2)])
  have l2: "LoadFeatureDescriptors reference_json (replicate 16 8) n t (w_step (w_step (w_step feature_world))) =
      (Inr (Some (two_points n t)), w_step (w_step (w_step (w_step (w_step feature_world)))))" for n t
    by (rule load_feature) (simp add: feature_world_ok(2))
  have w: "w_random feature_world = w_random empty_world" "w_random (w_step v) = w_random v" for v
    by (simp_all add: feature_world_def w_step_def)
  show ?thesis
    by (simp add: two_inputs_def sbind_def sret_def l1 l2 m1 m2 feature_world_ok(2) w)
qed

lemma detection_returns:
  "\<exists>r s'. DetectLoopClosureCandidates engine_setup (FormatUuid (replicate 16 7)) two_inputs even_matcher second_apart '''' feature_state = (Inr r, s') \<and>
    map ca_source_frame_id (dr_candidates r) = [FormatUuid (replicate 16 6)]"
proof -
  let ?a = "two_points (FormatUuid (replicate 16 5)) 0" and ?b = "two_points (FormatUuid (replicate 16 6)) 2000000000"
  obtain hs w1 where load: "load_frames reference_json two_inputs feature_world = (Inr ([?a, ?b], hs), w1)"
    and w1: "has_feature w1" "w_random w1 = w_random empty_world" using two_inputs_load by blast
  let ?u = "GenerateUuid (w_random w1 (w_tick w1))" and ?w = "w_step (w_step w1)"
  have u: "length ?u = 16" by (rule conjunct1 [OF GenerateUuid_stamped]) (simp add: w1(2) empty_world_def)
  let ?c = "(candidate_of even_matcher (FormatUuid (replicate 16 7)) ?b ?a)\<lparr>ca_candidate_id := FormatUuid ?u, ca_created_at_ns := w_clock (w_step w1) (w_tick (w_step w1))\<rparr>"
  have closes: "filter (closes_loop even_matcher second_apart [?a, ?b] 1) [0..<1] = [0]"
  proof -
    have "\<not> fp_less 1 (0 :: u64)" by code_simp
    then have c: "closes_loop even_matcher second_apart [?a, ?b] 1 0"
      unfolding closes_loop_def by (simp add: second_apart_def even_matcher_def two_points_def)
    have "[0..<1] = [0 :: nat]" by simp
    then show ?thesis by (simp only: filter.simps c if_True)
  qed
  have keep: "keep_of second_apart [x] = 1" for x by (simp add: keep_of_def second_apart_def)
  have gen: "GenerateLoopClosureCandidates sort_by_score [?a, ?b] even_matcher second_apart (FormatUuid (replicate 16 7)) w1 = (Inr [?c], ?w)"
    by (simp add: GenerateLoopClosureCandidates_def source_candidates_def Let_def per_source_closes closes [simplified] sort_by_score_def keep stamp_def new_uuid_def TimestampNsNow_def sbind_def sret_def)
  have parse: "ParseUuid (FormatUuid (replicate 16 n)) = Inr (replicate 16 n)" for n by (rule format_parse) simp
  obtain row where row: "candidate_row (replicate 16 7) ?c = Inr row"
    by (simp add: candidate_row_def candidate_of_def two_points_def parse format_parse [OF u])
  have "insert_candidate row (tables tum_scene) = Some (with_candidates [row] (tables tum_scene))"
    by (simp add: insert_candidate_def tbl_insert_def with_candidates_def stored_candidate_def tum_scene_def demo_import_def open_conn_def
        empty_tables_def Let_def)
  moreover have "runs 2 (im_scene tum_scene)" using tum_scene_simps(2) by (simp add: runs_def free_def)
  ultimately have add: "AddLoopClosureCandidate row (im_scene tum_scene) = (Inr (), ran 2 (with_candidates [row] (tables tum_scene)) (im_scene tum_scene))"
    unfolding AddLoopClosureCandidate_def using insert_runs [where f = "insert_candidate row"] by blast
  have dumps: "\<exists>s. jl_dump (ee_lib engine_setup) j = Inr s" for j using reference_json_dumps by (simp add: engine_setup_def)
  then obtain doc where doc: "jl_dump reference_json (loop_closure_doc [CandidateJson ?c] []) = Inr doc" by (auto simp: engine_setup_def)
  have "calm (w_step ?w)" using w1(1) by (simp add: has_feature_def)
  from Put_returns [OF dumps this] obtain written w' where
    put: "Put reference_json (bytes_of doc) (loop_closure_manifest engine_setup (GenerateUuid (w_random ?w (w_tick ?w))) hs '''') (w_step ?w) = (Inr written, w')"
    by (metis engine_setup_def engine_env.select_convs(1))
  show ?thesis
    by (simp add: DetectLoopClosureCandidates_def engine_setup_def [THEN arg_cong [where f = ee_lib], simplified] feature_state_def
        engine_setup_def [THEN arg_cong [where f = ee_sort], simplified] sbind_def on_store_def load gen lift_res_def parse on_scene_def
        add_candidate_def row add doc new_uuid_def put sret_def) (simp add: candidate_of_def two_points_def)
qed

lemma detection_stores_candidates_witness:
  "\<exists>r s' rows. DetectLoopClosureCandidates engine_setup (FormatUuid (replicate 16 7)) two_inputs even_matcher second_apart '''' feature_state = (Inr r, s') \<and>
    length (dr_candidates r) = 1 \<and> tables s' = with_candidates rows (tables feature_state) \<and>
    stored_as (dr_payload_content_hash r) (dr_payload_artifact_uuid r) (im_world s')"
proof -
  from detection_returns obtain r s' where
    r: "DetectLoopClosureCandidates engine_setup (FormatUuid (replicate 16 7)) two_inputs even_matcher second_apart '''' feature_state = (Inr r, s')"
    "map ca_source_frame_id (dr_candidates r) = [FormatUuid (replicate 16 6)]" by (elim exE conjE)
  have ok: "store_ok (im_world feature_state)" using feature_world_ok(1) by (simp add: feature_state_def)
  from arg_cong [where f = length, OF r(2)] have "length (dr_candidates r) = 1" by simp
  with detection_stores_candidates [OF r(1) ok] r(1) show ?thesis by blast
qed

end
