(* ===== verification/FeatureExtraction.thy ===== *)
theory FeatureExtraction
  imports LoopDetection
begin

text \<open>
  The producer of feature artifacts: engine/pipeline/feature_extraction.cpp with core/scene/feature/feature_set.h. The lemmas
  show that what it writes is what the loader of LoopDetection reads, and that writing again changes nothing.
\<close>

section \<open>Data\<close>

record FeaturePoint =
  ft_x :: u64
  ft_y :: u64
  ft_size :: u64
  ft_angle :: u64
  ft_response :: u64

record WriteFeatureArtifactInput =
  wf_frame_id :: uuid
  wf_detector :: string
  wf_descriptor_type :: string
  wf_keypoints :: "FeaturePoint list"
  wf_descriptors :: "u64 list list"
  wf_input_content_hash :: string
  wf_configuration_hash :: string

record FeatureSet =
  fe_feature_set_id :: uuid
  fe_frame_id :: uuid
  fe_detector :: string
  fe_descriptor_type :: string
  fe_count :: int
  fe_artifact_ref :: uuid

record FeatureExtractionResult =
  fx_feature_set :: FeatureSet
  fx_artifact_uuid :: uuid
  fx_content_hash :: string
  fx_deduplicated :: bool

definition DeriveFeatureSetId :: "uuid \<Rightarrow> string \<Rightarrow> uuid" where
  "DeriveFeatureSetId frame_id content_hash =
     GenerateUuidV5 PlatformIdentityNamespace (''feature_set|'' @ FormatUuid frame_id @ ''|'' @ content_hash)"

section \<open>The payload\<close>

definition KeypointJson :: "FeaturePoint \<Rightarrow> json" where
  "KeypointJson p = JObj [(''angle'', JFloat (ft_angle p)), (''response'', JFloat (ft_response p)), (''size'', JFloat (ft_size p)),
     (''x'', JFloat (ft_x p)), (''y'', JFloat (ft_y p))]"

definition feature_payload_doc :: "WriteFeatureArtifactInput \<Rightarrow> json" where
  "feature_payload_doc input = JObj
     [(''count'', JInt (int (length (wf_keypoints input)))), (''descriptor_type'', JStr (wf_descriptor_type input)),
      (''descriptors'', JArr (map (\<lambda>row. JArr (map JFloat row)) (wf_descriptors input))), (''detector'', JStr (wf_detector input)),
      (''keypoints'', JArr (map KeypointJson (wf_keypoints input))), (''schema_version'', JInt 1)]"

definition feature_artifact_manifest :: "engine_env \<Rightarrow> WriteFeatureArtifactInput \<Rightarrow> ArtifactManifest" where
  "feature_artifact_manifest env input = default_manifest
     \<lparr>am_type := ''feature'', am_schema_version := 1,
      am_producer := \<lparr>pi_id = ''spatial-platform'', pi_version = ee_version env, pi_git_commit = ee_git_commit env\<rparr>,
      am_input_artifact_hashes := [wf_input_content_hash input], am_configuration_hash := wf_configuration_hash input,
      am_coordinate_frame := ''image'', am_unit := ''pixels'', am_mime_type := ''application/json''\<rparr>"

definition WriteFeaturePayload :: "engine_env \<Rightarrow> WriteFeatureArtifactInput \<Rightarrow> ArtifactWriteResult w_op" where
  "WriteFeaturePayload env input =
     (if length (wf_keypoints input) \<noteq> length (wf_descriptors input)
      then sthrow (throw_error kValidationDomain ''feature extraction: keypoints/descriptors length mismatch'')
      else sbind (lift_res (jl_dump (ee_lib env) (feature_payload_doc input))) (\<lambda>payload_text.
        Put (ee_lib env) (bytes_of payload_text) (feature_artifact_manifest env input)))"

section \<open>The writers\<close>

definition no_feature_set :: FeatureSet where
  "no_feature_set = \<lparr>fe_feature_set_id = nil_uuid, fe_frame_id = nil_uuid, fe_detector = [], fe_descriptor_type = [],
     fe_count = 0, fe_artifact_ref = nil_uuid\<rparr>"

definition WriteFeatureArtifactPayload :: "engine_env \<Rightarrow> WriteFeatureArtifactInput \<Rightarrow> FeatureExtractionResult w_op" where
  "WriteFeatureArtifactPayload env input =
     sbind (WriteFeaturePayload env input) (\<lambda>written.
       sret \<lparr>fx_feature_set = no_feature_set, fx_artifact_uuid = wr_artifact_uuid written,
         fx_content_hash = wr_content_hash written, fx_deduplicated = wr_deduplicated written\<rparr>)"

definition recorded_result :: "FeatureSetRow \<Rightarrow> string \<Rightarrow> FeatureExtractionResult res" where
  "recorded_result existing content_hash =
     rbind (ParseUuid (fs_artifact_ref existing)) (\<lambda>ref.
       Inr \<lparr>fx_feature_set = \<lparr>fe_feature_set_id = fs_feature_set_id existing, fe_frame_id = fs_frame_id existing,
             fe_detector = fs_detector existing, fe_descriptor_type = fs_descriptor_type existing, fe_count = fs_count existing,
             fe_artifact_ref = ref\<rparr>,
         fx_artifact_uuid = ref, fx_content_hash = content_hash, fx_deduplicated = True\<rparr>)"

definition feature_set_row :: "WriteFeatureArtifactInput \<Rightarrow> ArtifactWriteResult \<Rightarrow> FeatureSetRow" where
  "feature_set_row input written =
     \<lparr>fs_feature_set_id = DeriveFeatureSetId (wf_frame_id input) (wr_content_hash written), fs_frame_id = wf_frame_id input,
      fs_detector = wf_detector input, fs_descriptor_type = wf_descriptor_type input,
      fs_count = int (length (wf_keypoints input)), fs_artifact_ref = FormatUuid (wr_artifact_uuid written)\<rparr>"

definition new_result :: "FeatureSetRow \<Rightarrow> ArtifactWriteResult \<Rightarrow> FeatureExtractionResult" where
  "new_result row written =
     \<lparr>fx_feature_set = \<lparr>fe_feature_set_id = fs_feature_set_id row, fe_frame_id = fs_frame_id row, fe_detector = fs_detector row,
         fe_descriptor_type = fs_descriptor_type row, fe_count = fs_count row, fe_artifact_ref = wr_artifact_uuid written\<rparr>,
      fx_artifact_uuid = wr_artifact_uuid written, fx_content_hash = wr_content_hash written,
      fx_deduplicated = wr_deduplicated written\<rparr>"

definition WriteFeatureArtifact :: "engine_env \<Rightarrow> WriteFeatureArtifactInput \<Rightarrow> FeatureExtractionResult import_op" where
  "WriteFeatureArtifact env input =
     sbind (on_store (WriteFeaturePayload env input)) (\<lambda>written.
     let row = feature_set_row input written in
     sbind (on_scene (FindFeatureSetsByFrame (wf_frame_id input))) (\<lambda>rows.
       case find (\<lambda>existing. fs_feature_set_id existing = fs_feature_set_id row) rows of
         Some existing \<Rightarrow> lift_res (recorded_result existing (wr_content_hash written))
       | None \<Rightarrow> sbind (on_scene (InsertFeatureSet row)) (\<lambda>_. sret (new_result row written))))"
section \<open>What is written is what is loaded\<close>

definition point_ok :: "FeaturePoint \<Rightarrow> bool" where
  "point_ok p \<longleftrightarrow> list_all finite_double [ft_x p, ft_y p, ft_size p, ft_angle p, ft_response p]"

definition features_ok :: "WriteFeatureArtifactInput \<Rightarrow> bool" where
  "features_ok input \<longleftrightarrow> list_all point_ok (wf_keypoints input) \<and> list_all (list_all finite_double) (wf_descriptors input) \<and>
     list_all ascii [wf_detector input, wf_descriptor_type input, wf_input_content_hash input, wf_configuration_hash input] \<and>
     int64_ok (int (length (wf_keypoints input)))"

definition features_of :: "string \<Rightarrow> int \<Rightarrow> WriteFeatureArtifactInput \<Rightarrow> MatchingFrameDescriptors" where
  "features_of name t input = \<lparr>mf_frame_id = name, mf_timestamp_ns = t, mf_descriptor_type = wf_descriptor_type input,
     mf_keypoints = map (\<lambda>p. \<lparr>fk_x = ft_x p, fk_y = ft_y p\<rparr>) (wf_keypoints input), mf_descriptors = wf_descriptors input\<rparr>"

lemma feature_keys:
  "sorted_wrt (<) [''count'', ''descriptor_type'', ''descriptors'', ''detector'', ''keypoints'', ''schema_version'']"
  "list_all ascii [''count'', ''descriptor_type'', ''descriptors'', ''detector'', ''keypoints'', ''schema_version'']"
  "sorted_wrt (<) [''angle'', ''response'', ''size'', ''x'', ''y'']" "list_all ascii [''angle'', ''response'', ''size'', ''x'', ''y'']"
  by code_simp+

lemma doc_ok_point: "point_ok p \<Longrightarrow> doc_ok (KeypointJson p)"
  unfolding KeypointJson_def doc_ok_obj list.map fst_conv snd_conv
  by (intro conjI feature_keys) (simp add: point_ok_def)

lemma doc_ok_features:
  assumes "features_ok input"
  shows "doc_ok (feature_payload_doc input)"
proof -
  have k: "doc_ok (JArr (map KeypointJson (wf_keypoints input)))"
    using assms by (auto simp: features_ok_def list_all_iff intro: doc_ok_point)
  have d: "doc_ok (JArr (map (\<lambda>row. JArr (map JFloat row)) (wf_descriptors input)))"
    using assms by (auto simp: features_ok_def list_all_iff)
  have one: "int64_ok 1" by (simp add: int64_ok_def)
  show ?thesis
    unfolding feature_payload_doc_def
  proof (rule iffD2 [OF doc_ok_obj], unfold list.map fst_conv snd_conv, intro conjI feature_keys)
  qed (use assms one in \<open>simp add: k d features_ok_def del: doc_ok.simps(6,7)\<close>)
qed

lemma read_written_point: "json_laws lib \<Longrightarrow> read_keypoint lib (KeypointJson p) = Inr \<lparr>fk_x = ft_x p, fk_y = ft_y p\<rparr>"
  by (simp add: read_keypoint_def KeypointJson_def json_value_obj json_law_simps)

lemma read_written_rows:
  assumes "json_laws lib"
  shows "traverse_res (\<lambda>row. traverse_res (jl_get_double lib) (jl_items lib row)) (map (\<lambda>row. JArr (map JFloat row)) rows) = Inr rows"
proof -
  have row: "traverse_res (jl_get_double lib) (jl_items lib (JArr (map JFloat r))) = Inr r" for r
    using traverse_res_map [of r "jl_get_double lib" JFloat "\<lambda>x. x"] by (simp add: json_law_simps [OF assms])
  show ?thesis
    using traverse_res_map [of rows "\<lambda>row. traverse_res (jl_get_double lib) (jl_items lib row)" "\<lambda>row. JArr (map JFloat row)" "\<lambda>r. r"] row
    by simp
qed

lemma payload_parses:
  assumes "json_laws lib" "features_ok input" "length (wf_keypoints input) = length (wf_descriptors input)"
    "jl_dump lib (feature_payload_doc input) = Inr payload"
  shows "ParseFeaturePayload lib (bytes_of payload) name t = Inr (features_of name t input)"
proof -
  have parse: "jl_parse lib (text_of (bytes_of payload)) = Inr (feature_payload_doc input)"
    using json_dump_parse [OF assms(1) doc_ok_features [OF assms(2)]] assms(4) by (auto simp: text_of_bytes)
  let ?at = "\<lambda>k. map_of (case feature_payload_doc input of JObj kvs \<Rightarrow> kvs | _ \<Rightarrow> []) k"
  have member: "json_value lib get (feature_payload_doc input) k d = (case ?at k of None \<Rightarrow> Inr d | Some v \<Rightarrow> get v)"
    for get :: "json \<Rightarrow> 'x res" and k d
    by (simp add: feature_payload_doc_def json_value_obj [OF assms(1)] del: map_of.simps)
  have at: "?at ''count'' = Some (JInt (int (length (wf_keypoints input))))" "?at ''descriptor_type'' = Some (JStr (wf_descriptor_type input))"
    "?at ''keypoints'' = Some (JArr (map KeypointJson (wf_keypoints input)))"
    "?at ''descriptors'' = Some (JArr (map (\<lambda>row. JArr (map JFloat row)) (wf_descriptors input)))"
    by (simp_all add: feature_payload_doc_def)
  have n: "jl_get_int64 lib (JInt (int (length (wf_keypoints input)))) = Inr (int (length (wf_keypoints input)))"
    using assms(2) by (simp add: features_ok_def json_law_simps [OF assms(1)])
  have points: "traverse_res (read_keypoint lib) (map KeypointJson (wf_keypoints input)) =
      Inr (map (\<lambda>p. \<lparr>fk_x = ft_x p, fk_y = ft_y p\<rparr>) (wf_keypoints input))"
    by (rule traverse_res_map) (rule read_written_point [OF assms(1)])
  show ?thesis
    unfolding ParseFeaturePayload_def parse sum.case member at option.case
    by (simp add: n [unfolded assms(3)] points read_written_rows [OF assms(1)] json_law_simps [OF assms(1)] assms(3) features_of_def)
qed

definition env_ok :: "world \<Rightarrow> bool" where
  "env_ok w \<longleftrightarrow> (\<forall>n. length (w_random w n) = 16) \<and> (\<forall>n. ascii (w_iso w n))"

lemma manifest_of_upd [simp]:
  "manifest_of a (w\<lparr>w_db := d\<rparr>) = manifest_of a w"
  "manifest_of a (w\<lparr>w_manifests := tbl_replace fst (b, t) (w_manifests v)\<rparr>) = (if a = b then Some t else manifest_of a v)"
  by (simp_all add: manifest_of_def tbl_simps)

text \<open>The manifest file that a new artifact gets.\<close>

lemma record_instance_manifest:
  assumes "record_instance lib m w = (Inr auid, w')" "am_creation_timestamp m = []" "am_artifact_uuid m = nil_uuid" "env_ok w"
  shows "\<exists>m' t. ascii t \<and> m' = m\<lparr>am_creation_timestamp := t, am_artifact_uuid := auid\<rparr> \<and> length auid = 16 \<and>
    (\<exists>text. ManifestToJsonString lib m' = Inr text \<and> manifest_of auid w' = Some text)"
proof -
  let ?m = "m\<lparr>am_creation_timestamp := w_iso w (w_tick w), am_artifact_uuid := auid\<rparr>" and ?P = "\<lambda>t w. manifest_of auid w = Some t"
  from assms(1,2,3) obtain u1 u2 u3 u4 u5 u6 tx pj now where
    a: "new_uuid (w_step w) = (Inr auid, u2)" and c: "CreateDirectories u2 = (Inr (), u3)"
    and tx: "ManifestToJsonString lib ?m = Inr tx" and t: "WriteManifest auid tx u3 = (Inr (), u4)"
    and n: "TimestampNsNow u4 = (Inr now, u5)" and up: "on_db (UpsertArtifact (index_row ?m pj now)) u5 = (Inr (), u6)"
    and deps: "for_each (\<lambda>input. on_db (RecordDependency input (am_content_hash m) ''input'')) (am_input_artifact_hashes m) u6 = (Inr (), w')"
    by (auto simp: record_instance_def Let_def lift_w_def dest!: sbind_InrD)
  have auid: "length auid = 16"
    using a assms(4) GenerateUuid_stamped [of "w_random w (Suc (w_tick w))"] by (auto simp: new_uuid_def env_ok_def w_step_def)
  have db: "keeps (?P x) (on_db f)" for x and f :: "'x db_op" by (auto simp: keeps_def on_db_def split: prod.split)
  have "?P tx u4" using t by (auto simp: WriteManifest_def CreateDirectories_def sbind_def io_call_def split: if_splits)
  then have "?P tx u6" using n up by (auto simp: TimestampNsNow_def on_db_def split: prod.splits)
  then have "?P tx w'" using keepsD [OF keeps_for_each [OF db]] deps by (metis snd_conv)
  then show ?thesis using auid tx assms(4) by (auto simp: env_ok_def)
qed

lemma Put_new:
  assumes "store_ok w" "payload_of (Sha256Hex payload) w = None" "Put lib payload m w = (Inr r, w')"
  shows "\<exists>v. record_instance lib (m\<lparr>am_content_hash := Sha256Hex payload, am_file_size := int (length payload)\<rparr>) v =
      (Inr (wr_artifact_uuid r), w') \<and> (env_ok w \<longrightarrow> env_ok v) \<and> \<not> wr_deduplicated r"
proof -
  let ?h = "Sha256Hex payload"
  from assms(3) obtain found u where f: "on_db (FindArtifactByHash ?h) w = (Inr found, u)"
    and rest: "(case found of Some row \<Rightarrow> lift_w (Inr \<lparr>wr_content_hash = ?h, wr_artifact_uuid = ar_artifact_id row, wr_deduplicated = True\<rparr>)
        | None \<Rightarrow> sbind (\<lambda>w. if payload_of ?h w = None then WritePayload ?h payload w else (Inr (), w)) (\<lambda>_.
            sbind (record_instance lib (m\<lparr>am_content_hash := ?h, am_file_size := int (length payload)\<rparr>)) (\<lambda>auid.
              lift_w (Inr \<lparr>wr_content_hash = ?h, wr_artifact_uuid = auid, wr_deduplicated = False\<rparr>)))) u = (Inr r, w')"
    by (auto simp: Put_def Let_def dest!: sbind_InrD)
  have "found = None"
  proof (rule ccontr)
    assume "found \<noteq> None"
    then obtain row where "found = Some row" by blast
    from tbl_get_Some [OF Find_result [OF f [unfolded this]]] assms(1,2) show False by (force simp: store_ok_def)
  qed
  with rest obtain v auid where v: "(if payload_of ?h u = None then WritePayload ?h payload u else (Inr (), u)) = (Inr (), v)"
    and rec: "record_instance lib (m\<lparr>am_content_hash := ?h, am_file_size := int (length payload)\<rparr>) v = (Inr auid, w')"
    and r: "r = \<lparr>wr_content_hash = ?h, wr_artifact_uuid = auid, wr_deduplicated = False\<rparr>"
    by (auto simp: lift_w_def dest!: sbind_InrD)
  have "env_ok v" if "env_ok w"
    using that v f by (auto simp: env_ok_def WritePayload_def CreateDirectories_def sbind_def io_call_def on_db_def w_step_def
        split: if_splits prod.splits)
  with rec r show ?thesis by auto
qed

lemma ascii_Sha256Hex: "ascii (Sha256Hex b)"
proof -
  have "list_all ascii xs \<Longrightarrow> ascii (concat xs)" for xs by (induction xs) simp_all
  then show ?thesis by (simp add: Sha256Hex_def list_all_iff ascii_hex_byte)
qed

lemma feature_manifest_sound:
  assumes "features_ok input" "ascii (ee_version env)" "ascii (ee_git_commit env)" "length auid = 16" "ascii t" "int64_ok n"
  shows "manifest_sound ((feature_artifact_manifest env input)\<lparr>am_content_hash := Sha256Hex b, am_file_size := n,
    am_creation_timestamp := t, am_artifact_uuid := auid\<rparr>)"
proof -
  have one: "int64_ok 1" "int64_ok 0" by (simp_all add: int64_ok_def)
  have s: "ascii ''feature''" "ascii ''spatial-platform''" "ascii ''image''" "ascii ''pixels''" "ascii ''application/json''" "ascii ''valid''"
    by code_simp+
  show ?thesis
    using assms one s by (simp add: manifest_sound_def feature_artifact_manifest_def default_manifest_def features_ok_def ascii_Sha256Hex del: ascii_Cons)
qed

text \<open>C22:
  Features with finite coordinates and descriptors, ASCII texts and counts in range (\<open>features_ok\<close>; the stage
  itself refuses none of the others, and a NaN is written as null and then fails on loading), written for the first
  time and with no file operation failing, are found by the artifact's id and loaded with the points and the
  descriptors that were written, bit for bit, whatever the JSON library as long as it keeps its laws.\<close>

theorem written_features_load:
  assumes "json_laws (ee_lib env)" "ascii (ee_version env)" "ascii (ee_git_commit env)" "features_ok input" "store_ok w" "env_ok w"
    "WriteFeatureArtifactPayload env input w = (Inr r, w')" "payload_of (fx_content_hash r) w = None"
    "pred_option (\<lambda>b. int64_ok (int (length b))) (payload_of (fx_content_hash r) w')" "\<forall>n. \<not> w_io_fault w' n"
  shows "fst (LoadFeatureDescriptors (ee_lib env) (fx_artifact_uuid r) name t w') = Inr (Some (features_of name t input))"
proof -
  from assms(7) obtain payload written where len: "length (wf_keypoints input) = length (wf_descriptors input)"
    and dump: "jl_dump (ee_lib env) (feature_payload_doc input) = Inr payload"
    and put: "Put (ee_lib env) (bytes_of payload) (feature_artifact_manifest env input) w = (Inr written, w')"
    and r: "fx_artifact_uuid r = wr_artifact_uuid written" "fx_content_hash r = wr_content_hash written"
    by (auto simp: WriteFeatureArtifactPayload_def WriteFeaturePayload_def lift_res_def sthrow_def sret_def dest!: sbind_InrD split: if_splits)
  let ?b = "bytes_of payload" and ?m = "feature_artifact_manifest env input"
  from Put_result [OF assms(5) put] have h: "wr_content_hash written = Sha256Hex ?b" by blast
  with assms(8) r have fresh: "payload_of (Sha256Hex ?b) w = None" by simp
  with Put_result [OF assms(5) put] have b: "payload_of (Sha256Hex ?b) w' = Some ?b" by blast
  from Put_new [OF assms(5) fresh put] assms(6) obtain v where
    v: "record_instance (ee_lib env) (?m\<lparr>am_content_hash := Sha256Hex ?b, am_file_size := int (length ?b)\<rparr>) v = (Inr (wr_artifact_uuid written), w')"
      "env_ok v" by blast
  from record_instance_manifest [OF v(1) _ _ v(2)] obtain ts m' doc where
    m: "m' = ?m\<lparr>am_content_hash := Sha256Hex ?b, am_file_size := int (length ?b), am_creation_timestamp := ts, am_artifact_uuid := wr_artifact_uuid written\<rparr>"
      "ascii ts" "length (wr_artifact_uuid written) = 16" "ManifestToJsonString (ee_lib env) m' = Inr doc"
      "manifest_of (wr_artifact_uuid written) w' = Some doc"
    by (auto simp: feature_artifact_manifest_def default_manifest_def)
  have "manifest_sound m'"
    unfolding m(1) using assms(2-4,9) m(2,3) b r h by (intro feature_manifest_sound) simp_all
  from manifest_from_doc [OF assms(1) this] json_dump_parse [OF assms(1) doc_ok_manifest [OF this]] m(4)
  have "ManifestFromJsonString (ee_lib env) doc = Inr m'" by (auto simp: ManifestToJsonString_def ManifestFromJsonString_def)
  then have manifest: "ReadManifest (ee_lib env) (wr_artifact_uuid written) w' = (Inr (Some m'), w_step w')"
    using m(5) assms(10) by (simp add: ReadManifest_def sbind_def io_call_def lift_w_def)
  have "Get (Sha256Hex ?b) (w_step w') = (Inr (Some ?b), w_step (w_step w'))"
    using b assms(10) by (simp add: Get_def sbind_def io_call_def lift_w_def)
  moreover have "am_type m' = ''feature''" "am_content_hash m' = Sha256Hex ?b"
    by (simp_all add: m(1) feature_artifact_manifest_def)
  ultimately show ?thesis
    using manifest payload_parses [OF assms(1,4) len dump, of name t] r
    by (simp add: LoadFeatureDescriptors_def sbind_def lift_res_def sret_def)
qed

section \<open>Writing again\<close>

definition reports_row :: "FeatureExtractionResult \<Rightarrow> FeatureSetRow \<Rightarrow> bool" where
  "reports_row r row \<longleftrightarrow> fx_feature_set r = \<lparr>fe_feature_set_id = fs_feature_set_id row, fe_frame_id = fs_frame_id row,
     fe_detector = fs_detector row, fe_descriptor_type = fs_descriptor_type row, fe_count = fs_count row,
     fe_artifact_ref = fx_artifact_uuid r\<rparr>"

lemma WriteFeaturePayload_hash:
  assumes "WriteFeaturePayload env input w = (Inr written, w')"
  shows "\<exists>payload. jl_dump (ee_lib env) (feature_payload_doc input) = Inr payload \<and> wr_content_hash written = Sha256Hex (bytes_of payload)"
  using assms by (auto simp: WriteFeaturePayload_def lift_res_def sthrow_def dest!: sbind_InrD Put_hash split: if_splits)

lemma writer_result:
  assumes "WriteFeatureArtifact env input s = (Inr r, s')"
  shows "\<exists>payload row. jl_dump (ee_lib env) (feature_payload_doc input) = Inr payload \<and> fx_content_hash r = Sha256Hex (bytes_of payload) \<and>
    fs_feature_set_id row = DeriveFeatureSetId (wf_frame_id input) (fx_content_hash r) \<and> fs_frame_id row = wf_frame_id input \<and> reports_row r row \<and>
    (row \<in> set (st_feature_sets (tables s)) \<and> tables s' = tables s \<or>
     fs_feature_set_id row \<notin> fs_feature_set_id ` set (st_feature_sets (tables s)) \<and>
     tables s' = (tables s)\<lparr>st_feature_sets := st_feature_sets (tables s) @ [row]\<rparr> \<and>
     (fs_detector row, fs_descriptor_type row, fs_count row) = (wf_detector input, wf_descriptor_type input, int (length (wf_keypoints input))))"
proof -
  from assms obtain written s1 rows s2 where w: "on_store (WriteFeaturePayload env input) s = (Inr written, s1)"
    and q: "on_scene (FindFeatureSetsByFrame (wf_frame_id input)) s1 = (Inr rows, s2)"
    and rest: "(case find (\<lambda>existing. fs_feature_set_id existing = fs_feature_set_id (feature_set_row input written)) rows of
         Some existing \<Rightarrow> lift_res (recorded_result existing (wr_content_hash written))
       | None \<Rightarrow> sbind (on_scene (InsertFeatureSet (feature_set_row input written))) (\<lambda>_. sret (new_result (feature_set_row input written) written))) s2
       = (Inr r, s')"
    by (auto simp: WriteFeatureArtifact_def Let_def dest!: sbind_InrD)
  let ?row = "feature_set_row input written"
  have t1: "tables s1 = tables s" using on_store_step [OF w] by simp
  from WriteFeaturePayload_hash [of env input "im_world s" written "im_world s1"] on_store_step [OF w] obtain payload where
    p: "jl_dump (ee_lib env) (feature_payload_doc input) = Inr payload" "wr_content_hash written = Sha256Hex (bytes_of payload)" by blast
  from on_scene_step [OF q] have q': "FindFeatureSetsByFrame (wf_frame_id input) (im_scene s1) = (Inr rows, im_scene s2)" by blast
  obtain n where rows: "rows = take n (select_feature_sets (\<lambda>r. fs_frame_id r = wf_frame_id input) (tables s1))"
    and t2: "tables s2 = tables s1"
    by (rule query_rows_take [OF q' [unfolded FindFeatureSetsByFrame_def]])
  show ?thesis
  proof (cases "find (\<lambda>existing. fs_feature_set_id existing = fs_feature_set_id ?row) rows")
    case (Some existing)
    then have e: "existing \<in> set rows" "fs_feature_set_id existing = fs_feature_set_id ?row" by (auto simp: find_Some_iff)
    then have "existing \<in> set (st_feature_sets (tables s))" "fs_frame_id existing = wf_frame_id input"
      using t1 by (auto simp: rows select_feature_sets_def dest: in_set_takeD)
    moreover have "reports_row r existing" "fx_content_hash r = wr_content_hash written" "s' = s2"
      using rest Some by (cases "ParseUuid (fs_artifact_ref existing)"; auto simp: lift_res_def recorded_result_def reports_row_def)+
    ultimately show ?thesis using e(2) p t1 t2 by (auto simp: feature_set_row_def)
  next
    case None
    with rest have ins: "on_scene (InsertFeatureSet ?row) s2 = (Inr (), s')" and r: "r = new_result ?row written"
      by (auto simp: sret_def dest!: sbind_InrD)
    from scene_insert [OF ins [unfolded InsertFeatureSet_def]] t1 t2
    have "insert_feature_set ?row (tables s) = Some (tables s')" by simp
    then show ?thesis using p r
      by (intro exI [of _ payload] exI [of _ ?row])
        (auto simp: insert_feature_set_def tbl_insert_def reports_row_def new_result_def feature_set_row_def split: if_splits)
  qed
qed

text \<open>
  Writing the same features of a frame again changes no table and reports the same feature set under the same content hash, except
  that the artifact it names may be the recorded one; the set's row is in the table.\<close>

theorem writing_features_again:
  assumes "distinct (map fs_feature_set_id (st_feature_sets (tables s)))" "WriteFeatureArtifact env input s = (Inr r, s')"
    "WriteFeatureArtifact env input s' = (Inr r2, s2)"
  shows "tables s2 = tables s' \<and> fx_content_hash r2 = fx_content_hash r \<and>
    fx_feature_set r2 = (fx_feature_set r)\<lparr>fe_artifact_ref := fx_artifact_uuid r2\<rparr> \<and>
    (\<exists>row\<in>set (st_feature_sets (tables s2)). reports_row r row \<and> reports_row r2 row)"
proof -
  from writer_result [OF assms(2)] obtain payload row where row: "jl_dump (ee_lib env) (feature_payload_doc input) = Inr payload"
    "fx_content_hash r = Sha256Hex (bytes_of payload)" "fs_feature_set_id row = DeriveFeatureSetId (wf_frame_id input) (fx_content_hash r)"
    "reports_row r row" "row \<in> set (st_feature_sets (tables s'))" "distinct (map fs_feature_set_id (st_feature_sets (tables s')))"
    using assms(1) by auto
  from writer_result [OF assms(3)] row(1,2,3) obtain row2 where row2: "fx_content_hash r2 = fx_content_hash r"
    "fs_feature_set_id row2 = fs_feature_set_id row" "reports_row r2 row2"
    "row2 \<in> set (st_feature_sets (tables s')) \<and> tables s2 = tables s' \<or> fs_feature_set_id row2 \<notin> fs_feature_set_id ` set (st_feature_sets (tables s'))"
    by auto
  from row2(2,4) row(5) have t: "tables s2 = tables s'" "row2 \<in> set (st_feature_sets (tables s'))" by auto
  with row(5,6) row2(2) have "row2 = row" by (auto simp: distinct_map dest: inj_onD)
  with row(4,5) row2(1,3) t show ?thesis by (auto simp: reports_row_def)
qed

section \<open>Witnesses\<close>

definition one_feature :: WriteFeatureArtifactInput where
  "one_feature = \<lparr>wf_frame_id = replicate 16 5, wf_detector = ''mock'', wf_descriptor_type = ''mock_16'',
     wf_keypoints = [\<lparr>ft_x = 0, ft_y = 0, ft_size = 0, ft_angle = 0, ft_response = 0\<rparr>], wf_descriptors = [[0]],
     wf_input_content_hash = ''h'', wf_configuration_hash = ''c''\<rparr>"

lemma one_feature_ok: "features_ok one_feature" "length (wf_keypoints one_feature) = length (wf_descriptors one_feature)"
  by code_simp+

lemma env_ok_empty: "env_ok empty_world"
  by (simp add: env_ok_def empty_world_def)

lemma nothing_stored: "payload_of h empty_world = None"
  by (simp add: payload_of_def empty_world_def)

lemma one_feature_doc:
  obtains doc where "jl_dump reference_json (feature_payload_doc one_feature) = Inr doc" "int64_ok (int (length (bytes_of doc)))"
proof -
  have "jl_dump reference_json (feature_payload_doc one_feature) = Inr (enc_json (feature_payload_doc one_feature))"
    by (simp add: reference_json_def)
  moreover have "int64_ok (int (length (bytes_of (enc_json (feature_payload_doc one_feature)))))" by code_simp
  ultimately show ?thesis using that by blast
qed

text \<open>The first write into an empty store.\<close>

lemma first_write:
  obtains doc written w' where "jl_dump reference_json (feature_payload_doc one_feature) = Inr doc" "int64_ok (int (length (bytes_of doc)))"
    "WriteFeaturePayload engine_setup one_feature empty_world = (Inr written, w')" "wr_content_hash written = Sha256Hex (bytes_of doc)"
    "payload_of (wr_content_hash written) w' = Some (bytes_of doc)" "calm w'" "length (wr_artifact_uuid written) = 16"
proof -
  obtain doc where doc: "jl_dump reference_json (feature_payload_doc one_feature) = Inr doc" "int64_ok (int (length (bytes_of doc)))"
    by (rule one_feature_doc)
  let ?m = "feature_artifact_manifest engine_setup one_feature"
  from Put_returns [OF reference_json_dumps calm_empty] obtain written w' where
    put: "Put reference_json (bytes_of doc) ?m empty_world = (Inr written, w')" and calm: "calm w'" by blast
  from Put_new [OF store_ok_empty nothing_stored put] obtain v where
    v: "record_instance reference_json (?m\<lparr>am_content_hash := Sha256Hex (bytes_of doc), am_file_size := int (length (bytes_of doc))\<rparr>) v =
      (Inr (wr_artifact_uuid written), w')" "env_ok v" using env_ok_empty by blast
  have "length (wr_artifact_uuid written) = 16"
    using record_instance_manifest [OF v(1) _ _ v(2)] by (auto simp: feature_artifact_manifest_def default_manifest_def)
  moreover have "WriteFeaturePayload engine_setup one_feature empty_world = (Inr written, w')"
    using one_feature_ok(2) doc(1) put by (simp add: WriteFeaturePayload_def engine_setup_simps lift_res_def sbind_def)
  moreover have "payload_of (wr_content_hash written) w' = Some (bytes_of doc)" "wr_content_hash written = Sha256Hex (bytes_of doc)"
    using Put_result [OF store_ok_empty put] nothing_stored by auto
  ultimately show ?thesis using that doc calm by blast
qed

lemma written_features_load_witness:
  "\<exists>r w'. WriteFeatureArtifactPayload engine_setup one_feature empty_world = (Inr r, w') \<and>
    fst (LoadFeatureDescriptors reference_json (fx_artifact_uuid r) ''f'' 7 w') = Inr (Some (features_of ''f'' 7 one_feature))"
proof -
  obtain doc written w' where w: "int64_ok (int (length (bytes_of doc)))" "WriteFeaturePayload engine_setup one_feature empty_world = (Inr written, w')"
    "payload_of (wr_content_hash written) w' = Some (bytes_of doc)" "calm w'" by (rule first_write)
  let ?r = "\<lparr>fx_feature_set = no_feature_set, fx_artifact_uuid = wr_artifact_uuid written,
    fx_content_hash = wr_content_hash written, fx_deduplicated = wr_deduplicated written\<rparr>"
  have run: "WriteFeatureArtifactPayload engine_setup one_feature empty_world = (Inr ?r, w')"
    using w(2) by (simp add: WriteFeatureArtifactPayload_def sbind_def sret_def)
  have "fst (LoadFeatureDescriptors (ee_lib engine_setup) (fx_artifact_uuid ?r) ''f'' 7 w') = Inr (Some (features_of ''f'' 7 one_feature))"
    by (rule written_features_load [OF _ engine_setup_simps(2,3) one_feature_ok(1) store_ok_empty env_ok_empty run])
      (use w(1,3,4) in \<open>simp_all add: engine_setup_simps reference_json_laws nothing_stored calm_def\<close>)
  with run show ?thesis by (auto simp: engine_setup_simps)
qed

lemma first_recording:
  obtains r s' where "WriteFeatureArtifact engine_setup one_feature tum_scene = (Inr r, s')" "calm (im_world s')"
    "free (im_scene s')" "st_feature_sets (tables s') = [feature_set_row one_feature \<lparr>wr_content_hash = fx_content_hash r, wr_artifact_uuid = fx_artifact_uuid r, wr_deduplicated = False\<rparr>]"
    "length (fx_artifact_uuid r) = 16"
    "\<exists>doc. jl_dump reference_json (feature_payload_doc one_feature) = Inr doc \<and> fx_content_hash r = Sha256Hex (bytes_of doc)"
proof -
  obtain doc written w' where w: "jl_dump reference_json (feature_payload_doc one_feature) = Inr doc"
    "WriteFeaturePayload engine_setup one_feature empty_world = (Inr written, w')"
    "wr_content_hash written = Sha256Hex (bytes_of doc)" "calm w'" "length (wr_artifact_uuid written) = 16" by (rule first_write)
  let ?row = "feature_set_row one_feature written"
  have db: "free (im_scene tum_scene)" "st_feature_sets (tables tum_scene) = []"
    using tum_scene_simps(2) by (simp_all add: tum_scene_def demo_import_def open_conn_def empty_tables_def Let_def)
  obtain d where d: "FindFeatureSetsByFrame (replicate 16 5) (im_scene tum_scene) = (Inr [], d)" "tx_tables d = tables tum_scene" "free d"
    using query_rows_healthy [of "im_scene tum_scene" "''cannot prepare find feature sets by frame''"
        "select_feature_sets (\<lambda>r. fs_frame_id r = replicate 16 5)"] db
    by (auto simp: FindFeatureSetsByFrame_def free_def select_feature_sets_def same_mode_def)
  let ?t = "(tables tum_scene)\<lparr>st_feature_sets := [?row]\<rparr>"
  have "InsertFeatureSet ?row d = (Inr (), ran 2 ?t d)"
    unfolding InsertFeatureSet_def using d(2,3) db(2)
    by (intro insert_runs) (auto simp: runs_def free_def insert_feature_set_def tbl_insert_def)
  then have "WriteFeatureArtifact engine_setup one_feature tum_scene =
      (Inr (new_result ?row written), tum_scene\<lparr>im_world := w', im_scene := ran 2 ?t d\<rparr>)"
    using w(2) d(1) by (simp add: WriteFeatureArtifact_def tum_scene_simps(1) on_store_def on_scene_def sbind_def sret_def Let_def
        one_feature_def [THEN arg_cong [where f = wf_frame_id], simplified])
  then show ?thesis
    using w d(3) by (intro that) (auto simp: new_result_def feature_set_row_def free_def ran_def)
qed

lemma writing_features_again_witness:
  "\<exists>r s' r2 s2. WriteFeatureArtifact engine_setup one_feature tum_scene = (Inr r, s') \<and>
    WriteFeatureArtifact engine_setup one_feature s' = (Inr r2, s2) \<and> tables s2 = tables s' \<and> fx_content_hash r2 = fx_content_hash r"
proof -
  obtain r s' where one: "WriteFeatureArtifact engine_setup one_feature tum_scene = (Inr r, s')" "calm (im_world s')" "free (im_scene s')"
    and row: "st_feature_sets (tables s') = [feature_set_row one_feature \<lparr>wr_content_hash = fx_content_hash r, wr_artifact_uuid = fx_artifact_uuid r, wr_deduplicated = False\<rparr>]"
      "length (fx_artifact_uuid r) = 16"
    and doc: "\<exists>doc. jl_dump reference_json (feature_payload_doc one_feature) = Inr doc \<and> fx_content_hash r = Sha256Hex (bytes_of doc)"
    by (rule first_recording)
  let ?row = "\<lambda>w. feature_set_row one_feature w"
  from doc obtain doc where doc: "jl_dump reference_json (feature_payload_doc one_feature) = Inr doc" "fx_content_hash r = Sha256Hex (bytes_of doc)" by blast
  from Put_returns [OF reference_json_dumps one(2)] obtain written w2 where
    put: "Put reference_json (bytes_of doc) (feature_artifact_manifest engine_setup one_feature) (im_world s') = (Inr written, w2)" by blast
  then have h: "wr_content_hash written = fx_content_hash r" using Put_hash doc(2) by simp
  have w: "WriteFeaturePayload engine_setup one_feature (im_world s') = (Inr written, w2)"
    using one_feature_ok(2) doc(1) put by (simp add: WriteFeaturePayload_def engine_setup_simps lift_res_def sbind_def)
  let ?e = "?row \<lparr>wr_content_hash = fx_content_hash r, wr_artifact_uuid = fx_artifact_uuid r, wr_deduplicated = False\<rparr>"
  have frame: "fs_frame_id ?e = wf_frame_id one_feature" by (simp add: feature_set_row_def)
  obtain d where d: "FindFeatureSetsByFrame (wf_frame_id one_feature) (im_scene s') = (Inr [?e], d)"
    using query_rows_healthy [of "im_scene s'" "''cannot prepare find feature sets by frame''"
        "select_feature_sets (\<lambda>r. fs_frame_id r = wf_frame_id one_feature)"] one(3) row(1) frame
    by (auto simp: FindFeatureSetsByFrame_def free_def select_feature_sets_def)
  have "fs_feature_set_id ?e = fs_feature_set_id (?row written)" using h by (simp add: feature_set_row_def)
  moreover obtain r2 where "recorded_result ?e (wr_content_hash written) = Inr r2"
    using format_parse [OF row(2)] by (simp add: recorded_result_def feature_set_row_def)
  ultimately have two: "\<exists>r2 s2. WriteFeatureArtifact engine_setup one_feature s' = (Inr r2, s2)"
    using w d by (simp add: WriteFeatureArtifact_def on_store_def on_scene_def sbind_def lift_res_def Let_def)
  then obtain r2 s2 where two: "WriteFeatureArtifact engine_setup one_feature s' = (Inr r2, s2)" by blast
  have "st_feature_sets (tables tum_scene) = []" by (simp add: tum_scene_def demo_import_def open_conn_def empty_tables_def Let_def)
  then have "distinct (map fs_feature_set_id (st_feature_sets (tables tum_scene)))" by simp
  from writing_features_again [OF this one(1) two] one(1) two show ?thesis by blast
qed


end
