(* ===== verification/PoseGraphs.thy ===== *)
theory PoseGraphs
  imports LoopDetection
begin

text \<open>
  Pose graphs and metric loop closures: core/trajectory/metric_basis.h, loop_closure.h, pose_graph.h and
  pose_graph_helpers.h, core/geometry/se3.h and direction_math.h, and the stage
  engine/pipeline/loop_closure_to_pose_graph.cpp. Quaternions and matrices are Eigen's and arguments here, like the
  arithmetic of \<open>double\<close>; a vector is the list of its components. The lemmas show what a graph's nodes and edges are, which closures
  become an edge, and that only a declared metric basis lets one.
\<close>

section \<open>Data\<close>

record BackendInfo =
  bi_name :: string
  bi_version :: string
  bi_adapter_version :: string

record ReconstructionProvenance =
  rp_backend :: BackendInfo
  rp_configuration_hash :: string
  rp_input_artifact_hashes :: "string list"
  rp_engine_version :: string
  rp_engine_commit :: string
  rp_git_commit :: string
  rp_started_at_ns :: int
  rp_finished_at_ns :: int
  rp_duration_ns :: int
  rp_backend_specific_json :: string

datatype MetricBasisType = kOdometryScale | kCalibratedBaseline | kSfmMetricAligned | kGroundTruth
datatype MetricBasisSource = kTrajectory | kReconstruction | kCombined

fun MetricBasisTypeName :: "MetricBasisType \<Rightarrow> string" where
  "MetricBasisTypeName kOdometryScale = ''odometry_scale''"
| "MetricBasisTypeName kCalibratedBaseline = ''calibrated_baseline''"
| "MetricBasisTypeName kSfmMetricAligned = ''sfm_metric_aligned''"
| "MetricBasisTypeName kGroundTruth = ''ground_truth''"

fun MetricBasisSourceName :: "MetricBasisSource \<Rightarrow> string" where
  "MetricBasisSourceName kTrajectory = ''trajectory''"
| "MetricBasisSourceName kReconstruction = ''reconstruction''"
| "MetricBasisSourceName kCombined = ''combined''"

record MetricBasis =
  mb_declared :: bool
  mb_source :: MetricBasisSource
  mb_basis :: MetricBasisType
  mb_provenance :: ReconstructionProvenance
  mb_scale_calibration_ref :: string

definition ValidateMetricBasis :: "MetricBasis \<Rightarrow> bool \<times> string" where
  "ValidateMetricBasis mb =
     (if \<not> mb_declared mb then (True, ''undeclared'')
      else if mb_scale_calibration_ref mb = [] then (False, ''declared metric basis missing scale_calibration_ref'')
      else if rp_configuration_hash (mb_provenance mb) = []
      then (False, ''declared metric basis missing provenance.configuration_hash'')
      else (True, ''metric''))"

definition MetricEligibleTrajectoryBasis :: "MetricBasis \<Rightarrow> bool" where
  "MetricEligibleTrajectoryBasis mb \<longleftrightarrow> mb_declared mb \<and> fst (ValidateMetricBasis mb)"

record LoopClosure =
  cl_closure_id :: string
  cl_trajectory_id :: string
  cl_candidate_id :: string
  cl_source_frame_id :: string
  cl_target_frame_id :: string
  cl_status :: string
  cl_inlier_ratio :: u64
  cl_inlier_count :: int
  cl_confidence :: u64
  cl_temporal_separation_ns :: int
  cl_spatial_separation_m :: u64
  cl_has_relative_pose :: bool
  cl_relative_position_xyz :: "u64 list"
  cl_relative_rotation_xyzw :: "u64 list"
  cl_geometric_residual :: u64
  cl_created_at_ns :: int
  cl_provenance :: ReconstructionProvenance

record PoseGraphNode =
  gn_node_id :: int
  gn_frame_id :: string
  gn_timestamp_ns :: int

record PoseGraphEdge =
  ge_edge_id :: int
  ge_type :: string
  ge_source_node_id :: int
  ge_target_node_id :: int
  ge_relative_position_xyz :: "u64 list"
  ge_relative_rotation_xyzw :: "u64 list"
  ge_information_matrix_6x6 :: "u64 list"
  ge_confidence :: u64
  ge_source :: string
  ge_configuration_hash :: string

record PoseGraph =
  gr_graph_id :: string
  gr_trajectory_id :: string
  gr_scene_id :: string
  gr_status :: string
  gr_node_count :: int
  gr_edge_count :: int
  gr_odometry_edge_count :: int
  gr_loop_closure_edge_count :: int
  gr_prior_edge_count :: int
  gr_created_at_ns :: int
  gr_provenance :: ReconstructionProvenance

record TrajectoryUncertainty =
  tu_mean_position_uncertainty_m :: u64
  tu_max_position_uncertainty_m :: u64
  tu_mean_rotation_uncertainty_rad :: u64
  tu_max_rotation_uncertainty_rad :: u64
  tu_loop_closure_density :: u64

record Trajectory =
  ty_trajectory_id :: string
  ty_scene_id :: string
  ty_session_id :: string
  ty_kind :: string
  ty_coordinate_frame :: string
  ty_status :: string
  ty_created_at_ns :: int
  ty_node_count :: int
  ty_total_distance_m :: u64
  ty_total_duration_ns :: u64
  ty_uncertainty :: TrajectoryUncertainty
  ty_provenance :: ReconstructionProvenance
  ty_metric_basis :: MetricBasis

definition no_backend :: BackendInfo where
  "no_backend = \<lparr>bi_name = [], bi_version = [], bi_adapter_version = []\<rparr>"

definition no_provenance :: ReconstructionProvenance where
  "no_provenance = \<lparr>rp_backend = no_backend, rp_configuration_hash = [], rp_input_artifact_hashes = [], rp_engine_version = [],
     rp_engine_commit = [], rp_git_commit = [], rp_started_at_ns = 0, rp_finished_at_ns = 0, rp_duration_ns = 0, rp_backend_specific_json = []\<rparr>"

section \<open>Poses\<close>

text \<open>
  \<open>one\<close> is 1.0. Of Eigen: quaternions with \<open>normalized\<close>, \<open>inverse\<close>, product and rotation of a vector; the
  test \<open>isApprox\<close> of a 6 by 6 matrix with its transpose, and its determinant.
\<close>

record 'q pose_math =
  pm_fp :: arith
  pm_quaternion :: "u64 \<Rightarrow> u64 \<Rightarrow> u64 \<Rightarrow> u64 \<Rightarrow> 'q"
  pm_xyzw :: "'q \<Rightarrow> u64 list"
  pm_normalized :: "'q \<Rightarrow> 'q"
  pm_inverse :: "'q \<Rightarrow> 'q"
  pm_times :: "'q \<Rightarrow> 'q \<Rightarrow> 'q"
  pm_rotate :: "'q \<Rightarrow> u64 list \<Rightarrow> u64 list"
  pm_symmetric :: "u64 list \<Rightarrow> bool"
  pm_determinant :: "u64 list \<Rightarrow> u64"

definition fp_negate :: "u64 \<Rightarrow> u64" where
  "fp_negate d = d XOR 9223372036854775808"

definition one :: "'q pose_math \<Rightarrow> u64" where
  "one pm = fa_ratio (pm_fp pm) 1 1"

definition vec_add :: "arith \<Rightarrow> u64 list \<Rightarrow> u64 list \<Rightarrow> u64 list" where
  "vec_add fp a b = map2 (fa_add fp) a b"

definition vec_sub :: "arith \<Rightarrow> u64 list \<Rightarrow> u64 list \<Rightarrow> u64 list" where
  "vec_sub fp a b = map2 (fa_sub fp) a b"

definition Dot3 :: "arith \<Rightarrow> u64 list \<Rightarrow> u64 list \<Rightarrow> u64" where
  "Dot3 fp a b = fa_add fp (fa_add fp (fa_mul fp (a ! 0) (b ! 0)) (fa_mul fp (a ! 1) (b ! 1))) (fa_mul fp (a ! 2) (b ! 2))"

definition Norm3 :: "arith \<Rightarrow> u64 list \<Rightarrow> u64" where
  "Norm3 fp a = fa_sqrt fp (Dot3 fp a a)"

record 'q SE3 =
  se_rotation :: 'q
  se_translation :: "u64 list"

definition SE3_Inverse :: "'q pose_math \<Rightarrow> 'q SE3 \<Rightarrow> 'q SE3" where
  "SE3_Inverse pm t = \<lparr>se_rotation = pm_inverse pm (se_rotation t),
     se_translation = map fp_negate (pm_rotate pm (pm_inverse pm (se_rotation t)) (se_translation t))\<rparr>"

definition SE3_times :: "'q pose_math \<Rightarrow> 'q SE3 \<Rightarrow> 'q SE3 \<Rightarrow> 'q SE3" where
  "SE3_times pm a b = \<lparr>se_rotation = pm_times pm (se_rotation a) (se_rotation b),
     se_translation = vec_add (pm_fp pm) (pm_rotate pm (se_rotation a) (se_translation b)) (se_translation a)\<rparr>"

definition MakeCameraPose :: "'q pose_math \<Rightarrow> u64 list \<Rightarrow> u64 list \<Rightarrow> 'q SE3" where
  "MakeCameraPose pm position_xyz rotation_xyzw =
     \<lparr>se_rotation = pm_normalized pm (pm_quaternion pm (rotation_xyzw ! 0) (rotation_xyzw ! 1) (rotation_xyzw ! 2) (rotation_xyzw ! 3)),
      se_translation = position_xyz\<rparr>"

definition PoseFromNode :: "'q pose_math \<Rightarrow> TrajectoryPoseNode \<Rightarrow> 'q SE3" where
  "PoseFromNode pm n = MakeCameraPose pm (tn_position_xyz n) (tn_rotation_xyzw n)"

definition RelativePoseBetween :: "'q pose_math \<Rightarrow> TrajectoryPoseNode \<Rightarrow> TrajectoryPoseNode \<Rightarrow> u64 list \<times> u64 list" where
  "RelativePoseBetween pm a b =
     (let ab = SE3_times pm (SE3_Inverse pm (PoseFromNode pm a)) (PoseFromNode pm b) in
      (se_translation ab, pm_xyzw pm (se_rotation ab)))"

definition PositionDistance :: "arith \<Rightarrow> TrajectoryPoseNode \<Rightarrow> TrajectoryPoseNode \<Rightarrow> u64" where
  "PositionDistance fp a b = (let d = vec_sub fp (tn_position_xyz a) (tn_position_xyz b) in fa_sqrt fp (Dot3 fp d d))"

section \<open>Information matrices\<close>

definition ValidateInformationMatrix :: "'q pose_math \<Rightarrow> u64 list \<Rightarrow> bool \<times> string" where
  "ValidateInformationMatrix pm info =
     (if \<not> list_all finite_double info then (False, ''non-finite entry'')
      else if \<not> pm_symmetric pm info then (False, ''not symmetric'')
      else if list_ex (\<lambda>i. fp_less (info ! (i * 6 + i)) (fa_ratio (pm_fp pm) 1 1000000000)) [0..<6] then (False, ''zero/negative diagonal'')
      else if \<not> fp_less 0 (pm_determinant pm info) \<or> \<not> finite_double (pm_determinant pm info)
      then (False, ''not positive definite / singular'')
      else (True, []))"

definition diagonal6 :: "u64 \<Rightarrow> u64 \<Rightarrow> u64 list" where
  "diagonal6 p r = map (\<lambda>i. if i div 6 \<noteq> i mod 6 then 0 else if i div 6 < 3 then p else r) [0..<36]"

definition MakeIsotropicInfo6 :: "u64 \<Rightarrow> u64 \<Rightarrow> u64 list" where
  "MakeIsotropicInfo6 position_scale rotation_scale = diagonal6 position_scale rotation_scale"

definition clamp01 :: "'q pose_math \<Rightarrow> u64 \<Rightarrow> u64" where
  "clamp01 pm v = (if fp_less v 0 then 0 else if fp_less (one pm) v then one pm else v)"

definition MakeDeterministicLoopInfo6 :: "'q pose_math \<Rightarrow> u64 \<Rightarrow> int \<Rightarrow> u64 \<Rightarrow> u64 \<Rightarrow> u64 \<Rightarrow> u64 list" where
  "MakeDeterministicLoopInfo6 pm inlier_ratio inlier_count geometric_residual cos_theta baseline_m =
     (let fp = pm_fp pm;
          c = clamp01 pm (fa_div fp inlier_ratio (fa_ratio fp 6 10));
          n = clamp01 pm (fa_div fp (fa_of_int fp (inlier_count - 15)) (fa_ratio fp 25 1));
          res = clamp01 pm (fa_sub fp (one pm) (fa_div fp geometric_residual (fa_ratio fp 2 1)));
          align = clamp01 pm (fa_div fp cos_theta (fa_ratio fp 5 10));
          q0 = fa_mul fp (fa_mul fp (fa_mul fp c n) res) align;
          q = (if fp_less q0 (fa_ratio fp 1 100) then fa_ratio fp 1 100 else q0);
          sigma_t = fa_mul fp baseline_m (fa_div fp (fa_ratio fp 25 100) q);
          sigma_r = fa_mul fp (fa_ratio fp 5 100) (fa_div fp (one pm) q)
      in diagonal6 (fa_div fp (one pm) (fa_mul fp sigma_t sigma_t)) (fa_div fp (one pm) (fa_mul fp sigma_r sigma_r)))"
section \<open>Assembly\<close>

record PoseGraphAssemblerOptions =
  ao_odometry_confidence :: u64
  ao_odometry_info_position :: u64
  ao_odometry_info_rotation :: u64
  ao_odometry_source :: string

record PoseGraphAssembly =
  pa_graph :: PoseGraph
  pa_graph_nodes :: "PoseGraphNode list"
  pa_graph_edges :: "PoseGraphEdge list"

definition default_assembler :: "arith \<Rightarrow> PoseGraphAssemblerOptions" where
  "default_assembler fp = \<lparr>ao_odometry_confidence = fa_ratio fp 95 100, ao_odometry_info_position = fa_ratio fp 100 1,
     ao_odometry_info_rotation = fa_ratio fp 100 1, ao_odometry_source = ''visual_odometry''\<rparr>"

fun graph_nodes_from :: "int \<Rightarrow> TrajectoryPoseNode list \<Rightarrow> PoseGraphNode list" where
  "graph_nodes_from i [] = []"
| "graph_nodes_from i (n # ns) =
     \<lparr>gn_node_id = i, gn_frame_id = tn_frame_id n, gn_timestamp_ns = tn_timestamp_ns n\<rparr> # graph_nodes_from (i + 1) ns"

definition odometry_edge :: "'q pose_math \<Rightarrow> PoseGraphAssemblerOptions \<Rightarrow> int \<Rightarrow> TrajectoryPoseNode \<Rightarrow> TrajectoryPoseNode \<Rightarrow>
    PoseGraphEdge" where
  "odometry_edge pm opts i a b = (let rel = RelativePoseBetween pm a b in
     \<lparr>ge_edge_id = i, ge_type = ''odometry'', ge_source_node_id = i, ge_target_node_id = i + 1,
      ge_relative_position_xyz = fst rel, ge_relative_rotation_xyzw = snd rel,
      ge_information_matrix_6x6 = MakeIsotropicInfo6 (ao_odometry_info_position opts) (ao_odometry_info_rotation opts),
      ge_confidence = ao_odometry_confidence opts, ge_source = ao_odometry_source opts, ge_configuration_hash = []\<rparr>)"

fun odometry_edges_from :: "'q pose_math \<Rightarrow> PoseGraphAssemblerOptions \<Rightarrow> int \<Rightarrow> TrajectoryPoseNode list \<Rightarrow> PoseGraphEdge list" where
  "odometry_edges_from pm opts i (a # b # ns) = odometry_edge pm opts i a b # odometry_edges_from pm opts (i + 1) (b # ns)"
| "odometry_edges_from pm opts i ns = []"

definition AssemblePoseGraph :: "'q pose_math \<Rightarrow> Trajectory \<Rightarrow> TrajectoryPoseNode list \<Rightarrow> PoseGraphAssemblerOptions \<Rightarrow> PoseGraphAssembly" where
  "AssemblePoseGraph pm trajectory nodes opts =
     (let edges = odometry_edges_from pm opts 0 nodes in
      \<lparr>pa_graph = \<lparr>gr_graph_id = [], gr_trajectory_id = ty_trajectory_id trajectory, gr_scene_id = ty_scene_id trajectory,
         gr_status = ''ready'', gr_node_count = int (length nodes), gr_edge_count = int (length edges),
         gr_odometry_edge_count = int (length edges), gr_loop_closure_edge_count = 0, gr_prior_edge_count = 0,
         gr_created_at_ns = ty_created_at_ns trajectory, gr_provenance = no_provenance\<rparr>,
       pa_graph_nodes = graph_nodes_from 0 nodes, pa_graph_edges = edges\<rparr>)"

section \<open>Candidates from poses alone\<close>

record LoopClosurePipelineOptions =
  lp_minimum_temporal_separation_ns :: int
  lp_candidate_min_match_score :: u64
  lp_verify_min_inlier_ratio :: u64
  lp_verify_min_inlier_count :: int
  lp_verify_min_confidence :: u64
  lp_false_positive_spatial_tolerance_m :: u64
  lp_matcher :: string

definition DetectCandidates :: "arith \<Rightarrow> Trajectory \<Rightarrow> TrajectoryPoseNode list \<Rightarrow> LoopClosurePipelineOptions \<Rightarrow> LoopClosureCandidate list" where
  "DetectCandidates fp trajectory nodes opts = concat (map (\<lambda>i. List.map_filter (\<lambda>j.
     if tn_timestamp_ns (nodes ! i) - tn_timestamp_ns (nodes ! j) < lp_minimum_temporal_separation_ns opts then None
     else Some \<lparr>ca_candidate_id = [], ca_trajectory_id = ty_trajectory_id trajectory, ca_source_frame_id = tn_frame_id (nodes ! i),
       ca_target_frame_id = tn_frame_id (nodes ! j),
       ca_feature_match_score = fa_add fp (lp_candidate_min_match_score opts) (fa_of_int fp (int (i - j))),
       ca_matcher = lp_matcher opts, ca_created_at_ns = 0\<rparr>) [0..<i]) [1..<length nodes])"

text \<open>The last node of a frame: the loops over the nodes keep the last match.\<close>

definition node_of :: "TrajectoryPoseNode list \<Rightarrow> string \<Rightarrow> TrajectoryPoseNode option" where
  "node_of nodes frame = List.find (\<lambda>n. tn_frame_id n = frame) (rev nodes)"

definition index_of_frame :: "TrajectoryPoseNode list \<Rightarrow> string \<Rightarrow> int" where
  "index_of_frame nodes frame = (case List.find (\<lambda>i. tn_frame_id (nodes ! i) = frame) (rev [0..<length nodes]) of
     None \<Rightarrow> - 1 | Some i \<Rightarrow> int i)"

definition empty_closure :: "'q pose_math \<Rightarrow> LoopClosure" where
  "empty_closure pm = \<lparr>cl_closure_id = [], cl_trajectory_id = [], cl_candidate_id = [], cl_source_frame_id = [],
     cl_target_frame_id = [], cl_status = [], cl_inlier_ratio = 0, cl_inlier_count = 0, cl_confidence = 0,
     cl_temporal_separation_ns = 0, cl_spatial_separation_m = 0, cl_has_relative_pose = False,
     cl_relative_position_xyz = [0, 0, 0], cl_relative_rotation_xyzw = [0, 0, 0, one pm], cl_geometric_residual = 0,
     cl_created_at_ns = 0, cl_provenance = no_provenance\<rparr>"

definition VerifyCandidate :: "'q pose_math \<Rightarrow> LoopClosureCandidate \<Rightarrow> TrajectoryPoseNode list \<Rightarrow> LoopClosurePipelineOptions \<Rightarrow> LoopClosure" where
  "VerifyCandidate pm candidate nodes opts =
     (let fp = pm_fp pm;
          lc = (empty_closure pm)\<lparr>cl_trajectory_id := ca_trajectory_id candidate, cl_candidate_id := ca_candidate_id candidate,
            cl_source_frame_id := ca_source_frame_id candidate, cl_target_frame_id := ca_target_frame_id candidate\<rparr> in
      case (node_of nodes (ca_source_frame_id candidate), node_of nodes (ca_target_frame_id candidate)) of
        (Some source, Some target) \<Rightarrow>
          let lc = lc\<lparr>cl_temporal_separation_ns := tn_timestamp_ns source - tn_timestamp_ns target,
                      cl_spatial_separation_m := PositionDistance fp source target\<rparr> in
          if cl_temporal_separation_ns lc < lp_minimum_temporal_separation_ns opts then lc\<lparr>cl_status := ''rejected''\<rparr>
          else if fp_less (lp_false_positive_spatial_tolerance_m opts) (cl_spatial_separation_m lc) then lc\<lparr>cl_status := ''rejected''\<rparr>
          else
            let score = ca_feature_match_score candidate;
                n = fa_to_int fp (fa_mul fp score (fa_ratio fp 8 1));
                ratio = (if fp_le (lp_candidate_min_match_score opts) score then fa_ratio fp 92 100 else fa_ratio fp 20 100);
                sum = fa_add fp ratio (fa_ratio fp 5 100);
                lc = lc\<lparr>cl_inlier_count := n, cl_inlier_ratio := ratio, cl_confidence := (if fp_less sum (one pm) then sum else one pm)\<rparr> in
            if fp_less ratio (lp_verify_min_inlier_ratio opts) \<or> n < lp_verify_min_inlier_count opts \<or>
               fp_less (cl_confidence lc) (lp_verify_min_confidence opts)
            then lc\<lparr>cl_status := ''rejected''\<rparr> else lc\<lparr>cl_status := ''accepted''\<rparr>
      | _ \<Rightarrow> lc\<lparr>cl_status := ''rejected''\<rparr>)"

section \<open>Metric edges\<close>

record MetricLoopClosureMeasurement =
  lm_position_cs :: "u64 list"
  lm_rotation_cst :: "u64 list"
  lm_geometric_residual :: u64

definition tiny :: "arith \<Rightarrow> u64" where
  "tiny fp = fa_ratio fp 1 1000000000"

text \<open>The cosine of the angle between the rotated translation and the trajectory's step, 0 for a translation that vanishes.\<close>

definition direction_cos :: "arith \<Rightarrow> u64 list \<Rightarrow> u64 list \<Rightarrow> u64 \<Rightarrow> u64" where
  "direction_cos fp t_W delta baseline =
     (let norm = Norm3 fp t_W; delta_hat = map (\<lambda>i. fa_div fp (delta ! i) baseline) [0..<3] in
      if fp_less (fa_ratio fp 1 1000000000000) norm then Dot3 fp (map (\<lambda>i. fa_div fp (t_W ! i) norm) [0..<3]) delta_hat else 0)"

definition BuildMetricLoopClosureEdge :: "'q pose_math \<Rightarrow> LoopClosure \<Rightarrow> TrajectoryPoseNode list \<Rightarrow> MetricLoopClosureMeasurement \<Rightarrow>
    int \<Rightarrow> string \<Rightarrow> MetricBasis \<Rightarrow> PoseGraphEdge option" where
  "BuildMetricLoopClosureEdge pm lc nodes measurement edge_id configuration_hash basis =
     (let fp = pm_fp pm; source = index_of_frame nodes (cl_source_frame_id lc); target = index_of_frame nodes (cl_target_frame_id lc);
          s = nodes ! nat source; t = nodes ! nat target in
      if cl_status lc \<noteq> ''accepted'' then None
      else if cl_source_frame_id lc = cl_target_frame_id lc then None
      else if \<not> MetricEligibleTrajectoryBasis basis then None
      else if source < 0 \<or> target < 0 then None
      else
        let delta = vec_sub fp (tn_position_xyz t) (tn_position_xyz s); baseline = Norm3 fp delta in
        if fp_le (Norm3 fp (lm_position_cs measurement)) (tiny fp) then None
        else if fp_le baseline (tiny fp) then None
        else
          let t_W = pm_rotate pm (se_rotation (MakeCameraPose pm (tn_position_xyz s) (tn_rotation_xyzw s))) (lm_position_cs measurement);
              cos_theta = direction_cos fp t_W delta baseline in
          if fp_less cos_theta (fa_ratio fp 5 10) then None
          else
            let info = MakeDeterministicLoopInfo6 pm (cl_inlier_ratio lc) (cl_inlier_count lc) (lm_geometric_residual measurement)
                  cos_theta baseline in
            if \<not> fst (ValidateInformationMatrix pm info) then None
            else Some \<lparr>ge_edge_id = edge_id, ge_type = ''loop_closure'', ge_source_node_id = source, ge_target_node_id = target,
              ge_relative_position_xyz = lm_position_cs measurement, ge_relative_rotation_xyzw = lm_rotation_cst measurement,
              ge_information_matrix_6x6 = info, ge_confidence = cl_confidence lc, ge_source = ''loop_closure_verifier'',
              ge_configuration_hash = configuration_hash\<rparr>)"

definition ResolveMetricTranslationFromUnitDirection :: "'q pose_math \<Rightarrow> LoopClosure \<Rightarrow> TrajectoryPoseNode list \<Rightarrow> u64 list \<Rightarrow> u64 list \<Rightarrow>
    u64 \<Rightarrow> MetricLoopClosureMeasurement option" where
  "ResolveMetricTranslationFromUnitDirection pm lc nodes t_direction_cs rotation_cst geometric_residual =
     (let fp = pm_fp pm; source = index_of_frame nodes (cl_source_frame_id lc); target = index_of_frame nodes (cl_target_frame_id lc);
          s = nodes ! nat source; t = nodes ! nat target in
      if cl_status lc \<noteq> ''accepted'' then None
      else if cl_source_frame_id lc = cl_target_frame_id lc then None
      else if source < 0 \<or> target < 0 then None
      else
        let delta = vec_sub fp (tn_position_xyz t) (tn_position_xyz s); baseline = Norm3 fp delta in
        if fp_le (Norm3 fp t_direction_cs) (tiny fp) then None
        else if fp_le baseline (tiny fp) then None
        else
          let t_W = pm_rotate pm (se_rotation (MakeCameraPose pm (tn_position_xyz s) (tn_rotation_xyzw s))) t_direction_cs;
              lambda = Dot3 fp t_W delta in
          if fp_less (direction_cos fp t_W delta baseline) (fa_ratio fp 5 10) then None
          else if \<not> fp_less 0 lambda then None
          else Some \<lparr>lm_position_cs = map (\<lambda>i. fa_mul fp lambda (t_direction_cs ! i)) [0..<3], lm_rotation_cst = rotation_cst,
            lm_geometric_residual = geometric_residual\<rparr>)"

definition BuildLoopClosureEdge :: "'q pose_math \<Rightarrow> LoopClosure \<Rightarrow> TrajectoryPoseNode list \<Rightarrow> int \<Rightarrow> string \<Rightarrow> u64 \<Rightarrow> u64 \<Rightarrow> PoseGraphEdge option" where
  "BuildLoopClosureEdge pm lc nodes edge_id configuration_hash info_position_scale info_rotation_scale =
     (let source = index_of_frame nodes (cl_source_frame_id lc); target = index_of_frame nodes (cl_target_frame_id lc);
          info = MakeIsotropicInfo6 info_position_scale info_rotation_scale in
      if cl_status lc \<noteq> ''accepted'' then None
      else if source < 0 \<or> target < 0 then None
      else if \<not> fst (ValidateInformationMatrix pm info) then None
      else Some \<lparr>ge_edge_id = edge_id, ge_type = ''loop_closure'', ge_source_node_id = source, ge_target_node_id = target,
        ge_relative_position_xyz = [0, 0, 0], ge_relative_rotation_xyzw = [0, 0, 0, one pm], ge_information_matrix_6x6 = info,
        ge_confidence = cl_confidence lc, ge_source = ''loop_closure_verifier'', ge_configuration_hash = configuration_hash\<rparr>)"

section \<open>The stage from a closure to an edge\<close>

definition ComputeSpatialSeparationM :: "arith \<Rightarrow> TrajectoryPoseNode list \<Rightarrow> string \<Rightarrow> string \<Rightarrow> u64" where
  "ComputeSpatialSeparationM fp nodes source_frame target_frame =
     (case (node_of nodes source_frame, node_of nodes target_frame) of
        (Some source, Some target) \<Rightarrow>
          if source_frame = target_frame then 0 else Norm3 fp (vec_sub fp (tn_position_xyz target) (tn_position_xyz source))
      | _ \<Rightarrow> 0)"

record LoopClosureToPoseGraphInput =
  pi_trajectory :: "Trajectory option"
  pi_trajectory_nodes :: "TrajectoryPoseNode list option"
  pi_closure :: LoopClosure
  pi_metric_basis :: MetricBasis
  pi_configuration_hash :: string

record LoopClosureToPoseGraphResult =
  pr_closure :: LoopClosure
  pr_spatial_separation_m :: u64
  pr_metric_eligible :: bool
  pr_metric_edge :: "PoseGraphEdge option"

definition LoopClosureToPoseGraph :: "'q pose_math \<Rightarrow> LoopClosureToPoseGraphInput \<Rightarrow> LoopClosureToPoseGraphResult" where
  "LoopClosureToPoseGraph pm input =
     (let closure = pi_closure input in
      case pi_trajectory_nodes input of
        None \<Rightarrow> \<lparr>pr_closure = closure\<lparr>cl_spatial_separation_m := 0\<rparr>, pr_spatial_separation_m = 0, pr_metric_eligible = False,
          pr_metric_edge = None\<rparr>
      | Some nodes \<Rightarrow>
          let spatial = ComputeSpatialSeparationM (pm_fp pm) nodes (cl_source_frame_id closure) (cl_target_frame_id closure);
              eligible = MetricEligibleTrajectoryBasis (pi_metric_basis input);
              result = \<lparr>pr_closure = closure\<lparr>cl_spatial_separation_m := spatial\<rparr>, pr_spatial_separation_m = spatial,
                pr_metric_eligible = eligible, pr_metric_edge = None\<rparr> in
          if \<not> eligible then result
          else if cl_status closure \<noteq> ''accepted'' then result
          else if cl_source_frame_id closure = cl_target_frame_id closure then result
          else result\<lparr>pr_metric_edge := BuildMetricLoopClosureEdge pm closure nodes
            \<lparr>lm_position_cs = cl_relative_position_xyz closure, lm_rotation_cst = cl_relative_rotation_xyzw closure,
             lm_geometric_residual = cl_geometric_residual closure\<rparr> 0 (pi_configuration_hash input) (pi_metric_basis input)\<rparr>)"
section \<open>What a graph is\<close>

lemma graph_nodes_from_nth:
  "length (graph_nodes_from k ns) = length ns" "map gn_node_id (graph_nodes_from k ns) = map (\<lambda>i. k + int i) [0..<length ns]"
  "map gn_frame_id (graph_nodes_from k ns) = map tn_frame_id ns" "map gn_timestamp_ns (graph_nodes_from k ns) = map tn_timestamp_ns ns"
proof -
  show "map gn_node_id (graph_nodes_from k ns) = map (\<lambda>i. k + int i) [0..<length ns]"
  proof (induction ns arbitrary: k)
    case (Cons n ns)
    have "[0..<length (n # ns)] = 0 # map Suc [0..<length ns]" by (simp add: upt_conv_Cons map_Suc_upt del: upt_Suc)
    with Cons show ?case by (simp add: comp_def algebra_simps del: upt_Suc)
  qed simp
qed (induction ns arbitrary: k; simp)+

lemma odometry_edges_from_map:
  "odometry_edges_from pm opts k ns = map (\<lambda>i. odometry_edge pm opts (k + int i) (ns ! i) (ns ! Suc i)) [0..<length ns - 1]"
proof (induction pm opts k ns rule: odometry_edges_from.induct)
  case (1 pm opts k a b ns)
  have "[0..<length (a # b # ns) - 1] = 0 # map Suc [0..<length (b # ns) - 1]" by (simp add: upt_conv_Cons map_Suc_upt del: upt_Suc)
  with 1 show ?case by (simp add: comp_def algebra_simps del: upt_Suc)
qed simp_all

text \<open>
  The graph assembled from a trajectory has one node per pose, numbered from 0 in the poses' order, and one odometry edge from
  every node to the next one with their relative pose; the counts in its header are those of the lists.\<close>

theorem assembled_graph:
  "let a = AssemblePoseGraph pm trajectory nodes opts; g = pa_graph a in
     map gn_node_id (pa_graph_nodes a) = map int [0..<length nodes] \<and> map gn_frame_id (pa_graph_nodes a) = map tn_frame_id nodes \<and>
     pa_graph_edges a = map (\<lambda>i. odometry_edge pm opts (int i) (nodes ! i) (nodes ! Suc i)) [0..<length nodes - 1] \<and>
     list_all (\<lambda>e. ge_target_node_id e = ge_source_node_id e + 1 \<and> 0 \<le> ge_source_node_id e \<and> ge_target_node_id e < gr_node_count g \<and>
       ge_type e = ''odometry'') (pa_graph_edges a) \<and> distinct (map ge_edge_id (pa_graph_edges a)) \<and>
     gr_node_count g = int (length (pa_graph_nodes a)) \<and> gr_edge_count g = int (length (pa_graph_edges a)) \<and>
     gr_edge_count g = gr_odometry_edge_count g + gr_loop_closure_edge_count g + gr_prior_edge_count g"
proof -
  let ?es = "map (\<lambda>i. odometry_edge pm opts (int i) (nodes ! i) (nodes ! Suc i)) [0..<length nodes - 1]"
  have "list_all (\<lambda>e. ge_target_node_id e = ge_source_node_id e + 1 \<and> 0 \<le> ge_source_node_id e \<and> ge_target_node_id e < int (length nodes) \<and>
       ge_type e = ''odometry'') ?es" by (auto simp: list_all_iff odometry_edge_def Let_def)
  moreover have "map ge_edge_id ?es = map int [0..<length nodes - 1]" by (simp add: odometry_edge_def Let_def)
  then have "distinct (map ge_edge_id ?es)" by (simp only: distinct_map distinct_upt) (simp add: inj_on_def)
  ultimately show ?thesis
    by (simp add: AssemblePoseGraph_def Let_def graph_nodes_from_nth odometry_edges_from_map [of _ _ 0, simplified])
qed

section \<open>Which closures are accepted\<close>

text \<open>
  A candidate is accepted exactly when both frames have a pose, the poses are far enough apart in time and not too
  far in space, and the inlier ratio, the inlier count and the confidence, which the match score determines, reach their minimum;
  otherwise it is rejected.\<close>

theorem VerifyCandidate_accepts_iff:
  "cl_status (VerifyCandidate pm candidate nodes opts) = ''accepted'' \<longleftrightarrow> (\<exists>source target ratio.
     node_of nodes (ca_source_frame_id candidate) = Some source \<and> node_of nodes (ca_target_frame_id candidate) = Some target \<and>
     lp_minimum_temporal_separation_ns opts \<le> tn_timestamp_ns source - tn_timestamp_ns target \<and>
     \<not> fp_less (lp_false_positive_spatial_tolerance_m opts) (PositionDistance (pm_fp pm) source target) \<and>
     ratio = (if fp_le (lp_candidate_min_match_score opts) (ca_feature_match_score candidate) then fa_ratio (pm_fp pm) 92 100 else fa_ratio (pm_fp pm) 20 100) \<and>
     \<not> fp_less ratio (lp_verify_min_inlier_ratio opts) \<and>
     lp_verify_min_inlier_count opts \<le> fa_to_int (pm_fp pm) (fa_mul (pm_fp pm) (ca_feature_match_score candidate) (fa_ratio (pm_fp pm) 8 1)) \<and>
     \<not> fp_less (let c = fa_add (pm_fp pm) ratio (fa_ratio (pm_fp pm) 5 100) in if fp_less c (one pm) then c else one pm) (lp_verify_min_confidence opts))"
  by (simp add: VerifyCandidate_def Let_def empty_closure_def not_less split: option.split)

lemma VerifyCandidate_status: "cl_status (VerifyCandidate pm candidate nodes opts) \<in> {''accepted'', ''rejected''}"
  by (auto simp: VerifyCandidate_def Let_def split: option.split)

section \<open>Which closures become an edge\<close>

lemma found_element: "List.find P xs = Some x \<Longrightarrow> x \<in> set xs \<and> P x"
  by (induction xs) (auto split: if_split_asm)

lemma index_of_frame_found:
  assumes "0 \<le> index_of_frame nodes f"
  shows "nat (index_of_frame nodes f) < length nodes \<and> tn_frame_id (nodes ! nat (index_of_frame nodes f)) = f"
proof -
  from assms obtain i where i: "List.find (\<lambda>i. tn_frame_id (nodes ! i) = f) (rev [0..<length nodes]) = Some i"
    by (auto simp: index_of_frame_def split: option.split_asm)
  from found_element [OF this] have "i \<in> set (rev [0..<length nodes]) \<and> tn_frame_id (nodes ! i) = f" .
  with i show ?thesis by (simp add: index_of_frame_def)
qed

lemma eligible_basis: "MetricEligibleTrajectoryBasis mb \<longleftrightarrow> mb_declared mb \<and> mb_scale_calibration_ref mb \<noteq> [] \<and>
    rp_configuration_hash (mb_provenance mb) \<noteq> []"
  by (auto simp: MetricEligibleTrajectoryBasis_def ValidateMetricBasis_def)

text \<open>An edge that is as its measurement says, between the nodes of the closure's frames.\<close>

definition measured_edge :: "'q pose_math \<Rightarrow> TrajectoryPoseNode list \<Rightarrow> LoopClosure \<Rightarrow> MetricLoopClosureMeasurement \<Rightarrow> PoseGraphEdge \<Rightarrow> bool" where
  "measured_edge pm nodes lc m e \<longleftrightarrow> ge_type e = ''loop_closure'' \<and>
     0 \<le> ge_source_node_id e \<and> nat (ge_source_node_id e) < length nodes \<and> tn_frame_id (nodes ! nat (ge_source_node_id e)) = cl_source_frame_id lc \<and>
     0 \<le> ge_target_node_id e \<and> nat (ge_target_node_id e) < length nodes \<and> tn_frame_id (nodes ! nat (ge_target_node_id e)) = cl_target_frame_id lc \<and>
     ge_source_node_id e \<noteq> ge_target_node_id e \<and> ge_relative_position_xyz e = lm_position_cs m \<and> ge_relative_rotation_xyzw e = lm_rotation_cst m \<and>
     \<not> fp_le (Norm3 (pm_fp pm) (ge_relative_position_xyz e)) (tiny (pm_fp pm)) \<and>
     fst (ValidateInformationMatrix pm (ge_information_matrix_6x6 e)) \<and> list_all finite_double (ge_information_matrix_6x6 e)"

lemma valid_information_finite: "fst (ValidateInformationMatrix pm info) \<Longrightarrow> list_all finite_double info"
  by (auto simp: ValidateInformationMatrix_def split: if_split_asm)

lemma BuildMetricLoopClosureEdge_Some:
  assumes "BuildMetricLoopClosureEdge pm lc nodes m edge_id hash basis = Some e"
  shows "cl_status lc = ''accepted'' \<and> MetricEligibleTrajectoryBasis basis \<and> measured_edge pm nodes lc m e \<and> ge_edge_id e = edge_id"
proof -
  let ?s = "index_of_frame nodes (cl_source_frame_id lc)" and ?t = "index_of_frame nodes (cl_target_frame_id lc)"
  from assms have *: "cl_status lc = ''accepted''" "cl_source_frame_id lc \<noteq> cl_target_frame_id lc" "MetricEligibleTrajectoryBasis basis"
    "0 \<le> ?s" "0 \<le> ?t" "\<not> fp_le (Norm3 (pm_fp pm) (lm_position_cs m)) (tiny (pm_fp pm))"
    "ge_edge_id e = edge_id" "ge_type e = ''loop_closure''" "ge_source_node_id e = ?s" "ge_target_node_id e = ?t"
    "ge_relative_position_xyz e = lm_position_cs m" "ge_relative_rotation_xyzw e = lm_rotation_cst m"
    "fst (ValidateInformationMatrix pm (ge_information_matrix_6x6 e))"
    by (auto simp: BuildMetricLoopClosureEdge_def Let_def split: if_split_asm)
  moreover have "?s \<noteq> ?t" using *(2) index_of_frame_found [OF *(4)] index_of_frame_found [OF *(5)] by metis
  ultimately show ?thesis using index_of_frame_found [OF *(4)] index_of_frame_found [OF *(5)] valid_information_finite
    by (simp add: measured_edge_def)
qed

text \<open>
  A loop closure becomes an edge only if it was accepted and the trajectory's metric basis is declared with its calibration and
  its configuration. The edge joins two different nodes, those of the closure's frames, carries the measured pose as it is, never a
  vanishing translation, and its information matrix is finite and passed validation.\<close>

theorem metric_edge_needs_basis:
  assumes "pr_metric_edge (LoopClosureToPoseGraph pm input) = Some e"
  shows "\<exists>nodes. pi_trajectory_nodes input = Some nodes \<and> cl_status (pi_closure input) = ''accepted'' \<and> mb_declared (pi_metric_basis input) \<and>
    mb_scale_calibration_ref (pi_metric_basis input) \<noteq> [] \<and> rp_configuration_hash (mb_provenance (pi_metric_basis input)) \<noteq> [] \<and>
    measured_edge pm nodes (pi_closure input) \<lparr>lm_position_cs = cl_relative_position_xyz (pi_closure input),
      lm_rotation_cst = cl_relative_rotation_xyzw (pi_closure input), lm_geometric_residual = cl_geometric_residual (pi_closure input)\<rparr> e"
  using assms BuildMetricLoopClosureEdge_Some eligible_basis
  by (auto simp: LoopClosureToPoseGraph_def Let_def split: option.split_asm if_split_asm) blast+
section \<open>Examples\<close>

text \<open>An arithmetic in which every result is 1, except that small ratios are 0, and two poses of different frames.\<close>

definition unit_math :: "unit pose_math" where
  "unit_math = (let d = 4607182418800017408 in \<lparr>pm_fp = \<lparr>fa_add = (\<lambda>a b. d), fa_sub = (\<lambda>a b. d), fa_mul = (\<lambda>a b. d), fa_div = (\<lambda>a b. d),
     fa_sqrt = (\<lambda>a. d), fa_abs = (\<lambda>a. d), fa_hypot = (\<lambda>a b. d), fa_hypot3 = (\<lambda>a b c. d), fa_ratio = (\<lambda>n m. if m > 1000 then 0 else d),
     fa_of_int = (\<lambda>i. d), fa_to_int = (\<lambda>x. 8), fa_from_chars = (\<lambda>s. None)\<rparr>, pm_quaternion = (\<lambda>x y z w. ()),
     pm_xyzw = (\<lambda>q. [0, 0, 0, d]), pm_normalized = (\<lambda>q. q), pm_inverse = (\<lambda>q. q), pm_times = (\<lambda>a b. ()), pm_rotate = (\<lambda>q v. v),
     pm_symmetric = (\<lambda>m. True), pm_determinant = (\<lambda>m. d)\<rparr>)"

definition two_poses_of :: "TrajectoryPoseNode list" where
  "two_poses_of = map (\<lambda>(f, t). \<lparr>tn_frame_id = f, tn_timestamp_ns = t, tn_sequence_index = t, tn_position_xyz = [0, 0, 0],
     tn_rotation_xyzw = [0, 0, 0, 1], tn_covariance_position = replicate 6 0, tn_covariance_rotation = replicate 6 0\<rparr>) [(''a'', 0), (''b'', 1)]"

definition metric_input :: "bool \<Rightarrow> LoopClosureToPoseGraphInput" where
  "metric_input relative = \<lparr>pi_trajectory = None, pi_trajectory_nodes = Some two_poses_of, pi_closure = (empty_closure unit_math)\<lparr>cl_source_frame_id := ''b'',
       cl_target_frame_id := ''a'', cl_status := ''accepted'', cl_has_relative_pose := relative, cl_relative_position_xyz := [1, 0, 0]\<rparr>,
     pi_metric_basis = \<lparr>mb_declared = True, mb_source = kTrajectory, mb_basis = kOdometryScale,
       mb_provenance = no_provenance\<lparr>rp_configuration_hash := ''h''\<rparr>, mb_scale_calibration_ref = ''r''\<rparr>,
     pi_configuration_hash = ''h''\<rparr>"

lemma metric_input_edge:
  "case pr_metric_edge (LoopClosureToPoseGraph unit_math (metric_input b)) of None \<Rightarrow> False
    | Some e \<Rightarrow> ge_source_node_id e = 1 \<and> ge_target_node_id e = 0"
  by (cases b) code_simp+

lemma metric_edge_needs_basis_witness:
  "\<exists>e. pr_metric_edge (LoopClosureToPoseGraph unit_math (metric_input True)) = Some e \<and>
    fst (ValidateInformationMatrix unit_math (ge_information_matrix_6x6 e)) \<and> ge_source_node_id e \<noteq> ge_target_node_id e"
proof -
  from metric_input_edge [of True] obtain e where e: "pr_metric_edge (LoopClosureToPoseGraph unit_math (metric_input True)) = Some e"
    by (auto split: option.split_asm)
  from metric_edge_needs_basis [OF this] e show ?thesis by (auto simp: measured_edge_def)
qed

text \<open>
  The stage does not ask whether the closure has a relative pose: a position that does not vanish is enough.
\<close>

lemma edge_without_relative_pose:
  "\<not> cl_has_relative_pose (pi_closure (metric_input False)) \<and> pr_metric_edge (LoopClosureToPoseGraph unit_math (metric_input False)) \<noteq> None"
  using metric_input_edge [of False] by (auto simp: metric_input_def split: option.split_asm)

end
