(* ===== verification/LoopVerification.thy ===== *)
theory LoopVerification
  imports PoseGraphs
begin

text \<open>
  The verification of a loop-closure candidate: engine/pipeline/loop_closure_verification.cpp with the types of
  core/loop_closure/geometric_verifier.h and verification_options.h. The geometric verifier is behind an
  interface; it may throw.
\<close>

section \<open>Data\<close>

record ReconCamera =
  rc_camera_id :: int
  rc_width :: int
  rc_height :: int
  rc_intrinsic_model :: string
  rc_fx :: u64
  rc_fy :: u64
  rc_cx :: u64
  rc_cy :: u64
  rc_distortion_model :: string
  rc_distortion_coefficients :: "u64 list"
  rc_calibration_ref :: string

record GeometricVerificationOptions =
  vo_min_correspondences :: nat
  vo_min_inliers :: nat
  vo_min_inlier_ratio :: u64
  vo_max_residual :: u64
  vo_max_ransac_iterations :: nat
  vo_ransac_confidence :: u64
  vo_ransac_inlier_threshold :: u64
  vo_minimum_temporal_separation_ns :: int
  vo_verify_min_confidence :: u64

record LoopClosureVerificationInput =
  vi_candidate :: LoopClosureCandidate
  vi_source :: MatchingFrameDescriptors
  vi_target :: MatchingFrameDescriptors
  vi_correspondences :: "FeatureCorrespondence list"
  vi_source_camera :: "ReconCamera option"
  vi_target_camera :: "ReconCamera option"

record UnitRelativePose =
  up_rotation_xyzw :: "u64 list"
  up_translation_direction_xyz :: "u64 list"

record GeometricVerificationResult =
  gv_verified :: bool
  gv_closure :: LoopClosure
  gv_geometric_model :: string
  gv_correspondence_count :: nat
  gv_inlier_count :: nat
  gv_inlier_ratio :: u64
  gv_geometric_residual :: u64
  gv_confidence :: u64
  gv_rejection_reason :: string
  gv_has_relative_pose :: bool
  gv_relative_position_xyz :: "u64 list"
  gv_relative_rotation_xyzw :: "u64 list"
  gv_unit_relative_pose :: "UnitRelativePose option"

type_synonym GeometricVerifier = "LoopClosureVerificationInput \<Rightarrow> GeometricVerificationOptions \<Rightarrow> GeometricVerificationResult res"

record VerificationFrameInput =
  vf_frame_id :: uuid
  vf_timestamp_ns :: int
  vf_feature_artifact_uuid :: uuid
  vf_camera :: "ReconCamera option"

record MetricResolutionInput =
  mi_trajectory_nodes :: "TrajectoryPoseNode list option"
  mi_metric_basis :: MetricBasis

record LoopClosureVerificationResult =
  vr_closure :: LoopClosure
  vr_geo :: GeometricVerificationResult
  vr_payload_content_hash :: string
  vr_payload_artifact_uuid :: uuid
  vr_artifacts_resolved :: bool

section \<open>The closure\<close>

definition ClosureJson :: "LoopClosure \<Rightarrow> json" where
  "ClosureJson lc = JObj
     [(''candidate_id'', JStr (cl_candidate_id lc)), (''closure_id'', JStr (cl_closure_id lc)),
      (''confidence'', JFloat (cl_confidence lc)), (''created_at_ns'', JInt (cl_created_at_ns lc)),
      (''geometric_residual'', JFloat (cl_geometric_residual lc)), (''has_relative_pose'', JBool (cl_has_relative_pose lc)),
      (''inlier_count'', JInt (cl_inlier_count lc)), (''inlier_ratio'', JFloat (cl_inlier_ratio lc)),
      (''relative_position_xyz'', JArr (map JFloat (cl_relative_position_xyz lc))),
      (''relative_rotation_xyzw'', JArr (map JFloat (cl_relative_rotation_xyzw lc))),
      (''source_frame_id'', JStr (cl_source_frame_id lc)), (''spatial_separation_m'', JFloat (cl_spatial_separation_m lc)),
      (''status'', JStr (cl_status lc)), (''target_frame_id'', JStr (cl_target_frame_id lc)),
      (''temporal_separation_ns'', JInt (cl_temporal_separation_ns lc)), (''trajectory_id'', JStr (cl_trajectory_id lc))]"

text \<open>The verifier's record with its identity, its configuration and the pose that the verifier measured.\<close>

definition stamped_closure :: "GeometricVerificationResult \<Rightarrow> uuid \<Rightarrow> int \<Rightarrow> string \<Rightarrow> LoopClosure" where
  "stamped_closure geo closure_id now configuration_hash = (gv_closure geo)
     \<lparr>cl_closure_id := FormatUuid closure_id, cl_created_at_ns := now,
      cl_provenance := (cl_provenance (gv_closure geo))\<lparr>rp_configuration_hash := configuration_hash\<rparr>,
      cl_has_relative_pose := gv_has_relative_pose geo, cl_relative_position_xyz := gv_relative_position_xyz geo,
      cl_relative_rotation_xyzw := gv_relative_rotation_xyzw geo, cl_geometric_residual := gv_geometric_residual geo\<rparr>"

text \<open>A unit direction that the trajectory resolves to metres.\<close>

definition resolved_pose :: "'q pose_math \<Rightarrow> GeometricVerificationResult \<Rightarrow> MetricResolutionInput option \<Rightarrow> MetricLoopClosureMeasurement option" where
  "resolved_pose pm geo metric_resolution =
     (case (gv_unit_relative_pose geo, metric_resolution) of
        (Some unit, Some res) \<Rightarrow>
          (case mi_trajectory_nodes res of
             None \<Rightarrow> None
           | Some nodes \<Rightarrow>
               if gv_verified geo \<and> MetricEligibleTrajectoryBasis (mi_metric_basis res)
               then ResolveMetricTranslationFromUnitDirection pm (gv_closure geo) nodes (up_translation_direction_xyz unit)
                 (up_rotation_xyzw unit) (gv_geometric_residual geo)
               else None)
      | _ \<Rightarrow> None)"

definition promote :: "MetricLoopClosureMeasurement option \<Rightarrow> LoopClosure \<Rightarrow> LoopClosure" where
  "promote measurement lc = (case measurement of None \<Rightarrow> lc
     | Some m \<Rightarrow> lc\<lparr>cl_has_relative_pose := True, cl_relative_position_xyz := lm_position_cs m,
         cl_relative_rotation_xyzw := lm_rotation_cst m, cl_geometric_residual := lm_geometric_residual m\<rparr>)"

definition closure_row :: "LoopClosure \<Rightarrow> LoopClosureRow res" where
  "closure_row lc =
     rbind (ParseUuid (cl_closure_id lc)) (\<lambda>closure_id.
     rbind (ParseUuid (cl_trajectory_id lc)) (\<lambda>trajectory_id.
     rbind (ParseUuid (cl_candidate_id lc)) (\<lambda>candidate_id.
     rbind (ParseUuid (cl_source_frame_id lc)) (\<lambda>source.
     rbind (ParseUuid (cl_target_frame_id lc)) (\<lambda>target.
       Inr \<lparr>lc_closure_id = closure_id, lc_trajectory_id = trajectory_id, lc_candidate_id = candidate_id,
         lc_source_frame_id = source, lc_target_frame_id = target, lc_status = cl_status lc, lc_inlier_ratio = cl_inlier_ratio lc,
         lc_inlier_count = cl_inlier_count lc, lc_confidence = cl_confidence lc,
         lc_temporal_separation_ns = cl_temporal_separation_ns lc, lc_spatial_separation_m = cl_spatial_separation_m lc,
         lc_created_at_ns = cl_created_at_ns lc\<rparr>)))))"

section \<open>The stage\<close>

definition load_frame :: "json_lib \<Rightarrow> VerificationFrameInput \<Rightarrow> MatchingFrameDescriptors option w_op" where
  "load_frame lib f = LoadFeatureDescriptors lib (vf_feature_artifact_uuid f) (FormatUuid (vf_frame_id f)) (vf_timestamp_ns f)"

definition hash_of :: "ArtifactManifest option \<Rightarrow> string list" where
  "hash_of m = (case m of None \<Rightarrow> [] | Some m \<Rightarrow> [am_content_hash m])"

definition verify_frames :: "engine_env \<Rightarrow> LoopClosureCandidate \<Rightarrow> VerificationFrameInput \<Rightarrow> VerificationFrameInput \<Rightarrow>
    LoopClosureFeatureMatcher \<Rightarrow> GeometricVerifier \<Rightarrow> GeometricVerificationOptions \<Rightarrow> GeometricVerificationResult w_op" where
  "verify_frames env candidate source target matcher verifier opts =
     sbind (load_frame (ee_lib env) source) (\<lambda>src.
     sbind (load_frame (ee_lib env) target) (\<lambda>tgt.
       case (src, tgt) of
         (Some s, Some t) \<Rightarrow>
           sbind (lift_res (ReconstructCorrespondences s t matcher)) (\<lambda>correspondences.
             lift_res (verifier \<lparr>vi_candidate = candidate, vi_source = s, vi_target = t, vi_correspondences = correspondences,
               vi_source_camera = vf_camera source, vi_target_camera = vf_camera target\<rparr> opts))
       | _ \<Rightarrow> sthrow (throw_error kValidationDomain ''loop closure verification: missing feature artifact'')))"

definition VerifyLoopClosureGeometry :: "engine_env \<Rightarrow> 'q pose_math \<Rightarrow> LoopClosureCandidate \<Rightarrow> VerificationFrameInput \<Rightarrow>
    VerificationFrameInput \<Rightarrow> LoopClosureFeatureMatcher \<Rightarrow> GeometricVerifier \<Rightarrow> GeometricVerificationOptions \<Rightarrow> string \<Rightarrow>
    MetricResolutionInput option \<Rightarrow> LoopClosureVerificationResult import_op" where
  "VerifyLoopClosureGeometry env pm candidate source target matcher verifier opts configuration_hash metric_resolution =
     sbind (on_store (verify_frames env candidate source target matcher verifier opts)) (\<lambda>geo.
     sbind (on_store new_uuid) (\<lambda>closure_id.
     sbind (on_store TimestampNsNow) (\<lambda>now.
     let closure = promote (resolved_pose pm geo metric_resolution) (stamped_closure geo closure_id now configuration_hash) in
     sbind (lift_res (closure_row closure)) (\<lambda>row.
     sbind (on_scene (AddLoopClosure row)) (\<lambda>_.
     sbind (lift_res (jl_dump (ee_lib env) (loop_closure_doc [CandidateJson candidate] [ClosureJson closure]))) (\<lambda>payload_text.
     sbind (on_store new_uuid) (\<lambda>auid.
     sbind (on_store (ReadManifest (ee_lib env) (vf_feature_artifact_uuid source))) (\<lambda>src_manifest.
     sbind (on_store (ReadManifest (ee_lib env) (vf_feature_artifact_uuid target))) (\<lambda>tgt_manifest.
     sbind (on_store (Put (ee_lib env) (bytes_of payload_text)
         (loop_closure_manifest env auid (hash_of src_manifest @ hash_of tgt_manifest) configuration_hash))) (\<lambda>written.
       sret \<lparr>vr_closure = closure, vr_geo = geo, vr_payload_content_hash = wr_content_hash written,
         vr_payload_artifact_uuid = wr_artifact_uuid written, vr_artifacts_resolved = True\<rparr>))))))))))"

section \<open>What a verification leaves\<close>

definition with_closures :: "LoopClosureRow list \<Rightarrow> scene_tables \<Rightarrow> scene_tables" where
  "with_closures rows t = t\<lparr>st_loop_closures := st_loop_closures t @ map stored_closure rows\<rparr>"

lemma insert_closure_Some: "insert_closure row t = Some t' \<Longrightarrow> t' = with_closures [row] t"
  by (auto simp: insert_closure_def with_closures_def dest!: tbl_insert_Some)

lemma AddLoopClosure_Inr: "AddLoopClosure row d = (Inr u, d') \<Longrightarrow> tx_tables d' = with_closures [row] (tx_tables d)"
  using write_statement_Inr [of _ _ "insert_closure row" d u d'] insert_closure_Some unfolding AddLoopClosure_def by blast

lemma keeps_quiet_verify [keeps_intros]:
  assumes "store_ok w0" shows "keeps (quiet w0) (verify_frames env candidate source target matcher verifier opts)"
  unfolding verify_frames_def load_frame_def by (auto split: option.split prod.split intro!: keeps_intros import_keeps_branch assms)

text \<open>A metric pose is the verifier's own or resolved over the poses of a trajectory whose metric basis is declared.\<close>

definition pose_justified :: "'q pose_math \<Rightarrow> GeometricVerificationResult \<Rightarrow> MetricResolutionInput option \<Rightarrow> LoopClosure \<Rightarrow> bool" where
  "pose_justified pm geo metric_resolution lc \<longleftrightarrow>
     gv_has_relative_pose geo \<and> resolved_pose pm geo metric_resolution = None \<and> cl_relative_position_xyz lc = gv_relative_position_xyz geo \<and>
       cl_relative_rotation_xyzw lc = gv_relative_rotation_xyzw geo \<or>
     (\<exists>res m. metric_resolution = Some res \<and> MetricEligibleTrajectoryBasis (mi_metric_basis res) \<and> gv_verified geo \<and>
       cl_status (gv_closure geo) = ''accepted'' \<and> resolved_pose pm geo metric_resolution = Some m \<and>
       cl_relative_position_xyz lc = lm_position_cs m \<and> cl_relative_rotation_xyzw lc = lm_rotation_cst m)"

lemma promoted_pose_justified:
  assumes "cl_has_relative_pose (promote (resolved_pose pm geo res) (stamped_closure geo u now h))"
  shows "pose_justified pm geo res (promote (resolved_pose pm geo res) (stamped_closure geo u now h))"
proof (cases "resolved_pose pm geo res")
  case None
  with assms show ?thesis by (simp add: pose_justified_def promote_def stamped_closure_def)
next
  case (Some m)
  then obtain r nodes p where "gv_unit_relative_pose geo = Some p" "mi_trajectory_nodes r = Some nodes"
    and r: "res = Some r" "MetricEligibleTrajectoryBasis (mi_metric_basis r)" "gv_verified geo"
    "ResolveMetricTranslationFromUnitDirection pm (gv_closure geo) nodes (up_translation_direction_xyz p)
       (up_rotation_xyzw p) (gv_geometric_residual geo) = Some m"
    unfolding resolved_pose_def by (clarsimp split: option.split_asm if_split_asm)
  from r(4) have "cl_status (gv_closure geo) = ''accepted''"
    by (auto simp: ResolveMetricTranslationFromUnitDirection_def Let_def split: if_split_asm)
  with Some r show ?thesis by (simp add: pose_justified_def promote_def)
qed

text \<open>C23:
  A verification that returns has written one closure row, accepted or rejected as the verifier decided, and nothing else into the
  tables; candidate and closure are in a stored document. If the closure has a metric pose, then the verifier measured it, or the
  closure was accepted and a trajectory with a declared metric basis resolved it.\<close>

theorem verification_stores_closure:
  assumes "VerifyLoopClosureGeometry env pm candidate source target matcher verifier opts configuration_hash res s = (Inr r, s')"
    "store_ok (im_world s)"
  shows "\<exists>row document. closure_row (vr_closure r) = Inr row \<and> tables s' = with_closures [row] (tables s) \<and>
    cl_status (vr_closure r) = cl_status (gv_closure (vr_geo r)) \<and>
    jl_dump (ee_lib env) (loop_closure_doc [CandidateJson candidate] [ClosureJson (vr_closure r)]) = Inr document \<and>
    vr_payload_content_hash r = Sha256Hex (bytes_of document) \<and>
    stored_as (vr_payload_content_hash r) (vr_payload_artifact_uuid r) (im_world s') \<and> store_ok (im_world s') \<and>
    (cl_has_relative_pose (vr_closure r) \<longrightarrow> pose_justified pm (vr_geo r) res (vr_closure r))"
proof -
  from assms(1) obtain geo u now row d auid m1 m2 written s1 s2 s3 s4 s5 s6 s7 where
    v: "on_store (verify_frames env candidate source target matcher verifier opts) s = (Inr geo, s1)"
    and uu: "on_store new_uuid s1 = (Inr u, s2)" "on_store TimestampNsNow s2 = (Inr now, s3)"
    and row: "closure_row (vr_closure r) = Inr row" and a: "on_scene (AddLoopClosure row) s3 = (Inr (), s4)"
    and d: "jl_dump (ee_lib env) (loop_closure_doc [CandidateJson candidate] [ClosureJson (vr_closure r)]) = Inr d"
    and m: "on_store new_uuid s4 = (Inr auid, s5)" "on_store (ReadManifest (ee_lib env) (vf_feature_artifact_uuid source)) s5 = (Inr m1, s6)"
      "on_store (ReadManifest (ee_lib env) (vf_feature_artifact_uuid target)) s6 = (Inr m2, s7)"
    and p: "on_store (Put (ee_lib env) (bytes_of d) (loop_closure_manifest env auid (hash_of m1 @ hash_of m2) configuration_hash)) s7 = (Inr written, s')"
    and r: "vr_closure r = promote (resolved_pose pm geo res) (stamped_closure geo u now configuration_hash)" "vr_geo r = geo"
      "vr_payload_content_hash r = wr_content_hash written" "vr_payload_artifact_uuid r = wr_artifact_uuid written"
    unfolding VerifyLoopClosureGeometry_def Let_def lift_res_def sret_def
    apply (elim sbind_InrE Pair_inject)
    apply hypsubst
    apply (rule that; force)
    done
  have q: "keeps (unchanged s) (on_store new_uuid)" "keeps (unchanged s) (on_store TimestampNsNow)" by (intro keeps_intros; simp)+
  have u3: "unchanged s s3"
    using keeps_returned [OF keeps_on_store [OF keeps_quiet_verify [OF assms(2)]] unchanged_refl v]
      keeps_returned [OF q(1) _ uu(1)] keeps_returned [OF q(2) _ uu(2)] by blast
  from AddLoopClosure_Inr [OF on_scene_step [OF a, THEN conjunct2, THEN conjunct2]] u3
  have t4: "tables s4 = with_closures [row] (tables s)" by (simp add: unchanged_def)
  have w4: "im_world s4 = im_world s3" using on_scene_step [OF a] by simp
  have q4: "keeps (unchanged s4) (on_store new_uuid)" "keeps (unchanged s4) (on_store (ReadManifest lib x))" for lib x by (intro keeps_intros; simp)+
  have u7: "unchanged s4 s7"
    using keeps_returned [OF q4(1) unchanged_refl m(1)] keeps_returned [OF q4(2) _ m(2)] keeps_returned [OF q4(2) _ m(3)] by blast
  have ok: "store_ok (im_world s7)"
    using u3 u7 w4 assms(2) quiet_ok by (metis unchanged_def)
  have t7: "tables s' = with_closures [row] (tables s)" using on_store_step [OF p] u7 t4 by (simp add: unchanged_def)
  have status: "cl_status (vr_closure r) = cl_status (gv_closure (vr_geo r))"
    by (simp add: r promote_def stamped_closure_def split: option.split)
  from Put_stored_as [OF on_store_step [OF p, THEN conjunct2] ok] row t7 d r(3,4) status promoted_pose_justified
  show ?thesis by (auto simp: r(1,2))
qed
section \<open>An example\<close>

text \<open>A verifier that accepts every candidate with a pose of its own, on the two frames of the detection's example.\<close>

definition seen_candidate :: LoopClosureCandidate where
  "seen_candidate = \<lparr>ca_candidate_id = FormatUuid (replicate 16 9), ca_trajectory_id = FormatUuid (replicate 16 7),
     ca_source_frame_id = FormatUuid (replicate 16 6), ca_target_frame_id = FormatUuid (replicate 16 5), ca_feature_match_score = 1,
     ca_matcher = ''even'', ca_created_at_ns = 0\<rparr>"

definition trusting_verifier :: GeometricVerifier where
  "trusting_verifier input opts = (let c = vi_candidate input in Inr \<lparr>gv_verified = True,
     gv_closure = (empty_closure unit_math)\<lparr>cl_trajectory_id := ca_trajectory_id c, cl_candidate_id := ca_candidate_id c,
       cl_source_frame_id := ca_source_frame_id c, cl_target_frame_id := ca_target_frame_id c, cl_status := ''accepted''\<rparr>,
     gv_geometric_model = ''essential'', gv_correspondence_count = 2, gv_inlier_count = 2, gv_inlier_ratio = 0, gv_geometric_residual = 0,
     gv_confidence = 0, gv_rejection_reason = [], gv_has_relative_pose = True, gv_relative_position_xyz = [1, 0, 0],
     gv_relative_rotation_xyzw = [0, 0, 0, 1], gv_unit_relative_pose = None\<rparr>)"

definition seen_frame :: "nat \<Rightarrow> VerificationFrameInput" where
  "seen_frame n = \<lparr>vf_frame_id = replicate 16 (of_nat n), vf_timestamp_ns = int n, vf_feature_artifact_uuid = replicate 16 8, vf_camera = None\<rparr>"

definition no_options :: GeometricVerificationOptions where
  "no_options = \<lparr>vo_min_correspondences = 2, vo_min_inliers = 2, vo_min_inlier_ratio = 0, vo_max_residual = 0, vo_max_ransac_iterations = 1,
     vo_ransac_confidence = 0, vo_ransac_inlier_threshold = 0, vo_minimum_temporal_separation_ns = 0, vo_verify_min_confidence = 0\<rparr>"

lemma two_points_correspond:
  "ReconstructCorrespondences (two_points a t) (two_points b u) even_matcher =
    Inr [\<lparr>fc_source_index = 0, fc_target_index = 0, fc_descriptor_distance = 0\<rparr>, \<lparr>fc_source_index = 1, fc_target_index = 1, fc_descriptor_distance = 0\<rparr>]"
proof -
  have "finite_double 0" by code_simp
  then show ?thesis by (simp add: ReconstructCorrespondences_def even_matcher_def two_points_def finite_point_def numeral_2_eq_2)
qed

lemma verification_returns:
  "\<exists>r s'. VerifyLoopClosureGeometry engine_setup unit_math seen_candidate (seen_frame 6) (seen_frame 5) even_matcher trusting_verifier no_options
    ''h'' None feature_state = (Inr r, s') \<and> cl_has_relative_pose (vr_closure r)"
proof -
  let ?w = "w_step (w_step (w_step (w_step feature_world)))"
  have lib: "ee_lib engine_setup = reference_json" by (simp add: engine_setup_def)
  have l1: "LoadFeatureDescriptors reference_json (replicate 16 8) n t feature_world = (Inr (Some (two_points n t)), w_step (w_step feature_world))" for n t
    by (rule load_feature [OF feature_world_ok(2)])
  have l2: "LoadFeatureDescriptors reference_json (replicate 16 8) n t (w_step (w_step feature_world)) = (Inr (Some (two_points n t)), ?w)" for n t
    by (rule load_feature) (simp add: feature_world_ok(2))
  obtain geo where verify: "verify_frames engine_setup seen_candidate (seen_frame 6) (seen_frame 5) even_matcher trusting_verifier no_options feature_world =
      (Inr geo, ?w)"
    and geo: "gv_closure geo = (empty_closure unit_math)\<lparr>cl_trajectory_id := ca_trajectory_id seen_candidate, cl_candidate_id := ca_candidate_id seen_candidate,
       cl_source_frame_id := ca_source_frame_id seen_candidate, cl_target_frame_id := ca_target_frame_id seen_candidate, cl_status := ''accepted''\<rparr>"
      "gv_has_relative_pose geo"
    by (simp add: verify_frames_def load_frame_def lib seen_frame_def sbind_def lift_res_def l1 l2 two_points_correspond trusting_verifier_def Let_def)
  let ?u = "GenerateUuid (w_random ?w (w_tick ?w))" and ?v = "w_step (w_step ?w)"
  have w: "w_random feature_world = w_random empty_world" "w_random (w_step v) = w_random v" for v
    by (simp_all add: feature_world_def w_step_def)
  have u: "length ?u = 16" by (rule conjunct1 [OF GenerateUuid_stamped]) (simp add: w empty_world_def)
  let ?c = "stamped_closure geo ?u (w_clock (w_step ?w) (w_tick (w_step ?w))) ''h''"
  have none: "promote (resolved_pose unit_math geo None) c = c" for c by (simp add: promote_def resolved_pose_def split: option.split)
  have parse: "ParseUuid (FormatUuid (replicate 16 n)) = Inr (replicate 16 n)" for n by (rule format_parse) simp
  obtain row where row: "closure_row ?c = Inr row"
    by (simp add: closure_row_def stamped_closure_def geo(1) seen_candidate_def parse format_parse [OF u])
  have "insert_closure row (tables tum_scene) = Some (with_closures [row] (tables tum_scene))"
    by (simp add: insert_closure_def tbl_insert_def with_closures_def tum_scene_def demo_import_def open_conn_def empty_tables_def Let_def)
  moreover have "runs 2 (im_scene tum_scene)" using tum_scene_simps(2) by (simp add: runs_def free_def)
  ultimately have add: "AddLoopClosure row (im_scene tum_scene) = (Inr (), ran 2 (with_closures [row] (tables tum_scene)) (im_scene tum_scene))"
    unfolding AddLoopClosure_def using insert_runs [where f = "insert_closure row"] by blast
  have dumps: "\<exists>s. jl_dump reference_json j = Inr s" for j using reference_json_dumps by simp
  then obtain doc where doc: "jl_dump reference_json (loop_closure_doc [CandidateJson seen_candidate] [ClosureJson ?c]) = Inr doc" by blast
  have f: "has_feature (w_step ?v)" "has_feature (w_step (w_step ?v))" by (simp_all add: feature_world_ok(2))
  from read_feature_manifest [OF f(1)] obtain m1 where m1: "ReadManifest reference_json (replicate 16 8) (w_step ?v) = (Inr (Some m1), w_step (w_step ?v))" by blast
  from read_feature_manifest [OF f(2)] obtain m2 where m2: "ReadManifest reference_json (replicate 16 8) (w_step (w_step ?v)) = (Inr (Some m2), w_step (w_step (w_step ?v)))" by blast
  have "calm (w_step (w_step (w_step ?v)))" using f by (simp add: has_feature_def)
  from Put_returns [OF dumps this] obtain written w' where put: "Put reference_json (bytes_of doc)
      (loop_closure_manifest engine_setup (GenerateUuid (w_random ?v (w_tick ?v))) (hash_of (Some m1) @ hash_of (Some m2)) ''h'')
      (w_step (w_step (w_step ?v))) = (Inr written, w')" by blast
  have frame: "vf_feature_artifact_uuid (seen_frame n) = replicate 16 8" for n by (simp add: seen_frame_def)
  show ?thesis
    by (simp add: VerifyLoopClosureGeometry_def lib frame feature_state_def sbind_def on_store_def verify new_uuid_def TimestampNsNow_def
        Let_def none lift_res_def row on_scene_def add doc m1 m2 put sret_def) (simp add: stamped_closure_def geo(2))
qed

lemma verification_stores_closure_witness:
  "\<exists>r s'. VerifyLoopClosureGeometry engine_setup unit_math seen_candidate (seen_frame 6) (seen_frame 5) even_matcher trusting_verifier no_options
    ''h'' None feature_state = (Inr r, s') \<and> pose_justified unit_math (vr_geo r) None (vr_closure r) \<and>
    stored_as (vr_payload_content_hash r) (vr_payload_artifact_uuid r) (im_world s')"
proof -
  from verification_returns obtain r s' where
    r: "VerifyLoopClosureGeometry engine_setup unit_math seen_candidate (seen_frame 6) (seen_frame 5) even_matcher trusting_verifier no_options
      ''h'' None feature_state = (Inr r, s')" "cl_has_relative_pose (vr_closure r)" by (elim exE conjE)
  have ok: "store_ok (im_world feature_state)" using feature_world_ok(1) by (simp add: feature_state_def)
  from verification_stores_closure [OF r(1) ok] r show ?thesis by blast
qed

end
