(* ===== verification/PoseOptimization.thy ===== *)
theory PoseOptimization
  imports LoopVerification
begin

text \<open>
  The optimization stage of a verified loop closure: engine/pipeline/loop_closure_optimize_pipeline.cpp with the types of
  core/trajectory/optimization.h and optimizer.h and the documents of pose_graph_json.h and optimization_result_json.h.
  The optimizer is behind an interface; it may throw. The lemmas give a closed form of what a returning run
  does to the scene tables, show that running it again changes nothing, and when an optimization runs.
\<close>

section \<open>Data\<close>

record OptimizerInfo =
  oz_name :: string
  oz_version :: string

record OptimizationProvenance =
  ov_optimizer :: OptimizerInfo
  ov_configuration_hash :: string
  ov_input_artifact_hashes :: "string list"
  ov_adapter_version :: string
  ov_git_commit :: string
  ov_backend_specific_json :: string

record OptimizedPoseNode =
  on_frame_id :: string
  on_timestamp_ns :: int
  on_sequence_index :: int
  on_position_xyz :: "u64 list"
  on_rotation_xyzw :: "u64 list"
  on_covariance_position :: "u64 list"
  on_covariance_rotation :: "u64 list"

record OptimizationResult =
  zr_result_id :: string
  zr_graph_id :: string
  zr_trajectory_id :: string
  zr_status :: string
  zr_iterations :: int
  zr_initial_error :: u64
  zr_final_error :: u64
  zr_error_reduction :: u64
  zr_created_at_ns :: int
  zr_provenance :: OptimizationProvenance

record PoseOptimizationInput =
  zi_graph :: PoseGraph
  zi_graph_nodes :: "PoseGraphNode list"
  zi_graph_edges :: "PoseGraphEdge list"
  zi_initial_nodes :: "TrajectoryPoseNode list"
  zi_anchor_information_scale :: u64
  zi_anchor_enabled :: bool

record OptimizationTrace =
  zt_converged :: bool
  zt_iterations :: int
  zt_initial_error :: u64
  zt_final_error :: u64
  zt_error_reduction :: u64
  zt_status :: string

record PoseOptimizationOutput =
  zo_optimized_nodes :: "TrajectoryPoseNode list"
  zo_trace :: OptimizationTrace
  zo_result_id :: string

type_synonym TrajectoryOptimizer = "PoseOptimizationInput \<Rightarrow> PoseOptimizationOutput res"

text \<open>The pointers of the code that may be null are options; database and store are the state, and present or not.\<close>

record LoopClosureOptimizePipelineInput =
  zp_trajectory :: "Trajectory option"
  zp_trajectory_nodes :: "TrajectoryPoseNode list option"
  zp_closure :: LoopClosure
  zp_metric_basis :: MetricBasis
  zp_configuration_hash :: string
  zp_optimizer :: "TrajectoryOptimizer option"
  zp_has_db :: bool
  zp_has_store :: bool
  zp_odometry_info_position :: u64
  zp_odometry_info_rotation :: u64

record LoopClosureOptimizePipelineResult =
  zq_ran :: bool
  zq_spatial_separation_m :: u64
  zq_metric_eligible :: bool
  zq_graph :: PoseGraph
  zq_graph_id :: string
  zq_optimization :: "OptimizationResult option"
  zq_optimized_nodes :: "TrajectoryPoseNode list"
  zq_optimized :: "OptimizedPoseNode list"
  zq_result_id :: string

section \<open>Documents\<close>

definition numbers :: "u64 list \<Rightarrow> json" where
  "numbers ds = JArr (map JFloat ds)"

definition graph_node_doc :: "PoseGraphNode \<Rightarrow> json" where
  "graph_node_doc n = JObj [(''frame_id'', JStr (gn_frame_id n)), (''node_id'', JInt (gn_node_id n)),
     (''timestamp_ns'', JInt (gn_timestamp_ns n))]"

definition graph_edge_doc :: "PoseGraphEdge \<Rightarrow> json" where
  "graph_edge_doc e = JObj
     ((''confidence'', JFloat (ge_confidence e)) #
      (if ge_configuration_hash e = [] then [] else [(''configuration_hash'', JStr (ge_configuration_hash e))]) @
      [(''edge_id'', JInt (ge_edge_id e)), (''information_matrix_6x6'', numbers (ge_information_matrix_6x6 e)),
       (''relative_position_xyz'', numbers (ge_relative_position_xyz e)),
       (''relative_rotation_xyzw'', numbers (ge_relative_rotation_xyzw e))] @
      (if ge_source e = [] then [] else [(''source'', JStr (ge_source e))]) @
      [(''source_node_id'', JInt (ge_source_node_id e)), (''target_node_id'', JInt (ge_target_node_id e)), (''type'', JStr (ge_type e))])"

definition PoseGraphToJson :: "json_lib \<Rightarrow> PoseGraph \<Rightarrow> PoseGraphNode list \<Rightarrow> PoseGraphEdge list \<Rightarrow> string res" where
  "PoseGraphToJson lib graph nodes edges = jl_dump lib (JObj
     [(''edges'', JArr (map graph_edge_doc edges)), (''graph_id'', JStr (gr_graph_id graph)),
      (''nodes'', JArr (map graph_node_doc nodes)), (''schema_version'', JInt 1), (''trajectory_id'', JStr (gr_trajectory_id graph))])"

definition provenance_doc :: "OptimizationProvenance \<Rightarrow> json" where
  "provenance_doc p = JObj
     ((''adapter_version'', JStr (ov_adapter_version p)) #
      (if ov_backend_specific_json p = [] then [] else [(''backend_specific_json'', JStr (ov_backend_specific_json p))]) @
      [(''configuration_hash'', JStr (ov_configuration_hash p))] @
      (if ov_git_commit p = [] then [] else [(''git_commit'', JStr (ov_git_commit p))]) @
      [(''input_artifact_hashes'', string_array (ov_input_artifact_hashes p)),
       (''optimizer'', JObj [(''name'', JStr (oz_name (ov_optimizer p))), (''version'', JStr (oz_version (ov_optimizer p)))])])"

definition optimized_node_doc :: "OptimizedPoseNode \<Rightarrow> json" where
  "optimized_node_doc n = JObj
     [(''covariance_position'', numbers (on_covariance_position n)), (''covariance_rotation'', numbers (on_covariance_rotation n)),
      (''frame_id'', JStr (on_frame_id n)), (''position_xyz'', numbers (on_position_xyz n)),
      (''rotation_xyzw'', numbers (on_rotation_xyzw n)), (''sequence_index'', JInt (on_sequence_index n)),
      (''timestamp_ns'', JInt (on_timestamp_ns n))]"

definition result_doc :: "OptimizationResult \<Rightarrow> OptimizedPoseNode list \<Rightarrow> json" where
  "result_doc r nodes = JObj
     [(''created_at_ns'', JInt (zr_created_at_ns r)), (''error_reduction'', JFloat (zr_error_reduction r)),
      (''final_error'', JFloat (zr_final_error r)), (''graph_id'', JStr (zr_graph_id r)), (''initial_error'', JFloat (zr_initial_error r)),
      (''iterations'', JInt (zr_iterations r)), (''nodes'', JArr (map optimized_node_doc nodes)),
      (''provenance'', provenance_doc (zr_provenance r)), (''result_id'', JStr (zr_result_id r)), (''schema_version'', JInt 1),
      (''status'', JStr (zr_status r)), (''trajectory_id'', JStr (zr_trajectory_id r))]"

definition OptimizationResultToJson :: "json_lib \<Rightarrow> OptimizationResult \<Rightarrow> OptimizedPoseNode list \<Rightarrow> string res" where
  "OptimizationResultToJson lib r nodes = jl_dump lib (result_doc r nodes)"

section \<open>Identities and rows\<close>

definition kOrchestrationNamespace :: uuid where
  "kOrchestrationNamespace = [0x6b, 0xa7, 0xc9, 0x01, 0x9d, 0xad, 0x11, 0xd1, 0x80, 0xb4, 0x00, 0xc0, 0x4f, 0xd4, 0x30, 0xc9]"

definition NameUuid :: "string \<Rightarrow> uuid" where
  "NameUuid name = GenerateUuidV5 kOrchestrationNamespace name"

definition ToLoopClosureRow :: "LoopClosure \<Rightarrow> u64 \<Rightarrow> LoopClosureRow res" where
  "ToLoopClosureRow c spatial_separation_m =
     rbind (ParseUuid (cl_closure_id c)) (\<lambda>closure_id.
     rbind (ParseUuid (cl_trajectory_id c)) (\<lambda>trajectory_id.
     rbind (if cl_candidate_id c = [] then Inr nil_uuid else ParseUuid (cl_candidate_id c)) (\<lambda>candidate_id.
     rbind (ParseUuid (cl_source_frame_id c)) (\<lambda>source.
     rbind (ParseUuid (cl_target_frame_id c)) (\<lambda>target.
       Inr \<lparr>lc_closure_id = closure_id, lc_trajectory_id = trajectory_id, lc_candidate_id = candidate_id,
         lc_source_frame_id = source, lc_target_frame_id = target, lc_status = cl_status c, lc_inlier_ratio = cl_inlier_ratio c,
         lc_inlier_count = cl_inlier_count c, lc_confidence = cl_confidence c,
         lc_temporal_separation_ns = cl_temporal_separation_ns c, lc_spatial_separation_m = spatial_separation_m,
         lc_created_at_ns = cl_created_at_ns c\<rparr>)))))"

definition ToPoseGraphRow :: "PoseGraph \<Rightarrow> string \<Rightarrow> PoseGraphRow res" where
  "ToPoseGraphRow g cas_content_hash =
     rbind (ParseUuid (gr_graph_id g)) (\<lambda>graph_id.
     rbind (ParseUuid (gr_trajectory_id g)) (\<lambda>trajectory_id.
     rbind (ParseUuid (gr_scene_id g)) (\<lambda>scene_id.
       Inr \<lparr>pg_graph_id = graph_id, pg_trajectory_id = trajectory_id, pg_scene_id = scene_id, pg_status = gr_status g,
         pg_node_count = gr_node_count g, pg_edge_count = gr_edge_count g, pg_odometry_edge_count = gr_odometry_edge_count g,
         pg_loop_closure_edge_count = gr_loop_closure_edge_count g, pg_prior_edge_count = gr_prior_edge_count g,
         pg_created_at_ns = gr_created_at_ns g, pg_document_json = cas_content_hash\<rparr>)))"

definition ToOptimizationResultRow :: "OptimizationResult \<Rightarrow> string \<Rightarrow> OptimizationResultRow res" where
  "ToOptimizationResultRow r cas_content_hash =
     rbind (ParseUuid (zr_result_id r)) (\<lambda>result_id.
     rbind (ParseUuid (zr_graph_id r)) (\<lambda>graph_id.
     rbind (ParseUuid (zr_trajectory_id r)) (\<lambda>trajectory_id.
       Inr \<lparr>og_result_id = result_id, og_graph_id = graph_id, og_trajectory_id = trajectory_id, og_status = zr_status r,
         og_iterations = zr_iterations r, og_initial_error = zr_initial_error r, og_final_error = zr_final_error r,
         og_error_reduction = zr_error_reduction r, og_created_at_ns = zr_created_at_ns r, og_document_json = cas_content_hash\<rparr>)))"

definition WriteCasArtifact :: "engine_env \<Rightarrow> string \<Rightarrow> string \<Rightarrow> string \<Rightarrow> string w_op" where
  "WriteCasArtifact env payload artifact_type configuration_hash =
     sbind new_uuid (\<lambda>auid.
     sbind (Put (ee_lib env) (bytes_of payload) (default_manifest
         \<lparr>am_artifact_uuid := auid, am_type := artifact_type, am_schema_version := 1,
          am_producer := \<lparr>pi_id = ''spatial-platform'', pi_version = ee_version env, pi_git_commit = ee_git_commit env\<rparr>,
          am_configuration_hash := configuration_hash, am_mime_type := ''application/json'',
          am_file_size := int (length payload)\<rparr>)) (\<lambda>written.
       sret (wr_content_hash written)))"

section \<open>The stage\<close>

definition closure_graph_id :: "LoopClosure \<Rightarrow> string" where
  "closure_graph_id c = FormatUuid (NameUuid (''graph|'' @ cl_trajectory_id c @ ''|'' @ cl_closure_id c))"

definition graph_result_id :: "string \<Rightarrow> string" where
  "graph_result_id graph_id = FormatUuid (NameUuid (''result|'' @ graph_id))"

definition assemble_with_edge :: "'q pose_math \<Rightarrow> LoopClosureOptimizePipelineInput \<Rightarrow> Trajectory \<Rightarrow> TrajectoryPoseNode list \<Rightarrow>
    PoseGraphEdge \<Rightarrow> PoseGraphAssembly" where
  "assemble_with_edge pm input trajectory nodes metric_edge =
     (let opts = (default_assembler (pm_fp pm))\<lparr>ao_odometry_info_position := zp_odometry_info_position input,
            ao_odometry_info_rotation := zp_odometry_info_rotation input\<rparr>;
          a = AssemblePoseGraph pm trajectory nodes opts;
          edges = pa_graph_edges a @ [metric_edge\<lparr>ge_edge_id := int (length (pa_graph_edges a))\<rparr>] in
      a\<lparr>pa_graph := (pa_graph a)\<lparr>gr_graph_id := closure_graph_id (zp_closure input), gr_edge_count := int (length edges),
           gr_odometry_edge_count := int (length edges - 1), gr_loop_closure_edge_count := 1\<rparr>,
        pa_graph_edges := edges\<rparr>)"

definition optimizer_input :: "arith \<Rightarrow> PoseGraphAssembly \<Rightarrow> TrajectoryPoseNode list \<Rightarrow> PoseOptimizationInput" where
  "optimizer_input fp a nodes = \<lparr>zi_graph = pa_graph a, zi_graph_nodes = pa_graph_nodes a, zi_graph_edges = pa_graph_edges a,
     zi_initial_nodes = nodes, zi_anchor_information_scale = fa_ratio fp 1000000 1, zi_anchor_enabled = True\<rparr>"

definition optimization_result :: "LoopClosure \<Rightarrow> PoseOptimizationOutput \<Rightarrow> OptimizationResult" where
  "optimization_result c seam = (let graph_id = closure_graph_id c; t = zo_trace seam in
     \<lparr>zr_result_id = graph_result_id graph_id, zr_graph_id = graph_id, zr_trajectory_id = cl_trajectory_id c, zr_status = zt_status t,
      zr_iterations = zt_iterations t, zr_initial_error = zt_initial_error t, zr_final_error = zt_final_error t,
      zr_error_reduction = zt_error_reduction t, zr_created_at_ns = cl_created_at_ns c,
      zr_provenance = \<lparr>ov_optimizer = \<lparr>oz_name = ''gtsam'', oz_version = ''seam''\<rparr>, ov_configuration_hash = [],
        ov_input_artifact_hashes = [], ov_adapter_version = ''0.1.0'', ov_git_commit = [], ov_backend_specific_json = []\<rparr>\<rparr>)"

definition optimized_node :: "TrajectoryPoseNode \<Rightarrow> OptimizedPoseNode" where
  "optimized_node n = \<lparr>on_frame_id = tn_frame_id n, on_timestamp_ns = tn_timestamp_ns n, on_sequence_index = tn_sequence_index n,
     on_position_xyz = tn_position_xyz n, on_rotation_xyzw = tn_rotation_xyzw n, on_covariance_position = tn_covariance_position n,
     on_covariance_rotation = tn_covariance_rotation n\<rparr>"

definition no_outcome :: LoopClosureOptimizePipelineResult where
  "no_outcome = \<lparr>zq_ran = False, zq_spatial_separation_m = 0, zq_metric_eligible = False,
     zq_graph = \<lparr>gr_graph_id = [], gr_trajectory_id = [], gr_scene_id = [], gr_status = [], gr_node_count = 0, gr_edge_count = 0,
       gr_odometry_edge_count = 0, gr_loop_closure_edge_count = 0, gr_prior_edge_count = 0, gr_created_at_ns = 0,
       gr_provenance = no_provenance\<rparr>,
     zq_graph_id = [], zq_optimization = None, zq_optimized_nodes = [], zq_optimized = [], zq_result_id = []\<rparr>"

definition store_document :: "engine_env \<Rightarrow> LoopClosureOptimizePipelineInput \<Rightarrow> string \<Rightarrow> string \<Rightarrow> string \<Rightarrow> string import_op" where
  "store_document env input payload artifact_type otherwise =
     (if zp_has_store input then on_store (WriteCasArtifact env payload artifact_type (zp_configuration_hash input)) else sret otherwise)"

definition optimize_closure :: "engine_env \<Rightarrow> 'q pose_math \<Rightarrow> LoopClosureOptimizePipelineInput \<Rightarrow> Trajectory \<Rightarrow> TrajectoryPoseNode list \<Rightarrow>
    TrajectoryOptimizer \<Rightarrow> PoseGraphEdge \<Rightarrow> LoopClosureOptimizePipelineResult \<Rightarrow> LoopClosureOptimizePipelineResult import_op" where
  "optimize_closure env pm input trajectory nodes optimize metric_edge out =
     (let a = assemble_with_edge pm input trajectory nodes metric_edge; graph = pa_graph a; graph_id = closure_graph_id (zp_closure input) in
     sbind (lift_res (PoseGraphToJson (ee_lib env) graph (pa_graph_nodes a) (pa_graph_edges a))) (\<lambda>graph_doc.
     sbind (store_document env input graph_doc ''pose_graph'' graph_id) (\<lambda>graph_hash.
     sbind (lift_res (ToPoseGraphRow graph graph_hash)) (\<lambda>graph_row.
     sbind (on_scene (UpsertPoseGraph graph_row)) (\<lambda>_.
     sbind (lift_res (optimize (optimizer_input (pm_fp pm) a nodes))) (\<lambda>seam.
     let r = optimization_result (zp_closure input) seam; optimized = map optimized_node (zo_optimized_nodes seam) in
     sbind (lift_res (OptimizationResultToJson (ee_lib env) r optimized)) (\<lambda>opt_doc.
     sbind (store_document env input opt_doc ''optimization_result'' (zr_result_id r)) (\<lambda>opt_hash.
     sbind (lift_res (ToOptimizationResultRow r opt_hash)) (\<lambda>result_row.
     sbind (on_scene (UpsertOptimizationResult result_row)) (\<lambda>_.
       sret (out\<lparr>zq_ran := True, zq_graph := graph, zq_graph_id := graph_id, zq_optimization := Some r,
         zq_optimized_nodes := zo_optimized_nodes seam, zq_optimized := optimized, zq_result_id := zr_result_id r\<rparr>)))))))))))"

definition staged_closure :: "'q pose_math \<Rightarrow> LoopClosureOptimizePipelineInput \<Rightarrow> TrajectoryPoseNode list \<Rightarrow> LoopClosureToPoseGraphResult" where
  "staged_closure pm input nodes = LoopClosureToPoseGraph pm \<lparr>pi_trajectory = zp_trajectory input, pi_trajectory_nodes = Some nodes, pi_closure = zp_closure input,
     pi_metric_basis = zp_metric_basis input, pi_configuration_hash = zp_configuration_hash input\<rparr>"

definition persist_closure :: "LoopClosureOptimizePipelineInput \<Rightarrow> LoopClosureToPoseGraphResult \<Rightarrow> unit import_op" where
  "persist_closure input staged =
     (if zp_has_db input
      then sbind (lift_res (ToLoopClosureRow (pr_closure staged) (pr_spatial_separation_m staged))) (\<lambda>row. on_scene (UpsertLoopClosure row))
      else sret ())"

definition LoopClosureOptimizePipeline :: "engine_env \<Rightarrow> 'q pose_math \<Rightarrow> LoopClosureOptimizePipelineInput \<Rightarrow>
    LoopClosureOptimizePipelineResult import_op" where
  "LoopClosureOptimizePipeline env pm input =
     (case (zp_trajectory input, zp_trajectory_nodes input) of
        (Some trajectory, Some nodes) \<Rightarrow>
          let staged = staged_closure pm input nodes;
              out = no_outcome\<lparr>zq_spatial_separation_m := pr_spatial_separation_m staged, zq_metric_eligible := pr_metric_eligible staged\<rparr> in
          sbind (persist_closure input staged) (\<lambda>_.
            case (if zp_has_db input then zp_optimizer input else None, pr_metric_edge staged) of
              (Some optimize, Some metric_edge) \<Rightarrow> optimize_closure env pm input trajectory nodes optimize metric_edge out
            | _ \<Rightarrow> sret out)
      | _ \<Rightarrow> sret no_outcome)"
section \<open>A closed form of a returning run\<close>

text \<open>
  What a run that returns computes, with the model's own helpers and without the calls that can fail, for the proofs below (a run
  that throws may leave the closure's row, or the rows of closure and graph): the result, the row of the closure, and the rows of the
  graph and of the optimization. A document is named by its SHA-256 when there is an artifact store, otherwise by the identity of
  what it describes.
\<close>

definition document_name :: "LoopClosureOptimizePipelineInput \<Rightarrow> string \<Rightarrow> string \<Rightarrow> string" where
  "document_name input payload otherwise = (if zp_has_store input then Sha256Hex (bytes_of payload) else otherwise)"

definition optimized_rows :: "engine_env \<Rightarrow> 'q pose_math \<Rightarrow> LoopClosureOptimizePipelineInput \<Rightarrow> Trajectory \<Rightarrow> TrajectoryPoseNode list \<Rightarrow>
    TrajectoryOptimizer \<Rightarrow> PoseGraphEdge \<Rightarrow> (PoseOptimizationOutput \<times> PoseGraphRow \<times> OptimizationResultRow) res" where
  "optimized_rows env pm input trajectory nodes optimize metric_edge =
     (let a = assemble_with_edge pm input trajectory nodes metric_edge in
      rbind (PoseGraphToJson (ee_lib env) (pa_graph a) (pa_graph_nodes a) (pa_graph_edges a)) (\<lambda>graph_doc.
      rbind (ToPoseGraphRow (pa_graph a) (document_name input graph_doc (gr_graph_id (pa_graph a)))) (\<lambda>graph_row.
      rbind (optimize (optimizer_input (pm_fp pm) a nodes)) (\<lambda>seam.
      let r = optimization_result (zp_closure input) seam in
      rbind (OptimizationResultToJson (ee_lib env) r (map optimized_node (zo_optimized_nodes seam))) (\<lambda>opt_doc.
      rbind (ToOptimizationResultRow r (document_name input opt_doc (zr_result_id r))) (\<lambda>result_row.
        Inr (seam, graph_row, result_row)))))))"

definition optimized_outcome :: "LoopClosureOptimizePipelineInput \<Rightarrow> PoseGraph \<Rightarrow> PoseOptimizationOutput \<Rightarrow>
    LoopClosureOptimizePipelineResult \<Rightarrow> LoopClosureOptimizePipelineResult" where
  "optimized_outcome input graph seam out =
     (let r = optimization_result (zp_closure input) seam in
      out\<lparr>zq_ran := True, zq_graph := graph, zq_graph_id := gr_graph_id graph, zq_optimization := Some r,
        zq_optimized_nodes := zo_optimized_nodes seam, zq_optimized := map optimized_node (zo_optimized_nodes seam),
        zq_result_id := zr_result_id r\<rparr>)"

type_synonym closure_stage_rows = "LoopClosureRow option \<times> (PoseGraphRow \<times> OptimizationResultRow) option"

definition stage_outcome :: "engine_env \<Rightarrow> 'q pose_math \<Rightarrow> LoopClosureOptimizePipelineInput \<Rightarrow>
    (LoopClosureOptimizePipelineResult \<times> closure_stage_rows) res" where
  "stage_outcome env pm input =
     (case (zp_trajectory input, zp_trajectory_nodes input) of
        (Some trajectory, Some nodes) \<Rightarrow>
          let staged = staged_closure pm input nodes;
              out = no_outcome\<lparr>zq_spatial_separation_m := pr_spatial_separation_m staged, zq_metric_eligible := pr_metric_eligible staged\<rparr> in
          if \<not> zp_has_db input then Inr (out, None, None)
          else rbind (ToLoopClosureRow (pr_closure staged) (pr_spatial_separation_m staged)) (\<lambda>closure.
            case (zp_optimizer input, pr_metric_edge staged) of
              (Some optimize, Some metric_edge) \<Rightarrow>
                rbind (optimized_rows env pm input trajectory nodes optimize metric_edge) (\<lambda>(seam, rows).
                  Inr (optimized_outcome input (pa_graph (assemble_with_edge pm input trajectory nodes metric_edge)) seam out, Some closure, Some rows))
            | _ \<Rightarrow> Inr (out, Some closure, None))
      | _ \<Rightarrow> Inr (no_outcome, None, None))"

definition with_rows :: "closure_stage_rows \<Rightarrow> scene_tables \<Rightarrow> scene_tables" where
  "with_rows rows t =
     (let t1 = (case fst rows of None \<Rightarrow> t
                | Some c \<Rightarrow> t\<lparr>st_loop_closures := tbl_replace lc_closure_id (stored_closure c) (st_loop_closures t)\<rparr>) in
      case snd rows of None \<Rightarrow> t1
      | Some (g, r) \<Rightarrow> t1\<lparr>st_pose_graphs := tbl_replace pg_graph_id g (st_pose_graphs t1),
          st_opt_results := tbl_replace og_result_id (stored_result r) (st_opt_results t1)\<rparr>)"

lemma upserts_Inr:
  "UpsertLoopClosure c d = (Inr u, d') \<Longrightarrow> tx_tables d' = with_rows (Some c, None) (tx_tables d)"
  "UpsertPoseGraph g d = (Inr u, d') \<Longrightarrow>
     tx_tables d' = (tx_tables d)\<lparr>st_pose_graphs := tbl_replace pg_graph_id g (st_pose_graphs (tx_tables d))\<rparr>"
  "UpsertOptimizationResult r d = (Inr u, d') \<Longrightarrow>
     tx_tables d' = (tx_tables d)\<lparr>st_opt_results := tbl_replace og_result_id (stored_result r) (st_opt_results (tx_tables d))\<rparr>"
  by (auto simp: UpsertLoopClosure_def UpsertPoseGraph_def UpsertOptimizationResult_def replace_closure_def replace_pose_graph_def
      replace_result_def with_rows_def dest!: write_statement_Inr)

lemma on_scene_Inr: "on_scene f s = (Inr u, s') \<Longrightarrow> f (im_scene s) = (Inr u, im_scene s') \<and> im_world s' = im_world s"
  using on_scene_step by blast

lemma WriteCasArtifact_Inr:
  assumes "WriteCasArtifact env payload ty conf w = (Inr h, w')"
  shows "h = Sha256Hex (bytes_of payload)"
  using assms by (auto simp: WriteCasArtifact_def sret_def dest!: sbind_InrD Put_hash)

lemma store_document_Inr:
  assumes "store_document env input payload ty other s = (Inr h, s')"
  shows "h = document_name input payload other \<and> im_scene s' = im_scene s"
  using assms WriteCasArtifact_Inr [of env payload ty "zp_configuration_hash input" "im_world s" h "im_world s'"]
  by (auto simp: store_document_def document_name_def sret_def dest!: on_store_step split: if_splits)

lemma optimize_closure_Inr:
  assumes "optimize_closure env pm input trajectory nodes optimize metric_edge out s = (Inr r, s')"
  shows "\<exists>seam g o1. optimized_rows env pm input trajectory nodes optimize metric_edge = Inr (seam, g, o1) \<and>
    r = optimized_outcome input (pa_graph (assemble_with_edge pm input trajectory nodes metric_edge)) seam out \<and>
    tables s' = with_rows (None, Some (g, o1)) (tables s)"
proof -
  let ?a = "assemble_with_edge pm input trajectory nodes metric_edge" and ?id = "closure_graph_id (zp_closure input)"
  have id: "gr_graph_id (pa_graph ?a) = ?id" by (simp add: assemble_with_edge_def Let_def)
  from assms obtain gd gh g seam od oh o1 s1 s2 s3 s4 where
    gd: "PoseGraphToJson (ee_lib env) (pa_graph ?a) (pa_graph_nodes ?a) (pa_graph_edges ?a) = Inr gd"
    and gh: "store_document env input gd ''pose_graph'' ?id s = (Inr gh, s1)" and g: "ToPoseGraphRow (pa_graph ?a) gh = Inr g"
    and up: "on_scene (UpsertPoseGraph g) s1 = (Inr (), s2)" and seam: "optimize (optimizer_input (pm_fp pm) ?a nodes) = Inr seam"
    and od: "OptimizationResultToJson (ee_lib env) (optimization_result (zp_closure input) seam) (map optimized_node (zo_optimized_nodes seam)) = Inr od"
    and oh: "store_document env input od ''optimization_result'' (zr_result_id (optimization_result (zp_closure input) seam)) s2 = (Inr oh, s3)"
    and o1: "ToOptimizationResultRow (optimization_result (zp_closure input) seam) oh = Inr o1"
    and up2: "on_scene (UpsertOptimizationResult o1) s3 = (Inr (), s4)" and s': "s' = s4"
    and r: "r = out\<lparr>zq_ran := True, zq_graph := pa_graph ?a, zq_graph_id := ?id, zq_optimization := Some (optimization_result (zp_closure input) seam),
         zq_optimized_nodes := zo_optimized_nodes seam, zq_optimized := map optimized_node (zo_optimized_nodes seam),
         zq_result_id := zr_result_id (optimization_result (zp_closure input) seam)\<rparr>"
    unfolding optimize_closure_def Let_def lift_res_def sret_def
    apply (elim sbind_InrE Pair_inject)
    apply hypsubst
    apply (rule that; force)
    done
  note gh = store_document_Inr [OF gh] and oh = store_document_Inr [OF oh] and up = on_scene_Inr [OF up] and up2 = on_scene_Inr [OF up2]
  have "tables s' = with_rows (None, Some (g, o1)) (tables s)"
    using gh oh upserts_Inr(2) [OF conjunct1 [OF up]] upserts_Inr(3) [OF conjunct1 [OF up2]] s' by (simp add: with_rows_def Let_def)
  moreover have "optimized_rows env pm input trajectory nodes optimize metric_edge = Inr (seam, g, o1)"
    using gd g seam od o1 gh oh by (simp add: optimized_rows_def Let_def id)
  ultimately show ?thesis using r by (simp add: optimized_outcome_def Let_def id)
qed

lemma stage_effect:
  assumes "LoopClosureOptimizePipeline env pm input s = (Inr r, s')"
  shows "\<exists>rows. stage_outcome env pm input = Inr (r, rows) \<and> tables s' = with_rows rows (tables s)"
proof (cases "zp_trajectory input = None \<or> zp_trajectory_nodes input = None \<or> \<not> zp_has_db input")
  case True
  have "tables s = with_rows (None, None) (tables s)" by (simp add: with_rows_def)
  with True assms show ?thesis
    by (auto simp: LoopClosureOptimizePipeline_def stage_outcome_def persist_closure_def sret_def sbind_def Let_def split: option.splits)
next
  case False
  then obtain trajectory nodes where t: "zp_trajectory input = Some trajectory" "zp_trajectory_nodes input = Some nodes" "zp_has_db input" by auto
  let ?staged = "staged_closure pm input nodes"
  let ?out = "no_outcome\<lparr>zq_spatial_separation_m := pr_spatial_separation_m ?staged, zq_metric_eligible := pr_metric_eligible ?staged\<rparr>"
  from assms t obtain s1 where p: "persist_closure input ?staged s = (Inr (), s1)"
    and rest: "(case (zp_optimizer input, pr_metric_edge ?staged) of
          (Some optimize, Some metric_edge) \<Rightarrow> optimize_closure env pm input trajectory nodes optimize metric_edge ?out
        | _ \<Rightarrow> sret ?out) s1 = (Inr r, s')"
    by (auto simp: LoopClosureOptimizePipeline_def Let_def dest!: sbind_InrD)
  from p t(3) obtain c where c: "ToLoopClosureRow (pr_closure ?staged) (pr_spatial_separation_m ?staged) = Inr c"
    and up: "on_scene (UpsertLoopClosure c) s = (Inr (), s1)"
    by (auto simp: persist_closure_def lift_res_def dest!: sbind_InrD)
  from upserts_Inr(1) [OF conjunct1 [OF on_scene_Inr [OF up]]] have t1: "tables s1 = with_rows (Some c, None) (tables s)" .
  show ?thesis
  proof (cases "zp_optimizer input = None \<or> pr_metric_edge ?staged = None")
    case True
    then show ?thesis using rest t c t1 by (auto simp: stage_outcome_def Let_def sret_def split: option.splits)
  next
    case False
    then obtain optimize metric_edge where e: "zp_optimizer input = Some optimize" "pr_metric_edge ?staged = Some metric_edge" by auto
    from optimize_closure_Inr [of env pm input trajectory nodes optimize metric_edge ?out s1 r s'] rest e obtain seam g o1 where
      "optimized_rows env pm input trajectory nodes optimize metric_edge = Inr (seam, g, o1)"
      "r = optimized_outcome input (pa_graph (assemble_with_edge pm input trajectory nodes metric_edge)) seam ?out"
      "tables s' = with_rows (None, Some (g, o1)) (tables s1)" by auto
    then show ?thesis using t c e t1 by (auto simp: stage_outcome_def Let_def with_rows_def)
  qed
qed

section \<open>Running again\<close>

lemma tbl_replace_twice [simp]: "tbl_replace key r (tbl_replace key r rows) = tbl_replace key r rows"
  by (simp add: tbl_replace_def)

lemma with_rows_twice: "with_rows rows (with_rows rows t) = with_rows rows t"
  by (simp add: with_rows_def Let_def split: option.split prod.split)

text \<open>
  Running the stage again on the same closure reports the same result under the same identities and leaves every table as it is:
  the rows are replaced by themselves.\<close>

theorem optimizing_again:
  assumes "LoopClosureOptimizePipeline env pm input s = (Inr r, s')" "LoopClosureOptimizePipeline env pm input s' = (Inr r2, s2)"
  shows "r2 = r \<and> tables s2 = tables s'"
proof -
  have effect: "\<exists>rows. stage_outcome env pm input = Inr (r, rows) \<and> tables s' = with_rows rows (tables s)"
    if "LoopClosureOptimizePipeline env pm input s = (Inr r, s')" for s r s' using that by (rule stage_effect)
  from effect [OF assms(1)] effect [OF assms(2)] show ?thesis by (auto simp: with_rows_twice)
qed

section \<open>When an optimization runs\<close>

definition graph_consistent :: "PoseGraphAssembly \<Rightarrow> bool" where
  "graph_consistent a \<longleftrightarrow> (let g = pa_graph a in
     map ge_edge_id (pa_graph_edges a) = map int [0..<length (pa_graph_edges a)] \<and>
     list_all (\<lambda>e. 0 \<le> ge_source_node_id e \<and> ge_source_node_id e < gr_node_count g \<and> 0 \<le> ge_target_node_id e \<and>
       ge_target_node_id e < gr_node_count g \<and> ge_source_node_id e \<noteq> ge_target_node_id e) (pa_graph_edges a) \<and>
     gr_node_count g = int (length (pa_graph_nodes a)) \<and> gr_edge_count g = int (length (pa_graph_edges a)) \<and>
     gr_odometry_edge_count g = int (length (filter (\<lambda>e. ge_type e = ''odometry'') (pa_graph_edges a))) \<and>
     gr_loop_closure_edge_count g = int (length (filter (\<lambda>e. ge_type e = ''loop_closure'') (pa_graph_edges a))) \<and>
     gr_edge_count g = gr_odometry_edge_count g + gr_loop_closure_edge_count g + gr_prior_edge_count g)"

definition measurement_of :: "LoopClosure \<Rightarrow> MetricLoopClosureMeasurement" where
  "measurement_of c = \<lparr>lm_position_cs = cl_relative_position_xyz c, lm_rotation_cst = cl_relative_rotation_xyzw c,
     lm_geometric_residual = cl_geometric_residual c\<rparr>"

lemma staged_edge_Some:
  assumes "pr_metric_edge (staged_closure pm input nodes) = Some e"
  shows "cl_status (zp_closure input) = ''accepted'' \<and> MetricEligibleTrajectoryBasis (zp_metric_basis input) \<and>
    measured_edge pm nodes (zp_closure input) (measurement_of (zp_closure input)) e"
proof -
  from assms have "BuildMetricLoopClosureEdge pm (zp_closure input) nodes (measurement_of (zp_closure input)) 0
      (zp_configuration_hash input) (zp_metric_basis input) = Some e"
    by (auto simp: staged_closure_def LoopClosureToPoseGraph_def measurement_of_def Let_def split: if_split_asm)
  from BuildMetricLoopClosureEdge_Some [OF this] show ?thesis by blast
qed

lemma odometry_edges_facts:
  obtains es where "odometry_edges_from pm opts 0 nodes = es" "length es = length nodes - 1" "map ge_edge_id es = map int [0..<length nodes - 1]"
    "filter (\<lambda>e. ge_type e = ''odometry'') es = es" "filter (\<lambda>e. ge_type e = ''loop_closure'') es = []"
    "list_all (\<lambda>e. 0 \<le> ge_source_node_id e \<and> ge_source_node_id e < int (length nodes) \<and> 0 \<le> ge_target_node_id e \<and>
      ge_target_node_id e < int (length nodes) \<and> ge_source_node_id e \<noteq> ge_target_node_id e) es"
proof
  let ?es = "map (\<lambda>i. odometry_edge pm opts (int i) (nodes ! i) (nodes ! Suc i)) [0..<length nodes - 1]"
  show "odometry_edges_from pm opts 0 nodes = ?es" using odometry_edges_from_map [of pm opts 0 nodes] by simp
  show "map ge_edge_id ?es = map int [0..<length nodes - 1]" by (simp add: odometry_edge_def Let_def)
  show "filter (\<lambda>e. ge_type e = ''odometry'') ?es = ?es" "filter (\<lambda>e. ge_type e = ''loop_closure'') ?es = []"
    by (auto simp: filter_id_conv filter_empty_conv odometry_edge_def Let_def)
  show "list_all (\<lambda>e. 0 \<le> ge_source_node_id e \<and> ge_source_node_id e < int (length nodes) \<and> 0 \<le> ge_target_node_id e \<and>
      ge_target_node_id e < int (length nodes) \<and> ge_source_node_id e \<noteq> ge_target_node_id e) ?es"
    by (auto simp: list_all_iff odometry_edge_def Let_def)
qed simp

lemma assembled_with_edge:
  assumes "measured_edge pm nodes c m e"
  shows "graph_consistent (assemble_with_edge pm input trajectory nodes e)"
    "last (pa_graph_edges (assemble_with_edge pm input trajectory nodes e)) = e\<lparr>ge_edge_id := int (length nodes - 1)\<rparr>"
proof -
  let ?opts = "(default_assembler (pm_fp pm))\<lparr>ao_odometry_info_position := zp_odometry_info_position input,
    ao_odometry_info_rotation := zp_odometry_info_rotation input\<rparr>"
  obtain es where es: "odometry_edges_from pm ?opts 0 nodes = es" "length es = length nodes - 1"
    "map ge_edge_id es = map int [0..<length nodes - 1]" "filter (\<lambda>e. ge_type e = ''odometry'') es = es"
    "filter (\<lambda>e. ge_type e = ''loop_closure'') es = []"
    "list_all (\<lambda>e. 0 \<le> ge_source_node_id e \<and> ge_source_node_id e < int (length nodes) \<and> 0 \<le> ge_target_node_id e \<and>
      ge_target_node_id e < int (length nodes) \<and> ge_source_node_id e \<noteq> ge_target_node_id e) es" by (rule odometry_edges_facts)
  obtain n where n: "length nodes = Suc n" using assms by (cases "length nodes") (auto simp: measured_edge_def)
  show "last (pa_graph_edges (assemble_with_edge pm input trajectory nodes e)) = e\<lparr>ge_edge_id := int (length nodes - 1)\<rparr>"
    by (simp add: assemble_with_edge_def AssemblePoseGraph_def Let_def es)
  have "ge_source_node_id e < 1 + int n \<and> ge_target_node_id e < 1 + int n"
    using assms n by (auto simp: measured_edge_def)
  then show "graph_consistent (assemble_with_edge pm input trajectory nodes e)"
    using assms es(2-) n
    by (simp add: graph_consistent_def assemble_with_edge_def AssemblePoseGraph_def Let_def es(1) graph_nodes_from_nth
        measured_edge_def)
qed
lemma stage_outcome_cases:
  assumes "stage_outcome env pm input = Inr (r, rows)"
  obtains (idle) "\<not> zq_ran r" "zq_optimization r = None" "snd rows = None"
  | (optimized) trajectory nodes optimize e seam gr where "zq_ran r" "zp_trajectory input = Some trajectory" "zp_trajectory_nodes input = Some nodes"
      "zp_optimizer input = Some optimize" "pr_metric_edge (staged_closure pm input nodes) = Some e"
      "optimized_rows env pm input trajectory nodes optimize e = Inr (seam, gr)" "zq_optimized_nodes r = zo_optimized_nodes seam"
      "zq_graph r = pa_graph (assemble_with_edge pm input trajectory nodes e)"
proof -
  consider "zp_trajectory input = None \<or> zp_trajectory_nodes input = None \<or> \<not> zp_has_db input \<or> zp_optimizer input = None"
    | trajectory nodes optimize where "zp_trajectory input = Some trajectory" "zp_trajectory_nodes input = Some nodes" "zp_has_db input"
        "zp_optimizer input = Some optimize" by (metis not_None_eq)
  then show ?thesis
  proof cases
    case 1
    with assms show ?thesis
      by (auto simp: stage_outcome_def Let_def rbind_Inr no_outcome_def split: option.split_asm if_split_asm intro!: idle)
  next
    case 2
    show ?thesis
    proof (cases "pr_metric_edge (staged_closure pm input nodes)")
      case None
      with assms 2 show ?thesis by (auto simp: stage_outcome_def Let_def rbind_Inr no_outcome_def intro!: idle)
    next
      case (Some e)
      with assms 2 show ?thesis
        by (auto simp: stage_outcome_def Let_def rbind_Inr optimized_outcome_def intro!: optimized)
    qed
  qed
qed

lemma measured_edge_renumbered [simp]: "measured_edge pm nodes c m (e\<lparr>ge_edge_id := i\<rparr>) = measured_edge pm nodes c m e"
  by (simp add: measured_edge_def)

text \<open>C24:
  When the stage reports that an optimization ran, then the closure was accepted, the metric basis is declared with its calibration
  and its configuration, and the optimizer got and answered a consistent graph: the odometry edges and, last, the one measured edge
  of the closure. Otherwise neither graphs nor optimization results changed.\<close>

theorem optimization_needs_metric_edge:
  assumes "LoopClosureOptimizePipeline env pm input s = (Inr r, s')"
  shows "if zq_ran r then \<exists>trajectory nodes optimize a seam. zp_trajectory input = Some trajectory \<and>
      zp_trajectory_nodes input = Some nodes \<and> zp_optimizer input = Some optimize \<and> cl_status (zp_closure input) = ''accepted'' \<and>
      mb_declared (zp_metric_basis input) \<and> mb_scale_calibration_ref (zp_metric_basis input) \<noteq> [] \<and>
      rp_configuration_hash (mb_provenance (zp_metric_basis input)) \<noteq> [] \<and>
      optimize (optimizer_input (pm_fp pm) a nodes) = Inr seam \<and> zq_optimized_nodes r = zo_optimized_nodes seam \<and> zq_graph r = pa_graph a \<and>
      graph_consistent a \<and> gr_loop_closure_edge_count (pa_graph a) = 1 \<and>
      measured_edge pm nodes (zp_closure input) (measurement_of (zp_closure input)) (last (pa_graph_edges a))
    else zq_optimization r = None \<and> st_pose_graphs (tables s') = st_pose_graphs (tables s) \<and> st_opt_results (tables s') = st_opt_results (tables s)"
proof -
  from stage_effect [OF assms] obtain rows where rows: "stage_outcome env pm input = Inr (r, rows)" "tables s' = with_rows rows (tables s)" by blast
  from rows(1) show ?thesis
  proof (cases rule: stage_outcome_cases)
    case idle
    with rows(2) show ?thesis by (auto simp: with_rows_def Let_def split: option.split)
  next
    case (optimized trajectory nodes optimize e seam gr)
    let ?a = "assemble_with_edge pm input trajectory nodes e"
    note edge = staged_edge_Some [OF optimized(5)]
    note measured = edge [THEN conjunct2, THEN conjunct2]
    from optimized(6) have "optimize (optimizer_input (pm_fp pm) ?a nodes) = Inr seam"
      by (auto simp: optimized_rows_def Let_def rbind_Inr)
    moreover have "measured_edge pm nodes (zp_closure input) (measurement_of (zp_closure input)) (last (pa_graph_edges ?a))"
      using measured by (simp add: assembled_with_edge(2) [OF measured])
    moreover have "gr_loop_closure_edge_count (pa_graph ?a) = 1" by (simp add: assemble_with_edge_def Let_def)
    ultimately have "\<exists>a. optimize (optimizer_input (pm_fp pm) a nodes) = Inr seam \<and> zq_graph r = pa_graph a \<and> graph_consistent a \<and>
        gr_loop_closure_edge_count (pa_graph a) = 1 \<and>
        measured_edge pm nodes (zp_closure input) (measurement_of (zp_closure input)) (last (pa_graph_edges a))"
      using optimized(8) assembled_with_edge(1) [OF measured] by blast
    with optimized(1-4,7) edge eligible_basis [of "zp_metric_basis input"] show ?thesis by auto
  qed
qed

text \<open>The document of an optimization names no configuration, whatever the stage was given, although its schema asks for a hash.\<close>

lemma optimization_without_configuration: "ov_configuration_hash (zr_provenance (optimization_result c seam)) = []"
  by (simp add: optimization_result_def Let_def)

section \<open>An optimization that runs\<close>

definition ready :: "import_state \<Rightarrow> bool" where
  "ready s \<longleftrightarrow> calm (im_world s) \<and> free (im_scene s)"

lemma ready_upserts [succeeds_intros]:
  "succeeds ready (on_scene (UpsertLoopClosure c))" "succeeds ready (on_scene (UpsertPoseGraph g))"
  "succeeds ready (on_scene (UpsertOptimizationResult o1))"
proof -
  have "succeeds ready (on_scene (write_op (statement p q f)))" if "\<And>t. f t \<noteq> None" for p q f
  proof -
    have "\<exists>d'. write_op (statement p q f) d = (Inr (), d') \<and> free d'" if "free d" for d
    proof -
      obtain t where t: "f (tx_tables d) = Some t" using \<open>\<And>t. f t \<noteq> None\<close> by blast
      have "runs 2 d" using that by (simp add: runs_def free_def)
      from insert_runs [where f = f, OF this t] that show ?thesis by (auto simp: free_def ran_def)
    qed
    then show ?thesis by (fastforce simp: succeeds_def ready_def on_scene_def split: prod.split)
  qed
  then show "succeeds ready (on_scene (UpsertLoopClosure c))" "succeeds ready (on_scene (UpsertPoseGraph g))"
    "succeeds ready (on_scene (UpsertOptimizationResult o1))"
    unfolding UpsertLoopClosure_def UpsertPoseGraph_def UpsertOptimizationResult_def
    by (simp_all add: replace_closure_def replace_pose_graph_def replace_result_def)
qed

lemma ready_steps [succeeds_intros]:
  "succeeds ready (sret x)" "\<exists>y. v = Inr y \<Longrightarrow> succeeds ready (lift_res v)"
  by (auto simp: succeeds_def sret_def lift_res_def)

lemma ready_on_store:
  assumes "succeeds calm f"
  shows "succeeds ready (on_store f)"
  unfolding succeeds_def
proof (intro allI impI)
  fix s assume s: "ready s"
  with succeedsD [OF assms, of "im_world s"] obtain x w where "f (im_world s) = (Inr x, w)" "calm w" by (auto simp: ready_def)
  with s show "\<exists>x t. on_store f s = (Inr x, t) \<and> ready t" by (simp add: on_store_def ready_def)
qed

lemma ready_document [succeeds_intros]:
  assumes "\<And>d. \<exists>x. jl_dump (ee_lib env) d = Inr x"
  shows "succeeds ready (store_document env input payload ty other)"
proof -
  have put: "succeeds calm (Put (ee_lib env) b m)" for b m
    unfolding succeeds_def using Put_returns [OF assms] by blast
  have "succeeds calm (sret x)" for x :: string by (simp add: succeeds_def sret_def)
  then have cas: "succeeds calm (WriteCasArtifact env payload ty conf)" for conf
    unfolding WriteCasArtifact_def by (intro succeeds_sbind calm_succeeds(2) put)
  show ?thesis
    by (simp add: store_document_def ready_on_store [OF cas] ready_steps(1))
qed

lemma identity_parses: "\<exists>u. ParseUuid (closure_graph_id c) = Inr u" "\<exists>u. ParseUuid (graph_result_id g) = Inr u"
  unfolding closure_graph_id_def graph_result_id_def NameUuid_def using GenerateUuidV5_spec format_parse by blast+

text \<open>When nothing fails and the identifiers are UUIDs, an accepted closure with a metric edge is optimized.\<close>

lemma stage_returns:
  assumes "\<And>d. \<exists>x. jl_dump (ee_lib env) d = Inr x" "ready s" "zp_trajectory input = Some trajectory" "zp_trajectory_nodes input = Some nodes"
    "zp_has_db input" "zp_optimizer input = Some optimize" "pr_metric_edge (staged_closure pm input nodes) = Some e"
    "\<exists>row. ToLoopClosureRow (pr_closure (staged_closure pm input nodes)) (pr_spatial_separation_m (staged_closure pm input nodes)) = Inr row"
    "\<exists>u. ParseUuid (ty_trajectory_id trajectory) = Inr u" "\<exists>u. ParseUuid (ty_scene_id trajectory) = Inr u"
    "\<exists>u. ParseUuid (cl_trajectory_id (zp_closure input)) = Inr u" "\<And>i. \<exists>x. optimize i = Inr x"
  shows "\<exists>r s'. LoopClosureOptimizePipeline env pm input s = (Inr r, s') \<and> ready s' \<and> zq_ran r"
proof -
  have docs: "\<exists>x. PoseGraphToJson (ee_lib env) g ns es = Inr x" "\<exists>x. OptimizationResultToJson (ee_lib env) r os = Inr x" for g ns es r os
    using assms(1) by (simp_all add: PoseGraphToJson_def OptimizationResultToJson_def)
  have g: "\<exists>row. ToPoseGraphRow (pa_graph (assemble_with_edge pm input trajectory nodes e)) h = Inr row" for h
    using assms(9,10) identity_parses(1) [of "zp_closure input"] by (auto simp: ToPoseGraphRow_def assemble_with_edge_def AssemblePoseGraph_def Let_def)
  have o1: "\<exists>row. ToOptimizationResultRow (optimization_result (zp_closure input) seam) h = Inr row" for seam h
    using assms(11) identity_parses(1) [of "zp_closure input"] identity_parses(2) [of "closure_graph_id (zp_closure input)"]
    by (auto simp: ToOptimizationResultRow_def optimization_result_def Let_def)
  have "succeeds ready (optimize_closure env pm input trajectory nodes optimize e out)" for out
    unfolding optimize_closure_def Let_def
    by (intro succeeds_sbind succeeds_intros docs g o1 assms(1,12))
  moreover have "succeeds ready (persist_closure input (staged_closure pm input nodes))"
    using assms(5,8) unfolding persist_closure_def by (simp add: succeeds_sbind succeeds_intros)
  ultimately have "succeeds ready (LoopClosureOptimizePipeline env pm input)"
    unfolding LoopClosureOptimizePipeline_def by (simp add: assms(3-7) Let_def succeeds_sbind)
  from succeedsD [OF this assms(2)] obtain r s' where run: "LoopClosureOptimizePipeline env pm input s = (Inr r, s')" "ready s'" by blast
  from stage_effect [OF run(1)] assms(3-7) have "zq_ran r"
    by (auto simp: stage_outcome_def Let_def rbind_Inr optimized_outcome_def)
  with run show ?thesis by blast
qed

definition surveyed :: LoopClosureOptimizePipelineInput where
  "surveyed = (let u = \<lambda>n. FormatUuid (replicate 16 n); basis = pi_metric_basis (metric_input True) in
     \<lparr>zp_trajectory = Some \<lparr>ty_trajectory_id = u 2, ty_scene_id = u 3, ty_session_id = u 4, ty_kind = ''odometry'',
        ty_coordinate_frame = ''trajectory_0'', ty_status = ''building'', ty_created_at_ns = 0, ty_node_count = 2, ty_total_distance_m = 0,
        ty_total_duration_ns = 0, ty_uncertainty = \<lparr>tu_mean_position_uncertainty_m = 0, tu_max_position_uncertainty_m = 0,
          tu_mean_rotation_uncertainty_rad = 0, tu_max_rotation_uncertainty_rad = 0, tu_loop_closure_density = 0\<rparr>,
        ty_provenance = no_provenance, ty_metric_basis = basis\<rparr>,
      zp_trajectory_nodes = Some (map (\<lambda>n. n\<lparr>tn_frame_id := u (if tn_frame_id n = ''a'' then 6 else 5)\<rparr>) two_poses_of),
      zp_closure = (pi_closure (metric_input True))\<lparr>cl_closure_id := u 1, cl_trajectory_id := u 2, cl_source_frame_id := u 5, cl_target_frame_id := u 6\<rparr>,
      zp_metric_basis = basis, zp_configuration_hash = ''h'',
      zp_optimizer = Some (\<lambda>i. Inr \<lparr>zo_optimized_nodes = zi_initial_nodes i, zo_trace = \<lparr>zt_converged = True, zt_iterations = 1,
        zt_initial_error = 0, zt_final_error = 0, zt_error_reduction = 0, zt_status = ''converged''\<rparr>, zo_result_id = []\<rparr>),
      zp_has_db = True, zp_has_store = True, zp_odometry_info_position = 0, zp_odometry_info_rotation = 0\<rparr>)"

lemma surveyed_edge: "case zp_trajectory_nodes surveyed of None \<Rightarrow> False | Some nodes \<Rightarrow> pr_metric_edge (staged_closure unit_math surveyed nodes) \<noteq> None"
  by code_simp

lemma ready_tum_scene: "ready tum_scene"
  using tum_scene_simps calm_empty by (simp add: ready_def)

lemma surveyed_returns:
  assumes "ready s"
  obtains r s' where "LoopClosureOptimizePipeline engine_setup unit_math surveyed s = (Inr r, s')" "ready s'" "zq_ran r"
proof -
  obtain nodes e where nodes: "zp_trajectory_nodes surveyed = Some nodes" "pr_metric_edge (staged_closure unit_math surveyed nodes) = Some e"
    using surveyed_edge by (auto split: option.split_asm)
  have u: "ParseUuid (FormatUuid (replicate 16 n)) = Inr (replicate 16 n)" for n by (rule format_parse) simp
  have c: "cl_closure_id (pr_closure (staged_closure unit_math surveyed nodes)) = FormatUuid (replicate 16 1)"
    "cl_trajectory_id (pr_closure (staged_closure unit_math surveyed nodes)) = FormatUuid (replicate 16 2)"
    "cl_source_frame_id (pr_closure (staged_closure unit_math surveyed nodes)) = FormatUuid (replicate 16 5)"
    "cl_target_frame_id (pr_closure (staged_closure unit_math surveyed nodes)) = FormatUuid (replicate 16 6)"
    "cl_candidate_id (pr_closure (staged_closure unit_math surveyed nodes)) = []"
    by (simp_all add: staged_closure_def LoopClosureToPoseGraph_def Let_def surveyed_def metric_input_def empty_closure_def)
  have row: "\<exists>row. ToLoopClosureRow (pr_closure (staged_closure unit_math surveyed nodes)) d = Inr row" for d
    by (simp add: ToLoopClosureRow_def c u)
  have "\<exists>r s'. LoopClosureOptimizePipeline engine_setup unit_math surveyed s = (Inr r, s') \<and> ready s' \<and> zq_ran r"
  proof (rule stage_returns [OF _ assms _ nodes(1) _ _ nodes(2) row], simp_all add: surveyed_def Let_def reference_json_dumps engine_setup_simps)
  qed (simp_all add: u)
  with that show ?thesis by blast
qed

lemma optimizing_again_witness:
  "\<exists>r s' s2. LoopClosureOptimizePipeline engine_setup unit_math surveyed tum_scene = (Inr r, s') \<and> zq_ran r \<and>
    LoopClosureOptimizePipeline engine_setup unit_math surveyed s' = (Inr r, s2) \<and> tables s2 = tables s'"
proof -
  obtain r s' where r: "LoopClosureOptimizePipeline engine_setup unit_math surveyed tum_scene = (Inr r, s')" "ready s'" "zq_ran r"
    by (rule surveyed_returns [OF ready_tum_scene])
  obtain r2 s2 where r2: "LoopClosureOptimizePipeline engine_setup unit_math surveyed s' = (Inr r2, s2)"
    by (rule surveyed_returns [OF r(2)])
  from optimizing_again [OF r(1) r2] r r2 show ?thesis by blast
qed

lemma optimization_needs_metric_edge_witness:
  "\<exists>r s' a. LoopClosureOptimizePipeline engine_setup unit_math surveyed tum_scene = (Inr r, s') \<and> zq_ran r \<and>
    zq_graph r = pa_graph a \<and> graph_consistent a \<and> gr_loop_closure_edge_count (zq_graph r) = 1"
proof -
  obtain r s' where r: "LoopClosureOptimizePipeline engine_setup unit_math surveyed tum_scene = (Inr r, s')" "zq_ran r"
    by (rule surveyed_returns [OF ready_tum_scene])
  from optimization_needs_metric_edge [OF r(1)] r show ?thesis by auto
qed


end
