(* ===== verification/ReconstructionJson.thy ===== *)
theory ReconstructionJson
  imports PoseOptimization
begin

text \<open>
  The reconstruction document: the types of core/reconstruction/reconstruction.h (cameras are in LoopVerification, provenance is in PoseGraphs) and the writer and the strict reader of
  core/reconstruction/reconstruction_json.h. Doubles are their bits, arrays of a fixed size are lists. The conversion of a
  double to a byte, undefined in C++ outside of 0 to 255, is an argument. The lemmas show that a document that was
  written is read back as the reconstruction it came from.
\<close>

section \<open>Data\<close>

record ReconPose =
  po_rotation_xyzw :: "u64 list"
  po_translation_xyz :: "u64 list"

record ReconImage =
  ri_image_id :: int
  ri_camera_id :: int
  ri_frame_id :: string
  ri_name :: string
  ri_pose :: ReconPose
  ri_detected :: bool

record TrackElement =
  te_image_id :: int
  te_point2d_idx :: int

record ReconPoint3D =
  p3_point3d_id :: int
  p3_xyz :: "u64 list"
  p3_color :: "byte list"
  p3_error :: u64
  p3_track :: "TrackElement list"

record Reconstruction =
  rn_reconstruction_id :: string
  rn_scene_id :: string
  rn_session_ids :: "string list"
  rn_coordinate_frame :: string
  rn_status :: string
  rn_created_at_ns :: int
  rn_provenance :: ReconstructionProvenance
  rn_cameras :: "ReconCamera list"
  rn_images :: "ReconImage list"
  rn_points3D :: "ReconPoint3D list"

section \<open>Writing\<close>

definition unless_empty :: "string \<Rightarrow> string \<Rightarrow> (string \<times> json) list" where
  "unless_empty key s = (if s = [] then [] else [(key, JStr s)])"

definition recon_provenance_doc :: "ReconstructionProvenance \<Rightarrow> json" where
  "recon_provenance_doc p = JObj
     ((''backend'', JObj [(''adapter_version'', JStr (bi_adapter_version (rp_backend p))), (''name'', JStr (bi_name (rp_backend p))),
         (''version'', JStr (bi_version (rp_backend p)))]) #
      unless_empty ''backend_specific_json'' (rp_backend_specific_json p) @
      [(''configuration_hash'', JStr (rp_configuration_hash p)), (''duration_ns'', JInt (rp_duration_ns p)),
       (''engine_commit'', JStr (rp_engine_commit p)), (''engine_version'', JStr (rp_engine_version p)),
       (''finished_at_ns'', JInt (rp_finished_at_ns p)), (''git_commit'', JStr (rp_git_commit p)),
       (''input_artifact_hashes'', string_array (rp_input_artifact_hashes p)), (''started_at_ns'', JInt (rp_started_at_ns p))])"

definition camera_doc :: "ReconCamera \<Rightarrow> json" where
  "camera_doc c = JObj
     (unless_empty ''calibration_ref'' (rc_calibration_ref c) @
      [(''camera_id'', JInt (rc_camera_id c)), (''cx'', JFloat (rc_cx c)), (''cy'', JFloat (rc_cy c)),
       (''distortion_coefficients'', numbers (rc_distortion_coefficients c)), (''distortion_model'', JStr (rc_distortion_model c)),
       (''fx'', JFloat (rc_fx c)), (''fy'', JFloat (rc_fy c)), (''height'', JInt (rc_height c)),
       (''intrinsic_model'', JStr (rc_intrinsic_model c)), (''width'', JInt (rc_width c))])"

definition pose_doc :: "ReconPose \<Rightarrow> json" where
  "pose_doc p = JObj [(''rotation_xyzw'', numbers (po_rotation_xyzw p)), (''translation_xyz'', numbers (po_translation_xyz p))]"

definition image_doc :: "ReconImage \<Rightarrow> json" where
  "image_doc i = JObj
     ([(''camera_id'', JInt (ri_camera_id i)), (''detected'', JBool (ri_detected i))] @ unless_empty ''frame_id'' (ri_frame_id i) @
      [(''image_id'', JInt (ri_image_id i)), (''name'', JStr (ri_name i)), (''pose'', pose_doc (ri_pose i))])"

definition track_doc :: "TrackElement \<Rightarrow> json" where
  "track_doc t = JObj [(''image_id'', JInt (te_image_id t)), (''point2d_idx'', JInt (te_point2d_idx t))]"

definition point_doc :: "ReconPoint3D \<Rightarrow> json" where
  "point_doc p = JObj [(''color'', JArr (map (\<lambda>b. JInt (uint b)) (p3_color p))), (''error'', JFloat (p3_error p)),
     (''point3d_id'', JInt (p3_point3d_id p)), (''track'', JArr (map track_doc (p3_track p))), (''xyz'', numbers (p3_xyz p))]"

definition reconstruction_doc :: "Reconstruction \<Rightarrow> json" where
  "reconstruction_doc r = JObj
     ([(''cameras'', JArr (map camera_doc (rn_cameras r))), (''coordinate_frame'', JStr (rn_coordinate_frame r)),
       (''created_at_ns'', JInt (rn_created_at_ns r)), (''images'', JArr (map image_doc (rn_images r))),
       (''points3D'', JArr (map point_doc (rn_points3D r))), (''provenance'', recon_provenance_doc (rn_provenance r)),
       (''reconstruction_id'', JStr (rn_reconstruction_id r)), (''scene_id'', JStr (rn_scene_id r)), (''schema_version'', JInt 2),
       (''session_ids'', string_array (rn_session_ids r))] @ unless_empty ''status'' (rn_status r))"

definition ReconstructionToJson :: "json_lib \<Rightarrow> Reconstruction \<Rightarrow> string res" where
  "ReconstructionToJson lib r = jl_dump lib (reconstruction_doc r)"

section \<open>Reading\<close>

definition in_quotes :: "string \<Rightarrow> string" where
  "in_quotes s = [CHR 0x27] @ s @ [CHR 0x27]"

definition ReconstructionJsonViolation :: "string \<Rightarrow> exn" where
  "ReconstructionJsonViolation detail = throw_error kValidationDomain (''reconstruction document: '' @ detail)"

definition typed :: "string \<Rightarrow> 'a res \<Rightarrow> 'a res" where
  "typed key r = (case r of Inr x \<Rightarrow> Inr x
     | Inl e \<Rightarrow> Inl (ReconstructionJsonViolation (''field '' @ in_quotes key @ '' has an invalid value type'')))"

definition missing_field :: "string \<Rightarrow> exn" where
  "missing_field key = ReconstructionJsonViolation (''missing field '' @ in_quotes key)"

definition JsonGetField :: "json_lib \<Rightarrow> (json \<Rightarrow> 'a res) \<Rightarrow> json \<Rightarrow> string \<Rightarrow> 'a res" where
  "JsonGetField lib get obj key =
     rbind (jl_find lib obj key) (\<lambda>m. case m of None \<Rightarrow> Inl (missing_field key) | Some v \<Rightarrow> typed key (get v))"

text \<open>The callers use an absent optional field as the empty text that the field holds already.\<close>

definition JsonOptionalField :: "json_lib \<Rightarrow> (json \<Rightarrow> 'a res) \<Rightarrow> json \<Rightarrow> string \<Rightarrow> 'a option res" where
  "JsonOptionalField lib get obj key =
     rbind (jl_find lib obj key) (\<lambda>m. case m of None \<Rightarrow> Inr None | Some v \<Rightarrow> rbind (typed key (get v)) (\<lambda>x. Inr (Some x)))"

fun is_array :: "json \<Rightarrow> bool" where
  "is_array (JArr js) = True" | "is_array _ = False"

fun is_object :: "json \<Rightarrow> bool" where
  "is_object (JObj kvs) = True" | "is_object _ = False"

fun is_string :: "json \<Rightarrow> bool" where
  "is_string (JStr s) = True" | "is_string _ = False"

fun is_number :: "json \<Rightarrow> bool" where
  "is_number (JInt i) = True" | "is_number (JFloat d) = True" | "is_number _ = False"

definition demand :: "bool \<Rightarrow> string \<Rightarrow> unit res" where
  "demand ok detail = (if ok then Inr () else Inl (ReconstructionJsonViolation detail))"

definition double_items :: "json_lib \<Rightarrow> string \<Rightarrow> json \<Rightarrow> u64 list res" where
  "double_items lib key v =
     rbind (demand (is_array v) (''field '' @ in_quotes key @ '' must be an array'')) (\<lambda>_.
       traverse_res (\<lambda>item.
         rbind (demand (is_number item) (''field '' @ in_quotes key @ '' contains a non-number'')) (\<lambda>_. jl_get_double lib item))
         (jl_items lib v))"

definition JsonDoubleVector :: "json_lib \<Rightarrow> json \<Rightarrow> string \<Rightarrow> bool \<Rightarrow> u64 list res" where
  "JsonDoubleVector lib obj key optional =
     rbind (jl_find lib obj key) (\<lambda>m. case m of
       None \<Rightarrow> if optional then Inr [] else Inl (missing_field key)
     | Some v \<Rightarrow> double_items lib key v)"

definition JsonVec4 :: "json_lib \<Rightarrow> json \<Rightarrow> string \<Rightarrow> u64 list res" where
  "JsonVec4 lib obj key = rbind (JsonDoubleVector lib obj key False) (\<lambda>v.
     rbind (demand (length v = 4) (''field '' @ in_quotes key @ '' must have exactly 4 elements'')) (\<lambda>_. Inr v))"

definition JsonVec3 :: "json_lib \<Rightarrow> json \<Rightarrow> string \<Rightarrow> u64 list res" where
  "JsonVec3 lib obj key = rbind (JsonDoubleVector lib obj key False) (\<lambda>v.
     rbind (demand (length v = 3) (''field '' @ in_quotes key @ '' must have exactly 3 elements'')) (\<lambda>_. Inr v))"

definition JsonColor :: "json_lib \<Rightarrow> (u64 \<Rightarrow> byte) \<Rightarrow> json \<Rightarrow> string \<Rightarrow> byte list res" where
  "JsonColor lib to_byte obj key = rbind (JsonDoubleVector lib obj key False) (\<lambda>v.
     rbind (demand (length v = 3) (''field '' @ in_quotes key @ '' must have exactly 3 elements'')) (\<lambda>_. Inr (map to_byte v)))"

text \<open>Members that are read as documents and must be arrays of texts, or objects, or arrays.\<close>

definition text_items :: "json_lib \<Rightarrow> json \<Rightarrow> string \<Rightarrow> string \<Rightarrow> string \<Rightarrow> string list res" where
  "text_items lib obj key not_array not_texts =
     rbind (JsonGetField lib Inr obj key) (\<lambda>v.
     rbind (demand (is_array v) not_array) (\<lambda>_.
       traverse_res (\<lambda>s. rbind (demand (is_string s) not_texts) (\<lambda>_. jl_get_str lib s)) (jl_items lib v)))"

definition object_member :: "json_lib \<Rightarrow> json \<Rightarrow> string \<Rightarrow> string \<Rightarrow> json res" where
  "object_member lib obj key detail =
     rbind (JsonGetField lib Inr obj key) (\<lambda>v. rbind (demand (is_object v) detail) (\<lambda>_. Inr v))"

definition object_items :: "json_lib \<Rightarrow> json \<Rightarrow> string \<Rightarrow> string \<Rightarrow> string \<Rightarrow> (json \<Rightarrow> 'a res) \<Rightarrow> 'a list res" where
  "object_items lib obj key not_array not_object read =
     rbind (JsonGetField lib Inr obj key) (\<lambda>v.
     rbind (demand (is_array v) not_array) (\<lambda>_.
       traverse_res (\<lambda>entry. rbind (demand (is_object entry) not_object) (\<lambda>_. read entry)) (jl_items lib v)))"

definition optional_text :: "json_lib \<Rightarrow> json \<Rightarrow> string \<Rightarrow> string res" where
  "optional_text lib obj key =
     rbind (JsonOptionalField lib (jl_get_str lib) obj key) (\<lambda>s. Inr (case s of None \<Rightarrow> [] | Some t \<Rightarrow> t))"

definition provenance_from :: "json_lib \<Rightarrow> json \<Rightarrow> ReconstructionProvenance res" where
  "provenance_from lib prov =
     rbind (object_member lib prov ''backend'' (''provenance '' @ in_quotes ''backend'' @ '' must be an object'')) (\<lambda>backend.
     rbind (JsonGetField lib (jl_get_str lib) backend ''name'') (\<lambda>name.
     rbind (JsonGetField lib (jl_get_str lib) backend ''version'') (\<lambda>version.
     rbind (JsonGetField lib (jl_get_str lib) backend ''adapter_version'') (\<lambda>adapter.
     rbind (JsonGetField lib (jl_get_str lib) prov ''configuration_hash'') (\<lambda>config.
     rbind (text_items lib prov ''input_artifact_hashes'' (''provenance '' @ in_quotes ''input_artifact_hashes'' @ '' must be an array'')
       (''provenance '' @ in_quotes ''input_artifact_hashes'' @ '' contains a non-string'')) (\<lambda>hashes.
     rbind (JsonGetField lib (jl_get_str lib) prov ''engine_version'') (\<lambda>engine_version.
     rbind (JsonGetField lib (jl_get_str lib) prov ''engine_commit'') (\<lambda>engine_commit.
     rbind (JsonGetField lib (jl_get_str lib) prov ''git_commit'') (\<lambda>git_commit.
     rbind (JsonGetField lib (jl_get_int64 lib) prov ''started_at_ns'') (\<lambda>started.
     rbind (JsonGetField lib (jl_get_int64 lib) prov ''finished_at_ns'') (\<lambda>finished.
     rbind (JsonGetField lib (jl_get_int64 lib) prov ''duration_ns'') (\<lambda>duration.
     rbind (optional_text lib prov ''backend_specific_json'') (\<lambda>specific.
       Inr \<lparr>rp_backend = \<lparr>bi_name = name, bi_version = version, bi_adapter_version = adapter\<rparr>, rp_configuration_hash = config,
         rp_input_artifact_hashes = hashes, rp_engine_version = engine_version, rp_engine_commit = engine_commit,
         rp_git_commit = git_commit, rp_started_at_ns = started, rp_finished_at_ns = finished, rp_duration_ns = duration,
         rp_backend_specific_json = specific\<rparr>)))))))))))))"

definition camera_from :: "json_lib \<Rightarrow> json \<Rightarrow> ReconCamera res" where
  "camera_from lib entry =
     rbind (JsonGetField lib (jl_get_uint32 lib) entry ''camera_id'') (\<lambda>camera_id.
     rbind (JsonGetField lib (jl_get_int64 lib) entry ''width'') (\<lambda>width.
     rbind (JsonGetField lib (jl_get_int64 lib) entry ''height'') (\<lambda>height.
     rbind (JsonGetField lib (jl_get_str lib) entry ''intrinsic_model'') (\<lambda>intrinsic.
     rbind (JsonGetField lib (jl_get_double lib) entry ''fx'') (\<lambda>fx.
     rbind (JsonGetField lib (jl_get_double lib) entry ''fy'') (\<lambda>fy.
     rbind (JsonGetField lib (jl_get_double lib) entry ''cx'') (\<lambda>cx.
     rbind (JsonGetField lib (jl_get_double lib) entry ''cy'') (\<lambda>cy.
     rbind (JsonGetField lib (jl_get_str lib) entry ''distortion_model'') (\<lambda>distortion.
     rbind (JsonDoubleVector lib entry ''distortion_coefficients'' True) (\<lambda>coefficients.
     rbind (optional_text lib entry ''calibration_ref'') (\<lambda>calibration.
       Inr \<lparr>rc_camera_id = camera_id, rc_width = width, rc_height = height, rc_intrinsic_model = intrinsic, rc_fx = fx, rc_fy = fy,
         rc_cx = cx, rc_cy = cy, rc_distortion_model = distortion, rc_distortion_coefficients = coefficients,
         rc_calibration_ref = calibration\<rparr>)))))))))))"

definition image_from :: "json_lib \<Rightarrow> json \<Rightarrow> ReconImage res" where
  "image_from lib entry =
     rbind (JsonGetField lib (jl_get_uint32 lib) entry ''image_id'') (\<lambda>image_id.
     rbind (JsonGetField lib (jl_get_uint32 lib) entry ''camera_id'') (\<lambda>camera_id.
     rbind (optional_text lib entry ''frame_id'') (\<lambda>frame_id.
     rbind (JsonGetField lib (jl_get_str lib) entry ''name'') (\<lambda>name.
     rbind (object_member lib entry ''pose'' (''image '' @ in_quotes ''pose'' @ '' must be an object'')) (\<lambda>pose.
     rbind (JsonVec4 lib pose ''rotation_xyzw'') (\<lambda>rotation.
     rbind (JsonVec3 lib pose ''translation_xyz'') (\<lambda>translation.
     rbind (JsonGetField lib (jl_get_bool lib) entry ''detected'') (\<lambda>detected.
       Inr \<lparr>ri_image_id = image_id, ri_camera_id = camera_id, ri_frame_id = frame_id, ri_name = name,
         ri_pose = \<lparr>po_rotation_xyzw = rotation, po_translation_xyz = translation\<rparr>, ri_detected = detected\<rparr>))))))))"

definition track_from :: "json_lib \<Rightarrow> json \<Rightarrow> TrackElement res" where
  "track_from lib te =
     rbind (JsonGetField lib (jl_get_uint32 lib) te ''image_id'') (\<lambda>image_id.
     rbind (JsonGetField lib (jl_get_int32 lib) te ''point2d_idx'') (\<lambda>idx.
       Inr \<lparr>te_image_id = image_id, te_point2d_idx = idx\<rparr>))"

definition point_from :: "json_lib \<Rightarrow> (u64 \<Rightarrow> byte) \<Rightarrow> json \<Rightarrow> ReconPoint3D res" where
  "point_from lib to_byte entry =
     rbind (JsonGetField lib (jl_get_uint64 lib) entry ''point3d_id'') (\<lambda>point3d_id.
     rbind (JsonVec3 lib entry ''xyz'') (\<lambda>xyz.
     rbind (JsonColor lib to_byte entry ''color'') (\<lambda>color.
     rbind (JsonGetField lib (jl_get_double lib) entry ''error'') (\<lambda>err.
     rbind (object_items lib entry ''track'' (''point3D '' @ in_quotes ''track'' @ '' must be an array'')
       ''track element must be an object'' (track_from lib)) (\<lambda>track.
       Inr \<lparr>p3_point3d_id = point3d_id, p3_xyz = xyz, p3_color = color, p3_error = err, p3_track = track\<rparr>)))))"

definition reconstruction_from :: "json_lib \<Rightarrow> (u64 \<Rightarrow> byte) \<Rightarrow> json \<Rightarrow> Reconstruction res" where
  "reconstruction_from lib to_byte doc =
     rbind (JsonGetField lib (jl_get_str lib) doc ''reconstruction_id'') (\<lambda>reconstruction_id.
     rbind (JsonGetField lib (jl_get_str lib) doc ''scene_id'') (\<lambda>scene_id.
     rbind (text_items lib doc ''session_ids'' (''field '' @ in_quotes ''session_ids'' @ '' must be an array'')
       (''field '' @ in_quotes ''session_ids'' @ '' contains a non-string'')) (\<lambda>session_ids.
     rbind (JsonGetField lib (jl_get_str lib) doc ''coordinate_frame'') (\<lambda>frame.
     rbind (optional_text lib doc ''status'') (\<lambda>status.
     rbind (JsonGetField lib (jl_get_int64 lib) doc ''created_at_ns'') (\<lambda>created.
     rbind (rbind (object_member lib doc ''provenance'' (''field '' @ in_quotes ''provenance'' @ '' must be an object''))
       (provenance_from lib)) (\<lambda>provenance.
     rbind (object_items lib doc ''cameras'' (''field '' @ in_quotes ''cameras'' @ '' must be an array'')
       ''camera entry must be an object'' (camera_from lib)) (\<lambda>cameras.
     rbind (object_items lib doc ''images'' (''field '' @ in_quotes ''images'' @ '' must be an array'')
       ''image entry must be an object'' (image_from lib)) (\<lambda>images.
     rbind (object_items lib doc ''points3D'' (''field '' @ in_quotes ''points3D'' @ '' must be an array'')
       ''point3D entry must be an object'' (point_from lib to_byte)) (\<lambda>points.
       Inr \<lparr>rn_reconstruction_id = reconstruction_id, rn_scene_id = scene_id, rn_session_ids = session_ids,
         rn_coordinate_frame = frame, rn_status = status, rn_created_at_ns = created, rn_provenance = provenance,
         rn_cameras = cameras, rn_images = images, rn_points3D = points\<rparr>))))))))))"

text \<open>A text that does not parse and one that is not an object are refused alike.\<close>

definition ReconstructionFromJson :: "json_lib \<Rightarrow> (u64 \<Rightarrow> byte) \<Rightarrow> string \<Rightarrow> Reconstruction res" where
  "ReconstructionFromJson lib to_byte json_text =
     (case jl_parse lib json_text of
        Inl e \<Rightarrow> Inl (ReconstructionJsonViolation ''document is not valid JSON object text'')
      | Inr doc \<Rightarrow> rbind (demand (is_object doc) ''document is not valid JSON object text'') (\<lambda>_. reconstruction_from lib to_byte doc))"

section \<open>Documents are read back\<close>

text \<open>A color component is written as an integer and read as a double that is converted back.\<close>

definition colors_convert :: "json_lib \<Rightarrow> (u64 \<Rightarrow> byte) \<Rightarrow> bool" where
  "colors_convert lib to_byte \<longleftrightarrow> (\<forall>b :: byte. \<exists>d. jl_get_double lib (JInt (uint b)) = Inr d \<and> to_byte d = b)"

definition backend_sound :: "BackendInfo \<Rightarrow> bool" where
  "backend_sound b \<longleftrightarrow> list_all ascii [bi_name b, bi_version b, bi_adapter_version b]"

definition provenance_sound :: "ReconstructionProvenance \<Rightarrow> bool" where
  "provenance_sound p \<longleftrightarrow> backend_sound (rp_backend p) \<and> list_all ascii (rp_input_artifact_hashes p) \<and>
     list_all ascii [rp_configuration_hash p, rp_engine_version p, rp_engine_commit p, rp_git_commit p, rp_backend_specific_json p] \<and>
     list_all int64_ok [rp_started_at_ns p, rp_finished_at_ns p, rp_duration_ns p]"

definition camera_sound :: "ReconCamera \<Rightarrow> bool" where
  "camera_sound c \<longleftrightarrow> uint32_ok (rc_camera_id c) \<and> int64_ok (rc_width c) \<and> int64_ok (rc_height c) \<and>
     list_all ascii [rc_intrinsic_model c, rc_distortion_model c, rc_calibration_ref c] \<and>
     list_all finite_double [rc_fx c, rc_fy c, rc_cx c, rc_cy c] \<and> list_all finite_double (rc_distortion_coefficients c)"

definition image_sound :: "ReconImage \<Rightarrow> bool" where
  "image_sound i \<longleftrightarrow> uint32_ok (ri_image_id i) \<and> uint32_ok (ri_camera_id i) \<and> ascii (ri_frame_id i) \<and> ascii (ri_name i) \<and>
     length (po_rotation_xyzw (ri_pose i)) = 4 \<and> length (po_translation_xyz (ri_pose i)) = 3 \<and>
     list_all finite_double (po_rotation_xyzw (ri_pose i)) \<and> list_all finite_double (po_translation_xyz (ri_pose i))"

definition track_sound :: "TrackElement \<Rightarrow> bool" where
  "track_sound t \<longleftrightarrow> uint32_ok (te_image_id t) \<and> int32_ok (te_point2d_idx t)"

definition point_sound :: "ReconPoint3D \<Rightarrow> bool" where
  "point_sound p \<longleftrightarrow> uint64_ok (p3_point3d_id p) \<and> length (p3_xyz p) = 3 \<and> length (p3_color p) = 3 \<and>
     list_all finite_double (p3_xyz p) \<and> finite_double (p3_error p) \<and> list_all track_sound (p3_track p)"

definition reconstruction_sound :: "Reconstruction \<Rightarrow> bool" where
  "reconstruction_sound r \<longleftrightarrow>
     list_all ascii [rn_reconstruction_id r, rn_scene_id r, rn_coordinate_frame r, rn_status r] \<and> list_all ascii (rn_session_ids r) \<and>
     int64_ok (rn_created_at_ns r) \<and> provenance_sound (rn_provenance r) \<and> list_all camera_sound (rn_cameras r) \<and>
     list_all image_sound (rn_images r) \<and> list_all point_sound (rn_points3D r)"

lemma typed_Inr [simp]: "typed key (Inr x) = Inr x"
  by (simp add: typed_def)

lemma demand_True [simp]: "demand True detail = Inr ()"
  by (simp add: demand_def)

lemma readers_obj:
  assumes "json_laws lib"
  shows "JsonGetField lib get (JObj kvs) k = (case map_of kvs k of None \<Rightarrow> Inl (missing_field k) | Some v \<Rightarrow> typed k (get v))"
    and "JsonDoubleVector lib (JObj kvs) k b =
      (case map_of kvs k of None \<Rightarrow> if b then Inr [] else Inl (missing_field k) | Some v \<Rightarrow> double_items lib k v)"
  by (simp_all add: JsonGetField_def JsonDoubleVector_def json_law_simps [OF assms])

lemma optional_text_obj:
  assumes "json_laws lib" "map_of kvs k = (if s = [] then None else Some (JStr s))"
  shows "optional_text lib (JObj kvs) k = Inr s"
  by (simp add: optional_text_def JsonOptionalField_def json_law_simps [OF assms(1)] assms(2))

lemma double_items_numbers: "json_laws lib \<Longrightarrow> double_items lib k (numbers ds) = Inr ds"
  using traverse_res_map [of ds "\<lambda>item. rbind (demand (is_number item) (''field '' @ in_quotes k @ '' contains a non-number''))
      (\<lambda>_. jl_get_double lib item)" JFloat "\<lambda>d. d"]
  by (simp add: double_items_def numbers_def json_law_simps)

lemma vectors_obj:
  assumes "json_laws lib" "map_of kvs k = Some (numbers ds)"
  shows "length ds = 4 \<Longrightarrow> JsonVec4 lib (JObj kvs) k = Inr ds" "length ds = 3 \<Longrightarrow> JsonVec3 lib (JObj kvs) k = Inr ds"
    and "JsonDoubleVector lib (JObj kvs) k b = Inr ds"
  by (simp_all add: JsonVec4_def JsonVec3_def readers_obj [OF assms(1)] assms(2) double_items_numbers [OF assms(1)])

lemma color_obj:
  assumes "json_laws lib" "colors_convert lib to_byte" "map_of kvs k = Some (JArr (map (\<lambda>b. JInt (uint b)) cs))" "length cs = 3"
  shows "JsonColor lib to_byte (JObj kvs) k = Inr cs"
proof -
  obtain f where f: "jl_get_double lib (JInt (uint b)) = Inr (f b)" "to_byte (f b) = b" for b :: byte
    using assms(2) unfolding colors_convert_def by metis
  have "double_items lib k (JArr (map (\<lambda>b. JInt (uint b)) cs)) = Inr (map f cs)"
    using traverse_res_map [of cs "\<lambda>item. rbind (demand (is_number item) (''field '' @ in_quotes k @ '' contains a non-number''))
        (\<lambda>_. jl_get_double lib item)" "\<lambda>b. JInt (uint b)" f]
    by (simp add: double_items_def json_law_simps [OF assms(1)] f(1))
  then show ?thesis by (simp add: JsonColor_def readers_obj [OF assms(1)] assms(3,4) f(2) comp_def)
qed

lemma text_items_obj:
  assumes "json_laws lib" "map_of kvs k = Some (string_array ss)"
  shows "text_items lib (JObj kvs) k e1 e2 = Inr ss"
  using traverse_res_map [of ss "\<lambda>s. rbind (demand (is_string s) e2) (\<lambda>_. jl_get_str lib s)" JStr "\<lambda>s. s"]
  by (simp add: text_items_def readers_obj [OF assms(1)] assms(2) string_array_def json_law_simps [OF assms(1)])

lemma object_member_obj:
  "json_laws lib \<Longrightarrow> map_of kvs k = Some (JObj inner) \<Longrightarrow> object_member lib (JObj kvs) k e = Inr (JObj inner)"
  by (simp add: object_member_def readers_obj)

lemma object_items_obj:
  assumes "json_laws lib" "map_of kvs k = Some (JArr (map doc xs))"
    and "\<And>x. x \<in> set xs \<Longrightarrow> is_object (doc x) \<and> read (doc x) = Inr x"
  shows "object_items lib (JObj kvs) k e1 e2 read = Inr xs"
  using traverse_res_map [of xs "\<lambda>entry. rbind (demand (is_object entry) e2) (\<lambda>_. read entry)" doc "\<lambda>x. x"] assms(3)
  by (simp add: object_items_def readers_obj [OF assms(1)] assms(2) json_law_simps [OF assms(1)])

lemma docs_are_objects [simp]:
  "is_object (camera_doc c)" "is_object (image_doc i)" "is_object (track_doc t)" "is_object (point_doc p)" "is_object (reconstruction_doc r)"
  by (simp_all add: camera_doc_def image_doc_def track_doc_def point_doc_def reconstruction_doc_def)

lemma track_read: "json_laws lib \<Longrightarrow> track_sound t \<Longrightarrow> track_from lib (track_doc t) = Inr t"
  by (simp add: track_from_def track_doc_def readers_obj json_law_simps track_sound_def)

lemma pose_members:
  "map_of [(''rotation_xyzw'', a), (''translation_xyz'', b)] ''rotation_xyzw'' = Some a"
  "map_of [(''rotation_xyzw'', a), (''translation_xyz'', b)] ''translation_xyz'' = Some b"
  by simp_all

lemma point_read:
  assumes "json_laws lib" "colors_convert lib to_byte" "point_sound p"
  shows "point_from lib to_byte (point_doc p) = Inr p"
proof -
  let ?at = "map_of [(''color'', JArr (map (\<lambda>b. JInt (uint b)) (p3_color p))), (''error'', JFloat (p3_error p)),
     (''point3d_id'', JInt (p3_point3d_id p)), (''track'', JArr (map track_doc (p3_track p))), (''xyz'', numbers (p3_xyz p))]"
  have at: "?at ''color'' = Some (JArr (map (\<lambda>b. JInt (uint b)) (p3_color p)))" "?at ''error'' = Some (JFloat (p3_error p))"
    "?at ''point3d_id'' = Some (JInt (p3_point3d_id p))" "?at ''track'' = Some (JArr (map track_doc (p3_track p)))"
    "?at ''xyz'' = Some (numbers (p3_xyz p))" by simp_all
  have "is_object (track_doc t) \<and> track_from lib (track_doc t) = Inr t" if "t \<in> set (p3_track p)" for t
    using that assms(3) track_read [OF assms(1)] by (auto simp: point_sound_def list_all_iff)
  then have track: "object_items lib (JObj kvs) ''track'' e1 e2 (track_from lib) = Inr (p3_track p)"
    if "map_of kvs ''track'' = Some (JArr (map track_doc (p3_track p)))" for kvs e1 e2
    by (rule object_items_obj [OF assms(1) that])
  have p: "uint64_ok (p3_point3d_id p)" "length (p3_xyz p) = 3" "length (p3_color p) = 3" using assms(3) by (auto simp: point_sound_def)
  show ?thesis
    unfolding point_from_def point_doc_def track [OF at(4)] vectors_obj(2) [OF assms(1) at(5) p(2)] color_obj [OF assms(1,2) at(1) p(3)]
    by (simp add: readers_obj [OF assms(1)] at p json_law_simps [OF assms(1)] del: map_of.simps)
qed

lemma image_read:
  assumes "json_laws lib" "image_sound i"
  shows "image_from lib (image_doc i) = Inr i"
proof -
  define kvs where "kvs = [(''camera_id'', JInt (ri_camera_id i)), (''detected'', JBool (ri_detected i))] @
    unless_empty ''frame_id'' (ri_frame_id i) @
    [(''image_id'', JInt (ri_image_id i)), (''name'', JStr (ri_name i)), (''pose'', pose_doc (ri_pose i))]"
  have at: "map_of kvs ''camera_id'' = Some (JInt (ri_camera_id i))" "map_of kvs ''detected'' = Some (JBool (ri_detected i))"
    "map_of kvs ''frame_id'' = (if ri_frame_id i = [] then None else Some (JStr (ri_frame_id i)))"
    "map_of kvs ''image_id'' = Some (JInt (ri_image_id i))" "map_of kvs ''name'' = Some (JStr (ri_name i))"
    "map_of kvs ''pose'' = Some (JObj [(''rotation_xyzw'', numbers (po_rotation_xyzw (ri_pose i))),
       (''translation_xyz'', numbers (po_translation_xyz (ri_pose i)))])"
    by (simp_all add: kvs_def unless_empty_def pose_doc_def)
  have i: "uint32_ok (ri_image_id i)" "uint32_ok (ri_camera_id i)" "length (po_rotation_xyzw (ri_pose i)) = 4"
    "length (po_translation_xyz (ri_pose i)) = 3" using assms(2) by (auto simp: image_sound_def)
  have doc: "image_doc i = JObj kvs" by (simp add: image_doc_def kvs_def)
  show ?thesis
    unfolding image_from_def doc optional_text_obj [OF assms(1) at(3)] object_member_obj [OF assms(1) at(6)] rbind.simps
      vectors_obj(1) [OF assms(1) pose_members(1) i(3)] vectors_obj(2) [OF assms(1) pose_members(2) i(4)]
    by (simp add: readers_obj [OF assms(1)] at i json_law_simps [OF assms(1)])
qed

lemma camera_read:
  assumes "json_laws lib" "camera_sound c"
  shows "camera_from lib (camera_doc c) = Inr c"
proof -
  define kvs where "kvs = unless_empty ''calibration_ref'' (rc_calibration_ref c) @
      [(''camera_id'', JInt (rc_camera_id c)), (''cx'', JFloat (rc_cx c)), (''cy'', JFloat (rc_cy c)),
       (''distortion_coefficients'', numbers (rc_distortion_coefficients c)), (''distortion_model'', JStr (rc_distortion_model c)),
       (''fx'', JFloat (rc_fx c)), (''fy'', JFloat (rc_fy c)), (''height'', JInt (rc_height c)),
       (''intrinsic_model'', JStr (rc_intrinsic_model c)), (''width'', JInt (rc_width c))]"
  have at: "map_of kvs ''camera_id'' = Some (JInt (rc_camera_id c))" "map_of kvs ''width'' = Some (JInt (rc_width c))"
    "map_of kvs ''height'' = Some (JInt (rc_height c))" "map_of kvs ''intrinsic_model'' = Some (JStr (rc_intrinsic_model c))"
    "map_of kvs ''fx'' = Some (JFloat (rc_fx c))" "map_of kvs ''fy'' = Some (JFloat (rc_fy c))"
    "map_of kvs ''cx'' = Some (JFloat (rc_cx c))" "map_of kvs ''cy'' = Some (JFloat (rc_cy c))"
    "map_of kvs ''distortion_model'' = Some (JStr (rc_distortion_model c))"
    by (simp_all add: kvs_def unless_empty_def)
  have coefficients: "map_of kvs ''distortion_coefficients'' = Some (numbers (rc_distortion_coefficients c))"
    and calibration: "map_of kvs ''calibration_ref'' = (if rc_calibration_ref c = [] then None else Some (JStr (rc_calibration_ref c)))"
    by (simp_all add: kvs_def unless_empty_def)
  have c: "uint32_ok (rc_camera_id c)" "int64_ok (rc_width c)" "int64_ok (rc_height c)" using assms(2) by (auto simp: camera_sound_def)
  have doc: "camera_doc c = JObj kvs" by (simp add: camera_doc_def kvs_def)
  show ?thesis
    unfolding camera_from_def doc optional_text_obj [OF assms(1) calibration] vectors_obj(3) [OF assms(1) coefficients]
    by (simp add: readers_obj(1) [OF assms(1)] at c json_law_simps [OF assms(1)])
qed

lemma provenance_read:
  assumes "json_laws lib" "provenance_sound p"
  shows "provenance_from lib (recon_provenance_doc p) = Inr p"
proof -
  let ?b = "rp_backend p"
  define kvs where "kvs =
     (''backend'', JObj [(''adapter_version'', JStr (bi_adapter_version ?b)), (''name'', JStr (bi_name ?b)), (''version'', JStr (bi_version ?b))]) #
      unless_empty ''backend_specific_json'' (rp_backend_specific_json p) @
      [(''configuration_hash'', JStr (rp_configuration_hash p)), (''duration_ns'', JInt (rp_duration_ns p)),
       (''engine_commit'', JStr (rp_engine_commit p)), (''engine_version'', JStr (rp_engine_version p)),
       (''finished_at_ns'', JInt (rp_finished_at_ns p)), (''git_commit'', JStr (rp_git_commit p)),
       (''input_artifact_hashes'', string_array (rp_input_artifact_hashes p)), (''started_at_ns'', JInt (rp_started_at_ns p))]"
  have texts: "map_of kvs ''configuration_hash'' = Some (JStr (rp_configuration_hash p))"
    "map_of kvs ''engine_version'' = Some (JStr (rp_engine_version p))" "map_of kvs ''engine_commit'' = Some (JStr (rp_engine_commit p))"
    "map_of kvs ''git_commit'' = Some (JStr (rp_git_commit p))"
    by (simp_all add: kvs_def unless_empty_def)
  have times: "map_of kvs ''started_at_ns'' = Some (JInt (rp_started_at_ns p))" "map_of kvs ''duration_ns'' = Some (JInt (rp_duration_ns p))"
    "map_of kvs ''finished_at_ns'' = Some (JInt (rp_finished_at_ns p))"
    by (simp_all add: kvs_def unless_empty_def)
  have backend: "map_of kvs ''backend'' = Some (JObj [(''adapter_version'', JStr (bi_adapter_version ?b)), (''name'', JStr (bi_name ?b)),
      (''version'', JStr (bi_version ?b))])"
    and hashes: "map_of kvs ''input_artifact_hashes'' = Some (string_array (rp_input_artifact_hashes p))"
    and specific: "map_of kvs ''backend_specific_json'' = (if rp_backend_specific_json p = [] then None else Some (JStr (rp_backend_specific_json p)))"
    by (simp_all add: kvs_def unless_empty_def)
  have p: "int64_ok (rp_started_at_ns p)" "int64_ok (rp_finished_at_ns p)" "int64_ok (rp_duration_ns p)"
    using assms(2) by (auto simp: provenance_sound_def)
  have doc: "recon_provenance_doc p = JObj kvs" by (simp add: recon_provenance_doc_def kvs_def)
  show ?thesis
    unfolding provenance_from_def doc optional_text_obj [OF assms(1) specific] object_member_obj [OF assms(1) backend]
      text_items_obj [OF assms(1) hashes] rbind.simps
    by (simp add: readers_obj(1) [OF assms(1)] texts times p json_law_simps [OF assms(1)])
qed

lemma reconstruction_read:
  assumes "json_laws lib" "colors_convert lib to_byte" "reconstruction_sound r"
  shows "reconstruction_from lib to_byte (reconstruction_doc r) = Inr r"
proof -
  define kvs where "kvs = [(''cameras'', JArr (map camera_doc (rn_cameras r))), (''coordinate_frame'', JStr (rn_coordinate_frame r)),
       (''created_at_ns'', JInt (rn_created_at_ns r)), (''images'', JArr (map image_doc (rn_images r))),
       (''points3D'', JArr (map point_doc (rn_points3D r))), (''provenance'', recon_provenance_doc (rn_provenance r)),
       (''reconstruction_id'', JStr (rn_reconstruction_id r)), (''scene_id'', JStr (rn_scene_id r)), (''schema_version'', JInt 2),
       (''session_ids'', string_array (rn_session_ids r))] @ unless_empty ''status'' (rn_status r)"
  obtain inner where inner: "recon_provenance_doc (rn_provenance r) = JObj inner" by (simp add: recon_provenance_doc_def)
  have texts: "map_of kvs ''reconstruction_id'' = Some (JStr (rn_reconstruction_id r))" "map_of kvs ''scene_id'' = Some (JStr (rn_scene_id r))"
    "map_of kvs ''coordinate_frame'' = Some (JStr (rn_coordinate_frame r))" "map_of kvs ''created_at_ns'' = Some (JInt (rn_created_at_ns r))"
    by (simp_all add: kvs_def unless_empty_def)
  have lists: "map_of kvs ''cameras'' = Some (JArr (map camera_doc (rn_cameras r)))"
    "map_of kvs ''images'' = Some (JArr (map image_doc (rn_images r)))" "map_of kvs ''points3D'' = Some (JArr (map point_doc (rn_points3D r)))"
    by (simp_all add: kvs_def unless_empty_def)
  have sessions: "map_of kvs ''session_ids'' = Some (string_array (rn_session_ids r))"
    and status: "map_of kvs ''status'' = (if rn_status r = [] then None else Some (JStr (rn_status r)))"
    and prov: "map_of kvs ''provenance'' = Some (JObj inner)"
    by (simp_all add: kvs_def unless_empty_def inner)
  from assms(3) have i: "int64_ok (rn_created_at_ns r)" and p: "provenance_sound (rn_provenance r)"
    and c: "list_all camera_sound (rn_cameras r)" and m: "list_all image_sound (rn_images r)" and q: "list_all point_sound (rn_points3D r)"
    by (auto simp: reconstruction_sound_def)
  have cameras: "object_items lib (JObj kvs) ''cameras'' e1 e2 (camera_from lib) = Inr (rn_cameras r)" for e1 e2
    by (rule object_items_obj [OF assms(1) lists(1)]) (use c camera_read [OF assms(1)] in \<open>auto simp: list_all_iff\<close>)
  have images: "object_items lib (JObj kvs) ''images'' e1 e2 (image_from lib) = Inr (rn_images r)" for e1 e2
    by (rule object_items_obj [OF assms(1) lists(2)]) (use m image_read [OF assms(1)] in \<open>auto simp: list_all_iff\<close>)
  have points: "object_items lib (JObj kvs) ''points3D'' e1 e2 (point_from lib to_byte) = Inr (rn_points3D r)" for e1 e2
    by (rule object_items_obj [OF assms(1) lists(3)]) (use q point_read [OF assms(1,2)] in \<open>auto simp: list_all_iff\<close>)
  have doc: "reconstruction_doc r = JObj kvs" by (simp add: reconstruction_doc_def kvs_def)
  show ?thesis
    unfolding reconstruction_from_def doc cameras images points optional_text_obj [OF assms(1) status] text_items_obj [OF assms(1) sessions]
      object_member_obj [OF assms(1) prov] rbind.simps provenance_read [OF assms(1) p, unfolded inner]
    by (simp add: readers_obj(1) [OF assms(1)] texts i json_law_simps [OF assms(1)])
qed

text \<open>The keys of the documents ascend.\<close>

lemma reconstruction_keys:
  "sorted_wrt (<) [''backend'', ''backend_specific_json'', ''configuration_hash'', ''duration_ns'', ''engine_commit'', ''engine_version'',
     ''finished_at_ns'', ''git_commit'', ''input_artifact_hashes'', ''started_at_ns'']"
  "list_all ascii [''backend'', ''backend_specific_json'', ''configuration_hash'', ''duration_ns'', ''engine_commit'', ''engine_version'',
     ''finished_at_ns'', ''git_commit'', ''input_artifact_hashes'', ''started_at_ns'']"
  "sorted_wrt (<) [''adapter_version'', ''name'', ''version'']" "list_all ascii [''adapter_version'', ''name'', ''version'']"
  "sorted_wrt (<) [''calibration_ref'', ''camera_id'', ''cx'', ''cy'', ''distortion_coefficients'', ''distortion_model'', ''fx'', ''fy'',
     ''height'', ''intrinsic_model'', ''width'']"
  "list_all ascii [''calibration_ref'', ''camera_id'', ''cx'', ''cy'', ''distortion_coefficients'', ''distortion_model'', ''fx'', ''fy'',
     ''height'', ''intrinsic_model'', ''width'']"
  "sorted_wrt (<) [''camera_id'', ''detected'', ''frame_id'', ''image_id'', ''name'', ''pose'']"
  "list_all ascii [''camera_id'', ''detected'', ''frame_id'', ''image_id'', ''name'', ''pose'']"
  "sorted_wrt (<) [''rotation_xyzw'', ''translation_xyz'']" "list_all ascii [''rotation_xyzw'', ''translation_xyz'']"
  "sorted_wrt (<) [''image_id'', ''point2d_idx'']" "list_all ascii [''image_id'', ''point2d_idx'']"
  "sorted_wrt (<) [''color'', ''error'', ''point3d_id'', ''track'', ''xyz'']" "list_all ascii [''color'', ''error'', ''point3d_id'', ''track'', ''xyz'']"
  "sorted_wrt (<) [''cameras'', ''coordinate_frame'', ''created_at_ns'', ''images'', ''points3D'', ''provenance'', ''reconstruction_id'',
     ''scene_id'', ''schema_version'', ''session_ids'', ''status'']"
  "list_all ascii [''cameras'', ''coordinate_frame'', ''created_at_ns'', ''images'', ''points3D'', ''provenance'', ''reconstruction_id'',
     ''scene_id'', ''schema_version'', ''session_ids'', ''status'']"
  by code_simp+

text \<open>Leaving out a member keeps a document well-formed.\<close>

lemma doc_ok_unless_empty:
  assumes "doc_ok (JObj (before @ (k, JStr s) # after))"
  shows "doc_ok (JObj (before @ unless_empty k s @ after))"
  using assms unfolding doc_ok_obj by (auto simp: unless_empty_def sorted_wrt_append)

lemma doc_ok_numbers [simp]: "doc_ok (numbers ds) \<longleftrightarrow> list_all finite_double ds"
  by (auto simp: numbers_def list_all_iff)

lemma doc_ok_array: "doc_ok (JArr (map doc xs)) \<longleftrightarrow> list_all (\<lambda>x. doc_ok (doc x)) xs"
  by (auto simp: list_all_iff)

lemma doc_ok_track: "track_sound t \<Longrightarrow> doc_ok (track_doc t)"
  unfolding track_doc_def doc_ok_obj list.map fst_conv snd_conv
  by (intro conjI reconstruction_keys) (auto simp: track_sound_def int32_int64 uint32_ok_def uint64_ok_def)

lemma doc_ok_point3d:
  assumes "point_sound p" shows "doc_ok (point_doc p)"
proof -
  have "doc_ok (JInt (uint b))" for b :: byte
    using uint_lt2p [of b] by (simp add: uint64_ok_def)
  then have colors: "doc_ok (JArr (map (\<lambda>b. JInt (uint b)) (p3_color p)))" by (simp add: list_all_iff)
  have track: "doc_ok (JArr (map track_doc (p3_track p)))"
    using assms doc_ok_track by (auto simp: point_sound_def list_all_iff)
  show ?thesis
    unfolding point_doc_def
  proof (rule iffD2 [OF doc_ok_obj], unfold list.map fst_conv snd_conv, intro conjI reconstruction_keys)
  qed (use assms in \<open>simp add: colors track point_sound_def del: doc_ok.simps(6,7)\<close>)
qed

lemma doc_ok_image:
  assumes "image_sound i" shows "doc_ok (image_doc i)"
proof -
  have pose: "doc_ok (pose_doc (ri_pose i))"
    unfolding pose_doc_def doc_ok_obj list.map fst_conv snd_conv
    by (intro conjI reconstruction_keys) (use assms in \<open>simp add: image_sound_def\<close>)
  have "doc_ok (JObj ([(''camera_id'', JInt (ri_camera_id i)), (''detected'', JBool (ri_detected i))] @ (''frame_id'', JStr (ri_frame_id i)) #
      [(''image_id'', JInt (ri_image_id i)), (''name'', JStr (ri_name i)), (''pose'', pose_doc (ri_pose i))]))"
  proof (rule iffD2 [OF doc_ok_obj], unfold append.simps list.map fst_conv snd_conv, intro conjI reconstruction_keys)
  qed (use assms in \<open>simp add: pose image_sound_def uint32_ok_def int64_ok_def\<close>)
  from doc_ok_unless_empty [OF this] show ?thesis by (simp only: image_doc_def)
qed

lemma doc_ok_camera:
  assumes "camera_sound c" shows "doc_ok (camera_doc c)"
proof -
  have "doc_ok (JObj ([] @ (''calibration_ref'', JStr (rc_calibration_ref c)) #
      [(''camera_id'', JInt (rc_camera_id c)), (''cx'', JFloat (rc_cx c)), (''cy'', JFloat (rc_cy c)),
       (''distortion_coefficients'', numbers (rc_distortion_coefficients c)), (''distortion_model'', JStr (rc_distortion_model c)),
       (''fx'', JFloat (rc_fx c)), (''fy'', JFloat (rc_fy c)), (''height'', JInt (rc_height c)),
       (''intrinsic_model'', JStr (rc_intrinsic_model c)), (''width'', JInt (rc_width c))]))"
  proof (rule iffD2 [OF doc_ok_obj], unfold append.simps list.map fst_conv snd_conv, intro conjI reconstruction_keys)
  qed (use assms in \<open>simp add: camera_sound_def uint32_ok_def int64_ok_def\<close>)
  from doc_ok_unless_empty [OF this] show ?thesis by (simp only: camera_doc_def append.simps)
qed

lemma doc_ok_provenance:
  assumes "provenance_sound p" shows "doc_ok (recon_provenance_doc p)"
proof -
  let ?b = "rp_backend p"
  have backend: "doc_ok (JObj [(''adapter_version'', JStr (bi_adapter_version ?b)), (''name'', JStr (bi_name ?b)), (''version'', JStr (bi_version ?b))])"
    unfolding doc_ok_obj list.map fst_conv snd_conv
    by (intro conjI reconstruction_keys) (use assms in \<open>simp add: provenance_sound_def backend_sound_def\<close>)
  have "doc_ok (JObj ([(''backend'', JObj [(''adapter_version'', JStr (bi_adapter_version ?b)), (''name'', JStr (bi_name ?b)),
         (''version'', JStr (bi_version ?b))])] @ (''backend_specific_json'', JStr (rp_backend_specific_json p)) #
      [(''configuration_hash'', JStr (rp_configuration_hash p)), (''duration_ns'', JInt (rp_duration_ns p)),
       (''engine_commit'', JStr (rp_engine_commit p)), (''engine_version'', JStr (rp_engine_version p)),
       (''finished_at_ns'', JInt (rp_finished_at_ns p)), (''git_commit'', JStr (rp_git_commit p)),
       (''input_artifact_hashes'', string_array (rp_input_artifact_hashes p)), (''started_at_ns'', JInt (rp_started_at_ns p))]))"
  proof (rule iffD2 [OF doc_ok_obj], unfold append.simps list.map fst_conv snd_conv, intro conjI reconstruction_keys)
  qed (use assms in \<open>simp add: backend doc_ok_string_array provenance_sound_def del: doc_ok.simps(7)\<close>)
  from doc_ok_unless_empty [OF this] show ?thesis by (simp only: recon_provenance_doc_def append.simps)
qed

lemma doc_ok_reconstruction:
  assumes "reconstruction_sound r" shows "doc_ok (reconstruction_doc r)"
proof -
  have docs: "doc_ok (JArr (map camera_doc (rn_cameras r)))" "doc_ok (JArr (map image_doc (rn_images r)))"
    "doc_ok (JArr (map point_doc (rn_points3D r)))" "doc_ok (recon_provenance_doc (rn_provenance r))"
    using assms doc_ok_camera doc_ok_image doc_ok_point3d doc_ok_provenance
    by (auto simp: reconstruction_sound_def list_all_iff)
  have "doc_ok (JObj ([(''cameras'', JArr (map camera_doc (rn_cameras r))), (''coordinate_frame'', JStr (rn_coordinate_frame r)),
       (''created_at_ns'', JInt (rn_created_at_ns r)), (''images'', JArr (map image_doc (rn_images r))),
       (''points3D'', JArr (map point_doc (rn_points3D r))), (''provenance'', recon_provenance_doc (rn_provenance r)),
       (''reconstruction_id'', JStr (rn_reconstruction_id r)), (''scene_id'', JStr (rn_scene_id r)), (''schema_version'', JInt 2),
       (''session_ids'', string_array (rn_session_ids r))] @ (''status'', JStr (rn_status r)) # []))"
  proof (rule iffD2 [OF doc_ok_obj], unfold append.simps list.map fst_conv snd_conv, intro conjI reconstruction_keys)
  qed (use assms in \<open>simp add: docs doc_ok_string_array reconstruction_sound_def int64_ok_def del: doc_ok.simps(6,7)\<close>)
  from doc_ok_unless_empty [OF this] show ?thesis by (simp only: reconstruction_doc_def append_Nil2)
qed

lemma reconstruction_document:
  assumes "json_laws lib" "colors_convert lib to_byte" "reconstruction_sound r"
  shows "\<exists>document. ReconstructionToJson lib r = Inr document \<and> ReconstructionFromJson lib to_byte document = Inr r"
  using json_dump_parse [OF assms(1) doc_ok_reconstruction [OF assms(3)]] reconstruction_read [OF assms]
  by (auto simp: ReconstructionToJson_def ReconstructionFromJson_def)

text \<open>
  C15: a reconstruction whose texts are ASCII, whose doubles are finite and whose integers, poses and colors have the range and size of
  their C++ types is written as a document that the strict reader reads back as the same reconstruction; absent and empty
  optional fields are the same.
\<close>

theorem reconstruction_roundtrip:
  assumes "json_laws lib" "colors_convert lib to_byte" "reconstruction_sound r"
  shows "\<exists>document. ReconstructionToJson lib r = Inr document \<and> ReconstructionFromJson lib to_byte document = Inr r"
  by (rule reconstruction_document [OF assms])

definition sample_reconstruction :: Reconstruction where
  "sample_reconstruction = \<lparr>rn_reconstruction_id = FormatUuid (replicate 16 1), rn_scene_id = FormatUuid (replicate 16 2), rn_session_ids = [''s''],
     rn_coordinate_frame = ''reconstruction_0'', rn_status = ''succeeded'', rn_created_at_ns = 5,
     rn_provenance = no_provenance\<lparr>rp_input_artifact_hashes := [''h'']\<rparr>,
     rn_cameras = [\<lparr>rc_camera_id = 1, rc_width = 640, rc_height = 480, rc_intrinsic_model = ''pinhole'', rc_fx = 7, rc_fy = 7, rc_cx = 1, rc_cy = 1,
       rc_distortion_model = ''none'', rc_distortion_coefficients = [], rc_calibration_ref = []\<rparr>],
     rn_images = [\<lparr>ri_image_id = 1, ri_camera_id = 1, ri_frame_id = ''f'', ri_name = ''a.jpg'',
       ri_pose = \<lparr>po_rotation_xyzw = [0, 0, 0, 1], po_translation_xyz = [0, 0, 0]\<rparr>, ri_detected = True\<rparr>],
     rn_points3D = [\<lparr>p3_point3d_id = 18446744073709551615, p3_xyz = [1, 2, 3], p3_color = [255, 0, 7], p3_error = 1,
       p3_track = [\<lparr>te_image_id = 1, te_point2d_idx = 0\<rparr>]\<rparr>]\<rparr>"

lemma reference_colors: "colors_convert reference_json ucast"
proof -
  have "ucast (ucast b :: u64) = b" for b :: byte
    by (rule bit_word_eqI) (auto simp: bit_simps)
  then show ?thesis by (simp add: colors_convert_def reference_json_def)
qed

lemma sample_sound: "reconstruction_sound sample_reconstruction"
  by code_simp

lemma reconstruction_roundtrip_witness:
  "\<exists>document. ReconstructionToJson reference_json sample_reconstruction = Inr document \<and>
     ReconstructionFromJson reference_json ucast document = Inr sample_reconstruction"
  by (rule reconstruction_roundtrip [OF reference_json_laws reference_colors sample_sound])

section \<open>What the reader does not check\<close>

text \<open>The version of the document is written and never read: a document of another version is read like one of version 2.\<close>

lemma schema_version_ignored:
  assumes "json_laws lib"
  shows "reconstruction_from lib to_byte (JObj (before @ (''schema_version'', v) # after)) =
    reconstruction_from lib to_byte (JObj (before @ (''schema_version'', w) # after))"
proof -
  have at: "map_of (before @ (''schema_version'', v) # after) k = map_of (before @ (''schema_version'', w) # after) k"
    if "k \<noteq> ''schema_version''" for k
    using that by (simp add: map_add_def split: option.split)
  have reads: "JsonGetField lib get (JObj (before @ (''schema_version'', v) # after)) k =
      JsonGetField lib get (JObj (before @ (''schema_version'', w) # after)) k" if "k \<noteq> ''schema_version''" for k and get :: "json \<Rightarrow> 'x res"
    unfolding readers_obj(1) [OF assms] at [OF that] ..
  have option: "JsonOptionalField lib get (JObj (before @ (''schema_version'', v) # after)) k =
      JsonOptionalField lib get (JObj (before @ (''schema_version'', w) # after)) k" if "k \<noteq> ''schema_version''" for k and get :: "json \<Rightarrow> 'x res"
    unfolding JsonOptionalField_def json_law_simps(2) [OF assms] at [OF that] ..
  show ?thesis
    unfolding reconstruction_from_def text_items_def object_member_def object_items_def optional_text_def
    by (simp add: reads option)
qed

end
