(* ===== verification/BundleAdjustment.thy ===== *)
theory BundleAdjustment
  imports ReconstructionJson
begin

text \<open>
  Reconstruction revisions in the engine: engine/pipeline/bundle_adjustment_optimize_pipeline.cpp, which turns a succeeded revision
  into the next one, with the types of core/geometry/reconstruction_optimizer.h and the gate of core/geometry/reprojection.h,
  and engine/pipeline/sparse_correction_orchestrator.h, which commits a worker's document. The optimizer is behind an interface; it
  may throw. The lemmas show that a step replaces the scene's succeeded revision by the next one or changes nothing.
\<close>

section \<open>Data\<close>

record ReprojectionObservation =
  ro_image_id :: int
  ro_point3d_id :: int
  ro_keypoint_2d :: "u64 \<times> u64"

record BundleAdjustmentInput =
  ba_source :: Reconstruction
  ba_observations :: "ReprojectionObservation list"
  ba_min_parallax_deg :: u64
  ba_random_seed :: "string option"
  ba_max_iterations :: int

record BundleAdjustmentTrace =
  bt_converged :: bool
  bt_iterations :: int
  bt_rms_before_px :: u64
  bt_rms_after_px :: u64
  bt_mean_before_px :: u64
  bt_mean_after_px :: u64
  bt_inlier_count_before :: int
  bt_outlier_count_before :: int
  bt_inlier_count_after :: int
  bt_outlier_count_after :: int
  bt_threshold_px_before :: u64
  bt_threshold_px_after :: u64

record BundleAdjustmentResult =
  bs_reconstruction :: Reconstruction
  bs_trace :: BundleAdjustmentTrace

type_synonym ReconstructionOptimizer = "BundleAdjustmentInput \<Rightarrow> BundleAdjustmentResult res"

text \<open>The pointers of the code that may be null are options; the database is the state, and present or not.\<close>

record BundleAdjustmentOptimizePipelineInput =
  bo_source_v3 :: "Reconstruction option"
  bo_observations :: "ReprojectionObservation list"
  bo_optimizer :: "ReconstructionOptimizer option"
  bo_has_db :: bool
  bo_scene_id :: uuid
  bo_random_seed :: "string option"
  bo_min_parallax_deg :: u64
  bo_max_iterations :: int

record BundleAdjustmentOptimizePipelineResult =
  br_ran :: bool
  br_gate_passed :: bool
  br_inserted_v4 :: bool
  br_superseded_v3 :: bool
  br_trace :: "BundleAdjustmentTrace option"
  br_v4 :: "Reconstruction option"
  br_failure :: string

section \<open>The gate\<close>

definition PassesReprojectionGate :: "arith \<Rightarrow> u64 \<Rightarrow> u64 \<Rightarrow> u64 \<Rightarrow> bool" where
  "PassesReprojectionGate fp rms_after rms_before improvement_factor \<longleftrightarrow>
     (if \<not> finite_double rms_after \<or> \<not> finite_double rms_before then False
      else if fp_less rms_after 0 \<or> fp_less rms_before 0 then False
      else if fp_le improvement_factor 0 then False
      else fp_less rms_after (fa_mul fp improvement_factor rms_before))"

definition gate_holds :: "arith \<Rightarrow> BundleAdjustmentTrace \<Rightarrow> bool" where
  "gate_holds fp trace \<longleftrightarrow> PassesReprojectionGate fp (bt_rms_after_px trace) (bt_rms_before_px trace) (fa_ratio fp 9 10)"

section \<open>The stage\<close>

text \<open>\<open>fmt\<close> prints a double with six significant digits.\<close>

definition gate_failure :: "arith \<Rightarrow> (u64 \<Rightarrow> string) \<Rightarrow> BundleAdjustmentTrace \<Rightarrow> string" where
  "gate_failure fp fmt trace =
     ''bundle adjustment rejected by the D5 gate: rms_after '' @ fmt (bt_rms_after_px trace) @ '' px is not strictly below 0.9 * rms_before '' @
     fmt (bt_rms_before_px trace) @ '' px (outliers after '' @ fmt (fa_of_int fp (bt_outlier_count_after trace)) @ '')''"

definition not_run :: BundleAdjustmentOptimizePipelineResult where
  "not_run = \<lparr>br_ran = False, br_gate_passed = False, br_inserted_v4 = False, br_superseded_v3 = False, br_trace = None, br_v4 = None,
     br_failure = []\<rparr>"

definition missing_dependency :: "BundleAdjustmentOptimizePipelineInput \<Rightarrow> string option" where
  "missing_dependency input =
     (if bo_optimizer input = None then Some ''bundle-adjustment pipeline missing optimizer (ReconstructionOptimizer seam)''
      else if \<not> bo_has_db input then Some ''bundle-adjustment pipeline missing MetadataDb''
      else if bo_source_v3 input = None then Some ''bundle-adjustment pipeline missing source reconstruction (v3)''
      else None)"

definition check_source :: "BundleAdjustmentOptimizePipelineInput \<Rightarrow> Reconstruction \<Rightarrow> unit res" where
  "check_source input v3 =
     (if bo_random_seed input = None \<or> bo_random_seed input = Some []
      then Inl (throw_error kValidationDomain ''bundle-adjustment orchestration requires a pinned non-empty random_seed (D6)'')
      else if rn_status v3 \<noteq> ''succeeded''
      then Inl (throw_error kValidationDomain (''bundle adjustment source must be a succeeded v3 revision (got status '' @
        in_quotes (rn_status v3) @ '')''))
      else Inr ())"

definition seam_input :: "BundleAdjustmentOptimizePipelineInput \<Rightarrow> Reconstruction \<Rightarrow> BundleAdjustmentInput" where
  "seam_input input v3 = \<lparr>ba_source = v3, ba_observations = bo_observations input, ba_min_parallax_deg = bo_min_parallax_deg input,
     ba_random_seed = bo_random_seed input, ba_max_iterations = bo_max_iterations input\<rparr>"

text \<open>Both stages that commit a revision write its row alike.\<close>

definition revision_row :: "json_lib \<Rightarrow> uuid \<Rightarrow> Reconstruction \<Rightarrow> int \<Rightarrow> ReconstructionRow res" where
  "revision_row lib scene_id r created_at_ns =
     rbind (ParseUuid (rn_reconstruction_id r)) (\<lambda>reconstruction_id.
     rbind (ReconstructionToJson lib r) (\<lambda>document.
       Inr \<lparr>rc_reconstruction_id = reconstruction_id, rc_scene_id = scene_id, rc_coordinate_frame = rn_coordinate_frame r,
         rc_status = ''succeeded'', rc_created_at_ns = created_at_ns, rc_document_json = document\<rparr>))"

definition revision_step :: "ReconstructionRow \<Rightarrow> Reconstruction \<Rightarrow> unit scene_op" where
  "revision_step row v3 =
     sbind (AddReconstruction row) (\<lambda>_.
     sbind (lift_res (ParseUuid (rn_reconstruction_id v3))) (\<lambda>source_id.
       SetReconstructionStatus source_id ''superseded''))"

definition adjust :: "json_lib \<Rightarrow> arith \<Rightarrow> (u64 \<Rightarrow> string) \<Rightarrow> BundleAdjustmentOptimizePipelineInput \<Rightarrow> Reconstruction \<Rightarrow>
    ReconstructionOptimizer \<Rightarrow> BundleAdjustmentOptimizePipelineResult scene_op" where
  "adjust lib fp fmt input v3 optimize =
     sbind (lift_res (check_source input v3)) (\<lambda>_.
     sbind (lift_res (optimize (seam_input input v3))) (\<lambda>seam.
     let v4 = bs_reconstruction seam; trace = bs_trace seam;
         out = not_run\<lparr>br_ran := True, br_trace := Some trace, br_v4 := Some v4\<rparr> in
     if rn_reconstruction_id v4 = rn_reconstruction_id v3
     then sthrow (throw_error kValidationDomain
       ''bundle-adjustment seam returned the v3 reconstruction id; the v4 document must carry a fresh UUIDv4 (D-CRM-07)'')
     else if \<not> gate_holds fp trace then sret (out\<lparr>br_failure := gate_failure fp fmt trace\<rparr>)
     else
       sbind (lift_res (revision_row lib (bo_scene_id input) v4 (rn_created_at_ns v4))) (\<lambda>row.
       sbind (with_write_transaction (revision_step row v3)) (\<lambda>_.
         sret (out\<lparr>br_gate_passed := True, br_inserted_v4 := True, br_superseded_v3 := True\<rparr>)))))"

definition BundleAdjustmentOptimizePipeline :: "json_lib \<Rightarrow> arith \<Rightarrow> (u64 \<Rightarrow> string) \<Rightarrow> BundleAdjustmentOptimizePipelineInput \<Rightarrow>
    BundleAdjustmentOptimizePipelineResult scene_op" where
  "BundleAdjustmentOptimizePipeline lib fp fmt input =
     (case missing_dependency input of
        Some failure \<Rightarrow> sret (not_run\<lparr>br_failure := failure\<rparr>)
      | None \<Rightarrow> (case (bo_source_v3 input, bo_optimizer input) of
            (Some v3, Some optimize) \<Rightarrow> adjust lib fp fmt input v3 optimize
          | _ \<Rightarrow> sret not_run))"

section \<open>The commit of a worker's document\<close>

definition commit_error :: "string \<Rightarrow> exn" where
  "commit_error what = throw_error kValidationDomain (''host-runner commit rejected a '' @ what)"

definition accepted_document :: "json_lib \<Rightarrow> (u64 \<Rightarrow> byte) \<Rightarrow> byte list \<Rightarrow> Reconstruction res" where
  "accepted_document lib to_byte payload =
     (case ReconstructionFromJson lib to_byte (text_of payload) of
        Inl e \<Rightarrow> Inl (commit_error ''malformed worker reconstruction artifact'')
      | Inr rec \<Rightarrow>
          if rn_reconstruction_id rec = [] then Inl (commit_error ''reconstruction artifact with no reconstruction_id'')
          else if rn_status rec \<noteq> ''succeeded'' then Inl (commit_error ''non-succeeded provisional reconstruction artifact'')
          else Inr rec)"

definition CommitWorkerReconstructionArtifact :: "json_lib \<Rightarrow> (u64 \<Rightarrow> byte) \<Rightarrow> uuid \<Rightarrow> byte list \<Rightarrow> int \<Rightarrow> Reconstruction scene_op" where
  "CommitWorkerReconstructionArtifact lib to_byte scene_id payload created_at_ns =
     sbind (lift_res (accepted_document lib to_byte payload)) (\<lambda>rec.
     sbind (lift_res (revision_row lib scene_id rec created_at_ns)) (\<lambda>row.
     sbind (AddReconstruction row) (\<lambda>_. sret rec)))"

section \<open>What a step does\<close>

lemma inside_write_op [inside_intros]: "inside m \<Longrightarrow> inside (write_op m)"
  by (simp add: inside_def write_op_def)

lemma inside_revision_step: "inside (revision_step row v3)"
  unfolding revision_step_def AddReconstruction_def SetReconstructionStatus_def by (intro inside_intros)

definition supersede :: "uuid \<Rightarrow> ReconstructionRow list \<Rightarrow> ReconstructionRow list" where
  "supersede rid rows = map (\<lambda>r. if rc_reconstruction_id r = rid then r\<lparr>rc_status := ''superseded''\<rparr> else r) rows"

definition with_revision :: "ReconstructionRow \<Rightarrow> uuid \<Rightarrow> scene_tables \<Rightarrow> scene_tables" where
  "with_revision row source_id t = t\<lparr>st_reconstructions := supersede source_id (st_reconstructions t @ [row])\<rparr>"

lemma AddReconstruction_Inr:
  assumes "AddReconstruction row d = (Inr u, d')"
  shows "has_scene (rc_scene_id row) (tx_tables d) \<and> rc_reconstruction_id row \<notin> rc_reconstruction_id ` set (recs d) \<and>
    tx_tables d' = (tx_tables d)\<lparr>st_reconstructions := recs d @ [row]\<rparr> \<and> same_mode d d'"
  using assms unfolding AddReconstruction_def
  by (auto simp: insert_reconstruction_def recs_def split: if_splits dest!: write_statement_Inr tbl_insert_Some)

lemma SetReconstructionStatus_Inr:
  assumes "SetReconstructionStatus rid new d = (Inr u, d')"
  shows "\<exists>r. tbl_get rc_reconstruction_id rid (recs d) = Some r \<and> can_transition (rc_status r) new \<and>
    set_status rid new (tx_tables d) = Some (tx_tables d')"
proof -
  define q where "q = (\<lambda>t :: scene_tables. map_option rc_status (tbl_get rc_reconstruction_id rid (st_reconstructions t)))"
  define rest where "rest = (\<lambda>found. case found of
         None \<Rightarrow> sthrow (throw_error kStorageIo
           (''reconstruction row not found for status update: '' @ FormatUuid rid))
       | Some current \<Rightarrow>
           if \<not> can_transition current new
           then sthrow (throw_error kStorageIo
             (''invalid reconstruction status transition '' @ [CHR 0x27] @ current @ [CHR 0x27] @ '' -> '' @ [CHR 0x27] @
              new @ [CHR 0x27] @ '' for '' @ FormatUuid rid))
           else statement ''cannot prepare update reconstruction status'' ''cannot update reconstruction status''
             (set_status rid new))"
  have "\<not> db_read_only d" using assms by (auto simp: SetReconstructionStatus_def write_op_def)
  then have run: "SetReconstructionStatus rid new d = sbind (query_one ''cannot prepare query reconstruction status'' q) rest d"
    by (simp only: SetReconstructionStatus_def write_op_def q_def rest_def if_False)
  from sbind_InrD [OF assms [unfolded run]] obtain found d1 where
    m: "query_one ''cannot prepare query reconstruction status'' q d = (Inr found, d1)" and rest: "rest found d1 = (Inr u, d')" by blast
  from query_one_Inr [OF m] have t: "tx_tables d1 = tx_tables d" "found = None \<or> found = q (tx_tables d)" by auto
  from rest obtain current where c: "found = Some current" "can_transition current new"
    "statement ''cannot prepare update reconstruction status'' ''cannot update reconstruction status'' (set_status rid new) d1 = (Inr u, d')"
    by (cases found) (auto simp: rest_def sthrow_def split: if_splits)
  from c(1) t(2) obtain r where "tbl_get rc_reconstruction_id rid (recs d) = Some r" "rc_status r = current"
    by (cases "tbl_get rc_reconstruction_id rid (recs d)") (auto simp: q_def recs_def)
  with c(2) statement_Inr [OF c(3)] t(1) show ?thesis by auto
qed

lemma revision_step_Inr:
  assumes "revision_step row v3 d = (Inr u, d')"
  obtains source_id r where "ParseUuid (rn_reconstruction_id v3) = Inr source_id" "has_scene (rc_scene_id row) (tx_tables d)"
    "rc_reconstruction_id row \<notin> rc_reconstruction_id ` set (recs d)"
    "tbl_get rc_reconstruction_id source_id (recs d @ [row]) = Some r" "can_transition (rc_status r) ''superseded''"
    "tx_tables d' = with_revision row source_id (tx_tables d)"
proof -
  from assms obtain d1 source_id where a: "AddReconstruction row d = (Inr (), d1)" and p: "ParseUuid (rn_reconstruction_id v3) = Inr source_id"
    and s: "SetReconstructionStatus source_id ''superseded'' d1 = (Inr (), d')"
    by (auto simp: revision_step_def lift_res_def dest!: sbind_InrD)
  note a = AddReconstruction_Inr [OF a]
  from SetReconstructionStatus_Inr [OF s] obtain r where r: "tbl_get rc_reconstruction_id source_id (recs d1) = Some r"
    "can_transition (rc_status r) ''superseded''" "set_status source_id ''superseded'' (tx_tables d1) = Some (tx_tables d')" by blast
  have "recs d1 = recs d @ [row]" using a by (simp add: recs_def)
  with a p r show thesis by (intro that [of source_id r]) (auto simp: set_status_def with_revision_def supersede_def recs_def)
qed

text \<open>A run that inserted: the gate held, and the tables have the new row and the source superseded.\<close>

definition stepped :: "json_lib \<Rightarrow> arith \<Rightarrow> BundleAdjustmentOptimizePipelineInput \<Rightarrow> BundleAdjustmentOptimizePipelineResult \<Rightarrow> scene_db \<Rightarrow>
    scene_db \<Rightarrow> ReconstructionRow \<Rightarrow> uuid \<Rightarrow> bool" where
  "stepped lib fp input out d d' row source_id \<longleftrightarrow>
     (\<exists>v3 v4 trace r. bo_source_v3 input = Some v3 \<and> br_v4 out = Some v4 \<and> br_trace out = Some trace \<and> gate_holds fp trace \<and>
       revision_row lib (bo_scene_id input) v4 (rn_created_at_ns v4) = Inr row \<and>
       ParseUuid (rn_reconstruction_id v3) = Inr source_id \<and> rc_reconstruction_id row \<notin> rc_reconstruction_id ` set (recs d) \<and>
       tbl_get rc_reconstruction_id source_id (recs d @ [row]) = Some r \<and> can_transition (rc_status r) ''superseded'' \<and>
       tx_tables d' = with_revision row source_id (tx_tables d) \<and> tx_saved d = None \<and> tx_saved d' = None)"

lemma adjust_result:
  assumes "adjust lib fp fmt input v3 optimize d = (r, d')" "bo_source_v3 input = Some v3"
  shows "(\<exists>e. r = Inl e \<and> committed d' = committed d) \<or>
    (\<exists>out. r = Inr out \<and> br_ran out \<and>
      (if br_inserted_v4 out then br_gate_passed out \<and> br_superseded_v3 out \<and> (\<exists>row source_id. stepped lib fp input out d d' row source_id)
       else \<not> br_gate_passed out \<and> \<not> br_superseded_v3 out \<and> d' = d))"
proof (cases "check_source input v3")
  case (Inl e)
  with assms(1) show ?thesis by (auto simp: adjust_def lift_res_def sx_simps)
next
  case check: (Inr u)
  show ?thesis
  proof (cases "optimize (seam_input input v3)")
    case (Inl e)
    with check assms(1) show ?thesis by (auto simp: adjust_def lift_res_def sx_simps)
  next
    case seam: (Inr seam)
    let ?v4 = "bs_reconstruction seam" and ?trace = "bs_trace seam"
    let ?out = "not_run\<lparr>br_ran := True, br_trace := Some ?trace, br_v4 := Some ?v4\<rparr>"
    consider (same) "rn_reconstruction_id ?v4 = rn_reconstruction_id v3"
      | (refused) "rn_reconstruction_id ?v4 \<noteq> rn_reconstruction_id v3" "\<not> gate_holds fp ?trace"
      | (accepted) "rn_reconstruction_id ?v4 \<noteq> rn_reconstruction_id v3" "gate_holds fp ?trace" by blast
    then show ?thesis
    proof cases
      case same
      with check seam assms(1) obtain e where "r = Inl e" "d' = d" by (auto simp: adjust_def lift_res_def sx_simps Let_def)
      then show ?thesis by simp
    next
      case refused
      with check seam assms(1) have "r = Inr (?out\<lparr>br_failure := gate_failure fp fmt ?trace\<rparr>)" "d' = d"
        by (simp_all add: adjust_def lift_res_def sx_simps Let_def)
      then show ?thesis by (simp add: not_run_def)
    next
      case accepted
      show ?thesis
      proof (cases "revision_row lib (bo_scene_id input) ?v4 (rn_created_at_ns ?v4)")
        case (Inl e)
        with check seam accepted assms(1) have "r = Inl e" "d' = d" by (simp_all add: adjust_def lift_res_def sx_simps Let_def)
        then show ?thesis by simp
      next
        case row: (Inr row)
        obtain w d1 where w: "with_write_transaction (revision_step row v3) d = (w, d1)" by fastforce
        show ?thesis
        proof (cases w)
          case (Inl e)
          with check seam accepted row w assms(1) have "r = Inl e" "d' = d1" by (simp_all add: adjust_def lift_res_def sx_simps Let_def)
          with with_write_transaction_atomic [OF inside_revision_step w [unfolded Inl]] show ?thesis by simp
        next
          case (Inr x)
          with check seam accepted row w assms(1) have r: "r = Inr (?out\<lparr>br_gate_passed := True, br_inserted_v4 := True, br_superseded_v3 := True\<rparr>)"
            "d' = d1" by (simp_all add: adjust_def lift_res_def sx_simps Let_def)
          from with_write_transaction_returns [OF inside_revision_step w [unfolded Inr]] obtain d2 d3 where
            t: "tx_tables d2 = tx_tables d" "revision_step row v3 d2 = (Inr x, d3)" "tx_tables d1 = tx_tables d3" "tx_saved d = None" "tx_saved d1 = None"
            by blast
          from t(2) obtain source_id q where "ParseUuid (rn_reconstruction_id v3) = Inr source_id"
            "rc_reconstruction_id row \<notin> rc_reconstruction_id ` set (recs d)"
            "tbl_get rc_reconstruction_id source_id (recs d @ [row]) = Some q" "can_transition (rc_status q) ''superseded''"
            "tx_tables d3 = with_revision row source_id (tx_tables d)"
            by (rule revision_step_Inr) (use t(1) in \<open>simp add: recs_def\<close>)
          with t r(2) accepted row assms(2)
          have "stepped lib fp input (?out\<lparr>br_gate_passed := True, br_inserted_v4 := True, br_superseded_v3 := True\<rparr>) d d' row source_id"
            by (simp add: stepped_def)
          with r show ?thesis by (intro disjI2 exI [of _ "?out\<lparr>br_gate_passed := True, br_inserted_v4 := True, br_superseded_v3 := True\<rparr>"]) auto
        qed
      qed
    qed
  qed
qed

lemma pipeline_result:
  assumes "BundleAdjustmentOptimizePipeline lib fp fmt input d = (r, d')"
  shows "(\<exists>e. r = Inl e \<and> committed d' = committed d) \<or>
    (\<exists>out. r = Inr out \<and> (br_ran out \<longleftrightarrow> missing_dependency input = None) \<and>
      (if br_inserted_v4 out then br_gate_passed out \<and> br_superseded_v3 out \<and> (\<exists>row source_id. stepped lib fp input out d d' row source_id)
       else \<not> br_gate_passed out \<and> \<not> br_superseded_v3 out \<and> d' = d))"
proof (cases "missing_dependency input")
  case None
  then obtain v3 optimize where "bo_source_v3 input = Some v3" "bo_optimizer input = Some optimize"
    by (auto simp: missing_dependency_def split: if_splits)
  with adjust_result [of lib fp fmt input v3 optimize d r d'] None assms show ?thesis
    by (auto simp: BundleAdjustmentOptimizePipeline_def)
next
  case (Some failure)
  with assms show ?thesis by (auto simp: BundleAdjustmentOptimizePipeline_def sret_def not_run_def)
qed

lemma stepped_source:
  assumes "stepped lib fp input out d d' row source_id" "bo_source_v3 input = Some v3" "ParseUuid (rn_reconstruction_id v3) = Inr rid"
  shows "source_id = rid"
  using assms by (auto simp: stepped_def)

text \<open>
  C13: a run of the bundle adjustment stage that throws, whichever call failed, leaves the committed tables as they were. One that
  returns either changed nothing, because a dependency was missing or the gate refused the result, or it passed the
  gate, and then the new revision is in the tables as succeeded and its source is superseded, both committed.
\<close>

theorem adjustment_steps_or_changes_nothing:
  assumes "BundleAdjustmentOptimizePipeline lib fp fmt input d = (r, d')"
  shows "(\<exists>e. r = Inl e \<and> committed d' = committed d) \<or>
    (\<exists>out. r = Inr out \<and> (br_ran out \<longleftrightarrow> missing_dependency input = None) \<and>
      (if br_inserted_v4 out then br_gate_passed out \<and> br_superseded_v3 out \<and> (\<exists>row source_id. stepped lib fp input out d d' row source_id)
       else \<not> br_gate_passed out \<and> \<not> br_superseded_v3 out \<and> d' = d))"
  by (rule pipeline_result [OF assms])

section \<open>The chain of revisions\<close>

definition succeeded_in :: "uuid \<Rightarrow> scene_tables \<Rightarrow> ReconstructionRow list" where
  "succeeded_in scene_id t = filter (\<lambda>r. rc_scene_id r = scene_id \<and> rc_status r = ''succeeded'') (st_reconstructions t)"

lemma supersede_append [simp]: "supersede rid (xs @ ys) = supersede rid xs @ supersede rid ys"
  by (simp add: supersede_def)

lemma succeeded_supersede:
  "filter (\<lambda>r. rc_scene_id r = sc \<and> rc_status r = ''succeeded'') (supersede rid rows) =
     filter (\<lambda>r. rc_scene_id r = sc \<and> rc_status r = ''succeeded'' \<and> rc_reconstruction_id r \<noteq> rid) rows"
  by (induction rows) (auto simp: supersede_def)

lemma succeeded_after_step:
  assumes step: "stepped lib fp input out d d' row source_id"
    and one: "succeeded_in (bo_scene_id input) (tx_tables d) = [source]" "rc_reconstruction_id source = source_id"
  shows "succeeded_in (bo_scene_id input) (tx_tables d') = [row]"
proof -
  from step obtain v4 where v4: "revision_row lib (bo_scene_id input) v4 (rn_created_at_ns v4) = Inr row"
    and fresh: "rc_reconstruction_id row \<notin> rc_reconstruction_id ` set (recs d)"
    and t: "tx_tables d' = with_revision row source_id (tx_tables d)" by (auto simp: stepped_def)
  from v4 have row: "rc_scene_id row = bo_scene_id input" "rc_status row = ''succeeded''" by (auto simp: revision_row_def rbind_Inr)
  have "source \<in> set (recs d)" using arg_cong [OF one(1), of set] by (auto simp: succeeded_in_def recs_def)
  with fresh one(2) have "rc_reconstruction_id row \<noteq> source_id" by auto
  moreover have "filter (\<lambda>r. rc_scene_id r = bo_scene_id input \<and> rc_status r = ''succeeded'' \<and> rc_reconstruction_id r \<noteq> source_id)
      (st_reconstructions (tx_tables d)) = filter (\<lambda>r. rc_reconstruction_id r \<noteq> source_id) [source]"
    unfolding one(1) [symmetric] succeeded_in_def by (simp add: conj_commute conj_left_commute)
  ultimately show ?thesis
    using row one(2) by (simp add: t succeeded_in_def with_revision_def succeeded_supersede)
qed

text \<open>
  C12: when the source is the scene's only succeeded reconstruction and the stage inserted the next one, then the next one is the
  scene's only succeeded reconstruction, a query for the latest returns it when its step does not fail, and its document is read back as
  the reconstruction that the optimizer returned.
\<close>

theorem next_revision_is_latest:
  assumes "BundleAdjustmentOptimizePipeline lib fp fmt input d = (Inr out, d')" "br_inserted_v4 out"
    and "bo_source_v3 input = Some v3" "ParseUuid (rn_reconstruction_id v3) = Inr source_id"
    and "succeeded_in (bo_scene_id input) (tx_tables d) = [source]" "rc_reconstruction_id source = source_id"
    and "json_laws lib" "colors_convert lib to_byte" "br_v4 out = Some v4" "reconstruction_sound v4"
    and "QueryLatestReconstructionByScene (bo_scene_id input) d' = (Inr latest, d'')" "\<not> db_fault d' (Suc (db_tick d'))"
  shows "\<exists>row. succeeded_in (bo_scene_id input) (tx_tables d') = [row] \<and> latest = Some row \<and>
    ReconstructionFromJson lib to_byte (rc_document_json row) = Inr v4"
proof -
  from pipeline_result [OF assms(1)] assms(2) obtain row sid where step: "stepped lib fp input out d d' row sid" by auto
  have sid: "sid = source_id" by (rule stepped_source [OF step assms(3,4)])
  have one: "succeeded_in (bo_scene_id input) (tx_tables d') = [row]"
    by (rule succeeded_after_step [OF step assms(5)]) (simp add: sid assms(6))
  from query_one_Inr [OF assms(11) [unfolded QueryLatestReconstructionByScene_def]] assms(12)
  have "latest = latest_by rc_created_at_ns (succeeded_in (bo_scene_id input) (tx_tables d'))" by (simp add: succeeded_in_def)
  with one have latest: "latest = Some row" by (simp add: latest_by_def)
  from step assms(9) have "revision_row lib (bo_scene_id input) v4 (rn_created_at_ns v4) = Inr row" by (auto simp: stepped_def)
  then have "ReconstructionToJson lib v4 = Inr (rc_document_json row)" by (auto simp: revision_row_def rbind_Inr)
  with reconstruction_document [OF assms(7,8,10)] have "ReconstructionFromJson lib to_byte (rc_document_json row) = Inr v4" by auto
  with one latest show ?thesis by blast
qed

lemma superseded_stays:
  assumes "evolved rows rows'" "r \<in> set rows" "rc_status r = ''superseded''" shows "r \<in> set rows'"
proof -
  from assms(1) obtain kept added where k: "rows' = kept @ added" "list_all2 recon_moved rows kept" by (auto simp: evolved_def)
  from assms(2) obtain i where i: "i < length rows" "rows ! i = r" by (auto simp: in_set_conv_nth)
  with k(2) have "recon_moved r (kept ! i)" by (auto simp: list_all2_conv_all_nth)
  with assms(3) have "kept ! i = r" by (auto simp: recon_moved_def can_transition_def)
  with i k show ?thesis by (metis list_all2_lengthD nth_mem Un_iff set_append)
qed

lemma get_the_row:
  assumes "one_per_id rows" "r \<in> set rows" shows "tbl_get rc_reconstruction_id (rc_reconstruction_id r) (rows @ added) = Some r"
proof -
  obtain q where q: "tbl_get rc_reconstruction_id (rc_reconstruction_id r) rows = Some q"
    using assms(2) tbl_get_None [of rc_reconstruction_id "rc_reconstruction_id r" rows] by (cases "tbl_get rc_reconstruction_id (rc_reconstruction_id r) rows") auto
  from tbl_get_Some [OF q] assms have "q = r" by (auto simp: one_per_id_def distinct_map inj_on_def)
  with q show ?thesis by (simp add: tbl_get_append)
qed

text \<open>
  C14: a revision is superseded once. After a run that inserted the successor of a stored source, and whatever reconstructions were
  added or moved along their life cycle since, no run with the same source inserts another successor: it throws or is refused,
  and leaves the committed tables as they were.
\<close>

theorem source_superseded_once:
  assumes "BundleAdjustmentOptimizePipeline lib fp fmt input d = (Inr out, d1)" "br_inserted_v4 out"
    and "bo_source_v3 input = Some v3" "ParseUuid (rn_reconstruction_id v3) = Inr source_id"
    and "source \<in> set (recs d)" "rc_reconstruction_id source = source_id"
    and "evolved (recs d1) (recs d2)" "one_per_id (recs d2)"
    and "BundleAdjustmentOptimizePipeline lib fp fmt input2 d2 = (r, d3)" "bo_source_v3 input2 = Some v3"
  shows "committed d3 = committed d2 \<and> (\<forall>out2. r = Inr out2 \<longrightarrow> \<not> br_inserted_v4 out2)"
proof -
  let ?old = "source\<lparr>rc_status := ''superseded''\<rparr>"
  from pipeline_result [OF assms(1)] assms(2) obtain row sid where step: "stepped lib fp input out d d1 row sid" by auto
  have "tx_tables d1 = with_revision row source_id (tx_tables d)"
    using step stepped_source [OF step assms(3,4)] by (auto simp: stepped_def)
  then have "?old \<in> set (recs d1)" using assms(5,6) by (auto simp: recs_def with_revision_def supersede_def)
  from superseded_stays [OF assms(7) this] have old: "?old \<in> set (recs d2)" by simp
  have none: "\<not> stepped lib fp input2 out2 d2 d3 row2 sid2" for out2 row2 sid2
  proof
    assume again: "stepped lib fp input2 out2 d2 d3 row2 sid2"
    have "sid2 = source_id" by (rule stepped_source [OF again assms(10,4)])
    moreover have "tbl_get rc_reconstruction_id source_id (recs d2 @ [row2]) = Some ?old"
      using get_the_row [OF assms(8) old] assms(6) by simp
    ultimately show False using again by (auto simp: stepped_def can_transition_def)
  qed
  from pipeline_result [OF assms(9)] none show ?thesis by (auto split: if_splits)
qed

section \<open>Commits\<close>

lemma commit_result:
  assumes "CommitWorkerReconstructionArtifact lib to_byte scene_id payload created_at_ns d = (r, d')"
  shows "(\<exists>e. r = Inl e \<and> tx_tables d' = tx_tables d \<and> tx_saved d' = tx_saved d) \<or>
    (\<exists>rec row. r = Inr rec \<and> accepted_document lib to_byte payload = Inr rec \<and> revision_row lib scene_id rec created_at_ns = Inr row \<and>
       has_scene scene_id (tx_tables d) \<and> rc_reconstruction_id row \<notin> rc_reconstruction_id ` set (recs d) \<and>
       tx_tables d' = (tx_tables d)\<lparr>st_reconstructions := recs d @ [row]\<rparr> \<and> tx_saved d' = tx_saved d)"
proof (cases "accepted_document lib to_byte payload")
  case (Inl e)
  with assms have "r = Inl e" "d' = d" by (simp_all add: CommitWorkerReconstructionArtifact_def lift_res_def sx_simps)
  then show ?thesis by simp
next
  case acc: (Inr rec)
  show ?thesis
  proof (cases "revision_row lib scene_id rec created_at_ns")
    case (Inl e)
    with acc assms have "r = Inl e" "d' = d" by (simp_all add: CommitWorkerReconstructionArtifact_def lift_res_def sx_simps)
    then show ?thesis by simp
  next
    case row: (Inr row)
    obtain a d1 where a: "AddReconstruction row d = (a, d1)" by fastforce
    show ?thesis
    proof (cases a)
      case (Inl e)
      with acc row a assms have "r = Inl e" "d' = d1" by (simp_all add: CommitWorkerReconstructionArtifact_def lift_res_def sx_simps)
      moreover have "tx_tables d1 = tx_tables d \<and> tx_saved d1 = tx_saved d"
        using a [unfolded Inl] unfolding AddReconstruction_def write_op_def
        by (auto simp: same_mode_def split: if_splits dest!: statement_atomic)
      ultimately show ?thesis by simp
    next
      case (Inr u)
      with acc row a assms have r: "r = Inr rec" "d' = d1" by (simp_all add: CommitWorkerReconstructionArtifact_def lift_res_def sx_simps)
      have "rc_scene_id row = scene_id" using row by (auto simp: revision_row_def rbind_Inr)
      with AddReconstruction_Inr [OF a [unfolded Inr]] r acc row show ?thesis by (auto simp: same_mode_def)
    qed
  qed
qed

lemma recon_moved_id: "recon_moved r r' \<Longrightarrow> rc_reconstruction_id r' = rc_reconstruction_id r"
  unfolding recon_moved_def by (metis ReconstructionRow.select_convs(1) ReconstructionRow.surjective ReconstructionRow.update_convs(4))

lemma id_stays:
  assumes "evolved rows rows'" "k \<in> rc_reconstruction_id ` set rows" shows "k \<in> rc_reconstruction_id ` set rows'"
proof -
  from assms(1) obtain kept added where k: "rows' = kept @ added" "list_all2 recon_moved rows kept" by (auto simp: evolved_def)
  then have "map rc_reconstruction_id kept = map rc_reconstruction_id rows"
    by (auto simp: list_all2_conv_all_nth recon_moved_id intro: nth_equalityI)
  with k(1) assms(2) show ?thesis by (metis Un_iff image_Un set_append set_map)
qed

text \<open>
  C16: a commit that throws changes no table; one that returns has added the document's reconstruction as succeeded. After it, and whatever
  happened along the reconstructions' life cycle since, a commit of the same document throws, for whichever scene and time: a correction
  that failed behind its commit cannot be run again on the same input.
\<close>

theorem commit_happens_once:
  assumes "CommitWorkerReconstructionArtifact lib to_byte scene_id payload created_at_ns d = (r, d1)"
    and "evolved (recs d1) (recs d2)"
    and "CommitWorkerReconstructionArtifact lib to_byte scene_id2 payload created_at_ns2 d2 = (r2, d3)"
  shows "(\<forall>e. r = Inl e \<longrightarrow> tx_tables d1 = tx_tables d) \<and>
    (\<forall>rec. r = Inr rec \<longrightarrow> (\<exists>row. revision_row lib scene_id rec created_at_ns = Inr row \<and> recs d1 = recs d @ [row]) \<and>
       (\<exists>e. r2 = Inl e) \<and> tx_tables d3 = tx_tables d2)"
proof -
  have "(\<exists>row. revision_row lib scene_id rec created_at_ns = Inr row \<and> recs d1 = recs d @ [row]) \<and> (\<exists>e. r2 = Inl e) \<and> tx_tables d3 = tx_tables d2"
    if rec: "r = Inr rec" for rec
  proof -
    from commit_result [OF assms(1)] rec obtain row where row: "accepted_document lib to_byte payload = Inr rec"
      "revision_row lib scene_id rec created_at_ns = Inr row" "recs d1 = recs d @ [row]" by (auto simp: recs_def)
    have "rc_reconstruction_id row \<in> rc_reconstruction_id ` set (recs d2)" by (rule id_stays [OF assms(2)]) (simp add: row(3))
    moreover have "rc_reconstruction_id row2 = rc_reconstruction_id row" if "revision_row lib scene_id2 rec created_at_ns2 = Inr row2" for row2
      using that row(2) by (auto simp: revision_row_def rbind_Inr)
    ultimately show ?thesis using commit_result [OF assms(3)] row by auto
  qed
  with commit_result [OF assms(1)] show ?thesis by auto
qed

section \<open>Runs on a healthy database\<close>

lemma free_statement:
  assumes "free d" "f (tx_tables d) = Some t" shows "\<exists>m. write_op (statement p q f) d = (Inr (), d\<lparr>tx_tables := t, db_tick := m\<rparr>)"
proof -
  have "runs 2 d" using assms(1) by (simp add: runs_def free_def)
  from insert_runs [where f = f and p = p and q = q, OF this assms(2)] show ?thesis
    by (intro exI [of _ "db_tick d + 2"]) (simp add: ran_def)
qed

lemma free_add:
  assumes "free d" "has_scene (rc_scene_id row) (tx_tables d)" "rc_reconstruction_id row \<notin> rc_reconstruction_id ` set (recs d)"
  shows "\<exists>m. AddReconstruction row d = (Inr (), d\<lparr>tx_tables := (tx_tables d)\<lparr>st_reconstructions := recs d @ [row]\<rparr>, db_tick := m\<rparr>)"
  unfolding AddReconstruction_def
  by (rule free_statement [OF assms(1)]) (use assms(2,3) in \<open>simp add: insert_reconstruction_def tbl_insert_def recs_def\<close>)

lemma free_set_status:
  assumes "free d" "tbl_get rc_reconstruction_id rid (recs d) = Some r" "can_transition (rc_status r) new" "set_status rid new (tx_tables d) = Some t"
  shows "\<exists>m. SetReconstructionStatus rid new d = (Inr (), d\<lparr>tx_tables := t, db_tick := m\<rparr>)"
proof -
  have ro: "\<not> db_read_only d" using assms(1) by (simp add: free_def)
  have q: "map_option rc_status (tbl_get rc_reconstruction_id rid (st_reconstructions (tx_tables d))) = Some (rc_status r)"
    using assms(2) by (simp add: recs_def)
  obtain m where m: "query_one ''cannot prepare query reconstruction status''
      (\<lambda>t. map_option rc_status (tbl_get rc_reconstruction_id rid (st_reconstructions t))) d = (Inr (Some (rc_status r)), d\<lparr>db_tick := m\<rparr>)"
    using free_found [of d "\<lambda>t. map_option rc_status (tbl_get rc_reconstruction_id rid (st_reconstructions t))", OF assms(1) q] by blast
  obtain k where "write_op (statement ''cannot prepare update reconstruction status'' ''cannot update reconstruction status'' (set_status rid new))
      (d\<lparr>db_tick := m\<rparr>) = (Inr (), d\<lparr>db_tick := m, tx_tables := t, db_tick := k\<rparr>)"
    using free_statement [of "d\<lparr>db_tick := m\<rparr>" "set_status rid new" t] assms(1,4) by auto
  then show ?thesis using ro m assms(3) by (auto simp: SetReconstructionStatus_def write_op_def sbind_def)
qed

lemma free_transaction:
  assumes "free d" "tx_saved d = None"
    and "\<And>m. \<exists>k. body (d\<lparr>tx_saved := Some (tx_tables d), db_tick := m\<rparr>) =
      (Inr x, d\<lparr>tx_saved := Some (tx_tables d), tx_tables := t, db_tick := k\<rparr>)"
  shows "\<exists>m. with_write_transaction body d = (Inr x, d\<lparr>tx_tables := t, db_tick := m\<rparr>)"
proof -
  obtain k where k: "body (d\<lparr>tx_saved := Some (tx_tables d), db_tick := Suc (db_tick d)\<rparr>) =
      (Inr x, d\<lparr>tx_saved := Some (tx_tables d), tx_tables := t, db_tick := k\<rparr>)" using assms(3) by blast
  have f: "\<not> db_read_only d" "\<not> sql_fails d" using assms(1) by (simp_all add: free_def sql_fails_def)
  have "WriteTransaction_begin d = (Inr False, d\<lparr>tx_saved := Some (tx_tables d), db_tick := Suc (db_tick d)\<rparr>)"
    using f assms(2) by (simp add: WriteTransaction_begin_def exec_begin_def sql_write_def sbind_def sret_def sql_tick_def)
  moreover have "WriteTransaction_Commit False (d\<lparr>tx_saved := Some (tx_tables d), tx_tables := t, db_tick := k\<rparr>) =
      (Inr True, d\<lparr>tx_tables := t, db_tick := Suc k\<rparr>)"
    using assms(1,2) by (simp add: WriteTransaction_Commit_def exec_commit_def sql_write_def sbind_def sret_def sql_tick_def free_def sql_fails_def)
  ultimately show ?thesis using k by (auto simp: with_write_transaction_def sbind_def sret_def WriteTransaction_end_def)
qed

lemma free_revision_step:
  assumes "free d" "has_scene (rc_scene_id row) (tx_tables d)" "rc_reconstruction_id row \<notin> rc_reconstruction_id ` set (recs d)"
    and "ParseUuid (rn_reconstruction_id v3) = Inr source_id" "tbl_get rc_reconstruction_id source_id (recs d) = Some source"
    and "rc_status source = ''succeeded''"
  shows "\<exists>m. revision_step row v3 d = (Inr (), d\<lparr>tx_tables := with_revision row source_id (tx_tables d), db_tick := m\<rparr>)"
proof -
  let ?t = "(tx_tables d)\<lparr>st_reconstructions := recs d @ [row]\<rparr>"
  from free_add [OF assms(1-3)] obtain m where m: "AddReconstruction row d = (Inr (), d\<lparr>tx_tables := ?t, db_tick := m\<rparr>)" by blast
  obtain k where k: "SetReconstructionStatus source_id ''superseded'' (d\<lparr>tx_tables := ?t, db_tick := m\<rparr>) =
      (Inr (), d\<lparr>tx_tables := ?t, db_tick := m, tx_tables := with_revision row source_id (tx_tables d), db_tick := k\<rparr>)"
    using free_set_status [of "d\<lparr>tx_tables := ?t, db_tick := m\<rparr>" source_id source "''superseded''" "with_revision row source_id (tx_tables d)"] assms(1,5,6)
    by (auto simp: recs_def tbl_get_append can_transition_def set_status_def with_revision_def supersede_def)
  show ?thesis using m k by (auto simp: revision_step_def sbind_def lift_res_def assms(4))
qed

text \<open>
  On a database that answers every call, with no transaction open, a run whose optimizer returns a new identity and passes the gate, whose scene
  is there and whose source is stored as succeeded, inserts the next revision.
\<close>

lemma accepted_run_inserts:
  assumes "missing_dependency input = None" "bo_source_v3 input = Some v3" "bo_optimizer input = Some optimize" "check_source input v3 = Inr ()"
    and "optimize (seam_input input v3) = Inr seam" "rn_reconstruction_id (bs_reconstruction seam) \<noteq> rn_reconstruction_id v3"
    and "gate_holds fp (bs_trace seam)"
    and "revision_row lib (bo_scene_id input) (bs_reconstruction seam) (rn_created_at_ns (bs_reconstruction seam)) = Inr row"
    and "free d" "tx_saved d = None" "has_scene (bo_scene_id input) (tx_tables d)" "rc_reconstruction_id row \<notin> rc_reconstruction_id ` set (recs d)"
    and "ParseUuid (rn_reconstruction_id v3) = Inr source_id" "tbl_get rc_reconstruction_id source_id (recs d) = Some source"
    and "rc_status source = ''succeeded''"
  shows "\<exists>out m. BundleAdjustmentOptimizePipeline lib fp fmt input d =
      (Inr out, d\<lparr>tx_tables := with_revision row source_id (tx_tables d), db_tick := m\<rparr>) \<and>
    br_inserted_v4 out \<and> br_v4 out = Some (bs_reconstruction seam)"
proof -
  have scene: "rc_scene_id row = bo_scene_id input" using assms(8) by (auto simp: revision_row_def rbind_Inr)
  have "\<exists>k. revision_step row v3 (d\<lparr>tx_saved := Some (tx_tables d), db_tick := m\<rparr>) =
      (Inr (), d\<lparr>tx_saved := Some (tx_tables d), tx_tables := with_revision row source_id (tx_tables d), db_tick := k\<rparr>)" for m
    using free_revision_step [of "d\<lparr>tx_saved := Some (tx_tables d), db_tick := m\<rparr>" row v3 source_id source] assms(9,11-15) scene
    by (auto simp: recs_def)
  from free_transaction [where body = "revision_step row v3", OF assms(9,10) this] obtain m where
    "with_write_transaction (revision_step row v3) d = (Inr (), d\<lparr>tx_tables := with_revision row source_id (tx_tables d), db_tick := m\<rparr>)" by blast
  with assms(1-8) show ?thesis
    by (intro exI [of _ "not_run\<lparr>br_ran := True, br_trace := Some (bs_trace seam), br_v4 := Some (bs_reconstruction seam), br_gate_passed := True,
        br_inserted_v4 := True, br_superseded_v3 := True\<rparr>"] exI [of _ m])
      (simp add: BundleAdjustmentOptimizePipeline_def adjust_def lift_res_def sx_simps Let_def)
qed

section \<open>An example\<close>

text \<open>A scene with one succeeded reconstruction, and an optimizer that gives it a new identity and halves the error.\<close>

definition revision_db :: scene_db where
  "revision_db = open_conn (empty_tables\<lparr>
     st_scenes := [\<lparr>sn_scene_id = replicate 16 2, sn_project_id = replicate 16 1, sn_schema_version = 1, sn_name = ''s'',
       sn_current_version_id = nil_uuid, sn_origin_frame = [], sn_crs = [], sn_status = ''open'', sn_properties_json = []\<rparr>],
     st_reconstructions := [\<lparr>rc_reconstruction_id = replicate 16 1, rc_scene_id = replicate 16 2, rc_coordinate_frame = ''reconstruction_0'',
       rc_status = ''succeeded'', rc_created_at_ns = 5, rc_document_json = []\<rparr>]\<rparr>)"

definition halving_optimizer :: ReconstructionOptimizer where
  "halving_optimizer input = Inr \<lparr>bs_reconstruction = (ba_source input)\<lparr>rn_reconstruction_id := FormatUuid (replicate 16 3), rn_created_at_ns := 6\<rparr>,
     bs_trace = \<lparr>bt_converged = True, bt_iterations = 1, bt_rms_before_px = 2, bt_rms_after_px = 1, bt_mean_before_px = 2, bt_mean_after_px = 1,
       bt_inlier_count_before = 1, bt_outlier_count_before = 0, bt_inlier_count_after = 1, bt_outlier_count_after = 0,
       bt_threshold_px_before = 2, bt_threshold_px_after = 2\<rparr>\<rparr>"

definition revision_input :: BundleAdjustmentOptimizePipelineInput where
  "revision_input = \<lparr>bo_source_v3 = Some sample_reconstruction, bo_observations = [], bo_optimizer = Some halving_optimizer, bo_has_db = True,
     bo_scene_id = replicate 16 2, bo_random_seed = Some ''7'', bo_min_parallax_deg = 2, bo_max_iterations = 100\<rparr>"

definition keep_second :: arith where
  "keep_second = ones\<lparr>fa_mul := \<lambda>a b. b\<rparr>"

abbreviation adjust_once :: "BundleAdjustmentOptimizePipelineResult scene_op" where
  "adjust_once \<equiv> BundleAdjustmentOptimizePipeline reference_json keep_second (\<lambda>d. []) revision_input"

definition second_revision :: Reconstruction where
  "second_revision = sample_reconstruction\<lparr>rn_reconstruction_id := FormatUuid (replicate 16 3), rn_created_at_ns := 6\<rparr>"

lemma second_sound: "reconstruction_sound second_revision"
  by code_simp

lemma parse_examples: "ParseUuid (FormatUuid (replicate 16 n)) = Inr (replicate 16 n)"
  by (rule format_parse) simp

lemma adjust_once_inserts:
  obtains out m row where "adjust_once revision_db = (Inr out, revision_db\<lparr>tx_tables := with_revision row (replicate 16 1) (tx_tables revision_db), db_tick := m\<rparr>)"
    "br_inserted_v4 out" "br_v4 out = Some second_revision" "rc_reconstruction_id row = replicate 16 3"
proof -
  obtain document where "ReconstructionToJson reference_json second_revision = Inr document"
    using reconstruction_document [OF reference_json_laws reference_colors second_sound] by blast
  then obtain row where row: "revision_row reference_json (replicate 16 2) second_revision 6 = Inr row" and id: "rc_reconstruction_id row = replicate 16 3"
    by (simp add: revision_row_def second_revision_def parse_examples)
  let ?seam = "projr (halving_optimizer (seam_input revision_input sample_reconstruction))"
  have seam: "bs_reconstruction ?seam = second_revision"
    by (simp add: halving_optimizer_def seam_input_def revision_input_def second_revision_def)
  have ids: "rn_reconstruction_id second_revision \<noteq> rn_reconstruction_id sample_reconstruction" by code_simp
  have gate: "gate_holds keep_second (bs_trace ?seam)" by code_simp
  have "\<exists>out m. adjust_once revision_db =
      (Inr out, revision_db\<lparr>tx_tables := with_revision row (replicate 16 1) (tx_tables revision_db), db_tick := m\<rparr>) \<and>
    br_inserted_v4 out \<and> br_v4 out = Some (bs_reconstruction ?seam)"
  proof (rule accepted_run_inserts [where ?v3.0 = sample_reconstruction and optimize = halving_optimizer])
    show "check_source revision_input sample_reconstruction = Inr ()" by code_simp
    show "ParseUuid (rn_reconstruction_id sample_reconstruction) = Inr (replicate 16 1)"
      using parse_examples [of 1] by (simp add: sample_reconstruction_def)
    show "halving_optimizer (seam_input revision_input sample_reconstruction) = Inr ?seam" by (simp add: halving_optimizer_def)
    show "revision_row reference_json (bo_scene_id revision_input) (bs_reconstruction ?seam) (rn_created_at_ns (bs_reconstruction ?seam)) = Inr row"
      unfolding seam using row by (simp add: revision_input_def second_revision_def)
    show "tbl_get rc_reconstruction_id (replicate 16 1) (recs revision_db) = Some (hd (recs revision_db))"
      by (simp add: revision_db_def open_conn_def recs_def tbl_get_def)
    show "rc_reconstruction_id row \<notin> rc_reconstruction_id ` set (recs revision_db)"
      unfolding id by (simp add: revision_db_def open_conn_def recs_def)
  qed (use ids gate seam in \<open>simp_all add: revision_input_def missing_dependency_def revision_db_def open_conn_def free_def has_scene_def recs_def\<close>)
  with id show thesis using that seam by metis
qed

lemma adjustment_steps_or_changes_nothing_witness:
  "\<exists>out d'. adjust_once revision_db = (Inr out, d') \<and> br_inserted_v4 out \<and>
    (\<exists>row source_id. stepped reference_json keep_second revision_input out revision_db d' row source_id)"
proof (rule adjust_once_inserts)
  fix out m row
  assume run: "adjust_once revision_db = (Inr out, revision_db\<lparr>tx_tables := with_revision row (replicate 16 1) (tx_tables revision_db), db_tick := m\<rparr>)"
    and ins: "br_inserted_v4 out"
  from adjustment_steps_or_changes_nothing [OF run] ins run show ?thesis by auto
qed

lemma revision_db_facts:
  "recs revision_db = [hd (recs revision_db)]" "one_per_id (recs revision_db)" "rc_reconstruction_id (hd (recs revision_db)) = replicate 16 1"
  "succeeded_in (replicate 16 2) (tx_tables revision_db) = [hd (recs revision_db)]" "free revision_db" "tx_saved revision_db = None"
  "has_scene (replicate 16 2) (tx_tables revision_db)"
  by (simp_all add: revision_db_def open_conn_def recs_def one_per_id_def succeeded_in_def free_def has_scene_def)

lemma sample_id: "ParseUuid (rn_reconstruction_id sample_reconstruction) = Inr (replicate 16 1)"
  using parse_examples [of 1] by (simp add: sample_reconstruction_def)

lemma revision_source: "bo_source_v3 revision_input = Some sample_reconstruction" "bo_scene_id revision_input = replicate 16 2"
  by (simp_all add: revision_input_def)

lemma next_revision_is_latest_witness:
  "\<exists>out d' row d''. adjust_once revision_db = (Inr out, d') \<and> QueryLatestReconstructionByScene (replicate 16 2) d' = (Inr (Some row), d'') \<and>
    ReconstructionFromJson reference_json ucast (rc_document_json row) = Inr second_revision"
proof (rule adjust_once_inserts)
  fix out m row
  let ?d' = "revision_db\<lparr>tx_tables := with_revision row (replicate 16 1) (tx_tables revision_db), db_tick := m\<rparr>"
  assume run: "adjust_once revision_db = (Inr out, ?d')" and out: "br_inserted_v4 out" "br_v4 out = Some second_revision"
  have f: "free ?d'" using revision_db_facts(5) by simp
  then obtain latest k where q: "QueryLatestReconstructionByScene (replicate 16 2) ?d' = (Inr latest, ?d'\<lparr>db_tick := k\<rparr>)"
    unfolding QueryLatestReconstructionByScene_def using free_query_one by blast
  have "\<not> db_fault ?d' (Suc (db_tick ?d'))" using f by (simp add: free_def)
  from next_revision_is_latest [OF run out(1) revision_source(1) sample_id revision_db_facts(4) [folded revision_source(2)] revision_db_facts(3)
      reference_json_laws reference_colors out(2) second_sound q [folded revision_source(2)] this]
  show ?thesis using run q by blast
qed

lemma source_superseded_once_witness:
  "\<exists>out d1 r d2. adjust_once revision_db = (Inr out, d1) \<and> br_inserted_v4 out \<and> adjust_once d1 = (r, d2) \<and> committed d2 = committed d1"
proof (rule adjust_once_inserts)
  fix out m row
  let ?d1 = "revision_db\<lparr>tx_tables := with_revision row (replicate 16 1) (tx_tables revision_db), db_tick := m\<rparr>"
  assume run: "adjust_once revision_db = (Inr out, ?d1)" and ins: "br_inserted_v4 out" and id: "rc_reconstruction_id row = replicate 16 3"
  obtain r d2 where again: "adjust_once ?d1 = (r, d2)" by fastforce
  have source: "hd (recs revision_db) \<in> set (recs revision_db)" using revision_db_facts(1) by (metis list.set_intros(1))
  have one: "one_per_id (recs ?d1)"
    using id by (simp add: recs_def one_per_id_def with_revision_def supersede_def revision_db_def open_conn_def)
  from source_superseded_once [OF run ins revision_source(1) sample_id source revision_db_facts(3) evolved_refl one again revision_source(1)]
  show ?thesis using run ins again by blast
qed

lemma commit_happens_once_witness:
  "\<exists>payload rec d1 e d2. CommitWorkerReconstructionArtifact reference_json ucast (replicate 16 2) payload 7 revision_db = (Inr rec, d1) \<and>
    CommitWorkerReconstructionArtifact reference_json ucast (replicate 16 2) payload 8 d1 = (Inl e, d2) \<and> tx_tables d2 = tx_tables d1"
proof -
  let ?commit = "CommitWorkerReconstructionArtifact reference_json ucast (replicate 16 2)"
  obtain document where doc: "ReconstructionToJson reference_json second_revision = Inr document"
    "ReconstructionFromJson reference_json ucast document = Inr second_revision"
    using reconstruction_document [OF reference_json_laws reference_colors second_sound] by blast
  have named: "rn_reconstruction_id second_revision \<noteq> []" "rn_status second_revision = ''succeeded''" by code_simp+
  have acc: "accepted_document reference_json ucast (bytes_of document) = Inr second_revision"
    by (simp add: accepted_document_def text_of_bytes doc(2) named)
  from doc(1) obtain row where row: "revision_row reference_json (replicate 16 2) second_revision 7 = Inr row"
    "rc_reconstruction_id row = replicate 16 3" "rc_scene_id row = replicate 16 2"
    by (simp add: revision_row_def second_revision_def parse_examples)
  have fresh: "rc_reconstruction_id row \<notin> rc_reconstruction_id ` set (recs revision_db)"
    using row(2) by (simp add: revision_db_def open_conn_def recs_def)
  have "has_scene (rc_scene_id row) (tx_tables revision_db)" unfolding row(3) by (rule revision_db_facts(7))
  from free_add [OF revision_db_facts(5) this fresh] obtain d1 where add: "AddReconstruction row revision_db = (Inr (), d1)" by blast
  have run: "?commit (bytes_of document) 7 revision_db = (Inr second_revision, d1)"
    unfolding CommitWorkerReconstructionArtifact_def acc lift_res_def sbind_def sret_def prod.case sum.case row(1) add ..
  obtain r2 d2 where again: "?commit (bytes_of document) 8 d1 = (r2, d2)" by fastforce
  have "\<exists>e. r2 = Inl e" "tx_tables d2 = tx_tables d1" using commit_happens_once [OF run evolved_refl again] by simp_all
  then obtain e where "?commit (bytes_of document) 8 d1 = (Inl e, d2)" "tx_tables d2 = tx_tables d1" using again by (elim exE) simp
  with run show ?thesis by (intro exI conjI)
qed

end
