(* ===== verification/PoseFeedback.thy ===== *)
theory PoseFeedback
  imports BundleAdjustment
begin

text \<open>
  The feedback of an optimized trajectory into a reconstruction: core/trajectory/reconstruction_feedback.h. It makes a new
  revision in which the poses of the images that the trajectory covers are replaced. The lemmas show what is replaced and that
  everything else is the source's.
\<close>

section \<open>Data\<close>

record 'q ReconstructionFeedbackInput =
  fi_source :: Reconstruction
  fi_trajectory :: Trajectory
  fi_trajectory_nodes :: "TrajectoryPoseNode list"
  fi_optimization_result :: OptimizationResult
  fi_optimized_nodes :: "OptimizedPoseNode list"
  fi_reconstruction_from_trajectory :: "'q SE3"
  fi_alignment_resolved :: bool
  fi_source_reconstruction_cas_hash :: string
  fi_optimization_result_cas_hash :: string

record PoseFeedbackDetail =
  fd_frame_id :: string
  fd_updated :: bool
  fd_matched_node :: bool
  fd_preserved :: bool
  fd_skipped :: bool

section \<open>Poses\<close>

definition MakeReconPose :: "'q pose_math \<Rightarrow> 'q SE3 \<Rightarrow> ReconPose" where
  "MakeReconPose pm pose = \<lparr>po_rotation_xyzw = pm_xyzw pm (se_rotation pose), po_translation_xyz = se_translation pose\<rparr>"

definition SE3_Identity :: "'q pose_math \<Rightarrow> 'q SE3" where
  "SE3_Identity pm = \<lparr>se_rotation = pm_quaternion pm 0 0 0 (one pm), se_translation = [0, 0, 0]\<rparr>"

definition fed_pose :: "'q pose_math \<Rightarrow> 'q SE3 \<Rightarrow> OptimizedPoseNode \<Rightarrow> ReconPose" where
  "fed_pose pm alignment node =
     MakeReconPose pm (SE3_times pm alignment (MakeCameraPose pm (on_position_xyz node) (on_rotation_xyzw node)))"

section \<open>Lineage\<close>

definition fed_hashes :: "'q ReconstructionFeedbackInput \<Rightarrow> string list" where
  "fed_hashes input =
     (let to_add = filter (\<lambda>h. h \<noteq> []) [fi_optimization_result_cas_hash input, fi_source_reconstruction_cas_hash input] in
      sort (fold (\<lambda>h hashes. if h \<in> set hashes then hashes else hashes @ [h]) to_add
        (rp_input_artifact_hashes (rn_provenance (fi_source input)))))"

definition dquote :: string where
  "dquote = [CHR 0x22]"

definition fed_provenance :: "'q ReconstructionFeedbackInput \<Rightarrow> ReconstructionProvenance" where
  "fed_provenance input =
     (let old = rn_provenance (fi_source input); result = fi_optimization_result input; from = zr_provenance result in
      \<lparr>rp_backend = \<lparr>bi_name = ''spatial_optimizer'', bi_version = oz_version (ov_optimizer from), bi_adapter_version = ov_adapter_version from\<rparr>,
       rp_configuration_hash = rp_configuration_hash old, rp_input_artifact_hashes = fed_hashes input,
       rp_engine_version = rp_engine_version old, rp_engine_commit = rp_engine_commit old, rp_git_commit = rp_git_commit old,
       rp_started_at_ns = 0, rp_finished_at_ns = 0, rp_duration_ns = 0,
       rp_backend_specific_json = ''{'' @ dquote @ ''optimizer'' @ dquote @ '':'' @ dquote @ oz_name (ov_optimizer from) @ dquote @ '','' @
         dquote @ ''optimization_result_id'' @ dquote @ '':'' @ dquote @ zr_result_id result @ dquote @ '','' @
         dquote @ ''option'' @ dquote @ '':'' @ dquote @ ''A'' @ dquote @ ''}''\<rparr>)"

section \<open>Images\<close>

text \<open>
  The nodes with a frame, by frame. The order that \<open>std::sort\<close> gives to nodes of the same frame is not defined: the sort is an
  argument. The lookup is \<open>std::lower_bound\<close> and a comparison.
\<close>

type_synonym node_sort = "(string \<times> nat) list \<Rightarrow> (string \<times> nat) list"

definition node_by_frame :: "node_sort \<Rightarrow> OptimizedPoseNode list \<Rightarrow> (string \<times> nat) list" where
  "node_by_frame order nodes = order (filter (\<lambda>p. fst p \<noteq> []) (zip (map on_frame_id nodes) [0..<length nodes]))"

definition located :: "(string \<times> nat) list \<Rightarrow> string \<Rightarrow> nat option" where
  "located by_frame frame = (case List.find (\<lambda>p. \<not> fst p < frame) by_frame of
     None \<Rightarrow> None | Some p \<Rightarrow> if fst p \<noteq> frame then None else Some (snd p))"

definition feed_image :: "'q pose_math \<Rightarrow> 'q ReconstructionFeedbackInput \<Rightarrow> (string \<times> nat) list \<Rightarrow> ReconImage \<Rightarrow>
    ReconImage \<times> PoseFeedbackDetail" where
  "feed_image pm input by_frame img =
     (let d = \<lparr>fd_frame_id = ri_frame_id img, fd_updated = False, fd_matched_node = False, fd_preserved = False, fd_skipped = False\<rparr> in
      if ri_frame_id img = [] \<or> \<not> ri_detected img then (img, d\<lparr>fd_preserved := True, fd_skipped := ri_frame_id img = []\<rparr>)
      else (case located by_frame (ri_frame_id img) of
          None \<Rightarrow> (img, d\<lparr>fd_preserved := True\<rparr>)
        | Some i \<Rightarrow> (img\<lparr>ri_pose := fed_pose pm (fi_reconstruction_from_trajectory input) (fi_optimized_nodes input ! i)\<rparr>,
            d\<lparr>fd_matched_node := True, fd_updated := True\<rparr>)))"

section \<open>The new revision\<close>

definition invalid_argument :: "string \<Rightarrow> exn" where
  "invalid_argument what = StdException what"

definition ApplyOptimizedTrajectory :: "'q pose_math \<Rightarrow> node_sort \<Rightarrow> 'q ReconstructionFeedbackInput \<Rightarrow>
    (Reconstruction \<times> PoseFeedbackDetail list) w_op" where
  "ApplyOptimizedTrajectory pm order input =
     (if fi_optimized_nodes input = []
      then sthrow (invalid_argument
        ''ApplyOptimizedTrajectory: no optimized pose nodes (empty optimization result); nothing to apply.'')
      else if \<not> fi_alignment_resolved input
      then sthrow (invalid_argument
        ''ApplyOptimizedTrajectory: trajectory and reconstruction frames differ and no alignment (reconstruction_from_trajectory) is available; refusing to write raw poses (fail closed).'')
      else sbind new_uuid (\<lambda>fresh_id.
        let fed = map (feed_image pm input (node_by_frame order (fi_optimized_nodes input))) (rn_images (fi_source input)) in
        sret ((fi_source input)\<lparr>rn_reconstruction_id := FormatUuid fresh_id, rn_status := ''succeeded'',
            rn_created_at_ns := zr_created_at_ns (fi_optimization_result input), rn_provenance := fed_provenance input,
            rn_images := map fst fed\<rparr>, map snd fed)))"

definition squared_norm :: "arith \<Rightarrow> u64 list \<Rightarrow> u64" where
  "squared_norm fp q = fold (\<lambda>c n. fa_add fp n (fa_mul fp c c)) q 0"

definition ValidateOptimizedReconstruction :: "arith \<Rightarrow> Reconstruction \<Rightarrow> bool" where
  "ValidateOptimizedReconstruction fp r \<longleftrightarrow>
     (if rn_reconstruction_id r = [] then False
      else if rn_scene_id r = [] then False
      else if rn_status r \<noteq> ''succeeded'' then False
      else if bi_name (rp_backend (rn_provenance r)) = [] then False
      else if rn_coordinate_frame r = [] then False
      else list_all (\<lambda>img. \<not> fp_less (squared_norm fp (po_rotation_xyzw (ri_pose img))) (fa_ratio fp 1 1000)) (rn_images r))"

section \<open>What is replaced\<close>

text \<open>What \<open>std::sort\<close> promises.\<close>

definition sorts_by_frame :: "node_sort \<Rightarrow> bool" where
  "sorts_by_frame order \<longleftrightarrow> (\<forall>ps. mset (order ps) = mset ps \<and> sorted_wrt (\<lambda>p q. fst p \<le> fst q) (order ps))"

lemma located_sorted:
  assumes "sorted_wrt (\<lambda>p q. fst p \<le> fst q) ps"
  shows "located ps frame = None \<and> frame \<notin> fst ` set ps \<or> (\<exists>i. located ps frame = Some i \<and> (frame, i) \<in> set ps)"
  using assms
proof (induction ps)
  case Nil
  show ?case by (simp add: located_def)
next
  case (Cons p ps)
  show ?case
  proof (cases "fst p < frame")
    case True
    then have "located (p # ps) frame = located ps frame" by (simp add: located_def)
    with Cons True show ?thesis by auto
  next
    case False
    then have "located (p # ps) frame = (if fst p \<noteq> frame then None else Some (snd p))" by (simp add: located_def)
    moreover have "frame \<notin> fst ` set (p # ps)" if "fst p \<noteq> frame" using Cons.prems False that by fastforce
    ultimately show ?thesis by (cases p) auto
  qed
qed

lemma located_node:
  assumes "sorts_by_frame order" "frame \<noteq> []"
  shows "located (node_by_frame order nodes) frame = None \<and> frame \<notin> on_frame_id ` set nodes \<or>
    (\<exists>i < length nodes. located (node_by_frame order nodes) frame = Some i \<and> on_frame_id (nodes ! i) = frame)"
proof -
  let ?ps = "filter (\<lambda>p. fst p \<noteq> []) (zip (map on_frame_id nodes) [0..<length nodes])"
  from assms(1) have ps: "set (node_by_frame order nodes) = set ?ps" "sorted_wrt (\<lambda>p q. fst p \<le> fst q) (node_by_frame order nodes)"
    unfolding node_by_frame_def sorts_by_frame_def by (metis set_mset_mset, blast)
  have "zip (map on_frame_id nodes) [0..<length nodes] = map (\<lambda>i. (on_frame_id (nodes ! i), i)) [0..<length nodes]"
    by (rule nth_equalityI) simp_all
  then have set: "set ?ps = (\<lambda>i. (on_frame_id (nodes ! i), i)) ` {i. i < length nodes \<and> on_frame_id (nodes ! i) \<noteq> []}" by auto
  from located_sorted [OF ps(2), of frame] show ?thesis
  proof
    assume none: "located (node_by_frame order nodes) frame = None \<and> frame \<notin> fst ` set (node_by_frame order nodes)"
    have "frame \<notin> on_frame_id ` set nodes"
    proof
      assume "frame \<in> on_frame_id ` set nodes"
      then obtain i where "i < length nodes" "on_frame_id (nodes ! i) = frame" by (auto simp: in_set_conv_nth)
      with assms(2) have "(frame, i) \<in> set (node_by_frame order nodes)" unfolding ps(1) set by auto
      with none show False by force
    qed
    with none show ?thesis by blast
  next
    assume "\<exists>i. located (node_by_frame order nodes) frame = Some i \<and> (frame, i) \<in> set (node_by_frame order nodes)"
    then show ?thesis unfolding ps(1) set by auto
  qed
qed

lemma fed_hashes_set:
  "set (fed_hashes input) = set (rp_input_artifact_hashes (rn_provenance (fi_source input))) \<union>
    ({fi_optimization_result_cas_hash input, fi_source_reconstruction_cas_hash input} - {[]})"
  by (auto simp: fed_hashes_def)

text \<open>An image whose pose may be replaced: it was registered and a node of the trajectory has its frame.\<close>

definition covered :: "OptimizedPoseNode list \<Rightarrow> ReconImage \<Rightarrow> bool" where
  "covered nodes img \<longleftrightarrow> ri_frame_id img \<noteq> [] \<and> ri_detected img \<and> ri_frame_id img \<in> on_frame_id ` set nodes"

definition fed_from :: "'q pose_math \<Rightarrow> 'q ReconstructionFeedbackInput \<Rightarrow> ReconImage \<Rightarrow> ReconImage \<Rightarrow> bool" where
  "fed_from pm input img img' \<longleftrightarrow>
     (if covered (fi_optimized_nodes input) img
      then \<exists>node\<in>set (fi_optimized_nodes input). on_frame_id node = ri_frame_id img \<and>
        img' = img\<lparr>ri_pose := fed_pose pm (fi_reconstruction_from_trajectory input) node\<rparr>
      else img' = img)"

lemma feed_image_fed:
  assumes "sorts_by_frame order"
  shows "fed_from pm input img (fst (feed_image pm input (node_by_frame order (fi_optimized_nodes input)) img)) \<and>
    (fd_updated (snd (feed_image pm input (node_by_frame order (fi_optimized_nodes input)) img)) \<longleftrightarrow> covered (fi_optimized_nodes input) img)"
proof (cases "ri_frame_id img = [] \<or> \<not> ri_detected img")
  case True
  then show ?thesis by (auto simp: feed_image_def Let_def fed_from_def covered_def)
next
  case False
  then have "ri_frame_id img \<noteq> []" by simp
  from located_node [OF assms(1) this, of "fi_optimized_nodes input"] show ?thesis
  proof
    assume "located (node_by_frame order (fi_optimized_nodes input)) (ri_frame_id img) = None \<and>
      ri_frame_id img \<notin> on_frame_id ` set (fi_optimized_nodes input)"
    with False show ?thesis by (auto simp: feed_image_def Let_def fed_from_def covered_def)
  next
    assume "\<exists>i < length (fi_optimized_nodes input). located (node_by_frame order (fi_optimized_nodes input)) (ri_frame_id img) = Some i \<and>
      on_frame_id (fi_optimized_nodes input ! i) = ri_frame_id img"
    then obtain i where i: "i < length (fi_optimized_nodes input)" "on_frame_id (fi_optimized_nodes input ! i) = ri_frame_id img"
      "located (node_by_frame order (fi_optimized_nodes input)) (ri_frame_id img) = Some i" by blast
    then have node: "fi_optimized_nodes input ! i \<in> set (fi_optimized_nodes input)" by simp
    with i(2) False have "covered (fi_optimized_nodes input) img" unfolding covered_def by (metis image_eqI)
    with node i False show ?thesis by (auto simp: feed_image_def Let_def fed_from_def)
  qed
qed

text \<open>
  C27: a feedback that returns has made a revision with a new identity that differs from its source in status, time, provenance and poses
  only: the points, cameras, sessions and frame are the source's, and an image has the pose of a node of its frame, carried by the
  alignment, exactly when it was registered and the trajectory covers its frame. The lineage is the source's and the two documents'.
\<close>

theorem feedback_replaces_poses:
  assumes "ApplyOptimizedTrajectory pm order input w = (Inr (r, details), w')" "sorts_by_frame order"
  shows "(\<exists>fresh. r = (fi_source input)\<lparr>rn_reconstruction_id := FormatUuid fresh, rn_status := ''succeeded'',
      rn_created_at_ns := zr_created_at_ns (fi_optimization_result input), rn_provenance := rn_provenance r, rn_images := rn_images r\<rparr>) \<and>
    list_all2 (fed_from pm input) (rn_images (fi_source input)) (rn_images r) \<and>
    map fd_updated details = map (covered (fi_optimized_nodes input)) (rn_images (fi_source input)) \<and>
    set (rp_input_artifact_hashes (rn_provenance r)) = set (rp_input_artifact_hashes (rn_provenance (fi_source input))) \<union>
      ({fi_optimization_result_cas_hash input, fi_source_reconstruction_cas_hash input} - {[]})"
proof -
  let ?fed = "\<lambda>img. feed_image pm input (node_by_frame order (fi_optimized_nodes input)) img"
  from assms(1) obtain fresh w1 where n: "new_uuid w = (Inr fresh, w1)"
    and r: "r = (fi_source input)\<lparr>rn_reconstruction_id := FormatUuid fresh, rn_status := ''succeeded'',
        rn_created_at_ns := zr_created_at_ns (fi_optimization_result input), rn_provenance := fed_provenance input,
        rn_images := map fst (map ?fed (rn_images (fi_source input)))\<rparr>"
    and d: "details = map snd (map ?fed (rn_images (fi_source input)))"
    by (auto simp: ApplyOptimizedTrajectory_def Let_def sthrow_def sret_def split: if_splits dest!: sbind_InrD)
  have "list_all2 (fed_from pm input) (rn_images (fi_source input)) (rn_images r)"
    unfolding r using feed_image_fed [OF assms(2), of pm input] by (simp add: list_all2_conv_all_nth)
  moreover have "map fd_updated details = map (covered (fi_optimized_nodes input)) (rn_images (fi_source input))"
    unfolding d using feed_image_fed [OF assms(2), of pm input] by simp
  moreover have "rp_input_artifact_hashes (rn_provenance r) = fed_hashes input" by (simp add: r fed_provenance_def Let_def)
  ultimately show ?thesis using fed_hashes_set [of input] r by auto
qed

lemma sort_key_by_frame: "sorts_by_frame (sort_key fst)"
proof -
  have "sorted_wrt (\<lambda>p q. fst p \<le> fst q) (sort_key fst ps)" for ps :: "(string \<times> nat) list"
    using sorted_sort_key [of fst ps] by (simp add: sorted_map)
  then show ?thesis by (simp add: sorts_by_frame_def)
qed

definition sample_result :: OptimizationResult where
  "sample_result = \<lparr>zr_result_id = ''r'', zr_graph_id = [], zr_trajectory_id = [], zr_status = ''converged'', zr_iterations = 1,
     zr_initial_error = 0, zr_final_error = 0, zr_error_reduction = 0, zr_created_at_ns = 9,
     zr_provenance = \<lparr>ov_optimizer = \<lparr>oz_name = ''o'', oz_version = ''1''\<rparr>, ov_configuration_hash = [], ov_input_artifact_hashes = [],
       ov_adapter_version = [], ov_git_commit = [], ov_backend_specific_json = []\<rparr>\<rparr>"

definition sample_node :: OptimizedPoseNode where
  "sample_node = \<lparr>on_frame_id = ''f'', on_timestamp_ns = 0, on_sequence_index = 0, on_position_xyz = [1, 1, 1], on_rotation_xyzw = [0, 0, 0, 1],
     on_covariance_position = [], on_covariance_rotation = []\<rparr>"

definition sample_feedback :: "Trajectory \<Rightarrow> unit ReconstructionFeedbackInput" where
  "sample_feedback t = \<lparr>fi_source = sample_reconstruction, fi_trajectory = t, fi_trajectory_nodes = [], fi_optimization_result = sample_result,
     fi_optimized_nodes = [sample_node], fi_reconstruction_from_trajectory = SE3_Identity unit_math, fi_alignment_resolved = True,
     fi_source_reconstruction_cas_hash = ''s'', fi_optimization_result_cas_hash = ''o''\<rparr>"

lemma feedback_replaces_poses_witness:
  "\<exists>t r details w'. ApplyOptimizedTrajectory unit_math (sort_key fst) (sample_feedback t) empty_world = (Inr (r, details), w') \<and>
    map fd_updated details = [True] \<and> set (rp_input_artifact_hashes (rn_provenance r)) = {''h'', ''s'', ''o''}"
proof -
  fix t
  obtain r details w' where run: "ApplyOptimizedTrajectory unit_math (sort_key fst) (sample_feedback t) empty_world = (Inr (r, details), w')"
    by (simp add: ApplyOptimizedTrajectory_def sample_feedback_def new_uuid_def sbind_def sret_def Let_def)
  have nodes: "fi_optimized_nodes (sample_feedback t) = [sample_node]" "fi_source (sample_feedback t) = sample_reconstruction"
    "fi_optimization_result_cas_hash (sample_feedback t) = ''o''" "fi_source_reconstruction_cas_hash (sample_feedback t) = ''s''"
    by (simp_all add: sample_feedback_def)
  have covers: "map (covered [sample_node]) (rn_images sample_reconstruction) = [True]" by code_simp
  have old: "rp_input_artifact_hashes (rn_provenance sample_reconstruction) = [''h'']" by code_simp
  note fed = feedback_replaces_poses [OF run sort_key_by_frame, unfolded nodes]
  from fed have "map fd_updated details = [True]" unfolding covers by (elim conjE)
  moreover from fed have "set (rp_input_artifact_hashes (rn_provenance r)) = set [''h''] \<union> ({''o'', ''s''} - {[]})"
    unfolding old by (elim conjE)
  then have "set (rp_input_artifact_hashes (rn_provenance r)) = {''h'', ''s'', ''o''}" by auto
  ultimately show ?thesis using run by (intro exI conjI)
qed

end
