(* ===== verification/CorrectionConfig.thy ===== *)
theory CorrectionConfig
  imports PoseFeedback
begin

text \<open>
  The run configuration of the sparse correction: the parsing functions of engine/pipeline/sparse_correction_runner.cpp. The lemmas
  show what crosses the boundary to the worker process and that a loop closure is read from a complete configuration only.
\<close>

section \<open>Effective configuration\<close>

definition correction_error :: "string \<Rightarrow> exn" where
  "correction_error what = throw_error kValidationDomain (''sparse correction: '' @ what)"

definition object_or_empty :: "json option \<Rightarrow> json" where
  "object_or_empty m = (case m of Some (JObj kvs) \<Rightarrow> JObj kvs | _ \<Rightarrow> JObj [])"

definition EffectiveConfig :: "json_lib \<Rightarrow> string \<Rightarrow> json res" where
  "EffectiveConfig lib config_json =
     (case (if config_json = [] then Inr (JObj []) else jl_parse lib config_json) of
        Inl e \<Rightarrow> Inl (correction_error ''malformed stage configuration'')
      | Inr parsed \<Rightarrow> Inr (object_or_empty (json_member lib parsed ''config'')))"

definition kWorkerOwnKeys :: "string list" where
  "kWorkerOwnKeys = [''threads'', ''seed'', ''feature_extractor'', ''matcher'', ''mapper'', ''bundle_adjuster'', ''enabled_stages'']"

text \<open>The loop over the members; the key of an element that is not a member is an exception of the library.\<close>

definition keep_worker_own :: "json \<Rightarrow> json res" where
  "keep_worker_own doc =
     (case doc of
        JObj kvs \<Rightarrow> Inr (JObj (filter (\<lambda>kv. fst kv \<in> set kWorkerOwnKeys) kvs))
      | JNull \<Rightarrow> Inr (JObj [])
      | JArr [] \<Rightarrow> Inr (JObj [])
      | _ \<Rightarrow> Inl (StdException ''cannot use key() for non-object iterators''))"

definition is_envelope :: "(string \<times> json) list \<Rightarrow> bool" where
  "is_envelope kvs \<longleftrightarrow> length kvs = 4 \<and>
     list_all (\<lambda>k. map_of kvs k \<noteq> None) [''pipeline_id'', ''pipeline_version'', ''stage'', ''config''] \<and>
     (case map_of kvs ''config'' of Some v \<Rightarrow> is_object v | None \<Rightarrow> False)"

definition CleanseWorkerConfig :: "json_lib \<Rightarrow> string \<Rightarrow> json res" where
  "CleanseWorkerConfig lib config_json =
     (case (if config_json = [] then Inr (JObj []) else jl_parse lib config_json) of
        Inl e \<Rightarrow> Inl (correction_error ''malformed worker configuration'')
      | Inr doc \<Rightarrow>
          (case doc of
             JObj kvs \<Rightarrow>
               if is_envelope kvs
               then rbind (keep_worker_own (the (map_of kvs ''config''))) (\<lambda>own.
                 Inr (JObj (map (\<lambda>kv. if fst kv = ''config'' then (fst kv, own) else kv) kvs)))
               else keep_worker_own doc
           | _ \<Rightarrow> keep_worker_own doc))"

section \<open>Members\<close>

definition RequireObjectMember :: "json_lib \<Rightarrow> json \<Rightarrow> string \<Rightarrow> string \<Rightarrow> json res" where
  "RequireObjectMember lib doc key what =
     (case json_member lib doc key of
        Some (JObj kvs) \<Rightarrow> Inr (JObj kvs)
      | _ \<Rightarrow> Inl (correction_error (what @ '' requires object '' @ in_quotes key)))"

definition RequireString :: "json_lib \<Rightarrow> json \<Rightarrow> string \<Rightarrow> string res" where
  "RequireString lib value what =
     (if \<not> is_string value then Inl (correction_error (what @ '' must be a string'')) else jl_get_str lib value)"

definition RequireStringMember :: "json_lib \<Rightarrow> json \<Rightarrow> string \<Rightarrow> string \<Rightarrow> string res" where
  "RequireStringMember lib doc key what =
     (case json_member lib doc key of
        None \<Rightarrow> Inl (correction_error (what @ '' is missing '' @ in_quotes key))
      | Some v \<Rightarrow> RequireString lib v (what @ ''.'' @ key))"

definition RequireNumberMember :: "json_lib \<Rightarrow> json \<Rightarrow> string \<Rightarrow> string \<Rightarrow> u64 res" where
  "RequireNumberMember lib doc key what =
     (case json_member lib doc key of
        None \<Rightarrow> Inl (correction_error (what @ '' requires number '' @ in_quotes key))
      | Some v \<Rightarrow>
          if \<not> is_number v then Inl (correction_error (what @ '' requires number '' @ in_quotes key))
          else rbind (jl_get_double lib v) (\<lambda>d.
            if \<not> finite_double d then Inl (correction_error (what @ ''.'' @ key @ '' must be finite'')) else Inr d))"

fun is_number_integer :: "json \<Rightarrow> bool" where
  "is_number_integer (JInt i) = True" | "is_number_integer _ = False"

definition OptionalIntMember :: "json_lib \<Rightarrow> json \<Rightarrow> string \<Rightarrow> string \<Rightarrow> int res" where
  "OptionalIntMember lib doc key what =
     (case json_member lib doc key of
        None \<Rightarrow> Inr 0
      | Some v \<Rightarrow>
          if \<not> is_number_integer v then Inl (correction_error (what @ ''.'' @ key @ '' must be an integer'')) else jl_get_int64 lib v)"

definition ParseFrameUuid :: "string \<Rightarrow> string \<Rightarrow> uuid res" where
  "ParseFrameUuid value what =
     (case ParseUuid value of
        Inr u \<Rightarrow> Inr u
      | Inl e \<Rightarrow> Inl (correction_error (what @ '' ('' @ in_quotes value @ '') is not a valid UUID frame id'')))"

definition FindCameraForFrame :: "Reconstruction \<Rightarrow> string \<Rightarrow> string \<Rightarrow> ReconCamera res" where
  "FindCameraForFrame recon frame_id role =
     (case List.find (\<lambda>im. ri_frame_id im = frame_id) (rn_images recon) of
        None \<Rightarrow> Inl (correction_error (''loop closure '' @ role @ '' frame '' @ in_quotes frame_id @ '' is not in the reconstruction''))
      | Some img \<Rightarrow>
          (case List.find (\<lambda>cam. rc_camera_id cam = ri_camera_id img) (rn_cameras recon) of
             Some cam \<Rightarrow> Inr cam
           | None \<Rightarrow> Inl (correction_error (''loop closure '' @ role @ '' frame '' @ in_quotes frame_id @ '' references camera_id '' @
               int_to_string (ri_camera_id img) @ '' with no ReconCamera record''))))"

text \<open>\<open>RequirePosition3\<close> and \<open>RequireRotation4\<close>: an array of that many finite numbers.\<close>

definition finite_numbers :: "json_lib \<Rightarrow> json \<Rightarrow> string \<Rightarrow> nat \<Rightarrow> string \<Rightarrow> string \<Rightarrow> u64 list res" where
  "finite_numbers lib doc key n wrong_shape not_finite =
     (case json_member lib doc key of
        Some (JArr vs) \<Rightarrow>
          if length vs \<noteq> n then Inl (correction_error wrong_shape)
          else traverse_res (\<lambda>v.
            if \<not> is_number v then Inl (correction_error not_finite)
            else rbind (jl_get_double lib v) (\<lambda>d. if \<not> finite_double d then Inl (correction_error not_finite) else Inr d)) vs
      | _ \<Rightarrow> Inl (correction_error wrong_shape))"

definition RequirePosition3 :: "json_lib \<Rightarrow> json \<Rightarrow> string \<Rightarrow> u64 list res" where
  "RequirePosition3 lib doc what =
     finite_numbers lib doc ''position_xyz'' 3 (what @ '' requires position_xyz[3]'') (what @ '' position_xyz must be finite numbers'')"

definition RequireRotation4 :: "json_lib \<Rightarrow> json \<Rightarrow> string \<Rightarrow> u64 list res" where
  "RequireRotation4 lib doc what =
     finite_numbers lib doc ''rotation_xyzw'' 4 (what @ '' requires rotation_xyzw[4] (x,y,z,w)'') (what @ '' rotation_xyzw must be finite numbers'')"

section \<open>The trajectory\<close>

definition trajectory_node :: "json_lib \<Rightarrow> nat \<times> json \<Rightarrow> TrajectoryPoseNode res" where
  "trajectory_node lib entry =
     (let what = ''sparse correction: metric.trajectory.nodes['' @ nat_to_string (fst entry) @ '']''; n = snd entry in
      if \<not> is_object n then Inl (throw_error kValidationDomain (what @ '' must be an object''))
      else
        rbind (RequireStringMember lib n ''frame_id'' what) (\<lambda>frame_id.
        rbind (OptionalIntMember lib n ''timestamp_ns'' what) (\<lambda>timestamp.
        rbind (OptionalIntMember lib n ''sequence_index'' what) (\<lambda>seq.
        rbind (RequirePosition3 lib n what) (\<lambda>position.
        rbind (RequireRotation4 lib n what) (\<lambda>rotation.
          Inr \<lparr>tn_frame_id = frame_id, tn_timestamp_ns = timestamp, tn_sequence_index = seq, tn_position_xyz = position,
            tn_rotation_xyzw = rotation, tn_covariance_position = replicate 6 0, tn_covariance_rotation = replicate 6 0\<rparr>))))))"

definition ParseTrajectoryNodes :: "json_lib \<Rightarrow> json \<Rightarrow> TrajectoryPoseNode list res" where
  "ParseTrajectoryNodes lib traj =
     (case json_member lib traj ''nodes'' of
        Some (JArr ns) \<Rightarrow>
          if ns = [] then Inl (correction_error
            ''metric.trajectory requires a non-empty nodes[] array (missing trajectory context fails closed)'')
          else traverse_res (trajectory_node lib) (zip [0..<length ns] ns)
      | _ \<Rightarrow> Inl (correction_error
          ''metric.trajectory requires a non-empty nodes[] array (missing trajectory context fails closed)''))"

definition undeclared_basis :: MetricBasis where
  "undeclared_basis = \<lparr>mb_declared = False, mb_source = kTrajectory, mb_basis = kOdometryScale, mb_provenance = no_provenance,
     mb_scale_calibration_ref = []\<rparr>"

definition basis_type :: "json_lib \<Rightarrow> json option \<Rightarrow> MetricBasisType \<Rightarrow> MetricBasisType res" where
  "basis_type lib m current =
     (case m of
        None \<Rightarrow> Inr current
      | Some v \<Rightarrow> rbind (RequireString lib v ''metric_basis.type'') (\<lambda>type.
          case List.find (\<lambda>b. MetricBasisTypeName b = type) [kOdometryScale, kCalibratedBaseline, kSfmMetricAligned, kGroundTruth] of
            Some b \<Rightarrow> Inr b
          | None \<Rightarrow> Inl (correction_error (''unknown metric_basis.type '' @ in_quotes type))))"

definition basis_source :: "json_lib \<Rightarrow> json option \<Rightarrow> MetricBasisSource \<Rightarrow> MetricBasisSource res" where
  "basis_source lib m current =
     (case m of
        None \<Rightarrow> Inr current
      | Some v \<Rightarrow> rbind (RequireString lib v ''metric_basis.source'') (\<lambda>source.
          case List.find (\<lambda>b. MetricBasisSourceName b = source) [kTrajectory, kReconstruction, kCombined] of
            Some b \<Rightarrow> Inr b
          | None \<Rightarrow> Inl (correction_error (''unknown metric_basis.source '' @ in_quotes source))))"

text \<open>\<open>provenance.configuration_hash\<close>, where provenance is an object that has it.\<close>

definition basis_hash :: "json_lib \<Rightarrow> json option \<Rightarrow> string res" where
  "basis_hash lib m =
     (case m of
        Some (JObj kvs) \<Rightarrow>
          (case json_member lib (JObj kvs) ''configuration_hash'' of
             None \<Rightarrow> Inr []
           | Some v \<Rightarrow> RequireString lib v ''metric_basis.provenance.configuration_hash'')
      | _ \<Rightarrow> Inr [])"

definition ParseMetricBasis :: "json_lib \<Rightarrow> json \<Rightarrow> MetricBasis res" where
  "ParseMetricBasis lib traj =
     (case json_member lib traj ''metric_basis'' of
        None \<Rightarrow> Inr undeclared_basis
      | Some mb \<Rightarrow>
          if \<not> is_object mb then Inl (correction_error ''metric_basis must be an object'')
          else
            rbind (case json_member lib mb ''declared'' of
                Some (JBool b) \<Rightarrow> jl_get_bool lib (JBool b)
              | _ \<Rightarrow> Inl (correction_error ''metric_basis.declared must be a boolean'')) (\<lambda>declared.
            rbind (basis_type lib (json_member lib mb ''type'') (mb_basis undeclared_basis)) (\<lambda>basis.
            rbind (basis_source lib (json_member lib mb ''source'') (mb_source undeclared_basis)) (\<lambda>source.
            rbind (case json_member lib mb ''scale_calibration_ref'' of
                None \<Rightarrow> Inr [] | Some v \<Rightarrow> RequireString lib v ''metric_basis.scale_calibration_ref'') (\<lambda>scale.
            rbind (basis_hash lib (json_member lib mb ''provenance'')) (\<lambda>hash.
              Inr \<lparr>mb_declared = declared, mb_source = source, mb_basis = basis,
                mb_provenance = no_provenance\<lparr>rp_configuration_hash := hash\<rparr>, mb_scale_calibration_ref = scale\<rparr>))))))"

section \<open>The loop closure\<close>

definition ParseLoopClosureCandidate :: "json_lib \<Rightarrow> json \<Rightarrow> LoopClosureCandidate res" where
  "ParseLoopClosureCandidate lib lc =
     rbind (RequireObjectMember lib lc ''candidate'' ''loop_closure'') (\<lambda>cand.
     rbind (RequireStringMember lib cand ''candidate_id'' ''candidate'') (\<lambda>candidate_id.
     rbind (RequireStringMember lib cand ''trajectory_id'' ''candidate'') (\<lambda>trajectory_id.
     rbind (RequireStringMember lib cand ''source_frame_id'' ''candidate'') (\<lambda>source.
     rbind (RequireStringMember lib cand ''target_frame_id'' ''candidate'') (\<lambda>target.
     rbind (RequireNumberMember lib cand ''feature_match_score'' ''candidate'') (\<lambda>score.
     rbind (RequireStringMember lib cand ''matcher'' ''candidate'') (\<lambda>matcher.
     rbind (OptionalIntMember lib cand ''created_at_ns'' ''candidate'') (\<lambda>created.
       Inr \<lparr>ca_candidate_id = candidate_id, ca_trajectory_id = trajectory_id, ca_source_frame_id = source, ca_target_frame_id = target,
         ca_feature_match_score = score, ca_matcher = matcher, ca_created_at_ns = created\<rparr>))))))))"

record LcFrameBlock =
  lb_frame_id :: uuid
  lb_frame_id_string :: string
  lb_timestamp_ns :: int
  lb_feature_artifact_uuid :: uuid

text \<open>The block's own artifact, or the pinned one of its frame.\<close>

definition frame_artifact :: "json_lib \<Rightarrow> json \<Rightarrow> json \<Rightarrow> string \<Rightarrow> string res" where
  "frame_artifact lib block feature_map frame =
     (case json_member lib block ''feature_artifact_uuid'' of
        Some (JStr s) \<Rightarrow> jl_get_str lib (JStr s)
      | _ \<Rightarrow> (case json_member lib feature_map frame of Some (JStr s) \<Rightarrow> jl_get_str lib (JStr s) | _ \<Rightarrow> Inr []))"

definition ParseLoopClosureFrame :: "json_lib \<Rightarrow> json \<Rightarrow> string \<Rightarrow> json \<Rightarrow> LcFrameBlock res" where
  "ParseLoopClosureFrame lib lc key feature_map =
     (let what = ''loop_closure.'' @ key in
      rbind (RequireObjectMember lib lc key ''loop_closure'') (\<lambda>block.
      rbind (RequireStringMember lib block ''frame_id'' what) (\<lambda>frame.
      rbind (ParseFrameUuid frame (what @ ''.frame_id'')) (\<lambda>frame_id.
      rbind (case json_member lib block ''timestamp_ns'' of
          Some (JInt i) \<Rightarrow> jl_get_int64 lib (JInt i)
        | _ \<Rightarrow> Inl (correction_error (what @ '' requires integer timestamp_ns''))) (\<lambda>timestamp.
      rbind (frame_artifact lib block feature_map frame) (\<lambda>artifact.
        if artifact = []
        then Inl (correction_error (what @ '' has no feature_artifact_uuid (missing observation reference fails closed)''))
        else rbind (ParseFrameUuid artifact (what @ ''.feature_artifact_uuid'')) (\<lambda>feature.
          Inr \<lparr>lb_frame_id = frame_id, lb_frame_id_string = frame, lb_timestamp_ns = timestamp, lb_feature_artifact_uuid = feature\<rparr>)))))))"

section \<open>The whole segment\<close>

definition feature_pins :: "json_lib \<Rightarrow> json \<Rightarrow> json" where
  "feature_pins lib cfg = object_or_empty (json_member lib cfg ''feature_artifacts'')"

record closure_config =
  cc_nodes :: "TrajectoryPoseNode list"
  cc_basis :: MetricBasis
  cc_candidate :: LoopClosureCandidate
  cc_source :: LcFrameBlock
  cc_target :: LcFrameBlock
  cc_coordinate_frame :: string

definition has_trajectory :: "json_lib \<Rightarrow> json \<Rightarrow> bool" where
  "has_trajectory lib cfg \<longleftrightarrow> (case json_member lib cfg ''metric'' of
     Some (JObj kvs) \<Rightarrow> json_member lib (JObj kvs) ''trajectory'' \<noteq> None | _ \<Rightarrow> False)"

definition has_loop_closure :: "json_lib \<Rightarrow> json \<Rightarrow> bool" where
  "has_loop_closure lib cfg \<longleftrightarrow> (case json_member lib cfg ''loop_closure'' of Some (JObj kvs) \<Rightarrow> True | _ \<Rightarrow> False)"

definition trajectory_of :: "json_lib \<Rightarrow> json \<Rightarrow> json res" where
  "trajectory_of lib cfg =
     (case json_member lib cfg ''metric'' of
        Some m \<Rightarrow> (case json_member lib m ''trajectory'' of
            Some (JObj kvs) \<Rightarrow> Inr (JObj kvs)
          | _ \<Rightarrow> Inl (correction_error ''metric.trajectory must be an object''))
      | None \<Rightarrow> Inl (correction_error ''metric.trajectory must be an object''))"

text \<open>The coordinate frame, which the code reads after the verification and which never throws.\<close>

definition trajectory_frame :: "json_lib \<Rightarrow> json \<Rightarrow> string res" where
  "trajectory_frame lib traj =
     (case json_member lib traj ''coordinate_frame'' of Some (JStr s) \<Rightarrow> jl_get_str lib (JStr s) | _ \<Rightarrow> Inr [])"

definition closure_config_of :: "json_lib \<Rightarrow> json \<Rightarrow> closure_config option res" where
  "closure_config_of lib cfg =
     (if \<not> has_trajectory lib cfg \<and> \<not> has_loop_closure lib cfg then Inr None
      else if has_trajectory lib cfg \<noteq> has_loop_closure lib cfg
      then Inl (correction_error
        ''half-configured loop-closure segment: metric.trajectory and loop_closure must both be present'')
      else
        rbind (trajectory_of lib cfg) (\<lambda>traj.
        rbind (ParseTrajectoryNodes lib traj) (\<lambda>nodes.
        rbind (ParseMetricBasis lib traj) (\<lambda>basis.
        let lc = the (json_member lib cfg ''loop_closure'') in
        rbind (ParseLoopClosureCandidate lib lc) (\<lambda>candidate.
        rbind (ParseLoopClosureFrame lib lc ''source_frame'' (feature_pins lib cfg)) (\<lambda>source.
        rbind (ParseLoopClosureFrame lib lc ''target_frame'' (feature_pins lib cfg)) (\<lambda>target.
        rbind (trajectory_frame lib traj) (\<lambda>frame.
          Inr (Some \<lparr>cc_nodes = nodes, cc_basis = basis, cc_candidate = candidate, cc_source = source, cc_target = target,
            cc_coordinate_frame = frame\<rparr>)))))))))"

section \<open>What crosses the boundary to the worker\<close>

lemma map_of_kept: "map_of (filter (\<lambda>kv. fst kv \<in> S) kvs) k = (if k \<in> S then map_of kvs k else None)"
  by (induction kvs) auto

lemma map_of_replaced:
  "map_of (map (\<lambda>kv. if fst kv = c then (fst kv, x) else kv) kvs) k = (if k = c \<and> map_of kvs c \<noteq> None then Some x else map_of kvs k)"
  by (induction kvs) auto

text \<open>The settings that a worker finds in a document, which may be the envelope of the pipeline compiler.\<close>

fun member_of :: "json \<Rightarrow> string \<Rightarrow> json option" where
  "member_of (JObj kvs) k = map_of kvs k"
| "member_of _ k = None"

definition wrapped :: "json \<Rightarrow> bool" where
  "wrapped doc \<longleftrightarrow> (case doc of JObj kvs \<Rightarrow> is_envelope kvs | _ \<Rightarrow> False)"

definition worker_setting :: "json \<Rightarrow> string \<Rightarrow> json option" where
  "worker_setting doc k = (if wrapped doc then Option.bind (member_of doc ''config'') (\<lambda>c. member_of c k) else member_of doc k)"

lemma keep_worker_own_setting:
  assumes "keep_worker_own doc = Inr v"
  shows "is_object v" "member_of v k = (if k \<in> set kWorkerOwnKeys then member_of doc k else None)"
  using assms by (auto simp: keep_worker_own_def map_of_kept split: json.splits list.splits)

lemma envelope_keys: "''pipeline_id'' \<notin> set kWorkerOwnKeys" "''config'' \<notin> set kWorkerOwnKeys"
  by (simp_all add: kWorkerOwnKeys_def)

lemma kept_not_wrapped:
  assumes "keep_worker_own doc = Inr v" shows "\<not> wrapped v"
  using keep_worker_own_setting(2) [OF assms, of "''pipeline_id''"] envelope_keys
  by (auto simp: wrapped_def is_envelope_def split: json.splits)

lemma rewrapped:
  assumes "is_envelope kvs" "is_object own"
  shows "is_envelope (map (\<lambda>kv. if fst kv = ''config'' then (fst kv, own) else kv) kvs)"
  using assms by (auto simp: is_envelope_def map_of_replaced split: option.splits)

text \<open>C28:
  The document for the worker has the same envelope as the run's configuration, if any, and as settings exactly those of the run that
  are in the worker's list; nothing else of the run's configuration is in it.\<close>

theorem worker_config_forwards_own_keys:
  assumes "CleanseWorkerConfig lib config_json = Inr v"
  shows "\<exists>doc. (config_json = [] \<and> doc = JObj [] \<or> config_json \<noteq> [] \<and> jl_parse lib config_json = Inr doc) \<and>
    wrapped v = wrapped doc \<and>
    worker_setting v k = (if k \<in> set kWorkerOwnKeys then worker_setting doc k else None) \<and>
    (member_of v k \<noteq> None \<longrightarrow> k \<in> set kWorkerOwnKeys \<or> wrapped doc \<and> k = ''config'' \<or> wrapped doc \<and> member_of v k = member_of doc k)"
proof -
  from assms obtain doc where doc: "config_json = [] \<and> doc = JObj [] \<or> config_json \<noteq> [] \<and> jl_parse lib config_json = Inr doc"
    and v: "(case doc of JObj kvs \<Rightarrow>
        if is_envelope kvs then rbind (keep_worker_own (the (map_of kvs ''config''))) (\<lambda>own.
          Inr (JObj (map (\<lambda>kv. if fst kv = ''config'' then (fst kv, own) else kv) kvs)))
        else keep_worker_own doc
      | _ \<Rightarrow> keep_worker_own doc) = Inr v"
    by (auto simp: CleanseWorkerConfig_def split: sum.splits if_splits)
  show ?thesis
  proof (cases "wrapped doc")
    case True
    then obtain kvs where kvs: "doc = JObj kvs" "is_envelope kvs" by (auto simp: wrapped_def split: json.splits)
    then obtain cfg where cfg: "map_of kvs ''config'' = Some cfg" by (auto simp: is_envelope_def)
    from v kvs cfg obtain own where own: "keep_worker_own cfg = Inr own"
      and v: "v = JObj (map (\<lambda>kv. if fst kv = ''config'' then (fst kv, own) else kv) kvs)" by (auto simp: rbind_Inr)
    have w: "wrapped v" unfolding v wrapped_def using rewrapped [OF kvs(2) keep_worker_own_setting(1) [OF own]] by simp
    have "member_of v k = (if k = ''config'' then Some own else member_of doc k)" for k
      by (simp add: v kvs map_of_replaced cfg)
    then show ?thesis using doc True w keep_worker_own_setting(2) [OF own, of k]
      by (intro exI [of _ doc]) (simp add: worker_setting_def kvs(1) cfg)
  next
    case False
    then have "keep_worker_own doc = Inr v" using v by (auto simp: wrapped_def split: json.splits)
    from keep_worker_own_setting(2) [OF this, of k] kept_not_wrapped [OF this] False doc show ?thesis
      by (intro exI [of _ doc]) (simp add: worker_setting_def)
  qed
qed

section \<open>A configured loop closure\<close>

definition finite_vector :: "nat \<Rightarrow> u64 list \<Rightarrow> bool" where
  "finite_vector n ds \<longleftrightarrow> length ds = n \<and> list_all finite_double ds"

definition pose_given :: "TrajectoryPoseNode \<Rightarrow> bool" where
  "pose_given n \<longleftrightarrow> finite_vector 3 (tn_position_xyz n) \<and> finite_vector 4 (tn_rotation_xyzw n)"

definition block_given :: "LcFrameBlock \<Rightarrow> bool" where
  "block_given b \<longleftrightarrow> ParseUuid (lb_frame_id_string b) = Inr (lb_frame_id b)"

lemma traverse_res_all:
  assumes "traverse_res f xs = Inr ys" "\<forall>x y. f x = Inr y \<longrightarrow> P y"
  shows "list_all P ys \<and> length ys = length xs"
  using assms by (induction xs arbitrary: ys) (auto simp: rbind_Inr)

lemma finite_numbers_finite:
  assumes "finite_numbers lib doc key n wrong_shape not_finite = Inr ds"
  shows "finite_vector n ds"
proof -
  from assms obtain vs where "length vs = n" "traverse_res (\<lambda>v.
      if \<not> is_number v then Inl (correction_error not_finite)
      else rbind (jl_get_double lib v) (\<lambda>d. if \<not> finite_double d then Inl (correction_error not_finite) else Inr d)) vs = Inr ds"
    by (auto simp: finite_numbers_def split: option.splits json.splits if_splits)
  moreover have "list_all finite_double ds \<and> length ds = length vs"
    by (rule traverse_res_all [OF calculation(2)]) (auto simp: rbind_Inr split: if_splits)
  ultimately show ?thesis by (simp add: finite_vector_def)
qed

lemma trajectory_node_given: "trajectory_node lib entry = Inr n \<Longrightarrow> pose_given n"
  by (auto simp: trajectory_node_def Let_def rbind_Inr pose_given_def RequirePosition3_def RequireRotation4_def
    dest: finite_numbers_finite split: if_splits)

lemma ParseTrajectoryNodes_given:
  assumes "ParseTrajectoryNodes lib traj = Inr nodes"
  shows "nodes \<noteq> [] \<and> list_all pose_given nodes"
proof -
  from assms obtain ns where "ns \<noteq> []" "traverse_res (trajectory_node lib) (zip [0..<length ns] ns) = Inr nodes"
    by (auto simp: ParseTrajectoryNodes_def split: option.splits json.splits if_splits)
  with traverse_res_all [OF this(2), of pose_given] trajectory_node_given show ?thesis by auto
qed

lemma ParseFrameUuid_Inr: "ParseFrameUuid value what = Inr u \<Longrightarrow> ParseUuid value = Inr u"
  by (auto simp: ParseFrameUuid_def split: sum.splits)

lemma ParseLoopClosureFrame_given: "ParseLoopClosureFrame lib lc key feature_map = Inr b \<Longrightarrow> block_given b"
  by (auto simp: ParseLoopClosureFrame_def Let_def rbind_Inr block_given_def dest: ParseFrameUuid_Inr split: if_splits)

lemma candidate_score_finite:
  assumes "ParseLoopClosureCandidate lib lc = Inr c" shows "finite_double (ca_feature_match_score c)"
proof -
  have "RequireNumberMember lib doc key what = Inr d \<Longrightarrow> finite_double d" for doc key what d
    by (auto simp: RequireNumberMember_def rbind_Inr split: option.splits if_splits)
  with assms show ?thesis by (auto simp: ParseLoopClosureCandidate_def rbind_Inr)
qed

text \<open>
  A configuration with neither a trajectory nor a loop closure gives none; one with only one of the two is refused; and one that gives a
  closure has both, at least one pose, finite numbers in every pose and as the score, and identities that parse.\<close>

theorem configured_closure_is_complete:
  "case closure_config_of lib cfg of
     Inl e \<Rightarrow> has_trajectory lib cfg \<or> has_loop_closure lib cfg
   | Inr None \<Rightarrow> \<not> has_trajectory lib cfg \<and> \<not> has_loop_closure lib cfg
   | Inr (Some c) \<Rightarrow> has_trajectory lib cfg \<and> has_loop_closure lib cfg \<and> cc_nodes c \<noteq> [] \<and> list_all pose_given (cc_nodes c) \<and>
       finite_double (ca_feature_match_score (cc_candidate c)) \<and> block_given (cc_source c) \<and> block_given (cc_target c)"
  by (auto simp: closure_config_of_def Let_def rbind_Inr dest: ParseTrajectoryNodes_given ParseLoopClosureFrame_given candidate_score_finite
    split: sum.splits option.splits if_splits)

section \<open>An example\<close>

text \<open>A wrapped run configuration with a setting of the worker and one of the host.\<close>

definition worker_run_doc :: json where
  "worker_run_doc = JObj [(''config'', JObj [(''project_id'', JStr ''p''), (''threads'', JInt 4)]), (''pipeline_id'', JStr ''c''),
     (''pipeline_version'', JInt 1), (''stage'', JStr ''s'')]"

lemma worker_config_forwards_own_keys_witness:
  "\<exists>config_json v. CleanseWorkerConfig reference_json config_json = Inr v \<and> wrapped v \<and> worker_setting v ''project_id'' = None \<and>
    worker_setting v ''threads'' = Some (JInt 4)"
proof -
  have "doc_ok worker_run_doc" by code_simp
  then obtain t where t: "jl_parse reference_json t = Inr worker_run_doc" using json_dump_parse [OF reference_json_laws] by blast
  have cleansed: "\<exists>v. CleanseWorkerConfig reference_json t = Inr v" if "t \<noteq> []"
    by (simp add: CleanseWorkerConfig_def t that worker_run_doc_def keep_worker_own_def is_envelope_def)
  have facts: "wrapped worker_run_doc" "worker_setting worker_run_doc ''threads'' = Some (JInt 4)" "''threads'' \<in> set kWorkerOwnKeys" "''project_id'' \<notin> set kWorkerOwnKeys"
    by code_simp+
  have "jl_parse reference_json [] \<noteq> Inr worker_run_doc" by code_simp
  with t have "t \<noteq> []" by auto
  with cleansed obtain v where v: "CleanseWorkerConfig reference_json t = Inr v" by blast
  from worker_config_forwards_own_keys [OF v, of "''threads''"] worker_config_forwards_own_keys [OF v, of "''project_id''"] \<open>t \<noteq> []\<close> t facts
  show ?thesis using v by (intro exI [of _ t] exI [of _ v]) simp
qed

text \<open>A configuration of a closure with one pose.\<close>

definition closure_doc :: json where
  "closure_doc = (let frame = JObj [(''feature_artifact_uuid'', JStr (FormatUuid (replicate 16 8))), (''frame_id'', JStr (FormatUuid (replicate 16 6))),
       (''timestamp_ns'', JInt 5)] in
     JObj [(''loop_closure'', JObj [(''candidate'', JObj [(''candidate_id'', JStr ''c''), (''feature_match_score'', JFloat 0), (''matcher'', JStr ''m''),
         (''source_frame_id'', JStr ''a''), (''target_frame_id'', JStr ''b''), (''trajectory_id'', JStr ''t'')]), (''source_frame'', frame), (''target_frame'', frame)]),
       (''metric'', JObj [(''trajectory'', JObj [(''nodes'', JArr [JObj [(''frame_id'', JStr ''a''), (''position_xyz'', JArr [JFloat 0, JFloat 0, JFloat 0]),
         (''rotation_xyzw'', JArr [JFloat 0, JFloat 0, JFloat 0, JFloat 0])]])])])])"

lemma closure_doc_configured: "\<exists>c. closure_config_of reference_json closure_doc = Inr (Some c)"
proof -
  have "(case closure_config_of reference_json closure_doc of Inr (Some c) \<Rightarrow> True | _ \<Rightarrow> False)" by code_simp
  then show ?thesis by (auto split: sum.splits option.splits)
qed

lemma half_configured_is_refused:
  "\<exists>e. closure_config_of reference_json (JObj [(''loop_closure'', JObj [])]) = Inl e"
proof -
  have "(case closure_config_of reference_json (JObj [(''loop_closure'', JObj [])]) of Inl e \<Rightarrow> True | _ \<Rightarrow> False)" by code_simp
  then show ?thesis by (auto split: sum.splits)
qed

end
