(* ===== verification/CameraModels.thy ===== *)
theory CameraModels
  imports ReconstructionJson
begin

text \<open>
  Camera models: core/geometry/camera_model.h, with the views of core/geometry/reprojection.h that pair a model with a pose. What
  the code takes from Eigen and from \<open>cmath\<close> is the record \<open>geometry\<close>, an argument. Vectors are lists of doubles. The lemmas show
  which cameras get a model, that a model has the coefficients that its formulas read, and what the iterations of the inverse give.
\<close>

section \<open>Eigen and cmath\<close>

text \<open>
  \<open>eg_dot\<close>, \<open>eg_norm\<close>, \<open>eg_unit\<close> are \<open>dot\<close>, \<open>norm\<close>, \<open>normalized\<close>; \<open>eg_rotate_back q v\<close> is the product of the transposed rotation matrix
  of q with v.
\<close>

record 'q geometry =
  eg_pose :: "'q pose_math"
  eg_dot :: "u64 list \<Rightarrow> u64 list \<Rightarrow> u64"
  eg_norm :: "u64 list \<Rightarrow> u64"
  eg_unit :: "u64 list \<Rightarrow> u64 list"
  eg_rotate_back :: "'q \<Rightarrow> u64 list \<Rightarrow> u64 list"
  eg_tan :: "u64 \<Rightarrow> u64"
  eg_atan :: "u64 \<Rightarrow> u64"
  eg_acos :: "u64 \<Rightarrow> u64"

abbreviation eg_fp :: "'q geometry \<Rightarrow> arith" where
  "eg_fp eg \<equiv> pm_fp (eg_pose eg)"

abbreviation all_finite :: "u64 list \<Rightarrow> bool" where
  "all_finite \<equiv> list_all finite_double"

definition scaled :: "arith \<Rightarrow> u64 \<Rightarrow> u64 list \<Rightarrow> u64 list" where
  "scaled fp s v = map (fa_mul fp s) v"

definition TransformPoint :: "'q geometry \<Rightarrow> 'q SE3 \<Rightarrow> u64 list \<Rightarrow> u64 list" where
  "TransformPoint eg t p = vec_add (eg_fp eg) (pm_rotate (eg_pose eg) (se_rotation t) p) (se_translation t)"

section \<open>Models\<close>

datatype CameraModelKind = kPinhole | kOpenCvRadial | kOpenCvFisheye | kFov

record CameraIntrinsics =
  ck_fx :: u64
  ck_fy :: u64
  ck_cx :: u64
  ck_cy :: u64
  ck_width :: u64
  ck_height :: u64

definition Valid :: "CameraIntrinsics \<Rightarrow> bool" where
  "Valid k \<longleftrightarrow> all_finite [ck_fx k, ck_fy k, ck_cx k, ck_cy k, ck_width k, ck_height k] \<and>
     fp_less 0 (ck_fx k) \<and> fp_less 0 (ck_fy k) \<and> fp_le 0 (ck_width k) \<and> fp_le 0 (ck_height k)"

record CameraModel =
  cm_kind :: CameraModelKind
  cm_intrinsics :: CameraIntrinsics
  cm_coefficients :: "u64 list"
  cm_omega :: u64

definition ValidateIntrinsics :: "CameraIntrinsics \<Rightarrow> unit res" where
  "ValidateIntrinsics k = (if Valid k then Inr () else Inl (throw_error kCalibrationInvalid
     ''camera model: intrinsics degenerate (fx/fy must be positive and finite; cx/cy/width/height must be finite and non-negative)''))"

definition model_error :: "string \<Rightarrow> exn" where
  "model_error what = throw_error kValidationDomain (''camera model: '' @ what)"

definition Pinhole :: "CameraIntrinsics \<Rightarrow> CameraModel res" where
  "Pinhole k = rbind (ValidateIntrinsics k) (\<lambda>_.
     Inr \<lparr>cm_kind = kPinhole, cm_intrinsics = k, cm_coefficients = [], cm_omega = 0\<rparr>)"

definition OpenCvRadial :: "CameraIntrinsics \<Rightarrow> u64 list \<Rightarrow> CameraModel res" where
  "OpenCvRadial k coefficients = rbind (ValidateIntrinsics k) (\<lambda>_.
     if length coefficients \<noteq> 4 \<and> length coefficients \<noteq> 5
     then Inl (model_error ''opencv radial requires 4 or 5 coefficients [k1,k2,p1,p2,(k3)]'')
     else if \<not> all_finite coefficients then Inl (model_error ''non-finite distortion coefficient'')
     else Inr \<lparr>cm_kind = kOpenCvRadial, cm_intrinsics = k, cm_coefficients = coefficients, cm_omega = 0\<rparr>)"

definition OpenCvFisheye :: "CameraIntrinsics \<Rightarrow> u64 list \<Rightarrow> CameraModel res" where
  "OpenCvFisheye k coefficients = rbind (ValidateIntrinsics k) (\<lambda>_.
     if length coefficients \<noteq> 4 then Inl (model_error ''opencv_fisheye requires 4 coefficients [k1,k2,k3,k4]'')
     else if \<not> all_finite coefficients then Inl (model_error ''non-finite distortion coefficient'')
     else Inr \<lparr>cm_kind = kOpenCvFisheye, cm_intrinsics = k, cm_coefficients = coefficients, cm_omega = 0\<rparr>)"

definition Fov :: "CameraIntrinsics \<Rightarrow> u64 list \<Rightarrow> CameraModel res" where
  "Fov k coefficients = rbind (ValidateIntrinsics k) (\<lambda>_.
     case coefficients of
       [omega] \<Rightarrow> if \<not> finite_double omega then Inl (model_error ''non-finite fov omega'')
         else Inr \<lparr>cm_kind = kFov, cm_intrinsics = k, cm_coefficients = [omega], cm_omega = omega\<rparr>
     | _ \<Rightarrow> Inl (model_error ''fov requires exactly one coefficient [omega]''))"

definition recon_intrinsics :: "arith \<Rightarrow> ReconCamera \<Rightarrow> CameraIntrinsics" where
  "recon_intrinsics fp c = \<lparr>ck_fx = rc_fx c, ck_fy = rc_fy c, ck_cx = rc_cx c, ck_cy = rc_cy c,
     ck_width = fa_of_int fp (rc_width c), ck_height = fa_of_int fp (rc_height c)\<rparr>"

definition FromReconCamera :: "arith \<Rightarrow> ReconCamera \<Rightarrow> CameraModel res" where
  "FromReconCamera fp c =
     (let im = rc_intrinsic_model c; dm = rc_distortion_model c; k = recon_intrinsics fp c in
      if im = ''pinhole''
      then if dm \<noteq> ''none'' \<and> dm \<noteq> []
        then Inl (model_error (''pinhole requires distortion_model '' @ in_quotes ''none'' @ '' (got '' @ in_quotes dm @
          ''); unsupported combination fails closed''))
        else Pinhole k
      else if im = ''opencv''
      then if dm \<noteq> ''opencv_radial''
        then Inl (model_error (''opencv requires distortion_model '' @ in_quotes ''opencv_radial'' @ '' (got '' @ in_quotes dm @ '')''))
        else OpenCvRadial k (rc_distortion_coefficients c)
      else if im = ''opencv_fisheye''
      then if dm \<noteq> ''opencv_fisheye''
        then Inl (model_error (''opencv_fisheye requires distortion_model '' @ in_quotes ''opencv_fisheye'' @ '' (got '' @ in_quotes dm @ '')''))
        else OpenCvFisheye k (rc_distortion_coefficients c)
      else if im = ''fov'' then Fov k (rc_distortion_coefficients c)
      else Inl (model_error (''unsupported intrinsic_model '' @ in_quotes im @
        '' is not first-class in 8a (pinhole/opencv/opencv_fisheye/fov); the model fails closed and is never approximated as another model'')))"

section \<open>Distortion\<close>

definition PixelToNormalized :: "arith \<Rightarrow> CameraIntrinsics \<Rightarrow> u64 list \<Rightarrow> u64 list" where
  "PixelToNormalized fp k pixel =
     [fa_div fp (fa_sub fp (pixel ! 0) (ck_cx k)) (ck_fx k), fa_div fp (fa_sub fp (pixel ! 1) (ck_cy k)) (ck_fy k)]"

definition NormalizedToPixel :: "arith \<Rightarrow> CameraIntrinsics \<Rightarrow> u64 list \<Rightarrow> u64 list" where
  "NormalizedToPixel fp k x = [fa_add fp (fa_mul fp (ck_fx k) (x ! 0)) (ck_cx k), fa_add fp (fa_mul fp (ck_fy k) (x ! 1)) (ck_cy k)]"

definition radius :: "arith \<Rightarrow> u64 list \<Rightarrow> u64" where
  "radius fp x = fa_sqrt fp (fa_add fp (fa_mul fp (x ! 0) (x ! 0)) (fa_mul fp (x ! 1) (x ! 1)))"

definition unit_tiny :: "arith \<Rightarrow> u64" where
  "unit_tiny fp = fa_ratio fp 1 1000000000000"

text \<open>\<open>1 + c1 t + c2 t^2 + ...\<close>, summed from the left over the given powers.\<close>

definition series :: "arith \<Rightarrow> u64 list \<Rightarrow> u64 list \<Rightarrow> u64" where
  "series fp coefficients powers = foldl (fa_add fp) (fa_ratio fp 1 1) (map2 (fa_mul fp) coefficients powers)"

definition distort_radial :: "arith \<Rightarrow> u64 list \<Rightarrow> u64 list \<Rightarrow> u64 list" where
  "distort_radial fp cs v =
     (let mul = fa_mul fp; add = fa_add fp; two = fa_ratio fp 2 1; x = v ! 0; y = v ! 1;
          k3 = (if length cs = 5 then cs ! 4 else 0);
          x2 = mul x x; y2 = mul y y; r2 = add x2 y2; r4 = mul r2 r2; r6 = mul r4 r2;
          radial = series fp [cs ! 0, cs ! 1, k3] [r2, r4, r6] in
      [add (add (mul x radial) (mul (mul (mul two (cs ! 2)) x) y)) (mul (cs ! 3) (add r2 (mul two x2))),
       add (add (mul y radial) (mul (mul (mul two (cs ! 3)) x) y)) (mul (cs ! 2) (add r2 (mul two y2)))])"

definition even_powers :: "arith \<Rightarrow> u64 \<Rightarrow> u64 list" where
  "even_powers fp t = (let t2 = fa_mul fp t t; t4 = fa_mul fp t2 t2; t6 = fa_mul fp t4 t2; t8 = fa_mul fp t4 t4 in [t2, t4, t6, t8])"

definition distort_fisheye :: "'q geometry \<Rightarrow> u64 list \<Rightarrow> u64 list \<Rightarrow> u64 list" where
  "distort_fisheye eg cs x =
     (let fp = eg_fp eg; r = radius fp x in
      if fp_less r (unit_tiny fp) then x
      else let theta = eg_atan eg r; theta_d = fa_mul fp theta (series fp cs (even_powers fp theta)); factor = fa_div fp theta_d r in
        [fa_mul fp (x ! 0) factor, fa_mul fp (x ! 1) factor])"

definition distort_fov :: "'q geometry \<Rightarrow> u64 \<Rightarrow> u64 list \<Rightarrow> u64 list" where
  "distort_fov eg omega x =
     (let fp = eg_fp eg; r_u = radius fp x in
      if fp_less r_u (unit_tiny fp) then x
      else let factor = fa_div fp (eg_tan eg (fa_mul fp r_u omega))
             (fa_mul fp (fa_mul fp (fa_ratio fp 2 1) r_u) (eg_tan eg (fa_mul fp (fa_ratio fp 1 2) omega))) in
        [fa_mul fp (x ! 0) factor, fa_mul fp (x ! 1) factor])"

definition DistortUnit :: "'q geometry \<Rightarrow> CameraModel \<Rightarrow> u64 list \<Rightarrow> u64 list" where
  "DistortUnit eg m x =
     (case cm_kind m of
        kPinhole \<Rightarrow> x
      | kOpenCvRadial \<Rightarrow> distort_radial (eg_fp eg) (cm_coefficients m) x
      | kOpenCvFisheye \<Rightarrow> distort_fisheye eg (cm_coefficients m) x
      | kFov \<Rightarrow> distort_fov eg (cm_omega m) x)"

section \<open>The inverse\<close>

definition undistort_fov :: "'q geometry \<Rightarrow> u64 \<Rightarrow> u64 list \<Rightarrow> u64 list" where
  "undistort_fov eg omega xd =
     (let fp = eg_fp eg; r_d = radius fp xd in
      if fp_less r_d (unit_tiny fp) then xd
      else let r_u = fa_div fp (eg_atan eg (fa_mul fp (fa_mul fp (fa_ratio fp 2 1) r_d) (eg_tan eg (fa_mul fp (fa_ratio fp 1 2) omega)))) omega;
               factor = fa_div fp r_u r_d in
        [fa_mul fp (xd ! 0) factor, fa_mul fp (xd ! 1) factor])"

text \<open>The fixed-point iteration; the first argument is the number of rounds left.\<close>

fun undistort_radial :: "nat \<Rightarrow> 'q geometry \<Rightarrow> u64 list \<Rightarrow> u64 list \<Rightarrow> u64 list \<Rightarrow> u64 list" where
  "undistort_radial 0 eg cs xd x = x"
| "undistort_radial (Suc n) eg cs xd x =
     (let fp = eg_fp eg; residual = vec_sub fp (distort_radial fp cs x) xd in
      if fp_less (eg_norm eg residual) (fa_ratio fp 1 10000000000) then x
      else undistort_radial n eg cs xd (vec_sub fp x residual))"

text \<open>Newton's method for the angle.\<close>

fun newton :: "nat \<Rightarrow> arith \<Rightarrow> u64 list \<Rightarrow> u64 \<Rightarrow> u64 \<Rightarrow> u64" where
  "newton 0 fp cs rd theta = theta"
| "newton (Suc n) fp cs rd theta =
     (let powers = even_powers fp theta;
          f = fa_sub fp (fa_mul fp theta (series fp cs powers)) rd;
          df = series fp (map2 (\<lambda>n c. fa_mul fp (fa_ratio fp n 1) c) [3, 5, 7, 9] cs) powers;
          step = fa_div fp f df; theta' = fa_sub fp theta step in
      if fp_less (fa_abs fp step) (unit_tiny fp) then theta' else newton n fp cs rd theta')"

definition undistort_fisheye :: "'q geometry \<Rightarrow> u64 list \<Rightarrow> u64 list \<Rightarrow> u64 list" where
  "undistort_fisheye eg cs xd =
     (let fp = eg_fp eg; rd = radius fp xd in
      if fp_less rd (unit_tiny fp) then xd
      else let factor = fa_div fp (eg_tan eg (newton 50 fp cs rd rd)) rd in
        [fa_mul fp (xd ! 0) factor, fa_mul fp (xd ! 1) factor])"

definition UndistortUnit :: "'q geometry \<Rightarrow> CameraModel \<Rightarrow> u64 list \<Rightarrow> u64 list" where
  "UndistortUnit eg m xd =
     (case cm_kind m of
        kPinhole \<Rightarrow> xd
      | kFov \<Rightarrow> undistort_fov eg (cm_omega m) xd
      | kOpenCvRadial \<Rightarrow> undistort_radial 100 eg (cm_coefficients m) xd xd
      | kOpenCvFisheye \<Rightarrow> undistort_fisheye eg (cm_coefficients m) xd)"

definition Distort :: "'q geometry \<Rightarrow> CameraModel \<Rightarrow> u64 list \<Rightarrow> u64 list" where
  "Distort eg m pixel = NormalizedToPixel (eg_fp eg) (cm_intrinsics m) (DistortUnit eg m (PixelToNormalized (eg_fp eg) (cm_intrinsics m) pixel))"

definition Undistort :: "'q geometry \<Rightarrow> CameraModel \<Rightarrow> u64 list \<Rightarrow> u64 list" where
  "Undistort eg m pixel = NormalizedToPixel (eg_fp eg) (cm_intrinsics m) (UndistortUnit eg m (PixelToNormalized (eg_fp eg) (cm_intrinsics m) pixel))"

section \<open>Projection\<close>

definition Project :: "'q geometry \<Rightarrow> CameraModel \<Rightarrow> u64 list \<Rightarrow> u64 list res" where
  "Project eg m p_c =
     (let fp = eg_fp eg in
      if \<not> all_finite p_c then Inl (model_error ''cannot project non-finite point'')
      else if fp_le (p_c ! 2) 0
      then Inl (model_error (''cannot project point with non-positive camera-frame depth (w_C <= 0 violates cheirality '' @
        [CHR 0xC2, CHR 0xA7] @ ''4.8)''))
      else Inr (NormalizedToPixel fp (cm_intrinsics m)
        (DistortUnit eg m [fa_div fp (p_c ! 0) (p_c ! 2), fa_div fp (p_c ! 1) (p_c ! 2)])))"

definition Unproject :: "'q geometry \<Rightarrow> CameraModel \<Rightarrow> u64 list \<Rightarrow> u64 list res" where
  "Unproject eg m pixel =
     (let fp = eg_fp eg in
      if \<not> all_finite pixel then Inl (model_error ''cannot back-project non-finite pixel'')
      else let ray = UndistortUnit eg m (PixelToNormalized fp (cm_intrinsics m) pixel) @ [fa_ratio fp 1 1]; norm = eg_norm eg ray in
        if fp_less norm (unit_tiny fp) \<or> \<not> finite_double norm then Inl (model_error ''degenerate back-projection ray'')
        else Inr (map (\<lambda>c. fa_div fp c norm) ray))"

section \<open>Views\<close>

record 'q CameraView =
  vw_image_id :: int
  vw_model :: CameraModel
  vw_world_from_camera :: "'q SE3"

definition image_view :: "'q geometry \<Rightarrow> ReconCamera list \<Rightarrow> ReconImage \<Rightarrow> 'q CameraView res" where
  "image_view eg cameras img =
     (case List.find (\<lambda>c. rc_camera_id c = ri_camera_id img) cameras of
        None \<Rightarrow> Inl (throw_error kValidationDomain ''reprojection: image references unknown camera_id'')
      | Some c \<Rightarrow> rbind (FromReconCamera (eg_fp eg) c) (\<lambda>m. Inr \<lparr>vw_image_id = ri_image_id img, vw_model = m,
          vw_world_from_camera = MakeCameraPose (eg_pose eg) (po_translation_xyz (ri_pose img)) (po_rotation_xyzw (ri_pose img))\<rparr>))"

definition InitializeReprojectionViews :: "'q geometry \<Rightarrow> Reconstruction \<Rightarrow> 'q CameraView list res" where
  "InitializeReprojectionViews eg r = traverse_res (image_view eg (rn_cameras r)) (rn_images r)"

definition find_view :: "'q CameraView list \<Rightarrow> int \<Rightarrow> 'q CameraView option" where
  "find_view views image_id = List.find (\<lambda>v. vw_image_id v = image_id) views"

section \<open>Which cameras have a model\<close>

text \<open>The combinations of models and the coefficients that go with them.\<close>

definition supported :: "ReconCamera \<Rightarrow> CameraModelKind \<Rightarrow> bool" where
  "supported c kind \<longleftrightarrow> (let cs = rc_distortion_coefficients c in case kind of
     kPinhole \<Rightarrow> rc_intrinsic_model c = ''pinhole'' \<and> (rc_distortion_model c = ''none'' \<or> rc_distortion_model c = [])
   | kOpenCvRadial \<Rightarrow> rc_intrinsic_model c = ''opencv'' \<and> rc_distortion_model c = ''opencv_radial'' \<and> length cs \<in> {4, 5} \<and> all_finite cs
   | kOpenCvFisheye \<Rightarrow> rc_intrinsic_model c = ''opencv_fisheye'' \<and> rc_distortion_model c = ''opencv_fisheye'' \<and> length cs = 4 \<and> all_finite cs
   | kFov \<Rightarrow> rc_intrinsic_model c = ''fov'' \<and> length cs = 1 \<and> all_finite cs)"

text \<open>The coefficients that the formulas of a kind index are there.\<close>

definition model_complete :: "CameraModel \<Rightarrow> bool" where
  "model_complete m \<longleftrightarrow> Valid (cm_intrinsics m) \<and> all_finite (cm_coefficients m) \<and>
     (case cm_kind m of
        kPinhole \<Rightarrow> cm_coefficients m = []
      | kOpenCvRadial \<Rightarrow> length (cm_coefficients m) \<in> {4, 5}
      | kOpenCvFisheye \<Rightarrow> length (cm_coefficients m) = 4
      | kFov \<Rightarrow> cm_coefficients m = [cm_omega m])"

lemma ValidateIntrinsics_Inr [simp]: "ValidateIntrinsics k = Inr u \<longleftrightarrow> Valid k"
  by (simp add: ValidateIntrinsics_def)

lemma factories:
  "Pinhole k = Inr m \<longleftrightarrow> Valid k \<and> m = \<lparr>cm_kind = kPinhole, cm_intrinsics = k, cm_coefficients = [], cm_omega = 0\<rparr>"
  "OpenCvRadial k cs = Inr m \<longleftrightarrow> Valid k \<and> length cs \<in> {4, 5} \<and> all_finite cs \<and>
     m = \<lparr>cm_kind = kOpenCvRadial, cm_intrinsics = k, cm_coefficients = cs, cm_omega = 0\<rparr>"
  "OpenCvFisheye k cs = Inr m \<longleftrightarrow> Valid k \<and> length cs = 4 \<and> all_finite cs \<and>
     m = \<lparr>cm_kind = kOpenCvFisheye, cm_intrinsics = k, cm_coefficients = cs, cm_omega = 0\<rparr>"
  "Fov k cs = Inr m \<longleftrightarrow> Valid k \<and> length cs = 1 \<and> all_finite cs \<and>
     m = \<lparr>cm_kind = kFov, cm_intrinsics = k, cm_coefficients = cs, cm_omega = hd cs\<rparr>"
  by (auto simp: Pinhole_def OpenCvRadial_def OpenCvFisheye_def Fov_def rbind_Inr length_Suc_conv split: list.splits)

lemma FromReconCamera_complete:
  assumes "FromReconCamera fp c = Inr m"
  shows "supported c (cm_kind m)" "model_complete m" "cm_intrinsics m = recon_intrinsics fp c"
    and "cm_kind m \<noteq> kPinhole \<Longrightarrow> cm_coefficients m = rc_distortion_coefficients c"
  using assms by (auto simp: FromReconCamera_def Let_def supported_def factories model_complete_def length_Suc_conv split: if_splits)

text \<open>
  A camera gets a model exactly if its intrinsics are valid and its combination of models is one of the four; the model is of that kind and
  has the camera's intrinsics and the coefficients that its formulas read.\<close>

theorem camera_models_fail_closed:
  "(\<exists>m. FromReconCamera fp c = Inr m) = (Valid (recon_intrinsics fp c) \<and> (\<exists>kind. supported c kind)) \<and>
    (\<forall>m. FromReconCamera fp c = Inr m \<longrightarrow> supported c (cm_kind m) \<and> model_complete m \<and> cm_intrinsics m = recon_intrinsics fp c \<and>
      (cm_kind m \<noteq> kPinhole \<longrightarrow> cm_coefficients m = rc_distortion_coefficients c))"
proof -
  have ex: "(\<exists>kind. supported c kind) = (supported c kPinhole \<or> supported c kOpenCvRadial \<or> supported c kOpenCvFisheye \<or> supported c kFov)"
    by (metis CameraModelKind.exhaust)
  have "(\<exists>m. FromReconCamera fp c = Inr m) = (Valid (recon_intrinsics fp c) \<and> (\<exists>kind. supported c kind))"
    unfolding ex by (auto simp: FromReconCamera_def Let_def supported_def factories)
  with FromReconCamera_complete [of fp c] show ?thesis by blast
qed

section \<open>The inverse of the radial distortion\<close>

text \<open>The k-th point of the iteration.\<close>

definition radial_round :: "'q geometry \<Rightarrow> u64 list \<Rightarrow> u64 list \<Rightarrow> u64 list \<Rightarrow> u64 list" where
  "radial_round eg cs xd x = vec_sub (eg_fp eg) x (vec_sub (eg_fp eg) (distort_radial (eg_fp eg) cs x) xd)"

definition radial_solved :: "'q geometry \<Rightarrow> u64 list \<Rightarrow> u64 list \<Rightarrow> u64 list \<Rightarrow> bool" where
  "radial_solved eg cs xd x \<longleftrightarrow>
     fp_less (eg_norm eg (vec_sub (eg_fp eg) (distort_radial (eg_fp eg) cs x) xd)) (fa_ratio (eg_fp eg) 1 10000000000)"

lemma undistort_radial_rounds:
  "\<exists>k\<le>n. undistort_radial n eg cs xd x = (radial_round eg cs xd ^^ k) x \<and>
    (k < n \<longrightarrow> radial_solved eg cs xd (undistort_radial n eg cs xd x)) \<and>
    (\<forall>j<k. \<not> radial_solved eg cs xd ((radial_round eg cs xd ^^ j) x))"
proof (induction n arbitrary: x)
  case (Suc n)
  show ?case
  proof (cases "radial_solved eg cs xd x")
    case True
    then have "undistort_radial (Suc n) eg cs xd x = x" by (simp add: radial_solved_def Let_def)
    with True show ?thesis by (intro exI [of _ 0]) simp
  next
    case False
    then have step: "undistort_radial (Suc n) eg cs xd x = undistort_radial n eg cs xd (radial_round eg cs xd x)"
      by (simp add: radial_solved_def radial_round_def Let_def)
    from Suc.IH [of "radial_round eg cs xd x"] obtain k where k: "k \<le> n"
      "undistort_radial n eg cs xd (radial_round eg cs xd x) = (radial_round eg cs xd ^^ k) (radial_round eg cs xd x)"
      "k < n \<Longrightarrow> radial_solved eg cs xd (undistort_radial n eg cs xd (radial_round eg cs xd x))"
      "\<And>j. j < k \<Longrightarrow> \<not> radial_solved eg cs xd ((radial_round eg cs xd ^^ j) (radial_round eg cs xd x))" by blast
    have "\<not> radial_solved eg cs xd ((radial_round eg cs xd ^^ j) x)" if "j < Suc k" for j
      using that False k(4) by (cases j) (simp_all add: funpow_swap1)
    with k show ?thesis unfolding step by (intro exI [of _ "Suc k"]) (simp add: funpow_swap1)
  qed
qed simp

text \<open>
  The inverse gives the first point of the iteration whose distortion is close to the given one, or, unannounced, the hundredth point.
\<close>

lemma undistort_radial_solves:
  assumes "cm_kind m = kOpenCvRadial"
  shows "\<exists>k\<le>100. UndistortUnit eg m xd = (radial_round eg (cm_coefficients m) xd ^^ k) xd \<and>
    (k < 100 \<longrightarrow> radial_solved eg (cm_coefficients m) xd (UndistortUnit eg m xd))"
  using undistort_radial_rounds [of 100 eg "cm_coefficients m" xd xd] assms by (auto simp: UndistortUnit_def)

section \<open>Projection and views\<close>

lemma Project_Inr:
  "Project eg m p = Inr px \<Longrightarrow> all_finite p \<and> \<not> fp_le (p ! 2) 0 \<and> length px = 2"
  by (auto simp: Project_def Let_def NormalizedToPixel_def split: if_splits)

lemma Unproject_Inr: "Unproject eg m px = Inr ray \<Longrightarrow> all_finite px"
  by (auto simp: Unproject_def Let_def split: if_splits)

text \<open>The views have the order of the images, not that of the identities of the images.\<close>

lemma views_in_image_order:
  assumes "InitializeReprojectionViews eg r = Inr views"
  shows "map vw_image_id views = map ri_image_id (rn_images r) \<and> list_all (\<lambda>v. model_complete (vw_model v)) views"
proof -
  have "map vw_image_id views = map ri_image_id imgs \<and> list_all (\<lambda>v. model_complete (vw_model v)) views"
    if "traverse_res (image_view eg (rn_cameras r)) imgs = Inr views" for imgs views
    using that
  proof (induction imgs arbitrary: views)
    case (Cons img imgs)
    then obtain v vs where v: "image_view eg (rn_cameras r) img = Inr v" "traverse_res (image_view eg (rn_cameras r)) imgs = Inr vs"
      "views = v # vs" by (auto simp: rbind_Inr)
    then have "vw_image_id v = ri_image_id img" "\<exists>c. FromReconCamera (eg_fp eg) c = Inr (vw_model v)"
      by (auto simp: image_view_def rbind_Inr split: option.splits)
    moreover note FromReconCamera_complete(2)
    ultimately show ?case using Cons.IH [OF v(2)] v(3) by auto
  qed simp
  with assms show ?thesis by (simp add: InitializeReprojectionViews_def)
qed

lemma find_view_Some: "find_view views i = Some v \<Longrightarrow> v \<in> set views \<and> vw_image_id v = i"
  by (auto simp: find_view_def find_Some_iff)

end
