(* ===== verification/Reprojection.thy ===== *)
theory Reprojection
  imports CameraModels BundleAdjustment
begin

text \<open>
  Reprojection errors: core/geometry/reprojection.h (its gate is in BundleAdjustment, its views are in CameraModels). The lemmas show that an
  evaluation fails unless every observation resolves, and that its counts add up: over inliers and outliers, over images and over points.
\<close>

section \<open>Data\<close>

record ReprojectionResidual =
  rr_image_id :: int
  rr_point3d_id :: int
  rr_point2d_idx :: int
  rr_residual_px :: u64
  rr_inlier :: bool

record PerImageReprojection =
  im_image_id :: int
  im_rmse_px :: u64
  im_mean_error_px :: u64
  im_total_count :: nat
  im_inlier_count :: nat
  im_outlier_count :: nat

record PerPointReprojection =
  pt_point3d_id :: int
  pt_error_px :: u64
  pt_total_count :: nat
  pt_inlier_count :: nat

record ReprojectionMetrics =
  rx_rmse_px :: u64
  rx_mean_error_px :: u64
  rx_median_error_px :: u64
  rx_threshold_px :: u64
  rx_total_count :: nat
  rx_inlier_count :: nat
  rx_outlier_count :: nat
  rx_per_image :: "PerImageReprojection list"
  rx_per_point :: "PerPointReprojection list"

section \<open>Residuals\<close>

definition reprojection_error :: "string \<Rightarrow> exn" where
  "reprojection_error what = throw_error kValidationDomain (''reprojection: '' @ what)"

definition ReprojectionThreshold :: "arith \<Rightarrow> u64 \<Rightarrow> u64" where
  "ReprojectionThreshold fp median_error_px =
     (let threshold = fa_mul fp (fa_ratio fp 3 1) median_error_px in
      if fp_less (fa_ratio fp 2 1) threshold then threshold else fa_ratio fp 2 1)"

definition ProjectPoint :: "'q geometry \<Rightarrow> 'q CameraView \<Rightarrow> u64 list \<Rightarrow> u64 list res" where
  "ProjectPoint eg view xyz =
     Project eg (vw_model view) (TransformPoint eg (SE3_Inverse (eg_pose eg) (vw_world_from_camera view)) xyz)"

definition ComputeObservationResidual :: "'q geometry \<Rightarrow> 'q CameraView \<Rightarrow> u64 list \<Rightarrow> u64 list \<Rightarrow> u64 res" where
  "ComputeObservationResidual eg view xyz keypoint =
     (if \<not> all_finite keypoint then Inl (reprojection_error ''non-finite keypoint coordinate'')
      else rbind (ProjectPoint eg view xyz) (\<lambda>projected.
        if \<not> all_finite projected then Inl (reprojection_error ''non-finite projected pixel'')
        else Inr (eg_norm eg (vec_sub (eg_fp eg) keypoint projected))))"

definition keypoint_of :: "ReprojectionObservation \<Rightarrow> u64 list" where
  "keypoint_of obs = [fst (ro_keypoint_2d obs), snd (ro_keypoint_2d obs)]"

definition observation_residual :: "'q geometry \<Rightarrow> 'q CameraView list \<Rightarrow> (int \<times> u64 list) list \<Rightarrow> ReprojectionObservation \<Rightarrow> u64 res" where
  "observation_residual eg views points obs =
     (case find_view views (ro_image_id obs) of
        None \<Rightarrow> Inl (reprojection_error ''observation references unknown image_id'')
      | Some view \<Rightarrow> (case List.find (\<lambda>p. fst p = ro_point3d_id obs) points of
            None \<Rightarrow> Inl (reprojection_error ''observation references unknown point3d_id'')
          | Some p \<Rightarrow> ComputeObservationResidual eg view (snd p) (keypoint_of obs)))"

section \<open>Aggregates\<close>

text \<open>The middle of the sorted numbers; residuals are never NaN, so that sorting is determined.\<close>

definition median :: "arith \<Rightarrow> u64 list \<Rightarrow> u64" where
  "median fp ds = (let s = sort_key fp_key ds; n = length s in
     if n = 0 then 0
     else if n mod 2 = 0 then fa_mul fp (fa_ratio fp 1 2) (fa_add fp (s ! (n div 2 - 1)) (s ! (n div 2)))
     else s ! (n div 2))"

definition total_of :: "arith \<Rightarrow> u64 list \<Rightarrow> u64" where
  "total_of fp ds = foldl (fa_add fp) 0 ds"

definition mean_of :: "arith \<Rightarrow> u64 list \<Rightarrow> u64" where
  "mean_of fp ds = (if ds = [] then 0 else fa_div fp (total_of fp ds) (fa_of_int fp (int (length ds))))"

definition rms_of :: "arith \<Rightarrow> u64 list \<Rightarrow> u64" where
  "rms_of fp ds = (if ds = [] then 0
     else fa_sqrt fp (fa_div fp (total_of fp (map (\<lambda>r. fa_mul fp r r) ds)) (fa_of_int fp (int (length ds)))))"

text \<open>Observations with their residuals, and the identities among them in increasing order.\<close>

type_synonym measured = "(ReprojectionObservation \<times> u64) list"

definition residuals_at :: "(ReprojectionObservation \<Rightarrow> int) \<Rightarrow> int \<Rightarrow> measured \<Rightarrow> u64 list" where
  "residuals_at key i measured = map snd (filter (\<lambda>(obs, r). key obs = i) measured)"

definition ids_of :: "(ReprojectionObservation \<Rightarrow> int) \<Rightarrow> ReprojectionObservation list \<Rightarrow> int list" where
  "ids_of key observations = sort (remdups (map key observations))"

definition image_aggregate :: "arith \<Rightarrow> u64 \<Rightarrow> measured \<Rightarrow> int \<Rightarrow> PerImageReprojection" where
  "image_aggregate fp threshold measured i =
     (let rs = residuals_at ro_image_id i measured; inliers = filter (\<lambda>r. fp_le r threshold) rs in
      \<lparr>im_image_id = i, im_rmse_px = rms_of fp inliers, im_mean_error_px = mean_of fp inliers, im_total_count = length rs,
       im_inlier_count = length inliers, im_outlier_count = length (filter (\<lambda>r. \<not> fp_le r threshold) rs)\<rparr>)"

definition point_aggregate :: "arith \<Rightarrow> u64 \<Rightarrow> measured \<Rightarrow> int \<Rightarrow> PerPointReprojection" where
  "point_aggregate fp threshold measured i =
     (let rs = residuals_at ro_point3d_id i measured; inliers = filter (\<lambda>r. fp_le r threshold) rs in
      \<lparr>pt_point3d_id = i, pt_error_px = mean_of fp inliers, pt_total_count = length rs, pt_inlier_count = length inliers\<rparr>)"

definition metrics_of :: "arith \<Rightarrow> ReprojectionObservation list \<Rightarrow> u64 list \<Rightarrow> ReprojectionMetrics" where
  "metrics_of fp observations rs =
     (let threshold = ReprojectionThreshold fp (median fp rs); inliers = filter (\<lambda>r. fp_le r threshold) rs;
          measured = zip observations rs in
      \<lparr>rx_rmse_px = rms_of fp inliers, rx_mean_error_px = mean_of fp inliers, rx_median_error_px = median fp rs, rx_threshold_px = threshold,
       rx_total_count = length rs, rx_inlier_count = length inliers, rx_outlier_count = length (filter (\<lambda>r. \<not> fp_le r threshold) rs),
       rx_per_image = map (image_aggregate fp threshold measured) (ids_of ro_image_id observations),
       rx_per_point = map (point_aggregate fp threshold measured) (ids_of ro_point3d_id observations)\<rparr>)"

definition residual_row :: "u64 \<Rightarrow> ReprojectionObservation \<times> u64 \<Rightarrow> ReprojectionResidual" where
  "residual_row threshold entry = \<lparr>rr_image_id = ro_image_id (fst entry), rr_point3d_id = ro_point3d_id (fst entry), rr_point2d_idx = 0,
     rr_residual_px = snd entry, rr_inlier = fp_le (snd entry) threshold\<rparr>"

text \<open>The residuals are the second result; the code stores them only for a caller that asks for them.\<close>

definition EvaluateReprojection :: "'q geometry \<Rightarrow> 'q CameraView list \<Rightarrow> (int \<times> u64 list) list \<Rightarrow> ReprojectionObservation list \<Rightarrow>
    (ReprojectionMetrics \<times> ReprojectionResidual list) res" where
  "EvaluateReprojection eg views points observations =
     rbind (traverse_res (observation_residual eg views points) observations) (\<lambda>rs.
       let metrics = metrics_of (eg_fp eg) observations rs in
       Inr (metrics, map (residual_row (rx_threshold_px metrics)) (zip observations rs)))"

section \<open>Counting\<close>

lemma length_by_key:
  assumes "finite S" "key ` set xs \<subseteq> S"
  shows "(\<Sum>i\<in>S. length (filter (\<lambda>x. key x = i \<and> P x) xs)) = length (filter P xs)"
  using assms(2)
proof (induction xs)
  case (Cons x xs)
  have "length (filter (\<lambda>y. key y = i \<and> P y) (x # xs)) = (if key x = i \<and> P x then 1 else 0) + length (filter (\<lambda>y. key y = i \<and> P y) xs)" for i
    by simp
  then have "(\<Sum>i\<in>S. length (filter (\<lambda>y. key y = i \<and> P y) (x # xs))) =
      (\<Sum>i\<in>S. if key x = i \<and> P x then 1 else 0) + (\<Sum>i\<in>S. length (filter (\<lambda>y. key y = i \<and> P y) xs))"
    by (simp only: sum.distrib)
  moreover have "(\<Sum>i\<in>S. if key x = i \<and> P x then 1 else 0 :: nat) = (if P x then 1 else 0)"
    using assms(1) Cons.prems by (cases "P x") (simp_all add: sum.delta)
  ultimately show ?case using Cons by simp
qed simp

lemma ids_of_set: "distinct (ids_of key observations)" "set (ids_of key observations) = key ` set observations" "sorted (ids_of key observations)"
  by (simp_all add: ids_of_def)

lemma residuals_at_filter:
  "length (filter P (residuals_at key i measured)) = length (filter (\<lambda>e. key (fst e) = i \<and> P (snd e)) measured)"
  by (induction measured) (auto simp: residuals_at_def)

lemma residuals_by_id:
  assumes "length rs = length observations"
  shows "(\<Sum>i\<leftarrow>ids_of key observations. length (filter P (residuals_at key i (zip observations rs)))) = length (filter P rs)"
proof -
  have "(\<lambda>e. key (fst e)) ` set (zip observations rs) \<subseteq> key ` set observations" by (auto dest: set_zip_leftD)
  then have "(\<Sum>i\<in>key ` set observations. length (filter (\<lambda>e. key (fst e) = i \<and> P (snd e)) (zip observations rs))) =
      length (filter (\<lambda>e. P (snd e)) (zip observations rs))" by (rule length_by_key [OF finite_imageI [OF finite_set]])
  moreover have "length (filter (\<lambda>e. P (snd e)) (zip observations rs)) = length (filter P rs)"
    using assms by (induction rs observations rule: list_induct2) simp_all
  ultimately show ?thesis by (simp add: residuals_at_filter sum_list_distinct_conv_sum_set ids_of_set)
qed

lemma residuals_by_id_all:
  assumes "length rs = length observations"
  shows "(\<Sum>i\<leftarrow>ids_of key observations. length (residuals_at key i (zip observations rs))) = length rs"
  using residuals_by_id [OF assms, where P = "\<lambda>r. True"] by simp

text \<open>An observation whose image and point are known, with a finite pixel and a finite projection in front of the camera.\<close>

definition resolves :: "'q geometry \<Rightarrow> 'q CameraView list \<Rightarrow> (int \<times> u64 list) list \<Rightarrow> ReprojectionObservation \<Rightarrow> bool" where
  "resolves eg views points obs \<longleftrightarrow>
     (\<exists>view xyz projected. view \<in> set views \<and> vw_image_id view = ro_image_id obs \<and> (ro_point3d_id obs, xyz) \<in> set points \<and>
       all_finite (keypoint_of obs) \<and> ProjectPoint eg view xyz = Inr projected \<and> all_finite projected)"

lemma observation_residual_resolves: "observation_residual eg views points obs = Inr r \<Longrightarrow> resolves eg views points obs"
  unfolding observation_residual_def ComputeObservationResidual_def resolves_def
  by (auto simp: rbind_Inr find_Some_iff split: option.splits if_splits dest!: find_view_Some) (metis nth_mem prod.collapse)+

lemma traverse_res_each:
  "traverse_res f xs = Inr ys \<Longrightarrow> length ys = length xs \<and> (\<forall>x\<in>set xs. \<exists>y. f x = Inr y)"
  by (induction xs arbitrary: ys) (auto simp: rbind_Inr)

text \<open>
  An evaluation that returns has resolved every observation. Its counts are those of the observations, split into inliers and outliers; the
  same holds for the groups of each image and of each point, which come in increasing order of identities and cover all observations.
  The residuals come in the order of the observations and are inliers exactly up to the threshold.\<close>

theorem reprojection_counts:
  assumes "EvaluateReprojection eg views points observations = Inr (m, residuals)"
  shows "list_all (resolves eg views points) observations \<and>
    rx_total_count m = length observations \<and> rx_inlier_count m + rx_outlier_count m = length observations \<and>
    map rr_image_id residuals = map ro_image_id observations \<and> map rr_point3d_id residuals = map ro_point3d_id observations \<and>
    list_all (\<lambda>r. rr_inlier r = fp_le (rr_residual_px r) (rx_threshold_px m)) residuals \<and>
    rx_inlier_count m = length (filter rr_inlier residuals) \<and>
    sorted (map im_image_id (rx_per_image m)) \<and> distinct (map im_image_id (rx_per_image m)) \<and>
    sorted (map pt_point3d_id (rx_per_point m)) \<and> distinct (map pt_point3d_id (rx_per_point m)) \<and>
    list_all (\<lambda>a. im_inlier_count a + im_outlier_count a = im_total_count a) (rx_per_image m) \<and>
    sum_list (map im_total_count (rx_per_image m)) = length observations \<and>
    sum_list (map im_inlier_count (rx_per_image m)) = rx_inlier_count m \<and>
    sum_list (map pt_total_count (rx_per_point m)) = length observations \<and>
    sum_list (map pt_inlier_count (rx_per_point m)) = rx_inlier_count m"
proof -
  from assms obtain rs where rs: "traverse_res (observation_residual eg views points) observations = Inr rs"
    and m: "m = metrics_of (eg_fp eg) observations rs" and residuals: "residuals = map (residual_row (rx_threshold_px m)) (zip observations rs)"
    by (auto simp: EvaluateReprojection_def rbind_Inr Let_def)
  from traverse_res_each [OF rs] have len: "length rs = length observations"
    and res: "list_all (resolves eg views points) observations" by (auto simp: list_all_iff dest: observation_residual_resolves)
  let ?in = "\<lambda>r. fp_le r (rx_threshold_px m)"
  have counts: "rx_total_count m = length rs" "rx_inlier_count m = length (filter ?in rs)" "rx_outlier_count m = length (filter (\<lambda>r. \<not> ?in r) rs)"
    and groups: "rx_per_image m = map (image_aggregate (eg_fp eg) (rx_threshold_px m) (zip observations rs)) (ids_of ro_image_id observations)"
      "rx_per_point m = map (point_aggregate (eg_fp eg) (rx_threshold_px m) (zip observations rs)) (ids_of ro_point3d_id observations)"
    by (simp_all add: m metrics_of_def Let_def)
  have ids: "map im_image_id (rx_per_image m) = ids_of ro_image_id observations" "map pt_point3d_id (rx_per_point m) = ids_of ro_point3d_id observations"
    by (simp_all add: groups image_aggregate_def point_aggregate_def Let_def comp_def)
  have split: "length (filter P xs) + length (filter (\<lambda>x. \<not> P x) xs) = length xs" for P and xs :: "u64 list" by (rule sum_length_filter_compl)
  have rows: "map rr_image_id residuals = map ro_image_id observations" "map rr_point3d_id residuals = map ro_point3d_id observations"
    "length (filter rr_inlier residuals) = length (filter ?in rs)"
    unfolding residuals using len by (induction rs observations rule: list_induct2) (simp_all add: residual_row_def)
  have images: "sum_list (map im_total_count (rx_per_image m)) = length rs" "sum_list (map im_inlier_count (rx_per_image m)) = length (filter ?in rs)"
    "list_all (\<lambda>a. im_inlier_count a + im_outlier_count a = im_total_count a) (rx_per_image m)"
    using residuals_by_id_all [OF len, of ro_image_id] residuals_by_id [OF len, where key = ro_image_id and P = ?in] split
    by (simp_all add: groups image_aggregate_def Let_def comp_def list_all_iff)
  have points: "sum_list (map pt_total_count (rx_per_point m)) = length rs" "sum_list (map pt_inlier_count (rx_per_point m)) = length (filter ?in rs)"
    using residuals_by_id_all [OF len, of ro_point3d_id] residuals_by_id [OF len, where key = ro_point3d_id and P = ?in]
    by (simp_all add: groups point_aggregate_def Let_def comp_def)
  have "list_all (\<lambda>r. rr_inlier r = fp_le (rr_residual_px r) (rx_threshold_px m)) residuals"
    by (simp add: residuals list_all_iff residual_row_def)
  then show ?thesis using res counts split [of ?in rs] len ids ids_of_set rows images points by simp
qed

section \<open>An example\<close>

text \<open>The arithmetic in which every result is 1, a pinhole camera, and two observations of one point.\<close>

definition unit_geometry :: "unit geometry" where
  "unit_geometry = \<lparr>eg_pose = unit_math, eg_dot = (\<lambda>a b. one unit_math), eg_norm = (\<lambda>v. one unit_math), eg_unit = (\<lambda>v. v),
     eg_rotate_back = (\<lambda>q v. v), eg_tan = (\<lambda>x. x), eg_atan = (\<lambda>x. x), eg_acos = (\<lambda>x. x)\<rparr>"

definition unit_camera :: ReconCamera where
  "unit_camera = \<lparr>rc_camera_id = 1, rc_width = 1, rc_height = 1, rc_intrinsic_model = ''pinhole'', rc_fx = one unit_math, rc_fy = one unit_math,
     rc_cx = 0, rc_cy = 0, rc_distortion_model = [], rc_distortion_coefficients = [], rc_calibration_ref = []\<rparr>"

definition unit_image :: "int \<Rightarrow> ReconImage" where
  "unit_image i = \<lparr>ri_image_id = i, ri_camera_id = 1, ri_frame_id = ''f'', ri_name = ''n'',
     ri_pose = \<lparr>po_rotation_xyzw = [0, 0, 0, one unit_math], po_translation_xyz = [0, 0, 0]\<rparr>, ri_detected = True\<rparr>"

definition unit_observation :: "int \<Rightarrow> ReprojectionObservation" where
  "unit_observation i = \<lparr>ro_image_id = i, ro_point3d_id = 5, ro_keypoint_2d = (0, 0)\<rparr>"

lemma reprojection_counts_witness:
  "\<exists>views m residuals. EvaluateReprojection unit_geometry views [(5, [0, 0, 0])] [unit_observation 2, unit_observation 1] = Inr (m, residuals) \<and>
    rx_total_count m = 2 \<and> sum_list (map im_total_count (rx_per_image m)) = 2 \<and> map rr_image_id residuals = [2, 1]"
proof -
  let ?views = "projr (traverse_res (image_view unit_geometry [unit_camera]) [unit_image 2, unit_image 1])"
  have "(case EvaluateReprojection unit_geometry ?views [(5, [0, 0, 0])] [unit_observation 2, unit_observation 1] of Inr r \<Rightarrow> True | Inl e \<Rightarrow> False)"
    by code_simp
  then obtain m residuals where r: "EvaluateReprojection unit_geometry ?views [(5, [0, 0, 0])] [unit_observation 2, unit_observation 1] = Inr (m, residuals)"
    by (auto split: sum.splits)
  have ids: "map ro_image_id [unit_observation 2, unit_observation 1] = [2, 1]" by (simp add: unit_observation_def)
  from reprojection_counts [OF r, unfolded ids] have "rx_total_count m = 2 \<and> sum_list (map im_total_count (rx_per_image m)) = 2 \<and> map rr_image_id residuals = [2, 1]"
    by simp
  with r show ?thesis by (elim conjE) (intro exI conjI)
qed

end
