(* ===== verification/Triangulation.thy ===== *)
theory Triangulation
  imports Reprojection
begin

text \<open>
  The re-triangulation of a revision: core/geometry/triangulation.h and triangulation_observations.h. Every point is intersected again from
  the poses of its revision and accepted or rejected. The lemmas show where the new points come from, when their identities are distinct
  and what the acceptance of a residual depends on.
\<close>

section \<open>Data\<close>

record TriangulationObservation =
  to_image_id :: int
  to_point2d_idx :: int
  to_keypoint_2d :: "u64 list"

definition MakeTriangulationObservation :: "int \<Rightarrow> int \<Rightarrow> u64 \<Rightarrow> u64 \<Rightarrow> TriangulationObservation" where
  "MakeTriangulationObservation image_id point2d_idx x y = \<lparr>to_image_id = image_id, to_point2d_idx = point2d_idx, to_keypoint_2d = [x, y]\<rparr>"

datatype TriangulationAcceptance =
  kAccepted | kRejectedNonFinite | kRejectedNegativeDepth | kRejectedLowParallax | kRejectedHighResidual

datatype PointLineage = kPreserved | kReplaced | kNew | kRejected

record PointLineageEntry =
  pl_old_point3d_id :: int
  pl_new_point3d_id :: int
  pl_lineage :: PointLineage

record RetriangulationLineageSummary =
  ls_preserved_count :: nat
  ls_replaced_count :: nat
  ls_new_count :: nat
  ls_rejected_count :: nat

record RetriangulationOptions =
  rt_min_parallax_deg :: u64
  rt_stability_threshold_m :: u64

definition default_retriangulation :: "arith \<Rightarrow> RetriangulationOptions" where
  "default_retriangulation fp = \<lparr>rt_min_parallax_deg = fa_ratio fp 2 1, rt_stability_threshold_m = fa_ratio fp 1 100\<rparr>"

record TriangulationCandidate =
  tc_xyz :: "u64 list"
  tc_parallax_deg :: u64
  tc_acceptance :: TriangulationAcceptance

record RetriangulationResult =
  rs_reconstruction :: Reconstruction
  rs_lineage :: RetriangulationLineageSummary
  rs_point_lineage :: "PointLineageEntry list"

section \<open>Two rays\<close>

definition pi_double :: "arith \<Rightarrow> u64" where
  "pi_double fp = fa_ratio fp 314159265358979323846 100000000000000000000"

definition clamped :: "arith \<Rightarrow> u64 \<Rightarrow> u64" where
  "clamped fp c =
     (let one = fa_ratio fp 1 1; minus_one = fa_ratio fp (- 1) 1; low = (if fp_less c one then c else one) in
      if fp_less minus_one low then low else minus_one)"

definition depth_in :: "'q geometry \<Rightarrow> 'q CameraView \<Rightarrow> u64 list \<Rightarrow> u64" where
  "depth_in eg view xyz = TransformPoint eg (SE3_Inverse (eg_pose eg) (vw_world_from_camera view)) xyz ! 2"

definition rejected_ray :: "TriangulationAcceptance \<Rightarrow> TriangulationCandidate" where
  "rejected_ray why = \<lparr>tc_xyz = [0, 0, 0], tc_parallax_deg = 0, tc_acceptance = why\<rparr>"

definition intersect_rays :: "'q geometry \<Rightarrow> 'q CameraView \<Rightarrow> u64 list \<Rightarrow> 'q CameraView \<Rightarrow> u64 list \<Rightarrow> u64 \<Rightarrow> TriangulationCandidate" where
  "intersect_rays eg view1 ray_w1 view2 ray_w2 min_parallax_deg =
     (let fp = eg_fp eg; mul = fa_mul fp; sub = fa_sub fp;
          origin1 = se_translation (vw_world_from_camera view1); origin2 = se_translation (vw_world_from_camera view2);
          e = vec_sub fp origin2 origin1;
          A = eg_dot eg ray_w1 ray_w1; B = eg_dot eg ray_w1 ray_w2; C = eg_dot eg ray_w2 ray_w2; D = eg_dot eg ray_w1 e; E = eg_dot eg ray_w2 e;
          denom = sub (mul A C) (mul B B) in
      if fp_less (fa_abs fp denom) (unit_tiny fp) then rejected_ray kRejectedLowParallax
      else
        let t = fa_div fp (sub (mul C D) (mul B E)) denom; s = fa_div fp (sub (mul B D) (mul A E)) denom;
            p1 = vec_add fp origin1 (scaled fp t ray_w1); p2 = vec_add fp origin2 (scaled fp s ray_w2);
            xyz = scaled fp (fa_ratio fp 1 2) (vec_add fp p1 p2) in
        if \<not> all_finite xyz then rejected_ray kRejectedNonFinite
        else if fp_le (depth_in eg view1 xyz) 0 \<or> fp_le (depth_in eg view2 xyz) 0
        then \<lparr>tc_xyz = xyz, tc_parallax_deg = 0, tc_acceptance = kRejectedNegativeDepth\<rparr>
        else
          let angle_rad = eg_acos eg (clamped fp (eg_dot eg (eg_unit eg ray_w1) (eg_unit eg ray_w2)));
              angle_deg = fa_div fp (mul angle_rad (fa_ratio fp 180 1)) (pi_double fp) in
          \<lparr>tc_xyz = xyz, tc_parallax_deg = angle_deg,
           tc_acceptance = (if fp_less angle_deg min_parallax_deg then kRejectedLowParallax else kAccepted)\<rparr>)"

definition world_ray :: "'q geometry \<Rightarrow> 'q CameraView \<Rightarrow> u64 list \<Rightarrow> u64 list" where
  "world_ray eg view ray = pm_rotate (eg_pose eg) (se_rotation (vw_world_from_camera view)) ray"

definition TriangulateTwoRays :: "'q geometry \<Rightarrow> 'q CameraView \<Rightarrow> u64 list \<Rightarrow> 'q CameraView \<Rightarrow> u64 list \<Rightarrow> u64 \<Rightarrow> TriangulationCandidate res" where
  "TriangulateTwoRays eg view1 pixel1 view2 pixel2 min_parallax_deg =
     rbind (Unproject eg (vw_model view1) pixel1) (\<lambda>ray1.
     rbind (Unproject eg (vw_model view2) pixel2) (\<lambda>ray2.
       Inr (intersect_rays eg view1 (world_ray eg view1 ray1) view2 (world_ray eg view2 ray2) min_parallax_deg)))"

section \<open>The residual of a point\<close>

definition max_double :: u64 where
  "max_double = 0x7FEFFFFFFFFFFFFF"

text \<open>The views of a track with their pixels; a point behind one of the cameras has the greatest number as its residual.\<close>

fun residual_sum :: "'q geometry \<Rightarrow> u64 list \<Rightarrow> ('q CameraView \<times> u64 list) list \<Rightarrow> u64 \<Rightarrow> (u64 option) res" where
  "residual_sum eg xyz [] acc = Inr (Some acc)"
| "residual_sum eg xyz ((view, keypoint) # rest) acc =
     (let pose = vw_world_from_camera view; p_c = eg_rotate_back eg (se_rotation pose) (vec_sub (eg_fp eg) xyz (se_translation pose)) in
      if fp_le (p_c ! 2) 0 then Inr None
      else rbind (Project eg (vw_model view) p_c) (\<lambda>projected.
        if \<not> all_finite projected then Inr None
        else residual_sum eg xyz rest (fa_add (eg_fp eg) acc (eg_norm eg (vec_sub (eg_fp eg) keypoint projected)))))"

definition ComputePointReprojectionError :: "'q geometry \<Rightarrow> u64 list \<Rightarrow> ('q CameraView \<times> u64 list) list \<Rightarrow> u64 res" where
  "ComputePointReprojectionError eg xyz seen =
     (if seen = [] then Inr 0
      else rbind (residual_sum eg xyz seen 0) (\<lambda>total. case total of
          None \<Rightarrow> Inr max_double
        | Some s \<Rightarrow> Inr (fa_div (eg_fp eg) s (fa_of_int (eg_fp eg) (int (length seen))))))"

section \<open>Keypoints\<close>

text \<open>
  The keypoints, sorted by image and index. The order that \<open>std::sort\<close> gives to several of the same image and index is not defined: the sort
  is an argument.
\<close>

type_synonym keyed_pixel = "(int \<times> int) \<times> u64 list"
type_synonym keypoint_sort = "keyed_pixel list \<Rightarrow> keyed_pixel list"

fun key_less :: "int \<times> int \<Rightarrow> int \<times> int \<Rightarrow> bool" where
  "key_less (i, k) (i', k') = (if i \<noteq> i' then i < i' else k < k')"

definition sorted_keypoints :: "keypoint_sort \<Rightarrow> TriangulationObservation list \<Rightarrow> keyed_pixel list res" where
  "sorted_keypoints order observations =
     rbind (traverse_res (\<lambda>obs. if \<not> all_finite (to_keypoint_2d obs)
         then Inl (throw_error kValidationDomain ''retriangulate: non-finite keypoint in observations'')
         else Inr ((to_image_id obs, to_point2d_idx obs), to_keypoint_2d obs)) observations) (\<lambda>kpts. Inr (order kpts))"

definition find_keypoint :: "keyed_pixel list \<Rightarrow> TrackElement \<Rightarrow> u64 list option" where
  "find_keypoint kpts te = (let key = (te_image_id te, te_point2d_idx te) in
     case List.find (\<lambda>p. \<not> key_less (fst p) key) kpts of
       None \<Rightarrow> None | Some p \<Rightarrow> if fst p = key then Some (snd p) else None)"

section \<open>Candidates\<close>

text \<open>The fields that the code sets and never reads are left out.\<close>

record PointCandidate =
  pc_old_point3d_id :: int
  pc_xyz :: "u64 list"
  pc_v2_xyz :: "u64 list"
  pc_parallax_deg :: u64
  pc_mean_residual_px :: u64
  pc_geometric_acceptance :: TriangulationAcceptance
  pc_reprojection_acceptance :: bool

definition new_candidate :: "ReconPoint3D \<Rightarrow> PointCandidate" where
  "new_candidate pt = \<lparr>pc_old_point3d_id = p3_point3d_id pt, pc_xyz = [0, 0, 0], pc_v2_xyz = p3_xyz pt, pc_parallax_deg = 0,
     pc_mean_residual_px = 0, pc_geometric_acceptance = kRejectedNonFinite, pc_reprojection_acceptance = False\<rparr>"

definition point_candidate :: "'q geometry \<Rightarrow> RetriangulationOptions \<Rightarrow> 'q CameraView list \<Rightarrow> keyed_pixel list \<Rightarrow> ReconPoint3D \<Rightarrow>
    PointCandidate res" where
  "point_candidate eg options views kpts pt =
     (case p3_track pt of
        t1 # t2 # rest \<Rightarrow>
          (case (find_keypoint kpts t1, find_keypoint kpts t2, find_view views (te_image_id t1), find_view views (te_image_id t2)) of
             (Some k1, Some k2, Some v1, Some v2) \<Rightarrow>
               rbind (TriangulateTwoRays eg v1 k1 v2 k2 (rt_min_parallax_deg options)) (\<lambda>tc.
                 Inr ((new_candidate pt)\<lparr>pc_geometric_acceptance := tc_acceptance tc, pc_xyz := tc_xyz tc, pc_parallax_deg := tc_parallax_deg tc\<rparr>))
           | _ \<Rightarrow> Inr (new_candidate pt))
      | _ \<Rightarrow> Inr (new_candidate pt))"

definition point_of :: "Reconstruction \<Rightarrow> int \<Rightarrow> ReconPoint3D option" where
  "point_of r point3d_id = List.find (\<lambda>pt. p3_point3d_id pt = point3d_id) (rn_points3D r)"

definition seen_by :: "'q CameraView list \<Rightarrow> keyed_pixel list \<Rightarrow> TrackElement list \<Rightarrow> ('q CameraView \<times> u64 list) list" where
  "seen_by views kpts track = List.map_filter (\<lambda>te. case (find_view views (te_image_id te), find_keypoint kpts te) of
     (Some view, Some kpt) \<Rightarrow> Some (view, kpt) | _ \<Rightarrow> None) track"

text \<open>The first pass over the residuals: the candidate and whether its residual counts for the median.\<close>

definition with_residual :: "'q geometry \<Rightarrow> 'q CameraView list \<Rightarrow> keyed_pixel list \<Rightarrow> Reconstruction \<Rightarrow> PointCandidate \<Rightarrow>
    (PointCandidate \<times> bool) res" where
  "with_residual eg views kpts v2 cand =
     (if pc_geometric_acceptance cand \<noteq> kAccepted then Inr (cand, False)
      else (case point_of v2 (pc_old_point3d_id cand) of
          None \<Rightarrow> Inr (cand, False)
        | Some pt \<Rightarrow>
            let seen = seen_by views kpts (p3_track pt) in
            if length seen < 2 then Inr (cand, False)
            else rbind (ComputePointReprojectionError eg (pc_xyz cand) seen) (\<lambda>r.
              Inr (cand\<lparr>pc_mean_residual_px := r\<rparr>, finite_double r))))"

definition all_residuals :: "(PointCandidate \<times> bool) list \<Rightarrow> u64 list" where
  "all_residuals measured = map (pc_mean_residual_px \<circ> fst) (filter snd measured)"

definition global_threshold :: "arith \<Rightarrow> u64 list \<Rightarrow> u64" where
  "global_threshold fp residuals = (if residuals = [] then fa_ratio fp 2 1 else ReprojectionThreshold fp (median fp residuals))"

definition accept_residual :: "u64 \<Rightarrow> PointCandidate \<Rightarrow> PointCandidate" where
  "accept_residual threshold cand =
     (if pc_geometric_acceptance cand \<noteq> kAccepted then cand\<lparr>pc_reprojection_acceptance := False\<rparr>
      else if fp_le (pc_mean_residual_px cand) threshold then cand\<lparr>pc_reprojection_acceptance := True\<rparr>
      else cand\<lparr>pc_reprojection_acceptance := False, pc_geometric_acceptance := kRejectedHighResidual\<rparr>)"

section \<open>The new points\<close>

definition displacement :: "arith \<Rightarrow> PointCandidate \<Rightarrow> u64" where
  "displacement fp cand = Norm3 fp (vec_sub fp (pc_xyz cand) (pc_v2_xyz cand))"

definition lineage_of :: "arith \<Rightarrow> RetriangulationOptions \<Rightarrow> PointCandidate \<Rightarrow> PointLineage" where
  "lineage_of fp options cand =
     (if pc_geometric_acceptance cand \<noteq> kAccepted \<or> \<not> pc_reprojection_acceptance cand then kRejected
      else if fp_less (displacement fp cand) (rt_stability_threshold_m options) then kPreserved else kReplaced)"

definition new_point :: "Reconstruction \<Rightarrow> PointCandidate \<Rightarrow> int \<Rightarrow> ReconPoint3D" where
  "new_point v2 cand point3d_id = (let old = point_of v2 (pc_old_point3d_id cand) in
     \<lparr>p3_point3d_id = point3d_id, p3_xyz = pc_xyz cand, p3_color = (case old of None \<Rightarrow> [0, 0, 0] | Some pt \<Rightarrow> p3_color pt),
      p3_error = pc_mean_residual_px cand, p3_track = (case old of None \<Rightarrow> [] | Some pt \<Rightarrow> p3_track pt)\<rparr>)"

fun emit_points :: "arith \<Rightarrow> RetriangulationOptions \<Rightarrow> Reconstruction \<Rightarrow> int \<Rightarrow> PointCandidate list \<Rightarrow>
    ReconPoint3D list \<times> PointLineageEntry list" where
  "emit_points fp options v2 next_point_id [] = ([], [])"
| "emit_points fp options v2 next_point_id (cand # cands) =
     (let lineage = lineage_of fp options cand; old = pc_old_point3d_id cand in
      case lineage of
        kRejected \<Rightarrow>
          let (pts, es) = emit_points fp options v2 next_point_id cands in
          (pts, \<lparr>pl_old_point3d_id = old, pl_new_point3d_id = 0, pl_lineage = kRejected\<rparr> # es)
      | kPreserved \<Rightarrow>
          let (pts, es) = emit_points fp options v2 next_point_id cands in
          (new_point v2 cand old # pts, \<lparr>pl_old_point3d_id = old, pl_new_point3d_id = old, pl_lineage = kPreserved\<rparr> # es)
      | _ \<Rightarrow>
          let (pts, es) = emit_points fp options v2 (next_point_id + 1) cands in
          (new_point v2 cand next_point_id # pts, \<lparr>pl_old_point3d_id = old, pl_new_point3d_id = next_point_id, pl_lineage = kReplaced\<rparr> # es))"

definition count_lineage :: "PointLineage \<Rightarrow> PointLineageEntry list \<Rightarrow> nat" where
  "count_lineage l es = length (filter (\<lambda>e. pl_lineage e = l) es)"

definition retriangulated_hashes :: "Reconstruction \<Rightarrow> string list" where
  "retriangulated_hashes v2 = (let hashes = rp_input_artifact_hashes (rn_provenance v2); own = rn_reconstruction_id v2 in
     sort (if own \<noteq> [] \<and> own \<notin> set hashes then hashes @ [own] else hashes))"

definition retriangulated_provenance :: "Reconstruction \<Rightarrow> ReconstructionProvenance" where
  "retriangulated_provenance v2 = no_provenance
     \<lparr>rp_backend := \<lparr>bi_name = ''spatial_retriangulator'', bi_version = ''1.0.0'', bi_adapter_version = ''1.0.0''\<rparr>,
      rp_input_artifact_hashes := retriangulated_hashes v2\<rparr>"

section \<open>The whole step\<close>

definition final_candidates :: "'q geometry \<Rightarrow> keypoint_sort \<Rightarrow> Reconstruction \<Rightarrow> TriangulationObservation list \<Rightarrow> RetriangulationOptions \<Rightarrow>
    PointCandidate list res" where
  "final_candidates eg order v2 observations options =
     rbind (InitializeReprojectionViews eg v2) (\<lambda>views.
     rbind (sorted_keypoints order observations) (\<lambda>kpts.
     rbind (traverse_res (point_candidate eg options views kpts) (rn_points3D v2)) (\<lambda>candidates.
     rbind (traverse_res (with_residual eg views kpts v2) candidates) (\<lambda>measured.
       Inr (map (accept_residual (global_threshold (eg_fp eg) (all_residuals measured))) (map fst measured))))))"

definition retriangulated :: "arith \<Rightarrow> RetriangulationOptions \<Rightarrow> Reconstruction \<Rightarrow> uuid \<Rightarrow> PointCandidate list \<Rightarrow> RetriangulationResult" where
  "retriangulated fp options v2 fresh_id candidates =
     (let (pts, es) = emit_points fp options v2 10001 candidates in
      \<lparr>rs_reconstruction = v2\<lparr>rn_reconstruction_id := FormatUuid fresh_id, rn_status := ''succeeded'', rn_created_at_ns := 0,
         rn_provenance := retriangulated_provenance v2, rn_points3D := pts\<rparr>,
       rs_lineage = \<lparr>ls_preserved_count = count_lineage kPreserved es, ls_replaced_count = count_lineage kReplaced es, ls_new_count = 0,
         ls_rejected_count = count_lineage kRejected es\<rparr>,
       rs_point_lineage = es\<rparr>)"

definition Retriangulate :: "'q geometry \<Rightarrow> keypoint_sort \<Rightarrow> Reconstruction \<Rightarrow> TriangulationObservation list \<Rightarrow> RetriangulationOptions \<Rightarrow>
    RetriangulationResult w_op" where
  "Retriangulate eg order v2 observations options =
     sbind (lift_res (final_candidates eg order v2 observations options)) (\<lambda>candidates.
     sbind new_uuid (\<lambda>fresh_id. sret (retriangulated (eg_fp eg) options v2 fresh_id candidates)))"

section \<open>Where the points come from\<close>

lemma traverse_res_map_eq:
  "traverse_res f xs = Inr ys \<Longrightarrow> (\<And>x y. f x = Inr y \<Longrightarrow> g y = h x) \<Longrightarrow> map g ys = map h xs"
  by (induction xs arbitrary: ys) (auto simp: rbind_Inr)

lemma point_candidate_old: "point_candidate eg options views kpts pt = Inr c \<Longrightarrow> pc_old_point3d_id c = p3_point3d_id pt"
  by (auto simp: point_candidate_def new_candidate_def rbind_Inr split: list.splits option.splits)

lemma with_residual_old: "with_residual eg views kpts v2 c = Inr (c', b) \<Longrightarrow> pc_old_point3d_id c' = pc_old_point3d_id c"
  by (auto simp: with_residual_def Let_def rbind_Inr split: if_splits option.splits)

lemma accept_residual_old [simp]: "pc_old_point3d_id (accept_residual t c) = pc_old_point3d_id c"
  by (simp add: accept_residual_def)

lemma final_candidates_old:
  assumes "final_candidates eg order v2 observations options = Inr cands"
  shows "map pc_old_point3d_id cands = map p3_point3d_id (rn_points3D v2)"
proof -
  from assms obtain views kpts cs ms where c: "traverse_res (point_candidate eg options views kpts) (rn_points3D v2) = Inr cs"
    and m: "traverse_res (with_residual eg views kpts v2) cs = Inr ms"
    and cands: "cands = map (accept_residual (global_threshold (eg_fp eg) (all_residuals ms))) (map fst ms)"
    by (auto simp: final_candidates_def rbind_Inr)
  have "map pc_old_point3d_id cands = map (\<lambda>x. pc_old_point3d_id (fst x)) ms" by (simp add: cands comp_def)
  also have "\<dots> = map pc_old_point3d_id cs" by (rule traverse_res_map_eq [OF m]) (metis prod.collapse with_residual_old)
  also have "\<dots> = map p3_point3d_id (rn_points3D v2)" by (rule traverse_res_map_eq [OF c]) (rule point_candidate_old)
  finally show ?thesis .
qed

text \<open>The candidates that give a point, and the point of the new revision for each of them.\<close>

definition emitted :: "arith \<Rightarrow> RetriangulationOptions \<Rightarrow> PointCandidate list \<Rightarrow> PointCandidate list" where
  "emitted fp options cands = filter (\<lambda>c. lineage_of fp options c \<noteq> kRejected) cands"

definition point_of_source :: "Reconstruction \<Rightarrow> PointCandidate \<Rightarrow> ReconPoint3D \<Rightarrow> bool" where
  "point_of_source v2 c p \<longleftrightarrow> (\<exists>old. point_of v2 (pc_old_point3d_id c) = Some old \<and> p3_track p = p3_track old \<and> p3_color p = p3_color old) \<and>
     p3_xyz p = pc_xyz c \<and> p3_error p = pc_mean_residual_px c"

lemma point_of_exists: "i \<in> p3_point3d_id ` set (rn_points3D v2) \<Longrightarrow> \<exists>old. point_of v2 i = Some old"
  by (cases "point_of v2 i") (auto simp: point_of_def find_None_iff)

lemma new_point_from:
  "pc_old_point3d_id c \<in> p3_point3d_id ` set (rn_points3D v2) \<Longrightarrow> point_of_source v2 c (new_point v2 c i) \<and> p3_point3d_id (new_point v2 c i) = i"
  using point_of_exists [of "pc_old_point3d_id c" v2] by (auto simp: point_of_source_def new_point_def Let_def)

lemma lineage_cases: "lineage_of fp options c \<in> {kRejected, kPreserved, kReplaced}"
  by (simp add: lineage_of_def)

lemma emit_lineage:
  "emit_points fp options v2 n cands = (pts, es) \<Longrightarrow>
    map pl_old_point3d_id es = map pc_old_point3d_id cands \<and> map pl_lineage es = map (lineage_of fp options) cands"
proof (induction cands arbitrary: n pts es)
  case (Cons c cands)
  then show ?case using lineage_cases [of fp options c] by (auto simp: Let_def split: PointLineage.splits prod.splits)
qed simp

lemma emit_points_from:
  assumes "emit_points fp options v2 n cands = (pts, es)" "pc_old_point3d_id ` set cands \<subseteq> p3_point3d_id ` set (rn_points3D v2)"
  shows "list_all2 (point_of_source v2) (emitted fp options cands) pts \<and>
    map p3_point3d_id pts = map pl_new_point3d_id (filter (\<lambda>e. pl_lineage e \<noteq> kRejected) es)"
  using assms
proof (induction cands arbitrary: n pts es)
  case (Cons c cands)
  then show ?case using lineage_cases [of fp options c] new_point_from [of c v2]
    by (auto simp: Let_def emitted_def split: PointLineage.splits prod.splits)
qed (simp add: emitted_def)

text \<open>The replaced points get the numbers from the given one on; the others keep theirs.\<close>

lemma emit_ids:
  assumes "emit_points fp options v2 n cands = (pts, es)"
  shows "map pl_new_point3d_id (filter (\<lambda>e. pl_lineage e = kReplaced) es) = map (\<lambda>k. n + int k) [0..<count_lineage kReplaced es] \<and>
    list_all (\<lambda>e. pl_lineage e = kPreserved \<longrightarrow> pl_new_point3d_id e = pl_old_point3d_id e) es"
  using assms
proof (induction cands arbitrary: n pts es)
  case (Cons c cands)
  have shift: "map (\<lambda>k. n + int k) [0..<Suc m] = n # map (\<lambda>k. n + 1 + int k) [0..<m]" for m
    by (simp add: upt_conv_Cons map_Suc_upt [symmetric] comp_def algebra_simps del: upt_Suc)
  from Cons show ?case using lineage_cases [of fp options c]
    by (auto simp: Let_def count_lineage_def shift simp del: upt_Suc split: PointLineage.splits prod.splits)
qed (simp add: count_lineage_def)


lemma Retriangulate_Inr:
  assumes "Retriangulate eg order v2 observations options w = (Inr r, w')"
  obtains fresh cands where "final_candidates eg order v2 observations options = Inr cands" "r = retriangulated (eg_fp eg) options v2 fresh cands"
  using assms unfolding Retriangulate_def lift_res_def sret_def by (elim sbind_InrE Pair_inject) blast

lemma retriangulated_fields:
  assumes "emit_points fp options v2 10001 cands = (pts, es)" "r = retriangulated fp options v2 fresh cands"
  shows "rs_point_lineage r = es"
    and "rs_reconstruction r = v2\<lparr>rn_reconstruction_id := FormatUuid fresh, rn_status := ''succeeded'', rn_created_at_ns := 0,
       rn_provenance := retriangulated_provenance v2, rn_points3D := pts\<rparr>"
    and "rs_lineage r = \<lparr>ls_preserved_count = count_lineage kPreserved es, ls_replaced_count = count_lineage kReplaced es, ls_new_count = 0,
       ls_rejected_count = count_lineage kRejected es\<rparr>"
  using assms by (simp_all add: retriangulated_def)


lemma distinct_either:
  fixes old new :: "'a \<Rightarrow> int"
  assumes "distinct (map old xs)" "distinct (map new (filter R xs))"
    and "\<And>x. x \<in> set xs \<Longrightarrow> K x \<Longrightarrow> new x = old x" "\<And>x. x \<in> set xs \<Longrightarrow> K x \<Longrightarrow> new x < n"
    and "\<And>x. x \<in> set xs \<Longrightarrow> R x \<Longrightarrow> n \<le> new x"
  shows "distinct (map new (filter (\<lambda>x. R x \<or> K x) xs))"
  using assms
proof (induction xs)
  case (Cons x xs)
  have "new x \<noteq> new y" if "y \<in> set xs" "R x \<or> K x" "R y \<or> K y" for y
  proof (cases "R x")
    case True
    then have "n \<le> new x" "R y \<Longrightarrow> new x \<noteq> new y" "K y \<Longrightarrow> new y < n" using Cons.prems that(1) by auto
    with that(3) show ?thesis by auto
  next
    case False
    then have "new x = old x" "new x < n" "K y \<Longrightarrow> new y = old y" "R y \<Longrightarrow> n \<le> new y" "old x \<noteq> old y"
      using Cons.prems that by auto
    with that(3) show ?thesis by auto
  qed
  moreover have "distinct (map new (filter (\<lambda>x. R x \<or> K x) xs))" using Cons by (auto split: if_splits)
  ultimately show ?case by auto
qed simp

text \<open>
  If the points of the source have distinct numbers below 10001, from which the new numbers start, then the points of the new revision have
  distinct numbers, and a point keeps its number exactly if it moved less than the threshold.\<close>

theorem retriangulated_ids_distinct:
  assumes "Retriangulate eg order v2 observations options w = (Inr r, w')"
    and "distinct (map p3_point3d_id (rn_points3D v2))" "list_all (\<lambda>p. p3_point3d_id p < 10001) (rn_points3D v2)"
  shows "distinct (map p3_point3d_id (rn_points3D (rs_reconstruction r))) \<and>
    list_all (\<lambda>e. pl_lineage e \<noteq> kRejected \<longrightarrow> (pl_new_point3d_id e = pl_old_point3d_id e) = (pl_lineage e = kPreserved)) (rs_point_lineage r)"
proof -
  from assms(1) obtain fresh cands where c: "final_candidates eg order v2 observations options = Inr cands"
    and rr: "r = retriangulated (eg_fp eg) options v2 fresh cands" by (rule Retriangulate_Inr)
  obtain pts es where e: "emit_points (eg_fp eg) options v2 10001 cands = (pts, es)" by fastforce
  note es = retriangulated_fields(1) [OF e rr] and r = retriangulated_fields(2) [OF e rr]
  have old: "map pc_old_point3d_id cands = map p3_point3d_id (rn_points3D v2)" by (rule final_candidates_old [OF c])
  then have sub: "pc_old_point3d_id ` set cands \<subseteq> p3_point3d_id ` set (rn_points3D v2)" by (metis order_refl set_map)
  have lin: "map pl_old_point3d_id es = map p3_point3d_id (rn_points3D v2)" "map pl_lineage es = map (lineage_of (eg_fp eg) options) cands"
    using emit_lineage [OF e] old by simp_all
  have small: "pl_old_point3d_id x < 10001" if "x \<in> set es" for x
  proof -
    from that have "pl_old_point3d_id x \<in> set (map p3_point3d_id (rn_points3D v2))" unfolding lin(1) [symmetric] by simp
    with assms(3) show ?thesis by (auto simp: list_all_iff)
  qed
  have kinds: "pl_lineage x \<in> {kRejected, kPreserved, kReplaced}" if "x \<in> set es" for x
  proof -
    from that have "pl_lineage x \<in> set (map (lineage_of (eg_fp eg) options) cands)" unfolding lin(2) [symmetric] by simp
    with lineage_cases [of "eg_fp eg" options] show ?thesis by (metis (no_types, lifting) image_iff set_map)
  qed
  note new = emit_ids [OF e]
  have kept: "pl_new_point3d_id x = pl_old_point3d_id x" if "x \<in> set es" "pl_lineage x = kPreserved" for x
    using new that by (simp add: list_all_iff)
  have repl: "10001 \<le> pl_new_point3d_id x" if "x \<in> set es" "pl_lineage x = kReplaced" for x
  proof -
    from that have "pl_new_point3d_id x \<in> set (map pl_new_point3d_id (filter (\<lambda>e. pl_lineage e = kReplaced) es))" by simp
    then show ?thesis unfolding new [THEN conjunct1] by auto
  qed
  have "distinct (map pl_new_point3d_id (filter (\<lambda>e. pl_lineage e = kReplaced \<or> pl_lineage e = kPreserved) es))"
  proof (rule distinct_either [where old = pl_old_point3d_id and n = 10001])
    show "distinct (map pl_old_point3d_id es)" unfolding lin(1) by (rule assms(2))
    show "distinct (map pl_new_point3d_id (filter (\<lambda>e. pl_lineage e = kReplaced) es))"
      unfolding new [THEN conjunct1] by (simp add: distinct_map inj_on_def)
  qed (use kept small repl in auto)
  moreover have "filter (\<lambda>e. pl_lineage e = kReplaced \<or> pl_lineage e = kPreserved) es = filter (\<lambda>e. pl_lineage e \<noteq> kRejected) es"
    using kinds by (intro filter_cong) auto
  ultimately have dist: "distinct (map pl_new_point3d_id (filter (\<lambda>e. pl_lineage e \<noteq> kRejected) es))" by simp
  have "map p3_point3d_id pts = map pl_new_point3d_id (filter (\<lambda>e. pl_lineage e \<noteq> kRejected) es)"
    using emit_points_from [OF e sub] by simp
  moreover have "(pl_new_point3d_id x = pl_old_point3d_id x) = (pl_lineage x = kPreserved)" if "x \<in> set es" "pl_lineage x \<noteq> kRejected" for x
    using kinds [OF that(1)] kept [OF that(1)] repl [OF that(1)] small [OF that(1)] that(2) by auto
  ultimately show ?thesis using dist by (simp add: r es list_all_iff)
qed

section \<open>Points behind a camera\<close>

text \<open>
  A point behind one of the cameras that see it is meant to be rejected by its residual, the greatest number. That residual counts for the
  median: if it is the median, three times it is infinite, and the infinite threshold accepts the point.
\<close>

lemma behind_camera_is_accepted:
  assumes "fa_mul fp (fa_ratio fp 3 1) max_double = 0x7FF0000000000000" "fa_ratio fp 2 1 = 0x4000000000000000"
    and "pc_geometric_acceptance c = kAccepted" "pc_mean_residual_px c = max_double"
  shows "pc_reprojection_acceptance (accept_residual (global_threshold fp [max_double]) c)"
proof -
  have less: "fp_less 0x4000000000000000 0x7FF0000000000000" and le: "fp_le max_double 0x7FF0000000000000" by code_simp+
  have "median fp [max_double] = max_double" by (simp add: median_def)
  then have "global_threshold fp [max_double] = 0x7FF0000000000000"
    by (simp add: global_threshold_def ReprojectionThreshold_def assms(1,2) less)
  with assms(3,4) le show ?thesis by (simp add: accept_residual_def)
qed

section \<open>An example\<close>

text \<open>
  Sums are their second argument, products by zero are zero and every other product is its second argument; both rays of a point then meet
  in the origin and every residual is 1. Of the two points of the example the first moves and the second does not.
\<close>

definition origin_math :: "unit geometry" where
  "origin_math = (let d = 4607182418800017408 in
     unit_geometry\<lparr>eg_pose := unit_math\<lparr>pm_rotate := (\<lambda>q v. map fp_negate [d, d, d]),
         pm_fp := (pm_fp unit_math)\<lparr>fa_add := (\<lambda>a b. b), fa_sub := (\<lambda>a b. a XOR b), fa_mul := (\<lambda>a b. if a = 0 then 0 else b),
           fa_div := (\<lambda>a b. a), fa_sqrt := (\<lambda>a. a), fa_abs := (\<lambda>a. a)\<rparr>\<rparr>,
       eg_dot := (\<lambda>a b. d), eg_rotate_back := (\<lambda>q v. [d, d, d])\<rparr>)"

definition two_points_revision :: "int \<Rightarrow> Reconstruction" where
  "two_points_revision i = (let track = [\<lparr>te_image_id = 1, te_point2d_idx = 0\<rparr>, \<lparr>te_image_id = 2, te_point2d_idx = 0\<rparr>] in
     sample_reconstruction\<lparr>rn_cameras := [unit_camera], rn_images := [unit_image 1, unit_image 2],
       rn_points3D := [\<lparr>p3_point3d_id = 7, p3_xyz = [0, 0, 0x4000000000000000], p3_color = [1, 2, 3], p3_error = 0, p3_track = track\<rparr>,
         \<lparr>p3_point3d_id = i, p3_xyz = [0, 0, 0], p3_color = [1, 2, 3], p3_error = 0, p3_track = track\<rparr>]\<rparr>)"

definition two_keypoints :: "TriangulationObservation list" where
  "two_keypoints = [MakeTriangulationObservation 1 0 0 0, MakeTriangulationObservation 2 0 0 0]"

abbreviation meet_in_origin :: "int \<Rightarrow> RetriangulationResult w_op" where
  "meet_in_origin i \<equiv> Retriangulate origin_math (\<lambda>kpts. kpts) (two_points_revision i) two_keypoints (default_retriangulation (eg_fp origin_math))"

definition moved_and_kept :: "int \<Rightarrow> PointCandidate list res \<Rightarrow> bool" where
  "moved_and_kept i result \<longleftrightarrow> (let fp = eg_fp origin_math in case result of
     Inr [c, c'] \<Rightarrow> pc_old_point3d_id c = 7 \<and> pc_old_point3d_id c' = i \<and> lineage_of fp (default_retriangulation fp) c = kReplaced \<and>
       lineage_of fp (default_retriangulation fp) c' = kPreserved
   | _ \<Rightarrow> False)"

lemma origin_candidates:
  "i \<in> {8, 10001} \<Longrightarrow>
    moved_and_kept i (final_candidates origin_math (\<lambda>kpts. kpts) (two_points_revision i) two_keypoints (default_retriangulation (eg_fp origin_math)))"
proof -
  have "moved_and_kept 8 (final_candidates origin_math (\<lambda>kpts. kpts) (two_points_revision 8) two_keypoints (default_retriangulation (eg_fp origin_math)))"
    by code_simp
  moreover have "moved_and_kept 10001 (final_candidates origin_math (\<lambda>kpts. kpts) (two_points_revision 10001) two_keypoints (default_retriangulation (eg_fp origin_math)))"
    by code_simp
  moreover assume "i \<in> {8, 10001}"
  ultimately show ?thesis by (elim insertE emptyE) (simp_all only:)
qed

lemma meet_in_origin_points:
  assumes "i \<in> {8, 10001}"
  obtains r w' where "meet_in_origin i empty_world = (Inr r, w')" "map p3_point3d_id (rn_points3D (rs_reconstruction r)) = [10001, i]"
proof -
  let ?fp = "eg_fp origin_math" let ?o = "default_retriangulation (eg_fp origin_math)"
  from origin_candidates [OF assms] obtain c c' where cands: "final_candidates origin_math (\<lambda>kpts. kpts) (two_points_revision i) two_keypoints ?o = Inr [c, c']"
    and c: "pc_old_point3d_id c' = i" "lineage_of ?fp ?o c = kReplaced" "lineage_of ?fp ?o c' = kPreserved"
    by (auto simp: moved_and_kept_def Let_def split: sum.splits list.splits)
  have new: "p3_point3d_id (new_point v x n) = n" for v x n by (simp add: new_point_def Let_def)
  obtain fresh w1 where u: "new_uuid empty_world = (Inr fresh, w1)" by (simp add: new_uuid_def)
  have "meet_in_origin i empty_world = (Inr (retriangulated ?fp ?o (two_points_revision i) fresh [c, c']), w1)"
    unfolding Retriangulate_def cands lift_res_def sbind_def sret_def u prod.case sum.case ..
  then show thesis by (rule that) (simp add: retriangulated_def Let_def c new)
qed

lemma two_points_ids: "map p3_point3d_id (rn_points3D (two_points_revision i)) = [7, i]"
  by (simp add: two_points_revision_def Let_def)


lemma retriangulated_ids_distinct_witness:
  "\<exists>r w'. meet_in_origin 8 empty_world = (Inr r, w') \<and> distinct (map p3_point3d_id (rn_points3D (rs_reconstruction r)))"
proof (rule meet_in_origin_points [of 8])
  fix r w'
  assume run: "meet_in_origin 8 empty_world = (Inr r, w')"
  have "list_all (\<lambda>p. p3_point3d_id p < 10001) (rn_points3D (two_points_revision 8))" by (simp add: two_points_revision_def Let_def)
  moreover have "distinct (map p3_point3d_id (rn_points3D (two_points_revision 8)))" unfolding two_points_ids by simp
  ultimately have "distinct (map p3_point3d_id (rn_points3D (rs_reconstruction r)))"
    by (intro retriangulated_ids_distinct [OF run, THEN conjunct1])
  with run show ?thesis by (intro exI conjI)
qed simp

text \<open>The new numbers are meant to be fresh; they start at 10001 whatever the source's numbers are.\<close>

lemma fresh_number_collides:
  "\<exists>r w'. meet_in_origin 10001 empty_world = (Inr r, w') \<and> distinct (map p3_point3d_id (rn_points3D (two_points_revision 10001))) \<and>
    \<not> distinct (map p3_point3d_id (rn_points3D (rs_reconstruction r)))"
proof (rule meet_in_origin_points [of 10001])
  fix r w'
  assume run: "meet_in_origin 10001 empty_world = (Inr r, w')" and ids: "map p3_point3d_id (rn_points3D (rs_reconstruction r)) = [10001, 10001]"
  have "\<not> distinct (map p3_point3d_id (rn_points3D (rs_reconstruction r)))" unfolding ids by simp
  moreover have "distinct (map p3_point3d_id (rn_points3D (two_points_revision 10001)))" unfolding two_points_ids by simp
  ultimately show ?thesis using run by (intro exI conjI)
qed simp

end
