(* ===== verification/Spec2Isabelle.thy ===== *)
theory Spec2Isabelle
  imports Scheduler ProcessExecutor Migrations Manifests FrameGraph FeatureExtraction CorrectionConfig Triangulation
begin

text \<open>
  A verification library for the engine and the storage core of a spatial reconstruction platform (C++
  under src/). The program runs a graph of tasks: the scheduler takes ready tasks, asks the task
  cache for an earlier result, submits the rest to a worker, stores results in a content-addressed artifact
  store, and persists every state change in a SQLite project database, which also holds the scene model
  (sensors, calibrations, frames, scene versions, reconstructions).

  Theories, from the bottom:
  \<^item> Prelude: machine integers and bytes, printing, exceptions as \<open>Inl\<close>, state passing with exceptions
    (\<open>sbind\<close>), loops (\<open>for_each\<close>), SQL tables as row lists, and the locale of a keyed store.
  \<^item> Errors: core/errors (codes, domains, stable names). \<open>exn\<close> is a thrown exception.
  \<^item> Digest and Uuid: core/utils/sha256.cpp and uuid.cpp, bit for bit on words.
  \<^item> TaskTypes: engine/task/task_types, task_definition, task_instance, engine/resources and
    the task state machine of engine/scheduler/task_state_machine.cpp.
  \<^item> TaskGraph: engine/task/task_graph.cpp: the containers, Kahn's order, \<open>Validate\<close>.
  \<^item> Json, TaskJson, Execution: engine/task/task_serialization.cpp and
    engine/execution over the interface of the JSON library (\<open>json_lib\<close>, laws \<open>json_laws\<close>).
  \<^item> MetadataDb: the connection, one call into SQLite, and the artifact tables of core/storage/metadata_db.cpp.
  \<^item> Transactions: BEGIN, COMMIT, ROLLBACK, \<open>WriteTransaction\<close>; what is on disk is \<open>committed\<close>.
  \<^item> Migrations: \<open>Create\<close>, \<open>Open\<close>, \<open>OpenReadOnly\<close>, \<open>ApplyMigrations\<close> of the same file.
  \<^item> SceneTables, Calibrations, SceneVersions, Reconstructions: the scene side of the same file,
    one definition per method of \<open>MetadataDb\<close>.
  \<^item> StateStore: engine/scheduler/scheduler_state_store.cpp, the scheduler's tables.
  \<^item> ArtifactStore: core/artifacts/artifact_store.cpp and artifact_manifest.cpp over files and database.
  \<^item> TaskCache: engine/cache/task_cache.cpp.
  \<^item> Pipelines: engine/pipeline/pipeline_registry.cpp, production_pipelines.cpp, mock_photogrammetry.cpp and
    pipeline_compiler.cpp, which turns a pipeline into a task graph with cache keys.
  \<^item> Manifests: engine/pipeline/execution_manifest.cpp, the record of a pipeline's run.
  \<^item> Worker: engine/workers/worker_handle.h and in_process_executor.cpp; the worker thread is a step
    function interleaved with the client's calls.
  \<^item> ProtocolFraming, ProcessExecutor: engine/workers/protocol_framing.cpp and process_executor.cpp, the executor
    that drives a worker process; the pipes of child_process.h are sequences of what reads will find.
  \<^item> Scheduler: engine/scheduler/scheduler.cpp over any executor.
  \<^item> ImageFormat, ImageFiles: importers/images/image_format.cpp on byte lists in which a read
    outside of the buffer is an outcome, and what it makes of JPEG, TIFF and OpenEXR files.
  \<^item> ImageImport: importers/images/image_importer_main.cpp and core/scene/identity.h over the artifact store
    and the scene tables.
  \<^item> SceneQuery: core/scene/query/scene_query.cpp and the domain structs it returns.
  \<^item> FrameGraph: core/coordinates/frame_graph.cpp and its validator, over any group of rigid transforms.
  \<^item> Doubles, TumFormat: comparisons of IEEE doubles, and the reader of TUM trajectories in
    importers/trajectory/trajectory_importer.cpp, with floating-point arithmetic as a parameter.
  \<^item> TrajectoryImport: the rest of that file, which publishes a trajectory: matching poses with frames, the documents in
    the artifact store, reuse of an earlier import, and the row in one transaction.
  \<^item> LoopDetection: core/loop_closure (feature payloads, correspondences, candidate generation) and
    engine/pipeline/loop_closure_detection.cpp, with the feature matcher behind its interface.
  \<^item> FeatureExtraction: engine/pipeline/feature_extraction.cpp, the producer of what LoopDetection loads.
  \<^item> PoseGraphs: core/trajectory/pose_graph_helpers.h and metric_basis.h and
    engine/pipeline/loop_closure_to_pose_graph.cpp, with quaternions and the arithmetic of doubles as a parameter (\<open>pose_math\<close>).
  \<^item> LoopVerification: engine/pipeline/loop_closure_verification.cpp, with the geometric verifier behind its interface.
  \<^item> PoseOptimization: engine/pipeline/loop_closure_optimize_pipeline.cpp with the documents of pose graphs and
    optimization results, with the optimizer behind its interface.
  \<^item> ReconstructionJson: core/reconstruction, the types of a reconstruction and their document.
  \<^item> BundleAdjustment: engine/pipeline/bundle_adjustment_optimize_pipeline.cpp and sparse_correction_orchestrator.h, the steps from
    one stored revision of a reconstruction to the next, with the optimizer behind its interface.
  \<^item> PoseFeedback: core/trajectory/reconstruction_feedback.h, corrected poses put into a reconstruction.
  \<^item> CorrectionConfig: the configuration part of engine/pipeline/sparse_correction_runner.cpp: what is forwarded to the worker, and
    the parsing of the trajectory, the metric basis and the loop closure from a stage configuration.
  \<^item> CameraModels, Reprojection, Triangulation: core/geometry/camera_model.h, reprojection.h, triangulation.h and
    triangulation_observations.h over the same arithmetic parameter: which inputs each camera model refuses, what an
    evaluation counts, and which points and tracks a re-triangulation gives. No theorem is about rounding.

  Conventions. A method that may throw returns \<open>Inl exn\<close> or \<open>Inr value\<close> together with the state it leaves,
  since an exception undoes nothing. SQLite and the file system are the environment: \<open>db_fault n\<close> says
  whether the n-th call into SQLite fails, \<open>w_io_fault\<close> whether a file operation does, so that every checked call has
  both outcomes, and a constraint violation fails the step. Messages leave out \<open>sqlite3_errmsg\<close>. Texts
  are without embedded NUL. Integers of the C++ code are words where they wrap (digests,
  identifiers, IEEE bits of stored doubles) and \<open>int\<close> where only comparison and storage matter; the bounds of their C++
  types are then hypotheses (\<open>task_ok\<close>, \<open>kInf\<close>). Clocks, random bytes, generated SQL scripts, the JSON library, floating-point
  arithmetic, rigid transforms and the executor are parameters.

  Termination and fuel. \<open>Execute\<close> has the code's own bound of 10000 iterations. The wait for worker events
  has no bound in the code, so \<open>await\<close> and \<open>dispatch\<close> take fuel and report \<open>StillRunning\<close> when it runs out;
  \<open>Execute_finishes_all\<close> speaks of runs that return: a task body is a codatatype and may run for ever
  (\<open>spinning_body_never_ends\<close>). Kahn's loop ends because the
  positive in-degrees and the ready list together shrink.

  What the lemmas show. Graphs: the containers stay consistent, the order is topological exactly when the graph is
  acyclic, \<open>Validate\<close> accepts exactly the admissible graphs. Scheduling: succeeded, cancelled and skipped tasks stay
  so, tasks run only after their dependencies succeeded, and all end; the stall error cannot occur. Storage: digests equal
  their specification, a stored payload is read back and verified, garbage collection removes exactly what the artifact
  index does not name, an artifact of a worker process enters only verified, failed writes and transactions leave the disk unchanged, migrations are replayed once each, the versions
  of a scene form a chain, calibration windows of a sensor stay disjoint and resolution is exact, reconstructions
  follow their life cycle. Pipelines: a compiled pipeline is a valid chain of tasks, compiling is reproducible, and the
  manifest tables implement a map from runs to manifests. Serialization: round trips. Import: parsing a header never reads
  outside of its buffer, an imported image is stored, recorded and found by the queries, a second import of
  the same bytes takes the first one's artifact away, timestamps are read exactly. Coordinates:
  validation is exactly acyclicity, and transforms map coordinates along the edges. Trajectories and loop closures: an import
  publishes the whole trajectory or nothing, the candidates of a frame are its best pairs, the stages store the rows
  and the document they report, written features are loaded unchanged, a closure becomes a metric edge and an optimization runs only on a
  declared metric basis, and extracting or optimizing again changes no table. Revisions: a
  reconstruction's document is read back unchanged, a step replaces the scene's one succeeded revision by the next or changes nothing, and
  happens once per source. Several theorems state where a guarantee ends: a step
  of SQLite that fails while reading is taken as no row.

  Not modelled: the COLMAP and GTSAM adapters and the visual matchers (third-party libraries), the rest of the geometry
  (rig transforms, direction helpers), the system calls behind child processes, the stages that the runner of the sparse
  correction calls one after the other, and the command line; PROJECT.json lists them with reasons.
\<close>

end
